(* ===== verification/Prelude.thy ===== *)
theory Prelude
  imports Main "HOL-Library.Word" "HOL-Library.Sublist"
begin

text \<open>
  The shared vocabulary of the development.

  JavaScript strings are sequences of UTF-16 code units: \<open>length\<close>, \<open>slice\<close>,
  indexing and \<open>charCodeAt\<close> all count code units. They are modelled as lists of
  16-bit words (\<open>jsstring\<close>); \<open>js ''abc''\<close> embeds a literal and \<open>ch c\<close> one of
  its characters. The string methods the sources call (\<open>startsWith\<close>,
  \<open>strIncludes\<close>, \<open>indexOf\<close>, \<open>slice\<close>, \<open>split\<close>, \<open>trim\<close>, \<open>join\<close> and the
  printing of a number) are defined here once.

  A value that may be \<open>undefined\<close> or \<open>null\<close> is an \<open>option\<close>; \<open>truthy\<close> is the
  test \<open>if (s)\<close> of an optional string, false on the empty string as well.

  The collection \<open>js_eval\<close> evaluates closed string expressions.
\<close>

named_theorems js_eval "evaluation of closed string expressions"

section \<open>Strings\<close>

type_synonym code_unit = "16 word"
type_synonym jsstring = "16 word list"

abbreviation ch :: "char \<Rightarrow> code_unit" where
  "ch \<equiv> of_char"

definition js :: "string \<Rightarrow> jsstring" where
  "js s = map ch s"

lemma of_char_less_256: "(of_char c :: nat) < 256"
  by (metis mod_less_divisor of_char_mod_256 zero_less_numeral)

lemma unat_ch: "unat (ch c) = of_char c"
proof -
  have "(of_char c :: nat) < 65536"
    by (rule order_less_trans [OF of_char_less_256]) simp
  moreover have "ch c = of_nat (of_char c)"
    by (simp only: of_nat_of_char)
  ultimately show ?thesis
    by (simp add: unat_of_nat)
qed

lemma ch_eq_iff [simp]: "ch c = ch d \<longleftrightarrow> c = d"
  by (metis of_char_eq_iff unat_ch)

lemma js_eq_iff [simp]: "js s = js t \<longleftrightarrow> s = t"
  unfolding js_def by (rule inj_map_eq_map) (simp add: inj_def)

lemma js_eq_Nil_iff [simp]: "js s = [] \<longleftrightarrow> s = []" "[] = js s \<longleftrightarrow> s = []"
  by (auto simp: js_def)

lemma length_js [simp]: "length (js s) = length s"
  by (simp add: js_def)

lemma js_Nil [js_eval]: "js [] = []"
  by (simp add: js_def)

lemma js_Cons [js_eval]: "js (c # s) = ch c # js s"
  by (simp add: js_def)

lemma js_append: "js (s @ t) = js s @ js t"
  by (simp add: js_def)

subsection \<open>Truthiness\<close>

fun truthy :: "jsstring option \<Rightarrow> bool" where
  "truthy None = False"
| "truthy (Some s) = (s \<noteq> [])"

text \<open>\<open>a || b\<close> on an optional string with a string fallback.\<close>

definition or_else :: "jsstring option \<Rightarrow> jsstring \<Rightarrow> jsstring" where
  "or_else a b = (case a of Some s \<Rightarrow> if s = [] then b else s | None \<Rightarrow> b)"

text \<open>\<open>xs || []\<close> on an optional array.\<close>

definition or_empty :: "'a list option \<Rightarrow> 'a list" where
  "or_empty a = (case a of Some xs \<Rightarrow> xs | None \<Rightarrow> [])"

lemma or_empty_simps [simp]: "or_empty None = []" "or_empty (Some xs) = xs"
  by (simp_all add: or_empty_def)

subsection \<open>Searching\<close>

definition startsWith :: "jsstring \<Rightarrow> jsstring \<Rightarrow> bool" where
  "startsWith s p = (take (length p) s = p)"

lemma startsWith_iff: "startsWith s p \<longleftrightarrow> (\<exists>r. s = p @ r)"
  unfolding startsWith_def by (metis append_eq_conv_conj append_take_drop_id)

lemma startsWith_Nil [simp]: "startsWith s []"
  by (simp add: startsWith_def)

lemma startsWith_empty [simp]: "startsWith [] p \<longleftrightarrow> p = []"
  by (auto simp: startsWith_def)

lemma startsWith_Cons [simp]: "startsWith (c # s) (d # p) \<longleftrightarrow> c = d \<and> startsWith s p"
  by (auto simp: startsWith_def)

text \<open>\<open>indexOf\<close>, with \<open>None\<close> for the result -1.\<close>

fun indexOf :: "jsstring \<Rightarrow> jsstring \<Rightarrow> nat option" where
  "indexOf [] p = (if p = [] then Some 0 else None)"
| "indexOf (c # s) p =
     (if startsWith (c # s) p then Some 0 else map_option Suc (indexOf s p))"

definition strIncludes :: "jsstring \<Rightarrow> jsstring \<Rightarrow> bool" where
  "strIncludes s p = (indexOf s p \<noteq> None)"

lemma indexOf_Some:
  "indexOf s p = Some i \<Longrightarrow>
     i + length p \<le> length s \<and> startsWith (drop i s) p \<and> (\<forall>j < i. \<not> startsWith (drop j s) p)"
proof (induction s arbitrary: i)
  case Nil
  then show ?case by (auto split: if_splits)
next
  case (Cons c s)
  show ?case
  proof (cases "startsWith (c # s) p")
    case True
    with Cons.prems have "i = 0" by simp
    with True show ?thesis by (auto simp: startsWith_iff) (metis length_Cons length_append le_add1)
  next
    case False
    with Cons.prems obtain k where k: "indexOf s p = Some k" "i = Suc k" by auto
    have "\<not> startsWith (drop j (c # s)) p" if "j < i" for j
      using that False Cons.IH [OF k(1)] k(2) by (cases j) auto
    with Cons.IH [OF k(1)] k(2) show ?thesis by simp
  qed
qed

lemma indexOf_None: "indexOf s p = None \<Longrightarrow> \<not> startsWith (drop i s) p"
proof (induction s arbitrary: i)
  case Nil
  then show ?case by (auto split: if_splits)
next
  case (Cons c s)
  then show ?case by (cases i) (auto split: if_splits)
qed

lemma strIncludes_iff: "strIncludes s p \<longleftrightarrow> (\<exists>a b. s = a @ p @ b)"
proof
  assume "strIncludes s p"
  then obtain i where "indexOf s p = Some i" by (auto simp: strIncludes_def)
  from indexOf_Some [OF this] obtain r where "drop i s = p @ r" by (auto simp: startsWith_iff)
  then have "s = take i s @ p @ r" by (metis append_take_drop_id)
  then show "\<exists>a b. s = a @ p @ b" by blast
next
  assume "\<exists>a b. s = a @ p @ b"
  then obtain a b where "s = a @ p @ b" by blast
  then have "startsWith (drop (length a) s) p" by (auto simp: startsWith_iff)
  then show "strIncludes s p" using indexOf_None by (auto simp: strIncludes_def)
qed

subsection \<open>Taking strings apart and putting them together\<close>

text \<open>\<open>s.slice(a, b)\<close> for \<open>0 \<le> a\<close>, \<open>0 \<le> b\<close>; \<open>s.slice(a)\<close> is \<open>drop a s\<close>.\<close>

definition slice :: "'a list \<Rightarrow> nat \<Rightarrow> nat \<Rightarrow> 'a list" where
  "slice s a b = take (b - a) (drop a s)"

lemma slice_0 [simp]: "slice s 0 b = take b s"
  by (simp add: slice_def)

lemma slice_glue: "a \<le> b \<Longrightarrow> take a s @ slice s a b @ drop b s = s"
  unfolding slice_def
  by (metis add_diff_inverse_nat append_take_drop_id append_assoc drop_drop le_add_diff_inverse
      add.commute not_less)

fun split_on :: "code_unit \<Rightarrow> jsstring \<Rightarrow> jsstring list" where
  "split_on d [] = [[]]"
| "split_on d (c # s) =
     (if c = d then [] # split_on d s
      else (case split_on d s of [] \<Rightarrow> [[c]] | l # ls \<Rightarrow> (c # l) # ls))"

fun join :: "jsstring \<Rightarrow> jsstring list \<Rightarrow> jsstring" where
  "join sep [] = []"
| "join sep [x] = x"
| "join sep (x # y # xs) = x @ sep @ join sep (y # xs)"

lemma split_on_neq_Nil [simp]: "split_on d s \<noteq> []"
  by (cases s) (auto split: list.splits)

lemma join_Cons: "xs \<noteq> [] \<Longrightarrow> join sep (x # xs) = x @ sep @ join sep xs"
  by (cases xs) auto

lemma join_split_on: "join [d] (split_on d s) = s"
proof (induction s)
  case (Cons c s)
  obtain l ls where "split_on d s = l # ls"
    by (meson list.exhaust split_on_neq_Nil)
  with Cons show ?case by (cases ls) (auto simp: join_Cons)
qed simp

lemma split_on_no_sep: "l \<in> set (split_on d s) \<Longrightarrow> d \<notin> set l"
  by (induction s arbitrary: l) (auto split: if_splits list.splits)

lemma split_on_append: "d \<notin> set a \<Longrightarrow> split_on d (a @ d # b) = a # split_on d b"
  by (induction a) auto

lemma split_on_fresh: "d \<notin> set a \<Longrightarrow> split_on d a = [a]"
  by (induction a) auto

lemma split_on_join:
  "ls \<noteq> [] \<Longrightarrow> \<forall>l \<in> set ls. d \<notin> set l \<Longrightarrow> split_on d (join [d] ls) = ls"
  by (induction "[d]" ls rule: join.induct) (auto simp: split_on_fresh split_on_append)

text \<open>The code units \<open>trim\<close> removes: white space and line terminators of ECMAScript.\<close>

definition is_ws :: "code_unit \<Rightarrow> bool" where
  "is_ws c = (c \<in> {9, 10, 11, 12, 13, 32, 160, 0x1680, 0x2028, 0x2029, 0x202F, 0x205F, 0x3000,
     0xFEFF} \<or> (0x2000 \<le> c \<and> c \<le> 0x200A))"

definition trim :: "jsstring \<Rightarrow> jsstring" where
  "trim s = rev (dropWhile is_ws (rev (dropWhile is_ws s)))"

lemma trim_Nil_iff: "trim s = [] \<longleftrightarrow> (\<forall>c \<in> set s. is_ws c)"
  unfolding trim_def by (auto simp: dropWhile_eq_Nil_conv dest: set_dropWhileD)
    (metis dropWhile_eq_Nil_conv hd_dropWhile hd_in_set list.set_sel(1))

lemma trim_sublist: "\<exists>a b. s = a @ trim s @ b"
proof -
  let ?t = "dropWhile is_ws s"
  have "s = takeWhile is_ws s @ ?t" by simp
  moreover have "?t = rev (dropWhile is_ws (rev ?t)) @ rev (takeWhile is_ws (rev ?t))"
    by (metis rev_append rev_rev_ident takeWhile_dropWhile_id)
  ultimately show ?thesis unfolding trim_def by metis
qed

text \<open>\<open>${n}\<close> for a natural number.\<close>

fun js_nat :: "nat \<Rightarrow> jsstring" where
  "js_nat n = (if n < 10 then [48 + of_nat n] else js_nat (n div 10) @ [48 + of_nat (n mod 10)])"

declare js_nat.simps [simp del]

definition is_digit :: "code_unit \<Rightarrow> bool" where
  "is_digit c = (48 \<le> c \<and> c \<le> 57)"

lemma is_digit_48: "n < 10 \<Longrightarrow> is_digit (48 + of_nat n)"
proof -
  assume "n < 10"
  then have "n \<in> {0, 1, 2, 3, 4, 5, 6, 7, 8, 9}" by auto
  then show ?thesis unfolding is_digit_def by (auto simp: word_le_nat_alt)
qed

lemma js_nat_digits: "js_nat n \<noteq> [] \<and> (\<forall>c \<in> set (js_nat n). is_digit c)"
proof (induction n rule: js_nat.induct)
  case (1 n)
  show ?case
  proof (cases "n < 10")
    case True
    then show ?thesis by (simp add: js_nat.simps [of n] is_digit_48)
  next
    case False
    with 1 show ?thesis by (auto simp: js_nat.simps [of n] is_digit_48)
  qed
qed

section \<open>Lists\<close>

text \<open>\<open>xs.find(p)\<close> and \<open>xs.some(p)\<close> are \<open>find p xs\<close> and \<open>list_ex p xs\<close>.\<close>

lemma map_if_id: "(\<And>x. x \<in> set xs \<Longrightarrow> \<not> p x) \<Longrightarrow> map (\<lambda>x. if p x then f x else x) xs = xs"
  by (induction xs) auto

lemma distinct_map_same: "(\<And>x. x \<in> set xs \<Longrightarrow> g (f x) = g x) \<Longrightarrow> map g (map f xs) = map g xs"
  by simp

end
