(* ===== verification/ApiTypes.thy ===== *)
theory ApiTypes
  imports Prelude
begin

text \<open>
  The data the client receives from the server: the types of
  \<open>packages/api-client/generated/schema.ts\<close> that the modelled code reads or writes,
  a record per object type and a datatype per string enumeration. An optional property
  \<open>p?: t\<close> is an \<open>option\<close>, with \<open>None\<close> for an absent property; a JSON number that
  counts something is an \<open>int\<close>. A record extension models the \<open>Base & {...}\<close> types.

  \<open>spread_opt new old\<close> is what an optional property becomes under
  \<open>{...old, ...new}\<close>: a property absent from the spread object keeps its value.
\<close>

section \<open>Messages\<close>

datatype message_type = UserMessage | SystemMessage

record attachment =
  at_id :: jsstring
  at_filename :: jsstring
  at_content_type :: jsstring
  at_size_bytes :: int
  at_url :: jsstring
  at_created_at :: jsstring

record reaction =
  rc_id :: jsstring
  rc_message_id :: jsstring
  rc_user_id :: jsstring
  rc_emoji :: jsstring
  rc_created_at :: jsstring

record thread_participant =
  tp_user_id :: jsstring
  tp_display_name :: "jsstring option"
  tp_avatar_url :: "jsstring option"
  tp_gravatar_url :: "jsstring option"

text \<open>
  \<open>system_event\<close> and \<open>link_preview\<close> are objects the modelled code only passes on or
  tests for presence; they are kept as their JSON text.
\<close>

record message =
  msg_id :: jsstring
  msg_channel_id :: jsstring
  msg_user_id :: "jsstring option"
  msg_content :: jsstring
  msg_type :: "message_type option"
  msg_system_event :: "jsstring option"
  msg_thread_parent_id :: "jsstring option"
  msg_reply_count :: int
  msg_last_reply_at :: "jsstring option"
  msg_edited_at :: "jsstring option"
  msg_deleted_at :: "jsstring option"
  msg_created_at :: jsstring
  msg_updated_at :: jsstring
  msg_also_send_to_channel :: "bool option"
  msg_pinned_at :: "jsstring option"
  msg_pinned_by :: "jsstring option"

record message_with_user = message +
  msg_user_display_name :: "jsstring option"
  msg_user_avatar_url :: "jsstring option"
  msg_user_gravatar_url :: "jsstring option"
  msg_reactions :: "reaction list option"
  msg_thread_participants :: "thread_participant list option"
  msg_attachments :: "attachment list option"
  msg_link_preview :: "jsstring option"

record message_list_result =
  messages :: "message_with_user list"
  has_more :: bool
  has_newer :: "bool option"
  next_cursor :: "jsstring option"

section \<open>Spreading one object over another\<close>

definition spread_opt :: "'a option \<Rightarrow> 'a option \<Rightarrow> 'a option" where
  "spread_opt new old = (case new of Some x \<Rightarrow> Some x | None \<Rightarrow> old)"

lemma spread_opt_simps [simp]: "spread_opt (Some x) old = Some x" "spread_opt None old = old"
  by (simp_all add: spread_opt_def)

lemma spread_opt_idem [simp]: "spread_opt a (spread_opt a b) = spread_opt a b"
  by (cases a) auto

text \<open>\<open>{...m, ...data}\<close> for a plain \<open>Message\<close> over any message.\<close>

definition spread_message :: "'a message_scheme \<Rightarrow> 'b message_scheme \<Rightarrow> 'a message_scheme" where
  "spread_message m d = m\<lparr>
     msg_id := msg_id d,
     msg_channel_id := msg_channel_id d,
     msg_user_id := spread_opt (msg_user_id d) (msg_user_id m),
     msg_content := msg_content d,
     msg_type := spread_opt (msg_type d) (msg_type m),
     msg_system_event := spread_opt (msg_system_event d) (msg_system_event m),
     msg_thread_parent_id := spread_opt (msg_thread_parent_id d) (msg_thread_parent_id m),
     msg_reply_count := msg_reply_count d,
     msg_last_reply_at := spread_opt (msg_last_reply_at d) (msg_last_reply_at m),
     msg_edited_at := spread_opt (msg_edited_at d) (msg_edited_at m),
     msg_deleted_at := spread_opt (msg_deleted_at d) (msg_deleted_at m),
     msg_created_at := msg_created_at d,
     msg_updated_at := msg_updated_at d,
     msg_also_send_to_channel :=
       spread_opt (msg_also_send_to_channel d) (msg_also_send_to_channel m),
     msg_pinned_at := spread_opt (msg_pinned_at d) (msg_pinned_at m),
     msg_pinned_by := spread_opt (msg_pinned_by d) (msg_pinned_by m)\<rparr>"

text \<open>\<open>{...m, ...data}\<close> for a \<open>MessageWithUser\<close>.\<close>

definition spread_message_with_user ::
    "message_with_user \<Rightarrow> message_with_user \<Rightarrow> message_with_user" where
  "spread_message_with_user m d = (spread_message m d)\<lparr>
     msg_user_display_name := spread_opt (msg_user_display_name d) (msg_user_display_name m),
     msg_user_avatar_url := spread_opt (msg_user_avatar_url d) (msg_user_avatar_url m),
     msg_user_gravatar_url := spread_opt (msg_user_gravatar_url d) (msg_user_gravatar_url m),
     msg_reactions := spread_opt (msg_reactions d) (msg_reactions m),
     msg_thread_participants :=
       spread_opt (msg_thread_participants d) (msg_thread_participants m),
     msg_attachments := spread_opt (msg_attachments d) (msg_attachments m),
     msg_link_preview := spread_opt (msg_link_preview d) (msg_link_preview m)\<rparr>"

section \<open>Channels\<close>

datatype channel_type = PublicChannel | PrivateChannel | DmChannel | GroupDmChannel

datatype channel_role = ChannelAdmin | ChannelPoster | ChannelViewer

record channel_member =
  cm_user_id :: jsstring
  cm_email :: jsstring
  cm_display_name :: jsstring
  cm_avatar_url :: "jsstring option"
  cm_gravatar_url :: "jsstring option"
  cm_channel_role :: "channel_role option"

record channel =
  ch_id :: jsstring
  ch_workspace_id :: jsstring
  ch_name :: jsstring
  ch_description :: "jsstring option"
  ch_type :: channel_type
  ch_is_default :: bool
  ch_dm_participant_hash :: "jsstring option"
  ch_archived_at :: "jsstring option"
  ch_created_by :: "jsstring option"
  ch_created_at :: jsstring
  ch_updated_at :: jsstring

record channel_with_membership = channel +
  ch_channel_role :: "channel_role option"
  ch_last_read_message_id :: "jsstring option"
  ch_unread_count :: int
  ch_notification_count :: int
  ch_is_starred :: bool
  ch_dm_participants :: "channel_member list option"

text \<open>\<open>{...c, ...data}\<close> for a \<open>Channel\<close> over a channel with membership.\<close>

definition spread_channel :: "'a channel_scheme \<Rightarrow> 'b channel_scheme \<Rightarrow> 'a channel_scheme" where
  "spread_channel c d = c\<lparr>
     ch_id := ch_id d,
     ch_workspace_id := ch_workspace_id d,
     ch_name := ch_name d,
     ch_description := spread_opt (ch_description d) (ch_description c),
     ch_type := ch_type d,
     ch_is_default := ch_is_default d,
     ch_dm_participant_hash := spread_opt (ch_dm_participant_hash d) (ch_dm_participant_hash c),
     ch_archived_at := spread_opt (ch_archived_at d) (ch_archived_at c),
     ch_created_by := spread_opt (ch_created_by d) (ch_created_by c),
     ch_created_at := ch_created_at d,
     ch_updated_at := ch_updated_at d\<rparr>"

section \<open>Workspaces, users and preferences\<close>

datatype workspace_role = Owner | Admin | Member | Guest

datatype permission_level = EveryoneLevel | MembersLevel | AdminsLevel

record workspace_summary =
  ws_id :: jsstring
  ws_name :: jsstring
  ws_icon_url :: "jsstring option"
  ws_role :: workspace_role
  ws_sort_order :: "int option"
  ws_ban :: "jsstring option"

record workspace_settings =
  wst_show_join_leave_messages :: bool
  wst_who_can_create_channels :: permission_level
  wst_who_can_create_invites :: permission_level
  wst_who_can_pin_messages :: permission_level
  wst_who_can_manage_custom_emoji :: permission_level

record workspace =
  wk_id :: jsstring
  wk_name :: jsstring
  wk_icon_url :: "jsstring option"
  wk_settings :: jsstring
  wk_parsed_settings :: "workspace_settings option"
  wk_created_at :: jsstring
  wk_updated_at :: jsstring

record workspace_membership =
  mem_id :: jsstring
  mem_user_id :: jsstring
  mem_workspace_id :: jsstring
  mem_role :: workspace_role
  mem_display_name_override :: "jsstring option"
  mem_created_at :: jsstring
  mem_updated_at :: jsstring

record workspace_member = workspace_membership +
  mem_email :: jsstring
  mem_display_name :: jsstring
  mem_avatar_url :: "jsstring option"
  mem_gravatar_url :: "jsstring option"
  mem_is_banned :: "bool option"

record user =
  us_id :: jsstring
  us_email :: jsstring
  us_display_name :: jsstring
  us_avatar_url :: "jsstring option"
  us_gravatar_url :: "jsstring option"
  us_status :: jsstring

record me_response =
  me_user :: "user option"
  me_workspaces :: "workspace_summary list option"

record custom_emoji =
  em_id :: jsstring
  em_workspace_id :: jsstring
  em_name :: jsstring
  em_created_by :: jsstring
  em_content_type :: jsstring
  em_size_bytes :: int
  em_url :: jsstring
  em_created_at :: jsstring

datatype subscription_status = Subscribed | Unsubscribed | NoSubscription

datatype notify_level = NotifyAll | NotifyMentions | NotifyNone

record notification_preferences =
  np_notify_level :: notify_level
  np_email_enabled :: bool

datatype presence_status = Online | Offline

section \<open>Event payloads\<close>

record message_deleted_data =
  md_id :: jsstring
  md_thread_parent_id :: "jsstring option"

record reaction_removed_data =
  rr_message_id :: jsstring
  rr_user_id :: jsstring
  rr_emoji :: jsstring

record channel_member_data =
  cmd_channel_id :: jsstring
  cmd_user_id :: jsstring

record channel_read_data =
  cr_channel_id :: jsstring
  cr_last_read_message_id :: jsstring

record typing_event_data =
  te_user_id :: jsstring
  te_channel_id :: jsstring
  te_user_display_name :: "jsstring option"

record presence_data =
  pd_user_id :: jsstring
  pd_status :: presence_status

record emoji_deleted_data =
  ed_id :: jsstring
  ed_name :: jsstring

record workspace_member_data =
  wm_user_id :: jsstring
  wm_workspace_id :: jsstring

record member_role_changed_data =
  mr_user_id :: jsstring
  mr_old_role :: jsstring
  mr_new_role :: jsstring

record scheduled_message_sent_data =
  sm_id :: jsstring
  sm_channel_id :: jsstring
  sm_message_id :: jsstring

datatype notification_type =
  NMention | NDm | NChannel | NHere | NEveryone | NThreadReply

record notification_data =
  nt_type :: notification_type
  nt_channel_id :: jsstring
  nt_message_id :: jsstring
  nt_channel_name :: "jsstring option"
  nt_sender_name :: "jsstring option"
  nt_preview :: "jsstring option"
  nt_thread_parent_id :: "jsstring option"

section \<open>What the spreads keep\<close>

lemma spread_message_fields [simp]:
  "msg_id (spread_message m d) = msg_id d"
  "msg_reply_count (spread_message m d) = msg_reply_count d"
  "message.more (spread_message m d) = message.more m"
  by (simp_all add: spread_message_def)

lemma spread_message_with_user_fields [simp]:
  "msg_id (spread_message_with_user m d) = msg_id d"
  "msg_reactions (spread_message_with_user m d) = spread_opt (msg_reactions d) (msg_reactions m)"
  by (simp_all add: spread_message_with_user_def spread_message_def)

lemma spread_message_reactions [simp]:
  "msg_reactions (spread_message m (d :: 'b message_scheme)) = msg_reactions m"
  by (simp add: spread_message_def)

lemma spread_channel_fields [simp]:
  "ch_id (spread_channel c d) = ch_id d"
  "ch_type (spread_channel c d) = ch_type d"
  "channel.more (spread_channel c d) = channel.more c"
  by (simp_all add: spread_channel_def)

end
