(* ===== verification/QueryKeys.thy ===== *)
theory QueryKeys
  imports Prelude
begin

text \<open>
  The query key factories of \<open>packages/shared/src/queryKeys.ts\<close>. A key is an array of
  strings (with numbers and \<open>undefined\<close> in the search key), and a filter
  \<open>{ queryKey: p }\<close> selects every key that \<open>p\<close> is a prefix of. The lemmas show which
  keys each family prefix selects: the families the cache handlers update in bulk
  (\<open>messageKeys.all\<close>, \<open>threadKeys.all\<close>) contain exactly the keys of their own lists,
  and the single-message, subscription and aggregate keys lie outside them.
\<close>

datatype key_part = KStr jsstring | KNum int | KUndef

type_synonym query_key = "key_part list"

definition key_matches :: "query_key \<Rightarrow> query_key \<Rightarrow> bool" where
  "key_matches p k = (take (length p) k = p)"

lemma key_matches_refl [simp]: "key_matches k k"
  by (simp add: key_matches_def)

lemma key_matches_Nil [simp]: "key_matches [] k"
  by (simp add: key_matches_def)

lemma key_matches_Cons [simp]:
  "key_matches (a # p) k \<longleftrightarrow> (\<exists>k'. k = a # k' \<and> key_matches p k')"
  by (cases k) (auto simp: key_matches_def)

section \<open>Key factories\<close>

definition authKeys_all :: query_key where
  "authKeys_all = [KStr (js ''auth'')]"

definition authKeys_me :: query_key where
  "authKeys_me = [KStr (js ''auth''), KStr (js ''me'')]"

definition userKeys_all :: query_key where
  "userKeys_all = [KStr (js ''user'')]"

definition userKeys_detail :: "jsstring \<Rightarrow> query_key" where
  "userKeys_detail userId = [KStr (js ''user''), KStr userId]"

definition messageKeys_all :: query_key where
  "messageKeys_all = [KStr (js ''messages'')]"

definition messageKeys_list :: "jsstring \<Rightarrow> query_key" where
  "messageKeys_list channelId = [KStr (js ''messages''), KStr channelId]"

definition messageKeys_detail :: "jsstring \<Rightarrow> query_key" where
  "messageKeys_detail messageId = [KStr (js ''message''), KStr messageId]"

definition threadKeys_all :: query_key where
  "threadKeys_all = [KStr (js ''thread'')]"

definition threadKeys_detail :: "jsstring \<Rightarrow> query_key" where
  "threadKeys_detail parentMessageId = [KStr (js ''thread''), KStr parentMessageId]"

definition threadKeys_subscription :: "jsstring \<Rightarrow> query_key" where
  "threadKeys_subscription messageId = [KStr (js ''thread-subscription''), KStr messageId]"

definition threadKeys_userThreads :: "jsstring \<Rightarrow> query_key" where
  "threadKeys_userThreads workspaceId = [KStr (js ''user-threads''), KStr workspaceId]"

definition channelKeys_all :: query_key where
  "channelKeys_all = [KStr (js ''channels'')]"

definition channelKeys_list :: "jsstring \<Rightarrow> query_key" where
  "channelKeys_list workspaceId = [KStr (js ''channels''), KStr workspaceId]"

definition channelKeys_members :: "jsstring \<Rightarrow> query_key" where
  "channelKeys_members channelId = [KStr (js ''channel''), KStr channelId, KStr (js ''members'')]"

definition channelKeys_notifications :: "jsstring \<Rightarrow> query_key" where
  "channelKeys_notifications channelId = [KStr (js ''channel-notifications''), KStr channelId]"

definition workspaceKeys_all :: query_key where
  "workspaceKeys_all = [KStr (js ''workspace'')]"

definition workspaceKeys_detail :: "jsstring \<Rightarrow> query_key" where
  "workspaceKeys_detail workspaceId = [KStr (js ''workspace''), KStr workspaceId]"

definition workspaceKeys_members :: "jsstring \<Rightarrow> query_key" where
  "workspaceKeys_members workspaceId =
     [KStr (js ''workspace''), KStr workspaceId, KStr (js ''members'')]"

definition workspaceKeys_bans :: "jsstring \<Rightarrow> query_key" where
  "workspaceKeys_bans workspaceId =
     [KStr (js ''workspace''), KStr workspaceId, KStr (js ''bans'')]"

definition workspaceKeys_blocks :: "jsstring \<Rightarrow> query_key" where
  "workspaceKeys_blocks workspaceId =
     [KStr (js ''workspace''), KStr workspaceId, KStr (js ''blocks'')]"

definition workspaceKeys_moderationLog :: "jsstring \<Rightarrow> query_key" where
  "workspaceKeys_moderationLog workspaceId =
     [KStr (js ''workspace''), KStr workspaceId, KStr (js ''moderation-log'')]"

definition workspaceKeys_notifications :: query_key where
  "workspaceKeys_notifications = [KStr (js ''workspaces''), KStr (js ''notifications'')]"

definition emojiKeys_all :: query_key where
  "emojiKeys_all = [KStr (js ''custom-emojis'')]"

definition emojiKeys_list :: "jsstring \<Rightarrow> query_key" where
  "emojiKeys_list workspaceId = [KStr (js ''custom-emojis''), KStr workspaceId]"

definition unreadKeys_list :: "jsstring \<Rightarrow> query_key" where
  "unreadKeys_list workspaceId = [KStr (js ''unreads''), KStr workspaceId]"

definition pinnedMessageKeys_all :: query_key where
  "pinnedMessageKeys_all = [KStr (js ''pinned-messages'')]"

definition pinnedMessageKeys_list :: "jsstring \<Rightarrow> query_key" where
  "pinnedMessageKeys_list channelId = [KStr (js ''pinned-messages''), KStr channelId]"

definition scheduledMessageKeys_all :: query_key where
  "scheduledMessageKeys_all = [KStr (js ''scheduled-messages'')]"

definition scheduledMessageKeys_list :: "jsstring \<Rightarrow> query_key" where
  "scheduledMessageKeys_list workspaceId = [KStr (js ''scheduled-messages''), KStr workspaceId]"

fun opt_part :: "jsstring option \<Rightarrow> key_part" where
  "opt_part None = KUndef"
| "opt_part (Some s) = KStr s"

fun opt_num :: "int option \<Rightarrow> key_part" where
  "opt_num None = KUndef"
| "opt_num (Some n) = KNum n"

definition searchKeys_query ::
    "jsstring \<Rightarrow> jsstring \<Rightarrow> jsstring option \<Rightarrow> jsstring option \<Rightarrow> jsstring option \<Rightarrow>
     jsstring option \<Rightarrow> int option \<Rightarrow> int option \<Rightarrow> query_key" where
  "searchKeys_query workspaceId query channelId userId before after limit offset =
     [KStr (js ''search''), KStr workspaceId, KStr query, opt_part channelId, opt_part userId,
      opt_part before, opt_part after, opt_num limit, opt_num offset]"

definition serverKeys_info :: query_key where
  "serverKeys_info = [KStr (js ''server-info'')]"

lemmas key_defs = authKeys_all_def authKeys_me_def userKeys_all_def userKeys_detail_def
  messageKeys_all_def messageKeys_list_def messageKeys_detail_def threadKeys_all_def
  threadKeys_detail_def threadKeys_subscription_def threadKeys_userThreads_def
  channelKeys_all_def channelKeys_list_def channelKeys_members_def
  channelKeys_notifications_def workspaceKeys_all_def workspaceKeys_detail_def
  workspaceKeys_members_def workspaceKeys_bans_def workspaceKeys_blocks_def
  workspaceKeys_moderationLog_def workspaceKeys_notifications_def emojiKeys_all_def
  emojiKeys_list_def unreadKeys_list_def pinnedMessageKeys_all_def
  pinnedMessageKeys_list_def scheduledMessageKeys_all_def scheduledMessageKeys_list_def
  searchKeys_query_def serverKeys_info_def

section \<open>Which keys a prefix selects\<close>

text \<open>The first element of a key names its family.\<close>

fun key_family :: "query_key \<Rightarrow> key_part option" where
  "key_family [] = None"
| "key_family (a # k) = Some a"

lemma key_matches_family: "p \<noteq> [] \<Longrightarrow> key_matches p k \<Longrightarrow> key_family k = key_family p"
  by (cases p; cases k) (auto simp: key_matches_def)

text \<open>The keys the handlers read and write, pairwise apart.\<close>

lemma list_key_inject [simp]:
  "messageKeys_list a = messageKeys_list b \<longleftrightarrow> a = b"
  "threadKeys_detail a = threadKeys_detail b \<longleftrightarrow> a = b"
  "channelKeys_list a = channelKeys_list b \<longleftrightarrow> a = b"
  "emojiKeys_list a = emojiKeys_list b \<longleftrightarrow> a = b"
  "threadKeys_subscription a = threadKeys_subscription b \<longleftrightarrow> a = b"
  "channelKeys_notifications a = channelKeys_notifications b \<longleftrightarrow> a = b"
  by (simp_all add: key_defs)

lemma data_keys_apart [simp]:
  "messageKeys_list a \<noteq> threadKeys_detail b" "threadKeys_detail b \<noteq> messageKeys_list a"
  "messageKeys_list a \<noteq> channelKeys_list b" "channelKeys_list b \<noteq> messageKeys_list a"
  "messageKeys_list a \<noteq> emojiKeys_list b" "emojiKeys_list b \<noteq> messageKeys_list a"
  "messageKeys_list a \<noteq> authKeys_me" "authKeys_me \<noteq> messageKeys_list a"
  "threadKeys_detail a \<noteq> channelKeys_list b" "channelKeys_list b \<noteq> threadKeys_detail a"
  "threadKeys_detail a \<noteq> emojiKeys_list b" "emojiKeys_list b \<noteq> threadKeys_detail a"
  "threadKeys_detail a \<noteq> authKeys_me" "authKeys_me \<noteq> threadKeys_detail a"
  "channelKeys_list a \<noteq> emojiKeys_list b" "emojiKeys_list b \<noteq> channelKeys_list a"
  "channelKeys_list a \<noteq> authKeys_me" "authKeys_me \<noteq> channelKeys_list a"
  "emojiKeys_list a \<noteq> authKeys_me" "authKeys_me \<noteq> emojiKeys_list a"
  "threadKeys_subscription a \<noteq> messageKeys_list b" "threadKeys_subscription a \<noteq> threadKeys_detail b"
  "threadKeys_subscription a \<noteq> channelKeys_list b" "threadKeys_subscription a \<noteq> authKeys_me"
  "channelKeys_notifications a \<noteq> messageKeys_list b"
  "channelKeys_notifications a \<noteq> threadKeys_detail b"
  "channelKeys_notifications a \<noteq> channelKeys_list b"
  by (simp_all add: key_defs)

lemma messages_prefix [simp]:
  "key_matches messageKeys_all (messageKeys_list a)"
  "\<not> key_matches messageKeys_all (threadKeys_detail a)"
  "\<not> key_matches messageKeys_all (messageKeys_detail a)"
  "\<not> key_matches messageKeys_all (channelKeys_list a)"
  "\<not> key_matches messageKeys_all (emojiKeys_list a)"
  "\<not> key_matches messageKeys_all authKeys_me"
  "\<not> key_matches messageKeys_all (threadKeys_subscription a)"
  "\<not> key_matches messageKeys_all (channelKeys_notifications a)"
  by (simp_all add: key_defs)

lemma thread_prefix [simp]:
  "key_matches threadKeys_all (threadKeys_detail a)"
  "\<not> key_matches threadKeys_all (messageKeys_list a)"
  "\<not> key_matches threadKeys_all (messageKeys_detail a)"
  "\<not> key_matches threadKeys_all (channelKeys_list a)"
  "\<not> key_matches threadKeys_all (emojiKeys_list a)"
  "\<not> key_matches threadKeys_all authKeys_me"
  "\<not> key_matches threadKeys_all (threadKeys_subscription a)"
  "\<not> key_matches threadKeys_all (threadKeys_userThreads a)"
  "\<not> key_matches threadKeys_all (channelKeys_notifications a)"
  by (simp_all add: key_defs)

end
