(* ===== verification/QueryClient.thy ===== *)
theory QueryClient
  imports ApiTypes QueryKeys "HOL-Library.AList"
begin

text \<open>
  The interface to TanStack Query's \<open>QueryClient\<close>, the third-party cache that every
  handler and mutation hook works on. The package is not part of the repository: its
  operations are a parameter of the model (the record \<open>query_ops\<close>), and the locale
  \<open>query_client\<close> states the documented behaviour the code relies on:

  \<^item> \<open>setQueryData(k, f)\<close> applies the updater to the entry of \<open>k\<close> and stores the result,
    unless the updater returns \<open>undefined\<close>; every other entry keeps its data;
  \<^item> \<open>setQueriesData({queryKey: p}, f)\<close> does so for every existing entry \<open>p\<close> is a prefix of;
  \<^item> \<open>getQueriesData({queryKey: p})\<close> lists those entries;
  \<^item> \<open>invalidateQueries\<close> marks the matching entries and changes no data;
    \<open>cancelQueries\<close> changes no data; \<open>clear\<close> removes everything.

  Inside the locale, \<open>data_inv\<close> lifts an invariant of single entries to the whole cache,
  with one preservation rule per operation. The theory ends with an in-memory store of
  association lists and the interpretation that discharges the laws for it.

  The cache is untyped: the source casts what it reads (\<open>getQueryData<MessagePages>\<close>).
  Here an entry carries its type (\<open>query_data\<close>), and a lifted updater (\<open>on_pages\<close>,
  \<open>on_channels\<close>, ...) leaves an entry of another type alone, where the code would throw a
  TypeError; the type-preservation properties show that no handler ever gets there.
\<close>

section \<open>Cached data\<close>

datatype page_direction = Before | After | Around

record page_param =
  pp_cursor :: "jsstring option"
  pp_direction :: page_direction

text \<open>A thread's page parameter is a cursor, a channel's is a cursor with a direction.\<close>

datatype any_page_param = CursorParam "jsstring option" | DirectedParam page_param

record message_pages =
  pages :: "message_list_result list"
  pageParams :: "any_page_param list"

record channels_result =
  channels :: "channel_with_membership list"

record emojis_result =
  emojis :: "custom_emoji list"

datatype query_data =
    is_PagesData: PagesData message_pages
  | is_ChannelsData: ChannelsData channels_result
  | is_AuthData: AuthData me_response
  | is_EmojisData: EmojisData emojis_result
  | is_SubscriptionData: SubscriptionData subscription_status
  | is_PreferencesData: PreferencesData notification_preferences
  | is_OtherData: OtherData jsstring

section \<open>The operations of the client\<close>

type_synonym updater = "query_data option \<Rightarrow> query_data option"

record 'qc query_ops =
  getQueryData :: "'qc \<Rightarrow> query_key \<Rightarrow> query_data option"
  setQueryData :: "'qc \<Rightarrow> query_key \<Rightarrow> updater \<Rightarrow> 'qc"
  getQueriesData :: "'qc \<Rightarrow> query_key \<Rightarrow> (query_key \<times> query_data option) list"
  setQueriesData :: "'qc \<Rightarrow> query_key \<Rightarrow> updater \<Rightarrow> 'qc"
  invalidateQueries :: "'qc \<Rightarrow> query_key \<Rightarrow> 'qc"
  isInvalidated :: "'qc \<Rightarrow> query_key \<Rightarrow> bool"
  cancelQueries :: "'qc \<Rightarrow> query_key \<Rightarrow> 'qc"
  clearQueries :: "'qc \<Rightarrow> 'qc"

section \<open>Typed reads and updates\<close>

fun as_pages :: "query_data option \<Rightarrow> message_pages option" where
  "as_pages (Some (PagesData p)) = Some p"
| "as_pages _ = None"

fun as_channels :: "query_data option \<Rightarrow> channels_result option" where
  "as_channels (Some (ChannelsData c)) = Some c"
| "as_channels _ = None"

fun as_auth :: "query_data option \<Rightarrow> me_response option" where
  "as_auth (Some (AuthData a)) = Some a"
| "as_auth _ = None"

text \<open>The updaters of the source begin with \<open>if (!old) return old;\<close>.\<close>

fun on_pages :: "(message_pages \<Rightarrow> message_pages) \<Rightarrow> updater" where
  "on_pages f (Some (PagesData p)) = Some (PagesData (f p))"
| "on_pages f d = d"

fun on_channels :: "(channels_result \<Rightarrow> channels_result) \<Rightarrow> updater" where
  "on_channels f (Some (ChannelsData c)) = Some (ChannelsData (f c))"
| "on_channels f d = d"

fun on_emojis :: "(emojis_result \<Rightarrow> emojis_result) \<Rightarrow> updater" where
  "on_emojis f (Some (EmojisData e)) = Some (EmojisData (f e))"
| "on_emojis f d = d"

fun on_auth :: "(me_response \<Rightarrow> me_response) \<Rightarrow> updater" where
  "on_auth f (Some (AuthData a)) = Some (AuthData (f a))"
| "on_auth f d = d"

lemma on_None [simp]:
  "on_pages f None = None" "on_channels g None = None" "on_emojis h None = None" "on_auth a None = None"
  by simp_all

lemma as_pages_on_pages [simp]: "as_pages (on_pages f d) = map_option f (as_pages d)"
  by (cases "(f, d)" rule: on_pages.cases) auto

lemma as_pages_on_other [simp]:
  "as_pages (on_channels g d) = as_pages d"
  "as_pages (on_emojis h d) = as_pages d"
  "as_pages (on_auth a d) = as_pages d"
  by (cases d rule: as_pages.cases; simp)+

lemma as_channels_on_channels [simp]: "as_channels (on_channels f d) = map_option f (as_channels d)"
  by (cases "(f, d)" rule: on_channels.cases) auto

lemma as_channels_on_pages [simp]: "as_channels (on_pages f d) = as_channels d"
  by (cases "(f, d)" rule: on_pages.cases) auto

lemma as_auth_on_other [simp]: "as_auth (on_pages f d) = as_auth d" "as_auth (on_channels g d) = as_auth d"
  by (cases "(f, d)" rule: on_pages.cases; simp) (cases "(g, d)" rule: on_channels.cases; simp)

lemma as_pages_Some: "as_pages d = Some p \<longleftrightarrow> d = Some (PagesData p)"
  by (cases d rule: as_pages.cases) auto

lemma as_channels_Some: "as_channels d = Some c \<longleftrightarrow> d = Some (ChannelsData c)"
  by (cases d rule: as_channels.cases) auto

definition pagesAt :: "'qc query_ops \<Rightarrow> 'qc \<Rightarrow> query_key \<Rightarrow> message_pages option" where
  "pagesAt ops c k = as_pages (getQueryData ops c k)"

definition channelsAt :: "'qc query_ops \<Rightarrow> 'qc \<Rightarrow> query_key \<Rightarrow> channels_result option" where
  "channelsAt ops c k = as_channels (getQueryData ops c k)"

text \<open>\<open>queryClient.getQueryData<{ user?: { id: string } }>(authKeys.me())?.user?.id\<close>\<close>

definition currentUserId :: "'qc query_ops \<Rightarrow> 'qc \<Rightarrow> jsstring option" where
  "currentUserId ops c =
     (case as_auth (getQueryData ops c authKeys_me) of
        None \<Rightarrow> None
      | Some a \<Rightarrow> map_option us_id (me_user a))"

text \<open>
  The updaters the code passes: they fix \<open>undefined\<close> and never turn data into
  \<open>undefined\<close>.
\<close>

definition total_updater :: "updater \<Rightarrow> bool" where
  "total_updater f \<longleftrightarrow> f None = None \<and> (\<forall>v. f (Some v) \<noteq> None)"

lemma total_updaterD:
  "total_updater f \<Longrightarrow> f None = None"
  "total_updater f \<Longrightarrow> f (Some v) = None \<Longrightarrow> False"
  unfolding total_updater_def by blast+

lemma total_updater_case:
  "total_updater f \<Longrightarrow> (case f d of None \<Rightarrow> d | Some v \<Rightarrow> Some v) = f d"
  by (cases d) (auto simp: total_updaterD split: option.splits dest: total_updaterD)

lemma total_on [simp]:
  "total_updater (on_pages f)" "total_updater (on_channels g)" "total_updater (on_emojis h)"
  "total_updater (on_auth a)"
proof -
  have "on_pages f (Some v) \<noteq> None" "on_channels g (Some v) \<noteq> None" "on_emojis h (Some v) \<noteq> None"
    "on_auth a (Some v) \<noteq> None" for v
    by (cases v; simp)+
  then show "total_updater (on_pages f)" "total_updater (on_channels g)" "total_updater (on_emojis h)"
    "total_updater (on_auth a)"
    by (simp_all add: total_updater_def)
qed

section \<open>The documented laws\<close>

locale query_client =
  fixes ops :: "'qc query_ops"
  assumes get_set:
      "getQueryData ops (setQueryData ops c k f) k' =
         (if k' = k then (case f (getQueryData ops c k) of
            None \<Rightarrow> getQueryData ops c k | Some v \<Rightarrow> Some v)
          else getQueryData ops c k')"
    and get_sets:
      "total_updater f \<Longrightarrow> getQueryData ops (setQueriesData ops c p f) k =
         (if key_matches p k then f (getQueryData ops c k) else getQueryData ops c k)"
    and queries_data:
      "(k, Some d) \<in> set (getQueriesData ops c p) \<longleftrightarrow>
         key_matches p k \<and> getQueryData ops c k = Some d"
    and get_invalidate [simp]: "getQueryData ops (invalidateQueries ops c p) k = getQueryData ops c k"
    and invalidated:
      "getQueryData ops c k \<noteq> None \<Longrightarrow>
         isInvalidated ops (invalidateQueries ops c p) k \<longleftrightarrow>
         key_matches p k \<or> isInvalidated ops c k"
    and invalidated_set:
      "k' \<noteq> k \<Longrightarrow> isInvalidated ops (setQueryData ops c k f) k' = isInvalidated ops c k'"
    and get_cancel [simp]: "getQueryData ops (cancelQueries ops c p) k = getQueryData ops c k"
    and get_clear [simp]: "getQueryData ops (clearQueries ops c) k = None"
begin

lemma get_set_total:
  "total_updater f \<Longrightarrow> getQueryData ops (setQueryData ops c k f) k' =
     (if k' = k then f (getQueryData ops c k) else getQueryData ops c k')"
  by (simp add: get_set total_updater_case)

lemma get_on [simp]:
  "getQueryData ops (setQueryData ops c k (on_pages f)) k' =
     (if k' = k then on_pages f (getQueryData ops c k) else getQueryData ops c k')"
  "getQueryData ops (setQueryData ops c k (on_channels g)) k' =
     (if k' = k then on_channels g (getQueryData ops c k) else getQueryData ops c k')"
  "getQueryData ops (setQueryData ops c k (on_emojis h)) k' =
     (if k' = k then on_emojis h (getQueryData ops c k) else getQueryData ops c k')"
  "getQueryData ops (setQueryData ops c k (on_auth a)) k' =
     (if k' = k then on_auth a (getQueryData ops c k) else getQueryData ops c k')"
  by (simp_all add: get_set_total)

lemma get_sets_on [simp]:
  "getQueryData ops (setQueriesData ops c p (on_pages f)) k =
     (if key_matches p k then on_pages f (getQueryData ops c k) else getQueryData ops c k)"
  by (simp add: get_sets)

lemma get_set_const [simp]:
  "getQueryData ops (setQueryData ops c k (\<lambda>_. Some v)) k' =
     (if k' = k then Some v else getQueryData ops c k')"
  by (simp add: get_set)

lemma pagesAt_set [simp]:
  "pagesAt ops (setQueryData ops c k (on_pages f)) k' =
     (if k' = k then map_option f (pagesAt ops c k) else pagesAt ops c k')"
  "pagesAt ops (setQueryData ops c k (on_channels g)) k' = pagesAt ops c k'"
  "pagesAt ops (setQueriesData ops c p (on_pages f)) k' =
     (if key_matches p k' then map_option f (pagesAt ops c k') else pagesAt ops c k')"
  "pagesAt ops (invalidateQueries ops c p) k' = pagesAt ops c k'"
  "pagesAt ops (cancelQueries ops c p) k' = pagesAt ops c k'"
  by (simp_all add: pagesAt_def)

lemma channelsAt_set [simp]:
  "channelsAt ops (setQueryData ops c k (on_channels g)) k' =
     (if k' = k then map_option g (channelsAt ops c k) else channelsAt ops c k')"
  "channelsAt ops (setQueryData ops c k (on_pages f)) k' = channelsAt ops c k'"
  "channelsAt ops (setQueriesData ops c p (on_pages f)) k' = channelsAt ops c k'"
  "channelsAt ops (invalidateQueries ops c p) k' = channelsAt ops c k'"
  "channelsAt ops (cancelQueries ops c p) k' = channelsAt ops c k'"
  by (simp_all add: channelsAt_def)

lemma currentUserId_set [simp]:
  "currentUserId ops (setQueryData ops c k (on_pages f)) = currentUserId ops c"
  "currentUserId ops (setQueryData ops c k (on_channels g)) = currentUserId ops c"
  "currentUserId ops (setQueriesData ops c p (on_pages f)) = currentUserId ops c"
  "currentUserId ops (invalidateQueries ops c p) = currentUserId ops c"
  "currentUserId ops (cancelQueries ops c p) = currentUserId ops c"
  by (simp_all add: currentUserId_def)

end

section \<open>Invariants of single entries\<close>

text \<open>Every cached entry satisfies \<open>I\<close>.\<close>

definition data_inv ::
    "'qc query_ops \<Rightarrow> (query_key \<Rightarrow> query_data \<Rightarrow> bool) \<Rightarrow> 'qc \<Rightarrow> bool" where
  "data_inv ops I c \<longleftrightarrow> (\<forall>k v. getQueryData ops c k = Some v \<longrightarrow> I k v)"

context query_client begin

lemma data_inv_set:
  assumes "data_inv ops I c" and "\<And>w. f (getQueryData ops c k) = Some w \<Longrightarrow> I k w"
  shows "data_inv ops I (setQueryData ops c k f)"
  using assms unfolding data_inv_def get_set
  by (auto split: option.splits if_splits)

lemma data_inv_sets:
  assumes "data_inv ops I c" and "total_updater f"
    and "\<And>k v w. key_matches p k \<Longrightarrow> I k v \<Longrightarrow> f (Some v) = Some w \<Longrightarrow> I k w"
  shows "data_inv ops I (setQueriesData ops c p f)"
  unfolding data_inv_def get_sets [OF assms(2)]
proof (intro allI impI)
  fix k v
  assume v: "(if key_matches p k then f (getQueryData ops c k) else getQueryData ops c k) = Some v"
  show "I k v"
  proof (cases "key_matches p k")
    case True
    with v assms(2) obtain u where "getQueryData ops c k = Some u" "f (Some u) = Some v"
      by (cases "getQueryData ops c k") (auto simp: total_updater_def)
    with assms(1) have "I k u" by (simp add: data_inv_def)
    with assms(3) True \<open>f (Some u) = Some v\<close> show ?thesis by blast
  next
    case False
    with v assms(1) show ?thesis by (auto simp: data_inv_def)
  qed
qed

lemma data_inv_invalidate: "data_inv ops I c \<Longrightarrow> data_inv ops I (invalidateQueries ops c p)"
  by (simp add: data_inv_def)

lemma data_inv_cancel: "data_inv ops I c \<Longrightarrow> data_inv ops I (cancelQueries ops c p)"
  by (simp add: data_inv_def)

lemma data_inv_clear: "data_inv ops I (clearQueries ops c)"
  by (simp add: data_inv_def)

end

section \<open>An in-memory client\<close>

text \<open>Entries in insertion order, and the keys marked as invalidated.\<close>

record query_store =
  entries :: "(query_key \<times> query_data) list"
  stale :: "query_key list"

definition store_set :: "query_store \<Rightarrow> query_key \<Rightarrow> updater \<Rightarrow> query_store" where
  "store_set s k f =
     (case f (map_of (entries s) k) of
        None \<Rightarrow> s
      | Some v \<Rightarrow> s\<lparr>entries := AList.update k v (entries s), stale := filter (\<lambda>x. x \<noteq> k) (stale s)\<rparr>)"

definition store_keys :: "query_store \<Rightarrow> query_key \<Rightarrow> query_key list" where
  "store_keys s p = filter (key_matches p) (remdups (map fst (entries s)))"

definition store_sets :: "query_store \<Rightarrow> query_key \<Rightarrow> updater \<Rightarrow> query_store" where
  "store_sets s p f = foldl (\<lambda>s k. store_set s k f) s (store_keys s p)"

definition store_ops :: "query_store query_ops" where
  "store_ops = \<lparr>
     getQueryData = (\<lambda>s k. map_of (entries s) k),
     setQueryData = store_set,
     getQueriesData = (\<lambda>s p. map (\<lambda>k. (k, map_of (entries s) k)) (store_keys s p)),
     setQueriesData = store_sets,
     invalidateQueries = (\<lambda>s p. s\<lparr>stale := stale s @ store_keys s p\<rparr>),
     isInvalidated = (\<lambda>s k. k \<in> set (stale s)),
     cancelQueries = (\<lambda>s p. s),
     clearQueries = (\<lambda>s. \<lparr>entries = [], stale = []\<rparr>)\<rparr>"

definition empty_store :: query_store where
  "empty_store = \<lparr>entries = [], stale = []\<rparr>"

lemma store_set_get:
  "map_of (entries (store_set s k f)) k' =
     (if k' = k then (case f (map_of (entries s) k) of
        None \<Rightarrow> map_of (entries s) k | Some v \<Rightarrow> Some v)
      else map_of (entries s) k')"
  by (auto simp: store_set_def update_conv' split: option.splits)

lemma store_sets_get_aux:
  assumes "total_updater f" and "distinct ks"
  shows "map_of (entries (foldl (\<lambda>s k. store_set s k f) s ks)) k' =
     (if k' \<in> set ks then f (map_of (entries s) k') else map_of (entries s) k')"
  using assms(2)
proof (induction ks arbitrary: s)
  case (Cons k ks)
  have "map_of (entries (store_set s k f)) k' =
      (if k' = k then f (map_of (entries s) k) else map_of (entries s) k')"
    using assms(1) by (simp add: store_set_get total_updater_case)
  with Cons show ?case by auto
qed simp

lemma store_sets_get:
  assumes "total_updater f"
  shows "map_of (entries (store_sets s p f)) k =
     (if key_matches p k then f (map_of (entries s) k) else map_of (entries s) k)"
proof -
  have "f (map_of (entries s) k) = map_of (entries s) k" if "k \<notin> fst ` set (entries s)"
    using that assms by (simp add: map_of_eq_None_iff [THEN iffD2] total_updater_def)
  then show ?thesis
    using store_sets_get_aux [OF assms, of "store_keys s p" s k]
    by (auto simp: store_sets_def store_keys_def)
qed

interpretation store: query_client store_ops
proof unfold_locales
  fix c :: query_store and k k' p :: query_key and f :: updater and d
  show "getQueryData store_ops (setQueryData store_ops c k f) k' =
     (if k' = k then (case f (getQueryData store_ops c k) of
        None \<Rightarrow> getQueryData store_ops c k | Some v \<Rightarrow> Some v)
      else getQueryData store_ops c k')"
    by (simp add: store_ops_def store_set_get split: option.split)
  show "getQueryData store_ops (setQueriesData store_ops c p f) k =
     (if key_matches p k then f (getQueryData store_ops c k) else getQueryData store_ops c k)"
    if "total_updater f"
    using that by (simp add: store_ops_def store_sets_get)
  show "(k, Some d) \<in> set (getQueriesData store_ops c p) \<longleftrightarrow>
     key_matches p k \<and> getQueryData store_ops c k = Some d"
    by (auto simp: store_ops_def store_keys_def image_iff) (metis fst_conv map_of_SomeD)
  show "isInvalidated store_ops (invalidateQueries store_ops c p) k \<longleftrightarrow>
     key_matches p k \<or> isInvalidated store_ops c k" if "getQueryData store_ops c k \<noteq> None"
    using that by (auto simp: store_ops_def store_keys_def map_of_eq_None_iff)
  show "isInvalidated store_ops (setQueryData store_ops c k f) k' = isInvalidated store_ops c k'"
    if "k' \<noteq> k"
    using that by (auto simp: store_ops_def store_set_def split: option.splits)
qed (simp_all add: store_ops_def)

end
