(* ===== verification/MessagePages.thy ===== *)
theory MessagePages
  imports QueryClient
begin

text \<open>
  The functions from cached message pages to cached message pages that the SSE handlers
  (\<open>packages/shared/src/sse/cacheUpdaters.ts\<close>) and the mutation hooks
  (\<open>packages/shared/src/hooks/useMessages.ts\<close>, \<open>useModeration.ts\<close>) pass to the query
  client, and what each does to the list of messages. A channel's pages hold the newest
  message first, a thread's the oldest first.

  \<open>allMessages\<close> is the flat list a view renders; \<open>well_formed_pages\<close> is the invariant
  every function keeps: no message id occurs twice, no message has two reactions of one
  user with the same emoji nor the same participant twice, and no reply count is negative.
\<close>

section \<open>Reading pages\<close>

definition pageHas :: "message_list_result \<Rightarrow> jsstring \<Rightarrow> bool" where
  "pageHas page mid = list_ex (\<lambda>m. msg_id m = mid) (messages page)"

definition hasMessage :: "message_pages \<Rightarrow> jsstring \<Rightarrow> bool" where
  "hasMessage p mid = list_ex (\<lambda>page. pageHas page mid) (pages p)"

definition allMessages :: "message_pages \<Rightarrow> message_with_user list" where
  "allMessages p = concat (map messages (pages p))"

section \<open>Adding a message\<close>

text \<open>Thread messages are ordered ASC (oldest first), so append to the end.\<close>

definition appendToLastPage :: "message_with_user \<Rightarrow> message_pages \<Rightarrow> message_pages" where
  "appendToLastPage m p =
     (if pages p = [] then p
      else let lastPageIndex = length (pages p) - 1; page = pages p ! lastPageIndex
           in p\<lparr>pages := (pages p)[lastPageIndex := page\<lparr>messages := messages page @ [m]\<rparr>]\<rparr>)"

definition prependToFirstPage :: "message_with_user \<Rightarrow> message_pages \<Rightarrow> message_pages" where
  "prependToFirstPage m p =
     (case pages p of
        [] \<Rightarrow> p
      | page # rest \<Rightarrow> p\<lparr>pages := page\<lparr>messages := m # messages page\<rparr> # rest\<rparr>)"

text \<open>Add a message at the live edge of a channel unless it is already there.\<close>

definition addToChannel :: "message_with_user \<Rightarrow> message_pages \<Rightarrow> message_pages" where
  "addToChannel m p = (if hasMessage p (msg_id m) then p else prependToFirstPage m p)"

section \<open>Updating messages in place\<close>

definition mapMessages ::
    "(message_with_user \<Rightarrow> message_with_user) \<Rightarrow> message_pages \<Rightarrow> message_pages" where
  "mapMessages f p =
     p\<lparr>pages := map (\<lambda>page. page\<lparr>messages := map f (messages page)\<rparr>) (pages p)\<rparr>"

text \<open>
  The updaters that keep the old object when no page holds the message: a page without it
  is returned as it is, and so is the whole entry when nothing changed.
\<close>

definition updateWhereFound ::
    "jsstring \<Rightarrow> (message_with_user \<Rightarrow> message_with_user) \<Rightarrow> message_pages \<Rightarrow> message_pages" where
  "updateWhereFound mid f p =
     (let changed = list_ex (\<lambda>page. pageHas page mid) (pages p);
          newPages = map (\<lambda>page. if \<not> pageHas page mid then page
            else page\<lparr>messages := map (\<lambda>m. if msg_id m = mid then f m else m) (messages page)\<rparr>)
            (pages p)
      in if changed then p\<lparr>pages := newPages\<rparr> else p)"

text \<open>
  A deleted message becomes a placeholder when it has replies and goes away otherwise.
\<close>

definition deleteOrMark :: "jsstring \<Rightarrow> jsstring \<Rightarrow> message_with_user \<Rightarrow> message_with_user option" where
  "deleteOrMark now mid m =
     (if msg_id m \<noteq> mid then Some m
      else if msg_reply_count m > 0 then Some (m\<lparr>msg_deleted_at := Some now\<rparr>)
      else None)"

definition deleteFromChannel :: "jsstring \<Rightarrow> jsstring \<Rightarrow> message_pages \<Rightarrow> message_pages" where
  "deleteFromChannel now mid p =
     p\<lparr>pages := map (\<lambda>page. page\<lparr>messages := List.map_filter (deleteOrMark now mid) (messages page)\<rparr>)
        (pages p)\<rparr>"

definition removeFromThread :: "jsstring \<Rightarrow> message_pages \<Rightarrow> message_pages" where
  "removeFromThread mid p =
     p\<lparr>pages := map (\<lambda>page. page\<lparr>messages := filter (\<lambda>m. msg_id m \<noteq> mid) (messages page)\<rparr>)
        (pages p)\<rparr>"

definition decrementReplies :: "jsstring \<Rightarrow> message_with_user \<Rightarrow> message_with_user" where
  "decrementReplies parent m =
     (if msg_id m \<noteq> parent then m else m\<lparr>msg_reply_count := max (msg_reply_count m - 1) 0\<rparr>)"

section \<open>Thread parents\<close>

definition withParticipant :: "message_with_user \<Rightarrow> thread_participant list \<Rightarrow> thread_participant list" where
  "withParticipant d participants =
     (case msg_user_id d of
        None \<Rightarrow> participants
      | Some u \<Rightarrow>
          if u \<noteq> [] \<and> \<not> list_ex (\<lambda>p. tp_user_id p = u) participants
          then participants @
            [\<lparr>tp_user_id = u, tp_display_name = msg_user_display_name d,
              tp_avatar_url = msg_user_avatar_url d, tp_gravatar_url = None\<rparr>]
          else participants)"

text \<open>
  The parent of a reply \<open>d\<close>: participants and the time of the last reply always, the
  reply count only when the reply was not counted before.
\<close>

definition bumpParent :: "jsstring \<Rightarrow> bool \<Rightarrow> message_with_user \<Rightarrow> message_with_user \<Rightarrow> message_with_user" where
  "bumpParent parent alreadyProcessed d m =
     (if msg_id m \<noteq> parent then m
      else m\<lparr>
        msg_reply_count := (if alreadyProcessed then msg_reply_count m else msg_reply_count m + 1),
        msg_last_reply_at := Some (msg_created_at d),
        msg_thread_participants := Some (withParticipant d (or_empty (msg_thread_participants m)))\<rparr>)"

section \<open>Reactions\<close>

definition sameReaction :: "jsstring option \<Rightarrow> jsstring \<Rightarrow> reaction \<Rightarrow> bool" where
  "sameReaction u e r = (Some (rc_user_id r) = u \<and> rc_emoji r = e)"

definition putReaction :: "reaction \<Rightarrow> message_with_user \<Rightarrow> message_with_user" where
  "putReaction d m =
     (if msg_id m \<noteq> rc_message_id d then m
      else let reactions = or_empty (msg_reactions m)
        in if list_ex (sameReaction (Some (rc_user_id d)) (rc_emoji d)) reactions
           then m\<lparr>msg_reactions := Some (map (\<lambda>r.
              if sameReaction (Some (rc_user_id d)) (rc_emoji d) r then d else r) reactions)\<rparr>
           else m\<lparr>msg_reactions := Some (reactions @ [d])\<rparr>)"

definition dropReaction ::
    "jsstring \<Rightarrow> jsstring option \<Rightarrow> jsstring \<Rightarrow> message_with_user \<Rightarrow> message_with_user" where
  "dropReaction mid u e m =
     (if msg_id m \<noteq> mid then m
      else m\<lparr>msg_reactions :=
        Some (filter (\<lambda>r. \<not> sameReaction u e r) (or_empty (msg_reactions m)))\<rparr>)"

section \<open>The flat list of messages\<close>

lemma pageHas_iff: "pageHas page mid \<longleftrightarrow> mid \<in> msg_id ` set (messages page)"
  by (auto simp: pageHas_def list_ex_iff)

lemma hasMessage_iff: "hasMessage p mid \<longleftrightarrow> mid \<in> msg_id ` set (allMessages p)"
  by (auto simp: hasMessage_def pageHas_iff list_ex_iff allMessages_def)

lemma allMessages_append:
  "allMessages (appendToLastPage m p) = (if pages p = [] then [] else allMessages p @ [m])"
proof (cases "pages p" rule: rev_cases)
  case Nil
  then show ?thesis by (simp add: appendToLastPage_def allMessages_def)
next
  case (snoc ps page)
  then have "appendToLastPage m p = p\<lparr>pages := ps @ [page\<lparr>messages := messages page @ [m]\<rparr>]\<rparr>"
    by (simp add: appendToLastPage_def Let_def)
  with snoc show ?thesis by (simp add: allMessages_def)
qed

lemma allMessages_prepend:
  "allMessages (prependToFirstPage m p) = (if pages p = [] then [] else m # allMessages p)"
  by (auto simp: prependToFirstPage_def allMessages_def split: list.splits)

lemma allMessages_Nil [simp]: "pages p = [] \<Longrightarrow> allMessages p = []"
  by (simp add: allMessages_def)

lemma allMessages_map [simp]: "allMessages (mapMessages f p) = map f (allMessages p)"
  by (simp add: mapMessages_def allMessages_def map_concat comp_def)

lemma allMessages_delete [simp]:
  "allMessages (deleteFromChannel now mid p) = List.map_filter (deleteOrMark now mid) (allMessages p)"
proof -
  have "concat (map (\<lambda>pg. List.map_filter g (messages pg)) ps)
      = List.map_filter g (concat (map messages ps))" for g :: "message_with_user \<Rightarrow> message_with_user option" and ps
    by (induction ps) (auto simp: map_filter_def)
  then show ?thesis by (simp add: deleteFromChannel_def allMessages_def comp_def)
qed

lemma allMessages_remove [simp]:
  "allMessages (removeFromThread mid p) = filter (\<lambda>m. msg_id m \<noteq> mid) (allMessages p)"
  by (simp add: removeFromThread_def allMessages_def filter_concat comp_def)

text \<open>The early exits of \<open>updateWhereFound\<close> do not change its result.\<close>

lemma updateWhereFound_eq: "updateWhereFound mid f p = mapMessages (\<lambda>m. if msg_id m = mid then f m else m) p"
proof -
  have page: "page\<lparr>messages := map (\<lambda>m. if msg_id m = mid then f m else m) (messages page)\<rparr> = page"
    if "\<not> pageHas page mid" for page :: message_list_result
  proof -
    have "map (\<lambda>m. if msg_id m = mid then f m else m) (messages page) = messages page"
      using that by (intro map_idI) (auto simp: pageHas_iff)
    then show ?thesis by (cases page) simp
  qed
  show ?thesis
    unfolding updateWhereFound_def mapMessages_def Let_def
    by (auto simp: page list_ex_iff intro!: message_pages.equality map_cong map_idI [symmetric])
qed

lemma hasMessage_map [simp]:
  "(\<And>m. msg_id (f m) = msg_id m) \<Longrightarrow> hasMessage (mapMessages f p) mid = hasMessage p mid"
  by (auto simp: hasMessage_iff image_iff)

lemma hasMessage_prepend:
  "hasMessage (prependToFirstPage m p) mid \<longleftrightarrow> (pages p \<noteq> [] \<and> msg_id m = mid) \<or> hasMessage p mid"
  by (auto simp: hasMessage_iff allMessages_prepend)

lemma hasMessage_append:
  "hasMessage (appendToLastPage m p) mid \<longleftrightarrow> (pages p \<noteq> [] \<and> msg_id m = mid) \<or> hasMessage p mid"
  by (auto simp: hasMessage_iff allMessages_append)

lemma pages_Nil_iff [simp]:
  "pages (mapMessages f p) = [] \<longleftrightarrow> pages p = []"
  "pages (prependToFirstPage m p) = [] \<longleftrightarrow> pages p = []"
  "pages (appendToLastPage m p) = [] \<longleftrightarrow> pages p = []"
  by (auto simp: mapMessages_def prependToFirstPage_def appendToLastPage_def Let_def split: list.splits)

lemma hasMessage_addToChannel:
  "hasMessage (addToChannel m p) mid \<longleftrightarrow> (pages p \<noteq> [] \<and> msg_id m = mid) \<or> hasMessage p mid"
  by (auto simp: addToChannel_def hasMessage_prepend)

lemma msg_id_updates [simp]:
  "msg_id (bumpParent parent b d m) = msg_id m"
  "msg_id (decrementReplies parent m) = msg_id m"
  "msg_id (putReaction r m) = msg_id m"
  "msg_id (dropReaction mid u e m) = msg_id m"
  by (simp_all add: bumpParent_def decrementReplies_def putReaction_def dropReaction_def Let_def)

lemma prepend_map: "mapMessages f (prependToFirstPage m p) = prependToFirstPage (f m) (mapMessages f p)"
  by (auto simp: mapMessages_def prependToFirstPage_def split: list.split)

lemma addToChannel_map:
  "(\<And>m. msg_id (f m) = msg_id m) \<Longrightarrow>
     mapMessages f (addToChannel m p) = addToChannel (f m) (mapMessages f p)"
  by (simp add: addToChannel_def prepend_map)

lemma mapMessages_comp [simp]: "mapMessages f (mapMessages g p) = mapMessages (f \<circ> g) p"
  by (simp add: mapMessages_def comp_def)

text \<open>Adding the same message twice adds it once.\<close>

lemma addToChannel_idem [simp]: "addToChannel m (addToChannel m p) = addToChannel m p"
  by (cases "pages p")
    (auto simp: addToChannel_def prependToFirstPage_def hasMessage_def pageHas_def)

section \<open>The invariant\<close>

definition reaction_key :: "reaction \<Rightarrow> jsstring \<times> jsstring" where
  "reaction_key r = (rc_user_id r, rc_emoji r)"

definition well_formed_message :: "message_with_user \<Rightarrow> bool" where
  "well_formed_message m \<longleftrightarrow>
     distinct (map reaction_key (or_empty (msg_reactions m))) \<and>
     distinct (map tp_user_id (or_empty (msg_thread_participants m))) \<and>
     0 \<le> msg_reply_count m"

definition well_formed_pages :: "message_pages \<Rightarrow> bool" where
  "well_formed_pages p \<longleftrightarrow>
     distinct (map msg_id (allMessages p)) \<and> (\<forall>m \<in> set (allMessages p). well_formed_message m)"

lemma wf_append:
  "well_formed_pages p \<Longrightarrow> well_formed_message m \<Longrightarrow> \<not> hasMessage p (msg_id m) \<Longrightarrow>
     well_formed_pages (appendToLastPage m p)"
  by (auto simp: well_formed_pages_def allMessages_append hasMessage_iff)

lemma wf_addToChannel:
  "well_formed_pages p \<Longrightarrow> well_formed_message m \<Longrightarrow> well_formed_pages (addToChannel m p)"
  by (auto simp: well_formed_pages_def addToChannel_def allMessages_prepend hasMessage_iff)

lemma wf_map:
  assumes "well_formed_pages p"
    and "\<And>m. m \<in> set (allMessages p) \<Longrightarrow> msg_id (f m) = msg_id m"
    and "\<And>m. m \<in> set (allMessages p) \<Longrightarrow> well_formed_message m \<Longrightarrow> well_formed_message (f m)"
  shows "well_formed_pages (mapMessages f p)"
proof -
  have "map msg_id (map f (allMessages p)) = map msg_id (allMessages p)"
    using assms(2) by (rule distinct_map_same)
  with assms show ?thesis by (auto simp: well_formed_pages_def simp del: map_map)
qed

lemma deleteOrMark_id: "deleteOrMark now mid m = Some m' \<Longrightarrow> msg_id m' = msg_id m"
  by (auto simp: deleteOrMark_def split: if_splits)

lemma deleteOrMark_wf: "deleteOrMark now mid m = Some m' \<Longrightarrow> well_formed_message m' = well_formed_message m"
  by (auto simp: deleteOrMark_def well_formed_message_def split: if_splits)

lemma wf_delete: "well_formed_pages p \<Longrightarrow> well_formed_pages (deleteFromChannel now mid p)"
proof -
  have "distinct (map msg_id ms) \<Longrightarrow> \<forall>m \<in> set ms. well_formed_message m \<Longrightarrow>
      distinct (map msg_id (List.map_filter (deleteOrMark now mid) ms)) \<and>
      (\<forall>m \<in> set (List.map_filter (deleteOrMark now mid) ms). well_formed_message m) \<and>
      msg_id ` set (List.map_filter (deleteOrMark now mid) ms) \<subseteq> msg_id ` set ms" for ms
    by (induction ms) (auto simp: List.map_filter_simps deleteOrMark_id deleteOrMark_wf image_subset_iff
      split: option.splits)
  then show "well_formed_pages p \<Longrightarrow> well_formed_pages (deleteFromChannel now mid p)"
    unfolding well_formed_pages_def allMessages_delete by blast
qed

lemma wf_remove: "well_formed_pages p \<Longrightarrow> well_formed_pages (removeFromThread mid p)"
  by (auto simp: well_formed_pages_def distinct_map_filter)

lemma wf_bumpParent: "well_formed_message m \<Longrightarrow> well_formed_message (bumpParent parent b d m)"
  by (auto simp: well_formed_message_def bumpParent_def withParticipant_def list_ex_iff
    split: option.splits)

lemma wf_decrement: "well_formed_message m \<Longrightarrow> well_formed_message (decrementReplies parent m)"
  by (auto simp: well_formed_message_def decrementReplies_def)

lemma wf_dropReaction: "well_formed_message m \<Longrightarrow> well_formed_message (dropReaction mid u e m)"
  by (auto simp: well_formed_message_def dropReaction_def distinct_map_filter)

lemma sameReaction_key: "sameReaction (Some u) e r \<longleftrightarrow> reaction_key r = (u, e)"
  by (auto simp: sameReaction_def reaction_key_def)

lemma wf_putReaction: "well_formed_message m \<Longrightarrow> well_formed_message (putReaction d m)"
proof -
  have "map reaction_key (map (\<lambda>r. if sameReaction (Some (rc_user_id d)) (rc_emoji d) r then d else r) rs)
      = map reaction_key rs" for rs
    by (auto simp: sameReaction_key) (simp add: reaction_key_def)
  then show "well_formed_message m \<Longrightarrow> well_formed_message (putReaction d m)"
    by (auto simp: well_formed_message_def putReaction_def Let_def list_ex_iff sameReaction_key
      reaction_key_def simp del: map_map)
qed

text \<open>The page functions that keep the invariant, as one bundle for the handlers.\<close>

lemmas wf_message_intros = wf_bumpParent wf_decrement wf_dropReaction wf_putReaction

end
