(* ===== verification/CacheUpdaters.thy ===== *)
theory CacheUpdaters
  imports MessagePages Sorting
begin

text \<open>
  The SSE event handlers of \<open>packages/shared/src/sse/cacheUpdaters.ts\<close>, one definition
  per exported function, over an arbitrary query client. A handler maps the client to the
  client after the event; \<open>handleNewMessage\<close> also returns the batches of attachment ids it
  hands to \<open>getUrls\<close> (fire and forget), \<open>handleMemberUnbanned\<close> and \<open>handleNotification\<close>
  their return values. \<open>new Date().toISOString()\<close> is the argument \<open>now\<close>, and
  \<open>localeCompare\<close>, whose order depends on the host's locale, the argument \<open>lc\<close>.
\<close>

section \<open>Messages\<close>

text \<open>A thread reply: lines 55 to 139 of the handler.\<close>

definition handleNewReply ::
    "'qc query_ops \<Rightarrow> 'qc \<Rightarrow> jsstring \<Rightarrow> jsstring \<Rightarrow> message_with_user \<Rightarrow> 'qc" where
  "handleNewReply ops c workspaceId parent d =
     (let threadData = pagesAt ops c (threadKeys_detail parent);
          alreadyProcessed = (case threadData of None \<Rightarrow> False | Some p \<Rightarrow> hasMessage p (msg_id d));
          c1 = (if \<not> alreadyProcessed
                then setQueryData ops c (threadKeys_detail parent) (on_pages (appendToLastPage d))
                else c);
          c2 = (if msg_also_send_to_channel d = Some True
                then setQueryData ops c1 (messageKeys_list (msg_channel_id d)) (on_pages (addToChannel d))
                else c1);
          c3 = setQueryData ops c2 (messageKeys_list (msg_channel_id d))
                 (on_pages (mapMessages (bumpParent parent alreadyProcessed d)))
      in invalidateQueries ops c3 (threadKeys_userThreads workspaceId))"

definition incrementUnread :: "jsstring \<Rightarrow> channels_result \<Rightarrow> channels_result" where
  "incrementUnread channelId old = old\<lparr>channels := map (\<lambda>c.
     if ch_id c = channelId then c\<lparr>ch_unread_count := ch_unread_count c + 1\<rparr> else c) (channels old)\<rparr>"

text \<open>The unread counter: lines 161 to 180.\<close>

definition countUnread :: "'qc query_ops \<Rightarrow> 'qc \<Rightarrow> jsstring \<Rightarrow> message_with_user \<Rightarrow> 'qc" where
  "countUnread ops c workspaceId d =
     (if \<not> truthy (msg_thread_parent_id d) \<or> msg_also_send_to_channel d = Some True
      then if msg_user_id d \<noteq> currentUserId ops c
           then setQueryData ops c (channelKeys_list workspaceId)
                  (on_channels (incrementUnread (msg_channel_id d)))
           else c
      else c)"

definition prewarmIds :: "message_with_user \<Rightarrow> jsstring list list" where
  "prewarmIds d =
     (case msg_attachments d of
        None \<Rightarrow> []
      | Some as \<Rightarrow> if length as > 0 then [map at_id as] else [])"

definition handleNewMessage ::
    "'qc query_ops \<Rightarrow> 'qc \<Rightarrow> jsstring \<Rightarrow> message_with_user \<Rightarrow> 'qc \<times> jsstring list list" where
  "handleNewMessage ops c workspaceId d =
     (let c1 = (case msg_thread_parent_id d of
            Some parent \<Rightarrow>
              if parent \<noteq> [] then handleNewReply ops c workspaceId parent d
              else setQueryData ops c (messageKeys_list (msg_channel_id d)) (on_pages (addToChannel d))
          | None \<Rightarrow>
              setQueryData ops c (messageKeys_list (msg_channel_id d)) (on_pages (addToChannel d)))
      in (countUnread ops c1 workspaceId d, prewarmIds d))"

definition handleMessageUpdated :: "'qc query_ops \<Rightarrow> 'qc \<Rightarrow> message_with_user \<Rightarrow> 'qc" where
  "handleMessageUpdated ops c d =
     setQueriesData ops c messageKeys_all
       (on_pages (updateWhereFound (msg_id d) (\<lambda>m. spread_message_with_user m d)))"

definition deleteHandled :: "'qc query_ops \<Rightarrow> 'qc \<Rightarrow> message_deleted_data \<Rightarrow> bool" where
  "deleteHandled ops c d =
     (case md_thread_parent_id d of
        None \<Rightarrow> False
      | Some parent \<Rightarrow>
          parent \<noteq> [] \<and>
          (case pagesAt ops c (threadKeys_detail parent) of
             None \<Rightarrow> False
           | Some p \<Rightarrow> \<not> hasMessage p (md_id d)))"

definition handleMessageDeleted ::
    "'qc query_ops \<Rightarrow> jsstring \<Rightarrow> 'qc \<Rightarrow> message_deleted_data \<Rightarrow> 'qc" where
  "handleMessageDeleted ops now c d =
     (let alreadyHandled = deleteHandled ops c d;
          c1 = setQueriesData ops c messageKeys_all (on_pages (deleteFromChannel now (md_id d)));
          c2 = setQueriesData ops c1 threadKeys_all (on_pages (removeFromThread (md_id d)))
      in (case md_thread_parent_id d of
            Some parent \<Rightarrow>
              if parent \<noteq> [] \<and> \<not> alreadyHandled
              then setQueriesData ops c2 messageKeys_all
                     (on_pages (mapMessages (decrementReplies parent)))
              else c2
          | None \<Rightarrow> c2))"

section \<open>Reactions\<close>

definition handleReactionAdded :: "'qc query_ops \<Rightarrow> 'qc \<Rightarrow> reaction \<Rightarrow> 'qc" where
  "handleReactionAdded ops c d =
     setQueriesData ops c messageKeys_all (on_pages (mapMessages (putReaction d)))"

definition handleReactionRemoved :: "'qc query_ops \<Rightarrow> 'qc \<Rightarrow> reaction_removed_data \<Rightarrow> 'qc" where
  "handleReactionRemoved ops c d =
     setQueriesData ops c messageKeys_all
       (on_pages (mapMessages (dropReaction (rr_message_id d) (Some (rr_user_id d)) (rr_emoji d))))"

section \<open>Channels\<close>

definition addNewChannel :: "channel \<Rightarrow> channels_result \<Rightarrow> channels_result" where
  "addNewChannel d old =
     (if list_ex (\<lambda>c. ch_id c = ch_id d) (channels old) then old
      else old\<lparr>channels := channels old @ [channel.extend d
        \<lparr>ch_channel_role = None, ch_last_read_message_id = None, ch_unread_count = 0,
         ch_notification_count = 0, ch_is_starred = False, ch_dm_participants = None\<rparr>]\<rparr>)"

definition handleChannelCreated :: "'qc query_ops \<Rightarrow> 'qc \<Rightarrow> jsstring \<Rightarrow> channel \<Rightarrow> 'qc" where
  "handleChannelCreated ops c workspaceId d =
     setQueryData ops c (channelKeys_list workspaceId) (on_channels (addNewChannel d))"

definition handleChannelsInvalidate :: "'qc query_ops \<Rightarrow> 'qc \<Rightarrow> jsstring \<Rightarrow> 'qc" where
  "handleChannelsInvalidate ops c workspaceId =
     invalidateQueries ops c (channelKeys_list workspaceId)"

definition updateChannel :: "channel \<Rightarrow> channels_result \<Rightarrow> channels_result" where
  "updateChannel d old = old\<lparr>channels :=
     filter (\<lambda>c. \<not> (ch_id c = ch_id d \<and> ch_type c = PrivateChannel \<and> ch_channel_role c = None))
       (map (\<lambda>c. if ch_id c = ch_id d then spread_channel c d else c) (channels old))\<rparr>"

definition handleChannelUpdated :: "'qc query_ops \<Rightarrow> 'qc \<Rightarrow> jsstring \<Rightarrow> channel \<Rightarrow> 'qc" where
  "handleChannelUpdated ops c workspaceId d =
     setQueryData ops c (channelKeys_list workspaceId) (on_channels (updateChannel d))"

definition removeChannel :: "jsstring \<Rightarrow> channels_result \<Rightarrow> channels_result" where
  "removeChannel cid old = old\<lparr>channels := filter (\<lambda>c. ch_id c \<noteq> cid) (channels old)\<rparr>"

definition handleChannelArchived :: "'qc query_ops \<Rightarrow> 'qc \<Rightarrow> jsstring \<Rightarrow> channel \<Rightarrow> 'qc" where
  "handleChannelArchived ops c workspaceId d =
     setQueryData ops c (channelKeys_list workspaceId) (on_channels (removeChannel (ch_id d)))"

definition handleMemberAdded :: "'qc query_ops \<Rightarrow> 'qc \<Rightarrow> jsstring \<Rightarrow> channel_member_data \<Rightarrow> 'qc" where
  "handleMemberAdded ops c workspaceId d =
     (let c1 = invalidateQueries ops c (channelKeys_list workspaceId);
          c2 = invalidateQueries ops c1 (channelKeys_members (cmd_channel_id d))
      in invalidateQueries ops c2 (workspaceKeys_members workspaceId))"

definition handleMemberRemoved :: "'qc query_ops \<Rightarrow> 'qc \<Rightarrow> jsstring \<Rightarrow> channel_member_data \<Rightarrow> 'qc" where
  "handleMemberRemoved ops c workspaceId d =
     (let c1 = invalidateQueries ops c (channelKeys_list workspaceId);
          c2 = invalidateQueries ops c1 (channelKeys_members (cmd_channel_id d))
      in invalidateQueries ops c2 (workspaceKeys_members workspaceId))"

definition markRead :: "jsstring \<Rightarrow> jsstring \<Rightarrow> channels_result \<Rightarrow> channels_result" where
  "markRead cid lastRead old = old\<lparr>channels := map (\<lambda>c.
     if ch_id c = cid
     then c\<lparr>ch_unread_count := 0, ch_notification_count := 0, ch_last_read_message_id := Some lastRead\<rparr>
     else c) (channels old)\<rparr>"

definition handleChannelRead :: "'qc query_ops \<Rightarrow> 'qc \<Rightarrow> jsstring \<Rightarrow> channel_read_data \<Rightarrow> 'qc" where
  "handleChannelRead ops c workspaceId d =
     (let c1 = setQueryData ops c (channelKeys_list workspaceId)
                 (on_channels (markRead (cr_channel_id d) (cr_last_read_message_id d)))
      in invalidateQueries ops c1 workspaceKeys_notifications)"

section \<open>Custom emojis\<close>

definition addEmoji :: "(jsstring \<Rightarrow> jsstring \<Rightarrow> int) \<Rightarrow> custom_emoji \<Rightarrow> emojis_result \<Rightarrow> emojis_result" where
  "addEmoji lc d old =
     (if list_ex (\<lambda>e. em_id e = em_id d) (emojis old) then old
      else old\<lparr>emojis := js_sort (\<lambda>a b. lc (em_name a) (em_name b)) (emojis old @ [d])\<rparr>)"

definition handleEmojiCreated ::
    "'qc query_ops \<Rightarrow> (jsstring \<Rightarrow> jsstring \<Rightarrow> int) \<Rightarrow> 'qc \<Rightarrow> jsstring \<Rightarrow> custom_emoji \<Rightarrow> 'qc" where
  "handleEmojiCreated ops lc c workspaceId d =
     setQueryData ops c (emojiKeys_list workspaceId) (on_emojis (addEmoji lc d))"

definition removeEmoji :: "jsstring \<Rightarrow> emojis_result \<Rightarrow> emojis_result" where
  "removeEmoji eid old = old\<lparr>emojis := filter (\<lambda>e. em_id e \<noteq> eid) (emojis old)\<rparr>"

definition handleEmojiDeleted :: "'qc query_ops \<Rightarrow> 'qc \<Rightarrow> jsstring \<Rightarrow> emoji_deleted_data \<Rightarrow> 'qc" where
  "handleEmojiDeleted ops c workspaceId d =
     setQueryData ops c (emojiKeys_list workspaceId) (on_emojis (removeEmoji (ed_id d)))"

section \<open>Workspaces and scheduled messages\<close>

definition handleWorkspaceUpdated :: "'qc query_ops \<Rightarrow> 'qc \<Rightarrow> jsstring \<Rightarrow> 'qc" where
  "handleWorkspaceUpdated ops c workspaceId =
     invalidateQueries ops c (workspaceKeys_detail workspaceId)"

definition handleScheduledMessageChange :: "'qc query_ops \<Rightarrow> 'qc \<Rightarrow> jsstring \<Rightarrow> 'qc" where
  "handleScheduledMessageChange ops c workspaceId =
     invalidateQueries ops c (scheduledMessageKeys_list workspaceId)"

definition handleScheduledMessageSent ::
    "'qc query_ops \<Rightarrow> 'qc \<Rightarrow> jsstring \<Rightarrow> scheduled_message_sent_data \<Rightarrow> 'qc" where
  "handleScheduledMessageSent ops c workspaceId d =
     (let c1 = invalidateQueries ops c (scheduledMessageKeys_list workspaceId)
      in invalidateQueries ops c1 (messageKeys_list (sm_channel_id d)))"

section \<open>Pins\<close>

definition setPin :: "jsstring option \<Rightarrow> jsstring option \<Rightarrow> message_with_user \<Rightarrow> message_with_user" where
  "setPin at by m = m\<lparr>msg_pinned_at := at, msg_pinned_by := by\<rparr>"

definition handleMessagePinned :: "'qc query_ops \<Rightarrow> 'qc \<Rightarrow> message_with_user \<Rightarrow> 'qc" where
  "handleMessagePinned ops c d =
     (let c1 = setQueriesData ops c messageKeys_all
                 (on_pages (updateWhereFound (msg_id d) (setPin (msg_pinned_at d) (msg_pinned_by d))))
      in invalidateQueries ops c1 pinnedMessageKeys_all)"

definition handleMessageUnpinned :: "'qc query_ops \<Rightarrow> 'qc \<Rightarrow> message_with_user \<Rightarrow> 'qc" where
  "handleMessageUnpinned ops c d =
     (let c1 = setQueriesData ops c messageKeys_all
                 (on_pages (updateWhereFound (msg_id d) (setPin None None)))
      in invalidateQueries ops c1 pinnedMessageKeys_all)"

section \<open>Members\<close>

definition handleMemberBanned :: "'qc query_ops \<Rightarrow> 'qc \<Rightarrow> jsstring \<Rightarrow> workspace_member_data \<Rightarrow> 'qc" where
  "handleMemberBanned ops c workspaceId d =
     (let c1 = invalidateQueries ops c (workspaceKeys_members workspaceId);
          c2 = invalidateQueries ops c1 (workspaceKeys_bans workspaceId)
      in if currentUserId ops c2 = Some (wm_user_id d)
         then invalidateQueries ops c2 authKeys_me else c2)"

definition handleMemberUnbanned ::
    "'qc query_ops \<Rightarrow> 'qc \<Rightarrow> jsstring \<Rightarrow> workspace_member_data \<Rightarrow> 'qc \<times> bool" where
  "handleMemberUnbanned ops c workspaceId d =
     (let c1 = invalidateQueries ops c (workspaceKeys_members workspaceId);
          c2 = invalidateQueries ops c1 (workspaceKeys_bans workspaceId);
          isCurrentUser = (currentUserId ops c2 = Some (wm_user_id d))
      in (if isCurrentUser then invalidateQueries ops c2 authKeys_me else c2, isCurrentUser))"

definition handleMemberLeft :: "'qc query_ops \<Rightarrow> 'qc \<Rightarrow> jsstring \<Rightarrow> 'qc" where
  "handleMemberLeft ops c workspaceId = invalidateQueries ops c (workspaceKeys_members workspaceId)"

definition handleMemberRoleChanged ::
    "'qc query_ops \<Rightarrow> 'qc \<Rightarrow> jsstring \<Rightarrow> member_role_changed_data \<Rightarrow> 'qc" where
  "handleMemberRoleChanged ops c workspaceId d =
     (let c1 = invalidateQueries ops c (workspaceKeys_members workspaceId)
      in if currentUserId ops c1 = Some (mr_user_id d)
         then invalidateQueries ops c1 authKeys_me else c1)"

section \<open>Notifications\<close>

definition incrementNotifications :: "jsstring \<Rightarrow> channels_result \<Rightarrow> channels_result" where
  "incrementNotifications channelId old = old\<lparr>channels := map (\<lambda>c.
     if ch_id c = channelId then c\<lparr>ch_notification_count := ch_notification_count c + 1\<rparr> else c)
     (channels old)\<rparr>"

definition handleNotification ::
    "'qc query_ops \<Rightarrow> 'qc \<Rightarrow> jsstring \<Rightarrow> notification_data \<Rightarrow> 'qc \<times> notification_data" where
  "handleNotification ops c workspaceId d =
     (if nt_channel_id d \<noteq> [] \<and> nt_type d \<noteq> NThreadReply
      then (let c1 = setQueryData ops c (channelKeys_list workspaceId)
                       (on_channels (incrementNotifications (nt_channel_id d)))
            in invalidateQueries ops c1 workspaceKeys_notifications, d)
      else (c, d))"

lemmas handler_defs = handleNewReply_def countUnread_def handleNewMessage_def
  handleMessageUpdated_def handleMessageDeleted_def handleReactionAdded_def
  handleReactionRemoved_def handleChannelCreated_def handleChannelsInvalidate_def
  handleChannelUpdated_def handleChannelArchived_def handleMemberAdded_def
  handleMemberRemoved_def handleChannelRead_def handleEmojiCreated_def handleEmojiDeleted_def
  handleWorkspaceUpdated_def handleScheduledMessageChange_def handleScheduledMessageSent_def
  handleMessagePinned_def handleMessageUnpinned_def handleMemberBanned_def
  handleMemberUnbanned_def handleMemberLeft_def handleMemberRoleChanged_def
  handleNotification_def

end
