(* ===== verification/CacheInvariant.thy ===== *)
theory CacheInvariant
  imports CacheUpdaters
begin

text \<open>
  The invariant of the query cache and its preservation by every SSE handler.

  \<open>cache_ok\<close> says of every entry that it has the type of its key family (so the casts of
  the source are right: a \<open>messages\<close> or \<open>thread\<close> key holds message pages, a \<open>channels\<close>
  key a channel list, and so on), and that its content is well formed: the pages as in
  \<open>MessagePages\<close>, a channel list without duplicate channels or negative counters, an emoji
  list without duplicate emojis. Handlers keep it for any client that satisfies the laws,
  provided what the server sends is well formed.
\<close>

section \<open>Types of the key families\<close>

definition data_fits :: "query_key \<Rightarrow> query_data \<Rightarrow> bool" where
  "data_fits k v =
     (case key_family k of
        Some (KStr s) \<Rightarrow>
          if s = js ''messages'' \<or> s = js ''thread'' then is_PagesData v
          else if s = js ''channels'' then is_ChannelsData v
          else if s = js ''custom-emojis'' then is_EmojisData v
          else if s = js ''auth'' then is_AuthData v
          else if s = js ''thread-subscription'' then is_SubscriptionData v
          else if s = js ''channel-notifications'' then is_PreferencesData v
          else True
      | _ \<Rightarrow> True)"

lemma data_fits_keys [simp]:
  "data_fits (messageKeys_list a) v = is_PagesData v"
  "data_fits (threadKeys_detail a) v = is_PagesData v"
  "data_fits (channelKeys_list a) v = is_ChannelsData v"
  "data_fits (emojiKeys_list a) v = is_EmojisData v"
  "data_fits authKeys_me v = is_AuthData v"
  "data_fits (threadKeys_subscription a) v = is_SubscriptionData v"
  "data_fits (channelKeys_notifications a) v = is_PreferencesData v"
  by (simp_all add: data_fits_def key_defs)

text \<open>Whether an entry fits its key depends on its constructor alone.\<close>

lemma data_fits_content:
  "data_fits k (PagesData p) \<Longrightarrow> data_fits k (PagesData p')"
  "data_fits k (ChannelsData r) \<Longrightarrow> data_fits k (ChannelsData r')"
  "data_fits k (EmojisData e) \<Longrightarrow> data_fits k (EmojisData e')"
  "data_fits k (AuthData a) \<Longrightarrow> data_fits k (AuthData a')"
  by (auto simp: data_fits_def split: option.splits key_part.splits if_splits)

section \<open>The invariant\<close>

definition channels_ok :: "channels_result \<Rightarrow> bool" where
  "channels_ok r \<longleftrightarrow> distinct (map ch_id (channels r)) \<and>
     (\<forall>c \<in> set (channels r). 0 \<le> ch_unread_count c \<and> 0 \<le> ch_notification_count c)"

definition emojis_ok :: "emojis_result \<Rightarrow> bool" where
  "emojis_ok r \<longleftrightarrow> distinct (map em_id (emojis r))"

definition content_ok :: "query_data \<Rightarrow> bool" where
  "content_ok v =
     (case v of
        PagesData p \<Rightarrow> well_formed_pages p
      | ChannelsData r \<Rightarrow> channels_ok r
      | EmojisData r \<Rightarrow> emojis_ok r
      | _ \<Rightarrow> True)"

definition entry_ok :: "query_key \<Rightarrow> query_data \<Rightarrow> bool" where
  "entry_ok k v \<longleftrightarrow> data_fits k v \<and> content_ok v"

definition cache_ok :: "'qc query_ops \<Rightarrow> 'qc \<Rightarrow> bool" where
  "cache_ok ops = data_inv ops entry_ok"

lemma entry_ok_on_pages:
  assumes "on_pages f (Some v) = Some w" "entry_ok k v"
    and "\<And>p. v = PagesData p \<Longrightarrow> well_formed_pages p \<Longrightarrow> well_formed_pages (f p)"
  shows "entry_ok k w"
  using assms by (cases v) (auto simp: entry_ok_def content_ok_def intro: data_fits_content)

lemma entry_ok_on_channels:
  assumes "on_channels f (Some v) = Some w" "entry_ok k v"
    and "\<And>p. v = ChannelsData p \<Longrightarrow> channels_ok p \<Longrightarrow> channels_ok (f p)"
  shows "entry_ok k w"
  using assms by (cases v) (auto simp: entry_ok_def content_ok_def intro: data_fits_content)

lemma entry_ok_on_emojis:
  assumes "on_emojis f (Some v) = Some w" "entry_ok k v"
    and "\<And>p. v = EmojisData p \<Longrightarrow> emojis_ok p \<Longrightarrow> emojis_ok (f p)"
  shows "entry_ok k w"
  using assms by (cases v) (auto simp: entry_ok_def content_ok_def intro: data_fits_content)

lemma entry_ok_on_auth:
  assumes "on_auth f (Some v) = Some w" "entry_ok k v"
  shows "entry_ok k w"
  using assms by (cases v) (auto simp: entry_ok_def content_ok_def intro: data_fits_content)

context query_client begin

lemma get_ok: "cache_ok ops c \<Longrightarrow> getQueryData ops c k = Some v \<Longrightarrow> entry_ok k v"
  by (simp add: cache_ok_def data_inv_def)

lemma ok_pagesAt: "cache_ok ops c \<Longrightarrow> pagesAt ops c k = Some p \<Longrightarrow> well_formed_pages p"
  by (auto simp: pagesAt_def as_pages_Some entry_ok_def content_ok_def dest: get_ok)

lemma ok_set_pages:
  assumes "cache_ok ops c"
    and "\<And>p. pagesAt ops c k = Some p \<Longrightarrow> well_formed_pages p \<Longrightarrow> well_formed_pages (f p)"
  shows "cache_ok ops (setQueryData ops c k (on_pages f))"
proof -
  have "entry_ok k w" if "on_pages f (getQueryData ops c k) = Some w" for w
  proof (cases "getQueryData ops c k")
    case (Some v)
    with that assms show ?thesis
      by (auto simp: pagesAt_def intro!: entry_ok_on_pages [of f v w k] dest: get_ok)
  qed (use that in simp)
  with assms(1) show ?thesis unfolding cache_ok_def by (intro data_inv_set) auto
qed

lemma ok_sets_pages:
  assumes "cache_ok ops c" and "\<And>p. well_formed_pages p \<Longrightarrow> well_formed_pages (f p)"
  shows "cache_ok ops (setQueriesData ops c p (on_pages f))"
  using assms unfolding cache_ok_def by (auto intro!: data_inv_sets intro: entry_ok_on_pages)

lemma ok_set_channels:
  assumes "cache_ok ops c" and "\<And>p. channels_ok p \<Longrightarrow> channels_ok (f p)"
  shows "cache_ok ops (setQueryData ops c k (on_channels f))"
proof -
  have "entry_ok k w" if "on_channels f (getQueryData ops c k) = Some w" for w
  proof (cases "getQueryData ops c k")
    case (Some v)
    with that assms show ?thesis
      by (auto intro!: entry_ok_on_channels [of f v w k] dest: get_ok)
  qed (use that in simp)
  with assms(1) show ?thesis unfolding cache_ok_def by (intro data_inv_set) auto
qed

lemma ok_set_emojis:
  assumes "cache_ok ops c" and "\<And>p. emojis_ok p \<Longrightarrow> emojis_ok (f p)"
  shows "cache_ok ops (setQueryData ops c k (on_emojis f))"
proof -
  have "entry_ok k w" if "on_emojis f (getQueryData ops c k) = Some w" for w
  proof (cases "getQueryData ops c k")
    case (Some v)
    with that assms show ?thesis
      by (auto intro!: entry_ok_on_emojis [of f v w k] dest: get_ok)
  qed (use that in simp)
  with assms(1) show ?thesis unfolding cache_ok_def by (intro data_inv_set) auto
qed

lemma ok_set_auth:
  assumes "cache_ok ops c"
  shows "cache_ok ops (setQueryData ops c k (on_auth f))"
proof -
  have "entry_ok k w" if "on_auth f (getQueryData ops c k) = Some w" for w
  proof (cases "getQueryData ops c k")
    case (Some v)
    with that assms show ?thesis by (auto intro!: entry_ok_on_auth [of f v w k] dest: get_ok)
  qed (use that in simp)
  with assms show ?thesis unfolding cache_ok_def by (intro data_inv_set) auto
qed

lemma ok_set_const:
  "cache_ok ops c \<Longrightarrow> entry_ok k v \<Longrightarrow> cache_ok ops (setQueryData ops c k (\<lambda>_. Some v))"
  unfolding cache_ok_def by (intro data_inv_set) auto

lemma ok_invalidate: "cache_ok ops c \<Longrightarrow> cache_ok ops (invalidateQueries ops c p)"
  unfolding cache_ok_def by (rule data_inv_invalidate)

lemma ok_cancel: "cache_ok ops c \<Longrightarrow> cache_ok ops (cancelQueries ops c p)"
  unfolding cache_ok_def by (rule data_inv_cancel)

lemma ok_clear: "cache_ok ops (clearQueries ops c)"
  unfolding cache_ok_def by (rule data_inv_clear)

lemmas cache_ok_intros = ok_set_pages ok_sets_pages ok_set_channels ok_set_emojis ok_set_auth
  ok_invalidate ok_cancel

end

section \<open>The page functions of the handlers\<close>

lemma wf_update_where:
  assumes "well_formed_pages p" "\<And>m. msg_id m = mid \<Longrightarrow> msg_id (f m) = msg_id m"
    and "\<And>m. well_formed_message m \<Longrightarrow> well_formed_message (f m)"
  shows "well_formed_pages (updateWhereFound mid f p)"
  unfolding updateWhereFound_eq using assms by (intro wf_map) auto

lemma wf_spread:
  "well_formed_message m \<Longrightarrow> well_formed_message d \<Longrightarrow> well_formed_message (spread_message_with_user m d)"
  by (auto simp: well_formed_message_def spread_message_with_user_def spread_message_def spread_opt_def
    split: option.splits)

lemma channels_ok_map:
  assumes "channels_ok r"
    and "\<And>c. ch_id (f c) = ch_id c"
    and "\<And>c. 0 \<le> ch_unread_count c \<Longrightarrow> 0 \<le> ch_unread_count (f c)"
    and "\<And>c. 0 \<le> ch_notification_count c \<Longrightarrow> 0 \<le> ch_notification_count (f c)"
  shows "channels_ok (r\<lparr>channels := map f (channels r)\<rparr>)"
  using assms by (auto simp: channels_ok_def comp_def)

lemma channels_ok_filter: "channels_ok r \<Longrightarrow> channels_ok (r\<lparr>channels := filter P (channels r)\<rparr>)"
  by (auto simp: channels_ok_def distinct_map_filter)

lemma channels_ok_updates:
  "channels_ok r \<Longrightarrow> channels_ok (incrementUnread cid r)"
  "channels_ok r \<Longrightarrow> channels_ok (incrementNotifications cid r)"
  "channels_ok r \<Longrightarrow> channels_ok (markRead cid lr r)"
  "channels_ok r \<Longrightarrow> channels_ok (removeChannel cid r)"
  unfolding incrementUnread_def incrementNotifications_def markRead_def removeChannel_def
  by (auto intro!: channels_ok_map channels_ok_filter)

lemma channels_ok_addNew: "channels_ok r \<Longrightarrow> channels_ok (addNewChannel d r)"
  by (auto simp: channels_ok_def addNewChannel_def list_ex_iff channel.extend_def)

lemma channels_ok_update: "channels_ok r \<Longrightarrow> channels_ok (updateChannel d r)"
proof -
  assume "channels_ok r"
  then have "channels_ok (r\<lparr>channels := map (\<lambda>c. if ch_id c = ch_id d then spread_channel c d else c) (channels r)\<rparr>)"
    by (rule channels_ok_map) (auto simp: spread_channel_def)
  from channels_ok_filter [OF this] show ?thesis
    unfolding updateChannel_def by simp
qed

lemma emojis_ok_updates:
  "emojis_ok r \<Longrightarrow> emojis_ok (addEmoji lc d r)"
  "emojis_ok r \<Longrightarrow> emojis_ok (removeEmoji eid r)"
  by (auto simp: emojis_ok_def addEmoji_def removeEmoji_def list_ex_iff distinct_map_filter)

section \<open>Every handler keeps the invariant\<close>

context query_client begin

lemma ok_handleNewReply:
  assumes "cache_ok ops c" "well_formed_message d"
  shows "cache_ok ops (handleNewReply ops c ws parent d)"
  unfolding handleNewReply_def Let_def
  using assms by (auto intro!: cache_ok_intros wf_append wf_addToChannel wf_map wf_bumpParent)

lemma ok_countUnread: "cache_ok ops c \<Longrightarrow> cache_ok ops (countUnread ops c ws d)"
  unfolding countUnread_def by (auto intro: cache_ok_intros channels_ok_updates)

lemma ok_handleNewMessage:
  assumes "cache_ok ops c" "well_formed_message d"
  shows "cache_ok ops (fst (handleNewMessage ops c ws d))"
  unfolding handleNewMessage_def Let_def using assms
  by (auto split: option.split intro!: ok_countUnread ok_handleNewReply cache_ok_intros wf_addToChannel)

lemma ok_handleMessageUpdated:
  assumes "cache_ok ops c" "well_formed_message d"
  shows "cache_ok ops (handleMessageUpdated ops c d)"
  unfolding handleMessageUpdated_def using assms
  by (auto intro!: cache_ok_intros wf_update_where wf_spread)

lemma ok_handleMessageDeleted: "cache_ok ops c \<Longrightarrow> cache_ok ops (handleMessageDeleted ops now c d)"
  unfolding handleMessageDeleted_def Let_def
  by (auto split: option.split intro!: cache_ok_intros wf_delete wf_remove wf_map wf_decrement)

lemma ok_handleReaction:
  "cache_ok ops c \<Longrightarrow> cache_ok ops (handleReactionAdded ops c r)"
  "cache_ok ops c \<Longrightarrow> cache_ok ops (handleReactionRemoved ops c rd)"
  unfolding handleReactionAdded_def handleReactionRemoved_def
  by (auto intro!: cache_ok_intros wf_map wf_message_intros)

lemma ok_handleChannel:
  "cache_ok ops c \<Longrightarrow> cache_ok ops (handleChannelCreated ops c ws chn)"
  "cache_ok ops c \<Longrightarrow> cache_ok ops (handleChannelUpdated ops c ws chn)"
  "cache_ok ops c \<Longrightarrow> cache_ok ops (handleChannelArchived ops c ws chn)"
  "cache_ok ops c \<Longrightarrow> cache_ok ops (handleChannelRead ops c ws cr)"
  "cache_ok ops c \<Longrightarrow> cache_ok ops (fst (handleNotification ops c ws n))"
  unfolding handleChannelCreated_def handleChannelUpdated_def handleChannelArchived_def
    handleChannelRead_def handleNotification_def Let_def
  by (auto intro!: cache_ok_intros channels_ok_updates channels_ok_addNew channels_ok_update)

lemma ok_handleEmoji:
  "cache_ok ops c \<Longrightarrow> cache_ok ops (handleEmojiCreated ops lc c ws e)"
  "cache_ok ops c \<Longrightarrow> cache_ok ops (handleEmojiDeleted ops c ws ed)"
  unfolding handleEmojiCreated_def handleEmojiDeleted_def
  by (auto intro!: cache_ok_intros emojis_ok_updates)

lemma ok_handlePins:
  "cache_ok ops c \<Longrightarrow> cache_ok ops (handleMessagePinned ops c d)"
  "cache_ok ops c \<Longrightarrow> cache_ok ops (handleMessageUnpinned ops c d)"
  unfolding handleMessagePinned_def handleMessageUnpinned_def Let_def
  by (auto intro!: cache_ok_intros wf_update_where simp: setPin_def well_formed_message_def)

lemma ok_handleMembers:
  "cache_ok ops c \<Longrightarrow> cache_ok ops (handleMemberAdded ops c ws cm)"
  "cache_ok ops c \<Longrightarrow> cache_ok ops (handleMemberRemoved ops c ws cm)"
  "cache_ok ops c \<Longrightarrow> cache_ok ops (handleMemberBanned ops c ws wm)"
  "cache_ok ops c \<Longrightarrow> cache_ok ops (fst (handleMemberUnbanned ops c ws wm))"
  "cache_ok ops c \<Longrightarrow> cache_ok ops (handleMemberLeft ops c ws)"
  "cache_ok ops c \<Longrightarrow> cache_ok ops (handleMemberRoleChanged ops c ws mr)"
  unfolding handleMemberAdded_def handleMemberRemoved_def handleMemberBanned_def
    handleMemberUnbanned_def handleMemberLeft_def handleMemberRoleChanged_def Let_def
  by (auto intro!: ok_invalidate)

lemma ok_handleInvalidations:
  "cache_ok ops c \<Longrightarrow> cache_ok ops (handleChannelsInvalidate ops c ws)"
  "cache_ok ops c \<Longrightarrow> cache_ok ops (handleWorkspaceUpdated ops c ws)"
  "cache_ok ops c \<Longrightarrow> cache_ok ops (handleScheduledMessageChange ops c ws)"
  "cache_ok ops c \<Longrightarrow> cache_ok ops (handleScheduledMessageSent ops c ws sm)"
  unfolding handleChannelsInvalidate_def handleWorkspaceUpdated_def
    handleScheduledMessageChange_def handleScheduledMessageSent_def Let_def
  by (auto intro!: ok_invalidate)

lemmas handlers_ok = ok_handleNewMessage ok_handleMessageUpdated ok_handleMessageDeleted
  ok_handleReaction ok_handleChannel ok_handleEmoji ok_handlePins ok_handleMembers
  ok_handleInvalidations

end

end
