(* ===== verification/MessageMutations.thy ===== *)
theory MessageMutations
  imports CacheInvariant
begin

text \<open>
  The message hooks of \<open>packages/shared/src/hooks/useMessages.ts\<close>: the page parameters of
  the two infinite queries, and the callbacks of each mutation (\<open>onMutate\<close>, \<open>onSuccess\<close>,
  \<open>onError\<close>, \<open>onSettled\<close>) as functions on the query client. The server call between
  them is outside the model: \<open>onSuccess\<close> takes its result as an argument.

  The locale \<open>optimistic\<close> is the contract of the optimistic mutations: \<open>onMutate\<close> takes a
  snapshot of one entry and writes that entry only, \<open>onError\<close> puts the snapshot back. Its
  lemmas say what a rollback restores, and what it overwrites.
\<close>

section \<open>Pagination\<close>

definition PAGE_SIZE :: nat where
  "PAGE_SIZE = 50"

definition getNextPageParam :: "message_list_result \<Rightarrow> page_param option" where
  "getNextPageParam lastPage =
     (if has_more lastPage
      then Some \<lparr>pp_cursor = next_cursor lastPage, pp_direction = Before\<rparr>
      else None)"

text \<open>"after" pages are ASC (oldest first), "before" and "around" pages DESC (newest first).\<close>

definition newestId :: "message_list_result \<Rightarrow> page_param \<Rightarrow> jsstring option" where
  "newestId firstPage param =
     (if pp_direction param = After
      then (if messages firstPage = [] then None else Some (msg_id (last (messages firstPage))))
      else (if messages firstPage = [] then None else Some (msg_id (hd (messages firstPage)))))"

definition getPreviousPageParam :: "message_list_result \<Rightarrow> page_param \<Rightarrow> page_param option" where
  "getPreviousPageParam firstPage param =
     (let newest = newestId firstPage param
      in if \<not> truthy newest then None
         else if has_newer firstPage = Some True
           then Some \<lparr>pp_cursor = newest, pp_direction = After\<rparr>
         else if pp_direction param = After \<and> has_more firstPage
           then Some \<lparr>pp_cursor = newest, pp_direction = After\<rparr>
         else if truthy (pp_cursor param) \<and> pp_direction param = Before
           then Some \<lparr>pp_cursor = newest, pp_direction = After\<rparr>
         else None)"

definition initialPageParam :: "jsstring option \<Rightarrow> page_param" where
  "initialPageParam aroundMessageId =
     (if truthy aroundMessageId
      then \<lparr>pp_cursor = aroundMessageId, pp_direction = Around\<rparr>
      else \<lparr>pp_cursor = None, pp_direction = Before\<rparr>)"

definition getNextThreadCursor :: "message_list_result \<Rightarrow> jsstring option" where
  "getNextThreadCursor lastPage = (if has_more lastPage then next_cursor lastPage else None)"

section \<open>Sending\<close>

definition useSendMessage_onSuccess ::
    "'qc query_ops \<Rightarrow> jsstring \<Rightarrow> 'qc \<Rightarrow> message_with_user \<Rightarrow> 'qc" where
  "useSendMessage_onSuccess ops channelId c m =
     setQueryData ops c (messageKeys_list channelId) (on_pages (addToChannel m))"

definition useSendThreadReply_onSuccess ::
    "'qc query_ops \<Rightarrow> jsstring \<Rightarrow> jsstring \<Rightarrow> 'qc \<Rightarrow> message_with_user \<Rightarrow> 'qc" where
  "useSendThreadReply_onSuccess ops parentMessageId channelId c m =
     (let c1 = invalidateQueries ops c (threadKeys_subscription parentMessageId);
          alreadyInCache = (case pagesAt ops c1 (threadKeys_detail parentMessageId) of
            None \<Rightarrow> False | Some p \<Rightarrow> hasMessage p (msg_id m));
          c2 = (if \<not> alreadyInCache
                then setQueryData ops c1 (threadKeys_detail parentMessageId) (on_pages (appendToLastPage m))
                else c1);
          c3 = (if msg_also_send_to_channel m = Some True
                then setQueryData ops c2 (messageKeys_list channelId) (on_pages (addToChannel m))
                else c2)
      in setQueryData ops c3 (messageKeys_list channelId)
           (on_pages (mapMessages (bumpParent parentMessageId alreadyInCache m))))"

section \<open>Editing\<close>

definition useUpdateMessage_onSuccess ::
    "'qc query_ops \<Rightarrow> jsstring \<Rightarrow> 'qc \<Rightarrow> message_with_user \<Rightarrow> 'qc" where
  "useUpdateMessage_onSuccess ops messageId c new =
     setQueriesData ops c messageKeys_all
       (on_pages (mapMessages (\<lambda>m. if msg_id m = messageId then new else m)))"

definition clearLinkPreview :: "jsstring \<Rightarrow> message_pages \<Rightarrow> message_pages" where
  "clearLinkPreview messageId p =
     (let hit = (\<lambda>page. list_ex (\<lambda>m. msg_id m = messageId \<and> msg_link_preview m \<noteq> None) (messages page));
          newPages = map (\<lambda>page. if \<not> hit page then page
            else page\<lparr>messages := map (\<lambda>m. if msg_id m = messageId then m\<lparr>msg_link_preview := None\<rparr> else m)
              (messages page)\<rparr>) (pages p)
      in if list_ex hit (pages p) then p\<lparr>pages := newPages\<rparr> else p)"

definition useDeleteLinkPreview_onMutate ::
    "'qc query_ops \<Rightarrow> jsstring \<Rightarrow> 'qc \<Rightarrow> 'qc \<times> (query_key \<times> query_data option) list" where
  "useDeleteLinkPreview_onMutate ops messageId c =
     (let c1 = cancelQueries ops c messageKeys_all;
          previousData = getQueriesData ops c1 messageKeys_all
      in (setQueriesData ops c1 messageKeys_all (on_pages (clearLinkPreview messageId)), previousData))"

definition useDeleteLinkPreview_onError ::
    "'qc query_ops \<Rightarrow> 'qc \<Rightarrow> (query_key \<times> query_data option) list \<Rightarrow> 'qc" where
  "useDeleteLinkPreview_onError ops c previousData =
     foldl (\<lambda>c (key, d). setQueryData ops c key (\<lambda>_. d)) c previousData"

definition useDeleteLinkPreview_onSettled :: "'qc query_ops \<Rightarrow> 'qc \<Rightarrow> 'qc" where
  "useDeleteLinkPreview_onSettled ops c = invalidateQueries ops c messageKeys_all"

section \<open>Deleting\<close>

text \<open>The first thread page that holds the message with a thread parent.\<close>

fun findInPages :: "jsstring \<Rightarrow> message_list_result list \<Rightarrow> jsstring option" where
  "findInPages mid [] = None"
| "findInPages mid (page # rest) =
     (case find (\<lambda>m. msg_id m = mid) (messages page) of
        Some found \<Rightarrow>
          if truthy (msg_thread_parent_id found) then msg_thread_parent_id found
          else findInPages mid rest
      | None \<Rightarrow> findInPages mid rest)"

fun findThreadParent :: "jsstring \<Rightarrow> (query_key \<times> query_data option) list \<Rightarrow> jsstring option" where
  "findThreadParent mid [] = None"
| "findThreadParent mid ((k, d) # rest) =
     (case as_pages d of
        None \<Rightarrow> findThreadParent mid rest
      | Some p \<Rightarrow>
          (case findInPages mid (pages p) of
             Some t \<Rightarrow> Some t
           | None \<Rightarrow> findThreadParent mid rest))"

text \<open>
  The updater of the channel lists assigns \<open>threadParentId\<close> on the way when it is still
  unset, message by message in the order of the entries.
\<close>

definition noteThreadParent ::
    "jsstring \<Rightarrow> jsstring option \<Rightarrow> (query_key \<times> query_data option) list \<Rightarrow> jsstring option" where
  "noteThreadParent mid start qs =
     foldl (\<lambda>t m. if truthy t then t else msg_thread_parent_id m) start
       (filter (\<lambda>m. msg_id m = mid)
         (concat (map (\<lambda>(k, d). case as_pages d of None \<Rightarrow> [] | Some p \<Rightarrow> allMessages p) qs)))"

definition useDeleteMessage_onSuccess ::
    "'qc query_ops \<Rightarrow> jsstring \<Rightarrow> 'qc \<Rightarrow> jsstring \<Rightarrow> 'qc" where
  "useDeleteMessage_onSuccess ops now c messageId =
     (let inThreads = findThreadParent messageId (getQueriesData ops c threadKeys_all);
          threadParentId = noteThreadParent messageId inThreads (getQueriesData ops c messageKeys_all);
          c1 = setQueriesData ops c messageKeys_all (on_pages (deleteFromChannel now messageId));
          c2 = setQueriesData ops c1 threadKeys_all (on_pages (removeFromThread messageId))
      in (case threadParentId of
            Some t \<Rightarrow>
              if t \<noteq> [] then setQueriesData ops c2 messageKeys_all
                (on_pages (mapMessages (decrementReplies t)))
              else c2
          | None \<Rightarrow> c2))"

section \<open>Reactions\<close>

definition addTempReaction ::
    "jsstring \<Rightarrow> jsstring \<Rightarrow> jsstring \<Rightarrow> jsstring \<Rightarrow> message_with_user \<Rightarrow> message_with_user" where
  "addTempReaction now messageId userId emoji m =
     (if msg_id m \<noteq> messageId then m
      else let reactions = or_empty (msg_reactions m)
        in if list_ex (sameReaction (Some userId) emoji) reactions then m
           else m\<lparr>msg_reactions := Some (reactions @
             [\<lparr>rc_id = js ''temp'', rc_message_id = messageId, rc_user_id = userId,
               rc_emoji = emoji, rc_created_at = now\<rparr>])\<rparr>)"

definition useAddReaction_onMutate ::
    "'qc query_ops \<Rightarrow> jsstring \<Rightarrow> jsstring \<Rightarrow> jsstring \<Rightarrow> jsstring \<Rightarrow> 'qc \<Rightarrow> 'qc \<times> query_data option" where
  "useAddReaction_onMutate ops channelId now messageId emoji c =
     (let c1 = cancelQueries ops c (messageKeys_list channelId);
          previousData = getQueryData ops c1 (messageKeys_list channelId);
          userId = or_else (currentUserId ops c1) (js ''temp'')
      in (setQueryData ops c1 (messageKeys_list channelId)
            (on_pages (mapMessages (addTempReaction now messageId userId emoji))), previousData))"

definition useRemoveReaction_onMutate ::
    "'qc query_ops \<Rightarrow> jsstring \<Rightarrow> jsstring \<Rightarrow> jsstring \<Rightarrow> 'qc \<Rightarrow> 'qc \<times> query_data option" where
  "useRemoveReaction_onMutate ops channelId messageId emoji c =
     (let c1 = cancelQueries ops c (messageKeys_list channelId);
          previousData = getQueryData ops c1 (messageKeys_list channelId);
          userId = currentUserId ops c1
      in (setQueryData ops c1 (messageKeys_list channelId)
            (on_pages (mapMessages (dropReaction messageId userId emoji))), previousData))"

text \<open>\<open>if (context?.previousData) queryClient.setQueryData(key, context.previousData)\<close>\<close>

definition useAddReaction_onError ::
    "'qc query_ops \<Rightarrow> jsstring \<Rightarrow> 'qc \<Rightarrow> query_data option \<Rightarrow> 'qc" where
  "useAddReaction_onError ops channelId c previousData =
     (case previousData of
        None \<Rightarrow> c
      | Some d \<Rightarrow> setQueryData ops c (messageKeys_list channelId) (\<lambda>_. Some d))"

definition useRemoveReaction_onError ::
    "'qc query_ops \<Rightarrow> jsstring \<Rightarrow> 'qc \<Rightarrow> query_data option \<Rightarrow> 'qc" where
  "useRemoveReaction_onError ops channelId c previousData =
     (case previousData of
        None \<Rightarrow> c
      | Some d \<Rightarrow> setQueryData ops c (messageKeys_list channelId) (\<lambda>_. Some d))"

definition useMarkMessageUnread_onSuccess :: "'qc query_ops \<Rightarrow> jsstring \<Rightarrow> 'qc \<Rightarrow> 'qc" where
  "useMarkMessageUnread_onSuccess ops workspaceId c =
     invalidateQueries ops c (channelKeys_list workspaceId)"

section \<open>The contract of optimistic mutations\<close>

locale optimistic = query_client ops for ops :: "'qc query_ops" +
  fixes key :: query_key
    and onMutate :: "'qc \<Rightarrow> 'qc \<times> query_data option"
    and onError :: "'qc \<Rightarrow> query_data option \<Rightarrow> 'qc"
  assumes snapshot: "snd (onMutate c) = getQueryData ops c key"
    and mutate_frame: "k \<noteq> key \<Longrightarrow> getQueryData ops (fst (onMutate c)) k = getQueryData ops c k"
    and error_none: "onError c None = c"
    and error_some:
      "getQueryData ops (onError c (Some d)) k = (if k = key then Some d else getQueryData ops c k)"
begin

text \<open>A failed mutation leaves every entry as it was before, if the entry was cached.\<close>

lemma rollback:
  "getQueryData ops c key \<noteq> None \<Longrightarrow>
     getQueryData ops (onError (fst (onMutate c)) (snd (onMutate c))) k = getQueryData ops c k"
  by (auto simp: snapshot mutate_frame error_some)

text \<open>
  The snapshot goes back whatever happened to the entry in between: an update \<open>g\<close> that
  arrived while the request was under way is lost for this entry.
\<close>

lemma rollback_overwrites:
  "getQueryData ops c key = Some d \<Longrightarrow>
     getQueryData ops (onError (g (fst (onMutate c))) (snd (onMutate c))) key = Some d"
  by (simp add: snapshot error_some)

end

sublocale query_client \<subseteq> add_reaction: optimistic ops "messageKeys_list channelId"
    "useAddReaction_onMutate ops channelId now messageId emoji"
    "useAddReaction_onError ops channelId" for channelId now messageId emoji
  by unfold_locales (auto simp: useAddReaction_onMutate_def useAddReaction_onError_def Let_def)

sublocale query_client \<subseteq> remove_reaction: optimistic ops "messageKeys_list channelId"
    "useRemoveReaction_onMutate ops channelId messageId emoji"
    "useRemoveReaction_onError ops channelId" for channelId messageId emoji
  by unfold_locales (auto simp: useRemoveReaction_onMutate_def useRemoveReaction_onError_def Let_def)

end
