(* ===== verification/MessageDelivery.thy ===== *)
theory MessageDelivery
  imports MessageMutations
begin

text \<open>
  What the message handlers and the message mutations do to the cached lists, and how they
  fit together. A message the user sends reaches the cache twice: in the response of the
  request and as an SSE event, in either order; the same holds for a deletion and for a
  reaction. The lemmas give the value of every entry after a handler, and the properties
  say that the second arrival changes nothing, under which condition, and what happens
  where the code's check for the first arrival cannot work.
\<close>

section \<open>Single updates, applied twice\<close>

lemma on_pages_comp [simp]: "on_pages f (on_pages g d) = on_pages (f \<circ> g) d"
  by (cases "(g, d)" rule: on_pages.cases) auto

lemma on_pages_cong: "(\<And>p. d = Some (PagesData p) \<Longrightarrow> f p = g p) \<Longrightarrow> on_pages f d = on_pages g d"
  by (cases "(f, d)" rule: on_pages.cases) auto

lemma addToChannel_after_map:
  "(\<And>m. msg_id (f m) = msg_id m) \<Longrightarrow>
     addToChannel m (mapMessages f (addToChannel m p)) = mapMessages f (addToChannel m p)"
proof (cases "pages p = []")
  case True
  then have "addToChannel m q = q" if "pages q = []" for q
    using that by (simp add: addToChannel_def prependToFirstPage_def)
  with True show ?thesis by simp
next
  case False
  moreover assume "\<And>m. msg_id (f m) = msg_id m"
  ultimately have "hasMessage (mapMessages f (addToChannel m p)) (msg_id m)"
    by (simp add: hasMessage_addToChannel)
  then show ?thesis by (simp add: addToChannel_def [of m "mapMessages f (addToChannel m p)"])
qed

lemma withParticipant_idem [simp]: "withParticipant d (withParticipant d ps) = withParticipant d ps"
  by (auto simp: withParticipant_def split: option.splits)

lemma bumpParent_again [simp]:
  "bumpParent parent True d (bumpParent parent b d m) = bumpParent parent b d m"
  by (simp add: bumpParent_def)

lemma bumpParent_again_comp [simp]:
  "bumpParent parent True d \<circ> bumpParent parent b d = bumpParent parent b d"
  by (simp add: fun_eq_iff)

lemma map_replace_absent: "\<not> list_ex P rs \<Longrightarrow> map (\<lambda>r. if P r then d else r) rs = rs"
  by (induction rs) auto

lemma putReaction_temp:
  assumes "rc_message_id r = mid" "rc_user_id r = u" "rc_emoji r = e"
  shows "putReaction r (addTempReaction now mid u e m) = putReaction r m"
proof (cases "msg_id m = mid \<and> \<not> list_ex (sameReaction (Some u) e) (or_empty (msg_reactions m))")
  case True
  then show ?thesis
    using assms
    by (simp add: putReaction_def addTempReaction_def sameReaction_def [of "Some u" e "reaction.make _ _ _ _ _"]
        map_replace_absent Let_def) (simp add: sameReaction_def)
next
  case False
  then have "addTempReaction now mid u e m = m"
    by (auto simp: addTempReaction_def Let_def)
  then show ?thesis by simp
qed

lemma filter_replace: "P d \<Longrightarrow> filter (\<lambda>r. \<not> P r) (map (\<lambda>r. if P r then d else r) rs) = filter (\<lambda>r. \<not> P r) rs"
  by (induction rs) auto

lemma dropReaction_put:
  assumes "rc_message_id r = mid" "rc_user_id r = u" "rc_emoji r = e"
  shows "dropReaction mid (Some u) e (putReaction r m) = dropReaction mid (Some u) e m"
proof -
  have "sameReaction (Some u) e r" using assms by (simp add: sameReaction_def)
  with assms show ?thesis
    by (simp add: putReaction_def dropReaction_def Let_def filter_replace)
qed

section \<open>Entries after a new message\<close>

text \<open>What the unread counter does to an entry.\<close>

definition countsAsUnread :: "'qc query_ops \<Rightarrow> 'qc \<Rightarrow> message_with_user \<Rightarrow> bool" where
  "countsAsUnread ops c d \<longleftrightarrow>
     (\<not> truthy (msg_thread_parent_id d) \<or> msg_also_send_to_channel d = Some True) \<and>
     msg_user_id d \<noteq> currentUserId ops c"

text \<open>The thread cache already holds the reply.\<close>

definition inThread :: "'qc query_ops \<Rightarrow> 'qc \<Rightarrow> jsstring \<Rightarrow> jsstring \<Rightarrow> bool" where
  "inThread ops c parent mid =
     (case pagesAt ops c (threadKeys_detail parent) of None \<Rightarrow> False | Some p \<Rightarrow> hasMessage p mid)"

lemma truthy_iff: "truthy a \<longleftrightarrow> (\<exists>s. a = Some s \<and> s \<noteq> [])"
  by (cases a) auto

context query_client begin

lemma get_countUnread:
  "getQueryData ops (countUnread ops c ws d) k =
     (if k = channelKeys_list ws \<and> countsAsUnread ops c d
      then on_channels (incrementUnread (msg_channel_id d)) (getQueryData ops c k)
      else getQueryData ops c k)"
  by (auto simp: countUnread_def countsAsUnread_def)

lemma currentUserId_newReply [simp]:
  "currentUserId ops (handleNewReply ops c ws parent d) = currentUserId ops c"
  by (simp add: handleNewReply_def Let_def)

lemma get_newReply:
  "getQueryData ops (handleNewReply ops c ws parent d) k =
     (if k = threadKeys_detail parent
      then (if inThread ops c parent (msg_id d) then getQueryData ops c k
            else on_pages (appendToLastPage d) (getQueryData ops c k))
      else if k = messageKeys_list (msg_channel_id d)
      then on_pages (mapMessages (bumpParent parent (inThread ops c parent (msg_id d)) d) \<circ>
             (if msg_also_send_to_channel d = Some True then addToChannel d else id))
             (getQueryData ops c k)
      else getQueryData ops c k)"
  by (auto simp: handleNewReply_def inThread_def Let_def split: option.splits)

lemma get_newMessage_top:
  "\<not> truthy (msg_thread_parent_id d) \<Longrightarrow>
   getQueryData ops (fst (handleNewMessage ops c ws d)) k =
     (if k = messageKeys_list (msg_channel_id d) then on_pages (addToChannel d) (getQueryData ops c k)
      else if k = channelKeys_list ws \<and> countsAsUnread ops c d
      then on_channels (incrementUnread (msg_channel_id d)) (getQueryData ops c k)
      else getQueryData ops c k)"
  by (cases "msg_thread_parent_id d")
    (auto simp: handleNewMessage_def Let_def get_countUnread countsAsUnread_def)

lemma get_newMessage_reply:
  "msg_thread_parent_id d = Some parent \<Longrightarrow> parent \<noteq> [] \<Longrightarrow>
   getQueryData ops (fst (handleNewMessage ops c ws d)) k =
     (if k = channelKeys_list ws \<and> countsAsUnread ops c d
      then on_channels (incrementUnread (msg_channel_id d)) (getQueryData ops c k)
      else getQueryData ops (handleNewReply ops c ws parent d) k)"
  by (auto simp: handleNewMessage_def get_countUnread countsAsUnread_def get_newReply)

lemma get_sendReply:
  "getQueryData ops (useSendThreadReply_onSuccess ops parent chan c d) k =
     (if k = threadKeys_detail parent
      then (if inThread ops c parent (msg_id d) then getQueryData ops c k
            else on_pages (appendToLastPage d) (getQueryData ops c k))
      else if k = messageKeys_list chan
      then on_pages (mapMessages (bumpParent parent (inThread ops c parent (msg_id d)) d) \<circ>
             (if msg_also_send_to_channel d = Some True then addToChannel d else id))
             (getQueryData ops c k)
      else getQueryData ops c k)"
  by (auto simp: useSendThreadReply_onSuccess_def inThread_def Let_def split: option.splits)

lemma currentUserId_send [simp]:
  "currentUserId ops (useSendMessage_onSuccess ops chan c d) = currentUserId ops c"
  "currentUserId ops (useSendThreadReply_onSuccess ops parent chan c d) = currentUserId ops c"
  by (simp_all add: useSendMessage_onSuccess_def useSendThreadReply_onSuccess_def Let_def)

lemma addToChannel_comp_idem [simp]: "addToChannel d \<circ> addToChannel d = addToChannel d"
  by (simp add: fun_eq_iff)

text \<open>Sending a message and hearing of it: the second arrival changes nothing.\<close>

lemma send_then_event_data:
  assumes "\<not> truthy (msg_thread_parent_id d)"
  shows "getQueryData ops (fst (handleNewMessage ops
      (useSendMessage_onSuccess ops (msg_channel_id d) c d) ws d)) k =
    getQueryData ops (fst (handleNewMessage ops c ws d)) k"
  using assms by (auto simp: get_newMessage_top countsAsUnread_def useSendMessage_onSuccess_def)

lemma event_then_send_data:
  assumes "\<not> truthy (msg_thread_parent_id d)"
  shows "getQueryData ops (useSendMessage_onSuccess ops (msg_channel_id d)
      (fst (handleNewMessage ops c ws d)) d) k =
    getQueryData ops (fst (handleNewMessage ops c ws d)) k"
  using assms by (auto simp: get_newMessage_top useSendMessage_onSuccess_def)

text \<open>The combined channel update of a reply, and its second application.\<close>

lemma reply_update_again:
  "(mapMessages (bumpParent parent True d) \<circ>
      (if also then addToChannel d else id)) \<circ>
   (mapMessages (bumpParent parent b d) \<circ> (if also then addToChannel d else id)) =
   mapMessages (bumpParent parent b d) \<circ> (if also then addToChannel d else id)"
  by (auto simp: fun_eq_iff addToChannel_after_map)

lemma inThread_appended:
  assumes "pagesAt ops c (threadKeys_detail parent) = Some t" "pages t \<noteq> []"
    and "getQueryData ops c' (threadKeys_detail parent) =
      (if inThread ops c parent mid then getQueryData ops c (threadKeys_detail parent)
       else on_pages (appendToLastPage d) (getQueryData ops c (threadKeys_detail parent)))"
    and "msg_id d = mid"
  shows "inThread ops c' parent mid"
  using assms by (auto simp: inThread_def pagesAt_def hasMessage_append split: if_splits)

lemma reply_then_event_data:
  assumes "msg_thread_parent_id d = Some parent" "parent \<noteq> []"
    and "pagesAt ops c (threadKeys_detail parent) = Some t" "pages t \<noteq> []"
  shows "getQueryData ops (fst (handleNewMessage ops
      (useSendThreadReply_onSuccess ops parent (msg_channel_id d) c d) ws d)) k =
    getQueryData ops (fst (handleNewMessage ops c ws d)) k"
proof -
  let ?c = "useSendThreadReply_onSuccess ops parent (msg_channel_id d) c d"
  have "inThread ops ?c parent (msg_id d)"
    by (rule inThread_appended [OF assms(3,4)]) (simp_all add: get_sendReply)
  then show ?thesis
    using assms(1,2)
    by (simp add: get_newMessage_reply get_newReply get_sendReply countsAsUnread_def
      reply_update_again del: comp_apply)
qed

lemma event_then_reply_data:
  assumes "msg_thread_parent_id d = Some parent" "parent \<noteq> []"
    and "pagesAt ops c (threadKeys_detail parent) = Some t" "pages t \<noteq> []"
  shows "getQueryData ops (useSendThreadReply_onSuccess ops parent (msg_channel_id d)
      (fst (handleNewMessage ops c ws d)) d) k =
    getQueryData ops (fst (handleNewMessage ops c ws d)) k"
proof -
  let ?c = "fst (handleNewMessage ops c ws d)"
  have "inThread ops ?c parent (msg_id d)"
    by (rule inThread_appended [OF assms(3,4)]) (simp_all add: get_newMessage_reply get_newReply assms)
  then show ?thesis
    using assms(1,2)
    by (simp add: get_newMessage_reply get_newReply get_sendReply reply_update_again del: comp_apply)
qed

end

end
