(* ===== verification/MessageDeletion.thy ===== *)
theory MessageDeletion
  imports MessageDelivery
begin

text \<open>
  Deleting a message: the SSE handler \<open>handleMessageDeleted\<close>, the mutation
  \<open>useDeleteMessage\<close>, and the two after each other. Both remove the message from every
  cached list (or leave a placeholder when it has replies) and take one off the reply count
  of the thread parent; the handler tells from the thread's cache whether the mutation did
  so already.
\<close>

section \<open>Lists of messages\<close>

text \<open>What the reply counters are about: the ids and counts of a list.\<close>

definition counts :: "message_with_user list \<Rightarrow> (jsstring \<times> int) list" where
  "counts ms = map (\<lambda>m. (msg_id m, msg_reply_count m)) ms"

lemma counts_delete_again:
  "parent \<noteq> mid \<Longrightarrow>
   counts (List.map_filter (deleteOrMark now2 mid)
      (map (decrementReplies parent) (List.map_filter (deleteOrMark now mid) ms))) =
   counts (map (decrementReplies parent) (List.map_filter (deleteOrMark now mid) ms))"
  by (induction ms)
    (auto simp: counts_def List.map_filter_simps deleteOrMark_def decrementReplies_def split: option.splits)

lemma counts_map_decrement:
  "counts ms = counts ms' \<Longrightarrow>
     counts (map (decrementReplies parent) ms) = counts (map (decrementReplies parent) ms')"
proof -
  have "counts (map (decrementReplies parent) ms) =
      map (\<lambda>(i, n). (i, if i = parent then max (n - 1) 0 else n)) (counts ms)" for ms
    by (simp add: counts_def decrementReplies_def comp_def)
  then show "counts ms = counts ms' \<Longrightarrow> ?thesis" by simp
qed

text \<open>The ids that survive a deletion.\<close>

lemma delete_ids:
  "map msg_id (List.map_filter (deleteOrMark now mid) ms) =
     map msg_id (filter (\<lambda>m. msg_id m = mid \<longrightarrow> 0 < msg_reply_count m) ms)"
  by (induction ms) (auto simp: List.map_filter_simps deleteOrMark_def split: option.splits)

section \<open>Which thread the deleted message belongs to\<close>

text \<open>Every cached copy of the message names the same thread parent.\<close>

definition copies_in_thread :: "'qc query_ops \<Rightarrow> 'qc \<Rightarrow> jsstring \<Rightarrow> jsstring \<Rightarrow> bool" where
  "copies_in_thread ops c mid parent \<longleftrightarrow>
     (\<forall>k p m. pagesAt ops c k = Some p \<longrightarrow> m \<in> set (allMessages p) \<longrightarrow> msg_id m = mid \<longrightarrow>
        msg_thread_parent_id m = Some parent)"

lemma findInPages_Some:
  assumes "parent \<noteq> []" "\<And>page m. page \<in> set ps \<Longrightarrow> m \<in> set (messages page) \<Longrightarrow> msg_id m = mid \<Longrightarrow>
      msg_thread_parent_id m = Some parent"
  shows "findInPages mid ps =
    (if list_ex (\<lambda>page. pageHas page mid) ps then Some parent else None)"
  using assms(2)
proof (induction ps)
  case (Cons page ps)
  show ?case
  proof (cases "find (\<lambda>m. msg_id m = mid) (messages page)")
    case None
    then have no: "\<not> pageHas page mid" by (auto simp: find_None_iff pageHas_iff)
    have IH: "findInPages mid ps = (if list_ex (\<lambda>page. pageHas page mid) ps then Some parent else None)"
      by (rule Cons.IH) (use Cons.prems in auto)
    show ?thesis by (simp add: None no IH)
  next
    case (Some m)
    then have "m \<in> set (messages page)" "msg_id m = mid"
      by (auto simp: find_Some_iff)
    then have "msg_thread_parent_id m = Some parent" by (intro Cons.prems [of page m]) auto
    moreover have "pageHas page mid"
      using \<open>m \<in> set (messages page)\<close> \<open>msg_id m = mid\<close> by (auto simp: pageHas_iff)
    ultimately show ?thesis using Some assms(1) by simp
  qed
qed simp

lemma findThreadParent_Some:
  assumes "parent \<noteq> []"
    and "\<And>k d p m. (k, d) \<in> set qs \<Longrightarrow> as_pages d = Some p \<Longrightarrow> m \<in> set (allMessages p) \<Longrightarrow>
      msg_id m = mid \<Longrightarrow> msg_thread_parent_id m = Some parent"
  shows "findThreadParent mid qs =
    (if \<exists>(k, d) \<in> set qs. \<exists>p. as_pages d = Some p \<and> hasMessage p mid then Some parent else None)"
  using assms(2)
proof (induction qs)
  case (Cons q qs)
  obtain k d where q: "q = (k, d)" by force
  have IH: "findThreadParent mid qs = (if \<exists>(k, d) \<in> set qs. \<exists>p. as_pages d = Some p \<and> hasMessage p mid
      then Some parent else None)"
    by (rule Cons.IH) (use Cons.prems in auto)
  show ?case
  proof (cases "as_pages d")
    case None
    with IH q show ?thesis by simp
  next
    case (Some p)
    have "findInPages mid (pages p) = (if hasMessage p mid then Some parent else None)"
      unfolding hasMessage_def
      by (rule findInPages_Some [OF assms(1)], rule Cons.prems [of k d p])
        (use Some q in \<open>auto simp: allMessages_def\<close>)
    with Some IH q show ?thesis by auto
  qed
qed simp

lemma foldl_truthy: "truthy t \<Longrightarrow> foldl (\<lambda>t m. if truthy t then t else f m) t ms = t"
  by (induction ms) auto

lemma noteThreadParent_set:
  "parent \<noteq> [] \<Longrightarrow> noteThreadParent mid (Some parent) qs = Some parent"
  by (simp add: noteThreadParent_def foldl_truthy)

lemma foldl_same:
  "parent \<noteq> [] \<Longrightarrow> (\<And>m. m \<in> set ms \<Longrightarrow> f m = Some parent) \<Longrightarrow>
     foldl (\<lambda>t m. if truthy t then t else f m) None ms = (if ms = [] then None else Some parent)"
  by (cases ms) (auto simp: foldl_truthy)

section \<open>Entries after a deletion\<close>

lemma families_apart: "key_matches messageKeys_all k \<Longrightarrow> \<not> key_matches threadKeys_all k"
  by (auto simp: key_defs)

text \<open>Whether, and from which parent, one reply is taken off.\<close>

definition deletionParent :: "jsstring option \<Rightarrow> bool \<Rightarrow> message_pages \<Rightarrow> message_pages" where
  "deletionParent tp handled =
     (case tp of
        Some parent \<Rightarrow> if parent \<noteq> [] \<and> \<not> handled then mapMessages (decrementReplies parent) else id
      | None \<Rightarrow> id)"

context query_client begin

lemma get_messageDeleted:
  "getQueryData ops (handleMessageDeleted ops now c d) k =
     (if key_matches messageKeys_all k
      then on_pages (deletionParent (md_thread_parent_id d) (deleteHandled ops c d) \<circ>
             deleteFromChannel now (md_id d)) (getQueryData ops c k)
      else if key_matches threadKeys_all k
      then on_pages (removeFromThread (md_id d)) (getQueryData ops c k)
      else getQueryData ops c k)"
  using families_apart [of k]
  by (auto simp: handleMessageDeleted_def deletionParent_def Let_def split: option.split)

lemma get_localDelete:
  "getQueryData ops (useDeleteMessage_onSuccess ops now c mid) k =
     (if key_matches messageKeys_all k
      then on_pages (deletionParent (noteThreadParent mid
               (findThreadParent mid (getQueriesData ops c threadKeys_all))
               (getQueriesData ops c messageKeys_all)) False \<circ>
             deleteFromChannel now mid) (getQueryData ops c k)
      else if key_matches threadKeys_all k
      then on_pages (removeFromThread mid) (getQueryData ops c k)
      else getQueryData ops c k)"
  using families_apart [of k]
  by (auto simp: useDeleteMessage_onSuccess_def deletionParent_def Let_def split: option.split)

lemma queries_copies:
  assumes "copies_in_thread ops c mid parent" "(k, d) \<in> set (getQueriesData ops c pre)"
    and "as_pages d = Some p" "m \<in> set (allMessages p)" "msg_id m = mid"
  shows "msg_thread_parent_id m = Some parent"
proof -
  from assms(3) have d: "d = Some (PagesData p)" by (simp add: as_pages_Some)
  with assms(2) have "pagesAt ops c k = Some p"
    using queries_data by (simp add: pagesAt_def)
  with assms show ?thesis unfolding copies_in_thread_def by blast
qed

text \<open>With a copy in the thread's cache, the mutation finds the parent.\<close>

lemma local_parent:
  assumes "copies_in_thread ops c mid parent" "parent \<noteq> []"
    and "pagesAt ops c (threadKeys_detail t) = Some p" "hasMessage p mid"
  shows "noteThreadParent mid (findThreadParent mid (getQueriesData ops c threadKeys_all))
     (getQueriesData ops c messageKeys_all) = Some parent"
proof -
  have "(threadKeys_detail t, Some (PagesData p)) \<in> set (getQueriesData ops c threadKeys_all)"
    using assms(3) by (simp add: queries_data pagesAt_def as_pages_Some)
  moreover have "as_pages (Some (PagesData p)) = Some p" by simp
  ultimately have "\<exists>(k, d) \<in> set (getQueriesData ops c threadKeys_all). \<exists>p. as_pages d = Some p \<and> hasMessage p mid"
    using assms(4) by blast
  then have "findThreadParent mid (getQueriesData ops c threadKeys_all) = Some parent"
    using findThreadParent_Some [OF assms(2) queries_copies [OF assms(1)]] by simp
  then show ?thesis using assms(2) by (simp add: noteThreadParent_set)
qed

text \<open>With a copy in a channel list alone, it still does, from that copy.\<close>

lemma local_parent_broadcast:
  assumes "copies_in_thread ops c mid parent" "parent \<noteq> []"
    and "\<And>t q. pagesAt ops c (threadKeys_detail t) = Some q \<Longrightarrow> \<not> hasMessage q mid"
    and "\<And>k q. key_matches threadKeys_all k \<Longrightarrow> pagesAt ops c k = Some q \<Longrightarrow> \<not> hasMessage q mid"
    and "pagesAt ops c (messageKeys_list chan) = Some p" "hasMessage p mid"
  shows "noteThreadParent mid (findThreadParent mid (getQueriesData ops c threadKeys_all))
     (getQueriesData ops c messageKeys_all) = Some parent"
proof -
  have "\<not> (\<exists>(k, d) \<in> set (getQueriesData ops c threadKeys_all). \<exists>p. as_pages d = Some p \<and> hasMessage p mid)"
  proof
    assume "\<exists>(k, d) \<in> set (getQueriesData ops c threadKeys_all). \<exists>p. as_pages d = Some p \<and> hasMessage p mid"
    then obtain k q where "(k, Some (PagesData q)) \<in> set (getQueriesData ops c threadKeys_all)" "hasMessage q mid"
      by (auto simp: as_pages_Some)
    then show False using assms(4) by (auto simp: queries_data pagesAt_def)
  qed
  then have none: "findThreadParent mid (getQueriesData ops c threadKeys_all) = None"
    using findThreadParent_Some [OF assms(2) queries_copies [OF assms(1)]] by simp
  let ?ms = "filter (\<lambda>m. msg_id m = mid) (concat (map (\<lambda>(k, d). case as_pages d of None \<Rightarrow> [] | Some p \<Rightarrow> allMessages p)
      (getQueriesData ops c messageKeys_all)))"
  have "m \<in> set ?ms \<Longrightarrow> msg_thread_parent_id m = Some parent" for m
    by (auto split: option.splits intro: queries_copies [OF assms(1) _ sym])
  then have "foldl (\<lambda>t m. if truthy t then t else msg_thread_parent_id m) None ?ms =
      (if ?ms = [] then None else Some parent)"
    by (rule foldl_same [OF assms(2)])
  moreover have "?ms \<noteq> []"
  proof -
    have "(messageKeys_list chan, Some (PagesData p)) \<in> set (getQueriesData ops c messageKeys_all)"
      using assms(5) by (simp add: queries_data pagesAt_def as_pages_Some)
    moreover obtain m where "m \<in> set (allMessages p)" "msg_id m = mid"
      using assms(6) by (auto simp: hasMessage_iff)
    ultimately show ?thesis by (force simp: filter_empty_conv split: option.splits)
  qed
  ultimately show ?thesis
    unfolding none noteThreadParent_def by simp
qed

lemma pagesAt_localDelete:
  "pagesAt ops c (messageKeys_list chan) = Some p \<Longrightarrow>
   noteThreadParent mid (findThreadParent mid (getQueriesData ops c threadKeys_all))
     (getQueriesData ops c messageKeys_all) = Some parent \<Longrightarrow> parent \<noteq> [] \<Longrightarrow>
   pagesAt ops (useDeleteMessage_onSuccess ops now c mid) (messageKeys_list chan) =
     Some (mapMessages (decrementReplies parent) (deleteFromChannel now mid p))"
  by (simp add: pagesAt_def get_localDelete deletionParent_def)

text \<open>The event after the local deletion, with the thread in the cache.\<close>

lemma delete_then_event_counts:
  assumes "copies_in_thread ops c mid parent" "parent \<noteq> []" "parent \<noteq> mid"
    and "md_id d = mid" "md_thread_parent_id d = Some parent"
    and "pagesAt ops c (threadKeys_detail parent) = Some t" "hasMessage t mid"
    and "pagesAt ops c (messageKeys_list chan) = Some p"
  shows "\<exists>p'. pagesAt ops (handleMessageDeleted ops now2
        (useDeleteMessage_onSuccess ops now c mid) d) (messageKeys_list chan) = Some p' \<and>
      counts (allMessages p') =
      counts (map (decrementReplies parent) (List.map_filter (deleteOrMark now mid) (allMessages p)))"
proof -
  let ?c = "useDeleteMessage_onSuccess ops now c mid"
  note here = pagesAt_localDelete [OF assms(8) local_parent [OF assms(1,2,6,7)] assms(2)]
  have "pagesAt ops ?c (threadKeys_detail parent) = Some (removeFromThread mid t)"
    using assms(6) by (simp add: pagesAt_def get_localDelete)
  then have "deleteHandled ops ?c d"
    using assms(2,4,5) by (auto simp: deleteHandled_def hasMessage_iff)
  then have "pagesAt ops (handleMessageDeleted ops now2 ?c d) (messageKeys_list chan) =
      Some (deleteFromChannel now2 mid (mapMessages (decrementReplies parent) (deleteFromChannel now mid p)))"
    using here [of now] assms(4,5) by (simp add: pagesAt_def get_messageDeleted deletionParent_def)
  then show ?thesis using assms(3) by (simp add: counts_delete_again)
qed

text \<open>The same with the thread not in the cache: the reply is taken off twice.\<close>

lemma delete_then_event_uncached_counts:
  assumes "copies_in_thread ops c mid parent" "parent \<noteq> []" "parent \<noteq> mid"
    and "md_id d = mid" "md_thread_parent_id d = Some parent"
    and "\<And>k. key_matches threadKeys_all k \<Longrightarrow> getQueryData ops c k = None"
    and "pagesAt ops c (messageKeys_list chan) = Some p" "hasMessage p mid"
  shows "\<exists>p'. pagesAt ops (handleMessageDeleted ops now2
        (useDeleteMessage_onSuccess ops now c mid) d) (messageKeys_list chan) = Some p' \<and>
      counts (allMessages p') =
      counts (map (decrementReplies parent) (map (decrementReplies parent)
        (List.map_filter (deleteOrMark now mid) (allMessages p))))"
proof -
  let ?c = "useDeleteMessage_onSuccess ops now c mid"
  have par: "noteThreadParent mid (findThreadParent mid (getQueriesData ops c threadKeys_all))
      (getQueriesData ops c messageKeys_all) = Some parent"
    by (rule local_parent_broadcast [OF assms(1,2) _ _ assms(7,8)]) (simp_all add: pagesAt_def assms(6))
  note here = pagesAt_localDelete [OF assms(7) par assms(2)]
  have "\<not> deleteHandled ops ?c d"
    using assms(6) [of "threadKeys_detail parent"]
    by (simp add: deleteHandled_def pagesAt_def get_localDelete assms(5))
  then have "pagesAt ops (handleMessageDeleted ops now2 ?c d) (messageKeys_list chan) =
      Some (mapMessages (decrementReplies parent)
        (deleteFromChannel now2 mid (mapMessages (decrementReplies parent) (deleteFromChannel now mid p))))"
    using here [of now] assms(2,4,5) by (simp add: pagesAt_def get_messageDeleted deletionParent_def)
  moreover have "counts (map (decrementReplies parent)
        (List.map_filter (deleteOrMark now2 mid)
          (map (decrementReplies parent) (List.map_filter (deleteOrMark now mid) (allMessages p))))) =
      counts (map (decrementReplies parent) (map (decrementReplies parent)
        (List.map_filter (deleteOrMark now mid) (allMessages p))))"
    by (rule counts_map_decrement) (rule counts_delete_again [OF assms(3)])
  ultimately show ?thesis by simp
qed

end

end
