(* ===== verification/Samples.thy ===== *)
theory Samples
  imports QueryClient
begin

text \<open>
  Concrete data on which the witnesses evaluate the properties: a channel \<open>C\<close> of workspace
  \<open>W\<close> with one message \<open>P\<close>, in an in-memory client, read by user \<open>me\<close>.
\<close>

definition sample_message :: "jsstring \<Rightarrow> jsstring \<Rightarrow> jsstring option \<Rightarrow> int \<Rightarrow> message_with_user" where
  "sample_message mid author parent replies =
     \<lparr>msg_id = mid, msg_channel_id = js ''C'', msg_user_id = Some author, msg_content = js ''hi'',
      msg_type = None, msg_system_event = None, msg_thread_parent_id = parent,
      msg_reply_count = replies, msg_last_reply_at = None, msg_edited_at = None,
      msg_deleted_at = None, msg_created_at = js ''t'', msg_updated_at = js ''t'',
      msg_also_send_to_channel = None, msg_pinned_at = None, msg_pinned_by = None,
      msg_user_display_name = None, msg_user_avatar_url = None, msg_user_gravatar_url = None,
      msg_reactions = None, msg_thread_participants = None, msg_attachments = None,
      msg_link_preview = None\<rparr>"

definition sample_pages :: "message_with_user list \<Rightarrow> message_pages" where
  "sample_pages ms =
     \<lparr>pages = [\<lparr>messages = ms, has_more = False, has_newer = None, next_cursor = None\<rparr>], pageParams = []\<rparr>"

definition sample_channel :: channel_with_membership where
  "sample_channel =
     \<lparr>ch_id = js ''C'', ch_workspace_id = js ''W'', ch_name = js ''general'', ch_description = None,
      ch_type = PublicChannel, ch_is_default = True, ch_dm_participant_hash = None, ch_archived_at = None,
      ch_created_by = None, ch_created_at = js ''t'', ch_updated_at = js ''t'', ch_channel_role = None,
      ch_last_read_message_id = None, ch_unread_count = 0, ch_notification_count = 0,
      ch_is_starred = False, ch_dm_participants = None\<rparr>"

definition sample_user :: user where
  "sample_user = \<lparr>us_id = js ''me'', us_email = [], us_display_name = js ''Me'', us_avatar_url = None,
     us_gravatar_url = None, us_status = js ''active''\<rparr>"

text \<open>The channel with the messages \<open>ms\<close>, the channel list, the user, and further entries.\<close>

definition sample_store :: "message_with_user list \<Rightarrow> (query_key \<times> query_data) list \<Rightarrow> query_store" where
  "sample_store ms es =
     \<lparr>entries =
        [(messageKeys_list (js ''C''), PagesData (sample_pages ms)),
         (channelKeys_list (js ''W''), ChannelsData \<lparr>channels = [sample_channel]\<rparr>),
         (authKeys_me, AuthData \<lparr>me_user = Some sample_user, me_workspaces = None\<rparr>)] @ es,
      stale = []\<rparr>"

lemma sample_get [simp]:
  "getQueryData store_ops (sample_store ms es) (messageKeys_list (js ''C'')) = Some (PagesData (sample_pages ms))"
  "getQueryData store_ops (sample_store ms es) (channelKeys_list (js ''W'')) =
     Some (ChannelsData \<lparr>channels = [sample_channel]\<rparr>)"
  "getQueryData store_ops (sample_store ms es) authKeys_me =
     Some (AuthData \<lparr>me_user = Some sample_user, me_workspaces = None\<rparr>)"
  "getQueryData store_ops (sample_store ms es) (threadKeys_detail t) = map_of es (threadKeys_detail t)"
  by (simp_all add: store_ops_def sample_store_def key_defs)

lemma sample_entries:
  "getQueryData store_ops (sample_store ms es) k = Some v \<Longrightarrow>
     (k, v) \<in> set (entries (sample_store ms es))"
  by (auto simp: store_ops_def dest: map_of_SomeD)

lemma sample_no_threads:
  "key_matches threadKeys_all k \<Longrightarrow> getQueryData store_ops (sample_store ms []) k = None"
  by (auto simp: store_ops_def sample_store_def key_defs)

lemma sample_pagesAt [simp]:
  "pagesAt store_ops (sample_store ms es) (messageKeys_list (js ''C'')) = Some (sample_pages ms)"
  "pagesAt store_ops (sample_store ms es) (threadKeys_detail t) = as_pages (map_of es (threadKeys_detail t))"
  by (simp_all add: pagesAt_def)

lemma sample_user_id [simp]: "currentUserId store_ops (sample_store ms es) = Some (js ''me'')"
  by (simp add: currentUserId_def sample_user_def)

lemmas sample_defs = sample_message_def sample_pages_def sample_channel_def sample_user_def

end
