(* ===== verification/DeliveryProperties.thy ===== *)
theory DeliveryProperties
  imports MessageDeletion Samples
begin

text \<open>
  The properties of message delivery, deletion and reactions: for every client that obeys
  the laws of \<open>query_client\<close>, in terms of the cached lists a user sees.
\<close>

section \<open>Sending\<close>

text \<open>C3: A message the user sends reaches the cache twice, in the response and as an event. In either
  order, the cache ends as after the event alone: the message is shown once, every other entry
  is untouched by the second arrival.\<close>

theorem send_and_event:
  assumes "query_client ops" "\<not> truthy (msg_thread_parent_id d)"
  shows "getQueryData ops (fst (handleNewMessage ops
        (useSendMessage_onSuccess ops (msg_channel_id d) c d) ws d)) k =
      getQueryData ops (fst (handleNewMessage ops c ws d)) k \<and>
    getQueryData ops (useSendMessage_onSuccess ops (msg_channel_id d)
        (fst (handleNewMessage ops c ws d)) d) k =
      getQueryData ops (fst (handleNewMessage ops c ws d)) k"
  using query_client.send_then_event_data [OF assms(1)] query_client.event_then_send_data [OF assms(1)]
    assms(2) by blast

theorem send_and_event_witness:
  "getQueryData store_ops (useSendMessage_onSuccess store_ops (js ''C'')
      (fst (handleNewMessage store_ops (sample_store [] []) (js ''W'') (sample_message (js ''A'') (js ''me'') None 0)))
      (sample_message (js ''A'') (js ''me'') None 0)) (messageKeys_list (js ''C'')) =
    Some (PagesData (sample_pages [sample_message (js ''A'') (js ''me'') None 0]))"
proof -
  let ?d = "sample_message (js ''A'') (js ''me'') None 0"
  have d: "msg_channel_id ?d = js ''C''" "\<not> truthy (msg_thread_parent_id ?d)"
    by (simp_all add: sample_message_def)
  show ?thesis
    using send_and_event [OF store.query_client_axioms d(2), of "sample_store [] []" "js ''W''"
        "messageKeys_list (js ''C'')"] d
    by (simp add: store.get_newMessage_top [OF d(2)] sample_pages_def addToChannel_def hasMessage_def
      pageHas_def prependToFirstPage_def)
qed

text \<open>The same for a reply in a thread whose first page is cached: response and event, in either
  order, leave the cache as after the event alone.\<close>

theorem reply_and_event:
  assumes "query_client ops" "msg_thread_parent_id d = Some parent" "parent \<noteq> []"
    and "pagesAt ops c (threadKeys_detail parent) = Some t" "pages t \<noteq> []"
  shows "getQueryData ops (fst (handleNewMessage ops
        (useSendThreadReply_onSuccess ops parent (msg_channel_id d) c d) ws d)) k =
      getQueryData ops (fst (handleNewMessage ops c ws d)) k \<and>
    getQueryData ops (useSendThreadReply_onSuccess ops parent (msg_channel_id d)
        (fst (handleNewMessage ops c ws d)) d) k =
      getQueryData ops (fst (handleNewMessage ops c ws d)) k"
  using query_client.reply_then_event_data [OF assms] query_client.event_then_reply_data [OF assms] by blast

text \<open>What a reply adds to the counts of a channel list.\<close>

definition countReply :: "jsstring \<Rightarrow> int \<Rightarrow> (jsstring \<times> int) list \<Rightarrow> (jsstring \<times> int) list" where
  "countReply parent n = map (\<lambda>(i, r). (i, if i = parent then r + n else r))"

lemma counts_bump:
  "counts (map (bumpParent parent b d) ms) = countReply parent (if b then 0 else 1) (counts ms)"
  by (induction ms) (auto simp: counts_def countReply_def bumpParent_def)

lemma countReply_add: "countReply parent a (countReply parent b xs) = countReply parent (b + a) xs"
  by (induction xs) (auto simp: countReply_def)

context query_client begin

lemma pagesAt_sendReply:
  "msg_also_send_to_channel d \<noteq> Some True \<Longrightarrow> pagesAt ops c (messageKeys_list chan) = Some p \<Longrightarrow>
   pagesAt ops (useSendThreadReply_onSuccess ops parent chan c d) (messageKeys_list chan) =
     Some (mapMessages (bumpParent parent (inThread ops c parent (msg_id d)) d) p)"
  by (simp add: pagesAt_def get_sendReply)

lemma pagesAt_newReply:
  "msg_thread_parent_id d = Some parent \<Longrightarrow> parent \<noteq> [] \<Longrightarrow>
   msg_also_send_to_channel d \<noteq> Some True \<Longrightarrow> pagesAt ops c (messageKeys_list (msg_channel_id d)) = Some p \<Longrightarrow>
   pagesAt ops (fst (handleNewMessage ops c ws d)) (messageKeys_list (msg_channel_id d)) =
     Some (mapMessages (bumpParent parent (inThread ops c parent (msg_id d)) d) p)"
  by (simp add: pagesAt_def get_newMessage_reply get_newReply countsAsUnread_def)

lemma inThread_uncached:
  "pagesAt ops c (threadKeys_detail parent) = None \<Longrightarrow> \<not> inThread ops c parent mid"
  by (simp add: inThread_def)

lemma thread_uncached_sendReply:
  "pagesAt ops c (threadKeys_detail parent) = None \<Longrightarrow>
   pagesAt ops (useSendThreadReply_onSuccess ops parent chan c d) (threadKeys_detail parent) = None"
  by (simp add: pagesAt_def get_sendReply)

lemma reply_once:
  assumes "msg_thread_parent_id d = Some parent" "parent \<noteq> []" "msg_also_send_to_channel d \<noteq> Some True"
    and "pagesAt ops c (threadKeys_detail parent) = Some t" "pages t \<noteq> []" "\<not> hasMessage t (msg_id d)"
    and "pagesAt ops c (messageKeys_list (msg_channel_id d)) = Some p"
  shows "\<exists>p'. pagesAt ops (fst (handleNewMessage ops
        (useSendThreadReply_onSuccess ops parent (msg_channel_id d) c d) ws d))
        (messageKeys_list (msg_channel_id d)) = Some p' \<and>
      counts (allMessages p') = countReply parent 1 (counts (allMessages p))"
proof -
  have "pagesAt ops (fst (handleNewMessage ops
        (useSendThreadReply_onSuccess ops parent (msg_channel_id d) c d) ws d))
        (messageKeys_list (msg_channel_id d)) =
      pagesAt ops (fst (handleNewMessage ops c ws d)) (messageKeys_list (msg_channel_id d))"
    unfolding pagesAt_def using reply_then_event_data [OF assms(1,2,4,5)] by simp
  moreover have "\<not> inThread ops c parent (msg_id d)" using assms(4,6) by (simp add: inThread_def)
  ultimately show ?thesis using pagesAt_newReply [OF assms(1-3,7)] by (simp add: counts_bump)
qed

lemma reply_twice:
  assumes "msg_thread_parent_id d = Some parent" "parent \<noteq> []" "msg_also_send_to_channel d \<noteq> Some True"
    and "pagesAt ops c (threadKeys_detail parent) = None"
    and "pagesAt ops c (messageKeys_list (msg_channel_id d)) = Some p"
  shows "\<exists>p'. pagesAt ops (fst (handleNewMessage ops
        (useSendThreadReply_onSuccess ops parent (msg_channel_id d) c d) ws d))
        (messageKeys_list (msg_channel_id d)) = Some p' \<and>
      counts (allMessages p') = countReply parent 2 (counts (allMessages p))"
proof -
  let ?c = "useSendThreadReply_onSuccess ops parent (msg_channel_id d) c d"
  have "pagesAt ops ?c (messageKeys_list (msg_channel_id d)) = Some (mapMessages (bumpParent parent False d) p)"
    using pagesAt_sendReply [OF assms(3,5), of parent] inThread_uncached [OF assms(4)] by simp
  from pagesAt_newReply [OF assms(1-3) this, of ws]
  show ?thesis
    using inThread_uncached [OF thread_uncached_sendReply [OF assms(4)]]
    by (simp add: counts_bump countReply_add flip: map_map)
qed

end

text \<open>A reply the user sends is counted once: with the thread cached, response and event together
  add one to the reply count of the parent in the channel list and change no other count.\<close>

theorem reply_counted_once:
  assumes "query_client ops" "msg_thread_parent_id d = Some parent" "parent \<noteq> []"
    and "msg_also_send_to_channel d \<noteq> Some True"
    and "pagesAt ops c (threadKeys_detail parent) = Some t" "pages t \<noteq> []" "\<not> hasMessage t (msg_id d)"
    and "pagesAt ops c (messageKeys_list (msg_channel_id d)) = Some p"
  shows "\<exists>p'. pagesAt ops (fst (handleNewMessage ops
        (useSendThreadReply_onSuccess ops parent (msg_channel_id d) c d) ws d))
        (messageKeys_list (msg_channel_id d)) = Some p' \<and>
      counts (allMessages p') = countReply parent 1 (counts (allMessages p))"
  using assms(2-) by (rule query_client.reply_once [OF assms(1)])

text \<open>Without the thread in the cache (a reply sent without opening it), the check for the first
  arrival cannot succeed: the same reply is counted twice.\<close>

theorem reply_counted_twice_uncached:
  assumes "query_client ops" "msg_thread_parent_id d = Some parent" "parent \<noteq> []"
    and "msg_also_send_to_channel d \<noteq> Some True"
    and "pagesAt ops c (threadKeys_detail parent) = None"
    and "pagesAt ops c (messageKeys_list (msg_channel_id d)) = Some p"
  shows "\<exists>p'. pagesAt ops (fst (handleNewMessage ops
        (useSendThreadReply_onSuccess ops parent (msg_channel_id d) c d) ws d))
        (messageKeys_list (msg_channel_id d)) = Some p' \<and>
      counts (allMessages p') = countReply parent 2 (counts (allMessages p))"
  using assms(2-) by (rule query_client.reply_twice [OF assms(1)])

section \<open>Witnesses for replies\<close>

abbreviation threadStore :: query_store where
  "threadStore \<equiv> sample_store [sample_message (js ''P'') (js ''me'') None 0]
     [(threadKeys_detail (js ''P''), PagesData (sample_pages []))]"

abbreviation reply :: message_with_user where
  "reply \<equiv> sample_message (js ''R'') (js ''me'') (Some (js ''P'')) 0"

lemma sample_fields [simp]:
  "msg_id (sample_message i a t n) = i" "msg_channel_id (sample_message i a t n) = js ''C''"
  "msg_thread_parent_id (sample_message i a t n) = t" "msg_user_id (sample_message i a t n) = Some a"
  "msg_also_send_to_channel (sample_message i a t n) = None" "msg_reply_count (sample_message i a t n) = n"
  "pages (sample_pages ms) \<noteq> []" "allMessages (sample_pages ms) = ms"
  by (simp_all add: sample_message_def sample_pages_def allMessages_def)

lemma sample_has [simp]: "hasMessage (sample_pages ms) mid \<longleftrightarrow> mid \<in> msg_id ` set ms"
  by (simp add: hasMessage_iff)

theorem reply_and_event_witness:
  "getQueryData store_ops (fst (handleNewMessage store_ops
        (useSendThreadReply_onSuccess store_ops (js ''P'') (js ''C'') threadStore reply) (js ''W'') reply)) (messageKeys_list (js ''C'')) =
    getQueryData store_ops (fst (handleNewMessage store_ops threadStore (js ''W'') reply)) (messageKeys_list (js ''C''))"
  using reply_and_event [OF store.query_client_axioms, of reply "js ''P''" threadStore "sample_pages []"]
  by simp

theorem reply_counted_once_witness:
  "\<exists>p'. pagesAt store_ops (fst (handleNewMessage store_ops
        (useSendThreadReply_onSuccess store_ops (js ''P'') (js ''C'') threadStore reply) (js ''W'') reply))
        (messageKeys_list (js ''C'')) = Some p' \<and> counts (allMessages p') = [(js ''P'', 1)]"
  using reply_counted_once [OF store.query_client_axioms, of reply "js ''P''" threadStore "sample_pages []"
      "sample_pages [sample_message (js ''P'') (js ''me'') None 0]" "js ''W''"]
  by (simp add: counts_def countReply_def)

theorem reply_counted_twice_uncached_witness:
  "\<exists>p'. pagesAt store_ops (fst (handleNewMessage store_ops
        (useSendThreadReply_onSuccess store_ops (js ''P'') (js ''C'')
          (sample_store [sample_message (js ''P'') (js ''me'') None 0] []) reply) (js ''W'') reply))
        (messageKeys_list (js ''C'')) = Some p' \<and> counts (allMessages p') = [(js ''P'', 2)]"
  using reply_counted_twice_uncached [OF store.query_client_axioms, of reply "js ''P''"
      "sample_store [sample_message (js ''P'') (js ''me'') None 0] []"
      "sample_pages [sample_message (js ''P'') (js ''me'') None 0]" "js ''W''"]
  by (simp add: counts_def countReply_def)

section \<open>Deleting\<close>

text \<open>The user deletes a reply and then hears of it: with the thread cached, the parent loses one
  reply, as after the deletion alone; ids and counts of every cached channel list agree.\<close>

theorem delete_counted_once:
  assumes "query_client ops" "copies_in_thread ops c mid parent" "parent \<noteq> []" "parent \<noteq> mid"
    and "md_id d = mid" "md_thread_parent_id d = Some parent"
    and "pagesAt ops c (threadKeys_detail parent) = Some t" "hasMessage t mid"
    and "pagesAt ops c (messageKeys_list chan) = Some p"
  shows "\<exists>p'. pagesAt ops (handleMessageDeleted ops now2
        (useDeleteMessage_onSuccess ops now c mid) d) (messageKeys_list chan) = Some p' \<and>
      counts (allMessages p') =
      counts (map (decrementReplies parent) (List.map_filter (deleteOrMark now mid) (allMessages p)))"
  using assms(2-) by (rule query_client.delete_then_event_counts [OF assms(1)])

text \<open>When no thread is cached and the reply is known from the channel list alone (it was also sent
  to the channel), the deletion and its event both take one reply off the parent.\<close>

theorem delete_counted_twice_uncached:
  assumes "query_client ops" "copies_in_thread ops c mid parent" "parent \<noteq> []" "parent \<noteq> mid"
    and "md_id d = mid" "md_thread_parent_id d = Some parent"
    and "\<And>k. key_matches threadKeys_all k \<Longrightarrow> getQueryData ops c k = None"
    and "pagesAt ops c (messageKeys_list chan) = Some p" "hasMessage p mid"
  shows "\<exists>p'. pagesAt ops (handleMessageDeleted ops now2
        (useDeleteMessage_onSuccess ops now c mid) d) (messageKeys_list chan) = Some p' \<and>
      counts (allMessages p') =
      counts (map (decrementReplies parent) (map (decrementReplies parent)
        (List.map_filter (deleteOrMark now mid) (allMessages p))))"
  using assms(2-) by (rule query_client.delete_then_event_uncached_counts [OF assms(1)])

lemma sample_pages_entry:
  "pagesAt store_ops (sample_store ms es) k = Some p \<Longrightarrow>
     p = sample_pages ms \<or> (k, PagesData p) \<in> set es"
proof -
  assume "pagesAt store_ops (sample_store ms es) k = Some p"
  then have "getQueryData store_ops (sample_store ms es) k = Some (PagesData p)"
    by (simp add: pagesAt_def as_pages_Some)
  from sample_entries [OF this] show ?thesis by (auto simp: sample_store_def)
qed

theorem delete_counted_once_witness:
  "\<exists>p'. pagesAt store_ops (handleMessageDeleted store_ops (js ''2'')
        (useDeleteMessage_onSuccess store_ops (js ''1'')
          (sample_store [sample_message (js ''P'') (js ''me'') None 3]
            [(threadKeys_detail (js ''P''), PagesData (sample_pages [reply]))]) (js ''R''))
        \<lparr>md_id = js ''R'', md_thread_parent_id = Some (js ''P'')\<rparr>) (messageKeys_list (js ''C'')) = Some p' \<and>
      counts (allMessages p') = [(js ''P'', 2)]"
proof -
  let ?c = "sample_store [sample_message (js ''P'') (js ''me'') None 3]
    [(threadKeys_detail (js ''P''), PagesData (sample_pages [reply]))]"
  have "copies_in_thread store_ops ?c (js ''R'') (js ''P'')"
    unfolding copies_in_thread_def by (auto dest!: sample_pages_entry)
  from delete_counted_once [OF store.query_client_axioms this, of
      "\<lparr>md_id = js ''R'', md_thread_parent_id = Some (js ''P'')\<rparr>" "sample_pages [reply]" "js ''C''"
      "sample_pages [sample_message (js ''P'') (js ''me'') None 3]"]
  show ?thesis by (simp add: counts_def List.map_filter_simps deleteOrMark_def decrementReplies_def)
qed

theorem delete_counted_twice_uncached_witness:
  "\<exists>p'. pagesAt store_ops (handleMessageDeleted store_ops (js ''2'')
        (useDeleteMessage_onSuccess store_ops (js ''1'')
          (sample_store [reply, sample_message (js ''P'') (js ''me'') None 3] []) (js ''R''))
        \<lparr>md_id = js ''R'', md_thread_parent_id = Some (js ''P'')\<rparr>) (messageKeys_list (js ''C'')) = Some p' \<and>
      counts (allMessages p') = [(js ''P'', 1)]"
proof -
  let ?c = "sample_store [reply, sample_message (js ''P'') (js ''me'') None 3] []"
  have "copies_in_thread store_ops ?c (js ''R'') (js ''P'')"
    unfolding copies_in_thread_def by (auto dest!: sample_pages_entry)
  from delete_counted_twice_uncached [OF store.query_client_axioms this, of
      "\<lparr>md_id = js ''R'', md_thread_parent_id = Some (js ''P'')\<rparr>" "js ''C''"
      "sample_pages [reply, sample_message (js ''P'') (js ''me'') None 3]"]
  show ?thesis
    by (simp add: sample_no_threads counts_def List.map_filter_simps deleteOrMark_def decrementReplies_def)
qed

section \<open>Reactions\<close>

lemma drop_put_comp:
  "mapMessages (putReaction \<lparr>rc_id = rid, rc_message_id = mid, rc_user_id = u, rc_emoji = e, rc_created_at = at\<rparr>) \<circ>
     mapMessages (addTempReaction now mid u e) =
   mapMessages (putReaction \<lparr>rc_id = rid, rc_message_id = mid, rc_user_id = u, rc_emoji = e, rc_created_at = at\<rparr>)"
  by (auto simp: fun_eq_iff comp_def intro!: arg_cong [of _ _ "\<lambda>f. mapMessages f _"] putReaction_temp)

lemma drop_drop_comp:
  "mapMessages (dropReaction mid (Some u) e) \<circ> mapMessages (dropReaction mid (Some u) e) =
   mapMessages (dropReaction mid (Some u) e)"
proof -
  have "dropReaction mid (Some u) e (dropReaction mid (Some u) e m) = dropReaction mid (Some u) e m" for m
    by (simp add: dropReaction_def)
  then show ?thesis by (simp add: fun_eq_iff comp_def)
qed

context query_client begin

lemma reaction_confirmed_data:
  assumes "currentUserId ops c = Some u" "u \<noteq> []"
  shows "getQueryData ops (handleReactionAdded ops (fst (useAddReaction_onMutate ops chan now mid e c))
        \<lparr>rc_id = rid, rc_message_id = mid, rc_user_id = u, rc_emoji = e, rc_created_at = at\<rparr>) k =
      getQueryData ops (handleReactionAdded ops c
        \<lparr>rc_id = rid, rc_message_id = mid, rc_user_id = u, rc_emoji = e, rc_created_at = at\<rparr>) k"
    and "getQueryData ops (handleReactionRemoved ops (fst (useRemoveReaction_onMutate ops chan mid e c))
        \<lparr>rr_message_id = mid, rr_user_id = u, rr_emoji = e\<rparr>) k =
      getQueryData ops (handleReactionRemoved ops c \<lparr>rr_message_id = mid, rr_user_id = u, rr_emoji = e\<rparr>) k"
  using assms
  by (simp_all add: handleReactionAdded_def handleReactionRemoved_def useAddReaction_onMutate_def
    useRemoveReaction_onMutate_def Let_def or_else_def drop_put_comp drop_drop_comp)

end

context query_client begin

lemma rollback_loses_data:
  assumes "getQueryData ops c (messageKeys_list chan) = Some (PagesData p)"
    and "pages p \<noteq> []" "msg_channel_id d = chan" "\<not> truthy (msg_thread_parent_id d)" "\<not> hasMessage p (msg_id d)"
  shows "\<exists>p' p''. pagesAt ops (fst (handleNewMessage ops
        (fst (useAddReaction_onMutate ops chan now mid e c)) ws d)) (messageKeys_list chan) = Some p' \<and>
      hasMessage p' (msg_id d) \<and>
    pagesAt ops (useAddReaction_onError ops chan (fst (handleNewMessage ops
        (fst (useAddReaction_onMutate ops chan now mid e c)) ws d))
        (snd (useAddReaction_onMutate ops chan now mid e c))) (messageKeys_list chan) = Some p'' \<and>
      \<not> hasMessage p'' (msg_id d)"
proof -
  let ?c = "fst (useAddReaction_onMutate ops chan now mid e c)"
  obtain q where q: "getQueryData ops ?c (messageKeys_list chan) = Some (PagesData q)" "pages q \<noteq> []"
    using assms(1,2) by (auto simp: useAddReaction_onMutate_def Let_def)
  have "pagesAt ops (fst (handleNewMessage ops ?c ws d)) (messageKeys_list chan) = Some (addToChannel d q)"
    using q assms(3,4) by (simp add: pagesAt_def get_newMessage_top)
  moreover have "hasMessage (addToChannel d q) (msg_id d)" using q(2) by (simp add: hasMessage_addToChannel)
  moreover have "pagesAt ops (useAddReaction_onError ops chan (fst (handleNewMessage ops ?c ws d))
      (snd (useAddReaction_onMutate ops chan now mid e c))) (messageKeys_list chan) = Some p"
    using add_reaction.rollback_overwrites [OF assms(1), of "\<lambda>c. fst (handleNewMessage ops c ws d)"]
    by (simp add: pagesAt_def)
  ultimately show ?thesis using assms(5) by blast
qed

lemmas reaction_rollback = add_reaction.rollback remove_reaction.rollback

lemma channelsAt_countUnread:
  "channelsAt ops (countUnread ops c ws d) (channelKeys_list ws) =
     map_option (if countsAsUnread ops c d then incrementUnread (msg_channel_id d) else id)
       (channelsAt ops c (channelKeys_list ws))"
  by (simp add: channelsAt_def get_countUnread option.map_id)

lemma channelsAt_newReply: "channelsAt ops (handleNewReply ops c ws parent d) k = channelsAt ops c k"
  by (simp add: channelsAt_def get_newReply)

lemma unread_data:
  "channelsAt ops (fst (handleNewMessage ops c ws d)) (channelKeys_list ws) =
      map_option (if (\<not> truthy (msg_thread_parent_id d) \<or> msg_also_send_to_channel d = Some True) \<and>
          msg_user_id d \<noteq> currentUserId ops c
        then incrementUnread (msg_channel_id d) else id) (channelsAt ops c (channelKeys_list ws)) \<and>
    channelsAt ops (handleMessageUpdated ops c d) k = channelsAt ops c k \<and>
    channelsAt ops (handleMessageDeleted ops now c md) k = channelsAt ops c k \<and>
    channelsAt ops (handleReactionAdded ops c r) k = channelsAt ops c k"
  unfolding countsAsUnread_def [symmetric]
  by (auto simp: handleNewMessage_def channelsAt_countUnread channelsAt_newReply countsAsUnread_def
    handleMessageUpdated_def handleMessageDeleted_def handleReactionAdded_def Let_def split: option.split)

lemma duplicate_data:
  assumes "\<not> truthy (msg_thread_parent_id d)" "msg_user_id d \<noteq> currentUserId ops c"
  shows "pagesAt ops (fst (handleNewMessage ops (fst (handleNewMessage ops c ws d)) ws d))
      (messageKeys_list (msg_channel_id d)) =
      pagesAt ops (fst (handleNewMessage ops c ws d)) (messageKeys_list (msg_channel_id d)) \<and>
    channelsAt ops (fst (handleNewMessage ops (fst (handleNewMessage ops c ws d)) ws d)) (channelKeys_list ws) =
      map_option (incrementUnread (msg_channel_id d) \<circ> incrementUnread (msg_channel_id d))
        (channelsAt ops c (channelKeys_list ws))"
proof -
  have "currentUserId ops (fst (handleNewMessage ops c ws d)) = currentUserId ops c"
    using assms(1) by (simp add: currentUserId_def get_newMessage_top)
  with assms show ?thesis
    by (auto simp: pagesAt_def get_newMessage_top channelsAt_def countsAsUnread_def option.map_comp)
qed

end

text \<open>C4: An optimistic reaction that the server confirms leaves exactly what the confirmation alone
  leaves: the temporary reaction is replaced, not doubled. The same for a removal.\<close>

theorem reaction_confirmed:
  assumes "query_client ops" "currentUserId ops c = Some u" "u \<noteq> []"
  shows "getQueryData ops (handleReactionAdded ops (fst (useAddReaction_onMutate ops chan now mid e c))
        \<lparr>rc_id = rid, rc_message_id = mid, rc_user_id = u, rc_emoji = e, rc_created_at = at\<rparr>) k =
      getQueryData ops (handleReactionAdded ops c
        \<lparr>rc_id = rid, rc_message_id = mid, rc_user_id = u, rc_emoji = e, rc_created_at = at\<rparr>) k \<and>
    getQueryData ops (handleReactionRemoved ops (fst (useRemoveReaction_onMutate ops chan mid e c))
        \<lparr>rr_message_id = mid, rr_user_id = u, rr_emoji = e\<rparr>) k =
      getQueryData ops (handleReactionRemoved ops c \<lparr>rr_message_id = mid, rr_user_id = u, rr_emoji = e\<rparr>) k"
  by (simp add: query_client.reaction_confirmed_data [OF assms])

theorem reaction_confirmed_witness:
  "getQueryData store_ops (handleReactionRemoved store_ops
      (fst (useRemoveReaction_onMutate store_ops (js ''C'') (js ''P'') (js '':x:'') threadStore))
      \<lparr>rr_message_id = js ''P'', rr_user_id = js ''me'', rr_emoji = js '':x:''\<rparr>) (messageKeys_list (js ''C'')) =
    getQueryData store_ops (handleReactionRemoved store_ops threadStore
      \<lparr>rr_message_id = js ''P'', rr_user_id = js ''me'', rr_emoji = js '':x:''\<rparr>) (messageKeys_list (js ''C''))"
  using reaction_confirmed [OF store.query_client_axioms sample_user_id] by simp

text \<open>The rollback restores the snapshot whatever arrived meanwhile: a message received between the
  optimistic reaction and its rejection is gone from the channel list afterwards.\<close>

theorem rollback_loses_message:
  assumes "query_client ops" "getQueryData ops c (messageKeys_list chan) = Some (PagesData p)"
    and "pages p \<noteq> []" "msg_channel_id d = chan" "\<not> truthy (msg_thread_parent_id d)" "\<not> hasMessage p (msg_id d)"
  shows "\<exists>p' p''. pagesAt ops (fst (handleNewMessage ops
        (fst (useAddReaction_onMutate ops chan now mid e c)) ws d)) (messageKeys_list chan) = Some p' \<and>
      hasMessage p' (msg_id d) \<and>
    pagesAt ops (useAddReaction_onError ops chan (fst (handleNewMessage ops
        (fst (useAddReaction_onMutate ops chan now mid e c)) ws d))
        (snd (useAddReaction_onMutate ops chan now mid e c))) (messageKeys_list chan) = Some p'' \<and>
      \<not> hasMessage p'' (msg_id d)"
  using assms(2-) by (rule query_client.rollback_loses_data [OF assms(1)])

theorem rollback_loses_message_witness:
  "\<exists>p''. pagesAt store_ops (useAddReaction_onError store_ops (js ''C'') (fst (handleNewMessage store_ops
        (fst (useAddReaction_onMutate store_ops (js ''C'') (js ''1'') (js ''P'') (js '':x:'') threadStore))
        (js ''W'') (sample_message (js ''A'') (js ''you'') None 0)))
        (snd (useAddReaction_onMutate store_ops (js ''C'') (js ''1'') (js ''P'') (js '':x:'') threadStore)))
      (messageKeys_list (js ''C'')) = Some p'' \<and> \<not> hasMessage p'' (js ''A'')"
  using rollback_loses_message [OF store.query_client_axioms, of threadStore "js ''C''"
      "sample_pages [sample_message (js ''P'') (js ''me'') None 0]" "sample_message (js ''A'') (js ''you'') None 0"
      "js ''1''" "js ''P''" "js '':x:''" "js ''W''"]
  by auto

section \<open>Unread counts\<close>



text \<open>The counter does not share the check for duplicates: a message delivered twice (as after a
  reconnection) is shown once and counted as unread twice.\<close>

theorem duplicate_counted_unread:
  assumes "query_client ops" "\<not> truthy (msg_thread_parent_id d)" "msg_user_id d \<noteq> currentUserId ops c"
  shows "pagesAt ops (fst (handleNewMessage ops (fst (handleNewMessage ops c ws d)) ws d))
      (messageKeys_list (msg_channel_id d)) =
      pagesAt ops (fst (handleNewMessage ops c ws d)) (messageKeys_list (msg_channel_id d)) \<and>
    channelsAt ops (fst (handleNewMessage ops (fst (handleNewMessage ops c ws d)) ws d)) (channelKeys_list ws) =
      map_option (incrementUnread (msg_channel_id d) \<circ> incrementUnread (msg_channel_id d))
        (channelsAt ops c (channelKeys_list ws))"
  using query_client.duplicate_data [OF assms] by blast

theorem duplicate_counted_unread_witness:
  "channelsAt store_ops (fst (handleNewMessage store_ops (fst (handleNewMessage store_ops threadStore (js ''W'')
      (sample_message (js ''A'') (js ''you'') None 0))) (js ''W'') (sample_message (js ''A'') (js ''you'') None 0)))
      (channelKeys_list (js ''W'')) =
    Some \<lparr>channels = [sample_channel\<lparr>ch_unread_count := 2\<rparr>]\<rparr>"
  using duplicate_counted_unread [OF store.query_client_axioms, of
      "sample_message (js ''A'') (js ''you'') None 0" threadStore "js ''W''"]
  by (simp add: channelsAt_def incrementUnread_def sample_channel_def)

end
