(* ===== verification/MrkdwnPatterns.thy ===== *)
theory MrkdwnPatterns
  imports Prelude
begin

text \<open>
  The regular expressions of the two mrkdwn parsers (\<open>packages/shared/src/mrkdwn/parser.ts\<close>
  and \<open>apps/web/src/components/editor/serialization/fromMrkdwn.ts\<close>), which are the same
  but for the underline. All are anchored and of the shape \<open>^open(body+)close\<close>, where no
  body character can start \<open>close\<close>: the match is unique and needs no backtracking.
\<close>

definition other :: "char \<Rightarrow> code_unit \<Rightarrow> bool" where
  "other d c \<longleftrightarrow> c \<noteq> ch d"

text \<open>The body and the rest of a match.\<close>

definition between :: "jsstring \<Rightarrow> (code_unit \<Rightarrow> bool) \<Rightarrow> jsstring \<Rightarrow> jsstring \<Rightarrow> (jsstring \<times> jsstring) option" where
  "between pre p post s =
     (if startsWith s pre
      then (let t = drop (length pre) s; body = takeWhile p t; rest = dropWhile p t
            in if body \<noteq> [] \<and> startsWith rest post then Some (body, drop (length post) rest) else None)
      else None)"

fun firstMatch :: "('a \<Rightarrow> 'b option) list \<Rightarrow> 'a \<Rightarrow> 'b option" where
  "firstMatch [] s = None"
| "firstMatch (f # fs) s = (case f s of Some r \<Rightarrow> Some r | None \<Rightarrow> firstMatch fs s)"

text \<open>\<open>search\<close> with a character class: the first index of a member, \<open>None\<close> for -1.\<close>

fun searchAny :: "(code_unit \<Rightarrow> bool) \<Rightarrow> jsstring \<Rightarrow> nat option" where
  "searchAny p [] = None"
| "searchAny p (c # s) = (if p c then Some 0 else map_option Suc (searchAny p s))"

definition shortcode_char :: "code_unit \<Rightarrow> bool" where
  "shortcode_char c \<longleftrightarrow> (ch CHR ''a'' \<le> c \<and> c \<le> ch CHR ''z'') \<or> (ch CHR ''A'' \<le> c \<and> c \<le> ch CHR ''Z'') \<or>
     is_digit c \<or> c = ch CHR ''_'' \<or> c = ch CHR ''+'' \<or> c = ch CHR ''-''"

section \<open>The patterns\<close>

definition userMentionMatch :: "jsstring \<Rightarrow> (jsstring \<times> jsstring) option" where
  "userMentionMatch = between (js ''<@'') (other CHR ''>'') (js ''>'')"

definition specialMentionMatch :: "jsstring \<Rightarrow> (jsstring \<times> jsstring) option" where
  "specialMentionMatch = between (js ''<!'') (other CHR ''>'') (js ''>'')"

definition channelMentionMatch :: "jsstring \<Rightarrow> (jsstring \<times> jsstring) option" where
  "channelMentionMatch = between (js ''<#'') (other CHR ''>'') (js ''>'')"

text \<open>\<open>https?:\<close> leaves two schemes.\<close>

definition url_char :: "code_unit \<Rightarrow> bool" where
  "url_char c \<longleftrightarrow> other CHR ''|'' c \<and> other CHR ''>'' c"

definition linkAfter :: "jsstring \<Rightarrow> jsstring \<Rightarrow> ((jsstring \<times> jsstring) \<times> jsstring) option" where
  "linkAfter scheme s =
     (case between (js ''<'' @ scheme) url_char (js ''|'') s of
        None \<Rightarrow> None
      | Some (body, rest) \<Rightarrow>
          map_option (\<lambda>(text, rest). ((scheme @ body, text), rest)) (between [] (other CHR ''>'') (js ''>'') rest))"

definition linkWithTextMatch :: "jsstring \<Rightarrow> ((jsstring \<times> jsstring) \<times> jsstring) option" where
  "linkWithTextMatch = firstMatch [linkAfter (js ''http://''), linkAfter (js ''https://'')]"

definition plainAfter :: "jsstring \<Rightarrow> jsstring \<Rightarrow> (jsstring \<times> jsstring) option" where
  "plainAfter scheme s =
     map_option (\<lambda>(body, rest). (scheme @ body, rest)) (between (js ''<'' @ scheme) (other CHR ''>'') (js ''>'') s)"

definition plainLinkMatch :: "jsstring \<Rightarrow> (jsstring \<times> jsstring) option" where
  "plainLinkMatch = firstMatch [plainAfter (js ''http://''), plainAfter (js ''https://'')]"

definition codeMatch :: "jsstring \<Rightarrow> (jsstring \<times> jsstring) option" where
  "codeMatch = between (js ''`'') (other CHR ''`'') (js ''`'')"

definition emojiMatch :: "jsstring \<Rightarrow> (jsstring \<times> jsstring) option" where
  "emojiMatch = between (js '':'') shortcode_char (js '':'')"

definition boldMatch :: "jsstring \<Rightarrow> (jsstring \<times> jsstring) option" where
  "boldMatch = between (js ''*'') (other CHR ''*'') (js ''*'')"

definition italicMatch :: "jsstring \<Rightarrow> (jsstring \<times> jsstring) option" where
  "italicMatch = between (js ''_'') (other CHR ''_'') (js ''_'')"

definition underlineMatch :: "jsstring \<Rightarrow> (jsstring \<times> jsstring) option" where
  "underlineMatch = between (js ''++'') (other CHR ''+'') (js ''++'')"

definition strikeMatch :: "jsstring \<Rightarrow> (jsstring \<times> jsstring) option" where
  "strikeMatch = between (js ''~'') (other CHR ''~'') (js ''~'')"

lemmas pattern_defs = userMentionMatch_def specialMentionMatch_def channelMentionMatch_def
  linkWithTextMatch_def plainLinkMatch_def codeMatch_def emojiMatch_def boldMatch_def
  italicMatch_def underlineMatch_def strikeMatch_def

section \<open>Block starts\<close>

definition isFence :: "jsstring \<Rightarrow> bool" where
  "isFence line = startsWith line (js ''```'')"

definition isQuote :: "jsstring \<Rightarrow> bool" where
  "isQuote line \<longleftrightarrow> startsWith line (js ''> '') \<or> line = js ''>''"

text \<open>\<open>replace(/^> ?/, '')\<close>\<close>

definition stripQuote :: "jsstring \<Rightarrow> jsstring" where
  "stripQuote line =
     (if startsWith line (js ''> '') then drop 2 line
      else if startsWith line (js ''>'') then drop 1 line else line)"

definition BULLET :: code_unit where
  "BULLET = 0x2022"

definition isBullet :: "jsstring \<Rightarrow> bool" where
  "isBullet line \<longleftrightarrow> startsWith line [BULLET, ch CHR '' ''] \<or> startsWith line (js ''- '')"

definition stripBullet :: "jsstring \<Rightarrow> jsstring" where
  "stripBullet line = (if isBullet line then drop 2 line else line)"

text \<open>The rest of a line after \<open>/^\d+\. /\<close>, if it matches.\<close>

definition orderedRest :: "jsstring \<Rightarrow> jsstring option" where
  "orderedRest line = map_option snd (between [] is_digit (js ''. '') line)"

definition isOrdered :: "jsstring \<Rightarrow> bool" where
  "isOrdered line \<longleftrightarrow> orderedRest line \<noteq> None"

definition stripOrdered :: "jsstring \<Rightarrow> jsstring" where
  "stripOrdered line = (case orderedRest line of Some r \<Rightarrow> r | None \<Rightarrow> line)"

definition isBlank :: "jsstring \<Rightarrow> bool" where
  "isBlank line \<longleftrightarrow> trim line = []"

section \<open>What a match is\<close>

lemma between_Some:
  assumes "post \<noteq> []" "\<not> p (hd post)"
  shows "between pre p post s = Some (b, r) \<longleftrightarrow> s = pre @ b @ post @ r \<and> b \<noteq> [] \<and> (\<forall>c \<in> set b. p c)"
proof
  assume "between pre p post s = Some (b, r)"
  then have pre: "startsWith s pre" and b: "b = takeWhile p (drop (length pre) s)" "b \<noteq> []"
    and post: "startsWith (dropWhile p (drop (length pre) s)) post"
    and r: "r = drop (length post) (dropWhile p (drop (length pre) s))"
    by (auto simp: between_def Let_def split: if_splits)
  from pre obtain t where s: "s = pre @ t" by (auto simp: startsWith_iff)
  from post r s have "dropWhile p t = post @ r" by (auto simp: startsWith_iff)
  with s b show "s = pre @ b @ post @ r \<and> b \<noteq> [] \<and> (\<forall>c \<in> set b. p c)"
    by (auto dest: set_takeWhileD) (metis takeWhile_dropWhile_id)
next
  assume *: "s = pre @ b @ post @ r \<and> b \<noteq> [] \<and> (\<forall>c \<in> set b. p c)"
  obtain d ds where "post = d # ds" using assms(1) by (cases post) auto
  with assms(2) * have "takeWhile p (b @ post @ r) = b" "dropWhile p (b @ post @ r) = post @ r"
    by (simp_all add: takeWhile_append2 dropWhile_append2)
  with * show "between pre p post s = Some (b, r)"
    by (simp add: between_def Let_def startsWith_def)
qed

lemma between_no_start: "\<not> startsWith s pre \<Longrightarrow> between pre p post s = None"
  by (simp add: between_def)

lemma searchAny_Some:
  "searchAny p s = Some n \<Longrightarrow> n < length s \<and> (\<forall>c \<in> set (take n s). \<not> p c) \<and> p (s ! n)"
  by (induction s arbitrary: n) (auto split: if_splits)

lemma searchAny_None: "searchAny p s = None \<longleftrightarrow> (\<forall>c \<in> set s. \<not> p c)"
  by (induction s) auto

lemma searchAny_at: "\<forall>c \<in> set a. \<not> p c \<Longrightarrow> p d \<Longrightarrow> searchAny p (a @ d # s) = Some (length a)"
  by (induction a) auto

section \<open>What each pattern matches\<close>

lemma other_hd [simp]: "\<not> other d (hd (js [d]))"
  by (simp add: other_def js_def)

lemma other_hd2 [simp]: "\<not> other d (hd (js [d, d]))"
  by (simp add: other_def js_def)

lemma shortcode_no_colon: "\<not> shortcode_char (hd (js '':''))"
  by (simp add: shortcode_char_def is_digit_def word_le_nat_alt js_def)

lemma pattern_Some:
  "userMentionMatch s = Some (b, r) \<longleftrightarrow>
     s = js ''<@'' @ b @ js ''>'' @ r \<and> b \<noteq> [] \<and> (\<forall>c \<in> set b. other CHR ''>'' c)"
  "specialMentionMatch s = Some (b, r) \<longleftrightarrow>
     s = js ''<!'' @ b @ js ''>'' @ r \<and> b \<noteq> [] \<and> (\<forall>c \<in> set b. other CHR ''>'' c)"
  "channelMentionMatch s = Some (b, r) \<longleftrightarrow>
     s = js ''<#'' @ b @ js ''>'' @ r \<and> b \<noteq> [] \<and> (\<forall>c \<in> set b. other CHR ''>'' c)"
  "codeMatch s = Some (b, r) \<longleftrightarrow>
     s = js ''`'' @ b @ js ''`'' @ r \<and> b \<noteq> [] \<and> (\<forall>c \<in> set b. other CHR ''`'' c)"
  "emojiMatch s = Some (b, r) \<longleftrightarrow>
     s = js '':'' @ b @ js '':'' @ r \<and> b \<noteq> [] \<and> (\<forall>c \<in> set b. shortcode_char c)"
  "boldMatch s = Some (b, r) \<longleftrightarrow>
     s = js ''*'' @ b @ js ''*'' @ r \<and> b \<noteq> [] \<and> (\<forall>c \<in> set b. other CHR ''*'' c)"
  "italicMatch s = Some (b, r) \<longleftrightarrow>
     s = js ''_'' @ b @ js ''_'' @ r \<and> b \<noteq> [] \<and> (\<forall>c \<in> set b. other CHR ''_'' c)"
  "underlineMatch s = Some (b, r) \<longleftrightarrow>
     s = js ''++'' @ b @ js ''++'' @ r \<and> b \<noteq> [] \<and> (\<forall>c \<in> set b. other CHR ''+'' c)"
  "strikeMatch s = Some (b, r) \<longleftrightarrow>
     s = js ''~'' @ b @ js ''~'' @ r \<and> b \<noteq> [] \<and> (\<forall>c \<in> set b. other CHR ''~'' c)"
  unfolding pattern_defs by (rule between_Some; simp add: shortcode_no_colon)+

lemma linkAfter_Some:
  "linkAfter scheme s = Some ((url, text), r) \<longleftrightarrow>
     (\<exists>b. url = scheme @ b \<and> b \<noteq> [] \<and> (\<forall>c \<in> set b. url_char c) \<and>
        text \<noteq> [] \<and> (\<forall>c \<in> set text. other CHR ''>'' c) \<and>
        s = js ''<'' @ url @ js ''|'' @ text @ js ''>'' @ r)"
proof -
  have "\<not> url_char (hd (js ''|''))" by (simp add: url_char_def other_def js_def)
  then have 1: "between (js ''<'' @ scheme) url_char (js ''|'') s = Some (b, q) \<longleftrightarrow>
      s = (js ''<'' @ scheme) @ b @ js ''|'' @ q \<and> b \<noteq> [] \<and> (\<forall>c \<in> set b. url_char c)" for b q
    by (intro between_Some) simp_all
  have 2: "between [] (other CHR ''>'') (js ''>'') q = Some (t, r) \<longleftrightarrow>
      q = t @ js ''>'' @ r \<and> t \<noteq> [] \<and> (\<forall>c \<in> set t. other CHR ''>'' c)" for q t r
    using between_Some [of "js ''>''" "other CHR ''>''" "[]" q t r] by simp
  have "linkAfter scheme s = Some ((url, text), r) \<longleftrightarrow>
      (\<exists>b q. between (js ''<'' @ scheme) url_char (js ''|'') s = Some (b, q) \<and> url = scheme @ b \<and>
        between [] (other CHR ''>'') (js ''>'') q = Some (text, r))"
    unfolding linkAfter_def by (auto split: option.splits)
  then show ?thesis by (auto simp: 1 2)
qed

lemma plainAfter_Some:
  "plainAfter scheme s = Some (url, r) \<longleftrightarrow>
     (\<exists>b. url = scheme @ b \<and> b \<noteq> [] \<and> (\<forall>c \<in> set b. other CHR ''>'' c) \<and> s = js ''<'' @ url @ js ''>'' @ r)"
proof -
  have "between (js ''<'' @ scheme) (other CHR ''>'') (js ''>'') s = Some (b, q) \<longleftrightarrow>
      s = (js ''<'' @ scheme) @ b @ js ''>'' @ q \<and> b \<noteq> [] \<and> (\<forall>c \<in> set b. other CHR ''>'' c)" for b q
    by (intro between_Some) simp_all
  then show ?thesis unfolding plainAfter_def by auto
qed

text \<open>A URL of a link: a scheme and at least one character.\<close>

definition is_url :: "(code_unit \<Rightarrow> bool) \<Rightarrow> jsstring \<Rightarrow> bool" where
  "is_url p u \<longleftrightarrow> (\<exists>b. (u = js ''http://'' @ b \<or> u = js ''https://'' @ b) \<and> b \<noteq> [] \<and> (\<forall>c \<in> set b. p c))"

lemma link_Some:
  "linkWithTextMatch s = Some ((url, text), r) \<Longrightarrow>
     is_url url_char url \<and> text \<noteq> [] \<and> (\<forall>c \<in> set text. other CHR ''>'' c) \<and>
     s = js ''<'' @ url @ js ''|'' @ text @ js ''>'' @ r"
  by (auto simp: linkWithTextMatch_def linkAfter_Some is_url_def split: option.splits)

lemma plain_Some:
  "plainLinkMatch s = Some (url, r) \<Longrightarrow>
     is_url (other CHR ''>'') url \<and> s = js ''<'' @ url @ js ''>'' @ r"
  by (auto simp: plainLinkMatch_def plainAfter_Some is_url_def split: option.splits)

lemma link_matches:
  assumes "is_url url_char url" "text \<noteq> []" "\<forall>c \<in> set text. other CHR ''>'' c"
  shows "linkWithTextMatch (js ''<'' @ url @ js ''|'' @ text @ js ''>'' @ r) = Some ((url, text), r)"
proof -
  let ?s = "js ''<'' @ url @ js ''|'' @ text @ js ''>'' @ r"
  from assms(1) obtain b scheme where b: "url = scheme @ b" "b \<noteq> []" "\<forall>c \<in> set b. url_char c"
    and scheme: "scheme = js ''http://'' \<or> scheme = js ''https://''"
    unfolding is_url_def by blast
  then have hit: "linkAfter scheme ?s = Some ((url, text), r)"
    using assms by (simp add: linkAfter_Some)
  show ?thesis
  proof (cases "scheme = js ''http://''")
    case False
    with scheme have "scheme = js ''https://''" by blast
    moreover from this b have "\<not> startsWith ?s (js ''<'' @ js ''http://'')"
      by (simp add: js_def)
    then have "linkAfter (js ''http://'') ?s = None" by (simp add: linkAfter_def between_no_start)
    ultimately show ?thesis using hit by (simp add: linkWithTextMatch_def)
  qed (use hit in \<open>simp add: linkWithTextMatch_def\<close>)
qed

lemma firstMatch_Some: "firstMatch fs s = Some r \<Longrightarrow> \<exists>f \<in> set fs. f s = Some r"
  by (induction fs) (auto split: option.splits)

lemma firstMatch_None: "firstMatch fs s = None \<longleftrightarrow> (\<forall>f \<in> set fs. f s = None)"
  by (induction fs) (auto split: option.splits)

end
