(* ===== verification/Mrkdwn.thy ===== *)
theory Mrkdwn
  imports MrkdwnPatterns
begin

text \<open>
  The message parser \<open>packages/shared/src/mrkdwn/parser.ts\<close> and \<open>isEmojiOnly.ts\<close>:
  \<open>parseInline\<close> cuts a line into segments, \<open>parseMrkdwn\<close> cuts a message into blocks.
  The loops over the remaining text and the remaining lines are recursive functions; their
  termination rests on every pattern consuming at least one character.

  The lemmas: parsing loses nothing (\<open>inline_lossless\<close>: the text is the concatenation of
  what the segments stand for), it never leaves an empty or two adjacent text segments, and
  parsing the text of canonical segments gives them back (\<open>inline_roundtrip\<close>).
\<close>

datatype segment =
    Text jsstring
  | Bold jsstring
  | Italic jsstring
  | Strike jsstring
  | Code jsstring
  | CodeBlock jsstring "jsstring option"
  | Blockquote "segment list"
  | BulletList "segment list list"
  | OrderedList "segment list list"
  | UserMention jsstring
  | SpecialMention jsstring
  | ChannelMention jsstring
  | Link jsstring jsstring
  | EmojiShortcode jsstring
  | LineBreak

section \<open>Inline formatting\<close>

text \<open>The patterns in the order the loop tries them.\<close>

definition inlinePatterns :: "(jsstring \<Rightarrow> (segment \<times> jsstring) option) list" where
  "inlinePatterns =
     [\<lambda>s. map_option (apfst UserMention) (userMentionMatch s),
      \<lambda>s. map_option (apfst SpecialMention) (specialMentionMatch s),
      \<lambda>s. map_option (apfst ChannelMention) (channelMentionMatch s),
      \<lambda>s. map_option (apfst (\<lambda>(url, text). Link url text)) (linkWithTextMatch s),
      \<lambda>s. map_option (apfst (\<lambda>url. Link url url)) (plainLinkMatch s),
      \<lambda>s. map_option (apfst Code) (codeMatch s),
      \<lambda>s. map_option (apfst EmojiShortcode) (emojiMatch s),
      \<lambda>s. map_option (apfst Bold) (boldMatch s),
      \<lambda>s. map_option (apfst Italic) (italicMatch s),
      \<lambda>s. map_option (apfst Strike) (strikeMatch s)]"

definition matchInline :: "jsstring \<Rightarrow> (segment \<times> jsstring) option" where
  "matchInline = firstMatch inlinePatterns"

text \<open>The class of \<open>remaining.search(/[<`*_~:]/)\<close>.\<close>

definition special :: "code_unit \<Rightarrow> bool" where
  "special c \<longleftrightarrow> c \<in> set (js ''<`*_~:'')"

definition appendText :: "segment list \<Rightarrow> jsstring \<Rightarrow> segment list" where
  "appendText segs text =
     (if segs = [] then segs @ [Text text]
      else (case last segs of
          Text t \<Rightarrow> butlast segs @ [Text (t @ text)]
        | _ \<Rightarrow> segs @ [Text text]))"

text \<open>What a segment stands for. A link may also be written without its text.\<close>

fun renders :: "segment \<Rightarrow> jsstring \<Rightarrow> bool" where
  "renders (Text t) s = (s = t \<and> t \<noteq> [])"
| "renders (Bold t) s = (s = js ''*'' @ t @ js ''*'')"
| "renders (Italic t) s = (s = js ''_'' @ t @ js ''_'')"
| "renders (Strike t) s = (s = js ''~'' @ t @ js ''~'')"
| "renders (Code t) s = (s = js ''`'' @ t @ js ''`'')"
| "renders (UserMention u) s = (s = js ''<@'' @ u @ js ''>'')"
| "renders (SpecialMention u) s = (s = js ''<!'' @ u @ js ''>'')"
| "renders (ChannelMention u) s = (s = js ''<#'' @ u @ js ''>'')"
| "renders (Link u t) s =
     (s = js ''<'' @ u @ js ''|'' @ t @ js ''>'' \<or> t = u \<and> s = js ''<'' @ u @ js ''>'')"
| "renders (EmojiShortcode n) s = (s = js '':'' @ n @ js '':'')"
| "renders _ s = False"

lemma hd_js [simp]: "hd (js (c # cs)) = ch c" "hd (js (c # cs) @ s) = ch c"
  by (simp_all add: js_def)

lemma special_chars [simp]:
  "special 60" "special 96" "special 42" "special 95" "special 126" "special 58"
  by (simp_all add: special_def js_eval)

text \<open>A match consumes what its segment stands for, and starts with a special character.\<close>

lemma pattern_consumes:
  assumes "f \<in> set inlinePatterns" "f s = Some (seg, r)"
  shows "\<exists>part. renders seg part \<and> s = part @ r \<and> part \<noteq> [] \<and> special (hd part)"
  using assms unfolding inlinePatterns_def
  by (auto simp: pattern_Some conj_disj_distribR ex_disj_distrib dest!: link_Some plain_Some)

lemma matchInline_consumes:
  "matchInline s = Some (seg, r) \<Longrightarrow> \<exists>part. renders seg part \<and> s = part @ r \<and> part \<noteq> [] \<and> special (hd part)"
  unfolding matchInline_def by (auto dest!: firstMatch_Some intro: pattern_consumes)

lemma matchInline_shorter: "matchInline s = Some (seg, r) \<Longrightarrow> length r < length s"
  by (auto dest!: matchInline_consumes)

lemma matchInline_special: "matchInline s = Some (seg, r) \<Longrightarrow> s \<noteq> [] \<and> special (hd s)"
  by (auto dest!: matchInline_consumes)

text \<open>The loop of \<open>parseInline\<close>, with the segments so far.\<close>

function inlineLoop :: "segment list \<Rightarrow> jsstring \<Rightarrow> segment list" where
  "inlineLoop segs remaining =
     (if remaining = [] then segs
      else (case matchInline remaining of
          Some (seg, rest) \<Rightarrow> inlineLoop (segs @ [seg]) rest
        | None \<Rightarrow>
            (case searchAny special remaining of
               None \<Rightarrow> appendText segs remaining
             | Some nextSpecial \<Rightarrow>
                 if nextSpecial = 0
                 then inlineLoop (appendText segs [hd remaining]) (tl remaining)
                 else inlineLoop (appendText segs (take nextSpecial remaining)) (drop nextSpecial remaining))))"
  by auto
termination
  by (relation "measure (length \<circ> snd)") (auto dest: matchInline_shorter)

declare inlineLoop.simps [simp del]

definition parseInline :: "jsstring \<Rightarrow> segment list" where
  "parseInline text = (if text = [] then [] else inlineLoop [] text)"

section \<open>Nothing is lost\<close>

lemma appendText_parts:
  assumes "list_all2 renders segs parts" "text \<noteq> []"
  shows "\<exists>parts'. list_all2 renders (appendText segs text) parts' \<and> concat parts' = concat parts @ text"
proof (cases segs rule: rev_cases)
  case Nil
  with assms show ?thesis by (intro exI [of _ "[text]"]) (auto simp: appendText_def)
next
  case (snoc front seg)
  with assms(1) obtain fparts part where p: "parts = fparts @ [part]" "list_all2 renders front fparts"
      "renders seg part"
    by (auto simp: list_all2_append1 list_all2_Cons1)
  show ?thesis
  proof (cases "\<exists>t. seg = Text t")
    case True
    then obtain t where "seg = Text t" by blast
    with snoc p assms(2) show ?thesis
      by (intro exI [of _ "fparts @ [part @ text]"]) (auto simp: appendText_def list_all2_appendI)
  next
    case False
    with snoc have "appendText segs text = segs @ [Text text]"
      by (cases seg) (auto simp: appendText_def)
    with assms show ?thesis by (intro exI [of _ "parts @ [text]"]) (auto simp: list_all2_appendI)
  qed
qed

lemma inlineLoop_lossless:
  "list_all2 renders segs parts \<Longrightarrow>
     \<exists>parts'. list_all2 renders (inlineLoop segs remaining) parts' \<and> concat parts' = concat parts @ remaining"
proof (induction segs remaining arbitrary: parts rule: inlineLoop.induct)
  case (1 segs remaining)
  show ?case
  proof (cases "remaining = []")
    case False
    show ?thesis
    proof (cases "matchInline remaining")
      case (Some sr)
      obtain seg rest where sr: "sr = (seg, rest)" by force
      with Some obtain part where part: "renders seg part" "remaining = part @ rest"
        using matchInline_consumes by blast
      have "list_all2 renders (segs @ [seg]) (parts @ [part])"
        using "1.prems" part by (simp add: list_all2_appendI)
      from "1.IH"(3) [OF False Some sr [symmetric] this] False Some sr part show ?thesis
        by (subst inlineLoop.simps) auto
    next
      case None
      show ?thesis
      proof (cases "searchAny special remaining")
        case no: None
        with False None appendText_parts [OF "1.prems" False] show ?thesis
          by (subst inlineLoop.simps) auto
      next
        case (Some n)
        show ?thesis
        proof (cases "n = 0")
          case True
          from appendText_parts [OF "1.prems", of "[hd remaining]"] obtain ps where
            ps: "list_all2 renders (appendText segs [hd remaining]) ps" "concat ps = concat parts @ [hd remaining]"
            by auto
          from "1.IH"(1) [OF False None Some True ps(1)] ps(2) False None Some True show ?thesis
            by (subst inlineLoop.simps) auto
        next
          case n: False
          with False have "take n remaining \<noteq> []" by simp
          from appendText_parts [OF "1.prems" this] obtain ps where
            ps: "list_all2 renders (appendText segs (take n remaining)) ps"
              "concat ps = concat parts @ take n remaining"
            by auto
          from "1.IH"(2) [OF False None Some n ps(1)] ps(2) False None Some n show ?thesis
            by (subst inlineLoop.simps) auto
        qed
      qed
    qed
  qed (use "1.prems" in \<open>auto simp: inlineLoop.simps\<close>)
qed

lemma inline_lossless: "\<exists>parts. list_all2 renders (parseInline text) parts \<and> concat parts = text"
  using inlineLoop_lossless [of "[]" "[]" "text"] by (auto simp: parseInline_def)

section \<open>No empty and no adjacent text segments\<close>

fun is_text :: "segment \<Rightarrow> bool" where
  "is_text (Text _) = True"
| "is_text _ = False"

fun merged :: "segment list \<Rightarrow> bool" where
  "merged (s # t # segs) = (\<not> (is_text s \<and> is_text t) \<and> merged (t # segs))"
| "merged _ = True"

lemma merged_Cons:
  "merged (s # segs) \<longleftrightarrow> merged segs \<and> (segs \<noteq> [] \<longrightarrow> \<not> (is_text s \<and> is_text (hd segs)))"
  by (cases segs) auto

lemma merged_append:
  "merged (a @ b) \<longleftrightarrow> merged a \<and> merged b \<and> (a \<noteq> [] \<longrightarrow> b \<noteq> [] \<longrightarrow> \<not> (is_text (last a) \<and> is_text (hd b)))"
  by (induction a) (auto simp: merged_Cons simp del: merged.simps(1))

lemma merged_appendText: "merged segs \<Longrightarrow> merged (appendText segs text)"
proof (cases segs rule: rev_cases)
  case (snoc front seg)
  then show "merged segs \<Longrightarrow> ?thesis" by (cases seg) (auto simp: appendText_def merged_append)
qed (simp add: appendText_def)

lemma matchInline_no_text: "matchInline s = Some (seg, r) \<Longrightarrow> \<not> is_text seg"
proof -
  have "f \<in> set inlinePatterns \<Longrightarrow> f s = Some (seg, r) \<Longrightarrow> \<not> is_text seg" for f
    by (auto simp: inlinePatterns_def)
  then show "matchInline s = Some (seg, r) \<Longrightarrow> \<not> is_text seg"
    unfolding matchInline_def by (blast dest: firstMatch_Some)
qed

lemma merged_inlineLoop: "merged segs \<Longrightarrow> merged (inlineLoop segs remaining)"
proof (induction segs remaining rule: inlineLoop.induct)
  case (1 segs remaining)
  have "merged (segs @ [seg])" if "matchInline remaining = Some (seg, rest)" for seg rest
    using that "1.prems" matchInline_no_text by (auto simp: merged_append)
  with 1 show ?case
    by (subst inlineLoop.simps) (auto split: option.splits simp: merged_appendText)
qed

lemma inline_merged: "merged (parseInline text)"
  by (simp add: parseInline_def merged_inlineLoop)

section \<open>Parsing what segments stand for\<close>

fun render :: "segment \<Rightarrow> jsstring" where
  "render (Text t) = t"
| "render (Bold t) = js ''*'' @ t @ js ''*''"
| "render (Italic t) = js ''_'' @ t @ js ''_''"
| "render (Strike t) = js ''~'' @ t @ js ''~''"
| "render (Code t) = js ''`'' @ t @ js ''`''"
| "render (UserMention u) = js ''<@'' @ u @ js ''>''"
| "render (SpecialMention u) = js ''<!'' @ u @ js ''>''"
| "render (ChannelMention u) = js ''<#'' @ u @ js ''>''"
| "render (Link u t) = js ''<'' @ u @ js ''|'' @ t @ js ''>''"
| "render (EmojiShortcode n) = js '':'' @ n @ js '':''"
| "render _ = []"

text \<open>A segment whose text can be read back.\<close>

fun readable :: "segment \<Rightarrow> bool" where
  "readable (Text t) \<longleftrightarrow> t \<noteq> [] \<and> (\<forall>c \<in> set t. \<not> special c)"
| "readable (Bold t) \<longleftrightarrow> t \<noteq> [] \<and> (\<forall>c \<in> set t. other CHR ''*'' c)"
| "readable (Italic t) \<longleftrightarrow> t \<noteq> [] \<and> (\<forall>c \<in> set t. other CHR ''_'' c)"
| "readable (Strike t) \<longleftrightarrow> t \<noteq> [] \<and> (\<forall>c \<in> set t. other CHR ''~'' c)"
| "readable (Code t) \<longleftrightarrow> t \<noteq> [] \<and> (\<forall>c \<in> set t. other CHR ''`'' c)"
| "readable (UserMention t) \<longleftrightarrow> t \<noteq> [] \<and> (\<forall>c \<in> set t. other CHR ''>'' c)"
| "readable (SpecialMention t) \<longleftrightarrow> t \<noteq> [] \<and> (\<forall>c \<in> set t. other CHR ''>'' c)"
| "readable (ChannelMention t) \<longleftrightarrow> t \<noteq> [] \<and> (\<forall>c \<in> set t. other CHR ''>'' c)"
| "readable (Link u t) \<longleftrightarrow> is_url url_char u \<and> t \<noteq> [] \<and> (\<forall>c \<in> set t. other CHR ''>'' c)"
| "readable (EmojiShortcode n) \<longleftrightarrow> n \<noteq> [] \<and> (\<forall>c \<in> set n. shortcode_char c)"
| "readable _ \<longleftrightarrow> False"

lemma is_url_hd: "is_url p u \<Longrightarrow> \<exists>r. u = ch CHR ''h'' # r"
  by (auto simp: is_url_def js_def)

lemma pattern_None:
  "\<not> startsWith s (js ''<@'') \<Longrightarrow> userMentionMatch s = None"
  "\<not> startsWith s (js ''<!'') \<Longrightarrow> specialMentionMatch s = None"
  "\<not> startsWith s (js ''<#'') \<Longrightarrow> channelMentionMatch s = None"
  "\<not> startsWith s (js ''<'') \<Longrightarrow> linkWithTextMatch s = None"
  "\<not> startsWith s (js ''<'') \<Longrightarrow> plainLinkMatch s = None"
  "\<not> startsWith s (js ''`'') \<Longrightarrow> codeMatch s = None"
  "\<not> startsWith s (js '':'') \<Longrightarrow> emojiMatch s = None"
  "\<not> startsWith s (js ''*'') \<Longrightarrow> boldMatch s = None"
  "\<not> startsWith s (js ''_'') \<Longrightarrow> italicMatch s = None"
  "\<not> startsWith s (js ''~'') \<Longrightarrow> strikeMatch s = None"
proof -
  have "\<not> startsWith s a \<Longrightarrow> between (a @ b) p q s = None" for a b p q
    by (rule between_no_start) (auto simp: startsWith_iff)
  then show "\<not> startsWith s (js ''<'') \<Longrightarrow> linkWithTextMatch s = None"
    "\<not> startsWith s (js ''<'') \<Longrightarrow> plainLinkMatch s = None"
    by (auto simp: linkWithTextMatch_def plainLinkMatch_def linkAfter_def plainAfter_def)
qed (simp_all add: pattern_defs between_no_start)

lemma matchInline_readable:
  assumes "readable seg" "\<not> is_text seg"
  shows "matchInline (render seg @ r) = Some (seg, r)"
proof (cases seg)
  case (Link u t)
  with assms(1) have url: "is_url url_char u" and t: "t \<noteq> []" "\<forall>c \<in> set t. other CHR ''>'' c" by auto
  from is_url_hd [OF url] obtain h where "u = ch CHR ''h'' # h" by blast
  then have "userMentionMatch (render seg @ r) = None" "specialMentionMatch (render seg @ r) = None"
    "channelMentionMatch (render seg @ r) = None"
    using Link by (auto intro!: pattern_None simp: js_eval)
  moreover have "linkWithTextMatch (render seg @ r) = Some ((u, t), r)"
    using link_matches [OF url t] Link by simp
  ultimately show ?thesis by (simp add: matchInline_def inlinePatterns_def Link)
next
  case (UserMention t)
  then have "userMentionMatch (render seg @ r) = Some (t, r)" using assms by (simp add: pattern_Some)
  then show ?thesis by (simp add: matchInline_def inlinePatterns_def UserMention)
next
  case (SpecialMention t)
  then have "specialMentionMatch (render seg @ r) = Some (t, r)" using assms by (simp add: pattern_Some)
  moreover have "userMentionMatch (render seg @ r) = None"
    using SpecialMention by (intro pattern_None) (simp add: js_eval)
  ultimately show ?thesis by (simp add: matchInline_def inlinePatterns_def SpecialMention)
next
  case (ChannelMention t)
  then have "channelMentionMatch (render seg @ r) = Some (t, r)" using assms by (simp add: pattern_Some)
  moreover have "userMentionMatch (render seg @ r) = None" "specialMentionMatch (render seg @ r) = None"
    using ChannelMention by (auto intro!: pattern_None simp: js_eval)
  ultimately show ?thesis by (simp add: matchInline_def inlinePatterns_def ChannelMention)
next
  case (Code t)
  then have "codeMatch (render seg @ r) = Some (t, r)" using assms by (simp add: pattern_Some)
  then show ?thesis
    using Code by (simp add: matchInline_def inlinePatterns_def pattern_None js_eval)
next
  case (EmojiShortcode t)
  then have "emojiMatch (render seg @ r) = Some (t, r)" using assms by (simp add: pattern_Some)
  then show ?thesis
    using EmojiShortcode by (simp add: matchInline_def inlinePatterns_def pattern_None js_eval)
next
  case (Bold t)
  then have "boldMatch (render seg @ r) = Some (t, r)" using assms by (simp add: pattern_Some)
  then show ?thesis
    using Bold by (simp add: matchInline_def inlinePatterns_def pattern_None js_eval)
next
  case (Italic t)
  then have "italicMatch (render seg @ r) = Some (t, r)" using assms by (simp add: pattern_Some)
  then show ?thesis
    using Italic by (simp add: matchInline_def inlinePatterns_def pattern_None js_eval)
next
  case (Strike t)
  then have "strikeMatch (render seg @ r) = Some (t, r)" using assms by (simp add: pattern_Some)
  then show ?thesis
    using Strike by (simp add: matchInline_def inlinePatterns_def pattern_None js_eval)
qed (use assms in auto)

lemma render_special:
  "readable seg \<Longrightarrow> \<not> is_text seg \<Longrightarrow> \<exists>d r. render seg = d # r \<and> special d"
  by (cases seg) (auto simp: js_eval)

lemma appendText_new:
  "(segs \<noteq> [] \<Longrightarrow> \<not> is_text (last segs)) \<Longrightarrow> appendText segs t = segs @ [Text t]"
  by (cases segs rule: rev_cases) (auto simp: appendText_def split: segment.splits)

lemma inlineLoop_match:
  "matchInline s = Some (seg, r) \<Longrightarrow> inlineLoop segs s = inlineLoop (segs @ [seg]) r"
  using matchInline_special by (subst inlineLoop.simps) fastforce

lemma matchInline_plain: "s \<noteq> [] \<Longrightarrow> \<not> special (hd s) \<Longrightarrow> matchInline s = None"
  using matchInline_special by (cases "matchInline s") auto

lemma inlineLoop_text_end:
  "t \<noteq> [] \<Longrightarrow> \<forall>c \<in> set t. \<not> special c \<Longrightarrow> inlineLoop segs t = appendText segs t"
  by (subst inlineLoop.simps) (simp add: matchInline_plain searchAny_None [THEN iffD2])

lemma inlineLoop_text:
  assumes "t \<noteq> []" "\<forall>c \<in> set t. \<not> special c" "special d"
  shows "inlineLoop segs (t @ d # s) = inlineLoop (appendText segs t) (d # s)"
proof -
  have "\<not> special (hd (t @ d # s))" using assms by simp
  with assms show ?thesis
    by (subst inlineLoop.simps) (simp add: matchInline_plain searchAny_at)
qed

lemma inlineLoop_readable:
  "\<forall>seg \<in> set ts. readable seg \<Longrightarrow> merged ts \<Longrightarrow>
   (segs \<noteq> [] \<Longrightarrow> ts \<noteq> [] \<Longrightarrow> is_text (hd ts) \<Longrightarrow> \<not> is_text (last segs)) \<Longrightarrow>
     inlineLoop segs (concat (map render ts)) = segs @ ts"
proof (induction ts arbitrary: segs)
  case Nil
  then show ?case by (simp add: inlineLoop.simps)
next
  case (Cons seg ts)
  have merged: "merged ts" and apart: "ts \<noteq> [] \<Longrightarrow> \<not> (is_text seg \<and> is_text (hd ts))"
    using Cons.prems(2) by (cases ts; simp)+
  have IH: "inlineLoop (segs @ [seg]) (concat (map render ts)) = (segs @ [seg]) @ ts"
    using Cons.prems(1) merged apart by (intro Cons.IH) auto
  show ?case
  proof (cases "is_text seg")
    case False
    then have "matchInline (render seg @ concat (map render ts)) = Some (seg, concat (map render ts))"
      using Cons.prems(1) by (intro matchInline_readable) auto
    with IH show ?thesis by (simp add: inlineLoop_match)
  next
    case True
    then obtain t where t: "seg = Text t" by (cases seg) auto
    with Cons.prems(1) have plain: "t \<noteq> []" "\<forall>c \<in> set t. \<not> special c" by auto
    have app: "appendText segs t = segs @ [seg]"
      using Cons.prems(3) t by (intro appendText_new [of segs t, folded t]) auto
    show ?thesis
    proof (cases ts)
      case Nil
      with plain app t show ?thesis by (simp add: inlineLoop_text_end)
    next
      case (Cons seg' ts')
      with apart True have "\<not> is_text seg'" by simp
      with Cons Cons.prems(1) obtain d r where d: "render seg' = d # r" "special d"
        using render_special [of seg'] by auto
      with plain app t IH Cons show ?thesis by (simp add: inlineLoop_text)
    qed
  qed
qed

lemma inline_roundtrip:
  "\<forall>seg \<in> set ts. readable seg \<Longrightarrow> merged ts \<Longrightarrow> parseInline (concat (map render ts)) = ts"
proof -
  assume ts: "\<forall>seg \<in> set ts. readable seg" "merged ts"
  from inlineLoop_readable [OF this, of "[]"] have "inlineLoop [] (concat (map render ts)) = ts" by simp
  then show ?thesis by (auto simp: parseInline_def inlineLoop.simps)
qed

section \<open>Blocks\<close>

definition NEWLINE :: code_unit where
  "NEWLINE = 10"

text \<open>The loop of \<open>parseMrkdwn\<close> over the lines from index \<open>i\<close>, with the segments so far.\<close>

function blockLoop :: "segment list \<Rightarrow> jsstring list \<Rightarrow> segment list" where
  "blockLoop segs [] = segs"
| "blockLoop segs (line # rest) =
     (if isFence line
      then (let lang = trim (drop 3 line);
                codeLines = takeWhile (\<lambda>l. \<not> isFence l) rest
            in blockLoop (segs @ [CodeBlock (join [NEWLINE] codeLines) (if lang = [] then None else Some lang)])
                 (drop (length codeLines + 1) rest))
      else if isQuote line
      then (let quoteLines = takeWhile isQuote (line # rest)
            in blockLoop (segs @ [Blockquote (parseInline (join [NEWLINE] (map stripQuote quoteLines)))])
                 (dropWhile isQuote (line # rest)))
      else if isBullet line
      then (let items = map (\<lambda>l. parseInline (stripBullet l)) (takeWhile isBullet (line # rest))
            in blockLoop (segs @ [BulletList items]) (dropWhile isBullet (line # rest)))
      else if isOrdered line
      then (let items = map (\<lambda>l. parseInline (stripOrdered l)) (takeWhile isOrdered (line # rest))
            in blockLoop (segs @ [OrderedList items]) (dropWhile isOrdered (line # rest)))
      else if isBlank line
      then blockLoop (if length segs > 0 then segs @ [LineBreak] else segs) rest
      else blockLoop (segs @ parseInline line @
             (if rest \<noteq> [] \<and> \<not> isBlank (hd rest) then [LineBreak] else [])) rest)"
  by pat_completeness auto

termination
  by (relation "measure (length \<circ> snd)") (auto simp: length_dropWhile_le le_imp_less_Suc)

declare blockLoop.simps(2) [simp del]

definition parseMrkdwn :: "jsstring \<Rightarrow> segment list" where
  "parseMrkdwn content = (if content = [] then [] else blockLoop [] (split_on NEWLINE content))"

section \<open>Messages of emojis\<close>

definition isEmojiOnly :: "segment list \<Rightarrow> bool" where
  "isEmojiOnly segs =
     (let meaningful = filter (\<lambda>s. \<not> (case s of Text t \<Rightarrow> isBlank t | _ \<Rightarrow> False) \<and> s \<noteq> LineBreak) segs
      in if length meaningful = 0 then False
         else if list_ex (\<lambda>s. case s of EmojiShortcode _ \<Rightarrow> False | _ \<Rightarrow> True) meaningful then False
         else 1 \<le> length meaningful \<and> length meaningful \<le> 3)"

section \<open>What the blocks say\<close>

lemma takeWhile_all: "\<forall>x \<in> set xs. p x \<Longrightarrow> takeWhile p (xs @ ys) = xs @ takeWhile p ys"
  "\<forall>x \<in> set xs. p x \<Longrightarrow> dropWhile p (xs @ ys) = dropWhile p ys"
  by (induction xs) auto

lemma fence_starts:
  "isFence (js ''```'' @ s)" "\<not> isQuote (js ''```'' @ s)"
  by (auto simp: isFence_def isQuote_def startsWith_iff js_def)

text \<open>A fenced block keeps its lines verbatim.\<close>

lemma blockLoop_code:
  assumes "\<forall>l \<in> set code. \<not> isFence l"
  shows "blockLoop [] ((js ''```'' @ lang) # code @ [js ''```'']) =
    [CodeBlock (join [NEWLINE] code) (if trim lang = [] then None else Some (trim lang))]"
proof -
  have "isFence (js ''```'')" using fence_starts(1) [of "[]"] by simp
  then have "takeWhile (\<lambda>l. \<not> isFence l) (code @ [js ''```'']) = code"
    using assms takeWhile_all(1) [of code "\<lambda>l. \<not> isFence l"] by simp
  moreover have "drop 3 (js ''```'' @ lang) = lang" by (simp add: js_def)
  ultimately show ?thesis
    by (simp add: blockLoop.simps(2) fence_starts Let_def)
qed

lemma bullet_starts:
  "isBullet (js ''- '' @ s)" "\<not> isFence (js ''- '' @ s)" "\<not> isQuote (js ''- '' @ s)"
  "stripBullet (js ''- '' @ s) = s"
proof -
  show b: "isBullet (js ''- '' @ s)" by (auto simp: isBullet_def startsWith_iff)
  show "\<not> isFence (js ''- '' @ s)" "\<not> isQuote (js ''- '' @ s)"
    by (auto simp: isFence_def isQuote_def startsWith_iff js_def)
  show "stripBullet (js ''- '' @ s) = s" using b by (simp add: stripBullet_def js_def)
qed

lemma blockLoop_bullets:
  assumes "items \<noteq> []"
  shows "blockLoop [] (map (\<lambda>i. js ''- '' @ i) items) = [BulletList (map parseInline items)]"
proof -
  obtain i rest where items: "items = i # rest" using assms by (cases items) auto
  have bullets: "takeWhile isBullet (map (\<lambda>i. js ''- '' @ i) rest) = map (\<lambda>i. js ''- '' @ i) rest"
    "dropWhile isBullet (map (\<lambda>i. js ''- '' @ i) rest) = []"
    by (auto simp: bullet_starts dropWhile_eq_Nil_conv)
  show ?thesis
    unfolding items by (simp add: blockLoop.simps(2) bullet_starts bullets Let_def comp_def)
qed

text \<open>A line that starts no block and is not blank.\<close>

definition isPlain :: "jsstring \<Rightarrow> bool" where
  "isPlain line \<longleftrightarrow> \<not> isFence line \<and> \<not> isQuote line \<and> \<not> isBullet line \<and> \<not> isOrdered line \<and> \<not> isBlank line"

lemma blockLoop_plain:
  "\<forall>l \<in> set lines. isPlain l \<Longrightarrow>
     blockLoop segs lines = segs @ concat (map (\<lambda>l. parseInline l @ [LineBreak]) (butlast lines)) @
       (if lines = [] then [] else parseInline (last lines))"
proof (induction lines arbitrary: segs)
  case (Cons l ls)
  then have l: "isPlain l" and ls: "\<forall>l \<in> set ls. isPlain l" by auto
  show ?case
  proof (cases ls)
    case Nil
    with l show ?thesis by (simp add: blockLoop.simps(2) isPlain_def)
  next
    case (Cons l' ls')
    with ls have "\<not> isBlank l'" by (simp add: isPlain_def)
    with Cons l Cons.IH [OF ls] show ?thesis
      by (simp add: blockLoop.simps(2) [of _ l] isPlain_def)
  qed
qed simp

lemma parse_lines:
  "lines \<noteq> [] \<Longrightarrow> \<forall>l \<in> set lines. NEWLINE \<notin> set l \<Longrightarrow> join [NEWLINE] lines \<noteq> [] \<Longrightarrow>
     parseMrkdwn (join [NEWLINE] lines) = blockLoop [] lines"
  by (simp add: parseMrkdwn_def split_on_join)

lemma isEmojiOnly_iff:
  "isEmojiOnly segs \<longleftrightarrow>
     (\<exists>names. filter (\<lambda>s. \<not> (case s of Text t \<Rightarrow> isBlank t | _ \<Rightarrow> False) \<and> s \<noteq> LineBreak) segs =
        map EmojiShortcode names \<and> names \<noteq> [] \<and> length names \<le> 3)"
proof -
  have all: "list_ex (\<lambda>s. case s of EmojiShortcode _ \<Rightarrow> False | _ \<Rightarrow> True) xs \<longleftrightarrow>
      \<not> (\<exists>names. xs = map EmojiShortcode names)" for xs
  proof (induction xs)
    case (Cons x xs)
    then show ?case by (cases x) (auto simp: Cons_eq_map_conv)
  qed simp
  have some: "(if length xs = 0 then False else if \<not> (\<exists>names. xs = map EmojiShortcode names) then False
      else 1 \<le> length xs \<and> length xs \<le> 3) \<longleftrightarrow>
      (\<exists>names. xs = map EmojiShortcode names \<and> names \<noteq> [] \<and> length names \<le> 3)" for xs
    by (auto simp: Suc_le_eq)
  show ?thesis
    unfolding isEmojiOnly_def Let_def all by (rule some)
qed

section \<open>Properties\<close>

text \<open>C7: Parsing a line loses, invents and reorders nothing: the line is the concatenation of what
  its segments stand for, where a link stands for \<open><url|text>\<close> or, when its text is its URL,
  for \<open><url>\<close>.\<close>

theorem parse_is_lossless:
  "\<exists>parts. list_all2 renders (parseInline line) parts \<and> concat parts = line"
  by (rule inline_lossless)

text \<open>The parser merges plain text: no text segment of a line is followed by another one.\<close>

theorem parse_merges_text:
  "merged (parseInline line)"
  by (rule inline_merged)

text \<open>C6: Parsing what readable segments stand for gives the segments back: text without special
  characters, formatted text without its own delimiter, mentions, links and shortcodes, in any
  order that has no two texts next to each other.\<close>

theorem parse_roundtrip:
  assumes "list_all readable segs" "merged segs"
  shows "parseInline (concat (map render segs)) = segs"
  using assms by (intro inline_roundtrip) (simp_all add: list_all_iff)

theorem parse_roundtrip_witness:
  "parseInline (concat (map render [Bold (js ''hi''), Text (js '' to ''), UserMention (js ''U1'')])) =
     [Bold (js ''hi''), Text (js '' to ''), UserMention (js ''U1'')]"
  by (rule parse_roundtrip) (simp_all add: js_eval other_def special_def)

text \<open>A fenced code block keeps its lines verbatim, with the trimmed rest of the first fence as
  its language, whatever the lines contain.\<close>

theorem code_block_verbatim:
  assumes "list_all (\<lambda>l. \<not> isFence l \<and> NEWLINE \<notin> set l) code" "NEWLINE \<notin> set lang"
  shows "parseMrkdwn (join [NEWLINE] ((js ''```'' @ lang) # code @ [js ''```''])) =
    [CodeBlock (join [NEWLINE] code) (if trim lang = [] then None else Some (trim lang))]"
proof -
  let ?lines = "(js ''```'' @ lang) # code @ [js ''```'']"
  have "NEWLINE \<notin> set (js ''```'')" by (simp add: js_eval NEWLINE_def)
  then have "\<forall>l \<in> set ?lines. NEWLINE \<notin> set l" using assms by (auto simp: list_all_iff)
  moreover have "join [NEWLINE] ?lines \<noteq> []" by (simp add: join_Cons)
  ultimately have "parseMrkdwn (join [NEWLINE] ?lines) = blockLoop [] ?lines" by (intro parse_lines) auto
  with blockLoop_code [of code lang] assms(1) show ?thesis by (simp add: list_all_iff)
qed

theorem code_block_verbatim_witness:
  "parseMrkdwn (join [NEWLINE] ((js ''```'' @ js ''c'') # [js ''*p = 1;''] @ [js ''```''])) =
     [CodeBlock (js ''*p = 1;'') (Some (js ''c''))]"
proof -
  have "trim (js ''c'') = js ''c''" by (simp add: trim_def js_eval is_ws_def word_le_nat_alt)
  with code_block_verbatim [of "[js ''*p = 1;'']" "js ''c''"] show ?thesis
    by (simp add: isFence_def js_eval NEWLINE_def)
qed

text \<open>A message of bullet lines is one list with an item per line, in order; a message of plain
  lines is their inline segments with a line break between two lines.\<close>

theorem parse_blocks:
  assumes "list_all (\<lambda>i. NEWLINE \<notin> set i) items" "items \<noteq> []"
    and "list_all (\<lambda>l. isPlain l \<and> NEWLINE \<notin> set l) lines" "lines \<noteq> []"
  shows "parseMrkdwn (join [NEWLINE] (map (\<lambda>i. js ''- '' @ i) items)) = [BulletList (map parseInline items)] \<and>
    parseMrkdwn (join [NEWLINE] lines) =
      concat (map (\<lambda>l. parseInline l @ [LineBreak]) (butlast lines)) @ parseInline (last lines)"
proof
  let ?lines = "map (\<lambda>i. js ''- '' @ i) items"
  have "NEWLINE \<notin> set (js ''- '')" by (simp add: js_eval NEWLINE_def)
  then have "\<forall>l \<in> set ?lines. NEWLINE \<notin> set l" using assms(1) by (auto simp: list_all_iff)
  moreover have "join [NEWLINE] ?lines \<noteq> []" using assms(2) by (cases items; cases "tl items") auto
  ultimately have "parseMrkdwn (join [NEWLINE] ?lines) = blockLoop [] ?lines"
    using assms(2) by (intro parse_lines) auto
  then show "parseMrkdwn (join [NEWLINE] ?lines) = [BulletList (map parseInline items)]"
    using blockLoop_bullets [OF assms(2)] by simp
  have plain: "\<forall>l \<in> set lines. isPlain l" "\<forall>l \<in> set lines. NEWLINE \<notin> set l"
    using assms(3) by (simp_all add: list_all_iff)
  then have "hd lines \<noteq> []"
    using assms(4) by (cases lines) (auto simp: isPlain_def isBlank_def trim_def)
  then have "join [NEWLINE] lines \<noteq> []" using assms(4) by (cases lines; cases "tl lines") auto
  then have "parseMrkdwn (join [NEWLINE] lines) = blockLoop [] lines"
    using plain(2) assms(4) by (intro parse_lines)
  then show "parseMrkdwn (join [NEWLINE] lines) =
      concat (map (\<lambda>l. parseInline l @ [LineBreak]) (butlast lines)) @ parseInline (last lines)"
    using blockLoop_plain [OF plain(1)] assms(4) by simp
qed

theorem parse_blocks_witness:
  "parseMrkdwn (join [NEWLINE] (map (\<lambda>i. js ''- '' @ i) [js ''x'', js ''y''])) =
     [BulletList (map parseInline [js ''x'', js ''y''])]"
proof -
  have "isPlain (js ''x'')"
    by (simp add: isPlain_def isFence_def isQuote_def isBullet_def isOrdered_def orderedRest_def
      between_def isBlank_def trim_def js_eval is_ws_def is_digit_def BULLET_def Let_def word_le_nat_alt)
  then show ?thesis
    using parse_blocks [of "[js ''x'', js ''y'']" "[js ''x'']"] by (simp add: js_eval NEWLINE_def)
qed

text \<open>A message counts as emoji only exactly when, blank text and line breaks aside, it consists of
  one to three emoji shortcodes.\<close>

theorem emoji_only:
  "isEmojiOnly segs \<longleftrightarrow>
     (\<exists>names. filter (\<lambda>s. \<not> (case s of Text t \<Rightarrow> isBlank t | _ \<Rightarrow> False) \<and> s \<noteq> LineBreak) segs =
        map EmojiShortcode names \<and> 1 \<le> length names \<and> length names \<le> 3)"
  unfolding isEmojiOnly_iff by (metis One_nat_def Suc_leI length_0_conv length_greater_0_conv not_one_le_zero)

text \<open>Against the comment of the source, a bold text may be followed by another asterisk.\<close>

theorem bold_before_asterisk:
  assumes "t \<noteq> []" "ch CHR ''*'' \<notin> set t"
  shows "parseInline (js ''*'' @ t @ js ''**'') = [Bold t, Text (js ''*'')]"
proof -
  have "matchInline (render (Bold t) @ js ''*'') = Some (Bold t, js ''*'')"
    using assms by (intro matchInline_readable) (auto simp: other_def)
  then have "parseInline (js ''*'' @ t @ js ''**'') = inlineLoop [Bold t] (js ''*'')"
    by (simp add: parseInline_def inlineLoop_match js_eval)
  also have "\<dots> = [Bold t, Text (js ''*'')]"
    by (subst inlineLoop.simps)
      (simp add: matchInline_def inlinePatterns_def pattern_None between_def pattern_defs linkAfter_def
        plainAfter_def appendText_def inlineLoop.simps js_eval Let_def)
  finally show ?thesis .
qed

theorem bold_before_asterisk_witness:
  "parseInline (js ''*'' @ js ''a'' @ js ''**'') = [Bold (js ''a''), Text (js ''*'')]"
  by (rule bold_before_asterisk) (simp_all add: js_eval)

end
