(* ===== verification/EditorSerialization.thy ===== *)
theory EditorSerialization
  imports Mrkdwn
begin

text \<open>
  The web editor's conversions (\<open>apps/web/src/components/editor/serialization\<close>):
  \<open>toMrkdwn\<close> writes the editor's document as mrkdwn when a message is sent,
  \<open>fromMrkdwn\<close> reads a message back when it is edited. TipTap's \<open>JSONContent\<close> is the
  datatype \<open>node\<close>: a type with its attributes, and the children if there are any.

  The editor has a parser of its own. The lemmas compare it with the parser that displays
  messages (\<open>editor_agrees\<close>) and say what editing a message without changing it does
  (\<open>editor_lossless\<close>, \<open>edit_paragraphs\<close>, \<open>edit_quote\<close>).
\<close>

section \<open>Documents\<close>

datatype mark =
    MBold | MItalic | MUnderline | MStrike | MCode
  | MLink "jsstring option"
  | MOther jsstring

datatype node_type =
    Doc
  | Paragraph
  | TextNode jsstring "mark list"
  | HardBreak
  | Heading "nat option"
  | BulletListNode
  | OrderedListNode
  | ListItem
  | BlockquoteNode
  | CodeBlockNode "jsstring option"
  | HorizontalRule
  | UserMentionNode jsstring
  | SpecialMentionNode jsstring
  | ChannelMentionNode jsstring
  | EmojiNode jsstring "jsstring option"
  | OtherNode jsstring
  | Untyped

datatype node = Node (nd_type: node_type) (nd_content: "node list option")

section \<open>Writing\<close>

fun applyMark :: "jsstring \<Rightarrow> mark \<Rightarrow> jsstring" where
  "applyMark text MBold = js ''*'' @ text @ js ''*''"
| "applyMark text MItalic = js ''_'' @ text @ js ''_''"
| "applyMark text MUnderline = js ''++'' @ text @ js ''++''"
| "applyMark text MStrike = js ''~'' @ text @ js ''~''"
| "applyMark text MCode = js ''`'' @ text @ js ''`''"
| "applyMark text (MLink href) =
     (if truthy href then js ''<'' @ the href @ js ''|'' @ text @ js ''>'' else text)"
| "applyMark text (MOther _) = text"

definition serializeText :: "jsstring \<Rightarrow> mark list \<Rightarrow> jsstring" where
  "serializeText text marks = foldl applyMark text marks"

text \<open>A node's text quoted: every line behind \<open>>\<close>.\<close>

definition quoteLine :: "jsstring \<Rightarrow> jsstring" where
  "quoteLine line = (if line \<noteq> [] then js ''> '' @ line else js ''>'')"

definition quoteText :: "jsstring \<Rightarrow> jsstring" where
  "quoteText text = join [NEWLINE] (map quoteLine (split_on NEWLINE text))"

definition endsWithNewline :: "jsstring \<Rightarrow> bool" where
  "endsWithNewline s \<longleftrightarrow> s \<noteq> [] \<and> last s = NEWLINE"

definition fenceCode :: "jsstring option \<Rightarrow> jsstring \<Rightarrow> jsstring" where
  "fenceCode language code =
     (let code' = (if code \<noteq> [] \<and> \<not> endsWithNewline code then code @ [NEWLINE] else code)
      in js ''```'' @ or_else language [] @ [NEWLINE] @ code' @ js ''```'' @ [NEWLINE])"

definition headingStars :: "nat option \<Rightarrow> jsstring" where
  "headingStars level =
     replicate (min (case level of Some n \<Rightarrow> if n = 0 then 1 else n | None \<Rightarrow> 1) 3) (ch CHR ''*'')"

definition numberItems :: "jsstring list \<Rightarrow> jsstring" where
  "numberItems ts = concat (map2 (\<lambda>i t. js_nat (i + 1) @ js ''. '' @ t) [0..<length ts] ts)"

fun serializeNode :: "node \<Rightarrow> jsstring"
  and serializeListItem :: "node \<Rightarrow> jsstring"
  and serializeParagraphChildren :: "node \<Rightarrow> jsstring" where
  "serializeNode (Node ty c) =
     (let children = (case c of None \<Rightarrow> [] | Some cs \<Rightarrow> concat (map serializeNode cs))
      in (case ty of
            Untyped \<Rightarrow> []
          | Doc \<Rightarrow> children
          | Paragraph \<Rightarrow> children @ [NEWLINE]
          | TextNode text marks \<Rightarrow> serializeText text marks
          | HardBreak \<Rightarrow> [NEWLINE]
          | Heading level \<Rightarrow> headingStars level @ children @ headingStars level @ [NEWLINE]
          | BulletListNode \<Rightarrow>
              (case c of None \<Rightarrow> [] | Some items \<Rightarrow>
                 concat (map (\<lambda>item. [BULLET, ch CHR '' ''] @ serializeListItem item) items))
          | OrderedListNode \<Rightarrow>
              (case c of None \<Rightarrow> [] | Some items \<Rightarrow> numberItems (map serializeListItem items))
          | ListItem \<Rightarrow> children
          | BlockquoteNode \<Rightarrow>
              (case c of None \<Rightarrow> [] | Some cs \<Rightarrow>
                 concat (map (\<lambda>child. quoteText (serializeNode child)) cs) @ [NEWLINE])
          | CodeBlockNode language \<Rightarrow> fenceCode language children
          | HorizontalRule \<Rightarrow> js ''---'' @ [NEWLINE]
          | UserMentionNode i \<Rightarrow> js ''<@'' @ i @ js ''>''
          | SpecialMentionNode i \<Rightarrow> js ''<!'' @ i @ js ''>''
          | ChannelMentionNode i \<Rightarrow> js ''<#'' @ i @ js ''>''
          | EmojiNode shortcode _ \<Rightarrow> js '':'' @ shortcode @ js '':''
          | OtherNode _ \<Rightarrow> children))"
| "serializeListItem (Node ty c) =
     (case c of
        None \<Rightarrow> [NEWLINE]
      | Some cs \<Rightarrow>
          concat (map (\<lambda>child. if nd_type child = Paragraph then serializeParagraphChildren child
                                else serializeNode child) cs) @ [NEWLINE])"
| "serializeParagraphChildren (Node ty c) =
     (case c of None \<Rightarrow> [] | Some cs \<Rightarrow> concat (map serializeNode cs))"

definition toMrkdwn :: "node \<Rightarrow> jsstring" where
  "toMrkdwn content = trim (serializeNode content)"

section \<open>Reading\<close>

definition leaf :: "node_type \<Rightarrow> node" where
  "leaf ty = Node ty None"

definition emojiNode :: "(jsstring \<Rightarrow> jsstring option) \<Rightarrow> jsstring \<Rightarrow> node" where
  "emojiNode resolve name =
     leaf (EmojiNode name (if truthy (resolve name) then resolve name else None))"

definition linkNode :: "jsstring \<Rightarrow> jsstring \<Rightarrow> node" where
  "linkNode url label = leaf (TextNode label [MLink (Some url)])"

text \<open>\<open>resolveStandardShortcode\<close>, the emoji table, is the argument \<open>resolve\<close>.\<close>

definition editorPatterns ::
    "(jsstring \<Rightarrow> jsstring option) \<Rightarrow> (jsstring \<Rightarrow> (node \<times> jsstring) option) list" where
  "editorPatterns resolve =
     [\<lambda>s. map_option (apfst (\<lambda>i. leaf (UserMentionNode i))) (userMentionMatch s),
      \<lambda>s. map_option (apfst (\<lambda>i. leaf (SpecialMentionNode i))) (specialMentionMatch s),
      \<lambda>s. map_option (apfst (\<lambda>i. leaf (ChannelMentionNode i))) (channelMentionMatch s),
      \<lambda>s. map_option (apfst (\<lambda>(url, label). linkNode url label)) (linkWithTextMatch s),
      \<lambda>s. map_option (apfst (\<lambda>url. linkNode url url)) (plainLinkMatch s),
      \<lambda>s. map_option (apfst (emojiNode resolve)) (emojiMatch s),
      \<lambda>s. map_option (apfst (\<lambda>t. leaf (TextNode t [MCode]))) (codeMatch s),
      \<lambda>s. map_option (apfst (\<lambda>t. leaf (TextNode t [MBold]))) (boldMatch s),
      \<lambda>s. map_option (apfst (\<lambda>t. leaf (TextNode t [MItalic]))) (italicMatch s),
      \<lambda>s. map_option (apfst (\<lambda>t. leaf (TextNode t [MUnderline]))) (underlineMatch s),
      \<lambda>s. map_option (apfst (\<lambda>t. leaf (TextNode t [MStrike]))) (strikeMatch s)]"

definition matchEditor :: "(jsstring \<Rightarrow> jsstring option) \<Rightarrow> jsstring \<Rightarrow> (node \<times> jsstring) option" where
  "matchEditor resolve = firstMatch (editorPatterns resolve)"

text \<open>The class of \<open>remaining.search(/[:<`*_+~]/)\<close>.\<close>

definition editorSpecial :: "code_unit \<Rightarrow> bool" where
  "editorSpecial c \<longleftrightarrow> c \<in> set (js '':<`*_+~'')"

definition appendPlain :: "node list \<Rightarrow> jsstring \<Rightarrow> node list" where
  "appendPlain nodes s =
     (if nodes = [] then nodes @ [leaf (TextNode s [])]
      else (case nd_type (last nodes) of
          TextNode t [] \<Rightarrow> butlast nodes @ [Node (TextNode (t @ s) []) (nd_content (last nodes))]
        | _ \<Rightarrow> nodes @ [leaf (TextNode s [])]))"

fun part_of :: "node \<Rightarrow> jsstring \<Rightarrow> bool" where
  "part_of n s \<longleftrightarrow> s = serializeNode n \<or> (\<exists>u. n = linkNode u u \<and> is_url (other CHR ''>'') u \<and> s = js ''<'' @ u @ js ''>'')"

lemma serialize_leaf [simp]:
  "serializeNode (leaf (UserMentionNode i)) = js ''<@'' @ i @ js ''>''"
  "serializeNode (leaf (SpecialMentionNode i)) = js ''<!'' @ i @ js ''>''"
  "serializeNode (leaf (ChannelMentionNode i)) = js ''<#'' @ i @ js ''>''"
  "serializeNode (emojiNode resolve n) = js '':'' @ n @ js '':''"
  "u \<noteq> [] \<Longrightarrow> serializeNode (linkNode u t) = js ''<'' @ u @ js ''|'' @ t @ js ''>''"
  "serializeNode (leaf (TextNode t ms)) = serializeText t ms"
  by (simp_all add: leaf_def emojiNode_def linkNode_def serializeText_def)

lemma is_url_nonempty: "is_url p u \<Longrightarrow> u \<noteq> []"
  by (auto simp: is_url_def)

lemma editor_pattern_consumes:
  assumes "f \<in> set (editorPatterns resolve)" "f s = Some (n, r)"
  shows "\<exists>part. part_of n part \<and> s = part @ r \<and> part \<noteq> []"
  using assms unfolding editorPatterns_def
  by (auto simp: pattern_Some serializeText_def is_url_nonempty conj_disj_distribR ex_disj_distrib
    dest!: link_Some plain_Some)

lemma matchEditor_consumes:
  "matchEditor resolve s = Some (n, r) \<Longrightarrow> \<exists>part. part_of n part \<and> s = part @ r \<and> part \<noteq> []"
  unfolding matchEditor_def by (auto dest!: firstMatch_Some intro: editor_pattern_consumes simp del: part_of.simps)

lemma matchEditor_shorter: "matchEditor resolve s = Some (n, r) \<Longrightarrow> length r < length s"
  by (auto dest!: matchEditor_consumes simp del: part_of.simps)

function editorLoop :: "(jsstring \<Rightarrow> jsstring option) \<Rightarrow> node list \<Rightarrow> jsstring \<Rightarrow> node list" where
  "editorLoop resolve nodes remaining =
     (if remaining = [] then nodes
      else (case matchEditor resolve remaining of
          Some (n, rest) \<Rightarrow> editorLoop resolve (nodes @ [n]) rest
        | None \<Rightarrow>
            (case searchAny editorSpecial remaining of
               None \<Rightarrow> editorLoop resolve (appendPlain nodes [hd remaining]) (tl remaining)
             | Some nextSpecial \<Rightarrow>
                 if nextSpecial = 0
                 then editorLoop resolve (appendPlain nodes [hd remaining]) (tl remaining)
                 else editorLoop resolve (appendPlain nodes (take nextSpecial remaining))
                        (drop nextSpecial remaining))))"
  by auto
termination
  by (relation "measure (\<lambda>(_, _, s). length s)") (auto dest: matchEditor_shorter)

declare editorLoop.simps [simp del]

definition editorInline :: "(jsstring \<Rightarrow> jsstring option) \<Rightarrow> jsstring \<Rightarrow> node list" where
  "editorInline resolve s = (if s = [] then [] else editorLoop resolve [] s)"

definition paragraphOf :: "node list \<Rightarrow> node" where
  "paragraphOf ns = Node Paragraph (Some ns)"

text \<open>The loop of \<open>fromMrkdwn\<close>: the nodes it pushes for the lines from index \<open>i\<close> on.\<close>

function editorBlocks :: "(jsstring \<Rightarrow> jsstring option) \<Rightarrow> jsstring list \<Rightarrow> node list" where
  "editorBlocks resolve [] = []"
| "editorBlocks resolve (line # rest) =
     (if isFence line
      then (let lang = drop 3 line; codeLines = takeWhile (\<lambda>l. \<not> isFence l) rest
            in Node (CodeBlockNode (if lang = [] then None else Some lang))
                 (Some [leaf (TextNode (join [NEWLINE] codeLines) [])])
               # editorBlocks resolve (drop (length codeLines + 1) rest))
      else if isQuote line
      then Node BlockquoteNode (Some [paragraphOf (editorInline resolve
               (join [NEWLINE] (map stripQuote (takeWhile isQuote (line # rest)))))])
           # editorBlocks resolve (dropWhile isQuote (line # rest))
      else if isBullet line
      then Node BulletListNode (Some (map (\<lambda>item. Node ListItem (Some [paragraphOf (editorInline resolve item)]))
               (map stripBullet (takeWhile isBullet (line # rest)))))
           # editorBlocks resolve (dropWhile isBullet (line # rest))
      else if isOrdered line
      then Node OrderedListNode (Some (map (\<lambda>item. Node ListItem (Some [paragraphOf (editorInline resolve item)]))
               (map stripOrdered (takeWhile isOrdered (line # rest)))))
           # editorBlocks resolve (dropWhile isOrdered (line # rest))
      else if line = js ''---'' then leaf HorizontalRule # editorBlocks resolve rest
      else if isBlank line then editorBlocks resolve rest
      else paragraphOf (editorInline resolve line) # editorBlocks resolve rest)"
  by pat_completeness auto
termination
  by (relation "measure (length \<circ> snd)") (auto simp: length_dropWhile_le le_imp_less_Suc)

declare editorBlocks.simps(2) [simp del]

definition fromMrkdwn :: "(jsstring \<Rightarrow> jsstring option) \<Rightarrow> jsstring \<Rightarrow> node" where
  "fromMrkdwn resolve mrkdwn =
     (if mrkdwn = [] then Node Doc (Some [leaf Paragraph])
      else (let content = editorBlocks resolve (split_on NEWLINE mrkdwn)
            in Node Doc (Some (if length content = 0 then [leaf Paragraph] else content))))"

section \<open>The editor keeps the text of a line\<close>

fun plain_text :: "node \<Rightarrow> bool" where
  "plain_text (Node (TextNode _ []) _) = True"
| "plain_text _ = False"

lemma appendPlain_merge:
  "appendPlain (nodes @ [Node (TextNode u []) c]) t = nodes @ [Node (TextNode (u @ t) []) c]"
  by (simp add: appendPlain_def)

lemma appendPlain_new:
  "(nodes \<noteq> [] \<Longrightarrow> \<not> plain_text (last nodes)) \<Longrightarrow> appendPlain nodes t = nodes @ [leaf (TextNode t [])]"
  by (cases "last nodes" rule: plain_text.cases) (auto simp: appendPlain_def)

lemma appendPlain_parts:
  assumes "list_all2 part_of nodes parts"
  shows "\<exists>parts'. list_all2 part_of (appendPlain nodes t) parts' \<and> concat parts' = concat parts @ t"
proof (cases "nodes \<noteq> [] \<and> plain_text (last nodes)")
  case True
  then obtain front n where front: "nodes = front @ [n]" "plain_text n"
    by (cases nodes rule: rev_cases) auto
  then obtain u c where n: "n = Node (TextNode u []) c"
    by (cases n rule: plain_text.cases) auto
  from assms front obtain fparts part where p: "parts = fparts @ [part]" "list_all2 part_of front fparts"
      "part_of n part"
    by (auto simp: list_all2_append1 list_all2_Cons1)
  have "part = u" using p(3) by (auto simp: n linkNode_def leaf_def serializeText_def)
  then show ?thesis using p(2)
    by (intro exI [of _ "fparts @ [u @ t]"])
      (auto simp: p(1) front n appendPlain_merge serializeText_def list_all2_appendI)
next
  case False
  then have "appendPlain nodes t = nodes @ [leaf (TextNode t [])]"
    by (intro appendPlain_new) auto
  with assms show ?thesis
    by (intro exI [of _ "parts @ [t]"]) (auto simp: list_all2_appendI serializeText_def)
qed

lemma editorLoop_lossless:
  "list_all2 part_of nodes parts \<Longrightarrow>
     \<exists>parts'. list_all2 part_of (editorLoop resolve nodes remaining) parts' \<and> concat parts' = concat parts @ remaining"
proof (induction resolve nodes remaining arbitrary: parts rule: editorLoop.induct)
  case (1 resolve nodes remaining)
  show ?case
  proof (cases "remaining = []")
    case False
    show ?thesis
    proof (cases "matchEditor resolve remaining")
      case (Some nr)
      obtain n rest where nr: "nr = (n, rest)" by force
      with Some obtain part where part: "part_of n part" "remaining = part @ rest"
        using matchEditor_consumes by blast
      have "list_all2 part_of (nodes @ [n]) (parts @ [part])"
        using "1.prems" part by (simp add: list_all2_appendI del: part_of.simps)
      from "1.IH"(4) [OF False Some nr [symmetric] this] False Some nr part show ?thesis
        by (subst editorLoop.simps) (auto simp del: part_of.simps)
    next
      case None
      from appendPlain_parts [OF "1.prems", of "[hd remaining]"] obtain ps where
        ps: "list_all2 part_of (appendPlain nodes [hd remaining]) ps" "concat ps = concat parts @ [hd remaining]"
        by auto
      show ?thesis
      proof (cases "searchAny editorSpecial remaining")
        case no: None
        from "1.IH"(1) [OF False None no ps(1)] ps(2) False None no show ?thesis
          by (subst editorLoop.simps) (auto simp del: part_of.simps)
      next
        case (Some k)
        show ?thesis
        proof (cases "k = 0")
          case True
          from "1.IH"(2) [OF False None Some True ps(1)] ps(2) False None Some True show ?thesis
            by (subst editorLoop.simps) (auto simp del: part_of.simps)
        next
          case k: False
          from appendPlain_parts [OF "1.prems", of "take k remaining"] obtain qs where
            qs: "list_all2 part_of (appendPlain nodes (take k remaining)) qs"
              "concat qs = concat parts @ take k remaining"
            by auto
          from "1.IH"(3) [OF False None Some k qs(1)] qs(2) False None Some k show ?thesis
            by (subst editorLoop.simps) (auto simp del: part_of.simps)
        qed
      qed
    qed
  qed (use "1.prems" in \<open>auto simp: editorLoop.simps\<close>)
qed

lemma editor_lossless:
  "\<exists>parts. list_all2 part_of (editorInline resolve s) parts \<and> concat parts = s"
  using editorLoop_lossless [of "[]" "[]" resolve s] by (auto simp: editorInline_def)

section \<open>One character at a time\<close>

text \<open>Both loops may take plain text in one piece or character by character.\<close>

lemma appendText_append: "appendText (appendText segs a) b = appendText segs (a @ b)"
  by (cases segs rule: rev_cases) (auto simp: appendText_def butlast_append split: segment.splits)

lemma appendPlain_append: "appendPlain (appendPlain nodes a) b = appendPlain nodes (a @ b)"
proof (cases "nodes \<noteq> [] \<and> plain_text (last nodes)")
  case True
  then obtain front u c where "nodes = front @ [Node (TextNode u []) c]"
    by (cases nodes rule: rev_cases) (auto elim!: plain_text.elims)
  then show ?thesis by (simp add: appendPlain_merge)
next
  case False
  then have "appendPlain nodes t = nodes @ [leaf (TextNode t [])]" for t by (intro appendPlain_new) auto
  then show ?thesis by (simp add: leaf_def appendPlain_merge)
qed

lemma inlineLoop_char:
  assumes "matchInline (c # s) = None"
  shows "inlineLoop segs (c # s) = inlineLoop (appendText segs [c]) s"
proof (cases "special c")
  case True
  with assms show ?thesis by (subst inlineLoop.simps) simp
next
  case False
  have chunk: "inlineLoop segs (t @ u) = inlineLoop (appendText segs t) u"
    if "t \<noteq> []" "\<forall>c \<in> set t. \<not> special c" "u \<noteq> [] \<Longrightarrow> special (hd u)" for segs t u
    using that by (cases u) (auto simp: inlineLoop_text inlineLoop_text_end inlineLoop.simps [of _ "[]"])
  let ?t = "takeWhile (\<lambda>c. \<not> special c) s" and ?u = "dropWhile (\<lambda>c. \<not> special c) s"
  have u: "?u \<noteq> [] \<Longrightarrow> special (hd ?u)" using hd_dropWhile [of "\<lambda>c. \<not> special c" s] by simp
  have t: "\<forall>c \<in> set ?t. \<not> special c" by (auto dest: set_takeWhileD)
  have "inlineLoop segs ((c # ?t) @ ?u) = inlineLoop (appendText segs (c # ?t)) ?u"
    using False t u by (intro chunk) auto
  also have "\<dots> = inlineLoop (appendText segs [c]) (?t @ ?u)"
  proof (cases "?t = []")
    case False
    then show ?thesis using chunk [of ?t ?u "appendText segs [c]"] t u by (simp add: appendText_append)
  qed simp
  finally show ?thesis by simp
qed

lemma editor_special_chars [simp]:
  "editorSpecial 60" "editorSpecial 96" "editorSpecial 42" "editorSpecial 95" "editorSpecial 126"
  "editorSpecial 58" "editorSpecial 43"
  by (simp_all add: editorSpecial_def js_eval)

lemma matchEditor_special: "matchEditor resolve s = Some (n, r) \<Longrightarrow> s \<noteq> [] \<and> editorSpecial (hd s)"
proof -
  have "f \<in> set (editorPatterns resolve) \<Longrightarrow> f s = Some (n, r) \<Longrightarrow> s \<noteq> [] \<and> editorSpecial (hd s)" for f
    unfolding editorPatterns_def by (auto simp: pattern_Some dest!: link_Some plain_Some)
  then show "matchEditor resolve s = Some (n, r) \<Longrightarrow> ?thesis"
    unfolding matchEditor_def by (blast dest: firstMatch_Some)
qed

lemma matchEditor_plain: "\<not> editorSpecial (hd s) \<Longrightarrow> matchEditor resolve s = None"
  using matchEditor_special by (cases "matchEditor resolve s") auto

lemma editorLoop_char:
  "matchEditor resolve (c # s) = None \<Longrightarrow>
     editorLoop resolve nodes (c # s) = editorLoop resolve (appendPlain nodes [c]) s"
proof (induction s arbitrary: c nodes)
  case Nil
  then show ?case by (subst editorLoop.simps) (simp split: option.split)
next
  case (Cons d s)
  show ?case
  proof (cases "searchAny editorSpecial (c # d # s)")
    case None
    with Cons.prems show ?thesis by (subst editorLoop.simps) simp
  next
    case (Some k)
    show ?thesis
    proof (cases "k \<le> 1")
      case True
      then consider "k = 0" | "k = 1" by linarith
      then show ?thesis
        using Some Cons.prems by cases (subst editorLoop.simps, simp)+
    next
      case False
      then obtain j where j: "k = Suc (Suc j)" by (metis less_iff_Suc_add add_Suc not_le One_nat_def plus_1_eq_Suc)
      with Some have search: "searchAny editorSpecial (d # s) = Some (Suc j)" and "\<not> editorSpecial d"
        by (auto split: if_splits)
      then have none: "matchEditor resolve (d # s) = None" by (intro matchEditor_plain) simp
      have "editorLoop resolve nodes (c # d # s) =
          editorLoop resolve (appendPlain nodes (c # d # take j s)) (drop j s)"
        using Cons.prems Some j by (subst editorLoop.simps) simp
      moreover have "editorLoop resolve (appendPlain nodes [c]) (d # s) =
          editorLoop resolve (appendPlain (appendPlain nodes [c]) (d # take j s)) (drop j s)"
        using none search by (subst editorLoop.simps) simp
      ultimately show ?thesis by (simp add: appendPlain_append)
    qed
  qed
qed

section \<open>The two parsers agree\<close>

fun nodeOf :: "(jsstring \<Rightarrow> jsstring option) \<Rightarrow> segment \<Rightarrow> node" where
  "nodeOf resolve (Text t) = leaf (TextNode t [])"
| "nodeOf resolve (Bold t) = leaf (TextNode t [MBold])"
| "nodeOf resolve (Italic t) = leaf (TextNode t [MItalic])"
| "nodeOf resolve (Strike t) = leaf (TextNode t [MStrike])"
| "nodeOf resolve (Code t) = leaf (TextNode t [MCode])"
| "nodeOf resolve (UserMention u) = leaf (UserMentionNode u)"
| "nodeOf resolve (SpecialMention u) = leaf (SpecialMentionNode u)"
| "nodeOf resolve (ChannelMention u) = leaf (ChannelMentionNode u)"
| "nodeOf resolve (Link u t) = linkNode u t"
| "nodeOf resolve (EmojiShortcode n) = emojiNode resolve n"
| "nodeOf resolve _ = leaf Untyped"

lemma firstMatch_map:
  "firstMatch (map (\<lambda>f s. map_option g (f s)) fs) s = map_option g (firstMatch fs s)"
  by (induction fs) (auto split: option.splits)

lemma match_agrees:
  assumes "\<not> startsWith s (js ''++'')"
  shows "matchEditor resolve s = map_option (apfst (nodeOf resolve)) (matchInline s)"
proof -
  have under: "underlineMatch s = None" using assms by (simp add: underlineMatch_def between_no_start)
  have "emojiMatch s = None \<or> codeMatch s = None"
  proof (cases "startsWith s (js '':'')")
    case True
    then have "\<not> startsWith s (js ''`'')" by (auto simp: startsWith_iff js_def)
    then show ?thesis by (simp add: pattern_None)
  qed (simp add: pattern_None)
  then show ?thesis
    unfolding matchEditor_def matchInline_def editorPatterns_def inlinePatterns_def
    by (cases "userMentionMatch s"; cases "specialMentionMatch s"; cases "channelMentionMatch s";
        cases "linkWithTextMatch s"; cases "plainLinkMatch s")
      (auto simp: under split: option.split)
qed

lemma appendPlain_agrees: "appendPlain (map (nodeOf resolve) segs) t = map (nodeOf resolve) (appendText segs t)"
proof (cases segs rule: rev_cases)
  case Nil
  then show ?thesis by (simp add: appendPlain_def appendText_def)
next
  case (snoc front seg)
  then show ?thesis
    by (cases seg) (auto simp: appendPlain_def appendText_def leaf_def linkNode_def emojiNode_def)
qed

lemma no_double_plus: "\<not> strIncludes (a @ s) (js ''++'') \<Longrightarrow> \<not> startsWith s (js ''++'') \<and> \<not> strIncludes s (js ''++'')"
  unfolding strIncludes_iff startsWith_iff by (metis append.assoc)

lemma loops_agree:
  "\<not> strIncludes s (js ''++'') \<Longrightarrow>
     editorLoop resolve (map (nodeOf resolve) segs) s = map (nodeOf resolve) (inlineLoop segs s)"
proof (induction "length s" arbitrary: segs s rule: less_induct)
  case less
  note plus = no_double_plus [of "[]" s, simplified, OF less.prems]
  show ?case
  proof (cases s)
    case Nil
    then show ?thesis by (simp add: editorLoop.simps inlineLoop.simps)
  next
    case (Cons c s')
    show ?thesis
    proof (cases "matchInline s")
      case None
      then have "matchEditor resolve s = None" using match_agrees [OF plus(1)] by simp
      then have "editorLoop resolve (map (nodeOf resolve) segs) s =
          editorLoop resolve (map (nodeOf resolve) (appendText segs [c])) s'"
        using Cons by (simp add: editorLoop_char appendPlain_agrees)
      also have "\<dots> = map (nodeOf resolve) (inlineLoop (appendText segs [c]) s')"
        using less.prems Cons no_double_plus [of "[c]" s'] by (intro less.hyps) auto
      finally show ?thesis using None Cons by (simp add: inlineLoop_char)
    next
      case (Some sr)
      obtain seg r where sr: "sr = (seg, r)" by force
      with Some obtain part where part: "s = part @ r" "part \<noteq> []" using matchInline_consumes by blast
      have "matchEditor resolve s = Some (nodeOf resolve seg, r)"
        using match_agrees [OF plus(1)] Some sr by simp
      then have "editorLoop resolve (map (nodeOf resolve) segs) s =
          editorLoop resolve (map (nodeOf resolve) (segs @ [seg])) r"
        using Cons by (subst editorLoop.simps) simp
      also have "\<dots> = map (nodeOf resolve) (inlineLoop (segs @ [seg]) r)"
        using part less.prems no_double_plus [of part r] by (intro less.hyps) auto
      finally show ?thesis using Some sr by (simp add: inlineLoop_match)
    qed
  qed
qed

lemma editor_agrees:
  "\<not> strIncludes s (js ''++'') \<Longrightarrow> editorInline resolve s = map (nodeOf resolve) (parseInline s)"
  using loops_agree [of s resolve "[]"] by (simp add: editorInline_def parseInline_def)

section \<open>Editing without changing anything\<close>

lemma trim_append_ws: "is_ws c \<Longrightarrow> trim (s @ [c]) = trim s"
proof (cases "\<forall>x \<in> set s. is_ws x")
  case True
  moreover assume "is_ws c"
  ultimately show ?thesis using trim_Nil_iff [of s] trim_Nil_iff [of "s @ [c]"] by simp
next
  case False
  moreover assume "is_ws c"
  ultimately have "dropWhile is_ws (s @ [c]) = dropWhile is_ws s @ [c]"
    by (auto simp: dropWhile_append)
  with \<open>is_ws c\<close> show ?thesis by (simp add: trim_def)
qed

lemma trim_same: "s \<noteq> [] \<Longrightarrow> \<not> is_ws (hd s) \<Longrightarrow> \<not> is_ws (last s) \<Longrightarrow> trim s = s"
proof -
  assume s: "s \<noteq> []" "\<not> is_ws (hd s)" "\<not> is_ws (last s)"
  have dw: "xs \<noteq> [] \<Longrightarrow> \<not> is_ws (hd xs) \<Longrightarrow> dropWhile is_ws xs = xs" for xs by (cases xs) auto
  from dw [OF s(1,2)] dw [of "rev s"] s show ?thesis by (simp add: trim_def hd_rev)
qed

lemma strIncludes_inside: "strIncludes m p \<Longrightarrow> strIncludes (a @ m @ b) p"
  unfolding strIncludes_iff by (metis append.assoc)

lemma newline_ws: "is_ws NEWLINE"
  by (simp add: is_ws_def NEWLINE_def)

lemma part_of_includes:
  "part_of n part \<Longrightarrow> part \<noteq> serializeNode n \<Longrightarrow> strIncludes part (js ''<http'')"
proof -
  assume "part_of n part" "part \<noteq> serializeNode n"
  then obtain u where "is_url (other CHR ''>'') u" "part = js ''<'' @ u @ js ''>''" by auto
  then have "startsWith part (js ''<http'')" by (auto simp: is_url_def js_def)
  then obtain r where "part = [] @ js ''<http'' @ r" by (auto simp: startsWith_iff)
  then show ?thesis unfolding strIncludes_iff by blast
qed

text \<open>Without bare links, what the editor writes for a line is the line.\<close>

lemma serialize_inline:
  assumes "\<not> strIncludes s (js ''<http'')"
  shows "concat (map serializeNode (editorInline resolve s)) = s"
proof -
  obtain parts where parts: "list_all2 part_of (editorInline resolve s) parts" "concat parts = s"
    using editor_lossless by blast
  have "part = serializeNode n" if "(n, part) \<in> set (zip (editorInline resolve s) parts)" for n part
  proof (rule ccontr)
    assume "part \<noteq> serializeNode n"
    moreover have "part_of n part" using that parts(1) unfolding list_all2_iff by blast
    ultimately have "strIncludes part (js ''<http'')" by (intro part_of_includes)
    moreover from set_zip_rightD [OF that] obtain a b where "parts = a @ part # b"
      by (auto dest: split_list)
    ultimately have "strIncludes s (js ''<http'')"
      using strIncludes_inside [of part "js ''<http''" "concat a" "concat b"] parts(2) by simp
    with assms show False by simp
  qed
  then have "list_all2 (\<lambda>n part. serializeNode n = part) (editorInline resolve s) parts"
    using list_all2_lengthD [OF parts(1)] unfolding list_all2_iff by blast
  then have "map serializeNode (editorInline resolve s) = parts"
    by (simp add: list.rel_map(1) [of "(=)", symmetric] list.rel_eq)
  with parts(2) show ?thesis by simp
qed

lemma join_lines: "ls \<noteq> [] \<Longrightarrow> concat (map (\<lambda>l. l @ [NEWLINE]) ls) = join [NEWLINE] ls @ [NEWLINE]"
  by (induction "[NEWLINE]" ls rule: join.induct) auto

definition editable :: "jsstring \<Rightarrow> bool" where
  "editable l \<longleftrightarrow> isPlain l \<and> l \<noteq> js ''---'' \<and> \<not> strIncludes l (js ''<http'') \<and> NEWLINE \<notin> set l"

lemma editorBlocks_plain:
  "\<forall>l \<in> set ls. editable l \<Longrightarrow>
     editorBlocks resolve ls = map (\<lambda>l. paragraphOf (editorInline resolve l)) ls"
  by (induction ls) (auto simp: editorBlocks.simps(2) editable_def isPlain_def)

lemma edit_paragraphs:
  assumes "ls \<noteq> []" "\<forall>l \<in> set ls. editable l" "trim (join [NEWLINE] ls) = join [NEWLINE] ls"
  shows "toMrkdwn (fromMrkdwn resolve (join [NEWLINE] ls)) = join [NEWLINE] ls"
proof (cases "join [NEWLINE] ls = []")
  case True
  then show ?thesis
    by (simp add: toMrkdwn_def fromMrkdwn_def leaf_def trim_append_ws [of _ "[]", simplified] newline_ws trim_def)
next
  case False
  have "serializeNode (fromMrkdwn resolve (join [NEWLINE] ls)) = concat (map (\<lambda>l. l @ [NEWLINE]) ls)"
    using assms False split_on_join [of ls NEWLINE]
    by (auto simp: fromMrkdwn_def editorBlocks_plain paragraphOf_def comp_def editable_def
      serialize_inline intro!: arg_cong [of _ _ concat])
  with assms show ?thesis
    by (simp add: toMrkdwn_def join_lines trim_append_ws newline_ws)
qed

lemma quoteLine_facts:
  "isQuote (quoteLine l)" "\<not> isFence (quoteLine l)" "stripQuote (quoteLine l) = l"
  "quoteLine l \<noteq> []" "hd (quoteLine l) = ch CHR ''>''" "NEWLINE \<notin> set l \<Longrightarrow> NEWLINE \<notin> set (quoteLine l)"
  by (auto simp: quoteLine_def isQuote_def isFence_def stripQuote_def startsWith_iff js_def NEWLINE_def)

lemma editorBlocks_quote:
  assumes "ls \<noteq> []"
  shows "editorBlocks resolve (map quoteLine ls) =
    [Node BlockquoteNode (Some [paragraphOf (editorInline resolve (join [NEWLINE] ls))])]"
proof -
  obtain l rest where ls: "ls = l # rest" using assms by (cases ls) auto
  have quoted: "takeWhile isQuote (map quoteLine rest) = map quoteLine rest"
    "dropWhile isQuote (map quoteLine rest) = []"
    by (auto simp: quoteLine_facts dropWhile_eq_Nil_conv)
  show ?thesis
    unfolding ls by (simp add: editorBlocks.simps(2) quoteLine_facts quoted comp_def)
qed

lemma join_snoc: "ls \<noteq> [] \<Longrightarrow> join sep (ls @ [x]) = join sep ls @ sep @ x"
  by (induction sep ls rule: join.induct) (auto simp: join_Cons)

lemma hd_join: "ls \<noteq> [] \<Longrightarrow> hd ls \<noteq> [] \<Longrightarrow> join sep ls \<noteq> [] \<and> hd (join sep ls) = hd (hd ls)"
  by (cases "(sep, ls)" rule: join.cases) auto

text \<open>Reading a quote and writing it back adds an empty quoted line, each time.\<close>

lemma edit_quote:
  assumes "ls \<noteq> []" "\<forall>l \<in> set ls. NEWLINE \<notin> set l" "\<not> strIncludes (join [NEWLINE] ls) (js ''<http'')"
  shows "toMrkdwn (fromMrkdwn resolve (join [NEWLINE] (map quoteLine ls))) =
    join [NEWLINE] (map quoteLine (ls @ [[]]))"
proof -
  have nonempty: "join [NEWLINE] (map quoteLine ls) \<noteq> []"
    using hd_join [of "map quoteLine ls"] assms(1) by (simp add: hd_map quoteLine_facts)
  have "split_on NEWLINE (join [NEWLINE] (map quoteLine ls)) = map quoteLine ls"
    using assms by (intro split_on_join) (auto simp: quoteLine_facts)
  moreover have "split_on NEWLINE (join [NEWLINE] ls @ [NEWLINE]) = ls @ [[]]"
    using split_on_join [of "ls @ [[]]" NEWLINE] assms by (simp add: join_snoc)
  ultimately have "serializeNode (fromMrkdwn resolve (join [NEWLINE] (map quoteLine ls))) =
      join [NEWLINE] (map quoteLine (ls @ [[]])) @ [NEWLINE]"
    using nonempty assms
    by (simp add: fromMrkdwn_def editorBlocks_quote paragraphOf_def serialize_inline quoteText_def)
  moreover have "trim (join [NEWLINE] (map quoteLine (ls @ [[]]))) = join [NEWLINE] (map quoteLine (ls @ [[]]))"
  proof (rule trim_same)
    have "map quoteLine (ls @ [[]]) \<noteq> []" "hd (map quoteLine (ls @ [[]])) = quoteLine (hd (ls @ [[]]))"
      by (simp_all add: hd_map del: map_append)
    then show "join [NEWLINE] (map quoteLine (ls @ [[]])) \<noteq> []"
      and "\<not> is_ws (hd (join [NEWLINE] (map quoteLine (ls @ [[]]))))"
      using hd_join [of "map quoteLine (ls @ [[]])" "[NEWLINE]"]
      by (auto simp: quoteLine_facts is_ws_def word_le_nat_alt)
    show "\<not> is_ws (last (join [NEWLINE] (map quoteLine (ls @ [[]]))))"
      using assms(1) by (simp add: join_snoc quoteLine_def js_eval is_ws_def word_le_nat_alt)
  qed
  ultimately show ?thesis by (simp add: toMrkdwn_def trim_append_ws newline_ws)
qed

section \<open>Properties\<close>

text \<open>C8: The editor reads a line the way messages are displayed: without a double plus (the mark
  only the editor knows) its nodes are the segments of the message parser, one for one, whatever
  the emoji table.\<close>

theorem editor_reads_as_displayed:
  assumes "\<not> strIncludes line (js ''++'')"
  shows "editorInline resolve line = map (nodeOf resolve) (parseInline line)"
  using assms by (rule editor_agrees)

theorem editor_reads_as_displayed_witness:
  "editorInline (\<lambda>_. None) (js ''*a* b'') = map (nodeOf (\<lambda>_. None)) (parseInline (js ''*a* b''))"
  by (rule editor_reads_as_displayed) (simp add: strIncludes_def js_eval)

text \<open>Opening a message of plain lines in the editor and saving it unchanged gives the same
  message, if it has no bare links, blank lines or outer white space.\<close>

theorem edit_keeps_paragraphs:
  assumes "lines \<noteq> []" "list_all editable lines" "trim (join [NEWLINE] lines) = join [NEWLINE] lines"
  shows "toMrkdwn (fromMrkdwn resolve (join [NEWLINE] lines)) = join [NEWLINE] lines"
  using assms by (intro edit_paragraphs) (simp_all add: list_all_iff)

theorem edit_keeps_paragraphs_witness:
  "toMrkdwn (fromMrkdwn (\<lambda>_. None) (join [NEWLINE] [js ''*a*'', js ''b''])) = join [NEWLINE] [js ''*a*'', js ''b'']"
  by (rule edit_keeps_paragraphs)
    (simp_all add: editable_def isPlain_def isFence_def isQuote_def isBullet_def isOrdered_def orderedRest_def
      between_def isBlank_def trim_def js_eval is_ws_def is_digit_def BULLET_def NEWLINE_def strIncludes_def
      Let_def word_le_nat_alt)

text \<open>Opening a quoted message in the editor and saving it unchanged does not give it back: an empty
  quoted line is appended, each time.\<close>

theorem edit_grows_quote:
  assumes "lines \<noteq> []" "list_all (\<lambda>l. NEWLINE \<notin> set l) lines"
    and "\<not> strIncludes (join [NEWLINE] lines) (js ''<http'')"
  shows "toMrkdwn (fromMrkdwn resolve (join [NEWLINE] (map quoteLine lines))) =
    join [NEWLINE] (map quoteLine (lines @ [[]]))"
  using assms by (intro edit_quote) (simp_all add: list_all_iff)

theorem edit_grows_quote_witness:
  "toMrkdwn (fromMrkdwn (\<lambda>_. None) (js ''> a'')) = js ''> a'' @ [NEWLINE] @ js ''>''"
  using edit_grows_quote [of "[js ''a'']" "\<lambda>_. None"]
  by (simp add: quoteLine_def js_eval NEWLINE_def strIncludes_def)

end
