(* ===== verification/PresenceStore.thy ===== *)
theory PresenceStore
  imports ApiTypes "HOL-Library.AList"
begin

text \<open>
  The typing and presence store of \<open>packages/shared/src/stores/presenceStore.ts\<close>: the
  module-level variables are the fields of one record. A JavaScript \<open>Map\<close> iterates in
  insertion order and \<open>set\<close> keeps the place of an existing key, which is what
  \<open>AList.update\<close> does. A listener is named by a number; \<open>emits\<close> counts the calls of
  \<open>emitChange\<close>. \<open>Date.now()\<close> is an argument, in milliseconds.

  The invariant: a channel's typers are listed once each, no channel has an empty list,
  and the clean-up timer runs exactly while somebody is subscribed. Expired typers are
  gone after every clean-up, and nobody else is.
\<close>

record typing_user =
  tu_userId :: jsstring
  tu_displayName :: jsstring
  tu_expiresAt :: int

definition TYPING_TIMEOUT :: int where
  "TYPING_TIMEOUT = 5000"

record presence_store =
  typingUsers :: "(jsstring \<times> typing_user list) list"
  userPresence :: "(jsstring \<times> presence_status) list"
  listeners :: "nat list"
  cleanupTimer :: bool
  emits :: nat

definition initial_presence :: presence_store where
  "initial_presence =
     \<lparr>typingUsers = [], userPresence = [], listeners = [], cleanupTimer = False, emits = 0\<rparr>"

definition emitChange :: "presence_store \<Rightarrow> presence_store" where
  "emitChange s = s\<lparr>emits := emits s + 1\<rparr>"

section \<open>Subscriptions and the clean-up timer\<close>

definition startCleanupTimer :: "presence_store \<Rightarrow> presence_store" where
  "startCleanupTimer s = (if \<not> cleanupTimer s then s\<lparr>cleanupTimer := True\<rparr> else s)"

definition stopCleanupTimer :: "presence_store \<Rightarrow> presence_store" where
  "stopCleanupTimer s = (if cleanupTimer s then s\<lparr>cleanupTimer := False\<rparr> else s)"

definition subscribe :: "nat \<Rightarrow> presence_store \<Rightarrow> presence_store" where
  "subscribe l s =
     startCleanupTimer (s\<lparr>listeners := (if l \<in> set (listeners s) then listeners s else listeners s @ [l])\<rparr>)"

definition unsubscribe :: "nat \<Rightarrow> presence_store \<Rightarrow> presence_store" where
  "unsubscribe l s =
     (let s1 = s\<lparr>listeners := filter (\<lambda>x. x \<noteq> l) (listeners s)\<rparr>
      in if length (listeners s1) = 0 then stopCleanupTimer s1 else s1)"

section \<open>Typing\<close>

text \<open>\<open>typingUsers.get(channelId) || []\<close>\<close>

definition channelTypers :: "presence_store \<Rightarrow> jsstring \<Rightarrow> typing_user list" where
  "channelTypers s channelId = or_empty (map_of (typingUsers s) channelId)"

definition addTypingUser :: "int \<Rightarrow> jsstring \<Rightarrow> typing_event_data \<Rightarrow> presence_store \<Rightarrow> presence_store" where
  "addTypingUser now channelId d s =
     (let filtered = filter (\<lambda>t. tu_userId t \<noteq> te_user_id d) (channelTypers s channelId)
            @ [\<lparr>tu_userId = te_user_id d,
                tu_displayName = or_else (te_user_display_name d) (js ''Someone''),
                tu_expiresAt = now + TYPING_TIMEOUT\<rparr>]
      in emitChange (s\<lparr>typingUsers := AList.update channelId filtered (typingUsers s)\<rparr>))"

definition removeTypingUser :: "jsstring \<Rightarrow> jsstring \<Rightarrow> presence_store \<Rightarrow> presence_store" where
  "removeTypingUser channelId userId s =
     (let filtered = filter (\<lambda>t. tu_userId t \<noteq> userId) (channelTypers s channelId)
      in emitChange (s\<lparr>typingUsers :=
           (if length filtered = 0 then AList.delete channelId (typingUsers s)
            else AList.update channelId filtered (typingUsers s))\<rparr>))"

definition activeTypers :: "int \<Rightarrow> typing_user list \<Rightarrow> typing_user list" where
  "activeTypers now = filter (\<lambda>t. tu_expiresAt t > now)"

definition expireTyping ::
    "int \<Rightarrow> (jsstring \<times> typing_user list) list \<Rightarrow> (jsstring \<times> typing_user list) list" where
  "expireTyping now m = filter (\<lambda>(k, typers). length typers > 0)
     (map (\<lambda>(k, typers). (k, activeTypers now typers)) m)"

definition cleanupExpiredTyping :: "int \<Rightarrow> presence_store \<Rightarrow> presence_store" where
  "cleanupExpiredTyping now s =
     (let changed = list_ex (\<lambda>(k, typers). length (activeTypers now typers) \<noteq> length typers) (typingUsers s);
          newTyping = expireTyping now (typingUsers s)
      in if changed then emitChange (s\<lparr>typingUsers := newTyping\<rparr>) else s)"

section \<open>Presence\<close>

definition setUserPresence :: "jsstring \<Rightarrow> presence_status \<Rightarrow> presence_store \<Rightarrow> presence_store" where
  "setUserPresence userId status s =
     emitChange (s\<lparr>userPresence := AList.update userId status (userPresence s)\<rparr>)"

definition setMultipleUserPresence ::
    "(jsstring \<times> presence_status) list \<Rightarrow> presence_store \<Rightarrow> presence_store" where
  "setMultipleUserPresence es s =
     emitChange (s\<lparr>userPresence := foldl (\<lambda>m (u, st). AList.update u st m) (userPresence s) es\<rparr>)"

definition clearPresence :: "presence_store \<Rightarrow> presence_store" where
  "clearPresence s = emitChange (s\<lparr>userPresence := [], typingUsers := []\<rparr>)"

definition useUserPresence :: "presence_store \<Rightarrow> jsstring \<Rightarrow> presence_status option" where
  "useUserPresence s userId = map_of (userPresence s) userId"

section \<open>The event handlers on the store\<close>

text \<open>The last section of \<open>cacheUpdaters.ts\<close>: typing and presence events.\<close>

definition handleTypingStart :: "int \<Rightarrow> typing_event_data \<Rightarrow> presence_store \<Rightarrow> presence_store" where
  "handleTypingStart now d = addTypingUser now (te_channel_id d) d"

definition handleTypingStop :: "typing_event_data \<Rightarrow> presence_store \<Rightarrow> presence_store" where
  "handleTypingStop d = removeTypingUser (te_channel_id d) (te_user_id d)"

definition handlePresenceChanged :: "presence_data \<Rightarrow> presence_store \<Rightarrow> presence_store" where
  "handlePresenceChanged d = setUserPresence (pd_user_id d) (pd_status d)"

definition handlePresenceInitial :: "jsstring list \<Rightarrow> presence_store \<Rightarrow> presence_store" where
  "handlePresenceInitial ids = setMultipleUserPresence (map (\<lambda>u. (u, Online)) ids)"

section \<open>The store as a machine\<close>

datatype presence_op =
    AddTyping int jsstring typing_event_data
  | RemoveTyping jsstring jsstring
  | Cleanup int
  | SetPresence jsstring presence_status
  | SetManyPresence "(jsstring \<times> presence_status) list"
  | ClearPresence
  | Subscribe nat
  | Unsubscribe nat

fun presence_step :: "presence_op \<Rightarrow> presence_store \<Rightarrow> presence_store" where
  "presence_step (AddTyping now cid d) s = addTypingUser now cid d s"
| "presence_step (RemoveTyping cid u) s = removeTypingUser cid u s"
| "presence_step (Cleanup now) s = (if cleanupTimer s then cleanupExpiredTyping now s else s)"
| "presence_step (SetPresence u st) s = setUserPresence u st s"
| "presence_step (SetManyPresence es) s = setMultipleUserPresence es s"
| "presence_step ClearPresence s = clearPresence s"
| "presence_step (Subscribe l) s = subscribe l s"
| "presence_step (Unsubscribe l) s = unsubscribe l s"

definition presence_run :: "presence_op list \<Rightarrow> presence_store \<Rightarrow> presence_store" where
  "presence_run os s = foldl (\<lambda>s op. presence_step op s) s os"

section \<open>The invariant\<close>

definition typers_ok :: "(jsstring \<times> typing_user list) list \<Rightarrow> bool" where
  "typers_ok m \<longleftrightarrow> distinct (map fst m) \<and>
     (\<forall>(k, ts) \<in> set m. ts \<noteq> [] \<and> distinct (map tu_userId ts))"

definition presence_ok :: "presence_store \<Rightarrow> bool" where
  "presence_ok s \<longleftrightarrow> typers_ok (typingUsers s) \<and> distinct (map fst (userPresence s)) \<and>
     (cleanupTimer s \<longleftrightarrow> listeners s \<noteq> [])"

lemma set_alist_update:
  "distinct (map fst m) \<Longrightarrow> x \<in> set (AList.update k v m) \<Longrightarrow> x = (k, v) \<or> x \<in> set m"
  by (induction m) (auto split: if_splits)

lemma in_set_alist_delete: "x \<in> set (AList.delete k m) \<Longrightarrow> x \<in> set m"
  by (induction m) (auto split: if_splits)

lemma typers_ok_update:
  "typers_ok m \<Longrightarrow> ts \<noteq> [] \<Longrightarrow> distinct (map tu_userId ts) \<Longrightarrow> typers_ok (AList.update k ts m)"
  unfolding typers_ok_def using set_alist_update [of m _ k ts] by (auto simp: distinct_update) blast+

lemma typers_ok_delete: "typers_ok m \<Longrightarrow> typers_ok (AList.delete k m)"
  unfolding typers_ok_def by (auto simp: distinct_delete dest!: in_set_alist_delete)

lemma typers_ok_typers: "typers_ok m \<Longrightarrow> distinct (map tu_userId (or_empty (map_of m k)))"
  by (cases "map_of m k") (auto simp: typers_ok_def dest!: map_of_SomeD)

lemma distinct_filter_map: "distinct (map f xs) \<Longrightarrow> distinct (map f (filter P xs))"
  by (simp add: distinct_map_filter)

lemma typers_ok_cleanup:
  assumes "typers_ok m"
  shows "typers_ok (expireTyping now m)"
proof -
  have "distinct (map fst (map (\<lambda>(k, typers). (k, activeTypers now typers)) m))"
    using assms by (simp add: typers_ok_def comp_def case_prod_beta)
  then show ?thesis
    using assms unfolding typers_ok_def expireTyping_def
    by (auto simp: activeTypers_def distinct_filter_map distinct_map_filter simp del: map_map)
qed

lemma presence_ok_initial: "presence_ok initial_presence"
  by (simp add: presence_ok_def initial_presence_def typers_ok_def)

lemma distinct_presence_update: "distinct (map fst m) \<Longrightarrow>
    distinct (map fst (foldl (\<lambda>m (u, st). AList.update u st m) m es))"
  by (induction es arbitrary: m) (auto simp: distinct_update)

lemma presence_step_ok:
  assumes "presence_ok s"
  shows "presence_ok (presence_step op s)"
proof (cases op)
  case (AddTyping now cid d)
  have "distinct (map tu_userId (filter (\<lambda>t. tu_userId t \<noteq> te_user_id d) (channelTypers s cid)))"
    using assms by (simp add: channelTypers_def presence_ok_def distinct_filter_map typers_ok_typers)
  with assms AddTyping show ?thesis
    by (auto simp: presence_ok_def addTypingUser_def emitChange_def Let_def intro!: typers_ok_update)
next
  case (RemoveTyping cid u)
  have "distinct (map tu_userId (filter (\<lambda>t. tu_userId t \<noteq> u) (channelTypers s cid)))"
    using assms by (simp add: channelTypers_def presence_ok_def distinct_filter_map typers_ok_typers)
  with assms RemoveTyping show ?thesis
    by (auto simp: presence_ok_def removeTypingUser_def emitChange_def Let_def
      intro!: typers_ok_update typers_ok_delete)
next
  case (Cleanup now)
  with assms show ?thesis
    by (auto simp: presence_ok_def cleanupExpiredTyping_def emitChange_def Let_def intro: typers_ok_cleanup)
next
  case (SetPresence u st)
  with assms show ?thesis
    by (simp add: presence_ok_def setUserPresence_def emitChange_def distinct_update)
next
  case (SetManyPresence es)
  with assms show ?thesis
    by (simp add: presence_ok_def setMultipleUserPresence_def emitChange_def distinct_presence_update)
next
  case ClearPresence
  with assms show ?thesis
    by (simp add: presence_ok_def clearPresence_def emitChange_def typers_ok_def)
next
  case (Subscribe l)
  with assms show ?thesis
    by (auto simp: presence_ok_def subscribe_def startCleanupTimer_def)
next
  case (Unsubscribe l)
  with assms show ?thesis
    by (auto simp: presence_ok_def unsubscribe_def stopCleanupTimer_def Let_def)
qed

lemma presence_run_ok: "presence_ok s \<Longrightarrow> presence_ok (presence_run os s)"
  by (induction os arbitrary: s) (simp_all add: presence_run_def presence_step_ok)

section \<open>Expiry\<close>

lemma map_of_cleanup:
  assumes "distinct (map fst m)"
  shows "map_of (expireTyping now m) cid =
     (case map_of m cid of None \<Rightarrow> None
      | Some ts \<Rightarrow> if activeTypers now ts = [] then None else Some (activeTypers now ts))"
  using assms unfolding expireTyping_def
proof (induction m)
  case (Cons kv m)
  have "map_of m (fst kv) = None"
    using Cons.prems by (simp add: map_of_eq_None_iff)
  with Cons show ?case by (cases kv) (auto split: option.splits)
qed simp

lemma activeTypers_same: "length (activeTypers now ts) = length ts \<Longrightarrow> activeTypers now ts = ts"
  unfolding activeTypers_def
  by (metis filter_id_conv length_filter_less less_irrefl)

text \<open>A clean-up keeps exactly the typers that have not expired, on every channel.\<close>

lemma cleanup_channelTypers:
  assumes "presence_ok s"
  shows "channelTypers (cleanupExpiredTyping now s) cid = activeTypers now (channelTypers s cid)"
proof (cases "list_ex (\<lambda>(k, typers). length (activeTypers now typers) \<noteq> length typers) (typingUsers s)")
  case True
  have "activeTypers now [] = []" by (simp add: activeTypers_def)
  with True assms show ?thesis
    by (auto simp: cleanupExpiredTyping_def emitChange_def channelTypers_def map_of_cleanup
      presence_ok_def typers_ok_def Let_def split: option.splits)
next
  case False
  then have "activeTypers now ts = ts" if "map_of (typingUsers s) cid = Some ts" for ts
    using that by (auto simp: list_ex_iff dest: map_of_SomeD intro: activeTypers_same)
  with False show ?thesis
    by (cases "map_of (typingUsers s) cid")
      (auto simp: cleanupExpiredTyping_def channelTypers_def activeTypers_def)
qed

lemma typer_until:
  assumes "presence_ok s"
  shows "(\<exists>t \<in> set (channelTypers (cleanupExpiredTyping later (addTypingUser now cid d s)) cid).
      tu_userId t = te_user_id d) \<longleftrightarrow> later < now + 5000"
proof -
  have "presence_ok (addTypingUser now cid d s)"
    using presence_step_ok [OF assms, of "AddTyping now cid d"] by simp
  from cleanup_channelTypers [OF this, of later cid] show ?thesis
    by (auto simp: activeTypers_def addTypingUser_def channelTypers_def emitChange_def Let_def
      update_conv' TYPING_TIMEOUT_def)
qed

section \<open>Properties\<close>

text \<open>After any sequence of operations on the presence store no channel has an empty list of typers
  or a user twice, every user has one presence, and the clean-up timer runs exactly while somebody
  is subscribed.\<close>

theorem presence_invariant:
  "list_all (\<lambda>(channel, ts). ts \<noteq> [] \<and> distinct (map tu_userId ts)) (typingUsers (presence_run os initial_presence)) \<and>
   distinct (map fst (typingUsers (presence_run os initial_presence))) \<and>
   distinct (map fst (userPresence (presence_run os initial_presence))) \<and>
   (cleanupTimer (presence_run os initial_presence) \<longleftrightarrow> listeners (presence_run os initial_presence) \<noteq> [])"
  using presence_run_ok [OF presence_ok_initial, of os]
  by (simp add: presence_ok_def typers_ok_def list_all_iff)

text \<open>A clean-up removes exactly the typers whose time is up, on every channel.\<close>

theorem cleanup_exact:
  assumes "presence_ok s"
  shows "channelTypers (cleanupExpiredTyping now s) cid =
    filter (\<lambda>t. tu_expiresAt t > now) (channelTypers s cid)"
  using cleanup_channelTypers [OF assms] by (simp add: activeTypers_def)

theorem cleanup_exact_witness:
  "channelTypers (cleanupExpiredTyping 5001 (addTypingUser 1 (js ''C'')
      \<lparr>te_user_id = js ''u'', te_channel_id = js ''C'', te_user_display_name = None\<rparr> initial_presence)) (js ''C'') = []"
proof -
  let ?d = "\<lparr>te_user_id = js ''u'', te_channel_id = js ''C'', te_user_display_name = None\<rparr>"
  have "presence_ok (addTypingUser 1 (js ''C'') ?d initial_presence)"
    using presence_step_ok [OF presence_ok_initial, of "AddTyping 1 (js ''C'') ?d"] by simp
  from cleanup_exact [OF this, of 5001 "js ''C''"] show ?thesis
    by (simp add: addTypingUser_def channelTypers_def initial_presence_def emitChange_def TYPING_TIMEOUT_def)
qed

text \<open>A user who starts typing is listed once, last, until 5 seconds later: a clean-up before that
  keeps the entry, a clean-up from then on drops it.\<close>

theorem typing_lasts_five_seconds:
  assumes "presence_ok s"
  shows "(\<exists>t \<in> set (channelTypers (cleanupExpiredTyping later (addTypingUser now cid d s)) cid).
      tu_userId t = te_user_id d) \<longleftrightarrow> later < now + 5000"
  using assms by (rule typer_until)

theorem typing_lasts_five_seconds_witness:
  "\<not> (\<exists>t \<in> set (channelTypers (cleanupExpiredTyping 5001 (addTypingUser 1 (js ''C'')
      \<lparr>te_user_id = js ''u'', te_channel_id = js ''C'', te_user_display_name = None\<rparr> initial_presence)) (js ''C'')).
      tu_userId t = js ''u'')"
  using typing_lasts_five_seconds [OF presence_ok_initial, of 5001 1 "js ''C''"
    "\<lparr>te_user_id = js ''u'', te_channel_id = js ''C'', te_user_display_name = None\<rparr>"] by simp

text \<open>The list of online users that follows a connection only adds: a user who is not in it keeps the
  status known before, so whoever went offline while the stream was down stays online.\<close>

theorem initial_presence_only_adds:
  "useUserPresence (handlePresenceInitial ids s) u = (if u \<in> set ids then Some Online else useUserPresence s u)"
proof -
  have "map_of (foldl (\<lambda>m (u, st). AList.update u st m) m (map (\<lambda>u. (u, Online)) ids)) u =
      (if u \<in> set ids then Some Online else map_of m u)" for m
    by (induction ids arbitrary: m) (auto simp: update_conv')
  then show ?thesis
    by (simp add: useUserPresence_def handlePresenceInitial_def setMultipleUserPresence_def emitChange_def)
qed

end
