(* ===== verification/Machines.thy ===== *)
theory Machines
  imports Main
begin

text \<open>
  What the step relations of the development share: the states reachable from a start
  state, and the contract of an invariant (locale \<open>machine\<close>), interpreted for every
  state machine on its own steps and invariant.
\<close>

definition reachable :: "('s \<Rightarrow> 's \<Rightarrow> bool) \<Rightarrow> ('s \<Rightarrow> bool) \<Rightarrow> 's \<Rightarrow> bool" where
  "reachable step start s \<longleftrightarrow> (\<exists>r. start r \<and> step\<^sup>*\<^sup>* r s)"

lemma reachable_start: "start s \<Longrightarrow> reachable step start s"
  by (auto simp: reachable_def)

lemma reachable_step: "reachable step start s \<Longrightarrow> step s t \<Longrightarrow> reachable step start t"
  unfolding reachable_def by (meson rtranclp.rtrancl_into_rtrancl)

locale machine =
  fixes step :: "'s \<Rightarrow> 's \<Rightarrow> bool" and start :: "'s \<Rightarrow> bool" and inv :: "'s \<Rightarrow> bool"
  assumes inv_start: "start s \<Longrightarrow> inv s"
    and inv_step: "step s t \<Longrightarrow> inv s \<Longrightarrow> inv t"
begin

lemma inv_steps: "step\<^sup>*\<^sup>* s t \<Longrightarrow> inv s \<Longrightarrow> inv t"
  by (induction rule: rtranclp_induct) (auto intro: inv_step)

lemma always: "reachable step start s \<Longrightarrow> inv s"
  unfolding reachable_def by (auto intro: inv_steps inv_start)

end

end
