(* ===== verification/SignedUrlCache.thy ===== *)
theory SignedUrlCache
  imports Prelude Machines
begin

text \<open>
  The cache of signed attachment URLs, \<open>packages/shared/src/cache/signedUrlCache.ts\<close>.

  The module keeps two maps: the URLs it has (\<open>cache\<close>) and the promise of every single
  fetch that is under way (\<open>pendingFetches\<close>), so that a file asked for twice is fetched
  once. A promise is a number here; \<open>uc_fetches\<close> records the single fetches that have not
  run their \<open>finally\<close> yet, \<open>uc_batches\<close> the batch requests without an answer. The callbacks
  of a promise run later, in any order: \<open>url_step\<close> interleaves the calls of the module
  with them. The time is an argument, in milliseconds.
\<close>

section \<open>State\<close>

record url_entry =
  ue_url :: jsstring
  ue_expiresAt :: int

definition REFRESH_BUFFER_MS :: int where
  "REFRESH_BUFFER_MS = 5 * 60 * 1000"

record url_cache =
  uc_cache :: "jsstring \<rightharpoonup> url_entry"
  uc_pending :: "jsstring \<rightharpoonup> nat"
  uc_fetches :: "(nat \<times> jsstring) list"
  uc_batches :: "jsstring list list"
  uc_next :: nat

definition initial_urls :: url_cache where
  "initial_urls = \<lparr>uc_cache = (\<lambda>_. None), uc_pending = (\<lambda>_. None), uc_fetches = [],
     uc_batches = [], uc_next = 0\<rparr>"

section \<open>Operations\<close>

definition isFresh :: "int \<Rightarrow> url_entry \<Rightarrow> bool" where
  "isFresh now e \<longleftrightarrow> ue_expiresAt e - now > REFRESH_BUFFER_MS"

definition getCachedIfFresh :: "int \<Rightarrow> url_cache \<Rightarrow> jsstring \<Rightarrow> jsstring option" where
  "getCachedIfFresh now s fileId =
     (case uc_cache s fileId of
        Some e \<Rightarrow> if isFresh now e then Some (ue_url e) else None
      | None \<Rightarrow> None)"

text \<open>The answer of \<open>getUrl\<close>: the URL at once, or the promise of a fetch.\<close>

datatype url_answer = UrlReady jsstring | UrlPromise nat

definition getUrl :: "int \<Rightarrow> url_cache \<Rightarrow> jsstring \<Rightarrow> url_answer \<times> url_cache" where
  "getUrl now s fileId =
     (let cached = getCachedIfFresh now s fileId
      in if truthy cached then (UrlReady (the cached), s)
         else (case uc_pending s fileId of
             Some promise \<Rightarrow> (UrlPromise promise, s)
           | None \<Rightarrow>
               let promise = uc_next s
               in (UrlPromise promise,
                   s\<lparr>uc_pending := (uc_pending s)(fileId \<mapsto> promise),
                     uc_fetches := uc_fetches s @ [(promise, fileId)],
                     uc_next := promise + 1\<rparr>)))"

text \<open>The \<open>then\<close> callback of a single fetch that succeeded.\<close>

definition storeUrl :: "jsstring \<Rightarrow> jsstring \<Rightarrow> int \<Rightarrow> url_cache \<Rightarrow> url_cache" where
  "storeUrl fileId url expiresAt s =
     s\<lparr>uc_cache := (uc_cache s)(fileId \<mapsto> \<lparr>ue_url = url, ue_expiresAt = expiresAt\<rparr>)\<rparr>"

text \<open>The \<open>finally\<close> callback, which runs after success and failure.\<close>

definition finishFetch :: "nat \<Rightarrow> jsstring \<Rightarrow> url_cache \<Rightarrow> url_cache" where
  "finishFetch promise fileId s =
     s\<lparr>uc_pending := (uc_pending s)(fileId := None),
       uc_fetches := filter (\<lambda>f. f \<noteq> (promise, fileId)) (uc_fetches s)\<rparr>"

text \<open>\<open>!getCachedIfFresh(id) && !pendingFetches.has(id)\<close>\<close>

definition isStale :: "int \<Rightarrow> url_cache \<Rightarrow> jsstring \<Rightarrow> bool" where
  "isStale now s fileId \<longleftrightarrow> \<not> truthy (getCachedIfFresh now s fileId) \<and> uc_pending s fileId = None"

definition getUrls :: "int \<Rightarrow> jsstring list \<Rightarrow> url_cache \<Rightarrow> url_cache" where
  "getUrls now fileIds s =
     (let missing = filter (isStale now s) fileIds
      in if length missing = 0 then s else s\<lparr>uc_batches := uc_batches s @ [missing]\<rparr>)"

text \<open>The part of \<open>getUrls\<close> after its \<open>await\<close>: every signed URL of the answer is stored.\<close>

definition storeUrls :: "(jsstring \<times> jsstring \<times> int) list \<Rightarrow> url_cache \<Rightarrow> url_cache" where
  "storeUrls urls s = foldl (\<lambda>s (fileId, url, expiresAt). storeUrl fileId url expiresAt s) s urls"

definition invalidateUrl :: "jsstring \<Rightarrow> url_cache \<Rightarrow> url_cache" where
  "invalidateUrl fileId s = s\<lparr>uc_cache := (uc_cache s)(fileId := None)\<rparr>"

section \<open>Interleavings\<close>

inductive url_step :: "url_cache \<Rightarrow> url_cache \<Rightarrow> bool" where
  get: "getUrl now s fileId = (r, t) \<Longrightarrow> url_step s t"
| batch: "url_step s (getUrls now fileIds s)"
| answered: "(promise, fileId) \<in> set (uc_fetches s) \<Longrightarrow> url_step s (storeUrl fileId url expiresAt s)"
| finished: "(promise, fileId) \<in> set (uc_fetches s) \<Longrightarrow> url_step s (finishFetch promise fileId s)"
| batch_answered: "ids \<in> set (uc_batches s) \<Longrightarrow>
    url_step s (storeUrls urls (s\<lparr>uc_batches := remove1 ids (uc_batches s)\<rparr>))"
| invalidated: "url_step s (invalidateUrl fileId s)"

section \<open>The pending map\<close>

text \<open>
  The pending map is exactly the fetches under way: one per file, under its own promise.
\<close>

definition urls_ok :: "url_cache \<Rightarrow> bool" where
  "urls_ok s \<longleftrightarrow>
     (\<forall>f p. uc_pending s f = Some p \<longleftrightarrow> (p, f) \<in> set (uc_fetches s)) \<and>
     distinct (map snd (uc_fetches s)) \<and>
     (\<forall>(p, f) \<in> set (uc_fetches s). p < uc_next s) \<and>
     distinct (map fst (uc_fetches s))"

lemma urls_okD:
  "urls_ok s \<Longrightarrow> uc_pending s f = Some p \<longleftrightarrow> (p, f) \<in> set (uc_fetches s)"
  "urls_ok s \<Longrightarrow> distinct (map snd (uc_fetches s))"
  "urls_ok s \<Longrightarrow> (p, f) \<in> set (uc_fetches s) \<Longrightarrow> p < uc_next s"
  "urls_ok s \<Longrightarrow> distinct (map fst (uc_fetches s))"
  by (auto simp: urls_ok_def)

lemma storeUrl_fields [simp]:
  "uc_pending (storeUrl f u e s) = uc_pending s"
  "uc_fetches (storeUrl f u e s) = uc_fetches s"
  "uc_batches (storeUrl f u e s) = uc_batches s"
  "uc_next (storeUrl f u e s) = uc_next s"
  by (simp_all add: storeUrl_def)

lemma storeUrls_fields [simp]:
  "uc_pending (storeUrls us s) = uc_pending s"
  "uc_fetches (storeUrls us s) = uc_fetches s"
  "uc_batches (storeUrls us s) = uc_batches s"
  "uc_next (storeUrls us s) = uc_next s"
  unfolding storeUrls_def by (induction us arbitrary: s) (auto simp: storeUrl_def)

lemma getUrls_fields [simp]:
  "uc_pending (getUrls now ids s) = uc_pending s"
  "uc_fetches (getUrls now ids s) = uc_fetches s"
  "uc_cache (getUrls now ids s) = uc_cache s"
  "uc_next (getUrls now ids s) = uc_next s"
  by (simp_all add: getUrls_def Let_def)

lemma urls_ok_cong:
  "uc_pending t = uc_pending s \<Longrightarrow> uc_fetches t = uc_fetches s \<Longrightarrow> uc_next t = uc_next s \<Longrightarrow>
     urls_ok t = urls_ok s"
  by (simp add: urls_ok_def)

lemma urls_ok_getUrl:
  assumes ok: "urls_ok s" and get: "getUrl now s fileId = (r, t)"
  shows "urls_ok t"
proof (cases "t = s")
  case False
  with get have none: "uc_pending s fileId = None"
    and t: "t = s\<lparr>uc_pending := (uc_pending s)(fileId \<mapsto> uc_next s),
       uc_fetches := uc_fetches s @ [(uc_next s, fileId)], uc_next := uc_next s + 1\<rparr>"
    by (auto simp: getUrl_def Let_def split: if_splits option.splits)
  have fresh: "(p, fileId) \<notin> set (uc_fetches s)" for p
    using none urls_okD(1) [OF ok, of fileId p] by simp
  have new: "(uc_next s, f) \<notin> set (uc_fetches s)" for f
    using urls_okD(3) [OF ok, of "uc_next s" f] by auto
  show ?thesis
    using fresh new urls_okD(2,4) [OF ok] unfolding urls_ok_def t
    by (auto simp: urls_okD(1) [OF ok] less_Suc_eq dest: urls_okD(3) [OF ok])
qed (simp add: ok)

lemma urls_ok_finish:
  assumes ok: "urls_ok s" and f: "(promise, fileId) \<in> set (uc_fetches s)"
  shows "urls_ok (finishFetch promise fileId s)"
proof -
  have "(p, fileId) \<in> set (uc_fetches s) \<longleftrightarrow> p = promise" for p
    using f urls_okD(1) [OF ok, of fileId] by (metis option.inject)
  then show ?thesis
    using ok unfolding urls_ok_def finishFetch_def by (auto simp: distinct_map_filter)
qed

lemma urls_ok_step: "url_step s t \<Longrightarrow> urls_ok s \<Longrightarrow> urls_ok t"
proof (induction rule: url_step.induct)
  case (get now s fileId r t)
  then show ?case by (rule urls_ok_getUrl [rotated])
next
  case (finished promise fileId s)
  then show ?case by (simp add: urls_ok_finish)
qed (simp_all add: urls_ok_def invalidateUrl_def)

lemma urls_ok_initial: "urls_ok initial_urls"
  by (simp add: urls_ok_def initial_urls_def)

interpretation urls: machine url_step "\<lambda>s. s = initial_urls" urls_ok
  by unfold_locales (simp_all add: urls_ok_initial urls_ok_step)

section \<open>What the operations answer\<close>

lemma getCachedIfFresh_Some:
  "getCachedIfFresh now s f = Some u \<longleftrightarrow>
     (\<exists>e. uc_cache s f = Some e \<and> ue_url e = u \<and> ue_expiresAt e - now > REFRESH_BUFFER_MS)"
  by (auto simp: getCachedIfFresh_def isFresh_def split: option.splits)

text \<open>Asking again before the answer: the same promise, no second request.\<close>

lemma getUrl_again:
  assumes "getUrl now s f = (UrlPromise p, t)" "now \<le> later"
  shows "getUrl later t f = (UrlPromise p, t)"
proof -
  have stale: "\<not> truthy (getCachedIfFresh now s f)"
    using assms(1) by (auto simp: getUrl_def Let_def split: if_splits)
  have cache: "uc_cache t = uc_cache s" and pend: "uc_pending t f = Some p"
    using assms(1) by (auto simp: getUrl_def Let_def split: if_splits option.splits)
  have "\<not> truthy (getCachedIfFresh later t f)"
    using stale assms(2) unfolding getCachedIfFresh_def cache
    by (auto simp: isFresh_def split: option.splits if_splits)
  with pend show ?thesis by (simp add: getUrl_def Let_def)
qed

lemma storeUrl_cached:
  "expiresAt - now > REFRESH_BUFFER_MS \<Longrightarrow>
     getCachedIfFresh now (storeUrl f url expiresAt s) f = Some url"
  by (simp add: getCachedIfFresh_def storeUrl_def isFresh_def)

lemma getUrls_request:
  "uc_batches (getUrls now ids s) =
     uc_batches s @ (if filter (isStale now s) ids = [] then [] else [filter (isStale now s) ids])"
  by (simp add: getUrls_def Let_def)

section \<open>Properties\<close>

text \<open>C9: However calls and answers interleave, at most one single fetch per file is under way,
  and the pending map holds exactly the promises of the fetches that have not finished.\<close>

theorem single_flight:
  assumes "reachable url_step (\<lambda>s. s = initial_urls) s"
  shows "distinct (map snd (uc_fetches s)) \<and>
    (\<forall>f p. uc_pending s f = Some p \<longleftrightarrow> (p, f) \<in> set (uc_fetches s))"
  using urls.always [OF assms] by (simp add: urls_okD)

theorem single_flight_witness:
  "distinct (map snd (uc_fetches (snd (getUrl 0 initial_urls (js ''a'')))))"
proof -
  have "url_step initial_urls (snd (getUrl 0 initial_urls (js ''a'')))"
    by (rule url_step.get [of _ _ _ "fst (getUrl 0 initial_urls (js ''a''))"]) simp
  then have "reachable url_step (\<lambda>s. s = initial_urls) (snd (getUrl 0 initial_urls (js ''a'')))"
    by (rule reachable_step [rotated]) (simp add: reachable_start)
  from single_flight [OF this] show ?thesis by blast
qed

text \<open>Asking for a file whose fetch is still under way returns the same promise and changes
  nothing, so no second request is sent.\<close>

theorem getUrl_shares:
  assumes "getUrl now s f = (UrlPromise p, t)" "now \<le> later"
  shows "getUrl later t f = (UrlPromise p, t)"
  using assms by (rule getUrl_again)

theorem getUrl_shares_witness:
  "getUrl 7 (snd (getUrl 5 initial_urls (js ''a''))) (js ''a'') =
     (UrlPromise 0, snd (getUrl 5 initial_urls (js ''a'')))"
  by (rule getUrl_shares [of 5 initial_urls])
    (simp_all add: getUrl_def initial_urls_def getCachedIfFresh_def Let_def)

text \<open>C25: A URL that \<open>getUrl\<close> returns at once comes from the cache and stays valid for more than
  the refresh buffer; the call changes nothing.\<close>

theorem getUrl_ready_fresh:
  assumes "getUrl now s f = (UrlReady u, t)"
  shows "t = s \<and> u \<noteq> [] \<and>
    (\<exists>e. uc_cache s f = Some e \<and> ue_url e = u \<and> now + REFRESH_BUFFER_MS < ue_expiresAt e)"
proof -
  from assms have "truthy (getCachedIfFresh now s f)" "t = s" "u = the (getCachedIfFresh now s f)"
    by (auto simp: getUrl_def Let_def split: if_splits option.splits)
  then show ?thesis
    by (cases "getCachedIfFresh now s f") (auto simp: getCachedIfFresh_Some)
qed

theorem getUrl_ready_fresh_witness:
  "ue_expiresAt \<lparr>ue_url = js ''u'', ue_expiresAt = 900000\<rparr> > 5 + REFRESH_BUFFER_MS"
proof -
  let ?s = "storeUrl (js ''a'') (js ''u'') 900000 initial_urls"
  have "getUrl 5 ?s (js ''a'') = (UrlReady (js ''u''), ?s)"
    by (simp add: getUrl_def getCachedIfFresh_def storeUrl_def isFresh_def REFRESH_BUFFER_MS_def Let_def)
  from getUrl_ready_fresh [OF this] show ?thesis by (auto simp: storeUrl_def)
qed

end
