(* ===== verification/SseConnection.thy ===== *)
theory SseConnection
  imports Prelude Machines Complex_Main
begin

text \<open>
  The two event stream connections: \<open>apps/web/src/lib/sse.ts\<close> and
  \<open>apps/mobile/src/lib/sse.ts\<close>, classes of the same name with the same life cycle.

  A connection holds at most one \<open>EventSource\<close> and at most one reconnect timer. Both are
  resources of the host that outlive the field that names them unless they are closed or
  cleared, so the state has them twice: as the fields of the class, and as what the host
  has open (\<open>cn_open\<close>, \<open>cn_timers\<close>). A source or a timer is a number. The callbacks the
  hook installs are counted (\<open>cn_disconnects\<close>, \<open>cn_forbiddens\<close>). An \<open>EventSource\<close> that was
  closed reports nothing more, which is what the guards of the step relations say.
\<close>

section \<open>State\<close>

record connection =
  cn_eventSource :: "nat option"
  cn_reconnectTimeout :: "nat option"
  cn_isConnecting :: bool
  cn_open :: "nat list"
  cn_timers :: "(nat \<times> real) list"
  cn_created :: nat
  cn_scheduled :: nat
  cn_disconnects :: nat
  cn_forbiddens :: nat

definition new_connection :: connection where
  "new_connection = \<lparr>cn_eventSource = None, cn_reconnectTimeout = None, cn_isConnecting = False,
     cn_open = [], cn_timers = [], cn_created = 0, cn_scheduled = 0, cn_disconnects = 0,
     cn_forbiddens = 0\<rparr>"

text \<open>The mobile class counts its attempts and remembers the last event id; \<open>mc_requests\<close>
  lists the tokens and \<open>Last-Event-ID\<close> headers of its requests.\<close>

record mobile_connection = connection +
  mc_attempts :: nat
  mc_lastEventId :: "jsstring option"
  mc_requests :: "(jsstring \<times> jsstring option) list"

definition new_mobile_connection :: mobile_connection where
  "new_mobile_connection = connection.extend new_connection
     \<lparr>mc_attempts = 0, mc_lastEventId = None, mc_requests = []\<rparr>"

section \<open>The resources of the host\<close>

definition close_source :: "nat \<Rightarrow> 'a connection_scheme \<Rightarrow> 'a connection_scheme" where
  "close_source n s = s\<lparr>cn_open := filter (\<lambda>m. m \<noteq> n) (cn_open s)\<rparr>"

definition clear_timer :: "nat \<Rightarrow> 'a connection_scheme \<Rightarrow> 'a connection_scheme" where
  "clear_timer n s = s\<lparr>cn_timers := filter (\<lambda>(m, _). m \<noteq> n) (cn_timers s)\<rparr>"

definition open_source :: "'a connection_scheme \<Rightarrow> 'a connection_scheme" where
  "open_source s = s\<lparr>cn_eventSource := Some (cn_created s), cn_open := cn_open s @ [cn_created s],
     cn_created := cn_created s + 1\<rparr>"

definition set_timer :: "real \<Rightarrow> 'a connection_scheme \<Rightarrow> 'a connection_scheme" where
  "set_timer delay s = s\<lparr>cn_reconnectTimeout := Some (cn_scheduled s),
     cn_timers := cn_timers s @ [(cn_scheduled s, delay)], cn_scheduled := cn_scheduled s + 1\<rparr>"

definition call_onDisconnect :: "'a connection_scheme \<Rightarrow> 'a connection_scheme" where
  "call_onDisconnect s = s\<lparr>cn_disconnects := cn_disconnects s + 1\<rparr>"

definition call_onForbidden :: "'a connection_scheme \<Rightarrow> 'a connection_scheme" where
  "call_onForbidden s = s\<lparr>cn_forbiddens := cn_forbiddens s + 1\<rparr>"

section \<open>The web class\<close>

definition WEB_RECONNECT_DELAY :: real where
  "WEB_RECONNECT_DELAY = 3000"

definition web_connect :: "connection \<Rightarrow> connection" where
  "web_connect s =
     (if cn_eventSource s \<noteq> None \<or> cn_isConnecting s then s
      else open_source (s\<lparr>cn_isConnecting := True\<rparr>))"

definition web_disconnect :: "connection \<Rightarrow> connection" where
  "web_disconnect s =
     (let s1 = s\<lparr>cn_isConnecting := False\<rparr>;
          s2 = (case cn_eventSource s1 of
                  Some n \<Rightarrow> (close_source n s1)\<lparr>cn_eventSource := None\<rparr>
                | None \<Rightarrow> s1)
      in (case cn_reconnectTimeout s2 of
            Some n \<Rightarrow> (clear_timer n s2)\<lparr>cn_reconnectTimeout := None\<rparr>
          | None \<Rightarrow> s2))"

definition web_scheduleReconnect :: "connection \<Rightarrow> connection" where
  "web_scheduleReconnect s =
     (if cn_reconnectTimeout s \<noteq> None then s else set_timer WEB_RECONNECT_DELAY s)"

definition web_onopen :: "connection \<Rightarrow> connection" where
  "web_onopen s = s\<lparr>cn_isConnecting := False\<rparr>"

definition web_onerror :: "int option \<Rightarrow> connection \<Rightarrow> connection" where
  "web_onerror code s =
     (if code = Some 403
      then call_onForbidden (web_disconnect (call_onDisconnect s))
      else web_scheduleReconnect (web_disconnect (call_onDisconnect s)))"

text \<open>The callback of timer \<open>n\<close>, which the host forgets when it fires.\<close>

definition web_onTimer :: "nat \<Rightarrow> connection \<Rightarrow> connection" where
  "web_onTimer n s = web_connect ((clear_timer n s)\<lparr>cn_reconnectTimeout := None\<rparr>)"

section \<open>The mobile class\<close>

text \<open>\<open>Math.random()\<close> is the argument \<open>r\<close>, at least 0 and below 1.\<close>

definition mobile_delay :: "real \<Rightarrow> nat \<Rightarrow> real" where
  "mobile_delay r attempts = min (3000 * 2 ^ attempts) 30000 * (0.5 + r * 0.5)"

definition mobile_connect :: "jsstring option \<Rightarrow> mobile_connection \<Rightarrow> mobile_connection" where
  "mobile_connect token s =
     (if cn_eventSource s \<noteq> None \<or> cn_isConnecting s then s
      else if \<not> truthy token then call_onForbidden s
      else (let header = (if truthy (mc_lastEventId s) then mc_lastEventId s else None)
            in open_source (s\<lparr>cn_isConnecting := True,
                 mc_requests := mc_requests s @ [(the token, header)]\<rparr>)))"

definition mobile_disconnect :: "mobile_connection \<Rightarrow> mobile_connection" where
  "mobile_disconnect s =
     (let s1 = s\<lparr>cn_isConnecting := False\<rparr>;
          s2 = (case cn_eventSource s1 of
                  Some n \<Rightarrow> (close_source n s1)\<lparr>cn_eventSource := None\<rparr>
                | None \<Rightarrow> s1)
      in (case cn_reconnectTimeout s2 of
            Some n \<Rightarrow> (clear_timer n s2)\<lparr>cn_reconnectTimeout := None\<rparr>
          | None \<Rightarrow> s2))"

definition mobile_scheduleReconnect :: "real \<Rightarrow> mobile_connection \<Rightarrow> mobile_connection" where
  "mobile_scheduleReconnect r s =
     (if cn_reconnectTimeout s \<noteq> None then s
      else set_timer (mobile_delay r (mc_attempts s)) (s\<lparr>mc_attempts := mc_attempts s + 1\<rparr>))"

definition mobile_onOpen :: "mobile_connection \<Rightarrow> mobile_connection" where
  "mobile_onOpen s = s\<lparr>cn_isConnecting := False, mc_attempts := 0\<rparr>"

text \<open>The state a \<open>message\<close> event leaves; its dispatch is \<open>mobile_dispatch\<close> below.\<close>

definition mobile_onMessage ::
    "jsstring option \<Rightarrow> jsstring option \<Rightarrow> mobile_connection \<Rightarrow> mobile_connection" where
  "mobile_onMessage payload lastEventId s =
     (if \<not> truthy payload then s
      else if truthy lastEventId then s\<lparr>mc_lastEventId := lastEventId\<rparr> else s)"

definition mobile_onError :: "int option \<Rightarrow> real \<Rightarrow> mobile_connection \<Rightarrow> mobile_connection" where
  "mobile_onError xhrStatus r s =
     (if xhrStatus = Some 403
      then call_onForbidden (mobile_disconnect (call_onDisconnect s))
      else mobile_scheduleReconnect r (mobile_disconnect (call_onDisconnect s)))"

definition mobile_onTimer :: "jsstring option \<Rightarrow> nat \<Rightarrow> mobile_connection \<Rightarrow> mobile_connection" where
  "mobile_onTimer token n s = mobile_connect token ((clear_timer n s)\<lparr>cn_reconnectTimeout := None\<rparr>)"

section \<open>Handlers\<close>

type_synonym 'h registry = "jsstring \<rightharpoonup> 'h list"

definition on_event :: "jsstring \<Rightarrow> 'h \<Rightarrow> 'h registry \<Rightarrow> 'h registry" where
  "on_event eventType handler hs = hs(eventType \<mapsto> or_empty (hs eventType) @ [handler])"

text \<open>The function \<open>on\<close> returns, which takes the first occurrence out of the list.\<close>

definition off_event :: "jsstring \<Rightarrow> 'h \<Rightarrow> 'h registry \<Rightarrow> 'h registry" where
  "off_event eventType handler hs = hs(eventType := map_option (remove1 handler) (hs eventType))"

text \<open>The handlers an event of a type calls, in order.\<close>

definition web_dispatch :: "'h registry \<Rightarrow> jsstring \<Rightarrow> 'h list" where
  "web_dispatch hs eventType = or_empty (hs eventType) @ or_empty (hs (js ''*''))"

definition mobile_dispatch :: "'h registry \<Rightarrow> jsstring \<Rightarrow> 'h list" where
  "mobile_dispatch hs eventType = or_empty (hs eventType)"

section \<open>Steps\<close>

text \<open>Every call and callback of the web class, in any order.\<close>

inductive web_step :: "connection \<Rightarrow> connection \<Rightarrow> bool" where
  web_called: "web_step s (web_connect s)"
| web_opened: "n \<in> set (cn_open s) \<Longrightarrow> web_step s (web_onopen s)"
| web_failed: "n \<in> set (cn_open s) \<Longrightarrow> web_step s (web_onerror code s)"
| web_fired: "(n, d) \<in> set (cn_timers s) \<Longrightarrow> web_step s (web_onTimer n s)"
| web_left: "web_step s (web_disconnect s)"

text \<open>What happens to a mounted connection before a 403 and before it is left.\<close>

inductive web_running :: "connection \<Rightarrow> connection \<Rightarrow> bool" where
  wr_opened: "n \<in> set (cn_open s) \<Longrightarrow> web_running s (web_onopen s)"
| wr_failed: "n \<in> set (cn_open s) \<Longrightarrow> code \<noteq> Some 403 \<Longrightarrow> web_running s (web_onerror code s)"
| wr_fired: "(n, d) \<in> set (cn_timers s) \<Longrightarrow> web_running s (web_onTimer n s)"

inductive mobile_step :: "mobile_connection \<Rightarrow> mobile_connection \<Rightarrow> bool" where
  mobile_called: "mobile_step s (mobile_connect token s)"
| mobile_opened: "n \<in> set (cn_open s) \<Longrightarrow> mobile_step s (mobile_onOpen s)"
| mobile_received: "n \<in> set (cn_open s) \<Longrightarrow> mobile_step s (mobile_onMessage payload eid s)"
| mobile_failed: "n \<in> set (cn_open s) \<Longrightarrow> 0 \<le> r \<Longrightarrow> r < 1 \<Longrightarrow> mobile_step s (mobile_onError status r s)"
| mobile_fired: "(n, d) \<in> set (cn_timers s) \<Longrightarrow> mobile_step s (mobile_onTimer token n s)"
| mobile_left: "mobile_step s (mobile_disconnect s)"

inductive mobile_running :: "mobile_connection \<Rightarrow> mobile_connection \<Rightarrow> bool" where
  mr_opened: "n \<in> set (cn_open s) \<Longrightarrow> mobile_running s (mobile_onOpen s)"
| mr_received: "n \<in> set (cn_open s) \<Longrightarrow> mobile_running s (mobile_onMessage payload eid s)"
| mr_failed: "n \<in> set (cn_open s) \<Longrightarrow> 0 \<le> r \<Longrightarrow> r < 1 \<Longrightarrow> status \<noteq> Some 403 \<Longrightarrow>
    mobile_running s (mobile_onError status r s)"
| mr_fired: "(n, d) \<in> set (cn_timers s) \<Longrightarrow> truthy token \<Longrightarrow> mobile_running s (mobile_onTimer token n s)"

lemmas connection_defs = close_source_def clear_timer_def open_source_def set_timer_def
  call_onDisconnect_def call_onForbidden_def Let_def

lemmas web_defs = web_connect_def web_disconnect_def web_scheduleReconnect_def web_onopen_def
  web_onerror_def web_onTimer_def connection_defs

lemmas mobile_defs = mobile_connect_def mobile_disconnect_def mobile_scheduleReconnect_def
  mobile_onOpen_def mobile_onMessage_def mobile_onError_def mobile_onTimer_def connection_defs

section \<open>No leaks\<close>

text \<open>What the host has open is what the fields name; a delay is between 1.5 and 30 seconds.\<close>

definition conn_ok :: "'a connection_scheme \<Rightarrow> bool" where
  "conn_ok s \<longleftrightarrow>
     cn_open s = (case cn_eventSource s of None \<Rightarrow> [] | Some n \<Rightarrow> [n]) \<and>
     map fst (cn_timers s) = (case cn_reconnectTimeout s of None \<Rightarrow> [] | Some n \<Rightarrow> [n]) \<and>
     (\<forall>(n, d) \<in> set (cn_timers s). 1500 \<le> d \<and> d \<le> 30000) \<and>
     (cn_isConnecting s \<longrightarrow> cn_eventSource s \<noteq> None)"

lemma mobile_delay_bounds:
  assumes "0 \<le> r" "r < 1"
  shows "mobile_delay r k \<le> min (3000 * 2 ^ k) 30000" "min (3000 * 2 ^ k) 30000 / 2 \<le> mobile_delay r k"
proof -
  have pos: "(0::real) \<le> min (3000 * 2 ^ k) 30000" by simp
  have "mobile_delay r k \<le> min (3000 * 2 ^ k) 30000 * 1"
    unfolding mobile_delay_def using assms pos by (intro mult_left_mono) auto
  then show "mobile_delay r k \<le> min (3000 * 2 ^ k) 30000" by simp
  have "min (3000 * 2 ^ k) 30000 * (1 / 2) \<le> mobile_delay r k"
    unfolding mobile_delay_def using assms pos by (intro mult_left_mono) auto
  then show "min (3000 * 2 ^ k) 30000 / 2 \<le> mobile_delay r k" by simp
qed

lemma mobile_delay_range: "0 \<le> r \<Longrightarrow> r < 1 \<Longrightarrow> 1500 \<le> mobile_delay r k \<and> mobile_delay r k \<le> 30000"
proof -
  assume r: "0 \<le> r" "r < 1"
  have "(1::real) \<le> 2 ^ k" by simp
  then have "(3000::real) \<le> min (3000 * 2 ^ k) 30000" by simp
  with mobile_delay_bounds [OF r, of k] show ?thesis by linarith
qed

lemma timers_Nil_iff: "conn_ok s \<Longrightarrow> cn_timers s = [] \<longleftrightarrow> cn_reconnectTimeout s = None"
  unfolding conn_ok_def by (cases "cn_timers s") (auto split: option.splits)

lemma timers_single:
  "conn_ok s \<Longrightarrow> cn_reconnectTimeout s = Some n \<Longrightarrow> \<exists>d. cn_timers s = [(n, d)]"
  unfolding conn_ok_def by (cases "cn_timers s") auto

lemma conn_ok_close:
  "conn_ok s \<Longrightarrow> conn_ok (s\<lparr>cn_isConnecting := False, cn_eventSource := None, cn_reconnectTimeout := None,
     cn_open := [], cn_timers := []\<rparr>)"
  by (simp add: conn_ok_def)

text \<open>After \<open>disconnect\<close> nothing is open.\<close>

lemma web_disconnect_ok:
  "conn_ok s \<Longrightarrow> web_disconnect s = s\<lparr>cn_isConnecting := False, cn_eventSource := None,
     cn_reconnectTimeout := None, cn_open := [], cn_timers := []\<rparr>"
  using timers_single [of s] timers_Nil_iff [of s]
  by (auto simp: web_disconnect_def connection_defs conn_ok_def split: option.splits)

lemma mobile_disconnect_ok:
  "conn_ok s \<Longrightarrow> mobile_disconnect s = s\<lparr>cn_isConnecting := False, cn_eventSource := None,
     cn_reconnectTimeout := None, cn_open := [], cn_timers := []\<rparr>"
  using timers_single [of s] timers_Nil_iff [of s]
  by (auto simp: mobile_disconnect_def connection_defs conn_ok_def split: option.splits)

text \<open>A timer that fires is the one the field names.\<close>

lemma timer_in:
  "conn_ok s \<Longrightarrow> (n, d) \<in> set (cn_timers s) \<Longrightarrow>
     cn_reconnectTimeout s = Some n \<and> cn_timers s = [(n, d)]"
  unfolding conn_ok_def by (cases "cn_timers s") (auto split: option.splits)

lemma source_in: "conn_ok s \<Longrightarrow> n \<in> set (cn_open s) \<Longrightarrow> cn_eventSource s = Some n"
  unfolding conn_ok_def by (auto split: option.splits)

lemma conn_ok_call [simp]: "conn_ok (call_onDisconnect s) = conn_ok s"
  by (simp add: conn_ok_def call_onDisconnect_def)

lemma conn_ok_web_connect: "conn_ok s \<Longrightarrow> conn_ok (web_connect s)"
  by (auto simp: web_connect_def connection_defs conn_ok_def)

lemma conn_ok_web_error: "conn_ok s \<Longrightarrow> conn_ok (web_onerror code s)"
proof -
  assume ok: "conn_ok s"
  then have "conn_ok (call_onDisconnect s)" by simp
  from web_disconnect_ok [OF this] show ?thesis
    by (simp add: web_onerror_def web_scheduleReconnect_def connection_defs conn_ok_def
      WEB_RECONNECT_DELAY_def)
qed

lemma conn_ok_fired:
  "conn_ok s \<Longrightarrow> (n, d) \<in> set (cn_timers s) \<Longrightarrow> conn_ok ((clear_timer n s)\<lparr>cn_reconnectTimeout := None\<rparr>)"
  using timer_in [of s n d] by (auto simp: conn_ok_def clear_timer_def)

lemma conn_ok_web_step: "web_step s t \<Longrightarrow> conn_ok s \<Longrightarrow> conn_ok t"
proof (induction rule: web_step.induct)
  case (web_left s)
  then show ?case by (simp add: web_disconnect_ok conn_ok_close)
next
  case (web_fired n d s)
  then show ?case by (auto simp: web_onTimer_def intro: conn_ok_web_connect conn_ok_fired)
next
  case (web_opened n s)
  then show ?case by (auto simp: conn_ok_def web_onopen_def)
qed (auto intro: conn_ok_web_connect conn_ok_web_error)

lemma conn_ok_new: "conn_ok new_connection" "conn_ok new_mobile_connection"
  by (simp_all add: conn_ok_def new_connection_def new_mobile_connection_def connection.defs)

interpretation web: machine web_step "\<lambda>s. s = new_connection" conn_ok
  by unfold_locales (simp_all add: conn_ok_new conn_ok_web_step)

lemma conn_ok_mobile_connect: "conn_ok s \<Longrightarrow> conn_ok (mobile_connect token s)"
  by (auto simp: mobile_connect_def connection_defs conn_ok_def)

lemma conn_ok_mobile_error: "conn_ok s \<Longrightarrow> 0 \<le> r \<Longrightarrow> r < 1 \<Longrightarrow> conn_ok (mobile_onError status r s)"
proof -
  assume ok: "conn_ok s" and r: "0 \<le> r" "r < 1"
  from ok have "conn_ok (call_onDisconnect s)" by simp
  from mobile_disconnect_ok [OF this] mobile_delay_range [OF r] show ?thesis
    by (simp add: mobile_onError_def mobile_scheduleReconnect_def connection_defs conn_ok_def)
qed

lemma conn_ok_mobile_step: "mobile_step s t \<Longrightarrow> conn_ok s \<Longrightarrow> conn_ok t"
proof (induction rule: mobile_step.induct)
  case (mobile_left s)
  then show ?case by (simp add: mobile_disconnect_ok conn_ok_close)
next
  case (mobile_fired n d s token)
  then show ?case by (auto simp: mobile_onTimer_def intro: conn_ok_mobile_connect conn_ok_fired)
next
  case (mobile_opened n s)
  then show ?case by (auto simp: conn_ok_def mobile_onOpen_def)
next
  case (mobile_received n s payload eid)
  then show ?case by (auto simp: conn_ok_def mobile_onMessage_def)
qed (auto intro: conn_ok_mobile_connect conn_ok_mobile_error)

interpretation mobile: machine mobile_step "\<lambda>s. s = new_mobile_connection" conn_ok
  by unfold_locales (simp_all add: conn_ok_new conn_ok_mobile_step)

section \<open>Reconnecting\<close>

text \<open>A running connection has a source or a timer that will make one, never both.\<close>

definition will_connect :: "'a connection_scheme \<Rightarrow> bool" where
  "will_connect s \<longleftrightarrow> conn_ok s \<and> (cn_eventSource s = None \<longleftrightarrow> cn_reconnectTimeout s \<noteq> None)"

lemma conn_ok_idle: "conn_ok s \<Longrightarrow> cn_eventSource s = None \<Longrightarrow> \<not> cn_isConnecting s"
  by (auto simp: conn_ok_def)

lemma will_connect_web: "web_running s t \<Longrightarrow> will_connect s \<Longrightarrow> will_connect t"
proof (induction rule: web_running.induct)
  case (wr_opened n s)
  then show ?case by (auto simp: will_connect_def conn_ok_def web_onopen_def)
next
  case (wr_failed n s code)
  then have ok: "conn_ok (call_onDisconnect s)" by (simp add: will_connect_def)
  have "conn_ok (web_onerror code s)" using wr_failed by (simp add: will_connect_def conn_ok_web_error)
  with wr_failed.hyps web_disconnect_ok [OF ok] show ?case
    by (simp add: will_connect_def web_onerror_def web_scheduleReconnect_def connection_defs)
next
  case (wr_fired n d s)
  then have ok: "conn_ok s" and none: "cn_eventSource s = None"
    using timer_in [of s n d] by (auto simp: will_connect_def)
  have "conn_ok (web_onTimer n s)" using ok wr_fired.hyps
    by (auto simp: web_onTimer_def intro: conn_ok_web_connect conn_ok_fired)
  with none conn_ok_idle [OF ok] show ?case
    by (simp add: will_connect_def web_onTimer_def web_connect_def connection_defs)
qed

lemma will_connect_mobile: "mobile_running s t \<Longrightarrow> will_connect s \<Longrightarrow> will_connect t"
proof (induction rule: mobile_running.induct)
  case (mr_opened n s)
  then show ?case by (auto simp: will_connect_def conn_ok_def mobile_onOpen_def)
next
  case (mr_received n s payload eid)
  then show ?case by (auto simp: will_connect_def conn_ok_def mobile_onMessage_def)
next
  case (mr_failed n s r status)
  then have ok: "conn_ok (call_onDisconnect s)" by (simp add: will_connect_def)
  have "conn_ok (mobile_onError status r s)"
    using mr_failed by (simp add: will_connect_def conn_ok_mobile_error)
  with mr_failed.hyps mobile_disconnect_ok [OF ok] show ?case
    by (simp add: will_connect_def mobile_onError_def mobile_scheduleReconnect_def connection_defs)
next
  case (mr_fired n d s token)
  then have ok: "conn_ok s" and none: "cn_eventSource s = None"
    using timer_in [of s n d] by (auto simp: will_connect_def)
  have "conn_ok (mobile_onTimer token n s)" using ok mr_fired.hyps
    by (auto simp: mobile_onTimer_def intro: conn_ok_mobile_connect conn_ok_fired)
  with none conn_ok_idle [OF ok] mr_fired.hyps show ?case
    by (simp add: will_connect_def mobile_onTimer_def mobile_connect_def connection_defs)
qed

lemma will_connect_started:
  "will_connect (web_connect new_connection)"
  "truthy token \<Longrightarrow> will_connect (mobile_connect token new_mobile_connection)"
  by (simp_all add: will_connect_def conn_ok_def web_connect_def mobile_connect_def connection_defs
    new_connection_def new_mobile_connection_def connection.defs)

interpretation web_run: machine web_running "\<lambda>s. s = web_connect new_connection" will_connect
  by unfold_locales (simp_all add: will_connect_started will_connect_web)

definition mobile_started :: "mobile_connection \<Rightarrow> bool" where
  "mobile_started s \<longleftrightarrow> (\<exists>token. truthy token \<and> s = mobile_connect token new_mobile_connection)"

interpretation mobile_run: machine mobile_running mobile_started will_connect
  by unfold_locales (auto simp: mobile_started_def will_connect_started will_connect_mobile)

section \<open>Giving up, and coming back\<close>

text \<open>After a 403 nothing is open and no timer is set: no step but a new call connects.\<close>

lemma forbidden_web:
  "conn_ok s \<Longrightarrow> cn_open (web_onerror (Some 403) s) = [] \<and> cn_timers (web_onerror (Some 403) s) = [] \<and>
     cn_forbiddens (web_onerror (Some 403) s) = cn_forbiddens s + 1"
  by (simp add: web_onerror_def web_disconnect_ok call_onForbidden_def)
    (simp add: call_onDisconnect_def)

lemma forbidden_mobile:
  "conn_ok s \<Longrightarrow> cn_open (mobile_onError (Some 403) r s) = [] \<and> cn_timers (mobile_onError (Some 403) r s) = []
     \<and> cn_forbiddens (mobile_onError (Some 403) r s) = cn_forbiddens s + 1"
  by (simp add: mobile_onError_def mobile_disconnect_ok call_onForbidden_def)
    (simp add: call_onDisconnect_def)

inductive_cases web_runningE: "web_running s t"
inductive_cases mobile_runningE: "mobile_running s t"

lemma web_stuck: "cn_open s = [] \<Longrightarrow> cn_timers s = [] \<Longrightarrow> \<not> web_running s t"
  by (auto elim: web_runningE)

lemma mobile_stuck: "cn_open s = [] \<Longrightarrow> cn_timers s = [] \<Longrightarrow> \<not> mobile_running s t"
  by (auto elim: mobile_runningE)

text \<open>The failures in a row since the stream was last open.\<close>

fun mobile_fail :: "(real \<times> jsstring) list \<Rightarrow> mobile_connection \<Rightarrow> mobile_connection" where
  "mobile_fail [] s = s"
| "mobile_fail ((r, token) # rs) s =
     (let s1 = mobile_onError None r s
      in mobile_fail rs (mobile_onTimer (Some token) (the (cn_reconnectTimeout s1)) s1))"

text \<open>One failure and the reconnection after it.\<close>

lemma mobile_fail_once:
  assumes "conn_ok s" "token \<noteq> []"
  shows "mobile_onTimer (Some token) (the (cn_reconnectTimeout (mobile_onError None r s))) (mobile_onError None r s) =
    s\<lparr>cn_eventSource := Some (cn_created s), cn_open := [cn_created s], cn_created := cn_created s + 1,
      cn_isConnecting := True, cn_reconnectTimeout := None, cn_timers := [],
      cn_scheduled := cn_scheduled s + 1, cn_disconnects := cn_disconnects s + 1,
      mc_attempts := mc_attempts s + 1,
      mc_requests := mc_requests s @
        [(token, if truthy (mc_lastEventId s) then mc_lastEventId s else None)]\<rparr>"
proof -
  have "conn_ok (call_onDisconnect s)" using assms by simp
  from mobile_disconnect_ok [OF this] show ?thesis using assms(2)
    by (simp add: mobile_onError_def mobile_scheduleReconnect_def mobile_onTimer_def mobile_connect_def
      connection_defs)
qed

lemma mobile_fail_attempts:
  "conn_ok s \<Longrightarrow> \<forall>(r, token) \<in> set rs. token \<noteq> [] \<Longrightarrow>
     mc_attempts (mobile_fail rs s) = mc_attempts s + length rs \<and> conn_ok (mobile_fail rs s)"
proof (induction rs arbitrary: s)
  case (Cons p rs)
  obtain r token where p: "p = (r, token)" by force
  let ?t = "mobile_onTimer (Some token) (the (cn_reconnectTimeout (mobile_onError None r s))) (mobile_onError None r s)"
  have once: "?t = s\<lparr>cn_eventSource := Some (cn_created s), cn_open := [cn_created s], cn_created := cn_created s + 1,
      cn_isConnecting := True, cn_reconnectTimeout := None, cn_timers := [],
      cn_scheduled := cn_scheduled s + 1, cn_disconnects := cn_disconnects s + 1,
      mc_attempts := mc_attempts s + 1,
      mc_requests := mc_requests s @
        [(token, if truthy (mc_lastEventId s) then mc_lastEventId s else None)]\<rparr>"
    using Cons.prems p by (intro mobile_fail_once) auto
  then have "conn_ok ?t" "mc_attempts ?t = mc_attempts s + 1" by (simp_all add: conn_ok_def)
  with Cons.IH [of ?t] Cons.prems p show ?case by (simp add: Let_def)
qed simp

section \<open>Registering handlers\<close>

lemma on_off_new: "h \<notin> set (or_empty (hs t)) \<Longrightarrow> or_empty (off_event t h (on_event t h hs) u) = or_empty (hs u)"
  by (auto simp: off_event_def on_event_def remove1_append remove1_idem)

lemma on_dispatch:
  "mobile_dispatch (on_event t h hs) u = mobile_dispatch hs u @ (if t = u then [h] else [])"
  by (simp add: mobile_dispatch_def on_event_def)

lemma will_connect_one: "will_connect s \<Longrightarrow> length (cn_open s) + length (cn_timers s) = 1"
  using timers_single [of s] timers_Nil_iff [of s]
  by (cases "cn_eventSource s") (auto simp: will_connect_def conn_ok_def)

lemma web_connect_reachable: "reachable web_step (\<lambda>s. s = new_connection) (web_connect new_connection)"
  using reachable_step [OF reachable_start, of "\<lambda>s. s = new_connection" new_connection web_step]
  by (simp add: web_called)

lemma mobile_connect_reachable:
  "reachable mobile_step (\<lambda>s. s = new_mobile_connection) (mobile_connect token new_mobile_connection)"
  using reachable_step [OF reachable_start, of "\<lambda>s. s = new_mobile_connection" new_mobile_connection mobile_step]
  by (simp add: mobile_called)

section \<open>Properties\<close>

text \<open>C15: The web connection never leaks: in every reachable state the host has open exactly the
  \<open>EventSource\<close> and the timer that the fields name, so at most one of each.\<close>

theorem web_no_leak:
  assumes "reachable web_step (\<lambda>s. s = new_connection) s"
  shows "cn_open s = (case cn_eventSource s of None \<Rightarrow> [] | Some n \<Rightarrow> [n]) \<and>
    map fst (cn_timers s) = (case cn_reconnectTimeout s of None \<Rightarrow> [] | Some n \<Rightarrow> [n])"
  using web.always [OF assms] by (simp add: conn_ok_def)

theorem web_no_leak_witness:
  "cn_open (web_onerror None (web_connect new_connection)) = []"
proof -
  have "0 \<in> set (cn_open (web_connect new_connection))"
    by (simp add: web_defs new_connection_def)
  from web_no_leak [OF reachable_step [OF web_connect_reachable web_failed [OF this, of None]]]
  show ?thesis by (simp add: web_defs new_connection_def)
qed

text \<open>The mobile connection never leaks either, and each of its reconnect timers is set
  for 1.5 to 30 seconds.\<close>

theorem mobile_no_leak:
  assumes "reachable mobile_step (\<lambda>s. s = new_mobile_connection) s"
  shows "cn_open s = (case cn_eventSource s of None \<Rightarrow> [] | Some n \<Rightarrow> [n]) \<and>
    map fst (cn_timers s) = (case cn_reconnectTimeout s of None \<Rightarrow> [] | Some n \<Rightarrow> [n]) \<and>
    list_all (\<lambda>(n, d). 1500 \<le> d \<and> d \<le> 30000) (cn_timers s)"
  using mobile.always [OF assms] by (simp add: conn_ok_def list_all_iff)

theorem mobile_no_leak_witness:
  "list_all (\<lambda>(n, d). 1500 \<le> d \<and> d \<le> 30000) (cn_timers (mobile_onError None (1 / 2)
      (mobile_connect (Some (js ''t'')) new_mobile_connection)))"
proof -
  let ?c = "mobile_connect (Some (js ''t'')) new_mobile_connection"
  have "0 \<in> set (cn_open ?c)"
    by (simp add: mobile_defs new_mobile_connection_def new_connection_def connection.defs)
  then have "mobile_step ?c (mobile_onError None (1 / 2) ?c)" by (rule mobile_failed) simp_all
  from mobile_no_leak [OF reachable_step [OF mobile_connect_reachable this]] show ?thesis by blast
qed



text \<open>C12: A 403 ends the connection: \<open>onForbidden\<close> is called once more, nothing is left open and
  no timer is set, so the connection makes no further step by itself.\<close>

theorem forbidden_stops:
  assumes "reachable web_step (\<lambda>s. s = new_connection) s"
    and "reachable mobile_step (\<lambda>s. s = new_mobile_connection) m"
  shows "cn_forbiddens (web_onerror (Some 403) s) = cn_forbiddens s + 1 \<and>
    \<not> web_running (web_onerror (Some 403) s) t \<and>
    cn_forbiddens (mobile_onError (Some 403) r m) = cn_forbiddens m + 1 \<and>
    \<not> mobile_running (mobile_onError (Some 403) r m) u"
  using forbidden_web [OF web.always [OF assms(1)]] forbidden_mobile [OF mobile.always [OF assms(2)]]
  by (simp add: web_stuck mobile_stuck)

theorem forbidden_stops_witness:
  "cn_forbiddens (web_onerror (Some 403) (web_connect new_connection)) = 1"
  using forbidden_stops [OF web_connect_reachable mobile_connect_reachable]
  by (simp add: web_connect_def connection_defs new_connection_def)

text \<open>C11: Exponential backoff: after \<open>k\<close> failures in a row the next delay of the mobile connection
  lies between half of and all of \<open>3000 * 2 ^ k\<close> milliseconds, capped at 30 seconds, and opening
  the stream starts over.\<close>

theorem mobile_backoff:
  assumes "conn_ok s" "mc_attempts s = 0" "list_all (\<lambda>(r, token). token \<noteq> []) rs" "0 \<le> r" "r < 1"
  shows "(\<exists>n d. cn_timers (mobile_onError None r (mobile_fail rs s)) = [(n, d)] \<and>
      min (3000 * 2 ^ length rs) 30000 / 2 \<le> d \<and> d \<le> min (3000 * 2 ^ length rs) 30000) \<and>
    mc_attempts (mobile_onOpen (mobile_fail rs s)) = 0"
proof -
  let ?t = "mobile_fail rs s"
  have "\<forall>(r, token) \<in> set rs. token \<noteq> []" using assms(3) by (simp add: list_all_iff)
  then have t: "mc_attempts ?t = length rs" "conn_ok (call_onDisconnect ?t)"
    using mobile_fail_attempts [OF assms(1)] assms(2) by simp_all
  have "cn_timers (mobile_onError None r ?t) = [(cn_scheduled ?t, mobile_delay r (length rs))]"
    by (simp add: mobile_onError_def mobile_scheduleReconnect_def mobile_disconnect_ok [OF t(2)] set_timer_def)
      (simp add: call_onDisconnect_def t(1))
  then show ?thesis
    using mobile_delay_bounds [OF assms(4,5), of "length rs"] by (simp add: mobile_onOpen_def)
qed

theorem mobile_backoff_witness:
  "\<exists>n d. cn_timers (mobile_onError None 0 (mobile_fail [(0, js ''t''), (0, js ''t'')] new_mobile_connection)) =
     [(n, d)] \<and> 6000 \<le> d \<and> d \<le> 12000"
proof -
  have "mc_attempts new_mobile_connection = 0" by (simp add: new_mobile_connection_def connection.defs)
  from mobile_backoff [OF conn_ok_new(2) this, of "[(0, js ''t''), (0, js ''t'')]" 0] show ?thesis by simp
qed

text \<open>Removing a handler that was registered restores what every event type dispatches, in
  both classes; a handler hears exactly the events of its type.\<close>

theorem handler_registration:
  assumes "h \<notin> set (or_empty (hs t))"
  shows "web_dispatch (off_event t h (on_event t h hs)) u = web_dispatch hs u \<and>
    mobile_dispatch (off_event t h (on_event t h hs)) u = mobile_dispatch hs u \<and>
    mobile_dispatch (on_event t h hs) u = mobile_dispatch hs u @ (if t = u then [h] else [])"
  by (simp add: on_dispatch) (simp add: web_dispatch_def mobile_dispatch_def on_off_new assms)

theorem handler_registration_witness:
  "mobile_dispatch (off_event (js ''m'') (1::nat) (on_event (js ''m'') 1 (\<lambda>_. None))) (js ''m'') = []"
  using handler_registration [of "1::nat" "\<lambda>_. None" "js ''m''" "js ''m''"]
  by (simp add: mobile_dispatch_def)

end
