(* ===== verification/SseEvents.thy ===== *)
theory SseEvents
  imports CacheInvariant PresenceStore SignedUrlCache SseConnection
begin

text \<open>
  The event stream: the union \<open>SSEEvent\<close> of the API schema, and the two \<open>useSSE\<close> hooks
  (\<open>apps/web/src/hooks/useSSE.ts\<close>, \<open>apps/mobile/src/hooks/useSSE.ts\<close>) that register one
  handler per event type on a connection. The state of an app is the query client, the
  presence store, the URL cache and the flags of the hook; on the web there are also the
  toasts, sounds and browser notifications it has shown.

  \<open>web_receive\<close> is an event arriving at the connection: it goes through the registry of
  \<open>SseConnection\<close> to the handlers registered for its type.
\<close>

section \<open>Events\<close>

datatype sse_event =
    Connected
  | Heartbeat
  | MessageNew message_with_user
  | MessageUpdated message_with_user
  | MessageDeleted message_deleted_data
  | ReactionAdded reaction
  | ReactionRemoved reaction_removed_data
  | ChannelCreated channel
  | ChannelUpdated channel
  | ChannelArchived channel
  | ChannelMemberAdded channel_member_data
  | ChannelMemberRemoved channel_member_data
  | ChannelRead channel_read_data
  | TypingStart typing_event_data
  | TypingStop typing_event_data
  | PresenceChanged presence_data
  | PresenceInitial "jsstring list"
  | Notification notification_data
  | EmojiCreated custom_emoji
  | EmojiDeleted emoji_deleted_data
  | MessagePinned message_with_user
  | MessageUnpinned message_with_user
  | MemberBanned workspace_member_data
  | MemberUnbanned workspace_member_data
  | MemberLeft workspace_member_data
  | MemberRoleChanged member_role_changed_data
  | WorkspaceUpdated
  | ChannelsInvalidate
  | ScheduledMessageCreated
  | ScheduledMessageUpdated
  | ScheduledMessageDeleted
  | ScheduledMessageSent scheduled_message_sent_data
  | ScheduledMessageFailed

fun event_type :: "sse_event \<Rightarrow> jsstring" where
  "event_type Connected = js ''connected''"
| "event_type Heartbeat = js ''heartbeat''"
| "event_type (MessageNew _) = js ''message.new''"
| "event_type (MessageUpdated _) = js ''message.updated''"
| "event_type (MessageDeleted _) = js ''message.deleted''"
| "event_type (ReactionAdded _) = js ''reaction.added''"
| "event_type (ReactionRemoved _) = js ''reaction.removed''"
| "event_type (ChannelCreated _) = js ''channel.created''"
| "event_type (ChannelUpdated _) = js ''channel.updated''"
| "event_type (ChannelArchived _) = js ''channel.archived''"
| "event_type (ChannelMemberAdded _) = js ''channel.member_added''"
| "event_type (ChannelMemberRemoved _) = js ''channel.member_removed''"
| "event_type (ChannelRead _) = js ''channel.read''"
| "event_type (TypingStart _) = js ''typing.start''"
| "event_type (TypingStop _) = js ''typing.stop''"
| "event_type (PresenceChanged _) = js ''presence.changed''"
| "event_type (PresenceInitial _) = js ''presence.initial''"
| "event_type (Notification _) = js ''notification''"
| "event_type (EmojiCreated _) = js ''emoji.created''"
| "event_type (EmojiDeleted _) = js ''emoji.deleted''"
| "event_type (MessagePinned _) = js ''message.pinned''"
| "event_type (MessageUnpinned _) = js ''message.unpinned''"
| "event_type (MemberBanned _) = js ''member.banned''"
| "event_type (MemberUnbanned _) = js ''member.unbanned''"
| "event_type (MemberLeft _) = js ''member.left''"
| "event_type (MemberRoleChanged _) = js ''member.role_changed''"
| "event_type WorkspaceUpdated = js ''workspace.updated''"
| "event_type ChannelsInvalidate = js ''channels.invalidate''"
| "event_type ScheduledMessageCreated = js ''scheduled_message.created''"
| "event_type ScheduledMessageUpdated = js ''scheduled_message.updated''"
| "event_type ScheduledMessageDeleted = js ''scheduled_message.deleted''"
| "event_type (ScheduledMessageSent _) = js ''scheduled_message.sent''"
| "event_type ScheduledMessageFailed = js ''scheduled_message.failed''"

section \<open>The state of an app\<close>

datatype toast_kind = ErrorToast | SuccessToast

record browser_notification =
  bn_title :: jsstring
  bn_body :: jsstring
  bn_target :: "jsstring option"

record 'qc app_state =
  app_client :: 'qc
  app_presence :: presence_store
  app_urls :: url_cache
  app_isConnected :: bool
  app_hasBeenConnected :: bool
  app_toasts :: "(jsstring \<times> toast_kind) list"
  app_sounds :: nat
  app_notifications :: "browser_notification list"

text \<open>What the handlers read of the host when an event arrives.\<close>

record sse_env =
  env_now :: int
  env_iso :: jsstring
  env_lc :: "jsstring \<Rightarrow> jsstring \<Rightarrow> int"
  env_hasFocus :: bool
  env_workspaceId :: jsstring

definition on_client :: "('qc \<Rightarrow> 'qc) \<Rightarrow> 'qc app_state \<Rightarrow> 'qc app_state" where
  "on_client f s = s\<lparr>app_client := f (app_client s)\<rparr>"

definition on_presence :: "(presence_store \<Rightarrow> presence_store) \<Rightarrow> 'qc app_state \<Rightarrow> 'qc app_state" where
  "on_presence f s = s\<lparr>app_presence := f (app_presence s)\<rparr>"

definition add_toast :: "jsstring \<Rightarrow> toast_kind \<Rightarrow> 'qc app_state \<Rightarrow> 'qc app_state" where
  "add_toast text kind s = s\<lparr>app_toasts := app_toasts s @ [(text, kind)]\<rparr>"

definition receive_message :: "'qc query_ops \<Rightarrow> sse_env \<Rightarrow> message_with_user \<Rightarrow> 'qc app_state \<Rightarrow> 'qc app_state" where
  "receive_message ops env d s =
     (let (c, batches) = handleNewMessage ops (app_client s) (env_workspaceId env) d
      in s\<lparr>app_client := c, app_urls := foldl (\<lambda>u ids. getUrls (env_now env) ids u) (app_urls s) batches\<rparr>)"

section \<open>Notifications on the web\<close>

definition getNotificationTitle :: "notification_data \<Rightarrow> jsstring" where
  "getNotificationTitle n =
     (let prefix = (if nt_type n = NDm then js ''DM''
            else js ''#'' @ or_else (nt_channel_name n) (js ''channel''));
          sender = or_else (nt_sender_name n) (js ''Someone'')
      in (case nt_type n of
            NMention \<Rightarrow> sender @ js '' mentioned you in '' @ prefix
          | NDm \<Rightarrow> sender @ js '' sent you a message''
          | NChannel \<Rightarrow> sender @ js '' in '' @ prefix @ js '' (@channel)''
          | NHere \<Rightarrow> sender @ js '' in '' @ prefix @ js '' (@here)''
          | NEveryone \<Rightarrow> sender @ js '' in '' @ prefix @ js '' (@everyone)''
          | NThreadReply \<Rightarrow> sender @ js '' replied to a thread in '' @ prefix))"

text \<open>The route a click on the browser notification opens.\<close>

definition notificationRoute :: "jsstring \<Rightarrow> notification_data \<Rightarrow> jsstring option" where
  "notificationRoute workspaceId n =
     (if nt_channel_id n \<noteq> [] \<and> workspaceId \<noteq> []
      then Some (js ''/workspaces/'' @ workspaceId @ js ''/channels/'' @ nt_channel_id n)
      else None)"

definition web_notify :: "sse_env \<Rightarrow> notification_data \<Rightarrow> 'qc app_state \<Rightarrow> 'qc app_state" where
  "web_notify env n s =
     (if \<not> env_hasFocus env
      then s\<lparr>app_sounds := app_sounds s + 1,
             app_notifications := app_notifications s @
               [\<lparr>bn_title = getNotificationTitle n, bn_body = or_else (nt_preview n) [],
                 bn_target = notificationRoute (env_workspaceId env) n\<rparr>]\<rparr>
      else s)"

definition web_notification :: "'qc query_ops \<Rightarrow> sse_env \<Rightarrow> notification_data \<Rightarrow> 'qc app_state \<Rightarrow> 'qc app_state" where
  "web_notification ops env d s =
     (let (c, notification) = handleNotification ops (app_client s) (env_workspaceId env) d
      in web_notify env notification (s\<lparr>app_client := c\<rparr>))"

definition web_unbanned :: "'qc query_ops \<Rightarrow> sse_env \<Rightarrow> workspace_member_data \<Rightarrow> 'qc app_state \<Rightarrow> 'qc app_state" where
  "web_unbanned ops env d s =
     (let (c, isCurrentUser) = handleMemberUnbanned ops (app_client s) (env_workspaceId env) d;
          s1 = s\<lparr>app_client := c\<rparr>
      in if isCurrentUser then add_toast (js ''You have been unbanned'') SuccessToast s1 else s1)"

section \<open>The handlers of the web hook\<close>

fun web_handle :: "'qc query_ops \<Rightarrow> sse_env \<Rightarrow> sse_event \<Rightarrow> 'qc app_state \<Rightarrow> 'qc app_state" where
  "web_handle ops env Connected s = s\<lparr>app_hasBeenConnected := True, app_isConnected := True\<rparr>"
| "web_handle ops env Heartbeat s = s"
| "web_handle ops env (MessageNew d) s = receive_message ops env d s"
| "web_handle ops env (MessageUpdated d) s = on_client (\<lambda>c. handleMessageUpdated ops c d) s"
| "web_handle ops env (MessageDeleted d) s =
     on_client (\<lambda>c. handleMessageDeleted ops (env_iso env) c d) s"
| "web_handle ops env (ReactionAdded d) s = on_client (\<lambda>c. handleReactionAdded ops c d) s"
| "web_handle ops env (ReactionRemoved d) s = on_client (\<lambda>c. handleReactionRemoved ops c d) s"
| "web_handle ops env (ChannelCreated d) s =
     on_client (\<lambda>c. handleChannelCreated ops c (env_workspaceId env) d) s"
| "web_handle ops env ChannelsInvalidate s =
     on_client (\<lambda>c. handleChannelsInvalidate ops c (env_workspaceId env)) s"
| "web_handle ops env (ChannelUpdated d) s =
     on_client (\<lambda>c. handleChannelUpdated ops c (env_workspaceId env) d) s"
| "web_handle ops env (ChannelArchived d) s =
     on_client (\<lambda>c. handleChannelArchived ops c (env_workspaceId env) d) s"
| "web_handle ops env (ChannelMemberAdded d) s =
     on_client (\<lambda>c. handleMemberAdded ops c (env_workspaceId env) d) s"
| "web_handle ops env (ChannelMemberRemoved d) s =
     on_client (\<lambda>c. handleMemberRemoved ops c (env_workspaceId env) d) s"
| "web_handle ops env (ChannelRead d) s =
     on_client (\<lambda>c. handleChannelRead ops c (env_workspaceId env) d) s"
| "web_handle ops env (EmojiCreated d) s =
     on_client (\<lambda>c. handleEmojiCreated ops (env_lc env) c (env_workspaceId env) d) s"
| "web_handle ops env (EmojiDeleted d) s =
     on_client (\<lambda>c. handleEmojiDeleted ops c (env_workspaceId env) d) s"
| "web_handle ops env WorkspaceUpdated s =
     on_client (\<lambda>c. handleWorkspaceUpdated ops c (env_workspaceId env)) s"
| "web_handle ops env ScheduledMessageCreated s =
     on_client (\<lambda>c. handleScheduledMessageChange ops c (env_workspaceId env)) s"
| "web_handle ops env ScheduledMessageUpdated s =
     on_client (\<lambda>c. handleScheduledMessageChange ops c (env_workspaceId env)) s"
| "web_handle ops env ScheduledMessageDeleted s =
     on_client (\<lambda>c. handleScheduledMessageChange ops c (env_workspaceId env)) s"
| "web_handle ops env (ScheduledMessageSent d) s =
     on_client (\<lambda>c. handleScheduledMessageSent ops c (env_workspaceId env) d) s"
| "web_handle ops env ScheduledMessageFailed s =
     add_toast (js ''A scheduled message failed to send'') ErrorToast
       (on_client (\<lambda>c. handleScheduledMessageChange ops c (env_workspaceId env)) s)"
| "web_handle ops env (MessagePinned d) s = on_client (\<lambda>c. handleMessagePinned ops c d) s"
| "web_handle ops env (MessageUnpinned d) s = on_client (\<lambda>c. handleMessageUnpinned ops c d) s"
| "web_handle ops env (MemberBanned d) s =
     on_client (\<lambda>c. handleMemberBanned ops c (env_workspaceId env) d) s"
| "web_handle ops env (MemberUnbanned d) s = web_unbanned ops env d s"
| "web_handle ops env (MemberLeft d) s =
     on_client (\<lambda>c. handleMemberLeft ops c (env_workspaceId env)) s"
| "web_handle ops env (MemberRoleChanged d) s =
     on_client (\<lambda>c. handleMemberRoleChanged ops c (env_workspaceId env) d) s"
| "web_handle ops env (TypingStart d) s = on_presence (handleTypingStart (env_now env) d) s"
| "web_handle ops env (TypingStop d) s = on_presence (handleTypingStop d) s"
| "web_handle ops env (PresenceChanged d) s = on_presence (handlePresenceChanged d) s"
| "web_handle ops env (PresenceInitial d) s = on_presence (handlePresenceInitial d) s"
| "web_handle ops env (Notification d) s = web_notification ops env d s"

text \<open>The registrations of the hook, in the order it makes them.\<close>

definition web_registered :: "jsstring list" where
  "web_registered = map js
     [''connected'', ''message.new'', ''message.updated'', ''message.deleted'', ''reaction.added'',
      ''reaction.removed'', ''channel.created'', ''channels.invalidate'', ''channel.updated'',
      ''channel.archived'', ''channel.member_added'', ''channel.member_removed'', ''channel.read'',
      ''emoji.created'', ''emoji.deleted'', ''workspace.updated'', ''scheduled_message.created'',
      ''scheduled_message.updated'', ''scheduled_message.deleted'', ''scheduled_message.sent'',
      ''scheduled_message.failed'', ''message.pinned'', ''message.unpinned'', ''member.banned'',
      ''member.unbanned'', ''member.left'', ''member.role_changed'', ''typing.start'',
      ''typing.stop'', ''presence.changed'', ''presence.initial'', ''notification'']"

definition register_all :: "jsstring list \<Rightarrow> jsstring registry" where
  "register_all ts = foldl (\<lambda>hs t. on_event t t hs) (\<lambda>_. None) ts"

definition web_receive :: "'qc query_ops \<Rightarrow> sse_env \<Rightarrow> sse_event \<Rightarrow> 'qc app_state \<Rightarrow> 'qc app_state" where
  "web_receive ops env e s =
     foldl (\<lambda>s _. web_handle ops env e s) s (web_dispatch (register_all web_registered) (event_type e))"

section \<open>The handlers of the mobile hook\<close>

fun mobile_handle :: "'qc query_ops \<Rightarrow> sse_env \<Rightarrow> sse_event \<Rightarrow> 'qc app_state \<Rightarrow> 'qc app_state" where
  "mobile_handle ops env ScheduledMessageFailed s =
     on_client (\<lambda>c. handleScheduledMessageChange ops c (env_workspaceId env)) s"
| "mobile_handle ops env (MemberUnbanned d) s =
     on_client (\<lambda>c. fst (handleMemberUnbanned ops c (env_workspaceId env) d)) s"
| "mobile_handle ops env (Notification d) s =
     on_client (\<lambda>c. fst (handleNotification ops c (env_workspaceId env) d)) s"
| "mobile_handle ops env e s = web_handle ops env e s"

definition mobile_receive :: "'qc query_ops \<Rightarrow> sse_env \<Rightarrow> sse_event \<Rightarrow> 'qc app_state \<Rightarrow> 'qc app_state" where
  "mobile_receive ops env e s =
     foldl (\<lambda>s _. mobile_handle ops env e s) s
       (mobile_dispatch (register_all web_registered) (event_type e))"

section \<open>Mounting and leaving\<close>

definition on_disconnect :: "'qc app_state \<Rightarrow> 'qc app_state" where
  "on_disconnect s = s\<lparr>app_isConnected := False\<rparr>"

definition on_forbidden :: "'qc query_ops \<Rightarrow> 'qc app_state \<Rightarrow> 'qc app_state" where
  "on_forbidden ops s = on_client (\<lambda>c. invalidateQueries ops c authKeys_me) s"

definition web_leave :: "'qc app_state \<Rightarrow> 'qc app_state" where
  "web_leave s = s\<lparr>app_hasBeenConnected := False, app_isConnected := False\<rparr>"

definition mobile_leave :: "'qc app_state \<Rightarrow> 'qc app_state" where
  "mobile_leave s =
     (on_presence clearPresence s)\<lparr>app_hasBeenConnected := False, app_isConnected := False\<rparr>"

definition isReconnecting :: "'qc app_state \<Rightarrow> bool" where
  "isReconnecting s \<longleftrightarrow> app_hasBeenConnected s \<and> \<not> app_isConnected s"

section \<open>Every event reaches its handler, once\<close>

lemma register_snoc:
  "register_all (ts @ [t]) = on_event t t (register_all ts)"
  by (simp add: register_all_def)

lemma registered_handlers: "or_empty (register_all ts u) = filter (\<lambda>t. t = u) ts"
  by (induction ts rule: rev_induct) (auto simp: register_snoc on_event_def, simp add: register_all_def)

lemma web_registered_distinct: "distinct web_registered"
  by (simp add: web_registered_def)

lemma no_wildcard: "js ''*'' \<notin> set web_registered"
  by (simp add: web_registered_def)

lemma event_type_registered: "event_type e \<in> set web_registered \<longleftrightarrow> e \<noteq> Heartbeat"
  by (cases e) (simp_all add: web_registered_def)

lemma filter_eq_distinct: "distinct xs \<Longrightarrow> filter (\<lambda>x. x = u) xs = (if u \<in> set xs then [u] else [])"
  by (induction xs) auto

lemma dispatch_once:
  "web_dispatch (register_all web_registered) (event_type e) = (if e = Heartbeat then [] else [event_type e])"
  "mobile_dispatch (register_all web_registered) (event_type e) = (if e = Heartbeat then [] else [event_type e])"
  using no_wildcard
  by (simp_all add: web_dispatch_def mobile_dispatch_def registered_handlers web_registered_distinct
    filter_eq_distinct event_type_registered)

lemma receive_handles:
  "web_receive ops env e s = web_handle ops env e s"
  "mobile_receive ops env e s = mobile_handle ops env e s"
  by (simp_all add: web_receive_def mobile_receive_def dispatch_once)

section \<open>The invariant of an app\<close>

text \<open>What the server sends is well formed: messages without duplicate reactions or participants.\<close>

fun event_ok :: "sse_event \<Rightarrow> bool" where
  "event_ok (MessageNew d) = well_formed_message d"
| "event_ok (MessageUpdated d) = well_formed_message d"
| "event_ok _ = True"

definition app_ok :: "'qc query_ops \<Rightarrow> 'qc app_state \<Rightarrow> bool" where
  "app_ok ops s \<longleftrightarrow> cache_ok ops (app_client s) \<and> presence_ok (app_presence s) \<and> urls_ok (app_urls s)"

lemma urls_ok_getUrls: "urls_ok (getUrls now ids u) = urls_ok u"
  by (simp add: urls_ok_def)

lemma urls_ok_batches: "urls_ok (foldl (\<lambda>u ids. getUrls now ids u) u bs) = urls_ok u"
  by (induction bs arbitrary: u) (simp_all add: urls_ok_getUrls)

lemma presence_handlers_ok:
  "presence_ok s \<Longrightarrow> presence_ok (handleTypingStart now d s)"
  "presence_ok s \<Longrightarrow> presence_ok (handleTypingStop d s)"
  "presence_ok s \<Longrightarrow> presence_ok (handlePresenceChanged pd s)"
  "presence_ok s \<Longrightarrow> presence_ok (handlePresenceInitial ids s)"
  "presence_ok s \<Longrightarrow> presence_ok (clearPresence s)"
  using presence_step_ok [of s "AddTyping now (te_channel_id d) d"]
    presence_step_ok [of s "RemoveTyping (te_channel_id d) (te_user_id d)"]
    presence_step_ok [of s "SetPresence (pd_user_id pd) (pd_status pd)"]
    presence_step_ok [of s "SetManyPresence (map (\<lambda>u. (u, Online)) ids)"]
    presence_step_ok [of s ClearPresence]
  by (simp_all add: handleTypingStart_def handleTypingStop_def handlePresenceChanged_def
    handlePresenceInitial_def)

lemma app_ok_on_client:
  "app_ok ops s \<Longrightarrow> (cache_ok ops (app_client s) \<Longrightarrow> cache_ok ops (f (app_client s))) \<Longrightarrow>
     app_ok ops (on_client f s)"
  by (simp add: app_ok_def on_client_def)

lemma app_ok_on_presence:
  "app_ok ops s \<Longrightarrow> (presence_ok (app_presence s) \<Longrightarrow> presence_ok (f (app_presence s))) \<Longrightarrow>
     app_ok ops (on_presence f s)"
  by (simp add: app_ok_def on_presence_def)

lemma app_ok_toast [simp]: "app_ok ops (add_toast t k s) = app_ok ops s"
  by (simp add: app_ok_def add_toast_def)

context query_client begin

lemma app_ok_message:
  "app_ok ops s \<Longrightarrow> well_formed_message d \<Longrightarrow> app_ok ops (receive_message ops env d s)"
  using ok_handleNewMessage [of "app_client s" d "env_workspaceId env"]
  by (auto simp: app_ok_def receive_message_def Let_def urls_ok_batches split: prod.split)

lemma app_ok_web_notification: "app_ok ops s \<Longrightarrow> app_ok ops (web_notification ops env d s)"
  using ok_handleChannel(5) [of "app_client s" "env_workspaceId env" d]
  by (auto simp: app_ok_def web_notification_def web_notify_def split: prod.split)

lemma app_ok_web_unbanned: "app_ok ops s \<Longrightarrow> app_ok ops (web_unbanned ops env d s)"
  using ok_handleMembers(4) [of "app_client s" "env_workspaceId env" d]
  by (auto simp: app_ok_def web_unbanned_def add_toast_def Let_def split: prod.split)

lemma app_ok_web_handle: "app_ok ops s \<Longrightarrow> event_ok e \<Longrightarrow> app_ok ops (web_handle ops env e s)"
proof (cases e)
  case Connected
  moreover assume "app_ok ops s"
  ultimately show ?thesis by (simp add: app_ok_def)
qed (auto intro!: app_ok_on_client app_ok_on_presence app_ok_message app_ok_web_notification
  app_ok_web_unbanned handlers_ok presence_handlers_ok)

lemma app_ok_mobile_handle: "app_ok ops s \<Longrightarrow> event_ok e \<Longrightarrow> app_ok ops (mobile_handle ops env e s)"
  by (cases e) (auto intro!: app_ok_on_client handlers_ok intro: app_ok_web_handle
    simp del: web_handle.simps)

end

end
