(* ===== verification/SseSession.thy ===== *)
theory SseSession
  imports SseEvents
begin

text \<open>
  A mounted \<open>useSSE\<close> hook: the connection with the callbacks the hook installs on it.
  An event arrives on an open source and goes to the handlers; a failure first calls
  \<open>onDisconnect\<close> and, on a 403, \<open>onForbidden\<close>. The steps interleave events, failures,
  timers and the clean-up of the effect.
\<close>

record 'qc web_session =
  ws_conn :: connection
  ws_app :: "'qc app_state"

record 'qc mobile_session =
  ms_conn :: mobile_connection
  ms_app :: "'qc app_state"

text \<open>The callbacks of the hook when a source reports an error.\<close>

definition error_callbacks :: "'qc query_ops \<Rightarrow> int option \<Rightarrow> 'qc app_state \<Rightarrow> 'qc app_state" where
  "error_callbacks ops code s =
     (if code = Some 403 then on_forbidden ops (on_disconnect s) else on_disconnect s)"

inductive web_session_step :: "'qc query_ops \<Rightarrow> 'qc web_session \<Rightarrow> 'qc web_session \<Rightarrow> bool" for ops where
  web_event: "n \<in> set (cn_open (ws_conn s)) \<Longrightarrow> event_ok e \<Longrightarrow>
    web_session_step ops s (s\<lparr>ws_app := web_receive ops env e (ws_app s)\<rparr>)"
| web_open: "n \<in> set (cn_open (ws_conn s)) \<Longrightarrow>
    web_session_step ops s (s\<lparr>ws_conn := web_onopen (ws_conn s)\<rparr>)"
| web_error: "n \<in> set (cn_open (ws_conn s)) \<Longrightarrow>
    web_session_step ops s (s\<lparr>ws_conn := web_onerror code (ws_conn s),
      ws_app := error_callbacks ops code (ws_app s)\<rparr>)"
| web_timer: "(n, d) \<in> set (cn_timers (ws_conn s)) \<Longrightarrow>
    web_session_step ops s (s\<lparr>ws_conn := web_onTimer n (ws_conn s)\<rparr>)"
| web_unmount: "web_session_step ops s (s\<lparr>ws_conn := web_disconnect (ws_conn s), ws_app := web_leave (ws_app s)\<rparr>)"

text \<open>Without a token a mobile connection attempt ends in \<open>onForbidden\<close>.\<close>

definition attempt_callbacks ::
    "'qc query_ops \<Rightarrow> mobile_connection \<Rightarrow> mobile_connection \<Rightarrow> 'qc app_state \<Rightarrow> 'qc app_state" where
  "attempt_callbacks ops before after s =
     (if cn_forbiddens before < cn_forbiddens after then on_forbidden ops s else s)"

inductive mobile_session_step :: "'qc query_ops \<Rightarrow> 'qc mobile_session \<Rightarrow> 'qc mobile_session \<Rightarrow> bool" for ops where
  mobile_event: "n \<in> set (cn_open (ms_conn s)) \<Longrightarrow> event_ok e \<Longrightarrow>
    mobile_session_step ops s (s\<lparr>ms_conn := mobile_onMessage payload eid (ms_conn s),
      ms_app := (if truthy payload then mobile_receive ops env e (ms_app s) else ms_app s)\<rparr>)"
| mobile_open: "n \<in> set (cn_open (ms_conn s)) \<Longrightarrow>
    mobile_session_step ops s (s\<lparr>ms_conn := mobile_onOpen (ms_conn s)\<rparr>)"
| mobile_error: "n \<in> set (cn_open (ms_conn s)) \<Longrightarrow> 0 \<le> r \<Longrightarrow> r < 1 \<Longrightarrow>
    mobile_session_step ops s (s\<lparr>ms_conn := mobile_onError status r (ms_conn s),
      ms_app := error_callbacks ops status (ms_app s)\<rparr>)"
| mobile_timer: "(n, d) \<in> set (cn_timers (ms_conn s)) \<Longrightarrow> after = mobile_onTimer token n (ms_conn s) \<Longrightarrow>
    mobile_session_step ops s (s\<lparr>ms_conn := after,
      ms_app := attempt_callbacks ops (ms_conn s) after (ms_app s)\<rparr>)"
| mobile_unmount: "mobile_session_step ops s (s\<lparr>ms_conn := mobile_disconnect (ms_conn s),
      ms_app := mobile_leave (ms_app s)\<rparr>)"

section \<open>The flags follow the connection\<close>

definition session_ok :: "'qc query_ops \<Rightarrow> 'a connection_scheme \<Rightarrow> 'qc app_state \<Rightarrow> bool" where
  "session_ok ops c s \<longleftrightarrow> conn_ok c \<and> app_ok ops s \<and>
     (app_isConnected s \<longrightarrow> app_hasBeenConnected s \<and> cn_eventSource c \<noteq> None)"

definition web_started :: "'qc query_ops \<Rightarrow> 'qc web_session \<Rightarrow> bool" where
  "web_started ops s \<longleftrightarrow> ws_conn s = web_connect new_connection \<and> app_ok ops (ws_app s) \<and>
     \<not> app_isConnected (ws_app s) \<and> \<not> app_hasBeenConnected (ws_app s)"

definition mobile_session_started :: "'qc query_ops \<Rightarrow> 'qc mobile_session \<Rightarrow> bool" where
  "mobile_session_started ops s \<longleftrightarrow> (\<exists>token. ms_conn s = mobile_connect token new_mobile_connection) \<and>
     app_ok ops (ms_app s) \<and> \<not> app_isConnected (ms_app s) \<and> \<not> app_hasBeenConnected (ms_app s)"

lemma handle_flags:
  "app_isConnected (web_handle ops env e s) \<longleftrightarrow> e = Connected \<or> app_isConnected s"
  "app_hasBeenConnected (web_handle ops env e s) \<longleftrightarrow> e = Connected \<or> app_hasBeenConnected s"
  by (cases e; auto simp: on_client_def on_presence_def add_toast_def receive_message_def
      web_notification_def web_notify_def web_unbanned_def Let_def split: prod.split)+

lemma mobile_handle_flags:
  "app_isConnected (mobile_handle ops env e s) \<longleftrightarrow> e = Connected \<or> app_isConnected s"
  "app_hasBeenConnected (mobile_handle ops env e s) \<longleftrightarrow> e = Connected \<or> app_hasBeenConnected s"
  by (cases e; auto simp: on_client_def handle_flags simp del: web_handle.simps)+

lemma app_flags [simp]:
  "app_isConnected (on_disconnect s) = False"
  "app_isConnected (error_callbacks ops code s) = False"
  "app_isConnected (attempt_callbacks ops c c' s) = app_isConnected s"
  "app_hasBeenConnected (attempt_callbacks ops c c' s) = app_hasBeenConnected s"
  "app_isConnected (web_leave s) = False"
  "app_isConnected (mobile_leave s) = False"
  by (simp_all add: on_disconnect_def on_forbidden_def on_client_def error_callbacks_def
    attempt_callbacks_def web_leave_def mobile_leave_def)

lemma connect_keeps_source:
  "cn_eventSource s \<noteq> None \<Longrightarrow> cn_eventSource (web_onTimer n s) = cn_eventSource s"
  "cn_eventSource t \<noteq> None \<Longrightarrow> cn_eventSource (mobile_onTimer token n t) = cn_eventSource t"
  by (simp_all add: web_onTimer_def web_connect_def mobile_onTimer_def mobile_connect_def clear_timer_def)

context query_client begin

lemma app_ok_callbacks:
  "app_ok ops s \<Longrightarrow> app_ok ops (error_callbacks ops code s)"
  "app_ok ops s \<Longrightarrow> app_ok ops (attempt_callbacks ops c c' s)"
  "app_ok ops s \<Longrightarrow> app_ok ops (web_leave s)"
  "app_ok ops s \<Longrightarrow> app_ok ops (mobile_leave s)"
  by (auto simp: error_callbacks_def attempt_callbacks_def on_disconnect_def on_forbidden_def
    on_client_def web_leave_def mobile_leave_def on_presence_def app_ok_def ok_invalidate
    presence_handlers_ok)

lemma web_session_ok_step:
  "web_session_step ops s t \<Longrightarrow> session_ok ops (ws_conn s) (ws_app s) \<Longrightarrow>
     session_ok ops (ws_conn t) (ws_app t)"
proof (induction rule: web_session_step.induct)
  case (web_event n s e env)
  then have "cn_eventSource (ws_conn s) = Some n" by (auto simp: session_ok_def dest: source_in)
  with web_event show ?case
    by (auto simp: session_ok_def receive_handles handle_flags app_ok_web_handle)
next
  case (web_open n s)
  then show ?case by (auto simp: session_ok_def intro: conn_ok_web_step [OF web_opened])
      (simp add: web_onopen_def)
next
  case (web_error n s code)
  then show ?case by (simp add: session_ok_def conn_ok_web_error app_ok_callbacks)
next
  case (web_timer n d s)
  then show ?case
    by (auto simp: session_ok_def connect_keeps_source intro: conn_ok_web_step [OF web_fired])
next
  case (web_unmount s)
  then show ?case by (auto simp: session_ok_def app_ok_callbacks intro: conn_ok_web_step [OF web_left])
qed

lemma mobile_session_ok_step:
  "mobile_session_step ops s t \<Longrightarrow> session_ok ops (ms_conn s) (ms_app s) \<Longrightarrow>
     session_ok ops (ms_conn t) (ms_app t)"
proof (induction rule: mobile_session_step.induct)
  case (mobile_event n s e payload env eid)
  then have "cn_eventSource (ms_conn s) = Some n" by (auto simp: session_ok_def dest: source_in)
  moreover have "cn_eventSource (mobile_onMessage payload eid (ms_conn s)) = cn_eventSource (ms_conn s)"
    by (simp add: mobile_onMessage_def)
  moreover have "conn_ok (mobile_onMessage payload eid (ms_conn s))"
    using mobile_event by (auto simp: session_ok_def intro: conn_ok_mobile_step [OF mobile_received])
  ultimately show ?case using mobile_event
    by (auto simp: session_ok_def receive_handles mobile_handle_flags app_ok_mobile_handle)
next
  case (mobile_open n s)
  then show ?case by (auto simp: session_ok_def intro: conn_ok_mobile_step [OF mobile_opened])
      (simp add: mobile_onOpen_def)
next
  case (mobile_error n s r status)
  then show ?case by (simp add: session_ok_def conn_ok_mobile_error app_ok_callbacks)
next
  case (mobile_timer n d s after token)
  then show ?case
    by (auto simp: session_ok_def connect_keeps_source app_ok_callbacks
      intro: conn_ok_mobile_step [OF mobile_fired])
next
  case (mobile_unmount s)
  then show ?case by (auto simp: session_ok_def app_ok_callbacks intro: conn_ok_mobile_step [OF mobile_left])
qed

end

lemma session_ok_started:
  "web_started ops s \<Longrightarrow> session_ok ops (ws_conn s) (ws_app s)"
  "mobile_session_started ops m \<Longrightarrow> session_ok ops (ms_conn m) (ms_app m)"
  by (auto simp: web_started_def mobile_session_started_def session_ok_def conn_ok_new
    intro!: conn_ok_web_connect conn_ok_mobile_connect)

sublocale query_client \<subseteq> web_sessions: machine "web_session_step ops" "web_started ops"
    "\<lambda>s. session_ok ops (ws_conn s) (ws_app s)"
  by unfold_locales (auto intro: session_ok_started web_session_ok_step)

sublocale query_client \<subseteq> mobile_sessions: machine "mobile_session_step ops" "mobile_session_started ops"
    "\<lambda>s. session_ok ops (ms_conn s) (ms_app s)"
  by unfold_locales (auto intro: session_ok_started mobile_session_ok_step)

context query_client begin

lemmas web_sessions_ok = web_sessions.always
lemmas mobile_sessions_ok = mobile_sessions.always

end

lemma conn_ok_counts:
  "conn_ok s \<Longrightarrow> length (cn_open s) \<le> 1 \<and> length (cn_timers s) \<le> 1 \<and>
     (cn_eventSource s \<noteq> None \<longleftrightarrow> cn_open s \<noteq> [])"
  using timers_single [of s] timers_Nil_iff [of s]
  by (cases "cn_reconnectTimeout s"; cases "cn_eventSource s") (auto simp: conn_ok_def)

lemma session_ok_facts:
  "session_ok ops c a \<Longrightarrow> cache_ok ops (app_client a) \<and> presence_ok (app_presence a) \<and>
    urls_ok (app_urls a) \<and> length (cn_open c) \<le> 1 \<and> length (cn_timers c) \<le> 1 \<and>
    (app_isConnected a \<longrightarrow> cn_open c \<noteq> [] \<and> \<not> isReconnecting a)"
  using conn_ok_counts [of c] by (auto simp: session_ok_def app_ok_def isReconnecting_def)

section \<open>Properties\<close>

text \<open>Every event reaches its handler exactly once: the registry of the connection calls, for an
  event of any type but the heartbeat, the one handler the hook registered for it, on the web and
  on mobile.\<close>

theorem events_dispatched_once:
  "web_dispatch (register_all web_registered) (event_type e) = (if e = Heartbeat then [] else [event_type e]) \<and>
   mobile_dispatch (register_all web_registered) (event_type e) = (if e = Heartbeat then [] else [event_type e])"
  by (simp add: dispatch_once)

text \<open>C1: However events, failures, timers and the clean-up of the effect interleave, a web session keeps
  its invariant: every cached entry has the type of its key and well-formed content, the presence
  store and the URL cache are consistent, nothing leaks, and the hook believes to be connected only
  while a source is open.\<close>

theorem web_session_invariant:
  assumes "query_client ops" "reachable (web_session_step ops) (web_started ops) s"
  shows "cache_ok ops (app_client (ws_app s)) \<and> presence_ok (app_presence (ws_app s)) \<and>
    urls_ok (app_urls (ws_app s)) \<and> length (cn_open (ws_conn s)) \<le> 1 \<and> length (cn_timers (ws_conn s)) \<le> 1 \<and>
    (app_isConnected (ws_app s) \<longrightarrow> cn_open (ws_conn s) \<noteq> [] \<and> \<not> isReconnecting (ws_app s))"
  using query_client.web_sessions_ok [OF assms] by (rule session_ok_facts)

text \<open>C2: The same for a mobile session, where a connection attempt may also fail for want of a token.\<close>

theorem mobile_session_invariant:
  assumes "query_client ops" "reachable (mobile_session_step ops) (mobile_session_started ops) s"
  shows "cache_ok ops (app_client (ms_app s)) \<and> presence_ok (app_presence (ms_app s)) \<and>
    urls_ok (app_urls (ms_app s)) \<and> length (cn_open (ms_conn s)) \<le> 1 \<and> length (cn_timers (ms_conn s)) \<le> 1 \<and>
    (app_isConnected (ms_app s) \<longrightarrow> cn_open (ms_conn s) \<noteq> [] \<and> \<not> isReconnecting (ms_app s))"
  using query_client.mobile_sessions_ok [OF assms] by (rule session_ok_facts)

text \<open>A session on an empty in-memory client, for the witnesses.\<close>

definition sample_app :: "query_store app_state" where
  "sample_app = \<lparr>app_client = empty_store, app_presence = initial_presence, app_urls = initial_urls,
     app_isConnected = False, app_hasBeenConnected = False, app_toasts = [], app_sounds = 0,
     app_notifications = []\<rparr>"

definition sample_env :: sse_env where
  "sample_env = \<lparr>env_now = 0, env_iso = js ''t'', env_lc = (\<lambda>_ _. 0), env_hasFocus = True,
     env_workspaceId = js ''W''\<rparr>"

lemma sample_app_ok: "app_ok store_ops sample_app"
  by (simp add: app_ok_def sample_app_def cache_ok_def data_inv_def store_ops_def empty_store_def
    presence_ok_initial urls_ok_initial)

theorem web_session_invariant_witness:
  "cn_open (web_connect new_connection) \<noteq> [] \<and>
   \<not> isReconnecting (web_receive store_ops sample_env Connected sample_app)"
proof -
  let ?s = "\<lparr>ws_conn = web_connect new_connection, ws_app = sample_app\<rparr>"
  let ?t = "?s\<lparr>ws_app := web_receive store_ops sample_env Connected (ws_app ?s)\<rparr>"
  have "web_started store_ops ?s"
    using sample_app_ok by (simp add: web_started_def) (simp add: sample_app_def)
  moreover have "0 \<in> set (cn_open (ws_conn ?s))" by (simp add: web_defs new_connection_def)
  then have "web_session_step store_ops ?s ?t" by (rule web_event) simp
  ultimately have "reachable (web_session_step store_ops) (web_started store_ops) ?t"
    by (rule reachable_step [OF reachable_start])
  from web_session_invariant [OF store.query_client_axioms this] show ?thesis
    by (simp add: receive_handles)
qed

theorem mobile_session_invariant_witness:
  "cn_open (mobile_connect (Some (js ''t'')) new_mobile_connection) \<noteq> [] \<and>
   \<not> isReconnecting (mobile_receive store_ops sample_env Connected sample_app)"
proof -
  let ?s = "\<lparr>ms_conn = mobile_connect (Some (js ''t'')) new_mobile_connection, ms_app = sample_app\<rparr>"
  let ?t = "?s\<lparr>ms_conn := mobile_onMessage (Some (js ''x'')) None (ms_conn ?s),
    ms_app := (if truthy (Some (js ''x'')) then mobile_receive store_ops sample_env Connected (ms_app ?s) else ms_app ?s)\<rparr>"
  have "mobile_session_started store_ops ?s"
    using sample_app_ok by (auto simp: mobile_session_started_def) (simp_all add: sample_app_def)
  moreover have "0 \<in> set (cn_open (ms_conn ?s))"
    by (simp add: mobile_defs new_mobile_connection_def new_connection_def connection.defs)
  then have "mobile_session_step store_ops ?s ?t" by (rule mobile_event) simp
  ultimately have "reachable (mobile_session_step store_ops) (mobile_session_started store_ops) ?t"
    by (rule reachable_step [OF reachable_start])
  from mobile_session_invariant [OF store.query_client_axioms this] show ?thesis
    by (simp add: receive_handles mobile_onMessage_def)
qed

end
