(* ===== verification/HookMutations.thy ===== *)
theory HookMutations
  imports MessageMutations
begin

text \<open>
  The mutation hooks on channels, workspaces, moderation, profiles, threads and notification
  preferences (\<open>packages/shared/src/hooks/useChannels.ts\<close>, \<open>useWorkspaces.ts\<close>,
  \<open>useModeration.ts\<close>, \<open>useProfile.ts\<close>, \<open>useThreadSubscription.ts\<close>,
  \<open>useChannelNotifications.ts\<close>), as functions on the query client.

  Most of them invalidate entries when the server has answered. Six are optimistic:
  starring and unstarring a channel, subscribing to and unsubscribing from a thread, changing
  notification preferences and reordering workspaces. The locale \<open>settled_optimistic\<close>
  extends the contract of the optimistic mutations by \<open>onSettled\<close>, which marks the entry for
  a refetch; it is interpreted on all six.
\<close>

section \<open>Channels\<close>

definition mapChannels ::
    "(channel_with_membership \<Rightarrow> channel_with_membership) \<Rightarrow> channels_result \<Rightarrow> channels_result" where
  "mapChannels f old = old\<lparr>channels := map f (channels old)\<rparr>"

definition channelRead :: "jsstring \<Rightarrow> jsstring option \<Rightarrow> channel_with_membership \<Rightarrow> channel_with_membership" where
  "channelRead channelId lastRead c =
     (if ch_id c = channelId
      then c\<lparr>ch_unread_count := 0, ch_notification_count := 0, ch_last_read_message_id := lastRead\<rparr>
      else c)"

definition useMarkChannelAsRead_onSuccess ::
    "'qc query_ops \<Rightarrow> jsstring \<Rightarrow> 'qc \<Rightarrow> jsstring option \<Rightarrow> jsstring \<Rightarrow> 'qc" where
  "useMarkChannelAsRead_onSuccess ops workspaceId c lastRead channelId =
     setQueryData ops c (channelKeys_list workspaceId)
       (on_channels (mapChannels (channelRead channelId lastRead)))"

definition useMarkAllChannelsAsRead_onSuccess :: "'qc query_ops \<Rightarrow> jsstring \<Rightarrow> 'qc \<Rightarrow> 'qc" where
  "useMarkAllChannelsAsRead_onSuccess ops workspaceId c =
     (let c1 = setQueryData ops c (channelKeys_list workspaceId)
                 (on_channels (mapChannels (\<lambda>c. c\<lparr>ch_unread_count := 0, ch_notification_count := 0\<rparr>)))
      in invalidateQueries ops c1 workspaceKeys_notifications)"

definition useCreateChannel_onSuccess :: "'qc query_ops \<Rightarrow> jsstring \<Rightarrow> 'qc \<Rightarrow> 'qc" where
  "useCreateChannel_onSuccess ops workspaceId c = invalidateQueries ops c (channelKeys_list workspaceId)"

definition useCreateDM_onSuccess :: "'qc query_ops \<Rightarrow> jsstring \<Rightarrow> 'qc \<Rightarrow> 'qc" where
  "useCreateDM_onSuccess ops workspaceId c = invalidateQueries ops c (channelKeys_list workspaceId)"

definition useJoinChannel_onSuccess :: "'qc query_ops \<Rightarrow> jsstring \<Rightarrow> 'qc \<Rightarrow> 'qc" where
  "useJoinChannel_onSuccess ops workspaceId c = invalidateQueries ops c (channelKeys_list workspaceId)"

definition useLeaveChannel_onSuccess :: "'qc query_ops \<Rightarrow> jsstring \<Rightarrow> 'qc \<Rightarrow> 'qc" where
  "useLeaveChannel_onSuccess ops workspaceId c = invalidateQueries ops c (channelKeys_list workspaceId)"

definition useArchiveChannel_onSuccess :: "'qc query_ops \<Rightarrow> jsstring \<Rightarrow> 'qc \<Rightarrow> 'qc" where
  "useArchiveChannel_onSuccess ops workspaceId c = invalidateQueries ops c (channelKeys_list workspaceId)"

definition useAddChannelMember_onSuccess :: "'qc query_ops \<Rightarrow> jsstring \<Rightarrow> 'qc \<Rightarrow> 'qc" where
  "useAddChannelMember_onSuccess ops channelId c = invalidateQueries ops c (channelKeys_members channelId)"

definition useUpdateChannel_onSuccess ::
    "'qc query_ops \<Rightarrow> jsstring \<Rightarrow> jsstring \<Rightarrow> 'qc \<Rightarrow> channel \<Rightarrow> 'qc" where
  "useUpdateChannel_onSuccess ops workspaceId channelId c d =
     setQueryData ops c (channelKeys_list workspaceId)
       (on_channels (mapChannels (\<lambda>c. if ch_id c = channelId then spread_channel c d else c)))"

definition useConvertGroupDMToChannel_onSuccess :: "'qc query_ops \<Rightarrow> jsstring \<Rightarrow> 'qc \<Rightarrow> 'qc" where
  "useConvertGroupDMToChannel_onSuccess ops workspaceId c =
     invalidateQueries ops c (channelKeys_list workspaceId)"

definition setStarred :: "bool \<Rightarrow> jsstring \<Rightarrow> channel_with_membership \<Rightarrow> channel_with_membership" where
  "setStarred b channelId c = (if ch_id c = channelId then c\<lparr>ch_is_starred := b\<rparr> else c)"

definition useStarChannel_onMutate ::
    "'qc query_ops \<Rightarrow> jsstring \<Rightarrow> jsstring \<Rightarrow> 'qc \<Rightarrow> 'qc \<times> query_data option" where
  "useStarChannel_onMutate ops workspaceId channelId c =
     (let c1 = cancelQueries ops c (channelKeys_list workspaceId);
          previousData = getQueryData ops c1 (channelKeys_list workspaceId)
      in (setQueryData ops c1 (channelKeys_list workspaceId)
            (on_channels (mapChannels (setStarred True channelId))), previousData))"

definition useUnstarChannel_onMutate ::
    "'qc query_ops \<Rightarrow> jsstring \<Rightarrow> jsstring \<Rightarrow> 'qc \<Rightarrow> 'qc \<times> query_data option" where
  "useUnstarChannel_onMutate ops workspaceId channelId c =
     (let c1 = cancelQueries ops c (channelKeys_list workspaceId);
          previousData = getQueryData ops c1 (channelKeys_list workspaceId)
      in (setQueryData ops c1 (channelKeys_list workspaceId)
            (on_channels (mapChannels (setStarred False channelId))), previousData))"

definition useStarChannel_onError :: "'qc query_ops \<Rightarrow> jsstring \<Rightarrow> 'qc \<Rightarrow> query_data option \<Rightarrow> 'qc" where
  "useStarChannel_onError ops workspaceId c previousData =
     (case previousData of None \<Rightarrow> c
      | Some d \<Rightarrow> setQueryData ops c (channelKeys_list workspaceId) (\<lambda>_. Some d))"

definition useUnstarChannel_onError :: "'qc query_ops \<Rightarrow> jsstring \<Rightarrow> 'qc \<Rightarrow> query_data option \<Rightarrow> 'qc" where
  "useUnstarChannel_onError ops workspaceId c previousData =
     (case previousData of None \<Rightarrow> c
      | Some d \<Rightarrow> setQueryData ops c (channelKeys_list workspaceId) (\<lambda>_. Some d))"

definition useStarChannel_onSettled :: "'qc query_ops \<Rightarrow> jsstring \<Rightarrow> 'qc \<Rightarrow> 'qc" where
  "useStarChannel_onSettled ops workspaceId c = invalidateQueries ops c (channelKeys_list workspaceId)"

definition useUnstarChannel_onSettled :: "'qc query_ops \<Rightarrow> jsstring \<Rightarrow> 'qc \<Rightarrow> 'qc" where
  "useUnstarChannel_onSettled ops workspaceId c = invalidateQueries ops c (channelKeys_list workspaceId)"

section \<open>Notification preferences and thread subscriptions\<close>

definition useUpdateChannelNotifications_onMutate ::
    "'qc query_ops \<Rightarrow> jsstring \<Rightarrow> notification_preferences \<Rightarrow> 'qc \<Rightarrow> 'qc \<times> query_data option" where
  "useUpdateChannelNotifications_onMutate ops channelId newPreferences c =
     (let c1 = cancelQueries ops c (channelKeys_notifications channelId);
          previousData = getQueryData ops c1 (channelKeys_notifications channelId)
      in (setQueryData ops c1 (channelKeys_notifications channelId)
            (\<lambda>_. Some (PreferencesData newPreferences)), previousData))"

definition useUpdateChannelNotifications_onError ::
    "'qc query_ops \<Rightarrow> jsstring \<Rightarrow> 'qc \<Rightarrow> query_data option \<Rightarrow> 'qc" where
  "useUpdateChannelNotifications_onError ops channelId c previousData =
     (case previousData of None \<Rightarrow> c
      | Some d \<Rightarrow> setQueryData ops c (channelKeys_notifications channelId) (\<lambda>_. Some d))"

definition useUpdateChannelNotifications_onSettled :: "'qc query_ops \<Rightarrow> jsstring \<Rightarrow> 'qc \<Rightarrow> 'qc" where
  "useUpdateChannelNotifications_onSettled ops channelId c =
     invalidateQueries ops c (channelKeys_notifications channelId)"

definition useSubscribeToThread_onMutate ::
    "'qc query_ops \<Rightarrow> jsstring \<Rightarrow> 'qc \<Rightarrow> 'qc \<times> query_data option" where
  "useSubscribeToThread_onMutate ops messageId c =
     (let c1 = cancelQueries ops c (threadKeys_subscription messageId);
          previousStatus = getQueryData ops c1 (threadKeys_subscription messageId)
      in (setQueryData ops c1 (threadKeys_subscription messageId)
            (\<lambda>_. Some (SubscriptionData Subscribed)), previousStatus))"

definition useUnsubscribeFromThread_onMutate ::
    "'qc query_ops \<Rightarrow> jsstring \<Rightarrow> 'qc \<Rightarrow> 'qc \<times> query_data option" where
  "useUnsubscribeFromThread_onMutate ops messageId c =
     (let c1 = cancelQueries ops c (threadKeys_subscription messageId);
          previousStatus = getQueryData ops c1 (threadKeys_subscription messageId)
      in (setQueryData ops c1 (threadKeys_subscription messageId)
            (\<lambda>_. Some (SubscriptionData Unsubscribed)), previousStatus))"

definition useSubscribeToThread_onError ::
    "'qc query_ops \<Rightarrow> jsstring \<Rightarrow> 'qc \<Rightarrow> query_data option \<Rightarrow> 'qc" where
  "useSubscribeToThread_onError ops messageId c previousStatus =
     (case previousStatus of None \<Rightarrow> c
      | Some d \<Rightarrow> setQueryData ops c (threadKeys_subscription messageId) (\<lambda>_. Some d))"

definition useUnsubscribeFromThread_onError ::
    "'qc query_ops \<Rightarrow> jsstring \<Rightarrow> 'qc \<Rightarrow> query_data option \<Rightarrow> 'qc" where
  "useUnsubscribeFromThread_onError ops messageId c previousStatus =
     (case previousStatus of None \<Rightarrow> c
      | Some d \<Rightarrow> setQueryData ops c (threadKeys_subscription messageId) (\<lambda>_. Some d))"

definition useSubscribeToThread_onSettled :: "'qc query_ops \<Rightarrow> jsstring \<Rightarrow> 'qc \<Rightarrow> 'qc" where
  "useSubscribeToThread_onSettled ops messageId c =
     invalidateQueries ops c (threadKeys_subscription messageId)"

definition useUnsubscribeFromThread_onSettled :: "'qc query_ops \<Rightarrow> jsstring \<Rightarrow> 'qc \<Rightarrow> 'qc" where
  "useUnsubscribeFromThread_onSettled ops messageId c =
     invalidateQueries ops c (threadKeys_subscription messageId)"

section \<open>Workspaces\<close>

definition useCreateWorkspace_onSuccess :: "'qc query_ops \<Rightarrow> 'qc \<Rightarrow> 'qc" where
  "useCreateWorkspace_onSuccess ops c = invalidateQueries ops c authKeys_me"

definition useUpdateWorkspace_onSuccess :: "'qc query_ops \<Rightarrow> jsstring \<Rightarrow> 'qc \<Rightarrow> 'qc" where
  "useUpdateWorkspace_onSuccess ops workspaceId c =
     invalidateQueries ops (invalidateQueries ops c (workspaceKeys_detail workspaceId)) authKeys_me"

definition useUpdateMemberRole_onSuccess :: "'qc query_ops \<Rightarrow> jsstring \<Rightarrow> 'qc \<Rightarrow> 'qc" where
  "useUpdateMemberRole_onSuccess ops workspaceId c =
     invalidateQueries ops (invalidateQueries ops c (workspaceKeys_members workspaceId)) authKeys_me"

definition useRemoveMember_onSuccess :: "'qc query_ops \<Rightarrow> jsstring \<Rightarrow> 'qc \<Rightarrow> 'qc" where
  "useRemoveMember_onSuccess ops workspaceId c = invalidateQueries ops c (workspaceKeys_members workspaceId)"

definition useLeaveWorkspace_onSuccess :: "'qc query_ops \<Rightarrow> 'qc \<Rightarrow> jsstring \<Rightarrow> 'qc" where
  "useLeaveWorkspace_onSuccess ops c workspaceId =
     invalidateQueries ops (invalidateQueries ops c authKeys_me) (workspaceKeys_members workspaceId)"

definition useAcceptInvite_onSuccess :: "'qc query_ops \<Rightarrow> 'qc \<Rightarrow> 'qc" where
  "useAcceptInvite_onSuccess ops c = invalidateQueries ops c authKeys_me"

definition useUploadWorkspaceIcon_onSuccess :: "'qc query_ops \<Rightarrow> jsstring \<Rightarrow> 'qc \<Rightarrow> 'qc" where
  "useUploadWorkspaceIcon_onSuccess ops workspaceId c =
     invalidateQueries ops (invalidateQueries ops c (workspaceKeys_detail workspaceId)) authKeys_me"

definition useDeleteWorkspaceIcon_onSuccess :: "'qc query_ops \<Rightarrow> jsstring \<Rightarrow> 'qc \<Rightarrow> 'qc" where
  "useDeleteWorkspaceIcon_onSuccess ops workspaceId c =
     invalidateQueries ops (invalidateQueries ops c (workspaceKeys_detail workspaceId)) authKeys_me"

text \<open>
  The optimistic order: the listed workspaces in the order of the list, each with its index as
  its sort order, then the others. \<open>new Map(pairs)\<close> keeps the last pair of a key.
\<close>

definition workspaceMap :: "workspace_summary list \<Rightarrow> jsstring \<Rightarrow> workspace_summary option" where
  "workspaceMap old = map_of (rev (map (\<lambda>ws. (ws_id ws, ws)) old))"

definition reorderWorkspaces :: "jsstring list \<Rightarrow> workspace_summary list \<Rightarrow> workspace_summary list" where
  "reorderWorkspaces workspaceIds old =
     List.map_filter (\<lambda>(index, id). map_option (\<lambda>ws. ws\<lparr>ws_sort_order := Some (int index)\<rparr>)
       (workspaceMap old id)) (enumerate 0 workspaceIds) @
     filter (\<lambda>ws. ws_id ws \<notin> set workspaceIds) old"

text \<open>The updater throws on an entry without workspaces; here it leaves it alone.\<close>

definition reorderAuth :: "jsstring list \<Rightarrow> me_response \<Rightarrow> me_response" where
  "reorderAuth workspaceIds old =
     old\<lparr>me_workspaces := map_option (reorderWorkspaces workspaceIds) (me_workspaces old)\<rparr>"

definition useReorderWorkspaces_onMutate ::
    "'qc query_ops \<Rightarrow> jsstring list \<Rightarrow> 'qc \<Rightarrow> 'qc \<times> query_data option" where
  "useReorderWorkspaces_onMutate ops workspaceIds c =
     (let c1 = cancelQueries ops c authKeys_me;
          previousData = getQueryData ops c1 authKeys_me
      in (setQueryData ops c1 authKeys_me (on_auth (reorderAuth workspaceIds)), previousData))"

definition useReorderWorkspaces_onError :: "'qc query_ops \<Rightarrow> 'qc \<Rightarrow> query_data option \<Rightarrow> 'qc" where
  "useReorderWorkspaces_onError ops c previousData =
     (case previousData of None \<Rightarrow> c | Some d \<Rightarrow> setQueryData ops c authKeys_me (\<lambda>_. Some d))"

definition useReorderWorkspaces_onSettled :: "'qc query_ops \<Rightarrow> 'qc \<Rightarrow> 'qc" where
  "useReorderWorkspaces_onSettled ops c = invalidateQueries ops c authKeys_me"

section \<open>Moderation\<close>

definition updateModerationMessageInCache ::
    "'qc query_ops \<Rightarrow> 'qc \<Rightarrow> jsstring \<Rightarrow> (message_with_user \<Rightarrow> message_with_user) \<Rightarrow> 'qc" where
  "updateModerationMessageInCache ops c messageId updater =
     setQueriesData ops c messageKeys_all (on_pages (updateWhereFound messageId updater))"

definition usePinMessage_onSuccess :: "'qc query_ops \<Rightarrow> jsstring \<Rightarrow> 'qc \<Rightarrow> message \<Rightarrow> 'qc" where
  "usePinMessage_onSuccess ops channelId c d =
     invalidateQueries ops (updateModerationMessageInCache ops c (msg_id d) (\<lambda>m. spread_message m d))
       (pinnedMessageKeys_list channelId)"

definition useUnpinMessage_onSuccess :: "'qc query_ops \<Rightarrow> jsstring \<Rightarrow> 'qc \<Rightarrow> message \<Rightarrow> 'qc" where
  "useUnpinMessage_onSuccess ops channelId c d =
     invalidateQueries ops (updateModerationMessageInCache ops c (msg_id d) (\<lambda>m. spread_message m d))
       (pinnedMessageKeys_list channelId)"

definition useBanUser_onSuccess :: "'qc query_ops \<Rightarrow> jsstring \<Rightarrow> 'qc \<Rightarrow> 'qc" where
  "useBanUser_onSuccess ops workspaceId c =
     invalidateQueries ops (invalidateQueries ops c (workspaceKeys_bans workspaceId))
       (workspaceKeys_members workspaceId)"

definition useUnbanUser_onSuccess :: "'qc query_ops \<Rightarrow> jsstring \<Rightarrow> 'qc \<Rightarrow> 'qc" where
  "useUnbanUser_onSuccess ops workspaceId c = invalidateQueries ops c (workspaceKeys_bans workspaceId)"

definition useBlockUser_onSuccess :: "'qc query_ops \<Rightarrow> jsstring \<Rightarrow> 'qc \<Rightarrow> 'qc" where
  "useBlockUser_onSuccess ops workspaceId c =
     invalidateQueries ops (invalidateQueries ops c (workspaceKeys_blocks workspaceId)) messageKeys_all"

definition useUnblockUser_onSuccess :: "'qc query_ops \<Rightarrow> jsstring \<Rightarrow> 'qc \<Rightarrow> 'qc" where
  "useUnblockUser_onSuccess ops workspaceId c =
     invalidateQueries ops (invalidateQueries ops c (workspaceKeys_blocks workspaceId)) messageKeys_all"

section \<open>Profile\<close>

definition useUpdateProfile_onSuccess :: "'qc query_ops \<Rightarrow> 'qc \<Rightarrow> user option \<Rightarrow> 'qc" where
  "useUpdateProfile_onSuccess ops c u =
     (let c1 = invalidateQueries ops c authKeys_me;
          c2 = (case u of None \<Rightarrow> c1 | Some u \<Rightarrow> invalidateQueries ops c1 (userKeys_detail (us_id u)))
      in invalidateQueries ops (invalidateQueries ops c2 messageKeys_all) threadKeys_all)"

definition useUploadAvatar_onSuccess :: "'qc query_ops \<Rightarrow> 'qc \<Rightarrow> 'qc" where
  "useUploadAvatar_onSuccess ops c =
     (let c1 = invalidateQueries ops c authKeys_me; c2 = invalidateQueries ops c1 userKeys_all
      in invalidateQueries ops (invalidateQueries ops c2 messageKeys_all) threadKeys_all)"

definition useDeleteAvatar_onSuccess :: "'qc query_ops \<Rightarrow> 'qc \<Rightarrow> 'qc" where
  "useDeleteAvatar_onSuccess ops c =
     (let c1 = invalidateQueries ops c authKeys_me; c2 = invalidateQueries ops c1 userKeys_all
      in invalidateQueries ops (invalidateQueries ops c2 messageKeys_all) threadKeys_all)"

section \<open>Mutations that settle\<close>

text \<open>A mutation whose request fails: the library calls the three callbacks in this order.\<close>

definition failedMutation ::
    "('qc \<Rightarrow> 'qc \<times> query_data option) \<Rightarrow> ('qc \<Rightarrow> query_data option \<Rightarrow> 'qc) \<Rightarrow> ('qc \<Rightarrow> 'qc) \<Rightarrow> 'qc \<Rightarrow> 'qc" where
  "failedMutation onMutate onError onSettled c =
     (let (c1, context) = onMutate c in onSettled (onError c1 context))"

locale settled_optimistic = optimistic ops key onMutate onError
  for ops :: "'qc query_ops" and key onMutate onError +
  fixes onSettled :: "'qc \<Rightarrow> 'qc"
  assumes settled_data: "getQueryData ops (onSettled c) k = getQueryData ops c k"
    and settled_stale: "getQueryData ops c key \<noteq> None \<Longrightarrow> isInvalidated ops (onSettled c) key"
begin

text \<open>A failed mutation restores every entry and has its own refetched.\<close>

lemma failed_restores:
  assumes "getQueryData ops c key \<noteq> None"
  shows "getQueryData ops (failedMutation onMutate onError onSettled c) k = getQueryData ops c k \<and>
    isInvalidated ops (failedMutation onMutate onError onSettled c) key"
proof -
  have "getQueryData ops (onError (fst (onMutate c)) (snd (onMutate c))) k = getQueryData ops c k" for k
    using assms by (rule rollback)
  with assms show ?thesis
    by (simp add: failedMutation_def split_beta settled_data settled_stale)
qed

text \<open>A mutation that succeeds has its entry refetched.\<close>

lemma settled_refetches:
  "getQueryData ops (fst (onMutate c)) key \<noteq> None \<Longrightarrow> isInvalidated ops (onSettled (fst (onMutate c))) key"
  by (rule settled_stale)

end

sublocale query_client \<subseteq> star: settled_optimistic ops "channelKeys_list workspaceId"
    "useStarChannel_onMutate ops workspaceId channelId" "useStarChannel_onError ops workspaceId"
    "useStarChannel_onSettled ops workspaceId" for workspaceId channelId
  by unfold_locales (auto simp: useStarChannel_onMutate_def useStarChannel_onError_def
    useStarChannel_onSettled_def Let_def invalidated)

sublocale query_client \<subseteq> unstar: settled_optimistic ops "channelKeys_list workspaceId"
    "useUnstarChannel_onMutate ops workspaceId channelId" "useUnstarChannel_onError ops workspaceId"
    "useUnstarChannel_onSettled ops workspaceId" for workspaceId channelId
  by unfold_locales (auto simp: useUnstarChannel_onMutate_def useUnstarChannel_onError_def
    useUnstarChannel_onSettled_def Let_def invalidated)

sublocale query_client \<subseteq> prefs: settled_optimistic ops "channelKeys_notifications channelId"
    "useUpdateChannelNotifications_onMutate ops channelId newPreferences"
    "useUpdateChannelNotifications_onError ops channelId"
    "useUpdateChannelNotifications_onSettled ops channelId" for channelId newPreferences
  by unfold_locales (auto simp: useUpdateChannelNotifications_onMutate_def
    useUpdateChannelNotifications_onError_def useUpdateChannelNotifications_onSettled_def Let_def invalidated)

sublocale query_client \<subseteq> subscribe: settled_optimistic ops "threadKeys_subscription messageId"
    "useSubscribeToThread_onMutate ops messageId" "useSubscribeToThread_onError ops messageId"
    "useSubscribeToThread_onSettled ops messageId" for messageId
  by unfold_locales (auto simp: useSubscribeToThread_onMutate_def useSubscribeToThread_onError_def
    useSubscribeToThread_onSettled_def Let_def invalidated)

sublocale query_client \<subseteq> unsubscribe: settled_optimistic ops "threadKeys_subscription messageId"
    "useUnsubscribeFromThread_onMutate ops messageId" "useUnsubscribeFromThread_onError ops messageId"
    "useUnsubscribeFromThread_onSettled ops messageId" for messageId
  by unfold_locales (auto simp: useUnsubscribeFromThread_onMutate_def
    useUnsubscribeFromThread_onError_def useUnsubscribeFromThread_onSettled_def Let_def invalidated)

sublocale query_client \<subseteq> reorder: settled_optimistic ops authKeys_me
    "useReorderWorkspaces_onMutate ops workspaceIds" "useReorderWorkspaces_onError ops"
    "useReorderWorkspaces_onSettled ops" for workspaceIds
  by unfold_locales (auto simp: useReorderWorkspaces_onMutate_def useReorderWorkspaces_onError_def
    useReorderWorkspaces_onSettled_def Let_def invalidated)

context query_client begin

lemmas settled_hooks_restore = star.failed_restores unstar.failed_restores prefs.failed_restores
  subscribe.failed_restores unsubscribe.failed_restores reorder.failed_restores

end

end
