(* ===== verification/ClientOperations.thy ===== *)
theory ClientOperations
  imports SseSession HookMutations Samples
begin

text \<open>
  Everything that writes to the query cache, interleaved. A step of the client is an event of
  the stream, a mutation that completes (\<open>completed\<close>), or one of the three phases of an
  optimistic mutation: its start, which puts a snapshot into flight, its success, and its
  failure, which writes that snapshot back however old it has become by then.

  The invariant says that the app is well formed and that every snapshot in flight is the
  well-formed content of the entry it will be written to. The second half of the theory states
  what the mutation hooks do: the rollbacks, the new order of the workspaces, and what unpinning
  a message leaves behind.
\<close>

section \<open>Mutations that complete\<close>

datatype completed =
    Sent jsstring message_with_user
  | Replied jsstring jsstring message_with_user
  | Edited jsstring message_with_user
  | Deleted jsstring jsstring
  | MarkedUnread jsstring
  | MarkedRead jsstring "jsstring option" jsstring
  | MarkedAllRead jsstring
  | ChannelMade jsstring
  | DMMade jsstring
  | ChannelJoined jsstring
  | ChannelLeft jsstring
  | ChannelArchivedDone jsstring
  | ChannelMemberJoined jsstring
  | ChannelEdited jsstring jsstring channel
  | GroupDMConverted jsstring
  | WorkspaceMade
  | WorkspaceEdited jsstring
  | MemberRoleSet jsstring
  | MemberDropped jsstring
  | WorkspaceLeft jsstring
  | InviteAccepted
  | IconUploaded jsstring
  | IconDeleted jsstring
  | Pinned jsstring message
  | Unpinned jsstring message
  | Banned jsstring
  | Unbanned jsstring
  | Blocked jsstring
  | Unblocked jsstring
  | ProfileSaved "user option"
  | AvatarUploaded
  | AvatarDeleted

fun complete :: "'qc query_ops \<Rightarrow> completed \<Rightarrow> 'qc \<Rightarrow> 'qc" where
  "complete ops (Sent channelId m) c = useSendMessage_onSuccess ops channelId c m"
| "complete ops (Replied parent channelId m) c = useSendThreadReply_onSuccess ops parent channelId c m"
| "complete ops (Edited messageId m) c = useUpdateMessage_onSuccess ops messageId c m"
| "complete ops (Deleted now messageId) c = useDeleteMessage_onSuccess ops now c messageId"
| "complete ops (MarkedUnread w) c = useMarkMessageUnread_onSuccess ops w c"
| "complete ops (MarkedRead w lastRead channelId) c = useMarkChannelAsRead_onSuccess ops w c lastRead channelId"
| "complete ops (MarkedAllRead w) c = useMarkAllChannelsAsRead_onSuccess ops w c"
| "complete ops (ChannelMade w) c = useCreateChannel_onSuccess ops w c"
| "complete ops (DMMade w) c = useCreateDM_onSuccess ops w c"
| "complete ops (ChannelJoined w) c = useJoinChannel_onSuccess ops w c"
| "complete ops (ChannelLeft w) c = useLeaveChannel_onSuccess ops w c"
| "complete ops (ChannelArchivedDone w) c = useArchiveChannel_onSuccess ops w c"
| "complete ops (ChannelMemberJoined channelId) c = useAddChannelMember_onSuccess ops channelId c"
| "complete ops (ChannelEdited w channelId d) c = useUpdateChannel_onSuccess ops w channelId c d"
| "complete ops (GroupDMConverted w) c = useConvertGroupDMToChannel_onSuccess ops w c"
| "complete ops WorkspaceMade c = useCreateWorkspace_onSuccess ops c"
| "complete ops (WorkspaceEdited w) c = useUpdateWorkspace_onSuccess ops w c"
| "complete ops (MemberRoleSet w) c = useUpdateMemberRole_onSuccess ops w c"
| "complete ops (MemberDropped w) c = useRemoveMember_onSuccess ops w c"
| "complete ops (WorkspaceLeft w) c = useLeaveWorkspace_onSuccess ops c w"
| "complete ops InviteAccepted c = useAcceptInvite_onSuccess ops c"
| "complete ops (IconUploaded w) c = useUploadWorkspaceIcon_onSuccess ops w c"
| "complete ops (IconDeleted w) c = useDeleteWorkspaceIcon_onSuccess ops w c"
| "complete ops (Pinned channelId d) c = usePinMessage_onSuccess ops channelId c d"
| "complete ops (Unpinned channelId d) c = useUnpinMessage_onSuccess ops channelId c d"
| "complete ops (Banned w) c = useBanUser_onSuccess ops w c"
| "complete ops (Unbanned w) c = useUnbanUser_onSuccess ops w c"
| "complete ops (Blocked w) c = useBlockUser_onSuccess ops w c"
| "complete ops (Unblocked w) c = useUnblockUser_onSuccess ops w c"
| "complete ops (ProfileSaved u) c = useUpdateProfile_onSuccess ops c u"
| "complete ops AvatarUploaded c = useUploadAvatar_onSuccess ops c"
| "complete ops AvatarDeleted c = useDeleteAvatar_onSuccess ops c"

text \<open>
  What the server answers: well-formed messages, and for an edited message or channel the one
  that was asked for.
\<close>

fun completed_ok :: "completed \<Rightarrow> bool" where
  "completed_ok (Sent _ m) = well_formed_message m"
| "completed_ok (Replied _ _ m) = well_formed_message m"
| "completed_ok (Edited messageId m) = (well_formed_message m \<and> msg_id m = messageId)"
| "completed_ok (ChannelEdited _ channelId d) = (ch_id d = channelId)"
| "completed_ok (Pinned _ d) = (0 \<le> msg_reply_count d)"
| "completed_ok (Unpinned _ d) = (0 \<le> msg_reply_count d)"
| "completed_ok _ = True"

section \<open>Optimistic mutations\<close>

datatype optimistic_op =
    AddReaction jsstring jsstring jsstring jsstring
  | RemoveReaction jsstring jsstring jsstring
  | Star jsstring jsstring
  | Unstar jsstring jsstring
  | SetPreferences jsstring notification_preferences
  | Subscribe jsstring
  | Unsubscribe jsstring
  | Reorder "jsstring list"

fun op_key :: "optimistic_op \<Rightarrow> query_key" where
  "op_key (AddReaction channelId _ _ _) = messageKeys_list channelId"
| "op_key (RemoveReaction channelId _ _) = messageKeys_list channelId"
| "op_key (Star w _) = channelKeys_list w"
| "op_key (Unstar w _) = channelKeys_list w"
| "op_key (SetPreferences channelId _) = channelKeys_notifications channelId"
| "op_key (Subscribe messageId) = threadKeys_subscription messageId"
| "op_key (Unsubscribe messageId) = threadKeys_subscription messageId"
| "op_key (Reorder _) = authKeys_me"

fun op_mutate :: "'qc query_ops \<Rightarrow> optimistic_op \<Rightarrow> 'qc \<Rightarrow> 'qc \<times> query_data option" where
  "op_mutate ops (AddReaction channelId now messageId emoji) c =
     useAddReaction_onMutate ops channelId now messageId emoji c"
| "op_mutate ops (RemoveReaction channelId messageId emoji) c =
     useRemoveReaction_onMutate ops channelId messageId emoji c"
| "op_mutate ops (Star w channelId) c = useStarChannel_onMutate ops w channelId c"
| "op_mutate ops (Unstar w channelId) c = useUnstarChannel_onMutate ops w channelId c"
| "op_mutate ops (SetPreferences channelId p) c = useUpdateChannelNotifications_onMutate ops channelId p c"
| "op_mutate ops (Subscribe messageId) c = useSubscribeToThread_onMutate ops messageId c"
| "op_mutate ops (Unsubscribe messageId) c = useUnsubscribeFromThread_onMutate ops messageId c"
| "op_mutate ops (Reorder ids) c = useReorderWorkspaces_onMutate ops ids c"

fun op_error :: "'qc query_ops \<Rightarrow> optimistic_op \<Rightarrow> 'qc \<Rightarrow> query_data option \<Rightarrow> 'qc" where
  "op_error ops (AddReaction channelId _ _ _) c d = useAddReaction_onError ops channelId c d"
| "op_error ops (RemoveReaction channelId _ _) c d = useRemoveReaction_onError ops channelId c d"
| "op_error ops (Star w _) c d = useStarChannel_onError ops w c d"
| "op_error ops (Unstar w _) c d = useUnstarChannel_onError ops w c d"
| "op_error ops (SetPreferences channelId _) c d = useUpdateChannelNotifications_onError ops channelId c d"
| "op_error ops (Subscribe messageId) c d = useSubscribeToThread_onError ops messageId c d"
| "op_error ops (Unsubscribe messageId) c d = useUnsubscribeFromThread_onError ops messageId c d"
| "op_error ops (Reorder _) c d = useReorderWorkspaces_onError ops c d"

text \<open>The reactions have no \<open>onSettled\<close>.\<close>

fun op_settled :: "'qc query_ops \<Rightarrow> optimistic_op \<Rightarrow> 'qc \<Rightarrow> 'qc" where
  "op_settled ops (AddReaction _ _ _ _) c = c"
| "op_settled ops (RemoveReaction _ _ _) c = c"
| "op_settled ops (Star w _) c = useStarChannel_onSettled ops w c"
| "op_settled ops (Unstar w _) c = useUnstarChannel_onSettled ops w c"
| "op_settled ops (SetPreferences channelId _) c = useUpdateChannelNotifications_onSettled ops channelId c"
| "op_settled ops (Subscribe messageId) c = useSubscribeToThread_onSettled ops messageId c"
| "op_settled ops (Unsubscribe messageId) c = useUnsubscribeFromThread_onSettled ops messageId c"
| "op_settled ops (Reorder _) c = useReorderWorkspaces_onSettled ops c"

section \<open>The steps of a client\<close>

record 'qc client_run =
  cl_app :: "'qc app_state"
  cl_flights :: "(optimistic_op \<times> query_data option) list"
  cl_previews :: "(query_key \<times> query_data option) list list"

definition with_client :: "('qc \<Rightarrow> 'qc) \<Rightarrow> 'qc client_run \<Rightarrow> 'qc client_run" where
  "with_client f s = s\<lparr>cl_app := on_client f (cl_app s)\<rparr>"

inductive client_step :: "'qc query_ops \<Rightarrow> 'qc client_run \<Rightarrow> 'qc client_run \<Rightarrow> bool" for ops where
  web_event: "event_ok e \<Longrightarrow> client_step ops s (s\<lparr>cl_app := web_handle ops env e (cl_app s)\<rparr>)"
| mobile_event: "event_ok e \<Longrightarrow> client_step ops s (s\<lparr>cl_app := mobile_handle ops env e (cl_app s)\<rparr>)"
| completes: "completed_ok m \<Longrightarrow> client_step ops s (with_client (complete ops m) s)"
| begins: "op_mutate ops oper (app_client (cl_app s)) = (c, snapshot) \<Longrightarrow>
    client_step ops s (with_client (\<lambda>_. c) (s\<lparr>cl_flights := (oper, snapshot) # cl_flights s\<rparr>))"
| succeeds: "(oper, snapshot) \<in> set (cl_flights s) \<Longrightarrow>
    client_step ops s (with_client (op_settled ops oper)
      (s\<lparr>cl_flights := remove1 (oper, snapshot) (cl_flights s)\<rparr>))"
| fails: "(oper, snapshot) \<in> set (cl_flights s) \<Longrightarrow>
    client_step ops s (with_client (\<lambda>c. op_settled ops oper (op_error ops oper c snapshot))
      (s\<lparr>cl_flights := remove1 (oper, snapshot) (cl_flights s)\<rparr>))"
| preview_begins: "useDeleteLinkPreview_onMutate ops messageId (app_client (cl_app s)) = (c, previous) \<Longrightarrow>
    client_step ops s (with_client (\<lambda>_. c) (s\<lparr>cl_previews := previous # cl_previews s\<rparr>))"
| preview_succeeds: "previous \<in> set (cl_previews s) \<Longrightarrow>
    client_step ops s (with_client (useDeleteLinkPreview_onSettled ops)
      (s\<lparr>cl_previews := remove1 previous (cl_previews s)\<rparr>))"
| preview_fails: "previous \<in> set (cl_previews s) \<Longrightarrow>
    client_step ops s (with_client
      (\<lambda>c. useDeleteLinkPreview_onSettled ops (useDeleteLinkPreview_onError ops c previous))
      (s\<lparr>cl_previews := remove1 previous (cl_previews s)\<rparr>))"

definition snapshot_ok :: "query_key \<Rightarrow> query_data option \<Rightarrow> bool" where
  "snapshot_ok k d = (case d of None \<Rightarrow> True | Some v \<Rightarrow> entry_ok k v)"

definition client_ok :: "'qc query_ops \<Rightarrow> 'qc client_run \<Rightarrow> bool" where
  "client_ok ops s \<longleftrightarrow> app_ok ops (cl_app s) \<and>
     (\<forall>(oper, snapshot) \<in> set (cl_flights s). snapshot_ok (op_key oper) snapshot) \<and>
     (\<forall>previous \<in> set (cl_previews s). \<forall>(k, d) \<in> set previous. snapshot_ok k d)"

definition client_started :: "'qc query_ops \<Rightarrow> 'qc client_run \<Rightarrow> bool" where
  "client_started ops s \<longleftrightarrow> app_ok ops (cl_app s) \<and> cl_flights s = [] \<and> cl_previews s = []"

section \<open>Every step keeps the invariant\<close>

lemma mapChannels_ok:
  assumes "channels_ok r" "\<And>c. ch_id (f c) = ch_id c"
    and "\<And>c. 0 \<le> ch_unread_count c \<Longrightarrow> 0 \<le> ch_unread_count (f c)"
    and "\<And>c. 0 \<le> ch_notification_count c \<Longrightarrow> 0 \<le> ch_notification_count (f c)"
  shows "channels_ok (mapChannels f r)"
  unfolding mapChannels_def using assms by (rule channels_ok_map)

lemma wf_spread_plain:
  "well_formed_message m \<Longrightarrow> 0 \<le> msg_reply_count d \<Longrightarrow> well_formed_message (spread_message m d)"
  by (simp add: well_formed_message_def spread_message_def)

lemma wf_addTempReaction: "well_formed_message m \<Longrightarrow> well_formed_message (addTempReaction now mid u e m)"
  by (auto simp: well_formed_message_def addTempReaction_def Let_def list_ex_iff sameReaction_key)
    (auto simp: reaction_key_def)

lemma msg_id_temp [simp]: "msg_id (addTempReaction now mid u e m) = msg_id m"
  by (simp add: addTempReaction_def Let_def)

text \<open>The early exits of \<open>clearLinkPreview\<close> do not change its result.\<close>

definition withoutPreview :: "jsstring \<Rightarrow> message_with_user \<Rightarrow> message_with_user" where
  "withoutPreview mid m = (if msg_id m = mid then m\<lparr>msg_link_preview := None\<rparr> else m)"

lemma clearLinkPreview_eq: "clearLinkPreview mid p = mapMessages (withoutPreview mid) p"
proof -
  define hit where "hit = (\<lambda>page :: message_list_result. list_ex (\<lambda>m. msg_id m = mid \<and> msg_link_preview m \<noteq> None) (messages page))"
  have same: "withoutPreview mid m = m" if "msg_link_preview m = None" for m
    using that by (cases m) (simp add: withoutPreview_def)
  have page: "page\<lparr>messages := map (withoutPreview mid) (messages page)\<rparr> = page" if "\<not> hit page"
    for page :: message_list_result
  proof -
    have "withoutPreview mid m = m" if "m \<in> set (messages page)" for m
      using that \<open>\<not> hit page\<close>
      by (cases "msg_id m = mid") (auto simp: hit_def list_ex_iff intro: same simp: withoutPreview_def [of mid m])
    then have "map (withoutPreview mid) (messages page) = messages page" by (rule map_idI)
    then show ?thesis by (cases page) simp
  qed
  show ?thesis
    unfolding clearLinkPreview_def mapMessages_def Let_def hit_def [symmetric] withoutPreview_def [symmetric]
    by (auto simp: page list_ex_iff intro!: message_pages.equality map_cong map_idI [symmetric])
qed

lemma wf_clearLinkPreview: "well_formed_pages p \<Longrightarrow> well_formed_pages (clearLinkPreview mid p)"
  unfolding clearLinkPreview_eq by (rule wf_map) (auto simp: withoutPreview_def well_formed_message_def)

context query_client begin

lemma ok_sent:
  "cache_ok ops c \<Longrightarrow> well_formed_message m \<Longrightarrow> cache_ok ops (useSendMessage_onSuccess ops channelId c m)"
  unfolding useSendMessage_onSuccess_def by (intro ok_set_pages wf_addToChannel)

lemma ok_replied:
  assumes "cache_ok ops c" "well_formed_message m"
  shows "cache_ok ops (useSendThreadReply_onSuccess ops parent channelId c m)"
  unfolding useSendThreadReply_onSuccess_def Let_def using assms
  by (auto intro!: cache_ok_intros wf_append wf_addToChannel wf_map wf_bumpParent)

lemma ok_edited:
  assumes "cache_ok ops c" "well_formed_message m"
  shows "cache_ok ops (useUpdateMessage_onSuccess ops (msg_id m) c m)"
  unfolding useUpdateMessage_onSuccess_def using assms by (auto intro!: cache_ok_intros wf_map)

lemma ok_deleted: "cache_ok ops c \<Longrightarrow> cache_ok ops (useDeleteMessage_onSuccess ops now c messageId)"
  unfolding useDeleteMessage_onSuccess_def Let_def
  by (auto split: option.split intro!: cache_ok_intros wf_delete wf_remove wf_map wf_decrement)

lemma ok_channel_mutations:
  "cache_ok ops c \<Longrightarrow> cache_ok ops (useMarkChannelAsRead_onSuccess ops w c lastRead channelId)"
  "cache_ok ops c \<Longrightarrow> cache_ok ops (useMarkAllChannelsAsRead_onSuccess ops w c)"
  "cache_ok ops c \<Longrightarrow> cache_ok ops (useUpdateChannel_onSuccess ops w (ch_id d) c d)"
  unfolding useMarkChannelAsRead_onSuccess_def useMarkAllChannelsAsRead_onSuccess_def
    useUpdateChannel_onSuccess_def channelRead_def Let_def
  by (auto intro!: cache_ok_intros mapChannels_ok simp: spread_channel_def)

lemma ok_pin:
  "cache_ok ops c \<Longrightarrow> 0 \<le> msg_reply_count d \<Longrightarrow> cache_ok ops (usePinMessage_onSuccess ops channelId c d)"
  "cache_ok ops c \<Longrightarrow> 0 \<le> msg_reply_count d \<Longrightarrow> cache_ok ops (useUnpinMessage_onSuccess ops channelId c d)"
  unfolding usePinMessage_onSuccess_def useUnpinMessage_onSuccess_def updateModerationMessageInCache_def
  by (auto intro!: cache_ok_intros wf_update_where wf_spread_plain)

lemma ok_complete: "completed_ok m \<Longrightarrow> cache_ok ops c \<Longrightarrow> cache_ok ops (complete ops m c)"
  by (cases m) (auto intro!: ok_sent ok_replied ok_edited ok_deleted ok_channel_mutations ok_pin ok_invalidate
    simp: useMarkMessageUnread_onSuccess_def useCreateChannel_onSuccess_def useCreateDM_onSuccess_def
      useJoinChannel_onSuccess_def useLeaveChannel_onSuccess_def useArchiveChannel_onSuccess_def
      useAddChannelMember_onSuccess_def useConvertGroupDMToChannel_onSuccess_def
      useCreateWorkspace_onSuccess_def useUpdateWorkspace_onSuccess_def useUpdateMemberRole_onSuccess_def
      useRemoveMember_onSuccess_def useLeaveWorkspace_onSuccess_def useAcceptInvite_onSuccess_def
      useUploadWorkspaceIcon_onSuccess_def useDeleteWorkspaceIcon_onSuccess_def useBanUser_onSuccess_def
      useUnbanUser_onSuccess_def useBlockUser_onSuccess_def useUnblockUser_onSuccess_def
      useUpdateProfile_onSuccess_def useUploadAvatar_onSuccess_def useDeleteAvatar_onSuccess_def
      Let_def split: option.split)

end

text \<open>Every optimistic mutation satisfies the contract, on the entry of its key.\<close>

sublocale query_client \<subseteq> oper: optimistic ops "op_key oper" "op_mutate ops oper" "op_error ops oper" for oper
  by (cases oper; simp; unfold_locales)
    (simp_all add: useAddReaction_onMutate_def useRemoveReaction_onMutate_def useStarChannel_onMutate_def
      useUnstarChannel_onMutate_def useUpdateChannelNotifications_onMutate_def useSubscribeToThread_onMutate_def
      useUnsubscribeFromThread_onMutate_def useReorderWorkspaces_onMutate_def useAddReaction_onError_def
      useRemoveReaction_onError_def useStarChannel_onError_def useUnstarChannel_onError_def
      useUpdateChannelNotifications_onError_def useSubscribeToThread_onError_def
      useUnsubscribeFromThread_onError_def useReorderWorkspaces_onError_def Let_def)

fun is_reaction :: "optimistic_op \<Rightarrow> bool" where
  "is_reaction (AddReaction _ _ _ _) = True"
| "is_reaction (RemoveReaction _ _ _) = True"
| "is_reaction _ = False"

lemmas settled_defs = useStarChannel_onSettled_def useUnstarChannel_onSettled_def
  useUpdateChannelNotifications_onSettled_def useSubscribeToThread_onSettled_def
  useUnsubscribeFromThread_onSettled_def useReorderWorkspaces_onSettled_def

context query_client begin

lemma settled_op_data: "getQueryData ops (op_settled ops oper c) k = getQueryData ops c k"
  by (cases oper) (simp_all add: settled_defs)

lemma settled_op_stale:
  "\<not> is_reaction oper \<Longrightarrow> getQueryData ops c (op_key oper) \<noteq> None \<Longrightarrow>
     isInvalidated ops (op_settled ops oper c) (op_key oper)"
  by (cases oper) (simp_all add: settled_defs invalidated)

lemma failed_op:
  assumes "getQueryData ops c (op_key oper) \<noteq> None"
  shows "getQueryData ops (failedMutation (op_mutate ops oper) (op_error ops oper) (op_settled ops oper) c) k =
      getQueryData ops c k \<and>
    (is_reaction oper \<or> isInvalidated ops
      (failedMutation (op_mutate ops oper) (op_error ops oper) (op_settled ops oper) c) (op_key oper))"
proof -
  have r: "getQueryData ops (op_error ops oper (fst (op_mutate ops oper c)) (snd (op_mutate ops oper c))) k =
      getQueryData ops c k" for k
    using assms by (rule oper.rollback)
  with assms show ?thesis
    using settled_op_stale [of oper "op_error ops oper (fst (op_mutate ops oper c)) (snd (op_mutate ops oper c))"]
    by (auto simp: failedMutation_def split_beta settled_op_data)
qed

lemma ok_settled_op: "cache_ok ops c \<Longrightarrow> cache_ok ops (op_settled ops oper c)"
  by (cases oper) (simp_all add: settled_defs ok_invalidate)

lemma ok_mutate_op: "cache_ok ops c \<Longrightarrow> cache_ok ops (fst (op_mutate ops oper c))"
  by (cases oper) (auto simp: useAddReaction_onMutate_def useRemoveReaction_onMutate_def
      useStarChannel_onMutate_def useUnstarChannel_onMutate_def useUpdateChannelNotifications_onMutate_def
      useSubscribeToThread_onMutate_def useUnsubscribeFromThread_onMutate_def
      useReorderWorkspaces_onMutate_def setStarred_def Let_def entry_ok_def content_ok_def msg_id_temp
    intro!: ok_set_pages ok_set_channels ok_set_auth ok_set_const ok_cancel wf_map mapChannels_ok
      wf_dropReaction wf_addTempReaction)

lemma snapshot_of_op: "cache_ok ops c \<Longrightarrow> snapshot_ok (op_key oper) (snd (op_mutate ops oper c))"
  by (auto simp: oper.snapshot snapshot_ok_def dest: get_ok split: option.split)

lemma ok_error_op:
  assumes "cache_ok ops c" "snapshot_ok (op_key oper) d"
  shows "cache_ok ops (op_error ops oper c d)"
proof (cases d)
  case None
  with assms show ?thesis by (simp add: oper.error_none)
next
  case (Some v)
  with assms show ?thesis
    by (auto simp: cache_ok_def data_inv_def oper.error_some snapshot_ok_def)
qed

lemma ok_preview_mutate:
  assumes "cache_ok ops c" "useDeleteLinkPreview_onMutate ops mid c = (c', previous)"
  shows "cache_ok ops c' \<and> (\<forall>(k, d) \<in> set previous. snapshot_ok k d)"
proof -
  have c': "c' = setQueriesData ops (cancelQueries ops c messageKeys_all) messageKeys_all (on_pages (clearLinkPreview mid))"
    and prev: "previous = getQueriesData ops (cancelQueries ops c messageKeys_all) messageKeys_all"
    using assms(2) by (simp_all add: useDeleteLinkPreview_onMutate_def Let_def)
  have "snapshot_ok k d" if "(k, d) \<in> set previous" for k d
  proof (cases d)
    case (Some v)
    with that prev have "getQueryData ops c k = Some v" by (simp add: queries_data)
    with assms(1) Some show ?thesis by (simp add: snapshot_ok_def get_ok)
  qed (simp add: snapshot_ok_def)
  moreover have "cache_ok ops c'"
    unfolding c' using assms(1) by (intro ok_sets_pages ok_cancel wf_clearLinkPreview)
  ultimately show ?thesis by auto
qed

lemma ok_preview_error:
  "cache_ok ops c \<Longrightarrow> \<forall>(k, d) \<in> set previous. snapshot_ok k d \<Longrightarrow>
     cache_ok ops (useDeleteLinkPreview_onError ops c previous)"
  unfolding useDeleteLinkPreview_onError_def
proof (induction previous arbitrary: c)
  case (Cons kd previous)
  obtain k d where kd: "kd = (k, d)" by (cases kd)
  have "cache_ok ops (setQueryData ops c k (\<lambda>_. d))"
    unfolding cache_ok_def
    by (rule data_inv_set) (use Cons.prems kd in \<open>auto simp: cache_ok_def snapshot_ok_def\<close>)
  from Cons.IH [OF this] Cons.prems kd show ?case by simp
qed simp

lemma client_ok_step: "client_step ops s t \<Longrightarrow> client_ok ops s \<Longrightarrow> client_ok ops t"
proof (induction rule: client_step.induct)
  case (web_event e s env)
  then show ?case by (simp add: client_ok_def app_ok_web_handle)
next
  case (mobile_event e s env)
  then show ?case by (simp add: client_ok_def app_ok_mobile_handle)
next
  case (completes m s)
  then show ?case
    by (auto simp: client_ok_def with_client_def intro!: app_ok_on_client ok_complete)
next
  case (begins oper s c snapshot)
  then have "cache_ok ops (app_client (cl_app s))" by (simp add: client_ok_def app_ok_def)
  from ok_mutate_op [OF this, of oper] snapshot_of_op [OF this, of oper] begins
  show ?case by (auto simp: client_ok_def with_client_def intro!: app_ok_on_client)
next
  case (succeeds oper snapshot s)
  then show ?case by (auto simp: client_ok_def with_client_def intro!: app_ok_on_client ok_settled_op
    dest: set_remove1_subset [THEN subsetD])
next
  case (fails oper snapshot s)
  then show ?case by (auto simp: client_ok_def with_client_def
    intro!: app_ok_on_client ok_settled_op ok_error_op dest: set_remove1_subset [THEN subsetD])
next
  case (preview_begins mid s c previous)
  then have "cache_ok ops (app_client (cl_app s))" by (simp add: client_ok_def app_ok_def)
  from ok_preview_mutate [OF this preview_begins(1)] preview_begins(2)
  show ?case by (auto simp: client_ok_def with_client_def intro!: app_ok_on_client)
next
  case (preview_succeeds previous s)
  then show ?case by (auto simp: client_ok_def with_client_def useDeleteLinkPreview_onSettled_def
    intro!: app_ok_on_client ok_invalidate dest: set_remove1_subset [THEN subsetD])
next
  case (preview_fails previous s)
  then show ?case by (auto simp: client_ok_def with_client_def useDeleteLinkPreview_onSettled_def
    intro!: app_ok_on_client ok_invalidate ok_preview_error dest: set_remove1_subset [THEN subsetD])
qed

end

sublocale query_client \<subseteq> operations: machine "client_step ops" "client_started ops" "client_ok ops"
  by unfold_locales (simp add: client_started_def client_ok_def, rule client_ok_step)

context query_client begin

lemmas client_always = operations.always

end

section \<open>Properties\<close>





lemma reorder_listed:
  "map ws_id (List.map_filter (\<lambda>(index, id). map_option (\<lambda>ws. ws\<lparr>ws_sort_order := Some (int index)\<rparr>)
     (workspaceMap old id)) (enumerate n ids)) = filter (\<lambda>i. i \<in> ws_id ` set old) ids"
proof (induction ids arbitrary: n)
  case (Cons i ids)
  have "workspaceMap old i = None \<longleftrightarrow> i \<notin> ws_id ` set old"
    by (simp add: workspaceMap_def map_of_eq_None_iff image_image)
  moreover have "ws_id ws = i" if "workspaceMap old i = Some ws" for ws
    using map_of_SomeD [OF that [unfolded workspaceMap_def]] by auto
  ultimately show ?case
    using Cons [of "Suc n"] by (auto simp: List.map_filter_simps split: option.split)
qed (simp add: List.map_filter_simps)

lemma reorder_ids:
  "map ws_id (reorderWorkspaces ids old) =
     filter (\<lambda>i. i \<in> ws_id ` set old) ids @ filter (\<lambda>i. i \<notin> set ids) (map ws_id old)"
  by (simp add: reorderWorkspaces_def reorder_listed filter_map comp_def)

lemma map_filter_set: "y \<in> set (List.map_filter f xs) \<longleftrightarrow> (\<exists>x \<in> set xs. f x = Some y)"
  by (induction xs) (auto simp: List.map_filter_simps split: option.splits)

text \<open>Reordering shows the listed workspaces first, in the order of the list and each with its index
  as sort order, and then the workspaces that are not listed; none is lost or shown twice.\<close>

theorem reorder_workspaces:
  assumes "distinct (map ws_id old)" "distinct ids" "i < length ids" "ws \<in> set old" "ws_id ws = ids ! i"
  shows "map ws_id (reorderWorkspaces ids old) =
      filter (\<lambda>i. i \<in> ws_id ` set old) ids @ filter (\<lambda>i. i \<notin> set ids) (map ws_id old) \<and>
    mset (map ws_id (reorderWorkspaces ids old)) = mset (map ws_id old) \<and>
    ws\<lparr>ws_sort_order := Some (int i)\<rparr> \<in> set (reorderWorkspaces ids old)"
proof -
  have "mset (map ws_id (reorderWorkspaces ids old)) = mset (map ws_id old)"
    unfolding reorder_ids
    by (rule set_eq_iff_mset_eq_distinct [THEN iffD1]) (use assms in \<open>auto simp: distinct_map_filter\<close>)
  moreover have "workspaceMap old (ids ! i) = Some ws"
    unfolding workspaceMap_def
  proof (rule map_of_is_SomeI)
    show "distinct (map fst (rev (map (\<lambda>ws. (ws_id ws, ws)) old)))"
      using assms(1) by (simp add: rev_map [symmetric] comp_def)
    show "(ids ! i, ws) \<in> set (rev (map (\<lambda>ws. (ws_id ws, ws)) old))"
      using assms(4,5) by (auto simp: image_iff)
  qed
  then have "ws\<lparr>ws_sort_order := Some (int i)\<rparr> \<in> set (reorderWorkspaces ids old)"
    using assms(3) by (auto simp: reorderWorkspaces_def map_filter_set in_set_enumerate_eq intro!: bexI [of _ "(i, ids ! i)"])
  ultimately show ?thesis by (simp add: reorder_ids)
qed

definition sample_workspace :: "jsstring \<Rightarrow> workspace_summary" where
  "sample_workspace i = \<lparr>ws_id = i, ws_name = i, ws_icon_url = None, ws_role = Member,
     ws_sort_order = None, ws_ban = None\<rparr>"

theorem reorder_workspaces_witness:
  "map ws_id (reorderWorkspaces [js ''b'', js ''x''] [sample_workspace (js ''a''), sample_workspace (js ''b'')]) =
     [js ''b'', js ''a'']"
  using reorder_workspaces [of "[sample_workspace (js ''a''), sample_workspace (js ''b'')]" "[js ''b'', js ''x'']"
      0 "sample_workspace (js ''b'')"]
  by (simp add: sample_workspace_def)

context query_client begin

lemma pagesAt_unpin:
  "pagesAt ops (useUnpinMessage_onSuccess ops channelId c d) (messageKeys_list chan) =
     map_option (updateWhereFound (msg_id d) (\<lambda>m. spread_message m d)) (pagesAt ops c (messageKeys_list chan))"
  by (simp add: useUnpinMessage_onSuccess_def updateModerationMessageInCache_def)

lemma pagesAt_unpinned_event:
  "pagesAt ops (handleMessageUnpinned ops c d) (messageKeys_list chan) =
     map_option (updateWhereFound (msg_id d) (setPin None None)) (pagesAt ops c (messageKeys_list chan))"
  by (simp add: handleMessageUnpinned_def)

end

text \<open>C35: Unpinning spreads the server's answer over the cached message, and the answer for a message
  that is not pinned any more has no \<open>pinned_at\<close>: the message stays pinned in the cache until the
  event arrives, which resets the pin.\<close>

theorem unpin_needs_event:
  assumes "query_client ops" "pagesAt ops c (messageKeys_list chan) = Some p"
    and "msg_pinned_at d = None" "msg_id e = msg_id d"
  shows "(\<exists>p'. pagesAt ops (useUnpinMessage_onSuccess ops chan c d) (messageKeys_list chan) = Some p' \<and>
      map msg_pinned_at (allMessages p') = map msg_pinned_at (allMessages p)) \<and>
    (\<exists>p'. pagesAt ops (handleMessageUnpinned ops (useUnpinMessage_onSuccess ops chan c d) e)
        (messageKeys_list chan) = Some p' \<and>
      (\<forall>m \<in> set (allMessages p'). msg_id m = msg_id d \<longrightarrow> msg_pinned_at m = None))"
  using assms(2-)
  by (auto simp: query_client.pagesAt_unpin [OF assms(1)] query_client.pagesAt_unpinned_event [OF assms(1)]
    updateWhereFound_eq spread_message_def setPin_def)

theorem unpin_needs_event_witness:
  "\<exists>p'. pagesAt store_ops (useUnpinMessage_onSuccess store_ops (js ''C'')
      (sample_store [(sample_message (js ''P'') (js ''me'') None 0)\<lparr>msg_pinned_at := Some (js ''t'')\<rparr>] [])
      (message.truncate (sample_message (js ''P'') (js ''me'') None 0))) (messageKeys_list (js ''C'')) = Some p' \<and>
    map msg_pinned_at (allMessages p') = [Some (js ''t'')]"
  using unpin_needs_event [OF store.query_client_axioms, of
      "sample_store [(sample_message (js ''P'') (js ''me'') None 0)\<lparr>msg_pinned_at := Some (js ''t'')\<rparr>] []"
      "js ''C''" _ "message.truncate (sample_message (js ''P'') (js ''me'') None 0)"
      "sample_message (js ''P'') (js ''me'') None 0"]
  by (simp add: sample_pages_def sample_message_def message.truncate_def allMessages_def)

end
