(* ===== verification/ApiRequests.thy ===== *)
theory ApiRequests
  imports ApiTypes
begin

text \<open>
  The API wrappers of \<open>packages/api-client/src/api/\<close>: one definition per function, the
  request it hands to \<open>apiClient\<close>. A request has a method, a path template with its
  parameters, and a body; filling the template and sending it is openapi-fetch, which is not
  part of the repository. \<open>JSON.stringify\<close> drops the properties that are \<open>undefined\<close>
  (\<open>obj\<close>). Inputs the wrappers pass on unread (\<open>input\<close>) are JSON values.
\<close>

section \<open>Requests\<close>

datatype json =
    JNull
  | JBool bool
  | JNum int
  | JStr jsstring
  | JArr "json list"
  | JObj "(jsstring \<times> json) list"

definition obj :: "(string \<times> json option) list \<Rightarrow> json" where
  "obj ps = JObj (List.map_filter (\<lambda>(k, v). map_option (Pair (js k)) v) ps)"

datatype form_value = FormFile jsstring | FormText jsstring

datatype request_body = NoBody | JsonBody json | FormBody "(jsstring \<times> form_value) list"

datatype http_method = GET | POST | DELETE

record http_request =
  rq_method :: http_method
  rq_path :: jsstring
  rq_params :: "(jsstring \<times> jsstring) list"
  rq_body :: request_body

definition request :: "http_method \<Rightarrow> string \<Rightarrow> (jsstring \<times> jsstring) list \<Rightarrow> request_body \<Rightarrow> http_request" where
  "request meth path params body =
     \<lparr>rq_method = meth, rq_path = js path, rq_params = params, rq_body = body\<rparr>"

fun workspace_role_name :: "workspace_role \<Rightarrow> jsstring" where
  "workspace_role_name Owner = js ''owner''"
| "workspace_role_name Admin = js ''admin''"
| "workspace_role_name Member = js ''member''"
| "workspace_role_name Guest = js ''guest''"

fun channel_role_name :: "channel_role \<Rightarrow> jsstring" where
  "channel_role_name ChannelAdmin = js ''admin''"
| "channel_role_name ChannelPoster = js ''poster''"
| "channel_role_name ChannelViewer = js ''viewer''"

section \<open>\<open>api/server.ts\<close>\<close>

definition serverApi_getServerInfo :: "http_request" where
  "serverApi_getServerInfo = request GET ''/server-info'' []
     (NoBody)"

section \<open>\<open>api/auth.ts\<close>\<close>

definition authApi_login :: "json \<Rightarrow> http_request" where
  "authApi_login input = request POST ''/auth/login'' []
     (JsonBody input)"

definition authApi_register :: "json \<Rightarrow> http_request" where
  "authApi_register input = request POST ''/auth/register'' []
     (JsonBody input)"

definition authApi_logout :: "http_request" where
  "authApi_logout = request POST ''/auth/logout'' []
     (NoBody)"

definition authApi_me :: "http_request" where
  "authApi_me = request GET ''/auth/me'' []
     (NoBody)"

definition authApi_forgotPassword :: "jsstring \<Rightarrow> http_request" where
  "authApi_forgotPassword email = request POST ''/auth/forgot-password'' []
     (JsonBody (obj [(''email'', Some (JStr email))]))"

definition authApi_resetPassword :: "jsstring \<Rightarrow> jsstring \<Rightarrow> http_request" where
  "authApi_resetPassword token new_password = request POST ''/auth/reset-password'' []
     (JsonBody (obj [(''token'', Some (JStr token)), (''new_password'', Some (JStr new_password))]))"

definition authApi_verifyEmail :: "jsstring \<Rightarrow> http_request" where
  "authApi_verifyEmail token = request POST ''/auth/verify-email'' []
     (JsonBody (obj [(''token'', Some (JStr token))]))"

definition authApi_resendVerification :: "http_request" where
  "authApi_resendVerification = request POST ''/auth/resend-verification'' []
     (NoBody)"

definition authApi_registerDeviceToken :: "json \<Rightarrow> http_request" where
  "authApi_registerDeviceToken input = request POST ''/auth/device-tokens'' []
     (JsonBody input)"

definition authApi_unregisterDeviceToken :: "jsstring \<Rightarrow> http_request" where
  "authApi_unregisterDeviceToken i = request DELETE ''/auth/device-tokens/{id}'' [(js ''id'', i)]
     (NoBody)"

section \<open>\<open>api/workspaces.ts\<close>\<close>

definition workspacesApi_create :: "json \<Rightarrow> http_request" where
  "workspacesApi_create input = request POST ''/workspaces/create'' []
     (JsonBody input)"

definition workspacesApi_get :: "jsstring \<Rightarrow> http_request" where
  "workspacesApi_get workspaceId = request GET ''/workspaces/{wid}'' [(js ''wid'', workspaceId)]
     (NoBody)"

definition workspacesApi_update :: "jsstring \<Rightarrow> json \<Rightarrow> http_request" where
  "workspacesApi_update workspaceId input = request POST ''/workspaces/{wid}/update'' [(js ''wid'', workspaceId)]
     (JsonBody input)"

definition workspacesApi_listMembers :: "jsstring \<Rightarrow> http_request" where
  "workspacesApi_listMembers workspaceId = request POST ''/workspaces/{wid}/members/list'' [(js ''wid'', workspaceId)]
     (NoBody)"

definition workspacesApi_removeMember :: "jsstring \<Rightarrow> jsstring \<Rightarrow> http_request" where
  "workspacesApi_removeMember workspaceId userId = request POST ''/workspaces/{wid}/members/remove'' [(js ''wid'', workspaceId)]
     (JsonBody (obj [(''user_id'', Some (JStr userId))]))"

definition workspacesApi_updateMemberRole :: "jsstring \<Rightarrow> jsstring \<Rightarrow> workspace_role \<Rightarrow> http_request" where
  "workspacesApi_updateMemberRole workspaceId userId role = request POST ''/workspaces/{wid}/members/update-role'' [(js ''wid'', workspaceId)]
     (JsonBody (obj [(''user_id'', Some (JStr userId)), (''role'', Some (JStr (workspace_role_name role)))]))"

definition workspacesApi_createInvite :: "jsstring \<Rightarrow> json \<Rightarrow> http_request" where
  "workspacesApi_createInvite workspaceId input = request POST ''/workspaces/{wid}/invites/create'' [(js ''wid'', workspaceId)]
     (JsonBody input)"

definition workspacesApi_acceptInvite :: "jsstring \<Rightarrow> http_request" where
  "workspacesApi_acceptInvite code = request POST ''/invites/{code}/accept'' [(js ''code'', code)]
     (NoBody)"

definition workspacesApi_startTyping :: "jsstring \<Rightarrow> jsstring \<Rightarrow> http_request" where
  "workspacesApi_startTyping workspaceId channelId = request POST ''/workspaces/{wid}/typing/start'' [(js ''wid'', workspaceId)]
     (JsonBody (obj [(''channel_id'', Some (JStr channelId))]))"

definition workspacesApi_stopTyping :: "jsstring \<Rightarrow> jsstring \<Rightarrow> http_request" where
  "workspacesApi_stopTyping workspaceId channelId = request POST ''/workspaces/{wid}/typing/stop'' [(js ''wid'', workspaceId)]
     (JsonBody (obj [(''channel_id'', Some (JStr channelId))]))"

definition workspacesApi_uploadIcon :: "jsstring \<Rightarrow> jsstring \<Rightarrow> http_request" where
  "workspacesApi_uploadIcon workspaceId file = request POST ''/workspaces/{wid}/icon'' [(js ''wid'', workspaceId)]
     (FormBody [(js ''file'', FormFile file)])"

definition workspacesApi_deleteIcon :: "jsstring \<Rightarrow> http_request" where
  "workspacesApi_deleteIcon workspaceId = request DELETE ''/workspaces/{wid}/icon'' [(js ''wid'', workspaceId)]
     (NoBody)"

definition workspacesApi_reorder :: "jsstring list \<Rightarrow> http_request" where
  "workspacesApi_reorder workspaceIds = request POST ''/workspaces/reorder'' []
     (JsonBody (obj [(''workspace_ids'', Some (JArr (map JStr workspaceIds)))]))"

definition workspacesApi_leave :: "jsstring \<Rightarrow> http_request" where
  "workspacesApi_leave workspaceId = request POST ''/workspaces/{wid}/leave'' [(js ''wid'', workspaceId)]
     (NoBody)"

definition workspacesApi_getNotifications :: "http_request" where
  "workspacesApi_getNotifications = request GET ''/workspaces/notifications'' []
     (NoBody)"

section \<open>\<open>api/channels.ts\<close>\<close>

definition channelsApi_create :: "jsstring \<Rightarrow> json \<Rightarrow> http_request" where
  "channelsApi_create workspaceId input = request POST ''/workspaces/{wid}/channels/create'' [(js ''wid'', workspaceId)]
     (JsonBody input)"

definition channelsApi_list :: "jsstring \<Rightarrow> http_request" where
  "channelsApi_list workspaceId = request POST ''/workspaces/{wid}/channels/list'' [(js ''wid'', workspaceId)]
     (NoBody)"

definition channelsApi_createDM :: "jsstring \<Rightarrow> json \<Rightarrow> http_request" where
  "channelsApi_createDM workspaceId input = request POST ''/workspaces/{wid}/channels/dm'' [(js ''wid'', workspaceId)]
     (JsonBody input)"

definition channelsApi_update :: "jsstring \<Rightarrow> json \<Rightarrow> http_request" where
  "channelsApi_update channelId input = request POST ''/channels/{id}/update'' [(js ''id'', channelId)]
     (JsonBody input)"

definition channelsApi_archive :: "jsstring \<Rightarrow> http_request" where
  "channelsApi_archive channelId = request POST ''/channels/{id}/archive'' [(js ''id'', channelId)]
     (NoBody)"

definition channelsApi_addMember :: "jsstring \<Rightarrow> jsstring \<Rightarrow> channel_role option \<Rightarrow> http_request" where
  "channelsApi_addMember channelId userId role = request POST ''/channels/{id}/members/add'' [(js ''id'', channelId)]
     (JsonBody (obj [(''user_id'', Some (JStr userId)), (''role'', map_option (JStr \<circ> channel_role_name) role)]))"

definition channelsApi_listMembers :: "jsstring \<Rightarrow> http_request" where
  "channelsApi_listMembers channelId = request POST ''/channels/{id}/members/list'' [(js ''id'', channelId)]
     (NoBody)"

definition channelsApi_join :: "jsstring \<Rightarrow> http_request" where
  "channelsApi_join channelId = request POST ''/channels/{id}/join'' [(js ''id'', channelId)]
     (NoBody)"

definition channelsApi_leave :: "jsstring \<Rightarrow> http_request" where
  "channelsApi_leave channelId = request POST ''/channels/{id}/leave'' [(js ''id'', channelId)]
     (NoBody)"

definition channelsApi_markAsRead :: "jsstring \<Rightarrow> jsstring option \<Rightarrow> http_request" where
  "channelsApi_markAsRead channelId messageId = request POST ''/channels/{id}/mark-read'' [(js ''id'', channelId)]
     (JsonBody (if truthy messageId then obj [(''message_id'', map_option JStr messageId)] else JObj []))"

definition channelsApi_markAllAsRead :: "jsstring \<Rightarrow> http_request" where
  "channelsApi_markAllAsRead workspaceId = request POST ''/workspaces/{wid}/channels/mark-all-read'' [(js ''wid'', workspaceId)]
     (NoBody)"

definition channelsApi_getNotifications :: "jsstring \<Rightarrow> http_request" where
  "channelsApi_getNotifications channelId = request GET ''/channels/{id}/notifications'' [(js ''id'', channelId)]
     (NoBody)"

definition channelsApi_updateNotifications :: "jsstring \<Rightarrow> json \<Rightarrow> http_request" where
  "channelsApi_updateNotifications channelId preferences = request POST ''/channels/{id}/notifications'' [(js ''id'', channelId)]
     (JsonBody preferences)"

definition channelsApi_star :: "jsstring \<Rightarrow> http_request" where
  "channelsApi_star channelId = request POST ''/channels/{id}/star'' [(js ''id'', channelId)]
     (NoBody)"

definition channelsApi_unstar :: "jsstring \<Rightarrow> http_request" where
  "channelsApi_unstar channelId = request DELETE ''/channels/{id}/star'' [(js ''id'', channelId)]
     (NoBody)"

definition channelsApi_convertGroupDM :: "jsstring \<Rightarrow> json \<Rightarrow> http_request" where
  "channelsApi_convertGroupDM channelId input = request POST ''/channels/{id}/convert'' [(js ''id'', channelId)]
     (JsonBody input)"

section \<open>\<open>api/messages.ts\<close>\<close>

definition messagesApi_get :: "jsstring \<Rightarrow> http_request" where
  "messagesApi_get messageId = request GET ''/messages/{id}'' [(js ''id'', messageId)]
     (NoBody)"

definition messagesApi_send :: "jsstring \<Rightarrow> json \<Rightarrow> http_request" where
  "messagesApi_send channelId input = request POST ''/channels/{id}/messages/send'' [(js ''id'', channelId)]
     (JsonBody input)"

definition messagesApi_list :: "jsstring \<Rightarrow> json option \<Rightarrow> http_request" where
  "messagesApi_list channelId input = request POST ''/channels/{id}/messages/list'' [(js ''id'', channelId)]
     (JsonBody (case input of None \<Rightarrow> JObj [] | Some i \<Rightarrow> i))"

definition messagesApi_update :: "jsstring \<Rightarrow> jsstring \<Rightarrow> http_request" where
  "messagesApi_update messageId content = request POST ''/messages/{id}/update'' [(js ''id'', messageId)]
     (JsonBody (obj [(''content'', Some (JStr content))]))"

definition messagesApi_delete :: "jsstring \<Rightarrow> http_request" where
  "messagesApi_delete messageId = request POST ''/messages/{id}/delete'' [(js ''id'', messageId)]
     (NoBody)"

definition messagesApi_deleteLinkPreview :: "jsstring \<Rightarrow> http_request" where
  "messagesApi_deleteLinkPreview messageId = request POST ''/messages/{id}/link-preview/delete'' [(js ''id'', messageId)]
     (NoBody)"

definition messagesApi_addReaction :: "jsstring \<Rightarrow> jsstring \<Rightarrow> http_request" where
  "messagesApi_addReaction messageId emoji = request POST ''/messages/{id}/reactions/add'' [(js ''id'', messageId)]
     (JsonBody (obj [(''emoji'', Some (JStr emoji))]))"

definition messagesApi_removeReaction :: "jsstring \<Rightarrow> jsstring \<Rightarrow> http_request" where
  "messagesApi_removeReaction messageId emoji = request POST ''/messages/{id}/reactions/remove'' [(js ''id'', messageId)]
     (JsonBody (obj [(''emoji'', Some (JStr emoji))]))"

definition messagesApi_listThread :: "jsstring \<Rightarrow> json option \<Rightarrow> http_request" where
  "messagesApi_listThread messageId input = request POST ''/messages/{id}/thread/list'' [(js ''id'', messageId)]
     (JsonBody (case input of None \<Rightarrow> JObj [] | Some i \<Rightarrow> i))"

definition messagesApi_markUnread :: "jsstring \<Rightarrow> http_request" where
  "messagesApi_markUnread messageId = request POST ''/messages/{id}/mark-unread'' [(js ''id'', messageId)]
     (NoBody)"

definition messagesApi_getThreadSubscription :: "jsstring \<Rightarrow> http_request" where
  "messagesApi_getThreadSubscription messageId = request GET ''/messages/{id}/subscription'' [(js ''id'', messageId)]
     (NoBody)"

definition messagesApi_subscribeToThread :: "jsstring \<Rightarrow> http_request" where
  "messagesApi_subscribeToThread messageId = request POST ''/messages/{id}/subscribe'' [(js ''id'', messageId)]
     (NoBody)"

definition messagesApi_unsubscribeFromThread :: "jsstring \<Rightarrow> http_request" where
  "messagesApi_unsubscribeFromThread messageId = request POST ''/messages/{id}/unsubscribe'' [(js ''id'', messageId)]
     (NoBody)"

definition messagesApi_listUserThreads :: "jsstring \<Rightarrow> json option \<Rightarrow> http_request" where
  "messagesApi_listUserThreads workspaceId input = request POST ''/workspaces/{wid}/threads'' [(js ''wid'', workspaceId)]
     (JsonBody (case input of None \<Rightarrow> JObj [] | Some i \<Rightarrow> i))"

definition messagesApi_markThreadRead :: "jsstring \<Rightarrow> jsstring option \<Rightarrow> http_request" where
  "messagesApi_markThreadRead messageId lastReadReplyId = request POST ''/messages/{id}/thread/mark-read'' [(js ''id'', messageId)]
     (JsonBody (if truthy lastReadReplyId then obj [(''last_read_reply_id'', map_option JStr lastReadReplyId)] else JObj []))"

definition messagesApi_search :: "jsstring \<Rightarrow> json \<Rightarrow> http_request" where
  "messagesApi_search workspaceId input = request POST ''/workspaces/{wid}/messages/search'' [(js ''wid'', workspaceId)]
     (JsonBody input)"

section \<open>\<open>api/moderation.ts\<close>\<close>

definition moderationApi_pinMessage :: "jsstring \<Rightarrow> http_request" where
  "moderationApi_pinMessage messageId = request POST ''/messages/{id}/pin'' [(js ''id'', messageId)]
     (NoBody)"

definition moderationApi_unpinMessage :: "jsstring \<Rightarrow> http_request" where
  "moderationApi_unpinMessage messageId = request POST ''/messages/{id}/unpin'' [(js ''id'', messageId)]
     (NoBody)"

definition moderationApi_listPinnedMessages :: "jsstring \<Rightarrow> json option \<Rightarrow> http_request" where
  "moderationApi_listPinnedMessages channelId input = request POST ''/channels/{id}/pins/list'' [(js ''id'', channelId)]
     (JsonBody (case input of None \<Rightarrow> JObj [] | Some i \<Rightarrow> i))"

definition moderationApi_banUser :: "jsstring \<Rightarrow> json \<Rightarrow> http_request" where
  "moderationApi_banUser workspaceId input = request POST ''/workspaces/{wid}/bans/create'' [(js ''wid'', workspaceId)]
     (JsonBody input)"

definition moderationApi_unbanUser :: "jsstring \<Rightarrow> jsstring \<Rightarrow> http_request" where
  "moderationApi_unbanUser workspaceId userId = request POST ''/workspaces/{wid}/bans/remove'' [(js ''wid'', workspaceId)]
     (JsonBody (obj [(''user_id'', Some (JStr userId))]))"

definition moderationApi_listBans :: "jsstring \<Rightarrow> json option \<Rightarrow> http_request" where
  "moderationApi_listBans workspaceId input = request POST ''/workspaces/{wid}/bans/list'' [(js ''wid'', workspaceId)]
     (JsonBody (case input of None \<Rightarrow> JObj [] | Some i \<Rightarrow> i))"

definition moderationApi_blockUser :: "jsstring \<Rightarrow> jsstring \<Rightarrow> http_request" where
  "moderationApi_blockUser workspaceId userId = request POST ''/workspaces/{wid}/blocks/create'' [(js ''wid'', workspaceId)]
     (JsonBody (obj [(''user_id'', Some (JStr userId))]))"

definition moderationApi_unblockUser :: "jsstring \<Rightarrow> jsstring \<Rightarrow> http_request" where
  "moderationApi_unblockUser workspaceId userId = request POST ''/workspaces/{wid}/blocks/remove'' [(js ''wid'', workspaceId)]
     (JsonBody (obj [(''user_id'', Some (JStr userId))]))"

definition moderationApi_listBlocks :: "jsstring \<Rightarrow> http_request" where
  "moderationApi_listBlocks workspaceId = request GET ''/workspaces/{wid}/blocks/list'' [(js ''wid'', workspaceId)]
     (NoBody)"

definition moderationApi_listModerationLog :: "jsstring \<Rightarrow> json option \<Rightarrow> http_request" where
  "moderationApi_listModerationLog workspaceId input = request POST ''/workspaces/{wid}/moderation-log/list'' [(js ''wid'', workspaceId)]
     (JsonBody (case input of None \<Rightarrow> JObj [] | Some i \<Rightarrow> i))"

section \<open>\<open>api/files.ts\<close>\<close>

definition filesApi_upload :: "jsstring \<Rightarrow> jsstring \<Rightarrow> http_request" where
  "filesApi_upload channelId file = request POST ''/channels/{id}/files/upload'' [(js ''id'', channelId)]
     (FormBody [(js ''file'', FormFile file)])"

definition filesApi_signUrl :: "jsstring \<Rightarrow> http_request" where
  "filesApi_signUrl fileId = request POST ''/files/{id}/sign-url'' [(js ''id'', fileId)]
     (NoBody)"

definition filesApi_signUrls :: "jsstring list \<Rightarrow> http_request" where
  "filesApi_signUrls fileIds = request POST ''/files/sign-urls'' []
     (JsonBody (obj [(''file_ids'', Some (JArr (map JStr fileIds)))]))"

section \<open>\<open>api/emojis.ts\<close>\<close>

definition emojisApi_list :: "jsstring \<Rightarrow> http_request" where
  "emojisApi_list workspaceId = request POST ''/workspaces/{wid}/emojis/list'' [(js ''wid'', workspaceId)]
     (NoBody)"

definition emojisApi_upload :: "jsstring \<Rightarrow> jsstring \<Rightarrow> jsstring \<Rightarrow> http_request" where
  "emojisApi_upload workspaceId file name = request POST ''/workspaces/{wid}/emojis/upload'' [(js ''wid'', workspaceId)]
     (FormBody [(js ''file'', FormFile file), (js ''name'', FormText name)])"

definition emojisApi_delete :: "jsstring \<Rightarrow> http_request" where
  "emojisApi_delete emojiId = request POST ''/emojis/{id}/delete'' [(js ''id'', emojiId)]
     (NoBody)"

section \<open>\<open>api/scheduledMessages.ts\<close>\<close>

definition scheduledMessagesApi_schedule :: "jsstring \<Rightarrow> json \<Rightarrow> http_request" where
  "scheduledMessagesApi_schedule channelId input = request POST ''/channels/{id}/messages/schedule'' [(js ''id'', channelId)]
     (JsonBody input)"

definition scheduledMessagesApi_list :: "jsstring \<Rightarrow> http_request" where
  "scheduledMessagesApi_list workspaceId = request POST ''/workspaces/{wid}/scheduled-messages'' [(js ''wid'', workspaceId)]
     (NoBody)"

definition scheduledMessagesApi_get :: "jsstring \<Rightarrow> http_request" where
  "scheduledMessagesApi_get i = request POST ''/scheduled-messages/{id}'' [(js ''id'', i)]
     (NoBody)"

definition scheduledMessagesApi_update :: "jsstring \<Rightarrow> json \<Rightarrow> http_request" where
  "scheduledMessagesApi_update i input = request POST ''/scheduled-messages/{id}/update'' [(js ''id'', i)]
     (JsonBody input)"

definition scheduledMessagesApi_delete :: "jsstring \<Rightarrow> http_request" where
  "scheduledMessagesApi_delete i = request POST ''/scheduled-messages/{id}/delete'' [(js ''id'', i)]
     (NoBody)"

definition scheduledMessagesApi_sendNow :: "jsstring \<Rightarrow> http_request" where
  "scheduledMessagesApi_sendNow i = request POST ''/scheduled-messages/{id}/send-now'' [(js ''id'', i)]
     (NoBody)"

section \<open>\<open>api/users.ts\<close>\<close>

definition usersApi_getUser :: "jsstring \<Rightarrow> http_request" where
  "usersApi_getUser userId = request GET ''/users/{id}'' [(js ''id'', userId)]
     (NoBody)"

definition usersApi_updateProfile :: "json \<Rightarrow> http_request" where
  "usersApi_updateProfile input = request POST ''/users/me/profile'' []
     (JsonBody input)"

definition usersApi_uploadAvatar :: "jsstring \<Rightarrow> http_request" where
  "usersApi_uploadAvatar file = request POST ''/users/me/avatar'' []
     (FormBody [(js ''file'', FormFile file)])"

definition usersApi_deleteAvatar :: "http_request" where
  "usersApi_deleteAvatar = request DELETE ''/users/me/avatar'' []
     (NoBody)"

section \<open>The routes of the server\<close>

text \<open>The paths of the generated schema and the methods each has.\<close>

definition schema_paths_1 :: "(http_method \<times> string) list" where
  "schema_paths_1 = [
     (GET, ''/server-info''),
     (POST, ''/auth/register''),
     (POST, ''/auth/login''),
     (POST, ''/auth/logout''),
     (POST, ''/auth/forgot-password''),
     (POST, ''/auth/reset-password''),
     (POST, ''/auth/verify-email''),
     (POST, ''/auth/resend-verification''),
     (GET, ''/auth/me''),
     (POST, ''/auth/device-tokens''),
     (DELETE, ''/auth/device-tokens/{id}''),
     (POST, ''/workspaces/create''),
     (GET, ''/workspaces/{wid}''),
     (POST, ''/workspaces/{wid}/update''),
     (POST, ''/workspaces/{wid}/members/list''),
     (POST, ''/workspaces/{wid}/members/remove''),
     (POST, ''/workspaces/{wid}/leave''),
     (POST, ''/workspaces/{wid}/members/update-role''),
     (POST, ''/workspaces/{wid}/invites/create''),
     (GET, ''/workspaces/notifications''),
     (POST, ''/workspaces/reorder''),
     (POST, ''/invites/{code}/accept''),
     (POST, ''/workspaces/{wid}/channels/create''),
     (POST, ''/workspaces/{wid}/channels/list''),
     (POST, ''/workspaces/{wid}/channels/dm''),
     (POST, ''/channels/{id}/update''),
     (POST, ''/channels/{id}/convert''),
     (POST, ''/channels/{id}/archive''),
     (POST, ''/channels/{id}/members/add''),
     (POST, ''/channels/{id}/members/list'')]"

definition schema_paths_2 :: "(http_method \<times> string) list" where
  "schema_paths_2 = [
     (POST, ''/channels/{id}/join''),
     (POST, ''/channels/{id}/leave''),
     (POST, ''/channels/{id}/star''),
     (DELETE, ''/channels/{id}/star''),
     (POST, ''/channels/{id}/mark-read''),
     (GET, ''/channels/{id}/notifications''),
     (POST, ''/channels/{id}/notifications''),
     (POST, ''/workspaces/{wid}/channels/mark-all-read''),
     (POST, ''/workspaces/{wid}/unreads''),
     (POST, ''/workspaces/{wid}/messages/search''),
     (POST, ''/workspaces/{wid}/threads''),
     (GET, ''/messages/{id}''),
     (POST, ''/channels/{id}/messages/send''),
     (POST, ''/channels/{id}/messages/list''),
     (POST, ''/messages/{id}/update''),
     (POST, ''/messages/{id}/delete''),
     (POST, ''/messages/{id}/link-preview/delete''),
     (POST, ''/messages/{id}/reactions/add''),
     (POST, ''/messages/{id}/reactions/remove''),
     (POST, ''/messages/{id}/mark-unread''),
     (POST, ''/messages/{id}/thread/mark-read''),
     (POST, ''/messages/{id}/thread/list''),
     (GET, ''/messages/{id}/subscription''),
     (POST, ''/messages/{id}/subscribe''),
     (POST, ''/messages/{id}/unsubscribe''),
     (POST, ''/messages/{id}/pin''),
     (POST, ''/messages/{id}/unpin''),
     (POST, ''/channels/{id}/pins/list''),
     (POST, ''/channels/{id}/files/upload''),
     (GET, ''/files/{id}/download'')]"

definition schema_paths_3 :: "(http_method \<times> string) list" where
  "schema_paths_3 = [
     (POST, ''/files/{id}/sign-url''),
     (POST, ''/files/sign-urls''),
     (POST, ''/files/{id}/delete''),
     (POST, ''/workspaces/{wid}/emojis/upload''),
     (POST, ''/workspaces/{wid}/emojis/list''),
     (POST, ''/emojis/{id}/delete''),
     (POST, ''/channels/{id}/messages/schedule''),
     (POST, ''/workspaces/{wid}/scheduled-messages''),
     (POST, ''/scheduled-messages/{id}''),
     (POST, ''/scheduled-messages/{id}/update''),
     (POST, ''/scheduled-messages/{id}/delete''),
     (POST, ''/scheduled-messages/{id}/send-now''),
     (GET, ''/users/{id}''),
     (POST, ''/users/me/profile''),
     (POST, ''/users/me/avatar''),
     (DELETE, ''/users/me/avatar''),
     (POST, ''/workspaces/{wid}/icon''),
     (DELETE, ''/workspaces/{wid}/icon''),
     (POST, ''/workspaces/{wid}/bans/create''),
     (POST, ''/workspaces/{wid}/bans/remove''),
     (POST, ''/workspaces/{wid}/bans/list''),
     (POST, ''/workspaces/{wid}/blocks/create''),
     (POST, ''/workspaces/{wid}/blocks/remove''),
     (GET, ''/workspaces/{wid}/blocks/list''),
     (POST, ''/workspaces/{wid}/moderation-log/list''),
     (GET, ''/workspaces/{wid}/events''),
     (POST, ''/workspaces/{wid}/typing/start''),
     (POST, ''/workspaces/{wid}/typing/stop'')]"

definition schema_paths :: "(http_method \<times> jsstring) list" where
  "schema_paths = map (\<lambda>(m, p). (m, js p)) (schema_paths_1 @ schema_paths_2 @ schema_paths_3)"

section \<open>Every request the wrappers make\<close>

inductive api_request :: "http_request \<Rightarrow> bool" where
  "api_request serverApi_getServerInfo"
| "api_request (authApi_login input)"
| "api_request (authApi_register input)"
| "api_request authApi_logout"
| "api_request authApi_me"
| "api_request (authApi_forgotPassword email)"
| "api_request (authApi_resetPassword token new_password)"
| "api_request (authApi_verifyEmail token)"
| "api_request authApi_resendVerification"
| "api_request (authApi_registerDeviceToken input)"
| "api_request (authApi_unregisterDeviceToken i)"
| "api_request (workspacesApi_create input)"
| "api_request (workspacesApi_get workspaceId)"
| "api_request (workspacesApi_update workspaceId input)"
| "api_request (workspacesApi_listMembers workspaceId)"
| "api_request (workspacesApi_removeMember workspaceId userId)"
| "api_request (workspacesApi_updateMemberRole workspaceId userId role)"
| "api_request (workspacesApi_createInvite workspaceId input)"
| "api_request (workspacesApi_acceptInvite code)"
| "api_request (workspacesApi_startTyping workspaceId channelId)"
| "api_request (workspacesApi_stopTyping workspaceId channelId)"
| "api_request (workspacesApi_uploadIcon workspaceId file)"
| "api_request (workspacesApi_deleteIcon workspaceId)"
| "api_request (workspacesApi_reorder workspaceIds)"
| "api_request (workspacesApi_leave workspaceId)"
| "api_request workspacesApi_getNotifications"
| "api_request (channelsApi_create workspaceId input)"
| "api_request (channelsApi_list workspaceId)"
| "api_request (channelsApi_createDM workspaceId input)"
| "api_request (channelsApi_update channelId input)"
| "api_request (channelsApi_archive channelId)"
| "api_request (channelsApi_addMember channelId userId role)"
| "api_request (channelsApi_listMembers channelId)"
| "api_request (channelsApi_join channelId)"
| "api_request (channelsApi_leave channelId)"
| "api_request (channelsApi_markAsRead channelId messageId)"
| "api_request (channelsApi_markAllAsRead workspaceId)"
| "api_request (channelsApi_getNotifications channelId)"
| "api_request (channelsApi_updateNotifications channelId preferences)"
| "api_request (channelsApi_star channelId)"
| "api_request (channelsApi_unstar channelId)"
| "api_request (channelsApi_convertGroupDM channelId input)"
| "api_request (messagesApi_get messageId)"
| "api_request (messagesApi_send channelId input)"
| "api_request (messagesApi_list channelId input)"
| "api_request (messagesApi_update messageId content)"
| "api_request (messagesApi_delete messageId)"
| "api_request (messagesApi_deleteLinkPreview messageId)"
| "api_request (messagesApi_addReaction messageId emoji)"
| "api_request (messagesApi_removeReaction messageId emoji)"
| "api_request (messagesApi_listThread messageId input)"
| "api_request (messagesApi_markUnread messageId)"
| "api_request (messagesApi_getThreadSubscription messageId)"
| "api_request (messagesApi_subscribeToThread messageId)"
| "api_request (messagesApi_unsubscribeFromThread messageId)"
| "api_request (messagesApi_listUserThreads workspaceId input)"
| "api_request (messagesApi_markThreadRead messageId lastReadReplyId)"
| "api_request (messagesApi_search workspaceId input)"
| "api_request (moderationApi_pinMessage messageId)"
| "api_request (moderationApi_unpinMessage messageId)"
| "api_request (moderationApi_listPinnedMessages channelId input)"
| "api_request (moderationApi_banUser workspaceId input)"
| "api_request (moderationApi_unbanUser workspaceId userId)"
| "api_request (moderationApi_listBans workspaceId input)"
| "api_request (moderationApi_blockUser workspaceId userId)"
| "api_request (moderationApi_unblockUser workspaceId userId)"
| "api_request (moderationApi_listBlocks workspaceId)"
| "api_request (moderationApi_listModerationLog workspaceId input)"
| "api_request (filesApi_upload channelId file)"
| "api_request (filesApi_signUrl fileId)"
| "api_request (filesApi_signUrls fileIds)"
| "api_request (emojisApi_list workspaceId)"
| "api_request (emojisApi_upload workspaceId file name)"
| "api_request (emojisApi_delete emojiId)"
| "api_request (scheduledMessagesApi_schedule channelId input)"
| "api_request (scheduledMessagesApi_list workspaceId)"
| "api_request (scheduledMessagesApi_get i)"
| "api_request (scheduledMessagesApi_update i input)"
| "api_request (scheduledMessagesApi_delete i)"
| "api_request (scheduledMessagesApi_sendNow i)"
| "api_request (usersApi_getUser userId)"
| "api_request (usersApi_updateProfile input)"
| "api_request (usersApi_uploadAvatar file)"
| "api_request usersApi_deleteAvatar"

text \<open>The names in braces of a path template, in order.\<close>

fun placeholders :: "jsstring \<Rightarrow> jsstring list" where
  "placeholders [] = []"
| "placeholders (c # s) =
     (if c = ch (CHR ''{'') then takeWhile (\<lambda>d. d \<noteq> ch (CHR ''}'')) s # placeholders s else placeholders s)"

lemmas api_defs = request_def
  serverApi_getServerInfo_def authApi_login_def authApi_register_def authApi_logout_def
  authApi_me_def authApi_forgotPassword_def authApi_resetPassword_def authApi_verifyEmail_def
  authApi_resendVerification_def authApi_registerDeviceToken_def authApi_unregisterDeviceToken_def workspacesApi_create_def
  workspacesApi_get_def workspacesApi_update_def workspacesApi_listMembers_def workspacesApi_removeMember_def
  workspacesApi_updateMemberRole_def workspacesApi_createInvite_def workspacesApi_acceptInvite_def workspacesApi_startTyping_def
  workspacesApi_stopTyping_def workspacesApi_uploadIcon_def workspacesApi_deleteIcon_def workspacesApi_reorder_def
  workspacesApi_leave_def workspacesApi_getNotifications_def channelsApi_create_def channelsApi_list_def
  channelsApi_createDM_def channelsApi_update_def channelsApi_archive_def channelsApi_addMember_def
  channelsApi_listMembers_def channelsApi_join_def channelsApi_leave_def channelsApi_markAsRead_def
  channelsApi_markAllAsRead_def channelsApi_getNotifications_def channelsApi_updateNotifications_def channelsApi_star_def
  channelsApi_unstar_def channelsApi_convertGroupDM_def messagesApi_get_def messagesApi_send_def
  messagesApi_list_def messagesApi_update_def messagesApi_delete_def messagesApi_deleteLinkPreview_def
  messagesApi_addReaction_def messagesApi_removeReaction_def messagesApi_listThread_def messagesApi_markUnread_def
  messagesApi_getThreadSubscription_def messagesApi_subscribeToThread_def messagesApi_unsubscribeFromThread_def messagesApi_listUserThreads_def
  messagesApi_markThreadRead_def messagesApi_search_def moderationApi_pinMessage_def moderationApi_unpinMessage_def
  moderationApi_listPinnedMessages_def moderationApi_banUser_def moderationApi_unbanUser_def moderationApi_listBans_def
  moderationApi_blockUser_def moderationApi_unblockUser_def moderationApi_listBlocks_def moderationApi_listModerationLog_def
  filesApi_upload_def filesApi_signUrl_def filesApi_signUrls_def emojisApi_list_def
  emojisApi_upload_def emojisApi_delete_def scheduledMessagesApi_schedule_def scheduledMessagesApi_list_def
  scheduledMessagesApi_get_def scheduledMessagesApi_update_def scheduledMessagesApi_delete_def scheduledMessagesApi_sendNow_def
  usersApi_getUser_def usersApi_updateProfile_def usersApi_uploadAvatar_def usersApi_deleteAvatar_def

section \<open>Properties\<close>

lemma declaredI:
  assumes "(m, p) \<in> set (schema_paths_1 @ schema_paths_2 @ schema_paths_3)"
  shows "(rq_method \<lparr>rq_method = m, rq_path = js p, rq_params = ps, rq_body = b\<rparr>,
    rq_path \<lparr>rq_method = m, rq_path = js p, rq_params = ps, rq_body = b\<rparr>) \<in> set schema_paths"
  using assms by (force simp: schema_paths_def)

lemmas declared_listed = declaredI [unfolded schema_paths_1_def schema_paths_2_def schema_paths_3_def append.simps]

lemma paths_filled: "api_request r \<Longrightarrow> placeholders (rq_path r) = map fst (rq_params r)"
  by (induction rule: api_request.induct) (simp_all add: api_defs js_eval)

lemma paths_declared: "api_request r \<Longrightarrow> (rq_method r, rq_path r) \<in> set schema_paths"
  by (induction rule: api_request.induct; unfold api_defs; rule declared_listed; (rule list.set_intros)+)

lemma bodies_posted: "api_request r \<Longrightarrow> rq_method r \<noteq> POST \<Longrightarrow> rq_body r = NoBody"
  by (induction rule: api_request.induct) (simp_all add: api_defs)

text \<open>Every request of the API wrappers fills its path: the parameters it passes are exactly the
  placeholders of the template, in order. Its method and path are a route of the server's schema, and
  only a POST has a body.\<close>

theorem requests_fit_schema:
  assumes "api_request r"
  shows "placeholders (rq_path r) = map fst (rq_params r) \<and> (rq_method r, rq_path r) \<in> set schema_paths \<and>
    (rq_method r \<noteq> POST \<longrightarrow> rq_body r = NoBody)"
  using assms
  by (blast intro: paths_filled paths_declared bodies_posted)

theorem requests_fit_schema_witness:
  "placeholders (rq_path (channelsApi_star (js ''c''))) = [js ''id'']"
proof -
  have "api_request (channelsApi_star (js ''c''))" by (rule api_request.intros)
  from requests_fit_schema [OF this] show ?thesis by (simp add: channelsApi_star_def request_def)
qed

end
