(* ===== verification/ApiClient.thy ===== *)
theory ApiClient
  imports ApiRequests QueryClient Machines
begin

text \<open>
  The API client (\<open>packages/api-client/src/client.ts\<close>): its module state (base URL, token,
  storage backend), the error conversion \<open>throwIfError\<close>, and the users of the token:
  \<open>packages/shared/src/hooks/useAuth.ts\<close>, the storage the web app plugs in
  (\<open>apps/web/src/hooks/useAuth.ts\<close>) and the one of the mobile app
  (\<open>apps/mobile/src/lib/bootstrap.ts\<close>, \<open>serverStorage.ts\<close>).

  The locale \<open>token_storage\<close> is the interface \<open>TokenStorage\<close> with what the client expects of
  it; it is interpreted on both backends. \<open>localStorage\<close> and Expo's \<open>SecureStore\<close> are maps
  from strings to strings. The invariant \<open>api_ok\<close> says that the token in memory and the stored
  one authenticate alike.
\<close>

section \<open>The storage of the token\<close>

record 's token_backend =
  tb_get :: "'s \<Rightarrow> jsstring option"
  tb_set :: "jsstring \<Rightarrow> 's \<Rightarrow> 's"
  tb_remove :: "'s \<Rightarrow> 's"

locale token_storage =
  fixes backend :: "'s token_backend"
  assumes get_after_set: "tb_get backend (tb_set backend token s) = Some token"
    and get_after_remove: "tb_get backend (tb_remove backend s) = None"

definition TOKEN_KEY :: jsstring where
  "TOKEN_KEY = js ''enzyme_auth_token''"

definition web_backend :: "(jsstring \<rightharpoonup> jsstring) token_backend" where
  "web_backend = \<lparr>
     tb_get = (\<lambda>localStorage. localStorage TOKEN_KEY),
     tb_set = (\<lambda>token localStorage. localStorage(TOKEN_KEY \<mapsto> token)),
     tb_remove = (\<lambda>localStorage. localStorage(TOKEN_KEY := None))\<rparr>"

text \<open>
  On mobile the token is cached in memory and written to the secure store in the background:
  the writes queue up (\<open>Some t\<close> to store \<open>t\<close>, \<open>None\<close> to delete), and each may fail.
\<close>

record mobile_storage =
  mb_cachedToken :: "jsstring option"
  mb_secure :: "jsstring \<rightharpoonup> jsstring"
  mb_writes :: "jsstring option list"

definition mobile_backend :: "mobile_storage token_backend" where
  "mobile_backend = \<lparr>
     tb_get = mb_cachedToken,
     tb_set = (\<lambda>token s. s\<lparr>mb_cachedToken := Some token, mb_writes := mb_writes s @ [Some token]\<rparr>),
     tb_remove = (\<lambda>s. s\<lparr>mb_cachedToken := None, mb_writes := mb_writes s @ [None]\<rparr>)\<rparr>"

definition writeDone :: "bool \<Rightarrow> mobile_storage \<Rightarrow> mobile_storage" where
  "writeDone success s =
     (case mb_writes s of
        [] \<Rightarrow> s
      | w # ws \<Rightarrow> s\<lparr>mb_secure := (if success then (mb_secure s)(TOKEN_KEY := w) else mb_secure s),
          mb_writes := ws\<rparr>)"

interpretation web_tokens: token_storage web_backend
  by unfold_locales (simp_all add: web_backend_def)

interpretation mobile_tokens: token_storage mobile_backend
  by unfold_locales (simp_all add: mobile_backend_def)

section \<open>The client\<close>

record 's api_client =
  ac_apiBase :: jsstring
  ac_configured :: bool
  ac_authToken :: "jsstring option"
  ac_storage :: 's

datatype client_error = StorageAlreadyConfigured

definition new_api_client :: "'s \<Rightarrow> 's api_client" where
  "new_api_client storage =
     \<lparr>ac_apiBase = js ''/api'', ac_configured = False, ac_authToken = None, ac_storage = storage\<rparr>"

definition setApiBase :: "jsstring \<Rightarrow> 's api_client \<Rightarrow> 's api_client" where
  "setApiBase url s = s\<lparr>ac_apiBase := url\<rparr>"

definition setTokenStorage :: "'s token_backend \<Rightarrow> 's api_client \<Rightarrow> client_error + 's api_client" where
  "setTokenStorage backend s =
     (if ac_configured s then Inl StorageAlreadyConfigured
      else Inr (s\<lparr>ac_configured := True, ac_authToken := tb_get backend (ac_storage s)\<rparr>))"

definition setAuthToken :: "'s token_backend \<Rightarrow> jsstring option \<Rightarrow> 's api_client \<Rightarrow> 's api_client" where
  "setAuthToken backend token s =
     (let s1 = s\<lparr>ac_authToken := token\<rparr>
      in if ac_configured s
         then s1\<lparr>ac_storage := (case token of
             None \<Rightarrow> tb_remove backend (ac_storage s)
           | Some t \<Rightarrow> if t \<noteq> [] then tb_set backend t (ac_storage s)
               else tb_remove backend (ac_storage s))\<rparr>
         else s1)"

definition bearer :: "jsstring option \<Rightarrow> (jsstring \<times> jsstring) list" where
  "bearer token =
     (case token of
        None \<Rightarrow> []
      | Some t \<Rightarrow> if t = [] then [] else [(js ''Authorization'', js ''Bearer '' @ t)])"

text \<open>\<open>authHeaders()\<close>, and the headers after the middleware: \<open>Headers.set\<close> replaces.\<close>

definition authHeaders :: "'s api_client \<Rightarrow> (jsstring \<times> jsstring) list" where
  "authHeaders s = bearer (ac_authToken s)"

definition onRequest :: "'s api_client \<Rightarrow> (jsstring \<times> jsstring) list \<Rightarrow> (jsstring \<times> jsstring) list" where
  "onRequest s headers =
     (case ac_authToken s of
        None \<Rightarrow> headers
      | Some t \<Rightarrow> if t = [] then headers
          else AList.update (js ''Authorization'') (js ''Bearer '' @ t) headers)"

section \<open>Errors\<close>

record api_error =
  err_code :: json
  err_message :: json
  err_status :: int

fun json_truthy :: "json \<Rightarrow> bool" where
  "json_truthy JNull = False"
| "json_truthy (JBool b) = b"
| "json_truthy (JNum n) = (n \<noteq> 0)"
| "json_truthy (JStr s) = (s \<noteq> [])"
| "json_truthy (JArr _) = True"
| "json_truthy (JObj _) = True"

text \<open>Reading a property: \<open>o?.k\<close>; on anything but an object it is \<open>undefined\<close>.\<close>

fun json_get :: "string \<Rightarrow> json option \<Rightarrow> json option" where
  "json_get k (Some (JObj ps)) = map_of (rev ps) (js k)"
| "json_get k _ = None"

definition json_or :: "json option \<Rightarrow> json \<Rightarrow> json" where
  "json_or v d = (case v of Some j \<Rightarrow> if json_truthy j then j else d | None \<Rightarrow> d)"

definition throwIfError :: "json option \<Rightarrow> json option \<Rightarrow> int \<Rightarrow> api_error + json" where
  "throwIfError data error status =
     (case error of
        Some e \<Rightarrow>
          if json_truthy e then
            (let body = json_get ''error'' (Some e)
             in Inl \<lparr>err_code = json_or (json_get ''code'' body) (JStr (js ''UNKNOWN_ERROR'')),
                     err_message = json_or (json_get ''message'' body) (JStr (js ''An unknown error occurred'')),
                     err_status = status\<rparr>)
          else (case data of None \<Rightarrow> Inl \<lparr>err_code = JStr (js ''EMPTY_RESPONSE''),
                  err_message = JStr (js ''No data returned''), err_status = status\<rparr> | Some d \<Rightarrow> Inr d)
      | None \<Rightarrow>
          (case data of None \<Rightarrow> Inl \<lparr>err_code = JStr (js ''EMPTY_RESPONSE''),
                  err_message = JStr (js ''No data returned''), err_status = status\<rparr> | Some d \<Rightarrow> Inr d))"

text \<open>\<open>apps/mobile/src/lib/getErrorMessage.ts\<close>: an error that is no \<open>ApiError\<close> is \<open>None\<close>.\<close>

definition getErrorMessage :: "api_error option \<Rightarrow> json" where
  "getErrorMessage error =
     (case error of Some e \<Rightarrow> err_message e | None \<Rightarrow> JStr (js ''An unexpected error occurred''))"

section \<open>Signing in and out\<close>

record ('s, 'qc) auth_state =
  au_api :: "'s api_client"
  au_client :: 'qc

definition isAuthError :: "api_error option \<Rightarrow> bool" where
  "isAuthError error = (case error of Some e \<Rightarrow> err_status e = 401 | None \<Rightarrow> False)"

definition authEffect ::
    "'s token_backend \<Rightarrow> api_error option \<Rightarrow> ('s, 'qc) auth_state \<Rightarrow> ('s, 'qc) auth_state" where
  "authEffect backend error s =
     (if isAuthError error then s\<lparr>au_api := setAuthToken backend None (au_api s)\<rparr> else s)"

definition login_onSuccess ::
    "'s token_backend \<Rightarrow> 'qc query_ops \<Rightarrow> jsstring \<Rightarrow> ('s, 'qc) auth_state \<Rightarrow> ('s, 'qc) auth_state" where
  "login_onSuccess backend ops token s =
     s\<lparr>au_api := setAuthToken backend (Some token) (au_api s),
       au_client := invalidateQueries ops (au_client s) authKeys_me\<rparr>"

definition register_onSuccess ::
    "'s token_backend \<Rightarrow> 'qc query_ops \<Rightarrow> jsstring \<Rightarrow> ('s, 'qc) auth_state \<Rightarrow> ('s, 'qc) auth_state" where
  "register_onSuccess backend ops token s =
     s\<lparr>au_api := setAuthToken backend (Some token) (au_api s),
       au_client := invalidateQueries ops (au_client s) authKeys_me\<rparr>"

definition logout_onSuccess ::
    "'s token_backend \<Rightarrow> 'qc query_ops \<Rightarrow> ('s, 'qc) auth_state \<Rightarrow> ('s, 'qc) auth_state" where
  "logout_onSuccess backend ops s =
     s\<lparr>au_api := setAuthToken backend None (au_api s), au_client := clearQueries ops (au_client s)\<rparr>"

record auth_view =
  av_user :: "user option"
  av_workspaces :: "workspace_summary list option"
  av_isLoading :: bool
  av_isAuthenticated :: bool
  av_error :: "api_error option"

text \<open>What the hook returns for the state of its query, which runs while there is a token
  (\<open>meQuery\<close> in \<open>QueryHooks\<close>).\<close>

definition useAuth :: "'s api_client \<Rightarrow> me_response option \<Rightarrow> api_error option \<Rightarrow> bool \<Rightarrow> auth_view" where
  "useAuth s data error isFetched =
     \<lparr>av_user = (case data of None \<Rightarrow> None | Some d \<Rightarrow> me_user d),
      av_workspaces = (case data of None \<Rightarrow> None | Some d \<Rightarrow> me_workspaces d),
      av_isLoading = (\<not> isFetched \<and> truthy (ac_authToken s)),
      av_isAuthenticated = (case data of None \<Rightarrow> False | Some d \<Rightarrow> me_user d \<noteq> None),
      av_error = (if isAuthError error then None else error)\<rparr>"

section \<open>Starting an app\<close>

definition web_start :: "(jsstring \<rightharpoonup> jsstring) \<Rightarrow> client_error + (jsstring \<rightharpoonup> jsstring) api_client" where
  "web_start localStorage = setTokenStorage web_backend (new_api_client localStorage)"

definition SERVER_URL_KEY :: jsstring where
  "SERVER_URL_KEY = js ''enzyme_server_url''"

definition saveServerUrl :: "jsstring \<Rightarrow> mobile_storage api_client \<Rightarrow> mobile_storage api_client" where
  "saveServerUrl url s =
     setApiBase url (s\<lparr>ac_storage := (ac_storage s)\<lparr>mb_secure := (mb_secure (ac_storage s))(SERVER_URL_KEY \<mapsto> url)\<rparr>\<rparr>)"

definition bootstrap :: "(jsstring \<rightharpoonup> jsstring) \<Rightarrow> client_error + mobile_storage api_client" where
  "bootstrap secure =
     (let s0 = new_api_client \<lparr>mb_cachedToken = None, mb_secure = secure, mb_writes = []\<rparr>;
          s1 = (case secure SERVER_URL_KEY of
                  Some savedUrl \<Rightarrow> if savedUrl \<noteq> [] then setApiBase savedUrl s0 else s0
                | None \<Rightarrow> s0);
          s2 = s1\<lparr>ac_storage := (ac_storage s1)\<lparr>mb_cachedToken := secure TOKEN_KEY\<rparr>\<rparr>;
          s3 = (if truthy (secure TOKEN_KEY) then setAuthToken mobile_backend (secure TOKEN_KEY) s2 else s2)
      in setTokenStorage mobile_backend s3)"

section \<open>The token in memory and the token stored\<close>

inductive auth_step ::
    "'s token_backend \<Rightarrow> 'qc query_ops \<Rightarrow> ('s, 'qc) auth_state \<Rightarrow> ('s, 'qc) auth_state \<Rightarrow> bool"
  for backend ops where
  signed_in: "auth_step backend ops s (login_onSuccess backend ops token s)"
| registered: "auth_step backend ops s (register_onSuccess backend ops token s)"
| signed_out: "auth_step backend ops s (logout_onSuccess backend ops s)"
| answered: "auth_step backend ops s (authEffect backend error s)"

text \<open>On mobile, the writes of the secure store finish in between.\<close>

inductive mobile_auth_step ::
    "'qc query_ops \<Rightarrow> (mobile_storage, 'qc) auth_state \<Rightarrow> (mobile_storage, 'qc) auth_state \<Rightarrow> bool" for ops where
  acted: "auth_step mobile_backend ops s t \<Longrightarrow> mobile_auth_step ops s t"
| written: "mobile_auth_step ops s (s\<lparr>au_api := (au_api s)\<lparr>ac_storage := writeDone True (ac_storage (au_api s))\<rparr>\<rparr>)"

definition api_ok :: "'s token_backend \<Rightarrow> 's api_client \<Rightarrow> bool" where
  "api_ok backend s \<longleftrightarrow> ac_configured s \<and> bearer (tb_get backend (ac_storage s)) = bearer (ac_authToken s)"

lemma bearer_simps [simp]: "bearer None = []" "bearer (Some []) = []"
  by (simp_all add: bearer_def)

lemma api_ok_start: "setTokenStorage backend s = Inr s' \<Longrightarrow> api_ok backend s'"
  by (auto simp: setTokenStorage_def api_ok_def split: if_splits)

context token_storage begin

lemma api_ok_setAuthToken: "api_ok backend s \<Longrightarrow> api_ok backend (setAuthToken backend token s)"
  by (cases token) (auto simp: api_ok_def setAuthToken_def Let_def get_after_set get_after_remove)

lemma auth_step_ok: "auth_step backend ops s t \<Longrightarrow> api_ok backend (au_api s) \<Longrightarrow> api_ok backend (au_api t)"
  by (induction rule: auth_step.induct)
    (auto simp: login_onSuccess_def register_onSuccess_def logout_onSuccess_def authEffect_def
      intro: api_ok_setAuthToken)

text \<open>Signing out leaves no token, in memory or stored.\<close>

lemma logout_token:
  "api_ok backend (au_api s) \<Longrightarrow> ac_authToken (au_api (logout_onSuccess backend ops s)) = None \<and>
     tb_get backend (ac_storage (au_api (logout_onSuccess backend ops s))) = None"
  by (simp add: logout_onSuccess_def setAuthToken_def Let_def api_ok_def get_after_remove)

end

sublocale token_storage \<subseteq> sessions: machine "auth_step backend ops"
    "\<lambda>s. api_ok backend (au_api s)" "\<lambda>s. api_ok backend (au_api s)" for ops
  by unfold_locales (assumption, rule auth_step_ok)

context token_storage begin

lemmas token_always = sessions.always

end

text \<open>What the secure store holds of the token once the writes are done.\<close>

definition stored :: "mobile_storage \<Rightarrow> jsstring option" where
  "stored s = (if mb_writes s = [] then mb_secure s TOKEN_KEY else last (mb_writes s))"

definition mobile_api_ok :: "mobile_storage api_client \<Rightarrow> bool" where
  "mobile_api_ok s \<longleftrightarrow> api_ok mobile_backend s \<and>
     bearer (stored (ac_storage s)) = bearer (mb_cachedToken (ac_storage s))"

lemma mobile_ok_setAuthToken: "mobile_api_ok s \<Longrightarrow> mobile_api_ok (setAuthToken mobile_backend token s)"
  using mobile_tokens.api_ok_setAuthToken [of s token]
  by (cases token) (auto simp: mobile_api_ok_def setAuthToken_def stored_def mobile_backend_def api_ok_def Let_def)

lemma stored_writeDone: "stored (writeDone True s) = stored s \<and> mb_cachedToken (writeDone True s) = mb_cachedToken s"
  by (cases "mb_writes s") (auto simp: stored_def writeDone_def)

lemma mobile_auth_step_ok: "mobile_auth_step ops s t \<Longrightarrow> mobile_api_ok (au_api s) \<Longrightarrow> mobile_api_ok (au_api t)"
proof (induction rule: mobile_auth_step.induct)
  case (acted s t)
  then show ?case
    by (induction rule: auth_step.induct)
      (auto simp: login_onSuccess_def register_onSuccess_def logout_onSuccess_def authEffect_def
        intro: mobile_ok_setAuthToken)
next
  case (written s)
  then show ?case
    by (simp add: mobile_api_ok_def api_ok_def stored_writeDone mobile_backend_def)
qed

interpretation mobile_sessions: machine "mobile_auth_step ops" "\<lambda>s. mobile_api_ok (au_api s)"
    "\<lambda>s. mobile_api_ok (au_api s)" for ops
  by unfold_locales (assumption, rule mobile_auth_step_ok)

lemma web_start_headers: "\<exists>s'. web_start st = Inr s' \<and> authHeaders s' = bearer (tb_get web_backend st)"
  by (simp add: web_start_def setTokenStorage_def new_api_client_def authHeaders_def)

lemma bootstrap_headers: "\<exists>s'. bootstrap secure = Inr s' \<and> authHeaders s' = bearer (secure TOKEN_KEY) \<and> mobile_api_ok s'"
  by (cases "secure SERVER_URL_KEY"; cases "secure TOKEN_KEY")
    (auto simp: bootstrap_def new_api_client_def setApiBase_def setAuthToken_def setTokenStorage_def
      mobile_backend_def Let_def authHeaders_def mobile_api_ok_def api_ok_def stored_def)

section \<open>Properties\<close>

text \<open>C17: After any sequence of sign-ins, registrations, sign-outs and 401 answers, an app that is started
  again on what its storage then holds sends the same authentication headers: on the web at any
  moment, on mobile once the background writes are done.\<close>

theorem session_survives_restart:
  assumes "reachable (auth_step web_backend ops) (\<lambda>s. web_start st = Inr (au_api s)) s"
    and "reachable (mobile_auth_step ops) (\<lambda>s. bootstrap secure = Inr (au_api s)) t"
    and "mb_writes (ac_storage (au_api t)) = []"
  shows "(\<exists>s'. web_start (ac_storage (au_api s)) = Inr s' \<and> authHeaders s' = authHeaders (au_api s)) \<and>
    (\<exists>t'. bootstrap (mb_secure (ac_storage (au_api t))) = Inr t' \<and> authHeaders t' = authHeaders (au_api t))"
proof -
  have "reachable (auth_step web_backend ops) (\<lambda>s. api_ok web_backend (au_api s)) s"
    using assms(1) by (auto simp: reachable_def web_start_def dest: api_ok_start)
  from web_tokens.token_always [OF this]
  have "bearer (tb_get web_backend (ac_storage (au_api s))) = authHeaders (au_api s)"
    by (simp add: api_ok_def authHeaders_def)
  moreover have "reachable (mobile_auth_step ops) (\<lambda>s. mobile_api_ok (au_api s)) t"
    using assms(2) bootstrap_headers [of secure] by (auto simp: reachable_def)
  from mobile_sessions.always [OF this] assms(3)
  have "bearer (mb_secure (ac_storage (au_api t)) TOKEN_KEY) = authHeaders (au_api t)"
    by (simp add: mobile_api_ok_def api_ok_def stored_def authHeaders_def mobile_backend_def)
  ultimately show ?thesis
    using web_start_headers [of "ac_storage (au_api s)"]
      bootstrap_headers [of "mb_secure (ac_storage (au_api t))"] by auto
qed


text \<open>A call returns data exactly when the answer has no error and has data; every failure carries the
  status of the answer and a code that is never empty.\<close>

theorem api_errors:
  "(throwIfError data error status = Inr d \<longleftrightarrow>
      data = Some d \<and> (case error of None \<Rightarrow> True | Some e \<Rightarrow> \<not> json_truthy e)) \<and>
   (throwIfError data error status = Inl e \<longrightarrow> err_status e = status \<and> json_truthy (err_code e))"
  by (auto simp: throwIfError_def json_or_def Let_def split: option.splits if_splits)

theorem session_survives_restart_witness:
  "\<exists>(s :: (jsstring \<rightharpoonup> jsstring, query_store) auth_state) (t :: (mobile_storage, query_store) auth_state).
     (\<exists>s'. web_start (ac_storage (au_api s)) = Inr s' \<and>
        authHeaders s' = [(js ''Authorization'', js ''Bearer abc'')]) \<and>
     (\<exists>t'. bootstrap (mb_secure (ac_storage (au_api t))) = Inr t' \<and> authHeaders t' = [])"
proof -
  obtain s0 where s0: "web_start (\<lambda>_. None) = Inr s0" using web_start_headers by blast
  let ?s = "\<lparr>au_api = s0, au_client = empty_store\<rparr>"
  let ?t = "login_onSuccess web_backend store_ops (js ''abc'') ?s"
  have "reachable (auth_step web_backend store_ops) (\<lambda>s. web_start (\<lambda>_. None) = Inr (au_api s)) ?s"
    by (rule reachable_start) (simp add: s0)
  then have web: "reachable (auth_step web_backend store_ops) (\<lambda>s. web_start (\<lambda>_. None) = Inr (au_api s)) ?t"
    by (rule reachable_step) (rule auth_step.signed_in)
  obtain t0 where t0: "bootstrap (\<lambda>_. None) = Inr t0" "authHeaders t0 = []"
    using bootstrap_headers [of "\<lambda>_. None"] by auto
  let ?m = "\<lparr>au_api = t0, au_client = empty_store\<rparr>"
  have mobile: "reachable (mobile_auth_step store_ops) (\<lambda>s. bootstrap (\<lambda>_. None) = Inr (au_api s)) ?m"
    by (rule reachable_start) (simp add: t0)
  have "mb_writes (ac_storage (au_api ?m)) = []"
    using t0(1) by (auto simp: bootstrap_def new_api_client_def setTokenStorage_def Let_def split: if_splits)
  note restart = session_survives_restart [OF web mobile this]
  have "authHeaders (au_api ?t) = [(js ''Authorization'', js ''Bearer abc'')]"
    by (simp add: authHeaders_def login_onSuccess_def setAuthToken_def Let_def bearer_def js_append [symmetric])
  with restart t0(2) show ?thesis
    by - (rule exI [of _ ?t], rule exI [of _ ?m], simp)
qed


theorem api_errors_witness:
  "throwIfError (Some (JNum 1)) None 200 = Inr (JNum 1) \<and>
   (\<exists>e. throwIfError None (Some (JObj [])) 403 = Inl e \<and> err_status e = 403 \<and> json_truthy (err_code e))"
proof -
  obtain e where e: "throwIfError None (Some (JObj [])) 403 = Inl e"
    by (simp add: throwIfError_def)
  with api_errors [of None "Some (JObj [])" 403 JNull e] api_errors [of "Some (JNum 1)" None 200 "JNum 1"]
  show ?thesis by simp
qed

end
