(* ===== verification/QueryHooks.thy ===== *)
theory QueryHooks
  imports ApiClient MessageMutations
begin

text \<open>
  The query hooks of \<open>packages/shared/src/hooks/\<close> and \<open>apps/web/src/hooks/\<close>: for each the
  key of its cache entry, the request its query function makes for a page parameter, when it is
  enabled, and its refetch times in milliseconds. A hook that is not paginated ignores the page
  parameter.

  An id may still be \<open>undefined\<close> when a component renders first. The key then holds
  \<open>undefined\<close> in its place (\<open>keyOf\<close>), and the hook is disabled: its query function, which
  would use the missing id (\<open>bang\<close>), is not called.
\<close>

datatype stale_time = DefaultStale | StaleAfter int | NeverStale

record query_hook =
  qh_key :: query_key
  qh_fetch :: "any_page_param \<Rightarrow> http_request"
  qh_enabled :: bool
  qh_staleTime :: stale_time
  qh_refetchInterval :: "int option"

text \<open>\<open>w!\<close>\<close>

definition bang :: "jsstring option \<Rightarrow> jsstring" where
  "bang w = (case w of Some s \<Rightarrow> s | None \<Rightarrow> [])"

text \<open>A key factory applied to an id that may be missing; no constant part of a key is empty.\<close>

definition keyOf :: "(jsstring \<Rightarrow> query_key) \<Rightarrow> jsstring option \<Rightarrow> query_key" where
  "keyOf f w = (case w of Some s \<Rightarrow> f s
     | None \<Rightarrow> map (\<lambda>part. if part = KStr [] then KUndef else part) (f []))"

text \<open>A query with the given key and request, enabled by a present id.\<close>

definition plainQuery ::
    "(jsstring \<Rightarrow> query_key) \<Rightarrow> (jsstring \<Rightarrow> http_request) \<Rightarrow> jsstring option \<Rightarrow> query_hook" where
  "plainQuery key fetch w =
     \<lparr>qh_key = keyOf key w, qh_fetch = (\<lambda>_. fetch (bang w)), qh_enabled = truthy w,
      qh_staleTime = DefaultStale, qh_refetchInterval = None\<rparr>"

fun pageCursor :: "any_page_param \<Rightarrow> jsstring option" where
  "pageCursor (CursorParam c) = c"
| "pageCursor (DirectedParam p) = pp_cursor p"

fun directionName :: "page_direction \<Rightarrow> jsstring" where
  "directionName Before = js ''before''"
| "directionName After = js ''after''"
| "directionName Around = js ''around''"

section \<open>Channels and workspaces\<close>

definition useChannels :: "jsstring option \<Rightarrow> query_hook" where
  "useChannels workspaceId = plainQuery channelKeys_list channelsApi_list workspaceId"

definition useChannelMembers :: "jsstring option \<Rightarrow> query_hook" where
  "useChannelMembers channelId = plainQuery channelKeys_members channelsApi_listMembers channelId"

definition useWorkspace :: "jsstring option \<Rightarrow> query_hook" where
  "useWorkspace workspaceId = plainQuery workspaceKeys_detail workspacesApi_get workspaceId"

definition useWorkspaceMembers :: "jsstring option \<Rightarrow> query_hook" where
  "useWorkspaceMembers workspaceId = plainQuery workspaceKeys_members workspacesApi_listMembers workspaceId"

definition useWorkspaceNotifications :: query_hook where
  "useWorkspaceNotifications =
     \<lparr>qh_key = workspaceKeys_notifications, qh_fetch = (\<lambda>_. workspacesApi_getNotifications),
      qh_enabled = True, qh_staleTime = DefaultStale, qh_refetchInterval = Some 30000\<rparr>"

definition useChannelNotifications :: "jsstring option \<Rightarrow> query_hook" where
  "useChannelNotifications channelId =
     (plainQuery channelKeys_notifications channelsApi_getNotifications channelId)\<lparr>qh_staleTime := StaleAfter 30000\<rparr>"

section \<open>Messages and threads\<close>

definition useMessage :: "jsstring option \<Rightarrow> query_hook" where
  "useMessage messageId =
     (plainQuery messageKeys_detail messagesApi_get messageId)\<lparr>qh_staleTime := StaleAfter (5 * 60 * 1000)\<rparr>"

definition useMessages :: "jsstring option \<Rightarrow> query_hook" where
  "useMessages channelId =
     \<lparr>qh_key = keyOf messageKeys_list channelId,
      qh_fetch = (\<lambda>pageParam. messagesApi_list (bang channelId) (Some (obj
        [(''cursor'', map_option JStr (pageCursor pageParam)), (''limit'', Some (JNum (int PAGE_SIZE))),
         (''direction'', (case pageParam of DirectedParam p \<Rightarrow> Some (JStr (directionName (pp_direction p)))
            | CursorParam _ \<Rightarrow> None))]))),
      qh_enabled = truthy channelId, qh_staleTime = StaleAfter (1000 * 30), qh_refetchInterval = None\<rparr>"

definition useThreadMessages :: "jsstring option \<Rightarrow> query_hook" where
  "useThreadMessages parentMessageId =
     \<lparr>qh_key = keyOf threadKeys_detail parentMessageId,
      qh_fetch = (\<lambda>pageParam. messagesApi_listThread (bang parentMessageId) (Some (obj
        [(''cursor'', map_option JStr (pageCursor pageParam)), (''limit'', Some (JNum (int PAGE_SIZE)))]))),
      qh_enabled = truthy parentMessageId, qh_staleTime = DefaultStale, qh_refetchInterval = None\<rparr>"

definition useThreadSubscription :: "jsstring option \<Rightarrow> query_hook" where
  "useThreadSubscription messageId =
     (plainQuery threadKeys_subscription messagesApi_getThreadSubscription messageId)\<lparr>qh_staleTime := StaleAfter 30000\<rparr>"

definition useUserThreads :: "jsstring \<Rightarrow> bool \<Rightarrow> query_hook" where
  "useUserThreads workspaceId enabled =
     \<lparr>qh_key = threadKeys_userThreads workspaceId,
      qh_fetch = (\<lambda>pageParam. messagesApi_listUserThreads workspaceId (Some (obj
        [(''limit'', Some (JNum 20)), (''cursor'', map_option JStr (pageCursor pageParam))]))),
      qh_enabled = (enabled \<and> workspaceId \<noteq> []), qh_staleTime = StaleAfter 30000, qh_refetchInterval = Some 60000\<rparr>"

text \<open>\<open>useAllUnreads\<close> calls the client without a wrapper.\<close>

definition useAllUnreads :: "jsstring \<Rightarrow> bool \<Rightarrow> query_hook" where
  "useAllUnreads workspaceId enabled =
     \<lparr>qh_key = unreadKeys_list workspaceId,
      qh_fetch = (\<lambda>pageParam. request POST ''/workspaces/{wid}/unreads'' [(js ''wid'', workspaceId)]
        (JsonBody (obj [(''limit'', Some (JNum 50)), (''cursor'', map_option JStr (pageCursor pageParam))]))),
      qh_enabled = (enabled \<and> workspaceId \<noteq> []), qh_staleTime = StaleAfter 30000, qh_refetchInterval = Some 60000\<rparr>"

definition useSearch ::
    "jsstring \<Rightarrow> jsstring \<Rightarrow> jsstring option \<Rightarrow> jsstring option \<Rightarrow> jsstring option \<Rightarrow> jsstring option \<Rightarrow>
     int option \<Rightarrow> int option \<Rightarrow> query_hook" where
  "useSearch workspaceId query channelId userId before after limit0 offset0 =
     (let limit = (case limit0 of None \<Rightarrow> 20 | Some n \<Rightarrow> n); offset = (case offset0 of None \<Rightarrow> 0 | Some n \<Rightarrow> n)
      in \<lparr>qh_key = searchKeys_query workspaceId query channelId userId before after (Some limit) (Some offset),
          qh_fetch = (\<lambda>_. messagesApi_search workspaceId (obj
            [(''query'', Some (JStr query)), (''channel_id'', map_option JStr channelId),
             (''user_id'', map_option JStr userId), (''before'', map_option JStr before),
             (''after'', map_option JStr after), (''limit'', Some (JNum limit)), (''offset'', Some (JNum offset))])),
          qh_enabled = (workspaceId \<noteq> [] \<and> trim query \<noteq> []),
          qh_staleTime = StaleAfter (30 * 1000), qh_refetchInterval = None\<rparr>)"

section \<open>Moderation, users, emojis, scheduled messages and the server\<close>

definition usePinnedMessages :: "jsstring option \<Rightarrow> query_hook" where
  "usePinnedMessages channelId =
     (plainQuery pinnedMessageKeys_list
        (\<lambda>c. moderationApi_listPinnedMessages c (Some (obj [(''limit'', Some (JNum 50))]))) channelId)
     \<lparr>qh_staleTime := StaleAfter (5 * 60 * 1000)\<rparr>"

definition useBans :: "jsstring option \<Rightarrow> query_hook" where
  "useBans workspaceId =
     plainQuery workspaceKeys_bans
       (\<lambda>w. moderationApi_listBans w (Some (obj [(''limit'', Some (JNum 50))]))) workspaceId"

definition useBlocks :: "jsstring option \<Rightarrow> query_hook" where
  "useBlocks workspaceId = plainQuery workspaceKeys_blocks moderationApi_listBlocks workspaceId"

definition useModerationLog :: "jsstring option \<Rightarrow> query_hook" where
  "useModerationLog workspaceId =
     \<lparr>qh_key = keyOf workspaceKeys_moderationLog workspaceId,
      qh_fetch = (\<lambda>pageParam. moderationApi_listModerationLog (bang workspaceId) (Some (obj
        [(''cursor'', map_option JStr (pageCursor pageParam)), (''limit'', Some (JNum 50))]))),
      qh_enabled = truthy workspaceId, qh_staleTime = DefaultStale, qh_refetchInterval = None\<rparr>"

definition useUserProfile :: "jsstring option \<Rightarrow> query_hook" where
  "useUserProfile userId = plainQuery userKeys_detail usersApi_getUser userId"

definition useCustomEmojis :: "jsstring option \<Rightarrow> query_hook" where
  "useCustomEmojis workspaceId =
     (plainQuery emojiKeys_list emojisApi_list workspaceId)\<lparr>qh_staleTime := StaleAfter (5 * 60 * 1000)\<rparr>"

definition useScheduledMessages :: "jsstring \<Rightarrow> query_hook" where
  "useScheduledMessages workspaceId =
     \<lparr>qh_key = scheduledMessageKeys_list workspaceId, qh_fetch = (\<lambda>_. scheduledMessagesApi_list workspaceId),
      qh_enabled = (workspaceId \<noteq> []), qh_staleTime = DefaultStale, qh_refetchInterval = None\<rparr>"

definition useServerInfo :: query_hook where
  "useServerInfo =
     \<lparr>qh_key = serverKeys_info, qh_fetch = (\<lambda>_. serverApi_getServerInfo), qh_enabled = True,
      qh_staleTime = NeverStale, qh_refetchInterval = None\<rparr>"

text \<open>The query of \<open>useAuth\<close>, for the token in memory.\<close>

definition meQuery :: "jsstring option \<Rightarrow> query_hook" where
  "meQuery authToken =
     \<lparr>qh_key = authKeys_me, qh_fetch = (\<lambda>_. authApi_me), qh_enabled = truthy authToken,
      qh_staleTime = NeverStale, qh_refetchInterval = None\<rparr>"

section \<open>All query hooks\<close>

inductive is_query_hook :: "query_hook \<Rightarrow> bool" where
  "is_query_hook (useChannels w)"
| "is_query_hook (useChannelMembers w)"
| "is_query_hook (useWorkspace w)"
| "is_query_hook (useWorkspaceMembers w)"
| "is_query_hook useWorkspaceNotifications"
| "is_query_hook (useChannelNotifications w)"
| "is_query_hook (useMessage w)"
| "is_query_hook (useMessages w)"
| "is_query_hook (useThreadMessages w)"
| "is_query_hook (useThreadSubscription w)"
| "is_query_hook (useUserThreads v b)"
| "is_query_hook (useAllUnreads v b)"
| "is_query_hook (useSearch v query channelId userId before after limit offset)"
| "is_query_hook (usePinnedMessages w)"
| "is_query_hook (useBans w)"
| "is_query_hook (useBlocks w)"
| "is_query_hook (useModerationLog w)"
| "is_query_hook (useUserProfile w)"
| "is_query_hook (useCustomEmojis w)"
| "is_query_hook (useScheduledMessages v)"
| "is_query_hook useServerInfo"
| "is_query_hook (meQuery w)"

lemmas hook_defs = plainQuery_def useChannels_def useChannelMembers_def useWorkspace_def
  useWorkspaceMembers_def useWorkspaceNotifications_def useChannelNotifications_def useMessage_def
  useMessages_def useThreadMessages_def useThreadSubscription_def useUserThreads_def useAllUnreads_def
  useSearch_def usePinnedMessages_def useBans_def useBlocks_def useModerationLog_def useUserProfile_def
  useCustomEmojis_def useScheduledMessages_def useServerInfo_def meQuery_def

lemma keyOf_enabled: "truthy w \<Longrightarrow> keyOf f w = f (bang w)"
  by (cases w) (simp_all add: keyOf_def bang_def)

section \<open>Properties\<close>

text \<open>The request of an enabled hook, read off its key.\<close>

fun num_of :: "key_part \<Rightarrow> int option" where
  "num_of (KNum n) = Some n"
| "num_of _ = None"

fun str_of :: "key_part \<Rightarrow> jsstring option" where
  "str_of (KStr s) = Some s"
| "str_of _ = None"

lemma part_inject [simp]: "opt_part a = opt_part b \<longleftrightarrow> a = b" "opt_num x = opt_num y \<longleftrightarrow> x = y"
  by (cases a; cases b; simp) (cases x; cases y; simp)

lemma hooks_by_key:
  "is_query_hook h \<Longrightarrow> is_query_hook g \<Longrightarrow>
     qh_enabled h \<longrightarrow> qh_enabled g \<longrightarrow> qh_key h = qh_key g \<longrightarrow> qh_fetch h pageParam = qh_fetch g pageParam"
  by (erule is_query_hook.induct; erule is_query_hook.induct;
    simp add: hook_defs keyOf_enabled key_defs Let_def)

lemma bang_enabled: "truthy w \<Longrightarrow> bang w \<noteq> []"
  by (cases w) (simp_all add: bang_def)

lemma enabled_params:
  "is_query_hook h \<Longrightarrow> qh_enabled h \<Longrightarrow> list_all (\<lambda>(n, v). v \<noteq> []) (rq_params (qh_fetch h pageParam))"
  by (induction rule: is_query_hook.induct)
    (simp_all add: hook_defs api_defs bang_enabled Let_def)



section \<open>Retries\<close>

text \<open>\<open>apps/web/src/lib/queryClient.ts\<close>: the default options; \<open>status\<close> is that of the error, if it has one.\<close>

definition DEFAULT_STALE_TIME :: int where
  "DEFAULT_STALE_TIME = 1000 * 60"

definition retryQuery :: "nat \<Rightarrow> int option \<Rightarrow> bool" where
  "retryQuery failureCount status =
     (if status = Some 401 \<or> status = Some 403 then False else failureCount < 3)"

definition staleAfter :: "query_hook \<Rightarrow> int option" where
  "staleAfter h = (case qh_staleTime h of
     DefaultStale \<Rightarrow> Some DEFAULT_STALE_TIME | StaleAfter t \<Rightarrow> Some t | NeverStale \<Rightarrow> None)"

end
