(* ===== verification/Typing.thy ===== *)
theory Typing
  imports PresenceStore Machines
begin

text \<open>
  The typing indicator of a sender (\<open>packages/shared/src/hooks/useTyping.ts\<close>): the state is
  the three refs of the hook and the log of the requests it sends; a step is a key press, an
  explicit stop (sending the message, leaving the field), the timeout, or time passing. Times are
  in milliseconds. The clock does not run past a pending timeout: timers are assumed punctual, as
  is the network in the statement about what a receiver sees.
\<close>

definition TYPING_THROTTLE :: int where
  "TYPING_THROTTLE = 2000"

definition TYPING_STOP_DELAY :: int where
  "TYPING_STOP_DELAY = 3000"

datatype typing_request = TypingStarted int | TypingStopped int

record typing_hook =
  ty_isTyping :: bool
  ty_lastSent :: int
  ty_stopTimeout :: "int option"
  ty_log :: "typing_request list"

definition new_typing :: typing_hook where
  "new_typing = \<lparr>ty_isTyping = False, ty_lastSent = 0, ty_stopTimeout = None, ty_log = []\<rparr>"

definition onTyping :: "int \<Rightarrow> typing_hook \<Rightarrow> typing_hook" where
  "onTyping now s =
     (let s1 = s\<lparr>ty_stopTimeout := None\<rparr>;
          s2 = (if \<not> ty_isTyping s1 \<or> now - ty_lastSent s1 > TYPING_THROTTLE
                then s1\<lparr>ty_isTyping := True, ty_lastSent := now, ty_log := ty_log s1 @ [TypingStarted now]\<rparr>
                else s1)
      in s2\<lparr>ty_stopTimeout := Some (now + TYPING_STOP_DELAY)\<rparr>)"

definition stopIfTyping :: "int \<Rightarrow> typing_hook \<Rightarrow> typing_hook" where
  "stopIfTyping now s =
     (if ty_isTyping s then s\<lparr>ty_isTyping := False, ty_log := ty_log s @ [TypingStopped now]\<rparr> else s)"

definition onStopTyping :: "int \<Rightarrow> typing_hook \<Rightarrow> typing_hook" where
  "onStopTyping now s = stopIfTyping now (s\<lparr>ty_stopTimeout := None\<rparr>)"

definition onStopTimeout :: "int \<Rightarrow> typing_hook \<Rightarrow> typing_hook" where
  "onStopTimeout now s = stopIfTyping now (s\<lparr>ty_stopTimeout := None\<rparr>)"

section \<open>Runs\<close>

inductive typing_step :: "int \<times> typing_hook \<Rightarrow> int \<times> typing_hook \<Rightarrow> bool" where
  key_pressed: "typing_step (now, s) (now, onTyping now s)"
| stopped: "typing_step (now, s) (now, onStopTyping now s)"
| timed_out: "ty_stopTimeout s = Some now \<Longrightarrow> typing_step (now, s) (now, onStopTimeout now s)"
| time_passes: "now \<le> later \<Longrightarrow> (\<forall>d. ty_stopTimeout s = Some d \<longrightarrow> later \<le> d) \<Longrightarrow>
    typing_step (now, s) (later, s)"

fun request_time :: "typing_request \<Rightarrow> int" where
  "request_time (TypingStarted t) = t"
| "request_time (TypingStopped t) = t"

fun is_start :: "typing_request \<Rightarrow> bool" where
  "is_start (TypingStarted _) = True"
| "is_start _ = False"

text \<open>
  Read from the end: a stop follows a start, a start that follows a start comes more than the
  throttle later, and nothing goes back in time.
\<close>

fun log_ok :: "typing_request list \<Rightarrow> bool" where
  "log_ok [] = True"
| "log_ok [r] = is_start r"
| "log_ok (r # q # log) =
     (log_ok (q # log) \<and> request_time q \<le> request_time r \<and>
      (if is_start r then is_start q \<longrightarrow> request_time r - request_time q > TYPING_THROTTLE else is_start q))"

fun typing_ok :: "int \<times> typing_hook \<Rightarrow> bool" where
  "typing_ok (now, s) \<longleftrightarrow>
     log_ok (rev (ty_log s)) \<and>
     (\<forall>r \<in> set (ty_log s). request_time r \<le> now) \<and>
     (ty_isTyping s \<longrightarrow> ty_log s \<noteq> [] \<and> last (ty_log s) = TypingStarted (ty_lastSent s)) \<and>
     (\<not> ty_isTyping s \<longrightarrow> ty_log s = [] \<or> \<not> is_start (last (ty_log s))) \<and>
     (ty_isTyping s \<longleftrightarrow> ty_stopTimeout s \<noteq> None) \<and>
     (\<forall>d. ty_stopTimeout s = Some d \<longrightarrow> now \<le> d \<and> ty_lastSent s \<le> now \<and>
        d \<le> ty_lastSent s + TYPING_THROTTLE + TYPING_STOP_DELAY)"

lemma log_ok_snoc:
  "log_ok (rev (log @ [r])) \<longleftrightarrow> log_ok (rev log) \<and>
     (if log = [] then is_start r
      else request_time (last log) \<le> request_time r \<and>
        (if is_start r then is_start (last log) \<longrightarrow> request_time r - request_time (last log) > TYPING_THROTTLE
         else is_start (last log)))"
  by (cases log rule: rev_cases) auto

lemmas typing_defs = onTyping_def onStopTyping_def onStopTimeout_def stopIfTyping_def Let_def
  TYPING_THROTTLE_def TYPING_STOP_DELAY_def

lemma typing_ok_log: "typing_ok (now, s) \<Longrightarrow> ty_log s \<noteq> [] \<Longrightarrow> request_time (last (ty_log s)) \<le> now"
  by auto

lemma typing_ok_step: "typing_step p q \<Longrightarrow> typing_ok p \<Longrightarrow> typing_ok q"
proof (induction rule: typing_step.induct)
  case (key_pressed now s)
  from typing_ok_log [OF key_pressed] key_pressed show ?case
    by (cases "ty_isTyping s") (auto simp: typing_defs log_ok_snoc simp del: rev_append)
next
  case (stopped now s)
  from typing_ok_log [OF stopped] stopped show ?case
    by (cases "ty_isTyping s") (auto simp: typing_defs log_ok_snoc simp del: rev_append)
next
  case (timed_out s now)
  from typing_ok_log [OF timed_out(2)] timed_out(2) show ?case
    by (cases "ty_isTyping s") (auto simp: typing_defs log_ok_snoc simp del: rev_append)
next
  case (time_passes now later s)
  then show ?case by fastforce
qed

interpretation typing: machine typing_step "\<lambda>(now, s). s = new_typing" typing_ok
  by unfold_locales (auto simp: new_typing_def intro: typing_ok_step)

text \<open>The requests of a log, apart.\<close>

lemma log_ok_nth:
  "log_ok (rev log) \<Longrightarrow> Suc i < length log \<Longrightarrow>
     request_time (log ! i) \<le> request_time (log ! Suc i) \<and>
     (if is_start (log ! Suc i)
      then is_start (log ! i) \<longrightarrow> request_time (log ! Suc i) - request_time (log ! i) > TYPING_THROTTLE
      else is_start (log ! i))"
proof (induction log rule: rev_induct)
  case (snoc r log)
  then have ok: "log_ok (rev log)"
    and last: "log \<noteq> [] \<Longrightarrow> request_time (last log) \<le> request_time r \<and>
      (if is_start r then is_start (last log) \<longrightarrow> request_time r - request_time (last log) > TYPING_THROTTLE
       else is_start (last log))"
    by (simp_all only: log_ok_snoc) simp
  show ?case
  proof (cases "Suc i < length log")
    case True
    with snoc.IH [OF ok] show ?thesis by (simp add: nth_append)
  next
    case False
    with snoc.prems have "Suc i = length log" by simp
    then have "log ! i = last log" "log \<noteq> []"
      by (cases log rule: rev_cases; auto simp: nth_append)+
    with last \<open>Suc i = length log\<close> show ?thesis by (simp add: nth_append)
  qed
qed simp

section \<open>Properties\<close>


text \<open>While a user keeps typing, a receiver that applied the last start request when it was sent goes
  on listing the user until the sender's timeout is due: the repeated start requests come often
  enough for the five seconds an entry lasts.\<close>

theorem typing_shown_without_gap:
  assumes "reachable typing_step (\<lambda>(now, s). s = new_typing) (now, s)"
    and "ty_isTyping s" "ty_stopTimeout s = Some due" "now < due" "presence_ok p"
  shows "\<exists>t \<in> set (channelTypers (cleanupExpiredTyping now (addTypingUser (ty_lastSent s) cid d p)) cid).
    tu_userId t = te_user_id d"
proof -
  have "due \<le> ty_lastSent s + 5000"
    using typing.always [OF assms(1)] assms(3) by (auto simp: TYPING_THROTTLE_def TYPING_STOP_DELAY_def)
  with assms(4) have "now < ty_lastSent s + 5000" by simp
  with typer_until [OF assms(5)] show ?thesis by blast
qed


theorem typing_shown_without_gap_witness:
  "\<exists>t \<in> set (channelTypers (cleanupExpiredTyping 2500 (addTypingUser 0 (js ''C'')
      \<lparr>te_user_id = js ''u'', te_channel_id = js ''C'', te_user_display_name = None\<rparr> initial_presence)) (js ''C'')).
    tu_userId t = js ''u''"
proof -
  have "reachable typing_step (\<lambda>(now, s). s = new_typing) (0, new_typing)" by (rule reachable_start) simp
  then have "reachable typing_step (\<lambda>(now, s). s = new_typing) (0, onTyping 0 new_typing)"
    by (rule reachable_step) (rule typing_step.key_pressed)
  then have "reachable typing_step (\<lambda>(now, s). s = new_typing) (2500, onTyping 0 new_typing)"
    by (rule reachable_step) (rule typing_step.time_passes, simp_all add: typing_defs)
  from typing_shown_without_gap [OF this, of 3000 initial_presence "js ''C''"
      "\<lparr>te_user_id = js ''u'', te_channel_id = js ''C'', te_user_display_name = None\<rparr>"]
  show ?thesis by (simp add: typing_defs new_typing_def presence_ok_initial)
qed

end
