(* ===== verification/JsObjects.thy ===== *)
theory JsObjects
  imports Prelude "HOL-Library.Multiset"
begin

text \<open>
  Plain JavaScript objects used as maps: what an empty object already has, and the order in which
  its own properties are enumerated.
\<close>

text \<open>What \<open>{}\<close> inherits.\<close>

definition OBJECT_PROTOTYPE :: "jsstring list" where
  "OBJECT_PROTOTYPE = map js [''constructor'', ''__defineGetter__'', ''__defineSetter__'', ''hasOwnProperty'',
     ''__lookupGetter__'', ''__lookupSetter__'', ''isPrototypeOf'', ''propertyIsEnumerable'', ''toString'',
     ''valueOf'', ''__proto__'', ''toLocaleString'']"

text \<open>The number a property name stands for if it is an array index, in canonical form.\<close>

definition arrayIndex :: "jsstring \<Rightarrow> nat option" where
  "arrayIndex s =
     (let n = foldl (\<lambda>n c. 10 * n + (unat c - 48)) 0 s
      in if list_all is_digit s \<and> js_nat n = s \<and> n < 2 ^ 32 - 1 then Some n else None)"

definition objectOrder :: "('a \<Rightarrow> jsstring) \<Rightarrow> 'a list \<Rightarrow> 'a list" where
  "objectOrder key xs =
     sort_key (\<lambda>x. the (arrayIndex (key x))) (filter (\<lambda>x. arrayIndex (key x) \<noteq> None) xs) @
     filter (\<lambda>x. arrayIndex (key x) = None) xs"

lemma mset_objectOrder: "mset (objectOrder key xs) = mset xs"
  by (simp add: objectOrder_def)

lemma objectOrder_same: "list_all (\<lambda>x. arrayIndex (key x) = None) xs \<Longrightarrow> objectOrder key xs = xs"
  by (simp add: objectOrder_def list_all_iff filter_empty_conv)

lemma insort_map: "map f (insort_key (\<lambda>x. k (f x)) x xs) = insort_key k (f x) (map f xs)"
  by (induction xs) auto

lemma sort_map: "map f (sort_key (\<lambda>x. k (f x)) xs) = sort_key k (map f xs)"
  by (induction xs) (simp_all add: insort_map)

lemma objectOrder_map: "map f (objectOrder (key \<circ> f) xs) = objectOrder key (map f xs)"
  by (simp add: objectOrder_def filter_map comp_def sort_map [of f "\<lambda>x. the (arrayIndex (key x))"])

end
