(* ===== verification/Reactions.thy ===== *)
theory Reactions
  imports ApiTypes JsObjects "HOL-Library.AList"
begin

text \<open>
  Grouping the reactions of a message by emoji, for the reaction bar. There are three
  implementations: \<open>groupReactionsByEmoji\<close> on the web
  (\<open>apps/web/src/components/message/reactionUtils.ts\<close>), \<open>groupReactions\<close> on mobile
  (\<open>apps/mobile/src/lib/groupReactions.ts\<close>), and \<open>groupReactions\<close> in
  \<open>packages/shared/src/utils.ts\<close>, which keeps the users only. A \<open>Map\<close> enumerates its keys in the
  order they were first set: an association list. The web groups in a plain object: it enumerates
  array indices first (\<open>objectOrder\<close>), and has the properties of \<open>Object.prototype\<close> from the start,
  none of which has \<open>userIds\<close>, so that pushing to these raises a \<open>TypeError\<close> (\<open>None\<close>).

  \<open>reactionGroups\<close> is the specification: the emojis in the order of their first reaction, each
  with its users in the order they reacted.
\<close>

record reaction_group =
  rg_emoji :: jsstring
  rg_count :: int
  rg_userIds :: "jsstring list"
  rg_hasOwn :: bool

section \<open>The implementations\<close>

definition addReactionTo ::
    "jsstring option \<Rightarrow> reaction \<Rightarrow> (jsstring \<times> reaction_group) list \<Rightarrow> (jsstring \<times> reaction_group) list option" where
  "addReactionTo currentUserId r acc =
     (let acc1 = (if map_of acc (rc_emoji r) = None \<and> rc_emoji r \<notin> set OBJECT_PROTOTYPE
            then AList.update (rc_emoji r)
              \<lparr>rg_emoji = rc_emoji r, rg_count = 0, rg_userIds = [], rg_hasOwn = False\<rparr> acc
            else acc)
      in if map_of acc1 (rc_emoji r) = None then None
         else Some (AList.map_entry (rc_emoji r) (\<lambda>g. g\<lparr>rg_count := rg_count g + 1,
           rg_userIds := rg_userIds g @ [rc_user_id r],
           rg_hasOwn := (if Some (rc_user_id r) = currentUserId then True else rg_hasOwn g)\<rparr>) acc1))"

fun reduceReactions ::
    "jsstring option \<Rightarrow> (jsstring \<times> reaction_group) list \<Rightarrow> reaction list \<Rightarrow> (jsstring \<times> reaction_group) list option" where
  "reduceReactions currentUserId acc [] = Some acc"
| "reduceReactions currentUserId acc (r # rs) =
     (case addReactionTo currentUserId r acc of
        None \<Rightarrow> None | Some acc1 \<Rightarrow> reduceReactions currentUserId acc1 rs)"

definition groupReactionsByEmoji :: "reaction list option \<Rightarrow> jsstring option \<Rightarrow> reaction_group list option" where
  "groupReactionsByEmoji reactions currentUserId =
     map_option (\<lambda>groups. map snd (objectOrder fst groups))
       (reduceReactions currentUserId [] (or_empty reactions))"

definition addToMobileGroup ::
    "jsstring option \<Rightarrow> (jsstring \<times> reaction_group) list \<Rightarrow> reaction \<Rightarrow> (jsstring \<times> reaction_group) list" where
  "addToMobileGroup currentUserId groups r =
     (case map_of groups (rc_emoji r) of
        Some existing \<Rightarrow> AList.map_entry (rc_emoji r) (\<lambda>g. g\<lparr>rg_count := rg_count g + 1,
          rg_userIds := rg_userIds g @ [rc_user_id r],
          rg_hasOwn := (if Some (rc_user_id r) = currentUserId then True else rg_hasOwn g)\<rparr>) groups
      | None \<Rightarrow> AList.update (rc_emoji r) \<lparr>rg_emoji = rc_emoji r, rg_count = 1,
          rg_userIds = [rc_user_id r], rg_hasOwn = (Some (rc_user_id r) = currentUserId)\<rparr> groups)"

definition groupReactionsMobile :: "reaction list \<Rightarrow> jsstring option \<Rightarrow> reaction_group list" where
  "groupReactionsMobile reactions currentUserId =
     map snd (foldl (addToMobileGroup currentUserId) [] reactions)"

definition addToUsers :: "(jsstring \<times> jsstring list) list \<Rightarrow> reaction \<Rightarrow> (jsstring \<times> jsstring list) list" where
  "addToUsers grouped r =
     (let users = or_empty (map_of grouped (rc_emoji r)) @ [rc_user_id r]
      in AList.update (rc_emoji r) users grouped)"

definition groupReactionsShared :: "reaction list \<Rightarrow> (jsstring \<times> jsstring list) list" where
  "groupReactionsShared reactions = foldl addToUsers [] reactions"

section \<open>The specification\<close>

definition firsts :: "'a list \<Rightarrow> 'a list" where
  "firsts xs = rev (remdups (rev xs))"

definition usersOf :: "reaction list \<Rightarrow> jsstring \<Rightarrow> jsstring list" where
  "usersOf rs e = map rc_user_id (filter (\<lambda>r. rc_emoji r = e) rs)"

definition reactionGroups :: "reaction list \<Rightarrow> jsstring option \<Rightarrow> reaction_group list" where
  "reactionGroups rs currentUserId =
     map (\<lambda>e. \<lparr>rg_emoji = e, rg_count = int (length (usersOf rs e)), rg_userIds = usersOf rs e,
               rg_hasOwn = (case currentUserId of None \<Rightarrow> False | Some u \<Rightarrow> u \<in> set (usersOf rs e))\<rparr>)
       (firsts (map rc_emoji rs))"

section \<open>They agree\<close>

lemma firsts_snoc: "firsts (xs @ [x]) = (if x \<in> set xs then firsts xs else firsts xs @ [x])"
  by (simp add: firsts_def)

lemma set_firsts [simp]: "set (firsts xs) = set xs"
  by (simp add: firsts_def)

lemma distinct_firsts [simp]: "distinct (firsts xs)"
  by (simp add: firsts_def)

lemma usersOf_snoc:
  "usersOf (rs @ [r]) e = (if rc_emoji r = e then usersOf rs e @ [rc_user_id r] else usersOf rs e)"
  by (simp add: usersOf_def)

lemma usersOf_Nil: "e \<notin> rc_emoji ` set rs \<Longrightarrow> usersOf rs e = []"
  by (auto simp: usersOf_def filter_empty_conv)

text \<open>Association lists over distinct keys.\<close>

lemma update_table:
  "distinct ks \<Longrightarrow> AList.update k v (map (\<lambda>x. (x, f x)) ks) =
     (if k \<in> set ks then map (\<lambda>x. (x, if x = k then v else f x)) ks
      else map (\<lambda>x. (x, f x)) ks @ [(k, v)])"
  by (induction ks) auto

lemma map_entry_table:
  "AList.map_entry k g (map (\<lambda>x. (x, f x)) ks) = map (\<lambda>x. (x, if x = k then g (f x) else f x)) ks"
  if "distinct ks"
  using that by (induction ks) auto

lemma map_entry_append:
  "k \<notin> fst ` set xs \<Longrightarrow> AList.map_entry k g (xs @ ys) = xs @ AList.map_entry k g ys"
  by (induction xs) auto

lemma table_fresh:
  "k \<notin> set ks \<Longrightarrow> map (\<lambda>x. (x, if x = k then a x else b x)) ks = map (\<lambda>x. (x, b x)) ks"
  by auto

lemma map_of_table: "map_of (map (\<lambda>x. (x, f x)) ks) k = (if k \<in> set ks then Some (f k) else None)"
  by (induction ks) auto

definition groupOf :: "reaction list \<Rightarrow> jsstring option \<Rightarrow> jsstring \<Rightarrow> reaction_group" where
  "groupOf rs currentUserId e = \<lparr>rg_emoji = e, rg_count = int (length (usersOf rs e)), rg_userIds = usersOf rs e,
     rg_hasOwn = (case currentUserId of None \<Rightarrow> False | Some u \<Rightarrow> u \<in> set (usersOf rs e))\<rparr>"

lemma groupOf_snoc:
  "groupOf (rs @ [r]) u e = (if e = rc_emoji r then (groupOf rs u e)\<lparr>rg_count := rg_count (groupOf rs u e) + 1,
     rg_userIds := rg_userIds (groupOf rs u e) @ [rc_user_id r],
     rg_hasOwn := (if Some (rc_user_id r) = u then True else rg_hasOwn (groupOf rs u e))\<rparr> else groupOf rs u e)"
  by (auto simp: groupOf_def usersOf_snoc split: option.splits)

lemma groupOf_fresh:
  "e \<notin> rc_emoji ` set rs \<Longrightarrow>
     groupOf rs u e = \<lparr>rg_emoji = e, rg_count = 0, rg_userIds = [], rg_hasOwn = False\<rparr>"
  by (simp add: groupOf_def usersOf_Nil split: option.split)

lemmas table_simps = map_of_table update_table map_entry_table map_entry_append table_fresh
  firsts_snoc groupOf_snoc groupOf_fresh

definition inherited :: "reaction \<Rightarrow> bool" where
  "inherited r = (rc_emoji r \<in> set OBJECT_PROTOTYPE)"

lemma reduce_snoc:
  "reduceReactions u acc (rs @ [r]) = Option.bind (reduceReactions u acc rs) (addReactionTo u r)"
  by (induction rs arbitrary: acc) (auto split: option.split)

lemma web_table:
  "reduceReactions u [] rs =
     (if list_ex inherited rs then None
      else Some (map (\<lambda>e. (e, groupOf rs u e)) (firsts (map rc_emoji rs))))"
proof (induction rs rule: rev_induct)
  case (snoc r rs)
  let ?t = "map (\<lambda>e. (e, groupOf rs u e)) (firsts (map rc_emoji rs))"
  show ?case
  proof (cases "list_ex inherited rs")
    case True
    with snoc show ?thesis by (simp add: reduce_snoc)
  next
    case False
    then have fresh: "inherited r \<Longrightarrow> rc_emoji r \<notin> rc_emoji ` set rs"
      by (auto simp: inherited_def list_ex_iff)
    from False snoc have "reduceReactions u [] (rs @ [r]) = addReactionTo u r ?t"
      by (simp add: reduce_snoc)
    also have "\<dots> = (if inherited r then None
        else Some (map (\<lambda>e. (e, groupOf (rs @ [r]) u e)) (firsts (map rc_emoji (rs @ [r])))))"
      by (cases "rc_emoji r \<in> rc_emoji ` set rs") (use fresh in
        \<open>auto simp: addReactionTo_def table_simps image_image Let_def inherited_def [symmetric]\<close>)
    finally show ?thesis using False by simp
  qed
qed (simp add: firsts_def)

lemma mobile_table:
  "foldl (addToMobileGroup u) [] rs = map (\<lambda>e. (e, groupOf rs u e)) (firsts (map rc_emoji rs))"
proof (induction rs rule: rev_induct)
  case (snoc r rs)
  have "foldl (addToMobileGroup u) [] (rs @ [r]) = addToMobileGroup u (map (\<lambda>e. (e, groupOf rs u e)) (firsts (map rc_emoji rs))) r"
    by (simp add: snoc)
  also have "\<dots> = map (\<lambda>e. (e, groupOf (rs @ [r]) u e)) (firsts (map rc_emoji (rs @ [r])))"
    by (cases "rc_emoji r \<in> rc_emoji ` set rs")
      (simp_all add: addToMobileGroup_def table_simps image_image)
  finally show ?case .
qed (simp add: firsts_def)

lemma shared_table:
  "groupReactionsShared rs = map (\<lambda>e. (e, usersOf rs e)) (firsts (map rc_emoji rs))"
proof (induction rs rule: rev_induct)
  case (snoc r rs)
  then have IH: "foldl addToUsers [] rs = map (\<lambda>e. (e, usersOf rs e)) (firsts (map rc_emoji rs))"
    by (simp add: groupReactionsShared_def)
  show ?case
    by (cases "rc_emoji r \<in> rc_emoji ` set rs")
      (auto simp: groupReactionsShared_def IH addToUsers_def map_of_table update_table firsts_snoc
        usersOf_snoc usersOf_Nil Let_def)
qed (simp add: groupReactionsShared_def firsts_def)

section \<open>Properties\<close>

text \<open>C21: The implementations of grouping agree with the specification: one group per emoji, in the order of
  the first reaction, with every user who reacted, in order, the right count, and a mark on the
  groups of the current user. Only that of the web lists array indices first - and fails
  altogether as soon as somebody reacts with the name of a property every object has.\<close>

theorem reaction_groupings_agree:
  "groupReactionsMobile rs currentUserId = reactionGroups rs currentUserId \<and>
   groupReactionsShared rs = map (\<lambda>g. (rg_emoji g, rg_userIds g)) (reactionGroups rs currentUserId) \<and>
   groupReactionsByEmoji (Some rs) currentUserId =
     (if list_ex inherited rs then None
      else Some (objectOrder rg_emoji (reactionGroups rs currentUserId)))"
proof -
  have "map snd (objectOrder fst (map (\<lambda>e. (e, groupOf rs currentUserId e)) es)) =
      objectOrder rg_emoji (map (groupOf rs currentUserId) es)" for es
  proof -
    have "map snd (objectOrder fst (map (\<lambda>e. (e, groupOf rs currentUserId e)) es)) =
        map (groupOf rs currentUserId) (objectOrder (\<lambda>e. e) es)"
      using objectOrder_map [of "\<lambda>e. (e, groupOf rs currentUserId e)" fst es, symmetric] by (simp add: comp_def)
    also have "\<dots> = objectOrder rg_emoji (map (groupOf rs currentUserId) es)"
      using objectOrder_map [of "groupOf rs currentUserId" rg_emoji es] by (simp add: comp_def groupOf_def)
    finally show ?thesis .
  qed
  then show ?thesis
    by (simp add: groupReactionsByEmoji_def groupReactionsMobile_def web_table mobile_table shared_table
      reactionGroups_def groupOf_def [abs_def])
qed

end
