(* ===== verification/ListItems.thy ===== *)
theory ListItems
  imports Samples "HOL-Library.Multiset"
begin

text \<open>
  The items a message list renders: \<open>buildVirtualItems\<close> on the web
  (\<open>apps/web/src/components/message/virtualItems.ts\<close>), oldest message first, and
  \<open>buildListItems\<close> on mobile (\<open>apps/mobile/src/lib/buildListItems.ts\<close>), newest first, for an
  inverted list. Both insert date separators; the web also an unread divider, mobile decides which
  messages are grouped under one avatar.

  \<open>new Date(s).toDateString()\<close> depends on the time zone of the host and is the argument \<open>day\<close>;
  \<open>new Date(s).getTime()\<close> is the argument \<open>time\<close>, \<open>None\<close> for an invalid date (\<open>NaN\<close>).
  The items are keyed for the renderer, so the keys have to be unique.
\<close>

section \<open>The web list\<close>

datatype virtual_item =
    DateSeparator jsstring jsstring
  | UnreadDivider jsstring
  | MessageVirtual jsstring message_with_user

fun item_key :: "virtual_item \<Rightarrow> jsstring" where
  "item_key (DateSeparator k _) = k"
| "item_key (UnreadDivider k) = k"
| "item_key (MessageVirtual k _) = k"

fun findIndex :: "('a \<Rightarrow> bool) \<Rightarrow> 'a list \<Rightarrow> nat option" where
  "findIndex P [] = None"
| "findIndex P (x # xs) = (if P x then Some 0 else map_option Suc (findIndex P xs))"

definition dividerAfter :: "int option \<Rightarrow> nat option \<Rightarrow> nat \<Rightarrow> nat \<Rightarrow> bool" where
  "dividerAfter unreadCount lastReadIndex n i =
     ((case unreadCount of None \<Rightarrow> False | Some c \<Rightarrow> c > 0) \<and> lastReadIndex = Some i \<and> i + 1 < n)"

text \<open>The loop from message \<open>i\<close> of \<open>n\<close> on.\<close>

fun virtualLoop ::
    "(jsstring \<Rightarrow> jsstring) \<Rightarrow> int option \<Rightarrow> nat option \<Rightarrow> nat \<Rightarrow> nat \<Rightarrow> jsstring \<Rightarrow>
     message_with_user list \<Rightarrow> virtual_item list" where
  "virtualLoop day cnt lastRead n i currentDateKey [] = []"
| "virtualLoop day cnt lastRead n i currentDateKey (msg # rest) =
     (let dateKey = day (msg_created_at msg)
      in (if dateKey \<noteq> currentDateKey
          then [DateSeparator (js ''date-'' @ dateKey) (msg_created_at msg)] else []) @
         [MessageVirtual (msg_id msg) msg] @
         (if dividerAfter cnt lastRead n i then [UnreadDivider (js ''unread-divider'')] else []) @
         virtualLoop day cnt lastRead n (Suc i) dateKey rest)"

definition buildVirtualItems ::
    "(jsstring \<Rightarrow> jsstring) \<Rightarrow> message_with_user list \<Rightarrow> jsstring option \<Rightarrow> int option \<Rightarrow> virtual_item list" where
  "buildVirtualItems day ms lastReadMessageId unreadCount =
     (if ms = [] then []
      else let lastReadIndex = (case lastReadMessageId of
                 None \<Rightarrow> None
               | Some l \<Rightarrow> if l = [] then None else findIndex (\<lambda>m. msg_id m = l) ms)
        in virtualLoop day unreadCount lastReadIndex (length ms) 0 [] ms)"

section \<open>The mobile list\<close>

datatype list_item = MessageItem message_with_user bool | DateItem jsstring jsstring

definition GROUP_THRESHOLD_MS :: int where
  "GROUP_THRESHOLD_MS = 5 * 60 * 1000"

text \<open>\<open>s.split('T')[0]\<close>\<close>

definition datePart :: "jsstring \<Rightarrow> jsstring" where
  "datePart s = hd (split_on (ch (CHR ''T'')) s)"

definition closeInTime :: "(jsstring \<Rightarrow> int option) \<Rightarrow> jsstring \<Rightarrow> jsstring \<Rightarrow> bool" where
  "closeInTime time a b =
     (case (time a, time b) of (Some x, Some y) \<Rightarrow> \<bar>x - y\<bar> < GROUP_THRESHOLD_MS | _ \<Rightarrow> False)"

definition shouldGroupMessages ::
    "(jsstring \<Rightarrow> int option) \<Rightarrow> message_with_user \<Rightarrow> message_with_user option \<Rightarrow> bool" where
  "shouldGroupMessages time current next_message =
     (case next_message of
        None \<Rightarrow> False
      | Some n \<Rightarrow>
          if msg_type current = Some SystemMessage \<or> msg_type n = Some SystemMessage then False
          else if msg_user_id current \<noteq> msg_user_id n then False
          else if truthy (msg_deleted_at n) then False
          else if datePart (msg_created_at current) \<noteq> datePart (msg_created_at n) then False
          else closeInTime time (msg_created_at current) (msg_created_at n))"

fun listLoop :: "(jsstring \<Rightarrow> int option) \<Rightarrow> message_with_user list \<Rightarrow> list_item list" where
  "listLoop time [] = []"
| "listLoop time (msg # rest) =
     (let msgDate = datePart (msg_created_at msg);
          above = (case rest of [] \<Rightarrow> None | m # _ \<Rightarrow> Some m);
          prevDate = map_option (\<lambda>m. datePart (msg_created_at m)) above
      in [MessageItem msg (shouldGroupMessages time msg above)] @
         (if truthy prevDate \<and> prevDate \<noteq> Some msgDate
          then [DateItem (msg_created_at msg) (js ''date-'' @ msgDate)] else []) @
         (if rest = [] then [DateItem (msg_created_at msg) (js ''date-'' @ msgDate @ js ''-last'')] else []) @
         listLoop time rest)"

definition buildListItems ::
    "(jsstring \<Rightarrow> int option) \<Rightarrow> message_list_result list option \<Rightarrow> list_item list" where
  "buildListItems time ps =
     (case ps of None \<Rightarrow> [] | Some loaded \<Rightarrow> listLoop time (concat (map messages loaded)))"

section \<open>What the lists show\<close>

fun shown_message :: "virtual_item \<Rightarrow> message_with_user option" where
  "shown_message (MessageVirtual _ m) = Some m"
| "shown_message _ = None"

fun separator_key :: "virtual_item \<Rightarrow> jsstring option" where
  "separator_key (DateSeparator k _) = Some k"
| "separator_key _ = None"

fun is_divider :: "virtual_item \<Rightarrow> bool" where
  "is_divider (UnreadDivider _) = True"
| "is_divider _ = False"

lemma loop_messages: "List.map_filter shown_message (virtualLoop day cnt lr n i cur ms) = ms"
  by (induction ms arbitrary: i cur) (simp_all add: List.map_filter_simps Let_def)

text \<open>The days of a list of messages, one entry per run of the same day, after \<open>cur\<close>.\<close>

fun dayRuns :: "jsstring \<Rightarrow> jsstring list \<Rightarrow> jsstring list" where
  "dayRuns cur [] = []"
| "dayRuns cur (d # ds) = (if d \<noteq> cur then d # dayRuns d ds else dayRuns d ds)"

lemma dayRuns_remdups_adj: "cur # dayRuns cur ds = remdups_adj (cur # ds)"
  by (induction ds arbitrary: cur) auto

lemma dayRuns_start: "[] \<notin> set ds \<Longrightarrow> dayRuns [] ds = remdups_adj ds"
  using dayRuns_remdups_adj [of "hd ds" "tl ds"] by (cases ds) auto

abbreviation day_key :: "jsstring \<Rightarrow> jsstring" where
  "day_key d \<equiv> js ''date-'' @ d"

lemma loop_separators:
  "List.map_filter separator_key (virtualLoop day cnt lr n i cur ms) =
     map day_key (dayRuns cur (map (\<lambda>m. day (msg_created_at m)) ms))"
  by (induction ms arbitrary: i cur) (simp_all add: List.map_filter_simps Let_def)

lemma loop_keys:
  "mset (map item_key (virtualLoop day cnt lr n i cur ms)) =
     mset (map day_key (dayRuns cur (map (\<lambda>m. day (msg_created_at m)) ms)) @ map msg_id ms @
       map (\<lambda>_. js ''unread-divider'') (filter is_divider (virtualLoop day cnt lr n i cur ms)))"
  by (induction ms arbitrary: i cur) (simp_all add: Let_def)

lemma loop_dividers:
  "filter is_divider (virtualLoop day cnt lr n i cur ms) =
     (if \<exists>j < length ms. dividerAfter cnt lr n (i + j) then [UnreadDivider (js ''unread-divider'')] else [])"
proof (induction ms arbitrary: i cur)
  case (Cons m ms)
  have split: "(\<exists>j < length (m # ms). dividerAfter cnt lr n (i + j)) \<longleftrightarrow>
      dividerAfter cnt lr n i \<or> (\<exists>j < length ms. dividerAfter cnt lr n (Suc i + j))"
    by (auto simp: less_Suc_eq_0_disj)
  have "\<not> (\<exists>j < length ms. dividerAfter cnt lr n (Suc i + j))" if "dividerAfter cnt lr n i"
    using that by (auto simp: dividerAfter_def)
  then show ?case unfolding split by (auto simp: Cons Let_def)
qed simp

lemma loop_distinct:
  assumes "distinct (dayRuns cur (map (\<lambda>m. day (msg_created_at m)) ms))" "distinct (map msg_id ms)"
    and "\<forall>m \<in> set ms. \<not> startsWith (msg_id m) (js ''date-'') \<and> msg_id m \<noteq> js ''unread-divider''"
  shows "distinct (map item_key (virtualLoop day cnt lr n i cur ms))"
proof -
  let ?ds = "map day_key (dayRuns cur (map (\<lambda>m. day (msg_created_at m)) ms))"
  let ?us = "map (\<lambda>_. js ''unread-divider'') (filter is_divider (virtualLoop day cnt lr n i cur ms))"
  have divider: "js ''unread-divider'' \<notin> set ?ds"
    by (auto simp: js_eval)
  have ids: "set ?ds \<inter> msg_id ` set ms = {}" "js ''unread-divider'' \<notin> msg_id ` set ms"
    using assms(3) by (auto simp: startsWith_iff) (metis)
  have "distinct ?ds" using assms(1) by (simp add: distinct_map inj_on_def)
  with divider ids have "distinct (?ds @ map msg_id ms @ ?us)"
    using assms(2) unfolding loop_dividers by auto
  with loop_keys show ?thesis by (metis mset_eq_imp_distinct_iff)
qed

text \<open>The mobile list.\<close>

fun list_message :: "list_item \<Rightarrow> message_with_user option" where
  "list_message (MessageItem m _) = Some m"
| "list_message _ = None"

fun date_id :: "list_item \<Rightarrow> jsstring option" where
  "date_id (DateItem _ i) = Some i"
| "date_id _ = None"

definition days :: "message_with_user list \<Rightarrow> jsstring list" where
  "days ms = map (\<lambda>m. datePart (msg_created_at m)) ms"

lemma list_messages: "List.map_filter list_message (listLoop time ms) = ms"
  by (induction ms) (auto simp: List.map_filter_simps Let_def)

lemma list_dates:
  "ms \<noteq> [] \<Longrightarrow> [] \<notin> set (days ms) \<Longrightarrow>
     List.map_filter date_id (listLoop time ms) =
       map day_key (butlast (remdups_adj (days ms))) @ [day_key (last (days ms)) @ js ''-last'']"
proof (induction ms)
  case (Cons m ms)
  show ?case
  proof (cases ms)
    case Nil
    then show ?thesis by (simp add: days_def List.map_filter_simps Let_def)
  next
    case (Cons n rest)
    then have "remdups_adj (days ms) \<noteq> []" by (simp add: days_def)
    with Cons Cons.IH Cons.prems show ?thesis
      by (auto simp: days_def List.map_filter_simps Let_def)
  qed
qed simp

lemma list_grouped:
  "MessageItem m True \<in> set (listLoop time ms) \<Longrightarrow>
     \<exists>n \<in> set ms. msg_user_id n = msg_user_id m \<and> datePart (msg_created_at n) = datePart (msg_created_at m) \<and>
       closeInTime time (msg_created_at m) (msg_created_at n)"
proof (induction ms)
  case (Cons x ms)
  show ?case
  proof (cases "MessageItem m True \<in> set (listLoop time ms)")
    case True
    with Cons.IH show ?thesis by auto
  next
    case False
    with Cons.prems have "m = x" "shouldGroupMessages time x (case ms of [] \<Rightarrow> None | n # _ \<Rightarrow> Some n)"
      by (auto simp: Let_def split: if_splits)
    then show ?thesis by (cases ms) (auto simp: shouldGroupMessages_def split: if_splits)
  qed
qed simp

section \<open>Properties\<close>



text \<open>The mobile list shows every message once and in order, and after each run of messages of one day
  (in the inverted list, above it) one date, the last one marked. Messages are grouped only with a
  message of the same author on the same day, less than five minutes apart.\<close>

theorem mobile_list_complete:
  assumes "ms = concat (map messages loaded)" "ms \<noteq> []" "[] \<notin> set (days ms)"
  shows "List.map_filter list_message (buildListItems time (Some loaded)) = ms \<and>
    List.map_filter date_id (buildListItems time (Some loaded)) =
      map day_key (butlast (remdups_adj (days ms))) @ [day_key (last (days ms)) @ js ''-last''] \<and>
    (\<forall>m. MessageItem m True \<in> set (buildListItems time (Some loaded)) \<longrightarrow>
      (\<exists>n \<in> set ms. msg_user_id n = msg_user_id m \<and>
        datePart (msg_created_at n) = datePart (msg_created_at m) \<and>
        closeInTime time (msg_created_at m) (msg_created_at n)))"
proof -
  have "buildListItems time (Some loaded) = listLoop time ms" by (simp add: buildListItems_def assms(1))
  with list_grouped [of _ time ms] list_dates [OF assms(2,3), of time] show ?thesis
    by (simp only: list_messages) blast
qed

theorem mobile_list_complete_witness:
  "List.map_filter list_message (buildListItems (\<lambda>_. Some 0)
     (Some [\<lparr>messages = [sample_message (js ''B'') (js ''you'') None 0], has_more = True,
        has_newer = None, next_cursor = None\<rparr>,
      \<lparr>messages = [sample_message (js ''A'') (js ''you'') None 0], has_more = False,
        has_newer = None, next_cursor = None\<rparr>])) =
     [sample_message (js ''B'') (js ''you'') None 0, sample_message (js ''A'') (js ''you'') None 0]"
  using mobile_list_complete [where time = "\<lambda>_. Some 0" and
      loaded = "[\<lparr>messages = [sample_message (js ''B'') (js ''you'') None 0], has_more = True,
        has_newer = None, next_cursor = None\<rparr>,
      \<lparr>messages = [sample_message (js ''A'') (js ''you'') None 0], has_more = False,
        has_newer = None, next_cursor = None\<rparr>]", OF refl]
  by (simp add: days_def sample_message_def datePart_def js_eval)

end
