(* ===== verification/FuzzyMatch.thy ===== *)
theory FuzzyMatch
  imports Prelude
begin

text \<open>
  The fuzzy matcher of the command palette and of the mobile suggestions
  (\<open>packages/shared/src/fuzzyMatch.ts\<close>). \<open>toLowerCase\<close> is an argument (\<open>lower\<close>), as its tables are
  those of the host's Unicode version. Positions in the lower-cased text index the text itself:
  where the two differ in length the character may be missing, and the test of \<open>undefined\<close> is false.
\<close>

definition wordChar :: "code_unit \<Rightarrow> bool" where
  "wordChar c = ((ch CHR ''a'' \<le> c \<and> c \<le> ch CHR ''z'') \<or> (ch CHR ''A'' \<le> c \<and> c \<le> ch CHR ''Z'') \<or>
     is_digit c \<or> c = ch CHR ''_'')"

text \<open>\<open>/\W/.test(text[i])\<close>\<close>

definition nonWordAt :: "jsstring \<Rightarrow> nat \<Rightarrow> bool" where
  "nonWordAt text_s i = (i < length text_s \<and> \<not> wordChar (text_s ! i))"

record fuzzy_result =
  fr_matches :: bool
  fr_score :: nat

text \<open>The loop, with what is left of the query and of the lower-cased text, the index \<open>ti\<close> of the latter.\<close>

fun fuzzyLoop :: "jsstring \<Rightarrow> nat \<Rightarrow> nat \<Rightarrow> nat \<Rightarrow> jsstring \<Rightarrow> jsstring \<Rightarrow> jsstring \<times> nat" where
  "fuzzyLoop text_s ti consecutive score query [] = (query, score)"
| "fuzzyLoop text_s ti consecutive score [] (t # ts) = ([], score)"
| "fuzzyLoop text_s ti consecutive score (q # qs) (t # ts) =
     (if t = q
      then fuzzyLoop text_s (Suc ti) (Suc consecutive)
             (score + Suc consecutive * 2 + (if ti = 0 \<or> nonWordAt text_s (ti - 1) then 10 else 0)) qs ts
      else fuzzyLoop text_s (Suc ti) 0 score (q # qs) ts)"

definition fuzzyMatch :: "(jsstring \<Rightarrow> jsstring) \<Rightarrow> jsstring \<Rightarrow> jsstring \<Rightarrow> fuzzy_result" where
  "fuzzyMatch lower query text_s =
     (let lowerQuery = lower query; lowerText = lower text_s
      in case indexOf lowerText lowerQuery of
           Some index \<Rightarrow>
             \<lparr>fr_matches = True,
              fr_score = 200 + (if index = 0 then 100 else 0) +
                (if index > 0 \<and> nonWordAt text_s (index - 1) then 50 else 0) + length lowerQuery\<rparr>
         | None \<Rightarrow>
             (case fuzzyLoop text_s 0 0 0 lowerQuery lowerText of
                (rest, score) \<Rightarrow>
                  if rest \<noteq> [] then \<lparr>fr_matches = False, fr_score = 0\<rparr>
                  else \<lparr>fr_matches = True, fr_score = score\<rparr>))"

section \<open>What matches and how it ranks\<close>

lemma loop_subseq: "fst (fuzzyLoop text_s ti k score query ts) = [] \<longleftrightarrow> subseq query ts"
  by (induction text_s ti k score query ts rule: fuzzyLoop.induct) auto

text \<open>With \<open>k\<close> consecutive matches so far, \<open>n\<close> more give at most \<open>n * (n + 1) + 2 * k * n\<close>.\<close>

lemma loop_score:
  "snd (fuzzyLoop text_s ti k score query ts) \<le> score + length query * (length query + 1 + 2 * k) + 10 * length query"
proof (induction text_s ti k score query ts rule: fuzzyLoop.induct)
  case (3 text_s ti k score q qs t ts)
  show ?case
  proof (cases "t = q")
    case True
    let ?bonus = "if ti = 0 \<or> nonWordAt text_s (ti - 1) then 10 else (0 :: nat)"
    have "?bonus \<le> 10" by simp
    with 3(1) [OF True] True show ?thesis by (simp add: algebra_simps)
  next
    case False
    have "length (q # qs) * (length (q # qs) + 1 + 2 * 0) \<le> length (q # qs) * (length (q # qs) + 1 + 2 * k)"
      by (rule mult_le_mono2) simp
    with 3(2) [OF False] False show ?thesis by (simp only: fuzzyLoop.simps if_False)
  qed
qed simp_all

lemma subseq_includes: "strIncludes s p \<Longrightarrow> subseq p s"
  unfolding strIncludes_iff by (auto intro: list_emb_append2)

lemma fuzzy_includes:
  "strIncludes (lower t) (lower q) \<Longrightarrow>
     fr_matches (fuzzyMatch lower q t) \<and> 200 + length (lower q) \<le> fr_score (fuzzyMatch lower q t)"
  by (auto simp: strIncludes_def fuzzyMatch_def Let_def)

lemma fuzzy_sequential:
  assumes "\<not> strIncludes (lower t) (lower q)"
  shows "fr_matches (fuzzyMatch lower q t) \<longleftrightarrow> subseq (lower q) (lower t)"
    and "fr_score (fuzzyMatch lower q t) \<le> length (lower q) * (length (lower q) + 11)"
  using assms loop_subseq [of t 0 0 0 "lower q" "lower t"] loop_score [of t 0 0 0 "lower q" "lower t"]
  by (auto simp: strIncludes_def fuzzyMatch_def Let_def algebra_simps split: prod.splits)

text \<open>A text matches a query exactly if the characters of the query occur in it in order, but for case. For a
  query of up to nine code units, a text that contains the query always ranks before a text in
  which it is scattered.\<close>

theorem fuzzy_match_ranks:
  assumes "length (lower q) \<le> 9" "strIncludes (lower t) (lower q)" "\<not> strIncludes (lower u) (lower q)"
  shows "(fr_matches (fuzzyMatch lower q v) \<longleftrightarrow> subseq (lower q) (lower v)) \<and>
    fr_score (fuzzyMatch lower q u) < fr_score (fuzzyMatch lower q t)"
proof
  show "fr_matches (fuzzyMatch lower q v) \<longleftrightarrow> subseq (lower q) (lower v)"
    using fuzzy_includes [of lower v q] fuzzy_sequential(1) [of lower v q] subseq_includes by blast
  have "fr_score (fuzzyMatch lower q u) \<le> length (lower q) * (length (lower q) + 11)"
    using fuzzy_sequential(2) [of lower u q] assms(3) by blast
  also have "\<dots> \<le> 9 * (9 + 11)" by (rule mult_le_mono) (use assms(1) in simp_all)
  also have "\<dots> < 200 + length (lower q)" by simp
  also have "\<dots> \<le> fr_score (fuzzyMatch lower q t)" using fuzzy_includes [of lower t q] assms(2) by blast
  finally show "fr_score (fuzzyMatch lower q u) < fr_score (fuzzyMatch lower q t)" .
qed

theorem fuzzy_match_ranks_witness:
  "fr_score (fuzzyMatch (\<lambda>s. s) (js ''gen'') (js ''gardening'')) < fr_score (fuzzyMatch (\<lambda>s. s) (js ''gen'') (js ''general''))"
  using fuzzy_match_ranks [of "\<lambda>s. s" "js ''gen''" "js ''general''" "js ''gardening''"]
  by (simp add: js_eval strIncludes_def)

end
