(* ===== verification/Emoji.thy ===== *)
theory Emoji
  imports JsObjects Sorting "HOL-Library.AList"
begin

text \<open>
  The emoji functions of \<open>packages/shared/src/emoji.ts\<close>, over a table of categories (the table
  itself is in \<open>EmojiTable\<close>): the maps between shortcodes and emojis, the regular expression of
  the known emojis, skin tones, and the search. \<open>toLowerCase\<close> and \<open>localeCompare\<close> are arguments
  (\<open>lower\<close>, \<open>compare\<close>), as both rest on tables of the host.
\<close>

record emoji_entry =
  ee_emoji :: jsstring
  ee_aliases :: "jsstring list"
  ee_tags :: "jsstring list"
  ee_skinTones :: bool

record emoji_category =
  ec_id :: jsstring
  ec_label :: jsstring
  ec_icon :: jsstring
  ec_emojis :: "emoji_entry list"

section \<open>The maps\<close>

definition allEmojis :: "emoji_category list \<Rightarrow> emoji_entry list" where
  "allEmojis categories = concat (map ec_emojis categories)"

definition aliasPairs :: "emoji_category list \<Rightarrow> (jsstring \<times> jsstring) list" where
  "aliasPairs categories =
     concat (map (\<lambda>entry. map (\<lambda>alias. (alias, ee_emoji entry)) (ee_aliases entry)) (allEmojis categories))"

definition EMOJI_MAP :: "emoji_category list \<Rightarrow> jsstring \<rightharpoonup> jsstring" where
  "EMOJI_MAP categories = foldl (\<lambda>m (alias, emoji). m(alias \<mapsto> emoji)) Map.empty (aliasPairs categories)"

text \<open>The own properties of \<open>EMOJI_NAME\<close> in the order they were set; \<open>aliases[0]\<close> of no aliases is
  \<open>undefined\<close>.\<close>

definition EMOJI_NAME :: "emoji_category list \<Rightarrow> (jsstring \<times> jsstring option) list" where
  "EMOJI_NAME categories =
     foldl (\<lambda>m entry. AList.update (ee_emoji entry)
       (case ee_aliases entry of [] \<Rightarrow> None | a # _ \<Rightarrow> Some a) m) [] (allEmojis categories)"

text \<open>
  What \<open>EMOJI_MAP[name]\<close> evaluates to: \<open>EMOJI_MAP\<close> is a plain object, so a name that is not an
  alias may still be inherited (a value that is not a string).
\<close>

datatype shortcode_value = Unicode jsstring | InheritedValue | NoValue

definition resolveStandardShortcode :: "emoji_category list \<Rightarrow> jsstring \<Rightarrow> shortcode_value" where
  "resolveStandardShortcode categories name =
     (case EMOJI_MAP categories name of
        Some emoji \<Rightarrow> Unicode emoji
      | None \<Rightarrow> if name \<in> set OBJECT_PROTOTYPE then InheritedValue else NoValue)"

text \<open>
  The alternatives of \<open>UNICODE_EMOJI_RE\<close>, longest first; the expression matches where one of them
  does, the first in this order. (Emojis are no array indices: their first code unit is no digit
  or, in the keycaps, they end in U+20E3.)
\<close>

definition UNICODE_EMOJI_RE :: "emoji_category list \<Rightarrow> jsstring list" where
  "UNICODE_EMOJI_RE categories =
     js_sort (\<lambda>a b. int (length b) - int (length a)) (objectOrder (\<lambda>k. k) (map fst (EMOJI_NAME categories)))"

definition unicodeEmojiAt :: "emoji_category list \<Rightarrow> jsstring \<Rightarrow> jsstring option" where
  "unicodeEmojiAt categories s = find (startsWith s) (UNICODE_EMOJI_RE categories)"

section \<open>Skin tones\<close>

text \<open>\<open>[...s]\<close>: the code points, each of one code unit or a surrogate pair.\<close>

fun codePoints :: "jsstring \<Rightarrow> jsstring list" where
  "codePoints [] = []"
| "codePoints [c] = [[c]]"
| "codePoints (c # d # s) =
     (if 0xD800 \<le> c \<and> c \<le> 0xDBFF \<and> 0xDC00 \<le> d \<and> d \<le> 0xDFFF
      then [c, d] # codePoints s else [c] # codePoints (d # s))"

definition applySkinTone :: "jsstring \<Rightarrow> jsstring \<Rightarrow> jsstring" where
  "applySkinTone emoji tone =
     (if tone = [] then emoji
      else let cps = codePoints emoji
        in if cps = [] then emoji
           else let insertIdx = (if 1 < length cps \<and> cps ! 1 = [0xFE0F] then 2 else 1)
             in concat (take insertIdx cps) @ tone @ concat (drop insertIdx cps))"

definition SKIN_TONE_EMOJIS :: "emoji_category list \<Rightarrow> jsstring set" where
  "SKIN_TONE_EMOJIS categories = set (map ee_emoji (filter ee_skinTones (allEmojis categories)))"

section \<open>Search\<close>

text \<open>\<open>entry.aliases[0]\<close>; every entry of the table has an alias.\<close>

definition primaryAlias :: "emoji_entry \<Rightarrow> jsstring" where
  "primaryAlias entry = (case ee_aliases entry of [] \<Rightarrow> [] | a # _ \<Rightarrow> a)"

text \<open>A score, \<open>None\<close> for \<open>Infinity\<close>; \<open>above s n\<close> is \<open>s > n\<close>.\<close>

fun above :: "nat option \<Rightarrow> nat \<Rightarrow> bool" where
  "above None n = True"
| "above (Some s) n = (s > n)"

fun scoreAliases :: "jsstring \<Rightarrow> nat option \<times> jsstring \<Rightarrow> jsstring list \<Rightarrow> nat option \<times> jsstring" where
  "scoreAliases q best [] = best"
| "scoreAliases q best (alias # rest) =
     (if alias = q then (Some 0, alias)
      else if startsWith alias q \<and> above (fst best) 1 then scoreAliases q (Some 1, alias) rest
      else if strIncludes alias q \<and> above (fst best) 2 then scoreAliases q (Some 2, alias) rest
      else scoreAliases q best rest)"

fun scoreTags :: "jsstring \<Rightarrow> nat option \<Rightarrow> jsstring list \<Rightarrow> nat option" where
  "scoreTags q best [] = best"
| "scoreTags q best (tag # rest) =
     (if tag = q then Some 3
      else if startsWith tag q \<and> above best 4 then scoreTags q (Some 4) rest
      else if strIncludes tag q \<and> above best 5 then scoreTags q (Some 5) rest
      else scoreTags q best rest)"

record emoji_match =
  em_shortcode :: jsstring
  em_emoji :: jsstring
  em_score :: nat

definition scoreEntry :: "jsstring \<Rightarrow> emoji_entry \<Rightarrow> emoji_match option" where
  "scoreEntry q entry =
     (case scoreAliases q (None, primaryAlias entry) (ee_aliases entry) of
        (Some n, alias) \<Rightarrow> Some \<lparr>em_shortcode = alias, em_emoji = ee_emoji entry, em_score = n\<rparr>
      | (None, alias) \<Rightarrow>
          (case scoreTags q None (ee_tags entry) of
             None \<Rightarrow> None
           | Some n \<Rightarrow> Some \<lparr>em_shortcode = alias, em_emoji = ee_emoji entry, em_score = n\<rparr>))"

definition byScore :: "(jsstring \<Rightarrow> jsstring \<Rightarrow> int) \<Rightarrow> emoji_match \<Rightarrow> emoji_match \<Rightarrow> int" where
  "byScore compare a b =
     (let d = int (em_score a) - int (em_score b)
      in if d \<noteq> 0 then d else compare (em_shortcode a) (em_shortcode b))"

definition COMMON_EMOJIS :: "jsstring list" where
  "COMMON_EMOJIS = [[0xD83D, 0xDC4D], [0xD83D, 0xDC4E], [0x2764, 0xFE0F], [0xD83D, 0xDE02], [0xD83D, 0xDE2E],
     [0xD83D, 0xDE22], [0xD83C, 0xDF89], [0xD83D, 0xDD25], [0xD83D, 0xDC40], [0x2705], [0xD83D, 0xDE80],
     [0xD83D, 0xDCAF], [0xD83D, 0xDE4F], [0xD83D, 0xDC4F], [0xD83D, 0xDE0A], [0xD83E, 0xDD14]]"

definition searchEmojis ::
    "(jsstring \<Rightarrow> jsstring) \<Rightarrow> (jsstring \<Rightarrow> jsstring \<Rightarrow> int) \<Rightarrow> emoji_category list \<Rightarrow> jsstring \<Rightarrow> nat \<Rightarrow>
     (jsstring \<times> jsstring) list" where
  "searchEmojis lower compare categories query limit =
     (if query = []
      then map (\<lambda>emoji. (or_else (Option.bind (map_of (EMOJI_NAME categories) emoji) (\<lambda>n. n)) [], emoji))
        (take limit COMMON_EMOJIS)
      else map (\<lambda>m. (em_shortcode m, em_emoji m)) (take limit (js_sort (byScore compare)
        (List.map_filter (scoreEntry (lower query)) (allEmojis categories)))))"

record search_result =
  sr_shortcode :: jsstring
  sr_emoji :: "jsstring option"
  sr_isCustom :: bool
  sr_imageUrl :: "jsstring option"

text \<open>\<open>customEmojis\<close> are names and URLs.\<close>

definition searchAllEmojis ::
    "(jsstring \<Rightarrow> jsstring) \<Rightarrow> (jsstring \<Rightarrow> jsstring \<Rightarrow> int) \<Rightarrow> emoji_category list \<Rightarrow> jsstring \<Rightarrow> nat \<Rightarrow>
     (jsstring \<times> jsstring) list \<Rightarrow> search_result list" where
  "searchAllEmojis lower compare categories query limit customEmojis =
     (let standardResults = map (\<lambda>(s, e). \<lparr>sr_shortcode = s, sr_emoji = Some e, sr_isCustom = False,
            sr_imageUrl = None\<rparr>) (searchEmojis lower compare categories query limit)
      in if customEmojis = [] then standardResults
         else let lowerQuery = lower query;
           customResults = map (\<lambda>(n, u). \<lparr>sr_shortcode = n, sr_emoji = None, sr_isCustom = True,
             sr_imageUrl = Some u\<rparr>) (filter (\<lambda>(n, u). query = [] \<or> strIncludes n lowerQuery) customEmojis);
           exact = filter (\<lambda>r. sr_shortcode r = lowerQuery) customResults;
           starting = filter (\<lambda>r. sr_shortcode r \<noteq> lowerQuery \<and> startsWith (sr_shortcode r) lowerQuery) customResults;
           containing = filter (\<lambda>r. sr_shortcode r \<noteq> lowerQuery \<and> \<not> startsWith (sr_shortcode r) lowerQuery) customResults
         in take limit (exact @ starting @ standardResults @ containing))"

section \<open>The maps agree\<close>

lemma map_foldl: "foldl (\<lambda>m (k, v). m(k \<mapsto> v)) m ps = m ++ map_of (rev ps)"
  by (induction ps arbitrary: m) (auto simp: map_add_def split: option.splits)

lemma EMOJI_MAP_eq: "EMOJI_MAP categories = map_of (rev (aliasPairs categories))"
  by (simp add: EMOJI_MAP_def map_foldl)

lemma resolve_alias:
  assumes "distinct (map fst (aliasPairs categories))" "entry \<in> set (allEmojis categories)" "alias \<in> set (ee_aliases entry)"
  shows "resolveStandardShortcode categories alias = Unicode (ee_emoji entry)"
proof -
  have "(alias, ee_emoji entry) \<in> set (rev (aliasPairs categories))"
    using assms(2,3) by (auto simp: aliasPairs_def)
  moreover have "distinct (map fst (rev (aliasPairs categories)))"
    using assms(1) by (simp add: rev_map [symmetric])
  ultimately have "EMOJI_MAP categories alias = Some (ee_emoji entry)"
    by (simp add: EMOJI_MAP_eq)
  then show ?thesis by (simp add: resolveStandardShortcode_def)
qed

lemma find_sorted:
  "sorted_wrt R xs \<Longrightarrow> find P xs = Some x \<Longrightarrow> x \<in> set xs \<and> P x \<and> (\<forall>y \<in> set xs. P y \<longrightarrow> y = x \<or> R x y)"
  by (induction xs) (auto split: if_splits)

section \<open>The ranks of the search\<close>

definition emojiRank :: "jsstring \<Rightarrow> emoji_entry \<Rightarrow> nat option" where
  "emojiRank q e =
     (if q \<in> set (ee_aliases e) then Some 0
      else if list_ex (\<lambda>a. startsWith a q) (ee_aliases e) then Some 1
      else if list_ex (\<lambda>a. strIncludes a q) (ee_aliases e) then Some 2
      else if q \<in> set (ee_tags e) then Some 3
      else if list_ex (\<lambda>t. startsWith t q) (ee_tags e) then Some 4
      else if list_ex (\<lambda>t. strIncludes t q) (ee_tags e) then Some 5
      else None)"

lemma includes_if_starts: "startsWith a q \<Longrightarrow> strIncludes a q"
  by (auto simp: startsWith_iff strIncludes_iff)

lemma scoreAliases_rank:
  "b \<in> {None, Some 1, Some 2} \<Longrightarrow> fst (scoreAliases q (b, x) as) =
     (if q \<in> set as then Some 0
      else if list_ex (\<lambda>a. startsWith a q) as \<or> b = Some 1 then Some 1
      else if list_ex (\<lambda>a. strIncludes a q) as \<or> b = Some 2 then Some 2 else None)"
  by (induction as arbitrary: b x) (auto simp: includes_if_starts)

lemma scoreTags_rank:
  "b \<in> {None, Some 4, Some 5} \<Longrightarrow> scoreTags q b ts =
     (if q \<in> set ts then Some 3
      else if list_ex (\<lambda>a. startsWith a q) ts \<or> b = Some 4 then Some 4
      else if list_ex (\<lambda>a. strIncludes a q) ts \<or> b = Some 5 then Some 5 else None)"
proof (induction ts arbitrary: b)
  case (Cons t ts)
  from Cons.prems consider "b = None" | "b = Some 4" | "b = Some 5" by blast
  then show ?case by cases (simp_all add: Cons.IH includes_if_starts eq_commute [of t q])
qed auto

lemma scoreAliases_alias: "snd (scoreAliases q best as) \<in> insert (snd best) (set as)"
  by (induction q best as rule: scoreAliases.induct) auto

lemma score_rank: "map_option em_score (scoreEntry q e) = emojiRank q e"
proof -
  obtain n a where na: "scoreAliases q (None, primaryAlias e) (ee_aliases e) = (n, a)" by fastforce
  show ?thesis
  proof (cases n)
    case None
    with na have "emojiRank q e = scoreTags q None (ee_tags e)"
      using scoreAliases_rank [of None q "primaryAlias e" "ee_aliases e"] scoreTags_rank [of None q "ee_tags e"]
      by (simp add: emojiRank_def split: if_splits)
    with na None show ?thesis by (simp add: scoreEntry_def split: option.split)
  next
    case (Some k)
    with na have "emojiRank q e = Some k"
      using scoreAliases_rank [of None q "primaryAlias e" "ee_aliases e"]
      by (simp add: emojiRank_def split: if_splits)
    with na Some show ?thesis by (simp add: scoreEntry_def)
  qed
qed

lemma score_entry:
  "scoreEntry q e = Some m \<Longrightarrow> em_emoji m = ee_emoji e \<and> (ee_aliases e \<noteq> [] \<longrightarrow> em_shortcode m \<in> set (ee_aliases e))"
  using scoreAliases_alias [of q "(None, primaryAlias e)" "ee_aliases e"]
  by (auto simp: scoreEntry_def primaryAlias_def split: prod.splits option.splits list.splits)

lemma byScore_comparator: "comparator compare \<Longrightarrow> comparator (byScore compare)"
  unfolding comparator_def by (auto simp: byScore_def Let_def)

lemma mset_map_filter: "mset (List.map_filter f xs) = {#the y. y \<in># filter_mset (\<lambda>y. y \<noteq> None) (mset (map f xs))#}"
  by (induction xs) (auto simp: List.map_filter_simps split: option.split)

text \<open>The emojis that match, with their ranks.\<close>

definition rankedEmojis :: "jsstring \<Rightarrow> emoji_entry list \<Rightarrow> (jsstring \<times> nat) list" where
  "rankedEmojis q es = List.map_filter (\<lambda>e. map_option (\<lambda>n. (ee_emoji e, n)) (emojiRank q e)) es"

lemma scored_ranked:
  "map (\<lambda>m. (em_emoji m, em_score m)) (List.map_filter (scoreEntry q) es) = rankedEmojis q es"
proof (induction es)
  case (Cons e es)
  have "emojiRank q e = map_option em_score (scoreEntry q e)" by (simp add: score_rank)
  with Cons score_entry [of q e] show ?case
    by (cases "scoreEntry q e") (simp_all add: rankedEmojis_def List.map_filter_simps)
qed (simp add: rankedEmojis_def List.map_filter_simps)

text \<open>Where the alternatives of the regular expression match, the longest known emoji is taken.\<close>

lemma unicode_emoji_longest:
  assumes "unicodeEmojiAt categories s = Some e"
  shows "e \<in> set (UNICODE_EMOJI_RE categories) \<and> startsWith s e \<and>
    (\<forall>other \<in> set (UNICODE_EMOJI_RE categories). startsWith s other \<longrightarrow> length other \<le> length e)"
proof -
  have "sorted_wrt (\<lambda>a b. int (length b) - int (length a) \<le> 0) (UNICODE_EMOJI_RE categories)"
    unfolding UNICODE_EMOJI_RE_def by (rule by_desc.sort_sorted)
  from find_sorted [OF this assms [unfolded unicodeEmojiAt_def]] show ?thesis by auto
qed

text \<open>A skin tone is inserted into the emoji, which is otherwise unchanged.\<close>

lemma concat_codePoints: "concat (codePoints s) = s"
  by (induction s rule: codePoints.induct) auto

lemma skin_tone_inserted: "\<exists>a b. emoji = a @ b \<and> applySkinTone emoji tone \<in> {emoji, a @ tone @ b}"
proof -
  have "concat (take n (codePoints emoji)) @ concat (drop n (codePoints emoji)) = emoji" for n
    by (simp add: concat_append [symmetric] concat_codePoints)
  then show ?thesis unfolding applySkinTone_def Let_def by (metis insert_iff)
qed

section \<open>Properties\<close>

text \<open>A search finds exactly the emojis with an alias or a tag that contains the query, ordered by how well
  they match - an alias that is the query, starts with it or contains it, then a tag likewise - and
  returns the first of them; so the loops with their early exits compute the rank as specified.\<close>

theorem emoji_search:
  assumes "query \<noteq> []" "comparator compare"
  shows "\<exists>found :: emoji_match list. searchEmojis lower compare categories query limit =
      map (\<lambda>m. (em_shortcode m, em_emoji m)) (take limit found) \<and>
    mset (map (\<lambda>m. (em_emoji m, em_score m)) found) = mset (rankedEmojis (lower query) (allEmojis categories)) \<and>
    sorted (map em_score found)"
proof -
  let ?ms = "List.map_filter (scoreEntry (lower query)) (allEmojis categories)"
  let ?found = "js_sort (byScore compare) ?ms"
  have "searchEmojis lower compare categories query limit = map (\<lambda>m. (em_shortcode m, em_emoji m)) (take limit ?found)"
    using assms(1) by (simp add: searchEmojis_def)
  moreover have "mset (map (\<lambda>m. (em_emoji m, em_score m)) ?found) = mset (rankedEmojis (lower query) (allEmojis categories))"
    using scored_ranked [of "lower query" "allEmojis categories"] by (metis mset_js_sort mset_map)
  moreover have "sorted (map em_score ?found)"
  proof -
  have "sorted_wrt (\<lambda>a b. byScore compare a b \<le> 0) ?found"
    by (rule comparator.sort_sorted) (rule byScore_comparator [OF assms(2)])
  then have "sorted_wrt (\<lambda>a b. em_score a \<le> em_score b) ?found"
    by (rule sorted_wrt_mono_rel [rotated]) (auto simp: byScore_def Let_def split: if_splits)
  then show ?thesis by (simp add: sorted_map)
  qed
  ultimately show ?thesis by blast
qed

theorem emoji_search_witness:
  "\<exists>found :: emoji_match list. searchEmojis (\<lambda>s. s) (\<lambda>a b. 0)
       [\<lparr>ec_id = js ''a'', ec_label = [], ec_icon = [], ec_emojis =
         [\<lparr>ee_emoji = [1], ee_aliases = [js ''smiley''], ee_tags = [], ee_skinTones = False\<rparr>,
          \<lparr>ee_emoji = [2], ee_aliases = [js ''smile''], ee_tags = [], ee_skinTones = False\<rparr>]\<rparr>] (js ''smile'') 10 =
     map (\<lambda>m. (em_shortcode m, em_emoji m)) (take 10 found) \<and> sorted (map em_score found)"
proof -
  have "comparator (\<lambda>(a :: jsstring) (b :: jsstring). 0)" by unfold_locales auto
  from emoji_search [OF _ this, of "js ''smile''" "\<lambda>s. s"] show ?thesis by (simp; blast)
qed

end
