(* ===== verification/Mentions.thy ===== *)
theory Mentions
  imports FuzzyMatch Emoji ApiTypes
begin

text \<open>
  Typing a mention: \<open>packages/shared/src/mentions.ts\<close>, \<open>hooks/useMentions.ts\<close>, and on mobile
  \<open>apps/mobile/src/lib/buildSuggestions.ts\<close> and \<open>applyFormat.ts\<close>. Cursor positions and indices are
  natural numbers (the cursor of an input field is never negative).

  The three loops that look backwards for the character a mention starts with are modelled
  separately; \<open>triggered\<close> is what they have to find.
\<close>

abbreviation SPACE :: code_unit where "SPACE \<equiv> ch CHR '' ''"
abbreviation AT :: code_unit where "AT \<equiv> ch CHR ''@''"
abbreviation LF :: code_unit where "LF \<equiv> 10"

definition breaks :: "code_unit \<Rightarrow> bool" where
  "breaks c = (c = SPACE \<or> c = LF)"

text \<open>\<open>i === 0 || s[i - 1] === ' ' || s[i - 1] === '\n'\<close>\<close>

definition atBoundary :: "jsstring \<Rightarrow> nat \<Rightarrow> bool" where
  "atBoundary s i = (i = 0 \<or> breaks (s ! (i - 1)))"

section \<open>Mentions in a text field\<close>

datatype mention_type = UserOption | SpecialOption

record mention_option =
  mo_type :: mention_type
  mo_id :: jsstring
  mo_displayName :: jsstring
  mo_avatarUrl :: "jsstring option"
  mo_gravatarUrl :: "jsstring option"

record mention_trigger =
  mt_query :: jsstring
  mt_startIndex :: nat

definition specialMention :: "string \<Rightarrow> mention_option" where
  "specialMention s = \<lparr>mo_type = SpecialOption, mo_id = js s, mo_displayName = js s, mo_avatarUrl = None, mo_gravatarUrl = None\<rparr>"

definition SPECIAL_MENTIONS :: "mention_option list" where
  "SPECIAL_MENTIONS = [specialMention ''here'', specialMention ''channel'', specialMention ''everyone'']"

text \<open>The loop from index \<open>i - 1\<close> down.\<close>

fun mentionLoop :: "jsstring \<Rightarrow> nat \<Rightarrow> nat option" where
  "mentionLoop s 0 = None"
| "mentionLoop s (Suc i) =
     (if breaks (s ! i) then None
      else if s ! i = AT then (if atBoundary s i then Some i else None)
      else mentionLoop s i)"

definition parseMentionTrigger :: "jsstring \<Rightarrow> nat \<Rightarrow> mention_trigger option" where
  "parseMentionTrigger content cursorPos =
     (let textBeforeCursor = take cursorPos content
      in case mentionLoop textBeforeCursor (length textBeforeCursor) of
           None \<Rightarrow> None
         | Some atIndex \<Rightarrow> Some \<lparr>mt_query = drop (atIndex + 1) textBeforeCursor, mt_startIndex = atIndex\<rparr>)"

definition insertMention :: "jsstring \<Rightarrow> mention_trigger \<Rightarrow> mention_option \<Rightarrow> jsstring \<times> nat" where
  "insertMention content trigger mention =
     (let before = take (mt_startIndex trigger) content;
          after = drop (mt_startIndex trigger + length (mt_query trigger) + 1) content;
          mentionText = js ''@'' @ mo_displayName mention @ js '' ''
      in (before @ mentionText @ after, length before + length mentionText))"

section \<open>The options offered\<close>

definition memberOption :: "workspace_member \<Rightarrow> mention_option" where
  "memberOption m = \<lparr>mo_type = UserOption, mo_id = mem_user_id m, mo_displayName = mem_display_name m,
     mo_avatarUrl = mem_avatar_url m, mo_gravatarUrl = mem_gravatar_url m\<rparr>"

definition byPrefix :: "(jsstring \<Rightarrow> jsstring) \<Rightarrow> (jsstring \<Rightarrow> jsstring \<Rightarrow> int) \<Rightarrow> jsstring \<Rightarrow> mention_option \<Rightarrow> mention_option \<Rightarrow> int" where
  "byPrefix lower compare query a b =
     (let aStartsWith = startsWith (lower (mo_displayName a)) query;
          bStartsWith = startsWith (lower (mo_displayName b)) query
      in if aStartsWith \<and> \<not> bStartsWith then -1
         else if \<not> aStartsWith \<and> bStartsWith then 1
         else compare (mo_displayName a) (mo_displayName b))"

definition useMentions ::
    "(jsstring \<Rightarrow> jsstring) \<Rightarrow> (jsstring \<Rightarrow> jsstring \<Rightarrow> int) \<Rightarrow> workspace_member list option \<Rightarrow> jsstring \<Rightarrow> nat \<Rightarrow>
     mention_trigger option \<times> mention_option list" where
  "useMentions lower compare members content cursorPosition =
     (let trigger = parseMentionTrigger content cursorPosition
      in (trigger,
          case trigger of
            None \<Rightarrow> []
          | Some t \<Rightarrow>
              let query = lower (mt_query t);
                  allOptions = map memberOption (or_empty members) @ SPECIAL_MENTIONS
              in js_sort (byPrefix lower compare query)
                   (filter (\<lambda>option. strIncludes (lower (mo_displayName option)) query) allOptions)))"

section \<open>Suggestions on mobile\<close>

text \<open>The avatar of a suggestion shows the fields of the member it carries.\<close>

record suggestion =
  sg_id :: jsstring
  sg_displayText :: jsstring
  sg_token :: jsstring
  sg_icon :: "jsstring option"
  sg_avatarUser :: "workspace_member option"

definition TRIGGER_CHARS :: "code_unit set" where
  "TRIGGER_CHARS = {AT, ch CHR ''#'', ch CHR '':''}"

fun detectLoop :: "jsstring \<Rightarrow> nat \<Rightarrow> (code_unit \<times> jsstring) option" where
  "detectLoop s 0 = None"
| "detectLoop s (Suc i) =
     (if breaks (s ! i) then None
      else if s ! i \<in> TRIGGER_CHARS then (if atBoundary s i then Some (s ! i, drop (Suc i) s) else None)
      else detectLoop s i)"

definition detectTrigger :: "jsstring \<Rightarrow> nat \<Rightarrow> (code_unit \<times> jsstring) option" where
  "detectTrigger text_s cursorPos =
     (let before = take cursorPos text_s in detectLoop before (length before))"

definition specialSuggestion :: "mention_option \<Rightarrow> suggestion" where
  "specialSuggestion m = \<lparr>sg_id = js ''special-'' @ mo_id m, sg_displayText = mo_displayName m,
     sg_token = js ''<!'' @ mo_id m @ js ''>'', sg_icon = Some [0xD83D, 0xDCE2], sg_avatarUser = None\<rparr>"

definition memberSuggestion :: "workspace_member \<Rightarrow> suggestion" where
  "memberSuggestion m = \<lparr>sg_id = mem_user_id m, sg_displayText = mem_display_name m,
     sg_token = js ''<@'' @ mem_user_id m @ js ''>'', sg_icon = None, sg_avatarUser = Some m\<rparr>"

definition channelSuggestion :: "channel_with_membership \<Rightarrow> suggestion" where
  "channelSuggestion c = \<lparr>sg_id = ch_id c, sg_displayText = ch_name c,
     sg_token = js ''<#'' @ ch_id c @ js ''>'', sg_icon = Some (js ''#''), sg_avatarUser = None\<rparr>"

definition emojiSuggestion :: "search_result \<Rightarrow> suggestion" where
  "emojiSuggestion e = \<lparr>sg_id = sr_shortcode e, sg_displayText = sr_shortcode e,
     sg_token = js '':'' @ sr_shortcode e @ js '':'', sg_icon = sr_emoji e, sg_avatarUser = None\<rparr>"

definition buildSuggestions ::
    "(jsstring \<Rightarrow> jsstring) \<Rightarrow> (jsstring \<Rightarrow> jsstring \<Rightarrow> int) \<Rightarrow> emoji_category list \<Rightarrow> jsstring \<Rightarrow> nat \<Rightarrow>
     workspace_member list option \<Rightarrow> channel_with_membership list option \<Rightarrow> suggestion list" where
  "buildSuggestions lower compare table text_s cursorPosition members chans =
     (case detectTrigger text_s cursorPosition of
        None \<Rightarrow> []
      | Some (c, q) \<Rightarrow>
          let query = lower q;
              wanted = (\<lambda>name. query = [] \<or> fr_matches (fuzzyMatch lower query name))
          in if c = AT
             then take 5 (map specialSuggestion (filter (\<lambda>m. wanted (mo_displayName m)) SPECIAL_MENTIONS) @
               map memberSuggestion (filter (\<lambda>m. wanted (mem_display_name m)) (or_empty members)))
             else if c = ch CHR ''#''
             then take 5 (map channelSuggestion (filter (\<lambda>x.
               \<not> (ch_type x = DmChannel \<or> ch_type x = GroupDmChannel) \<and> wanted (ch_name x)) (or_empty chans)))
             else if c = ch CHR '':''
             then (if length query < 2 then []
               else map emojiSuggestion (searchAllEmojis lower compare table query 5 []))
             else [])"

section \<open>Formatting and inserting on mobile\<close>

record format_action =
  fa_label :: jsstring
  fa_prefix :: jsstring
  fa_suffix :: jsstring

definition FORMAT_ACTIONS :: "format_action list" where
  "FORMAT_ACTIONS =
     [\<lparr>fa_label = js ''B'', fa_prefix = js ''*'', fa_suffix = js ''*''\<rparr>,
      \<lparr>fa_label = js ''I'', fa_prefix = js ''_'', fa_suffix = js ''_''\<rparr>,
      \<lparr>fa_label = js ''S'', fa_prefix = js ''~'', fa_suffix = js ''~''\<rparr>,
      \<lparr>fa_label = js ''<>'', fa_prefix = js ''`'', fa_suffix = js ''`''\<rparr>,
      \<lparr>fa_label = js ''>'', fa_prefix = js ''> '', fa_suffix = []\<rparr>,
      \<lparr>fa_label = [0x2022], fa_prefix = [0x2022, SPACE], fa_suffix = []\<rparr>]"

definition applyFormat :: "jsstring \<Rightarrow> nat \<times> nat \<Rightarrow> format_action \<Rightarrow> jsstring" where
  "applyFormat text_s selection action =
     take (fst selection) text_s @ fa_prefix action @ slice text_s (fst selection) (snd selection) @
     fa_suffix action @ drop (snd selection) text_s"

fun findLoop :: "jsstring \<Rightarrow> nat \<Rightarrow> nat option" where
  "findLoop s 0 = None"
| "findLoop s (Suc i) =
     (if breaks (s ! i) then None
      else if s ! i \<in> TRIGGER_CHARS then (if atBoundary s i then Some i else None)
      else findLoop s i)"

definition findTriggerIndex :: "jsstring \<Rightarrow> nat \<Rightarrow> nat option" where
  "findTriggerIndex text_s cursorPosition =
     (let before = take cursorPosition text_s in findLoop before (length before))"

definition insertMentionToken :: "jsstring \<Rightarrow> nat \<Rightarrow> jsstring \<Rightarrow> (jsstring \<times> nat) option" where
  "insertMentionToken text_s cursorPosition token =
     (case findTriggerIndex text_s cursorPosition of
        None \<Rightarrow> None
      | Some triggerIndex \<Rightarrow>
          let before = take triggerIndex text_s; after = drop cursorPosition text_s
          in Some (before @ token @ js '' '' @ after, length before + length token + 1))"

section \<open>What the backward loops find\<close>

fun scanBack :: "(code_unit \<Rightarrow> bool) \<Rightarrow> jsstring \<Rightarrow> nat \<Rightarrow> nat option" where
  "scanBack P s 0 = None"
| "scanBack P s (Suc i) =
     (if breaks (s ! i) then None
      else if P (s ! i) then (if atBoundary s i then Some i else None)
      else scanBack P s i)"

lemma loops_scan:
  "mentionLoop s n = scanBack (\<lambda>c. c = AT) s n"
  "findLoop s n = scanBack (\<lambda>c. c \<in> TRIGGER_CHARS) s n"
  "detectLoop s n = map_option (\<lambda>i. (s ! i, drop (Suc i) s)) (scanBack (\<lambda>c. c \<in> TRIGGER_CHARS) s n)"
  by (induction n) simp_all

text \<open>The word before the cursor starts with the character looked for, and has no other one.\<close>

lemma scanBack_Some:
  "scanBack P s n = Some i \<longleftrightarrow>
     i < n \<and> P (s ! i) \<and> \<not> breaks (s ! i) \<and> atBoundary s i \<and> (\<forall>j. i < j \<and> j < n \<longrightarrow> \<not> breaks (s ! j) \<and> \<not> P (s ! j))"
  by (induction n) (auto simp: less_Suc_eq)

lemma scanBack_space: "breaks (s ! n) \<Longrightarrow> scanBack P s (Suc n) = None"
  by simp

lemma detect_find:
  "detectTrigger s n = map_option (\<lambda>i. (take n s ! i, drop (Suc i) (take n s))) (findTriggerIndex s n)"
  by (simp add: detectTrigger_def findTriggerIndex_def loops_scan Let_def)

lemma parse_scan:
  "parseMentionTrigger s n = map_option (\<lambda>i. \<lparr>mt_query = drop (Suc i) (take n s), mt_startIndex = i\<rparr>)
     (scanBack (\<lambda>c. c = AT) (take n s) (length (take n s)))"
  by (auto simp: parseMentionTrigger_def loops_scan Let_def split: option.split)

text \<open>Both modules find the same mention of a user; only the shared one also looks past other triggers.\<close>

lemma at_trigger_agree:
  "detectTrigger s n = Some (AT, q) \<Longrightarrow> \<exists>i. parseMentionTrigger s n = Some \<lparr>mt_query = q, mt_startIndex = i\<rparr>"
  by (auto simp: detect_find findTriggerIndex_def loops_scan parse_scan Let_def scanBack_Some TRIGGER_CHARS_def)

lemma at_most_five: "length (buildSuggestions lower compare table s n members chans) \<le> 5"
proof -
  have "length (searchAllEmojis lower compare table q 5 []) \<le> 5" for q
    by (simp add: searchAllEmojis_def searchEmojis_def Let_def)
  then show ?thesis by (auto simp: buildSuggestions_def Let_def split: option.split prod.split)
qed

text \<open>After an insertion that ends with a space nothing is being mentioned any more.\<close>

lemma no_trigger_after_space: "findTriggerIndex (a @ [SPACE] @ b) (length a + 1) = None"
  by (simp add: findTriggerIndex_def loops_scan breaks_def nth_append)

section \<open>Properties\<close>

text \<open>C25: A suggestion is offered for the word before the cursor that starts, after a blank or at the start of
  the text, with a trigger; choosing one replaces exactly this word by the token and a space, puts
  the cursor behind it, and ends the suggesting.\<close>

theorem suggestion_replaces_word:
  assumes "detectTrigger s cursor = Some (c, q)" "cursor \<le> length s"
  shows "\<exists>before. s = before @ c # q @ drop cursor s \<and> (before = [] \<or> breaks (last before)) \<and>
    list_all (\<lambda>d. \<not> breaks d \<and> d \<notin> TRIGGER_CHARS) q \<and>
    insertMentionToken s cursor token =
      Some (before @ token @ [SPACE] @ drop cursor s, length before + length token + 1) \<and>
    detectTrigger (before @ token @ [SPACE] @ drop cursor s) (length before + length token + 1) = None"
proof -
  from assms(1) obtain i where i: "findTriggerIndex s cursor = Some i" "c = take cursor s ! i"
      "q = drop (Suc i) (take cursor s)"
    by (auto simp: detect_find)
  from i(1) assms(2) have found: "i < cursor" "atBoundary (take cursor s) i"
      "\<forall>j. i < j \<and> j < cursor \<longrightarrow> \<not> breaks (s ! j) \<and> s ! j \<notin> TRIGGER_CHARS"
    by (auto simp: findTriggerIndex_def loops_scan Let_def scanBack_Some)
  have "take cursor s = take i s @ c # q"
    using found(1) assms(2) i(2,3) by (metis id_take_nth_drop length_take less_imp_le min.absorb2 min.absorb3 take_take)
  then have "s = take i s @ c # q @ drop cursor s"
    by (metis append.assoc append_Cons append_take_drop_id)
  moreover have "take i s = [] \<or> breaks (last (take i s))"
    using found(1,2) assms(2) by (cases i) (auto simp: atBoundary_def take_Suc_conv_app_nth)
  moreover have "list_all (\<lambda>d. \<not> breaks d \<and> d \<notin> TRIGGER_CHARS) q"
    using found(3) i(3) assms(2) by (auto simp: list_all_length)
  moreover have "insertMentionToken s cursor token =
      Some (take i s @ token @ [SPACE] @ drop cursor s, length (take i s) + length token + 1)"
    using i(1) by (simp add: insertMentionToken_def js_eval)
  moreover have "detectTrigger (take i s @ token @ [SPACE] @ drop cursor s) (length (take i s) + length token + 1) = None"
    using no_trigger_after_space [of "take i s @ token" "drop cursor s"] by (simp add: detect_find)
  ultimately show ?thesis by blast
qed

lemma detectLoop_numeral:
  "detectLoop s (numeral k) =
     (if breaks (s ! pred_numeral k) then None
      else if s ! pred_numeral k \<in> TRIGGER_CHARS
        then (if atBoundary s (pred_numeral k) then Some (s ! pred_numeral k, drop (numeral k) s) else None)
      else detectLoop s (pred_numeral k))"
  by (simp add: numeral_eq_Suc)

theorem suggestion_replaces_word_witness:
  "insertMentionToken (js ''hi @an there'') 6 (js ''<@U1>'') = Some (js ''hi <@U1>  there'', 9)"
proof -
  have "detectTrigger (js ''hi @an there'') 6 = Some (AT, js ''an'')"
    by (simp add: detectTrigger_def js_eval detectLoop_numeral TRIGGER_CHARS_def breaks_def atBoundary_def)
  from suggestion_replaces_word [OF this, of "js ''<@U1>''"] show ?thesis
    by (auto simp: js_eval append_eq_Cons_conv)
qed

end
