(* ===== verification/Rendering.thy ===== *)
theory Rendering
  imports Emoji Mrkdwn ApiTypes
begin

text \<open>
  Showing a parsed message: \<open>apps/web/src/lib/mrkdwn/renderer.tsx\<close> with the badges of
  \<open>components/message/MentionBadge.tsx\<close> and \<open>ChannelMentionBadge.tsx\<close>, and
  \<open>apps/mobile/src/components/MrkdwnRenderer.tsx\<close>. A tree of React elements is a \<open>web_node\<close> or a
  \<open>mobile_node\<close>, with what it shows and where it leads; classes and styles that do not depend on the
  message are left out.

  The emoji table is the argument \<open>table\<close>. A shortcode that names an inherited property of the map
  of the emojis resolves to a value that is not a string, of which React shows nothing.
\<close>

section \<open>The web\<close>

datatype web_node =
    WSpan jsstring
  | WStrong jsstring
  | WEm jsstring
  | WStrike jsstring
  | WCode jsstring
  | WPre jsstring
  | WQuote "web_node list"
  | WBulletList "web_node list list"
  | WOrderedList "web_node list list"
  | WUserMention jsstring jsstring
  | WSpecialMention jsstring
  | WChannelMention bool jsstring
  | WPrivateChannel
  | WEmoji jsstring "jsstring option"
  | WCustomEmoji jsstring jsstring bool
  | WLink jsstring jsstring
  | WBreak

record web_context =
  wc_table :: "emoji_category list"
  wc_members :: "workspace_member list"
  wc_channels :: "channel_with_membership list"
  wc_customEmojis :: "jsstring \<rightharpoonup> custom_emoji"

text \<open>The last member with an id wins; a user id is no name of an inherited property.\<close>

definition memberMap :: "workspace_member list \<Rightarrow> jsstring \<rightharpoonup> workspace_member" where
  "memberMap members = map_of (rev (map (\<lambda>m. (mem_user_id m, m)) members))"

definition userMentionBadge :: "jsstring \<Rightarrow> workspace_member option \<Rightarrow> web_node" where
  "userMentionBadge userId m =
     WUserMention userId (js ''@'' @ or_else (map_option mem_display_name m) (js ''Unknown User''))"

definition channelMentionBadge :: "jsstring \<Rightarrow> channel_with_membership list \<Rightarrow> web_node" where
  "channelMentionBadge channelId chans =
     (case find (\<lambda>c. ch_id c = channelId) chans of
        None \<Rightarrow> WPrivateChannel
      | Some c \<Rightarrow> WChannelMention (ch_type c = PrivateChannel) (ch_name c))"

definition webEmoji :: "web_context \<Rightarrow> bool \<Rightarrow> jsstring \<Rightarrow> web_node" where
  "webEmoji ctx emojiOnly name =
     (case resolveStandardShortcode (wc_table ctx) name of
        Unicode e \<Rightarrow> WEmoji (js '':'' @ name @ js '':'') (Some e)
      | InheritedValue \<Rightarrow> WEmoji (js '':'' @ name @ js '':'') None
      | NoValue \<Rightarrow>
          (case wc_customEmojis ctx name of
             Some custom \<Rightarrow> WCustomEmoji (em_name custom) (em_url custom) emojiOnly
           | None \<Rightarrow> WSpan (js '':'' @ name @ js '':'')))"

fun renderSegment :: "web_context \<Rightarrow> bool \<Rightarrow> segment \<Rightarrow> web_node" where
  "renderSegment ctx emojiOnly (Text t) = WSpan t"
| "renderSegment ctx emojiOnly (Bold t) = WStrong t"
| "renderSegment ctx emojiOnly (Italic t) = WEm t"
| "renderSegment ctx emojiOnly (Strike t) = WStrike t"
| "renderSegment ctx emojiOnly (Code t) = WCode t"
| "renderSegment ctx emojiOnly (CodeBlock t lang) = WPre t"
| "renderSegment ctx emojiOnly (Blockquote ss) = WQuote (map (renderSegment ctx False) ss)"
| "renderSegment ctx emojiOnly (BulletList items) = WBulletList (map (map (renderSegment ctx False)) items)"
| "renderSegment ctx emojiOnly (OrderedList items) = WOrderedList (map (map (renderSegment ctx False)) items)"
| "renderSegment ctx emojiOnly (UserMention u) = userMentionBadge u (memberMap (wc_members ctx) u)"
| "renderSegment ctx emojiOnly (SpecialMention t) = WSpecialMention (js ''@'' @ t)"
| "renderSegment ctx emojiOnly (ChannelMention c) = channelMentionBadge c (wc_channels ctx)"
| "renderSegment ctx emojiOnly (EmojiShortcode name) = webEmoji ctx emojiOnly name"
| "renderSegment ctx emojiOnly (Link url t) = WLink url t"
| "renderSegment ctx emojiOnly LineBreak = WBreak"

text \<open>The message, and whether it is shown large.\<close>

definition renderWeb :: "web_context \<Rightarrow> jsstring \<Rightarrow> bool \<times> web_node list" where
  "renderWeb ctx content =
     (let segments = parseMrkdwn content; emojiOnly = isEmojiOnly segments
      in (emojiOnly, map (renderSegment ctx emojiOnly) segments))"

section \<open>Mobile\<close>

datatype text_style = PlainStyle | BoldStyle | ItalicStyle | StrikeStyle | CodeStyle

datatype mobile_node =
    MText text_style jsstring
  | MCodeBlock jsstring
  | MLink jsstring jsstring
  | MUserMention jsstring jsstring
  | MChannelMention jsstring jsstring
  | MSpecialMention jsstring
  | MNothing
  | MQuote "mobile_node list"
  | MList "(jsstring \<times> mobile_node list) list"

record mobile_context =
  mc_table :: "emoji_category list"
  mc_members :: "workspace_member list option"
  mc_channels :: "channel_with_membership list option"

definition BULLET_MARK :: jsstring where
  "BULLET_MARK = [0x2022]"

text \<open>The mark before the item of index \<open>i\<close>.\<close>

definition itemMark :: "bool \<Rightarrow> nat \<Rightarrow> jsstring" where
  "itemMark ordered i = (if ordered then js_nat (i + 1) @ js ''.'' else BULLET_MARK)"

definition mobileUserName :: "mobile_context \<Rightarrow> jsstring \<Rightarrow> jsstring" where
  "mobileUserName ctx u =
     (case find (\<lambda>m. mem_user_id m = u) (or_empty (mc_members ctx)) of
        Some m \<Rightarrow> mem_display_name m | None \<Rightarrow> js ''Unknown'')"

definition mobileChannelName :: "mobile_context \<Rightarrow> jsstring \<Rightarrow> jsstring" where
  "mobileChannelName ctx c =
     (case find (\<lambda>x. ch_id x = c) (or_empty (mc_channels ctx)) of
        Some x \<Rightarrow> ch_name x | None \<Rightarrow> js ''unknown'')"

definition mobileEmoji :: "mobile_context \<Rightarrow> jsstring \<Rightarrow> mobile_node" where
  "mobileEmoji ctx name =
     (case resolveStandardShortcode (mc_table ctx) name of
        Unicode e \<Rightarrow> MText PlainStyle e
      | InheritedValue \<Rightarrow> MNothing
      | NoValue \<Rightarrow> MText PlainStyle (js '':'' @ name @ js '':''))"

fun mobileSegment :: "mobile_context \<Rightarrow> segment \<Rightarrow> mobile_node" where
  "mobileSegment ctx (Text t) = MText PlainStyle t"
| "mobileSegment ctx (Bold t) = MText BoldStyle t"
| "mobileSegment ctx (Italic t) = MText ItalicStyle t"
| "mobileSegment ctx (Strike t) = MText StrikeStyle t"
| "mobileSegment ctx (Code t) = MText CodeStyle t"
| "mobileSegment ctx (CodeBlock t lang) = MCodeBlock t"
| "mobileSegment ctx (Link url t) = MLink url t"
| "mobileSegment ctx (UserMention u) = MUserMention u (js ''@'' @ mobileUserName ctx u)"
| "mobileSegment ctx (ChannelMention c) = MChannelMention c (js ''#'' @ mobileChannelName ctx c)"
| "mobileSegment ctx (SpecialMention t) = MSpecialMention (js ''@'' @ t)"
| "mobileSegment ctx (EmojiShortcode name) = mobileEmoji ctx name"
| "mobileSegment ctx (Blockquote ss) = MQuote (map (mobileSegment ctx) ss)"
| "mobileSegment ctx (BulletList items) =
     MList (zip (map (itemMark False) [0..<length items]) (map (map (mobileSegment ctx)) items))"
| "mobileSegment ctx (OrderedList items) =
     MList (zip (map (itemMark True) [0..<length items]) (map (map (mobileSegment ctx)) items))"
| "mobileSegment ctx LineBreak = MText PlainStyle [NEWLINE]"

definition renderMobile :: "mobile_context \<Rightarrow> jsstring \<Rightarrow> bool \<times> mobile_node list" where
  "renderMobile ctx content =
     (let segments = parseMrkdwn content in (isEmojiOnly segments, map (mobileSegment ctx) segments))"

text \<open>\<open>openSafeURL\<close>: whether pressing a link opens it; \<open>/i\<close> ignores the case of ASCII letters.\<close>

definition asciiLower :: "code_unit \<Rightarrow> code_unit" where
  "asciiLower c = (if ch CHR ''A'' \<le> c \<and> c \<le> ch CHR ''Z'' then c + 32 else c)"

definition openSafeURL :: "jsstring \<Rightarrow> bool" where
  "openSafeURL url =
     (startsWith (map asciiLower url) (js ''http://'') \<or> startsWith (map asciiLower url) (js ''https://''))"

section \<open>Links\<close>

fun links :: "segment \<Rightarrow> jsstring list" where
  "links (Link url t) = [url]"
| "links (Blockquote ss) = concat (map links ss)"
| "links (BulletList items) = concat (map (\<lambda>item. concat (map links item)) items)"
| "links (OrderedList items) = concat (map (\<lambda>item. concat (map links item)) items)"
| "links _ = []"

fun hrefs :: "web_node \<Rightarrow> jsstring list" where
  "hrefs (WLink url t) = [url]"
| "hrefs (WQuote ns) = concat (map hrefs ns)"
| "hrefs (WBulletList items) = concat (map (\<lambda>item. concat (map hrefs item)) items)"
| "hrefs (WOrderedList items) = concat (map (\<lambda>item. concat (map hrefs item)) items)"
| "hrefs _ = []"

fun pressables :: "mobile_node \<Rightarrow> jsstring list" where
  "pressables (MLink url t) = [url]"
| "pressables (MQuote ns) = concat (map pressables ns)"
| "pressables (MList items) = concat (map (\<lambda>(mark, item). concat (map pressables item)) items)"
| "pressables _ = []"

definition webUrl :: "jsstring \<Rightarrow> bool" where
  "webUrl url = (startsWith url (js ''http://'') \<or> startsWith url (js ''https://''))"

lemma is_url_web: "is_url p u \<Longrightarrow> webUrl u"
  by (auto simp: is_url_def webUrl_def startsWith_iff)

abbreviation safe :: "segment \<Rightarrow> bool" where
  "safe s \<equiv> list_all webUrl (links s)"

lemma match_safe: "matchInline s = Some (seg, r) \<Longrightarrow> safe seg"
proof -
  have "f \<in> set inlinePatterns \<Longrightarrow> f s = Some (seg, r) \<Longrightarrow> safe seg" for f
    by (auto simp: inlinePatterns_def dest!: link_Some plain_Some is_url_web)
  then show "matchInline s = Some (seg, r) \<Longrightarrow> safe seg"
    unfolding matchInline_def by (blast dest: firstMatch_Some)
qed

lemma append_safe: "list_all safe segs \<Longrightarrow> list_all safe (appendText segs t)"
proof (cases segs rule: rev_cases)
  case (snoc front seg)
  then show "list_all safe segs \<Longrightarrow> ?thesis" by (cases seg) (auto simp: appendText_def)
qed (simp add: appendText_def)

lemma inlineLoop_safe: "list_all safe segs \<Longrightarrow> list_all safe (inlineLoop segs remaining)"
proof (induction segs remaining rule: inlineLoop.induct)
  case (1 segs remaining)
  have "list_all safe (segs @ [seg])" if "matchInline remaining = Some (seg, rest)" for seg rest
    using match_safe [OF that] "1.prems" by simp
  with 1 show ?case
    by (subst inlineLoop.simps) (auto split: option.splits simp: append_safe)
qed

lemma inline_safe: "list_all safe (parseInline t)"
  by (simp add: parseInline_def inlineLoop_safe)

lemma inline_links: "list_all webUrl (concat (map links (parseInline t)))"
  using inline_safe [of t] by (auto simp: list_all_iff)

lemma list_links: "list_all webUrl (links (BulletList (map (\<lambda>l. parseInline (f l)) ls)))"
  "list_all webUrl (links (OrderedList (map (\<lambda>l. parseInline (f l)) ls)))"
  using inline_links by (induction ls) simp_all

declare links.simps(2-4) [simp del]

lemma quote_links: "list_all webUrl (links (Blockquote (parseInline t)))"
  by (simp only: links.simps inline_links)

lemma blockLoop_safe: "list_all safe segs \<Longrightarrow> list_all safe (blockLoop segs lines)"
proof (induction segs lines rule: blockLoop.induct)
  case (2 segs line rest)
  consider "isFence line" | "\<not> isFence line" "isQuote line"
    | "\<not> isFence line" "\<not> isQuote line" "isBullet line"
    | "\<not> isFence line" "\<not> isQuote line" "\<not> isBullet line" "isOrdered line"
    | "\<not> isFence line" "\<not> isQuote line" "\<not> isBullet line" "\<not> isOrdered line" "isBlank line"
    | "\<not> isFence line" "\<not> isQuote line" "\<not> isBullet line" "\<not> isOrdered line" "\<not> isBlank line"
    by blast
  then show ?case
  proof cases
    case 1
    with 2(1) [OF 1 refl refl] "2.prems" show ?thesis by (simp add: blockLoop.simps(2) Let_def)
  next
    case 2
    with "2.IH"(2) [OF 2 refl] "2.prems" show ?thesis
      by (simp only: blockLoop.simps(2) Let_def if_True if_False) (simp del: takeWhile.simps dropWhile.simps add: quote_links)
  next
    case 3
    with "2.IH"(3) [OF 3 refl] "2.prems" show ?thesis
      by (simp only: blockLoop.simps(2) Let_def if_True if_False) (simp del: takeWhile.simps dropWhile.simps add: list_links)
  next
    case 4
    with "2.IH"(4) [OF 4 refl] "2.prems" show ?thesis
      by (simp only: blockLoop.simps(2) Let_def if_True if_False) (simp del: takeWhile.simps dropWhile.simps add: list_links)
  next
    case 5
    with "2.IH"(5) [OF 5] "2.prems" show ?thesis by (simp add: blockLoop.simps(2))
  next
    case 6
    with "2.IH"(6) [OF 6] "2.prems" inline_safe show ?thesis by (simp add: blockLoop.simps(2))
  qed
qed simp

lemma parse_safe: "list_all safe (parseMrkdwn content)"
  by (simp add: parseMrkdwn_def blockLoop_safe)

declare links.simps(2-4) [simp]

lemma map2_snd: "length xs = length ys \<Longrightarrow> map2 (\<lambda>x y. f y) xs ys = map f ys"
  by (induction rule: list_induct2) simp_all

lemma hrefs_links: "hrefs (renderSegment ctx emojiOnly s) = links s"
  by (induction ctx emojiOnly s rule: renderSegment.induct)
    (auto simp: userMentionBadge_def channelMentionBadge_def webEmoji_def comp_def
      split: option.split shortcode_value.split intro!: arg_cong [of _ _ concat])

lemma pressables_links: "pressables (mobileSegment ctx s) = links s"
  by (induction ctx s rule: mobileSegment.induct)
    (auto simp: mobileEmoji_def comp_def map_zip_map2 map2_snd
      split: shortcode_value.split intro!: arg_cong [of _ _ concat])

section \<open>What the reader sees\<close>

text \<open>The text of a node. The icon of a channel counts as a hash sign, a custom emoji as its shortcode,
  and the marks of a list, which the browser adds, are left out.\<close>

fun web_text :: "web_node \<Rightarrow> jsstring" where
  "web_text (WSpan t) = t"
| "web_text (WStrong t) = t"
| "web_text (WEm t) = t"
| "web_text (WStrike t) = t"
| "web_text (WCode t) = t"
| "web_text (WPre t) = t"
| "web_text (WQuote ns) = concat (map web_text ns)"
| "web_text (WBulletList items) = concat (map (\<lambda>item. concat (map web_text item)) items)"
| "web_text (WOrderedList items) = concat (map (\<lambda>item. concat (map web_text item)) items)"
| "web_text (WUserMention u label) = label"
| "web_text (WSpecialMention label) = label"
| "web_text (WChannelMention private name) = js ''#'' @ name"
| "web_text WPrivateChannel = js ''#private-channel''"
| "web_text (WEmoji title e) = or_empty e"
| "web_text (WCustomEmoji name url xl) = js '':'' @ name @ js '':''"
| "web_text (WLink url t) = t"
| "web_text WBreak = [NEWLINE]"

fun mobile_text :: "mobile_node \<Rightarrow> jsstring" where
  "mobile_text (MText style t) = t"
| "mobile_text (MCodeBlock t) = t"
| "mobile_text (MLink url t) = t"
| "mobile_text (MUserMention u label) = label"
| "mobile_text (MChannelMention c label) = label"
| "mobile_text (MSpecialMention label) = label"
| "mobile_text MNothing = []"
| "mobile_text (MQuote ns) = concat (map mobile_text ns)"
| "mobile_text (MList items) = concat (map (\<lambda>(mark, item). concat (map mobile_text item)) items)"

text \<open>Everything a segment mentions is known, and its emojis are those of the table.\<close>

fun known :: "web_context \<Rightarrow> segment \<Rightarrow> bool" where
  "known ctx (UserMention u) =
     list_ex (\<lambda>m. mem_user_id m = u \<and> mem_display_name m \<noteq> []) (wc_members ctx)"
| "known ctx (ChannelMention c) = list_ex (\<lambda>x. ch_id x = c) (wc_channels ctx)"
| "known ctx (EmojiShortcode name) =
     (wc_customEmojis ctx name = None \<or> resolveStandardShortcode (wc_table ctx) name \<noteq> NoValue)"
| "known ctx (Blockquote ss) = list_all (known ctx) ss"
| "known ctx (BulletList items) = list_all (list_all (known ctx)) items"
| "known ctx (OrderedList items) = list_all (list_all (known ctx)) items"
| "known ctx _ = True"

definition mobileOf :: "web_context \<Rightarrow> mobile_context" where
  "mobileOf ctx = \<lparr>mc_table = wc_table ctx, mc_members = Some (wc_members ctx), mc_channels = Some (wc_channels ctx)\<rparr>"

lemma map_of_rev_same: "distinct (map fst ps) \<Longrightarrow> map_of (rev ps) = map_of ps"
  by (rule ext) (metis distinct_rev map_of_eqI map_of_inject_set rev_map set_rev)

lemma find_map_of: "find (\<lambda>x. k x = a) xs = map_of (map (\<lambda>x. (k x, x)) xs) a"
  by (induction xs) auto

lemma find_known: "list_ex P xs \<Longrightarrow> \<exists>x. find P xs = Some x \<and> P x"
  by (induction xs) auto

lemma same_user:
  assumes "distinct (map mem_user_id (wc_members ctx))" "known ctx (UserMention u)"
  shows "web_text (userMentionBadge u (memberMap (wc_members ctx) u)) = js ''@'' @ mobileUserName (mobileOf ctx) u"
proof -
  have found: "memberMap (wc_members ctx) u = find (\<lambda>m. mem_user_id m = u) (wc_members ctx)"
    using assms(1) by (simp add: memberMap_def map_of_rev_same comp_def find_map_of)
  from assms(2) obtain m where m: "m \<in> set (wc_members ctx)" "mem_user_id m = u" "mem_display_name m \<noteq> []"
    by (auto simp: list_ex_iff)
  with assms(1) have "find (\<lambda>m. mem_user_id m = u) (wc_members ctx) = Some m"
    unfolding find_map_of by (auto intro!: map_of_is_SomeI simp: comp_def)
  with m found show ?thesis
    by (simp add: userMentionBadge_def mobileUserName_def mobileOf_def or_else_def)
qed

lemma same_channel:
  "known ctx (ChannelMention c) \<Longrightarrow>
     web_text (channelMentionBadge c (wc_channels ctx)) = js ''#'' @ mobileChannelName (mobileOf ctx) c"
  by (auto dest!: find_known simp: channelMentionBadge_def mobileChannelName_def mobileOf_def)

lemma same_emoji:
  "known ctx (EmojiShortcode name) \<Longrightarrow> web_text (webEmoji ctx emojiOnly name) = mobile_text (mobileEmoji (mobileOf ctx) name)"
  by (auto simp: webEmoji_def mobileEmoji_def mobileOf_def split: shortcode_value.split)

lemma same_text:
  "distinct (map mem_user_id (wc_members ctx)) \<Longrightarrow> known ctx s \<Longrightarrow>
     web_text (renderSegment ctx emojiOnly s) = mobile_text (mobileSegment (mobileOf ctx) s)"
proof (induction ctx emojiOnly s rule: renderSegment.induct)
  case (7 ctx emojiOnly ss)
  then show ?case by (auto simp: comp_def list_all_iff intro!: arg_cong [of _ _ concat])
next
  case (8 ctx emojiOnly items)
  then show ?case
    by (auto simp: comp_def list_all_iff map_zip_map2 map2_snd intro!: arg_cong [of _ _ concat])
next
  case (9 ctx emojiOnly items)
  then show ?case
    by (auto simp: comp_def list_all_iff map_zip_map2 map2_snd intro!: arg_cong [of _ _ concat])
next
  case (10 ctx emojiOnly u)
  then show ?case by (simp only: renderSegment.simps mobileSegment.simps mobile_text.simps same_user)
next
  case (12 ctx emojiOnly c)
  then show ?case by (simp only: renderSegment.simps mobileSegment.simps mobile_text.simps same_channel)
next
  case (13 ctx emojiOnly name)
  then show ?case by (simp only: renderSegment.simps mobileSegment.simps same_emoji)
qed simp_all

section \<open>Properties\<close>

text \<open>C23: Whatever a message contains, in a quote or a list as well, every link of its rendering leads to an
  http or https address: the web never renders another scheme, and every link that mobile shows
  opens.\<close>

theorem rendered_links_are_http:
  "list_all webUrl (concat (map hrefs (snd (renderWeb ctx content)))) \<and>
   list_all openSafeURL (concat (map pressables (snd (renderMobile mctx content))))"
proof -
  have all: "list_all webUrl (concat (map links (parseMrkdwn content)))"
    using parse_safe [of content] by (auto simp: list_all_iff)
  have "openSafeURL url" if "webUrl url" for url
    using that by (auto simp: openSafeURL_def webUrl_def startsWith_iff js_eval asciiLower_def word_le_nat_alt)
  with all have "list_all openSafeURL (concat (map links (parseMrkdwn content)))"
    by (auto simp: list_all_iff)
  with all show ?thesis
    by (simp add: renderWeb_def renderMobile_def Let_def comp_def hrefs_links pressables_links)
qed


definition sample_member :: "jsstring \<Rightarrow> jsstring \<Rightarrow> workspace_member" where
  "sample_member userId name =
     \<lparr>mem_id = userId, mem_user_id = userId, mem_workspace_id = js ''W'', mem_role = Member,
      mem_display_name_override = None, mem_created_at = [], mem_updated_at = [], mem_email = [],
      mem_display_name = name, mem_avatar_url = None, mem_gravatar_url = None, mem_is_banned = None\<rparr>"

lemma parse_plain_line: "isPlain l \<Longrightarrow> NEWLINE \<notin> set l \<Longrightarrow> l \<noteq> [] \<Longrightarrow> parseMrkdwn l = parseInline l"
  using parse_lines [of "[l]"] blockLoop_plain [of "[l]" "[]"] by simp


end
