(* ===== verification/Utils.thy ===== *)
theory Utils
  imports ApiTypes
begin

text \<open>
  The helpers of \<open>packages/shared/src/utils.ts\<close>: the colour of an avatar, permissions, channel
  names, initials and times relative to now; and the colours of the mobile avatar
  (\<open>apps/mobile/src/components/ui/Avatar.tsx\<close>). (\<open>groupReactions\<close> is in \<open>Reactions\<close>.)

  \<open>toUpperCase\<close> is an argument (\<open>upper\<close>), as its tables are those of the host's Unicode version,
  and so is the formatting of a date in the host's time zone and language (\<open>formatDate\<close>). Times are
  milliseconds; an invalid date has no time.
\<close>

section \<open>The colour of an avatar\<close>

definition AVATAR_COLORS :: "string list" where
  "AVATAR_COLORS = [
     ''bg-red-500'', ''bg-orange-500'', ''bg-amber-500'', ''bg-yellow-500'', ''bg-lime-500'',
     ''bg-green-500'', ''bg-emerald-500'', ''bg-teal-500'', ''bg-cyan-500'', ''bg-sky-500'',
     ''bg-blue-500'', ''bg-violet-500'', ''bg-purple-500'', ''bg-fuchsia-500'', ''bg-pink-500'',
     ''bg-rose-500'']"

text \<open>
  One round of the loop. The hash is always a 32-bit signed integer: \<open>\<lless> 5\<close> wraps around, the
  subtraction and the addition are exact in a double, and \<open>hash & hash\<close> takes the result back to
  32 bits.
\<close>

definition hashStep :: "32 word \<Rightarrow> code_unit \<Rightarrow> 32 word" where
  "hashStep hash c = word_of_int (sint (push_bit 5 hash) - sint hash + uint c)"

definition avatarHash :: "jsstring \<Rightarrow> 32 word" where
  "avatarHash i = foldl hashStep 0 i"

text \<open>\<open>Math.abs\<close> is that of a number: it does not overflow at the least 32-bit integer.\<close>

definition getAvatarColor :: "jsstring \<Rightarrow> string" where
  "getAvatarColor i = AVATAR_COLORS ! (nat \<bar>sint (avatarHash i)\<bar> mod length AVATAR_COLORS)"

definition COLOR_MAP :: "string \<rightharpoonup> string" where
  "COLOR_MAP = map_of [
     (''bg-red-500'', ''#ef4444''), (''bg-orange-500'', ''#f97316''), (''bg-amber-500'', ''#f59e0b''),
     (''bg-yellow-500'', ''#eab308''), (''bg-lime-500'', ''#84cc16''), (''bg-green-500'', ''#22c55e''),
     (''bg-emerald-500'', ''#10b981''), (''bg-teal-500'', ''#14b8a6''), (''bg-cyan-500'', ''#06b6d4''),
     (''bg-sky-500'', ''#0ea5e9''), (''bg-blue-500'', ''#3b82f6''), (''bg-violet-500'', ''#8b5cf6''),
     (''bg-purple-500'', ''#a855f7''), (''bg-fuchsia-500'', ''#d946ef''), (''bg-pink-500'', ''#ec4899''),
     (''bg-rose-500'', ''#f43f5e'')]"

definition mobileAvatarColor :: "jsstring option \<Rightarrow> jsstring \<Rightarrow> string" where
  "mobileAvatarColor i display_name =
     (case COLOR_MAP (getAvatarColor (case i of Some j \<Rightarrow> j | None \<Rightarrow> display_name)) of
        Some c \<Rightarrow> c | None \<Rightarrow> ''#6b7280'')"

lemma hashStep_eq: "hashStep h c = ucast c + 31 * h"
proof -
  have "push_bit 5 h = 32 * h" by (simp add: push_bit_eq_mult)
  then show ?thesis by (simp add: hashStep_def algebra_simps unsigned_ucast_eq)
qed

lemma hash_horner: "foldl hashStep h i = horner_sum ucast 31 (rev i) + 31 ^ length i * h"
proof (induction i arbitrary: h)
  case (Cons c i)
  have "horner_sum ucast 31 (rev i @ [c]) = horner_sum ucast 31 (rev i) + (31 :: 32 word) ^ length i * ucast c"
    by (simp add: horner_sum_append)
  with Cons show ?case by (simp add: hashStep_eq algebra_simps)
qed simp

lemma length_AVATAR_COLORS: "length AVATAR_COLORS = 16"
  by (simp add: AVATAR_COLORS_def)

lemma avatar_color_index: "nat \<bar>sint h\<bar> mod length AVATAR_COLORS < length AVATAR_COLORS"
  by (simp add: length_AVATAR_COLORS)

lemma color_map_total: "list_all (\<lambda>c. COLOR_MAP c \<noteq> None) AVATAR_COLORS"
  by (simp add: COLOR_MAP_def AVATAR_COLORS_def)

section \<open>Permissions\<close>

definition hasPermission :: "workspace_role option \<Rightarrow> permission_level option \<Rightarrow> bool" where
  "hasPermission role level =
     (case (role, level) of
        (Some r, Some EveryoneLevel) \<Rightarrow> r = Owner \<or> r = Admin \<or> r = Member \<or> r = Guest
      | (Some r, Some MembersLevel) \<Rightarrow> r = Owner \<or> r = Admin \<or> r = Member
      | (Some r, Some AdminsLevel) \<Rightarrow> r = Owner \<or> r = Admin
      | _ \<Rightarrow> False)"

fun role_rank :: "workspace_role \<Rightarrow> nat" where
  "role_rank Guest = 0"
| "role_rank Member = 1"
| "role_rank Admin = 2"
| "role_rank Owner = 3"

fun level_rank :: "permission_level \<Rightarrow> nat" where
  "level_rank EveryoneLevel = 0"
| "level_rank MembersLevel = 1"
| "level_rank AdminsLevel = 2"

lemma hasPermission_rank: "hasPermission (Some r) (Some l) \<longleftrightarrow> level_rank l \<le> role_rank r"
  by (cases r; cases l) (simp_all add: hasPermission_def)

lemma hasPermission_none [simp]: "\<not> hasPermission None l" "\<not> hasPermission r None"
  by (simp_all add: hasPermission_def split: option.splits)

section \<open>Channel names\<close>

definition nameChar :: "code_unit \<Rightarrow> bool" where
  "nameChar c = ((ch CHR ''a'' \<le> c \<and> c \<le> ch CHR ''z'') \<or> (ch CHR ''0'' \<le> c \<and> c \<le> ch CHR ''9''))"

text \<open>
  The automaton of \<open>/^[a-z0-9]+(-[a-z0-9]+)*$/\<close>; the flag says whether the current group has a
  character yet.
\<close>

fun channelNameFrom :: "bool \<Rightarrow> jsstring \<Rightarrow> bool" where
  "channelNameFrom seen [] = seen"
| "channelNameFrom seen (c # s) =
     (if nameChar c then channelNameFrom True s
      else c = ch CHR ''-'' \<and> seen \<and> channelNameFrom False s)"

definition CHANNEL_NAME_REGEX :: "jsstring \<Rightarrow> bool" where
  "CHANNEL_NAME_REGEX s = channelNameFrom False s"

lemma hyphen_not_nameChar: "\<not> nameChar (ch CHR ''-'')"
  by (simp add: nameChar_def word_le_nat_alt)

lemmas hyphen_rules = hyphen_not_nameChar hyphen_not_nameChar [simplified]

lemma channelNameFrom_split:
  "channelNameFrom seen s \<longleftrightarrow>
     (case split_on (ch CHR ''-'') s of
        [] \<Rightarrow> False
      | g # gs \<Rightarrow> (seen \<or> g \<noteq> []) \<and> list_all nameChar g \<and> list_all (\<lambda>g. g \<noteq> [] \<and> list_all nameChar g) gs)"
proof (induction s arbitrary: seen)
  case (Cons c s)
  obtain g gs where gs: "split_on (ch CHR ''-'') s = g # gs" by (meson list.exhaust split_on_neq_Nil)
  show ?case
  proof (cases "c = ch CHR ''-''")
    case True
    with Cons [of False] gs show ?thesis by (simp add: hyphen_rules)
  next
    case False
    with Cons [of True] gs show ?thesis by simp
  qed
qed simp

section \<open>Initials\<close>

text \<open>\<open>part[0]\<close> is \<open>undefined\<close> for an empty part, which \<open>join\<close> prints as nothing.\<close>

definition getInitials :: "(jsstring \<Rightarrow> jsstring) \<Rightarrow> jsstring \<Rightarrow> jsstring" where
  "getInitials upper name = take 2 (upper (concat (map (take 1) (split_on (ch CHR '' '') name))))"

section \<open>Times relative to now\<close>

definition formatRelativeTime :: "(jsstring \<Rightarrow> jsstring) \<Rightarrow> (jsstring \<Rightarrow> int option) \<Rightarrow> int \<Rightarrow> jsstring \<Rightarrow> jsstring" where
  "formatRelativeTime formatDate time now dateString =
     (case time dateString of
        None \<Rightarrow> formatDate dateString
      | Some t \<Rightarrow>
          let diffMs = now - t; diffMins = diffMs div 60000; diffHours = diffMs div 3600000;
              diffDays = diffMs div 86400000
          in if diffMins < 1 then js ''just now''
             else if diffMins < 60 then js_nat (nat diffMins) @ js ''m ago''
             else if diffHours < 24 then js_nat (nat diffHours) @ js ''h ago''
             else if diffDays < 7 then js_nat (nat diffDays) @ js ''d ago''
             else formatDate dateString)"

text \<open>
  \<open>dayOf t\<close> is \<open>toDateString()\<close>, \<open>dayBefore\<close> what \<open>setDate(getDate() - 1)\<close> does to a time,
  and \<open>localDate\<close> the host's date format.
\<close>

definition formatDate ::
    "(int option \<Rightarrow> jsstring) \<Rightarrow> (int \<Rightarrow> int) \<Rightarrow> (int option \<Rightarrow> jsstring) \<Rightarrow> (jsstring \<Rightarrow> int option) \<Rightarrow> int \<Rightarrow>
     jsstring \<Rightarrow> jsstring" where
  "formatDate dayOf dayBefore localDate time now dateString =
     (let date = time dateString
      in if dayOf date = dayOf (Some now) then js ''Today''
         else if dayOf date = dayOf (Some (dayBefore now)) then js ''Yesterday''
         else localDate date)"

section \<open>Properties\<close>

text \<open>The colour of an avatar is chosen by the 32-bit polynomial hash of its id in base 31 (the hash code
  of Java strings), whatever wraps around on the way; the index is always one of the sixteen
  colours, and mobile knows a colour value for each of them.\<close>

theorem avatar_color:
  "getAvatarColor i = AVATAR_COLORS ! (nat \<bar>sint (horner_sum ucast 31 (rev i) :: 32 word)\<bar> mod 16) \<and>
   getAvatarColor i \<in> set AVATAR_COLORS \<and> (\<exists>c. COLOR_MAP (getAvatarColor i) = Some c \<and> mobileAvatarColor (Some i) n = c)"
proof -
  have "avatarHash i = horner_sum ucast 31 (rev i)" by (simp add: avatarHash_def hash_horner)
  moreover have "getAvatarColor i \<in> set AVATAR_COLORS"
    unfolding getAvatarColor_def by (rule nth_mem) (rule avatar_color_index)
  moreover from this have "COLOR_MAP (getAvatarColor i) \<noteq> None"
    using color_map_total by (simp add: list_all_iff)
  ultimately show ?thesis
    by (auto simp: getAvatarColor_def length_AVATAR_COLORS mobileAvatarColor_def)
qed

text \<open>A channel name is accepted exactly if it consists of groups of lower-case letters and digits, none
  of them empty, joined by single hyphens; so the automaton of the regular expression decides its
  language.\<close>

theorem channel_name_language:
  "CHANNEL_NAME_REGEX s \<longleftrightarrow>
     (\<exists>groups. groups \<noteq> [] \<and> list_all (\<lambda>g. g \<noteq> [] \<and> list_all nameChar g) groups \<and> s = join [ch CHR ''-''] groups)"
proof
  assume "CHANNEL_NAME_REGEX s"
  then have "list_all (\<lambda>g. g \<noteq> [] \<and> list_all nameChar g) (split_on (ch CHR ''-'') s)"
    by (simp add: CHANNEL_NAME_REGEX_def channelNameFrom_split split: list.splits)
  then show "\<exists>groups. groups \<noteq> [] \<and> list_all (\<lambda>g. g \<noteq> [] \<and> list_all nameChar g) groups \<and>
      s = join [ch CHR ''-''] groups"
    by (intro exI [of _ "split_on (ch CHR ''-'') s"]) (simp add: join_split_on)
next
  assume "\<exists>groups. groups \<noteq> [] \<and> list_all (\<lambda>g. g \<noteq> [] \<and> list_all nameChar g) groups \<and>
      s = join [ch CHR ''-''] groups"
  then obtain groups where groups: "groups \<noteq> []" "list_all (\<lambda>g. g \<noteq> [] \<and> list_all nameChar g) groups"
    "s = join [ch CHR ''-''] groups" by blast
  have "\<forall>g \<in> set groups. ch CHR ''-'' \<notin> set g"
    using groups(2) hyphen_not_nameChar by (auto simp: list_all_iff)
  with groups have "split_on (ch CHR ''-'') s = groups" by (simp add: split_on_join)
  with groups show "CHANNEL_NAME_REGEX s"
    by (cases groups) (simp_all add: CHANNEL_NAME_REGEX_def channelNameFrom_split)
qed

end
