(* ===== verification/CommandPalette.thy ===== *)
theory CommandPalette
  imports FuzzyMatch Utils Sorting Samples
begin

text \<open>
  The command palette of the web app: which items it offers for a query
  (\<open>apps/web/src/components/command-palette/useCommandPaletteItems.ts\<close>), and the recently visited
  channels it starts with (\<open>apps/web/src/lib/recentChannels.ts\<close>).

  The store of recent channels is the object kept as JSON in \<open>localStorage\<close>; what cannot be parsed
  counts as empty. A workspace id is no name of an inherited property.
\<close>

section \<open>Recent channels\<close>

type_synonym recent_store = "jsstring \<rightharpoonup> jsstring list"

definition MAX_RECENT :: nat where
  "MAX_RECENT = 8"

definition getRecentChannels :: "jsstring \<Rightarrow> recent_store \<Rightarrow> jsstring list" where
  "getRecentChannels workspaceId store = or_empty (store workspaceId)"

definition recordChannelVisit :: "jsstring \<Rightarrow> jsstring \<Rightarrow> recent_store \<Rightarrow> recent_store" where
  "recordChannelVisit workspaceId channelId store =
     (let list = or_empty (store workspaceId);
          filtered = channelId # filter (\<lambda>i. i \<noteq> channelId) list
      in store(workspaceId \<mapsto> take MAX_RECENT filtered))"

text \<open>The specification: the distinct channels of the visits to the workspace, the latest first.\<close>

fun latestFirst :: "jsstring list \<Rightarrow> jsstring list" where
  "latestFirst [] = []"
| "latestFirst (c # earlier) = c # filter (\<lambda>i. i \<noteq> c) (latestFirst earlier)"

lemma latestFirst_distinct: "distinct (latestFirst vs)"
  by (induction vs) auto

lemma latestFirst_set: "set (latestFirst vs) = set vs"
  by (induction vs) auto

lemma take_filter_take:
  "distinct xs \<Longrightarrow> take n (filter (\<lambda>i. i \<noteq> c) (take (Suc n) xs)) = take n (filter (\<lambda>i. i \<noteq> c) xs)"
proof (induction xs arbitrary: n)
  case (Cons x xs)
  show ?case
  proof (cases n)
    case (Suc m)
    show ?thesis
    proof (cases "x = c")
      case True
      with Cons.prems have "filter (\<lambda>i. i \<noteq> c) xs = xs" "filter (\<lambda>i. i \<noteq> c) (take n xs) = take n xs"
        by (auto intro!: filter_True dest: in_set_takeD)
      with True show ?thesis by simp
    next
      case False
      with Cons Suc show ?thesis by simp
    qed
  qed simp
qed simp

definition visits :: "jsstring \<Rightarrow> (jsstring \<times> jsstring) list \<Rightarrow> jsstring list" where
  "visits w vs = map snd (filter (\<lambda>(x, c). x = w) vs)"

lemma recent_run:
  "getRecentChannels w (fold (\<lambda>(w, c). recordChannelVisit w c) vs Map.empty) = take MAX_RECENT (latestFirst (rev (visits w vs)))"
proof (induction vs rule: rev_induct)
  case (snoc v vs)
  obtain w' c where v: "v = (w', c)" by fastforce
  have "take MAX_RECENT (c # filter (\<lambda>i. i \<noteq> c) (take MAX_RECENT xs)) = take MAX_RECENT (c # filter (\<lambda>i. i \<noteq> c) xs)"
    if "distinct xs" for xs
    using take_filter_take [OF that, of 7 c] by (simp add: MAX_RECENT_def eval_nat_numeral)
  with snoc latestFirst_distinct v show ?case
    by (auto simp: getRecentChannels_def recordChannelVisit_def visits_def Let_def)
qed (simp add: getRecentChannels_def visits_def)

section \<open>The items\<close>

datatype item_type = ChannelItem | PersonItem | ActionItem

record palette_item =
  pi_id :: jsstring
  pi_type :: item_type
  pi_label :: jsstring
  pi_sublabel :: "jsstring option"
  pi_section :: jsstring
  pi_score :: int
  pi_channel :: "channel_with_membership option"
  pi_member :: "workspace_member option"
  pi_actionKey :: "jsstring option"
  pi_shortcut :: "jsstring option"
  pi_badge :: "int option"

record action_def =
  ac_key :: jsstring
  ac_label :: jsstring
  ac_shortcut :: "jsstring option"

text \<open>\<open>MOD_KEY\<close> depends on the platform and is an argument.\<close>

definition ACTIONS :: "jsstring \<Rightarrow> action_def list" where
  "ACTIONS modKey =
     [\<lparr>ac_key = js ''search'', ac_label = js ''Search messages'', ac_shortcut = Some (modKey @ js ''+Shift+F'')\<rparr>,
      \<lparr>ac_key = js ''create-channel'', ac_label = js ''Create channel'', ac_shortcut = None\<rparr>,
      \<lparr>ac_key = js ''new-dm'', ac_label = js ''New direct message'', ac_shortcut = None\<rparr>,
      \<lparr>ac_key = js ''unreads'', ac_label = js ''All unreads'', ac_shortcut = None\<rparr>,
      \<lparr>ac_key = js ''threads'', ac_label = js ''Threads'', ac_shortcut = None\<rparr>,
      \<lparr>ac_key = js ''scheduled'', ac_label = js ''Scheduled messages'', ac_shortcut = None\<rparr>,
      \<lparr>ac_key = js ''workspace-settings'', ac_label = js ''Workspace settings'', ac_shortcut = None\<rparr>,
      \<lparr>ac_key = js ''invite'', ac_label = js ''Invite people'', ac_shortcut = None\<rparr>]"

definition actionFilter :: "workspace_role option \<Rightarrow> workspace_settings option \<Rightarrow> action_def \<Rightarrow> bool" where
  "actionFilter role parsedSettings a =
     (if ac_key a = js ''create-channel''
      then hasPermission role (map_option wst_who_can_create_channels parsedSettings)
      else if ac_key a = js ''invite''
      then hasPermission role (map_option wst_who_can_create_invites parsedSettings)
      else True)"

definition isDM :: "channel_with_membership \<Rightarrow> bool" where
  "isDM c = (ch_type c = DmChannel \<or> ch_type c = GroupDmChannel)"

text \<open>\<open>channel.dm_participants?.map(p => p.display_name).join(sep) ?? channel.name\<close>\<close>

definition dmName :: "jsstring \<Rightarrow> channel_with_membership \<Rightarrow> jsstring" where
  "dmName sep c =
     (if isDM c
      then (case ch_dm_participants c of
          Some ps \<Rightarrow> join sep (map cm_display_name ps) | None \<Rightarrow> ch_name c)
      else ch_name c)"

definition channelToItem :: "channel_with_membership \<Rightarrow> jsstring \<Rightarrow> int \<Rightarrow> palette_item" where
  "channelToItem c section score =
     \<lparr>pi_id = js ''channel-'' @ ch_id c, pi_type = ChannelItem, pi_label = dmName (js '', '') c,
      pi_sublabel = (if isDM c then None
        else if ch_type c = PrivateChannel then Some (js ''Private channel'') else None),
      pi_section = section, pi_score = score, pi_channel = Some c, pi_member = None, pi_actionKey = None,
      pi_shortcut = None, pi_badge = (if ch_notification_count c > 0 then Some (ch_notification_count c) else None)\<rparr>"

definition actionToItem :: "action_def \<Rightarrow> jsstring \<Rightarrow> int \<Rightarrow> palette_item" where
  "actionToItem a section score =
     \<lparr>pi_id = js ''action-'' @ ac_key a, pi_type = ActionItem, pi_label = ac_label a, pi_sublabel = None,
      pi_section = section, pi_score = score, pi_channel = None, pi_member = None,
      pi_actionKey = Some (ac_key a), pi_shortcut = ac_shortcut a, pi_badge = None\<rparr>"

definition personToItem :: "workspace_member \<Rightarrow> jsstring \<Rightarrow> int \<Rightarrow> palette_item" where
  "personToItem m displayName score =
     \<lparr>pi_id = js ''person-'' @ mem_user_id m, pi_type = PersonItem, pi_label = displayName, pi_sublabel = None,
      pi_section = js ''People'', pi_score = score, pi_channel = None, pi_member = Some m,
      pi_actionKey = None, pi_shortcut = None, pi_badge = None\<rparr>"

text \<open>The recent channels the user is still a member of; the score counts the items before.\<close>

fun recentItems ::
    "channel_with_membership list \<Rightarrow> jsstring list \<Rightarrow> palette_item list \<Rightarrow> palette_item list" where
  "recentItems chans [] items = items"
| "recentItems chans (i # is) items =
     (case map_of (rev (map (\<lambda>c. (ch_id c, c)) chans)) i of
        None \<Rightarrow> recentItems chans is items
      | Some c \<Rightarrow>
          if ch_channel_role c = None then recentItems chans is items
          else recentItems chans is (items @ [channelToItem c (js ''Recent'') (1000 - int (length items))]))"

definition buildEmptyQueryItems ::
    "jsstring \<Rightarrow> recent_store \<Rightarrow> channel_with_membership list \<Rightarrow> (action_def \<Rightarrow> bool) \<Rightarrow> jsstring option \<Rightarrow>
     palette_item list" where
  "buildEmptyQueryItems modKey store chans allowed workspaceId =
     (case workspaceId of
        Some w \<Rightarrow> if w \<noteq> [] then recentItems chans (getRecentChannels w store) [] else []
      | None \<Rightarrow> []) @
     map (\<lambda>a. actionToItem a (js ''Actions'') 0) (filter allowed (ACTIONS modKey))"

text \<open>The item for something of the given name, if the name matches.\<close>

definition scored :: "(jsstring \<Rightarrow> jsstring) \<Rightarrow> jsstring \<Rightarrow> jsstring \<Rightarrow> (int \<Rightarrow> palette_item) \<Rightarrow> palette_item option" where
  "scored lower query name item =
     (let result = fuzzyMatch lower query name
      in if fr_matches result then Some (item (int (fr_score result))) else None)"

definition channelMatches ::
    "(jsstring \<Rightarrow> jsstring) \<Rightarrow> jsstring \<Rightarrow> bool \<Rightarrow> channel_with_membership list \<Rightarrow> palette_item list" where
  "channelMatches lower query dms chans =
     List.map_filter (\<lambda>c. scored lower query (dmName (js '' '') c)
         (channelToItem c (if isDM c then js ''Direct Messages'' else js ''Channels'')))
       (filter (\<lambda>c. ch_channel_role c \<noteq> None \<and> isDM c = dms) chans)"

text \<open>The users whose 1:1 conversation is already listed.\<close>

definition dmUserIds :: "palette_item list \<Rightarrow> jsstring list" where
  "dmUserIds dmItems =
     List.map_filter (\<lambda>item. case pi_channel item of
         None \<Rightarrow> None
       | Some c \<Rightarrow> if ch_type c = DmChannel
           then (case ch_dm_participants c of Some [p] \<Rightarrow> Some (cm_user_id p) | _ \<Rightarrow> None) else None) dmItems"

definition memberName :: "workspace_member \<Rightarrow> jsstring" where
  "memberName m = or_else (mem_display_name_override m) (mem_display_name m)"

definition personMatches ::
    "(jsstring \<Rightarrow> jsstring) \<Rightarrow> jsstring \<Rightarrow> jsstring option \<Rightarrow> jsstring list \<Rightarrow> workspace_member list \<Rightarrow> palette_item list" where
  "personMatches lower query me shown members =
     List.map_filter (\<lambda>m. scored lower query (memberName m) (personToItem m (memberName m)))
       (filter (\<lambda>m. Some (mem_user_id m) \<noteq> me \<and> mem_user_id m \<notin> set shown) members)"

definition actionMatches ::
    "(jsstring \<Rightarrow> jsstring) \<Rightarrow> jsstring \<Rightarrow> jsstring \<Rightarrow> (action_def \<Rightarrow> bool) \<Rightarrow> palette_item list" where
  "actionMatches lower query modKey allowed =
     List.map_filter (\<lambda>a. scored lower query (ac_label a) (actionToItem a (js ''Actions'')))
       (filter allowed (ACTIONS modKey))"

definition byScoreDesc :: "palette_item list \<Rightarrow> palette_item list" where
  "byScoreDesc items = js_sort (\<lambda>a b. pi_score b - pi_score a) items"

definition searchItem :: "jsstring \<Rightarrow> palette_item" where
  "searchItem query =
     \<lparr>pi_id = js ''action-search-query'', pi_type = ActionItem,
      pi_label = js ''Search messages for '' @ [34] @ query @ [34], pi_sublabel = None, pi_section = js ''Search'',
      pi_score = 0, pi_channel = None, pi_member = None, pi_actionKey = Some (js ''search-query''),
      pi_shortcut = None, pi_badge = None\<rparr>"

definition buildFilteredItems ::
    "(jsstring \<Rightarrow> jsstring) \<Rightarrow> jsstring \<Rightarrow> jsstring \<Rightarrow> channel_with_membership list \<Rightarrow> workspace_member list \<Rightarrow>
     jsstring option \<Rightarrow> (action_def \<Rightarrow> bool) \<Rightarrow> palette_item list" where
  "buildFilteredItems lower modKey query chans members me allowed =
     (let channelItems = channelMatches lower query False chans;
          dmItems = channelMatches lower query True chans;
          peopleItems = personMatches lower query me (dmUserIds dmItems) members;
          actionItems = actionMatches lower query modKey allowed
      in searchItem query # byScoreDesc channelItems @ byScoreDesc dmItems @ byScoreDesc peopleItems @
         byScoreDesc actionItems)"

definition useCommandPaletteItems ::
    "(jsstring \<Rightarrow> jsstring) \<Rightarrow> jsstring \<Rightarrow> recent_store \<Rightarrow> jsstring option \<Rightarrow> channel_with_membership list option \<Rightarrow>
     workspace_member list option \<Rightarrow> workspace option \<Rightarrow> user option \<Rightarrow> workspace_summary list option \<Rightarrow>
     jsstring \<Rightarrow> palette_item list" where
  "useCommandPaletteItems lower modKey store workspaceId chans members ws user workspaces query =
     (let role = map_option ws_role (find (\<lambda>w. Some (ws_id w) = workspaceId) (or_empty workspaces));
          parsedSettings = Option.bind ws wk_parsed_settings;
          allowed = actionFilter role parsedSettings;
          trimmed = trim query
      in if trimmed = [] then buildEmptyQueryItems modKey store (or_empty chans) allowed workspaceId
         else buildFilteredItems lower modKey trimmed (or_empty chans) (or_empty members)
           (map_option us_id user) allowed)"

section \<open>What is offered\<close>

lemma map_filter_mem: "y \<in> set (List.map_filter f xs) \<longleftrightarrow> (\<exists>x \<in> set xs. f x = Some y)"
  by (induction xs) (auto simp: List.map_filter_simps split: option.splits)

lemma distinct_map_filter:
  assumes "distinct (map h xs)" "\<And>x y. f x = Some y \<Longrightarrow> g y = p @ h x"
  shows "distinct (map g (List.map_filter f xs))"
  using assms
proof (induction xs)
  case (Cons x xs)
  then show ?case
    by (cases "f x") (auto simp: List.map_filter_simps map_filter_mem image_iff)
qed (simp add: List.map_filter_simps)

lemma distinct_map_filter2: "distinct (map h xs) \<Longrightarrow> distinct (map h (filter P xs))"
  by (induction xs) auto

lemma scored_Some: "scored lower q n item = Some y \<Longrightarrow> \<exists>score. y = item score"
  by (auto simp: scored_def Let_def split: if_splits)

lemma item_ids [simp]:
  "pi_id (channelToItem c sec n) = js ''channel-'' @ ch_id c"
  "pi_id (personToItem m d n) = js ''person-'' @ mem_user_id m"
  "pi_id (actionToItem a sec n) = js ''action-'' @ ac_key a"
  by (simp_all add: channelToItem_def personToItem_def actionToItem_def)

lemma channel_ids: "distinct (map ch_id chans) \<Longrightarrow> distinct (map pi_id (channelMatches lower q dms chans))"
  unfolding channelMatches_def
  by (rule distinct_map_filter [where h = ch_id]) (auto simp: distinct_map_filter2 dest!: scored_Some)

lemma person_ids: "distinct (map mem_user_id members) \<Longrightarrow> distinct (map pi_id (personMatches lower q u shown members))"
  unfolding personMatches_def
  by (rule distinct_map_filter [where h = mem_user_id]) (auto simp: distinct_map_filter2 dest!: scored_Some)

lemma action_keys: "distinct (map ac_key (ACTIONS modKey))"
  by (simp add: ACTIONS_def)

lemma action_ids: "distinct (map pi_id (actionMatches lower q modKey allowed))"
  unfolding actionMatches_def
  by (rule distinct_map_filter [where h = ac_key])
    (auto simp: distinct_map_filter2 action_keys dest!: scored_Some)

lemma channel_item:
  "i \<in> set (channelMatches lower q dms chans) \<Longrightarrow>
     \<exists>c \<in> set chans. pi_channel i = Some c \<and> ch_channel_role c \<noteq> None \<and> isDM c = dms \<and> pi_type i = ChannelItem \<and>
       pi_id i = js ''channel-'' @ ch_id c"
  by (auto simp: channelMatches_def map_filter_mem channelToItem_def dest!: scored_Some)

lemma person_item:
  "i \<in> set (personMatches lower q u shown members) \<Longrightarrow>
     \<exists>m \<in> set members. pi_member i = Some m \<and> Some (mem_user_id m) \<noteq> u \<and> mem_user_id m \<notin> set shown \<and>
       pi_type i = PersonItem \<and> pi_id i = js ''person-'' @ mem_user_id m"
  by (auto simp: personMatches_def map_filter_mem personToItem_def dest!: scored_Some)

lemma action_item:
  "i \<in> set (actionMatches lower q modKey allowed) \<Longrightarrow>
     \<exists>a \<in> set (ACTIONS modKey). allowed a \<and> pi_actionKey i = Some (ac_key a) \<and> pi_type i = ActionItem \<and>
       pi_id i = js ''action-'' @ ac_key a"
  by (auto simp: actionMatches_def map_filter_mem actionToItem_def dest!: scored_Some)

lemmas palette_item_facts = channel_item person_item action_item

lemma byScoreDesc_simps [simp]:
  "set (byScoreDesc items) = set items"
  "distinct (map pi_id (byScoreDesc items)) \<longleftrightarrow> distinct (map pi_id items)"
  by (simp_all add: byScoreDesc_def)

lemma prefix_clashes:
  "js ''channel-'' @ a \<noteq> js ''person-'' @ b" "js ''channel-'' @ a \<noteq> js ''action-'' @ b"
  "js ''person-'' @ a \<noteq> js ''action-'' @ b" "js ''action-search-query'' \<noteq> js ''channel-'' @ a"
  "js ''action-search-query'' \<noteq> js ''person-'' @ a"
  by (simp_all add: js_eval)

lemmas prefixes_differ = prefix_clashes prefix_clashes [symmetric]

lemma search_key: "a \<in> set (ACTIONS modKey) \<Longrightarrow> js ''action-search-query'' \<noteq> js ''action-'' @ ac_key a"
  by (auto simp: ACTIONS_def js_eval)

lemma disjoint_ids:
  "(\<And>i j. i \<in> set xs \<Longrightarrow> j \<in> set ys \<Longrightarrow> pi_id i \<noteq> pi_id j) \<Longrightarrow> pi_id ` set xs \<inter> pi_id ` set ys = {}"
  by blast

lemma channels_apart:
  "distinct (map ch_id chans) \<Longrightarrow>
     pi_id ` set (channelMatches lower q False chans) \<inter> pi_id ` set (channelMatches lower q True chans) = {}"
  by (rule disjoint_ids) (auto dest!: channel_item simp: distinct_map inj_on_def)

lemma kinds_apart:
  "pi_id ` set (channelMatches lower q dms chans) \<inter> pi_id ` set (personMatches lower q u shown members) = {}"
  "pi_id ` set (channelMatches lower q dms chans) \<inter> pi_id ` set (actionMatches lower q modKey allowed) = {}"
  "pi_id ` set (personMatches lower q u shown members) \<inter> pi_id ` set (actionMatches lower q modKey allowed) = {}"
  "js ''action-search-query'' \<notin> pi_id ` set (channelMatches lower q dms chans)"
  "js ''action-search-query'' \<notin> pi_id ` set (personMatches lower q u shown members)"
  "js ''action-search-query'' \<notin> pi_id ` set (actionMatches lower q modKey allowed)"
  by (rule disjoint_ids; auto dest!: palette_item_facts simp: prefixes_differ)+
    (auto dest!: palette_item_facts simp: prefixes_differ search_key)

section \<open>Properties\<close>

text \<open>C29: The recent channels of a workspace are its distinct channels in the order of their latest visits, at
  most eight: the stored list, cut after every visit, implements the full history.\<close>

theorem recent_channels_refine_history:
  "getRecentChannels w (fold (\<lambda>(w, c). recordChannelVisit w c) vs Map.empty) =
     take MAX_RECENT (latestFirst (rev (visits w vs)))"
  by (rule recent_run)

text \<open>The items of a query have unique keys, when the channels and the members have, and start with the
  search itself; channels are offered to their members only, a person only if it is somebody else
  without a listed direct conversation, and an action only if it is allowed.\<close>

theorem palette_items_offered:
  assumes "distinct (map ch_id chans)" "distinct (map mem_user_id members)"
  shows "distinct (map pi_id (buildFilteredItems lower modKey q chans members u allowed)) \<and>
    (\<forall>i \<in> set (tl (buildFilteredItems lower modKey q chans members u allowed)).
      (\<exists>c \<in> set chans. pi_channel i = Some c \<and> ch_channel_role c \<noteq> None) \<or>
      (\<exists>m \<in> set members. pi_member i = Some m \<and> Some (mem_user_id m) \<noteq> u \<and>
        mem_user_id m \<notin> set (dmUserIds (channelMatches lower q True chans))) \<or>
      (\<exists>a \<in> set (ACTIONS modKey). pi_actionKey i = Some (ac_key a) \<and> allowed a))"
proof
  have "pi_id (searchItem q) = js ''action-search-query''" by (simp add: searchItem_def)
  then show "distinct (map pi_id (buildFilteredItems lower modKey q chans members u allowed))"
    using assms kinds_apart channels_apart [of chans lower q]
    by (simp add: buildFilteredItems_def Let_def channel_ids person_ids action_ids Int_Un_distrib)
  show "\<forall>i \<in> set (tl (buildFilteredItems lower modKey q chans members u allowed)).
      (\<exists>c \<in> set chans. pi_channel i = Some c \<and> ch_channel_role c \<noteq> None) \<or>
      (\<exists>m \<in> set members. pi_member i = Some m \<and> Some (mem_user_id m) \<noteq> u \<and>
        mem_user_id m \<notin> set (dmUserIds (channelMatches lower q True chans))) \<or>
      (\<exists>a \<in> set (ACTIONS modKey). pi_actionKey i = Some (ac_key a) \<and> allowed a)"
    by (simp add: buildFilteredItems_def Let_def ball_Un) (blast dest: palette_item_facts)
qed

theorem palette_items_offered_witness:
  "distinct (map pi_id (buildFilteredItems (\<lambda>s. s) (js ''Ctrl'') (js ''gen'')
     [sample_channel\<lparr>ch_channel_role := Some ChannelPoster\<rparr>] [] None (\<lambda>_. False))) \<and>
   map pi_id (buildFilteredItems (\<lambda>s. s) (js ''Ctrl'') (js ''gen'')
     [sample_channel\<lparr>ch_channel_role := Some ChannelPoster\<rparr>] [] None (\<lambda>_. False)) =
     [js ''action-search-query'', js ''channel-C'']"
proof
  show "distinct (map pi_id (buildFilteredItems (\<lambda>s. s) (js ''Ctrl'') (js ''gen'')
      [sample_channel\<lparr>ch_channel_role := Some ChannelPoster\<rparr>] [] None (\<lambda>_. False)))"
    using palette_items_offered [of "[sample_channel\<lparr>ch_channel_role := Some ChannelPoster\<rparr>]" "[]"]
    by simp
  show "map pi_id (buildFilteredItems (\<lambda>s. s) (js ''Ctrl'') (js ''gen'')
      [sample_channel\<lparr>ch_channel_role := Some ChannelPoster\<rparr>] [] None (\<lambda>_. False)) =
      [js ''action-search-query'', js ''channel-C'']"
    by (simp add: buildFilteredItems_def channelMatches_def personMatches_def actionMatches_def
      scored_def fuzzyMatch_def sample_channel_def isDM_def dmName_def byScoreDesc_def js_sort_def searchItem_def
      List.map_filter_simps js_eval)
qed

end
