(* ===== verification/MessageListView.thy ===== *)
theory MessageListView
  imports MessageMutations ListItems
begin

text \<open>
  The message list of the web app: what of \<open>apps/web/src/components/message/MessageList.tsx\<close> does
  not touch the DOM - the messages it shows, the count of new messages while scrolled up, the loop
  that scrolls to the bottom, and when it loads more - and jumping to a message
  (\<open>apps/web/src/hooks/useVirtualMessages.ts\<close>).

  \<open>localeCompare\<close> is the argument \<open>compare\<close>. Measurements of the DOM are arguments.
\<close>

section \<open>The messages shown\<close>

fun dedupe :: "jsstring list \<Rightarrow> message_with_user list \<Rightarrow> message_with_user list" where
  "dedupe seen [] = []"
| "dedupe seen (m # ms) =
     (if msg_id m \<in> set seen then dedupe seen ms else m # dedupe (msg_id m # seen) ms)"

definition shownMessages ::
    "(jsstring \<Rightarrow> jsstring \<Rightarrow> int) \<Rightarrow> message_pages option \<Rightarrow> message_with_user list" where
  "shownMessages compare data =
     (case data of
        None \<Rightarrow> []
      | Some p \<Rightarrow> dedupe [] (js_sort (\<lambda>a b. compare (msg_id a) (msg_id b)) (allMessages p)))"

definition estimateSize :: "virtual_item list \<Rightarrow> nat \<Rightarrow> int" where
  "estimateSize items i =
     (if i \<ge> length items then 72
      else case items ! i of
        DateSeparator _ _ \<Rightarrow> 44
      | UnreadDivider _ \<Rightarrow> 40
      | MessageVirtual _ m \<Rightarrow> if msg_link_preview m \<noteq> None then 150 else 72)"

section \<open>Following the bottom\<close>

text \<open>\<open>a < b\<close> on strings: by code units.\<close>

fun js_less :: "jsstring \<Rightarrow> jsstring \<Rightarrow> bool" where
  "js_less s [] = False"
| "js_less [] (d # t) = True"
| "js_less (c # s) (d # t) = (c < d \<or> c = d \<and> js_less s t)"

record list_view =
  lv_isAtBottom :: bool
  lv_lastBottomMessageId :: "jsstring option"
  lv_newMessageCount :: nat
  lv_showJumpButton :: bool

text \<open>After a change of channel.\<close>

definition resetView :: list_view where
  "resetView = \<lparr>lv_isAtBottom = True, lv_lastBottomMessageId = None, lv_newMessageCount = 0, lv_showJumpButton = False\<rparr>"

definition onMessages :: "message_with_user list \<Rightarrow> list_view \<Rightarrow> list_view" where
  "onMessages all s =
     (if all = [] then s
      else let newest = msg_id (last all)
        in if lv_isAtBottom s then s\<lparr>lv_lastBottomMessageId := Some newest, lv_newMessageCount := 0\<rparr>
           else if truthy (lv_lastBottomMessageId s)
           then (case findIndex (\<lambda>m. js_less (the (lv_lastBottomMessageId s)) (msg_id m)) all of
               None \<Rightarrow> s\<lparr>lv_newMessageCount := 0\<rparr>
             | Some idx \<Rightarrow> s\<lparr>lv_newMessageCount := length all - idx\<rparr>)
           else s\<lparr>lv_lastBottomMessageId := Some newest\<rparr>)"

definition atBottomOf :: "int \<Rightarrow> int \<Rightarrow> int \<Rightarrow> bool" where
  "atBottomOf scrollTop scrollHeight clientHeight = (scrollHeight - scrollTop - clientHeight < 100)"

definition reachBottom :: "message_with_user list \<Rightarrow> list_view \<Rightarrow> list_view" where
  "reachBottom all s =
     (if all = [] then s else s\<lparr>lv_lastBottomMessageId := Some (msg_id (last all))\<rparr>)\<lparr>lv_newMessageCount := 0\<rparr>"

definition handleScroll :: "bool \<Rightarrow> message_with_user list \<Rightarrow> list_view \<Rightarrow> list_view" where
  "handleScroll atBottom all s =
     (let s1 = (if atBottom \<noteq> lv_isAtBottom s
          then s\<lparr>lv_isAtBottom := atBottom, lv_showJumpButton := \<not> atBottom\<rparr> else s)
      in if atBottom then reachBottom all s1 else s1)"

definition viewJumpToLatest :: "message_with_user list \<Rightarrow> list_view \<Rightarrow> list_view" where
  "viewJumpToLatest all s = (reachBottom all s)\<lparr>lv_showJumpButton := False, lv_isAtBottom := True\<rparr>"

text \<open>The invariant of the view.\<close>

definition view_ok :: "list_view \<Rightarrow> bool" where
  "view_ok s \<longleftrightarrow> lv_showJumpButton s = (\<not> lv_isAtBottom s) \<and> (lv_isAtBottom s \<longrightarrow> lv_newMessageCount s = 0)"

lemma view_kept:
  "view_ok resetView"
  "view_ok s \<Longrightarrow> view_ok (onMessages all s)"
  "view_ok s \<Longrightarrow> view_ok (handleScroll atBottom all s)"
  "view_ok s \<Longrightarrow> view_ok (viewJumpToLatest all s)"
  by (auto simp: view_ok_def resetView_def onMessages_def handleScroll_def reachBottom_def
    viewJumpToLatest_def Let_def split: option.split)

section \<open>Scrolling to the bottom\<close>

text \<open>
  The loop \<open>settle\<close>, one animation frame per call: \<open>height n\<close> is the height of the content in frame
  \<open>n\<close>. The result is the number of the frame in which it ends.
\<close>

function settle :: "(nat \<Rightarrow> int) \<Rightarrow> nat \<Rightarrow> int \<Rightarrow> nat \<Rightarrow> nat" where
  "settle height frame prevHeight attempts =
     (if height frame \<noteq> prevHeight \<and> attempts < 10
      then settle height (Suc frame) (height frame) (Suc attempts)
      else frame)"
  by auto
termination by (relation "measure (\<lambda>(height, frame, prevHeight, attempts). 10 - attempts)") auto

declare settle.simps [simp del]

lemma settle_frames:
  "attempts \<le> 10 \<Longrightarrow>
     frame \<le> settle height frame prev attempts \<and> settle height frame prev attempts \<le> frame + (10 - attempts) \<and>
     (settle height frame prev attempts < frame + (10 - attempts) \<longrightarrow>
        height (settle height frame prev attempts) =
          (if settle height frame prev attempts = frame then prev else height (settle height frame prev attempts - 1)))"
proof (induction height frame prev attempts rule: settle.induct)
  case (1 height frame prev attempts)
  show ?case
  proof (cases "height frame \<noteq> prev \<and> attempts < 10")
    case True
    let ?f = "settle height (Suc frame) (height frame) (Suc attempts)"
    have step: "settle height frame prev attempts = ?f" using True by (subst settle.simps) simp
    have IH: "Suc frame \<le> ?f" "?f \<le> Suc frame + (10 - Suc attempts)"
        "?f < Suc frame + (10 - Suc attempts) \<longrightarrow>
           height ?f = (if ?f = Suc frame then height frame else height (?f - 1))"
      using 1(1) [OF True] True by simp_all
    from IH(1) have "?f \<noteq> frame" "?f = Suc frame \<Longrightarrow> ?f - 1 = frame" by simp_all
    with IH True show ?thesis unfolding step by (simp split: if_splits)
  next
    case False
    then have "settle height frame prev attempts = frame" by (subst settle.simps) auto
    with False 1(2) show ?thesis by auto
  qed
qed

section \<open>Loading more\<close>

text \<open>The two intersection observers, and what is checked again when a page has arrived.\<close>

definition loadsOlder :: "bool \<Rightarrow> bool \<Rightarrow> bool \<Rightarrow> bool \<Rightarrow> bool" where
  "loadsOlder isIntersecting hasNextPage isFetchingNext programmaticScroll =
     (isIntersecting \<and> hasNextPage \<and> \<not> isFetchingNext \<and> \<not> programmaticScroll)"

definition loadsNewer :: "bool \<Rightarrow> bool \<Rightarrow> bool \<Rightarrow> bool" where
  "loadsNewer isIntersecting hasPreviousPage isFetchingPrev =
     (isIntersecting \<and> hasPreviousPage \<and> \<not> isFetchingPrev)"

section \<open>Jumping to a message\<close>

record virtual_messages =
  vm_isDetached :: bool
  vm_aroundMessageId :: "jsstring option"

text \<open>
  \<open>jumpToMessage\<close>, with the page the server answers with: the client after it, the state of the hook, and
  whether the message was already loaded. \<open>None\<close> when there is no channel.
\<close>

definition jumpToMessage ::
    "'qc query_ops \<Rightarrow> jsstring option \<Rightarrow> jsstring \<Rightarrow> message_list_result \<Rightarrow> 'qc \<times> virtual_messages \<Rightarrow>
     ('qc \<times> virtual_messages) \<times> bool option" where
  "jumpToMessage ops channelId messageId result s =
     (case channelId of
        None \<Rightarrow> (s, None)
      | Some chan \<Rightarrow>
          if chan = [] then (s, None)
          else if (case pagesAt ops (fst s) (messageKeys_list chan) of
              None \<Rightarrow> False | Some existing \<Rightarrow> hasMessage existing messageId)
          then (s, Some True)
          else ((setQueryData ops (fst s) (messageKeys_list chan)
                   (\<lambda>_. Some (PagesData \<lparr>pages = [result],
                      pageParams = [DirectedParam \<lparr>pp_cursor = Some messageId, pp_direction = Around\<rparr>]\<rparr>)),
                 (snd s)\<lparr>vm_isDetached := True\<rparr>), Some False))"

definition onReachBottom :: "bool \<Rightarrow> virtual_messages \<Rightarrow> virtual_messages" where
  "onReachBottom hasPreviousPage s =
     (if vm_isDetached s \<and> \<not> hasPreviousPage then s\<lparr>vm_isDetached := False\<rparr> else s)"

section \<open>Facts\<close>

lemma dedupe_ids: "set (map msg_id (dedupe seen ms)) = msg_id ` set ms - set seen"
  by (induction seen ms rule: dedupe.induct) auto

lemma dedupe_distinct: "distinct (map msg_id (dedupe seen ms))"
proof (induction seen ms rule: dedupe.induct)
  case (2 seen m ms)
  have "msg_id m \<notin> set (map msg_id (dedupe (msg_id m # seen) ms))" unfolding dedupe_ids by simp
  with 2 show ?case by simp
qed simp

lemma dedupe_set: "set (dedupe seen ms) \<subseteq> set ms"
  by (induction seen ms rule: dedupe.induct) auto

lemma dedupe_subseq: "subseq (dedupe seen ms) ms"
  by (induction seen ms rule: dedupe.induct) auto

lemma sorted_wrt_subseq: "subseq xs ys \<Longrightarrow> sorted_wrt R ys \<Longrightarrow> sorted_wrt R xs"
  by (induction rule: list_emb.induct) (auto dest: list_emb_set)

lemma shown_sorted:
  assumes "comparator compare"
  shows "sorted_wrt (\<lambda>a b. compare (msg_id a) (msg_id b) \<le> 0) (shownMessages compare (Some p))"
proof -
  have "comparator (\<lambda>a b. compare (msg_id a) (msg_id b))"
    using assms unfolding comparator_def by blast
  then have "sorted_wrt (\<lambda>a b. compare (msg_id a) (msg_id b) \<le> 0)
      (js_sort (\<lambda>a b. compare (msg_id a) (msg_id b)) (allMessages p))"
    by (rule comparator.sort_sorted)
  with dedupe_subseq show ?thesis
    by (simp add: shownMessages_def) (rule sorted_wrt_subseq)
qed

lemma js_less_trans: "js_less a b \<Longrightarrow> js_less b c \<Longrightarrow> js_less a c"
proof (induction a b arbitrary: c rule: js_less.induct)
  case (2 d t)
  then show ?case by (cases c) auto
next
  case (3 x s d t)
  then show ?case by (cases c) (auto dest: order_less_trans)
qed simp

lemma findIndex_count:
  "sorted_wrt (\<lambda>a b. P a \<longrightarrow> P b) xs \<Longrightarrow>
     (case findIndex P xs of None \<Rightarrow> 0 | Some i \<Rightarrow> length xs - i) = length (filter P xs)"
proof (induction xs)
  case (Cons x xs)
  show ?case
  proof (cases "P x")
    case True
    with Cons.prems have "filter P xs = xs" by (auto intro!: filter_True)
    with True show ?thesis by simp
  next
    case False
    with Cons show ?thesis by (cases "findIndex P xs") auto
  qed
qed simp

section \<open>Properties\<close>

text \<open>The list shows every loaded message under its id once, in the order of the ids, whatever pages
  overlap; the ids of what it shows are those of what is loaded.\<close>

theorem shown_messages_sorted:
  assumes "comparator compare"
  shows "distinct (map msg_id (shownMessages compare (Some p))) \<and>
    msg_id ` set (shownMessages compare (Some p)) = msg_id ` set (allMessages p) \<and>
    set (shownMessages compare (Some p)) \<subseteq> set (allMessages p) \<and>
    sorted_wrt (\<lambda>a b. compare (msg_id a) (msg_id b) \<le> 0) (shownMessages compare (Some p))"
proof (intro conjI)
  show "distinct (map msg_id (shownMessages compare (Some p)))" by (simp add: shownMessages_def dedupe_distinct)
  show "sorted_wrt (\<lambda>a b. compare (msg_id a) (msg_id b) \<le> 0) (shownMessages compare (Some p))"
    by (rule shown_sorted [OF assms])
  show "msg_id ` set (shownMessages compare (Some p)) = msg_id ` set (allMessages p)"
    using dedupe_ids [of "[]" "js_sort (\<lambda>a b. compare (msg_id a) (msg_id b)) (allMessages p)"]
    by (simp add: shownMessages_def)
  show "set (shownMessages compare (Some p)) \<subseteq> set (allMessages p)"
    using dedupe_set [of "[]" "js_sort (\<lambda>a b. compare (msg_id a) (msg_id b)) (allMessages p)"]
    by (simp add: shownMessages_def)
qed

theorem shown_messages_sorted_witness:
  "distinct (map msg_id (shownMessages (\<lambda>a b. int (length a) - int (length b))
     (Some (sample_pages [sample_message (js ''BB'') (js ''me'') None 0, sample_message (js ''A'') (js ''me'') None 0,
       sample_message (js ''A'') (js ''me'') None 1])))) \<and>
   map msg_id (shownMessages (\<lambda>a b. int (length a) - int (length b))
     (Some (sample_pages [sample_message (js ''BB'') (js ''me'') None 0, sample_message (js ''A'') (js ''me'') None 0,
       sample_message (js ''A'') (js ''me'') None 1]))) = [js ''A'', js ''BB'']"
proof
  have "comparator (\<lambda>(a :: jsstring) (b :: jsstring). int (length a) - int (length b))"
    by unfold_locales auto
  from shown_messages_sorted [OF this]
  show "distinct (map msg_id (shownMessages (\<lambda>a b. int (length a) - int (length b))
     (Some (sample_pages [sample_message (js ''BB'') (js ''me'') None 0, sample_message (js ''A'') (js ''me'') None 0,
       sample_message (js ''A'') (js ''me'') None 1]))))" by blast
qed (simp add: shownMessages_def allMessages_def sample_pages_def sample_message_def js_sort_def js_eval)

text \<open>While the reader is scrolled up, the jump button counts exactly the messages newer than the last one
  seen at the bottom, in a list in the order of the ids; at the bottom it counts none.\<close>

theorem new_messages_counted:
  assumes "sorted_wrt (\<lambda>a b. js_less (msg_id a) (msg_id b)) all" "all \<noteq> []"
    and "\<not> lv_isAtBottom s" "lv_lastBottomMessageId s = Some l" "l \<noteq> []"
  shows "lv_newMessageCount (onMessages all s) = length (filter (\<lambda>m. js_less l (msg_id m)) all) \<and>
    lv_newMessageCount (handleScroll True all s) = 0"
proof
  have "sorted_wrt (\<lambda>a b. js_less l (msg_id a) \<longrightarrow> js_less l (msg_id b)) all"
    by (rule sorted_wrt_mono_rel [OF _ assms(1)]) (blast intro: js_less_trans)
  from findIndex_count [OF this] assms(2-)
  show "lv_newMessageCount (onMessages all s) = length (filter (\<lambda>m. js_less l (msg_id m)) all)"
    by (auto simp: onMessages_def Let_def split: option.splits)
qed (simp add: handleScroll_def reachBottom_def Let_def)

theorem new_messages_counted_witness:
  "lv_newMessageCount (onMessages [sample_message (js ''A'') (js ''me'') None 0, sample_message (js ''B'') (js ''me'') None 0]
     \<lparr>lv_isAtBottom = False, lv_lastBottomMessageId = Some (js ''A''), lv_newMessageCount = 0, lv_showJumpButton = True\<rparr>) = 1"
proof -
  let ?all = "[sample_message (js ''A'') (js ''me'') None 0, sample_message (js ''B'') (js ''me'') None 0]"
  let ?s = "\<lparr>lv_isAtBottom = False, lv_lastBottomMessageId = Some (js ''A''), lv_newMessageCount = 0, lv_showJumpButton = True\<rparr>"
  have "sorted_wrt (\<lambda>a b. js_less (msg_id a) (msg_id b)) ?all" "?all \<noteq> []" "\<not> lv_isAtBottom ?s"
    "lv_lastBottomMessageId ?s = Some (js ''A'')" "js ''A'' \<noteq> []"
    by (simp_all add: sample_message_def js_eval word_less_nat_alt)
  from new_messages_counted [OF this] show ?thesis by (simp add: sample_message_def js_eval word_less_nat_alt)
qed

text \<open>Scrolling to the bottom ends after at most eleven frames, and earlier only in a frame in which the height
  has not changed any more.\<close>

theorem settle_ends:
  "frame \<le> settle height frame (-1) 0 \<and> settle height frame (-1) 0 \<le> frame + 10 \<and>
   (settle height frame (-1) 0 = frame + 10 \<or>
    height (settle height frame (-1) 0) =
      (if settle height frame (-1) 0 = frame then -1 else height (settle height frame (-1) 0 - 1)))"
  using settle_frames [of 0 frame height "-1"] by auto

text \<open>A message that arrives while the list shows a page around an older one is put at the head of this page,
  and the next request asks for what follows the new message instead of what follows the page: the
  server has nothing to add, loading ends with an empty page, and the messages in between are not
  loaded.\<close>

theorem live_message_hides_gap:
  assumes "pages p = page # rest" "messages page = newest # older" "has_newer page = Some True"
    and "msg_id newest \<noteq> []" "msg_id m \<noteq> []" "\<not> hasMessage p (msg_id m)"
    and "param = \<lparr>pp_cursor = Some around, pp_direction = Around\<rparr>"
    and "answer = \<lparr>messages = [], has_more = False, has_newer = None, next_cursor = None\<rparr>"
  shows "getPreviousPageParam (hd (pages p)) param = Some \<lparr>pp_cursor = Some (msg_id newest), pp_direction = After\<rparr> \<and>
    getPreviousPageParam (hd (pages (addToChannel m p))) param =
      Some \<lparr>pp_cursor = Some (msg_id m), pp_direction = After\<rparr> \<and>
    getPreviousPageParam answer \<lparr>pp_cursor = Some (msg_id m), pp_direction = After\<rparr> = None \<and>
    allMessages (addToChannel m p) = m # allMessages p"
  using assms
  by (simp add: getPreviousPageParam_def newestId_def addToChannel_def prependToFirstPage_def allMessages_def)

theorem live_message_hides_gap_witness:
  "allMessages (addToChannel (sample_message (js ''Z'') (js ''you'') None 0)
     \<lparr>pages = [\<lparr>messages = [sample_message (js ''B'') (js ''me'') None 0], has_more = True, has_newer = Some True, next_cursor = None\<rparr>],
      pageParams = [DirectedParam \<lparr>pp_cursor = Some (js ''B''), pp_direction = Around\<rparr>]\<rparr>) =
   [sample_message (js ''Z'') (js ''you'') None 0, sample_message (js ''B'') (js ''me'') None 0]"
proof -
  let ?p = "\<lparr>pages = [\<lparr>messages = [sample_message (js ''B'') (js ''me'') None 0], has_more = True, has_newer = Some True, next_cursor = None\<rparr>],
      pageParams = [DirectedParam \<lparr>pp_cursor = Some (js ''B''), pp_direction = Around\<rparr>]\<rparr>"
  have "\<not> hasMessage ?p (msg_id (sample_message (js ''Z'') (js ''you'') None 0))"
    by (simp add: hasMessage_def pageHas_def sample_message_def)
  from live_message_hides_gap [OF _ _ _ _ _ this, of _ "[]" "sample_message (js ''B'') (js ''me'') None 0" "[]"
      "\<lparr>pp_cursor = Some (js ''B''), pp_direction = Around\<rparr>" "js ''B''"
      "\<lparr>messages = [], has_more = False, has_newer = None, next_cursor = None\<rparr>"]
  show ?thesis by (simp add: sample_message_def allMessages_def)
qed

end
