(* ===== verification/EmojiTable.thy ===== *)
theory EmojiTable
  imports Emoji MrkdwnPatterns
begin

text \<open>
  The emoji table \<open>EMOJI_CATEGORIES\<close> of \<open>packages/shared/src/emoji.ts\<close>, entry by entry. An emoji
  is given by its code points (\<open>utf16\<close> gives the code units of the string), followed by its
  aliases, its tags, and whether it takes a skin tone.
\<close>

fun utf16 :: "nat \<Rightarrow> jsstring" where
  "utf16 cp =
     (if cp < 0x10000 then [of_nat cp]
      else [0xD800 + of_nat ((cp - 0x10000) div 0x400), 0xDC00 + of_nat ((cp - 0x10000) mod 0x400)])"

definition emojiEntry :: "nat list \<Rightarrow> string list \<Rightarrow> string list \<Rightarrow> bool \<Rightarrow> emoji_entry" where
  "emojiEntry cps aliases tags skinTones =
     \<lparr>ee_emoji = concat (map utf16 cps), ee_aliases = map js aliases, ee_tags = map js tags,
      ee_skinTones = skinTones\<rparr>"

section \<open>Smileys\<close>

definition smileys_1 :: "emoji_entry list" where
  "smileys_1 = [
     emojiEntry [0x1F600] [''grinning''] [''smile'', ''happy''] False,
     emojiEntry [0x1F603] [''smiley''] [''happy'', ''joy'', ''haha''] False,
     emojiEntry [0x1F604] [''smile''] [''happy'', ''joy'', ''laugh'', ''pleased''] False,
     emojiEntry [0x1F601] [''grin''] [] False,
     emojiEntry [0x1F606] [''laughing'', ''satisfied''] [''happy'', ''haha''] False,
     emojiEntry [0x1F605] [''sweat_smile''] [''hot''] False,
     emojiEntry [0x1F923] [''rofl''] [''lol'', ''laughing''] False,
     emojiEntry [0x1F602] [''joy''] [''tears''] False,
     emojiEntry [0x1F642] [''slightly_smiling_face''] [] False,
     emojiEntry [0x1F643] [''upside_down_face''] [] False,
     emojiEntry [0x1FAE0] [''melting_face''] [''sarcasm'', ''dread''] False,
     emojiEntry [0x1F609] [''wink''] [''flirt''] False,
     emojiEntry [0x1F60A] [''blush''] [''proud''] False,
     emojiEntry [0x1F607] [''innocent''] [''angel''] False,
     emojiEntry [0x1F970] [''smiling_face_with_three_hearts''] [''love''] False,
     emojiEntry [0x1F60D] [''heart_eyes''] [''love'', ''crush''] False,
     emojiEntry [0x1F929] [''star_struck''] [''eyes''] False,
     emojiEntry [0x1F618] [''kissing_heart''] [''flirt''] False,
     emojiEntry [0x1F617] [''kissing''] [] False,
     emojiEntry [0x263A, 0xFE0F] [''relaxed''] [''blush'', ''pleased''] False,
     emojiEntry [0x1F61A] [''kissing_closed_eyes''] [] False,
     emojiEntry [0x1F619] [''kissing_smiling_eyes''] [] False,
     emojiEntry [0x1F972] [''smiling_face_with_tear''] [] False,
     emojiEntry [0x1F60B] [''yum''] [''tongue'', ''lick''] False,
     emojiEntry [0x1F61B] [''stuck_out_tongue''] [] False,
     emojiEntry [0x1F61C] [''stuck_out_tongue_winking_eye''] [''prank'', ''silly''] False,
     emojiEntry [0x1F92A] [''zany_face''] [''goofy'', ''wacky''] False,
     emojiEntry [0x1F61D] [''stuck_out_tongue_closed_eyes''] [''prank''] False,
     emojiEntry [0x1F911] [''money_mouth_face''] [''rich''] False,
     emojiEntry [0x1F917] [''hugs''] [] False,
     emojiEntry [0x1F92D] [''hand_over_mouth''] [''quiet'', ''whoops''] False,
     emojiEntry [0x1FAE2] [''face_with_open_eyes_and_hand_over_mouth''] [''gasp'', ''shock''] False,
     emojiEntry [0x1FAE3] [''face_with_peeking_eye''] [] False,
     emojiEntry [0x1F92B] [''shushing_face''] [''silence'', ''quiet''] False,
     emojiEntry [0x1F914] [''thinking''] [] False,
     emojiEntry [0x1FAE1] [''saluting_face''] [''respect''] False,
     emojiEntry [0x1F910] [''zipper_mouth_face''] [''silence'', ''hush''] False,
     emojiEntry [0x1F928] [''raised_eyebrow''] [''suspicious''] False,
     emojiEntry [0x1F610] [''neutral_face''] [''meh''] False,
     emojiEntry [0x1F611] [''expressionless''] [] False,
     emojiEntry [0x1F636] [''no_mouth''] [''mute'', ''silence''] False,
     emojiEntry [0x1FAE5] [''dotted_line_face''] [''invisible''] False,
     emojiEntry [0x1F636, 0x200D, 0x1F32B, 0xFE0F] [''face_in_clouds''] [] False,
     emojiEntry [0x1F60F] [''smirk''] [''smug''] False,
     emojiEntry [0x1F612] [''unamused''] [''meh''] False,
     emojiEntry [0x1F644] [''roll_eyes''] [] False,
     emojiEntry [0x1F62C] [''grimacing''] [] False,
     emojiEntry [0x1F62E, 0x200D, 0x1F4A8] [''face_exhaling''] [] False,
     emojiEntry [0x1F925] [''lying_face''] [''liar''] False,
     emojiEntry [0x1FAE8] [''shaking_face''] [''shock''] False,
     emojiEntry [0x1F60C] [''relieved''] [''whew''] False,
     emojiEntry [0x1F614] [''pensive''] [] False,
     emojiEntry [0x1F62A] [''sleepy''] [''tired''] False,
     emojiEntry [0x1F924] [''drooling_face''] [] False,
     emojiEntry [0x1F634] [''sleeping''] [''zzz''] False,
     emojiEntry [0x1F637] [''mask''] [''sick'', ''ill''] False,
     emojiEntry [0x1F912] [''face_with_thermometer''] [''sick''] False,
     emojiEntry [0x1F915] [''face_with_head_bandage''] [''hurt''] False,
     emojiEntry [0x1F922] [''nauseated_face''] [''sick'', ''barf'', ''disgusted''] False,
     emojiEntry [0x1F92E] [''vomiting_face''] [''barf'', ''sick''] False,
     emojiEntry [0x1F927] [''sneezing_face''] [''achoo'', ''sick''] False,
     emojiEntry [0x1F975] [''hot_face''] [''heat'', ''sweating''] False,
     emojiEntry [0x1F976] [''cold_face''] [''freezing'', ''ice''] False,
     emojiEntry [0x1F974] [''woozy_face''] [''groggy''] False,
     emojiEntry [0x1F635] [''dizzy_face''] [] False,
     emojiEntry [0x1F635, 0x200D, 0x1F4AB] [''face_with_spiral_eyes''] [] False,
     emojiEntry [0x1F92F] [''exploding_head''] [''mind'', ''blown''] False,
     emojiEntry [0x1F920] [''cowboy_hat_face''] [] False,
     emojiEntry [0x1F973] [''partying_face''] [''celebration'', ''birthday''] False,
     emojiEntry [0x1F978] [''disguised_face''] [] False,
     emojiEntry [0x1F60E] [''sunglasses''] [''cool''] False,
     emojiEntry [0x1F913] [''nerd_face''] [''geek'', ''glasses''] False,
     emojiEntry [0x1F9D0] [''monocle_face''] [] False,
     emojiEntry [0x1F615] [''confused''] [] False,
     emojiEntry [0x1FAE4] [''face_with_diagonal_mouth''] [''confused''] False,
     emojiEntry [0x1F61F] [''worried''] [''nervous''] False,
     emojiEntry [0x1F641] [''slightly_frowning_face''] [] False,
     emojiEntry [0x2639, 0xFE0F] [''frowning_face''] [] False,
     emojiEntry [0x1F62E] [''open_mouth''] [''surprise'', ''impressed'', ''wow''] False,
     emojiEntry [0x1F62F] [''hushed''] [''silence'', ''speechless''] False,
     emojiEntry [0x1F632] [''astonished''] [''amazed'', ''gasp''] False,
     emojiEntry [0x1F633] [''flushed''] [] False,
     emojiEntry [0x1F97A] [''pleading_face''] [''puppy'', ''eyes''] False,
     emojiEntry [0x1F979] [''face_holding_back_tears''] [''tears'', ''gratitude''] False,
     emojiEntry [0x1F626] [''frowning''] [] False,
     emojiEntry [0x1F627] [''anguished''] [''stunned''] False,
     emojiEntry [0x1F628] [''fearful''] [''scared'', ''shocked'', ''oops''] False,
     emojiEntry [0x1F630] [''cold_sweat''] [''nervous''] False,
     emojiEntry [0x1F625] [''disappointed_relieved''] [''phew'', ''sweat'', ''nervous''] False,
     emojiEntry [0x1F622] [''cry''] [''sad'', ''tear''] False,
     emojiEntry [0x1F62D] [''sob''] [''sad'', ''cry'', ''bawling''] False,
     emojiEntry [0x1F631] [''scream''] [''horror'', ''shocked''] False,
     emojiEntry [0x1F616] [''confounded''] [] False,
     emojiEntry [0x1F623] [''persevere''] [''struggling''] False,
     emojiEntry [0x1F61E] [''disappointed''] [''sad''] False,
     emojiEntry [0x1F613] [''sweat''] [] False,
     emojiEntry [0x1F629] [''weary''] [''tired''] False,
     emojiEntry [0x1F62B] [''tired_face''] [''upset'', ''whine''] False,
     emojiEntry [0x1F971] [''yawning_face''] [] False,
     emojiEntry [0x1F624] [''triumph''] [''smug''] False,
     emojiEntry [0x1F621] [''rage'', ''pout''] [''angry''] False,
     emojiEntry [0x1F620] [''angry''] [''mad'', ''annoyed''] False,
     emojiEntry [0x1F92C] [''cursing_face''] [''foul''] False,
     emojiEntry [0x1F608] [''smiling_imp''] [''devil'', ''evil'', ''horns''] False,
     emojiEntry [0x1F47F] [''imp''] [''angry'', ''devil'', ''evil'', ''horns''] False,
     emojiEntry [0x1F480] [''skull''] [''dead'', ''danger'', ''poison''] False,
     emojiEntry [0x2620, 0xFE0F] [''skull_and_crossbones''] [''danger'', ''pirate''] False,
     emojiEntry [0x1F4A9] [''hankey'', ''poop'', ''shit''] [''crap''] False,
     emojiEntry [0x1F921] [''clown_face''] [] False,
     emojiEntry [0x1F479] [''japanese_ogre''] [''monster''] False]"

definition smileys_2 :: "emoji_entry list" where
  "smileys_2 = [
     emojiEntry [0x1F47A] [''japanese_goblin''] [] False,
     emojiEntry [0x1F47B] [''ghost''] [''halloween''] False,
     emojiEntry [0x1F47D] [''alien''] [''ufo''] False,
     emojiEntry [0x1F47E] [''space_invader''] [''game'', ''retro''] False,
     emojiEntry [0x1F916] [''robot''] [] False,
     emojiEntry [0x1F63A] [''smiley_cat''] [] False,
     emojiEntry [0x1F638] [''smile_cat''] [] False,
     emojiEntry [0x1F639] [''joy_cat''] [] False,
     emojiEntry [0x1F63B] [''heart_eyes_cat''] [] False,
     emojiEntry [0x1F63C] [''smirk_cat''] [] False,
     emojiEntry [0x1F63D] [''kissing_cat''] [] False,
     emojiEntry [0x1F640] [''scream_cat''] [''horror''] False,
     emojiEntry [0x1F63F] [''crying_cat_face''] [''sad'', ''tear''] False,
     emojiEntry [0x1F63E] [''pouting_cat''] [] False,
     emojiEntry [0x1F648] [''see_no_evil''] [''monkey'', ''blind'', ''ignore''] False,
     emojiEntry [0x1F649] [''hear_no_evil''] [''monkey'', ''deaf''] False,
     emojiEntry [0x1F64A] [''speak_no_evil''] [''monkey'', ''mute'', ''hush''] False,
     emojiEntry [0x1F48C] [''love_letter''] [''email'', ''envelope''] False,
     emojiEntry [0x1F498] [''cupid''] [''love'', ''heart''] False,
     emojiEntry [0x1F49D] [''gift_heart''] [''chocolates''] False,
     emojiEntry [0x1F496] [''sparkling_heart''] [] False,
     emojiEntry [0x1F497] [''heartpulse''] [] False,
     emojiEntry [0x1F493] [''heartbeat''] [] False,
     emojiEntry [0x1F49E] [''revolving_hearts''] [] False,
     emojiEntry [0x1F495] [''two_hearts''] [] False,
     emojiEntry [0x1F49F] [''heart_decoration''] [] False,
     emojiEntry [0x2763, 0xFE0F] [''heavy_heart_exclamation''] [] False,
     emojiEntry [0x1F494] [''broken_heart''] [] False,
     emojiEntry [0x2764, 0xFE0F, 0x200D, 0x1F525] [''heart_on_fire''] [] False,
     emojiEntry [0x2764, 0xFE0F, 0x200D, 0x1FA79] [''mending_heart''] [] False,
     emojiEntry [0x2764, 0xFE0F] [''heart''] [''love''] False,
     emojiEntry [0x1FA77] [''pink_heart''] [] False,
     emojiEntry [0x1F9E1] [''orange_heart''] [] False,
     emojiEntry [0x1F49B] [''yellow_heart''] [] False,
     emojiEntry [0x1F49A] [''green_heart''] [] False,
     emojiEntry [0x1F499] [''blue_heart''] [] False,
     emojiEntry [0x1FA75] [''light_blue_heart''] [] False,
     emojiEntry [0x1F49C] [''purple_heart''] [] False,
     emojiEntry [0x1F90E] [''brown_heart''] [] False,
     emojiEntry [0x1F5A4] [''black_heart''] [] False,
     emojiEntry [0x1FA76] [''grey_heart''] [] False,
     emojiEntry [0x1F90D] [''white_heart''] [] False,
     emojiEntry [0x1F48B] [''kiss''] [''lipstick''] False,
     emojiEntry [0x1F4AF] [''100''] [''score'', ''perfect''] False,
     emojiEntry [0x1F4A2] [''anger''] [''angry''] False,
     emojiEntry [0x1F4A5] [''boom'', ''collision''] [''explode''] False,
     emojiEntry [0x1F4AB] [''dizzy''] [''star''] False,
     emojiEntry [0x1F4A6] [''sweat_drops''] [''water'', ''workout''] False,
     emojiEntry [0x1F4A8] [''dash''] [''wind'', ''blow'', ''fast''] False,
     emojiEntry [0x1F573, 0xFE0F] [''hole''] [] False,
     emojiEntry [0x1F4AC] [''speech_balloon''] [''comment''] False,
     emojiEntry [0x1F441, 0xFE0F, 0x200D, 0x1F5E8, 0xFE0F] [''eye_speech_bubble''] [] False,
     emojiEntry [0x1F5E8, 0xFE0F] [''left_speech_bubble''] [] False,
     emojiEntry [0x1F5EF, 0xFE0F] [''right_anger_bubble''] [] False,
     emojiEntry [0x1F4AD] [''thought_balloon''] [''thinking''] False,
     emojiEntry [0x1F4A4] [''zzz''] [''sleeping''] False]"

definition smileys :: emoji_category where
  "smileys = \<lparr>ec_id = js ''smileys'', ec_label = js ''Smileys'', ec_icon = utf16 0x1F603,
     ec_emojis = smileys_1 @ smileys_2\<rparr>"

section \<open>People\<close>

definition people_1 :: "emoji_entry list" where
  "people_1 = [
     emojiEntry [0x1F44B] [''wave''] [''goodbye''] True,
     emojiEntry [0x1F91A] [''raised_back_of_hand''] [] True,
     emojiEntry [0x1F590, 0xFE0F] [''raised_hand_with_fingers_splayed''] [] True,
     emojiEntry [0x270B] [''hand'', ''raised_hand''] [''highfive'', ''stop''] True,
     emojiEntry [0x1F596] [''vulcan_salute''] [''prosper'', ''spock''] True,
     emojiEntry [0x1FAF1] [''rightwards_hand''] [] True,
     emojiEntry [0x1FAF2] [''leftwards_hand''] [] True,
     emojiEntry [0x1FAF3] [''palm_down_hand''] [] True,
     emojiEntry [0x1FAF4] [''palm_up_hand''] [] True,
     emojiEntry [0x1FAF7] [''leftwards_pushing_hand''] [] True,
     emojiEntry [0x1FAF8] [''rightwards_pushing_hand''] [] True,
     emojiEntry [0x1F44C] [''ok_hand''] [] True,
     emojiEntry [0x1F90C] [''pinched_fingers''] [] True,
     emojiEntry [0x1F90F] [''pinching_hand''] [] True,
     emojiEntry [0x270C, 0xFE0F] [''v''] [''victory'', ''peace''] True,
     emojiEntry [0x1F91E] [''crossed_fingers''] [''luck'', ''hopeful''] True,
     emojiEntry [0x1FAF0] [''hand_with_index_finger_and_thumb_crossed''] [] True,
     emojiEntry [0x1F91F] [''love_you_gesture''] [] True,
     emojiEntry [0x1F918] [''metal''] [] True,
     emojiEntry [0x1F919] [''call_me_hand''] [] True,
     emojiEntry [0x1F448] [''point_left''] [] True,
     emojiEntry [0x1F449] [''point_right''] [] True,
     emojiEntry [0x1F446] [''point_up_2''] [] True,
     emojiEntry [0x1F595] [''middle_finger'', ''fu''] [] True,
     emojiEntry [0x1F447] [''point_down''] [] True,
     emojiEntry [0x261D, 0xFE0F] [''point_up''] [] True,
     emojiEntry [0x1FAF5] [''index_pointing_at_the_viewer''] [] True,
     emojiEntry [0x1F44D] [''+1'', ''thumbsup''] [''approve'', ''ok''] True,
     emojiEntry [0x1F44E] [''-1'', ''thumbsdown''] [''disapprove'', ''bury''] True,
     emojiEntry [0x270A] [''fist_raised'', ''fist''] [''power''] True,
     emojiEntry [0x1F44A] [''fist_oncoming'', ''facepunch'', ''punch''] [''attack''] True,
     emojiEntry [0x1F91B] [''fist_left''] [] True,
     emojiEntry [0x1F91C] [''fist_right''] [] True,
     emojiEntry [0x1F44F] [''clap''] [''praise'', ''applause''] True,
     emojiEntry [0x1F64C] [''raised_hands''] [''hooray''] True,
     emojiEntry [0x1FAF6] [''heart_hands''] [''love''] True,
     emojiEntry [0x1F450] [''open_hands''] [] True,
     emojiEntry [0x1F932] [''palms_up_together''] [] True,
     emojiEntry [0x1F91D] [''handshake''] [''deal''] True,
     emojiEntry [0x1F64F] [''pray''] [''please'', ''hope'', ''wish''] True,
     emojiEntry [0x270D, 0xFE0F] [''writing_hand''] [] True,
     emojiEntry [0x1F485] [''nail_care''] [''beauty'', ''manicure''] True,
     emojiEntry [0x1F933] [''selfie''] [] True,
     emojiEntry [0x1F4AA] [''muscle''] [''flex'', ''bicep'', ''strong'', ''workout''] True,
     emojiEntry [0x1F9BE] [''mechanical_arm''] [] False,
     emojiEntry [0x1F9BF] [''mechanical_leg''] [] False,
     emojiEntry [0x1F9B5] [''leg''] [] True,
     emojiEntry [0x1F9B6] [''foot''] [] True,
     emojiEntry [0x1F442] [''ear''] [''hear'', ''sound'', ''listen''] True,
     emojiEntry [0x1F9BB] [''ear_with_hearing_aid''] [] True,
     emojiEntry [0x1F443] [''nose''] [''smell''] True,
     emojiEntry [0x1F9E0] [''brain''] [] False,
     emojiEntry [0x1FAC0] [''anatomical_heart''] [] False,
     emojiEntry [0x1FAC1] [''lungs''] [] False,
     emojiEntry [0x1F9B7] [''tooth''] [] False,
     emojiEntry [0x1F9B4] [''bone''] [] False,
     emojiEntry [0x1F440] [''eyes''] [''look'', ''see'', ''watch''] False,
     emojiEntry [0x1F441, 0xFE0F] [''eye''] [] False,
     emojiEntry [0x1F445] [''tongue''] [''taste''] False,
     emojiEntry [0x1F444] [''lips''] [''kiss''] False,
     emojiEntry [0x1FAE6] [''biting_lip''] [] False,
     emojiEntry [0x1F476] [''baby''] [''child'', ''newborn''] True,
     emojiEntry [0x1F9D2] [''child''] [] True,
     emojiEntry [0x1F466] [''boy''] [''child''] True,
     emojiEntry [0x1F467] [''girl''] [''child''] True,
     emojiEntry [0x1F9D1] [''adult''] [] True,
     emojiEntry [0x1F471] [''blond_haired_person''] [] True,
     emojiEntry [0x1F468] [''man''] [''mustache'', ''father'', ''dad''] True,
     emojiEntry [0x1F9D4] [''bearded_person''] [] True,
     emojiEntry [0x1F9D4, 0x200D, 0x2642, 0xFE0F] [''man_beard''] [] True,
     emojiEntry [0x1F9D4, 0x200D, 0x2640, 0xFE0F] [''woman_beard''] [] True,
     emojiEntry [0x1F468, 0x200D, 0x1F9B0] [''red_haired_man''] [] True,
     emojiEntry [0x1F468, 0x200D, 0x1F9B1] [''curly_haired_man''] [] True,
     emojiEntry [0x1F468, 0x200D, 0x1F9B3] [''white_haired_man''] [] True,
     emojiEntry [0x1F468, 0x200D, 0x1F9B2] [''bald_man''] [] True,
     emojiEntry [0x1F469] [''woman''] [''girls''] True,
     emojiEntry [0x1F469, 0x200D, 0x1F9B0] [''red_haired_woman''] [] True,
     emojiEntry [0x1F9D1, 0x200D, 0x1F9B0] [''person_red_hair''] [] True,
     emojiEntry [0x1F469, 0x200D, 0x1F9B1] [''curly_haired_woman''] [] True,
     emojiEntry [0x1F9D1, 0x200D, 0x1F9B1] [''person_curly_hair''] [] True,
     emojiEntry [0x1F469, 0x200D, 0x1F9B3] [''white_haired_woman''] [] True,
     emojiEntry [0x1F9D1, 0x200D, 0x1F9B3] [''person_white_hair''] [] True,
     emojiEntry [0x1F469, 0x200D, 0x1F9B2] [''bald_woman''] [] True,
     emojiEntry [0x1F9D1, 0x200D, 0x1F9B2] [''person_bald''] [] True,
     emojiEntry [0x1F471, 0x200D, 0x2640, 0xFE0F] [''blond_haired_woman'', ''blonde_woman''] [] True,
     emojiEntry [0x1F471, 0x200D, 0x2642, 0xFE0F] [''blond_haired_man''] [] True,
     emojiEntry [0x1F9D3] [''older_adult''] [] True,
     emojiEntry [0x1F474] [''older_man''] [] True,
     emojiEntry [0x1F475] [''older_woman''] [] True,
     emojiEntry [0x1F64D] [''frowning_person''] [] True,
     emojiEntry [0x1F64D, 0x200D, 0x2642, 0xFE0F] [''frowning_man''] [] True,
     emojiEntry [0x1F64D, 0x200D, 0x2640, 0xFE0F] [''frowning_woman''] [] True,
     emojiEntry [0x1F64E] [''pouting_face''] [] True,
     emojiEntry [0x1F64E, 0x200D, 0x2642, 0xFE0F] [''pouting_man''] [] True,
     emojiEntry [0x1F64E, 0x200D, 0x2640, 0xFE0F] [''pouting_woman''] [] True,
     emojiEntry [0x1F645] [''no_good''] [''stop'', ''halt'', ''denied''] True,
     emojiEntry [0x1F645, 0x200D, 0x2642, 0xFE0F] [''no_good_man'', ''ng_man''] [''stop'', ''halt'', ''denied''] True,
     emojiEntry [0x1F645, 0x200D, 0x2640, 0xFE0F] [''no_good_woman'', ''ng_woman''] [''stop'', ''halt'', ''denied''] True,
     emojiEntry [0x1F646] [''ok_person''] [] True,
     emojiEntry [0x1F646, 0x200D, 0x2642, 0xFE0F] [''ok_man''] [] True,
     emojiEntry [0x1F646, 0x200D, 0x2640, 0xFE0F] [''ok_woman''] [] True,
     emojiEntry [0x1F481] [''tipping_hand_person'', ''information_desk_person''] [] True,
     emojiEntry [0x1F481, 0x200D, 0x2642, 0xFE0F] [''tipping_hand_man'', ''sassy_man''] [''information''] True,
     emojiEntry [0x1F481, 0x200D, 0x2640, 0xFE0F] [''tipping_hand_woman'', ''sassy_woman''] [''information''] True,
     emojiEntry [0x1F64B] [''raising_hand''] [] True]"

definition people_2 :: "emoji_entry list" where
  "people_2 = [
     emojiEntry [0x1F64B, 0x200D, 0x2642, 0xFE0F] [''raising_hand_man''] [] True,
     emojiEntry [0x1F64B, 0x200D, 0x2640, 0xFE0F] [''raising_hand_woman''] [] True,
     emojiEntry [0x1F9CF] [''deaf_person''] [] True,
     emojiEntry [0x1F9CF, 0x200D, 0x2642, 0xFE0F] [''deaf_man''] [] True,
     emojiEntry [0x1F9CF, 0x200D, 0x2640, 0xFE0F] [''deaf_woman''] [] True,
     emojiEntry [0x1F647] [''bow''] [''respect'', ''thanks''] True,
     emojiEntry [0x1F647, 0x200D, 0x2642, 0xFE0F] [''bowing_man''] [''respect'', ''thanks''] True,
     emojiEntry [0x1F647, 0x200D, 0x2640, 0xFE0F] [''bowing_woman''] [''respect'', ''thanks''] True,
     emojiEntry [0x1F926] [''facepalm''] [] True,
     emojiEntry [0x1F926, 0x200D, 0x2642, 0xFE0F] [''man_facepalming''] [] True,
     emojiEntry [0x1F926, 0x200D, 0x2640, 0xFE0F] [''woman_facepalming''] [] True,
     emojiEntry [0x1F937] [''shrug''] [] True,
     emojiEntry [0x1F937, 0x200D, 0x2642, 0xFE0F] [''man_shrugging''] [] True,
     emojiEntry [0x1F937, 0x200D, 0x2640, 0xFE0F] [''woman_shrugging''] [] True,
     emojiEntry [0x1F9D1, 0x200D, 0x2695, 0xFE0F] [''health_worker''] [] True,
     emojiEntry [0x1F468, 0x200D, 0x2695, 0xFE0F] [''man_health_worker''] [''doctor'', ''nurse''] True,
     emojiEntry [0x1F469, 0x200D, 0x2695, 0xFE0F] [''woman_health_worker''] [''doctor'', ''nurse''] True,
     emojiEntry [0x1F9D1, 0x200D, 0x1F393] [''student''] [] True,
     emojiEntry [0x1F468, 0x200D, 0x1F393] [''man_student''] [''graduation''] True,
     emojiEntry [0x1F469, 0x200D, 0x1F393] [''woman_student''] [''graduation''] True,
     emojiEntry [0x1F9D1, 0x200D, 0x1F3EB] [''teacher''] [] True,
     emojiEntry [0x1F468, 0x200D, 0x1F3EB] [''man_teacher''] [''school'', ''professor''] True,
     emojiEntry [0x1F469, 0x200D, 0x1F3EB] [''woman_teacher''] [''school'', ''professor''] True,
     emojiEntry [0x1F9D1, 0x200D, 0x2696, 0xFE0F] [''judge''] [] True,
     emojiEntry [0x1F468, 0x200D, 0x2696, 0xFE0F] [''man_judge''] [''justice''] True,
     emojiEntry [0x1F469, 0x200D, 0x2696, 0xFE0F] [''woman_judge''] [''justice''] True,
     emojiEntry [0x1F9D1, 0x200D, 0x1F33E] [''farmer''] [] True,
     emojiEntry [0x1F468, 0x200D, 0x1F33E] [''man_farmer''] [] True,
     emojiEntry [0x1F469, 0x200D, 0x1F33E] [''woman_farmer''] [] True,
     emojiEntry [0x1F9D1, 0x200D, 0x1F373] [''cook''] [] True,
     emojiEntry [0x1F468, 0x200D, 0x1F373] [''man_cook''] [''chef''] True,
     emojiEntry [0x1F469, 0x200D, 0x1F373] [''woman_cook''] [''chef''] True,
     emojiEntry [0x1F9D1, 0x200D, 0x1F527] [''mechanic''] [] True,
     emojiEntry [0x1F468, 0x200D, 0x1F527] [''man_mechanic''] [] True,
     emojiEntry [0x1F469, 0x200D, 0x1F527] [''woman_mechanic''] [] True,
     emojiEntry [0x1F9D1, 0x200D, 0x1F3ED] [''factory_worker''] [] True,
     emojiEntry [0x1F468, 0x200D, 0x1F3ED] [''man_factory_worker''] [] True,
     emojiEntry [0x1F469, 0x200D, 0x1F3ED] [''woman_factory_worker''] [] True,
     emojiEntry [0x1F9D1, 0x200D, 0x1F4BC] [''office_worker''] [] True,
     emojiEntry [0x1F468, 0x200D, 0x1F4BC] [''man_office_worker''] [''business''] True,
     emojiEntry [0x1F469, 0x200D, 0x1F4BC] [''woman_office_worker''] [''business''] True,
     emojiEntry [0x1F9D1, 0x200D, 0x1F52C] [''scientist''] [] True,
     emojiEntry [0x1F468, 0x200D, 0x1F52C] [''man_scientist''] [''research''] True,
     emojiEntry [0x1F469, 0x200D, 0x1F52C] [''woman_scientist''] [''research''] True,
     emojiEntry [0x1F9D1, 0x200D, 0x1F4BB] [''technologist''] [] True,
     emojiEntry [0x1F468, 0x200D, 0x1F4BB] [''man_technologist''] [''coder''] True,
     emojiEntry [0x1F469, 0x200D, 0x1F4BB] [''woman_technologist''] [''coder''] True,
     emojiEntry [0x1F9D1, 0x200D, 0x1F3A4] [''singer''] [] True,
     emojiEntry [0x1F468, 0x200D, 0x1F3A4] [''man_singer''] [''rockstar''] True,
     emojiEntry [0x1F469, 0x200D, 0x1F3A4] [''woman_singer''] [''rockstar''] True,
     emojiEntry [0x1F9D1, 0x200D, 0x1F3A8] [''artist''] [] True,
     emojiEntry [0x1F468, 0x200D, 0x1F3A8] [''man_artist''] [''painter''] True,
     emojiEntry [0x1F469, 0x200D, 0x1F3A8] [''woman_artist''] [''painter''] True,
     emojiEntry [0x1F9D1, 0x200D, 0x2708, 0xFE0F] [''pilot''] [] True,
     emojiEntry [0x1F468, 0x200D, 0x2708, 0xFE0F] [''man_pilot''] [] True,
     emojiEntry [0x1F469, 0x200D, 0x2708, 0xFE0F] [''woman_pilot''] [] True,
     emojiEntry [0x1F9D1, 0x200D, 0x1F680] [''astronaut''] [] True,
     emojiEntry [0x1F468, 0x200D, 0x1F680] [''man_astronaut''] [''space''] True,
     emojiEntry [0x1F469, 0x200D, 0x1F680] [''woman_astronaut''] [''space''] True,
     emojiEntry [0x1F9D1, 0x200D, 0x1F692] [''firefighter''] [] True,
     emojiEntry [0x1F468, 0x200D, 0x1F692] [''man_firefighter''] [] True,
     emojiEntry [0x1F469, 0x200D, 0x1F692] [''woman_firefighter''] [] True,
     emojiEntry [0x1F46E] [''police_officer'', ''cop''] [''law''] True,
     emojiEntry [0x1F46E, 0x200D, 0x2642, 0xFE0F] [''policeman''] [''law'', ''cop''] True,
     emojiEntry [0x1F46E, 0x200D, 0x2640, 0xFE0F] [''policewoman''] [''law'', ''cop''] True,
     emojiEntry [0x1F575, 0xFE0F] [''detective''] [''sleuth''] True,
     emojiEntry [0x1F575, 0xFE0F, 0x200D, 0x2642, 0xFE0F] [''male_detective''] [''sleuth''] True,
     emojiEntry [0x1F575, 0xFE0F, 0x200D, 0x2640, 0xFE0F] [''female_detective''] [''sleuth''] True,
     emojiEntry [0x1F482] [''guard''] [] True,
     emojiEntry [0x1F482, 0x200D, 0x2642, 0xFE0F] [''guardsman''] [] True,
     emojiEntry [0x1F482, 0x200D, 0x2640, 0xFE0F] [''guardswoman''] [] True,
     emojiEntry [0x1F977] [''ninja''] [] True,
     emojiEntry [0x1F477] [''construction_worker''] [''helmet''] True,
     emojiEntry [0x1F477, 0x200D, 0x2642, 0xFE0F] [''construction_worker_man''] [''helmet''] True,
     emojiEntry [0x1F477, 0x200D, 0x2640, 0xFE0F] [''construction_worker_woman''] [''helmet''] True,
     emojiEntry [0x1FAC5] [''person_with_crown''] [] True,
     emojiEntry [0x1F934] [''prince''] [''crown'', ''royal''] True,
     emojiEntry [0x1F478] [''princess''] [''crown'', ''royal''] True,
     emojiEntry [0x1F473] [''person_with_turban''] [] True,
     emojiEntry [0x1F473, 0x200D, 0x2642, 0xFE0F] [''man_with_turban''] [] True,
     emojiEntry [0x1F473, 0x200D, 0x2640, 0xFE0F] [''woman_with_turban''] [] True,
     emojiEntry [0x1F472] [''man_with_gua_pi_mao''] [] True,
     emojiEntry [0x1F9D5] [''woman_with_headscarf''] [''hijab''] True,
     emojiEntry [0x1F935] [''person_in_tuxedo''] [''groom'', ''marriage'', ''wedding''] True,
     emojiEntry [0x1F935, 0x200D, 0x2642, 0xFE0F] [''man_in_tuxedo''] [] True,
     emojiEntry [0x1F935, 0x200D, 0x2640, 0xFE0F] [''woman_in_tuxedo''] [] True,
     emojiEntry [0x1F470] [''person_with_veil''] [''marriage'', ''wedding''] True,
     emojiEntry [0x1F470, 0x200D, 0x2642, 0xFE0F] [''man_with_veil''] [] True,
     emojiEntry [0x1F470, 0x200D, 0x2640, 0xFE0F] [''woman_with_veil'', ''bride_with_veil''] [] True,
     emojiEntry [0x1F930] [''pregnant_woman''] [] True,
     emojiEntry [0x1FAC3] [''pregnant_man''] [] True,
     emojiEntry [0x1FAC4] [''pregnant_person''] [] True,
     emojiEntry [0x1F931] [''breast_feeding''] [''nursing''] True,
     emojiEntry [0x1F469, 0x200D, 0x1F37C] [''woman_feeding_baby''] [] True,
     emojiEntry [0x1F468, 0x200D, 0x1F37C] [''man_feeding_baby''] [] True,
     emojiEntry [0x1F9D1, 0x200D, 0x1F37C] [''person_feeding_baby''] [] True,
     emojiEntry [0x1F47C] [''angel''] [] True,
     emojiEntry [0x1F385] [''santa''] [''christmas''] True,
     emojiEntry [0x1F936] [''mrs_claus''] [''santa''] True,
     emojiEntry [0x1F9D1, 0x200D, 0x1F384] [''mx_claus''] [] True,
     emojiEntry [0x1F9B8] [''superhero''] [] True,
     emojiEntry [0x1F9B8, 0x200D, 0x2642, 0xFE0F] [''superhero_man''] [] True,
     emojiEntry [0x1F9B8, 0x200D, 0x2640, 0xFE0F] [''superhero_woman''] [] True,
     emojiEntry [0x1F9B9] [''supervillain''] [] True,
     emojiEntry [0x1F9B9, 0x200D, 0x2642, 0xFE0F] [''supervillain_man''] [] True,
     emojiEntry [0x1F9B9, 0x200D, 0x2640, 0xFE0F] [''supervillain_woman''] [] True,
     emojiEntry [0x1F9D9] [''mage''] [''wizard''] True,
     emojiEntry [0x1F9D9, 0x200D, 0x2642, 0xFE0F] [''mage_man''] [''wizard''] True,
     emojiEntry [0x1F9D9, 0x200D, 0x2640, 0xFE0F] [''mage_woman''] [''wizard''] True,
     emojiEntry [0x1F9DA] [''fairy''] [] True]"

definition people_3 :: "emoji_entry list" where
  "people_3 = [
     emojiEntry [0x1F9DA, 0x200D, 0x2642, 0xFE0F] [''fairy_man''] [] True,
     emojiEntry [0x1F9DA, 0x200D, 0x2640, 0xFE0F] [''fairy_woman''] [] True,
     emojiEntry [0x1F9DB] [''vampire''] [] True,
     emojiEntry [0x1F9DB, 0x200D, 0x2642, 0xFE0F] [''vampire_man''] [] True,
     emojiEntry [0x1F9DB, 0x200D, 0x2640, 0xFE0F] [''vampire_woman''] [] True,
     emojiEntry [0x1F9DC] [''merperson''] [] True,
     emojiEntry [0x1F9DC, 0x200D, 0x2642, 0xFE0F] [''merman''] [] True,
     emojiEntry [0x1F9DC, 0x200D, 0x2640, 0xFE0F] [''mermaid''] [] True,
     emojiEntry [0x1F9DD] [''elf''] [] True,
     emojiEntry [0x1F9DD, 0x200D, 0x2642, 0xFE0F] [''elf_man''] [] True,
     emojiEntry [0x1F9DD, 0x200D, 0x2640, 0xFE0F] [''elf_woman''] [] True,
     emojiEntry [0x1F9DE] [''genie''] [] False,
     emojiEntry [0x1F9DE, 0x200D, 0x2642, 0xFE0F] [''genie_man''] [] False,
     emojiEntry [0x1F9DE, 0x200D, 0x2640, 0xFE0F] [''genie_woman''] [] False,
     emojiEntry [0x1F9DF] [''zombie''] [] False,
     emojiEntry [0x1F9DF, 0x200D, 0x2642, 0xFE0F] [''zombie_man''] [] False,
     emojiEntry [0x1F9DF, 0x200D, 0x2640, 0xFE0F] [''zombie_woman''] [] False,
     emojiEntry [0x1F9CC] [''troll''] [] False,
     emojiEntry [0x1F486] [''massage''] [''spa''] True,
     emojiEntry [0x1F486, 0x200D, 0x2642, 0xFE0F] [''massage_man''] [''spa''] True,
     emojiEntry [0x1F486, 0x200D, 0x2640, 0xFE0F] [''massage_woman''] [''spa''] True,
     emojiEntry [0x1F487] [''haircut''] [''beauty''] True,
     emojiEntry [0x1F487, 0x200D, 0x2642, 0xFE0F] [''haircut_man''] [] True,
     emojiEntry [0x1F487, 0x200D, 0x2640, 0xFE0F] [''haircut_woman''] [] True,
     emojiEntry [0x1F6B6] [''walking''] [] True,
     emojiEntry [0x1F6B6, 0x200D, 0x2642, 0xFE0F] [''walking_man''] [] True,
     emojiEntry [0x1F6B6, 0x200D, 0x2640, 0xFE0F] [''walking_woman''] [] True,
     emojiEntry [0x1F9CD] [''standing_person''] [] True,
     emojiEntry [0x1F9CD, 0x200D, 0x2642, 0xFE0F] [''standing_man''] [] True,
     emojiEntry [0x1F9CD, 0x200D, 0x2640, 0xFE0F] [''standing_woman''] [] True,
     emojiEntry [0x1F9CE] [''kneeling_person''] [] True,
     emojiEntry [0x1F9CE, 0x200D, 0x2642, 0xFE0F] [''kneeling_man''] [] True,
     emojiEntry [0x1F9CE, 0x200D, 0x2640, 0xFE0F] [''kneeling_woman''] [] True,
     emojiEntry [0x1F9D1, 0x200D, 0x1F9AF] [''person_with_probing_cane''] [] True,
     emojiEntry [0x1F468, 0x200D, 0x1F9AF] [''man_with_probing_cane''] [] True,
     emojiEntry [0x1F469, 0x200D, 0x1F9AF] [''woman_with_probing_cane''] [] True,
     emojiEntry [0x1F9D1, 0x200D, 0x1F9BC] [''person_in_motorized_wheelchair''] [] True,
     emojiEntry [0x1F468, 0x200D, 0x1F9BC] [''man_in_motorized_wheelchair''] [] True,
     emojiEntry [0x1F469, 0x200D, 0x1F9BC] [''woman_in_motorized_wheelchair''] [] True,
     emojiEntry [0x1F9D1, 0x200D, 0x1F9BD] [''person_in_manual_wheelchair''] [] True,
     emojiEntry [0x1F468, 0x200D, 0x1F9BD] [''man_in_manual_wheelchair''] [] True,
     emojiEntry [0x1F469, 0x200D, 0x1F9BD] [''woman_in_manual_wheelchair''] [] True,
     emojiEntry [0x1F3C3] [''runner'', ''running''] [''exercise'', ''workout'', ''marathon''] True,
     emojiEntry [0x1F3C3, 0x200D, 0x2642, 0xFE0F] [''running_man''] [''exercise'', ''workout'', ''marathon''] True,
     emojiEntry [0x1F3C3, 0x200D, 0x2640, 0xFE0F] [''running_woman''] [''exercise'', ''workout'', ''marathon''] True,
     emojiEntry [0x1F483] [''woman_dancing'', ''dancer''] [''dress''] True,
     emojiEntry [0x1F57A] [''man_dancing''] [''dancer''] True,
     emojiEntry [0x1F574, 0xFE0F] [''business_suit_levitating''] [] True,
     emojiEntry [0x1F46F] [''dancers''] [''bunny''] False,
     emojiEntry [0x1F46F, 0x200D, 0x2642, 0xFE0F] [''dancing_men''] [''bunny''] False,
     emojiEntry [0x1F46F, 0x200D, 0x2640, 0xFE0F] [''dancing_women''] [''bunny''] False,
     emojiEntry [0x1F9D6] [''sauna_person''] [''steamy''] True,
     emojiEntry [0x1F9D6, 0x200D, 0x2642, 0xFE0F] [''sauna_man''] [''steamy''] True,
     emojiEntry [0x1F9D6, 0x200D, 0x2640, 0xFE0F] [''sauna_woman''] [''steamy''] True,
     emojiEntry [0x1F9D7] [''climbing''] [''bouldering''] True,
     emojiEntry [0x1F9D7, 0x200D, 0x2642, 0xFE0F] [''climbing_man''] [''bouldering''] True,
     emojiEntry [0x1F9D7, 0x200D, 0x2640, 0xFE0F] [''climbing_woman''] [''bouldering''] True,
     emojiEntry [0x1F93A] [''person_fencing''] [] False,
     emojiEntry [0x1F3C7] [''horse_racing''] [] True,
     emojiEntry [0x26F7, 0xFE0F] [''skier''] [] False,
     emojiEntry [0x1F3C2] [''snowboarder''] [] True,
     emojiEntry [0x1F3CC, 0xFE0F] [''golfing''] [] True,
     emojiEntry [0x1F3CC, 0xFE0F, 0x200D, 0x2642, 0xFE0F] [''golfing_man''] [] True,
     emojiEntry [0x1F3CC, 0xFE0F, 0x200D, 0x2640, 0xFE0F] [''golfing_woman''] [] True,
     emojiEntry [0x1F3C4] [''surfer''] [] True,
     emojiEntry [0x1F3C4, 0x200D, 0x2642, 0xFE0F] [''surfing_man''] [] True,
     emojiEntry [0x1F3C4, 0x200D, 0x2640, 0xFE0F] [''surfing_woman''] [] True,
     emojiEntry [0x1F6A3] [''rowboat''] [] True,
     emojiEntry [0x1F6A3, 0x200D, 0x2642, 0xFE0F] [''rowing_man''] [] True,
     emojiEntry [0x1F6A3, 0x200D, 0x2640, 0xFE0F] [''rowing_woman''] [] True,
     emojiEntry [0x1F3CA] [''swimmer''] [] True,
     emojiEntry [0x1F3CA, 0x200D, 0x2642, 0xFE0F] [''swimming_man''] [] True,
     emojiEntry [0x1F3CA, 0x200D, 0x2640, 0xFE0F] [''swimming_woman''] [] True,
     emojiEntry [0x26F9, 0xFE0F] [''bouncing_ball_person''] [''basketball''] True,
     emojiEntry [0x26F9, 0xFE0F, 0x200D, 0x2642, 0xFE0F] [''bouncing_ball_man'', ''basketball_man''] [] True,
     emojiEntry [0x26F9, 0xFE0F, 0x200D, 0x2640, 0xFE0F] [''bouncing_ball_woman'', ''basketball_woman''] [] True,
     emojiEntry [0x1F3CB, 0xFE0F] [''weight_lifting''] [''gym'', ''workout''] True,
     emojiEntry [0x1F3CB, 0xFE0F, 0x200D, 0x2642, 0xFE0F] [''weight_lifting_man''] [''gym'', ''workout''] True,
     emojiEntry [0x1F3CB, 0xFE0F, 0x200D, 0x2640, 0xFE0F] [''weight_lifting_woman''] [''gym'', ''workout''] True,
     emojiEntry [0x1F6B4] [''bicyclist''] [] True,
     emojiEntry [0x1F6B4, 0x200D, 0x2642, 0xFE0F] [''biking_man''] [] True,
     emojiEntry [0x1F6B4, 0x200D, 0x2640, 0xFE0F] [''biking_woman''] [] True,
     emojiEntry [0x1F6B5] [''mountain_bicyclist''] [] True,
     emojiEntry [0x1F6B5, 0x200D, 0x2642, 0xFE0F] [''mountain_biking_man''] [] True,
     emojiEntry [0x1F6B5, 0x200D, 0x2640, 0xFE0F] [''mountain_biking_woman''] [] True,
     emojiEntry [0x1F938] [''cartwheeling''] [] True,
     emojiEntry [0x1F938, 0x200D, 0x2642, 0xFE0F] [''man_cartwheeling''] [] True,
     emojiEntry [0x1F938, 0x200D, 0x2640, 0xFE0F] [''woman_cartwheeling''] [] True,
     emojiEntry [0x1F93C] [''wrestling''] [] False,
     emojiEntry [0x1F93C, 0x200D, 0x2642, 0xFE0F] [''men_wrestling''] [] False,
     emojiEntry [0x1F93C, 0x200D, 0x2640, 0xFE0F] [''women_wrestling''] [] False,
     emojiEntry [0x1F93D] [''water_polo''] [] True,
     emojiEntry [0x1F93D, 0x200D, 0x2642, 0xFE0F] [''man_playing_water_polo''] [] True,
     emojiEntry [0x1F93D, 0x200D, 0x2640, 0xFE0F] [''woman_playing_water_polo''] [] True,
     emojiEntry [0x1F93E] [''handball_person''] [] True,
     emojiEntry [0x1F93E, 0x200D, 0x2642, 0xFE0F] [''man_playing_handball''] [] True,
     emojiEntry [0x1F93E, 0x200D, 0x2640, 0xFE0F] [''woman_playing_handball''] [] True,
     emojiEntry [0x1F939] [''juggling_person''] [] True,
     emojiEntry [0x1F939, 0x200D, 0x2642, 0xFE0F] [''man_juggling''] [] True,
     emojiEntry [0x1F939, 0x200D, 0x2640, 0xFE0F] [''woman_juggling''] [] True,
     emojiEntry [0x1F9D8] [''lotus_position''] [''meditation''] True,
     emojiEntry [0x1F9D8, 0x200D, 0x2642, 0xFE0F] [''lotus_position_man''] [''meditation''] True,
     emojiEntry [0x1F9D8, 0x200D, 0x2640, 0xFE0F] [''lotus_position_woman''] [''meditation''] True,
     emojiEntry [0x1F6C0] [''bath''] [''shower''] True,
     emojiEntry [0x1F6CC] [''sleeping_bed''] [] True,
     emojiEntry [0x1F9D1, 0x200D, 0x1F91D, 0x200D, 0x1F9D1] [''people_holding_hands''] [''couple'', ''date''] True,
     emojiEntry [0x1F46D] [''two_women_holding_hands''] [''couple'', ''date''] True,
     emojiEntry [0x1F46B] [''couple''] [''date''] True,
     emojiEntry [0x1F46C] [''two_men_holding_hands''] [''couple'', ''date''] True,
     emojiEntry [0x1F48F] [''couplekiss''] [] True]"

definition people_4 :: "emoji_entry list" where
  "people_4 = [
     emojiEntry [0x1F469, 0x200D, 0x2764, 0xFE0F, 0x200D, 0x1F48B, 0x200D, 0x1F468] [''couplekiss_man_woman''] [] True,
     emojiEntry [0x1F468, 0x200D, 0x2764, 0xFE0F, 0x200D, 0x1F48B, 0x200D, 0x1F468] [''couplekiss_man_man''] [] True,
     emojiEntry [0x1F469, 0x200D, 0x2764, 0xFE0F, 0x200D, 0x1F48B, 0x200D, 0x1F469] [''couplekiss_woman_woman''] [] True,
     emojiEntry [0x1F491] [''couple_with_heart''] [] True,
     emojiEntry [0x1F469, 0x200D, 0x2764, 0xFE0F, 0x200D, 0x1F468] [''couple_with_heart_woman_man''] [] True,
     emojiEntry [0x1F468, 0x200D, 0x2764, 0xFE0F, 0x200D, 0x1F468] [''couple_with_heart_man_man''] [] True,
     emojiEntry [0x1F469, 0x200D, 0x2764, 0xFE0F, 0x200D, 0x1F469] [''couple_with_heart_woman_woman''] [] True,
     emojiEntry [0x1F46A] [''family''] [''home'', ''parents'', ''child''] False,
     emojiEntry [0x1F468, 0x200D, 0x1F469, 0x200D, 0x1F466] [''family_man_woman_boy''] [] False,
     emojiEntry [0x1F468, 0x200D, 0x1F469, 0x200D, 0x1F467] [''family_man_woman_girl''] [] False,
     emojiEntry [0x1F468, 0x200D, 0x1F469, 0x200D, 0x1F467, 0x200D, 0x1F466] [''family_man_woman_girl_boy''] [] False,
     emojiEntry [0x1F468, 0x200D, 0x1F469, 0x200D, 0x1F466, 0x200D, 0x1F466] [''family_man_woman_boy_boy''] [] False,
     emojiEntry [0x1F468, 0x200D, 0x1F469, 0x200D, 0x1F467, 0x200D, 0x1F467] [''family_man_woman_girl_girl''] [] False,
     emojiEntry [0x1F468, 0x200D, 0x1F468, 0x200D, 0x1F466] [''family_man_man_boy''] [] False,
     emojiEntry [0x1F468, 0x200D, 0x1F468, 0x200D, 0x1F467] [''family_man_man_girl''] [] False,
     emojiEntry [0x1F468, 0x200D, 0x1F468, 0x200D, 0x1F467, 0x200D, 0x1F466] [''family_man_man_girl_boy''] [] False,
     emojiEntry [0x1F468, 0x200D, 0x1F468, 0x200D, 0x1F466, 0x200D, 0x1F466] [''family_man_man_boy_boy''] [] False,
     emojiEntry [0x1F468, 0x200D, 0x1F468, 0x200D, 0x1F467, 0x200D, 0x1F467] [''family_man_man_girl_girl''] [] False,
     emojiEntry [0x1F469, 0x200D, 0x1F469, 0x200D, 0x1F466] [''family_woman_woman_boy''] [] False,
     emojiEntry [0x1F469, 0x200D, 0x1F469, 0x200D, 0x1F467] [''family_woman_woman_girl''] [] False,
     emojiEntry [0x1F469, 0x200D, 0x1F469, 0x200D, 0x1F467, 0x200D, 0x1F466] [''family_woman_woman_girl_boy''] [] False,
     emojiEntry [0x1F469, 0x200D, 0x1F469, 0x200D, 0x1F466, 0x200D, 0x1F466] [''family_woman_woman_boy_boy''] [] False,
     emojiEntry [0x1F469, 0x200D, 0x1F469, 0x200D, 0x1F467, 0x200D, 0x1F467] [''family_woman_woman_girl_girl''] [] False,
     emojiEntry [0x1F468, 0x200D, 0x1F466] [''family_man_boy''] [] False,
     emojiEntry [0x1F468, 0x200D, 0x1F466, 0x200D, 0x1F466] [''family_man_boy_boy''] [] False,
     emojiEntry [0x1F468, 0x200D, 0x1F467] [''family_man_girl''] [] False,
     emojiEntry [0x1F468, 0x200D, 0x1F467, 0x200D, 0x1F466] [''family_man_girl_boy''] [] False,
     emojiEntry [0x1F468, 0x200D, 0x1F467, 0x200D, 0x1F467] [''family_man_girl_girl''] [] False,
     emojiEntry [0x1F469, 0x200D, 0x1F466] [''family_woman_boy''] [] False,
     emojiEntry [0x1F469, 0x200D, 0x1F466, 0x200D, 0x1F466] [''family_woman_boy_boy''] [] False,
     emojiEntry [0x1F469, 0x200D, 0x1F467] [''family_woman_girl''] [] False,
     emojiEntry [0x1F469, 0x200D, 0x1F467, 0x200D, 0x1F466] [''family_woman_girl_boy''] [] False,
     emojiEntry [0x1F469, 0x200D, 0x1F467, 0x200D, 0x1F467] [''family_woman_girl_girl''] [] False,
     emojiEntry [0x1F5E3, 0xFE0F] [''speaking_head''] [] False,
     emojiEntry [0x1F464] [''bust_in_silhouette''] [''user''] False,
     emojiEntry [0x1F465] [''busts_in_silhouette''] [''users'', ''group'', ''team''] False,
     emojiEntry [0x1FAC2] [''people_hugging''] [] False,
     emojiEntry [0x1F463] [''footprints''] [''feet'', ''tracks''] False]"

definition people :: emoji_category where
  "people = \<lparr>ec_id = js ''people'', ec_label = js ''People'', ec_icon = utf16 0x1F9D1,
     ec_emojis = people_1 @ people_2 @ people_3 @ people_4\<rparr>"

section \<open>Animals & Nature\<close>

definition nature_1 :: "emoji_entry list" where
  "nature_1 = [
     emojiEntry [0x1F435] [''monkey_face''] [] False,
     emojiEntry [0x1F412] [''monkey''] [] False,
     emojiEntry [0x1F98D] [''gorilla''] [] False,
     emojiEntry [0x1F9A7] [''orangutan''] [] False,
     emojiEntry [0x1F436] [''dog''] [''pet''] False,
     emojiEntry [0x1F415] [''dog2''] [] False,
     emojiEntry [0x1F9AE] [''guide_dog''] [] False,
     emojiEntry [0x1F415, 0x200D, 0x1F9BA] [''service_dog''] [] False,
     emojiEntry [0x1F429] [''poodle''] [''dog''] False,
     emojiEntry [0x1F43A] [''wolf''] [] False,
     emojiEntry [0x1F98A] [''fox_face''] [] False,
     emojiEntry [0x1F99D] [''raccoon''] [] False,
     emojiEntry [0x1F431] [''cat''] [''pet''] False,
     emojiEntry [0x1F408] [''cat2''] [] False,
     emojiEntry [0x1F408, 0x200D, 0x2B1B] [''black_cat''] [] False,
     emojiEntry [0x1F981] [''lion''] [] False,
     emojiEntry [0x1F42F] [''tiger''] [] False,
     emojiEntry [0x1F405] [''tiger2''] [] False,
     emojiEntry [0x1F406] [''leopard''] [] False,
     emojiEntry [0x1F434] [''horse''] [] False,
     emojiEntry [0x1FACE] [''moose''] [''canada''] False,
     emojiEntry [0x1FACF] [''donkey''] [''mule''] False,
     emojiEntry [0x1F40E] [''racehorse''] [''speed''] False,
     emojiEntry [0x1F984] [''unicorn''] [] False,
     emojiEntry [0x1F993] [''zebra''] [] False,
     emojiEntry [0x1F98C] [''deer''] [] False,
     emojiEntry [0x1F9AC] [''bison''] [] False,
     emojiEntry [0x1F42E] [''cow''] [] False,
     emojiEntry [0x1F402] [''ox''] [] False,
     emojiEntry [0x1F403] [''water_buffalo''] [] False,
     emojiEntry [0x1F404] [''cow2''] [] False,
     emojiEntry [0x1F437] [''pig''] [] False,
     emojiEntry [0x1F416] [''pig2''] [] False,
     emojiEntry [0x1F417] [''boar''] [] False,
     emojiEntry [0x1F43D] [''pig_nose''] [] False,
     emojiEntry [0x1F40F] [''ram''] [] False,
     emojiEntry [0x1F411] [''sheep''] [] False,
     emojiEntry [0x1F410] [''goat''] [] False,
     emojiEntry [0x1F42A] [''dromedary_camel''] [''desert''] False,
     emojiEntry [0x1F42B] [''camel''] [] False,
     emojiEntry [0x1F999] [''llama''] [] False,
     emojiEntry [0x1F992] [''giraffe''] [] False,
     emojiEntry [0x1F418] [''elephant''] [] False,
     emojiEntry [0x1F9A3] [''mammoth''] [] False,
     emojiEntry [0x1F98F] [''rhinoceros''] [] False,
     emojiEntry [0x1F99B] [''hippopotamus''] [] False,
     emojiEntry [0x1F42D] [''mouse''] [] False,
     emojiEntry [0x1F401] [''mouse2''] [] False,
     emojiEntry [0x1F400] [''rat''] [] False,
     emojiEntry [0x1F439] [''hamster''] [''pet''] False,
     emojiEntry [0x1F430] [''rabbit''] [''bunny''] False,
     emojiEntry [0x1F407] [''rabbit2''] [] False,
     emojiEntry [0x1F43F, 0xFE0F] [''chipmunk''] [] False,
     emojiEntry [0x1F9AB] [''beaver''] [] False,
     emojiEntry [0x1F994] [''hedgehog''] [] False,
     emojiEntry [0x1F987] [''bat''] [] False,
     emojiEntry [0x1F43B] [''bear''] [] False,
     emojiEntry [0x1F43B, 0x200D, 0x2744, 0xFE0F] [''polar_bear''] [] False,
     emojiEntry [0x1F428] [''koala''] [] False,
     emojiEntry [0x1F43C] [''panda_face''] [] False,
     emojiEntry [0x1F9A5] [''sloth''] [] False,
     emojiEntry [0x1F9A6] [''otter''] [] False,
     emojiEntry [0x1F9A8] [''skunk''] [] False,
     emojiEntry [0x1F998] [''kangaroo''] [] False,
     emojiEntry [0x1F9A1] [''badger''] [] False,
     emojiEntry [0x1F43E] [''feet'', ''paw_prints''] [] False,
     emojiEntry [0x1F983] [''turkey''] [''thanksgiving''] False,
     emojiEntry [0x1F414] [''chicken''] [] False,
     emojiEntry [0x1F413] [''rooster''] [] False,
     emojiEntry [0x1F423] [''hatching_chick''] [] False,
     emojiEntry [0x1F424] [''baby_chick''] [] False,
     emojiEntry [0x1F425] [''hatched_chick''] [] False,
     emojiEntry [0x1F426] [''bird''] [] False,
     emojiEntry [0x1F427] [''penguin''] [] False,
     emojiEntry [0x1F54A, 0xFE0F] [''dove''] [''peace''] False,
     emojiEntry [0x1F985] [''eagle''] [] False,
     emojiEntry [0x1F986] [''duck''] [] False,
     emojiEntry [0x1F9A2] [''swan''] [] False,
     emojiEntry [0x1F989] [''owl''] [] False,
     emojiEntry [0x1F9A4] [''dodo''] [] False,
     emojiEntry [0x1FAB6] [''feather''] [] False,
     emojiEntry [0x1F9A9] [''flamingo''] [] False,
     emojiEntry [0x1F99A] [''peacock''] [] False,
     emojiEntry [0x1F99C] [''parrot''] [] False,
     emojiEntry [0x1FABD] [''wing''] [''fly''] False,
     emojiEntry [0x1F426, 0x200D, 0x2B1B] [''black_bird''] [] False,
     emojiEntry [0x1FABF] [''goose''] [''honk''] False,
     emojiEntry [0x1F438] [''frog''] [] False,
     emojiEntry [0x1F40A] [''crocodile''] [] False,
     emojiEntry [0x1F422] [''turtle''] [''slow''] False,
     emojiEntry [0x1F98E] [''lizard''] [] False,
     emojiEntry [0x1F40D] [''snake''] [] False,
     emojiEntry [0x1F432] [''dragon_face''] [] False,
     emojiEntry [0x1F409] [''dragon''] [] False,
     emojiEntry [0x1F995] [''sauropod''] [''dinosaur''] False,
     emojiEntry [0x1F996] [''t-rex''] [''dinosaur''] False,
     emojiEntry [0x1F433] [''whale''] [''sea''] False,
     emojiEntry [0x1F40B] [''whale2''] [] False,
     emojiEntry [0x1F42C] [''dolphin'', ''flipper''] [] False,
     emojiEntry [0x1F9AD] [''seal''] [] False,
     emojiEntry [0x1F41F] [''fish''] [] False,
     emojiEntry [0x1F420] [''tropical_fish''] [] False,
     emojiEntry [0x1F421] [''blowfish''] [] False,
     emojiEntry [0x1F988] [''shark''] [] False,
     emojiEntry [0x1F419] [''octopus''] [] False,
     emojiEntry [0x1F41A] [''shell''] [''sea'', ''beach''] False,
     emojiEntry [0x1FAB8] [''coral''] [] False,
     emojiEntry [0x1FABC] [''jellyfish''] [] False,
     emojiEntry [0x1F40C] [''snail''] [''slow''] False,
     emojiEntry [0x1F98B] [''butterfly''] [] False]"

definition nature_2 :: "emoji_entry list" where
  "nature_2 = [
     emojiEntry [0x1F41B] [''bug''] [] False,
     emojiEntry [0x1F41C] [''ant''] [] False,
     emojiEntry [0x1F41D] [''bee'', ''honeybee''] [] False,
     emojiEntry [0x1FAB2] [''beetle''] [] False,
     emojiEntry [0x1F41E] [''lady_beetle''] [''bug''] False,
     emojiEntry [0x1F997] [''cricket''] [] False,
     emojiEntry [0x1FAB3] [''cockroach''] [] False,
     emojiEntry [0x1F577, 0xFE0F] [''spider''] [] False,
     emojiEntry [0x1F578, 0xFE0F] [''spider_web''] [] False,
     emojiEntry [0x1F982] [''scorpion''] [] False,
     emojiEntry [0x1F99F] [''mosquito''] [] False,
     emojiEntry [0x1FAB0] [''fly''] [] False,
     emojiEntry [0x1FAB1] [''worm''] [] False,
     emojiEntry [0x1F9A0] [''microbe''] [''germ''] False,
     emojiEntry [0x1F490] [''bouquet''] [''flowers''] False,
     emojiEntry [0x1F338] [''cherry_blossom''] [''flower'', ''spring''] False,
     emojiEntry [0x1F4AE] [''white_flower''] [] False,
     emojiEntry [0x1FAB7] [''lotus''] [] False,
     emojiEntry [0x1F3F5, 0xFE0F] [''rosette''] [] False,
     emojiEntry [0x1F339] [''rose''] [''flower''] False,
     emojiEntry [0x1F940] [''wilted_flower''] [] False,
     emojiEntry [0x1F33A] [''hibiscus''] [] False,
     emojiEntry [0x1F33B] [''sunflower''] [] False,
     emojiEntry [0x1F33C] [''blossom''] [] False,
     emojiEntry [0x1F337] [''tulip''] [''flower''] False,
     emojiEntry [0x1FABB] [''hyacinth''] [] False,
     emojiEntry [0x1F331] [''seedling''] [''plant''] False,
     emojiEntry [0x1FAB4] [''potted_plant''] [] False,
     emojiEntry [0x1F332] [''evergreen_tree''] [''wood''] False,
     emojiEntry [0x1F333] [''deciduous_tree''] [''wood''] False,
     emojiEntry [0x1F334] [''palm_tree''] [] False,
     emojiEntry [0x1F335] [''cactus''] [] False,
     emojiEntry [0x1F33E] [''ear_of_rice''] [] False,
     emojiEntry [0x1F33F] [''herb''] [] False,
     emojiEntry [0x2618, 0xFE0F] [''shamrock''] [] False,
     emojiEntry [0x1F340] [''four_leaf_clover''] [''luck''] False,
     emojiEntry [0x1F341] [''maple_leaf''] [''canada''] False,
     emojiEntry [0x1F342] [''fallen_leaf''] [''autumn''] False,
     emojiEntry [0x1F343] [''leaves''] [''leaf''] False,
     emojiEntry [0x1FAB9] [''empty_nest''] [] False,
     emojiEntry [0x1FABA] [''nest_with_eggs''] [] False,
     emojiEntry [0x1F344] [''mushroom''] [''fungus''] False]"

definition nature :: emoji_category where
  "nature = \<lparr>ec_id = js ''nature'', ec_label = js ''Animals & Nature'', ec_icon = utf16 0x1F43B,
     ec_emojis = nature_1 @ nature_2\<rparr>"

section \<open>Food & Drink\<close>

definition food_1 :: "emoji_entry list" where
  "food_1 = [
     emojiEntry [0x1F347] [''grapes''] [] False,
     emojiEntry [0x1F348] [''melon''] [] False,
     emojiEntry [0x1F349] [''watermelon''] [] False,
     emojiEntry [0x1F34A] [''tangerine'', ''orange'', ''mandarin''] [] False,
     emojiEntry [0x1F34B] [''lemon''] [] False,
     emojiEntry [0x1F34C] [''banana''] [''fruit''] False,
     emojiEntry [0x1F34D] [''pineapple''] [] False,
     emojiEntry [0x1F96D] [''mango''] [] False,
     emojiEntry [0x1F34E] [''apple''] [] False,
     emojiEntry [0x1F34F] [''green_apple''] [''fruit''] False,
     emojiEntry [0x1F350] [''pear''] [] False,
     emojiEntry [0x1F351] [''peach''] [] False,
     emojiEntry [0x1F352] [''cherries''] [''fruit''] False,
     emojiEntry [0x1F353] [''strawberry''] [''fruit''] False,
     emojiEntry [0x1FAD0] [''blueberries''] [] False,
     emojiEntry [0x1F95D] [''kiwi_fruit''] [] False,
     emojiEntry [0x1F345] [''tomato''] [] False,
     emojiEntry [0x1FAD2] [''olive''] [] False,
     emojiEntry [0x1F965] [''coconut''] [] False,
     emojiEntry [0x1F951] [''avocado''] [] False,
     emojiEntry [0x1F346] [''eggplant''] [''aubergine''] False,
     emojiEntry [0x1F954] [''potato''] [] False,
     emojiEntry [0x1F955] [''carrot''] [] False,
     emojiEntry [0x1F33D] [''corn''] [] False,
     emojiEntry [0x1F336, 0xFE0F] [''hot_pepper''] [''spicy''] False,
     emojiEntry [0x1FAD1] [''bell_pepper''] [] False,
     emojiEntry [0x1F952] [''cucumber''] [] False,
     emojiEntry [0x1F96C] [''leafy_green''] [] False,
     emojiEntry [0x1F966] [''broccoli''] [] False,
     emojiEntry [0x1F9C4] [''garlic''] [] False,
     emojiEntry [0x1F9C5] [''onion''] [] False,
     emojiEntry [0x1F95C] [''peanuts''] [] False,
     emojiEntry [0x1FAD8] [''beans''] [] False,
     emojiEntry [0x1F330] [''chestnut''] [] False,
     emojiEntry [0x1FADA] [''ginger_root''] [] False,
     emojiEntry [0x1FADB] [''pea_pod''] [] False,
     emojiEntry [0x1F35E] [''bread''] [''toast''] False,
     emojiEntry [0x1F950] [''croissant''] [] False,
     emojiEntry [0x1F956] [''baguette_bread''] [] False,
     emojiEntry [0x1FAD3] [''flatbread''] [] False,
     emojiEntry [0x1F968] [''pretzel''] [] False,
     emojiEntry [0x1F96F] [''bagel''] [] False,
     emojiEntry [0x1F95E] [''pancakes''] [] False,
     emojiEntry [0x1F9C7] [''waffle''] [] False,
     emojiEntry [0x1F9C0] [''cheese''] [] False,
     emojiEntry [0x1F356] [''meat_on_bone''] [] False,
     emojiEntry [0x1F357] [''poultry_leg''] [''meat'', ''chicken''] False,
     emojiEntry [0x1F969] [''cut_of_meat''] [] False,
     emojiEntry [0x1F953] [''bacon''] [] False,
     emojiEntry [0x1F354] [''hamburger''] [''burger''] False,
     emojiEntry [0x1F35F] [''fries''] [] False,
     emojiEntry [0x1F355] [''pizza''] [] False,
     emojiEntry [0x1F32D] [''hotdog''] [] False,
     emojiEntry [0x1F96A] [''sandwich''] [] False,
     emojiEntry [0x1F32E] [''taco''] [] False,
     emojiEntry [0x1F32F] [''burrito''] [] False,
     emojiEntry [0x1FAD4] [''tamale''] [] False,
     emojiEntry [0x1F959] [''stuffed_flatbread''] [] False,
     emojiEntry [0x1F9C6] [''falafel''] [] False,
     emojiEntry [0x1F95A] [''egg''] [] False,
     emojiEntry [0x1F373] [''fried_egg''] [''breakfast''] False,
     emojiEntry [0x1F958] [''shallow_pan_of_food''] [''paella'', ''curry''] False,
     emojiEntry [0x1F372] [''stew''] [] False,
     emojiEntry [0x1FAD5] [''fondue''] [] False,
     emojiEntry [0x1F963] [''bowl_with_spoon''] [] False,
     emojiEntry [0x1F957] [''green_salad''] [] False,
     emojiEntry [0x1F37F] [''popcorn''] [] False,
     emojiEntry [0x1F9C8] [''butter''] [] False,
     emojiEntry [0x1F9C2] [''salt''] [] False,
     emojiEntry [0x1F96B] [''canned_food''] [] False,
     emojiEntry [0x1F371] [''bento''] [] False,
     emojiEntry [0x1F358] [''rice_cracker''] [] False,
     emojiEntry [0x1F359] [''rice_ball''] [] False,
     emojiEntry [0x1F35A] [''rice''] [] False,
     emojiEntry [0x1F35B] [''curry''] [] False,
     emojiEntry [0x1F35C] [''ramen''] [''noodle''] False,
     emojiEntry [0x1F35D] [''spaghetti''] [''pasta''] False,
     emojiEntry [0x1F360] [''sweet_potato''] [] False,
     emojiEntry [0x1F362] [''oden''] [] False,
     emojiEntry [0x1F363] [''sushi''] [] False,
     emojiEntry [0x1F364] [''fried_shrimp''] [''tempura''] False,
     emojiEntry [0x1F365] [''fish_cake''] [] False,
     emojiEntry [0x1F96E] [''moon_cake''] [] False,
     emojiEntry [0x1F361] [''dango''] [] False,
     emojiEntry [0x1F95F] [''dumpling''] [] False,
     emojiEntry [0x1F960] [''fortune_cookie''] [] False,
     emojiEntry [0x1F961] [''takeout_box''] [] False,
     emojiEntry [0x1F980] [''crab''] [] False,
     emojiEntry [0x1F99E] [''lobster''] [] False,
     emojiEntry [0x1F990] [''shrimp''] [] False,
     emojiEntry [0x1F991] [''squid''] [] False,
     emojiEntry [0x1F9AA] [''oyster''] [] False,
     emojiEntry [0x1F366] [''icecream''] [] False,
     emojiEntry [0x1F367] [''shaved_ice''] [] False,
     emojiEntry [0x1F368] [''ice_cream''] [] False,
     emojiEntry [0x1F369] [''doughnut''] [] False,
     emojiEntry [0x1F36A] [''cookie''] [] False,
     emojiEntry [0x1F382] [''birthday''] [''party''] False,
     emojiEntry [0x1F370] [''cake''] [''dessert''] False,
     emojiEntry [0x1F9C1] [''cupcake''] [] False,
     emojiEntry [0x1F967] [''pie''] [] False,
     emojiEntry [0x1F36B] [''chocolate_bar''] [] False,
     emojiEntry [0x1F36C] [''candy''] [''sweet''] False,
     emojiEntry [0x1F36D] [''lollipop''] [] False,
     emojiEntry [0x1F36E] [''custard''] [] False,
     emojiEntry [0x1F36F] [''honey_pot''] [] False,
     emojiEntry [0x1F37C] [''baby_bottle''] [''milk''] False,
     emojiEntry [0x1F95B] [''milk_glass''] [] False,
     emojiEntry [0x2615] [''coffee''] [''cafe'', ''espresso''] False,
     emojiEntry [0x1FAD6] [''teapot''] [] False]"

definition food_2 :: "emoji_entry list" where
  "food_2 = [
     emojiEntry [0x1F375] [''tea''] [''green'', ''breakfast''] False,
     emojiEntry [0x1F376] [''sake''] [] False,
     emojiEntry [0x1F37E] [''champagne''] [''bottle'', ''bubbly'', ''celebration''] False,
     emojiEntry [0x1F377] [''wine_glass''] [] False,
     emojiEntry [0x1F378] [''cocktail''] [''drink''] False,
     emojiEntry [0x1F379] [''tropical_drink''] [''summer'', ''vacation''] False,
     emojiEntry [0x1F37A] [''beer''] [''drink''] False,
     emojiEntry [0x1F37B] [''beers''] [''drinks''] False,
     emojiEntry [0x1F942] [''clinking_glasses''] [''cheers'', ''toast''] False,
     emojiEntry [0x1F943] [''tumbler_glass''] [''whisky''] False,
     emojiEntry [0x1FAD7] [''pouring_liquid''] [] False,
     emojiEntry [0x1F964] [''cup_with_straw''] [] False,
     emojiEntry [0x1F9CB] [''bubble_tea''] [] False,
     emojiEntry [0x1F9C3] [''beverage_box''] [] False,
     emojiEntry [0x1F9C9] [''mate''] [] False,
     emojiEntry [0x1F9CA] [''ice_cube''] [] False,
     emojiEntry [0x1F962] [''chopsticks''] [] False,
     emojiEntry [0x1F37D, 0xFE0F] [''plate_with_cutlery''] [''dining'', ''dinner''] False,
     emojiEntry [0x1F374] [''fork_and_knife''] [''cutlery''] False,
     emojiEntry [0x1F944] [''spoon''] [] False,
     emojiEntry [0x1F52A] [''hocho'', ''knife''] [''cut'', ''chop''] False,
     emojiEntry [0x1FAD9] [''jar''] [] False,
     emojiEntry [0x1F3FA] [''amphora''] [] False]"

definition food :: emoji_category where
  "food = \<lparr>ec_id = js ''food'', ec_label = js ''Food & Drink'', ec_icon = utf16 0x1F354,
     ec_emojis = food_1 @ food_2\<rparr>"

section \<open>Activity\<close>

definition activity_1 :: "emoji_entry list" where
  "activity_1 = [
     emojiEntry [0x1F383] [''jack_o_lantern''] [''halloween''] False,
     emojiEntry [0x1F384] [''christmas_tree''] [] False,
     emojiEntry [0x1F386] [''fireworks''] [''festival'', ''celebration''] False,
     emojiEntry [0x1F387] [''sparkler''] [] False,
     emojiEntry [0x1F9E8] [''firecracker''] [] False,
     emojiEntry [0x2728] [''sparkles''] [''shiny''] False,
     emojiEntry [0x1F388] [''balloon''] [''party'', ''birthday''] False,
     emojiEntry [0x1F389] [''tada''] [''hooray'', ''party''] False,
     emojiEntry [0x1F38A] [''confetti_ball''] [] False,
     emojiEntry [0x1F38B] [''tanabata_tree''] [] False,
     emojiEntry [0x1F38D] [''bamboo''] [] False,
     emojiEntry [0x1F38E] [''dolls''] [] False,
     emojiEntry [0x1F38F] [''flags''] [] False,
     emojiEntry [0x1F390] [''wind_chime''] [] False,
     emojiEntry [0x1F391] [''rice_scene''] [] False,
     emojiEntry [0x1F9E7] [''red_envelope''] [] False,
     emojiEntry [0x1F380] [''ribbon''] [] False,
     emojiEntry [0x1F381] [''gift''] [''present'', ''birthday'', ''christmas''] False,
     emojiEntry [0x1F397, 0xFE0F] [''reminder_ribbon''] [] False,
     emojiEntry [0x1F39F, 0xFE0F] [''tickets''] [] False,
     emojiEntry [0x1F3AB] [''ticket''] [] False,
     emojiEntry [0x1F396, 0xFE0F] [''medal_military''] [] False,
     emojiEntry [0x1F3C6] [''trophy''] [''award'', ''contest'', ''winner''] False,
     emojiEntry [0x1F3C5] [''medal_sports''] [''gold'', ''winner''] False,
     emojiEntry [0x1F947] [''1st_place_medal''] [''gold''] False,
     emojiEntry [0x1F948] [''2nd_place_medal''] [''silver''] False,
     emojiEntry [0x1F949] [''3rd_place_medal''] [''bronze''] False,
     emojiEntry [0x26BD] [''soccer''] [''sports''] False,
     emojiEntry [0x26BE] [''baseball''] [''sports''] False,
     emojiEntry [0x1F94E] [''softball''] [] False,
     emojiEntry [0x1F3C0] [''basketball''] [''sports''] False,
     emojiEntry [0x1F3D0] [''volleyball''] [] False,
     emojiEntry [0x1F3C8] [''football''] [''sports''] False,
     emojiEntry [0x1F3C9] [''rugby_football''] [] False,
     emojiEntry [0x1F3BE] [''tennis''] [''sports''] False,
     emojiEntry [0x1F94F] [''flying_disc''] [] False,
     emojiEntry [0x1F3B3] [''bowling''] [] False,
     emojiEntry [0x1F3CF] [''cricket_game''] [] False,
     emojiEntry [0x1F3D1] [''field_hockey''] [] False,
     emojiEntry [0x1F3D2] [''ice_hockey''] [] False,
     emojiEntry [0x1F94D] [''lacrosse''] [] False,
     emojiEntry [0x1F3D3] [''ping_pong''] [] False,
     emojiEntry [0x1F3F8] [''badminton''] [] False,
     emojiEntry [0x1F94A] [''boxing_glove''] [] False,
     emojiEntry [0x1F94B] [''martial_arts_uniform''] [] False,
     emojiEntry [0x1F945] [''goal_net''] [] False,
     emojiEntry [0x26F3] [''golf''] [] False,
     emojiEntry [0x26F8, 0xFE0F] [''ice_skate''] [''skating''] False,
     emojiEntry [0x1F3A3] [''fishing_pole_and_fish''] [] False,
     emojiEntry [0x1F93F] [''diving_mask''] [] False,
     emojiEntry [0x1F3BD] [''running_shirt_with_sash''] [''marathon''] False,
     emojiEntry [0x1F3BF] [''ski''] [] False,
     emojiEntry [0x1F6F7] [''sled''] [] False,
     emojiEntry [0x1F94C] [''curling_stone''] [] False,
     emojiEntry [0x1F3AF] [''dart''] [''target''] False,
     emojiEntry [0x1FA80] [''yo_yo''] [] False,
     emojiEntry [0x1FA81] [''kite''] [] False,
     emojiEntry [0x1F52B] [''gun''] [''shoot'', ''weapon''] False,
     emojiEntry [0x1F3B1] [''8ball''] [''pool'', ''billiards''] False,
     emojiEntry [0x1F52E] [''crystal_ball''] [''fortune''] False,
     emojiEntry [0x1FA84] [''magic_wand''] [] False,
     emojiEntry [0x1F3AE] [''video_game''] [''play'', ''controller'', ''console''] False,
     emojiEntry [0x1F579, 0xFE0F] [''joystick''] [] False,
     emojiEntry [0x1F3B0] [''slot_machine''] [] False,
     emojiEntry [0x1F3B2] [''game_die''] [''dice'', ''gambling''] False,
     emojiEntry [0x1F9E9] [''jigsaw''] [] False,
     emojiEntry [0x1F9F8] [''teddy_bear''] [] False,
     emojiEntry [0x1FA85] [''pinata''] [] False,
     emojiEntry [0x1FAA9] [''mirror_ball''] [''disco'', ''party''] False,
     emojiEntry [0x1FA86] [''nesting_dolls''] [] False,
     emojiEntry [0x2660, 0xFE0F] [''spades''] [] False,
     emojiEntry [0x2665, 0xFE0F] [''hearts''] [] False,
     emojiEntry [0x2666, 0xFE0F] [''diamonds''] [] False,
     emojiEntry [0x2663, 0xFE0F] [''clubs''] [] False,
     emojiEntry [0x265F, 0xFE0F] [''chess_pawn''] [] False,
     emojiEntry [0x1F0CF] [''black_joker''] [] False,
     emojiEntry [0x1F004] [''mahjong''] [] False,
     emojiEntry [0x1F3B4] [''flower_playing_cards''] [] False,
     emojiEntry [0x1F3AD] [''performing_arts''] [''theater'', ''drama''] False,
     emojiEntry [0x1F5BC, 0xFE0F] [''framed_picture''] [] False,
     emojiEntry [0x1F3A8] [''art''] [''design'', ''paint''] False,
     emojiEntry [0x1F9F5] [''thread''] [] False,
     emojiEntry [0x1FAA1] [''sewing_needle''] [] False,
     emojiEntry [0x1F9F6] [''yarn''] [] False,
     emojiEntry [0x1FAA2] [''knot''] [] False]"

definition activity :: emoji_category where
  "activity = \<lparr>ec_id = js ''activity'', ec_label = js ''Activity'', ec_icon = utf16 0x26BD,
     ec_emojis = activity_1\<rparr>"

section \<open>Travel & Places\<close>

definition travel_1 :: "emoji_entry list" where
  "travel_1 = [
     emojiEntry [0x1F30D] [''earth_africa''] [''globe'', ''world'', ''international''] False,
     emojiEntry [0x1F30E] [''earth_americas''] [''globe'', ''world'', ''international''] False,
     emojiEntry [0x1F30F] [''earth_asia''] [''globe'', ''world'', ''international''] False,
     emojiEntry [0x1F310] [''globe_with_meridians''] [''world'', ''global'', ''international''] False,
     emojiEntry [0x1F5FA, 0xFE0F] [''world_map''] [''travel''] False,
     emojiEntry [0x1F5FE] [''japan''] [] False,
     emojiEntry [0x1F9ED] [''compass''] [] False,
     emojiEntry [0x1F3D4, 0xFE0F] [''mountain_snow''] [] False,
     emojiEntry [0x26F0, 0xFE0F] [''mountain''] [] False,
     emojiEntry [0x1F30B] [''volcano''] [] False,
     emojiEntry [0x1F5FB] [''mount_fuji''] [] False,
     emojiEntry [0x1F3D5, 0xFE0F] [''camping''] [] False,
     emojiEntry [0x1F3D6, 0xFE0F] [''beach_umbrella''] [] False,
     emojiEntry [0x1F3DC, 0xFE0F] [''desert''] [] False,
     emojiEntry [0x1F3DD, 0xFE0F] [''desert_island''] [] False,
     emojiEntry [0x1F3DE, 0xFE0F] [''national_park''] [] False,
     emojiEntry [0x1F3DF, 0xFE0F] [''stadium''] [] False,
     emojiEntry [0x1F3DB, 0xFE0F] [''classical_building''] [] False,
     emojiEntry [0x1F3D7, 0xFE0F] [''building_construction''] [] False,
     emojiEntry [0x1F9F1] [''bricks''] [] False,
     emojiEntry [0x1FAA8] [''rock''] [] False,
     emojiEntry [0x1FAB5] [''wood''] [] False,
     emojiEntry [0x1F6D6] [''hut''] [] False,
     emojiEntry [0x1F3D8, 0xFE0F] [''houses''] [] False,
     emojiEntry [0x1F3DA, 0xFE0F] [''derelict_house''] [] False,
     emojiEntry [0x1F3E0] [''house''] [] False,
     emojiEntry [0x1F3E1] [''house_with_garden''] [] False,
     emojiEntry [0x1F3E2] [''office''] [] False,
     emojiEntry [0x1F3E3] [''post_office''] [] False,
     emojiEntry [0x1F3E4] [''european_post_office''] [] False,
     emojiEntry [0x1F3E5] [''hospital''] [] False,
     emojiEntry [0x1F3E6] [''bank''] [] False,
     emojiEntry [0x1F3E8] [''hotel''] [] False,
     emojiEntry [0x1F3E9] [''love_hotel''] [] False,
     emojiEntry [0x1F3EA] [''convenience_store''] [] False,
     emojiEntry [0x1F3EB] [''school''] [] False,
     emojiEntry [0x1F3EC] [''department_store''] [] False,
     emojiEntry [0x1F3ED] [''factory''] [] False,
     emojiEntry [0x1F3EF] [''japanese_castle''] [] False,
     emojiEntry [0x1F3F0] [''european_castle''] [] False,
     emojiEntry [0x1F492] [''wedding''] [''marriage''] False,
     emojiEntry [0x1F5FC] [''tokyo_tower''] [] False,
     emojiEntry [0x1F5FD] [''statue_of_liberty''] [] False,
     emojiEntry [0x26EA] [''church''] [] False,
     emojiEntry [0x1F54C] [''mosque''] [] False,
     emojiEntry [0x1F6D5] [''hindu_temple''] [] False,
     emojiEntry [0x1F54D] [''synagogue''] [] False,
     emojiEntry [0x26E9, 0xFE0F] [''shinto_shrine''] [] False,
     emojiEntry [0x1F54B] [''kaaba''] [] False,
     emojiEntry [0x26F2] [''fountain''] [] False,
     emojiEntry [0x26FA] [''tent''] [''camping''] False,
     emojiEntry [0x1F301] [''foggy''] [''karl''] False,
     emojiEntry [0x1F303] [''night_with_stars''] [] False,
     emojiEntry [0x1F3D9, 0xFE0F] [''cityscape''] [''skyline''] False,
     emojiEntry [0x1F304] [''sunrise_over_mountains''] [] False,
     emojiEntry [0x1F305] [''sunrise''] [] False,
     emojiEntry [0x1F306] [''city_sunset''] [] False,
     emojiEntry [0x1F307] [''city_sunrise''] [] False,
     emojiEntry [0x1F309] [''bridge_at_night''] [] False,
     emojiEntry [0x2668, 0xFE0F] [''hotsprings''] [] False,
     emojiEntry [0x1F3A0] [''carousel_horse''] [] False,
     emojiEntry [0x1F6DD] [''playground_slide''] [] False,
     emojiEntry [0x1F3A1] [''ferris_wheel''] [] False,
     emojiEntry [0x1F3A2] [''roller_coaster''] [] False,
     emojiEntry [0x1F488] [''barber''] [] False,
     emojiEntry [0x1F3AA] [''circus_tent''] [] False,
     emojiEntry [0x1F682] [''steam_locomotive''] [''train''] False,
     emojiEntry [0x1F683] [''railway_car''] [] False,
     emojiEntry [0x1F684] [''bullettrain_side''] [''train''] False,
     emojiEntry [0x1F685] [''bullettrain_front''] [''train''] False,
     emojiEntry [0x1F686] [''train2''] [] False,
     emojiEntry [0x1F687] [''metro''] [] False,
     emojiEntry [0x1F688] [''light_rail''] [] False,
     emojiEntry [0x1F689] [''station''] [] False,
     emojiEntry [0x1F68A] [''tram''] [] False,
     emojiEntry [0x1F69D] [''monorail''] [] False,
     emojiEntry [0x1F69E] [''mountain_railway''] [] False,
     emojiEntry [0x1F68B] [''train''] [] False,
     emojiEntry [0x1F68C] [''bus''] [] False,
     emojiEntry [0x1F68D] [''oncoming_bus''] [] False,
     emojiEntry [0x1F68E] [''trolleybus''] [] False,
     emojiEntry [0x1F690] [''minibus''] [] False,
     emojiEntry [0x1F691] [''ambulance''] [] False,
     emojiEntry [0x1F692] [''fire_engine''] [] False,
     emojiEntry [0x1F693] [''police_car''] [] False,
     emojiEntry [0x1F694] [''oncoming_police_car''] [] False,
     emojiEntry [0x1F695] [''taxi''] [] False,
     emojiEntry [0x1F696] [''oncoming_taxi''] [] False,
     emojiEntry [0x1F697] [''car'', ''red_car''] [] False,
     emojiEntry [0x1F698] [''oncoming_automobile''] [] False,
     emojiEntry [0x1F699] [''blue_car''] [] False,
     emojiEntry [0x1F6FB] [''pickup_truck''] [] False,
     emojiEntry [0x1F69A] [''truck''] [] False,
     emojiEntry [0x1F69B] [''articulated_lorry''] [] False,
     emojiEntry [0x1F69C] [''tractor''] [] False,
     emojiEntry [0x1F3CE, 0xFE0F] [''racing_car''] [] False,
     emojiEntry [0x1F3CD, 0xFE0F] [''motorcycle''] [] False,
     emojiEntry [0x1F6F5] [''motor_scooter''] [] False,
     emojiEntry [0x1F9BD] [''manual_wheelchair''] [] False,
     emojiEntry [0x1F9BC] [''motorized_wheelchair''] [] False,
     emojiEntry [0x1F6FA] [''auto_rickshaw''] [] False,
     emojiEntry [0x1F6B2] [''bike''] [''bicycle''] False,
     emojiEntry [0x1F6F4] [''kick_scooter''] [] False,
     emojiEntry [0x1F6F9] [''skateboard''] [] False,
     emojiEntry [0x1F6FC] [''roller_skate''] [] False,
     emojiEntry [0x1F68F] [''busstop''] [] False,
     emojiEntry [0x1F6E3, 0xFE0F] [''motorway''] [] False,
     emojiEntry [0x1F6E4, 0xFE0F] [''railway_track''] [] False,
     emojiEntry [0x1F6E2, 0xFE0F] [''oil_drum''] [] False,
     emojiEntry [0x26FD] [''fuelpump''] [] False]"

definition travel_2 :: "emoji_entry list" where
  "travel_2 = [
     emojiEntry [0x1F6DE] [''wheel''] [] False,
     emojiEntry [0x1F6A8] [''rotating_light''] [''911'', ''emergency''] False,
     emojiEntry [0x1F6A5] [''traffic_light''] [] False,
     emojiEntry [0x1F6A6] [''vertical_traffic_light''] [''semaphore''] False,
     emojiEntry [0x1F6D1] [''stop_sign''] [] False,
     emojiEntry [0x1F6A7] [''construction''] [''wip''] False,
     emojiEntry [0x2693] [''anchor''] [''ship''] False,
     emojiEntry [0x1F6DF] [''ring_buoy''] [''life preserver''] False,
     emojiEntry [0x26F5] [''boat'', ''sailboat''] [] False,
     emojiEntry [0x1F6F6] [''canoe''] [] False,
     emojiEntry [0x1F6A4] [''speedboat''] [''ship''] False,
     emojiEntry [0x1F6F3, 0xFE0F] [''passenger_ship''] [''cruise''] False,
     emojiEntry [0x26F4, 0xFE0F] [''ferry''] [] False,
     emojiEntry [0x1F6E5, 0xFE0F] [''motor_boat''] [] False,
     emojiEntry [0x1F6A2] [''ship''] [] False,
     emojiEntry [0x2708, 0xFE0F] [''airplane''] [''flight''] False,
     emojiEntry [0x1F6E9, 0xFE0F] [''small_airplane''] [''flight''] False,
     emojiEntry [0x1F6EB] [''flight_departure''] [] False,
     emojiEntry [0x1F6EC] [''flight_arrival''] [] False,
     emojiEntry [0x1FA82] [''parachute''] [] False,
     emojiEntry [0x1F4BA] [''seat''] [] False,
     emojiEntry [0x1F681] [''helicopter''] [] False,
     emojiEntry [0x1F69F] [''suspension_railway''] [] False,
     emojiEntry [0x1F6A0] [''mountain_cableway''] [] False,
     emojiEntry [0x1F6A1] [''aerial_tramway''] [] False,
     emojiEntry [0x1F6F0, 0xFE0F] [''artificial_satellite''] [''orbit'', ''space''] False,
     emojiEntry [0x1F680] [''rocket''] [''ship'', ''launch''] False,
     emojiEntry [0x1F6F8] [''flying_saucer''] [''ufo''] False,
     emojiEntry [0x1F6CE, 0xFE0F] [''bellhop_bell''] [] False,
     emojiEntry [0x1F9F3] [''luggage''] [] False,
     emojiEntry [0x231B] [''hourglass''] [''time''] False,
     emojiEntry [0x23F3] [''hourglass_flowing_sand''] [''time''] False,
     emojiEntry [0x231A] [''watch''] [''time''] False,
     emojiEntry [0x23F0] [''alarm_clock''] [''morning''] False,
     emojiEntry [0x23F1, 0xFE0F] [''stopwatch''] [] False,
     emojiEntry [0x23F2, 0xFE0F] [''timer_clock''] [] False,
     emojiEntry [0x1F570, 0xFE0F] [''mantelpiece_clock''] [] False,
     emojiEntry [0x1F55B] [''clock12''] [] False,
     emojiEntry [0x1F567] [''clock1230''] [] False,
     emojiEntry [0x1F550] [''clock1''] [] False,
     emojiEntry [0x1F55C] [''clock130''] [] False,
     emojiEntry [0x1F551] [''clock2''] [] False,
     emojiEntry [0x1F55D] [''clock230''] [] False,
     emojiEntry [0x1F552] [''clock3''] [] False,
     emojiEntry [0x1F55E] [''clock330''] [] False,
     emojiEntry [0x1F553] [''clock4''] [] False,
     emojiEntry [0x1F55F] [''clock430''] [] False,
     emojiEntry [0x1F554] [''clock5''] [] False,
     emojiEntry [0x1F560] [''clock530''] [] False,
     emojiEntry [0x1F555] [''clock6''] [] False,
     emojiEntry [0x1F561] [''clock630''] [] False,
     emojiEntry [0x1F556] [''clock7''] [] False,
     emojiEntry [0x1F562] [''clock730''] [] False,
     emojiEntry [0x1F557] [''clock8''] [] False,
     emojiEntry [0x1F563] [''clock830''] [] False,
     emojiEntry [0x1F558] [''clock9''] [] False,
     emojiEntry [0x1F564] [''clock930''] [] False,
     emojiEntry [0x1F559] [''clock10''] [] False,
     emojiEntry [0x1F565] [''clock1030''] [] False,
     emojiEntry [0x1F55A] [''clock11''] [] False,
     emojiEntry [0x1F566] [''clock1130''] [] False,
     emojiEntry [0x1F311] [''new_moon''] [] False,
     emojiEntry [0x1F312] [''waxing_crescent_moon''] [] False,
     emojiEntry [0x1F313] [''first_quarter_moon''] [] False,
     emojiEntry [0x1F314] [''moon'', ''waxing_gibbous_moon''] [] False,
     emojiEntry [0x1F315] [''full_moon''] [] False,
     emojiEntry [0x1F316] [''waning_gibbous_moon''] [] False,
     emojiEntry [0x1F317] [''last_quarter_moon''] [] False,
     emojiEntry [0x1F318] [''waning_crescent_moon''] [] False,
     emojiEntry [0x1F319] [''crescent_moon''] [''night''] False,
     emojiEntry [0x1F31A] [''new_moon_with_face''] [] False,
     emojiEntry [0x1F31B] [''first_quarter_moon_with_face''] [] False,
     emojiEntry [0x1F31C] [''last_quarter_moon_with_face''] [] False,
     emojiEntry [0x1F321, 0xFE0F] [''thermometer''] [] False,
     emojiEntry [0x2600, 0xFE0F] [''sunny''] [''weather''] False,
     emojiEntry [0x1F31D] [''full_moon_with_face''] [] False,
     emojiEntry [0x1F31E] [''sun_with_face''] [''summer''] False,
     emojiEntry [0x1FA90] [''ringed_planet''] [] False,
     emojiEntry [0x2B50] [''star''] [] False,
     emojiEntry [0x1F31F] [''star2''] [] False,
     emojiEntry [0x1F320] [''stars''] [] False,
     emojiEntry [0x1F30C] [''milky_way''] [] False,
     emojiEntry [0x2601, 0xFE0F] [''cloud''] [] False,
     emojiEntry [0x26C5] [''partly_sunny''] [''weather'', ''cloud''] False,
     emojiEntry [0x26C8, 0xFE0F] [''cloud_with_lightning_and_rain''] [] False,
     emojiEntry [0x1F324, 0xFE0F] [''sun_behind_small_cloud''] [] False,
     emojiEntry [0x1F325, 0xFE0F] [''sun_behind_large_cloud''] [] False,
     emojiEntry [0x1F326, 0xFE0F] [''sun_behind_rain_cloud''] [] False,
     emojiEntry [0x1F327, 0xFE0F] [''cloud_with_rain''] [] False,
     emojiEntry [0x1F328, 0xFE0F] [''cloud_with_snow''] [] False,
     emojiEntry [0x1F329, 0xFE0F] [''cloud_with_lightning''] [] False,
     emojiEntry [0x1F32A, 0xFE0F] [''tornado''] [] False,
     emojiEntry [0x1F32B, 0xFE0F] [''fog''] [] False,
     emojiEntry [0x1F32C, 0xFE0F] [''wind_face''] [] False,
     emojiEntry [0x1F300] [''cyclone''] [''swirl''] False,
     emojiEntry [0x1F308] [''rainbow''] [] False,
     emojiEntry [0x1F302] [''closed_umbrella''] [''weather'', ''rain''] False,
     emojiEntry [0x2602, 0xFE0F] [''open_umbrella''] [] False,
     emojiEntry [0x2614] [''umbrella''] [''rain'', ''weather''] False,
     emojiEntry [0x26F1, 0xFE0F] [''parasol_on_ground''] [''beach_umbrella''] False,
     emojiEntry [0x26A1] [''zap''] [''lightning'', ''thunder''] False,
     emojiEntry [0x2744, 0xFE0F] [''snowflake''] [''winter'', ''cold'', ''weather''] False,
     emojiEntry [0x2603, 0xFE0F] [''snowman_with_snow''] [''winter'', ''christmas''] False,
     emojiEntry [0x26C4] [''snowman''] [''winter''] False,
     emojiEntry [0x2604, 0xFE0F] [''comet''] [] False,
     emojiEntry [0x1F525] [''fire''] [''burn''] False,
     emojiEntry [0x1F4A7] [''droplet''] [''water''] False,
     emojiEntry [0x1F30A] [''ocean''] [''sea''] False]"

definition travel :: emoji_category where
  "travel = \<lparr>ec_id = js ''travel'', ec_label = js ''Travel & Places'', ec_icon = utf16 0x1F680,
     ec_emojis = travel_1 @ travel_2\<rparr>"

section \<open>Objects\<close>

definition objects_1 :: "emoji_entry list" where
  "objects_1 = [
     emojiEntry [0x1F453] [''eyeglasses''] [''glasses''] False,
     emojiEntry [0x1F576, 0xFE0F] [''dark_sunglasses''] [] False,
     emojiEntry [0x1F97D] [''goggles''] [] False,
     emojiEntry [0x1F97C] [''lab_coat''] [] False,
     emojiEntry [0x1F9BA] [''safety_vest''] [] False,
     emojiEntry [0x1F454] [''necktie''] [''shirt'', ''formal''] False,
     emojiEntry [0x1F455] [''shirt'', ''tshirt''] [] False,
     emojiEntry [0x1F456] [''jeans''] [''pants''] False,
     emojiEntry [0x1F9E3] [''scarf''] [] False,
     emojiEntry [0x1F9E4] [''gloves''] [] False,
     emojiEntry [0x1F9E5] [''coat''] [] False,
     emojiEntry [0x1F9E6] [''socks''] [] False,
     emojiEntry [0x1F457] [''dress''] [] False,
     emojiEntry [0x1F458] [''kimono''] [] False,
     emojiEntry [0x1F97B] [''sari''] [] False,
     emojiEntry [0x1FA71] [''one_piece_swimsuit''] [] False,
     emojiEntry [0x1FA72] [''swim_brief''] [] False,
     emojiEntry [0x1FA73] [''shorts''] [] False,
     emojiEntry [0x1F459] [''bikini''] [''beach''] False,
     emojiEntry [0x1F45A] [''womans_clothes''] [] False,
     emojiEntry [0x1FAAD] [''folding_hand_fan''] [''sensu''] False,
     emojiEntry [0x1F45B] [''purse''] [] False,
     emojiEntry [0x1F45C] [''handbag''] [''bag''] False,
     emojiEntry [0x1F45D] [''pouch''] [''bag''] False,
     emojiEntry [0x1F6CD, 0xFE0F] [''shopping''] [''bags''] False,
     emojiEntry [0x1F392] [''school_satchel''] [] False,
     emojiEntry [0x1FA74] [''thong_sandal''] [] False,
     emojiEntry [0x1F45E] [''mans_shoe'', ''shoe''] [] False,
     emojiEntry [0x1F45F] [''athletic_shoe''] [''sneaker'', ''sport'', ''running''] False,
     emojiEntry [0x1F97E] [''hiking_boot''] [] False,
     emojiEntry [0x1F97F] [''flat_shoe''] [] False,
     emojiEntry [0x1F460] [''high_heel''] [''shoe''] False,
     emojiEntry [0x1F461] [''sandal''] [''shoe''] False,
     emojiEntry [0x1FA70] [''ballet_shoes''] [] False,
     emojiEntry [0x1F462] [''boot''] [] False,
     emojiEntry [0x1FAAE] [''hair_pick''] [] False,
     emojiEntry [0x1F451] [''crown''] [''king'', ''queen'', ''royal''] False,
     emojiEntry [0x1F452] [''womans_hat''] [] False,
     emojiEntry [0x1F3A9] [''tophat''] [''hat'', ''classy''] False,
     emojiEntry [0x1F393] [''mortar_board''] [''education'', ''college'', ''university'', ''graduation''] False,
     emojiEntry [0x1F9E2] [''billed_cap''] [] False,
     emojiEntry [0x1FA96] [''military_helmet''] [] False,
     emojiEntry [0x26D1, 0xFE0F] [''rescue_worker_helmet''] [] False,
     emojiEntry [0x1F4FF] [''prayer_beads''] [] False,
     emojiEntry [0x1F484] [''lipstick''] [''makeup''] False,
     emojiEntry [0x1F48D] [''ring''] [''wedding'', ''marriage'', ''engaged''] False,
     emojiEntry [0x1F48E] [''gem''] [''diamond''] False,
     emojiEntry [0x1F507] [''mute''] [''sound'', ''volume''] False,
     emojiEntry [0x1F508] [''speaker''] [] False,
     emojiEntry [0x1F509] [''sound''] [''volume''] False,
     emojiEntry [0x1F50A] [''loud_sound''] [''volume''] False,
     emojiEntry [0x1F4E2] [''loudspeaker''] [''announcement''] False,
     emojiEntry [0x1F4E3] [''mega''] [] False,
     emojiEntry [0x1F4EF] [''postal_horn''] [] False,
     emojiEntry [0x1F514] [''bell''] [''sound'', ''notification''] False,
     emojiEntry [0x1F515] [''no_bell''] [''volume'', ''off''] False,
     emojiEntry [0x1F3BC] [''musical_score''] [] False,
     emojiEntry [0x1F3B5] [''musical_note''] [] False,
     emojiEntry [0x1F3B6] [''notes''] [''music''] False,
     emojiEntry [0x1F399, 0xFE0F] [''studio_microphone''] [''podcast''] False,
     emojiEntry [0x1F39A, 0xFE0F] [''level_slider''] [] False,
     emojiEntry [0x1F39B, 0xFE0F] [''control_knobs''] [] False,
     emojiEntry [0x1F3A4] [''microphone''] [''sing''] False,
     emojiEntry [0x1F3A7] [''headphones''] [''music'', ''earphones''] False,
     emojiEntry [0x1F4FB] [''radio''] [''podcast''] False,
     emojiEntry [0x1F3B7] [''saxophone''] [] False,
     emojiEntry [0x1FA97] [''accordion''] [] False,
     emojiEntry [0x1F3B8] [''guitar''] [''rock''] False,
     emojiEntry [0x1F3B9] [''musical_keyboard''] [''piano''] False,
     emojiEntry [0x1F3BA] [''trumpet''] [] False,
     emojiEntry [0x1F3BB] [''violin''] [] False,
     emojiEntry [0x1FA95] [''banjo''] [] False,
     emojiEntry [0x1F941] [''drum''] [] False,
     emojiEntry [0x1FA98] [''long_drum''] [] False,
     emojiEntry [0x1FA87] [''maracas''] [''shaker''] False,
     emojiEntry [0x1FA88] [''flute''] [''recorder''] False,
     emojiEntry [0x1F4F1] [''iphone''] [''smartphone'', ''mobile''] False,
     emojiEntry [0x1F4F2] [''calling''] [''call'', ''incoming''] False,
     emojiEntry [0x260E, 0xFE0F] [''phone'', ''telephone''] [] False,
     emojiEntry [0x1F4DE] [''telephone_receiver''] [''phone'', ''call''] False,
     emojiEntry [0x1F4DF] [''pager''] [] False,
     emojiEntry [0x1F4E0] [''fax''] [] False,
     emojiEntry [0x1F50B] [''battery''] [''power''] False,
     emojiEntry [0x1FAAB] [''low_battery''] [] False,
     emojiEntry [0x1F50C] [''electric_plug''] [] False,
     emojiEntry [0x1F4BB] [''computer''] [''desktop'', ''screen''] False,
     emojiEntry [0x1F5A5, 0xFE0F] [''desktop_computer''] [] False,
     emojiEntry [0x1F5A8, 0xFE0F] [''printer''] [] False,
     emojiEntry [0x2328, 0xFE0F] [''keyboard''] [] False,
     emojiEntry [0x1F5B1, 0xFE0F] [''computer_mouse''] [] False,
     emojiEntry [0x1F5B2, 0xFE0F] [''trackball''] [] False,
     emojiEntry [0x1F4BD] [''minidisc''] [] False,
     emojiEntry [0x1F4BE] [''floppy_disk''] [''save''] False,
     emojiEntry [0x1F4BF] [''cd''] [] False,
     emojiEntry [0x1F4C0] [''dvd''] [] False,
     emojiEntry [0x1F9EE] [''abacus''] [] False,
     emojiEntry [0x1F3A5] [''movie_camera''] [''film'', ''video''] False,
     emojiEntry [0x1F39E, 0xFE0F] [''film_strip''] [] False,
     emojiEntry [0x1F4FD, 0xFE0F] [''film_projector''] [] False,
     emojiEntry [0x1F3AC] [''clapper''] [''film''] False,
     emojiEntry [0x1F4FA] [''tv''] [] False,
     emojiEntry [0x1F4F7] [''camera''] [''photo''] False,
     emojiEntry [0x1F4F8] [''camera_flash''] [''photo''] False,
     emojiEntry [0x1F4F9] [''video_camera''] [] False,
     emojiEntry [0x1F4FC] [''vhs''] [] False,
     emojiEntry [0x1F50D] [''mag''] [''search'', ''zoom''] False,
     emojiEntry [0x1F50E] [''mag_right''] [] False,
     emojiEntry [0x1F56F, 0xFE0F] [''candle''] [] False,
     emojiEntry [0x1F4A1] [''bulb''] [''idea'', ''light''] False,
     emojiEntry [0x1F526] [''flashlight''] [] False]"

definition objects_2 :: "emoji_entry list" where
  "objects_2 = [
     emojiEntry [0x1F3EE] [''izakaya_lantern'', ''lantern''] [] False,
     emojiEntry [0x1FA94] [''diya_lamp''] [] False,
     emojiEntry [0x1F4D4] [''notebook_with_decorative_cover''] [] False,
     emojiEntry [0x1F4D5] [''closed_book''] [] False,
     emojiEntry [0x1F4D6] [''book'', ''open_book''] [] False,
     emojiEntry [0x1F4D7] [''green_book''] [] False,
     emojiEntry [0x1F4D8] [''blue_book''] [] False,
     emojiEntry [0x1F4D9] [''orange_book''] [] False,
     emojiEntry [0x1F4DA] [''books''] [''library''] False,
     emojiEntry [0x1F4D3] [''notebook''] [] False,
     emojiEntry [0x1F4D2] [''ledger''] [] False,
     emojiEntry [0x1F4C3] [''page_with_curl''] [] False,
     emojiEntry [0x1F4DC] [''scroll''] [''document''] False,
     emojiEntry [0x1F4C4] [''page_facing_up''] [''document''] False,
     emojiEntry [0x1F4F0] [''newspaper''] [''press''] False,
     emojiEntry [0x1F5DE, 0xFE0F] [''newspaper_roll''] [''press''] False,
     emojiEntry [0x1F4D1] [''bookmark_tabs''] [] False,
     emojiEntry [0x1F516] [''bookmark''] [] False,
     emojiEntry [0x1F3F7, 0xFE0F] [''label''] [''tag''] False,
     emojiEntry [0x1F4B0] [''moneybag''] [''dollar'', ''cream''] False,
     emojiEntry [0x1FA99] [''coin''] [] False,
     emojiEntry [0x1F4B4] [''yen''] [] False,
     emojiEntry [0x1F4B5] [''dollar''] [''money''] False,
     emojiEntry [0x1F4B6] [''euro''] [] False,
     emojiEntry [0x1F4B7] [''pound''] [] False,
     emojiEntry [0x1F4B8] [''money_with_wings''] [''dollar''] False,
     emojiEntry [0x1F4B3] [''credit_card''] [''subscription''] False,
     emojiEntry [0x1F9FE] [''receipt''] [] False,
     emojiEntry [0x1F4B9] [''chart''] [] False,
     emojiEntry [0x2709, 0xFE0F] [''envelope''] [''letter'', ''email''] False,
     emojiEntry [0x1F4E7] [''email'', ''e-mail''] [] False,
     emojiEntry [0x1F4E8] [''incoming_envelope''] [] False,
     emojiEntry [0x1F4E9] [''envelope_with_arrow''] [] False,
     emojiEntry [0x1F4E4] [''outbox_tray''] [] False,
     emojiEntry [0x1F4E5] [''inbox_tray''] [] False,
     emojiEntry [0x1F4E6] [''package''] [''shipping''] False,
     emojiEntry [0x1F4EB] [''mailbox''] [] False,
     emojiEntry [0x1F4EA] [''mailbox_closed''] [] False,
     emojiEntry [0x1F4EC] [''mailbox_with_mail''] [] False,
     emojiEntry [0x1F4ED] [''mailbox_with_no_mail''] [] False,
     emojiEntry [0x1F4EE] [''postbox''] [] False,
     emojiEntry [0x1F5F3, 0xFE0F] [''ballot_box''] [] False,
     emojiEntry [0x270F, 0xFE0F] [''pencil2''] [] False,
     emojiEntry [0x2712, 0xFE0F] [''black_nib''] [] False,
     emojiEntry [0x1F58B, 0xFE0F] [''fountain_pen''] [] False,
     emojiEntry [0x1F58A, 0xFE0F] [''pen''] [] False,
     emojiEntry [0x1F58C, 0xFE0F] [''paintbrush''] [] False,
     emojiEntry [0x1F58D, 0xFE0F] [''crayon''] [] False,
     emojiEntry [0x1F4DD] [''memo'', ''pencil''] [''document'', ''note''] False,
     emojiEntry [0x1F4BC] [''briefcase''] [''business''] False,
     emojiEntry [0x1F4C1] [''file_folder''] [''directory''] False,
     emojiEntry [0x1F4C2] [''open_file_folder''] [] False,
     emojiEntry [0x1F5C2, 0xFE0F] [''card_index_dividers''] [] False,
     emojiEntry [0x1F4C5] [''date''] [''calendar'', ''schedule''] False,
     emojiEntry [0x1F4C6] [''calendar''] [''schedule''] False,
     emojiEntry [0x1F5D2, 0xFE0F] [''spiral_notepad''] [] False,
     emojiEntry [0x1F5D3, 0xFE0F] [''spiral_calendar''] [] False,
     emojiEntry [0x1F4C7] [''card_index''] [] False,
     emojiEntry [0x1F4C8] [''chart_with_upwards_trend''] [''graph'', ''metrics''] False,
     emojiEntry [0x1F4C9] [''chart_with_downwards_trend''] [''graph'', ''metrics''] False,
     emojiEntry [0x1F4CA] [''bar_chart''] [''stats'', ''metrics''] False,
     emojiEntry [0x1F4CB] [''clipboard''] [] False,
     emojiEntry [0x1F4CC] [''pushpin''] [''location''] False,
     emojiEntry [0x1F4CD] [''round_pushpin''] [''location''] False,
     emojiEntry [0x1F4CE] [''paperclip''] [] False,
     emojiEntry [0x1F587, 0xFE0F] [''paperclips''] [] False,
     emojiEntry [0x1F4CF] [''straight_ruler''] [] False,
     emojiEntry [0x1F4D0] [''triangular_ruler''] [] False,
     emojiEntry [0x2702, 0xFE0F] [''scissors''] [''cut''] False,
     emojiEntry [0x1F5C3, 0xFE0F] [''card_file_box''] [] False,
     emojiEntry [0x1F5C4, 0xFE0F] [''file_cabinet''] [] False,
     emojiEntry [0x1F5D1, 0xFE0F] [''wastebasket''] [''trash''] False,
     emojiEntry [0x1F512] [''lock''] [''security'', ''private''] False,
     emojiEntry [0x1F513] [''unlock''] [''security''] False,
     emojiEntry [0x1F50F] [''lock_with_ink_pen''] [] False,
     emojiEntry [0x1F510] [''closed_lock_with_key''] [''security''] False,
     emojiEntry [0x1F511] [''key''] [''lock'', ''password''] False,
     emojiEntry [0x1F5DD, 0xFE0F] [''old_key''] [] False,
     emojiEntry [0x1F528] [''hammer''] [''tool''] False,
     emojiEntry [0x1FA93] [''axe''] [] False,
     emojiEntry [0x26CF, 0xFE0F] [''pick''] [] False,
     emojiEntry [0x2692, 0xFE0F] [''hammer_and_pick''] [] False,
     emojiEntry [0x1F6E0, 0xFE0F] [''hammer_and_wrench''] [] False,
     emojiEntry [0x1F5E1, 0xFE0F] [''dagger''] [] False,
     emojiEntry [0x2694, 0xFE0F] [''crossed_swords''] [] False,
     emojiEntry [0x1F4A3] [''bomb''] [''boom''] False,
     emojiEntry [0x1FA83] [''boomerang''] [] False,
     emojiEntry [0x1F3F9] [''bow_and_arrow''] [''archery''] False,
     emojiEntry [0x1F6E1, 0xFE0F] [''shield''] [] False,
     emojiEntry [0x1FA9A] [''carpentry_saw''] [] False,
     emojiEntry [0x1F527] [''wrench''] [''tool''] False,
     emojiEntry [0x1FA9B] [''screwdriver''] [] False,
     emojiEntry [0x1F529] [''nut_and_bolt''] [] False,
     emojiEntry [0x2699, 0xFE0F] [''gear''] [] False,
     emojiEntry [0x1F5DC, 0xFE0F] [''clamp''] [] False,
     emojiEntry [0x2696, 0xFE0F] [''balance_scale''] [] False,
     emojiEntry [0x1F9AF] [''probing_cane''] [] False,
     emojiEntry [0x1F517] [''link''] [] False,
     emojiEntry [0x26D3, 0xFE0F] [''chains''] [] False,
     emojiEntry [0x1FA9D] [''hook''] [] False,
     emojiEntry [0x1F9F0] [''toolbox''] [] False,
     emojiEntry [0x1F9F2] [''magnet''] [] False,
     emojiEntry [0x1FA9C] [''ladder''] [] False,
     emojiEntry [0x2697, 0xFE0F] [''alembic''] [] False,
     emojiEntry [0x1F9EA] [''test_tube''] [] False,
     emojiEntry [0x1F9EB] [''petri_dish''] [] False,
     emojiEntry [0x1F9EC] [''dna''] [] False,
     emojiEntry [0x1F52C] [''microscope''] [''science'', ''laboratory'', ''investigate''] False,
     emojiEntry [0x1F52D] [''telescope''] [] False,
     emojiEntry [0x1F4E1] [''satellite''] [''signal''] False]"

definition objects_3 :: "emoji_entry list" where
  "objects_3 = [
     emojiEntry [0x1F489] [''syringe''] [''health'', ''hospital'', ''needle''] False,
     emojiEntry [0x1FA78] [''drop_of_blood''] [] False,
     emojiEntry [0x1F48A] [''pill''] [''health'', ''medicine''] False,
     emojiEntry [0x1FA79] [''adhesive_bandage''] [] False,
     emojiEntry [0x1FA7C] [''crutch''] [] False,
     emojiEntry [0x1FA7A] [''stethoscope''] [] False,
     emojiEntry [0x1FA7B] [''x_ray''] [] False,
     emojiEntry [0x1F6AA] [''door''] [] False,
     emojiEntry [0x1F6D7] [''elevator''] [] False,
     emojiEntry [0x1FA9E] [''mirror''] [] False,
     emojiEntry [0x1FA9F] [''window''] [] False,
     emojiEntry [0x1F6CF, 0xFE0F] [''bed''] [] False,
     emojiEntry [0x1F6CB, 0xFE0F] [''couch_and_lamp''] [] False,
     emojiEntry [0x1FA91] [''chair''] [] False,
     emojiEntry [0x1F6BD] [''toilet''] [''wc''] False,
     emojiEntry [0x1FAA0] [''plunger''] [] False,
     emojiEntry [0x1F6BF] [''shower''] [''bath''] False,
     emojiEntry [0x1F6C1] [''bathtub''] [] False,
     emojiEntry [0x1FAA4] [''mouse_trap''] [] False,
     emojiEntry [0x1FA92] [''razor''] [] False,
     emojiEntry [0x1F9F4] [''lotion_bottle''] [] False,
     emojiEntry [0x1F9F7] [''safety_pin''] [] False,
     emojiEntry [0x1F9F9] [''broom''] [] False,
     emojiEntry [0x1F9FA] [''basket''] [] False,
     emojiEntry [0x1F9FB] [''roll_of_paper''] [''toilet''] False,
     emojiEntry [0x1FAA3] [''bucket''] [] False,
     emojiEntry [0x1F9FC] [''soap''] [] False,
     emojiEntry [0x1FAE7] [''bubbles''] [] False,
     emojiEntry [0x1FAA5] [''toothbrush''] [] False,
     emojiEntry [0x1F9FD] [''sponge''] [] False,
     emojiEntry [0x1F9EF] [''fire_extinguisher''] [] False,
     emojiEntry [0x1F6D2] [''shopping_cart''] [] False,
     emojiEntry [0x1F6AC] [''smoking''] [''cigarette''] False,
     emojiEntry [0x26B0, 0xFE0F] [''coffin''] [''funeral''] False,
     emojiEntry [0x1FAA6] [''headstone''] [] False,
     emojiEntry [0x26B1, 0xFE0F] [''funeral_urn''] [] False,
     emojiEntry [0x1F9FF] [''nazar_amulet''] [] False,
     emojiEntry [0x1FAAC] [''hamsa''] [] False,
     emojiEntry [0x1F5FF] [''moyai''] [''stone''] False,
     emojiEntry [0x1FAA7] [''placard''] [] False,
     emojiEntry [0x1FAAA] [''identification_card''] [] False]"

definition objects :: emoji_category where
  "objects = \<lparr>ec_id = js ''objects'', ec_label = js ''Objects'', ec_icon = utf16 0x1F4A1,
     ec_emojis = objects_1 @ objects_2 @ objects_3\<rparr>"

section \<open>Symbols\<close>

definition symbols_1 :: "emoji_entry list" where
  "symbols_1 = [
     emojiEntry [0x1F3E7] [''atm''] [] False,
     emojiEntry [0x1F6AE] [''put_litter_in_its_place''] [] False,
     emojiEntry [0x1F6B0] [''potable_water''] [] False,
     emojiEntry [0x267F] [''wheelchair''] [''accessibility''] False,
     emojiEntry [0x1F6B9] [''mens''] [] False,
     emojiEntry [0x1F6BA] [''womens''] [] False,
     emojiEntry [0x1F6BB] [''restroom''] [''toilet''] False,
     emojiEntry [0x1F6BC] [''baby_symbol''] [] False,
     emojiEntry [0x1F6BE] [''wc''] [''toilet'', ''restroom''] False,
     emojiEntry [0x1F6C2] [''passport_control''] [] False,
     emojiEntry [0x1F6C3] [''customs''] [] False,
     emojiEntry [0x1F6C4] [''baggage_claim''] [''airport''] False,
     emojiEntry [0x1F6C5] [''left_luggage''] [] False,
     emojiEntry [0x26A0, 0xFE0F] [''warning''] [''wip''] False,
     emojiEntry [0x1F6B8] [''children_crossing''] [] False,
     emojiEntry [0x26D4] [''no_entry''] [''limit''] False,
     emojiEntry [0x1F6AB] [''no_entry_sign''] [''block'', ''forbidden''] False,
     emojiEntry [0x1F6B3] [''no_bicycles''] [] False,
     emojiEntry [0x1F6AD] [''no_smoking''] [] False,
     emojiEntry [0x1F6AF] [''do_not_litter''] [] False,
     emojiEntry [0x1F6B1] [''non-potable_water''] [] False,
     emojiEntry [0x1F6B7] [''no_pedestrians''] [] False,
     emojiEntry [0x1F4F5] [''no_mobile_phones''] [] False,
     emojiEntry [0x1F51E] [''underage''] [] False,
     emojiEntry [0x2622, 0xFE0F] [''radioactive''] [] False,
     emojiEntry [0x2623, 0xFE0F] [''biohazard''] [] False,
     emojiEntry [0x2B06, 0xFE0F] [''arrow_up''] [] False,
     emojiEntry [0x2197, 0xFE0F] [''arrow_upper_right''] [] False,
     emojiEntry [0x27A1, 0xFE0F] [''arrow_right''] [] False,
     emojiEntry [0x2198, 0xFE0F] [''arrow_lower_right''] [] False,
     emojiEntry [0x2B07, 0xFE0F] [''arrow_down''] [] False,
     emojiEntry [0x2199, 0xFE0F] [''arrow_lower_left''] [] False,
     emojiEntry [0x2B05, 0xFE0F] [''arrow_left''] [] False,
     emojiEntry [0x2196, 0xFE0F] [''arrow_upper_left''] [] False,
     emojiEntry [0x2195, 0xFE0F] [''arrow_up_down''] [] False,
     emojiEntry [0x2194, 0xFE0F] [''left_right_arrow''] [] False,
     emojiEntry [0x21A9, 0xFE0F] [''leftwards_arrow_with_hook''] [''return''] False,
     emojiEntry [0x21AA, 0xFE0F] [''arrow_right_hook''] [] False,
     emojiEntry [0x2934, 0xFE0F] [''arrow_heading_up''] [] False,
     emojiEntry [0x2935, 0xFE0F] [''arrow_heading_down''] [] False,
     emojiEntry [0x1F503] [''arrows_clockwise''] [] False,
     emojiEntry [0x1F504] [''arrows_counterclockwise''] [''sync''] False,
     emojiEntry [0x1F519] [''back''] [] False,
     emojiEntry [0x1F51A] [''end''] [] False,
     emojiEntry [0x1F51B] [''on''] [] False,
     emojiEntry [0x1F51C] [''soon''] [] False,
     emojiEntry [0x1F51D] [''top''] [] False,
     emojiEntry [0x1F6D0] [''place_of_worship''] [] False,
     emojiEntry [0x269B, 0xFE0F] [''atom_symbol''] [] False,
     emojiEntry [0x1F549, 0xFE0F] [''om''] [] False,
     emojiEntry [0x2721, 0xFE0F] [''star_of_david''] [] False,
     emojiEntry [0x2638, 0xFE0F] [''wheel_of_dharma''] [] False,
     emojiEntry [0x262F, 0xFE0F] [''yin_yang''] [] False,
     emojiEntry [0x271D, 0xFE0F] [''latin_cross''] [] False,
     emojiEntry [0x2626, 0xFE0F] [''orthodox_cross''] [] False,
     emojiEntry [0x262A, 0xFE0F] [''star_and_crescent''] [] False,
     emojiEntry [0x262E, 0xFE0F] [''peace_symbol''] [] False,
     emojiEntry [0x1F54E] [''menorah''] [] False,
     emojiEntry [0x1F52F] [''six_pointed_star''] [] False,
     emojiEntry [0x1FAAF] [''khanda''] [] False,
     emojiEntry [0x2648] [''aries''] [] False,
     emojiEntry [0x2649] [''taurus''] [] False,
     emojiEntry [0x264A] [''gemini''] [] False,
     emojiEntry [0x264B] [''cancer''] [] False,
     emojiEntry [0x264C] [''leo''] [] False,
     emojiEntry [0x264D] [''virgo''] [] False,
     emojiEntry [0x264E] [''libra''] [] False,
     emojiEntry [0x264F] [''scorpius''] [] False,
     emojiEntry [0x2650] [''sagittarius''] [] False,
     emojiEntry [0x2651] [''capricorn''] [] False,
     emojiEntry [0x2652] [''aquarius''] [] False,
     emojiEntry [0x2653] [''pisces''] [] False,
     emojiEntry [0x26CE] [''ophiuchus''] [] False,
     emojiEntry [0x1F500] [''twisted_rightwards_arrows''] [''shuffle''] False,
     emojiEntry [0x1F501] [''repeat''] [''loop''] False,
     emojiEntry [0x1F502] [''repeat_one''] [] False,
     emojiEntry [0x25B6, 0xFE0F] [''arrow_forward''] [] False,
     emojiEntry [0x23E9] [''fast_forward''] [] False,
     emojiEntry [0x23ED, 0xFE0F] [''next_track_button''] [] False,
     emojiEntry [0x23EF, 0xFE0F] [''play_or_pause_button''] [] False,
     emojiEntry [0x25C0, 0xFE0F] [''arrow_backward''] [] False,
     emojiEntry [0x23EA] [''rewind''] [] False,
     emojiEntry [0x23EE, 0xFE0F] [''previous_track_button''] [] False,
     emojiEntry [0x1F53C] [''arrow_up_small''] [] False,
     emojiEntry [0x23EB] [''arrow_double_up''] [] False,
     emojiEntry [0x1F53D] [''arrow_down_small''] [] False,
     emojiEntry [0x23EC] [''arrow_double_down''] [] False,
     emojiEntry [0x23F8, 0xFE0F] [''pause_button''] [] False,
     emojiEntry [0x23F9, 0xFE0F] [''stop_button''] [] False,
     emojiEntry [0x23FA, 0xFE0F] [''record_button''] [] False,
     emojiEntry [0x23CF, 0xFE0F] [''eject_button''] [] False,
     emojiEntry [0x1F3A6] [''cinema''] [''film'', ''movie''] False,
     emojiEntry [0x1F505] [''low_brightness''] [] False,
     emojiEntry [0x1F506] [''high_brightness''] [] False,
     emojiEntry [0x1F4F6] [''signal_strength''] [''wifi''] False,
     emojiEntry [0x1F6DC] [''wireless''] [''wifi''] False,
     emojiEntry [0x1F4F3] [''vibration_mode''] [] False,
     emojiEntry [0x1F4F4] [''mobile_phone_off''] [''mute'', ''off''] False,
     emojiEntry [0x2640, 0xFE0F] [''female_sign''] [] False,
     emojiEntry [0x2642, 0xFE0F] [''male_sign''] [] False,
     emojiEntry [0x26A7, 0xFE0F] [''transgender_symbol''] [] False,
     emojiEntry [0x2716, 0xFE0F] [''heavy_multiplication_x''] [] False,
     emojiEntry [0x2795] [''heavy_plus_sign''] [] False,
     emojiEntry [0x2796] [''heavy_minus_sign''] [] False,
     emojiEntry [0x2797] [''heavy_division_sign''] [] False,
     emojiEntry [0x1F7F0] [''heavy_equals_sign''] [] False,
     emojiEntry [0x267E, 0xFE0F] [''infinity''] [] False,
     emojiEntry [0x203C, 0xFE0F] [''bangbang''] [] False,
     emojiEntry [0x2049, 0xFE0F] [''interrobang''] [] False,
     emojiEntry [0x2753] [''question''] [''confused''] False]"

definition symbols_2 :: "emoji_entry list" where
  "symbols_2 = [
     emojiEntry [0x2754] [''grey_question''] [] False,
     emojiEntry [0x2755] [''grey_exclamation''] [] False,
     emojiEntry [0x2757] [''exclamation'', ''heavy_exclamation_mark''] [''bang''] False,
     emojiEntry [0x3030, 0xFE0F] [''wavy_dash''] [] False,
     emojiEntry [0x1F4B1] [''currency_exchange''] [] False,
     emojiEntry [0x1F4B2] [''heavy_dollar_sign''] [] False,
     emojiEntry [0x2695, 0xFE0F] [''medical_symbol''] [] False,
     emojiEntry [0x267B, 0xFE0F] [''recycle''] [''environment'', ''green''] False,
     emojiEntry [0x269C, 0xFE0F] [''fleur_de_lis''] [] False,
     emojiEntry [0x1F531] [''trident''] [] False,
     emojiEntry [0x1F4DB] [''name_badge''] [] False,
     emojiEntry [0x1F530] [''beginner''] [] False,
     emojiEntry [0x2B55] [''o''] [] False,
     emojiEntry [0x2705] [''white_check_mark''] [] False,
     emojiEntry [0x2611, 0xFE0F] [''ballot_box_with_check''] [] False,
     emojiEntry [0x2714, 0xFE0F] [''heavy_check_mark''] [] False,
     emojiEntry [0x274C] [''x''] [] False,
     emojiEntry [0x274E] [''negative_squared_cross_mark''] [] False,
     emojiEntry [0x27B0] [''curly_loop''] [] False,
     emojiEntry [0x27BF] [''loop''] [] False,
     emojiEntry [0x303D, 0xFE0F] [''part_alternation_mark''] [] False,
     emojiEntry [0x2733, 0xFE0F] [''eight_spoked_asterisk''] [] False,
     emojiEntry [0x2734, 0xFE0F] [''eight_pointed_black_star''] [] False,
     emojiEntry [0x2747, 0xFE0F] [''sparkle''] [] False,
     emojiEntry [0xA9, 0xFE0F] [''copyright''] [] False,
     emojiEntry [0xAE, 0xFE0F] [''registered''] [] False,
     emojiEntry [0x2122, 0xFE0F] [''tm''] [''trademark''] False,
     emojiEntry [0x23, 0xFE0F, 0x20E3] [''hash''] [''number''] False,
     emojiEntry [0x2A, 0xFE0F, 0x20E3] [''asterisk''] [] False,
     emojiEntry [0x30, 0xFE0F, 0x20E3] [''zero''] [] False,
     emojiEntry [0x31, 0xFE0F, 0x20E3] [''one''] [] False,
     emojiEntry [0x32, 0xFE0F, 0x20E3] [''two''] [] False,
     emojiEntry [0x33, 0xFE0F, 0x20E3] [''three''] [] False,
     emojiEntry [0x34, 0xFE0F, 0x20E3] [''four''] [] False,
     emojiEntry [0x35, 0xFE0F, 0x20E3] [''five''] [] False,
     emojiEntry [0x36, 0xFE0F, 0x20E3] [''six''] [] False,
     emojiEntry [0x37, 0xFE0F, 0x20E3] [''seven''] [] False,
     emojiEntry [0x38, 0xFE0F, 0x20E3] [''eight''] [] False,
     emojiEntry [0x39, 0xFE0F, 0x20E3] [''nine''] [] False,
     emojiEntry [0x1F51F] [''keycap_ten''] [] False,
     emojiEntry [0x1F520] [''capital_abcd''] [''letters''] False,
     emojiEntry [0x1F521] [''abcd''] [] False,
     emojiEntry [0x1F522] [''1234''] [''numbers''] False,
     emojiEntry [0x1F523] [''symbols''] [] False,
     emojiEntry [0x1F524] [''abc''] [''alphabet''] False,
     emojiEntry [0x1F170, 0xFE0F] [''a''] [] False,
     emojiEntry [0x1F18E] [''ab''] [] False,
     emojiEntry [0x1F171, 0xFE0F] [''b''] [] False,
     emojiEntry [0x1F191] [''cl''] [] False,
     emojiEntry [0x1F192] [''cool''] [] False,
     emojiEntry [0x1F193] [''free''] [] False,
     emojiEntry [0x2139, 0xFE0F] [''information_source''] [] False,
     emojiEntry [0x1F194] [''id''] [] False,
     emojiEntry [0x24C2, 0xFE0F] [''m''] [] False,
     emojiEntry [0x1F195] [''new''] [''fresh''] False,
     emojiEntry [0x1F196] [''ng''] [] False,
     emojiEntry [0x1F17E, 0xFE0F] [''o2''] [] False,
     emojiEntry [0x1F197] [''ok''] [''yes''] False,
     emojiEntry [0x1F17F, 0xFE0F] [''parking''] [] False,
     emojiEntry [0x1F198] [''sos''] [''help'', ''emergency''] False,
     emojiEntry [0x1F199] [''up''] [] False,
     emojiEntry [0x1F19A] [''vs''] [] False,
     emojiEntry [0x1F201] [''koko''] [] False,
     emojiEntry [0x1F202, 0xFE0F] [''sa''] [] False,
     emojiEntry [0x1F237, 0xFE0F] [''u6708''] [] False,
     emojiEntry [0x1F236] [''u6709''] [] False,
     emojiEntry [0x1F22F] [''u6307''] [] False,
     emojiEntry [0x1F250] [''ideograph_advantage''] [] False,
     emojiEntry [0x1F239] [''u5272''] [] False,
     emojiEntry [0x1F21A] [''u7121''] [] False,
     emojiEntry [0x1F232] [''u7981''] [] False,
     emojiEntry [0x1F251] [''accept''] [] False,
     emojiEntry [0x1F238] [''u7533''] [] False,
     emojiEntry [0x1F234] [''u5408''] [] False,
     emojiEntry [0x1F233] [''u7a7a''] [] False,
     emojiEntry [0x3297, 0xFE0F] [''congratulations''] [] False,
     emojiEntry [0x3299, 0xFE0F] [''secret''] [] False,
     emojiEntry [0x1F23A] [''u55b6''] [] False,
     emojiEntry [0x1F235] [''u6e80''] [] False,
     emojiEntry [0x1F534] [''red_circle''] [] False,
     emojiEntry [0x1F7E0] [''orange_circle''] [] False,
     emojiEntry [0x1F7E1] [''yellow_circle''] [] False,
     emojiEntry [0x1F7E2] [''green_circle''] [] False,
     emojiEntry [0x1F535] [''large_blue_circle''] [] False,
     emojiEntry [0x1F7E3] [''purple_circle''] [] False,
     emojiEntry [0x1F7E4] [''brown_circle''] [] False,
     emojiEntry [0x26AB] [''black_circle''] [] False,
     emojiEntry [0x26AA] [''white_circle''] [] False,
     emojiEntry [0x1F7E5] [''red_square''] [] False,
     emojiEntry [0x1F7E7] [''orange_square''] [] False,
     emojiEntry [0x1F7E8] [''yellow_square''] [] False,
     emojiEntry [0x1F7E9] [''green_square''] [] False,
     emojiEntry [0x1F7E6] [''blue_square''] [] False,
     emojiEntry [0x1F7EA] [''purple_square''] [] False,
     emojiEntry [0x1F7EB] [''brown_square''] [] False,
     emojiEntry [0x2B1B] [''black_large_square''] [] False,
     emojiEntry [0x2B1C] [''white_large_square''] [] False,
     emojiEntry [0x25FC, 0xFE0F] [''black_medium_square''] [] False,
     emojiEntry [0x25FB, 0xFE0F] [''white_medium_square''] [] False,
     emojiEntry [0x25FE] [''black_medium_small_square''] [] False,
     emojiEntry [0x25FD] [''white_medium_small_square''] [] False,
     emojiEntry [0x25AA, 0xFE0F] [''black_small_square''] [] False,
     emojiEntry [0x25AB, 0xFE0F] [''white_small_square''] [] False,
     emojiEntry [0x1F536] [''large_orange_diamond''] [] False,
     emojiEntry [0x1F537] [''large_blue_diamond''] [] False,
     emojiEntry [0x1F538] [''small_orange_diamond''] [] False,
     emojiEntry [0x1F539] [''small_blue_diamond''] [] False,
     emojiEntry [0x1F53A] [''small_red_triangle''] [] False,
     emojiEntry [0x1F53B] [''small_red_triangle_down''] [] False,
     emojiEntry [0x1F4A0] [''diamond_shape_with_a_dot_inside''] [] False]"

definition symbols_3 :: "emoji_entry list" where
  "symbols_3 = [
     emojiEntry [0x1F518] [''radio_button''] [] False,
     emojiEntry [0x1F533] [''white_square_button''] [] False,
     emojiEntry [0x1F532] [''black_square_button''] [] False]"

definition symbols :: emoji_category where
  "symbols = \<lparr>ec_id = js ''symbols'', ec_label = js ''Symbols'', ec_icon = utf16 0x1F495,
     ec_emojis = symbols_1 @ symbols_2 @ symbols_3\<rparr>"

section \<open>Flags\<close>

definition flags_1 :: "emoji_entry list" where
  "flags_1 = [
     emojiEntry [0x1F3C1] [''checkered_flag''] [''milestone'', ''finish''] False,
     emojiEntry [0x1F6A9] [''triangular_flag_on_post''] [] False,
     emojiEntry [0x1F38C] [''crossed_flags''] [] False,
     emojiEntry [0x1F3F4] [''black_flag''] [] False,
     emojiEntry [0x1F3F3, 0xFE0F] [''white_flag''] [] False,
     emojiEntry [0x1F3F3, 0xFE0F, 0x200D, 0x1F308] [''rainbow_flag''] [''pride''] False,
     emojiEntry [0x1F3F3, 0xFE0F, 0x200D, 0x26A7, 0xFE0F] [''transgender_flag''] [] False,
     emojiEntry [0x1F3F4, 0x200D, 0x2620, 0xFE0F] [''pirate_flag''] [] False,
     emojiEntry [0x1F1E6, 0x1F1E8] [''ascension_island''] [] False,
     emojiEntry [0x1F1E6, 0x1F1E9] [''andorra''] [] False,
     emojiEntry [0x1F1E6, 0x1F1EA] [''united_arab_emirates''] [] False,
     emojiEntry [0x1F1E6, 0x1F1EB] [''afghanistan''] [] False,
     emojiEntry [0x1F1E6, 0x1F1EC] [''antigua_barbuda''] [] False,
     emojiEntry [0x1F1E6, 0x1F1EE] [''anguilla''] [] False,
     emojiEntry [0x1F1E6, 0x1F1F1] [''albania''] [] False,
     emojiEntry [0x1F1E6, 0x1F1F2] [''armenia''] [] False,
     emojiEntry [0x1F1E6, 0x1F1F4] [''angola''] [] False,
     emojiEntry [0x1F1E6, 0x1F1F6] [''antarctica''] [] False,
     emojiEntry [0x1F1E6, 0x1F1F7] [''argentina''] [] False,
     emojiEntry [0x1F1E6, 0x1F1F8] [''american_samoa''] [] False,
     emojiEntry [0x1F1E6, 0x1F1F9] [''austria''] [] False,
     emojiEntry [0x1F1E6, 0x1F1FA] [''australia''] [] False,
     emojiEntry [0x1F1E6, 0x1F1FC] [''aruba''] [] False,
     emojiEntry [0x1F1E6, 0x1F1FD] [''aland_islands''] [] False,
     emojiEntry [0x1F1E6, 0x1F1FF] [''azerbaijan''] [] False,
     emojiEntry [0x1F1E7, 0x1F1E6] [''bosnia_herzegovina''] [] False,
     emojiEntry [0x1F1E7, 0x1F1E7] [''barbados''] [] False,
     emojiEntry [0x1F1E7, 0x1F1E9] [''bangladesh''] [] False,
     emojiEntry [0x1F1E7, 0x1F1EA] [''belgium''] [] False,
     emojiEntry [0x1F1E7, 0x1F1EB] [''burkina_faso''] [] False,
     emojiEntry [0x1F1E7, 0x1F1EC] [''bulgaria''] [] False,
     emojiEntry [0x1F1E7, 0x1F1ED] [''bahrain''] [] False,
     emojiEntry [0x1F1E7, 0x1F1EE] [''burundi''] [] False,
     emojiEntry [0x1F1E7, 0x1F1EF] [''benin''] [] False,
     emojiEntry [0x1F1E7, 0x1F1F1] [''st_barthelemy''] [] False,
     emojiEntry [0x1F1E7, 0x1F1F2] [''bermuda''] [] False,
     emojiEntry [0x1F1E7, 0x1F1F3] [''brunei''] [] False,
     emojiEntry [0x1F1E7, 0x1F1F4] [''bolivia''] [] False,
     emojiEntry [0x1F1E7, 0x1F1F6] [''caribbean_netherlands''] [] False,
     emojiEntry [0x1F1E7, 0x1F1F7] [''brazil''] [] False,
     emojiEntry [0x1F1E7, 0x1F1F8] [''bahamas''] [] False,
     emojiEntry [0x1F1E7, 0x1F1F9] [''bhutan''] [] False,
     emojiEntry [0x1F1E7, 0x1F1FB] [''bouvet_island''] [] False,
     emojiEntry [0x1F1E7, 0x1F1FC] [''botswana''] [] False,
     emojiEntry [0x1F1E7, 0x1F1FE] [''belarus''] [] False,
     emojiEntry [0x1F1E7, 0x1F1FF] [''belize''] [] False,
     emojiEntry [0x1F1E8, 0x1F1E6] [''canada''] [] False,
     emojiEntry [0x1F1E8, 0x1F1E8] [''cocos_islands''] [''keeling''] False,
     emojiEntry [0x1F1E8, 0x1F1E9] [''congo_kinshasa''] [] False,
     emojiEntry [0x1F1E8, 0x1F1EB] [''central_african_republic''] [] False,
     emojiEntry [0x1F1E8, 0x1F1EC] [''congo_brazzaville''] [] False,
     emojiEntry [0x1F1E8, 0x1F1ED] [''switzerland''] [] False,
     emojiEntry [0x1F1E8, 0x1F1EE] [''cote_divoire''] [''ivory''] False,
     emojiEntry [0x1F1E8, 0x1F1F0] [''cook_islands''] [] False,
     emojiEntry [0x1F1E8, 0x1F1F1] [''chile''] [] False,
     emojiEntry [0x1F1E8, 0x1F1F2] [''cameroon''] [] False,
     emojiEntry [0x1F1E8, 0x1F1F3] [''cn''] [''china''] False,
     emojiEntry [0x1F1E8, 0x1F1F4] [''colombia''] [] False,
     emojiEntry [0x1F1E8, 0x1F1F5] [''clipperton_island''] [] False,
     emojiEntry [0x1F1E8, 0x1F1F7] [''costa_rica''] [] False,
     emojiEntry [0x1F1E8, 0x1F1FA] [''cuba''] [] False,
     emojiEntry [0x1F1E8, 0x1F1FB] [''cape_verde''] [] False,
     emojiEntry [0x1F1E8, 0x1F1FC] [''curacao''] [] False,
     emojiEntry [0x1F1E8, 0x1F1FD] [''christmas_island''] [] False,
     emojiEntry [0x1F1E8, 0x1F1FE] [''cyprus''] [] False,
     emojiEntry [0x1F1E8, 0x1F1FF] [''czech_republic''] [] False,
     emojiEntry [0x1F1E9, 0x1F1EA] [''de''] [''flag'', ''germany''] False,
     emojiEntry [0x1F1E9, 0x1F1EC] [''diego_garcia''] [] False,
     emojiEntry [0x1F1E9, 0x1F1EF] [''djibouti''] [] False,
     emojiEntry [0x1F1E9, 0x1F1F0] [''denmark''] [] False,
     emojiEntry [0x1F1E9, 0x1F1F2] [''dominica''] [] False,
     emojiEntry [0x1F1E9, 0x1F1F4] [''dominican_republic''] [] False,
     emojiEntry [0x1F1E9, 0x1F1FF] [''algeria''] [] False,
     emojiEntry [0x1F1EA, 0x1F1E6] [''ceuta_melilla''] [] False,
     emojiEntry [0x1F1EA, 0x1F1E8] [''ecuador''] [] False,
     emojiEntry [0x1F1EA, 0x1F1EA] [''estonia''] [] False,
     emojiEntry [0x1F1EA, 0x1F1EC] [''egypt''] [] False,
     emojiEntry [0x1F1EA, 0x1F1ED] [''western_sahara''] [] False,
     emojiEntry [0x1F1EA, 0x1F1F7] [''eritrea''] [] False,
     emojiEntry [0x1F1EA, 0x1F1F8] [''es''] [''spain''] False,
     emojiEntry [0x1F1EA, 0x1F1F9] [''ethiopia''] [] False,
     emojiEntry [0x1F1EA, 0x1F1FA] [''eu'', ''european_union''] [] False,
     emojiEntry [0x1F1EB, 0x1F1EE] [''finland''] [] False,
     emojiEntry [0x1F1EB, 0x1F1EF] [''fiji''] [] False,
     emojiEntry [0x1F1EB, 0x1F1F0] [''falkland_islands''] [] False,
     emojiEntry [0x1F1EB, 0x1F1F2] [''micronesia''] [] False,
     emojiEntry [0x1F1EB, 0x1F1F4] [''faroe_islands''] [] False,
     emojiEntry [0x1F1EB, 0x1F1F7] [''fr''] [''france'', ''french''] False,
     emojiEntry [0x1F1EC, 0x1F1E6] [''gabon''] [] False,
     emojiEntry [0x1F1EC, 0x1F1E7] [''gb'', ''uk''] [''flag'', ''british''] False,
     emojiEntry [0x1F1EC, 0x1F1E9] [''grenada''] [] False,
     emojiEntry [0x1F1EC, 0x1F1EA] [''georgia''] [] False,
     emojiEntry [0x1F1EC, 0x1F1EB] [''french_guiana''] [] False,
     emojiEntry [0x1F1EC, 0x1F1EC] [''guernsey''] [] False,
     emojiEntry [0x1F1EC, 0x1F1ED] [''ghana''] [] False,
     emojiEntry [0x1F1EC, 0x1F1EE] [''gibraltar''] [] False,
     emojiEntry [0x1F1EC, 0x1F1F1] [''greenland''] [] False,
     emojiEntry [0x1F1EC, 0x1F1F2] [''gambia''] [] False,
     emojiEntry [0x1F1EC, 0x1F1F3] [''guinea''] [] False,
     emojiEntry [0x1F1EC, 0x1F1F5] [''guadeloupe''] [] False,
     emojiEntry [0x1F1EC, 0x1F1F6] [''equatorial_guinea''] [] False,
     emojiEntry [0x1F1EC, 0x1F1F7] [''greece''] [] False,
     emojiEntry [0x1F1EC, 0x1F1F8] [''south_georgia_south_sandwich_islands''] [] False,
     emojiEntry [0x1F1EC, 0x1F1F9] [''guatemala''] [] False,
     emojiEntry [0x1F1EC, 0x1F1FA] [''guam''] [] False,
     emojiEntry [0x1F1EC, 0x1F1FC] [''guinea_bissau''] [] False,
     emojiEntry [0x1F1EC, 0x1F1FE] [''guyana''] [] False,
     emojiEntry [0x1F1ED, 0x1F1F0] [''hong_kong''] [] False,
     emojiEntry [0x1F1ED, 0x1F1F2] [''heard_mcdonald_islands''] [] False,
     emojiEntry [0x1F1ED, 0x1F1F3] [''honduras''] [] False]"

definition flags_2 :: "emoji_entry list" where
  "flags_2 = [
     emojiEntry [0x1F1ED, 0x1F1F7] [''croatia''] [] False,
     emojiEntry [0x1F1ED, 0x1F1F9] [''haiti''] [] False,
     emojiEntry [0x1F1ED, 0x1F1FA] [''hungary''] [] False,
     emojiEntry [0x1F1EE, 0x1F1E8] [''canary_islands''] [] False,
     emojiEntry [0x1F1EE, 0x1F1E9] [''indonesia''] [] False,
     emojiEntry [0x1F1EE, 0x1F1EA] [''ireland''] [] False,
     emojiEntry [0x1F1EE, 0x1F1F1] [''israel''] [] False,
     emojiEntry [0x1F1EE, 0x1F1F2] [''isle_of_man''] [] False,
     emojiEntry [0x1F1EE, 0x1F1F3] [''india''] [] False,
     emojiEntry [0x1F1EE, 0x1F1F4] [''british_indian_ocean_territory''] [] False,
     emojiEntry [0x1F1EE, 0x1F1F6] [''iraq''] [] False,
     emojiEntry [0x1F1EE, 0x1F1F7] [''iran''] [] False,
     emojiEntry [0x1F1EE, 0x1F1F8] [''iceland''] [] False,
     emojiEntry [0x1F1EE, 0x1F1F9] [''it''] [''italy''] False,
     emojiEntry [0x1F1EF, 0x1F1EA] [''jersey''] [] False,
     emojiEntry [0x1F1EF, 0x1F1F2] [''jamaica''] [] False,
     emojiEntry [0x1F1EF, 0x1F1F4] [''jordan''] [] False,
     emojiEntry [0x1F1EF, 0x1F1F5] [''jp''] [''japan''] False,
     emojiEntry [0x1F1F0, 0x1F1EA] [''kenya''] [] False,
     emojiEntry [0x1F1F0, 0x1F1EC] [''kyrgyzstan''] [] False,
     emojiEntry [0x1F1F0, 0x1F1ED] [''cambodia''] [] False,
     emojiEntry [0x1F1F0, 0x1F1EE] [''kiribati''] [] False,
     emojiEntry [0x1F1F0, 0x1F1F2] [''comoros''] [] False,
     emojiEntry [0x1F1F0, 0x1F1F3] [''st_kitts_nevis''] [] False,
     emojiEntry [0x1F1F0, 0x1F1F5] [''north_korea''] [] False,
     emojiEntry [0x1F1F0, 0x1F1F7] [''kr''] [''korea''] False,
     emojiEntry [0x1F1F0, 0x1F1FC] [''kuwait''] [] False,
     emojiEntry [0x1F1F0, 0x1F1FE] [''cayman_islands''] [] False,
     emojiEntry [0x1F1F0, 0x1F1FF] [''kazakhstan''] [] False,
     emojiEntry [0x1F1F1, 0x1F1E6] [''laos''] [] False,
     emojiEntry [0x1F1F1, 0x1F1E7] [''lebanon''] [] False,
     emojiEntry [0x1F1F1, 0x1F1E8] [''st_lucia''] [] False,
     emojiEntry [0x1F1F1, 0x1F1EE] [''liechtenstein''] [] False,
     emojiEntry [0x1F1F1, 0x1F1F0] [''sri_lanka''] [] False,
     emojiEntry [0x1F1F1, 0x1F1F7] [''liberia''] [] False,
     emojiEntry [0x1F1F1, 0x1F1F8] [''lesotho''] [] False,
     emojiEntry [0x1F1F1, 0x1F1F9] [''lithuania''] [] False,
     emojiEntry [0x1F1F1, 0x1F1FA] [''luxembourg''] [] False,
     emojiEntry [0x1F1F1, 0x1F1FB] [''latvia''] [] False,
     emojiEntry [0x1F1F1, 0x1F1FE] [''libya''] [] False,
     emojiEntry [0x1F1F2, 0x1F1E6] [''morocco''] [] False,
     emojiEntry [0x1F1F2, 0x1F1E8] [''monaco''] [] False,
     emojiEntry [0x1F1F2, 0x1F1E9] [''moldova''] [] False,
     emojiEntry [0x1F1F2, 0x1F1EA] [''montenegro''] [] False,
     emojiEntry [0x1F1F2, 0x1F1EB] [''st_martin''] [] False,
     emojiEntry [0x1F1F2, 0x1F1EC] [''madagascar''] [] False,
     emojiEntry [0x1F1F2, 0x1F1ED] [''marshall_islands''] [] False,
     emojiEntry [0x1F1F2, 0x1F1F0] [''macedonia''] [] False,
     emojiEntry [0x1F1F2, 0x1F1F1] [''mali''] [] False,
     emojiEntry [0x1F1F2, 0x1F1F2] [''myanmar''] [''burma''] False,
     emojiEntry [0x1F1F2, 0x1F1F3] [''mongolia''] [] False,
     emojiEntry [0x1F1F2, 0x1F1F4] [''macau''] [] False,
     emojiEntry [0x1F1F2, 0x1F1F5] [''northern_mariana_islands''] [] False,
     emojiEntry [0x1F1F2, 0x1F1F6] [''martinique''] [] False,
     emojiEntry [0x1F1F2, 0x1F1F7] [''mauritania''] [] False,
     emojiEntry [0x1F1F2, 0x1F1F8] [''montserrat''] [] False,
     emojiEntry [0x1F1F2, 0x1F1F9] [''malta''] [] False,
     emojiEntry [0x1F1F2, 0x1F1FA] [''mauritius''] [] False,
     emojiEntry [0x1F1F2, 0x1F1FB] [''maldives''] [] False,
     emojiEntry [0x1F1F2, 0x1F1FC] [''malawi''] [] False,
     emojiEntry [0x1F1F2, 0x1F1FD] [''mexico''] [] False,
     emojiEntry [0x1F1F2, 0x1F1FE] [''malaysia''] [] False,
     emojiEntry [0x1F1F2, 0x1F1FF] [''mozambique''] [] False,
     emojiEntry [0x1F1F3, 0x1F1E6] [''namibia''] [] False,
     emojiEntry [0x1F1F3, 0x1F1E8] [''new_caledonia''] [] False,
     emojiEntry [0x1F1F3, 0x1F1EA] [''niger''] [] False,
     emojiEntry [0x1F1F3, 0x1F1EB] [''norfolk_island''] [] False,
     emojiEntry [0x1F1F3, 0x1F1EC] [''nigeria''] [] False,
     emojiEntry [0x1F1F3, 0x1F1EE] [''nicaragua''] [] False,
     emojiEntry [0x1F1F3, 0x1F1F1] [''netherlands''] [] False,
     emojiEntry [0x1F1F3, 0x1F1F4] [''norway''] [] False,
     emojiEntry [0x1F1F3, 0x1F1F5] [''nepal''] [] False,
     emojiEntry [0x1F1F3, 0x1F1F7] [''nauru''] [] False,
     emojiEntry [0x1F1F3, 0x1F1FA] [''niue''] [] False,
     emojiEntry [0x1F1F3, 0x1F1FF] [''new_zealand''] [] False,
     emojiEntry [0x1F1F4, 0x1F1F2] [''oman''] [] False,
     emojiEntry [0x1F1F5, 0x1F1E6] [''panama''] [] False,
     emojiEntry [0x1F1F5, 0x1F1EA] [''peru''] [] False,
     emojiEntry [0x1F1F5, 0x1F1EB] [''french_polynesia''] [] False,
     emojiEntry [0x1F1F5, 0x1F1EC] [''papua_new_guinea''] [] False,
     emojiEntry [0x1F1F5, 0x1F1ED] [''philippines''] [] False,
     emojiEntry [0x1F1F5, 0x1F1F0] [''pakistan''] [] False,
     emojiEntry [0x1F1F5, 0x1F1F1] [''poland''] [] False,
     emojiEntry [0x1F1F5, 0x1F1F2] [''st_pierre_miquelon''] [] False,
     emojiEntry [0x1F1F5, 0x1F1F3] [''pitcairn_islands''] [] False,
     emojiEntry [0x1F1F5, 0x1F1F7] [''puerto_rico''] [] False,
     emojiEntry [0x1F1F5, 0x1F1F8] [''palestinian_territories''] [] False,
     emojiEntry [0x1F1F5, 0x1F1F9] [''portugal''] [] False,
     emojiEntry [0x1F1F5, 0x1F1FC] [''palau''] [] False,
     emojiEntry [0x1F1F5, 0x1F1FE] [''paraguay''] [] False,
     emojiEntry [0x1F1F6, 0x1F1E6] [''qatar''] [] False,
     emojiEntry [0x1F1F7, 0x1F1EA] [''reunion''] [] False,
     emojiEntry [0x1F1F7, 0x1F1F4] [''romania''] [] False,
     emojiEntry [0x1F1F7, 0x1F1F8] [''serbia''] [] False,
     emojiEntry [0x1F1F7, 0x1F1FA] [''ru''] [''russia''] False,
     emojiEntry [0x1F1F7, 0x1F1FC] [''rwanda''] [] False,
     emojiEntry [0x1F1F8, 0x1F1E6] [''saudi_arabia''] [] False,
     emojiEntry [0x1F1F8, 0x1F1E7] [''solomon_islands''] [] False,
     emojiEntry [0x1F1F8, 0x1F1E8] [''seychelles''] [] False,
     emojiEntry [0x1F1F8, 0x1F1E9] [''sudan''] [] False,
     emojiEntry [0x1F1F8, 0x1F1EA] [''sweden''] [] False,
     emojiEntry [0x1F1F8, 0x1F1EC] [''singapore''] [] False,
     emojiEntry [0x1F1F8, 0x1F1ED] [''st_helena''] [] False,
     emojiEntry [0x1F1F8, 0x1F1EE] [''slovenia''] [] False,
     emojiEntry [0x1F1F8, 0x1F1EF] [''svalbard_jan_mayen''] [] False,
     emojiEntry [0x1F1F8, 0x1F1F0] [''slovakia''] [] False,
     emojiEntry [0x1F1F8, 0x1F1F1] [''sierra_leone''] [] False,
     emojiEntry [0x1F1F8, 0x1F1F2] [''san_marino''] [] False,
     emojiEntry [0x1F1F8, 0x1F1F3] [''senegal''] [] False,
     emojiEntry [0x1F1F8, 0x1F1F4] [''somalia''] [] False]"

definition flags_3 :: "emoji_entry list" where
  "flags_3 = [
     emojiEntry [0x1F1F8, 0x1F1F7] [''suriname''] [] False,
     emojiEntry [0x1F1F8, 0x1F1F8] [''south_sudan''] [] False,
     emojiEntry [0x1F1F8, 0x1F1F9] [''sao_tome_principe''] [] False,
     emojiEntry [0x1F1F8, 0x1F1FB] [''el_salvador''] [] False,
     emojiEntry [0x1F1F8, 0x1F1FD] [''sint_maarten''] [] False,
     emojiEntry [0x1F1F8, 0x1F1FE] [''syria''] [] False,
     emojiEntry [0x1F1F8, 0x1F1FF] [''swaziland''] [] False,
     emojiEntry [0x1F1F9, 0x1F1E6] [''tristan_da_cunha''] [] False,
     emojiEntry [0x1F1F9, 0x1F1E8] [''turks_caicos_islands''] [] False,
     emojiEntry [0x1F1F9, 0x1F1E9] [''chad''] [] False,
     emojiEntry [0x1F1F9, 0x1F1EB] [''french_southern_territories''] [] False,
     emojiEntry [0x1F1F9, 0x1F1EC] [''togo''] [] False,
     emojiEntry [0x1F1F9, 0x1F1ED] [''thailand''] [] False,
     emojiEntry [0x1F1F9, 0x1F1EF] [''tajikistan''] [] False,
     emojiEntry [0x1F1F9, 0x1F1F0] [''tokelau''] [] False,
     emojiEntry [0x1F1F9, 0x1F1F1] [''timor_leste''] [] False,
     emojiEntry [0x1F1F9, 0x1F1F2] [''turkmenistan''] [] False,
     emojiEntry [0x1F1F9, 0x1F1F3] [''tunisia''] [] False,
     emojiEntry [0x1F1F9, 0x1F1F4] [''tonga''] [] False,
     emojiEntry [0x1F1F9, 0x1F1F7] [''tr''] [''turkey''] False,
     emojiEntry [0x1F1F9, 0x1F1F9] [''trinidad_tobago''] [] False,
     emojiEntry [0x1F1F9, 0x1F1FB] [''tuvalu''] [] False,
     emojiEntry [0x1F1F9, 0x1F1FC] [''taiwan''] [] False,
     emojiEntry [0x1F1F9, 0x1F1FF] [''tanzania''] [] False,
     emojiEntry [0x1F1FA, 0x1F1E6] [''ukraine''] [] False,
     emojiEntry [0x1F1FA, 0x1F1EC] [''uganda''] [] False,
     emojiEntry [0x1F1FA, 0x1F1F2] [''us_outlying_islands''] [] False,
     emojiEntry [0x1F1FA, 0x1F1F3] [''united_nations''] [] False,
     emojiEntry [0x1F1FA, 0x1F1F8] [''us''] [''flag'', ''united'', ''america''] False,
     emojiEntry [0x1F1FA, 0x1F1FE] [''uruguay''] [] False,
     emojiEntry [0x1F1FA, 0x1F1FF] [''uzbekistan''] [] False,
     emojiEntry [0x1F1FB, 0x1F1E6] [''vatican_city''] [] False,
     emojiEntry [0x1F1FB, 0x1F1E8] [''st_vincent_grenadines''] [] False,
     emojiEntry [0x1F1FB, 0x1F1EA] [''venezuela''] [] False,
     emojiEntry [0x1F1FB, 0x1F1EC] [''british_virgin_islands''] [] False,
     emojiEntry [0x1F1FB, 0x1F1EE] [''us_virgin_islands''] [] False,
     emojiEntry [0x1F1FB, 0x1F1F3] [''vietnam''] [] False,
     emojiEntry [0x1F1FB, 0x1F1FA] [''vanuatu''] [] False,
     emojiEntry [0x1F1FC, 0x1F1EB] [''wallis_futuna''] [] False,
     emojiEntry [0x1F1FC, 0x1F1F8] [''samoa''] [] False,
     emojiEntry [0x1F1FD, 0x1F1F0] [''kosovo''] [] False,
     emojiEntry [0x1F1FE, 0x1F1EA] [''yemen''] [] False,
     emojiEntry [0x1F1FE, 0x1F1F9] [''mayotte''] [] False,
     emojiEntry [0x1F1FF, 0x1F1E6] [''south_africa''] [] False,
     emojiEntry [0x1F1FF, 0x1F1F2] [''zambia''] [] False,
     emojiEntry [0x1F1FF, 0x1F1FC] [''zimbabwe''] [] False,
     emojiEntry [0x1F3F4, 0xE0067, 0xE0062, 0xE0065, 0xE006E, 0xE0067, 0xE007F] [''england''] [] False,
     emojiEntry [0x1F3F4, 0xE0067, 0xE0062, 0xE0073, 0xE0063, 0xE0074, 0xE007F] [''scotland''] [] False,
     emojiEntry [0x1F3F4, 0xE0067, 0xE0062, 0xE0077, 0xE006C, 0xE0073, 0xE007F] [''wales''] [] False]"

definition flags :: emoji_category where
  "flags = \<lparr>ec_id = js ''flags'', ec_label = js ''Flags'', ec_icon = utf16 0x1F38C,
     ec_emojis = flags_1 @ flags_2 @ flags_3\<rparr>"

section \<open>The table\<close>

definition EMOJI_CATEGORIES :: "emoji_category list" where
  "EMOJI_CATEGORIES = [smileys, people, nature, food, activity, travel, objects, symbols, flags]"

section \<open>Every alias is a shortcode\<close>

text \<open>The characters of a shortcode, decided on their bits.\<close>

fun shortcodeBits :: "char \<Rightarrow> bool" where
  "shortcodeBits (Char b0 b1 b2 b3 b4 b5 b6 b7) =
     (\<not> b7 \<and>
      (if b6 then ((b0 \<or> b1 \<or> b2 \<or> b3 \<or> b4) \<and> \<not> (b4 \<and> b3 \<and> (b2 \<or> b1 \<and> b0))) \<or> (\<not> b5 \<and> b0 \<and> b1 \<and> b2 \<and> b3 \<and> b4)
       else b5 \<and> (if b4 then \<not> (b3 \<and> (b2 \<or> b1)) else b3 \<and> b0 \<and> (b1 \<noteq> b2))))"

lemma shortcode_bits: "shortcodeBits c \<Longrightarrow> shortcode_char (ch c)"
proof (cases c)
  case (Char b0 b1 b2 b3 b4 b5 b6 b7)
  assume "shortcodeBits c"
  then show ?thesis unfolding Char
    by (cases b0; cases b1; cases b2; cases b3; cases b4; cases b5; cases b6; cases b7)
      (simp_all add: shortcode_char_def is_digit_def word_le_nat_alt)
qed

definition entryOk :: "emoji_entry \<Rightarrow> bool" where
  "entryOk e \<longleftrightarrow> ee_aliases e \<noteq> [] \<and> list_all (\<lambda>a. a \<noteq> [] \<and> list_all shortcode_char a) (ee_aliases e)"

lemma entry_rules:
  assumes "aliases \<noteq> []" "list_all (\<lambda>a. a \<noteq> [] \<and> list_all shortcodeBits a) aliases"
  shows "entryOk (emojiEntry cps aliases tags skinTones)"
  using assms by (auto simp: entryOk_def emojiEntry_def list_all_iff js_def intro: shortcode_bits)

lemma smileys_1_ok: "list_all entryOk smileys_1"
  unfolding smileys_1_def by (simp add: entry_rules)

lemma smileys_2_ok: "list_all entryOk smileys_2"
  unfolding smileys_2_def by (simp add: entry_rules)

lemma people_1_ok: "list_all entryOk people_1"
  unfolding people_1_def by (simp add: entry_rules)

lemma people_2_ok: "list_all entryOk people_2"
  unfolding people_2_def by (simp add: entry_rules)

lemma people_3_ok: "list_all entryOk people_3"
  unfolding people_3_def by (simp add: entry_rules)

lemma people_4_ok: "list_all entryOk people_4"
  unfolding people_4_def by (simp add: entry_rules)

lemma nature_1_ok: "list_all entryOk nature_1"
  unfolding nature_1_def by (simp add: entry_rules)

lemma nature_2_ok: "list_all entryOk nature_2"
  unfolding nature_2_def by (simp add: entry_rules)

lemma food_1_ok: "list_all entryOk food_1"
  unfolding food_1_def by (simp add: entry_rules)

lemma food_2_ok: "list_all entryOk food_2"
  unfolding food_2_def by (simp add: entry_rules)

lemma activity_1_ok: "list_all entryOk activity_1"
  unfolding activity_1_def by (simp add: entry_rules)

lemma travel_1_ok: "list_all entryOk travel_1"
  unfolding travel_1_def by (simp add: entry_rules)

lemma travel_2_ok: "list_all entryOk travel_2"
  unfolding travel_2_def by (simp add: entry_rules)

lemma objects_1_ok: "list_all entryOk objects_1"
  unfolding objects_1_def by (simp add: entry_rules)

lemma objects_2_ok: "list_all entryOk objects_2"
  unfolding objects_2_def by (simp add: entry_rules)

lemma objects_3_ok: "list_all entryOk objects_3"
  unfolding objects_3_def by (simp add: entry_rules)

lemma symbols_1_ok: "list_all entryOk symbols_1"
  unfolding symbols_1_def by (simp add: entry_rules)

lemma symbols_2_ok: "list_all entryOk symbols_2"
  unfolding symbols_2_def by (simp add: entry_rules)

lemma symbols_3_ok: "list_all entryOk symbols_3"
  unfolding symbols_3_def by (simp add: entry_rules)

lemma flags_1_ok: "list_all entryOk flags_1"
  unfolding flags_1_def by (simp add: entry_rules)

lemma flags_2_ok: "list_all entryOk flags_2"
  unfolding flags_2_def by (simp add: entry_rules)

lemma flags_3_ok: "list_all entryOk flags_3"
  unfolding flags_3_def by (simp add: entry_rules)

lemmas chunks_ok = smileys_1_ok smileys_2_ok people_1_ok people_2_ok people_3_ok people_4_ok nature_1_ok nature_2_ok food_1_ok food_2_ok activity_1_ok travel_1_ok travel_2_ok objects_1_ok objects_2_ok objects_3_ok symbols_1_ok symbols_2_ok symbols_3_ok flags_1_ok flags_2_ok flags_3_ok

lemma table_ok: "list_all entryOk (allEmojis EMOJI_CATEGORIES)"
  by (simp add: allEmojis_def EMOJI_CATEGORIES_def smileys_def people_def nature_def food_def activity_def travel_def objects_def symbols_def flags_def chunks_ok)

end
