(* ===== verification/Shortcodes.thy ===== *)
theory Shortcodes
  imports EmojiTable Mrkdwn
begin

text \<open>
  The emoji table and the message parser together: what the emoji picker and the suggestions
  insert, an alias between colons, is read back as that shortcode and shown as its emoji.
\<close>

lemma resolve_carrier:
  assumes "entry \<in> set (allEmojis categories)" "alias \<in> set (ee_aliases entry)"
  shows "\<exists>e \<in> set (allEmojis categories). alias \<in> set (ee_aliases e) \<and>
    resolveStandardShortcode categories alias = Unicode (ee_emoji e)"
proof -
  have "(alias, ee_emoji entry) \<in> set (rev (aliasPairs categories))"
    using assms by (auto simp: aliasPairs_def)
  then obtain emoji where emoji: "map_of (rev (aliasPairs categories)) alias = Some emoji"
    by (metis domIff dom_map_of_conv_image_fst fst_conv image_eqI not_None_eq)
  then have "(alias, emoji) \<in> set (aliasPairs categories)" by (metis map_of_SomeD set_rev)
  then obtain e where "e \<in> set (allEmojis categories)" "alias \<in> set (ee_aliases e)" "emoji = ee_emoji e"
    by (auto simp: aliasPairs_def)
  with emoji show ?thesis by (auto simp: resolveStandardShortcode_def EMOJI_MAP_eq)
qed

text \<open>C26: Every alias of the emoji table, written between colons, is parsed as the shortcode of that
  name, and the shortcode resolves to an emoji of the table that carries the alias.\<close>

theorem every_alias_is_shortcode:
  assumes "entry \<in> set (allEmojis EMOJI_CATEGORIES)" "alias \<in> set (ee_aliases entry)"
  shows "parseInline (js '':'' @ alias @ js '':'') = [EmojiShortcode alias] \<and>
    (\<exists>e \<in> set (allEmojis EMOJI_CATEGORIES). alias \<in> set (ee_aliases e) \<and>
      resolveStandardShortcode EMOJI_CATEGORIES alias = Unicode (ee_emoji e))"
proof -
  have "entryOk entry" using table_ok assms(1) by (simp add: list_all_iff)
  with assms(2) have "readable (EmojiShortcode alias)"
    by (auto simp: entryOk_def list_all_iff)
  then have "parseInline (concat (map render [EmojiShortcode alias])) = [EmojiShortcode alias]"
    by (intro inline_roundtrip) auto
  with resolve_carrier [OF assms] show ?thesis by simp
qed

theorem every_alias_is_shortcode_witness:
  "parseInline (js '':'' @ js ''grinning'' @ js '':'') = [EmojiShortcode (js ''grinning'')]"
proof -
  have "emojiEntry [0x1F600] [''grinning''] [''smile'', ''happy''] False \<in> set (allEmojis EMOJI_CATEGORIES)"
    by (simp add: allEmojis_def EMOJI_CATEGORIES_def smileys_def smileys_1_def)
  from every_alias_is_shortcode [OF this, of "js ''grinning''"] show ?thesis by (simp add: emojiEntry_def)
qed

end
