(* ===== verification/Sidebar.thy ===== *)
theory Sidebar
  imports HookMutations CommandPalette
begin

text \<open>
  The channel sidebar of the web app (\<open>apps/web/src/components/channel/ChannelSidebar.tsx\<close>): the
  groups of channels, starring a channel by dragging it, the dialogs to browse and create channels
  and to start a conversation, and leaving the workspace (\<open>hooks/useWorkspaces.ts\<close>).

  The local copy of the channels is replaced when the cached list is another one. The code compares
  references; the query client keeps the reference of a list that has not changed (structural sharing), so
  the model compares values.
\<close>

section \<open>The local channels\<close>

record sidebar =
  sb_localChannels :: "channel_with_membership list"
  sb_prevServerChannels :: "channel_with_membership list option"
  sb_activeChannel :: "channel_with_membership option"

definition new_sidebar :: sidebar where
  "new_sidebar = \<lparr>sb_localChannels = [], sb_prevServerChannels = None, sb_activeChannel = None\<rparr>"

definition syncChannels :: "channel_with_membership list option \<Rightarrow> sidebar \<Rightarrow> sidebar" where
  "syncChannels serverChannels s =
     (if serverChannels \<noteq> sb_prevServerChannels s
      then (let s1 = s\<lparr>sb_prevServerChannels := serverChannels\<rparr>
        in case serverChannels of None \<Rightarrow> s1 | Some cs \<Rightarrow> s1\<lparr>sb_localChannels := cs\<rparr>)
      else s)"

definition totalNotificationCount :: "channel_with_membership list \<Rightarrow> int" where
  "totalNotificationCount chans = foldl (\<lambda>sum c. sum + ch_notification_count c) 0 chans"

definition hasUnread :: "channel_with_membership list \<Rightarrow> bool" where
  "hasUnread chans = list_ex (\<lambda>c. ch_unread_count c > 0) chans"

section \<open>Groups\<close>

record channel_groups =
  cg_starred :: "channel_with_membership list"
  cg_channels :: "channel_with_membership list"
  cg_dm :: "channel_with_membership list"

definition addToGroups :: "channel_with_membership \<Rightarrow> channel_groups \<Rightarrow> channel_groups" where
  "addToGroups c groups =
     (let isMember = ch_channel_role c \<noteq> None
      in if \<not> isDM c \<and> \<not> isMember then groups
         else if ch_is_starred c then groups\<lparr>cg_starred := cg_starred groups @ [c]\<rparr>
         else if ch_type c = PublicChannel \<or> ch_type c = PrivateChannel
         then groups\<lparr>cg_channels := cg_channels groups @ [c]\<rparr>
         else groups\<lparr>cg_dm := cg_dm groups @ [c]\<rparr>)"

definition byStarred :: "(jsstring \<Rightarrow> jsstring \<Rightarrow> int) \<Rightarrow> channel_with_membership \<Rightarrow> channel_with_membership \<Rightarrow> int" where
  "byStarred compare a b =
     (if isDM a \<noteq> isDM b then (if isDM a then 1 else -1) else compare (ch_name a) (ch_name b))"

definition groupedChannels ::
    "(jsstring \<Rightarrow> jsstring \<Rightarrow> int) \<Rightarrow> channel_with_membership list \<Rightarrow> channel_groups" where
  "groupedChannels compare chans =
     (let groups = fold addToGroups chans \<lparr>cg_starred = [], cg_channels = [], cg_dm = []\<rparr>
      in groups\<lparr>cg_starred := js_sort (byStarred compare) (cg_starred groups),
                cg_channels := js_sort (\<lambda>a b. compare (ch_name a) (ch_name b)) (cg_channels groups)\<rparr>)"

text \<open>Whether a section is shown; the section of the direct messages always is.\<close>

definition sectionShown :: "channel_with_membership list \<Rightarrow> bool \<Rightarrow> bool \<Rightarrow> bool" where
  "sectionShown chans showWhenEmpty isStarredSection =
     (\<not> (chans = [] \<and> \<not> showWhenEmpty \<and> \<not> isStarredSection))"

section \<open>Dragging\<close>

datatype star_request = StarRequest jsstring | UnstarRequest jsstring

definition handleDragStart :: "jsstring \<Rightarrow> sidebar \<Rightarrow> sidebar" where
  "handleDragStart activeId s =
     (case find (\<lambda>c. ch_id c = activeId) (sb_localChannels s) of
        None \<Rightarrow> s | Some c \<Rightarrow> s\<lparr>sb_activeChannel := Some c\<rparr>)"

definition handleDragEnd :: "jsstring \<Rightarrow> jsstring option \<Rightarrow> sidebar \<Rightarrow> sidebar \<times> star_request option" where
  "handleDragEnd activeId over s =
     (let s1 = s\<lparr>sb_activeChannel := None\<rparr>
      in case over of
           None \<Rightarrow> (s1, None)
         | Some overId \<Rightarrow>
             (case find (\<lambda>c. ch_id c = activeId) (sb_localChannels s) of
                None \<Rightarrow> (s1, None)
              | Some chan \<Rightarrow>
                  if overId = js ''starred-drop-zone'' \<and> \<not> ch_is_starred chan
                  then (s1\<lparr>sb_localChannels := map (setStarred True (ch_id chan)) (sb_localChannels s1)\<rparr>,
                        Some (StarRequest (ch_id chan)))
                  else if (overId = js ''channels-drop-zone'' \<or> overId = js ''dms-drop-zone'') \<and> ch_is_starred chan
                  then (s1\<lparr>sb_localChannels := map (setStarred False (ch_id chan)) (sb_localChannels s1)\<rparr>,
                        Some (UnstarRequest (ch_id chan)))
                  else (s1, None)))"

text \<open>The mutation a drag starts, and its failure.\<close>

fun starMutate :: "'qc query_ops \<Rightarrow> jsstring \<Rightarrow> star_request \<Rightarrow> 'qc \<Rightarrow> 'qc \<times> query_data option" where
  "starMutate ops workspaceId (StarRequest i) c = useStarChannel_onMutate ops workspaceId i c"
| "starMutate ops workspaceId (UnstarRequest i) c = useUnstarChannel_onMutate ops workspaceId i c"

fun starFailed :: "'qc query_ops \<Rightarrow> jsstring \<Rightarrow> star_request \<Rightarrow> 'qc \<times> query_data option \<Rightarrow> 'qc" where
  "starFailed ops workspaceId (StarRequest i) (c, previousData) = useStarChannel_onError ops workspaceId c previousData"
| "starFailed ops workspaceId (UnstarRequest i) (c, previousData) = useUnstarChannel_onError ops workspaceId c previousData"

section \<open>An item\<close>

definition channelDisplayName :: "channel_with_membership \<Rightarrow> jsstring" where
  "channelDisplayName c =
     (if isDM c
      then or_else (map_option (\<lambda>ps. join (js '', '') (map cm_display_name ps)) (ch_dm_participants c)) (ch_name c)
      else ch_name c)"

text \<open>The presence shown of the other participant, \<open>raw\<close> being what the presence store has of a user.\<close>

definition participantPresence :: "(jsstring \<Rightarrow> presence_status option) \<Rightarrow> channel_with_membership \<Rightarrow> presence_status option" where
  "participantPresence raw c =
     (case (ch_type c, ch_dm_participants c) of
        (DmChannel, Some (p # _)) \<Rightarrow> Some (case raw (cm_user_id p) of Some st \<Rightarrow> st | None \<Rightarrow> Offline)
      | _ \<Rightarrow> None)"

section \<open>The channel dialog\<close>

definition unjoinedChannels :: "channel_with_membership list \<Rightarrow> channel_with_membership list" where
  "unjoinedChannels chans = filter (\<lambda>c. ch_type c = PublicChannel \<and> ch_channel_role c = None) chans"

text \<open>\<open>replace(/\s+/g, '-')\<close>; the flag says whether the character before was white space.\<close>

fun dashSpaces :: "bool \<Rightarrow> jsstring \<Rightarrow> jsstring" where
  "dashSpaces inRun [] = []"
| "dashSpaces inRun (c # s) =
     (if is_ws c then (if inRun then dashSpaces True s else ch CHR ''-'' # dashSpaces True s)
      else c # dashSpaces False s)"

text \<open>\<open>handleNameChange\<close>: what the field holds after \<open>s\<close> was typed.\<close>

definition formatChannelName :: "(jsstring \<Rightarrow> jsstring) \<Rightarrow> jsstring \<Rightarrow> jsstring" where
  "formatChannelName lower s = filter (\<lambda>c. nameChar c \<or> c = ch CHR ''-'') (dashSpaces False (lower s))"

definition isValidName :: "jsstring \<Rightarrow> bool" where
  "isValidName n = (length n > 0 \<and> CHANNEL_NAME_REGEX n)"

record channel_dialog =
  cd_tab_create :: bool
  cd_name :: jsstring
  cd_type :: channel_type
  cd_joiningId :: "jsstring option"
  cd_open :: bool

definition resetDialog :: "channel_dialog \<Rightarrow> channel_dialog" where
  "resetDialog d = d\<lparr>cd_open := False, cd_name := [], cd_type := PublicChannel, cd_tab_create := False\<rparr>"

text \<open>\<open>handleCreate\<close>: the request it makes, if any, and the dialog when the request has an answer.\<close>

definition createRequest :: "channel_dialog \<Rightarrow> (jsstring \<times> channel_type) option" where
  "createRequest d = (if \<not> isValidName (cd_name d) then None else Some (cd_name d, cd_type d))"

definition createAnswered :: "bool \<Rightarrow> channel_dialog \<Rightarrow> channel_dialog" where
  "createAnswered succeeded d = (if succeeded then resetDialog d else d)"

definition joinStarted :: "jsstring \<Rightarrow> channel_dialog \<Rightarrow> channel_dialog" where
  "joinStarted channelId d = d\<lparr>cd_joiningId := Some channelId\<rparr>"

definition joinAnswered :: "bool \<Rightarrow> channel_dialog \<Rightarrow> channel_dialog" where
  "joinAnswered succeeded d = (if succeeded then d\<lparr>cd_open := False\<rparr> else d)\<lparr>cd_joiningId := None\<rparr>"

section \<open>The dialog of a new conversation\<close>

text \<open>The selected users are a set in the order in which they were selected.\<close>

definition toggleUser :: "jsstring \<Rightarrow> jsstring list \<Rightarrow> jsstring list" where
  "toggleUser userId selected = (if userId \<in> set selected then removeAll userId selected else selected @ [userId])"

definition otherMembers :: "workspace_member list option \<Rightarrow> jsstring option \<Rightarrow> workspace_member list" where
  "otherMembers members userId =
     (case (members, userId) of (Some ms, Some u) \<Rightarrow> filter (\<lambda>m. mem_user_id m \<noteq> u) ms | _ \<Rightarrow> [])"

definition dmRequest :: "jsstring list \<Rightarrow> jsstring list option" where
  "dmRequest selected = (if selected = [] then None else Some selected)"

section \<open>Leaving the workspace\<close>

definition leaveRedirect :: "workspace_summary list option \<Rightarrow> jsstring \<Rightarrow> jsstring" where
  "leaveRedirect wss workspaceId =
     (case filter (\<lambda>ws. ws_id ws \<noteq> workspaceId \<and> ws_ban ws = None) (or_empty wss) of
        [] \<Rightarrow> js ''/'' | ws # _ \<Rightarrow> js ''/workspaces/'' @ ws_id ws)"

section \<open>Facts\<close>

definition listedChannel :: "channel_with_membership \<Rightarrow> bool" where
  "listedChannel c \<longleftrightarrow> isDM c \<or> ch_channel_role c \<noteq> None"

lemma fold_groups:
  "fold addToGroups chans g =
     \<lparr>cg_starred = cg_starred g @ filter (\<lambda>c. listedChannel c \<and> ch_is_starred c) chans,
      cg_channels = cg_channels g @ filter (\<lambda>c. listedChannel c \<and> \<not> ch_is_starred c \<and> \<not> isDM c) chans,
      cg_dm = cg_dm g @ filter (\<lambda>c. listedChannel c \<and> \<not> ch_is_starred c \<and> isDM c) chans\<rparr>"
proof (induction chans arbitrary: g)
  case (Cons c chans)
  then show ?case
    by (cases "ch_type c") (simp_all add: addToGroups_def Let_def listedChannel_def isDM_def)
qed simp

lemma groups_eq:
  "groupedChannels compare chans =
     \<lparr>cg_starred = js_sort (byStarred compare) (filter (\<lambda>c. listedChannel c \<and> ch_is_starred c) chans),
      cg_channels = js_sort (\<lambda>a b. compare (ch_name a) (ch_name b))
        (filter (\<lambda>c. listedChannel c \<and> \<not> ch_is_starred c \<and> \<not> isDM c) chans),
      cg_dm = filter (\<lambda>c. listedChannel c \<and> \<not> ch_is_starred c \<and> isDM c) chans\<rparr>"
  by (simp add: groupedChannels_def fold_groups)

lemma byStarred_comparator: "comparator compare \<Longrightarrow> comparator (byStarred compare)"
  unfolding comparator_def byStarred_def by (auto split: if_splits)

lemma byName_comparator: "comparator compare \<Longrightarrow> comparator (\<lambda>a b. compare (ch_name a) (ch_name b))"
  unfolding comparator_def by auto

lemma syncChannels_again: "sb_prevServerChannels s = Some cs \<Longrightarrow> syncChannels (Some cs) s = s"
  by (simp add: syncChannels_def)

lemma syncChannels_other:
  "sb_localChannels (syncChannels (Some cs) s) =
     (if sb_prevServerChannels s = Some cs then sb_localChannels s else cs)"
  by (simp add: syncChannels_def Let_def)

lemma setStarred_id: "setStarred b i c = c \<longleftrightarrow> (ch_id c = i \<longrightarrow> ch_is_starred c = b)"
  by (cases c) (auto simp: setStarred_def)

lemma setStarred_changes:
  assumes "find (\<lambda>c. ch_id c = i) cs = Some c" "ch_is_starred c \<noteq> b"
  shows "map (setStarred b (ch_id c)) cs \<noteq> cs"
proof
  assume "map (setStarred b (ch_id c)) cs = cs"
  moreover have "c \<in> set cs" using assms(1) by (auto simp: find_Some_iff)
  ultimately have "setStarred b (ch_id c) c = c" by (metis map_eq_conv map_ident)
  with assms(2) show False by (simp add: setStarred_id)
qed

text \<open>A drag that starts a mutation sets the star of the dragged channel.\<close>

lemma drag_sets_star:
  assumes "handleDragEnd activeId over s = (s', Some r)"
  obtains chan b where "find (\<lambda>c. ch_id c = activeId) (sb_localChannels s) = Some chan"
    "ch_is_starred chan \<noteq> b" "r = (if b then StarRequest (ch_id chan) else UnstarRequest (ch_id chan))"
    "s' = s\<lparr>sb_activeChannel := None, sb_localChannels := map (setStarred b (ch_id chan)) (sb_localChannels s)\<rparr>"
proof -
  obtain overId chan where found: "over = Some overId" "find (\<lambda>c. ch_id c = activeId) (sb_localChannels s) = Some chan"
    using assms by (auto simp: handleDragEnd_def Let_def split: option.splits)
  with assms show thesis
    using that [of chan "\<not> ch_is_starred chan"] by (auto simp: handleDragEnd_def Let_def split: if_splits)
qed

context query_client
begin

text \<open>What a drag shows is what its mutation writes, and what its failure restores.\<close>

lemma drag_mutation:
  assumes drag: "handleDragEnd activeId over s = (s', Some r)"
    and cached: "getQueryData ops c (channelKeys_list w) = Some (ChannelsData cs)"
    and synced: "sb_prevServerChannels s = Some (channels cs)" "sb_localChannels s = channels cs"
  shows "map_option channels (as_channels (getQueryData ops (fst (starMutate ops w r c)) (channelKeys_list w))) =
      Some (sb_localChannels s')"
    and "getQueryData ops (starFailed ops w r (starMutate ops w r c)) (channelKeys_list w) = Some (ChannelsData cs)"
    and "sb_prevServerChannels s' = Some (channels cs)" "sb_localChannels s' \<noteq> channels cs"
proof -
  from drag obtain chan b where chan: "find (\<lambda>c. ch_id c = activeId) (sb_localChannels s) = Some chan"
      "ch_is_starred chan \<noteq> b" "r = (if b then StarRequest (ch_id chan) else UnstarRequest (ch_id chan))"
      "s' = s\<lparr>sb_activeChannel := None, sb_localChannels := map (setStarred b (ch_id chan)) (sb_localChannels s)\<rparr>"
    by (rule drag_sets_star)
  note chan = chan [unfolded synced]
  have "map (setStarred b (ch_id chan)) (channels cs) \<noteq> channels cs"
    by (rule setStarred_changes [OF chan(1,2)])
  then show "sb_localChannels s' \<noteq> channels cs" "sb_prevServerChannels s' = Some (channels cs)"
    using chan synced by simp_all
  show "map_option channels (as_channels (getQueryData ops (fst (starMutate ops w r c)) (channelKeys_list w))) =
      Some (sb_localChannels s')"
    using chan cached by (cases b) (simp_all add: useStarChannel_onMutate_def useUnstarChannel_onMutate_def
      Let_def mapChannels_def)
  show "getQueryData ops (starFailed ops w r (starMutate ops w r c)) (channelKeys_list w) = Some (ChannelsData cs)"
    using chan cached by (cases b) (simp_all add: useStarChannel_onMutate_def useUnstarChannel_onMutate_def
      useStarChannel_onError_def useUnstarChannel_onError_def Let_def)
qed

end

text \<open>The field of a new channel's name holds only characters of a name, and leaves a name alone.\<close>

lemma format_chars: "list_all (\<lambda>c. nameChar c \<or> c = ch CHR ''-'') (formatChannelName lower s)"
  by (simp add: formatChannelName_def list_all_iff)

lemma name_not_ws: "nameChar c \<or> c = ch CHR ''-'' \<Longrightarrow> \<not> is_ws c"
  by (auto simp: nameChar_def is_ws_def word_le_nat_alt)

lemma name_chars: "channelNameFrom seen s \<Longrightarrow> list_all (\<lambda>c. nameChar c \<or> c = ch CHR ''-'') s"
  by (induction seen s rule: channelNameFrom.induct) (auto split: if_splits)

lemma dashSpaces_id: "list_all (\<lambda>c. \<not> is_ws c) s \<Longrightarrow> dashSpaces b s = s"
  by (induction b s rule: dashSpaces.induct) auto

lemma format_keeps_name:
  assumes "CHANNEL_NAME_REGEX s" "lower s = s"
  shows "formatChannelName lower s = s"
proof -
  have chars: "list_all (\<lambda>c. nameChar c \<or> c = ch CHR ''-'') s"
    using assms(1) unfolding CHANNEL_NAME_REGEX_def by (rule name_chars)
  then have "list_all (\<lambda>c. \<not> is_ws c) s" by (rule list.pred_mono_strong) (rule name_not_ws)
  with chars assms(2) show ?thesis by (simp add: formatChannelName_def dashSpaces_id list_all_iff)
qed

section \<open>Properties\<close>

text \<open>Every conversation and every channel the user is a member of is in exactly one group of the
  sidebar, as often as it is in the list: the starred ones with the channels before the conversations,
  then the other channels, both sorted by name, then the other conversations. Nothing else is listed.\<close>

theorem sidebar_groups:
  assumes "comparator compare" "g = groupedChannels compare chans"
  shows "mset (cg_starred g @ cg_channels g @ cg_dm g) =
      mset (filter (\<lambda>c. isDM c \<or> ch_channel_role c \<noteq> None) chans) \<and>
    list_all ch_is_starred (cg_starred g) \<and> list_all (\<lambda>c. \<not> ch_is_starred c \<and> \<not> isDM c) (cg_channels g) \<and>
    list_all (\<lambda>c. \<not> ch_is_starred c \<and> isDM c) (cg_dm g) \<and>
    sorted_wrt (\<lambda>a b. \<not> isDM a \<and> isDM b \<or> isDM a = isDM b \<and> compare (ch_name a) (ch_name b) \<le> 0) (cg_starred g) \<and>
    sorted_wrt (\<lambda>a b. compare (ch_name a) (ch_name b) \<le> 0) (cg_channels g)"
proof -
  have "mset (cg_starred g @ cg_channels g @ cg_dm g) = mset (filter listedChannel chans)"
    unfolding assms(2) groups_eq by (induction chans) auto
  moreover have "listedChannel = (\<lambda>c. isDM c \<or> ch_channel_role c \<noteq> None)" by (auto simp: listedChannel_def)
  moreover have "sorted_wrt (\<lambda>a b. byStarred compare a b \<le> 0) (cg_starred g)"
    unfolding assms(2) groups_eq using comparator.sort_sorted [OF byStarred_comparator [OF assms(1)]] by simp
  then have "sorted_wrt (\<lambda>a b. \<not> isDM a \<and> isDM b \<or> isDM a = isDM b \<and> compare (ch_name a) (ch_name b) \<le> 0) (cg_starred g)"
    by (rule sorted_wrt_mono_rel [rotated]) (auto simp: byStarred_def split: if_splits)
  moreover have "sorted_wrt (\<lambda>a b. compare (ch_name a) (ch_name b) \<le> 0) (cg_channels g)"
    unfolding assms(2) groups_eq using comparator.sort_sorted [OF byName_comparator [OF assms(1)]] by simp
  ultimately show ?thesis unfolding assms(2) groups_eq by (simp add: list_all_iff)
qed

theorem sidebar_groups_witness:
  "mset (let g = groupedChannels (\<lambda>a b. 0) [sample_channel, sample_channel\<lparr>ch_type := DmChannel\<rparr>]
      in cg_starred g @ cg_channels g @ cg_dm g) = {#sample_channel\<lparr>ch_type := DmChannel\<rparr>#}"
proof -
  have "comparator (\<lambda>(a :: jsstring) (b :: jsstring). 0)" by unfold_locales auto
  from sidebar_groups [OF this refl, of "[sample_channel, sample_channel\<lparr>ch_type := DmChannel\<rparr>]"]
  show ?thesis by (simp add: Let_def sample_channel_def isDM_def)
qed

text \<open>A drag that stars or unstars a channel shows at once what the optimistic update writes to the
  cache, so the sidebar does not change when the cache is read again; if the request fails, the
  sidebar returns to the list it had before the drag.\<close>

theorem drag_agrees_with_mutation:
  assumes "query_client ops" "handleDragEnd activeId over s = (s', Some r)"
    and "getQueryData ops c (channelKeys_list w) = Some (ChannelsData cs)"
    and "sb_prevServerChannels s = Some (channels cs)" "sb_localChannels s = channels cs"
    and "shown = (\<lambda>c. map_option channels (as_channels (getQueryData ops c (channelKeys_list w))))"
  shows "sb_localChannels (syncChannels (shown (fst (starMutate ops w r c))) s') = sb_localChannels s' \<and>
    sb_localChannels (syncChannels (shown (starFailed ops w r (starMutate ops w r c)))
      (syncChannels (shown (fst (starMutate ops w r c))) s')) = sb_localChannels s"
proof -
  note drag = query_client.drag_mutation [OF assms(1-5)]
  have optimistic: "shown (fst (starMutate ops w r c)) = Some (sb_localChannels s')"
    using drag(1) assms(6) by simp
  have failed: "shown (starFailed ops w r (starMutate ops w r c)) = Some (channels cs)"
    using drag(2) assms(6) by simp
  have "sb_prevServerChannels (syncChannels (Some (sb_localChannels s')) s') = Some (sb_localChannels s')"
    using drag(3) by (simp add: syncChannels_def Let_def)
  with drag(4) assms(5) show ?thesis
    unfolding optimistic failed by (simp add: syncChannels_other)
qed

theorem drag_agrees_with_mutation_witness:
  "sb_localChannels (syncChannels (Some [setStarred True (js ''C'') sample_channel])
     (fst (handleDragEnd (js ''C'') (Some (js ''starred-drop-zone'')) \<lparr>sb_localChannels = [sample_channel],
       sb_prevServerChannels = Some [sample_channel], sb_activeChannel = Some sample_channel\<rparr>))) =
   [setStarred True (js ''C'') sample_channel]"
proof -
  let ?s = "\<lparr>sb_localChannels = [sample_channel], sb_prevServerChannels = Some [sample_channel],
    sb_activeChannel = Some sample_channel\<rparr>"
  let ?local = "[setStarred True (js ''C'') sample_channel]"
  have drag: "handleDragEnd (js ''C'') (Some (js ''starred-drop-zone'')) ?s =
      (?s\<lparr>sb_activeChannel := None, sb_localChannels := ?local\<rparr>, Some (StarRequest (js ''C'')))"
    by (simp add: handleDragEnd_def sample_channel_def Let_def)
  let ?shown = "\<lambda>c. map_option channels (as_channels (getQueryData store_ops c (channelKeys_list (js ''W''))))"
  have synced: "sb_prevServerChannels ?s = Some (channels \<lparr>channels = [sample_channel]\<rparr>)"
    "sb_localChannels ?s = channels \<lparr>channels = [sample_channel]\<rparr>" by simp_all
  have shown: "?shown (fst (starMutate store_ops (js ''W'') (StarRequest (js ''C'')) (sample_store [] []))) = Some ?local"
    by (simp add: useStarChannel_onMutate_def Let_def mapChannels_def)
  show ?thesis
    using drag_agrees_with_mutation [OF store.query_client_axioms drag sample_get(2) synced refl,
        THEN conjunct1, of "[]" "[]", unfolded shown] by (simp only: drag fst_conv) simp
qed

end
