(* ===== verification/ThreadView.thy ===== *)
theory ThreadView
  imports MessageMutations Utils Samples
begin

text \<open>
  The thread panel of the web app (\<open>apps/web/src/components/thread/ThreadPanel.tsx\<close>): where it finds the
  parent message, the reactions of the parent, which it keeps in a state of its own, the reactions
  of the replies in the cache of the thread, and editing. The mutations of the panel have no \<open>onError\<close>.
\<close>

section \<open>The parent message\<close>

text \<open>\<open>getParentMessageFromCache\<close> over \<open>getQueriesData({ queryKey: messageKeys.all })\<close>.\<close>

definition getParentMessageFromCache :: "'qc query_ops \<Rightarrow> 'qc \<Rightarrow> jsstring \<Rightarrow> message_with_user option" where
  "getParentMessageFromCache ops c messageId =
     find (\<lambda>m. msg_id m = messageId)
       (concat (map (\<lambda>(k, d). case as_pages d of None \<Rightarrow> [] | Some p \<Rightarrow> concat (map messages (pages p)))
         (getQueriesData ops c messageKeys_all)))"

definition parentMessage ::
    "'qc query_ops \<Rightarrow> 'qc \<Rightarrow> message_with_user option \<Rightarrow> jsstring \<Rightarrow> message_with_user option" where
  "parentMessage ops c fetched messageId =
     (case getParentMessageFromCache ops c messageId of Some m \<Rightarrow> Some m | None \<Rightarrow> fetched)"

text \<open>\<open>useMessage(cachedMessage ? undefined : messageId)\<close>: which message is requested.\<close>

definition parentRequest :: "'qc query_ops \<Rightarrow> 'qc \<Rightarrow> jsstring \<Rightarrow> jsstring option" where
  "parentRequest ops c messageId =
     (if getParentMessageFromCache ops c messageId \<noteq> None then None else Some messageId)"

section \<open>The panel\<close>

text \<open>
  \<open>tp_localReactions\<close> is the state of \<open>ParentMessage\<close>, which exists while the component is mounted: it
  is initialised from the message when a render finds one and the one before did not, and kept
  otherwise, as neither the panel nor the component has a \<open>key\<close>.
\<close>

record thread_panel =
  tp_messageId :: jsstring
  tp_localReactions :: "reaction list option"

definition renderPanel ::
    "'qc query_ops \<Rightarrow> 'qc \<Rightarrow> message_with_user option \<Rightarrow> thread_panel \<Rightarrow> thread_panel" where
  "renderPanel ops c fetched s =
     (case parentMessage ops c fetched (tp_messageId s) of
        None \<Rightarrow> s\<lparr>tp_localReactions := None\<rparr>
      | Some m \<Rightarrow>
          (case tp_localReactions s of
             None \<Rightarrow> s\<lparr>tp_localReactions := Some (or_empty (msg_reactions m))\<rparr>
           | Some _ \<Rightarrow> s))"

definition showThread :: "jsstring \<Rightarrow> thread_panel \<Rightarrow> thread_panel" where
  "showThread messageId s = s\<lparr>tp_messageId := messageId\<rparr>"

section \<open>Reactions of the parent\<close>

definition tempReaction :: "jsstring \<Rightarrow> jsstring \<Rightarrow> jsstring \<Rightarrow> jsstring \<Rightarrow> reaction" where
  "tempReaction now messageId userId emoji =
     \<lparr>rc_id = js ''temp'', rc_message_id = messageId, rc_user_id = userId, rc_emoji = emoji, rc_created_at = now\<rparr>"

definition parentAddReaction_onMutate ::
    "'qc query_ops \<Rightarrow> jsstring option \<Rightarrow> jsstring \<Rightarrow> jsstring \<Rightarrow> jsstring \<Rightarrow> reaction list \<times> 'qc \<Rightarrow> reaction list \<times> 'qc" where
  "parentAddReaction_onMutate ops userId now messageId emoji s =
     (let (localReactions, c) = s; u = or_else userId (js ''temp'')
      in if list_ex (sameReaction (Some u) emoji) localReactions then (localReactions, c)
         else (localReactions @ [tempReaction now messageId u emoji],
               setQueriesData ops c messageKeys_all
                 (on_pages (mapMessages (addTempReaction now messageId u emoji)))))"

definition parentRemoveReaction_onMutate ::
    "'qc query_ops \<Rightarrow> jsstring option \<Rightarrow> jsstring \<Rightarrow> jsstring \<Rightarrow> reaction list \<times> 'qc \<Rightarrow> reaction list \<times> 'qc" where
  "parentRemoveReaction_onMutate ops userId messageId emoji s =
     (let (localReactions, c) = s
      in (filter (\<lambda>r. \<not> sameReaction userId emoji r) localReactions,
          setQueriesData ops c messageKeys_all (on_pages (mapMessages (dropReaction messageId userId emoji)))))"

section \<open>Reactions of a reply\<close>

definition replyAddReaction_onMutate ::
    "'qc query_ops \<Rightarrow> jsstring option \<Rightarrow> jsstring \<Rightarrow> jsstring \<Rightarrow> jsstring \<Rightarrow> jsstring \<Rightarrow> 'qc \<Rightarrow> 'qc" where
  "replyAddReaction_onMutate ops userId now parentMessageId messageId emoji c =
     (let u = or_else userId (js ''temp'')
      in setQueryData ops c (threadKeys_detail parentMessageId)
           (on_pages (mapMessages (addTempReaction now messageId u emoji))))"

definition replyRemoveReaction_onMutate ::
    "'qc query_ops \<Rightarrow> jsstring option \<Rightarrow> jsstring \<Rightarrow> jsstring \<Rightarrow> jsstring \<Rightarrow> 'qc \<Rightarrow> 'qc" where
  "replyRemoveReaction_onMutate ops userId parentMessageId messageId emoji c =
     setQueryData ops c (threadKeys_detail parentMessageId)
       (on_pages (mapMessages (dropReaction messageId userId emoji)))"

datatype reaction_request = AddRequest jsstring | RemoveRequest jsstring

definition handleReactionClick :: "jsstring \<Rightarrow> bool \<Rightarrow> reaction_request" where
  "handleReactionClick emoji hasOwn = (if hasOwn then RemoveRequest emoji else AddRequest emoji)"

section \<open>Editing\<close>

text \<open>\<open>editingMessageStore.ts\<close>: at most one message is edited.\<close>

type_synonym editing = "jsstring option"

definition setEditingMessageId :: "jsstring \<Rightarrow> editing \<Rightarrow> editing" where
  "setEditingMessageId i s = Some i"

definition clearEditingMessageId :: "editing \<Rightarrow> editing" where
  "clearEditingMessageId s = None"

definition useIsEditingMessage :: "jsstring \<Rightarrow> editing \<Rightarrow> bool" where
  "useIsEditingMessage messageId s = (s = Some messageId)"

text \<open>The request \<open>handleSaveEdit\<close> makes, if any, and the store after it.\<close>

definition handleSaveEdit :: "message_with_user \<Rightarrow> jsstring \<Rightarrow> editing \<Rightarrow> (jsstring \<times> jsstring) option \<times> editing" where
  "handleSaveEdit m content s =
     (if trim content \<noteq> [] \<and> trim content \<noteq> msg_content m then Some (msg_id m, trim content) else None,
      clearEditingMessageId s)"

section \<open>What the panel shows\<close>

definition replyCountLabel :: "message_with_user \<Rightarrow> jsstring option" where
  "replyCountLabel m =
     (if msg_reply_count m > 0
      then Some (js_nat (nat (msg_reply_count m)) @ js '' '' @ (if msg_reply_count m = 1 then js ''reply'' else js ''replies''))
      else None)"

definition threadLink :: "jsstring \<Rightarrow> jsstring \<Rightarrow> jsstring \<Rightarrow> jsstring \<Rightarrow> jsstring" where
  "threadLink origin workspaceId channelId messageId =
     origin @ js ''/workspaces/'' @ workspaceId @ js ''/channels/'' @ channelId @ js ''?thread='' @ messageId"

definition showsComposer :: "bool \<Rightarrow> message_with_user option \<Rightarrow> jsstring option \<Rightarrow> bool" where
  "showsComposer isBanned parent workspaceId = (\<not> isBanned \<and> parent \<noteq> None \<and> truthy workspaceId)"

section \<open>Facts\<close>

lemma click_twice:
  assumes "\<not> list_ex (sameReaction (Some u) emoji) rs" "u \<noteq> []"
  shows "fst (parentRemoveReaction_onMutate ops (Some u) mid emoji
    (parentAddReaction_onMutate ops (Some u) now mid emoji (rs, c))) = rs"
proof -
  have "filter (\<lambda>r. \<not> sameReaction (Some u) emoji r) rs = rs"
    using assms(1) by (auto simp: list_ex_iff intro: filter_True)
  moreover have "sameReaction (Some u) emoji (tempReaction now mid u emoji)"
    by (simp add: sameReaction_def tempReaction_def)
  ultimately show ?thesis
    using assms by (simp add: parentRemoveReaction_onMutate_def parentAddReaction_onMutate_def or_else_def Let_def)
qed

lemma saved_edit:
  "handleSaveEdit m content s = (Some (i, t), s') \<Longrightarrow>
     i = msg_id m \<and> t = trim content \<and> t \<noteq> [] \<and> t \<noteq> msg_content m \<and> \<not> useIsEditingMessage i s'"
  by (auto simp: handleSaveEdit_def clearEditingMessageId_def useIsEditingMessage_def split: if_splits)

lemma find_SomeD: "find P xs = Some x \<Longrightarrow> x \<in> set xs \<and> P x"
  by (metis find_Some_iff nth_mem)

context query_client
begin

lemma parent_cached:
  "getParentMessageFromCache ops c mid = Some m \<Longrightarrow>
     msg_id m = mid \<and> (\<exists>k p. key_matches messageKeys_all k \<and> getQueryData ops c k = Some (PagesData p) \<and> m \<in> set (allMessages p))"
proof -
  assume "getParentMessageFromCache ops c mid = Some m"
  from find_SomeD [OF this [unfolded getParentMessageFromCache_def]]
  have m: "msg_id m = mid" "m \<in> set (concat (map (\<lambda>(k, d). case as_pages d of None \<Rightarrow> [] | Some p \<Rightarrow> concat (map messages (pages p)))
         (getQueriesData ops c messageKeys_all)))"
    by blast+
  then obtain k d where kd: "(k, d) \<in> set (getQueriesData ops c messageKeys_all)"
      "m \<in> set (case as_pages d of None \<Rightarrow> [] | Some p \<Rightarrow> concat (map messages (pages p)))" by auto
  then obtain p where p: "as_pages d = Some p" "m \<in> set (concat (map messages (pages p)))"
    by (cases "as_pages d") auto
  from p(1) have "d = Some (PagesData p)" by (cases d rule: as_pages.cases) auto
  with kd(1) p(2) m(1) show ?thesis by (auto simp: queries_data allMessages_def)
qed

text \<open>The events of reactions do not reach the cache of a thread.\<close>

lemma reaction_events_skip_threads:
  "getQueryData ops (handleReactionAdded ops c r) (threadKeys_detail t) = getQueryData ops c (threadKeys_detail t)"
  "getQueryData ops (handleReactionRemoved ops c d) (threadKeys_detail t) = getQueryData ops c (threadKeys_detail t)"
  by (simp_all add: handleReactionAdded_def handleReactionRemoved_def messageKeys_all_def threadKeys_detail_def)

end

lemma render_keeps:
  "parentMessage ops c fetched (tp_messageId s) \<noteq> None \<Longrightarrow> tp_localReactions s = Some rs \<Longrightarrow>
     renderPanel ops c fetched s = s"
  by (auto simp: renderPanel_def)

section \<open>Properties\<close>

text \<open>The reactions the thread panel shows of a parent message are those of the message for which it was
  opened: they change neither with the events that add or remove a reaction, nor when the panel
  turns to another thread whose parent is at hand - it then shows the reactions of the previous
  one. The reactions of the replies do not follow the events either.\<close>

theorem thread_panel_keeps_reactions:
  assumes "query_client ops" "tp_localReactions s = Some rs"
    and "parentMessage ops (handleReactionAdded ops c r) fetched other \<noteq> None"
    and "parentMessage ops (handleReactionRemoved ops c d) fetched other \<noteq> None"
  shows "tp_localReactions (renderPanel ops (handleReactionAdded ops c r) fetched (showThread other s)) = Some rs \<and>
    tp_localReactions (renderPanel ops (handleReactionRemoved ops c d) fetched (showThread other s)) = Some rs \<and>
    getQueryData ops (handleReactionAdded ops c r) (threadKeys_detail t) = getQueryData ops c (threadKeys_detail t) \<and>
    getQueryData ops (handleReactionRemoved ops c d) (threadKeys_detail t) = getQueryData ops c (threadKeys_detail t)"
  using assms(2-4) by (simp add: query_client.reaction_events_skip_threads [OF assms(1)] render_keeps showThread_def)

theorem thread_panel_keeps_reactions_witness:
  "tp_localReactions (renderPanel store_ops
      (handleReactionAdded store_ops (sample_store [sample_message (js ''A'') (js ''you'') None 0] [])
        (tempReaction (js ''t'') (js ''A'') (js ''you'') (js '':x:'')))
      (Some (sample_message (js ''A'') (js ''you'') None 0)) (showThread (js ''A'') \<lparr>tp_messageId = js ''B'', tp_localReactions = Some []\<rparr>)) = Some []"
proof -
  have "parentMessage store_ops c (Some m) (js ''A'') \<noteq> None" for c m
    by (simp add: parentMessage_def split: option.split)
  from thread_panel_keeps_reactions [OF store.query_client_axioms _ this this] show ?thesis by simp
qed

end
