(* ===== verification/WebShell.thy ===== *)
theory WebShell
  imports ApiTypes Machines Complex_Main
begin

text \<open>
  The shell of the web app: the panels, which live in the search parameters of the URL
  (\<open>apps/web/src/hooks/usePanel.ts\<close>, \<open>useMobileNav.ts\<close>), settings kept in the local storage
  (\<open>useLocalStorage.ts\<close>, \<open>useDarkMode.ts\<close>, \<open>useSidebar.ts\<close>, \<open>useResizableWidth.ts\<close>), and the title of the
  page (\<open>usePageTitle.ts\<close>).
\<close>

section \<open>Search parameters\<close>

text \<open>A \<open>URLSearchParams\<close> object: its pairs in order.\<close>

type_synonym search_params = "(jsstring \<times> jsstring) list"

definition params_get :: "search_params \<Rightarrow> jsstring \<Rightarrow> jsstring option" where
  "params_get ps k = map_of ps k"

definition params_has :: "search_params \<Rightarrow> jsstring \<Rightarrow> bool" where
  "params_has ps k = (k \<in> fst ` set ps)"

definition params_delete :: "jsstring \<Rightarrow> search_params \<Rightarrow> search_params" where
  "params_delete k ps = filter (\<lambda>p. fst p \<noteq> k) ps"

text \<open>\<open>set\<close>: the first pair of the name gets the value, the others are deleted; or a pair is appended.\<close>

fun params_set :: "jsstring \<Rightarrow> jsstring \<Rightarrow> search_params \<Rightarrow> search_params" where
  "params_set k v [] = [(k, v)]"
| "params_set k v (p # ps) = (if fst p = k then (k, v) # params_delete k ps else p # params_set k v ps)"

lemma params_simps [simp]:
  "params_has [] k = False" "params_has (p # ps) k = (k = fst p \<or> params_has ps k)"
  "params_get [] k = None" "params_get (p # ps) k = (if k = fst p then Some (snd p) else params_get ps k)"
  by (cases p; auto simp: params_has_def params_get_def)+

lemma has_delete [simp]: "params_has (params_delete k ps) k' \<longleftrightarrow> k' \<noteq> k \<and> params_has ps k'"
  by (induction ps) (auto simp: params_delete_def)

lemma get_delete [simp]: "params_get (params_delete k ps) k' = (if k' = k then None else params_get ps k')"
  by (induction ps) (auto simp: params_delete_def)

lemma has_set [simp]: "params_has (params_set k v ps) k' \<longleftrightarrow> k' = k \<or> params_has ps k'"
  by (induction ps) auto

lemma get_set_params [simp]: "params_get (params_set k v ps) k' = (if k' = k then Some v else params_get ps k')"
  by (induction ps) auto

lemma has_get: "params_has ps k \<longleftrightarrow> params_get ps k \<noteq> None"
  by (induction ps) auto

section \<open>Panels\<close>

definition openThread :: "jsstring \<Rightarrow> search_params \<Rightarrow> search_params" where
  "openThread i prev = params_delete (js ''profile'') (params_set (js ''thread'') i prev)"

definition closeThread :: "search_params \<Rightarrow> search_params" where
  "closeThread prev = params_delete (js ''thread'') prev"

definition openProfile :: "jsstring \<Rightarrow> search_params \<Rightarrow> search_params" where
  "openProfile userId prev = params_delete (js ''thread'') (params_set (js ''profile'') userId prev)"

definition closeProfile :: "search_params \<Rightarrow> search_params" where
  "closeProfile prev = params_delete (js ''profile'') prev"

definition openSwitcher :: "search_params \<Rightarrow> search_params" where
  "openSwitcher prev = params_delete (js ''profile'') (params_delete (js ''thread'') (params_set (js ''switcher'') [] prev))"

definition threadId :: "search_params \<Rightarrow> jsstring option" where
  "threadId ps = params_get ps (js ''thread'')"

definition profileUserId :: "search_params \<Rightarrow> jsstring option" where
  "profileUserId ps = params_get ps (js ''profile'')"

text \<open>\<open>/\/workspaces\/[^/]+\/(unreads|threads|scheduled)$/\<close>, by the segments between the slashes.\<close>

definition isContentPage :: "jsstring \<Rightarrow> bool" where
  "isContentPage pathname =
     (case rev (split_on (ch CHR ''/'') pathname) of
        page # w # ws # _ # _ \<Rightarrow> ws = js ''workspaces'' \<and> w \<noteq> [] \<and>
          page \<in> {js ''unreads'', js ''threads'', js ''scheduled''}
      | _ \<Rightarrow> False)"

datatype mobile_panel = SwitcherPanel | SidebarPanel | ChannelPanel | ThreadPanel | ProfilePanel

definition activePanel :: "jsstring option \<Rightarrow> jsstring \<Rightarrow> search_params \<Rightarrow> mobile_panel" where
  "activePanel channelId pathname ps =
     (if params_has ps (js ''switcher'') then SwitcherPanel
      else if params_has ps (js ''thread'') then ThreadPanel
      else if params_has ps (js ''profile'') then ProfilePanel
      else if truthy channelId \<or> isContentPage pathname then ChannelPanel
      else SidebarPanel)"

text \<open>
  The entries of the browser's history at the page, the current one first. \<open>setSearchParams\<close>
  replaces the current entry, but on a small screen it adds one, so that the back button closes a panel.
\<close>

type_synonym browser = "search_params list"

definition setSearchParams :: "bool \<Rightarrow> (search_params \<Rightarrow> search_params) \<Rightarrow> browser \<Rightarrow> browser" where
  "setSearchParams isMobile f b =
     (case b of [] \<Rightarrow> [] | prev # rest \<Rightarrow> if isMobile then f prev # prev # rest else f prev # rest)"

inductive panel_step :: "browser \<Rightarrow> browser \<Rightarrow> bool" where
  open_thread: "panel_step b (setSearchParams isMobile (openThread i) b)"
| close_thread: "panel_step b (setSearchParams isMobile closeThread b)"
| open_profile: "panel_step b (setSearchParams isMobile (openProfile i) b)"
| close_profile: "panel_step b (setSearchParams isMobile closeProfile b)"
| open_switcher: "panel_step b (setSearchParams isMobile openSwitcher b)"
| go_back: "panel_step (p # q # b) (q # b)"

definition one_panel :: "search_params \<Rightarrow> bool" where
  "one_panel ps \<longleftrightarrow> \<not> (params_has ps (js ''thread'') \<and> params_has ps (js ''profile''))"

lemmas panel_defs = openThread_def closeThread_def openProfile_def closeProfile_def openSwitcher_def one_panel_def

lemma panel_ops_one:
  "one_panel (openThread i ps)" "one_panel (openProfile i ps)" "one_panel (openSwitcher ps)"
  "one_panel ps \<Longrightarrow> one_panel (closeThread ps)" "one_panel ps \<Longrightarrow> one_panel (closeProfile ps)"
  by (simp_all add: panel_defs)

lemma setSearchParams_all:
  "list_all P b \<Longrightarrow> (\<And>ps. P ps \<Longrightarrow> P (f ps)) \<Longrightarrow> list_all P (setSearchParams isMobile f b)"
  by (cases b) (auto simp: setSearchParams_def)

lemma panel_step_one: "panel_step b b' \<Longrightarrow> list_all one_panel b \<Longrightarrow> list_all one_panel b'"
  by (induction rule: panel_step.induct) (auto intro!: setSearchParams_all panel_ops_one)

interpretation panels: machine panel_step "\<lambda>b. \<exists>ps. b = [ps] \<and> one_panel ps" "list_all one_panel"
  by unfold_locales (auto intro: panel_step_one)

section \<open>Settings in the local storage\<close>

text \<open>
  \<open>useLocalStorage\<close>: the state of the hook is the value; \<open>parse\<close> and \<open>stringify\<close> are those of \<open>JSON\<close>
  (\<open>None\<close> when \<open>parse\<close> throws). The storage itself may refuse to be written (\<open>quota\<close>).
\<close>

type_synonym local_storage = "jsstring \<rightharpoonup> jsstring"

definition storedValue :: "(jsstring \<Rightarrow> 'v option) \<Rightarrow> jsstring \<Rightarrow> 'v \<Rightarrow> local_storage \<Rightarrow> 'v" where
  "storedValue parse key defaultValue storage =
     (case storage key of
        None \<Rightarrow> defaultValue
      | Some stored \<Rightarrow> (case parse stored of None \<Rightarrow> defaultValue | Some v \<Rightarrow> v))"

definition persistValue :: "('v \<Rightarrow> jsstring) \<Rightarrow> bool \<Rightarrow> jsstring \<Rightarrow> 'v \<Rightarrow> local_storage \<Rightarrow> local_storage" where
  "persistValue stringify quota key v storage = (if quota then storage else storage(key \<mapsto> stringify v))"

definition handleStorage :: "(jsstring \<Rightarrow> 'v option) \<Rightarrow> jsstring \<Rightarrow> jsstring \<Rightarrow> jsstring option \<Rightarrow> 'v \<Rightarrow> 'v" where
  "handleStorage parse key eventKey newValue v =
     (case newValue of
        Some new \<Rightarrow> if eventKey = key then (case parse new of Some w \<Rightarrow> w | None \<Rightarrow> v) else v
      | None \<Rightarrow> v)"

text \<open>A setting survives a restart, and another tab follows it.\<close>

lemma setting_survives:
  assumes "\<And>v. parse (stringify v) = Some v"
  shows "storedValue parse key d (persistValue stringify False key v storage) = v"
    "handleStorage parse key key (persistValue stringify False key v storage key) w = v"
  using assms by (simp_all add: storedValue_def persistValue_def handleStorage_def)

subsection \<open>Dark mode\<close>

datatype theme_mode = SystemMode | LightMode | DarkMode

definition themeMode :: "bool option \<Rightarrow> theme_mode" where
  "themeMode preference = (case preference of None \<Rightarrow> SystemMode | Some dark \<Rightarrow> if dark then DarkMode else LightMode)"

definition isDark :: "bool \<Rightarrow> bool option \<Rightarrow> bool" where
  "isDark systemDark preference = (case preference of Some dark \<Rightarrow> dark | None \<Rightarrow> systemDark)"

definition toggleDark :: "bool \<Rightarrow> bool option \<Rightarrow> bool option" where
  "toggleDark systemDark prev = Some (\<not> isDark systemDark prev)"

definition setDarkMode :: "bool \<Rightarrow> bool option \<Rightarrow> bool option" where
  "setDarkMode dark prev = Some dark"

fun setMode :: "theme_mode \<Rightarrow> bool option \<Rightarrow> bool option" where
  "setMode SystemMode prev = None"
| "setMode LightMode prev = Some False"
| "setMode DarkMode prev = Some True"

text \<open>The class of the document, after an effect and after a change of the system's preference.\<close>

definition onSystemChange :: "bool \<Rightarrow> bool option \<Rightarrow> bool \<Rightarrow> bool" where
  "onSystemChange systemDark preference documentDark = (if preference \<noteq> None then documentDark else systemDark)"

lemma theme_laws:
  "themeMode (setMode m prev) = m" "isDark sys (toggleDark sys prev) \<longleftrightarrow> \<not> isDark sys prev"
  "onSystemChange sys pref (isDark old pref) = isDark sys pref"
  by (cases m; simp add: themeMode_def)
    (auto simp: isDark_def toggleDark_def onSystemChange_def split: option.splits)

subsection \<open>The collapsed sidebar\<close>

definition toggleSidebar :: "bool \<Rightarrow> bool" where
  "toggleSidebar prev = (\<not> prev)"

subsection \<open>Resizable panels\<close>

definition clampWidth :: "real \<Rightarrow> real \<Rightarrow> real \<Rightarrow> real" where
  "clampWidth lo hi n = max lo (min hi n)"

text \<open>\<open>number\<close> is \<open>Number\<close>, with \<open>None\<close> for what is not finite; an empty item counts as absent.\<close>

definition initialWidth ::
    "(jsstring \<Rightarrow> real option) \<Rightarrow> jsstring \<Rightarrow> real \<Rightarrow> real \<Rightarrow> real \<Rightarrow> local_storage \<Rightarrow> real" where
  "initialWidth number key defaultWidth lo hi storage =
     (case storage key of
        None \<Rightarrow> defaultWidth
      | Some stored \<Rightarrow>
          if stored = [] then defaultWidth
          else (case number stored of None \<Rightarrow> defaultWidth | Some n \<Rightarrow> clampWidth lo hi n))"

record resizer =
  rz_width :: real
  rz_startX :: real
  rz_startWidth :: real
  rz_dragging :: bool
  rz_saved :: "real option"

definition onPointerDown :: "real \<Rightarrow> resizer \<Rightarrow> resizer" where
  "onPointerDown clientX s = s\<lparr>rz_startX := clientX, rz_startWidth := rz_width s, rz_dragging := True\<rparr>"

text \<open>The frame of a pointer move; \<open>dividerRight\<close> is \<open>dividerSide === 'right'\<close>.\<close>

definition onPointerMove :: "real \<Rightarrow> real \<Rightarrow> bool \<Rightarrow> real \<Rightarrow> resizer \<Rightarrow> resizer" where
  "onPointerMove lo hi dividerRight clientX s =
     (if rz_dragging s
      then s\<lparr>rz_width := clampWidth lo hi (rz_startWidth s + (clientX - rz_startX s) * (if dividerRight then 1 else - 1))\<rparr>
      else s)"

definition onPointerUp :: "resizer \<Rightarrow> resizer" where
  "onPointerUp s = (if rz_dragging s then s\<lparr>rz_dragging := False, rz_saved := Some (rz_width s)\<rparr> else s)"

definition width_ok :: "real \<Rightarrow> real \<Rightarrow> resizer \<Rightarrow> bool" where
  "width_ok lo hi s \<longleftrightarrow> lo \<le> rz_width s \<and> rz_width s \<le> hi \<and>
     (case rz_saved s of None \<Rightarrow> True | Some w \<Rightarrow> lo \<le> w \<and> w \<le> hi)"

inductive resize_step :: "real \<Rightarrow> real \<Rightarrow> bool \<Rightarrow> resizer \<Rightarrow> resizer \<Rightarrow> bool" for lo hi side where
  pointer_down: "resize_step lo hi side s (onPointerDown x s)"
| pointer_move: "resize_step lo hi side s (onPointerMove lo hi side x s)"
| pointer_up: "resize_step lo hi side s (onPointerUp s)"

lemma clamp_bounds: "lo \<le> hi \<Longrightarrow> lo \<le> clampWidth lo hi n \<and> clampWidth lo hi n \<le> hi"
  by (simp add: clampWidth_def)

lemma initial_in_bounds:
  "lo \<le> defaultWidth \<Longrightarrow> defaultWidth \<le> hi \<Longrightarrow>
     lo \<le> initialWidth number key defaultWidth lo hi storage \<and> initialWidth number key defaultWidth lo hi storage \<le> hi"
  by (auto simp: initialWidth_def clampWidth_def split: option.split)

definition resize_start :: "real \<Rightarrow> real \<Rightarrow> resizer \<Rightarrow> bool" where
  "resize_start lo hi s \<longleftrightarrow> lo \<le> rz_width s \<and> rz_width s \<le> hi \<and> rz_saved s = None"

lemma resize_ok: "resize_step lo hi side s t \<Longrightarrow> lo \<le> hi \<Longrightarrow> width_ok lo hi s \<Longrightarrow> width_ok lo hi t"
  by (induction rule: resize_step.induct)
    (auto simp: width_ok_def onPointerDown_def onPointerMove_def onPointerUp_def clamp_bounds split: option.splits)

lemma resize_started: "resize_start lo hi s \<Longrightarrow> width_ok lo hi s"
  by (simp add: resize_start_def width_ok_def)

text \<open>The two panels of \<open>AppLayout.tsx\<close>.\<close>

interpretation sidebar_width: machine "resize_step 180 400 True" "resize_start 180 400" "width_ok 180 400"
  by unfold_locales (auto intro: resize_started resize_ok [rotated 2])

interpretation right_panel_width: machine "resize_step 300 600 False" "resize_start 300 600" "width_ok 300 600"
  by unfold_locales (auto intro: resize_started resize_ok [rotated 2])

section \<open>The title of the page\<close>

definition APP_NAME :: jsstring where
  "APP_NAME = js ''Enzyme''"

definition optionalPart :: "jsstring option \<Rightarrow> jsstring list" where
  "optionalPart p = (case p of Some s \<Rightarrow> if s = [] then [] else [s] | None \<Rightarrow> [])"

definition documentTitle ::
    "jsstring option \<Rightarrow> jsstring option \<Rightarrow> workspace_summary list option \<Rightarrow> channel_with_membership list option \<Rightarrow> jsstring" where
  "documentTitle pageTitle workspaceId wss chans =
     (let workspaceName = map_option ws_name (find (\<lambda>ws. Some (ws_id ws) = workspaceId) (or_empty wss));
          totalNotifications = (if truthy workspaceId
            then foldl (\<lambda>sum c. sum + ch_notification_count c) 0 (or_empty chans) else 0)
      in if truthy workspaceId
         then let notifPrefix = (if totalNotifications > 0
                then js ''('' @ js_nat (nat totalNotifications) @ js '') '' else []);
                parts = optionalPart pageTitle @ optionalPart workspaceName
              in if length parts > 0 then notifPrefix @ join (js '' - '') parts else APP_NAME
         else join (js '' - '') (optionalPart pageTitle @ [APP_NAME]))"

section \<open>Properties\<close>

text \<open>However the user opens and closes threads, profiles and the workspace switcher and goes back, a URL
  never names a thread and a profile at once; opening a thread or a profile shows exactly it, opening
  the switcher on a small screen shows the switcher, and there the back button returns to what was shown.\<close>

theorem panels_exclusive:
  assumes "reachable panel_step (\<lambda>b. \<exists>ps. b = [ps] \<and> one_panel ps) b" "b = ps # rest"
  shows "list_all (\<lambda>ps. threadId ps = None \<or> profileUserId ps = None) b \<and>
    threadId (hd (setSearchParams m (openThread i) b)) = Some i \<and>
    profileUserId (hd (setSearchParams m (openThread i) b)) = None \<and>
    profileUserId (hd (setSearchParams m (openProfile i) b)) = Some i \<and>
    threadId (hd (setSearchParams m (openProfile i) b)) = None \<and>
    activePanel chan path (hd (setSearchParams m openSwitcher b)) = SwitcherPanel \<and>
    (\<forall>f. panel_step (setSearchParams True f b) b)"
proof -
  from panels.always [OF assms(1)] have "list_all one_panel b" .
  then have "list_all (\<lambda>ps. threadId ps = None \<or> profileUserId ps = None) b"
    by (rule list.pred_mono_strong) (auto simp: one_panel_def threadId_def profileUserId_def has_get)
  then show ?thesis
    using assms(2) by (auto simp: setSearchParams_def panel_defs threadId_def profileUserId_def activePanel_def
      intro: panel_step.go_back)
qed

theorem panels_exclusive_witness:
  "list_all (\<lambda>ps. threadId ps = None \<or> profileUserId ps = None) [openThread (js ''M'') []]"
proof -
  have "reachable panel_step (\<lambda>b. \<exists>ps. b = [ps] \<and> one_panel ps) [[]]"
    by (rule reachable_start) (simp add: one_panel_def)
  from reachable_step [OF this open_thread [of _ False]]
  have "reachable panel_step (\<lambda>b. \<exists>ps. b = [ps] \<and> one_panel ps) [openThread (js ''M'') []]"
    by (simp add: setSearchParams_def)
  from panels_exclusive [OF this refl] show ?thesis by blast
qed

end
