(* ===== verification/MobileApp.thy ===== *)
theory MobileApp
  imports SignedUrlCache Samples
begin

text \<open>
  The life cycle of the mobile app: foreground and background (\<open>apps/mobile/src/hooks/useAppState.ts\<close>,
  \<open>useSSELifecycle.ts\<close>), taps on notifications (\<open>useNotificationHandler.ts\<close>,
  \<open>navigation/navigationRef.ts\<close>), the push token (\<open>lib/notifications.ts\<close>, \<open>usePushNotifications.ts\<close>),
  downloads (\<open>lib/fileDownload.ts\<close>, \<open>attachmentUtils.ts\<close>), and the warming of the URL cache
  (\<open>usePrewarmSignedUrls.ts\<close>, also on the web).
\<close>

section \<open>Foreground and background\<close>

datatype app_status = ActiveStatus | InactiveStatus | BackgroundStatus | OtherStatus

datatype app_callback = OnForeground | OnBackground

text \<open>The listener: the callback it calls; it then remembers \<open>next\<close>.\<close>

definition stateChange :: "app_status \<Rightarrow> app_status \<Rightarrow> app_callback option" where
  "stateChange previous next_s =
     (let wasBackground = previous = BackgroundStatus \<or> previous = InactiveStatus;
          isActive = next_s = ActiveStatus;
          wasActive = previous = ActiveStatus;
          isBackground = next_s = BackgroundStatus \<or> next_s = InactiveStatus
      in if wasBackground \<and> isActive then Some OnForeground
         else if wasActive \<and> isBackground then Some OnBackground
         else None)"

text \<open>\<open>useSSELifecycle\<close>: \<open>lc_resumes\<close> counts the invalidations of the channels and unreads.\<close>

record lifecycle =
  lc_previous :: app_status
  lc_isActive :: bool
  lc_resumes :: nat

definition new_lifecycle :: "app_status \<Rightarrow> lifecycle" where
  "new_lifecycle current = \<lparr>lc_previous = current, lc_isActive = True, lc_resumes = 0\<rparr>"

definition onAppState :: "jsstring option \<Rightarrow> app_status \<Rightarrow> lifecycle \<Rightarrow> lifecycle" where
  "onAppState workspaceId next_s s =
     (let s1 = (case stateChange (lc_previous s) next_s of
          Some OnForeground \<Rightarrow> s\<lparr>lc_isActive := True,
            lc_resumes := (if truthy workspaceId then lc_resumes s + 1 else lc_resumes s)\<rparr>
        | Some OnBackground \<Rightarrow> s\<lparr>lc_isActive := False\<rparr>
        | None \<Rightarrow> s)
      in s1\<lparr>lc_previous := next_s\<rparr>)"

text \<open>The workspace whose events are received, \<open>None\<close> for \<open>undefined\<close>.\<close>

definition effectiveId :: "jsstring option \<Rightarrow> lifecycle \<Rightarrow> jsstring option" where
  "effectiveId workspaceId s = (if lc_isActive s then workspaceId else None)"

lemma lifecycle_follows:
  "lc_isActive s = (lc_previous s = ActiveStatus) \<Longrightarrow> OtherStatus \<notin> set changes \<Longrightarrow> lc_previous s \<noteq> OtherStatus \<Longrightarrow>
     lc_isActive (fold (onAppState w) changes s) = (lc_previous (fold (onAppState w) changes s) = ActiveStatus) \<and>
     lc_previous (fold (onAppState w) changes s) = last (lc_previous s # changes)"
proof (induction changes arbitrary: s)
  case (Cons c changes)
  have step: "lc_isActive (onAppState w c s) = (c = ActiveStatus)" "lc_previous (onAppState w c s) = c"
    using Cons.prems
    by (cases "lc_previous s"; cases c; simp add: onAppState_def stateChange_def)+
  with Cons.prems Cons.IH [of "onAppState w c s"] show ?case by auto
qed simp

section \<open>Navigation from notifications\<close>

datatype screen = ChannelScreen jsstring jsstring jsstring | ThreadScreen jsstring jsstring jsstring

text \<open>What the data of a notification holds under a name, if it is a string.\<close>

type_synonym tap_data = "jsstring \<rightharpoonup> jsstring"

definition handleNotificationTap :: "tap_data option \<Rightarrow> screen option" where
  "handleNotificationTap dat =
     (case dat of None \<Rightarrow> None
      | Some d \<Rightarrow>
          let workspaceId = d (js ''workspace_id''); channelId = d (js ''channel_id'');
              channelName = (case d (js ''channel_name'') of Some n \<Rightarrow> n | None \<Rightarrow> []);
              threadParentId = d (js ''thread_parent_id'')
          in if \<not> truthy workspaceId \<or> \<not> truthy channelId then None
             else if truthy threadParentId then Some (ThreadScreen (the workspaceId) (the channelId) (the threadParentId))
             else Some (ChannelScreen (the workspaceId) (the channelId) channelName))"

datatype route = SwitcherRoute | ChannelListRoute jsstring | TargetRoute screen

fun screenWorkspace :: "screen \<Rightarrow> jsstring" where
  "screenWorkspace (ChannelScreen w c n) = w"
| "screenWorkspace (ThreadScreen w c p) = w"

text \<open>The routes \<open>resetToScreen\<close> dispatches, the last one on top.\<close>

definition resetRoutes :: "screen \<Rightarrow> route list" where
  "resetRoutes s = [SwitcherRoute, ChannelListRoute (screenWorkspace s), TargetRoute s]"

record navigator =
  nv_ready :: bool
  nv_pending :: "screen option"
  nv_dispatched :: "route list list"

definition deferredNavigate :: "screen \<Rightarrow> navigator \<Rightarrow> navigator" where
  "deferredNavigate s n =
     (if nv_ready n then n\<lparr>nv_dispatched := nv_dispatched n @ [resetRoutes s]\<rparr>
      else n\<lparr>nv_pending := Some s\<rparr>)"

definition flushPendingNavigation :: "navigator \<Rightarrow> navigator" where
  "flushPendingNavigation n =
     (case nv_pending n of
        Some s \<Rightarrow> if nv_ready n then n\<lparr>nv_dispatched := nv_dispatched n @ [resetRoutes s], nv_pending := None\<rparr> else n
      | None \<Rightarrow> n)"

text \<open>\<open>onReady\<close> of the navigation container.\<close>

definition navigatorReady :: "navigator \<Rightarrow> navigator" where
  "navigatorReady n = flushPendingNavigation (n\<lparr>nv_ready := True\<rparr>)"

lemma deferred_before: "\<not> nv_ready n \<Longrightarrow> taps \<noteq> [] \<Longrightarrow>
    fold deferredNavigate taps n = n\<lparr>nv_pending := Some (last taps)\<rparr>"
  by (induction taps arbitrary: n) (auto simp: deferredNavigate_def)

lemma deferred_after: "nv_ready n \<Longrightarrow>
    fold deferredNavigate taps n = n\<lparr>nv_dispatched := nv_dispatched n @ map resetRoutes taps\<rparr>"
  by (induction taps arbitrary: n) (auto simp: deferredNavigate_def)

text \<open>Cold start: a response is handled once, however often the component is mounted.\<close>

definition coldStart :: "(jsstring \<times> tap_data option) option \<Rightarrow> bool \<Rightarrow> jsstring option \<Rightarrow> jsstring option \<times> screen option" where
  "coldStart response cancelled lastHandled =
     (case response of
        None \<Rightarrow> (lastHandled, None)
      | Some (i, dat) \<Rightarrow>
          if cancelled then (lastHandled, None)
          else if lastHandled = Some i then (lastHandled, None)
          else (Some i, handleNotificationTap dat))"

lemma cold_start_once:
  "snd (coldStart response c (fst (coldStart response False h))) = None"
  by (auto simp: coldStart_def split: option.split)

section \<open>The push token\<close>

datatype push_platform = Apns | Fcm

text \<open>
  The secure store's two items and the registrations the server is asked for. \<open>fresh\<close> is what
  \<open>crypto.randomUUID()\<close> returns.
\<close>

record push_state =
  ps_deviceId :: "jsstring option"
  ps_tokenId :: "jsstring option"
  ps_requests :: "(jsstring \<times> push_platform \<times> jsstring) list"
  ps_unregistered :: "jsstring list"

definition getDeviceId :: "jsstring \<Rightarrow> push_state \<Rightarrow> jsstring \<times> push_state" where
  "getDeviceId fresh s =
     (if truthy (ps_deviceId s) then (the (ps_deviceId s), s)
      else (fresh, s\<lparr>ps_deviceId := Some fresh\<rparr>))"

text \<open>\<open>answer\<close> is the id of the server's response, \<open>None\<close> when the request fails.\<close>

definition registerPushTokenWithValue ::
    "bool \<Rightarrow> bool \<Rightarrow> push_platform option \<Rightarrow> jsstring \<Rightarrow> jsstring option \<Rightarrow> jsstring \<Rightarrow> push_state \<Rightarrow> push_state" where
  "registerPushTokenWithValue loggedIn isDevice os fresh answer token s =
     (if \<not> loggedIn \<or> \<not> isDevice then s
      else let (deviceId, s1) = getDeviceId fresh s
        in case os of
             None \<Rightarrow> s1
           | Some platform \<Rightarrow>
               let s2 = s1\<lparr>ps_requests := ps_requests s1 @ [(token, platform, deviceId)]\<rparr>
               in (case answer of None \<Rightarrow> s2 | Some i \<Rightarrow> s2\<lparr>ps_tokenId := Some i\<rparr>))"

text \<open>\<open>token\<close> is the device's push token, \<open>None\<close> when it cannot be read or is no string.\<close>

definition registerPushToken ::
    "bool \<Rightarrow> bool \<Rightarrow> push_platform option \<Rightarrow> jsstring \<Rightarrow> jsstring option \<Rightarrow> jsstring option \<Rightarrow> push_state \<Rightarrow> push_state" where
  "registerPushToken loggedIn isDevice os fresh answer token s =
     (if \<not> loggedIn \<or> \<not> isDevice then s
      else (case token of None \<Rightarrow> s
        | Some t \<Rightarrow> registerPushTokenWithValue loggedIn isDevice os fresh answer t s))"

definition unregisterPushToken :: "push_state \<Rightarrow> push_state" where
  "unregisterPushToken s =
     (if \<not> truthy (ps_tokenId s) then s
      else s\<lparr>ps_unregistered := ps_unregistered s @ [the (ps_tokenId s)], ps_tokenId := None\<rparr>)"

lemma device_id_stable:
  "truthy (ps_deviceId s) \<Longrightarrow>
     ps_deviceId (registerPushTokenWithValue loggedIn isDevice os fresh answer token s) = ps_deviceId s"
  by (auto simp: registerPushTokenWithValue_def getDeviceId_def Let_def split: option.split)

section \<open>Files\<close>

text \<open>\<open>filename.split(/[/\\]/).pop()\<close>\<close>

definition slashes :: "code_unit \<Rightarrow> bool" where
  "slashes c = (c = ch CHR ''/'' \<or> c = ch (CHR 0x5C))"

definition lastSegment :: "jsstring \<Rightarrow> jsstring" where
  "lastSegment s = rev (takeWhile (\<lambda>c. \<not> slashes c) (rev s))"

definition safeFilename :: "jsstring \<Rightarrow> jsstring" where
  "safeFilename filename =
     (let base = or_else (Some (lastSegment filename)) (js ''download'')
      in or_else (Some (filter (\<lambda>c. c \<noteq> 0) base)) (js ''download''))"

definition localUri :: "jsstring \<Rightarrow> jsstring \<Rightarrow> jsstring \<Rightarrow> jsstring" where
  "localUri cacheDirectory fileId filename = cacheDirectory @ fileId @ js ''_'' @ safeFilename filename"

definition isImageType :: "jsstring \<Rightarrow> bool" where
  "isImageType contentType = startsWith contentType (js ''image/'')"

text \<open>\<open>toFixed1\<close> prints a number with one digit after the point.\<close>

definition formatFileSize :: "(int \<Rightarrow> int \<Rightarrow> jsstring) \<Rightarrow> int \<Rightarrow> jsstring" where
  "formatFileSize toFixed1 bytes =
     (if bytes < 1024 then js_nat (nat bytes) @ js '' B''
      else if bytes < 1024 * 1024 then toFixed1 bytes 1024 @ js '' KB''
      else toFixed1 bytes (1024 * 1024) @ js '' MB'')"

section \<open>Warming the URL cache\<close>

definition attachmentIds :: "message_list_result list \<Rightarrow> jsstring list" where
  "attachmentIds pgs = map at_id (concat (map (\<lambda>m. or_empty (msg_attachments m)) (concat (map messages pgs))))"

fun collectIds :: "int \<Rightarrow> url_cache \<Rightarrow> jsstring set \<times> jsstring list \<Rightarrow> jsstring list \<Rightarrow> jsstring set \<times> jsstring list" where
  "collectIds now s acc [] = acc"
| "collectIds now s (seen, newIds) (i # is) =
     (if i \<notin> seen \<or> \<not> truthy (getCachedIfFresh now s i)
      then collectIds now s (insert i seen, newIds @ [i]) is
      else collectIds now s (seen, newIds) is)"

definition usePrewarmSignedUrls ::
    "int \<Rightarrow> message_list_result list option \<Rightarrow> jsstring set \<times> url_cache \<Rightarrow> jsstring set \<times> url_cache" where
  "usePrewarmSignedUrls now pgs st =
     (case pgs of None \<Rightarrow> st
      | Some ps \<Rightarrow>
          (case collectIds now (snd st) (fst st, []) (attachmentIds ps) of
             (seen, newIds) \<Rightarrow> (seen, if length newIds > 0 then getUrls now newIds (snd st) else snd st)))"

lemma collect_ids:
  "collectIds now s (seen, ids) is = (seen', ids') \<Longrightarrow>
     set ids \<subseteq> set ids' \<and> set ids' \<subseteq> set ids \<union> set is \<and>
     (\<forall>i \<in> set is. \<not> truthy (getCachedIfFresh now s i) \<longrightarrow> i \<in> set ids')"
  by (induction now s "(seen, ids)" "is" arbitrary: seen ids rule: collectIds.induct)
    (fastforce split: if_splits)+

section \<open>Properties\<close>

text \<open>An app that starts in the foreground receives events exactly while it is there, however it moves between
  the foreground, the inactive state and the background.\<close>

theorem app_state_followed:
  assumes "OtherStatus \<notin> set changes"
  shows "effectiveId w (fold (onAppState w) changes (new_lifecycle ActiveStatus)) =
    (if last (ActiveStatus # changes) = ActiveStatus then w else None)"
  using lifecycle_follows [of "new_lifecycle ActiveStatus" changes w] assms
  by (auto simp: effectiveId_def new_lifecycle_def)

theorem app_state_followed_witness:
  "effectiveId (Some (js ''W'')) (fold (onAppState (Some (js ''W'')))
     [InactiveStatus, BackgroundStatus, ActiveStatus] (new_lifecycle ActiveStatus)) = Some (js ''W'')"
  using app_state_followed [of "[InactiveStatus, BackgroundStatus, ActiveStatus]" "Some (js ''W'')"] by simp

text \<open>Of the notifications tapped before the navigator is ready only the last one is acted on, once, when it
  becomes ready; from then on every tap is acted on at once.\<close>

theorem last_tap_navigates:
  assumes "n = \<lparr>nv_ready = False, nv_pending = None, nv_dispatched = []\<rparr>"
  shows "nv_dispatched (fold deferredNavigate later (navigatorReady (fold deferredNavigate taps n))) =
      (if taps = [] then [] else [resetRoutes (last taps)]) @ map resetRoutes later \<and>
    nv_pending (fold deferredNavigate later (navigatorReady (fold deferredNavigate taps n))) = None"
proof (cases "taps = []")
  case True
  then show ?thesis using assms
    by (simp add: navigatorReady_def flushPendingNavigation_def deferred_after)
next
  case False
  then have "fold deferredNavigate taps n = n\<lparr>nv_pending := Some (last taps)\<rparr>"
    using assms by (intro deferred_before) simp_all
  with False assms show ?thesis
    by (simp add: navigatorReady_def flushPendingNavigation_def deferred_after)
qed

theorem last_tap_navigates_witness:
  "nv_dispatched (navigatorReady (fold deferredNavigate
     [ChannelScreen (js ''W'') (js ''C'') [], ThreadScreen (js ''W'') (js ''C'') (js ''M'')]
     \<lparr>nv_ready = False, nv_pending = None, nv_dispatched = []\<rparr>)) =
   [resetRoutes (ThreadScreen (js ''W'') (js ''C'') (js ''M''))]"
  using last_tap_navigates [OF refl, of "[]" "[ChannelScreen (js ''W'') (js ''C'') [], ThreadScreen (js ''W'') (js ''C'') (js ''M'')]"]
  by simp

text \<open>Whatever name the server gives a file, its local name is not empty and holds no slash, backslash or null,
  so the download stays in the cache directory.\<close>

theorem safe_filename:
  "safeFilename filename \<noteq> [] \<and> list_all (\<lambda>c. \<not> slashes c \<and> c \<noteq> 0) (safeFilename filename)"
proof -
  have last: "list_all (\<lambda>c. \<not> slashes c) (lastSegment filename)"
    unfolding lastSegment_def list_all_iff by (auto dest: set_takeWhileD)
  have download: "list_all (\<lambda>c. \<not> slashes c \<and> c \<noteq> 0) (js ''download'')"
    by (simp add: js_eval slashes_def)
  let ?base = "or_else (Some (lastSegment filename)) (js ''download'')"
  have "list_all (\<lambda>c. \<not> slashes c) ?base"
    using last download by (auto simp: or_else_def list_all_iff)
  then show ?thesis
    using download by (auto simp: safeFilename_def Let_def or_else_def list_all_iff)
qed

text \<open>When messages are shown, every attachment in them has a fresh URL, a fetch under way, or is in a batch
  that has been requested.\<close>

theorem attachments_prewarmed:
  assumes "i \<in> set (attachmentIds pgs)" "(seen', s') = usePrewarmSignedUrls now (Some pgs) (seen, s)"
  shows "truthy (getCachedIfFresh now s' i) \<or> uc_pending s' i \<noteq> None \<or> (\<exists>b \<in> set (uc_batches s'). i \<in> set b)"
proof -
  obtain seen2 ids where ids: "collectIds now s (seen, []) (attachmentIds pgs) = (seen2, ids)" by fastforce
  with assms(2) have s': "s' = (if length ids > 0 then getUrls now ids s else s)"
    by (simp add: usePrewarmSignedUrls_def)
  show ?thesis
  proof (cases "isStale now s i")
    case True
    then have "i \<in> set ids" using collect_ids [OF ids] assms(1) by (simp add: isStale_def)
    with True have "\<exists>b \<in> set (uc_batches s'). i \<in> set b"
      unfolding s' getUrls_def Let_def by (auto simp: filter_empty_conv)
    then show ?thesis by blast
  next
    case False
    then show ?thesis unfolding s' by (auto simp: getUrls_def isStale_def getCachedIfFresh_def Let_def)
  qed
qed

definition sample_file_page :: message_list_result where
  "sample_file_page = \<lparr>messages = [(sample_message (js ''A'') (js ''you'') None 0)\<lparr>msg_attachments :=
     Some [\<lparr>at_id = js ''F'', at_filename = js ''f'', at_content_type = js ''image/png'', at_size_bytes = 1,
       at_url = [], at_created_at = js ''t''\<rparr>]\<rparr>], has_more = False, has_newer = None, next_cursor = None\<rparr>"

theorem attachments_prewarmed_witness:
  "\<exists>b \<in> set (uc_batches (snd (usePrewarmSignedUrls 0 (Some [sample_file_page]) ({}, initial_urls)))). js ''F'' \<in> set b"
proof -
  have ids: "attachmentIds [sample_file_page] = [js ''F'']"
    by (simp add: attachmentIds_def sample_file_page_def)
  then have s': "usePrewarmSignedUrls 0 (Some [sample_file_page]) ({}, initial_urls) =
      ({js ''F''}, initial_urls\<lparr>uc_batches := [[js ''F'']]\<rparr>)"
    by (simp add: usePrewarmSignedUrls_def getUrls_def isStale_def getCachedIfFresh_def initial_urls_def)
  from attachments_prewarmed [of "js ''F''" "[sample_file_page]", OF _ s' [symmetric]] ids
  show ?thesis unfolding s' by (simp add: initial_urls_def getCachedIfFresh_def)
qed

end
