(* ===== verification/Composer.thy ===== *)
theory Composer
  imports MessageMutations Emoji Machines Samples
begin

text \<open>
  The message composer of the web app (\<open>apps/web/src/components/message/MessageComposer.tsx\<close>, with
  \<open>handleSubmit\<close> of \<open>editor/RichTextEditor.tsx\<close>): attachments and their uploads, the shortcut that
  reacts to a message, sending and scheduling. The state of the component and the results of its
  requests are steps; \<open>cp_sending\<close> holds what the pending \<open>handleSubmit\<close> has captured. Object URLs are
  what \<open>URL.createObjectURL\<close> returned; \<open>cp_created\<close> and \<open>cp_revoked\<close> are the host's view of them.
\<close>

section \<open>State\<close>

datatype upload_status = Uploading | Complete | UploadError

record pending_attachment =
  pa_id :: jsstring
  pa_previewUrl :: "jsstring option"
  pa_status :: upload_status
  pa_uploadedId :: "jsstring option"

record send_input =
  si_content :: "jsstring option"
  si_attachment_ids :: "jsstring list option"
  si_also_send_to_channel :: bool

record composer =
  cp_attachments :: "pending_attachment list"
  cp_alsoSend :: bool
  cp_sending :: "pending_attachment list option"
  cp_created :: "jsstring list"
  cp_revoked :: "jsstring list"
  cp_sent :: "send_input list"

definition new_composer :: composer where
  "new_composer = \<lparr>cp_attachments = [], cp_alsoSend = False, cp_sending = None, cp_created = [],
     cp_revoked = [], cp_sent = []\<rparr>"

definition MAX_FILE_SIZE :: int where
  "MAX_FILE_SIZE = 10 * 1024 * 1024"

definition ACCEPTED_IMAGE_TYPES :: "jsstring list" where
  "ACCEPTED_IMAGE_TYPES = [js ''image/png'', js ''image/jpeg'', js ''image/gif'', js ''image/webp'']"

section \<open>Attachments\<close>

text \<open>
  A selected file: the id and the object URL it would get, its size and its type. A new attachment is
  pending only until \<open>uploadAttachment\<close>, in the same callback, marks it as being uploaded.
\<close>

record selected_file =
  sf_id :: jsstring
  sf_url :: jsstring
  sf_size :: int
  sf_type :: jsstring

definition newAttachment :: "selected_file \<Rightarrow> pending_attachment" where
  "newAttachment f =
     \<lparr>pa_id = sf_id f, pa_previewUrl = (if sf_type f \<in> set ACCEPTED_IMAGE_TYPES then Some (sf_url f) else None),
      pa_status = Uploading, pa_uploadedId = None\<rparr>"

definition previews :: "pending_attachment list \<Rightarrow> jsstring list" where
  "previews as = List.map_filter pa_previewUrl as"

definition handleFilesSelected :: "selected_file list \<Rightarrow> composer \<Rightarrow> composer" where
  "handleFilesSelected files s =
     (let validFiles = filter (\<lambda>f. \<not> sf_size f > MAX_FILE_SIZE) files;
          newAttachments = map newAttachment validFiles
      in s\<lparr>cp_attachments := cp_attachments s @ newAttachments, cp_created := cp_created s @ previews newAttachments\<rparr>)"

definition uploadSucceeded :: "jsstring \<Rightarrow> jsstring \<Rightarrow> composer \<Rightarrow> composer" where
  "uploadSucceeded i fileId s =
     s\<lparr>cp_attachments := map (\<lambda>a. if pa_id a = i then a\<lparr>pa_status := Complete, pa_uploadedId := Some fileId\<rparr> else a)
       (cp_attachments s)\<rparr>"

definition uploadFailed :: "jsstring \<Rightarrow> composer \<Rightarrow> composer" where
  "uploadFailed i s =
     s\<lparr>cp_attachments := map (\<lambda>a. if pa_id a = i then a\<lparr>pa_status := UploadError\<rparr> else a) (cp_attachments s)\<rparr>"

definition removeAttachment :: "jsstring \<Rightarrow> composer \<Rightarrow> composer" where
  "removeAttachment i s =
     (let attachment = find (\<lambda>a. pa_id a = i) (cp_attachments s);
          revoked = (case Option.bind attachment pa_previewUrl of None \<Rightarrow> [] | Some url \<Rightarrow> [url])
      in s\<lparr>cp_attachments := filter (\<lambda>a. pa_id a \<noteq> i) (cp_attachments s), cp_revoked := cp_revoked s @ revoked\<rparr>)"

definition completedAttachmentIds :: "composer \<Rightarrow> jsstring list" where
  "completedAttachmentIds s =
     map (\<lambda>a. the (pa_uploadedId a)) (filter (\<lambda>a. pa_status a = Complete \<and> truthy (pa_uploadedId a)) (cp_attachments s))"

definition isUploading :: "composer \<Rightarrow> bool" where
  "isUploading s = list_ex (\<lambda>a. pa_status a = Uploading) (cp_attachments s)"

section \<open>The newest page\<close>

definition getNewestPage :: "'qc query_ops \<Rightarrow> 'qc \<Rightarrow> jsstring option \<Rightarrow> jsstring \<Rightarrow> message_with_user list" where
  "getNewestPage ops c parentMessageId channelId =
     (case pagesAt ops c (if truthy parentMessageId then threadKeys_detail (the parentMessageId) else messageKeys_list channelId) of
        None \<Rightarrow> []
      | Some p \<Rightarrow> (case pages p of [] \<Rightarrow> [] | page # _ \<Rightarrow> messages page))"

text \<open>The message \<open>handleUpArrow\<close> starts to edit.\<close>

definition handleUpArrow :: "jsstring option \<Rightarrow> message_with_user list \<Rightarrow> jsstring option" where
  "handleUpArrow userId newest =
     (if \<not> truthy userId then None
      else map_option msg_id (find (\<lambda>m. msg_user_id m = userId \<and> \<not> truthy (msg_deleted_at m)) newest))"

section \<open>Sending\<close>

text \<open>\<open>/^\+:([a-z0-9_+-]+):$/\<close>\<close>

definition shortcutChar :: "code_unit \<Rightarrow> bool" where
  "shortcutChar c =
     ((ch CHR ''a'' \<le> c \<and> c \<le> ch CHR ''z'') \<or> is_digit c \<or> c = ch CHR ''_'' \<or> c = ch CHR ''+'' \<or> c = ch CHR ''-'')"

definition reactionMatch :: "jsstring \<Rightarrow> jsstring option" where
  "reactionMatch s =
     (if startsWith s (js ''+:'') \<and> length s > 3 \<and> last s = ch CHR '':''
      then (let body = butlast (drop 2 s) in if list_all shortcutChar body then Some body else None)
      else None)"

text \<open>\<open>shortcode in EMOJI_MAP\<close>, which holds of inherited properties as well.\<close>

definition knownShortcode :: "emoji_category list \<Rightarrow> custom_emoji list \<Rightarrow> jsstring \<Rightarrow> bool" where
  "knownShortcode table customEmojis shortcode =
     (EMOJI_MAP table shortcode \<noteq> None \<or> shortcode \<in> set OBJECT_PROTOTYPE \<or>
      list_ex (\<lambda>e. em_name e = shortcode) customEmojis)"

datatype submit_result = SubmitReaction jsstring jsstring | SubmitSend send_input | SubmitNothing

definition shortcutTarget ::
    "emoji_category list \<Rightarrow> custom_emoji list \<Rightarrow> message_with_user list \<Rightarrow> jsstring \<Rightarrow> (jsstring \<times> jsstring) option" where
  "shortcutTarget table customEmojis newest content =
     (case reactionMatch (trim content) of
        None \<Rightarrow> None
      | Some shortcode \<Rightarrow>
          if knownShortcode table customEmojis shortcode
          then map_option (\<lambda>m. (msg_id m, js '':'' @ shortcode @ js '':''))
            (find (\<lambda>m. \<not> truthy (msg_deleted_at m)) newest)
          else None)"

definition handleSubmit ::
    "emoji_category list \<Rightarrow> custom_emoji list \<Rightarrow> message_with_user list \<Rightarrow> bool \<Rightarrow> jsstring \<Rightarrow> composer \<Rightarrow> submit_result" where
  "handleSubmit table customEmojis newest isThreadVariant content s =
     (let hasContent = trim content \<noteq> [];
          hasAttachments = length (completedAttachmentIds s) > 0;
          target = (if hasContent \<and> \<not> hasAttachments then shortcutTarget table customEmojis newest content else None)
      in case target of
           Some (mid, emoji) \<Rightarrow> SubmitReaction mid emoji
         | None \<Rightarrow>
             if (hasContent \<or> hasAttachments) \<and> cp_sending s = None \<and> \<not> isUploading s
             then SubmitSend \<lparr>si_content = (if hasContent then Some content else None),
               si_attachment_ids = (if hasAttachments then Some (completedAttachmentIds s) else None),
               si_also_send_to_channel = (isThreadVariant \<and> cp_alsoSend s)\<rparr>
             else SubmitNothing)"

definition sendStarted :: "send_input \<Rightarrow> composer \<Rightarrow> composer" where
  "sendStarted input s = s\<lparr>cp_sending := Some (cp_attachments s), cp_sent := cp_sent s @ [input]\<rparr>"

definition sendSucceeded :: "composer \<Rightarrow> composer" where
  "sendSucceeded s =
     (case cp_sending s of None \<Rightarrow> s
      | Some captured \<Rightarrow> s\<lparr>cp_revoked := cp_revoked s @ previews captured, cp_attachments := [],
          cp_alsoSend := False, cp_sending := None\<rparr>)"

definition sendFailed :: "composer \<Rightarrow> composer" where
  "sendFailed s = s\<lparr>cp_sending := None\<rparr>"

section \<open>Submitting the editor\<close>

text \<open>
  \<open>handleSubmit\<close> of the editor: what it hands to \<open>onSubmit\<close>. An empty document is not submitted. The
  editor is cleared as soon as \<open>onSubmit\<close> has been called, except where it edits a message (\<open>submitLabel\<close>).
\<close>

definition MAX_MESSAGE_LENGTH :: nat where
  "MAX_MESSAGE_LENGTH = 40000"

definition editorSubmit :: "bool \<Rightarrow> bool \<Rightarrow> bool \<Rightarrow> nat \<Rightarrow> jsstring \<Rightarrow> jsstring option" where
  "editorSubmit disabled isPending isEmpty contentLength mrkdwn =
     (if disabled \<or> isPending then None
      else if isEmpty then None
      else if contentLength > MAX_MESSAGE_LENGTH then None
      else if trim mrkdwn \<noteq> [] then Some (trim mrkdwn) else None)"

section \<open>Steps\<close>

text \<open>
  The composer while no file is selected between a send and its answer. The random ids of the
  attachments do not collide.
\<close>

inductive composer_step :: "composer \<Rightarrow> composer \<Rightarrow> bool" where
  select_files: "cp_sending s = None \<Longrightarrow> distinct (map pa_id (cp_attachments s) @ map sf_id files) \<Longrightarrow>
    composer_step s (handleFilesSelected files s)"
| upload_succeeds: "fileId \<noteq> [] \<Longrightarrow> composer_step s (uploadSucceeded i fileId s)"
| upload_fails: "composer_step s (uploadFailed i s)"
| remove: "composer_step s (removeAttachment i s)"
| also_send: "composer_step s (s\<lparr>cp_alsoSend := b\<rparr>)"
| submit: "handleSubmit table customs newest isThread content s = SubmitSend input \<Longrightarrow> composer_step s (sendStarted input s)"
| send_succeeds: "composer_step s (sendSucceeded s)"
| send_fails: "composer_step s (sendFailed s)"

definition uploads_ok :: "pending_attachment list \<Rightarrow> bool" where
  "uploads_ok as = list_all (\<lambda>a. pa_status a = Complete \<longrightarrow> truthy (pa_uploadedId a)) as"

text \<open>
  Every object URL is revoked or that of an attachment shown; what is shown during a send is among
  what the send has captured; a complete upload has its id.
\<close>

definition composer_ok :: "composer \<Rightarrow> bool" where
  "composer_ok s \<longleftrightarrow> distinct (map pa_id (cp_attachments s)) \<and>
     set (cp_created s) \<subseteq> set (cp_revoked s) \<union> set (previews (cp_attachments s)) \<and>
     (case cp_sending s of None \<Rightarrow> True | Some captured \<Rightarrow> set (previews (cp_attachments s)) \<subseteq> set (previews captured)) \<and>
     uploads_ok (cp_attachments s)"

lemma previews_append [simp]: "previews (as @ bs) = previews as @ previews bs"
  by (simp add: previews_def List.map_filter_def)

lemma previews_Nil [simp]: "previews [] = []"
  by (simp add: previews_def List.map_filter_def)

lemma previews_map [simp]: "(\<And>a. pa_previewUrl (f a) = pa_previewUrl a) \<Longrightarrow> previews (map f as) = previews as"
  by (simp add: previews_def List.map_filter_def comp_def filter_map)

lemma previews_Cons: "previews (a # as) = (case pa_previewUrl a of None \<Rightarrow> previews as | Some u \<Rightarrow> u # previews as)"
  by (simp add: previews_def List.map_filter_simps split: option.split)

lemma in_previews: "u \<in> set (previews as) \<longleftrightarrow> (\<exists>a \<in> set as. pa_previewUrl a = Some u)"
  by (induction as) (auto simp: previews_Cons split: option.splits)

lemma previews_filter: "set (previews (filter P as)) \<subseteq> set (previews as)"
  by (induction as) (auto simp: previews_Cons split: option.splits)

lemma uploads_simps [simp]:
  "uploads_ok []" "uploads_ok (as @ bs) \<longleftrightarrow> uploads_ok as \<and> uploads_ok bs" "uploads_ok (map newAttachment fs)"
  "uploads_ok as \<Longrightarrow> uploads_ok (filter P as)"
  by (auto simp: uploads_ok_def list_all_iff newAttachment_def)

lemma map_filter_ids: "distinct (map pa_id as) \<Longrightarrow> distinct (map pa_id (filter P as))"
  by (simp add: distinct_map_filter)

text \<open>Removing an attachment revokes its preview.\<close>

lemma removed_preview:
  "distinct (map pa_id as) \<Longrightarrow> set (previews as) \<subseteq>
     set (case Option.bind (find (\<lambda>a. pa_id a = i) as) pa_previewUrl of None \<Rightarrow> [] | Some url \<Rightarrow> [url]) \<union>
     set (previews (filter (\<lambda>a. pa_id a \<noteq> i) as))"
proof (induction as)
  case (Cons a as)
  show ?case
  proof (cases "pa_id a = i")
    case True
    with Cons.prems have "\<forall>x \<in> set as. pa_id x \<noteq> i" by (auto simp: rev_image_eqI)
    then have "filter (\<lambda>a. pa_id a \<noteq> i) as = as" by (simp add: filter_True)
    with True show ?thesis by (auto simp: previews_Cons split: option.splits)
  next
    case False
    with Cons show ?thesis by (auto simp: previews_Cons split: option.splits)
  qed
qed simp

lemma uploads_map:
  "uploads_ok as \<Longrightarrow>
   (\<And>a. pa_status (f a) = Complete \<Longrightarrow> truthy (pa_uploadedId (f a)) \<or> pa_status a = Complete \<and> pa_uploadedId (f a) = pa_uploadedId a) \<Longrightarrow>
     uploads_ok (map f as)"
  by (fastforce simp: uploads_ok_def list_all_iff)

lemma ok_remove: "composer_ok s \<Longrightarrow> composer_ok (removeAttachment i s)"
proof -
  assume ok: "composer_ok s"
  then have "set (previews (cp_attachments s)) \<subseteq>
      set (case Option.bind (find (\<lambda>a. pa_id a = i) (cp_attachments s)) pa_previewUrl of None \<Rightarrow> [] | Some url \<Rightarrow> [url]) \<union>
      set (previews (filter (\<lambda>a. pa_id a \<noteq> i) (cp_attachments s)))"
    by (intro removed_preview) (simp add: composer_ok_def)
  moreover have "set (previews (filter (\<lambda>a. pa_id a \<noteq> i) (cp_attachments s))) \<subseteq> set (previews (cp_attachments s))"
    by (rule previews_filter)
  ultimately show ?thesis
    using ok unfolding composer_ok_def removeAttachment_def Let_def
    by (auto simp: map_filter_ids split: option.splits)
qed

lemma ok_map:
  assumes "composer_ok s" "\<And>a. pa_id (f a) = pa_id a" "\<And>a. pa_previewUrl (f a) = pa_previewUrl a"
    and "\<And>a. pa_status (f a) = Complete \<Longrightarrow> truthy (pa_uploadedId (f a)) \<or> pa_status a = Complete \<and> pa_uploadedId (f a) = pa_uploadedId a"
  shows "composer_ok (s\<lparr>cp_attachments := map f (cp_attachments s)\<rparr>)"
proof -
  have "map pa_id (map f (cp_attachments s)) = map pa_id (cp_attachments s)" using assms(2) by simp
  moreover have "previews (map f (cp_attachments s)) = previews (cp_attachments s)" by (rule previews_map) (rule assms(3))
  moreover have "uploads_ok (map f (cp_attachments s))"
    using assms(1,4) by (intro uploads_map) (auto simp: composer_ok_def)
  ultimately show ?thesis using assms(1) unfolding composer_ok_def by (cases "cp_sending s") (simp_all del: map_map)
qed

lemma ok_select:
  "composer_ok s \<Longrightarrow> cp_sending s = None \<Longrightarrow> distinct (map pa_id (cp_attachments s) @ map sf_id files) \<Longrightarrow>
     composer_ok (handleFilesSelected files s)"
  unfolding composer_ok_def handleFilesSelected_def Let_def
  by (auto simp: newAttachment_def comp_def distinct_map_filter)

lemma composer_ok_step: "composer_step s t \<Longrightarrow> composer_ok s \<Longrightarrow> composer_ok t"
proof (induction rule: composer_step.induct)
  case (select_files s files)
  then show ?case by (intro ok_select)
next
  case (remove s i)
  then show ?case by (intro ok_remove)
next
  case (upload_succeeds fileId s i)
  then show ?case unfolding uploadSucceeded_def by (intro ok_map) auto
next
  case (upload_fails s i)
  then show ?case unfolding uploadFailed_def by (rule ok_map) (auto split: if_splits)
next
  case (send_succeeds s)
  then show ?case by (auto simp: composer_ok_def sendSucceeded_def split: option.splits)
qed (auto simp: composer_ok_def sendStarted_def sendFailed_def split: option.splits)

lemma composer_start: "composer_ok new_composer"
  by (simp add: new_composer_def composer_ok_def)

interpretation composers: machine composer_step "\<lambda>s. s = new_composer" composer_ok
  by unfold_locales (auto intro: composer_start composer_ok_step)

section \<open>Scheduling\<close>

text \<open>The request of \<open>handleSchedule\<close>; it captures the attachments as a send does.\<close>

record schedule_input =
  sc_content :: jsstring
  sc_scheduled_for :: jsstring
  sc_thread_parent_id :: "jsstring option"
  sc_also_send_to_channel :: bool
  sc_attachment_ids :: "jsstring list option"

definition handleSchedule ::
    "jsstring option \<Rightarrow> bool \<Rightarrow> jsstring \<Rightarrow> jsstring \<Rightarrow> composer \<Rightarrow> schedule_input option" where
  "handleSchedule parentMessageId isThreadVariant content scheduledFor s =
     (if trim content = [] then None
      else Some \<lparr>sc_content = trim content, sc_scheduled_for = scheduledFor,
        sc_thread_parent_id = (if truthy parentMessageId then parentMessageId else None),
        sc_also_send_to_channel = (isThreadVariant \<and> cp_alsoSend s),
        sc_attachment_ids = (if length (completedAttachmentIds s) > 0 then Some (completedAttachmentIds s) else None)\<rparr>)"

text \<open>When the request has succeeded, with the attachments captured at its start.\<close>

definition scheduled :: "pending_attachment list \<Rightarrow> composer \<Rightarrow> composer" where
  "scheduled captured s = s\<lparr>cp_revoked := cp_revoked s @ previews captured, cp_attachments := [], cp_alsoSend := False\<rparr>"

section \<open>Properties\<close>

lemma find_first: "find P xs = Some x \<Longrightarrow> find P (xs @ ys) = Some x"
  by (induction xs) auto

lemma completed_all:
  assumes "uploads_ok (cp_attachments s)" "\<not> isUploading s"
  shows "completedAttachmentIds s = map (\<lambda>a. the (pa_uploadedId a)) (filter (\<lambda>a. pa_status a \<noteq> UploadError) (cp_attachments s))"
proof -
  have "(pa_status a = Complete \<and> truthy (pa_uploadedId a)) = (pa_status a \<noteq> UploadError)" if "a \<in> set (cp_attachments s)" for a
    using assms that by (cases "pa_status a") (auto simp: uploads_ok_def isUploading_def list_all_iff list_ex_iff)
  then show ?thesis unfolding completedAttachmentIds_def by (metis (mono_tags, lifting) filter_cong)
qed



text \<open>A file selected while a message is being sent is lost when the send succeeds: the list of attachments
  is emptied though the message did not contain the file, and its preview is never released.\<close>

theorem send_loses_late_file:
  assumes "cp_sending s = Some captured" "f \<in> set files" "sf_size f \<le> MAX_FILE_SIZE" "sf_type f \<in> set ACCEPTED_IMAGE_TYPES"
    and "sf_url f \<notin> set (cp_revoked s)" "sf_url f \<notin> set (previews captured)"
  shows "pa_id (newAttachment f) \<in> pa_id ` set (cp_attachments (handleFilesSelected files s)) \<and>
    cp_attachments (sendSucceeded (handleFilesSelected files s)) = [] \<and>
    cp_sent (sendSucceeded (handleFilesSelected files s)) = cp_sent s \<and>
    sf_url f \<in> set (cp_created (sendSucceeded (handleFilesSelected files s))) \<and>
    sf_url f \<notin> set (cp_revoked (sendSucceeded (handleFilesSelected files s)))"
proof -
  let ?new = "map newAttachment (filter (\<lambda>f. \<not> sf_size f > MAX_FILE_SIZE) files)"
  have new: "newAttachment f \<in> set ?new" using assms(2,3) by auto
  have "pa_previewUrl (newAttachment f) = Some (sf_url f)" using assms(4) by (simp add: newAttachment_def)
  with new have "sf_url f \<in> set (previews ?new)" unfolding in_previews by blast
  moreover from new have "pa_id (newAttachment f) \<in> pa_id ` set ?new" by (rule imageI)
  ultimately show ?thesis
    using assms(1,5,6) unfolding handleFilesSelected_def sendSucceeded_def Let_def by (simp add: image_Un)
qed

theorem send_loses_late_file_witness:
  "cp_attachments (sendSucceeded (handleFilesSelected
      [\<lparr>sf_id = js ''1'', sf_url = js ''blob'', sf_size = 1, sf_type = js ''image/png''\<rparr>]
      (new_composer\<lparr>cp_sending := Some []\<rparr>))) = []"
  using send_loses_late_file [of "new_composer\<lparr>cp_sending := Some []\<rparr>" "[]"
      "\<lparr>sf_id = js ''1'', sf_url = js ''blob'', sf_size = 1, sf_type = js ''image/png''\<rparr>"
      "[\<lparr>sf_id = js ''1'', sf_url = js ''blob'', sf_size = 1, sf_type = js ''image/png''\<rparr>]"]
  by (simp add: MAX_FILE_SIZE_def ACCEPTED_IMAGE_TYPES_def new_composer_def)

text \<open>In a thread, whose replies are listed oldest first, the shortcut that reacts to the latest message reacts
  to the oldest reply that is not deleted, and the up arrow edits the user's oldest one.\<close>

theorem thread_shortcut_takes_oldest:
  assumes "pagesAt ops c (threadKeys_detail t) = Some p" "t \<noteq> []" "sorted_wrt before (allMessages p)"
    and "shortcutTarget table customs (getNewestPage ops c (Some t) chan) content = Some (i, e)"
    and "handleUpArrow u (getNewestPage ops c (Some t) chan) = Some j"
  shows "(\<exists>m \<in> set (allMessages p). msg_id m = i \<and>
      (\<forall>x \<in> set (allMessages p). \<not> truthy (msg_deleted_at x) \<longrightarrow> x = m \<or> before m x)) \<and>
    (\<exists>m \<in> set (allMessages p). msg_id m = j \<and>
      (\<forall>x \<in> set (allMessages p). \<not> truthy (msg_deleted_at x) \<and> msg_user_id x = u \<longrightarrow> x = m \<or> before m x))"
proof -
  obtain page rest where pages: "pages p = page # rest" "getNewestPage ops c (Some t) chan = messages page"
    using assms(1,2,4) by (cases "pages p") (auto simp: getNewestPage_def shortcutTarget_def split: option.splits if_splits)
  have first: "\<exists>m \<in> set (allMessages p). find P (messages page) = Some m \<and> (\<forall>x \<in> set (allMessages p). P x \<longrightarrow> x = m \<or> before m x)"
    if found: "find P (messages page) = Some m" for P m
  proof -
    have "find P (allMessages p) = Some m"
      using found pages(1) by (simp add: allMessages_def find_first)
    from find_sorted [OF assms(3) this] show ?thesis using found by auto
  qed
  obtain m where m: "find (\<lambda>m. \<not> truthy (msg_deleted_at m)) (messages page) = Some m" "i = msg_id m"
    using assms(4) unfolding pages(2) by (auto simp: shortcutTarget_def split: option.splits if_splits)
  obtain n where n: "find (\<lambda>m. msg_user_id m = u \<and> \<not> truthy (msg_deleted_at m)) (messages page) = Some n" "j = msg_id n"
    using assms(5) unfolding pages(2) by (auto simp: handleUpArrow_def split: if_splits)
  have "\<exists>m \<in> set (allMessages p). msg_id m = i \<and>
      (\<forall>x \<in> set (allMessages p). \<not> truthy (msg_deleted_at x) \<longrightarrow> x = m \<or> before m x)"
    using first [OF m(1)] m by auto
  moreover have "\<exists>m \<in> set (allMessages p). msg_id m = j \<and>
      (\<forall>x \<in> set (allMessages p). \<not> truthy (msg_deleted_at x) \<and> msg_user_id x = u \<longrightarrow> x = m \<or> before m x)"
    using first [OF n(1)] n by auto
  ultimately show ?thesis by blast
qed

theorem thread_shortcut_takes_oldest_witness:
  "\<exists>m \<in> set [sample_message (js ''R1'') (js ''me'') (Some (js ''T'')) 0, sample_message (js ''R2'') (js ''me'') (Some (js ''T'')) 0].
     msg_id m = js ''R1''"
proof -
  let ?ms = "[sample_message (js ''R1'') (js ''me'') (Some (js ''T'')) 0, sample_message (js ''R2'') (js ''me'') (Some (js ''T'')) 0]"
  let ?c = "sample_store [] [(threadKeys_detail (js ''T''), PagesData (sample_pages ?ms))]"
  let ?table = "[\<lparr>ec_id = [], ec_label = [], ec_icon = [], ec_emojis =
    [\<lparr>ee_emoji = [1], ee_aliases = [js ''x''], ee_tags = [], ee_skinTones = False\<rparr>]\<rparr>]"
  have p: "pagesAt store_ops ?c (threadKeys_detail (js ''T'')) = Some (sample_pages ?ms)"
    by (simp add: pagesAt_def)
  have newest: "getNewestPage store_ops ?c (Some (js ''T'')) (js ''C'') = ?ms"
    using p by (simp add: getNewestPage_def sample_pages_def)
  have "reactionMatch (trim (js ''+:x:'')) = Some (js ''x'')"
    by (simp add: reactionMatch_def trim_def js_eval is_ws_def shortcutChar_def word_le_nat_alt)
  then have shortcut: "shortcutTarget ?table [] (getNewestPage store_ops ?c (Some (js ''T'')) (js ''C'')) (js ''+:x:'') =
      Some (js ''R1'', js '':x:'')"
    unfolding newest by (simp add: shortcutTarget_def knownShortcode_def EMOJI_MAP_def aliasPairs_def allEmojis_def
      sample_message_def js_eval)
  have arrow: "handleUpArrow (Some (js ''me'')) (getNewestPage store_ops ?c (Some (js ''T'')) (js ''C'')) = Some (js ''R1'')"
    unfolding newest by (simp add: handleUpArrow_def sample_message_def)
  have sorted: "sorted_wrt (\<lambda>a b. True) (allMessages (sample_pages ?ms))" by (simp add: allMessages_def sample_pages_def)
  have "\<exists>m \<in> set (allMessages (sample_pages ?ms)). msg_id m = js ''R1''"
    using thread_shortcut_takes_oldest [OF p _ sorted shortcut arrow] by auto
  then show ?thesis by (simp add: allMessages_def sample_pages_def)
qed

end
