(* ===== verification/SearchScreens.thy ===== *)
theory SearchScreens
  imports QueryHooks Utils Samples
begin

text \<open>
  Searching messages: the dialog of the web app
  (\<open>apps/web/src/components/search/SearchModal.tsx\<close>) and the screen of the mobile app
  (\<open>apps/mobile/src/screens/SearchScreen.tsx\<close>, \<open>components/SearchFilters.tsx\<close>), over the query
  \<open>useSearch\<close>, which keeps the data of the previous query while it has none of its own
  (\<open>placeholderData: keepPreviousData\<close>).

  A step of a screen is one callback; \<open>renderSearch\<close> is the render after it, with the effect of the mobile
  screen, which runs when \<open>data.messages\<close> (compared as a reference) or the offset has changed. The answers carry
  the identity of their array of messages.
\<close>

section \<open>Answers and the query\<close>

record search_message = message_with_user +
  sm_channel_name :: jsstring
  sm_channel_type :: channel_type

record search_messages_result =
  sr_messages :: "search_message list"
  sr_total_count :: int
  sr_has_more :: bool

record search_query =
  sq_debounced :: jsstring
  sq_channelId :: "jsstring option"
  sq_userId :: "jsstring option"
  sq_after :: "jsstring option"
  sq_before :: "jsstring option"
  sq_offset :: int

type_synonym answers = "query_key \<rightharpoonup> nat \<times> search_messages_result"

text \<open>The observer: the answers in the cache, the last data it had, and when the effect last ran.\<close>

record search_data =
  sd_answers :: answers
  sd_previous :: "(nat \<times> search_messages_result) option"

definition searchHook :: "jsstring \<Rightarrow> search_query \<Rightarrow> query_hook" where
  "searchHook workspaceId q =
     useSearch workspaceId (sq_debounced q) (sq_channelId q) (sq_userId q) (sq_before q) (sq_after q)
       (Some 20) (Some (sq_offset q))"

definition searchKey :: "jsstring \<Rightarrow> search_query \<Rightarrow> query_key" where
  "searchKey workspaceId q = qh_key (searchHook workspaceId q)"

text \<open>The data of the query, or else of the query before (\<open>keepPreviousData\<close>).\<close>

definition searchData :: "jsstring \<Rightarrow> search_query \<Rightarrow> search_data \<Rightarrow> (nat \<times> search_messages_result) option" where
  "searchData workspaceId q d =
     (case sd_answers d (searchKey workspaceId q) of Some a \<Rightarrow> Some a | None \<Rightarrow> sd_previous d)"

definition observeSearch :: "jsstring \<Rightarrow> search_query \<Rightarrow> search_data \<Rightarrow> search_data" where
  "observeSearch workspaceId q d = d\<lparr>sd_previous := searchData workspaceId q d\<rparr>"

definition searchAnswered :: "query_key \<Rightarrow> nat \<Rightarrow> search_messages_result \<Rightarrow> search_data \<Rightarrow> search_data" where
  "searchAnswered k ident r d = d\<lparr>sd_answers := (sd_answers d)(k \<mapsto> (ident, r))\<rparr>"

section \<open>The mobile screen\<close>

record search_screen =
  sc_queryText :: jsstring
  sc_timer :: "jsstring option"
  sc_query :: search_query
  sc_allMessages :: "search_message list"
  sc_data :: search_data
  sc_seen :: "nat option \<times> int"

definition emptyQuery :: search_query where
  "emptyQuery = \<lparr>sq_debounced = [], sq_channelId = None, sq_userId = None, sq_after = None, sq_before = None, sq_offset = 0\<rparr>"

definition noAnswers :: search_data where
  "noAnswers = \<lparr>sd_answers = Map.empty, sd_previous = None\<rparr>"

definition newSearchScreen :: search_screen where
  "newSearchScreen = \<lparr>sc_queryText = [], sc_timer = None, sc_query = emptyQuery, sc_allMessages = [],
     sc_data = noAnswers, sc_seen = (None, 0)\<rparr>"

text \<open>A render, with the effect that collects the messages.\<close>

definition renderSearch :: "jsstring \<Rightarrow> search_screen \<Rightarrow> search_screen" where
  "renderSearch workspaceId s =
     (let data = searchData workspaceId (sc_query s) (sc_data s);
          offset = sq_offset (sc_query s);
          deps = (map_option fst data, offset);
          s1 = s\<lparr>sc_data := observeSearch workspaceId (sc_query s) (sc_data s), sc_seen := deps\<rparr>
      in if deps = sc_seen s then s1
         else (case data of
             None \<Rightarrow> s1
           | Some (_, r) \<Rightarrow>
               if offset = 0 then s1\<lparr>sc_allMessages := sr_messages r\<rparr>
               else s1\<lparr>sc_allMessages := sc_allMessages s @ sr_messages r\<rparr>))"

definition handleTextChange :: "jsstring \<Rightarrow> search_screen \<Rightarrow> search_screen" where
  "handleTextChange t s = s\<lparr>sc_queryText := t, sc_timer := Some t\<rparr>"

definition debounceFires :: "search_screen \<Rightarrow> search_screen" where
  "debounceFires s =
     (case sc_timer s of None \<Rightarrow> s
      | Some t \<Rightarrow> s\<lparr>sc_timer := None, sc_query := (sc_query s)\<lparr>sq_debounced := trim t, sq_offset := 0\<rparr>\<rparr>)"

definition handleLoadMore :: "jsstring \<Rightarrow> bool \<Rightarrow> search_screen \<Rightarrow> search_screen" where
  "handleLoadMore workspaceId isFetching s =
     (case searchData workspaceId (sc_query s) (sc_data s) of
        Some (_, r) \<Rightarrow>
          if sr_has_more r \<and> \<not> isFetching
          then s\<lparr>sc_query := (sc_query s)\<lparr>sq_offset := sq_offset (sc_query s) + 20\<rparr>\<rparr> else s
      | None \<Rightarrow> s)"

definition selectChannel :: "jsstring option \<Rightarrow> search_screen \<Rightarrow> search_screen" where
  "selectChannel c s = s\<lparr>sc_query := (sc_query s)\<lparr>sq_channelId := c\<rparr>\<rparr>"

definition selectUser :: "jsstring option \<Rightarrow> search_screen \<Rightarrow> search_screen" where
  "selectUser u s = s\<lparr>sc_query := (sc_query s)\<lparr>sq_userId := u\<rparr>\<rparr>"

definition screenAnswered :: "query_key \<Rightarrow> nat \<Rightarrow> search_messages_result \<Rightarrow> search_screen \<Rightarrow> search_screen" where
  "screenAnswered k ident r s = s\<lparr>sc_data := searchAnswered k ident r (sc_data s)\<rparr>"

definition filterCount :: "search_screen \<Rightarrow> nat" where
  "filterCount s = (if truthy (sq_channelId (sc_query s)) then 1 else 0) + (if truthy (sq_userId (sc_query s)) then 1 else 0)"

datatype search_view = ViewLoading | ViewNoResults | ViewHint | ViewList "search_message list"

definition searchView :: "bool \<Rightarrow> bool \<Rightarrow> search_screen \<Rightarrow> search_view" where
  "searchView isLoading isFetching s =
     (let query = sq_debounced (sc_query s)
      in if isLoading \<and> query \<noteq> [] then ViewLoading
         else if query \<noteq> [] \<and> length (sc_allMessages s) = 0 \<and> \<not> isFetching then ViewNoResults
         else if query = [] then ViewHint
         else ViewList (sc_allMessages s))"

text \<open>\<open>SearchFilters\<close>: the channels offered, and what a tap on an entry selects.\<close>

definition filterChannels :: "channel_with_membership list option \<Rightarrow> channel_with_membership list" where
  "filterChannels chans =
     filter (\<lambda>c. \<not> truthy (ch_archived_at c) \<and> ch_type c \<noteq> DmChannel \<and> ch_type c \<noteq> GroupDmChannel) (or_empty chans)"

definition tapFilter :: "jsstring \<Rightarrow> jsstring option \<Rightarrow> jsstring option" where
  "tapFilter i selected = (if selected = Some i then None else Some i)"

definition handleClear :: "search_screen \<Rightarrow> search_screen" where
  "handleClear s = selectUser None (selectChannel None s)"

section \<open>The dialog of the web app\<close>

text \<open>A date as the picker has it; \<open>toISO\<close> is \<open>Date.prototype.toISOString\<close> of a local time.\<close>

record date_value =
  dv_year :: int
  dv_month :: int
  dv_day :: int

type_synonym local_iso = "int \<Rightarrow> int \<Rightarrow> int \<Rightarrow> nat \<times> nat \<times> nat \<Rightarrow> jsstring"

definition dateValueToISO :: "local_iso \<Rightarrow> date_value option \<Rightarrow> bool \<Rightarrow> jsstring option" where
  "dateValueToISO toISO v endOfDay =
     map_option (\<lambda>d. toISO (dv_year d) (dv_month d - 1) (dv_day d) (if endOfDay then (23, 59, 59) else (0, 0, 0))) v"

record search_modal =
  sw_isOpen :: bool
  sw_inputValue :: jsstring
  sw_timer :: "jsstring option"
  sw_debounced :: jsstring
  sw_channel :: jsstring
  sw_user :: jsstring
  sw_afterDate :: "date_value option"
  sw_beforeDate :: "date_value option"
  sw_offset :: int
  sw_data :: search_data

definition orUndefined :: "jsstring \<Rightarrow> jsstring option" where
  "orUndefined s = (if s = [] then None else Some s)"

definition modalQuery :: "local_iso \<Rightarrow> search_modal \<Rightarrow> search_query" where
  "modalQuery toISO s =
     \<lparr>sq_debounced = sw_debounced s, sq_channelId = orUndefined (sw_channel s), sq_userId = orUndefined (sw_user s),
      sq_after = dateValueToISO toISO (sw_afterDate s) False, sq_before = dateValueToISO toISO (sw_beforeDate s) True,
      sq_offset = sw_offset s\<rparr>"

definition newSearchModal :: search_modal where
  "newSearchModal = \<lparr>sw_isOpen = False, sw_inputValue = [], sw_timer = Some [], sw_debounced = [], sw_channel = [],
     sw_user = [], sw_afterDate = None, sw_beforeDate = None, sw_offset = 0, sw_data = noAnswers\<rparr>"

text \<open>Opening resets the dialog; the effect of the input starts the timer where the input changes.\<close>

definition setInput :: "jsstring \<Rightarrow> search_modal \<Rightarrow> search_modal" where
  "setInput v s = (if v = sw_inputValue s then s else s\<lparr>sw_inputValue := v, sw_timer := Some v\<rparr>)"

definition openModal :: "jsstring option \<Rightarrow> jsstring option \<Rightarrow> search_modal \<Rightarrow> search_modal" where
  "openModal initialChannelId initialQuery s =
     (if sw_isOpen s then s
      else (setInput (or_else initialQuery []) s)\<lparr>sw_isOpen := True, sw_debounced := or_else initialQuery [],
        sw_channel := or_else initialChannelId [], sw_user := [], sw_afterDate := None, sw_beforeDate := None, sw_offset := 0\<rparr>)"

definition closeModal :: "search_modal \<Rightarrow> search_modal" where
  "closeModal s = s\<lparr>sw_isOpen := False\<rparr>"

definition inputFires :: "search_modal \<Rightarrow> search_modal" where
  "inputFires s =
     (case sw_timer s of None \<Rightarrow> s | Some v \<Rightarrow> s\<lparr>sw_timer := None, sw_debounced := v, sw_offset := 0\<rparr>)"

definition setChannelFilter :: "jsstring \<Rightarrow> search_modal \<Rightarrow> search_modal" where
  "setChannelFilter v s = s\<lparr>sw_channel := v, sw_offset := 0\<rparr>"

definition setUserFilter :: "jsstring \<Rightarrow> search_modal \<Rightarrow> search_modal" where
  "setUserFilter v s = s\<lparr>sw_user := v, sw_offset := 0\<rparr>"

definition setAfterFilter :: "date_value option \<Rightarrow> search_modal \<Rightarrow> search_modal" where
  "setAfterFilter v s = s\<lparr>sw_afterDate := v, sw_offset := 0\<rparr>"

definition setBeforeFilter :: "date_value option \<Rightarrow> search_modal \<Rightarrow> search_modal" where
  "setBeforeFilter v s = s\<lparr>sw_beforeDate := v, sw_offset := 0\<rparr>"

definition modalData :: "local_iso \<Rightarrow> jsstring \<Rightarrow> search_modal \<Rightarrow> (nat \<times> search_messages_result) option" where
  "modalData toISO workspaceId s = searchData workspaceId (modalQuery toISO s) (sw_data s)"

definition modalMessages :: "local_iso \<Rightarrow> jsstring \<Rightarrow> search_modal \<Rightarrow> search_message list" where
  "modalMessages toISO workspaceId s =
     (case modalData toISO workspaceId s of None \<Rightarrow> [] | Some (_, r) \<Rightarrow> sr_messages r)"

definition modalLoadMore :: "local_iso \<Rightarrow> jsstring \<Rightarrow> search_modal \<Rightarrow> search_modal" where
  "modalLoadMore toISO workspaceId s =
     (case modalData toISO workspaceId s of
        Some (_, r) \<Rightarrow> if sr_has_more r then s\<lparr>sw_offset := sw_offset s + 20\<rparr> else s
      | None \<Rightarrow> s)"

definition renderModal :: "local_iso \<Rightarrow> jsstring \<Rightarrow> search_modal \<Rightarrow> search_modal" where
  "renderModal toISO workspaceId s = s\<lparr>sw_data := observeSearch workspaceId (modalQuery toISO s) (sw_data s)\<rparr>"

definition modalAnswered :: "query_key \<Rightarrow> nat \<Rightarrow> search_messages_result \<Rightarrow> search_modal \<Rightarrow> search_modal" where
  "modalAnswered k ident r s = s\<lparr>sw_data := searchAnswered k ident r (sw_data s)\<rparr>"

text \<open>The name above a result, and where a click on it leads.\<close>

definition resultTitle :: "search_message \<Rightarrow> jsstring" where
  "resultTitle m =
     (if sm_channel_type m = DmChannel \<or> sm_channel_type m = GroupDmChannel
      then or_else (msg_user_display_name m) (js ''Direct Message'')
      else js ''#'' @ sm_channel_name m)"

definition resultPath :: "jsstring \<Rightarrow> search_message \<Rightarrow> jsstring" where
  "resultPath workspaceId m =
     js ''/workspaces/'' @ workspaceId @ js ''/channels/'' @ msg_channel_id m @ js ''?msg='' @ msg_id m"

section \<open>Facts\<close>

lemma searchKey_eq:
  "searchKey w q = searchKeys_query w (sq_debounced q) (sq_channelId q) (sq_userId q) (sq_before q) (sq_after q)
     (Some 20) (Some (sq_offset q))"
  by (simp add: searchKey_def searchHook_def useSearch_def Let_def)

text \<open>Two queries with the same key are the same query: the answer shown is that of what is searched.\<close>

lemma searchKey_inj [simp]: "searchKey w q = searchKey w q' \<longleftrightarrow> q = q'"
  by (cases q; cases q') (auto simp: searchKey_eq searchKeys_query_def)

lemma searchData_answered [simp]:
  "searchData w q (searchAnswered (searchKey w q) j r d) = Some (j, r)"
  by (simp add: searchData_def searchAnswered_def)

lemma observe_data:
  "sd_answers d (searchKey w q) = None \<Longrightarrow> searchData w q (observeSearch w q d) = searchData w q d"
  by (simp add: searchData_def observeSearch_def)

lemma observe_answers [simp]: "sd_answers (observeSearch w q d) = sd_answers d"
  by (simp add: observeSearch_def)

lemma modalQuery_updates [simp]:
  "modalQuery tz (m\<lparr>sw_offset := n\<rparr>) = (modalQuery tz m)\<lparr>sq_offset := n\<rparr>"
  "modalQuery tz (m\<lparr>sw_data := d\<rparr>) = modalQuery tz m"
  by (simp_all add: modalQuery_def)

lemma modal_offset: "sw_offset m = sq_offset (modalQuery tz m)"
  by (simp add: modalQuery_def)

lemmas screen_steps = renderSearch_def handleLoadMore_def screenAnswered_def debounceFires_def selectChannel_def
  selectUser_def Let_def

lemma render_answered:
  assumes "sc_query t = q" "sc_seen t \<noteq> (Some j, sq_offset q)"
  shows "sc_allMessages (renderSearch w (screenAnswered (searchKey w q) j r t)) =
    (if sq_offset q = 0 then sr_messages r else sc_allMessages t @ sr_messages r)"
  using assms by (auto simp: renderSearch_def screenAnswered_def Let_def)

text \<open>Every filter of the dialog starts from the first page again.\<close>

lemma modal_filters_reset:
  "sw_offset (setChannelFilter v s) = 0" "sw_offset (setUserFilter v s) = 0"
  "sw_offset (setAfterFilter d s) = 0" "sw_offset (setBeforeFilter d s) = 0"
  by (simp_all add: setChannelFilter_def setUserFilter_def setAfterFilter_def setBeforeFilter_def)

lemma tap_twice: "selected \<noteq> Some i \<Longrightarrow> tapFilter i (tapFilter i selected) = None"
  by (simp add: tapFilter_def)

text \<open>A new search of the mobile screen shows exactly the messages of its answer.\<close>

theorem new_search_shows_answer:
  assumes "sc_timer s = Some txt" "trim txt \<noteq> sq_debounced (sc_query s)"
    and "sd_answers (sc_data s) (searchKey w (sc_query (debounceFires s))) = None"
    and "map_option fst (sd_previous (sc_data s)) \<noteq> Some j"
  shows "sc_allMessages (renderSearch w (screenAnswered (searchKey w (sc_query (debounceFires s))) j r
      (renderSearch w (debounceFires s)))) = sr_messages r"
proof -
  let ?q = "(sc_query s)\<lparr>sq_debounced := trim txt, sq_offset := 0\<rparr>"
  have data: "searchData w ?q (sc_data s) = sd_previous (sc_data s)"
    using assms(1,3) by (simp add: searchData_def debounceFires_def)
  have q: "sc_query (renderSearch w (debounceFires s)) = ?q"
    "sc_seen (renderSearch w (debounceFires s)) = (map_option fst (sd_previous (sc_data s)), 0)"
    using assms(1) data by (auto simp: screen_steps split: option.splits)
  moreover have "sc_query (debounceFires s) = ?q" using assms(1) by (simp add: debounceFires_def)
  ultimately show ?thesis
    using render_answered [OF q(1), of j w r] assms(4) by auto
qed

section \<open>Properties\<close>

text \<open>Loading more search results is broken on both platforms. On mobile the previous page is still the data
  of the query when the offset changes, so the effect appends it a second time, and then the next page; on
  the web the next page replaces the one shown.
\<close>

theorem search_load_more:
  assumes "sd_answers (sc_data s) (searchKey w (sc_query s)) = Some (i, p1)" "sr_has_more p1"
    and "sc_seen s = (Some i, sq_offset (sc_query s))" "0 \<le> sq_offset (sc_query s)" "j \<noteq> i"
    and "sd_previous (sc_data s) = Some (i, p1)"
    and "sd_answers (sc_data s) (searchKey w ((sc_query s)\<lparr>sq_offset := sq_offset (sc_query s) + 20\<rparr>)) = None"
    and "modalQuery tz m = sc_query s" "sw_data m = sc_data s"
  shows "let t = renderSearch w (handleLoadMore w False s); k = searchKey w (sc_query t);
             v = renderModal tz w (modalLoadMore tz w m)
         in sc_allMessages t = sc_allMessages s @ sr_messages p1 \<and>
            sc_allMessages (renderSearch w (screenAnswered k j p2 t)) = sc_allMessages s @ sr_messages p1 @ sr_messages p2 \<and>
            modalMessages tz w v = sr_messages p1 \<and>
            modalMessages tz w (modalAnswered k j p2 v) = sr_messages p2"
proof -
  let ?q = "(sc_query s)\<lparr>sq_offset := sq_offset (sc_query s) + 20\<rparr>"
  let ?t = "renderSearch w (handleLoadMore w False s)"
  let ?v = "renderModal tz w (modalLoadMore tz w m)"
  have data: "searchData w (sc_query s) (sc_data s) = Some (i, p1)" "searchData w ?q (sc_data s) = Some (i, p1)"
    using assms(1,6,7) by (simp_all add: searchData_def)
  have t: "sc_query ?t = ?q" "sc_seen ?t = (Some i, sq_offset (sc_query s) + 20)"
      "sc_allMessages ?t = sc_allMessages s @ sr_messages p1"
    using data assms(2-4) by (simp_all add: screen_steps)
  moreover have "sc_allMessages (renderSearch w (screenAnswered (searchKey w ?q) j p2 ?t)) = sc_allMessages ?t @ sr_messages p2"
    using render_answered [OF t(1), of j w p2] t(2) assms(4,5) by simp
  moreover have v: "modalQuery tz ?v = ?q" "sw_data ?v = observeSearch w ?q (sc_data s)"
    using data assms(2,8,9) by (auto simp: renderModal_def modalLoadMore_def modalData_def modal_offset [of m tz])
  moreover have "modalMessages tz w ?v = sr_messages p1"
    using v data(2) assms(7) by (simp add: modalMessages_def modalData_def observe_data)
  moreover have "modalMessages tz w (modalAnswered (searchKey w ?q) j p2 ?v) = sr_messages p2"
  proof -
    have "modalQuery tz (modalAnswered k j p2 x) = modalQuery tz x" for k x
      by (simp add: modalAnswered_def modalQuery_def)
    with v show ?thesis by (simp add: modalMessages_def modalData_def modalAnswered_def)
  qed
  ultimately show ?thesis by (simp add: Let_def)
qed

definition page_of :: "jsstring list \<Rightarrow> bool \<Rightarrow> search_messages_result" where
  "page_of is again = \<lparr>sr_messages = map (\<lambda>i. message_with_user.extend (sample_message i (js ''U'') None 0)
       \<lparr>sm_channel_name = js ''general'', sm_channel_type = PublicChannel\<rparr>) is,
     sr_total_count = 40, sr_has_more = again\<rparr>"

text \<open>Page \<open>A\<close> of the search for \<open>q\<close> is shown, of which there are more.\<close>

definition sample_search :: search_screen where
  "sample_search =
     (let q = emptyQuery\<lparr>sq_debounced := js ''q''\<rparr>; a = (1, page_of [js ''A''] True)
      in newSearchScreen\<lparr>sc_query := q, sc_allMessages := sr_messages (page_of [js ''A''] True), sc_seen := (Some 1, 0),
        sc_data := \<lparr>sd_answers = [searchKey (js ''W'') q \<mapsto> a], sd_previous = Some a\<rparr>\<rparr>)"

definition sample_modal :: search_modal where
  "sample_modal = newSearchModal\<lparr>sw_isOpen := True, sw_debounced := js ''q'', sw_data := sc_data sample_search\<rparr>"

lemmas sample_search_defs = sample_search_def sample_modal_def newSearchScreen_def newSearchModal_def emptyQuery_def Let_def

theorem search_load_more_witness:
  "\<exists>t v k. map msg_id (sc_allMessages (renderSearch (js ''W'') (screenAnswered k 2 (page_of [js ''B''] False) t))) =
      [js ''A'', js ''A'', js ''B''] \<and>
    map msg_id (modalMessages (\<lambda>_ _ _ _. []) (js ''W'') (modalAnswered k 2 (page_of [js ''B''] False) v)) = [js ''B'']"
proof -
  let ?m = "sample_modal"
  have q: "modalQuery (\<lambda>_ _ _ _. []) ?m = sc_query sample_search"
    by (simp add: sample_search_defs modalQuery_def orUndefined_def dateValueToISO_def)
  let ?p = "page_of [js ''A''] True" and ?r = "page_of [js ''B''] False"
  have "sd_answers (sc_data sample_search) (searchKey (js ''W'') (sc_query sample_search)) = Some (1, ?p)"
    "sr_has_more ?p" "sc_seen sample_search = (Some 1, sq_offset (sc_query sample_search))"
    "0 \<le> sq_offset (sc_query sample_search)" "(2::nat) \<noteq> 1" "sd_previous (sc_data sample_search) = Some (1, ?p)"
    "sd_answers (sc_data sample_search)
       (searchKey (js ''W'') ((sc_query sample_search)\<lparr>sq_offset := sq_offset (sc_query sample_search) + 20\<rparr>)) = None"
    "sw_data ?m = sc_data sample_search"
    by (simp_all add: sample_search_defs page_of_def)
  from search_load_more [OF this(1-7) q this(8), of ?r]
  have "sc_allMessages (renderSearch (js ''W'') (screenAnswered k 2 ?r t)) =
      sc_allMessages sample_search @ sr_messages ?p @ sr_messages ?r \<and>
      modalMessages (\<lambda>_ _ _ _. []) (js ''W'') (modalAnswered k 2 ?r v) = sr_messages ?r"
    if "t = renderSearch (js ''W'') (handleLoadMore (js ''W'') False sample_search)"
      "k = searchKey (js ''W'') (sc_query t)"
      "v = renderModal (\<lambda>_ _ _ _. []) (js ''W'') (modalLoadMore (\<lambda>_ _ _ _. []) (js ''W'') ?m)" for t k v
    using that by (simp add: Let_def)
  moreover have "map msg_id (sc_allMessages sample_search @ sr_messages ?p @ sr_messages ?r) =
      [js ''A'', js ''A'', js ''B'']" "map msg_id (sr_messages ?r) = [js ''B'']"
    by (simp_all add: sample_search_defs page_of_def message_with_user.extend_def sample_message_def)
  ultimately show ?thesis by metis
qed

text \<open>
  The filters of the mobile screen do not start from the first page: after a page has been loaded, the list
  keeps the results found without the filter, and those of the filter are read from the current offset.
\<close>

theorem filter_mixes_results:
  assumes "sc_seen s = (Some i, sq_offset (sc_query s))" "sq_offset (sc_query s) > 0" "j \<noteq> i"
    and "searchData w (sc_query s) (sc_data s) = Some (i, p)" "sd_previous (sc_data s) = Some (i, p)"
    and "sd_answers (sc_data s) (searchKey w (sc_query (selectChannel c s))) = None"
  shows "sc_allMessages (renderSearch w (screenAnswered (searchKey w (sc_query (selectChannel c s))) j r
      (renderSearch w (selectChannel c s)))) = sc_allMessages s @ sr_messages r"
proof -
  have "searchData w (sc_query (selectChannel c s)) (sc_data s) = Some (i, p)"
    using assms(5,6) by (simp add: searchData_def)
  then have t: "sc_query (renderSearch w (selectChannel c s)) = sc_query (selectChannel c s)"
      "sc_seen (renderSearch w (selectChannel c s)) = (Some i, sq_offset (sc_query s))"
      "sc_allMessages (renderSearch w (selectChannel c s)) = sc_allMessages s"
    using assms(1,4) by (simp_all add: screen_steps)
  with render_answered [OF t(1), of j w r] assms(2,3) show ?thesis
    by (simp add: selectChannel_def)
qed

end
