(* ===== verification/MobileComposer.thy ===== *)
theory MobileComposer
  imports ThreadView Mentions Machines
begin

text \<open>
  The message composer of the mobile app (\<open>apps/mobile/src/components/MessageComposer.tsx\<close>) and the action
  that starts an edit (\<open>components/MessageActions.tsx\<close>). Every mounted composer reads the one store of the
  edited message (\<open>editingMessageStore.ts\<close>): the screen of a thread is pushed over that of its channel, whose
  composer stays mounted. \<open>editingMessage\<close> is the content of the edited message, if it has been
  loaded. The send button is disabled while a request is pending, so there is at most one
  request; the text can be changed while it is.
\<close>

section \<open>State\<close>

datatype compose_request =
    UpdateMessage jsstring jsstring
  | SendReply jsstring jsstring bool
  | SendToChannel jsstring

record mobile_composer =
  mc_text :: jsstring
  mc_selection :: "nat \<times> nat"
  mc_showFormatBar :: bool
  mc_editLoaded :: "jsstring option"
  mc_sending :: "compose_request option"

definition new_mobile_composer :: mobile_composer where
  "new_mobile_composer =
     \<lparr>mc_text = [], mc_selection = (0, 0), mc_showFormatBar = False, mc_editLoaded = None, mc_sending = None\<rparr>"

definition MAX_LENGTH :: nat where
  "MAX_LENGTH = 40000"

definition WARN_THRESHOLD :: nat where
  "WARN_THRESHOLD = 39000"

section \<open>Operations\<close>

text \<open>The effect that loads the content of the message to edit.\<close>

definition loadEdit :: "editing \<Rightarrow> jsstring option \<Rightarrow> mobile_composer \<Rightarrow> mobile_composer" where
  "loadEdit editingMessageId content s =
     (case content of
        Some t \<Rightarrow>
          if truthy editingMessageId \<and> mc_editLoaded s \<noteq> editingMessageId
          then s\<lparr>mc_text := t, mc_editLoaded := editingMessageId\<rparr> else s
      | None \<Rightarrow> s)"

definition isSending :: "mobile_composer \<Rightarrow> bool" where
  "isSending s = (mc_sending s \<noteq> None)"

definition canSend :: "mobile_composer \<Rightarrow> bool" where
  "canSend s = (length (trim (mc_text s)) > 0 \<and> \<not> isSending s)"

definition composeRequest :: "editing \<Rightarrow> jsstring option \<Rightarrow> bool \<Rightarrow> jsstring \<Rightarrow> compose_request option" where
  "composeRequest editingMessageId threadParentId alsoSend t =
     (let trimmed = trim t
      in if trimmed = [] then None
         else Some (if truthy editingMessageId then UpdateMessage (the editingMessageId) trimmed
           else if truthy threadParentId then SendReply (the threadParentId) trimmed alsoSend
           else SendToChannel trimmed))"

definition handleSend :: "editing \<Rightarrow> jsstring option \<Rightarrow> bool \<Rightarrow> mobile_composer \<Rightarrow> mobile_composer" where
  "handleSend editingMessageId threadParentId alsoSend s =
     (case composeRequest editingMessageId threadParentId alsoSend (mc_text s) of
        None \<Rightarrow> s | Some r \<Rightarrow> s\<lparr>mc_sending := Some r\<rparr>)"

text \<open>The callbacks \<open>onSuccess\<close> of the three requests; an edit also ends in the store.\<close>

definition composeSucceeded :: "mobile_composer \<times> editing \<Rightarrow> mobile_composer \<times> editing" where
  "composeSucceeded st =
     (case st of (s, e) \<Rightarrow>
       (case mc_sending s of
          None \<Rightarrow> st
        | Some (UpdateMessage _ _) \<Rightarrow>
            (s\<lparr>mc_text := [], mc_editLoaded := None, mc_sending := None\<rparr>, clearEditingMessageId e)
        | Some _ \<Rightarrow> (s\<lparr>mc_text := [], mc_sending := None\<rparr>, e)))"

definition composeFailed :: "mobile_composer \<Rightarrow> mobile_composer" where
  "composeFailed s = s\<lparr>mc_sending := None\<rparr>"

definition handleCancelEdit :: "mobile_composer \<times> editing \<Rightarrow> mobile_composer \<times> editing" where
  "handleCancelEdit st = (case st of (s, e) \<Rightarrow> (s\<lparr>mc_text := [], mc_editLoaded := None\<rparr>, clearEditingMessageId e))"

definition changeText :: "jsstring \<Rightarrow> mobile_composer \<Rightarrow> mobile_composer" where
  "changeText t s = s\<lparr>mc_text := take MAX_LENGTH t\<rparr>"

definition changeSelection :: "nat \<times> nat \<Rightarrow> mobile_composer \<Rightarrow> mobile_composer" where
  "changeSelection sel s = s\<lparr>mc_selection := sel\<rparr>"

definition formatText :: "format_action \<Rightarrow> mobile_composer \<Rightarrow> mobile_composer" where
  "formatText action s = s\<lparr>mc_text := applyFormat (mc_text s) (mc_selection s) action\<rparr>"

definition handleMentionSelect :: "jsstring \<Rightarrow> mobile_composer \<Rightarrow> mobile_composer" where
  "handleMentionSelect token s =
     (case insertMentionToken (mc_text s) (fst (mc_selection s)) token of
        None \<Rightarrow> s
      | Some (newText, newPosition) \<Rightarrow> s\<lparr>mc_text := newText, mc_selection := (newPosition, newPosition)\<rparr>)"

definition toggleFormatBar :: "mobile_composer \<Rightarrow> mobile_composer" where
  "toggleFormatBar s = s\<lparr>mc_showFormatBar := \<not> mc_showFormatBar s\<rparr>"

definition showCharCount :: "mobile_composer \<Rightarrow> bool" where
  "showCharCount s = (length (mc_text s) > WARN_THRESHOLD)"

text \<open>\<open>handleEdit\<close> of the actions of a message.\<close>

definition handleEdit :: "message_with_user option \<Rightarrow> editing \<Rightarrow> editing" where
  "handleEdit activeMessage e =
     (case activeMessage of None \<Rightarrow> e | Some m \<Rightarrow> setEditingMessageId (msg_id m) e)"

section \<open>The composers of a channel and of a thread over it\<close>

text \<open>
  \<open>ms_channel\<close> and \<open>ms_thread\<close> are the composers of the two screens. After every change both are
  rendered, with the content that the query has of the edited message.
\<close>

record mobile_screens =
  ms_channel :: mobile_composer
  ms_thread :: mobile_composer
  ms_editing :: editing

definition renderScreens :: "(jsstring \<Rightarrow> jsstring option) \<Rightarrow> mobile_screens \<Rightarrow> mobile_screens" where
  "renderScreens loaded s =
     (let content = Option.bind (ms_editing s) loaded
      in s\<lparr>ms_channel := loadEdit (ms_editing s) content (ms_channel s),
           ms_thread := loadEdit (ms_editing s) content (ms_thread s)\<rparr>)"

definition editReply :: "jsstring \<Rightarrow> mobile_screens \<Rightarrow> mobile_screens" where
  "editReply i s = s\<lparr>ms_editing := setEditingMessageId i (ms_editing s)\<rparr>"

definition onThread :: "(mobile_composer \<times> editing \<Rightarrow> mobile_composer \<times> editing) \<Rightarrow> mobile_screens \<Rightarrow> mobile_screens" where
  "onThread f s = (let (c, e) = f (ms_thread s, ms_editing s) in s\<lparr>ms_thread := c, ms_editing := e\<rparr>)"

lemmas mobile_composer_defs = loadEdit_def composeRequest_def handleSend_def composeSucceeded_def
  composeFailed_def handleCancelEdit_def changeText_def renderScreens_def editReply_def onThread_def
  setEditingMessageId_def clearEditingMessageId_def

section \<open>One composer\<close>

text \<open>What is sent is never blank, and has no blanks around it.\<close>

lemma request_content:
  "composeRequest e parent also t = Some r \<Longrightarrow>
     trim t \<noteq> [] \<and> r \<in> {UpdateMessage (the e) (trim t), SendReply (the parent) (trim t) also, SendToChannel (trim t)}"
  by (auto simp: composeRequest_def Let_def split: if_splits)

text \<open>A failed request leaves the text.\<close>

lemma failed_keeps_text: "mc_text (composeFailed (handleSend e parent also s)) = mc_text s"
  by (simp add: mobile_composer_defs split: option.split)

text \<open>The content of an edited message is loaded once: what the user has typed since is not overwritten.\<close>

lemma loaded_once: "mc_editLoaded s = e \<Longrightarrow> loadEdit e content s = s"
  by (simp add: loadEdit_def split: option.split)

text \<open>What is typed while a message is being sent is lost when the answer arrives.\<close>

theorem send_loses_typed_text:
  assumes "trim (mc_text s) \<noteq> []" "\<not> truthy e"
  shows "mc_text (fst (composeSucceeded (changeText t (handleSend e parent also s), e))) = []"
  using assms by (auto simp: mobile_composer_defs Let_def)

section \<open>Properties\<close>

text \<open>Editing a reply in a thread of the mobile app overwrites the draft of the channel below: its
  composer loads the reply as well, and when the edit has been saved it keeps the old text of the
  reply as its draft, which the next press on its send button posts as a new message of the channel.
\<close>

theorem thread_edit_replaces_draft:
  assumes "ms_editing s = None" "mc_sending (ms_thread s) = None" "i \<noteq> []" "loaded i = Some old"
    and "mc_editLoaded (ms_channel s) \<noteq> Some i" "mc_editLoaded (ms_thread s) \<noteq> Some i"
    and "trim new \<noteq> []" "trim old \<noteq> []" "length new \<le> MAX_LENGTH"
  shows "let s1 = renderScreens loaded (editReply i s);
             s2 = renderScreens loaded (onThread (\<lambda>(c, e). (handleSend e parent also (changeText new c), e)) s1);
             s3 = renderScreens loaded (onThread composeSucceeded s2)
         in mc_sending (ms_thread s2) = Some (UpdateMessage i (trim new)) \<and>
            ms_editing s3 = None \<and> mc_text (ms_thread s3) = [] \<and> mc_text (ms_channel s3) = old \<and>
            composeRequest (ms_editing s3) None False (mc_text (ms_channel s3)) = Some (SendToChannel (trim old))"
proof -
  define s1 where "s1 = renderScreens loaded (editReply i s)"
  define s2 where "s2 = renderScreens loaded (onThread (\<lambda>(c, e). (handleSend e parent also (changeText new c), e)) s1)"
  define s3 where "s3 = renderScreens loaded (onThread composeSucceeded s2)"
  have s1: "ms_editing s1 = Some i" "mc_text (ms_channel s1) = old" "mc_editLoaded (ms_channel s1) = Some i"
      "mc_editLoaded (ms_thread s1) = Some i" "mc_sending (ms_thread s1) = None"
    using assms(2-6) by (simp_all add: s1_def mobile_composer_defs Let_def)
  then have s2: "ms_editing s2 = Some i" "mc_text (ms_channel s2) = old" "mc_editLoaded (ms_channel s2) = Some i"
      "mc_sending (ms_thread s2) = Some (UpdateMessage i (trim new))"
    using assms(3,4,7,9) by (simp_all add: s2_def mobile_composer_defs Let_def)
  then have "ms_editing s3 = None" "mc_text (ms_thread s3) = []" "mc_text (ms_channel s3) = old"
    by (simp_all add: s3_def mobile_composer_defs Let_def)
  with s2(4) assms(8) show ?thesis
    unfolding s1_def [symmetric] s2_def [symmetric] s3_def [symmetric] Let_def by (simp add: composeRequest_def)
qed

theorem thread_edit_replaces_draft_witness:
  "\<exists>(s :: mobile_screens) (t :: mobile_screens). mc_text (ms_channel s) = js ''my draft'' \<and> mc_text (ms_channel t) = js ''old'' \<and> ms_editing t = None"
proof -
  let ?s = "\<lparr>ms_channel = changeText (js ''my draft'') new_mobile_composer, ms_thread = new_mobile_composer, ms_editing = None\<rparr>"
  have "ms_editing ?s = None" "mc_sending (ms_thread ?s) = None" "js ''r'' \<noteq> []"
      "(\<lambda>_. Some (js ''old'')) (js ''r'') = Some (js ''old'')"
      "mc_editLoaded (ms_channel ?s) \<noteq> Some (js ''r'')" "mc_editLoaded (ms_thread ?s) \<noteq> Some (js ''r'')"
    and "trim (js ''new'') \<noteq> []" "trim (js ''old'') \<noteq> []" "length (js ''new'') \<le> MAX_LENGTH"
    by (simp_all add: new_mobile_composer_def changeText_def trim_def is_ws_def js_eval MAX_LENGTH_def)
  from thread_edit_replaces_draft [OF this, of "Some (js ''p'')" False]
  have "\<exists>t :: mobile_screens. mc_text (ms_channel t) = js ''old'' \<and> ms_editing t = None"
    unfolding Let_def by blast
  moreover have "mc_text (ms_channel ?s) = js ''my draft''"
    by (simp add: changeText_def new_mobile_composer_def MAX_LENGTH_def)
  ultimately show ?thesis by blast
qed

end
