(* ===== verification/PaletteView.thy ===== *)
theory PaletteView
  imports CommandPalette Machines "HOL-Library.Multiset"
begin

text \<open>
  The dialog of the command palette
  (\<open>apps/web/src/components/command-palette/CommandPalette.tsx\<close>): the sections, the selected item
  under the keyboard and the pointer, and what executing an item does. The states set during a
  render lead to another pass over the component before anything is shown (\<open>renderPass\<close>).
\<close>

section \<open>Sections\<close>

record palette_section =
  ps_section :: jsstring
  ps_sectionItems :: "palette_item list"
  ps_hideSectionHeader :: bool

definition SECTION_ORDER :: "jsstring list" where
  "SECTION_ORDER = map js [''Search'', ''Recent'', ''Channels'', ''Direct Messages'', ''People'', ''Actions'']"

text \<open>The map from sections to their items, in the order of insertion.\<close>

fun addToBucket :: "palette_item \<Rightarrow> (jsstring \<times> palette_item list) list \<Rightarrow> (jsstring \<times> palette_item list) list" where
  "addToBucket item [] = [(pi_section item, [item])]"
| "addToBucket item ((s, bucket) # rest) =
     (if s = pi_section item then (s, bucket @ [item]) # rest else (s, bucket) # addToBucket item rest)"

definition itemBuckets :: "palette_item list \<Rightarrow> (jsstring \<times> palette_item list) list" where
  "itemBuckets items = fold addToBucket items []"

definition groupBySection :: "palette_item list \<Rightarrow> palette_section list" where
  "groupBySection items =
     (let buckets = itemBuckets items
      in List.map_filter (\<lambda>section.
             case map_of buckets section of
               Some sectionItems \<Rightarrow>
                 if length sectionItems > 0
                 then Some \<lparr>ps_section = section, ps_sectionItems = sectionItems,
                   ps_hideSectionHeader = (section = js ''Search'')\<rparr>
                 else None
             | None \<Rightarrow> None) SECTION_ORDER @
         List.map_filter (\<lambda>(section, sectionItems).
             if length sectionItems > 0
             then Some \<lparr>ps_section = section, ps_sectionItems = sectionItems, ps_hideSectionHeader = False\<rparr>
             else None) (filter (\<lambda>(section, _). section \<notin> set SECTION_ORDER) buckets))"

definition orderedItems :: "palette_item list \<Rightarrow> palette_item list" where
  "orderedItems rawItems = concat (map ps_sectionItems (groupBySection rawItems))"

section \<open>The dialog\<close>

record palette_view =
  pv_query :: jsstring
  pv_selectedIndex :: int
  pv_prevIsOpen :: bool
  pv_prevItemsLength :: nat
  pv_items :: "palette_item list"

definition new_palette :: palette_view where
  "new_palette = \<lparr>pv_query = [], pv_selectedIndex = 0, pv_prevIsOpen = False, pv_prevItemsLength = 0, pv_items = []\<rparr>"

text \<open>
  One pass over the component: \<open>source\<close> gives the items for a query. A pass that sets no state is
  the last one.
\<close>

definition renderPass :: "(jsstring \<Rightarrow> palette_item list) \<Rightarrow> bool \<Rightarrow> palette_view \<Rightarrow> palette_view" where
  "renderPass source isOpen s =
     (let items = orderedItems (source (pv_query s));
          s1 = (if isOpen \<and> \<not> pv_prevIsOpen s then s\<lparr>pv_query := [], pv_selectedIndex := 0\<rparr> else s);
          s2 = s1\<lparr>pv_prevIsOpen := isOpen, pv_items := items\<rparr>
      in if length items \<noteq> pv_prevItemsLength s
         then s2\<lparr>pv_prevItemsLength := length items,
           pv_selectedIndex := (if length items > 0 \<and> pv_selectedIndex s \<ge> int (length items)
             then int (length items) - 1 else pv_selectedIndex s2)\<rparr>
         else s2)"

definition renderPalette :: "(jsstring \<Rightarrow> palette_item list) \<Rightarrow> bool \<Rightarrow> palette_view \<Rightarrow> palette_view" where
  "renderPalette source isOpen s = renderPass source isOpen (renderPass source isOpen (renderPass source isOpen s))"

datatype palette_key = ArrowDown | TabKey | ShiftTab | ArrowUp | EnterKey | OtherKey

definition selectNext :: "palette_view \<Rightarrow> palette_view" where
  "selectNext s =
     s\<lparr>pv_selectedIndex := (if pv_selectedIndex s \<ge> int (length (pv_items s)) - 1 then 0 else pv_selectedIndex s + 1)\<rparr>"

definition selectPrevious :: "palette_view \<Rightarrow> palette_view" where
  "selectPrevious s =
     s\<lparr>pv_selectedIndex := (if pv_selectedIndex s \<le> 0 then int (length (pv_items s)) - 1 else pv_selectedIndex s - 1)\<rparr>"

text \<open>The item at the selected index, \<open>None\<close> out of range.\<close>

definition selectedItem :: "palette_view \<Rightarrow> palette_item option" where
  "selectedItem s =
     (if 0 \<le> pv_selectedIndex s \<and> pv_selectedIndex s < int (length (pv_items s))
      then Some (pv_items s ! nat (pv_selectedIndex s)) else None)"

text \<open>The new state and the item that is executed, if any.\<close>

fun handleKeyDown :: "palette_key \<Rightarrow> palette_view \<Rightarrow> palette_view \<times> palette_item option" where
  "handleKeyDown ArrowDown s = (selectNext s, None)"
| "handleKeyDown TabKey s = (selectNext s, None)"
| "handleKeyDown ShiftTab s = (selectPrevious s, None)"
| "handleKeyDown ArrowUp s = (selectPrevious s, None)"
| "handleKeyDown EnterKey s = (s, selectedItem s)"
| "handleKeyDown OtherKey s = (s, None)"

definition changeQuery :: "jsstring \<Rightarrow> palette_view \<Rightarrow> palette_view" where
  "changeQuery q s = s\<lparr>pv_query := q, pv_selectedIndex := 0\<rparr>"

text \<open>Moving the pointer over the item shown at an index.\<close>

definition hoverItem :: "nat \<Rightarrow> palette_view \<Rightarrow> palette_view" where
  "hoverItem i s = (if i < length (pv_items s) then s\<lparr>pv_selectedIndex := int i\<rparr> else s)"

section \<open>Executing an item\<close>

datatype palette_effect =
    CloseEffect
  | NavigateTo jsstring
  | OpenProfile jsstring
  | OpenSearch "jsstring option"
  | CreateChannelDialog
  | NewDmDialog
  | OpenSettings jsstring "jsstring option"

text \<open>\<open>`/workspaces/${workspaceId}/...`\<close>\<close>

definition workspacePath :: "jsstring option \<Rightarrow> jsstring \<Rightarrow> jsstring" where
  "workspacePath workspaceId rest =
     js ''/workspaces/'' @ (case workspaceId of Some w \<Rightarrow> w | None \<Rightarrow> js ''undefined'') @ js ''/'' @ rest"

definition executeAction :: "jsstring option \<Rightarrow> jsstring \<Rightarrow> jsstring \<Rightarrow> palette_effect list" where
  "executeAction workspaceId query key =
     (if key = js ''search'' then [OpenSearch None]
      else if key = js ''search-query'' then [OpenSearch (Some (trim query))]
      else if key = js ''create-channel'' then [CreateChannelDialog]
      else if key = js ''new-dm'' then [NewDmDialog]
      else if key = js ''unreads'' then [NavigateTo (workspacePath workspaceId (js ''unreads''))]
      else if key = js ''threads'' then [NavigateTo (workspacePath workspaceId (js ''threads''))]
      else if key = js ''scheduled'' then [NavigateTo (workspacePath workspaceId (js ''scheduled''))]
      else if key = js ''workspace-settings''
      then (if truthy workspaceId then [OpenSettings (the workspaceId) None] else [])
      else if key = js ''invite''
      then (if truthy workspaceId then [OpenSettings (the workspaceId) (Some (js ''invite''))] else [])
      else [])"

definition executeItem :: "jsstring option \<Rightarrow> jsstring \<Rightarrow> palette_item \<Rightarrow> palette_effect list" where
  "executeItem workspaceId query item =
     CloseEffect #
     (case (pi_type item, pi_channel item, pi_member item) of
        (ChannelItem, Some c, _) \<Rightarrow> [NavigateTo (workspacePath workspaceId (js ''channels/'' @ ch_id c))]
      | (PersonItem, _, Some m) \<Rightarrow> [OpenProfile (mem_user_id m)]
      | (ActionItem, _, _) \<Rightarrow>
          (if truthy (pi_actionKey item) then executeAction workspaceId query (the (pi_actionKey item)) else [])
      | _ \<Rightarrow> [])"

section \<open>Facts about sections\<close>

abbreviation inSection :: "palette_item list \<Rightarrow> jsstring \<Rightarrow> palette_item list" where
  "inSection items s \<equiv> filter (\<lambda>i. pi_section i = s) items"

lemma addToBucket_map_of:
  "map_of (addToBucket i b) s = (if s = pi_section i then Some (or_empty (map_of b s) @ [i]) else map_of b s)"
  by (induction b) auto

lemma addToBucket_keys:
  "map fst (addToBucket i b) = (if pi_section i \<in> fst ` set b then map fst b else map fst b @ [pi_section i])"
  by (induction b) (auto simp: image_iff; force)+

lemma buckets:
  "distinct (map fst (itemBuckets items)) \<and> set (map fst (itemBuckets items)) = pi_section ` set items \<and>
   map_of (itemBuckets items) s = (if inSection items s = [] then None else Some (inSection items s))"
proof (induction items rule: rev_induct)
  case (snoc i items)
  have step: "itemBuckets (items @ [i]) = addToBucket i (itemBuckets items)" by (simp add: itemBuckets_def)
  from snoc show ?case
    unfolding step addToBucket_map_of addToBucket_keys by auto
qed (simp add: itemBuckets_def)

lemma map_filter_concat:
  "concat (map f (List.map_filter g xs)) = concat (map (\<lambda>x. case g x of None \<Rightarrow> [] | Some y \<Rightarrow> f y) xs)"
  by (induction xs) (simp_all add: List.map_filter_simps split: option.split)

text \<open>The sections in their order, then the others as they first appear.\<close>

lemma ordered_by_section:
  "orderedItems items =
     concat (map (inSection items) (SECTION_ORDER @ filter (\<lambda>s. s \<notin> set SECTION_ORDER) (map fst (itemBuckets items))))"
proof -
  have sec: "map_of (itemBuckets items) s = (if inSection items s = [] then None else Some (inSection items s))" for s
    using buckets by blast
  have "snd x = inSection items (fst x)" if "x \<in> set (itemBuckets items)" for x
    using buckets [of items "fst x"] map_of_is_SomeI [of "itemBuckets items" "fst x" "snd x"] that
    by (auto split: if_splits)
  then have rest: "concat (map (\<lambda>x. case (case x of (s, b) \<Rightarrow>
            if length b > 0 then Some \<lparr>ps_section = s, ps_sectionItems = b, ps_hideSectionHeader = False\<rparr> else None) of
          None \<Rightarrow> [] | Some y \<Rightarrow> ps_sectionItems y) (filter (\<lambda>(s, _). s \<notin> set SECTION_ORDER) (itemBuckets items))) =
      concat (map (inSection items) (filter (\<lambda>s. s \<notin> set SECTION_ORDER) (map fst (itemBuckets items))))"
    by (auto simp: filter_map comp_def case_prod_unfold intro!: arg_cong [where f = concat] map_cong)
  have "concat (map (\<lambda>s. case (case map_of (itemBuckets items) s of
            Some b \<Rightarrow> if length b > 0 then Some \<lparr>ps_section = s, ps_sectionItems = b, ps_hideSectionHeader = (s = js ''Search'')\<rparr> else None
          | None \<Rightarrow> None) of None \<Rightarrow> [] | Some y \<Rightarrow> ps_sectionItems y) ks) = concat (map (inSection items) ks)" for ks
    by (auto simp: sec intro!: arg_cong [where f = concat] map_cong)
  with rest show ?thesis
    by (simp add: orderedItems_def groupBySection_def Let_def map_filter_concat)
qed

lemma mset_partition:
  "distinct ks \<Longrightarrow> f ` set xs \<subseteq> set ks \<Longrightarrow> mset (concat (map (\<lambda>k. filter (\<lambda>x. f x = k) xs) ks)) = mset xs"
proof (induction ks arbitrary: xs)
  case (Cons k ks)
  let ?r = "filter (\<lambda>x. f x \<noteq> k) xs"
  have "filter (\<lambda>x. f x = k') ?r = filter (\<lambda>x. f x = k') xs" if "k' \<in> set ks" for k'
    using Cons.prems(1) that by (auto intro!: filter_cong)
  then have "concat (map (\<lambda>k'. filter (\<lambda>x. f x = k') xs) ks) = concat (map (\<lambda>k'. filter (\<lambda>x. f x = k') ?r) ks)"
    by (metis (mono_tags, lifting) map_cong)
  moreover have "mset (concat (map (\<lambda>k'. filter (\<lambda>x. f x = k') ?r) ks)) = mset ?r"
    using Cons.prems by (intro Cons.IH) auto
  moreover have "mset (filter (\<lambda>x. f x = k) xs) + mset ?r = mset xs"
    by (metis mset_filter multiset_partition)
  ultimately show ?case by (simp only: list.map concat.simps mset_append)
qed simp

text \<open>Grouping loses no item and repeats none.\<close>

lemma grouping_complete: "mset (orderedItems items) = mset items"
  unfolding ordered_by_section
  using buckets [of items] by (intro mset_partition) (auto simp: SECTION_ORDER_def)

lemma grouping_length [simp]: "length (orderedItems items) = length items"
  by (metis grouping_complete size_mset)

text \<open>Items that come section by section keep their order.\<close>

lemma grouping_keeps_order:
  assumes "items = concat (map f SECTION_ORDER)" "\<And>s i. i \<in> set (f s) \<Longrightarrow> pi_section i = s"
  shows "orderedItems items = items"
proof -
  have "inSection (f k) s = (if k = s then f s else [])" for k s
    using assms(2) by (auto simp: filter_empty_conv intro!: filter_True)
  then have "inSection items s = (if s \<in> set SECTION_ORDER then f s else [])" for s
    unfolding assms(1) by (simp add: SECTION_ORDER_def filter_concat)
  moreover have "pi_section ` set items \<subseteq> set SECTION_ORDER"
    using assms by auto
  then have "filter (\<lambda>s. s \<notin> set SECTION_ORDER) (map fst (itemBuckets items)) = []"
    using buckets [of items] by (auto simp: filter_empty_conv)
  ultimately show ?thesis
    unfolding ordered_by_section by (simp only: append_Nil2 assms(1) cong: map_cong) simp
qed

text \<open>The items of a query come section by section, so grouping them changes nothing.\<close>

lemma matches_section:
  "i \<in> set (channelMatches lower q dms chans) \<Longrightarrow> pi_section i = (if dms then js ''Direct Messages'' else js ''Channels'')"
  "i \<in> set (personMatches lower q u shown members) \<Longrightarrow> pi_section i = js ''People''"
  "i \<in> set (actionMatches lower q modKey allowed) \<Longrightarrow> pi_section i = js ''Actions''"
  by (auto simp: channelMatches_def personMatches_def actionMatches_def map_filter_mem
    channelToItem_def personToItem_def actionToItem_def dest!: scored_Some)

lemma recent_section:
  "i \<in> set (recentItems chans is items) \<Longrightarrow> (\<forall>x \<in> set items. pi_section x = js ''Recent'') \<Longrightarrow> pi_section i = js ''Recent''"
  by (induction chans "is" items rule: recentItems.induct)
    (auto split: option.splits if_splits simp: channelToItem_def)

lemma filtered_order:
  "orderedItems (buildFilteredItems lower modKey q chans members u allowed) =
     buildFilteredItems lower modKey q chans members u allowed"
proof (rule grouping_keeps_order)
  let ?f = "\<lambda>s. if s = js ''Search'' then [searchItem q]
    else if s = js ''Channels'' then byScoreDesc (channelMatches lower q False chans)
    else if s = js ''Direct Messages'' then byScoreDesc (channelMatches lower q True chans)
    else if s = js ''People'' then byScoreDesc (personMatches lower q u (dmUserIds (channelMatches lower q True chans)) members)
    else if s = js ''Actions'' then byScoreDesc (actionMatches lower q modKey allowed) else []"
  show "buildFilteredItems lower modKey q chans members u allowed = concat (map ?f SECTION_ORDER)"
    by (simp add: buildFilteredItems_def Let_def SECTION_ORDER_def)
  show "i \<in> set (?f s) \<Longrightarrow> pi_section i = s" for s i
    by (auto split: if_splits simp: searchItem_def dest: matches_section)
qed

lemma empty_order:
  "orderedItems (buildEmptyQueryItems modKey store chans allowed w) = buildEmptyQueryItems modKey store chans allowed w"
proof (rule grouping_keeps_order)
  let ?r = "case w of Some w \<Rightarrow> if w \<noteq> [] then recentItems chans (getRecentChannels w store) [] else [] | None \<Rightarrow> []"
  let ?f = "\<lambda>s. if s = js ''Recent'' then ?r
    else if s = js ''Actions'' then map (\<lambda>a. actionToItem a (js ''Actions'') 0) (filter allowed (ACTIONS modKey)) else []"
  show "buildEmptyQueryItems modKey store chans allowed w = concat (map ?f SECTION_ORDER)"
    by (simp add: buildEmptyQueryItems_def SECTION_ORDER_def)
  show "i \<in> set (?f s) \<Longrightarrow> pi_section i = s" for s i
    by (auto split: if_splits option.splits simp: actionToItem_def dest: recent_section)
qed

lemma palette_order:
  "orderedItems (useCommandPaletteItems lower modKey store w chans members ws user workspaces q) =
     useCommandPaletteItems lower modKey store w chans members ws user workspaces q"
  by (simp add: useCommandPaletteItems_def Let_def filtered_order empty_order)

text \<open>There always is an item: the search for the query, or the action to search.\<close>

lemma palette_nonempty: "useCommandPaletteItems lower modKey store w chans members ws user workspaces q \<noteq> []"
proof -
  have "\<exists>a \<in> set (ACTIONS modKey). actionFilter role st a" for role st
    by (rule bexI [where x = "\<lparr>ac_key = js ''search'', ac_label = js ''Search messages'', ac_shortcut = Some (modKey @ js ''+Shift+F'')\<rparr>"])
      (simp_all add: actionFilter_def ACTIONS_def)
  then show ?thesis
    by (simp add: useCommandPaletteItems_def Let_def buildFilteredItems_def buildEmptyQueryItems_def filter_empty_conv)
qed

section \<open>Facts about the dialog\<close>

text \<open>What holds after a render, and before the next one.\<close>

definition index_ok :: "palette_view \<Rightarrow> bool" where
  "index_ok s \<longleftrightarrow> 0 \<le> pv_selectedIndex s \<and> pv_selectedIndex s \<le> int (pv_prevItemsLength s) \<and>
     (pv_prevItemsLength s > 0 \<longrightarrow> pv_selectedIndex s < int (pv_prevItemsLength s))"

definition palette_ok :: "palette_view \<Rightarrow> bool" where
  "palette_ok s \<longleftrightarrow> index_ok s \<and> pv_prevItemsLength s = length (pv_items s)"

lemma renderPass_ok: "index_ok s \<Longrightarrow> (\<And>q. source q \<noteq> []) \<Longrightarrow> palette_ok (renderPass source isOpen s)"
  by (auto simp: renderPass_def palette_ok_def index_ok_def Let_def)

lemma renderPass_opened [simp]:
  "pv_prevIsOpen (renderPass source isOpen s) = isOpen"
  "pv_query (renderPass source isOpen s) = (if isOpen \<and> \<not> pv_prevIsOpen s then [] else pv_query s)"
  by (simp_all add: renderPass_def Let_def)

lemma renderPass_done:
  "pv_prevIsOpen s = isOpen \<Longrightarrow> pv_prevItemsLength s = length (source (pv_query s)) \<Longrightarrow>
     pv_items s = orderedItems (source (pv_query s)) \<Longrightarrow> renderPass source isOpen s = s"
  by (simp add: renderPass_def Let_def)

text \<open>Three passes are enough: the third one finds nothing to change.\<close>

theorem render_settles: "renderPass source isOpen (renderPalette source isOpen s) = renderPalette source isOpen s"
proof -
  let ?p = "renderPass source isOpen"
  have shown: "pv_prevIsOpen t = isOpen \<Longrightarrow> pv_query (?p t) = pv_query t" for t by simp
  have len: "pv_prevItemsLength (?p t) = length (source (pv_query t))" "pv_items (?p t) = orderedItems (source (pv_query t))" for t
    by (auto simp: renderPass_def Let_def)
  have "?p (?p (?p t)) = ?p (?p t)" for t
    using shown [of "?p t"] len [of "?p t"] by (intro renderPass_done) simp_all
  then show ?thesis by (simp add: renderPalette_def)
qed

lemma render_ok: "index_ok s \<Longrightarrow> (\<And>q. source q \<noteq> []) \<Longrightarrow> palette_ok (renderPalette source isOpen s)"
  unfolding renderPalette_def by (meson palette_ok_def renderPass_ok)

lemma render_shows:
  assumes "\<And>q. source q \<noteq> []"
  shows "pv_items (renderPalette source isOpen s) \<noteq> []"
proof -
  have "pv_items (renderPass source isOpen t) = orderedItems (source (pv_query t))" for t
    by (simp add: renderPass_def Let_def)
  then show ?thesis using assms by (metis renderPalette_def grouping_length length_0_conv)
qed

section \<open>The dialog in use\<close>

text \<open>A callback and the render after it; the data of the items and the property \<open>isOpen\<close> may change with any render.\<close>

inductive palette_step :: "palette_view \<Rightarrow> palette_view \<Rightarrow> bool" where
  press: "palette_step s (renderPalette
    (useCommandPaletteItems lower modKey store w chans members ws user workspaces) isOpen (fst (handleKeyDown k s)))"
| type_query: "palette_step s (renderPalette
    (useCommandPaletteItems lower modKey store w chans members ws user workspaces) isOpen (changeQuery q s))"
| hover: "palette_step s (renderPalette
    (useCommandPaletteItems lower modKey store w chans members ws user workspaces) isOpen (hoverItem i s))"
| rerender: "palette_step s (renderPalette
    (useCommandPaletteItems lower modKey store w chans members ws user workspaces) isOpen s)"

definition palette_start :: "palette_view \<Rightarrow> bool" where
  "palette_start s \<longleftrightarrow> (\<exists>lower modKey store w chans members ws user workspaces isOpen.
     s = renderPalette (useCommandPaletteItems lower modKey store w chans members ws user workspaces) isOpen new_palette)"

definition palette_inv :: "palette_view \<Rightarrow> bool" where
  "palette_inv s \<longleftrightarrow> palette_ok s \<and> pv_items s \<noteq> []"

lemma render_inv:
  "index_ok s \<Longrightarrow> palette_inv (renderPalette
     (useCommandPaletteItems lower modKey store w chans members ws user workspaces) isOpen s)"
  using render_ok render_shows palette_nonempty by (simp add: palette_inv_def)

lemma inv_index: "palette_inv s \<Longrightarrow> 0 \<le> pv_selectedIndex s \<and> pv_selectedIndex s < int (length (pv_items s))"
  by (auto simp: palette_inv_def palette_ok_def index_ok_def)

text \<open>The arrows go round the list.\<close>

lemma arrows_wrap:
  assumes "palette_inv s"
  shows "pv_selectedIndex (selectNext s) = (pv_selectedIndex s + 1) mod int (length (pv_items s))"
    and "pv_selectedIndex (selectPrevious s) = (pv_selectedIndex s - 1) mod int (length (pv_items s))"
proof -
  let ?n = "int (length (pv_items s))"
  have i: "0 \<le> pv_selectedIndex s" "pv_selectedIndex s < ?n" using inv_index [OF assms] by auto
  show "pv_selectedIndex (selectNext s) = (pv_selectedIndex s + 1) mod ?n"
  proof (cases "pv_selectedIndex s = ?n - 1")
    case False
    with i show ?thesis by (auto simp: selectNext_def)
  qed (simp add: selectNext_def)
  show "pv_selectedIndex (selectPrevious s) = (pv_selectedIndex s - 1) mod ?n"
  proof (cases "pv_selectedIndex s = 0")
    case True
    with i show ?thesis by (simp add: selectPrevious_def zmod_minus1)
  next
    case False
    with i show ?thesis by (auto simp: selectPrevious_def)
  qed
qed

lemma moves_ok:
  assumes "palette_inv s"
  shows "index_ok (fst (handleKeyDown k s))" "index_ok (changeQuery q s)" "index_ok (hoverItem i s)" "index_ok s"
proof -
  have s: "palette_ok s" "pv_items s \<noteq> []" using assms by (auto simp: palette_inv_def)
  then have "index_ok (selectNext s)" "index_ok (selectPrevious s)"
    by (auto simp: palette_ok_def index_ok_def selectNext_def selectPrevious_def simp flip: length_greater_0_conv)
  with s show "index_ok (fst (handleKeyDown k s))" by (cases k) (simp_all add: palette_ok_def)
  from s show "index_ok (changeQuery q s)" "index_ok (hoverItem i s)" "index_ok s"
    by (auto simp: palette_ok_def index_ok_def changeQuery_def hoverItem_def simp flip: length_greater_0_conv)
qed

lemma palette_inv_step: "palette_step s t \<Longrightarrow> palette_inv s \<Longrightarrow> palette_inv t"
  by (induction rule: palette_step.induct) (rule render_inv, erule moves_ok)+

interpretation palettes: machine palette_step palette_start palette_inv
proof
  show "palette_inv s" if "palette_start s" for s
    using that unfolding palette_start_def by (auto intro!: render_inv simp: index_ok_def new_palette_def)
qed (rule palette_inv_step)

section \<open>What the items do\<close>

lemma item_kinds:
  "pi_type (channelToItem c sec n) = ChannelItem" "pi_channel (channelToItem c sec n) = Some c"
  "pi_type (personToItem m d n) = PersonItem" "pi_member (personToItem m d n) = Some m"
  "pi_type (actionToItem a sec n) = ActionItem" "pi_actionKey (actionToItem a sec n) = Some (ac_key a)"
  "pi_type (searchItem q) = ActionItem" "pi_actionKey (searchItem q) = Some (js ''search-query'')"
  by (simp_all add: channelToItem_def personToItem_def actionToItem_def searchItem_def)

lemma executed:
  "executeItem w q (channelToItem c sec n) = [CloseEffect, NavigateTo (workspacePath w (js ''channels/'' @ ch_id c))]"
  "executeItem w q (personToItem m d n) = [CloseEffect, OpenProfile (mem_user_id m)]"
  "executeItem w q (searchItem t) = [CloseEffect, OpenSearch (Some (trim q))]"
  by (simp_all add: executeItem_def item_kinds executeAction_def split: option.split)

lemma action_executed:
  "a \<in> set (ACTIONS modKey) \<Longrightarrow> truthy w \<Longrightarrow> \<exists>e. executeItem w q (actionToItem a sec n) = [CloseEffect, e] \<and> e \<noteq> CloseEffect"
  by (auto simp: ACTIONS_def executeItem_def item_kinds executeAction_def split: option.split)

definition does_something :: "jsstring option \<Rightarrow> jsstring \<Rightarrow> palette_item \<Rightarrow> bool" where
  "does_something w q i \<longleftrightarrow> (\<exists>e. executeItem w q i = [CloseEffect, e] \<and> e \<noteq> CloseEffect)"

lemma recent_items_do:
  "i \<in> set (recentItems chans is items) \<Longrightarrow> (\<forall>x \<in> set items. does_something w q x) \<Longrightarrow> does_something w q i"
  by (induction chans "is" items rule: recentItems.induct)
    (auto split: option.splits if_splits simp: does_something_def executed)

lemma matches_do:
  assumes "truthy w"
  shows "i \<in> set (channelMatches lower t dms chans) \<Longrightarrow> does_something w q i"
    "i \<in> set (personMatches lower t u shown members) \<Longrightarrow> does_something w q i"
    "i \<in> set (actionMatches lower t modKey allowed) \<Longrightarrow> does_something w q i"
  using action_executed [OF _ assms] unfolding does_something_def
  by (fastforce simp: channelMatches_def personMatches_def actionMatches_def map_filter_mem executed dest!: scored_Some)+

lemma offered_do_something:
  assumes "truthy w" "i \<in> set (useCommandPaletteItems lower modKey store w chans members ws user workspaces q)"
  shows "does_something w q i"
proof -
  have "does_something w q (searchItem t)" for t by (simp add: does_something_def executed)
  moreover have "does_something w q (actionToItem a sec n)" if "a \<in> set (ACTIONS modKey)" for a sec n
    using action_executed [OF that assms(1)] by (simp add: does_something_def)
  ultimately show ?thesis
    using assms(2) by (auto simp: useCommandPaletteItems_def buildEmptyQueryItems_def buildFilteredItems_def Let_def
      split: if_splits option.splits intro: matches_do [OF assms(1)] recent_items_do)
qed

section \<open>Properties\<close>

text \<open>C28: Whatever keys are pressed, whatever is typed and however the items change, one of the items of the
  command palette is selected; pressing Enter executes this item, and the arrows select the next and the
  previous one, cyclically.
\<close>

theorem palette_selection_valid:
  assumes "reachable palette_step palette_start s"
  shows "\<exists>i < length (pv_items s). pv_selectedIndex s = int i \<and>
    handleKeyDown EnterKey s = (s, Some (pv_items s ! i)) \<and>
    pv_selectedIndex (fst (handleKeyDown ArrowDown s)) = int (Suc i mod length (pv_items s)) \<and>
    pv_selectedIndex (fst (handleKeyDown ArrowUp s)) = (int i - 1) mod int (length (pv_items s))"
proof -
  have inv: "palette_inv s" by (rule palettes.always [OF assms])
  from inv_index [OF this] obtain i where i: "pv_selectedIndex s = int i" "i < length (pv_items s)"
    by (metis nat_0_le nat_less_iff)
  then have "handleKeyDown EnterKey s = (s, Some (pv_items s ! i))" by (simp add: selectedItem_def)
  moreover have "pv_selectedIndex (fst (handleKeyDown ArrowDown s)) = int (Suc i mod length (pv_items s))"
    using arrows_wrap(1) [OF inv] i(1) by (simp add: zmod_int add.commute)
  ultimately show ?thesis
    using i arrows_wrap(2) [OF inv] by (intro exI [of _ i]) simp
qed

theorem palette_selection_valid_witness:
  "handleKeyDown EnterKey (renderPalette (useCommandPaletteItems (\<lambda>s. s) [] Map.empty None None None None None None) True new_palette)
     \<noteq> (new_palette, None)"
proof -
  let ?s = "renderPalette (useCommandPaletteItems (\<lambda>s. s) [] Map.empty None None None None None None) True new_palette"
  have "reachable palette_step palette_start ?s"
    unfolding palette_start_def by (intro reachable_start) blast
  from palette_selection_valid [OF this] show ?thesis by auto
qed

end
