(* ===== verification/ApiSchema.thy ===== *)
theory ApiSchema
  imports ApiRequests
begin

text \<open>
  The types of the generated schema (\<open>packages/api-client/generated/schema.ts\<close>, interface
  \<open>components\<close>), one definition per type under its name there with the prefix \<open>T_\<close>, and which JSON
  values have a type (\<open>fits\<close>). A type is a value of \<open>schema_type\<close>; it contains the types it refers to.
  TypeScript's \<open>string\<close> is any string: the formats in the comments (dates, e-mail addresses, binary data) are
  not part of the type.
\<close>

section \<open>Types and their values\<close>

datatype presence = Req | Opt

datatype schema_type =
    TString
  | TNumber
  | TBoolean
  | TUnknown
  | TNever
  | TLit "string list"
  | TArr schema_type
  | TDict schema_type
  | TObj "(string \<times> presence \<times> schema_type) list"
  | TUnion "schema_type list"

text \<open>The properties of an object type; an intersection \<open>A & B\<close> is the object type with those of both.\<close>

fun fields :: "schema_type \<Rightarrow> (string \<times> presence \<times> schema_type) list" where
  "fields (TObj fs) = fs"
| "fields _ = []"

definition knownFields :: "string list \<Rightarrow> (jsstring \<times> json) list \<Rightarrow> bool" where
  "knownFields names ps = (distinct (map fst ps) \<and> list_all (\<lambda>(k, _). k \<in> js ` set names) ps)"

text \<open>
  \<open>fits t v\<close>: the value has the type, and its objects have no properties but those of the type.
\<close>

primrec fits :: "schema_type \<Rightarrow> json \<Rightarrow> bool" where
  "fits TString = (\<lambda>v. case v of JStr _ \<Rightarrow> True | _ \<Rightarrow> False)"
| "fits TNumber = (\<lambda>v. case v of JNum _ \<Rightarrow> True | _ \<Rightarrow> False)"
| "fits TBoolean = (\<lambda>v. case v of JBool _ \<Rightarrow> True | _ \<Rightarrow> False)"
| "fits TUnknown = (\<lambda>v. True)"
| "fits TNever = (\<lambda>v. False)"
| "fits (TLit names) = (\<lambda>v. case v of JStr s \<Rightarrow> s \<in> js ` set names | _ \<Rightarrow> False)"
| "fits (TArr t) = (\<lambda>v. case v of JArr vs \<Rightarrow> list_all (fits t) vs | _ \<Rightarrow> False)"
| "fits (TDict t) = (\<lambda>v. case v of JObj ps \<Rightarrow> list_all (\<lambda>p. fits t (snd p)) ps | _ \<Rightarrow> False)"
| "fits (TObj fs) =
     (\<lambda>v. case v of
        JObj ps \<Rightarrow> knownFields (map fst fs) ps \<and>
          list_all (\<lambda>(k, pr, ok). case map_of ps (js k) of None \<Rightarrow> pr = Opt | Some w \<Rightarrow> ok w)
            (map (map_prod id (map_prod id fits)) fs)
      | _ \<Rightarrow> False)"
| "fits (TUnion ts) = (\<lambda>v. list_ex (\<lambda>ok. ok v) (map fits ts))"

section \<open>The types\<close>

definition T_UserProfile :: "schema_type" where
  "T_UserProfile =
     TObj [(''id'', Req, TString), (''display_name'', Req, TString), (''avatar_url'', Opt, TString),
     (''gravatar_url'', Opt, TString), (''status'', Req, TString), (''created_at'', Req, TString)]"

definition T_UpdateProfileInput :: "schema_type" where
  "T_UpdateProfileInput =
     TObj [(''display_name'', Opt, TString)]"

definition T_AvatarUploadResponse :: "schema_type" where
  "T_AvatarUploadResponse =
     TObj [(''avatar_url'', Req, TString)]"

definition T_WorkspaceIconUploadResponse :: "schema_type" where
  "T_WorkspaceIconUploadResponse =
     TObj [(''icon_url'', Req, TString)]"

definition T_User :: "schema_type" where
  "T_User =
     TObj [(''id'', Req, TString), (''email'', Req, TString), (''email_verified_at'', Opt, TString),
     (''display_name'', Req, TString), (''avatar_url'', Opt, TString), (''gravatar_url'', Opt, TString),
     (''status'', Req, TString), (''created_at'', Req, TString), (''updated_at'', Req, TString)]"

definition T_PermissionLevel :: "schema_type" where
  "T_PermissionLevel =
     TLit [''everyone'', ''members'', ''admins'']"

definition T_WorkspaceSettings :: "schema_type" where
  "T_WorkspaceSettings =
     TObj [(''show_join_leave_messages'', Req, TBoolean), (''who_can_create_channels'', Req,
     T_PermissionLevel), (''who_can_create_invites'', Req, T_PermissionLevel), (''who_can_pin_messages'', Req,
     T_PermissionLevel), (''who_can_manage_custom_emoji'', Req, T_PermissionLevel)]"

definition T_Workspace :: "schema_type" where
  "T_Workspace =
     TObj [(''id'', Req, TString), (''name'', Req, TString), (''icon_url'', Opt, TString), (''settings'', Req,
     TString), (''parsed_settings'', Opt, T_WorkspaceSettings), (''created_at'', Req, TString),
     (''updated_at'', Req, TString)]"

definition T_WorkspaceRole :: "schema_type" where
  "T_WorkspaceRole =
     TLit [''owner'', ''admin'', ''member'', ''guest'']"

definition T_WorkspaceSummary :: "schema_type" where
  "T_WorkspaceSummary =
     TObj [(''id'', Req, TString), (''name'', Req, TString), (''icon_url'', Opt, TString), (''role'', Req,
     T_WorkspaceRole), (''sort_order'', Opt, TNumber), (''ban'', Opt, TObj [(''reason'', Opt, TString),
     (''expires_at'', Opt, TString)])]"

definition T_WorkspaceNotificationSummary :: "schema_type" where
  "T_WorkspaceNotificationSummary =
     TObj [(''workspace_id'', Req, TString), (''unread_count'', Req, TNumber), (''notification_count'', Req,
     TNumber)]"

definition T_WorkspaceMembership :: "schema_type" where
  "T_WorkspaceMembership =
     TObj [(''id'', Req, TString), (''user_id'', Req, TString), (''workspace_id'', Req, TString),
     (''role'', Req, T_WorkspaceRole), (''display_name_override'', Opt, TString), (''created_at'', Req,
     TString), (''updated_at'', Req, TString)]"

definition T_WorkspaceMemberWithUser :: "schema_type" where
  "T_WorkspaceMemberWithUser =
     TObj (fields T_WorkspaceMembership @ [(''email'', Req, TString), (''display_name'', Req, TString),
     (''avatar_url'', Opt, TString), (''gravatar_url'', Opt, TString), (''is_banned'', Opt, TBoolean)])"

definition T_Invite :: "schema_type" where
  "T_Invite =
     TObj [(''id'', Req, TString), (''workspace_id'', Req, TString), (''code'', Req, TString),
     (''invited_email'', Opt, TString), (''role'', Req, T_WorkspaceRole), (''created_by'', Opt, TString),
     (''max_uses'', Opt, TNumber), (''use_count'', Req, TNumber), (''expires_at'', Opt, TString),
     (''created_at'', Req, TString)]"

definition T_ChannelType :: "schema_type" where
  "T_ChannelType =
     TLit [''public'', ''private'', ''dm'', ''group_dm'']"

definition T_Channel :: "schema_type" where
  "T_Channel =
     TObj [(''id'', Req, TString), (''workspace_id'', Req, TString), (''name'', Req, TString),
     (''description'', Opt, TString), (''type'', Req, T_ChannelType), (''is_default'', Req, TBoolean),
     (''dm_participant_hash'', Opt, TString), (''archived_at'', Opt, TString), (''created_by'', Opt, TString),
     (''created_at'', Req, TString), (''updated_at'', Req, TString)]"

definition T_ChannelRole :: "schema_type" where
  "T_ChannelRole =
     TLit [''admin'', ''poster'', ''viewer'']"

definition T_ChannelMember :: "schema_type" where
  "T_ChannelMember =
     TObj [(''user_id'', Req, TString), (''email'', Req, TString), (''display_name'', Req, TString),
     (''avatar_url'', Opt, TString), (''gravatar_url'', Opt, TString), (''channel_role'', Opt, T_ChannelRole)]"

definition T_ChannelWithMembership :: "schema_type" where
  "T_ChannelWithMembership =
     TObj (fields T_Channel @ [(''channel_role'', Opt, T_ChannelRole), (''last_read_message_id'', Opt,
     TString), (''unread_count'', Req, TNumber), (''notification_count'', Req, TNumber), (''is_starred'', Req,
     TBoolean), (''dm_participants'', Opt, TArr T_ChannelMember)])"

definition T_MessageType :: "schema_type" where
  "T_MessageType =
     TLit [''user'', ''system'']"

definition T_SystemEventType :: "schema_type" where
  "T_SystemEventType =
     TLit [''user_joined'', ''user_left'', ''user_added'', ''user_converted_channel'', ''channel_renamed'',
     ''channel_visibility_changed'', ''channel_description_updated'', ''message_pinned'',
     ''message_unpinned'']"

definition T_SystemEventData :: "schema_type" where
  "T_SystemEventData =
     TObj [(''event_type'', Req, T_SystemEventType), (''user_id'', Req, TString), (''user_display_name'', Req,
     TString), (''channel_name'', Req, TString), (''actor_id'', Opt, TString), (''actor_display_name'', Opt,
     TString), (''old_channel_name'', Opt, TString), (''channel_type'', Opt, TString), (''message_id'', Opt,
     TString)]"

definition T_Message :: "schema_type" where
  "T_Message =
     TObj [(''id'', Req, TString), (''channel_id'', Req, TString), (''user_id'', Opt, TString),
     (''content'', Req, TString), (''type'', Opt, T_MessageType), (''system_event'', Opt, T_SystemEventData),
     (''thread_parent_id'', Opt, TString), (''reply_count'', Req, TNumber), (''last_reply_at'', Opt, TString),
     (''edited_at'', Opt, TString), (''deleted_at'', Opt, TString), (''created_at'', Req, TString),
     (''updated_at'', Req, TString), (''also_send_to_channel'', Opt, TBoolean), (''pinned_at'', Opt, TString),
     (''pinned_by'', Opt, TString)]"

definition T_Reaction :: "schema_type" where
  "T_Reaction =
     TObj [(''id'', Req, TString), (''message_id'', Req, TString), (''user_id'', Req, TString),
     (''emoji'', Req, TString), (''created_at'', Req, TString)]"

definition T_ThreadParticipant :: "schema_type" where
  "T_ThreadParticipant =
     TObj [(''user_id'', Req, TString), (''display_name'', Opt, TString), (''avatar_url'', Opt, TString),
     (''gravatar_url'', Opt, TString)]"

definition T_Attachment :: "schema_type" where
  "T_Attachment =
     TObj [(''id'', Req, TString), (''filename'', Req, TString), (''content_type'', Req, TString),
     (''size_bytes'', Req, TNumber), (''url'', Req, TString), (''created_at'', Req, TString)]"

definition T_LinkPreview :: "schema_type" where
  "T_LinkPreview =
     TObj [(''url'', Req, TString), (''type'', Req, TLit [''external'', ''message'']), (''title'', Opt,
     TString), (''description'', Opt, TString), (''image_url'', Opt, TString), (''site_name'', Opt, TString),
     (''linked_message_id'', Opt, TString), (''linked_channel_id'', Opt, TString),
     (''linked_channel_name'', Opt, TString), (''linked_channel_type'', Opt, TString),
     (''message_author_id'', Opt, TString), (''message_author_name'', Opt, TString),
     (''message_author_avatar_url'', Opt, TString), (''message_author_gravatar_url'', Opt, TString),
     (''message_content'', Opt, TString), (''message_created_at'', Opt, TString)]"

definition T_MessageWithUser :: "schema_type" where
  "T_MessageWithUser =
     TObj (fields T_Message @ [(''user_display_name'', Opt, TString), (''user_avatar_url'', Opt, TString),
     (''user_gravatar_url'', Opt, TString), (''reactions'', Opt, TArr T_Reaction),
     (''thread_participants'', Opt, TArr T_ThreadParticipant), (''attachments'', Opt, TArr T_Attachment),
     (''link_preview'', Opt, T_LinkPreview)])"

definition T_ReactionSummary :: "schema_type" where
  "T_ReactionSummary =
     TObj [(''emoji'', Req, TString), (''count'', Req, TNumber), (''user_ids'', Req, TArr TString)]"

definition T_MessageListResult :: "schema_type" where
  "T_MessageListResult =
     TObj [(''messages'', Req, TArr T_MessageWithUser), (''has_more'', Req, TBoolean), (''has_newer'', Opt,
     TBoolean), (''next_cursor'', Opt, TString)]"

definition T_UnreadMessage :: "schema_type" where
  "T_UnreadMessage =
     TObj (fields T_MessageWithUser @ [(''channel_name'', Req, TString), (''channel_type'', Req,
     T_ChannelType)])"

definition T_UnreadMessagesResult :: "schema_type" where
  "T_UnreadMessagesResult =
     TObj [(''messages'', Req, TArr T_UnreadMessage), (''has_more'', Req, TBoolean), (''next_cursor'', Opt,
     TString)]"

definition T_SearchMessagesInput :: "schema_type" where
  "T_SearchMessagesInput =
     TObj [(''query'', Req, TString), (''channel_id'', Opt, TString), (''user_id'', Opt, TString),
     (''before'', Opt, TString), (''after'', Opt, TString), (''limit'', Req, TNumber), (''offset'', Req,
     TNumber)]"

definition T_SearchMessage :: "schema_type" where
  "T_SearchMessage =
     TObj (fields T_MessageWithUser @ [(''channel_name'', Req, TString), (''channel_type'', Req,
     T_ChannelType)])"

definition T_SearchMessagesResult :: "schema_type" where
  "T_SearchMessagesResult =
     TObj [(''messages'', Req, TArr T_SearchMessage), (''total_count'', Req, TNumber), (''has_more'', Req,
     TBoolean), (''query'', Req, TString)]"

definition T_ThreadMessage :: "schema_type" where
  "T_ThreadMessage =
     TObj (fields T_MessageWithUser @ [(''channel_name'', Req, TString), (''channel_type'', Req,
     T_ChannelType), (''has_new_replies'', Req, TBoolean)])"

definition T_ThreadListResult :: "schema_type" where
  "T_ThreadListResult =
     TObj [(''threads'', Req, TArr T_ThreadMessage), (''has_more'', Req, TBoolean), (''next_cursor'', Opt,
     TString), (''unread_thread_count'', Req, TNumber)]"

definition T_ApiError :: "schema_type" where
  "T_ApiError =
     TObj [(''code'', Req, TString), (''message'', Req, TString)]"

definition T_ApiErrorResponse :: "schema_type" where
  "T_ApiErrorResponse =
     TObj [(''error'', Req, T_ApiError)]"

definition T_CustomEmoji :: "schema_type" where
  "T_CustomEmoji =
     TObj [(''id'', Req, TString), (''workspace_id'', Req, TString), (''name'', Req, TString),
     (''created_by'', Req, TString), (''content_type'', Req, TString), (''size_bytes'', Req, TNumber),
     (''url'', Req, TString), (''created_at'', Req, TString)]"

definition T_SignedUrl :: "schema_type" where
  "T_SignedUrl =
     TObj [(''file_id'', Req, TString), (''url'', Req, TString), (''expires_at'', Req, TString)]"

definition T_ServerInfo :: "schema_type" where
  "T_ServerInfo =
     TObj [(''version'', Req, TString), (''email_enabled'', Opt, TBoolean), (''files_enabled'', Opt,
     TBoolean)]"

definition T_SuccessResponse :: "schema_type" where
  "T_SuccessResponse =
     TObj [(''success'', Req, TBoolean)]"

definition T_MarkReadResponse :: "schema_type" where
  "T_MarkReadResponse =
     TObj [(''last_read_message_id'', Req, TString)]"

definition T_ChannelReadEventData :: "schema_type" where
  "T_ChannelReadEventData =
     TObj [(''channel_id'', Req, TString), (''last_read_message_id'', Req, TString)]"

definition T_SSEEventType :: "schema_type" where
  "T_SSEEventType =
     TLit [''connected'', ''heartbeat'', ''message.new'', ''message.updated'', ''message.deleted'',
     ''reaction.added'', ''reaction.removed'', ''channel.created'', ''channel.updated'', ''channel.archived'',
     ''channel.member_added'', ''channel.member_removed'', ''channel.read'', ''typing.start'',
     ''typing.stop'', ''presence.changed'', ''presence.initial'', ''notification'', ''emoji.created'',
     ''emoji.deleted'', ''message.pinned'', ''message.unpinned'', ''member.banned'', ''member.unbanned'',
     ''member.left'', ''member.role_changed'', ''workspace.updated'', ''channels.invalidate'',
     ''scheduled_message.created'', ''scheduled_message.updated'', ''scheduled_message.deleted'',
     ''scheduled_message.sent'', ''scheduled_message.failed'']"

definition T_ConnectedData :: "schema_type" where
  "T_ConnectedData =
     TObj [(''client_id'', Req, TString)]"

definition T_SSEEventConnected :: "schema_type" where
  "T_SSEEventConnected =
     TObj [(''id'', Opt, TString), (''type'', Req, TLit [''connected'']), (''data'', Req, T_ConnectedData)]"

definition T_HeartbeatData :: "schema_type" where
  "T_HeartbeatData =
     TObj [(''timestamp'', Req, TNumber)]"

definition T_SSEEventHeartbeat :: "schema_type" where
  "T_SSEEventHeartbeat =
     TObj [(''id'', Opt, TString), (''type'', Req, TLit [''heartbeat'']), (''data'', Req, T_HeartbeatData)]"

definition T_SSEEventMessageNew :: "schema_type" where
  "T_SSEEventMessageNew =
     TObj [(''id'', Opt, TString), (''type'', Req, TLit [''message.new'']), (''data'', Req,
     T_MessageWithUser)]"

definition T_SSEEventMessageUpdated :: "schema_type" where
  "T_SSEEventMessageUpdated =
     TObj [(''id'', Opt, TString), (''type'', Req, TLit [''message.updated'']), (''data'', Req,
     T_MessageWithUser)]"

definition T_MessageDeletedData :: "schema_type" where
  "T_MessageDeletedData =
     TObj [(''id'', Req, TString), (''thread_parent_id'', Opt, TString)]"

definition T_SSEEventMessageDeleted :: "schema_type" where
  "T_SSEEventMessageDeleted =
     TObj [(''id'', Opt, TString), (''type'', Req, TLit [''message.deleted'']), (''data'', Req,
     T_MessageDeletedData)]"

definition T_SSEEventReactionAdded :: "schema_type" where
  "T_SSEEventReactionAdded =
     TObj [(''id'', Opt, TString), (''type'', Req, TLit [''reaction.added'']), (''data'', Req, T_Reaction)]"

definition T_ReactionRemovedData :: "schema_type" where
  "T_ReactionRemovedData =
     TObj [(''message_id'', Req, TString), (''user_id'', Req, TString), (''emoji'', Req, TString)]"

definition T_SSEEventReactionRemoved :: "schema_type" where
  "T_SSEEventReactionRemoved =
     TObj [(''id'', Opt, TString), (''type'', Req, TLit [''reaction.removed'']), (''data'', Req,
     T_ReactionRemovedData)]"

definition T_SSEEventChannelCreated :: "schema_type" where
  "T_SSEEventChannelCreated =
     TObj [(''id'', Opt, TString), (''type'', Req, TLit [''channel.created'']), (''data'', Req, T_Channel)]"

definition T_SSEEventChannelUpdated :: "schema_type" where
  "T_SSEEventChannelUpdated =
     TObj [(''id'', Opt, TString), (''type'', Req, TLit [''channel.updated'']), (''data'', Req, T_Channel)]"

definition T_SSEEventChannelArchived :: "schema_type" where
  "T_SSEEventChannelArchived =
     TObj [(''id'', Opt, TString), (''type'', Req, TLit [''channel.archived'']), (''data'', Req, T_Channel)]"

definition T_ChannelMemberData :: "schema_type" where
  "T_ChannelMemberData =
     TObj [(''channel_id'', Req, TString), (''user_id'', Req, TString)]"

definition T_SSEEventChannelMemberAdded :: "schema_type" where
  "T_SSEEventChannelMemberAdded =
     TObj [(''id'', Opt, TString), (''type'', Req, TLit [''channel.member_added'']), (''data'', Req,
     T_ChannelMemberData)]"

definition T_SSEEventChannelMemberRemoved :: "schema_type" where
  "T_SSEEventChannelMemberRemoved =
     TObj [(''id'', Opt, TString), (''type'', Req, TLit [''channel.member_removed'']), (''data'', Req,
     T_ChannelMemberData)]"

definition T_SSEEventChannelRead :: "schema_type" where
  "T_SSEEventChannelRead =
     TObj [(''id'', Opt, TString), (''type'', Req, TLit [''channel.read'']), (''data'', Req,
     T_ChannelReadEventData)]"

definition T_TypingEventData :: "schema_type" where
  "T_TypingEventData =
     TObj [(''user_id'', Req, TString), (''channel_id'', Req, TString), (''user_display_name'', Opt, TString)]"

definition T_SSEEventTypingStart :: "schema_type" where
  "T_SSEEventTypingStart =
     TObj [(''id'', Opt, TString), (''type'', Req, TLit [''typing.start'']), (''data'', Req,
     T_TypingEventData)]"

definition T_SSEEventTypingStop :: "schema_type" where
  "T_SSEEventTypingStop =
     TObj [(''id'', Opt, TString), (''type'', Req, TLit [''typing.stop'']), (''data'', Req,
     T_TypingEventData)]"

definition T_PresenceStatus :: "schema_type" where
  "T_PresenceStatus =
     TLit [''online'', ''offline'']"

definition T_PresenceData :: "schema_type" where
  "T_PresenceData =
     TObj [(''user_id'', Req, TString), (''status'', Req, T_PresenceStatus)]"

definition T_SSEEventPresenceChanged :: "schema_type" where
  "T_SSEEventPresenceChanged =
     TObj [(''id'', Opt, TString), (''type'', Req, TLit [''presence.changed'']), (''data'', Req,
     T_PresenceData)]"

definition T_PresenceInitialData :: "schema_type" where
  "T_PresenceInitialData =
     TObj [(''online_user_ids'', Req, TArr TString)]"

definition T_SSEEventPresenceInitial :: "schema_type" where
  "T_SSEEventPresenceInitial =
     TObj [(''id'', Opt, TString), (''type'', Req, TLit [''presence.initial'']), (''data'', Req,
     T_PresenceInitialData)]"

definition T_NotificationData :: "schema_type" where
  "T_NotificationData =
     TObj [(''type'', Req, TLit [''mention'', ''dm'', ''channel'', ''here'', ''everyone'', ''thread_reply'']),
     (''channel_id'', Req, TString), (''message_id'', Req, TString), (''channel_name'', Opt, TString),
     (''sender_name'', Opt, TString), (''preview'', Opt, TString), (''thread_parent_id'', Opt, TString)]"

definition T_SSEEventNotification :: "schema_type" where
  "T_SSEEventNotification =
     TObj [(''id'', Opt, TString), (''type'', Req, TLit [''notification'']), (''data'', Req,
     T_NotificationData)]"

definition T_SSEEventEmojiCreated :: "schema_type" where
  "T_SSEEventEmojiCreated =
     TObj [(''id'', Opt, TString), (''type'', Req, TLit [''emoji.created'']), (''data'', Req, T_CustomEmoji)]"

definition T_EmojiDeletedData :: "schema_type" where
  "T_EmojiDeletedData =
     TObj [(''id'', Req, TString), (''name'', Req, TString)]"

definition T_SSEEventEmojiDeleted :: "schema_type" where
  "T_SSEEventEmojiDeleted =
     TObj [(''id'', Opt, TString), (''type'', Req, TLit [''emoji.deleted'']), (''data'', Req,
     T_EmojiDeletedData)]"

definition T_ScheduledMessage :: "schema_type" where
  "T_ScheduledMessage =
     TObj [(''id'', Req, TString), (''channel_id'', Req, TString), (''channel_name'', Opt, TString),
     (''workspace_id'', Opt, TString), (''user_id'', Req, TString), (''content'', Req, TString),
     (''thread_parent_id'', Opt, TString), (''also_send_to_channel'', Opt, TBoolean),
     (''attachment_ids'', Opt, TArr TString), (''scheduled_for'', Req, TString), (''status'', Opt,
     TLit [''pending'', ''sending'', ''failed'']), (''last_error'', Opt, TString), (''created_at'', Req,
     TString), (''updated_at'', Req, TString)]"

definition T_SSEEventScheduledMessageCreated :: "schema_type" where
  "T_SSEEventScheduledMessageCreated =
     TObj [(''id'', Opt, TString), (''type'', Req, TLit [''scheduled_message.created'']), (''data'', Req,
     T_ScheduledMessage)]"

definition T_SSEEventScheduledMessageUpdated :: "schema_type" where
  "T_SSEEventScheduledMessageUpdated =
     TObj [(''id'', Opt, TString), (''type'', Req, TLit [''scheduled_message.updated'']), (''data'', Req,
     T_ScheduledMessage)]"

definition T_ScheduledMessageDeletedData :: "schema_type" where
  "T_ScheduledMessageDeletedData =
     TObj [(''id'', Req, TString)]"

definition T_SSEEventScheduledMessageDeleted :: "schema_type" where
  "T_SSEEventScheduledMessageDeleted =
     TObj [(''id'', Opt, TString), (''type'', Req, TLit [''scheduled_message.deleted'']), (''data'', Req,
     T_ScheduledMessageDeletedData)]"

definition T_ScheduledMessageSentData :: "schema_type" where
  "T_ScheduledMessageSentData =
     TObj [(''id'', Req, TString), (''channel_id'', Req, TString), (''message_id'', Req, TString)]"

definition T_SSEEventScheduledMessageSent :: "schema_type" where
  "T_SSEEventScheduledMessageSent =
     TObj [(''id'', Opt, TString), (''type'', Req, TLit [''scheduled_message.sent'']), (''data'', Req,
     T_ScheduledMessageSentData)]"

definition T_SSEEventMessagePinned :: "schema_type" where
  "T_SSEEventMessagePinned =
     TObj [(''id'', Opt, TString), (''type'', Req, TLit [''message.pinned'']), (''data'', Req,
     T_MessageWithUser)]"

definition T_SSEEventMessageUnpinned :: "schema_type" where
  "T_SSEEventMessageUnpinned =
     TObj [(''id'', Opt, TString), (''type'', Req, TLit [''message.unpinned'']), (''data'', Req,
     T_MessageWithUser)]"

definition T_WorkspaceMemberData :: "schema_type" where
  "T_WorkspaceMemberData =
     TObj [(''user_id'', Req, TString), (''workspace_id'', Req, TString)]"

definition T_SSEEventMemberBanned :: "schema_type" where
  "T_SSEEventMemberBanned =
     TObj [(''id'', Opt, TString), (''type'', Req, TLit [''member.banned'']), (''data'', Req,
     T_WorkspaceMemberData)]"

definition T_SSEEventMemberUnbanned :: "schema_type" where
  "T_SSEEventMemberUnbanned =
     TObj [(''id'', Opt, TString), (''type'', Req, TLit [''member.unbanned'']), (''data'', Req,
     T_WorkspaceMemberData)]"

definition T_SSEEventMemberLeft :: "schema_type" where
  "T_SSEEventMemberLeft =
     TObj [(''id'', Opt, TString), (''type'', Req, TLit [''member.left'']), (''data'', Req,
     T_WorkspaceMemberData)]"

definition T_MemberRoleChangedData :: "schema_type" where
  "T_MemberRoleChangedData =
     TObj [(''user_id'', Req, TString), (''old_role'', Req, TString), (''new_role'', Req, TString)]"

definition T_SSEEventMemberRoleChanged :: "schema_type" where
  "T_SSEEventMemberRoleChanged =
     TObj [(''id'', Opt, TString), (''type'', Req, TLit [''member.role_changed'']), (''data'', Req,
     T_MemberRoleChangedData)]"

definition T_SSEEventWorkspaceUpdated :: "schema_type" where
  "T_SSEEventWorkspaceUpdated =
     TObj [(''id'', Opt, TString), (''type'', Req, TLit [''workspace.updated'']), (''data'', Req,
     T_Workspace)]"

definition T_ScheduledMessageFailedData :: "schema_type" where
  "T_ScheduledMessageFailedData =
     TObj [(''id'', Req, TString), (''channel_id'', Req, TString), (''error'', Req, TString)]"

definition T_SSEEventScheduledMessageFailed :: "schema_type" where
  "T_SSEEventScheduledMessageFailed =
     TObj [(''id'', Opt, TString), (''type'', Req, TLit [''scheduled_message.failed'']), (''data'', Req,
     T_ScheduledMessageFailedData)]"

definition T_SSEEventChannelsInvalidate :: "schema_type" where
  "T_SSEEventChannelsInvalidate =
     TObj [(''id'', Opt, TString), (''type'', Req, TLit [''channels.invalidate'']), (''data'', Req,
     TDict TNever)]"

definition T_SSEEvent :: "schema_type" where
  "T_SSEEvent =
     TUnion [T_SSEEventConnected, T_SSEEventHeartbeat, T_SSEEventMessageNew, T_SSEEventMessageUpdated,
     T_SSEEventMessageDeleted, T_SSEEventReactionAdded, T_SSEEventReactionRemoved, T_SSEEventChannelCreated,
     T_SSEEventChannelUpdated, T_SSEEventChannelArchived, T_SSEEventChannelMemberAdded,
     T_SSEEventChannelMemberRemoved, T_SSEEventChannelRead, T_SSEEventTypingStart, T_SSEEventTypingStop,
     T_SSEEventPresenceChanged, T_SSEEventPresenceInitial, T_SSEEventNotification, T_SSEEventEmojiCreated,
     T_SSEEventEmojiDeleted, T_SSEEventScheduledMessageCreated, T_SSEEventScheduledMessageUpdated,
     T_SSEEventScheduledMessageDeleted, T_SSEEventScheduledMessageSent, T_SSEEventMessagePinned,
     T_SSEEventMessageUnpinned, T_SSEEventMemberBanned, T_SSEEventMemberUnbanned, T_SSEEventMemberLeft,
     T_SSEEventMemberRoleChanged, T_SSEEventWorkspaceUpdated, T_SSEEventScheduledMessageFailed,
     T_SSEEventChannelsInvalidate]"

definition T_ThreadSubscriptionStatus :: "schema_type" where
  "T_ThreadSubscriptionStatus =
     TLit [''subscribed'', ''unsubscribed'', ''none'']"

definition T_NotifyLevel :: "schema_type" where
  "T_NotifyLevel =
     TLit [''all'', ''mentions'', ''none'']"

definition T_NotificationPreferences :: "schema_type" where
  "T_NotificationPreferences =
     TObj [(''notify_level'', Req, T_NotifyLevel), (''email_enabled'', Req, TBoolean)]"

definition T_RegisterInput :: "schema_type" where
  "T_RegisterInput =
     TObj [(''email'', Req, TString), (''password'', Req, TString), (''display_name'', Req, TString)]"

definition T_LoginInput :: "schema_type" where
  "T_LoginInput =
     TObj [(''email'', Req, TString), (''password'', Req, TString)]"

definition T_AuthResponse :: "schema_type" where
  "T_AuthResponse =
     TObj [(''user'', Req, T_User), (''token'', Req, TString)]"

definition T_MeResponse :: "schema_type" where
  "T_MeResponse =
     TObj [(''user'', Req, T_User), (''workspaces'', Opt, TArr T_WorkspaceSummary)]"

definition T_RegisterDeviceTokenRequest :: "schema_type" where
  "T_RegisterDeviceTokenRequest =
     TObj [(''token'', Req, TString), (''platform'', Req, TLit [''fcm'', ''apns'']), (''device_id'', Req,
     TString)]"

definition T_RegisterDeviceTokenResponse :: "schema_type" where
  "T_RegisterDeviceTokenResponse =
     TObj [(''id'', Req, TString)]"

definition T_CreateWorkspaceInput :: "schema_type" where
  "T_CreateWorkspaceInput =
     TObj [(''name'', Req, TString)]"

definition T_UpdateWorkspaceInput :: "schema_type" where
  "T_UpdateWorkspaceInput =
     TObj [(''name'', Opt, TString), (''settings'', Opt, TObj [(''show_join_leave_messages'', Opt, TBoolean),
     (''who_can_create_channels'', Opt, T_PermissionLevel), (''who_can_create_invites'', Opt,
     T_PermissionLevel), (''who_can_pin_messages'', Opt, T_PermissionLevel),
     (''who_can_manage_custom_emoji'', Opt, T_PermissionLevel)])]"

definition T_CreateInviteInput :: "schema_type" where
  "T_CreateInviteInput =
     TObj [(''invited_email'', Opt, TString), (''role'', Req, T_WorkspaceRole), (''max_uses'', Opt, TNumber),
     (''expires_in_hours'', Opt, TNumber)]"

definition T_CreateDMInput :: "schema_type" where
  "T_CreateDMInput =
     TObj [(''user_ids'', Req, TArr TString)]"

definition T_ConvertGroupDMInput :: "schema_type" where
  "T_ConvertGroupDMInput =
     TObj [(''name'', Req, TString), (''description'', Opt, TString), (''type'', Req, TLit [''public'',
     ''private''])]"

definition T_CreateChannelInput :: "schema_type" where
  "T_CreateChannelInput =
     TObj [(''name'', Req, TString), (''description'', Opt, TString), (''type'', Req, T_ChannelType)]"

definition T_UpdateChannelInput :: "schema_type" where
  "T_UpdateChannelInput =
     TObj [(''name'', Opt, TString), (''description'', Opt, TString), (''type'', Opt, T_ChannelType)]"

definition T_SendMessageInput :: "schema_type" where
  "T_SendMessageInput =
     TObj [(''content'', Opt, TString), (''thread_parent_id'', Opt, TString), (''attachment_ids'', Opt,
     TArr TString), (''also_send_to_channel'', Opt, TBoolean)]"

definition T_ListMessagesInput :: "schema_type" where
  "T_ListMessagesInput =
     TObj [(''cursor'', Opt, TString), (''limit'', Opt, TNumber), (''direction'', Opt, TLit [''before'',
     ''after'', ''around''])]"

definition T_ReorderWorkspacesInput :: "schema_type" where
  "T_ReorderWorkspacesInput =
     TObj [(''workspace_ids'', Req, TArr TString)]"

definition T_ScheduleMessageInput :: "schema_type" where
  "T_ScheduleMessageInput =
     TObj [(''content'', Req, TString), (''scheduled_for'', Req, TString), (''thread_parent_id'', Opt,
     TString), (''also_send_to_channel'', Opt, TBoolean), (''attachment_ids'', Opt, TArr TString)]"

definition T_UpdateScheduledMessageInput :: "schema_type" where
  "T_UpdateScheduledMessageInput =
     TObj [(''content'', Opt, TString), (''scheduled_for'', Opt, TString), (''attachment_ids'', Opt,
     TArr TString)]"

definition T_BanUserInput :: "schema_type" where
  "T_BanUserInput =
     TObj [(''user_id'', Req, TString), (''reason'', Opt, TString), (''hide_messages'', Req, TBoolean),
     (''duration_hours'', Opt, TNumber)]"

definition T_Ban :: "schema_type" where
  "T_Ban =
     TObj [(''id'', Req, TString), (''workspace_id'', Req, TString), (''user_id'', Req, TString),
     (''banned_by'', Req, TString), (''reason'', Opt, TString), (''hide_messages'', Req, TBoolean),
     (''expires_at'', Opt, TString), (''created_at'', Req, TString)]"

definition T_BanWithUser :: "schema_type" where
  "T_BanWithUser =
     TObj (fields T_Ban @ [(''user_display_name'', Opt, TString), (''user_email'', Opt, TString),
     (''user_avatar_url'', Opt, TString), (''banned_by_name'', Opt, TString)])"

definition T_BlockWithUser :: "schema_type" where
  "T_BlockWithUser =
     TObj [(''workspace_id'', Req, TString), (''blocker_id'', Req, TString), (''blocked_id'', Req, TString),
     (''created_at'', Req, TString), (''display_name'', Opt, TString), (''email'', Opt, TString),
     (''avatar_url'', Opt, TString)]"

definition T_ModerationLogEntryWithActor :: "schema_type" where
  "T_ModerationLogEntryWithActor =
     TObj [(''id'', Req, TString), (''workspace_id'', Req, TString), (''actor_id'', Req, TString),
     (''action'', Req, TString), (''target_type'', Req, TString), (''target_id'', Req, TString),
     (''metadata'', Opt, TDict TUnknown), (''created_at'', Req, TString), (''actor_display_name'', Opt,
     TString), (''actor_avatar_url'', Opt, TString), (''target_display_name'', Opt, TString)]"

end
