(* ===== verification/ApiOperations.thy ===== *)
theory ApiOperations
  imports ApiSchema
begin

text \<open>
  The operations of the generated schema (\<open>packages/api-client/generated/schema.ts\<close>, interfaces
  \<open>paths\<close> and \<open>operations\<close>, and the common answers of \<open>components\<close>): one definition per operation, with the prefix
  \<open>oper_\<close>, and one per path with the operations of its methods.
\<close>

section \<open>Answers and operations\<close>

datatype reply_spec = JsonReply schema_type | BinaryReply schema_type | EventStream schema_type | NoContent

datatype body_spec = NoRequestBody | JsonContent presence schema_type | MultipartContent schema_type

record api_operation =
  oper_path :: "(string \<times> presence \<times> schema_type) list"
  oper_query :: "(string \<times> presence \<times> schema_type) list"
  oper_body :: body_spec
  oper_replies :: "(nat \<times> reply_spec) list"

definition R_BadRequest :: "reply_spec" where
  "R_BadRequest =
     JsonReply T_ApiErrorResponse"

definition R_Unauthorized :: "reply_spec" where
  "R_Unauthorized =
     JsonReply T_ApiErrorResponse"

definition R_NotFound :: "reply_spec" where
  "R_NotFound =
     JsonReply T_ApiErrorResponse"

definition R_Forbidden :: "reply_spec" where
  "R_Forbidden =
     JsonReply T_ApiErrorResponse"

definition R_Conflict :: "reply_spec" where
  "R_Conflict =
     JsonReply T_ApiErrorResponse"

definition oper_getServerInfo :: api_operation where
  "oper_getServerInfo =
     \<lparr>oper_path = [],
      oper_query = [],
      oper_body = NoRequestBody,
      oper_replies = [(200, JsonReply T_ServerInfo)]\<rparr>"

definition oper_register :: api_operation where
  "oper_register =
     \<lparr>oper_path = [],
      oper_query = [],
      oper_body = JsonContent Req T_RegisterInput,
      oper_replies = [(200, JsonReply T_AuthResponse), (400, R_BadRequest)]\<rparr>"

definition oper_login :: api_operation where
  "oper_login =
     \<lparr>oper_path = [],
      oper_query = [],
      oper_body = JsonContent Req T_LoginInput,
      oper_replies = [(200, JsonReply T_AuthResponse), (401, R_Unauthorized)]\<rparr>"

definition oper_logout :: api_operation where
  "oper_logout =
     \<lparr>oper_path = [],
      oper_query = [],
      oper_body = NoRequestBody,
      oper_replies = [(200, JsonReply T_SuccessResponse)]\<rparr>"

definition oper_forgotPassword :: api_operation where
  "oper_forgotPassword =
     \<lparr>oper_path = [],
      oper_query = [],
      oper_body = JsonContent Req (TObj [(''email'', Req, TString)]),
      oper_replies = [(200, JsonReply (TObj [(''success'', Req, TBoolean), (''message'', Req, TString)])),
       (400, R_BadRequest)]\<rparr>"

definition oper_resetPassword :: api_operation where
  "oper_resetPassword =
     \<lparr>oper_path = [],
      oper_query = [],
      oper_body = JsonContent Req (TObj [(''token'', Req, TString), (''new_password'', Req, TString)]),
      oper_replies = [(200, JsonReply T_SuccessResponse), (400, R_BadRequest)]\<rparr>"

definition oper_verifyEmail :: api_operation where
  "oper_verifyEmail =
     \<lparr>oper_path = [],
      oper_query = [],
      oper_body = JsonContent Req (TObj [(''token'', Req, TString)]),
      oper_replies = [(200, JsonReply T_SuccessResponse), (400, R_BadRequest)]\<rparr>"

definition oper_resendVerification :: api_operation where
  "oper_resendVerification =
     \<lparr>oper_path = [],
      oper_query = [],
      oper_body = NoRequestBody,
      oper_replies = [(200, JsonReply T_SuccessResponse), (400, R_BadRequest), (401, R_Unauthorized)]\<rparr>"

definition oper_getMe :: api_operation where
  "oper_getMe =
     \<lparr>oper_path = [],
      oper_query = [],
      oper_body = NoRequestBody,
      oper_replies = [(200, JsonReply T_MeResponse), (401, R_Unauthorized)]\<rparr>"

definition oper_registerDeviceToken :: api_operation where
  "oper_registerDeviceToken =
     \<lparr>oper_path = [],
      oper_query = [],
      oper_body = JsonContent Req T_RegisterDeviceTokenRequest,
      oper_replies = [(200, JsonReply T_RegisterDeviceTokenResponse), (400, R_BadRequest), (401, R_Unauthorized)]\<rparr>"

definition oper_unregisterDeviceToken :: api_operation where
  "oper_unregisterDeviceToken =
     \<lparr>oper_path = [(''id'', Req, TString)],
      oper_query = [],
      oper_body = NoRequestBody,
      oper_replies = [(204, NoContent), (401, R_Unauthorized), (404, R_NotFound)]\<rparr>"

definition oper_createWorkspace :: api_operation where
  "oper_createWorkspace =
     \<lparr>oper_path = [],
      oper_query = [],
      oper_body = JsonContent Req T_CreateWorkspaceInput,
      oper_replies = [(200, JsonReply (TObj [(''workspace'', Req, T_Workspace)])), (400, R_BadRequest), (401, R_Unauthorized)]\<rparr>"

definition oper_getWorkspace :: api_operation where
  "oper_getWorkspace =
     \<lparr>oper_path = [(''wid'', Req, TString)],
      oper_query = [],
      oper_body = NoRequestBody,
      oper_replies = [(200, JsonReply (TObj [(''workspace'', Req, T_Workspace)])), (401, R_Unauthorized), (404, R_NotFound)]\<rparr>"

definition oper_updateWorkspace :: api_operation where
  "oper_updateWorkspace =
     \<lparr>oper_path = [(''wid'', Req, TString)],
      oper_query = [],
      oper_body = JsonContent Req T_UpdateWorkspaceInput,
      oper_replies = [(200, JsonReply (TObj [(''workspace'', Req, T_Workspace)])), (400, R_BadRequest), (401, R_Unauthorized),
       (403, R_Forbidden), (404, R_NotFound)]\<rparr>"

definition oper_listWorkspaceMembers :: api_operation where
  "oper_listWorkspaceMembers =
     \<lparr>oper_path = [(''wid'', Req, TString)],
      oper_query = [],
      oper_body = NoRequestBody,
      oper_replies = [(200, JsonReply (TObj [(''members'', Req, TArr T_WorkspaceMemberWithUser)])), (401, R_Unauthorized),
       (404, R_NotFound)]\<rparr>"

definition oper_removeWorkspaceMember :: api_operation where
  "oper_removeWorkspaceMember =
     \<lparr>oper_path = [(''wid'', Req, TString)],
      oper_query = [],
      oper_body = JsonContent Req (TObj [(''user_id'', Req, TString)]),
      oper_replies = [(200, JsonReply T_SuccessResponse), (401, R_Unauthorized), (403, R_Forbidden), (404, R_NotFound)]\<rparr>"

definition oper_leaveWorkspace :: api_operation where
  "oper_leaveWorkspace =
     \<lparr>oper_path = [(''wid'', Req, TString)],
      oper_query = [],
      oper_body = NoRequestBody,
      oper_replies = [(200, JsonReply T_SuccessResponse), (401, R_Unauthorized), (403, R_Forbidden), (404, R_NotFound)]\<rparr>"

definition oper_updateWorkspaceMemberRole :: api_operation where
  "oper_updateWorkspaceMemberRole =
     \<lparr>oper_path = [(''wid'', Req, TString)],
      oper_query = [],
      oper_body = JsonContent Req (TObj [(''user_id'', Req, TString), (''role'', Req, T_WorkspaceRole)]),
      oper_replies = [(200, JsonReply T_SuccessResponse), (400, R_BadRequest), (401, R_Unauthorized), (403, R_Forbidden),
       (404, R_NotFound)]\<rparr>"

definition oper_createWorkspaceInvite :: api_operation where
  "oper_createWorkspaceInvite =
     \<lparr>oper_path = [(''wid'', Req, TString)],
      oper_query = [],
      oper_body = JsonContent Req T_CreateInviteInput,
      oper_replies = [(200, JsonReply (TObj [(''invite'', Req, T_Invite)])), (401, R_Unauthorized), (403, R_Forbidden)]\<rparr>"

definition oper_getWorkspaceNotifications :: api_operation where
  "oper_getWorkspaceNotifications =
     \<lparr>oper_path = [],
      oper_query = [],
      oper_body = NoRequestBody,
      oper_replies = [(200, JsonReply (TObj [(''workspaces'', Req, TArr T_WorkspaceNotificationSummary)])),
       (401, R_Unauthorized)]\<rparr>"

definition oper_reorderWorkspaces :: api_operation where
  "oper_reorderWorkspaces =
     \<lparr>oper_path = [],
      oper_query = [],
      oper_body = JsonContent Req T_ReorderWorkspacesInput,
      oper_replies = [(200, JsonReply T_SuccessResponse), (400, R_BadRequest), (401, R_Unauthorized)]\<rparr>"

definition oper_acceptInvite :: api_operation where
  "oper_acceptInvite =
     \<lparr>oper_path = [(''code'', Req, TString)],
      oper_query = [],
      oper_body = NoRequestBody,
      oper_replies = [(200, JsonReply (TObj [(''workspace'', Req, T_Workspace)])), (401, R_Unauthorized), (403, R_Forbidden),
       (404, R_NotFound)]\<rparr>"

definition oper_createChannel :: api_operation where
  "oper_createChannel =
     \<lparr>oper_path = [(''wid'', Req, TString)],
      oper_query = [],
      oper_body = JsonContent Req T_CreateChannelInput,
      oper_replies = [(200, JsonReply (TObj [(''channel'', Req, T_Channel)])), (400, R_BadRequest), (401, R_Unauthorized),
       (403, R_Forbidden)]\<rparr>"

definition oper_listChannels :: api_operation where
  "oper_listChannels =
     \<lparr>oper_path = [(''wid'', Req, TString)],
      oper_query = [],
      oper_body = NoRequestBody,
      oper_replies = [(200, JsonReply (TObj [(''channels'', Req, TArr T_ChannelWithMembership)])), (401, R_Unauthorized)]\<rparr>"

definition oper_createDM :: api_operation where
  "oper_createDM =
     \<lparr>oper_path = [(''wid'', Req, TString)],
      oper_query = [],
      oper_body = JsonContent Req T_CreateDMInput,
      oper_replies = [(200, JsonReply (TObj [(''channel'', Req, T_Channel)])), (400, R_BadRequest), (401, R_Unauthorized)]\<rparr>"

definition oper_updateChannel :: api_operation where
  "oper_updateChannel =
     \<lparr>oper_path = [(''id'', Req, TString)],
      oper_query = [],
      oper_body = JsonContent Req T_UpdateChannelInput,
      oper_replies = [(200, JsonReply (TObj [(''channel'', Req, T_Channel)])), (400, R_BadRequest), (401, R_Unauthorized),
       (403, R_Forbidden), (404, R_NotFound)]\<rparr>"

definition oper_convertGroupDMToChannel :: api_operation where
  "oper_convertGroupDMToChannel =
     \<lparr>oper_path = [(''id'', Req, TString)],
      oper_query = [],
      oper_body = JsonContent Req T_ConvertGroupDMInput,
      oper_replies = [(200, JsonReply (TObj [(''channel'', Req, T_Channel)])), (400, R_BadRequest), (401, R_Unauthorized),
       (403, R_Forbidden)]\<rparr>"

definition oper_archiveChannel :: api_operation where
  "oper_archiveChannel =
     \<lparr>oper_path = [(''id'', Req, TString)],
      oper_query = [],
      oper_body = NoRequestBody,
      oper_replies = [(200, JsonReply T_SuccessResponse), (400, R_BadRequest), (401, R_Unauthorized), (403, R_Forbidden),
       (404, R_NotFound)]\<rparr>"

definition oper_addChannelMember :: api_operation where
  "oper_addChannelMember =
     \<lparr>oper_path = [(''id'', Req, TString)],
      oper_query = [],
      oper_body = JsonContent Req (TObj [(''user_id'', Req, TString), (''role'', Opt, T_ChannelRole)]),
      oper_replies = [(200, JsonReply T_SuccessResponse), (400, R_BadRequest), (401, R_Unauthorized), (403, R_Forbidden),
       (404, R_NotFound)]\<rparr>"

definition oper_listChannelMembers :: api_operation where
  "oper_listChannelMembers =
     \<lparr>oper_path = [(''id'', Req, TString)],
      oper_query = [],
      oper_body = NoRequestBody,
      oper_replies = [(200, JsonReply (TObj [(''members'', Req, TArr T_ChannelMember)])), (401, R_Unauthorized),
       (404, R_NotFound)]\<rparr>"

definition oper_joinChannel :: api_operation where
  "oper_joinChannel =
     \<lparr>oper_path = [(''id'', Req, TString)],
      oper_query = [],
      oper_body = NoRequestBody,
      oper_replies = [(200, JsonReply T_SuccessResponse), (400, R_BadRequest), (401, R_Unauthorized), (404, R_NotFound)]\<rparr>"

definition oper_leaveChannel :: api_operation where
  "oper_leaveChannel =
     \<lparr>oper_path = [(''id'', Req, TString)],
      oper_query = [],
      oper_body = NoRequestBody,
      oper_replies = [(200, JsonReply T_SuccessResponse), (400, R_BadRequest), (401, R_Unauthorized), (404, R_NotFound)]\<rparr>"

definition oper_starChannel :: api_operation where
  "oper_starChannel =
     \<lparr>oper_path = [(''id'', Req, TString)],
      oper_query = [],
      oper_body = NoRequestBody,
      oper_replies = [(200, JsonReply T_SuccessResponse), (401, R_Unauthorized), (404, R_NotFound)]\<rparr>"

definition oper_unstarChannel :: api_operation where
  "oper_unstarChannel =
     \<lparr>oper_path = [(''id'', Req, TString)],
      oper_query = [],
      oper_body = NoRequestBody,
      oper_replies = [(200, JsonReply T_SuccessResponse), (401, R_Unauthorized), (404, R_NotFound)]\<rparr>"

definition oper_markChannelRead :: api_operation where
  "oper_markChannelRead =
     \<lparr>oper_path = [(''id'', Req, TString)],
      oper_query = [],
      oper_body = JsonContent Opt (TObj [(''message_id'', Opt, TString)]),
      oper_replies = [(200, JsonReply T_MarkReadResponse), (401, R_Unauthorized), (404, R_NotFound)]\<rparr>"

definition oper_getChannelNotifications :: api_operation where
  "oper_getChannelNotifications =
     \<lparr>oper_path = [(''id'', Req, TString)],
      oper_query = [],
      oper_body = NoRequestBody,
      oper_replies = [(200, JsonReply (TObj [(''preferences'', Req, T_NotificationPreferences)])), (401, R_Unauthorized),
       (404, R_NotFound)]\<rparr>"

definition oper_updateChannelNotifications :: api_operation where
  "oper_updateChannelNotifications =
     \<lparr>oper_path = [(''id'', Req, TString)],
      oper_query = [],
      oper_body = JsonContent Req T_NotificationPreferences,
      oper_replies = [(200, JsonReply (TObj [(''preferences'', Req, T_NotificationPreferences)])), (400, R_BadRequest),
       (401, R_Unauthorized), (404, R_NotFound)]\<rparr>"

definition oper_markAllChannelsRead :: api_operation where
  "oper_markAllChannelsRead =
     \<lparr>oper_path = [(''wid'', Req, TString)],
      oper_query = [],
      oper_body = NoRequestBody,
      oper_replies = [(200, JsonReply T_SuccessResponse), (401, R_Unauthorized)]\<rparr>"

definition oper_listAllUnreads :: api_operation where
  "oper_listAllUnreads =
     \<lparr>oper_path = [(''wid'', Req, TString)],
      oper_query = [],
      oper_body = JsonContent Opt (TObj [(''limit'', Opt, TNumber), (''cursor'', Opt, TString)]),
      oper_replies = [(200, JsonReply T_UnreadMessagesResult), (401, R_Unauthorized)]\<rparr>"

definition oper_searchMessages :: api_operation where
  "oper_searchMessages =
     \<lparr>oper_path = [(''wid'', Req, TString)],
      oper_query = [],
      oper_body = JsonContent Req T_SearchMessagesInput,
      oper_replies = [(200, JsonReply T_SearchMessagesResult), (400, R_BadRequest), (401, R_Unauthorized), (403, R_Forbidden)]\<rparr>"

definition oper_listUserThreads :: api_operation where
  "oper_listUserThreads =
     \<lparr>oper_path = [(''wid'', Req, TString)],
      oper_query = [],
      oper_body = JsonContent Opt (TObj [(''limit'', Opt, TNumber), (''cursor'', Opt, TString)]),
      oper_replies = [(200, JsonReply T_ThreadListResult), (401, R_Unauthorized)]\<rparr>"

definition oper_getMessage :: api_operation where
  "oper_getMessage =
     \<lparr>oper_path = [(''id'', Req, TString)],
      oper_query = [],
      oper_body = NoRequestBody,
      oper_replies = [(200, JsonReply (TObj [(''message'', Req, T_MessageWithUser)])), (401, R_Unauthorized),
       (404, R_NotFound)]\<rparr>"

definition oper_sendMessage :: api_operation where
  "oper_sendMessage =
     \<lparr>oper_path = [(''id'', Req, TString)],
      oper_query = [],
      oper_body = JsonContent Req T_SendMessageInput,
      oper_replies = [(200, JsonReply (TObj [(''message'', Req, T_MessageWithUser)])), (400, R_BadRequest),
       (401, R_Unauthorized), (403, R_Forbidden), (404, R_NotFound)]\<rparr>"

definition oper_listMessages :: api_operation where
  "oper_listMessages =
     \<lparr>oper_path = [(''id'', Req, TString)],
      oper_query = [],
      oper_body = JsonContent Opt T_ListMessagesInput,
      oper_replies = [(200, JsonReply T_MessageListResult), (401, R_Unauthorized), (403, R_Forbidden), (404, R_NotFound)]\<rparr>"

definition oper_updateMessage :: api_operation where
  "oper_updateMessage =
     \<lparr>oper_path = [(''id'', Req, TString)],
      oper_query = [],
      oper_body = JsonContent Req (TObj [(''content'', Req, TString)]),
      oper_replies = [(200, JsonReply (TObj [(''message'', Req, T_MessageWithUser)])), (400, R_BadRequest),
       (401, R_Unauthorized), (403, R_Forbidden), (404, R_NotFound)]\<rparr>"

definition oper_deleteMessage :: api_operation where
  "oper_deleteMessage =
     \<lparr>oper_path = [(''id'', Req, TString)],
      oper_query = [],
      oper_body = NoRequestBody,
      oper_replies = [(200, JsonReply T_SuccessResponse), (401, R_Unauthorized), (403, R_Forbidden), (404, R_NotFound)]\<rparr>"

definition oper_deleteLinkPreview :: api_operation where
  "oper_deleteLinkPreview =
     \<lparr>oper_path = [(''id'', Req, TString)],
      oper_query = [],
      oper_body = NoRequestBody,
      oper_replies = [(200, JsonReply T_SuccessResponse), (401, R_Unauthorized), (403, R_Forbidden), (404, R_NotFound)]\<rparr>"

definition oper_addReaction :: api_operation where
  "oper_addReaction =
     \<lparr>oper_path = [(''id'', Req, TString)],
      oper_query = [],
      oper_body = JsonContent Req (TObj [(''emoji'', Req, TString)]),
      oper_replies = [(200, JsonReply (TObj [(''reaction'', Req, T_Reaction)])), (400, R_BadRequest), (401, R_Unauthorized),
       (403, R_Forbidden), (404, R_NotFound)]\<rparr>"

definition oper_removeReaction :: api_operation where
  "oper_removeReaction =
     \<lparr>oper_path = [(''id'', Req, TString)],
      oper_query = [],
      oper_body = JsonContent Req (TObj [(''emoji'', Req, TString)]),
      oper_replies = [(200, JsonReply T_SuccessResponse), (401, R_Unauthorized), (404, R_NotFound)]\<rparr>"

definition oper_markMessageUnread :: api_operation where
  "oper_markMessageUnread =
     \<lparr>oper_path = [(''id'', Req, TString)],
      oper_query = [],
      oper_body = NoRequestBody,
      oper_replies = [(200, JsonReply T_SuccessResponse), (401, R_Unauthorized), (403, R_Forbidden), (404, R_NotFound)]\<rparr>"

definition oper_markThreadRead :: api_operation where
  "oper_markThreadRead =
     \<lparr>oper_path = [(''id'', Req, TString)],
      oper_query = [],
      oper_body = JsonContent Opt (TObj [(''last_read_reply_id'', Opt, TString)]),
      oper_replies = [(200, JsonReply T_SuccessResponse), (401, R_Unauthorized), (404, R_NotFound)]\<rparr>"

definition oper_listThread :: api_operation where
  "oper_listThread =
     \<lparr>oper_path = [(''id'', Req, TString)],
      oper_query = [],
      oper_body = JsonContent Opt T_ListMessagesInput,
      oper_replies = [(200, JsonReply T_MessageListResult), (401, R_Unauthorized), (403, R_Forbidden), (404, R_NotFound)]\<rparr>"

definition oper_getThreadSubscription :: api_operation where
  "oper_getThreadSubscription =
     \<lparr>oper_path = [(''id'', Req, TString)],
      oper_query = [],
      oper_body = NoRequestBody,
      oper_replies = [(200, JsonReply (TObj [(''status'', Req, T_ThreadSubscriptionStatus)])), (401, R_Unauthorized),
       (404, R_NotFound)]\<rparr>"

definition oper_subscribeToThread :: api_operation where
  "oper_subscribeToThread =
     \<lparr>oper_path = [(''id'', Req, TString)],
      oper_query = [],
      oper_body = NoRequestBody,
      oper_replies = [(200, JsonReply (TObj [(''status'', Req, T_ThreadSubscriptionStatus)])), (401, R_Unauthorized),
       (404, R_NotFound)]\<rparr>"

definition oper_unsubscribeFromThread :: api_operation where
  "oper_unsubscribeFromThread =
     \<lparr>oper_path = [(''id'', Req, TString)],
      oper_query = [],
      oper_body = NoRequestBody,
      oper_replies = [(200, JsonReply (TObj [(''status'', Req, T_ThreadSubscriptionStatus)])), (401, R_Unauthorized),
       (404, R_NotFound)]\<rparr>"

definition oper_pinMessage :: api_operation where
  "oper_pinMessage =
     \<lparr>oper_path = [(''id'', Req, TString)],
      oper_query = [],
      oper_body = NoRequestBody,
      oper_replies = [(200, JsonReply (TObj [(''message'', Req, T_MessageWithUser)])), (400, R_BadRequest),
       (401, R_Unauthorized), (403, R_Forbidden), (404, R_NotFound)]\<rparr>"

definition oper_unpinMessage :: api_operation where
  "oper_unpinMessage =
     \<lparr>oper_path = [(''id'', Req, TString)],
      oper_query = [],
      oper_body = NoRequestBody,
      oper_replies = [(200, JsonReply (TObj [(''message'', Req, T_MessageWithUser)])), (401, R_Unauthorized),
       (403, R_Forbidden), (404, R_NotFound)]\<rparr>"

definition oper_listPinnedMessages :: api_operation where
  "oper_listPinnedMessages =
     \<lparr>oper_path = [(''id'', Req, TString)],
      oper_query = [],
      oper_body = JsonContent Opt (TObj [(''cursor'', Opt, TString), (''limit'', Opt, TNumber)]),
      oper_replies = [(200, JsonReply (TObj [(''messages'', Req, TArr T_MessageWithUser), (''has_more'', Req, TBoolean),
       (''next_cursor'', Opt, TString)])), (401, R_Unauthorized), (403, R_Forbidden), (404, R_NotFound)]\<rparr>"

definition oper_uploadFile :: api_operation where
  "oper_uploadFile =
     \<lparr>oper_path = [(''id'', Req, TString)],
      oper_query = [],
      oper_body = MultipartContent (TObj [(''file'', Req, TString)]),
      oper_replies = [(200, JsonReply (TObj [(''file'', Req, TObj [(''id'', Req, TString), (''filename'', Req, TString),
       (''size'', Req, TNumber), (''content_type'', Req, TString)])])), (400, R_BadRequest),
       (401, R_Unauthorized), (403, R_Forbidden), (404, R_NotFound)]\<rparr>"

definition oper_downloadFile :: api_operation where
  "oper_downloadFile =
     \<lparr>oper_path = [(''id'', Req, TString)],
      oper_query = [(''expires'', Opt, TNumber), (''uid'', Opt, TString), (''sig'', Opt, TString)],
      oper_body = NoRequestBody,
      oper_replies = [(200, BinaryReply TString), (401, R_Unauthorized), (403, R_Forbidden), (404, R_NotFound)]\<rparr>"

definition oper_signFileUrl :: api_operation where
  "oper_signFileUrl =
     \<lparr>oper_path = [(''id'', Req, TString)],
      oper_query = [],
      oper_body = NoRequestBody,
      oper_replies = [(200, JsonReply T_SignedUrl), (401, R_Unauthorized), (403, R_Forbidden), (404, R_NotFound)]\<rparr>"

definition oper_signFileUrls :: api_operation where
  "oper_signFileUrls =
     \<lparr>oper_path = [],
      oper_query = [],
      oper_body = JsonContent Req (TObj [(''file_ids'', Req, TArr TString)]),
      oper_replies = [(200, JsonReply (TObj [(''urls'', Req, TArr T_SignedUrl)])), (400, R_BadRequest), (401, R_Unauthorized)]\<rparr>"

definition oper_deleteFile :: api_operation where
  "oper_deleteFile =
     \<lparr>oper_path = [(''id'', Req, TString)],
      oper_query = [],
      oper_body = NoRequestBody,
      oper_replies = [(200, JsonReply T_SuccessResponse), (401, R_Unauthorized), (403, R_Forbidden), (404, R_NotFound)]\<rparr>"

definition oper_uploadCustomEmoji :: api_operation where
  "oper_uploadCustomEmoji =
     \<lparr>oper_path = [(''wid'', Req, TString)],
      oper_query = [],
      oper_body = MultipartContent (TObj [(''file'', Req, TString), (''name'', Req, TString)]),
      oper_replies = [(200, JsonReply (TObj [(''emoji'', Req, T_CustomEmoji)])), (400, R_BadRequest), (401, R_Unauthorized),
       (403, R_Forbidden)]\<rparr>"

definition oper_listCustomEmojis :: api_operation where
  "oper_listCustomEmojis =
     \<lparr>oper_path = [(''wid'', Req, TString)],
      oper_query = [],
      oper_body = NoRequestBody,
      oper_replies = [(200, JsonReply (TObj [(''emojis'', Req, TArr T_CustomEmoji)])), (401, R_Unauthorized),
       (403, R_Forbidden)]\<rparr>"

definition oper_deleteCustomEmoji :: api_operation where
  "oper_deleteCustomEmoji =
     \<lparr>oper_path = [(''id'', Req, TString)],
      oper_query = [],
      oper_body = NoRequestBody,
      oper_replies = [(200, JsonReply T_SuccessResponse), (401, R_Unauthorized), (403, R_Forbidden), (404, R_NotFound)]\<rparr>"

definition oper_scheduleMessage :: api_operation where
  "oper_scheduleMessage =
     \<lparr>oper_path = [(''id'', Req, TString)],
      oper_query = [],
      oper_body = JsonContent Req T_ScheduleMessageInput,
      oper_replies = [(200, JsonReply (TObj [(''scheduled_message'', Req, T_ScheduledMessage)])), (400, R_BadRequest),
       (401, R_Unauthorized), (403, R_Forbidden)]\<rparr>"

definition oper_listScheduledMessages :: api_operation where
  "oper_listScheduledMessages =
     \<lparr>oper_path = [(''wid'', Req, TString)],
      oper_query = [],
      oper_body = NoRequestBody,
      oper_replies = [(200, JsonReply (TObj [(''scheduled_messages'', Req, TArr T_ScheduledMessage), (''count'', Req,
       TNumber)])), (401, R_Unauthorized)]\<rparr>"

definition oper_getScheduledMessage :: api_operation where
  "oper_getScheduledMessage =
     \<lparr>oper_path = [(''id'', Req, TString)],
      oper_query = [],
      oper_body = NoRequestBody,
      oper_replies = [(200, JsonReply (TObj [(''scheduled_message'', Req, T_ScheduledMessage)])), (401, R_Unauthorized),
       (404, R_NotFound)]\<rparr>"

definition oper_updateScheduledMessage :: api_operation where
  "oper_updateScheduledMessage =
     \<lparr>oper_path = [(''id'', Req, TString)],
      oper_query = [],
      oper_body = JsonContent Req T_UpdateScheduledMessageInput,
      oper_replies = [(200, JsonReply (TObj [(''scheduled_message'', Req, T_ScheduledMessage)])), (400, R_BadRequest),
       (401, R_Unauthorized), (403, R_Forbidden), (404, R_NotFound), (409, R_Conflict)]\<rparr>"

definition oper_deleteScheduledMessage :: api_operation where
  "oper_deleteScheduledMessage =
     \<lparr>oper_path = [(''id'', Req, TString)],
      oper_query = [],
      oper_body = NoRequestBody,
      oper_replies = [(200, JsonReply T_SuccessResponse), (401, R_Unauthorized), (403, R_Forbidden), (404, R_NotFound),
       (409, R_Conflict)]\<rparr>"

definition oper_sendScheduledMessageNow :: api_operation where
  "oper_sendScheduledMessageNow =
     \<lparr>oper_path = [(''id'', Req, TString)],
      oper_query = [],
      oper_body = NoRequestBody,
      oper_replies = [(200, JsonReply (TObj [(''message'', Req, T_MessageWithUser)])), (400, R_BadRequest),
       (401, R_Unauthorized), (403, R_Forbidden), (404, R_NotFound), (409, R_Conflict)]\<rparr>"

definition oper_getUser :: api_operation where
  "oper_getUser =
     \<lparr>oper_path = [(''id'', Req, TString)],
      oper_query = [],
      oper_body = NoRequestBody,
      oper_replies = [(200, JsonReply (TObj [(''user'', Req, T_UserProfile)])), (401, R_Unauthorized), (404, R_NotFound)]\<rparr>"

definition oper_updateProfile :: api_operation where
  "oper_updateProfile =
     \<lparr>oper_path = [],
      oper_query = [],
      oper_body = JsonContent Req T_UpdateProfileInput,
      oper_replies = [(200, JsonReply (TObj [(''user'', Req, T_User)])), (400, R_BadRequest), (401, R_Unauthorized)]\<rparr>"

definition oper_uploadAvatar :: api_operation where
  "oper_uploadAvatar =
     \<lparr>oper_path = [],
      oper_query = [],
      oper_body = MultipartContent (TObj [(''file'', Req, TString)]),
      oper_replies = [(200, JsonReply T_AvatarUploadResponse), (400, R_BadRequest), (401, R_Unauthorized), (403, R_Forbidden)]\<rparr>"

definition oper_deleteAvatar :: api_operation where
  "oper_deleteAvatar =
     \<lparr>oper_path = [],
      oper_query = [],
      oper_body = NoRequestBody,
      oper_replies = [(200, JsonReply T_SuccessResponse), (401, R_Unauthorized)]\<rparr>"

definition oper_uploadWorkspaceIcon :: api_operation where
  "oper_uploadWorkspaceIcon =
     \<lparr>oper_path = [(''wid'', Req, TString)],
      oper_query = [],
      oper_body = MultipartContent (TObj [(''file'', Req, TString)]),
      oper_replies = [(200, JsonReply T_WorkspaceIconUploadResponse), (400, R_BadRequest), (401, R_Unauthorized),
       (403, R_Forbidden)]\<rparr>"

definition oper_deleteWorkspaceIcon :: api_operation where
  "oper_deleteWorkspaceIcon =
     \<lparr>oper_path = [(''wid'', Req, TString)],
      oper_query = [],
      oper_body = NoRequestBody,
      oper_replies = [(200, JsonReply T_SuccessResponse), (401, R_Unauthorized), (403, R_Forbidden)]\<rparr>"

definition oper_banUser :: api_operation where
  "oper_banUser =
     \<lparr>oper_path = [(''wid'', Req, TString)],
      oper_query = [],
      oper_body = JsonContent Req T_BanUserInput,
      oper_replies = [(200, JsonReply (TObj [(''ban'', Req, T_Ban)])), (400, R_BadRequest), (401, R_Unauthorized),
       (403, R_Forbidden), (404, R_NotFound), (409, JsonReply T_ApiErrorResponse)]\<rparr>"

definition oper_unbanUser :: api_operation where
  "oper_unbanUser =
     \<lparr>oper_path = [(''wid'', Req, TString)],
      oper_query = [],
      oper_body = JsonContent Req (TObj [(''user_id'', Req, TString)]),
      oper_replies = [(200, JsonReply T_SuccessResponse), (401, R_Unauthorized), (403, R_Forbidden), (404, R_NotFound)]\<rparr>"

definition oper_listBans :: api_operation where
  "oper_listBans =
     \<lparr>oper_path = [(''wid'', Req, TString)],
      oper_query = [],
      oper_body = JsonContent Opt (TObj [(''cursor'', Opt, TString), (''limit'', Opt, TNumber)]),
      oper_replies = [(200, JsonReply (TObj [(''bans'', Req, TArr T_BanWithUser), (''has_more'', Req, TBoolean),
       (''next_cursor'', Opt, TString)])), (401, R_Unauthorized), (403, R_Forbidden)]\<rparr>"

definition oper_blockUser :: api_operation where
  "oper_blockUser =
     \<lparr>oper_path = [(''wid'', Req, TString)],
      oper_query = [],
      oper_body = JsonContent Req (TObj [(''user_id'', Req, TString)]),
      oper_replies = [(200, JsonReply T_SuccessResponse), (400, R_BadRequest), (401, R_Unauthorized), (403, R_Forbidden),
       (404, R_NotFound)]\<rparr>"

definition oper_unblockUser :: api_operation where
  "oper_unblockUser =
     \<lparr>oper_path = [(''wid'', Req, TString)],
      oper_query = [],
      oper_body = JsonContent Req (TObj [(''user_id'', Req, TString)]),
      oper_replies = [(200, JsonReply T_SuccessResponse), (401, R_Unauthorized), (403, R_Forbidden)]\<rparr>"

definition oper_listBlocks :: api_operation where
  "oper_listBlocks =
     \<lparr>oper_path = [(''wid'', Req, TString)],
      oper_query = [],
      oper_body = NoRequestBody,
      oper_replies = [(200, JsonReply (TObj [(''blocks'', Req, TArr T_BlockWithUser)])), (401, R_Unauthorized),
       (403, R_Forbidden)]\<rparr>"

definition oper_listModerationLog :: api_operation where
  "oper_listModerationLog =
     \<lparr>oper_path = [(''wid'', Req, TString)],
      oper_query = [],
      oper_body = JsonContent Opt (TObj [(''cursor'', Opt, TString), (''limit'', Opt, TNumber)]),
      oper_replies = [(200, JsonReply (TObj [(''entries'', Req, TArr T_ModerationLogEntryWithActor), (''has_more'', Req,
       TBoolean), (''next_cursor'', Opt, TString)])), (401, R_Unauthorized), (403, R_Forbidden)]\<rparr>"

definition oper_events :: api_operation where
  "oper_events =
     \<lparr>oper_path = [(''wid'', Req, TString)],
      oper_query = [],
      oper_body = NoRequestBody,
      oper_replies = [(200, EventStream T_SSEEvent)]\<rparr>"

definition oper_startTyping :: api_operation where
  "oper_startTyping =
     \<lparr>oper_path = [(''wid'', Req, TString)],
      oper_query = [],
      oper_body = JsonContent Req (TObj [(''channel_id'', Req, TString)]),
      oper_replies = [(200, JsonReply T_SuccessResponse)]\<rparr>"

definition oper_stopTyping :: api_operation where
  "oper_stopTyping =
     \<lparr>oper_path = [(''wid'', Req, TString)],
      oper_query = [],
      oper_body = JsonContent Req (TObj [(''channel_id'', Req, TString)]),
      oper_replies = [(200, JsonReply T_SuccessResponse)]\<rparr>"

section \<open>Paths\<close>

type_synonym api_route = "http_method \<times> string \<times> api_operation"

definition path_server_info :: "api_route list" where
  "path_server_info = [(GET, ''/server-info'', oper_getServerInfo)]"

definition path_auth_register :: "api_route list" where
  "path_auth_register = [(POST, ''/auth/register'', oper_register)]"

definition path_auth_login :: "api_route list" where
  "path_auth_login = [(POST, ''/auth/login'', oper_login)]"

definition path_auth_logout :: "api_route list" where
  "path_auth_logout = [(POST, ''/auth/logout'', oper_logout)]"

definition path_auth_forgot_password :: "api_route list" where
  "path_auth_forgot_password = [(POST, ''/auth/forgot-password'', oper_forgotPassword)]"

definition path_auth_reset_password :: "api_route list" where
  "path_auth_reset_password = [(POST, ''/auth/reset-password'', oper_resetPassword)]"

definition path_auth_verify_email :: "api_route list" where
  "path_auth_verify_email = [(POST, ''/auth/verify-email'', oper_verifyEmail)]"

definition path_auth_resend_verification :: "api_route list" where
  "path_auth_resend_verification = [(POST, ''/auth/resend-verification'', oper_resendVerification)]"

definition path_auth_me :: "api_route list" where
  "path_auth_me = [(GET, ''/auth/me'', oper_getMe)]"

definition path_auth_device_tokens :: "api_route list" where
  "path_auth_device_tokens = [(POST, ''/auth/device-tokens'', oper_registerDeviceToken)]"

definition path_auth_device_tokens_id :: "api_route list" where
  "path_auth_device_tokens_id = [(DELETE, ''/auth/device-tokens/{id}'', oper_unregisterDeviceToken)]"

definition path_workspaces_create :: "api_route list" where
  "path_workspaces_create = [(POST, ''/workspaces/create'', oper_createWorkspace)]"

definition path_workspaces_wid :: "api_route list" where
  "path_workspaces_wid = [(GET, ''/workspaces/{wid}'', oper_getWorkspace)]"

definition path_workspaces_wid_update :: "api_route list" where
  "path_workspaces_wid_update = [(POST, ''/workspaces/{wid}/update'', oper_updateWorkspace)]"

definition path_workspaces_wid_members_list :: "api_route list" where
  "path_workspaces_wid_members_list = [(POST, ''/workspaces/{wid}/members/list'', oper_listWorkspaceMembers)]"

definition path_workspaces_wid_members_remove :: "api_route list" where
  "path_workspaces_wid_members_remove = [(POST, ''/workspaces/{wid}/members/remove'', oper_removeWorkspaceMember)]"

definition path_workspaces_wid_leave :: "api_route list" where
  "path_workspaces_wid_leave = [(POST, ''/workspaces/{wid}/leave'', oper_leaveWorkspace)]"

definition path_workspaces_wid_members_update_role :: "api_route list" where
  "path_workspaces_wid_members_update_role = [(POST, ''/workspaces/{wid}/members/update-role'', oper_updateWorkspaceMemberRole)]"

definition path_workspaces_wid_invites_create :: "api_route list" where
  "path_workspaces_wid_invites_create = [(POST, ''/workspaces/{wid}/invites/create'', oper_createWorkspaceInvite)]"

definition path_workspaces_notifications :: "api_route list" where
  "path_workspaces_notifications = [(GET, ''/workspaces/notifications'', oper_getWorkspaceNotifications)]"

definition path_workspaces_reorder :: "api_route list" where
  "path_workspaces_reorder = [(POST, ''/workspaces/reorder'', oper_reorderWorkspaces)]"

definition path_invites_code_accept :: "api_route list" where
  "path_invites_code_accept = [(POST, ''/invites/{code}/accept'', oper_acceptInvite)]"

definition path_workspaces_wid_channels_create :: "api_route list" where
  "path_workspaces_wid_channels_create = [(POST, ''/workspaces/{wid}/channels/create'', oper_createChannel)]"

definition path_workspaces_wid_channels_list :: "api_route list" where
  "path_workspaces_wid_channels_list = [(POST, ''/workspaces/{wid}/channels/list'', oper_listChannels)]"

definition path_workspaces_wid_channels_dm :: "api_route list" where
  "path_workspaces_wid_channels_dm = [(POST, ''/workspaces/{wid}/channels/dm'', oper_createDM)]"

definition path_channels_id_update :: "api_route list" where
  "path_channels_id_update = [(POST, ''/channels/{id}/update'', oper_updateChannel)]"

definition path_channels_id_convert :: "api_route list" where
  "path_channels_id_convert = [(POST, ''/channels/{id}/convert'', oper_convertGroupDMToChannel)]"

definition path_channels_id_archive :: "api_route list" where
  "path_channels_id_archive = [(POST, ''/channels/{id}/archive'', oper_archiveChannel)]"

definition path_channels_id_members_add :: "api_route list" where
  "path_channels_id_members_add = [(POST, ''/channels/{id}/members/add'', oper_addChannelMember)]"

definition path_channels_id_members_list :: "api_route list" where
  "path_channels_id_members_list = [(POST, ''/channels/{id}/members/list'', oper_listChannelMembers)]"

definition path_channels_id_join :: "api_route list" where
  "path_channels_id_join = [(POST, ''/channels/{id}/join'', oper_joinChannel)]"

definition path_channels_id_leave :: "api_route list" where
  "path_channels_id_leave = [(POST, ''/channels/{id}/leave'', oper_leaveChannel)]"

definition path_channels_id_star :: "api_route list" where
  "path_channels_id_star = [(POST, ''/channels/{id}/star'', oper_starChannel), 
     (DELETE, ''/channels/{id}/star'', oper_unstarChannel)]"

definition path_channels_id_mark_read :: "api_route list" where
  "path_channels_id_mark_read = [(POST, ''/channels/{id}/mark-read'', oper_markChannelRead)]"

definition path_channels_id_notifications :: "api_route list" where
  "path_channels_id_notifications = [(GET, ''/channels/{id}/notifications'', oper_getChannelNotifications), 
     (POST, ''/channels/{id}/notifications'', oper_updateChannelNotifications)]"

definition path_workspaces_wid_channels_mark_all_read :: "api_route list" where
  "path_workspaces_wid_channels_mark_all_read = [(POST, ''/workspaces/{wid}/channels/mark-all-read'', oper_markAllChannelsRead)]"

definition path_workspaces_wid_unreads :: "api_route list" where
  "path_workspaces_wid_unreads = [(POST, ''/workspaces/{wid}/unreads'', oper_listAllUnreads)]"

definition path_workspaces_wid_messages_search :: "api_route list" where
  "path_workspaces_wid_messages_search = [(POST, ''/workspaces/{wid}/messages/search'', oper_searchMessages)]"

definition path_workspaces_wid_threads :: "api_route list" where
  "path_workspaces_wid_threads = [(POST, ''/workspaces/{wid}/threads'', oper_listUserThreads)]"

definition path_messages_id :: "api_route list" where
  "path_messages_id = [(GET, ''/messages/{id}'', oper_getMessage)]"

definition path_channels_id_messages_send :: "api_route list" where
  "path_channels_id_messages_send = [(POST, ''/channels/{id}/messages/send'', oper_sendMessage)]"

definition path_channels_id_messages_list :: "api_route list" where
  "path_channels_id_messages_list = [(POST, ''/channels/{id}/messages/list'', oper_listMessages)]"

definition path_messages_id_update :: "api_route list" where
  "path_messages_id_update = [(POST, ''/messages/{id}/update'', oper_updateMessage)]"

definition path_messages_id_delete :: "api_route list" where
  "path_messages_id_delete = [(POST, ''/messages/{id}/delete'', oper_deleteMessage)]"

definition path_messages_id_link_preview_delete :: "api_route list" where
  "path_messages_id_link_preview_delete = [(POST, ''/messages/{id}/link-preview/delete'', oper_deleteLinkPreview)]"

definition path_messages_id_reactions_add :: "api_route list" where
  "path_messages_id_reactions_add = [(POST, ''/messages/{id}/reactions/add'', oper_addReaction)]"

definition path_messages_id_reactions_remove :: "api_route list" where
  "path_messages_id_reactions_remove = [(POST, ''/messages/{id}/reactions/remove'', oper_removeReaction)]"

definition path_messages_id_mark_unread :: "api_route list" where
  "path_messages_id_mark_unread = [(POST, ''/messages/{id}/mark-unread'', oper_markMessageUnread)]"

definition path_messages_id_thread_mark_read :: "api_route list" where
  "path_messages_id_thread_mark_read = [(POST, ''/messages/{id}/thread/mark-read'', oper_markThreadRead)]"

definition path_messages_id_thread_list :: "api_route list" where
  "path_messages_id_thread_list = [(POST, ''/messages/{id}/thread/list'', oper_listThread)]"

definition path_messages_id_subscription :: "api_route list" where
  "path_messages_id_subscription = [(GET, ''/messages/{id}/subscription'', oper_getThreadSubscription)]"

definition path_messages_id_subscribe :: "api_route list" where
  "path_messages_id_subscribe = [(POST, ''/messages/{id}/subscribe'', oper_subscribeToThread)]"

definition path_messages_id_unsubscribe :: "api_route list" where
  "path_messages_id_unsubscribe = [(POST, ''/messages/{id}/unsubscribe'', oper_unsubscribeFromThread)]"

definition path_messages_id_pin :: "api_route list" where
  "path_messages_id_pin = [(POST, ''/messages/{id}/pin'', oper_pinMessage)]"

definition path_messages_id_unpin :: "api_route list" where
  "path_messages_id_unpin = [(POST, ''/messages/{id}/unpin'', oper_unpinMessage)]"

definition path_channels_id_pins_list :: "api_route list" where
  "path_channels_id_pins_list = [(POST, ''/channels/{id}/pins/list'', oper_listPinnedMessages)]"

definition path_channels_id_files_upload :: "api_route list" where
  "path_channels_id_files_upload = [(POST, ''/channels/{id}/files/upload'', oper_uploadFile)]"

definition path_files_id_download :: "api_route list" where
  "path_files_id_download = [(GET, ''/files/{id}/download'', oper_downloadFile)]"

definition path_files_id_sign_url :: "api_route list" where
  "path_files_id_sign_url = [(POST, ''/files/{id}/sign-url'', oper_signFileUrl)]"

definition path_files_sign_urls :: "api_route list" where
  "path_files_sign_urls = [(POST, ''/files/sign-urls'', oper_signFileUrls)]"

definition path_files_id_delete :: "api_route list" where
  "path_files_id_delete = [(POST, ''/files/{id}/delete'', oper_deleteFile)]"

definition path_workspaces_wid_emojis_upload :: "api_route list" where
  "path_workspaces_wid_emojis_upload = [(POST, ''/workspaces/{wid}/emojis/upload'', oper_uploadCustomEmoji)]"

definition path_workspaces_wid_emojis_list :: "api_route list" where
  "path_workspaces_wid_emojis_list = [(POST, ''/workspaces/{wid}/emojis/list'', oper_listCustomEmojis)]"

definition path_emojis_id_delete :: "api_route list" where
  "path_emojis_id_delete = [(POST, ''/emojis/{id}/delete'', oper_deleteCustomEmoji)]"

definition path_channels_id_messages_schedule :: "api_route list" where
  "path_channels_id_messages_schedule = [(POST, ''/channels/{id}/messages/schedule'', oper_scheduleMessage)]"

definition path_workspaces_wid_scheduled_messages :: "api_route list" where
  "path_workspaces_wid_scheduled_messages = [(POST, ''/workspaces/{wid}/scheduled-messages'', oper_listScheduledMessages)]"

definition path_scheduled_messages_id :: "api_route list" where
  "path_scheduled_messages_id = [(POST, ''/scheduled-messages/{id}'', oper_getScheduledMessage)]"

definition path_scheduled_messages_id_update :: "api_route list" where
  "path_scheduled_messages_id_update = [(POST, ''/scheduled-messages/{id}/update'', oper_updateScheduledMessage)]"

definition path_scheduled_messages_id_delete :: "api_route list" where
  "path_scheduled_messages_id_delete = [(POST, ''/scheduled-messages/{id}/delete'', oper_deleteScheduledMessage)]"

definition path_scheduled_messages_id_send_now :: "api_route list" where
  "path_scheduled_messages_id_send_now = [(POST, ''/scheduled-messages/{id}/send-now'', oper_sendScheduledMessageNow)]"

definition path_users_id :: "api_route list" where
  "path_users_id = [(GET, ''/users/{id}'', oper_getUser)]"

definition path_users_me_profile :: "api_route list" where
  "path_users_me_profile = [(POST, ''/users/me/profile'', oper_updateProfile)]"

definition path_users_me_avatar :: "api_route list" where
  "path_users_me_avatar = [(POST, ''/users/me/avatar'', oper_uploadAvatar), 
     (DELETE, ''/users/me/avatar'', oper_deleteAvatar)]"

definition path_workspaces_wid_icon :: "api_route list" where
  "path_workspaces_wid_icon = [(POST, ''/workspaces/{wid}/icon'', oper_uploadWorkspaceIcon), 
     (DELETE, ''/workspaces/{wid}/icon'', oper_deleteWorkspaceIcon)]"

definition path_workspaces_wid_bans_create :: "api_route list" where
  "path_workspaces_wid_bans_create = [(POST, ''/workspaces/{wid}/bans/create'', oper_banUser)]"

definition path_workspaces_wid_bans_remove :: "api_route list" where
  "path_workspaces_wid_bans_remove = [(POST, ''/workspaces/{wid}/bans/remove'', oper_unbanUser)]"

definition path_workspaces_wid_bans_list :: "api_route list" where
  "path_workspaces_wid_bans_list = [(POST, ''/workspaces/{wid}/bans/list'', oper_listBans)]"

definition path_workspaces_wid_blocks_create :: "api_route list" where
  "path_workspaces_wid_blocks_create = [(POST, ''/workspaces/{wid}/blocks/create'', oper_blockUser)]"

definition path_workspaces_wid_blocks_remove :: "api_route list" where
  "path_workspaces_wid_blocks_remove = [(POST, ''/workspaces/{wid}/blocks/remove'', oper_unblockUser)]"

definition path_workspaces_wid_blocks_list :: "api_route list" where
  "path_workspaces_wid_blocks_list = [(GET, ''/workspaces/{wid}/blocks/list'', oper_listBlocks)]"

definition path_workspaces_wid_moderation_log_list :: "api_route list" where
  "path_workspaces_wid_moderation_log_list = [(POST, ''/workspaces/{wid}/moderation-log/list'', oper_listModerationLog)]"

definition path_workspaces_wid_events :: "api_route list" where
  "path_workspaces_wid_events = [(GET, ''/workspaces/{wid}/events'', oper_events)]"

definition path_workspaces_wid_typing_start :: "api_route list" where
  "path_workspaces_wid_typing_start = [(POST, ''/workspaces/{wid}/typing/start'', oper_startTyping)]"

definition path_workspaces_wid_typing_stop :: "api_route list" where
  "path_workspaces_wid_typing_stop = [(POST, ''/workspaces/{wid}/typing/stop'', oper_stopTyping)]"

definition api_routes :: "api_route list" where
  "api_routes =
     path_server_info @ path_auth_register @ path_auth_login @ path_auth_logout @ path_auth_forgot_password
     @ path_auth_reset_password @ path_auth_verify_email @ path_auth_resend_verification @ path_auth_me
     @ path_auth_device_tokens @ path_auth_device_tokens_id @ path_workspaces_create @ path_workspaces_wid
     @ path_workspaces_wid_update @ path_workspaces_wid_members_list @ path_workspaces_wid_members_remove
     @ path_workspaces_wid_leave @ path_workspaces_wid_members_update_role
     @ path_workspaces_wid_invites_create @ path_workspaces_notifications @ path_workspaces_reorder
     @ path_invites_code_accept @ path_workspaces_wid_channels_create @ path_workspaces_wid_channels_list
     @ path_workspaces_wid_channels_dm @ path_channels_id_update @ path_channels_id_convert
     @ path_channels_id_archive @ path_channels_id_members_add @ path_channels_id_members_list
     @ path_channels_id_join @ path_channels_id_leave @ path_channels_id_star @ path_channels_id_mark_read
     @ path_channels_id_notifications @ path_workspaces_wid_channels_mark_all_read
     @ path_workspaces_wid_unreads @ path_workspaces_wid_messages_search @ path_workspaces_wid_threads
     @ path_messages_id @ path_channels_id_messages_send @ path_channels_id_messages_list
     @ path_messages_id_update @ path_messages_id_delete @ path_messages_id_link_preview_delete
     @ path_messages_id_reactions_add @ path_messages_id_reactions_remove @ path_messages_id_mark_unread
     @ path_messages_id_thread_mark_read @ path_messages_id_thread_list @ path_messages_id_subscription
     @ path_messages_id_subscribe @ path_messages_id_unsubscribe @ path_messages_id_pin
     @ path_messages_id_unpin @ path_channels_id_pins_list @ path_channels_id_files_upload
     @ path_files_id_download @ path_files_id_sign_url @ path_files_sign_urls @ path_files_id_delete
     @ path_workspaces_wid_emojis_upload @ path_workspaces_wid_emojis_list @ path_emojis_id_delete
     @ path_channels_id_messages_schedule @ path_workspaces_wid_scheduled_messages
     @ path_scheduled_messages_id @ path_scheduled_messages_id_update @ path_scheduled_messages_id_delete
     @ path_scheduled_messages_id_send_now @ path_users_id @ path_users_me_profile @ path_users_me_avatar
     @ path_workspaces_wid_icon @ path_workspaces_wid_bans_create @ path_workspaces_wid_bans_remove
     @ path_workspaces_wid_bans_list @ path_workspaces_wid_blocks_create @ path_workspaces_wid_blocks_remove
     @ path_workspaces_wid_blocks_list @ path_workspaces_wid_moderation_log_list @ path_workspaces_wid_events
     @ path_workspaces_wid_typing_start @ path_workspaces_wid_typing_stop"

lemmas path_defs =
  path_server_info_def path_auth_register_def path_auth_login_def path_auth_logout_def
  path_auth_forgot_password_def path_auth_reset_password_def path_auth_verify_email_def
  path_auth_resend_verification_def path_auth_me_def path_auth_device_tokens_def
  path_auth_device_tokens_id_def path_workspaces_create_def path_workspaces_wid_def
  path_workspaces_wid_update_def path_workspaces_wid_members_list_def
  path_workspaces_wid_members_remove_def path_workspaces_wid_leave_def
  path_workspaces_wid_members_update_role_def path_workspaces_wid_invites_create_def
  path_workspaces_notifications_def path_workspaces_reorder_def path_invites_code_accept_def
  path_workspaces_wid_channels_create_def path_workspaces_wid_channels_list_def
  path_workspaces_wid_channels_dm_def path_channels_id_update_def path_channels_id_convert_def
  path_channels_id_archive_def path_channels_id_members_add_def path_channels_id_members_list_def
  path_channels_id_join_def path_channels_id_leave_def path_channels_id_star_def
  path_channels_id_mark_read_def path_channels_id_notifications_def
  path_workspaces_wid_channels_mark_all_read_def path_workspaces_wid_unreads_def
  path_workspaces_wid_messages_search_def path_workspaces_wid_threads_def path_messages_id_def
  path_channels_id_messages_send_def path_channels_id_messages_list_def path_messages_id_update_def
  path_messages_id_delete_def path_messages_id_link_preview_delete_def path_messages_id_reactions_add_def
  path_messages_id_reactions_remove_def path_messages_id_mark_unread_def
  path_messages_id_thread_mark_read_def path_messages_id_thread_list_def path_messages_id_subscription_def
  path_messages_id_subscribe_def path_messages_id_unsubscribe_def path_messages_id_pin_def
  path_messages_id_unpin_def path_channels_id_pins_list_def path_channels_id_files_upload_def
  path_files_id_download_def path_files_id_sign_url_def path_files_sign_urls_def path_files_id_delete_def
  path_workspaces_wid_emojis_upload_def path_workspaces_wid_emojis_list_def path_emojis_id_delete_def
  path_channels_id_messages_schedule_def path_workspaces_wid_scheduled_messages_def
  path_scheduled_messages_id_def path_scheduled_messages_id_update_def
  path_scheduled_messages_id_delete_def path_scheduled_messages_id_send_now_def path_users_id_def
  path_users_me_profile_def path_users_me_avatar_def path_workspaces_wid_icon_def
  path_workspaces_wid_bans_create_def path_workspaces_wid_bans_remove_def path_workspaces_wid_bans_list_def
  path_workspaces_wid_blocks_create_def path_workspaces_wid_blocks_remove_def
  path_workspaces_wid_blocks_list_def path_workspaces_wid_moderation_log_list_def
  path_workspaces_wid_events_def path_workspaces_wid_typing_start_def path_workspaces_wid_typing_stop_def

lemmas oper_defs =
  oper_getServerInfo_def oper_register_def oper_login_def oper_logout_def oper_forgotPassword_def
  oper_resetPassword_def oper_verifyEmail_def oper_resendVerification_def oper_getMe_def
  oper_registerDeviceToken_def oper_unregisterDeviceToken_def oper_createWorkspace_def
  oper_getWorkspace_def oper_updateWorkspace_def oper_listWorkspaceMembers_def
  oper_removeWorkspaceMember_def oper_leaveWorkspace_def oper_updateWorkspaceMemberRole_def
  oper_createWorkspaceInvite_def oper_getWorkspaceNotifications_def oper_reorderWorkspaces_def
  oper_acceptInvite_def oper_createChannel_def oper_listChannels_def oper_createDM_def
  oper_updateChannel_def oper_convertGroupDMToChannel_def oper_archiveChannel_def oper_addChannelMember_def
  oper_listChannelMembers_def oper_joinChannel_def oper_leaveChannel_def oper_starChannel_def
  oper_unstarChannel_def oper_markChannelRead_def oper_getChannelNotifications_def
  oper_updateChannelNotifications_def oper_markAllChannelsRead_def oper_listAllUnreads_def
  oper_searchMessages_def oper_listUserThreads_def oper_getMessage_def oper_sendMessage_def
  oper_listMessages_def oper_updateMessage_def oper_deleteMessage_def oper_deleteLinkPreview_def
  oper_addReaction_def oper_removeReaction_def oper_markMessageUnread_def oper_markThreadRead_def
  oper_listThread_def oper_getThreadSubscription_def oper_subscribeToThread_def
  oper_unsubscribeFromThread_def oper_pinMessage_def oper_unpinMessage_def oper_listPinnedMessages_def
  oper_uploadFile_def oper_downloadFile_def oper_signFileUrl_def oper_signFileUrls_def oper_deleteFile_def
  oper_uploadCustomEmoji_def oper_listCustomEmojis_def oper_deleteCustomEmoji_def oper_scheduleMessage_def
  oper_listScheduledMessages_def oper_getScheduledMessage_def oper_updateScheduledMessage_def
  oper_deleteScheduledMessage_def oper_sendScheduledMessageNow_def oper_getUser_def oper_updateProfile_def
  oper_uploadAvatar_def oper_deleteAvatar_def oper_uploadWorkspaceIcon_def oper_deleteWorkspaceIcon_def
  oper_banUser_def oper_unbanUser_def oper_listBans_def oper_blockUser_def oper_unblockUser_def
  oper_listBlocks_def oper_listModerationLog_def oper_events_def oper_startTyping_def oper_stopTyping_def

lemmas answer_defs =
  R_BadRequest_def R_Unauthorized_def R_NotFound_def R_Forbidden_def R_Conflict_def

end
