(* ===== verification/ApiConformance.thy ===== *)
theory ApiConformance
  imports ApiOperations QueryHooks ApiClient
begin

text \<open>
  The requests of the API wrappers against the operations of the schema: an input has the TypeScript type of the
  wrapper's parameter (\<open>typed_request\<close>), and the request must then be one the operation of its method
  and path accepts (\<open>conforms\<close>). The compiler checks this of the types; here it is a statement about the values
  that are sent, after \<open>JSON.stringify\<close> has dropped what is \<open>undefined\<close>.
\<close>

section \<open>What an operation accepts\<close>

text \<open>The value of a form: its files are binary strings.\<close>

definition formValue :: "(jsstring \<times> form_value) list \<Rightarrow> json" where
  "formValue ps = JObj (map (\<lambda>(k, v). (k, JStr (case v of FormFile s \<Rightarrow> s | FormText s \<Rightarrow> s))) ps)"

fun bodyFits :: "body_spec \<Rightarrow> request_body \<Rightarrow> bool" where
  "bodyFits NoRequestBody NoBody = True"
| "bodyFits (JsonContent pr t) NoBody = (pr = Opt)"
| "bodyFits (JsonContent pr t) (JsonBody v) = fits t v"
| "bodyFits (MultipartContent t) (FormBody ps) = fits t (formValue ps)"
| "bodyFits _ _ = False"

text \<open>The request is one of the operation declared for its method and path.\<close>

definition conforms :: "http_request \<Rightarrow> bool" where
  "conforms r = list_ex (\<lambda>(m, p, op).
     m = rq_method r \<and> js p = rq_path r \<and>
     map fst (rq_params r) = map (\<lambda>p. js (fst p)) (oper_path op) \<and>
     list_all (\<lambda>q. fst (snd q) = Opt) (oper_query op) \<and>
     bodyFits (oper_body op) (rq_body r)) api_routes"

section \<open>Requests with typed inputs\<close>

text \<open>The types written out in the signatures of wrappers.\<close>

definition pageInput :: schema_type where
  "pageInput = TObj [(''limit'', Opt, TNumber), (''cursor'', Opt, TString)]"

definition banInput :: schema_type where
  "banInput = TObj [(''user_id'', Req, TString), (''reason'', Opt, TString), (''duration_hours'', Opt, TNumber),
     (''hide_messages'', Req, TBoolean)]"

inductive typed_request :: "http_request \<Rightarrow> bool" where
  "typed_request serverApi_getServerInfo"
| "fits T_LoginInput input \<Longrightarrow> typed_request (authApi_login input)"
| "fits T_RegisterInput input \<Longrightarrow> typed_request (authApi_register input)"
| "typed_request authApi_logout"
| "typed_request authApi_me"
| "typed_request (authApi_forgotPassword email)"
| "typed_request (authApi_resetPassword token new_password)"
| "typed_request (authApi_verifyEmail token)"
| "typed_request authApi_resendVerification"
| "fits T_RegisterDeviceTokenRequest input \<Longrightarrow> typed_request (authApi_registerDeviceToken input)"
| "typed_request (authApi_unregisterDeviceToken i)"
| "fits T_CreateWorkspaceInput input \<Longrightarrow> typed_request (workspacesApi_create input)"
| "typed_request (workspacesApi_get workspaceId)"
| "fits T_UpdateWorkspaceInput input \<Longrightarrow> typed_request (workspacesApi_update workspaceId input)"
| "typed_request (workspacesApi_listMembers workspaceId)"
| "typed_request (workspacesApi_removeMember workspaceId userId)"
| "typed_request (workspacesApi_updateMemberRole workspaceId userId role)"
| "fits T_CreateInviteInput input \<Longrightarrow> typed_request (workspacesApi_createInvite workspaceId input)"
| "typed_request (workspacesApi_acceptInvite code)"
| "typed_request (workspacesApi_startTyping workspaceId channelId)"
| "typed_request (workspacesApi_stopTyping workspaceId channelId)"
| "typed_request (workspacesApi_uploadIcon workspaceId file)"
| "typed_request (workspacesApi_deleteIcon workspaceId)"
| "typed_request (workspacesApi_reorder workspaceIds)"
| "typed_request (workspacesApi_leave workspaceId)"
| "typed_request workspacesApi_getNotifications"
| "fits T_CreateChannelInput input \<Longrightarrow> typed_request (channelsApi_create workspaceId input)"
| "typed_request (channelsApi_list workspaceId)"
| "fits T_CreateDMInput input \<Longrightarrow> typed_request (channelsApi_createDM workspaceId input)"
| "fits T_UpdateChannelInput input \<Longrightarrow> typed_request (channelsApi_update channelId input)"
| "typed_request (channelsApi_archive channelId)"
| "typed_request (channelsApi_addMember channelId userId role)"
| "typed_request (channelsApi_listMembers channelId)"
| "typed_request (channelsApi_join channelId)"
| "typed_request (channelsApi_leave channelId)"
| "typed_request (channelsApi_markAsRead channelId messageId)"
| "typed_request (channelsApi_markAllAsRead workspaceId)"
| "typed_request (channelsApi_getNotifications channelId)"
| "fits T_NotificationPreferences preferences \<Longrightarrow> typed_request (channelsApi_updateNotifications channelId preferences)"
| "typed_request (channelsApi_star channelId)"
| "typed_request (channelsApi_unstar channelId)"
| "fits T_ConvertGroupDMInput input \<Longrightarrow> typed_request (channelsApi_convertGroupDM channelId input)"
| "typed_request (messagesApi_get messageId)"
| "fits T_SendMessageInput input \<Longrightarrow> typed_request (messagesApi_send channelId input)"
| "pred_option (fits T_ListMessagesInput) input \<Longrightarrow> typed_request (messagesApi_list channelId input)"
| "typed_request (messagesApi_update messageId content)"
| "typed_request (messagesApi_delete messageId)"
| "typed_request (messagesApi_deleteLinkPreview messageId)"
| "typed_request (messagesApi_addReaction messageId emoji)"
| "typed_request (messagesApi_removeReaction messageId emoji)"
| "pred_option (fits T_ListMessagesInput) input \<Longrightarrow> typed_request (messagesApi_listThread messageId input)"
| "typed_request (messagesApi_markUnread messageId)"
| "typed_request (messagesApi_getThreadSubscription messageId)"
| "typed_request (messagesApi_subscribeToThread messageId)"
| "typed_request (messagesApi_unsubscribeFromThread messageId)"
| "pred_option (fits pageInput) input \<Longrightarrow> typed_request (messagesApi_listUserThreads workspaceId input)"
| "typed_request (messagesApi_markThreadRead messageId lastReadReplyId)"
| "fits T_SearchMessagesInput input \<Longrightarrow> typed_request (messagesApi_search workspaceId input)"
| "typed_request (moderationApi_pinMessage messageId)"
| "typed_request (moderationApi_unpinMessage messageId)"
| "pred_option (fits pageInput) input \<Longrightarrow> typed_request (moderationApi_listPinnedMessages channelId input)"
| "fits banInput input \<Longrightarrow> typed_request (moderationApi_banUser workspaceId input)"
| "typed_request (moderationApi_unbanUser workspaceId userId)"
| "pred_option (fits pageInput) input \<Longrightarrow> typed_request (moderationApi_listBans workspaceId input)"
| "typed_request (moderationApi_blockUser workspaceId userId)"
| "typed_request (moderationApi_unblockUser workspaceId userId)"
| "typed_request (moderationApi_listBlocks workspaceId)"
| "pred_option (fits pageInput) input \<Longrightarrow> typed_request (moderationApi_listModerationLog workspaceId input)"
| "typed_request (filesApi_upload channelId file)"
| "typed_request (filesApi_signUrl fileId)"
| "typed_request (filesApi_signUrls fileIds)"
| "typed_request (emojisApi_list workspaceId)"
| "typed_request (emojisApi_upload workspaceId file name)"
| "typed_request (emojisApi_delete emojiId)"
| "fits T_ScheduleMessageInput input \<Longrightarrow> typed_request (scheduledMessagesApi_schedule channelId input)"
| "typed_request (scheduledMessagesApi_list workspaceId)"
| "typed_request (scheduledMessagesApi_get i)"
| "fits T_UpdateScheduledMessageInput input \<Longrightarrow> typed_request (scheduledMessagesApi_update i input)"
| "typed_request (scheduledMessagesApi_delete i)"
| "typed_request (scheduledMessagesApi_sendNow i)"
| "typed_request (usersApi_getUser userId)"
| "fits T_UpdateProfileInput input \<Longrightarrow> typed_request (usersApi_updateProfile input)"
| "typed_request (usersApi_uploadAvatar file)"
| "typed_request usersApi_deleteAvatar"

section \<open>Facts\<close>

lemma fits_obj:
  "fits (TObj fs) (JObj ps) \<longleftrightarrow> distinct (map fst ps) \<and> list_all (\<lambda>(k, _). k \<in> js ` set (map fst fs)) ps \<and>
     list_all (\<lambda>(k, pr, t). case map_of ps (js k) of None \<Rightarrow> pr = Opt | Some v \<Rightarrow> fits t v) fs"
  by (simp add: knownFields_def list.pred_map comp_def case_prod_unfold map_prod_def cong: option.case_cong)

text \<open>The order of the properties of a type does not matter.\<close>

lemma fits_permuted: "set fs = set gs \<Longrightarrow> fits (TObj fs) v = fits (TObj gs) v"
proof (cases v)
  case (JObj ps)
  then show "set fs = set gs \<Longrightarrow> ?thesis" by (simp add: fits_obj list_all_iff del: fits.simps)
qed simp_all

lemma page_types:
  "fits (TObj [(''cursor'', Opt, TString), (''limit'', Opt, TNumber)]) v = fits pageInput v"
  "fits (TObj [(''limit'', Opt, TNumber), (''cursor'', Opt, TString)]) v = fits pageInput v"
  "fits T_BanUserInput v = fits banInput v"
  unfolding pageInput_def banInput_def T_BanUserInput_def by (rule fits_permuted; auto)+

lemma route_table: "list_ex P api_routes = (\<exists>x \<in> set api_routes. P x)"
  by (simp add: list_ex_iff)

lemmas routes_listed = api_routes_def path_defs

lemma role_names:
  "workspace_role_name r = js ''owner'' \<or> workspace_role_name r = js ''admin'' \<or>
     workspace_role_name r = js ''member'' \<or> workspace_role_name r = js ''guest''"
  "channel_role_name c = js ''admin'' \<or> channel_role_name c = js ''poster'' \<or> channel_role_name c = js ''viewer''"
  by (cases r; simp) (cases c; simp)

lemma optional_input:
  "pred_option (fits t) input \<Longrightarrow> fits t (JObj []) \<Longrightarrow> fits t (case input of None \<Rightarrow> JObj [] | Some i \<Rightarrow> i)"
  by (cases input) simp_all

lemma empty_inputs: "fits pageInput (JObj [])" "fits T_ListMessagesInput (JObj [])"
  by (simp_all add: pageInput_def T_ListMessagesInput_def knownFields_def)

lemmas type_eval = T_ReorderWorkspacesInput_def T_WorkspaceRole_def T_ChannelRole_def
  obj_def formValue_def List.map_filter_simps knownFields_def

lemma string_array: "fits (TArr TString) (JArr (map JStr xs))"
  by (simp add: list_all_iff)

text \<open>First the operation is looked up, then its body is compared.\<close>

lemma conformsI:
  assumes "(m, p, op) \<in> set api_routes" "map fst ps = map (\<lambda>p. js (fst p)) (oper_path op)"
    and "list_all (\<lambda>q. fst (snd q) = Opt) (oper_query op)" "bodyFits (oper_body op) b"
  shows "conforms \<lparr>rq_method = m, rq_path = js p, rq_params = ps, rq_body = b\<rparr>"
  using assms by (force simp: conforms_def list_ex_iff)

lemmas conforms_listed = conformsI [unfolded routes_listed append.simps]

lemma conforms_all: "typed_request r \<Longrightarrow> conforms r"
proof (induction rule: typed_request.induct; unfold api_defs; rule conforms_listed; ((rule list.set_intros)+)?)
qed (simp_all add: oper_defs page_types optional_input empty_inputs del: fits.simps,
  auto simp: type_eval list_all_iff role_names split: option.split)

section \<open>The requests of the query hooks\<close>

lemma page_inputs:
  "fits pageInput (obj [(''limit'', Some (JNum n)), (''cursor'', map_option JStr c)])"
  "fits pageInput (obj [(''cursor'', map_option JStr c), (''limit'', Some (JNum n))])"
  "fits pageInput (obj [(''limit'', Some (JNum n))])"
  by (cases c; simp add: pageInput_def type_eval)+

lemma message_inputs:
  "fits T_ListMessagesInput (obj [(''cursor'', map_option JStr c), (''limit'', Some (JNum n))])"
  "fits T_ListMessagesInput (obj [(''cursor'', map_option JStr c), (''limit'', Some (JNum n)),
     (''direction'', case p of CursorParam x \<Rightarrow> None | DirectedParam d \<Rightarrow> Some (JStr (directionName (pp_direction d))))])"
  by (cases c; simp add: T_ListMessagesInput_def type_eval)
    (cases c; cases p; cases "pp_direction (case p of DirectedParam d \<Rightarrow> d)"; simp add: T_ListMessagesInput_def type_eval)

lemma search_input:
  "fits T_SearchMessagesInput (obj
     [(''query'', Some (JStr q)), (''channel_id'', map_option JStr a), (''user_id'', map_option JStr b),
      (''before'', map_option JStr c), (''after'', map_option JStr d), (''limit'', Some (JNum n)), (''offset'', Some (JNum k))])"
  by (cases a; cases b; cases c; cases d; simp add: T_SearchMessagesInput_def type_eval)

lemmas hook_inputs = page_inputs message_inputs search_input

text \<open>\<open>useAllUnreads\<close> builds its request itself.\<close>

lemma unreads_conform: "conforms (qh_fetch (useAllUnreads v b) pageParam)"
  by (simp add: conforms_def routes_listed api_defs useAllUnreads_def,
    simp add: oper_defs page_types page_inputs del: fits.simps)

lemma hooks_typed: "is_query_hook h \<Longrightarrow> (\<exists>v b. h = useAllUnreads v b) \<or> typed_request (qh_fetch h pageParam)"
  by (induction rule: is_query_hook.induct)
    (auto simp: hook_defs Let_def hook_inputs intro!: typed_request.intros)

lemma hooks_conform: "is_query_hook h \<Longrightarrow> conforms (qh_fetch h pageParam)"
  using hooks_typed unreads_conform conforms_all by blast

section \<open>Answers\<close>

lemma error_answers:
  "\<forall>(m, p, op) \<in> set api_routes. \<forall>(status, answer) \<in> set (oper_replies op).
     status \<in> {200, 204} \<or> answer = JsonReply T_ApiErrorResponse"
  by (simp add: routes_listed, simp add: oper_defs answer_defs)

lemma string_values: "fits TString v \<Longrightarrow> \<exists>x. v = JStr x"
  by (cases v) simp_all

lemma required_field:
  "fits (TObj fs) v \<Longrightarrow> (k, Req, t) \<in> set fs \<Longrightarrow> \<exists>w. json_get k (Some v) = Some w \<and> fits t w"
proof (cases v)
  case (JObj ps)
  assume "fits (TObj fs) v" "(k, Req, t) \<in> set fs"
  then have "distinct (map fst ps)" "case map_of ps (js k) of None \<Rightarrow> Req = Opt | Some w \<Rightarrow> fits t w"
    unfolding JObj fits_obj by (auto simp: list_all_iff)
  moreover from this(1) have "map_of (rev ps) = map_of ps" by (simp add: map_of_inject_set rev_map [symmetric])
  ultimately show ?thesis using JObj by (auto split: option.splits)
qed simp_all

section \<open>Properties\<close>

text \<open>C15: Every request the API wrappers make with inputs of the declared types, and every request of a query
  hook, is one that the schema's operation for its method and path accepts: it fills the path
  parameters and needs no query parameter, it has a body where one is required, and the body has the declared
  type.
\<close>

theorem requests_conform:
  assumes "typed_request r \<or> (\<exists>h pageParam. is_query_hook h \<and> r = qh_fetch h pageParam)"
  shows "conforms r"
  using assms conforms_all hooks_conform by blast

theorem requests_conform_witness:
  "conforms (messagesApi_update (js ''m'') (js ''hi'')) \<and> conforms (qh_fetch (useChannels (Some (js ''w''))) (CursorParam None))"
proof
  show "conforms (messagesApi_update (js ''m'') (js ''hi''))"
    by (rule requests_conform, rule disjI1, rule typed_request.intros)
  show "conforms (qh_fetch (useChannels (Some (js ''w''))) (CursorParam None))"
    using requests_conform is_query_hook.intros(1) by blast
qed

text \<open>C16: Every error the server declares is reported with its own code and message: the answers with an error status
  have a body that \<open>throwIfError\<close> reads.
\<close>

theorem errors_reported:
  assumes "(m, p, op) \<in> set api_routes" "(status, answer) \<in> set (oper_replies op)" "status \<ge> 400"
  shows "\<exists>t. answer = JsonReply t \<and> (\<forall>e. fits t e \<longrightarrow> (\<exists>code message.
    json_get ''code'' (json_get ''error'' (Some e)) = Some (JStr code) \<and>
    json_get ''message'' (json_get ''error'' (Some e)) = Some (JStr message) \<and>
    (code \<noteq> [] \<longrightarrow> message \<noteq> [] \<longrightarrow> throwIfError None (Some e) (int status) =
      Inl \<lparr>err_code = JStr code, err_message = JStr message, err_status = int status\<rparr>)))"
proof -
  have "answer = JsonReply T_ApiErrorResponse"
    using error_answers assms by fastforce
  moreover have "\<exists>code message.
      json_get ''code'' (json_get ''error'' (Some e)) = Some (JStr code) \<and>
      json_get ''message'' (json_get ''error'' (Some e)) = Some (JStr message)"
    and "json_truthy e" if e: "fits T_ApiErrorResponse e" for e
  proof -
    from required_field [OF e [unfolded T_ApiErrorResponse_def], of "''error''" T_ApiError]
    obtain b where b: "json_get ''error'' (Some e) = Some b" "fits T_ApiError b" by auto
    from required_field [OF b(2) [unfolded T_ApiError_def]] b(1)
    show "\<exists>code message.
        json_get ''code'' (json_get ''error'' (Some e)) = Some (JStr code) \<and>
        json_get ''message'' (json_get ''error'' (Some e)) = Some (JStr message)"
      by (metis list.set_intros(1,2) string_values)
    from b(1) show "json_truthy e" by (cases e) simp_all
  qed
  moreover have "throwIfError None (Some e) (int status) =
      Inl \<lparr>err_code = JStr code, err_message = JStr message, err_status = int status\<rparr>"
    if "json_truthy e" "json_get ''code'' (json_get ''error'' (Some e)) = Some (JStr code)" "code \<noteq> []"
      "json_get ''message'' (json_get ''error'' (Some e)) = Some (JStr message)" "message \<noteq> []" for e code message
    using that by (simp add: throwIfError_def json_or_def)
  ultimately show ?thesis by blast
qed

theorem errors_reported_witness:
  "throwIfError None (Some (JObj [(js ''error'', JObj [(js ''code'', JStr (js ''NO'')), (js ''message'', JStr (js ''no''))])])) 401 =
     Inl \<lparr>err_code = JStr (js ''NO''), err_message = JStr (js ''no''), err_status = 401\<rparr>"
proof -
  let ?e = "JObj [(js ''error'', JObj [(js ''code'', JStr (js ''NO'')), (js ''message'', JStr (js ''no''))])]"
  have "(POST, ''/auth/login'', oper_login) \<in> set api_routes"
    by (simp add: api_routes_def path_auth_login_def)
  moreover have "(401, R_Unauthorized) \<in> set (oper_replies oper_login)" "(400 :: nat) \<le> 401"
    by (simp_all add: oper_login_def)
  moreover have "fits T_ApiErrorResponse ?e"
    by (simp add: T_ApiErrorResponse_def T_ApiError_def knownFields_def)
  ultimately have "\<exists>code message. JStr code = JStr (js ''NO'') \<and> JStr message = JStr (js ''no'') \<and>
      (code \<noteq> [] \<longrightarrow> message \<noteq> [] \<longrightarrow> throwIfError None (Some ?e) (int 401) =
        Inl \<lparr>err_code = JStr code, err_message = JStr message, err_status = int 401\<rparr>)"
    using errors_reported [of POST "''/auth/login''" oper_login 401 R_Unauthorized]
    by (auto simp: R_Unauthorized_def)
  then show ?thesis by (auto simp: js_eval)
qed

text \<open>
  Unregistering a device is the one operation that succeeds without content, for which openapi-fetch
  returns no data: \<open>throwIfError\<close> then reports the success as an error.
\<close>

lemma unregister_reports_error:
  "oper_replies oper_unregisterDeviceToken ! 0 = (204, NoContent) \<and>
   throwIfError None None 204 = Inl \<lparr>err_code = JStr (js ''EMPTY_RESPONSE''),
     err_message = JStr (js ''No data returned''), err_status = 204\<rparr>"
  by (simp add: oper_unregisterDeviceToken_def throwIfError_def)

end
