(* ===== verification/ChannelView.thy ===== *)
theory ChannelView
  imports Sidebar WebShell Machines
begin

text \<open>
  The page of a channel of the web app (\<open>apps/web/src/pages/ChannelPage.tsx\<close>): its title and
  menu, the timer that marks the channel as read, leaving and muting; with the context menu of the
  sidebar (\<open>ChannelContextMenu.tsx\<close>), the notification button, the dialogs of the details and of the
  conversion to a channel, and the text of system messages.

  The effects of React run after a render when one of their dependencies has changed. The model
  keeps the dependencies of the last run with the time of that run.
\<close>

section \<open>Title and permissions\<close>

definition getChannelPrefix :: "channel_type \<Rightarrow> jsstring" where
  "getChannelPrefix t = (if t = PrivateChannel then [] else js ''#'')"

definition channelPageTitle :: "channel_with_membership option \<Rightarrow> jsstring option" where
  "channelPageTitle chan =
     (case chan of None \<Rightarrow> None
      | Some c \<Rightarrow> Some (if isDM c then js ''DM with '' @ channelDisplayName c
                        else getChannelPrefix (ch_type c) @ ch_name c))"

definition composerPlaceholder :: "channel_with_membership \<Rightarrow> jsstring" where
  "composerPlaceholder c =
     js ''Message '' @ (if isDM c then channelDisplayName c else getChannelPrefix (ch_type c) @ ch_name c)"

definition isChannelMember :: "channel_with_membership \<Rightarrow> bool" where
  "isChannelMember c = (ch_channel_role c \<noteq> None)"

definition canAddMembers :: "workspace_summary list option \<Rightarrow> jsstring \<Rightarrow> channel_with_membership \<Rightarrow> bool" where
  "canAddMembers wss workspaceId c =
     (let role = map_option ws_role (find (\<lambda>w. ws_id w = workspaceId) (or_empty wss))
      in role = Some Admin \<or> role = Some Owner \<or> ch_channel_role c \<noteq> None)"

definition canJoin :: "channel_with_membership \<Rightarrow> bool" where
  "canJoin c = (ch_type c = PublicChannel \<and> \<not> isChannelMember c)"

definition canArchive :: "channel_with_membership \<Rightarrow> bool" where
  "canArchive c = (ch_type c \<noteq> DmChannel \<and> ch_type c \<noteq> GroupDmChannel \<and> \<not> ch_is_default c)"

definition canLeave :: "channel_with_membership \<Rightarrow> bool" where
  "canLeave c = (ch_type c \<noteq> DmChannel \<and> \<not> ch_is_default c \<and> isChannelMember c)"

definition canConvert :: "channel_with_membership \<Rightarrow> bool" where
  "canConvert c = (ch_type c = GroupDmChannel \<and> isChannelMember c)"

definition canEditChannel :: "channel_with_membership \<Rightarrow> bool" where
  "canEditChannel c =
     (ch_type c \<noteq> DmChannel \<and> ch_type c \<noteq> GroupDmChannel \<and> ch_channel_role c \<noteq> None)"

definition isChannel :: "channel_with_membership \<Rightarrow> bool" where
  "isChannel c = (ch_type c = PublicChannel \<or> ch_type c = PrivateChannel)"

section \<open>The menus\<close>

datatype details_tab = AboutTab | MembersTab | AddTab

datatype channel_action =
    OpenDetails details_tab
  | ViewProfile jsstring
  | StarAction
  | UnstarAction
  | CopyLink
  | MarkRead
  | Mute
  | Unmute
  | Convert
  | Leave
  | Archive

definition isMuted :: "notification_preferences option \<Rightarrow> bool" where
  "isMuted preferences = (map_option np_notify_level preferences = Some NotifyNone)"

text \<open>The menu of the header, and the star beside it.\<close>

definition headerMenu ::
    "workspace_summary list option \<Rightarrow> jsstring \<Rightarrow> notification_preferences option \<Rightarrow> channel_with_membership \<Rightarrow> channel_action list" where
  "headerMenu wss workspaceId preferences c =
     [OpenDetails AboutTab, OpenDetails MembersTab] @
     (if canAddMembers wss workspaceId c then [OpenDetails AddTab] else []) @
     [CopyLink] @
     (if ch_unread_count c > 0 then [MarkRead] else []) @
     (if isChannel c \<and> isChannelMember c then [if isMuted preferences then Unmute else Mute] else []) @
     (if canConvert c then [Convert] else []) @
     (if canLeave c then [Leave] else []) @
     (if canArchive c then [Archive] else [])"

definition headerStar :: "channel_with_membership \<Rightarrow> channel_action option" where
  "headerStar c =
     (if isChannelMember c then Some (if ch_is_starred c then UnstarAction else StarAction) else None)"

text \<open>The context menu of the sidebar.\<close>

definition contextCanLeave :: "channel_with_membership \<Rightarrow> bool" where
  "contextCanLeave c = (if isChannel c then \<not> ch_is_default c else ch_type c = GroupDmChannel)"

definition contextMenu :: "notification_preferences option \<Rightarrow> channel_with_membership \<Rightarrow> channel_action list" where
  "contextMenu preferences c =
     [if ch_is_starred c then UnstarAction else StarAction] @
     (case (ch_type c, ch_dm_participants c) of
        (DmChannel, Some (p # _)) \<Rightarrow> [ViewProfile (cm_user_id p)] | _ \<Rightarrow> []) @
     (if ch_unread_count c > 0 then [MarkRead] else []) @
     (if isChannel c then [if isMuted preferences then Unmute else Mute] else []) @
     [CopyLink] @
     (if contextCanLeave c then [Leave] else [])"

section \<open>Muting\<close>

text \<open>
  The preferences the three controls send; \<open>preferences\<close> is \<open>None\<close> while they are not loaded.
\<close>

definition emailEnabled :: "notification_preferences option \<Rightarrow> bool" where
  "emailEnabled preferences = (case preferences of Some p \<Rightarrow> np_email_enabled p | None \<Rightarrow> True)"

definition pageToggleMute :: "notification_preferences option \<Rightarrow> notification_preferences" where
  "pageToggleMute preferences =
     \<lparr>np_notify_level = (if isMuted preferences then NotifyMentions else NotifyNone),
      np_email_enabled = emailEnabled preferences\<rparr>"

definition menuToggleMute :: "notification_preferences option \<Rightarrow> notification_preferences" where
  "menuToggleMute preferences =
     \<lparr>np_notify_level = (if isMuted preferences then NotifyAll else NotifyNone),
      np_email_enabled = emailEnabled preferences\<rparr>"

definition currentLevel :: "notification_preferences option \<Rightarrow> notify_level" where
  "currentLevel preferences = (case preferences of Some p \<Rightarrow> np_notify_level p | None \<Rightarrow> NotifyAll)"

definition NOTIFICATION_OPTIONS :: "(notify_level \<times> jsstring) list" where
  "NOTIFICATION_OPTIONS =
     [(NotifyAll, js ''All messages''), (NotifyMentions, js ''Mentions only''), (NotifyNone, js ''Muted'')]"

definition selectLevel :: "notification_preferences option \<Rightarrow> notify_level \<Rightarrow> notification_preferences" where
  "selectLevel preferences level = \<lparr>np_notify_level = level, np_email_enabled = emailEnabled preferences\<rparr>"

text \<open>The button is not shown for direct messages.\<close>

definition notificationButtonShown :: "channel_type \<Rightarrow> bool" where
  "notificationButtonShown t = (\<not> (t = DmChannel \<or> t = GroupDmChannel))"

section \<open>Leaving, archiving and joining\<close>

datatype page_effect =
    Toast jsstring bool
  | GoTo jsstring
  | CloseModal
  | CloseThread
  | MarkAsRead jsstring
  | RefetchChannels

text \<open>
  The answer of a mutation: success, or what was thrown, with its message when it is an \<open>Error\<close>.
\<close>

type_synonym mutation_answer = "jsstring option option"

definition errorToast :: "jsstring option \<Rightarrow> jsstring \<Rightarrow> page_effect" where
  "errorToast err fallback = Toast (case err of Some m \<Rightarrow> m | None \<Rightarrow> fallback) False"

definition workspaceUrl :: "jsstring \<Rightarrow> jsstring" where
  "workspaceUrl workspaceId = js ''/workspaces/'' @ workspaceId"

definition channelUrl :: "jsstring \<Rightarrow> jsstring \<Rightarrow> jsstring" where
  "channelUrl workspaceId channelId = workspaceUrl workspaceId @ js ''/channels/'' @ channelId"

definition handleArchive :: "jsstring \<Rightarrow> mutation_answer \<Rightarrow> page_effect list" where
  "handleArchive workspaceId answer =
     (case answer of
        None \<Rightarrow> [Toast (js ''Channel archived'') True, CloseModal, GoTo (workspaceUrl workspaceId)]
      | Some err \<Rightarrow> [errorToast err (js ''Failed to archive channel'')])"

definition otherChannel :: "channel_with_membership list option \<Rightarrow> jsstring \<Rightarrow> channel_with_membership option" where
  "otherChannel chans channelId =
     find (\<lambda>c. ch_id c \<noteq> channelId \<and> ch_channel_role c \<noteq> None) (or_empty chans)"

definition handleLeave ::
    "channel_with_membership list option \<Rightarrow> jsstring \<Rightarrow> jsstring \<Rightarrow> mutation_answer \<Rightarrow> page_effect list" where
  "handleLeave chans workspaceId channelId answer =
     (case answer of
        None \<Rightarrow> [Toast (js ''Left channel'') True, CloseModal,
                 GoTo (case otherChannel chans channelId of
                   Some c \<Rightarrow> channelUrl workspaceId (ch_id c) | None \<Rightarrow> workspaceUrl workspaceId)]
      | Some err \<Rightarrow> [errorToast err (js ''Failed to leave channel'')])"

definition handleJoin :: "mutation_answer \<Rightarrow> page_effect list" where
  "handleJoin answer =
     (case answer of
        None \<Rightarrow> [RefetchChannels, Toast (js ''Joined channel'') True]
      | Some err \<Rightarrow> [errorToast err (js ''Failed to join channel'')])"

definition copyChannelLink :: "jsstring \<Rightarrow> jsstring \<Rightarrow> jsstring \<Rightarrow> jsstring" where
  "copyChannelLink origin workspaceId channelId = origin @ channelUrl workspaceId channelId"

section \<open>Marking the channel as read\<close>

text \<open>
  \<open>pg_deps\<close>: the dependencies \<open>[channelId, isAtBottom, channel?.unread_count]\<close> of the last run of the
  effect and the time of the run; \<open>pg_timer\<close>: the channel of the pending timer and when it is due.
\<close>

type_synonym read_deps = "jsstring option \<times> bool \<times> int option"

record channel_page =
  pg_channelId :: "jsstring option"
  pg_unread :: "int option"
  pg_atBottom :: bool
  pg_deps :: "(read_deps \<times> int) option"
  pg_timer :: "(jsstring \<times> int) option"
  pg_prevChannelId :: "jsstring option"
  pg_effects :: "page_effect list"

definition new_page :: channel_page where
  "new_page = \<lparr>pg_channelId = None, pg_unread = None, pg_atBottom = True, pg_deps = None,
     pg_timer = None, pg_prevChannelId = None, pg_effects = []\<rparr>"

definition currentDeps :: "channel_page \<Rightarrow> read_deps" where
  "currentDeps pg = (pg_channelId pg, pg_atBottom pg, pg_unread pg)"

definition markAsReadEffect :: "int \<Rightarrow> channel_page \<Rightarrow> channel_page" where
  "markAsReadEffect now pg =
     (if map_option fst (pg_deps pg) = Some (currentDeps pg) then pg
      else let pg1 = pg\<lparr>pg_timer := None, pg_deps := Some (currentDeps pg, now)\<rparr>
        in case (pg_channelId pg, pg_unread pg) of
             (Some channelId, Some unread) \<Rightarrow>
               if channelId = [] \<or> \<not> pg_atBottom pg \<or> unread = 0 then pg1
               else pg1\<lparr>pg_timer := Some (channelId, now + 2000)\<rparr>
           | _ \<Rightarrow> pg1)"

definition channelChangeEffect :: "channel_page \<Rightarrow> channel_page" where
  "channelChangeEffect pg =
     (if pg_prevChannelId pg = pg_channelId pg then pg
      else pg\<lparr>pg_atBottom := True, pg_prevChannelId := pg_channelId pg,
              pg_effects := pg_effects pg @ (if truthy (pg_prevChannelId pg) then [CloseThread] else [])\<rparr>)"

text \<open>After a render both effects run; the state the second one sets leads to another render.\<close>

definition commitPage :: "int \<Rightarrow> channel_page \<Rightarrow> channel_page" where
  "commitPage now pg = markAsReadEffect now (channelChangeEffect (markAsReadEffect now pg))"

text \<open>
  \<open>Rendered channelId unread\<close>: the route and the cached channels (the unread count of the channel when it
  is among them); \<open>AtBottom\<close>: \<open>handleAtBottomChange\<close>.
\<close>

datatype page_event = Rendered "jsstring option" "int option" | AtBottom bool | TimerFired

fun pageStep :: "int \<Rightarrow> page_event \<Rightarrow> channel_page \<Rightarrow> channel_page" where
  "pageStep now (Rendered c u) pg = commitPage now (pg\<lparr>pg_channelId := c, pg_unread := u\<rparr>)"
| "pageStep now (AtBottom b) pg = commitPage now (pg\<lparr>pg_atBottom := b\<rparr>)"
| "pageStep now TimerFired pg =
     (case pg_timer pg of None \<Rightarrow> pg
      | Some (channelId, due) \<Rightarrow>
          if due \<le> now
          then pg\<lparr>pg_timer := None, pg_effects := pg_effects pg @ [MarkAsRead channelId]\<rparr> else pg)"

definition unmountPage :: "channel_page \<Rightarrow> channel_page" where
  "unmountPage pg = pg\<lparr>pg_timer := None\<rparr>"

definition pageRun :: "(int \<times> page_event) list \<Rightarrow> channel_page \<Rightarrow> channel_page" where
  "pageRun evs pg = fold (\<lambda>(now, ev). pageStep now ev) evs pg"

text \<open>Messages that arrive at the times \<open>ts\<close> in the channel shown, each counted as unread.\<close>

fun busyEvents :: "jsstring \<Rightarrow> int \<Rightarrow> int list \<Rightarrow> (int \<times> page_event) list" where
  "busyEvents c n [] = []"
| "busyEvents c n (t # ts) =
     (t, Rendered (Some c) (Some n)) # (case ts of [] \<Rightarrow> [] | t' # _ \<Rightarrow> [(t', TimerFired)]) @ busyEvents c (n + 1) ts"

section \<open>The details dialog\<close>

text \<open>\<open>dd_deps\<close>: the dependencies of the last run of the effect that resets the fields.\<close>

type_synonym details_deps = "bool \<times> jsstring \<times> jsstring option \<times> channel_type \<times> details_tab"

record details_dialog =
  dd_name :: jsstring
  dd_description :: jsstring
  dd_type :: channel_type
  dd_selectedTab :: details_tab
  dd_saveError :: "jsstring option"
  dd_addingUserId :: "jsstring option"
  dd_deps :: "details_deps option"

definition fieldDescription :: "channel_with_membership \<Rightarrow> jsstring" where
  "fieldDescription c = or_else (ch_description c) []"

definition fieldType :: "channel_with_membership \<Rightarrow> channel_type" where
  "fieldType c = (if ch_type c = PrivateChannel then PrivateChannel else PublicChannel)"

definition new_details :: "channel_with_membership \<Rightarrow> details_tab \<Rightarrow> details_dialog" where
  "new_details c defaultTab = \<lparr>dd_name = ch_name c, dd_description = fieldDescription c, dd_type = fieldType c,
     dd_selectedTab = defaultTab, dd_saveError = None, dd_addingUserId = None, dd_deps = None\<rparr>"

text \<open>A render of the dialog, with the effect that resets its fields.\<close>

definition renderDetails :: "bool \<Rightarrow> channel_with_membership \<Rightarrow> details_tab \<Rightarrow> details_dialog \<Rightarrow> details_dialog" where
  "renderDetails isOpen c defaultTab d =
     (let deps = (isOpen, ch_name c, ch_description c, ch_type c, defaultTab)
      in if dd_deps d = Some deps then d
         else if isOpen
         then d\<lparr>dd_deps := Some deps, dd_name := ch_name c, dd_description := fieldDescription c,
                dd_type := fieldType c, dd_selectedTab := defaultTab, dd_saveError := None\<rparr>
         else d\<lparr>dd_deps := Some deps\<rparr>)"

definition typeName :: "(jsstring \<Rightarrow> jsstring) \<Rightarrow> jsstring \<Rightarrow> details_dialog \<Rightarrow> details_dialog" where
  "typeName lower s d = d\<lparr>dd_name := dashSpaces False (lower s), dd_saveError := None\<rparr>"

definition typeDescription :: "jsstring \<Rightarrow> details_dialog \<Rightarrow> details_dialog" where
  "typeDescription s d = d\<lparr>dd_description := s, dd_saveError := None\<rparr>"

definition chooseType :: "channel_type \<Rightarrow> details_dialog \<Rightarrow> details_dialog" where
  "chooseType t d = d\<lparr>dd_type := t, dd_saveError := None\<rparr>"

definition isNameValid :: "jsstring \<Rightarrow> bool" where
  "isNameValid n = (trim n = [] \<or> CHANNEL_NAME_REGEX (trim n))"

definition hasNameChanged :: "channel_with_membership \<Rightarrow> details_dialog \<Rightarrow> bool" where
  "hasNameChanged c d = (dd_name d \<noteq> ch_name c)"

definition hasDescriptionChanged :: "channel_with_membership \<Rightarrow> details_dialog \<Rightarrow> bool" where
  "hasDescriptionChanged c d = (dd_description d \<noteq> fieldDescription c)"

definition hasTypeChanged :: "channel_with_membership \<Rightarrow> details_dialog \<Rightarrow> bool" where
  "hasTypeChanged c d = (dd_type d \<noteq> ch_type c)"

definition hasChanges :: "channel_with_membership \<Rightarrow> details_dialog \<Rightarrow> bool" where
  "hasChanges c d = (hasNameChanged c d \<or> hasDescriptionChanged c d \<or> hasTypeChanged c d)"

definition canSave :: "bool \<Rightarrow> channel_with_membership \<Rightarrow> details_dialog \<Rightarrow> bool" where
  "canSave isPending c d =
     (hasChanges c d \<and> isNameValid (dd_name d) \<and> trim (dd_name d) \<noteq> [] \<and> \<not> isPending)"

record update_input =
  ui_name :: "jsstring option"
  ui_description :: "jsstring option"
  ui_type :: "channel_type option"

definition saveInput :: "channel_with_membership \<Rightarrow> details_dialog \<Rightarrow> update_input" where
  "saveInput c d =
     \<lparr>ui_name = (if hasNameChanged c d then Some (dd_name d) else None),
      ui_description = (if hasDescriptionChanged c d then Some (dd_description d) else None),
      ui_type = (if hasTypeChanged c d then Some (dd_type d) else None)\<rparr>"

text \<open>A press of the button (or Enter): the request it makes, if any.\<close>

definition pressSave :: "bool \<Rightarrow> channel_with_membership \<Rightarrow> details_dialog \<Rightarrow> details_dialog \<times> update_input option" where
  "pressSave isPending c d =
     (if canSave isPending c d then (d\<lparr>dd_saveError := None\<rparr>, Some (saveInput c d)) else (d, None))"

text \<open>The answer: \<open>Some (Some m)\<close> is an \<open>ApiError\<close> with its message.\<close>

definition saveAnswered :: "mutation_answer \<Rightarrow> details_dialog \<Rightarrow> details_dialog \<times> page_effect list" where
  "saveAnswered answer d =
     (case answer of
        None \<Rightarrow> (d, [CloseModal])
      | Some err \<Rightarrow> (d\<lparr>dd_saveError := Some (case err of Some m \<Rightarrow> m | None \<Rightarrow> js ''Failed to update channel'')\<rparr>, []))"

definition addMemberStarted :: "jsstring \<Rightarrow> details_dialog \<Rightarrow> details_dialog" where
  "addMemberStarted userId d = d\<lparr>dd_addingUserId := Some userId\<rparr>"

definition addMemberSettled :: "details_dialog \<Rightarrow> details_dialog" where
  "addMemberSettled d = d\<lparr>dd_addingUserId := None\<rparr>"

definition nonMembers :: "channel_member list option \<Rightarrow> workspace_member list option \<Rightarrow> workspace_member list" where
  "nonMembers members workspaceMembers =
     (let channelMemberIds = map cm_user_id (or_empty members)
      in filter (\<lambda>m. mem_user_id m \<notin> set channelMemberIds) (or_empty workspaceMembers))"

definition roleBadge :: "channel_role option \<Rightarrow> channel_role option" where
  "roleBadge role = (if role = None \<or> role = Some ChannelPoster then None else role)"

definition showVisibilityToggle :: "bool \<Rightarrow> channel_with_membership \<Rightarrow> bool" where
  "showVisibilityToggle canEdit c = (canEdit \<and> \<not> ch_is_default c \<and> \<not> isDM c)"

definition effectiveTab :: "channel_with_membership \<Rightarrow> details_dialog \<Rightarrow> details_tab" where
  "effectiveTab c d =
     (if ch_type c = GroupDmChannel \<and> dd_selectedTab d = AboutTab then MembersTab else dd_selectedTab d)"

definition detailsTabs :: "bool \<Rightarrow> channel_with_membership \<Rightarrow> details_tab list" where
  "detailsTabs canAdd c =
     (if ch_type c = GroupDmChannel then [] else [AboutTab]) @ [MembersTab] @ (if canAdd then [AddTab] else [])"

section \<open>Converting a conversation\<close>

record convert_dialog =
  cv_name :: jsstring
  cv_description :: jsstring
  cv_type :: channel_type

definition new_convert :: convert_dialog where
  "new_convert = \<lparr>cv_name = [], cv_description = [], cv_type = PrivateChannel\<rparr>"

definition typeConvertName :: "(jsstring \<Rightarrow> jsstring) \<Rightarrow> jsstring \<Rightarrow> convert_dialog \<Rightarrow> convert_dialog" where
  "typeConvertName lower s d = d\<lparr>cv_name := dashSpaces False (lower s)\<rparr>"

definition convertRequest :: "convert_dialog \<Rightarrow> (jsstring \<times> jsstring option \<times> channel_type) option" where
  "convertRequest d =
     (let trimmedName = trim (cv_name d)
      in if trimmedName = [] \<or> \<not> CHANNEL_NAME_REGEX trimmedName then None
         else Some (trimmedName,
           (if trim (cv_description d) = [] then None else Some (trim (cv_description d))), cv_type d))"

definition convertAnswered :: "mutation_answer \<Rightarrow> convert_dialog \<Rightarrow> convert_dialog \<times> page_effect list" where
  "convertAnswered answer d =
     (case answer of
        None \<Rightarrow> (d, [Toast (js ''Conversation converted to channel'') True, CloseModal])
      | Some err \<Rightarrow> (d, [errorToast err (js ''Failed to convert'')]))"

definition convertClosed :: "convert_dialog \<Rightarrow> convert_dialog \<times> page_effect list" where
  "convertClosed d = (d\<lparr>cv_name := [], cv_description := [], cv_type := PrivateChannel\<rparr>, [CloseModal])"

section \<open>System messages\<close>

datatype system_event_type =
    UserJoined | UserLeft | UserAdded | UserConvertedChannel | ChannelRenamed
  | ChannelVisibilityChanged | ChannelDescriptionUpdated | MessagePinned | MessageUnpinned

record system_event_data =
  se_event_type :: system_event_type
  se_user_display_name :: jsstring
  se_channel_name :: jsstring
  se_actor_display_name :: "jsstring option"
  se_old_channel_name :: "jsstring option"
  se_channel_type :: "jsstring option"
  se_message_id :: "jsstring option"

text \<open>An optional string in a template literal.\<close>

definition shownOptional :: "jsstring option \<Rightarrow> jsstring" where
  "shownOptional s = (case s of Some t \<Rightarrow> t | None \<Rightarrow> js ''undefined'')"

definition systemEventText :: "system_event_data \<Rightarrow> jsstring" where
  "systemEventText e =
     (case se_event_type e of
        UserJoined \<Rightarrow> js ''joined #'' @ se_channel_name e
      | UserLeft \<Rightarrow> js ''left #'' @ se_channel_name e
      | UserAdded \<Rightarrow>
          if truthy (se_actor_display_name e) then js ''was added by '' @ shownOptional (se_actor_display_name e)
          else js ''was added to #'' @ se_channel_name e
      | UserConvertedChannel \<Rightarrow> js ''converted this conversation to #'' @ se_channel_name e
      | ChannelRenamed \<Rightarrow>
          js ''renamed the channel from #'' @ shownOptional (se_old_channel_name e) @ js '' to #'' @ se_channel_name e
      | ChannelVisibilityChanged \<Rightarrow> js ''made the channel '' @ shownOptional (se_channel_type e)
      | ChannelDescriptionUpdated \<Rightarrow> js ''updated the channel description''
      | MessagePinned \<Rightarrow> js ''pinned a message to this channel''
      | MessageUnpinned \<Rightarrow> js ''unpinned a message from this channel'')"

definition systemContentText :: "jsstring \<Rightarrow> system_event_data option \<Rightarrow> jsstring" where
  "systemContentText content ev = (case ev of None \<Rightarrow> content | Some e \<Rightarrow> systemEventText e)"

definition systemName :: "jsstring option \<Rightarrow> system_event_data option \<Rightarrow> jsstring" where
  "systemName displayName ev =
     or_else displayName (or_else (map_option se_user_display_name ev) (js ''System''))"

text \<open>The message a pin event shows below its text.\<close>

definition referencedMessageId :: "system_event_data option \<Rightarrow> jsstring option" where
  "referencedMessageId ev =
     (case ev of None \<Rightarrow> None
      | Some e \<Rightarrow> if se_event_type e = MessagePinned \<or> se_event_type e = MessageUnpinned
                  then se_message_id e else None)"

definition copyMessageLink :: "jsstring \<Rightarrow> jsstring \<Rightarrow> jsstring \<Rightarrow> jsstring \<Rightarrow> jsstring" where
  "copyMessageLink origin workspaceId channelId messageId =
     origin @ channelUrl workspaceId channelId @ js ''?msg='' @ messageId"

section \<open>The timer\<close>

text \<open>The page as it is between two steps: the effects have run for what it shows.\<close>

definition settledPage :: "channel_page \<Rightarrow> bool" where
  "settledPage pg \<longleftrightarrow>
     map_option fst (pg_deps pg) = Some (currentDeps pg) \<and> pg_prevChannelId pg = pg_channelId pg"

definition pageInv :: "channel_page \<Rightarrow> bool" where
  "pageInv pg \<longleftrightarrow>
     (pg_deps pg = None \<and> pg_channelId pg = None \<or> settledPage pg) \<and>
     (\<forall>c due. pg_timer pg = Some (c, due) \<longrightarrow>
        c \<noteq> [] \<and> (\<exists>n. n \<noteq> 0 \<and> pg_deps pg = Some ((Some c, True, Some n), due - 2000)))"

lemmas page_defs = markAsReadEffect_def channelChangeEffect_def currentDeps_def Let_def

lemma markAsReadEffect_idem: "markAsReadEffect now' (markAsReadEffect now pg) = markAsReadEffect now pg"
  by (auto simp: page_defs split: option.splits)

lemma markAsReadEffect_fields [simp]:
  "pg_channelId (markAsReadEffect now pg) = pg_channelId pg"
  "pg_unread (markAsReadEffect now pg) = pg_unread pg"
  "pg_atBottom (markAsReadEffect now pg) = pg_atBottom pg"
  "pg_prevChannelId (markAsReadEffect now pg) = pg_prevChannelId pg"
  "pg_effects (markAsReadEffect now pg) = pg_effects pg"
  by (auto simp: page_defs split: option.splits)

lemma markAsReadEffect_deps:
  "map_option fst (pg_deps (markAsReadEffect now pg)) = Some (currentDeps pg)"
  by (auto simp: page_defs split: option.splits)

definition timerFits :: "channel_page \<Rightarrow> bool" where
  "timerFits pg \<longleftrightarrow>
     (\<forall>c due. pg_timer pg = Some (c, due) \<longrightarrow>
        c \<noteq> [] \<and> (\<exists>n. n \<noteq> 0 \<and> pg_deps pg = Some ((Some c, True, Some n), due - 2000)))"

lemma timerFits_effect: "timerFits pg \<Longrightarrow> timerFits (markAsReadEffect now pg)"
  by (auto simp: timerFits_def page_defs split: option.splits)

lemma timerFits_change: "timerFits pg \<Longrightarrow> timerFits (channelChangeEffect pg)"
  by (auto simp: timerFits_def channelChangeEffect_def)

lemma commitPage_settled: "settledPage (commitPage now pg)"
  using markAsReadEffect_deps [of now "channelChangeEffect (markAsReadEffect now pg)"]
  by (auto simp: settledPage_def commitPage_def currentDeps_def channelChangeEffect_def)

lemma commitPage_inv: "timerFits pg \<Longrightarrow> pageInv (commitPage now pg)"
  using commitPage_settled [of now pg]
    timerFits_effect [OF timerFits_change [OF timerFits_effect]]
  unfolding pageInv_def commitPage_def timerFits_def by blast

lemma pageInv_timerFits: "pageInv pg \<Longrightarrow> timerFits pg"
  by (auto simp: pageInv_def timerFits_def)

lemma pageStep_inv: "pageInv pg \<Longrightarrow> pageInv (pageStep now ev pg)"
proof (cases ev)
  case TimerFired
  assume "pageInv pg"
  then show ?thesis
    by (auto simp: TimerFired pageInv_def settledPage_def currentDeps_def split: option.splits)
next
  case (Rendered c u)
  assume "pageInv pg"
  then have "timerFits (pg\<lparr>pg_channelId := c, pg_unread := u\<rparr>)"
    using pageInv_timerFits by (auto simp: timerFits_def)
  then show ?thesis by (simp add: Rendered commitPage_inv)
next
  case (AtBottom b)
  assume "pageInv pg"
  then have "timerFits (pg\<lparr>pg_atBottom := b\<rparr>)"
    using pageInv_timerFits by (auto simp: timerFits_def)
  then show ?thesis by (simp add: AtBottom commitPage_inv)
qed

inductive page_step :: "channel_page \<Rightarrow> channel_page \<Rightarrow> bool" where
  event: "page_step pg (pageStep now ev pg)"

lemma new_page_inv: "pageInv new_page"
  by (simp add: pageInv_def new_page_def)

interpretation channel_pages: machine page_step "\<lambda>pg. pg = new_page" pageInv
proof
  show "pageInv pg'" if "page_step pg pg'" "pageInv pg" for pg pg'
    using that by (cases rule: page_step.cases) (simp add: pageStep_inv)
qed (simp add: new_page_inv)

lemma unmounted_marks_nothing: "pageStep now TimerFired (unmountPage pg) = unmountPage pg"
  by (simp add: unmountPage_def)

lemma pageRun_Nil [simp]: "pageRun [] pg = pg"
  by (simp add: pageRun_def)

lemma pageRun_append: "pageRun (evs @ evs') pg = pageRun evs' (pageRun evs pg)"
  by (simp add: pageRun_def)

lemma pageRun_Cons: "pageRun ((t, ev) # evs) pg = pageRun evs (pageStep t ev pg)"
  by (simp add: pageRun_def)

lemma pageRun_inv: "pageInv pg \<Longrightarrow> pageInv (pageRun evs pg)"
  by (induction evs arbitrary: pg) (auto simp: pageRun_Cons pageStep_inv)

lemma pageStep_deps:
  "pg_deps (pageStep now ev pg) = pg_deps pg \<or> (\<exists>d. pg_deps (pageStep now ev pg) = Some (d, now))"
  by (cases ev) (auto simp: commitPage_def page_defs split: option.splits)

text \<open>The effect last ran at one of the events, and its dependencies have not changed since.\<close>

lemma deps_history:
  "pg_deps (pageRun evs new_page) = Some (d, t0) \<Longrightarrow>
     \<exists>a e b. evs = a @ e # b \<and> fst e = t0 \<and>
       (\<forall>k. length a < k \<longrightarrow> k \<le> length evs \<longrightarrow> pg_deps (pageRun (take k evs) new_page) = Some (d, t0))"
proof (induction evs rule: rev_induct)
  case Nil
  then show ?case by (simp add: new_page_def)
next
  case (snoc x evs)
  obtain now ev where x: "x = (now, ev)" by (cases x)
  let ?pg = "pageRun evs new_page"
  have run: "pageRun (evs @ [x]) new_page = pageStep now ev ?pg"
    by (simp add: pageRun_append pageRun_Cons x)
  consider "pg_deps (pageStep now ev ?pg) = pg_deps ?pg" | "t0 = now"
    using pageStep_deps [of now ev ?pg] snoc.prems run by auto
  then show ?case
  proof cases
    case 1
    then have "pg_deps ?pg = Some (d, t0)" using snoc.prems run by simp
    from snoc.IH [OF this] obtain a e b where split: "evs = a @ e # b" "fst e = t0"
      and since: "\<And>k. length a < k \<Longrightarrow> k \<le> length evs \<Longrightarrow> pg_deps (pageRun (take k evs) new_page) = Some (d, t0)"
      by blast
    have "pg_deps (pageRun (take k (evs @ [x])) new_page) = Some (d, t0)"
      if "length a < k" "k \<le> length (evs @ [x])" for k
      using that since [of k] snoc.prems by (cases "k \<le> length evs") (auto simp: not_le le_Suc_eq)
    with split show ?thesis by (intro exI [of _ a] exI [of _ e] exI [of _ "b @ [x]"]) auto
  next
    case 2
    then show ?thesis
      using snoc.prems x by (intro exI [of _ evs] exI [of _ x] exI [of _ "[]"]) (auto simp: le_Suc_eq)
  qed
qed

lemma fired_marks:
  "MarkAsRead c \<in> set (pg_effects (pageStep now ev pg)) \<Longrightarrow> MarkAsRead c \<notin> set (pg_effects pg) \<Longrightarrow>
     ev = TimerFired \<and> (\<exists>due \<le> now. pg_timer pg = Some (c, due))"
  by (cases ev) (auto simp: commitPage_def channelChangeEffect_def split: option.splits if_splits)

lemma marked_when:
  "MarkAsRead c \<in> set (pg_effects (pageRun evs new_page)) \<Longrightarrow>
     \<exists>evs1 t evs2 due. evs = evs1 @ (t, TimerFired) # evs2 \<and> due \<le> t \<and>
       pg_timer (pageRun evs1 new_page) = Some (c, due)"
proof (induction evs rule: rev_induct)
  case Nil
  then show ?case by (simp add: new_page_def)
next
  case (snoc x evs)
  obtain now ev where x: "x = (now, ev)" by (cases x)
  show ?case
  proof (cases "MarkAsRead c \<in> set (pg_effects (pageRun evs new_page))")
    case True
    then show ?thesis using snoc.IH by force
  next
    case False
    have "MarkAsRead c \<in> set (pg_effects (pageStep now ev (pageRun evs new_page)))"
      using snoc.prems by (simp add: pageRun_append pageRun_Cons x)
    from fired_marks [OF this False] show ?thesis using x by blast
  qed
qed


lemma count_changes:
  assumes "settledPage pg" "pg_channelId pg = Some c" "c \<noteq> []" "pg_atBottom pg" "pg_unread pg \<noteq> Some n" "n \<noteq> 0"
  shows "pageStep t (Rendered (Some c) (Some n)) pg =
    pg\<lparr>pg_unread := Some n, pg_deps := Some ((Some c, True, Some n), t), pg_timer := Some (c, t + 2000)\<rparr>"
  using assms by (auto simp: commitPage_def settledPage_def page_defs)

text \<open>marking a message as unread while its channel is shown at the bottom does not last: when the
  refetched channels show the unread messages, the timer starts, and two seconds later the page
  marks the channel as read again.\<close>

theorem mark_unread_undone:
  assumes "reachable page_step (\<lambda>pg. pg = new_page) pg"
    and "pg_channelId pg = Some c" "c \<noteq> []" "pg_atBottom pg" "pg_unread pg = Some 0"
    and "n \<noteq> 0" "t + 2000 \<le> t'"
  shows "pg_effects (pageRun [(t, Rendered (Some c) (Some n)), (t', TimerFired)] pg) = pg_effects pg @ [MarkAsRead c]"
proof -
  have "pageInv pg" by (rule channel_pages.always) (rule assms(1))
  then have "settledPage pg" using assms(2) by (auto simp: pageInv_def)
  then have "pageStep t (Rendered (Some c) (Some n)) pg =
      pg\<lparr>pg_unread := Some n, pg_deps := Some ((Some c, True, Some n), t), pg_timer := Some (c, t + 2000)\<rparr>"
    using assms by (intro count_changes) auto
  then show ?thesis using assms(7) by (simp add: pageRun_Cons del: pageStep.simps(1))
qed

lemma new_page_fields [simp]:
  "pg_atBottom new_page" "pg_effects new_page = []" "pg_timer new_page = None" "pg_deps new_page = None"
  "pg_channelId new_page = None" "pg_unread new_page = None" "pg_prevChannelId new_page = None"
  by (simp_all add: new_page_def)

lemma page_eval:
  "pageStep now (Rendered c u) new_page =
     new_page\<lparr>pg_channelId := c, pg_unread := u, pg_prevChannelId := c, pg_deps := Some ((c, True, u), now),
       pg_timer := (case (c, u) of (Some channelId, Some n) \<Rightarrow>
          if channelId = [] \<or> n = 0 then None else Some (channelId, now + 2000) | _ \<Rightarrow> None)\<rparr>"
  by (auto simp: commitPage_def page_defs new_page_def split: option.splits)


lemma shown_page_reachable:
  "reachable page_step (\<lambda>pg. pg = new_page) (pageStep now ev new_page)"
  by (rule reachable_step [where s = new_page]) (simp_all add: reachable_start page_step.event)

lemma mark_unread_undone_witness:
  "pg_effects (pageRun [(5, Rendered (Some (js ''c'')) (Some 3)), (2005, TimerFired)]
     (pageStep 0 (Rendered (Some (js ''c'')) (Some 0)) new_page)) = [MarkAsRead (js ''c'')]"
  using mark_unread_undone [OF shown_page_reachable [of 0 "Rendered (Some (js ''c'')) (Some 0)"],
      of "js ''c''" 3 5 2005]
  by (simp add: page_eval del: pageStep.simps(1))

lemma busy_run:
  assumes "successively (\<lambda>t t'. t' < t + 2000) ts"
    "settledPage pg" "pg_channelId pg = Some c" "c \<noteq> []" "pg_atBottom pg"
    "\<forall>m. pg_unread pg = Some m \<longrightarrow> m < n" "0 < n"
  shows "pg_effects (pageRun (busyEvents c n ts) pg) = pg_effects pg"
  using assms
proof (induction ts arbitrary: n pg)
  case (Cons t ts)
  let ?pg = "pageStep t (Rendered (Some c) (Some n)) pg"
  have pg: "?pg = pg\<lparr>pg_unread := Some n, pg_deps := Some ((Some c, True, Some n), t), pg_timer := Some (c, t + 2000)\<rparr>"
    using Cons.prems by (intro count_changes) auto
  then have settled: "settledPage ?pg"
    using Cons.prems by (simp add: settledPage_def currentDeps_def)
  have next_fired: "pageStep t' TimerFired ?pg = ?pg" if "ts = t' # ts'" for t' ts'
    using Cons.prems(1) pg that by simp
  have "pg_effects (pageRun (busyEvents c (n + 1) ts) ?pg) = pg_effects ?pg"
    using Cons.prems pg settled by (intro Cons.IH) (auto simp: successively_Cons)
  then show ?case
    using pg next_fired by (cases ts) (simp_all add: pageRun_Cons)
qed simp

text \<open>while messages keep arriving in the channel shown, less than two seconds apart, every one restarts
  the timer: a user who follows a busy conversation never has it marked as read.\<close>

theorem busy_channel_stays_unread:
  assumes "reachable page_step (\<lambda>pg. pg = new_page) pg"
    and "pg_channelId pg = Some c" "c \<noteq> []" "pg_atBottom pg" "pg_unread pg = Some m" "0 \<le> m"
    and "successively (\<lambda>t t'. t' < t + 2000) ts"
  shows "pg_effects (pageRun (busyEvents c (m + 1) ts) pg) = pg_effects pg"
proof -
  have "pageInv pg" by (rule channel_pages.always) (rule assms(1))
  then have "settledPage pg" using assms(2) by (auto simp: pageInv_def)
  then show ?thesis using assms by (intro busy_run) auto
qed

text \<open>A quiet channel is read: two seconds without a change.\<close>

lemma quiet_channel_read:
  assumes "pg_timer pg = Some (c, due)" "due \<le> t"
  shows "pg_effects (pageRun [(t, TimerFired), (t', TimerFired)] pg) = pg_effects pg @ [MarkAsRead c]"
  using assms by (simp add: pageRun_Cons)

lemma busy_channel_stays_unread_witness:
  "pg_effects (pageRun (busyEvents (js ''c'') 1 [10, 1500, 3000])
     (pageStep 0 (Rendered (Some (js ''c'')) (Some 0)) new_page)) = []"
  using busy_channel_stays_unread [OF shown_page_reachable [of 0 "Rendered (Some (js ''c'')) (Some 0)"],
      of "js ''c''" 0 "[10, 1500, 3000]"]
  by (simp add: page_eval del: pageStep.simps(1) busyEvents.simps)

section \<open>The menus, leaving and muting\<close>

text \<open>Leaving never leads back to the channel left, and only to a channel of the user.\<close>

lemma leave_target:
  "otherChannel chans channelId = Some c \<Longrightarrow> c \<in> set (or_empty chans) \<and> ch_id c \<noteq> channelId \<and> isChannelMember c"
  by (auto simp: otherChannel_def find_Some_iff isChannelMember_def in_set_conv_nth)

lemma leave_without_target:
  "otherChannel chans channelId = None \<longleftrightarrow>
     (\<forall>c \<in> set (or_empty chans). isChannelMember c \<longrightarrow> ch_id c = channelId)"
  by (auto simp: otherChannel_def find_None_iff isChannelMember_def)

text \<open>What the two menus offer of the channels the sidebar lists.\<close>

lemma menus_agree_on_leaving:
  assumes "listedChannel c" "isChannelMember c" "ch_type c = GroupDmChannel \<Longrightarrow> \<not> ch_is_default c"
  shows "Leave \<in> set (contextMenu p c) \<longleftrightarrow> Leave \<in> set (headerMenu wss w p c)"
  using assms
  by (cases "ch_type c")
    (auto simp: contextMenu_def headerMenu_def contextCanLeave_def canLeave_def isChannel_def
      split: list.splits option.splits)

lemma join_or_compose: "canJoin c \<Longrightarrow> \<not> canLeave c \<and> \<not> canEditChannel c \<and> headerStar c = None"
  by (simp add: canJoin_def canLeave_def canEditChannel_def headerStar_def isChannelMember_def)

text \<open>
  Muting and unmuting a channel from the page leaves the level of the mentions, from the
  context menu that of all messages, whatever the level was before.
\<close>

lemma mute_forgets_level:
  assumes "\<not> isMuted (Some p)"
  shows "np_notify_level (pageToggleMute (Some (pageToggleMute (Some p)))) = NotifyMentions"
    and "np_notify_level (menuToggleMute (Some (menuToggleMute (Some p)))) = NotifyAll"
  using assms by (simp_all add: pageToggleMute_def menuToggleMute_def isMuted_def)

text \<open>Before the preferences have been loaded, every control turns the e-mails on.\<close>

lemma unloaded_mute_enables_email:
  "np_email_enabled (pageToggleMute None)" "np_email_enabled (menuToggleMute None)"
  "np_email_enabled (selectLevel None level)"
  by (simp_all add: pageToggleMute_def menuToggleMute_def selectLevel_def emailEnabled_def)

lemma loaded_mute_keeps_email:
  "np_email_enabled (pageToggleMute (Some p)) = np_email_enabled p"
  "np_email_enabled (menuToggleMute (Some p)) = np_email_enabled p"
  "np_email_enabled (selectLevel (Some p) level) = np_email_enabled p"
  by (simp_all add: pageToggleMute_def menuToggleMute_def selectLevel_def emailEnabled_def)

section \<open>The dialogs\<close>

text \<open>What the server makes of a request: the fields present replace those of the channel.\<close>

definition applyInput :: "update_input \<Rightarrow> channel_with_membership \<Rightarrow> channel_with_membership" where
  "applyInput i c =
     c\<lparr>ch_name := (case ui_name i of Some n \<Rightarrow> n | None \<Rightarrow> ch_name c),
       ch_description := (case ui_description i of Some d \<Rightarrow> Some d | None \<Rightarrow> ch_description c),
       ch_type := (case ui_type i of Some t \<Rightarrow> t | None \<Rightarrow> ch_type c)\<rparr>"

lemmas changed_defs = hasNameChanged_def hasDescriptionChanged_def hasTypeChanged_def saveInput_def

lemma dashSpaces_no_ws: "\<not> is_ws (ch CHR ''-'') \<Longrightarrow> c \<in> set (dashSpaces b s) \<Longrightarrow> \<not> is_ws c"
  by (induction b s rule: dashSpaces.induct) (auto split: if_splits)

lemma trim_id: "(\<And>c. c \<in> set s \<Longrightarrow> \<not> is_ws c) \<Longrightarrow> trim s = s"
  unfolding trim_def
  by (metis dropWhile_eq_self_iff hd_in_set rev_is_Nil_conv rev_rev_ident set_rev)

text \<open>a press on Save sends the fields the user has changed and no others; when they have replaced
  those of the channel, the dialog has nothing left to save. A name that is sent is not empty and,
  trimmed, a valid channel name.\<close>

theorem details_save_exact:
  assumes "pressSave isPending c d = (d', Some i)"
  shows "\<not> hasChanges (applyInput i c) d'"
    and "ui_name i \<noteq> None \<longleftrightarrow> dd_name d \<noteq> ch_name c"
    and "ui_description i \<noteq> None \<longleftrightarrow> dd_description d \<noteq> fieldDescription c"
    and "ui_type i \<noteq> None \<longleftrightarrow> dd_type d \<noteq> ch_type c"
    and "\<forall>n. ui_name i = Some n \<longrightarrow> CHANNEL_NAME_REGEX (trim n)"
proof -
  from assms(1) have save: "canSave isPending c d" "i = saveInput c d" "d' = d\<lparr>dd_saveError := None\<rparr>"
    by (auto simp: pressSave_def split: if_splits)
  show "ui_name i \<noteq> None \<longleftrightarrow> dd_name d \<noteq> ch_name c"
    and "ui_description i \<noteq> None \<longleftrightarrow> dd_description d \<noteq> fieldDescription c"
    and "ui_type i \<noteq> None \<longleftrightarrow> dd_type d \<noteq> ch_type c"
    by (auto simp: save changed_defs)
  show "\<forall>n. ui_name i = Some n \<longrightarrow> CHANNEL_NAME_REGEX (trim n)"
    using save(1) by (auto simp: save(2) canSave_def isNameValid_def changed_defs)
  show "\<not> hasChanges (applyInput i c) d'"
    by (auto simp: save(2,3) applyInput_def hasChanges_def changed_defs fieldDescription_def or_else_def split: option.splits)
qed

lemma details_save_exact_witness:
  "pressSave False sample_channel (typeDescription (js ''x'') (new_details sample_channel AboutTab)) =
     (typeDescription (js ''x'') (new_details sample_channel AboutTab),
      Some \<lparr>ui_name = None, ui_description = Some (js ''x''), ui_type = None\<rparr>) \<and>
   \<not> hasChanges (applyInput \<lparr>ui_name = None, ui_description = Some (js ''x''), ui_type = None\<rparr> sample_channel)
        (typeDescription (js ''x'') (new_details sample_channel AboutTab))"
proof -
  have "trim (js ''general'') = js ''general''" by code_simp
  moreover have "CHANNEL_NAME_REGEX (js ''general'')" by code_simp
  ultimately have *: "pressSave False sample_channel (typeDescription (js ''x'') (new_details sample_channel AboutTab)) =
     (typeDescription (js ''x'') (new_details sample_channel AboutTab),
      Some \<lparr>ui_name = None, ui_description = Some (js ''x''), ui_type = None\<rparr>)"
    by (simp add: pressSave_def canSave_def hasChanges_def changed_defs isNameValid_def typeDescription_def
      new_details_def fieldDescription_def fieldType_def sample_channel_def or_else_def)
  from * details_save_exact(1) [OF *] show ?thesis by simp
qed

text \<open>What is typed into the name field has no white space, so that trimming it changes nothing.\<close>

lemma typed_name_trimmed: "trim (dd_name (typeName lower s d)) = dd_name (typeName lower s d)"
proof -
  have "\<not> is_ws (ch CHR ''-'')" by (simp add: is_ws_def)
  then show ?thesis
    using dashSpaces_no_ws by (auto simp: typeName_def intro: trim_id)
qed

text \<open>the fields of the open dialog are reset whenever the cached channel gets another name, description
  or type: what the user has typed is lost when anybody changes the channel meanwhile.\<close>

theorem details_edits_lost:
  assumes "dd_deps d = Some (True, ch_name c, ch_description c, ch_type c, tab)"
    and "(ch_name c', ch_description c', ch_type c') \<noteq> (ch_name c, ch_description c, ch_type c)"
  shows "dd_name (renderDetails True c' tab d) = ch_name c'"
    and "dd_description (renderDetails True c' tab d) = fieldDescription c'"
    and "dd_type (renderDetails True c' tab d) = fieldType c'"
    and "dd_selectedTab (renderDetails True c' tab d) = tab"
  using assms by (auto simp: renderDetails_def)

lemma details_edits_lost_witness:
  "dd_description (renderDetails True (sample_channel\<lparr>ch_name := js ''news''\<rparr>) AboutTab
     (typeDescription (js ''x'') (renderDetails True sample_channel AboutTab (new_details sample_channel AboutTab)))) =
   fieldDescription sample_channel"
  using details_edits_lost(2) [of "typeDescription (js ''x'') (renderDetails True sample_channel AboutTab
      (new_details sample_channel AboutTab))" sample_channel AboutTab "sample_channel\<lparr>ch_name := js ''news''\<rparr>"]
  by (simp add: sample_channel_def renderDetails_def typeDescription_def new_details_def fieldDescription_def)

lemma nonMembers_iff:
  "m \<in> set (nonMembers ms wms) \<longleftrightarrow>
     m \<in> set (or_empty wms) \<and> mem_user_id m \<notin> cm_user_id ` set (or_empty ms)"
  by (auto simp: nonMembers_def)

lemma effective_tab_offered:
  "dd_selectedTab d \<noteq> AddTab \<or> canAdd \<Longrightarrow> effectiveTab c d \<in> set (detailsTabs canAdd c)"
  by (cases "dd_selectedTab d") (auto simp: effectiveTab_def detailsTabs_def)

lemma convert_request_valid:
  "convertRequest d = Some (n, desc, t) \<Longrightarrow>
     isValidName n \<and> t = cv_type d \<and> desc \<noteq> Some []"
  by (auto simp: convertRequest_def isValidName_def Let_def split: if_splits)

text \<open>Closing the dialog empties it, converting does not: the next conversation is offered the old name.\<close>

lemma convert_keeps_fields:
  "fst (convertAnswered None d) = d" "fst (convertClosed d) = new_convert"
  by (simp_all add: convertAnswered_def convertClosed_def new_convert_def)

lemma copied_links_agree:
  "copyMessageLink origin w c m = copyChannelLink origin w c @ js ''?msg='' @ m"
  by (simp add: copyMessageLink_def copyChannelLink_def)

end
