(* ===== verification/WorkspaceRail.thy ===== *)
theory WorkspaceRail
  imports ChannelView ClientOperations ListItems
begin

text \<open>
  The rail of the workspaces of the web app (\<open>apps/web/src/components/workspace/WorkspaceSwitcher.tsx\<close>,
  \<open>WorkspaceContextMenu.tsx\<close>): the local copy of the list, reordering it by dragging, the badges,
  the context menu, logging out and creating a workspace.

  \<open>arrayMove\<close> is a function of dnd-kit and an argument; what is documented of it is that the result
  has the elements of the list. As in the sidebar, the copy is replaced when the cached list is another one.
\<close>

section \<open>The local list\<close>

record workspace_rail =
  wr_localWorkspaces :: "workspace_summary list"
  wr_prevServerWorkspaces :: "workspace_summary list option"
  wr_activeWorkspace :: "workspace_summary option"

definition new_rail :: workspace_rail where
  "new_rail = \<lparr>wr_localWorkspaces = [], wr_prevServerWorkspaces = None, wr_activeWorkspace = None\<rparr>"

definition syncWorkspaces :: "workspace_summary list option \<Rightarrow> workspace_rail \<Rightarrow> workspace_rail" where
  "syncWorkspaces serverWorkspaces r =
     (if serverWorkspaces \<noteq> wr_prevServerWorkspaces r
      then (let r1 = r\<lparr>wr_prevServerWorkspaces := serverWorkspaces\<rparr>
        in case serverWorkspaces of None \<Rightarrow> r1 | Some wss \<Rightarrow> r1\<lparr>wr_localWorkspaces := wss\<rparr>)
      else r)"

definition railDragStart :: "jsstring \<Rightarrow> workspace_rail \<Rightarrow> workspace_rail" where
  "railDragStart activeId r =
     (case find (\<lambda>ws. ws_id ws = activeId) (wr_localWorkspaces r) of
        None \<Rightarrow> r | Some ws \<Rightarrow> r\<lparr>wr_activeWorkspace := Some ws\<rparr>)"

text \<open>The drop; the second component is the list of ids sent to the server.\<close>

definition railDragEnd ::
    "(workspace_summary list \<Rightarrow> nat \<Rightarrow> nat \<Rightarrow> workspace_summary list) \<Rightarrow> jsstring \<Rightarrow> jsstring option \<Rightarrow>
     workspace_rail \<Rightarrow> workspace_rail \<times> jsstring list option" where
  "railDragEnd arrayMove activeId over r =
     (let r1 = r\<lparr>wr_activeWorkspace := None\<rparr>
      in case over of
           None \<Rightarrow> (r1, None)
         | Some overId \<Rightarrow>
             if activeId = overId then (r1, None)
             else case (findIndex (\<lambda>ws. ws_id ws = activeId) (wr_localWorkspaces r1),
                        findIndex (\<lambda>ws. ws_id ws = overId) (wr_localWorkspaces r1)) of
                 (Some oldIndex, Some newIndex) \<Rightarrow>
                   let newOrder = arrayMove (wr_localWorkspaces r1) oldIndex newIndex
                   in (r1\<lparr>wr_localWorkspaces := newOrder\<rparr>, Some (map ws_id newOrder))
               | _ \<Rightarrow> (r1, None))"

section \<open>Badges\<close>

record notification_summary =
  ns_unread_count :: int
  ns_notification_count :: int

definition unreadState ::
    "bool \<Rightarrow> channel_with_membership list option \<Rightarrow> notification_summary option \<Rightarrow> bool \<times> int" where
  "unreadState isActive chans summary =
     (if isActive
      then (case chans of None \<Rightarrow> (False, 0)
        | Some cs \<Rightarrow> (list_ex (\<lambda>c. ch_unread_count c > 0) cs, foldl (\<lambda>sum c. sum + ch_notification_count c) 0 cs))
      else case summary of None \<Rightarrow> (False, 0)
        | Some s \<Rightarrow> (ns_unread_count s > 0, ns_notification_count s))"

datatype rail_badge = NoBadge | CountBadge jsstring | DotBadge

definition railBadge :: "bool \<Rightarrow> bool \<times> int \<Rightarrow> rail_badge" where
  "railBadge isActive st =
     (let hasUnread = fst st; totalNotifications = snd st
      in if \<not> isActive \<and> totalNotifications > 0
         then CountBadge (if totalNotifications > 99 then js ''99+'' else js_nat (nat totalNotifications))
         else if \<not> isActive \<and> totalNotifications = 0 \<and> hasUnread then DotBadge else NoBadge)"

definition railInitials :: "(jsstring \<Rightarrow> jsstring) \<Rightarrow> workspace_summary \<Rightarrow> jsstring" where
  "railInitials upper ws = upper (take 2 (ws_name ws))"

section \<open>The menus\<close>

datatype rail_action = OpenSettings | OpenInvite | MarkAllRead | LeaveWorkspace

definition canInvite :: "workspace_summary \<Rightarrow> bool" where
  "canInvite ws = (ws_role ws = Owner \<or> ws_role ws = Admin)"

definition workspaceMenu :: "workspace_summary \<Rightarrow> rail_action list" where
  "workspaceMenu ws =
     [OpenSettings] @ (if canInvite ws then [OpenInvite] else []) @ [MarkAllRead] @
     (if ws_role ws \<noteq> Owner then [LeaveWorkspace] else [])"

text \<open>Leaving a workspace (\<open>useLeaveAndNavigate\<close>) and closing the question.\<close>

definition leaveAndNavigate :: "workspace_summary list option \<Rightarrow> jsstring \<Rightarrow> mutation_answer \<Rightarrow> page_effect list" where
  "leaveAndNavigate wss workspaceId answer =
     (case answer of
        None \<Rightarrow> [GoTo (leaveRedirect wss workspaceId)]
      | Some err \<Rightarrow> [Toast (js ''Failed to leave workspace'') False])"

definition contextLeave :: "workspace_summary list option \<Rightarrow> jsstring \<Rightarrow> mutation_answer \<Rightarrow> page_effect list" where
  "contextLeave wss workspaceId answer = leaveAndNavigate wss workspaceId answer @ [CloseModal]"

definition handleLogout :: "mutation_answer \<Rightarrow> page_effect list" where
  "handleLogout answer = (case answer of None \<Rightarrow> [GoTo (js ''/login'')] | Some err \<Rightarrow> [GoTo (js ''/login'')])"

definition createWorkspaceAnswered :: "mutation_answer \<Rightarrow> jsstring \<Rightarrow> jsstring \<times> page_effect list" where
  "createWorkspaceAnswered answer name =
     (case answer of
        None \<Rightarrow> ([], [Toast (js ''Workspace created!'') True, CloseModal])
      | Some err \<Rightarrow> (name, [errorToast err (js ''Failed to create workspace'')]))"

section \<open>Facts\<close>

lemma findIndex_Some: "findIndex p xs = Some i \<Longrightarrow> i < length xs \<and> p (xs ! i)"
  by (induction xs arbitrary: i) (auto split: if_splits)

lemma findIndex_None: "findIndex p xs = None \<longleftrightarrow> (\<forall>x \<in> set xs. \<not> p x)"
  by (induction xs) auto

lemma synced: "wr_localWorkspaces (syncWorkspaces (Some wss) r) = wss"
  if "wr_prevServerWorkspaces r = Some wss \<longrightarrow> wr_localWorkspaces r = wss"
  using that by (auto simp: syncWorkspaces_def Let_def)

lemma reorder_all: "mset xs = mset old \<Longrightarrow> map ws_id (reorderWorkspaces (map ws_id xs) old) = map ws_id xs"
  by (auto simp: reorder_ids filter_id_conv filter_empty_conv dest: mset_eq_setD)

lemma reorder_mutated:
  assumes "query_client ops" "getQueryData ops c authKeys_me = Some (AuthData me)"
  shows "getQueryData ops (fst (useReorderWorkspaces_onMutate ops ids c)) authKeys_me = Some (AuthData (reorderAuth ids me))"
  using assms
  by (simp add: useReorderWorkspaces_onMutate_def Let_def query_client.get_on query_client.get_cancel)

lemma drag_end_cases:
  assumes "railDragEnd arrayMove a over r = (r', Some ids)"
  shows "\<exists>i j. i < length (wr_localWorkspaces r) \<and> j < length (wr_localWorkspaces r) \<and>
    wr_localWorkspaces r' = arrayMove (wr_localWorkspaces r) i j \<and>
    ids = map ws_id (wr_localWorkspaces r') \<and> wr_prevServerWorkspaces r' = wr_prevServerWorkspaces r"
  using assms
  by (auto simp: railDragEnd_def Let_def split: option.splits if_splits dest!: findIndex_Some) blast

text \<open>C33: dropping a workspace elsewhere sends the new order, and the optimistic update of the cache lists the
  workspaces in this order: when the rail takes over the list from the cache, nothing moves. If the
  request fails, the rail returns to the order it had before.\<close>

theorem drag_persisted:
  assumes "query_client ops"
    and "\<And>xs i j. mset (arrayMove xs i j) = mset xs"
    and "getQueryData ops c authKeys_me = Some (AuthData me)" "me_workspaces me = Some wss"
    and "distinct (map ws_id wss)"
    and "wr_prevServerWorkspaces r = Some wss" "wr_localWorkspaces r = wss"
    and "railDragEnd arrayMove a over r = (r', Some ids)"
  shows "(\<exists>me' wss'. getQueryData ops (fst (useReorderWorkspaces_onMutate ops ids c)) authKeys_me = Some (AuthData me') \<and>
      me_workspaces me' = Some wss' \<and> map ws_id wss' = ids \<and>
      map ws_id (wr_localWorkspaces r') = ids \<and>
      map ws_id (wr_localWorkspaces (syncWorkspaces (Some wss') r')) = ids \<and>
      map ws_id (wr_localWorkspaces (syncWorkspaces (Some wss) (syncWorkspaces (Some wss') r'))) = map ws_id wss) \<and>
    getQueryData ops (failedMutation (useReorderWorkspaces_onMutate ops ids) (useReorderWorkspaces_onError ops)
        (useReorderWorkspaces_onSettled ops) c) authKeys_me = Some (AuthData me)"
proof
  let ?wss = "reorderWorkspaces ids wss"
  from drag_end_cases [OF assms(8)] assms(7) obtain i j where drag: "wr_localWorkspaces r' = arrayMove wss i j"
    "ids = map ws_id (wr_localWorkspaces r')" "wr_prevServerWorkspaces r' = Some wss"
    using assms(6) by auto
  then have ids: "map ws_id ?wss = ids" using reorder_all [OF assms(2)] by simp
  show "\<exists>me' wss'. getQueryData ops (fst (useReorderWorkspaces_onMutate ops ids c)) authKeys_me = Some (AuthData me') \<and>
      me_workspaces me' = Some wss' \<and> map ws_id wss' = ids \<and>
      map ws_id (wr_localWorkspaces r') = ids \<and>
      map ws_id (wr_localWorkspaces (syncWorkspaces (Some wss') r')) = ids \<and>
      map ws_id (wr_localWorkspaces (syncWorkspaces (Some wss) (syncWorkspaces (Some wss') r'))) = map ws_id wss"
    using reorder_mutated [OF assms(1,3), of ids] ids drag assms(4)
    by (intro exI [of _ "reorderAuth ids me"] exI [of _ ?wss])
      (auto simp: reorderAuth_def syncWorkspaces_def Let_def)
  show "getQueryData ops (failedMutation (useReorderWorkspaces_onMutate ops ids) (useReorderWorkspaces_onError ops)
        (useReorderWorkspaces_onSettled ops) c) authKeys_me = Some (AuthData me)"
    using query_client.settled_hooks_restore(6) [OF assms(1), of c] assms(3) by simp
qed

definition sample_rail :: workspace_rail where
  "sample_rail = syncWorkspaces (Some [sample_workspace (js ''a''), sample_workspace (js ''b'')]) new_rail"

definition sample_auth_store :: query_store where
  "sample_auth_store = \<lparr>entries = [(authKeys_me, AuthData \<lparr>me_user = None,
     me_workspaces = Some [sample_workspace (js ''a''), sample_workspace (js ''b'')]\<rparr>)], stale = []\<rparr>"

text \<open>A function that moves as \<open>arrayMove\<close> is documented to.\<close>

definition moveTo :: "'a list \<Rightarrow> nat \<Rightarrow> nat \<Rightarrow> 'a list" where
  "moveTo xs i j =
     (if i < length xs
      then (let ys = take i xs @ drop (Suc i) xs in take j ys @ [xs ! i] @ drop j ys) else xs)"

lemma mset_moveTo: "mset (moveTo xs i j) = mset xs"
proof (cases "i < length xs")
  case True
  let ?ys = "take i xs @ drop (Suc i) xs"
  have "mset xs = mset (take i xs @ xs ! i # drop (Suc i) xs)" by (simp only: id_take_nth_drop [OF True, symmetric])
  also have "\<dots> = add_mset (xs ! i) (mset (take j ?ys @ drop j ?ys))" by (simp only: append_take_drop_id) simp
  finally show ?thesis using True by (simp add: moveTo_def Let_def)
qed (simp add: moveTo_def)

lemma drag_persisted_witness:
  "\<exists>me'. getQueryData store_ops (fst (useReorderWorkspaces_onMutate store_ops [js ''b'', js ''a''] sample_auth_store)) authKeys_me =
     Some (AuthData me') \<and> map_option (map ws_id) (me_workspaces me') = Some [js ''b'', js ''a'']"
proof -
  have get: "getQueryData store_ops sample_auth_store authKeys_me = Some (AuthData \<lparr>me_user = None,
     me_workspaces = Some [sample_workspace (js ''a''), sample_workspace (js ''b'')]\<rparr>)"
    by (simp add: sample_auth_store_def store_ops_def)
  have drag: "railDragEnd moveTo (js ''a'') (Some (js ''b'')) sample_rail =
      (sample_rail\<lparr>wr_localWorkspaces := [sample_workspace (js ''b''), sample_workspace (js ''a'')], wr_activeWorkspace := None\<rparr>,
       Some [js ''b'', js ''a''])"
    by (simp add: railDragEnd_def sample_rail_def syncWorkspaces_def new_rail_def sample_workspace_def moveTo_def Let_def)
  from drag_persisted [OF store.query_client_axioms mset_moveTo get _ _ _ _ drag, THEN conjunct1]
  show ?thesis by (fastforce simp: sample_rail_def syncWorkspaces_def new_rail_def sample_workspace_def)
qed

section \<open>Badges and menus\<close>

text \<open>A badge is shown for the other workspaces only; unread messages without notifications give a dot.\<close>

lemma badge_cases:
  "railBadge isActive (u, n) = NoBadge \<longleftrightarrow> isActive \<or> n < 0 \<or> n = 0 \<and> \<not> u"
  "railBadge isActive (u, n) = DotBadge \<longleftrightarrow> \<not> isActive \<and> n = 0 \<and> u"
  by (auto simp: railBadge_def Let_def)

lemma owner_cannot_leave: "LeaveWorkspace \<in> set (workspaceMenu ws) \<longleftrightarrow> ws_role ws \<noteq> Owner"
  by (simp add: workspaceMenu_def)

lemma logout_always_leads_to_login: "handleLogout answer = [GoTo (js ''/login'')]"
  by (simp add: handleLogout_def split: option.split)

lemma failed_leave_stays:
  "contextLeave wss workspaceId (Some err) = [Toast (js ''Failed to leave workspace'') False, CloseModal]"
  by (simp add: contextLeave_def leaveAndNavigate_def)

end
