(* ===== verification/ScheduledView.thy ===== *)
theory ScheduledView
  imports ChannelView Reactions QueryHooks
begin

text \<open>
  Scheduled messages in the web app: the mutations of \<open>apps/web/src/hooks/useScheduledMessages.ts\<close> (with
  those of \<open>useCustomEmojis.ts\<close> and \<open>useThreads.ts\<close>, which have the same form), the page that lists the
  messages (\<open>pages/ScheduledMessagesPage.tsx\<close>) and the dialogs that edit and schedule one
  (\<open>EditScheduledMessageModal.tsx\<close>, \<open>ScheduleMessageModal.tsx\<close>). The local time zone is an argument.
\<close>

section \<open>The mutations\<close>

definition invalidateScheduled :: "'qc query_ops \<Rightarrow> 'qc \<Rightarrow> 'qc" where
  "invalidateScheduled ops c = invalidateQueries ops c scheduledMessageKeys_all"

definition useScheduleMessage_onSuccess :: "'qc query_ops \<Rightarrow> 'qc \<Rightarrow> 'qc \<times> page_effect list" where
  "useScheduleMessage_onSuccess ops c = (invalidateScheduled ops c, [])"

definition useScheduleMessage_onError :: "jsstring option \<Rightarrow> page_effect list" where
  "useScheduleMessage_onError err = [errorToast err (js ''Failed to schedule message'')]"

definition useUpdateScheduledMessage_onSuccess :: "'qc query_ops \<Rightarrow> 'qc \<Rightarrow> 'qc \<times> page_effect list" where
  "useUpdateScheduledMessage_onSuccess ops c =
     (invalidateScheduled ops c, [Toast (js ''Scheduled message updated'') True])"

definition useUpdateScheduledMessage_onError :: "jsstring option \<Rightarrow> page_effect list" where
  "useUpdateScheduledMessage_onError err = [errorToast err (js ''Failed to update scheduled message'')]"

definition useDeleteScheduledMessage_onSuccess :: "'qc query_ops \<Rightarrow> 'qc \<Rightarrow> 'qc \<times> page_effect list" where
  "useDeleteScheduledMessage_onSuccess ops c =
     (invalidateScheduled ops c, [Toast (js ''Scheduled message canceled'') True])"

definition useDeleteScheduledMessage_onError :: "jsstring option \<Rightarrow> page_effect list" where
  "useDeleteScheduledMessage_onError err = [errorToast err (js ''Failed to cancel scheduled message'')]"

definition useSendScheduledMessageNow_onSuccess :: "'qc query_ops \<Rightarrow> 'qc \<Rightarrow> 'qc \<times> page_effect list" where
  "useSendScheduledMessageNow_onSuccess ops c = (invalidateScheduled ops c, [Toast (js ''Message sent'') True])"

definition useSendScheduledMessageNow_onError :: "jsstring option \<Rightarrow> page_effect list" where
  "useSendScheduledMessageNow_onError err = [errorToast err (js ''Failed to send message'')]"

text \<open>Retrying moves the message to a minute from now; \<open>iso\<close> is \<open>toISOString\<close>.\<close>

definition useRetryScheduledMessage_request :: "(int \<Rightarrow> jsstring) \<Rightarrow> int \<Rightarrow> jsstring \<Rightarrow> http_request" where
  "useRetryScheduledMessage_request toISOString now i =
     (let newTime = toISOString (now + 60 * 1000)
      in scheduledMessagesApi_update i (obj [(''scheduled_for'', Some (JStr newTime))]))"

definition useRetryScheduledMessage_onSuccess :: "'qc query_ops \<Rightarrow> 'qc \<Rightarrow> 'qc \<times> page_effect list" where
  "useRetryScheduledMessage_onSuccess ops c =
     (invalidateScheduled ops c, [Toast (js ''Message rescheduled'') True])"

definition useRetryScheduledMessage_onError :: "jsstring option \<Rightarrow> page_effect list" where
  "useRetryScheduledMessage_onError err = [errorToast err (js ''Failed to retry scheduled message'')]"

definition useUploadCustomEmoji_onSuccess :: "'qc query_ops \<Rightarrow> jsstring \<Rightarrow> 'qc \<Rightarrow> 'qc" where
  "useUploadCustomEmoji_onSuccess ops workspaceId c = invalidateQueries ops c (emojiKeys_list workspaceId)"

definition useUploadCustomEmoji_onError :: "jsstring option \<Rightarrow> page_effect list" where
  "useUploadCustomEmoji_onError err = [errorToast err (js ''Failed to upload emoji'')]"

definition useDeleteCustomEmoji_onSuccess :: "'qc query_ops \<Rightarrow> jsstring \<Rightarrow> 'qc \<Rightarrow> 'qc" where
  "useDeleteCustomEmoji_onSuccess ops workspaceId c = invalidateQueries ops c (emojiKeys_list workspaceId)"

definition useDeleteCustomEmoji_onError :: "jsstring option \<Rightarrow> page_effect list" where
  "useDeleteCustomEmoji_onError err = [errorToast err (js ''Failed to delete emoji'')]"

definition useMarkThreadRead_onSuccess :: "'qc query_ops \<Rightarrow> jsstring \<Rightarrow> 'qc \<Rightarrow> 'qc" where
  "useMarkThreadRead_onSuccess ops workspaceId c = invalidateQueries ops c (threadKeys_userThreads workspaceId)"

section \<open>The page\<close>

datatype scheduled_status = PendingStatus | SendingStatus | FailedStatus

record scheduled_message =
  sm_id :: jsstring
  sm_channel_id :: jsstring
  sm_channel_name :: "jsstring option"
  sm_content :: jsstring
  sm_scheduled_for :: jsstring
  sm_status :: "scheduled_status option"
  sm_last_error :: "jsstring option"

definition scheduledKey :: "scheduled_message \<Rightarrow> jsstring" where
  "scheduledKey m = or_else (sm_channel_name m) (sm_channel_id m)"

text \<open>
  One step of the grouping. The groups are the own properties of a plain object: a key the object
  inherits is found, is not an array, and \<open>push\<close> throws (\<open>None\<close>).
\<close>

type_synonym scheduled_groups = "(jsstring \<times> scheduled_message list) list"

definition addScheduled :: "scheduled_groups \<Rightarrow> scheduled_message \<Rightarrow> scheduled_groups option" where
  "addScheduled groups msg =
     (let key = scheduledKey msg
      in case map_of groups key of
           Some ms \<Rightarrow> Some (AList.update key (ms @ [msg]) groups)
         | None \<Rightarrow> if key \<in> set OBJECT_PROTOTYPE then None else Some (AList.update key [msg] groups))"

fun groupScheduled :: "scheduled_groups \<Rightarrow> scheduled_message list \<Rightarrow> scheduled_groups option" where
  "groupScheduled groups [] = Some groups"
| "groupScheduled groups (msg # ms) = Option.bind (addScheduled groups msg) (\<lambda>gs. groupScheduled gs ms)"

definition groupedMessages :: "scheduled_message list option \<Rightarrow> scheduled_groups option" where
  "groupedMessages data = groupScheduled [] (or_empty data)"

text \<open>The messages as they are listed: \<open>Object.entries\<close>.\<close>

definition listedMessages :: "scheduled_message list option \<Rightarrow> scheduled_message list option" where
  "listedMessages data = map_option (\<lambda>gs. concat (map snd (objectOrder fst gs))) (groupedMessages data)"

datatype scheduled_action = RetryAction | DeleteAction | EditAction | SendNowAction | CancelAction

definition isFailed :: "scheduled_message \<Rightarrow> bool" where
  "isFailed m = (sm_status m = Some FailedStatus)"

definition scheduledActions :: "scheduled_message \<Rightarrow> scheduled_action list" where
  "scheduledActions m =
     (if isFailed m then [RetryAction, DeleteAction] else [EditAction, SendNowAction, CancelAction])"

definition failureText :: "scheduled_message \<Rightarrow> jsstring option" where
  "failureText m =
     (if isFailed m then Some (js ''Failed: '' @ or_else (sm_last_error m) (js ''Unknown error'')) else None)"

definition overdue :: "(jsstring \<Rightarrow> int) \<Rightarrow> int \<Rightarrow> scheduled_message \<Rightarrow> bool" where
  "overdue parseDate now m = (parseDate (sm_scheduled_for m) < now \<and> \<not> isFailed m)"

record scheduled_page =
  sp_editingMessage :: "scheduled_message option"
  sp_deletingId :: "jsstring option"
  sp_sendingId :: "jsstring option"
  sp_retryingId :: "jsstring option"

datatype scheduled_mutation = Deleting | SendingNow | Retrying

fun mutationStarted :: "scheduled_mutation \<Rightarrow> jsstring \<Rightarrow> scheduled_page \<Rightarrow> scheduled_page" where
  "mutationStarted Deleting i p = p\<lparr>sp_deletingId := Some i\<rparr>"
| "mutationStarted SendingNow i p = p\<lparr>sp_sendingId := Some i\<rparr>"
| "mutationStarted Retrying i p = p\<lparr>sp_retryingId := Some i\<rparr>"

text \<open>\<open>onSettled\<close> of the last call of \<open>mutate\<close>; the query library drops the callbacks of earlier calls.\<close>

fun mutationSettled :: "scheduled_mutation \<Rightarrow> scheduled_page \<Rightarrow> scheduled_page" where
  "mutationSettled Deleting p = p\<lparr>sp_deletingId := None\<rparr>"
| "mutationSettled SendingNow p = p\<lparr>sp_sendingId := None\<rparr>"
| "mutationSettled Retrying p = p\<lparr>sp_retryingId := None\<rparr>"

section \<open>The dialogs\<close>

text \<open>Dates as the pickers give them (a calendar date, with months from 1, and a time of the day).\<close>

type_synonym calendar_date = "int \<times> int \<times> int"
type_synonym time_of_day = "int \<times> int"

text \<open>\<open>new Date(year, month - 1, day, hour, minute)\<close>, as milliseconds, is the argument \<open>localTime\<close>.\<close>

definition customDate ::
    "(int \<Rightarrow> int \<Rightarrow> int \<Rightarrow> int \<Rightarrow> int \<Rightarrow> int) \<Rightarrow> calendar_date option \<Rightarrow> time_of_day option \<Rightarrow> int option" where
  "customDate localTime selectedDate selectedTime =
     (case (selectedDate, selectedTime) of
        (Some (year, month, day), Some (hour, minute)) \<Rightarrow> Some (localTime year (month - 1) day hour minute)
      | _ \<Rightarrow> None)"

record edit_form =
  ef_content :: jsstring
  ef_selectedDate :: "calendar_date option"
  ef_selectedTime :: "time_of_day option"

definition new_edit_form :: "(jsstring \<Rightarrow> calendar_date \<times> time_of_day) \<Rightarrow> scheduled_message \<Rightarrow> edit_form" where
  "new_edit_form localParts m =
     \<lparr>ef_content = sm_content m, ef_selectedDate = Some (fst (localParts (sm_scheduled_for m))),
      ef_selectedTime = Some (snd (localParts (sm_scheduled_for m)))\<rparr>"

definition editSave ::
    "(int \<Rightarrow> int \<Rightarrow> int \<Rightarrow> int \<Rightarrow> int \<Rightarrow> int) \<Rightarrow> int \<Rightarrow> edit_form \<Rightarrow> (jsstring \<times> int) option" where
  "editSave localTime now f =
     (case customDate localTime (ef_selectedDate f) (ef_selectedTime f) of
        None \<Rightarrow> None
      | Some date \<Rightarrow> if date > now \<and> trim (ef_content f) \<noteq> [] then Some (trim (ef_content f), date) else None)"

record schedule_form =
  sf_selectedDate :: "calendar_date option"
  sf_selectedTime :: "time_of_day option"
  sf_open :: bool

definition resetScheduleForm :: "schedule_form \<Rightarrow> schedule_form" where
  "resetScheduleForm f = f\<lparr>sf_selectedDate := None, sf_selectedTime := Some (9, 0)\<rparr>"

definition schedulePressed ::
    "(int \<Rightarrow> int \<Rightarrow> int \<Rightarrow> int \<Rightarrow> int \<Rightarrow> int) \<Rightarrow> int \<Rightarrow> schedule_form \<Rightarrow> schedule_form \<times> int option" where
  "schedulePressed localTime now f =
     (case customDate localTime (sf_selectedDate f) (sf_selectedTime f) of
        None \<Rightarrow> (f, None)
      | Some date \<Rightarrow> if date > now then (resetScheduleForm (f\<lparr>sf_open := False\<rparr>), Some date) else (f, None))"

definition scheduleClosed :: "schedule_form \<Rightarrow> schedule_form" where
  "scheduleClosed f = resetScheduleForm (f\<lparr>sf_open := False\<rparr>)"

section \<open>What is listed\<close>

definition messagesOf :: "scheduled_message list \<Rightarrow> jsstring \<Rightarrow> scheduled_message list" where
  "messagesOf ms k = filter (\<lambda>m. scheduledKey m = k) ms"

lemma messagesOf_snoc: "messagesOf (ms @ [m]) k = (if scheduledKey m = k then messagesOf ms k @ [m] else messagesOf ms k)"
  by (simp add: messagesOf_def)

lemma messagesOf_fresh: "k \<notin> scheduledKey ` set ms \<Longrightarrow> messagesOf ms k = []"
  by (auto simp: messagesOf_def filter_empty_conv)

definition inheritedKey :: "scheduled_message \<Rightarrow> bool" where
  "inheritedKey m = (scheduledKey m \<in> set OBJECT_PROTOTYPE)"

lemma groupScheduled_snoc:
  "groupScheduled gs (ms @ [m]) = Option.bind (groupScheduled gs ms) (\<lambda>gs. addScheduled gs m)"
  by (induction ms arbitrary: gs) (auto split: bind_split)

lemma scheduled_table:
  "groupScheduled [] ms =
     (if list_ex inheritedKey ms then None
      else Some (map (\<lambda>k. (k, messagesOf ms k)) (firsts (map scheduledKey ms))))"
proof (induction ms rule: rev_induct)
  case (snoc m ms)
  let ?t = "map (\<lambda>k. (k, messagesOf ms k)) (firsts (map scheduledKey ms))"
  show ?case
  proof (cases "list_ex inheritedKey ms")
    case True
    with snoc show ?thesis by (simp add: groupScheduled_snoc)
  next
    case False
    then have fresh: "inheritedKey m \<Longrightarrow> scheduledKey m \<notin> scheduledKey ` set ms"
      by (auto simp: inheritedKey_def list_ex_iff)
    from False snoc have "groupScheduled [] (ms @ [m]) = addScheduled ?t m"
      by (simp add: groupScheduled_snoc)
    also have "\<dots> = (if inheritedKey m then None
        else Some (map (\<lambda>k. (k, messagesOf (ms @ [m]) k)) (firsts (map scheduledKey (ms @ [m])))))"
      by (cases "scheduledKey m \<in> scheduledKey ` set ms") (use fresh in
        \<open>auto simp: addScheduled_def table_simps image_image Let_def inheritedKey_def [symmetric]
           messagesOf_snoc messagesOf_fresh\<close>)
    finally show ?thesis using False by simp
  qed
qed (simp add: firsts_def)

lemma messagesOf_append: "messagesOf (xs @ ys) k = messagesOf xs k @ messagesOf ys k"
  by (simp add: messagesOf_def)

lemma filter_blocks:
  "distinct ks \<Longrightarrow> messagesOf (concat (map (messagesOf ms) ks)) k =
     (if k \<in> set ks then messagesOf ms k else [])"
proof (induction ks)
  case (Cons k' ks)
  have "messagesOf (messagesOf ms k') k = (if k = k' then messagesOf ms k else [])"
    by (auto simp: messagesOf_def filter_empty_conv intro: filter_cong)
  with Cons show ?case by (auto simp: messagesOf_append)
qed (simp add: messagesOf_def)

lemma mset_by_key:
  assumes "\<And>k. messagesOf xs k = messagesOf ys k"
  shows "mset xs = mset ys"
proof (rule multiset_eqI)
  fix m
  have "count (mset zs) m = count (mset (messagesOf zs (scheduledKey m))) m" for zs
    by (induction zs) (auto simp: messagesOf_def)
  then show "count (mset xs) m = count (mset ys) m" using assms by metis
qed

lemma blocks_complete: "distinct ks \<Longrightarrow> set ks = scheduledKey ` set ms \<Longrightarrow> mset (concat (map (messagesOf ms) ks)) = mset ms"
  by (rule mset_by_key) (simp add: filter_blocks messagesOf_fresh)

text \<open>C35: the page lists every scheduled message exactly once, those of a channel together and in the order of
  the server - unless a channel is called \<open>constructor\<close>, which is a valid name: then the page
  fails, as it does for every other name all objects have a property of.\<close>

theorem scheduled_list_complete:
  "(listedMessages data = None \<longleftrightarrow> (\<exists>m. m \<in> set (or_empty data) \<and> scheduledKey m \<in> set OBJECT_PROTOTYPE)) \<and>
   (listedMessages data = Some l \<longrightarrow> mset l = mset (or_empty data) \<and>
      (\<exists>ks. distinct ks \<and> l = concat (map (\<lambda>k. filter (\<lambda>m. scheduledKey m = k) (or_empty data)) ks))) \<and>
   CHANNEL_NAME_REGEX (js ''constructor'') \<and> js ''constructor'' \<in> set OBJECT_PROTOTYPE"
proof (intro conjI [OF _ conjI] impI)
  let ?ms = "or_empty data" and ?ks = "firsts (map scheduledKey (or_empty data))"
  have listed: "listedMessages data = (if list_ex inheritedKey ?ms then None
      else Some (concat (map (messagesOf ?ms) (objectOrder id ?ks))))"
    using objectOrder_map [of "\<lambda>k. (k, messagesOf ?ms k)" fst ?ks, symmetric]
    by (simp add: listedMessages_def groupedMessages_def scheduled_table comp_def id_def)
  show "listedMessages data = None \<longleftrightarrow> (\<exists>m. m \<in> set (or_empty data) \<and> scheduledKey m \<in> set OBJECT_PROTOTYPE)"
    by (auto simp: listed list_ex_iff inheritedKey_def)
  have order: "mset (objectOrder id ?ks) = mset ?ks" by (rule mset_objectOrder)
  then have ks: "distinct (objectOrder id ?ks)" "set (objectOrder id ?ks) = scheduledKey ` set ?ms"
    using mset_eq_imp_distinct_iff [OF order] mset_eq_setD [OF order] by simp_all
  show "mset l = mset ?ms \<and> (\<exists>ks. distinct ks \<and> l = concat (map (\<lambda>k. filter (\<lambda>m. scheduledKey m = k) ?ms) ks))"
    if "listedMessages data = Some l"
  proof -
    from that have l: "l = concat (map (messagesOf ?ms) (objectOrder id ?ks))"
      by (simp add: listed split: if_splits)
    show ?thesis
    proof (intro conjI exI)
      show "mset l = mset ?ms" unfolding l by (rule blocks_complete [OF ks])
      show "distinct (objectOrder id ?ks)" by (rule ks(1))
      show "l = concat (map (\<lambda>k. filter (\<lambda>m. scheduledKey m = k) ?ms) (objectOrder id ?ks))"
        unfolding l messagesOf_def [abs_def] ..
    qed
  qed
  have "CHANNEL_NAME_REGEX (js ''constructor'')" by code_simp
  then show "CHANNEL_NAME_REGEX (js ''constructor'') \<and> js ''constructor'' \<in> set OBJECT_PROTOTYPE"
    by (simp add: OBJECT_PROTOTYPE_def)
qed

definition sample_scheduled :: "jsstring \<Rightarrow> jsstring \<Rightarrow> scheduled_message" where
  "sample_scheduled i chan = \<lparr>sm_id = i, sm_channel_id = js ''C'', sm_channel_name = Some chan, sm_content = js ''hi'',
     sm_scheduled_for = js ''2026-01-01T09:00:00Z'', sm_status = None, sm_last_error = None\<rparr>"

lemma scheduled_list_complete_witness:
  "\<exists>l. listedMessages (Some [sample_scheduled (js ''1'') (js ''a''), sample_scheduled (js ''2'') (js ''b''),
       sample_scheduled (js ''3'') (js ''a'')]) = Some l \<and> length l = 3"
proof -
  let ?ms = "[sample_scheduled (js ''1'') (js ''a''), sample_scheduled (js ''2'') (js ''b''),
       sample_scheduled (js ''3'') (js ''a'')]"
  have keys: "scheduledKey (sample_scheduled i (js ''a'')) = js ''a''" "scheduledKey (sample_scheduled i (js ''b'')) = js ''b''" for i
    by (simp_all add: sample_scheduled_def scheduledKey_def or_else_def)
  have "js ''a'' \<notin> set OBJECT_PROTOTYPE" "js ''b'' \<notin> set OBJECT_PROTOTYPE"
    by (simp_all add: OBJECT_PROTOTYPE_def)
  then have "\<not> (\<exists>m. m \<in> set ?ms \<and> scheduledKey m \<in> set OBJECT_PROTOTYPE)"
    using keys by auto
  then have "listedMessages (Some ?ms) \<noteq> None"
    using scheduled_list_complete [of "Some ?ms"] unfolding or_empty_simps by blast
  then obtain l where l: "listedMessages (Some ?ms) = Some l" by auto
  from scheduled_list_complete [of "Some ?ms" l] l have "size (mset l) = size (mset ?ms)" by simp
  with l show ?thesis by simp
qed

section \<open>Scheduling\<close>

text \<open>What the dialogs send lies in the future, and the edited text is not blank.\<close>

lemma edit_save_valid:
  "editSave localTime now f = Some (content, date) \<Longrightarrow>
     now < date \<and> content \<noteq> [] \<and> trim (ef_content f) = content \<and>
     customDate localTime (ef_selectedDate f) (ef_selectedTime f) = Some date"
  by (auto simp: editSave_def split: option.splits if_splits)

lemma schedule_in_future:
  "schedulePressed localTime now f = (f', Some date) \<Longrightarrow>
     now < date \<and> \<not> sf_open f' \<and> sf_selectedDate f' = None \<and> sf_selectedTime f' = Some (9, 0)"
  by (auto simp: schedulePressed_def resetScheduleForm_def split: option.splits if_splits)

text \<open>Every mutation of a scheduled message makes the lists stale and leaves the other entries alone.\<close>

lemma scheduled_mutations_invalidate:
  "fst (useScheduleMessage_onSuccess ops c) = invalidateScheduled ops c"
  "fst (useUpdateScheduledMessage_onSuccess ops c) = invalidateScheduled ops c"
  "fst (useDeleteScheduledMessage_onSuccess ops c) = invalidateScheduled ops c"
  "fst (useSendScheduledMessageNow_onSuccess ops c) = invalidateScheduled ops c"
  "fst (useRetryScheduledMessage_onSuccess ops c) = invalidateScheduled ops c"
  by (simp_all add: useScheduleMessage_onSuccess_def useUpdateScheduledMessage_onSuccess_def
    useDeleteScheduledMessage_onSuccess_def useSendScheduledMessageNow_onSuccess_def
    useRetryScheduledMessage_onSuccess_def)

lemma actions_by_status:
  "RetryAction \<in> set (scheduledActions m) \<longleftrightarrow> isFailed m"
  "EditAction \<in> set (scheduledActions m) \<longleftrightarrow> \<not> isFailed m"
  "failureText m \<noteq> None \<longleftrightarrow> isFailed m"
  by (simp_all add: scheduledActions_def failureText_def)

end
