(* ===== verification/WebAuth.thy ===== *)
theory WebAuth
  imports ChannelView ApiClient
begin

text \<open>
  The routes of the web app and the pages outside the workspaces: \<open>apps/web/src/App.tsx\<close>,
  \<open>components/auth/\<close> (the forms, \<open>RequireAuth.tsx\<close>, the banner), the pages \<open>LoginPage\<close>,
  \<open>RegisterPage\<close>, \<open>ForgotPasswordPage\<close>, \<open>AcceptInvitePage\<close>, \<open>VerifyEmailPage\<close> and
  \<open>WorkspaceLandingPage\<close>, with \<open>components/layout/AppLayout.tsx\<close> and \<open>moderation/BanModal.tsx\<close>.

  A page either redirects (\<open>Navigate\<close>, or \<open>navigate\<close> in an effect) or shows a screen. What it decides on is
  what \<open>useAuth\<close> returns (\<open>auth_view\<close>), the pending invite of the session storage, and the channels.
\<close>

section \<open>Routes\<close>

datatype outlet = IndexOutlet | ChannelOutlet jsstring | UnreadsOutlet | ThreadsOutlet | ScheduledOutlet

datatype web_route =
    LoginRoute
  | RegisterRoute
  | ForgotPasswordRoute
  | ResetPasswordRoute
  | VerifyEmailRoute
  | InviteRoute jsstring
  | WorkspaceRoute jsstring outlet
  | RootRoute
  | UnknownRoute

text \<open>The paths of the routes; \<open>UnknownRoute\<close> stands for every other path.\<close>

fun outletPath :: "outlet \<Rightarrow> jsstring" where
  "outletPath IndexOutlet = []"
| "outletPath (ChannelOutlet c) = js ''/channels/'' @ c"
| "outletPath UnreadsOutlet = js ''/unreads''"
| "outletPath ThreadsOutlet = js ''/threads''"
| "outletPath ScheduledOutlet = js ''/scheduled''"

fun routePath :: "web_route \<Rightarrow> jsstring option" where
  "routePath LoginRoute = Some (js ''/login'')"
| "routePath RegisterRoute = Some (js ''/register'')"
| "routePath ForgotPasswordRoute = Some (js ''/forgot-password'')"
| "routePath ResetPasswordRoute = Some (js ''/reset-password'')"
| "routePath VerifyEmailRoute = Some (js ''/verify-email'')"
| "routePath (InviteRoute code) = Some (js ''/invites/'' @ code)"
| "routePath (WorkspaceRoute w outlet) = Some (js ''/workspaces/'' @ w @ outletPath outlet)"
| "routePath RootRoute = Some (js ''/'')"
| "routePath UnknownRoute = None"

section \<open>The pages\<close>

datatype web_screen =
    Spinner
  | EmptyScreen
  | LoginScreen
  | RegisterScreen bool
  | CreateWorkspaceScreen
  | ForgotPasswordScreen
  | ResetUnavailableScreen
  | ResetPasswordScreen bool
  | VerifyEmailScreen
  | InviteSignInScreen
  | AcceptInviteScreen jsstring
  | BanScreen jsstring
  | NoChannelsScreen
  | OutletScreen jsstring outlet
  | NotFoundScreen

datatype page_result = Navigate web_route | Show web_screen

record visit =
  vi_auth :: auth_view
  vi_pendingInvite :: "jsstring option"
  vi_emailEnabled :: bool
  vi_isMobile :: bool
  vi_channelsLoading :: bool
  vi_channels :: "channel_with_membership list option"
  vi_token :: "jsstring option"

text \<open>\<open>Navigate to={/workspaces/...}\<close> of the first workspace.\<close>

definition firstWorkspace :: "auth_view \<Rightarrow> web_route option" where
  "firstWorkspace auth =
     (case av_workspaces auth of
        Some (ws # _) \<Rightarrow> Some (WorkspaceRoute (ws_id ws) IndexOutlet) | _ \<Rightarrow> None)"

definition loginPage :: "visit \<Rightarrow> page_result" where
  "loginPage v =
     (if av_isAuthenticated (vi_auth v)
      then if truthy (vi_pendingInvite v) then Navigate (InviteRoute (the (vi_pendingInvite v)))
           else (case firstWorkspace (vi_auth v) of Some r \<Rightarrow> Navigate r | None \<Rightarrow> Show CreateWorkspaceScreen)
      else if av_isLoading (vi_auth v) then Show Spinner else Show LoginScreen)"

definition registerPage :: "visit \<Rightarrow> page_result" where
  "registerPage v =
     (if av_isLoading (vi_auth v) then Show EmptyScreen
      else if av_isAuthenticated (vi_auth v)
      then if truthy (vi_pendingInvite v) then Navigate (InviteRoute (the (vi_pendingInvite v)))
           else (case firstWorkspace (vi_auth v) of
                   Some r \<Rightarrow> Navigate r | None \<Rightarrow> Show (RegisterScreen (truthy (vi_pendingInvite v))))
      else Show (RegisterScreen (truthy (vi_pendingInvite v))))"

definition forgotPasswordPage :: "visit \<Rightarrow> page_result" where
  "forgotPasswordPage v = Show (if vi_emailEnabled v then ForgotPasswordScreen else ResetUnavailableScreen)"

definition resetPasswordPage :: "visit \<Rightarrow> page_result" where
  "resetPasswordPage v = Show (ResetPasswordScreen (truthy (vi_token v)))"

definition acceptInvitePage :: "jsstring \<Rightarrow> visit \<Rightarrow> page_result" where
  "acceptInvitePage code v =
     (if av_isLoading (vi_auth v) then Show Spinner
      else if \<not> av_isAuthenticated (vi_auth v) then Show InviteSignInScreen
      else Show (AcceptInviteScreen code))"

text \<open>The effect of the page: the code of a visitor who is not signed in is remembered.\<close>

definition rememberInvite :: "jsstring \<Rightarrow> visit \<Rightarrow> visit" where
  "rememberInvite code v =
     (if \<not> av_isLoading (vi_auth v) \<and> \<not> av_isAuthenticated (vi_auth v)
      then v\<lparr>vi_pendingInvite := Some code\<rparr> else v)"

definition requireAuth :: "visit \<Rightarrow> page_result \<Rightarrow> page_result" where
  "requireAuth v children =
     (if av_isLoading (vi_auth v) then Show Spinner
      else if \<not> av_isAuthenticated (vi_auth v) then Navigate LoginRoute
      else children)"

definition landingPage :: "jsstring \<Rightarrow> visit \<Rightarrow> page_result" where
  "landingPage workspaceId v =
     (let chans = or_empty (vi_channels v)
      in if \<not> vi_isMobile v \<and> \<not> vi_channelsLoading v \<and> length chans > 0
         then (let publicChannel = find (\<lambda>c. ch_type c = PublicChannel) chans;
                   firstChannel = (case publicChannel of Some c \<Rightarrow> c | None \<Rightarrow> hd chans)
               in Navigate (WorkspaceRoute workspaceId (ChannelOutlet (ch_id firstChannel))))
         else if vi_channelsLoading v then Show Spinner
         else if length chans = 0 then Show NoChannelsScreen
         else Show Spinner)"

definition currentWorkspace :: "auth_view \<Rightarrow> jsstring \<Rightarrow> workspace_summary option" where
  "currentWorkspace auth workspaceId = find (\<lambda>ws. ws_id ws = workspaceId) (or_empty (av_workspaces auth))"

definition isBanned :: "auth_view \<Rightarrow> jsstring \<Rightarrow> bool" where
  "isBanned auth workspaceId =
     (case currentWorkspace auth workspaceId of Some ws \<Rightarrow> ws_ban ws \<noteq> None | None \<Rightarrow> False)"

definition appLayout :: "jsstring \<Rightarrow> outlet \<Rightarrow> visit \<Rightarrow> page_result" where
  "appLayout workspaceId outlet v =
     (if isBanned (vi_auth v) workspaceId then Show (BanScreen workspaceId)
      else case outlet of
             IndexOutlet \<Rightarrow> landingPage workspaceId v
           | _ \<Rightarrow> Show (OutletScreen workspaceId outlet))"

fun renderRoute :: "visit \<Rightarrow> web_route \<Rightarrow> page_result" where
  "renderRoute v LoginRoute = loginPage v"
| "renderRoute v RegisterRoute = registerPage v"
| "renderRoute v ForgotPasswordRoute = forgotPasswordPage v"
| "renderRoute v ResetPasswordRoute = resetPasswordPage v"
| "renderRoute v VerifyEmailRoute = Show VerifyEmailScreen"
| "renderRoute v (InviteRoute code) = acceptInvitePage code v"
| "renderRoute v (WorkspaceRoute w outlet) = requireAuth v (appLayout w outlet v)"
| "renderRoute v RootRoute = Navigate LoginRoute"
| "renderRoute v UnknownRoute = Show NotFoundScreen"

text \<open>Following the redirects; every redirect leads to a route of a smaller rank.\<close>

fun routeRank :: "web_route \<Rightarrow> nat" where
  "routeRank RootRoute = 4"
| "routeRank (WorkspaceRoute w outlet) = (case outlet of IndexOutlet \<Rightarrow> 2 | _ \<Rightarrow> 1)"
| "routeRank LoginRoute = 3"
| "routeRank RegisterRoute = 3"
| "routeRank _ = 0"

definition redirectRank :: "visit \<Rightarrow> web_route \<Rightarrow> nat" where
  "redirectRank v r =
     (if \<not> av_isLoading (vi_auth v) \<and> \<not> av_isAuthenticated (vi_auth v) \<and> r = LoginRoute then 0 else routeRank r)"

lemma redirect_decreases: "renderRoute v r = Navigate r' \<Longrightarrow> redirectRank v r' < redirectRank v r"
  by (cases r)
    (auto simp: redirectRank_def loginPage_def registerPage_def forgotPasswordPage_def resetPasswordPage_def
      acceptInvitePage_def requireAuth_def appLayout_def landingPage_def firstWorkspace_def Let_def
      split: if_splits option.splits list.splits outlet.splits)

function follow :: "visit \<Rightarrow> web_route \<Rightarrow> web_route \<times> web_screen" where
  "follow v r = (case renderRoute v r of Show s \<Rightarrow> (r, s) | Navigate r' \<Rightarrow> follow v r')"
  by auto
termination by (relation "measure (\<lambda>(v, r). redirectRank v r)") (auto dest: redirect_decreases)

declare follow.simps [simp del]

section \<open>Forms\<close>

text \<open>The text of an error: \<open>None\<close> is a value that is no \<open>ApiError\<close>.\<close>

definition formError :: "jsstring option \<Rightarrow> jsstring" where
  "formError err = (case err of Some m \<Rightarrow> m | None \<Rightarrow> js ''An error occurred. Please try again.'')"

record login_form =
  lf_email :: jsstring
  lf_password :: jsstring
  lf_error :: jsstring

definition loginSubmit :: "mutation_answer \<Rightarrow> login_form \<Rightarrow> login_form \<times> (jsstring \<times> jsstring)" where
  "loginSubmit answer f =
     (f\<lparr>lf_error := (case answer of None \<Rightarrow> [] | Some err \<Rightarrow> formError err)\<rparr>, (lf_email f, lf_password f))"

record register_form =
  rf_email :: jsstring
  rf_displayName :: jsstring
  rf_password :: jsstring
  rf_confirmPassword :: jsstring
  rf_workspaceName :: jsstring
  rf_error :: jsstring

datatype register_call =
    RegisterCall jsstring jsstring jsstring
  | AcceptInviteCall jsstring
  | CreateWorkspaceCall jsstring

definition registerInvalid :: "bool \<Rightarrow> register_form \<Rightarrow> jsstring option" where
  "registerInvalid hasPendingInvite f =
     (if rf_password f \<noteq> rf_confirmPassword f then Some (js ''Passwords do not match'')
      else if length (rf_password f) < 8 then Some (js ''Password must be at least 8 characters'')
      else if \<not> hasPendingInvite \<and> trim (rf_workspaceName f) = [] then Some (js ''Workspace name is required'')
      else None)"

text \<open>
  \<open>handleSubmit\<close>: the calls it makes, the form and the pending invite afterwards, and where it leads. The
  arguments are the answer to the registration and that to the second call, with the id of the workspace.
\<close>

record register_outcome =
  ro_calls :: "register_call list"
  ro_form :: register_form
  ro_pendingInvite :: "jsstring option"
  ro_navigate :: "web_route option"

definition registerSubmit ::
    "bool \<Rightarrow> jsstring option \<Rightarrow> mutation_answer \<Rightarrow> jsstring option + jsstring \<Rightarrow> register_form \<Rightarrow> register_outcome" where
  "registerSubmit hasPendingInvite pendingInvite registered second f =
     (let f1 = f\<lparr>rf_error := []\<rparr>;
          call = RegisterCall (rf_email f) (rf_password f) (rf_displayName f)
      in case registerInvalid hasPendingInvite f of
           Some e \<Rightarrow> \<lparr>ro_calls = [], ro_form = f1\<lparr>rf_error := e\<rparr>, ro_pendingInvite = pendingInvite, ro_navigate = None\<rparr>
         | None \<Rightarrow>
             (case registered of
                Some err \<Rightarrow> \<lparr>ro_calls = [call], ro_form = f1\<lparr>rf_error := formError err\<rparr>,
                  ro_pendingInvite = pendingInvite, ro_navigate = None\<rparr>
              | None \<Rightarrow>
                  if truthy pendingInvite
                  then (case second of
                          Inl err \<Rightarrow> \<lparr>ro_calls = [call, AcceptInviteCall (the pendingInvite)],
                            ro_form = f1\<lparr>rf_error := formError err\<rparr>, ro_pendingInvite = pendingInvite, ro_navigate = None\<rparr>
                        | Inr w \<Rightarrow> \<lparr>ro_calls = [call, AcceptInviteCall (the pendingInvite)], ro_form = f1,
                            ro_pendingInvite = None, ro_navigate = Some (WorkspaceRoute w IndexOutlet)\<rparr>)
                  else if trim (rf_workspaceName f) \<noteq> []
                  then (case second of
                          Inl err \<Rightarrow> \<lparr>ro_calls = [call, CreateWorkspaceCall (trim (rf_workspaceName f))],
                            ro_form = f1\<lparr>rf_error := formError err\<rparr>, ro_pendingInvite = pendingInvite, ro_navigate = None\<rparr>
                        | Inr w \<Rightarrow> \<lparr>ro_calls = [call, CreateWorkspaceCall (trim (rf_workspaceName f))], ro_form = f1,
                            ro_pendingInvite = pendingInvite, ro_navigate = Some (WorkspaceRoute w IndexOutlet)\<rparr>)
                  else \<lparr>ro_calls = [call], ro_form = f1, ro_pendingInvite = pendingInvite, ro_navigate = None\<rparr>))"

text \<open>The form that resets a password: a message, or the request.\<close>

definition resetSubmit :: "jsstring option \<Rightarrow> jsstring \<Rightarrow> jsstring \<Rightarrow> jsstring + (jsstring \<times> jsstring) option" where
  "resetSubmit token password confirmPassword =
     (if \<not> truthy token then Inr None
      else if password \<noteq> confirmPassword then Inl (js ''Passwords do not match'')
      else if length password < 8 then Inl (js ''Password must be at least 8 characters'')
      else Inr (Some (the token, password)))"

text \<open>
  The form that asks for a reset link: \<open>None\<close> for the confirmation, or the message of the form. The argument is the answer
  to the mutation, if there is one yet. The confirmation does not depend on whether the address has an account.
\<close>

definition forgotPasswordForm :: "mutation_answer option \<Rightarrow> jsstring option option" where
  "forgotPasswordForm answer =
     (case answer of None \<Rightarrow> Some None
      | Some None \<Rightarrow> None
      | Some (Some err) \<Rightarrow> Some (Some (formError err)))"

text \<open>Creating a workspace on the log-in page.\<close>

definition loginCreateWorkspace :: "jsstring \<Rightarrow> mutation_answer \<Rightarrow> register_call list \<times> page_effect list" where
  "loginCreateWorkspace workspaceName answer =
     (if trim workspaceName = [] then ([], [])
      else ([CreateWorkspaceCall (trim workspaceName)],
        (case answer of None \<Rightarrow> [] | Some err \<Rightarrow> [errorToast err (js ''Failed to create workspace'')])))"

text \<open>Accepting an invite: the visit, the message, and where it leads.\<close>

definition handleAccept ::
    "jsstring \<Rightarrow> jsstring option + jsstring \<Rightarrow> visit \<Rightarrow> visit \<times> jsstring option \<times> web_route option" where
  "handleAccept code answer v =
     (if code = [] then (v, None, None)
      else case answer of
             Inr w \<Rightarrow> (v\<lparr>vi_pendingInvite := None\<rparr>, None, Some (WorkspaceRoute w IndexOutlet))
           | Inl err \<Rightarrow> (v, Some (case err of Some m \<Rightarrow> m | None \<Rightarrow> js ''Failed to accept invite''), None))"

definition fallbackWorkspaceLink :: "auth_view \<Rightarrow> web_route" where
  "fallbackWorkspaceLink auth = (case firstWorkspace auth of Some r \<Rightarrow> r | None \<Rightarrow> LoginRoute)"

text \<open>The links of the screens outside the workspaces; the second argument is the error of the invite.\<close>

fun screenLinks :: "visit \<Rightarrow> jsstring option \<Rightarrow> web_screen \<Rightarrow> web_route list" where
  "screenLinks v err LoginScreen = (if vi_emailEnabled v then [ForgotPasswordRoute] else []) @ [RegisterRoute]"
| "screenLinks v err (RegisterScreen _) = [LoginRoute]"
| "screenLinks v err ForgotPasswordScreen = [LoginRoute]"
| "screenLinks v err ResetUnavailableScreen = [LoginRoute]"
| "screenLinks v err (ResetPasswordScreen valid) = (if valid then [] else [ForgotPasswordRoute])"
| "screenLinks v err VerifyEmailScreen = [LoginRoute]"
| "screenLinks v err InviteSignInScreen = [LoginRoute, RegisterRoute]"
| "screenLinks v err (AcceptInviteScreen code) = (if truthy err then [fallbackWorkspaceLink (vi_auth v)] else [])"
| "screenLinks v err _ = []"

section \<open>The e-mail verification\<close>

record verify_page =
  vp_hasFired :: bool
  vp_requests :: "jsstring list"

definition verifyEffect :: "jsstring option \<Rightarrow> verify_page \<Rightarrow> verify_page" where
  "verifyEffect token p =
     (if truthy token \<and> \<not> vp_hasFired p
      then p\<lparr>vp_hasFired := True, vp_requests := vp_requests p @ [the token]\<rparr> else p)"

definition verifyEmail_onSuccess :: "'qc query_ops \<Rightarrow> 'qc \<Rightarrow> 'qc" where
  "verifyEmail_onSuccess ops c = invalidateQueries ops c authKeys_me"

definition BANNER_KEY :: jsstring where
  "BANNER_KEY = js ''enzyme:verification-banner-dismissed''"

definition bannerDismissed :: "(jsstring \<rightharpoonup> jsstring) \<Rightarrow> bool" where
  "bannerDismissed sessionStorage = (sessionStorage BANNER_KEY = Some (js ''true''))"

definition dismissBanner :: "(jsstring \<rightharpoonup> jsstring) \<Rightarrow> (jsstring \<rightharpoonup> jsstring)" where
  "dismissBanner sessionStorage = sessionStorage(BANNER_KEY \<mapsto> js ''true'')"

section \<open>The layout of a workspace\<close>

record app_layout =
  al_isSearchOpen :: bool
  al_searchInitialQuery :: jsstring
  al_isCommandPaletteOpen :: bool
  al_isCreateModalOpen :: bool
  al_isNewDMModalOpen :: bool
  al_isWorkspaceSettingsOpen :: bool
  al_workspaceSettingsTab :: jsstring
  al_settingsWorkspaceId :: jsstring
  al_prevChannel :: "jsstring option"

definition new_layout :: app_layout where
  "new_layout = \<lparr>al_isSearchOpen = False, al_searchInitialQuery = [], al_isCommandPaletteOpen = False,
     al_isCreateModalOpen = False, al_isNewDMModalOpen = False, al_isWorkspaceSettingsOpen = False,
     al_workspaceSettingsTab = js ''general'', al_settingsWorkspaceId = [], al_prevChannel = None\<rparr>"

definition handleOpenSearch :: "jsstring option \<Rightarrow> app_layout \<Rightarrow> app_layout" where
  "handleOpenSearch initialQuery l =
     l\<lparr>al_searchInitialQuery := (case initialQuery of Some q \<Rightarrow> q | None \<Rightarrow> []), al_isSearchOpen := True\<rparr>"

definition handleOpenWorkspaceSettings :: "jsstring \<Rightarrow> jsstring option \<Rightarrow> app_layout \<Rightarrow> app_layout" where
  "handleOpenWorkspaceSettings wsId tab l =
     l\<lparr>al_settingsWorkspaceId := wsId,
       al_workspaceSettingsTab := (case tab of Some t \<Rightarrow> t | None \<Rightarrow> js ''general''),
       al_isWorkspaceSettingsOpen := True\<rparr>"

record key_event =
  ke_metaKey :: bool
  ke_ctrlKey :: bool
  ke_shiftKey :: bool
  ke_key :: jsstring
  ke_code :: jsstring

definition layoutKeyDown :: "key_event \<Rightarrow> app_layout \<Rightarrow> app_layout" where
  "layoutKeyDown e l =
     (let l1 = (if (ke_metaKey e \<or> ke_ctrlKey e) \<and> ke_key e = js ''k'' \<and> \<not> ke_shiftKey e
                then l\<lparr>al_isCommandPaletteOpen := \<not> al_isCommandPaletteOpen l\<rparr> else l)
      in if (ke_metaKey e \<or> ke_ctrlKey e) \<and> ke_shiftKey e \<and> ke_code e = js ''KeyF''
         then handleOpenSearch None l1 else l1)"

text \<open>The effect that records the visits of channels.\<close>

definition visitEffect ::
    "jsstring option \<Rightarrow> jsstring option \<Rightarrow> app_layout \<times> recent_store \<Rightarrow> app_layout \<times> recent_store" where
  "visitEffect workspaceId channelId s =
     (let (l, store) = s
      in if truthy workspaceId \<and> truthy channelId \<and> channelId \<noteq> al_prevChannel l
         then (l\<lparr>al_prevChannel := channelId\<rparr>, recordChannelVisit (the workspaceId) (the channelId) store)
         else s)"

datatype right_panel = NoPanel | ThreadOf jsstring | ProfileOf jsstring

definition rightPanel :: "search_params \<Rightarrow> right_panel" where
  "rightPanel ps =
     (if truthy (profileUserId ps) then ProfileOf (the (profileUserId ps))
      else if truthy (threadId ps) then ThreadOf (the (threadId ps)) else NoPanel)"

text \<open>The buttons of the screen of a banned user: where to switch to, and leaving.\<close>

definition banSwitch :: "workspace_summary list option \<Rightarrow> jsstring \<Rightarrow> workspace_summary option" where
  "banSwitch wss workspaceId =
     (case filter (\<lambda>ws. ws_id ws \<noteq> workspaceId \<and> ws_ban ws = None) (or_empty wss) of
        [] \<Rightarrow> None | ws # _ \<Rightarrow> Some ws)"

section \<open>Where routes lead\<close>

lemma follow_show: "renderRoute v r = Show s \<Longrightarrow> follow v r = (r, s)"
  by (subst follow.simps) simp

lemma follow_navigate: "renderRoute v r = Navigate r' \<Longrightarrow> follow v r = follow v r'"
  by (subst follow.simps) simp

lemma follow_settles: "renderRoute v (fst (follow v r)) = Show (snd (follow v r))"
proof (induction v r rule: follow.induct)
  case (1 v r)
  then show ?case by (cases "renderRoute v r") (simp_all add: follow_show follow_navigate)
qed

definition workspaceScreen :: "web_screen \<Rightarrow> bool" where
  "workspaceScreen s \<longleftrightarrow> (\<exists>w outlet. s = OutletScreen w outlet) \<or> (\<exists>w. s = BanScreen w) \<or> s = NoChannelsScreen"

lemma shown_workspace:
  "renderRoute v r = Show s \<Longrightarrow> workspaceScreen s \<Longrightarrow>
     av_isAuthenticated (vi_auth v) \<and> \<not> av_isLoading (vi_auth v) \<and>
     (\<forall>w outlet. s = OutletScreen w outlet \<longrightarrow> \<not> isBanned (vi_auth v) w)"
  by (cases r)
    (auto simp: workspaceScreen_def loginPage_def registerPage_def forgotPasswordPage_def resetPasswordPage_def
      acceptInvitePage_def requireAuth_def appLayout_def landingPage_def Let_def
      split: if_splits option.splits outlet.splits)

lemma login_required:
  "\<not> av_isAuthenticated (vi_auth v) \<Longrightarrow> \<not> av_isLoading (vi_auth v) \<Longrightarrow>
     follow v (WorkspaceRoute w outlet) = (LoginRoute, LoginScreen)"
  by (simp add: follow_navigate [where r' = LoginRoute] follow_show requireAuth_def loginPage_def)

text \<open>C32: whatever the address, the redirects end at a route that shows a screen; the screens of a workspace are
  shown to signed-in users only, its pages only to users who are not banned from it, and a
  visitor who is not signed in is led from every page of a workspace to the log-in form.\<close>

theorem routes_settle:
  "renderRoute v (fst (follow v r)) = Show (snd (follow v r)) \<and>
   (workspaceScreen (snd (follow v r)) \<longrightarrow> av_isAuthenticated (vi_auth v)) \<and>
   (snd (follow v r) = OutletScreen w outlet \<longrightarrow> \<not> isBanned (vi_auth v) w) \<and>
   (\<not> av_isAuthenticated (vi_auth v) \<and> \<not> av_isLoading (vi_auth v) \<longrightarrow>
      follow v (WorkspaceRoute w outlet) = (LoginRoute, LoginScreen))"
proof (intro conjI impI; (elim conjE)?)
  show settled: "renderRoute v (fst (follow v r)) = Show (snd (follow v r))" by (rule follow_settles)
  show "av_isAuthenticated (vi_auth v)" if "workspaceScreen (snd (follow v r))"
    using shown_workspace [OF settled that] by blast
  show "\<not> isBanned (vi_auth v) w" if "snd (follow v r) = OutletScreen w outlet"
    using shown_workspace [OF settled] that by (auto simp: workspaceScreen_def)
  show "follow v (WorkspaceRoute w outlet) = (LoginRoute, LoginScreen)"
    if "\<not> av_isAuthenticated (vi_auth v)" "\<not> av_isLoading (vi_auth v)"
    using that by (rule login_required)
qed

definition signed_out :: auth_view where
  "signed_out = \<lparr>av_user = None, av_workspaces = None, av_isLoading = False, av_isAuthenticated = False, av_error = None\<rparr>"

definition signed_in :: "workspace_summary list \<Rightarrow> auth_view" where
  "signed_in wss = \<lparr>av_user = Some sample_user, av_workspaces = Some wss, av_isLoading = False,
     av_isAuthenticated = True, av_error = None\<rparr>"

definition sample_visit :: "auth_view \<Rightarrow> jsstring option \<Rightarrow> visit" where
  "sample_visit auth pending = \<lparr>vi_auth = auth, vi_pendingInvite = pending, vi_emailEnabled = True, vi_isMobile = False,
     vi_channelsLoading = False, vi_channels = Some [sample_channel], vi_token = None\<rparr>"

lemma routes_settle_witness:
  "follow (sample_visit signed_out None) (WorkspaceRoute (js ''W'') UnreadsOutlet) = (LoginRoute, LoginScreen)"
  using routes_settle [of "sample_visit signed_out None" _ "js ''W''" UnreadsOutlet]
  by (simp add: sample_visit_def signed_out_def)

text \<open>The address a visitor asked for is forgotten: the log-in leads to the first workspace, whatever it was.\<close>

lemma deep_link_forgotten:
  assumes "\<not> av_isAuthenticated (vi_auth v)" "\<not> av_isLoading (vi_auth v)"
    and "av_isAuthenticated (vi_auth v')" "\<not> truthy (vi_pendingInvite v')" "av_workspaces (vi_auth v') = Some (ws # wss)"
  shows "follow v' (fst (follow v (WorkspaceRoute w outlet))) = follow v' (WorkspaceRoute (ws_id ws) IndexOutlet)"
  using assms
  by (simp add: login_required firstWorkspace_def loginPage_def
    follow_navigate [where r = LoginRoute and r' = "WorkspaceRoute (ws_id ws) IndexOutlet"])

section \<open>An invite that cannot be accepted\<close>

record site =
  si_visit :: visit
  si_route :: web_route
  si_inviteError :: "jsstring option"

definition siteScreen :: "site \<Rightarrow> web_screen" where
  "siteScreen s = snd (follow (si_visit s) (si_route s))"

text \<open>
  What a user can do on the site: press the button that accepts an invite, which the server refuses;
  follow a link of the screen; or open the site anew, at its root.
\<close>

inductive site_step :: "site \<Rightarrow> site \<Rightarrow> bool" where
  refused: "siteScreen s = AcceptInviteScreen code \<Longrightarrow> handleAccept code (Inl err) (si_visit s) = (v, msg, to) \<Longrightarrow>
    site_step s (s\<lparr>si_visit := v, si_inviteError := msg\<rparr>)"
| link: "r \<in> set (screenLinks (si_visit s) (si_inviteError s) (siteScreen s)) \<Longrightarrow>
    site_step s (s\<lparr>si_route := r, si_inviteError := None\<rparr>)"
| reopened: "site_step s (s\<lparr>si_route := RootRoute, si_inviteError := None\<rparr>)"

definition deadEnd :: "jsstring \<Rightarrow> site \<Rightarrow> bool" where
  "deadEnd code s \<longleftrightarrow>
     code \<noteq> [] \<and> av_isAuthenticated (vi_auth (si_visit s)) \<and> \<not> av_isLoading (vi_auth (si_visit s)) \<and>
     or_empty (av_workspaces (vi_auth (si_visit s))) = [] \<and> vi_pendingInvite (si_visit s) = Some code \<and>
     si_route s \<in> {RootRoute, LoginRoute, RegisterRoute, InviteRoute code}"

lemma follow_pending:
  assumes "code \<noteq> []" "av_isAuthenticated (vi_auth v)" "\<not> av_isLoading (vi_auth v)" "vi_pendingInvite v = Some code"
    "r \<in> {RootRoute, LoginRoute, RegisterRoute, InviteRoute code}"
  shows "follow v r = (InviteRoute code, AcceptInviteScreen code)"
proof -
  have invite: "follow v (InviteRoute code) = (InviteRoute code, AcceptInviteScreen code)"
    using assms by (intro follow_show) (simp add: acceptInvitePage_def)
  have login: "follow v LoginRoute = (InviteRoute code, AcceptInviteScreen code)"
    using assms invite by (simp add: follow_navigate [where r = LoginRoute and r' = "InviteRoute code"] loginPage_def)
  have "follow v RegisterRoute = (InviteRoute code, AcceptInviteScreen code)"
    using assms invite by (simp add: follow_navigate [where r = RegisterRoute and r' = "InviteRoute code"] registerPage_def)
  with invite login assms(5) show ?thesis
    by (auto simp: follow_navigate [where r = RootRoute and r' = LoginRoute])
qed

lemma deadEnd_screen: "deadEnd code s \<Longrightarrow> siteScreen s = AcceptInviteScreen code"
  using follow_pending [of code "si_visit s" "si_route s"] by (auto simp: siteScreen_def deadEnd_def)

lemma deadEnd_step: "site_step s t \<Longrightarrow> deadEnd code s \<Longrightarrow> deadEnd code t"
proof (induction rule: site_step.induct)
  case (refused s c err v msg to)
  then show ?case by (auto simp: handleAccept_def deadEnd_def split: if_splits)
next
  case (link r s)
  then have "r = LoginRoute"
    by (auto simp: deadEnd_screen fallbackWorkspaceLink_def firstWorkspace_def deadEnd_def
        split: if_splits option.splits list.splits)
  with link show ?case by (simp add: deadEnd_def)
next
  case (reopened s)
  then show ?case by (simp add: deadEnd_def)
qed

interpretation dead_ends: machine site_step "deadEnd code" "deadEnd code" for code
  by unfold_locales (auto intro: deadEnd_step)

text \<open>a signed-in user without a workspace whose pending invite the server refuses never leaves the page of
  the invite: the refused code stays in the session storage, and the log-in page, to which the only link
  and the root lead, redirects to it before it would offer to create a workspace.\<close>

theorem refused_invite_traps:
  assumes "reachable site_step (\<lambda>s. si_visit s = v \<and> si_route s = LoginRoute) s"
    and "av_isAuthenticated (vi_auth v)" "\<not> av_isLoading (vi_auth v)"
    and "or_empty (av_workspaces (vi_auth v)) = []" "vi_pendingInvite v = Some code" "code \<noteq> []"
  shows "siteScreen s = AcceptInviteScreen code"
proof -
  have "reachable site_step (deadEnd code) s"
    using assms unfolding reachable_def deadEnd_def by blast
  then show ?thesis by (intro deadEnd_screen dead_ends.always)
qed

section \<open>Registering\<close>

lemma register_calls:
  "ro_calls (registerSubmit h p registered second f) = [] \<longleftrightarrow> registerInvalid h f \<noteq> None"
  "registerInvalid h f = None \<Longrightarrow>
     hd (ro_calls (registerSubmit h p registered second f)) = RegisterCall (rf_email f) (rf_password f) (rf_displayName f)"
  by (auto simp: registerSubmit_def Let_def split: option.splits sum.splits)

lemma registerInvalid_error: "registerInvalid h (f\<lparr>rf_error := e\<rparr>) = registerInvalid h f"
  by (simp add: registerInvalid_def)

lemma register_keeps_fields:
  "ro_form (registerSubmit h p registered second f) = f\<lparr>rf_error := rf_error (ro_form (registerSubmit h p registered second f))\<rparr>"
  by (auto simp: registerSubmit_def Let_def split: option.splits sum.splits)

text \<open>when the account was created but the workspace was not, the form stays; pressing the button again
  registers the same address a second time before it tries to create the workspace.\<close>

theorem failed_workspace_registers_again:
  assumes "registerInvalid False f = None" "\<not> truthy pendingInvite"
    and "out = registerSubmit False pendingInvite None (Inl err) f"
  shows "ro_calls out = [RegisterCall (rf_email f) (rf_password f) (rf_displayName f),
      CreateWorkspaceCall (trim (rf_workspaceName f))]"
    and "rf_error (ro_form out) = formError err" "ro_navigate out = None"
    and "hd (ro_calls (registerSubmit False pendingInvite registered second (ro_form out))) =
      RegisterCall (rf_email f) (rf_password f) (rf_displayName f)"
    and "ro_calls (registerSubmit False pendingInvite (Some e) second (ro_form out)) =
      [RegisterCall (rf_email f) (rf_password f) (rf_displayName f)]"
proof -
  have out: "out = \<lparr>ro_calls = [RegisterCall (rf_email f) (rf_password f) (rf_displayName f),
      CreateWorkspaceCall (trim (rf_workspaceName f))], ro_form = f\<lparr>rf_error := formError err\<rparr>,
      ro_pendingInvite = pendingInvite, ro_navigate = None\<rparr>"
  proof -
    have "trim (rf_workspaceName f) \<noteq> []" using assms(1) by (auto simp: registerInvalid_def split: if_splits)
    then show ?thesis using assms by (simp add: registerSubmit_def Let_def)
  qed
  show "ro_calls out = [RegisterCall (rf_email f) (rf_password f) (rf_displayName f),
      CreateWorkspaceCall (trim (rf_workspaceName f))]" "rf_error (ro_form out) = formError err" "ro_navigate out = None"
    by (simp_all add: out)
  have valid: "registerInvalid False (ro_form out) = None" using assms(1) by (simp add: out registerInvalid_error)
  show "hd (ro_calls (registerSubmit False pendingInvite registered second (ro_form out))) =
      RegisterCall (rf_email f) (rf_password f) (rf_displayName f)"
    using register_calls(2) [OF valid] by (simp add: out)
  show "ro_calls (registerSubmit False pendingInvite (Some e) second (ro_form out)) =
      [RegisterCall (rf_email f) (rf_password f) (rf_displayName f)]"
    using valid by (simp add: registerSubmit_def out Let_def)
qed

definition sample_form :: register_form where
  "sample_form = \<lparr>rf_email = js ''a@b.c'', rf_displayName = js ''A'', rf_password = js ''12345678'',
     rf_confirmPassword = js ''12345678'', rf_workspaceName = js ''W'', rf_error = []\<rparr>"

lemma failed_workspace_registers_again_witness:
  "ro_calls (registerSubmit False None (Some (Some (js ''taken''))) (Inl None)
     (ro_form (registerSubmit False None None (Inl (Some (js ''down''))) sample_form))) =
   [RegisterCall (js ''a@b.c'') (js ''12345678'') (js ''A'')]"
proof -
  have "trim (js ''W'') \<noteq> []" by code_simp
  then have "registerInvalid False sample_form = None" by (simp add: registerInvalid_def sample_form_def)
  then have "ro_calls (registerSubmit False None (Some (Some (js ''taken''))) (Inl None)
     (ro_form (registerSubmit False None None (Inl (Some (js ''down''))) sample_form))) =
     [RegisterCall (rf_email sample_form) (rf_password sample_form) (rf_displayName sample_form)]"
    by (rule failed_workspace_registers_again(5)) simp_all
  then show ?thesis by (simp only: sample_form_def register_form.simps)
qed

lemma refused_invite_traps_witness:
  "siteScreen \<lparr>si_visit = sample_visit (signed_in []) (Some (js ''x'')), si_route = RootRoute, si_inviteError = None\<rparr> =
   AcceptInviteScreen (js ''x'')"
proof (rule refused_invite_traps)
  let ?s = "\<lparr>si_visit = sample_visit (signed_in []) (Some (js ''x'')), si_route = LoginRoute, si_inviteError = None\<rparr>"
  let ?start = "\<lambda>s. si_visit s = sample_visit (signed_in []) (Some (js ''x'')) \<and> si_route s = LoginRoute"
  have "site_step ?s (?s\<lparr>si_route := RootRoute, si_inviteError := None\<rparr>)" by (rule site_step.reopened)
  moreover have "reachable site_step ?start ?s" by (rule reachable_start) simp
  ultimately have "reachable site_step ?start (?s\<lparr>si_route := RootRoute, si_inviteError := None\<rparr>)"
    by (rule reachable_step [rotated])
  then show "reachable site_step ?start
      \<lparr>si_visit = sample_visit (signed_in []) (Some (js ''x'')), si_route = RootRoute, si_inviteError = None\<rparr>" by simp
qed (simp_all add: sample_visit_def signed_in_def)

section \<open>Small facts\<close>

lemma reset_validates:
  "resetSubmit token password confirm = Inr (Some (t, p)) \<Longrightarrow>
     token = Some t \<and> t \<noteq> [] \<and> p = password \<and> confirm = password \<and> 8 \<le> length p"
  by (cases token) (auto simp: resetSubmit_def split: if_splits)

text \<open>The verification is requested once, however often the page renders.\<close>

lemma verify_once: "verifyEffect token (verifyEffect token' p) =
    (if truthy token' \<or> vp_hasFired p then verifyEffect token' p else verifyEffect token p)"
  by (auto simp: verifyEffect_def)

lemma banner_stays_dismissed: "bannerDismissed (dismissBanner storage)"
  by (simp add: bannerDismissed_def dismissBanner_def)

lemma visit_recorded_once: "visitEffect w c (visitEffect w c s) = visitEffect w c s"
  by (auto simp: visitEffect_def Let_def split: prod.splits)

lemma one_shortcut:
  "al_isSearchOpen (layoutKeyDown e l) \<noteq> al_isSearchOpen l \<Longrightarrow>
     al_isCommandPaletteOpen (layoutKeyDown e l) = al_isCommandPaletteOpen l"
  by (auto simp: layoutKeyDown_def handleOpenSearch_def Let_def)

text \<open>On a small screen the panel shown is the panel there is.\<close>

lemma panel_shown:
  assumes "one_panel ps" "\<not> params_has ps (js ''switcher'')"
  shows "activePanel c path ps = ThreadPanel \<Longrightarrow> threadId ps \<noteq> Some [] \<Longrightarrow> \<exists>i. rightPanel ps = ThreadOf i"
    and "activePanel c path ps = ProfilePanel \<Longrightarrow> profileUserId ps \<noteq> Some [] \<Longrightarrow> \<exists>i. rightPanel ps = ProfileOf i"
  using assms
  by (auto simp: activePanel_def rightPanel_def one_panel_def has_get threadId_def profileUserId_def
    split: if_splits)

lemma ban_switch_target:
  "banSwitch wss w = Some ws \<Longrightarrow> ws \<in> set (or_empty wss) \<and> ws_id ws \<noteq> w \<and> ws_ban ws = None"
  by (auto simp: banSwitch_def filter_eq_Cons_iff split: list.splits)

lemma ban_switch_agrees: "leaveRedirect wss w = (case banSwitch wss w of Some ws \<Rightarrow> workspaceUrl (ws_id ws) | None \<Rightarrow> js ''/'')"
  by (simp add: leaveRedirect_def banSwitch_def workspaceUrl_def split: list.split)

end
