(* ===== verification/SettingsView.thy ===== *)
theory SettingsView
  imports WebAuth ScheduledView Shortcodes
begin

text \<open>
  The settings of a workspace in the web app (\<open>components/settings/WorkspaceSettingsModal.tsx\<close>): its
  tabs, the roles of the members with their confirmations, icon, name, invites and permissions; with the
  bans (\<open>ModerationPanel.tsx\<close>), the custom emojis (\<open>CustomEmojiManager.tsx\<close>, \<open>AddEmojiModal.tsx\<close>) and the
  profile (\<open>profile/ProfilePane.tsx\<close>).
\<close>

section \<open>Tabs\<close>

datatype settings_tab = GeneralTab | MembersListTab | EmojiTab | InviteTab | PermissionsTab | ModerationTab

definition navItems :: "(settings_tab \<times> bool) list" where
  "navItems = [(GeneralTab, False), (MembersListTab, False), (EmojiTab, False), (InviteTab, True),
     (PermissionsTab, True), (ModerationTab, True)]"

definition visibleNavItems :: "bool \<Rightarrow> bool \<Rightarrow> settings_tab list" where
  "visibleNavItems canInvite manage =
     map fst (filter (\<lambda>(tab, adminOnly). if tab = InviteTab then canInvite else \<not> adminOnly \<or> manage) navItems)"

definition viewerRole :: "workspace_summary list option \<Rightarrow> jsstring \<Rightarrow> workspace_role option" where
  "viewerRole wss workspaceId = map_option ws_role (find (\<lambda>w. ws_id w = workspaceId) (or_empty wss))"

definition canManage :: "workspace_role option \<Rightarrow> bool" where
  "canManage role = (role = Some Owner \<or> role = Some Admin)"

text \<open>\<open>canInvite\<close>; the settings are \<open>None\<close> until the workspace is loaded.\<close>

definition settingsCanInvite :: "workspace_role option \<Rightarrow> workspace_settings option \<Rightarrow> bool" where
  "settingsCanInvite role settings = hasPermission role (map_option wst_who_can_create_invites settings)"

definition openingTab :: "bool \<Rightarrow> bool \<Rightarrow> settings_tab \<Rightarrow> settings_tab" where
  "openingTab canInvite manage defaultTab =
     (if defaultTab = InviteTab \<and> \<not> canInvite then GeneralTab
      else if (defaultTab = PermissionsTab \<or> defaultTab = ModerationTab) \<and> \<not> manage then GeneralTab
      else defaultTab)"

section \<open>The dialog\<close>

type_synonym image_file = "jsstring \<times> jsstring \<times> int"

record settings_view =
  sv_selectedTab :: settings_tab
  sv_selectedFile :: "image_file option"
  sv_previewUrl :: "jsstring option"
  sv_inviteLink :: "jsstring option"
  sv_expiresIn :: jsstring
  sv_maxUses :: jsstring
  sv_isEditingName :: bool
  sv_editName :: jsstring
  sv_memberToRemove :: "jsstring option"
  sv_promoteTarget :: "(jsstring \<times> jsstring) option"
  sv_promoteConfirmText :: jsstring
  sv_demoteSelfRole :: "workspace_role option"
  sv_prevOpen :: bool
  sv_prevDefaultTab :: settings_tab

definition new_settings :: "settings_tab \<Rightarrow> settings_view" where
  "new_settings defaultTab = \<lparr>sv_selectedTab = defaultTab, sv_selectedFile = None, sv_previewUrl = None,
     sv_inviteLink = None, sv_expiresIn = js ''7'', sv_maxUses = [], sv_isEditingName = False, sv_editName = [],
     sv_memberToRemove = None, sv_promoteTarget = None, sv_promoteConfirmText = [], sv_demoteSelfRole = None,
     sv_prevOpen = False, sv_prevDefaultTab = defaultTab\<rparr>"

definition renderSettings :: "bool \<Rightarrow> settings_tab \<Rightarrow> bool \<Rightarrow> bool \<Rightarrow> settings_view \<Rightarrow> settings_view" where
  "renderSettings isOpen defaultTab canInvite manage s =
     (if isOpen \<and> \<not> sv_prevOpen s \<or> isOpen \<and> defaultTab \<noteq> sv_prevDefaultTab s
      then (new_settings defaultTab)\<lparr>sv_prevOpen := isOpen, sv_selectedTab := openingTab canInvite manage defaultTab\<rparr>
      else if \<not> isOpen \<and> sv_prevOpen s then s\<lparr>sv_prevOpen := False\<rparr> else s)"

text \<open>The tabs whose content has a condition of its own.\<close>

definition tabContentShown :: "bool \<Rightarrow> bool \<Rightarrow> settings_tab \<Rightarrow> bool" where
  "tabContentShown canInvite manage tab =
     (case tab of InviteTab \<Rightarrow> canInvite | PermissionsTab \<Rightarrow> manage | ModerationTab \<Rightarrow> manage | _ \<Rightarrow> True)"

section \<open>Roles\<close>

record viewer =
  vw_userId :: "jsstring option"
  vw_role :: "workspace_role option"

definition isSelf :: "viewer \<Rightarrow> workspace_member \<Rightarrow> bool" where
  "isSelf vw m = (Some (mem_user_id m) = vw_userId vw)"

definition ownerCount :: "workspace_member list \<Rightarrow> nat" where
  "ownerCount members = length (filter (\<lambda>m. mem_role m = Owner) members)"

text \<open>What a row of the list shows for the role: a badge - that of a banned member says to managers that the member is
  banned and to others that it is deactivated - or a select with its options, perhaps disabled.\<close>

datatype role_control = BannedBadge bool | RoleBadge workspace_role | RoleSelect "workspace_role list" bool

definition roleControl :: "viewer \<Rightarrow> workspace_member list \<Rightarrow> workspace_member \<Rightarrow> role_control" where
  "roleControl vw members m =
     (if mem_is_banned m = Some True then BannedBadge (canManage (vw_role vw))
      else if \<not> canManage (vw_role vw) then RoleBadge (mem_role m)
      else if mem_role m = Owner \<and> \<not> isSelf vw m then RoleBadge Owner
      else if mem_role m = Owner \<and> isSelf vw m \<and> ownerCount members \<le> 1 then RoleBadge Owner
      else if mem_role m = Owner \<and> isSelf vw m then RoleSelect [Owner, Admin, Member] False
      else RoleSelect ((if vw_role vw = Some Owner then [Owner] else []) @ [Admin, Member]) (isSelf vw m))"

text \<open>\<open>handleRoleChange\<close>: the dialog afterwards, and the request it makes at once.\<close>

type_synonym role_request = "jsstring \<times> workspace_role"

definition handleRoleChange ::
    "viewer \<Rightarrow> workspace_member list \<Rightarrow> jsstring \<Rightarrow> workspace_role \<Rightarrow> settings_view \<Rightarrow> settings_view \<times> role_request option" where
  "handleRoleChange vw members userId role s =
     (if role = Owner
      then (let displayName = (case find (\<lambda>m. mem_user_id m = userId) members of
                Some m \<Rightarrow> or_else (Some (mem_display_name m)) (js ''this user'') | None \<Rightarrow> js ''this user'')
            in (s\<lparr>sv_promoteTarget := Some (userId, displayName), sv_promoteConfirmText := []\<rparr>, None))
      else if Some userId = vw_userId vw \<and> vw_role vw = Some Owner
      then (s\<lparr>sv_demoteSelfRole := Some role\<rparr>, None)
      else (s, Some (userId, role)))"

definition promoteEnabled :: "settings_view \<Rightarrow> bool" where
  "promoteEnabled s =
     (case sv_promoteTarget s of None \<Rightarrow> False | Some (u, displayName) \<Rightarrow> sv_promoteConfirmText s = displayName)"

definition handleConfirmPromote :: "settings_view \<Rightarrow> role_request option" where
  "handleConfirmPromote s = map_option (\<lambda>(u, _). (u, Owner)) (sv_promoteTarget s)"

definition promoteAnswered :: "mutation_answer \<Rightarrow> settings_view \<Rightarrow> settings_view \<times> page_effect list" where
  "promoteAnswered answer s =
     (case answer of
        None \<Rightarrow> (s\<lparr>sv_promoteTarget := None, sv_promoteConfirmText := []\<rparr>,
          case sv_promoteTarget s of Some (u, n) \<Rightarrow> [Toast (n @ js '' is now an owner'') True] | None \<Rightarrow> [])
      | Some err \<Rightarrow> (s, [errorToast err (js ''Failed to promote to owner'')]))"

definition handleConfirmDemoteSelf :: "viewer \<Rightarrow> settings_view \<Rightarrow> role_request option" where
  "handleConfirmDemoteSelf vw s =
     (case (sv_demoteSelfRole s, vw_userId vw) of (Some r, Some u) \<Rightarrow> Some (u, r) | _ \<Rightarrow> None)"

definition demoteAnswered :: "mutation_answer \<Rightarrow> settings_view \<Rightarrow> settings_view \<times> page_effect list" where
  "demoteAnswered answer s =
     (case answer of
        None \<Rightarrow> (s\<lparr>sv_demoteSelfRole := None\<rparr>, [Toast (js ''Your role has been updated'') True])
      | Some err \<Rightarrow> (s, [errorToast err (js ''Failed to update role'')]))"

definition roleAnswered :: "mutation_answer \<Rightarrow> page_effect list" where
  "roleAnswered answer =
     (case answer of None \<Rightarrow> [Toast (js ''Role updated'') True] | Some err \<Rightarrow> [errorToast err (js ''Failed to update role'')])"

definition removeAnswered :: "mutation_answer \<Rightarrow> settings_view \<Rightarrow> settings_view \<times> page_effect list" where
  "removeAnswered answer s =
     (case answer of
        None \<Rightarrow> (s\<lparr>sv_memberToRemove := None\<rparr>, [Toast (js ''Member removed'') True])
      | Some err \<Rightarrow> (s, [errorToast err (js ''Failed to remove member'')]))"

text \<open>The buttons of a row; \<open>blocked\<close> are the users the viewer has blocked.\<close>

datatype member_action = RemoveMember | BlockMember | UnblockMember

definition memberActions :: "viewer \<Rightarrow> jsstring list \<Rightarrow> workspace_member \<Rightarrow> member_action list" where
  "memberActions vw blocked m =
     (if mem_is_banned m = Some True then []
      else (if canManage (vw_role vw) \<and> \<not> isSelf vw m then [RemoveMember] else []) @
           (if isSelf vw m then []
            else if mem_user_id m \<in> set blocked then [UnblockMember]
            else if mem_role m \<noteq> Owner \<and> mem_role m \<noteq> Admin then [BlockMember] else []))"

section \<open>Name, invites\<close>

definition handleUpdateName :: "jsstring option \<Rightarrow> settings_view \<Rightarrow> settings_view \<times> jsstring option" where
  "handleUpdateName currentName s =
     (let trimmed = trim (sv_editName s)
      in if trimmed = [] \<or> Some trimmed = currentName then (s\<lparr>sv_isEditingName := False\<rparr>, None)
         else (s, Some trimmed))"

definition nameAnswered :: "mutation_answer \<Rightarrow> settings_view \<Rightarrow> settings_view \<times> page_effect list" where
  "nameAnswered answer s =
     (case answer of
        None \<Rightarrow> (s\<lparr>sv_isEditingName := False\<rparr>, [Toast (js ''Workspace name updated'') True])
      | Some err \<Rightarrow> (s, [errorToast err (js ''Failed to update name'')]))"

text \<open>\<open>parseInt\<close> of what the two inputs can hold: digits, with \<open>None\<close> for the \<open>NaN\<close> of the empty string.\<close>

definition parseDigits :: "jsstring \<Rightarrow> nat option" where
  "parseDigits s =
     (let ds = takeWhile is_digit s in if ds = [] then None else Some (foldl (\<lambda>n c. 10 * n + (unat c - 48)) 0 ds))"

record invite_input =
  iv_expires_in_hours :: "nat option"
  iv_max_uses :: "nat option"

definition inviteRequest :: "settings_view \<Rightarrow> invite_input" where
  "inviteRequest s =
     \<lparr>iv_expires_in_hours = (case parseDigits (sv_expiresIn s) of
        Some days \<Rightarrow> if days \<noteq> 0 then Some (days * 24) else None | None \<Rightarrow> None),
      iv_max_uses = (if sv_maxUses s \<noteq> [] then parseDigits (sv_maxUses s) else None)\<rparr>"

definition inviteAnswered :: "jsstring \<Rightarrow> jsstring option + jsstring \<Rightarrow> settings_view \<Rightarrow> settings_view \<times> page_effect list" where
  "inviteAnswered origin answer s =
     (case answer of
        Inr code \<Rightarrow> (s\<lparr>sv_inviteLink := Some (origin @ js ''/invites/'' @ code)\<rparr>, [Toast (js ''Invite link created!'') True])
      | Inl err \<Rightarrow> (s, [errorToast err (js ''Failed to create invite'')]))"

text \<open>The levels the permission selects show while nothing is set.\<close>

definition shownPermissions :: "workspace_settings option \<Rightarrow> permission_level list" where
  "shownPermissions settings =
     (case settings of
        None \<Rightarrow> [MembersLevel, AdminsLevel, MembersLevel, MembersLevel]
      | Some st \<Rightarrow> [wst_who_can_create_channels st, wst_who_can_create_invites st,
                    wst_who_can_pin_messages st, wst_who_can_manage_custom_emoji st])"

definition copyLink :: "settings_view \<Rightarrow> jsstring option \<times> page_effect list" where
  "copyLink s =
     (case sv_inviteLink s of
        Some link \<Rightarrow> (if link = [] then (None, []) else (Some link, [Toast (js ''Link copied to clipboard'') True]))
      | None \<Rightarrow> (None, []))"

definition permissionAnswered :: "mutation_answer \<Rightarrow> page_effect list" where
  "permissionAnswered answer =
     (if answer = None then [] else [Toast (js ''Failed to update permission'') False])"

definition rowBlockAnswered :: "bool \<Rightarrow> mutation_answer \<Rightarrow> page_effect list" where
  "rowBlockAnswered isBlocked answer =
     (if answer = None then []
      else [Toast (if isBlocked then js ''Failed to unblock user'' else js ''Failed to block user'') False])"

section \<open>Choosing an image\<close>

text \<open>
  The four places where an image is chosen hold an object URL of it for the preview; \<open>pk_live\<close> are the
  URLs that have been created and not revoked. \<open>url\<close> is the URL the host creates.
\<close>

record picker =
  pk_selectedFile :: "image_file option"
  pk_previewUrl :: "jsstring option"
  pk_live :: "jsstring set"

definition new_picker :: picker where
  "new_picker = \<lparr>pk_selectedFile = None, pk_previewUrl = None, pk_live = {}\<rparr>"

definition ICON_TYPES :: "jsstring list" where
  "ICON_TYPES = [js ''image/jpeg'', js ''image/png'', js ''image/gif'', js ''image/webp'']"

definition EMOJI_TYPES :: "jsstring list" where
  "EMOJI_TYPES = [js ''image/png'', js ''image/gif'']"

definition iconInvalid :: "image_file \<Rightarrow> page_effect option" where
  "iconInvalid file =
     (let (name, type, size) = file
      in if type \<notin> set ICON_TYPES then Some (Toast (js ''Invalid file type. Please use JPEG, PNG, GIF, or WebP.'') False)
         else if size > 5 * 1024 * 1024 then Some (Toast (js ''File too large. Maximum size is 5MB.'') False)
         else None)"

definition emojiInvalid :: "image_file \<Rightarrow> page_effect option" where
  "emojiInvalid file =
     (let (name, type, size) = file
      in if type \<notin> set EMOJI_TYPES then Some (Toast (js ''Only PNG and GIF files are allowed.'') False)
         else if size > 256 * 1024 then Some (Toast (js ''File too large. Maximum size is 256KB.'') False)
         else None)"

definition revoke :: "jsstring option \<Rightarrow> picker \<Rightarrow> picker" where
  "revoke u p = p\<lparr>pk_live := pk_live p - set_option u\<rparr>"

text \<open>Selecting a valid file in the profile form and in the emoji manager, and in the dialog that adds an emoji.\<close>

definition selectFile :: "jsstring \<Rightarrow> image_file \<Rightarrow> picker \<Rightarrow> picker" where
  "selectFile url file p =
     p\<lparr>pk_selectedFile := Some file, pk_previewUrl := Some url, pk_live := insert url (pk_live p)\<rparr>"

definition addEmojiSelect :: "jsstring \<Rightarrow> image_file \<Rightarrow> picker \<Rightarrow> picker" where
  "addEmojiSelect url file p =
     (let p1 = revoke (pk_previewUrl p) (p\<lparr>pk_selectedFile := Some file\<rparr>)
      in p1\<lparr>pk_previewUrl := Some url, pk_live := insert url (pk_live p1)\<rparr>)"

definition clearFile :: "picker \<Rightarrow> picker" where
  "clearFile p = (revoke (pk_previewUrl p) p)\<lparr>pk_selectedFile := None, pk_previewUrl := None\<rparr>"

text \<open>In the settings, the clean-up of an effect revokes a URL when another one, or none, replaces it.\<close>

definition previewEffect :: "jsstring option \<Rightarrow> picker \<Rightarrow> picker" where
  "previewEffect before p = (if pk_previewUrl p = before then p else revoke before p)"

definition settingsSelect :: "jsstring \<Rightarrow> image_file \<Rightarrow> picker \<Rightarrow> picker" where
  "settingsSelect url file p = previewEffect (pk_previewUrl p) (selectFile url file p)"

definition settingsClear :: "picker \<Rightarrow> picker" where
  "settingsClear p = previewEffect (pk_previewUrl p) (clearFile p)"

text \<open>The icon of the workspace, and removing an avatar, which drops the preview without revoking it.\<close>

definition uploadIconAnswered :: "mutation_answer \<Rightarrow> picker \<Rightarrow> picker \<times> page_effect list" where
  "uploadIconAnswered answer p =
     (if pk_selectedFile p = None then (p, [])
      else case answer of
        None \<Rightarrow> (settingsClear p, [Toast (js ''Workspace icon updated'') True])
      | Some err \<Rightarrow> (p, [errorToast err (js ''Failed to upload icon'')]))"

definition removeIconAnswered :: "mutation_answer \<Rightarrow> page_effect list" where
  "removeIconAnswered answer =
     (case answer of
        None \<Rightarrow> [Toast (js ''Workspace icon removed'') True]
      | Some err \<Rightarrow> [errorToast err (js ''Failed to remove icon'')])"

definition removeAvatarAnswered :: "mutation_answer \<Rightarrow> picker \<Rightarrow> picker \<times> page_effect list" where
  "removeAvatarAnswered answer p =
     (case answer of
        None \<Rightarrow> (p\<lparr>pk_selectedFile := None, pk_previewUrl := None\<rparr>, [Toast (js ''Avatar removed'') True])
      | Some err \<Rightarrow> (p, [Toast (js ''Failed to remove avatar'') False]))"

definition displayAvatarUrl :: "picker \<Rightarrow> user \<Rightarrow> jsstring option" where
  "displayAvatarUrl p u =
     (if truthy (pk_previewUrl p) then pk_previewUrl p
      else if truthy (us_avatar_url u) then us_avatar_url u else us_gravatar_url u)"

section \<open>Custom emojis\<close>

definition emojiNameChar :: "code_unit \<Rightarrow> bool" where
  "emojiNameChar c = ((ch CHR ''a'' \<le> c \<and> c \<le> ch CHR ''z'') \<or> (ch CHR ''A'' \<le> c \<and> c \<le> ch CHR ''Z'') \<or> is_digit c)"

text \<open>\<open>/^[a-zA-Z0-9][a-zA-Z0-9_-]{0,62}$/\<close>\<close>

definition NAME_REGEX :: "jsstring \<Rightarrow> bool" where
  "NAME_REGEX s =
     (case s of [] \<Rightarrow> False
      | c # cs \<Rightarrow> emojiNameChar c \<and> length cs \<le> 62 \<and>
          list_all (\<lambda>c. emojiNameChar c \<or> c = ch CHR ''_'' \<or> c = ch CHR ''-'') cs)"

datatype name_error = MalformedName | StandardEmoji jsstring | ExistingEmoji jsstring

definition nameError ::
    "(jsstring \<Rightarrow> jsstring) \<Rightarrow> custom_emoji list option \<Rightarrow> jsstring \<Rightarrow> name_error option" where
  "nameError lower known name =
     (if name = [] then None
      else let l = lower name
        in if \<not> NAME_REGEX name then Some MalformedName
           else if resolveStandardShortcode EMOJI_CATEGORIES l \<noteq> NoValue then Some (StandardEmoji l)
           else if list_ex (\<lambda>e. em_name e = l) (or_empty known) then Some (ExistingEmoji l)
           else None)"

definition emojiNameInput :: "jsstring \<Rightarrow> jsstring" where
  "emojiNameInput s = filter (\<lambda>c. \<not> is_ws c) s"

definition emojiUpload ::
    "(jsstring \<Rightarrow> jsstring) \<Rightarrow> custom_emoji list option \<Rightarrow> image_file option \<Rightarrow> jsstring \<Rightarrow> (image_file \<times> jsstring) option" where
  "emojiUpload lower known selectedFile name =
     (case selectedFile of None \<Rightarrow> None
      | Some file \<Rightarrow> if name = [] \<or> nameError lower known name \<noteq> None then None else Some (file, lower name))"

definition managerUploadAnswered :: "jsstring \<Rightarrow> mutation_answer \<Rightarrow> page_effect list" where
  "managerUploadAnswered n answer =
     (case answer of
        None \<Rightarrow> [Toast (js ''Emoji :'' @ n @ js '': added'') True]
      | Some err \<Rightarrow> useUploadCustomEmoji_onError err @ [errorToast err (js ''Failed to upload emoji'')])"

definition addEmojiAnswered :: "jsstring \<Rightarrow> mutation_answer \<Rightarrow> page_effect list" where
  "addEmojiAnswered n answer =
     (case answer of
        None \<Rightarrow> [Toast (js ''Emoji :'' @ n @ js '': added'') True, CloseModal]
      | Some err \<Rightarrow> useUploadCustomEmoji_onError err)"

definition managerDeleteAnswered :: "jsstring \<Rightarrow> mutation_answer \<Rightarrow> page_effect list" where
  "managerDeleteAnswered n answer =
     (case answer of
        None \<Rightarrow> [Toast (js ''Emoji :'' @ n @ js '': deleted'') True, CloseModal]
      | Some err \<Rightarrow> useDeleteCustomEmoji_onError err @ [errorToast err (js ''Failed to delete emoji'')])"

definition canDeleteEmoji :: "viewer \<Rightarrow> custom_emoji \<Rightarrow> bool" where
  "canDeleteEmoji vw e = (Some (em_created_by e) = vw_userId vw \<or> canManage (vw_role vw))"

definition emojiDeleteRequest :: "(jsstring \<times> jsstring) option \<Rightarrow> jsstring option" where
  "emojiDeleteRequest emojiToDelete = map_option fst emojiToDelete"

definition canManageEmoji :: "bool \<Rightarrow> workspace_role option \<Rightarrow> workspace_settings option \<Rightarrow> bool" where
  "canManageEmoji filesEnabled role settings =
     (filesEnabled \<and> hasPermission role (map_option wst_who_can_manage_custom_emoji settings))"

section \<open>Bans and the log\<close>

record ban_form =
  bf_selectedUserId :: jsstring
  bf_reason :: jsstring
  bf_duration :: jsstring
  bf_hideMessages :: bool

definition new_ban_form :: ban_form where
  "new_ban_form = \<lparr>bf_selectedUserId = [], bf_reason = [], bf_duration = [], bf_hideMessages = False\<rparr>"

record ban_input =
  bi_user_id :: jsstring
  bi_reason :: "jsstring option"
  bi_duration_hours :: "nat option"
  bi_hide_messages :: bool

definition handleBan :: "ban_form \<Rightarrow> page_effect + ban_input" where
  "handleBan f =
     (if bf_selectedUserId f = [] then Inl (Toast (js ''Select a user to ban'') False)
      else Inr \<lparr>bi_user_id = bf_selectedUserId f,
        bi_reason = (if bf_reason f = [] then None else Some (bf_reason f)),
        bi_duration_hours = (if bf_duration f = [] then None else parseDigits (bf_duration f)),
        bi_hide_messages = bf_hideMessages f\<rparr>)"

definition banAnswered :: "mutation_answer \<Rightarrow> ban_form \<Rightarrow> ban_form \<times> page_effect list" where
  "banAnswered answer f =
     (case answer of
        None \<Rightarrow> (new_ban_form, [Toast (js ''User banned'') True, CloseModal])
      | Some err \<Rightarrow> (f, [errorToast err (js ''Failed to ban user'')]))"

definition unbanAnswered :: "mutation_answer \<Rightarrow> page_effect list" where
  "unbanAnswered answer =
     (case answer of None \<Rightarrow> [Toast (js ''User unbanned'') True] | Some err \<Rightarrow> [Toast (js ''Failed to unban user'') False])"

definition bansSummary :: "(nat \<Rightarrow> jsstring) \<Rightarrow> 'ban list \<Rightarrow> jsstring" where
  "bansSummary toText bans =
     (if bans = [] then js ''No banned users.''
      else toText (length bans) @ js '' banned user'' @ (if length bans \<noteq> 1 then js ''s'' else []))"

definition bannableMembers :: "workspace_member list option \<Rightarrow> workspace_member list" where
  "bannableMembers members = filter (\<lambda>m. mem_role m \<noteq> Owner) (or_empty members)"

definition formatAction :: "jsstring \<Rightarrow> jsstring" where
  "formatAction action =
     (if action = js ''user.banned'' then js ''banned a user''
      else if action = js ''user.unbanned'' then js ''unbanned a user''
      else if action = js ''member.removed'' then js ''removed a member''
      else if action = js ''member.role_changed'' then js ''changed a member role''
      else if action = js ''message.deleted'' then js ''deleted a message''
      else if action = js ''channel.archived'' then js ''archived a channel''
      else action)"

text \<open>\<open>replace(/\b\w/g, ...)\<close>; the flag says whether the character before belongs to a word.\<close>

definition metadataWordChar :: "code_unit \<Rightarrow> bool" where
  "metadataWordChar c = (emojiNameChar c \<or> c = ch CHR ''_'')"

fun capitalise :: "(jsstring \<Rightarrow> jsstring) \<Rightarrow> bool \<Rightarrow> jsstring \<Rightarrow> jsstring" where
  "capitalise upper inWord [] = []"
| "capitalise upper inWord (c # s) =
     (if metadataWordChar c \<and> \<not> inWord then upper [c] else [c]) @ capitalise upper (metadataWordChar c) s"

definition formatMetadataKey :: "(jsstring \<Rightarrow> jsstring) \<Rightarrow> jsstring \<Rightarrow> jsstring" where
  "formatMetadataKey upper key = capitalise upper False (map (\<lambda>c. if c = ch CHR ''_'' then ch CHR '' '' else c) key)"

section \<open>Profiles\<close>

datatype profile_status = StatusBanned | StatusDeactivated | StatusDeparted | StatusPresence presence_status

definition profileStatus ::
    "workspace_role option \<Rightarrow> bool \<Rightarrow> bool \<Rightarrow> workspace_member option \<Rightarrow> presence_status option \<Rightarrow> profile_status" where
  "profileStatus role isOwnProfile membersLoaded targetMember presence =
     (let targetIsBanned = (case targetMember of Some m \<Rightarrow> mem_is_banned m = Some True | None \<Rightarrow> False);
          targetIsDeparted = (\<not> isOwnProfile \<and> membersLoaded \<and> targetMember = None)
      in if targetIsBanned then (if canManage role then StatusBanned else StatusDeactivated)
         else if targetIsDeparted then StatusDeparted
         else StatusPresence (case presence of Some p \<Rightarrow> p | None \<Rightarrow> Offline))"

datatype block_button = NoBlockButton | BlockRefused | UnblockButton | BlockButton

definition blockButton :: "bool \<Rightarrow> bool \<Rightarrow> bool \<Rightarrow> workspace_member option \<Rightarrow> block_button" where
  "blockButton isOwnProfile membersLoaded isBlocked targetMember =
     (let targetRole = map_option mem_role targetMember;
          targetIsBanned = (case targetMember of Some m \<Rightarrow> mem_is_banned m = Some True | None \<Rightarrow> False);
          targetIsDeparted = (\<not> isOwnProfile \<and> membersLoaded \<and> targetMember = None);
          canBlock = (targetRole \<noteq> Some Owner \<and> targetRole \<noteq> Some Admin)
      in if isOwnProfile \<or> targetIsBanned \<or> targetIsDeparted then NoBlockButton
         else if \<not> canBlock \<and> \<not> isBlocked then BlockRefused
         else if isBlocked then UnblockButton else BlockButton)"

definition toggleBlockAnswered :: "bool \<Rightarrow> mutation_answer \<Rightarrow> page_effect list" where
  "toggleBlockAnswered isBlocked answer =
     (case answer of
        None \<Rightarrow> [Toast (if isBlocked then js ''User unblocked'' else js ''User blocked'') True]
      | Some err \<Rightarrow> [Toast (if isBlocked then js ''Failed to unblock user'' else js ''Failed to block user'') False])"

definition bannerUrl :: "user \<Rightarrow> bool \<Rightarrow> jsstring option" where
  "bannerUrl u gravatarFailed =
     (if truthy (us_avatar_url u) then us_avatar_url u
      else if \<not> gravatarFailed then us_gravatar_url u else None)"

datatype profile_call = UploadAvatarCall image_file | UpdateProfileCall jsstring

text \<open>Saving the profile, with the answers to the two calls.\<close>

definition profileSubmit ::
    "jsstring \<Rightarrow> image_file option \<Rightarrow> mutation_answer \<Rightarrow> mutation_answer \<Rightarrow> profile_call list \<times> page_effect list" where
  "profileSubmit displayName selectedFile uploaded updated =
     (let trimmedName = trim displayName;
          uploads = (case selectedFile of Some f \<Rightarrow> [UploadAvatarCall f] | None \<Rightarrow> []);
          failed = [Toast (js ''Failed to update profile'') False]
      in if trimmedName = [] then ([], [Toast (js ''Display name is required'') False])
         else if selectedFile \<noteq> None \<and> uploaded \<noteq> None then (uploads, failed)
         else (uploads @ [UpdateProfileCall trimmedName],
           if updated = None then [Toast (js ''Profile updated'') True, CloseModal] else failed))"

section \<open>Tabs and roles\<close>

lemma opening_tab_visible: "openingTab canInvite manage t \<in> set (visibleNavItems canInvite manage)"
  by (cases t; cases canInvite; cases manage) (simp_all add: openingTab_def visibleNavItems_def navItems_def)

lemma visible_tab_shown: "t \<in> set (visibleNavItems canInvite manage) \<Longrightarrow> tabContentShown canInvite manage t"
  by (auto simp: visibleNavItems_def navItems_def tabContentShown_def split: if_splits)

text \<open>the dialog opened at the invites, as the menu of a workspace does, shows the general settings instead
  while the workspace is not loaded, also to an owner; when it is loaded, nothing changes this.\<close>

theorem invite_opens_general:
  assumes "\<not> sv_prevOpen s"
  shows "sv_selectedTab (renderSettings True InviteTab (settingsCanInvite (Some Owner) None) True s) = GeneralTab"
    and "sv_selectedTab (renderSettings True InviteTab (settingsCanInvite (Some Owner) (Some settings)) True
      (renderSettings True InviteTab (settingsCanInvite (Some Owner) None) True s)) = GeneralTab"
    and "settingsCanInvite (Some Owner) (Some settings)"
proof -
  show "settingsCanInvite (Some Owner) (Some settings)"
    by (cases "wst_who_can_create_invites settings") (simp_all add: settingsCanInvite_def hasPermission_def)
qed (use assms in \<open>simp_all add: renderSettings_def new_settings_def settingsCanInvite_def openingTab_def\<close>)

lemma invite_opens_general_witness:
  "sv_selectedTab (renderSettings True InviteTab (settingsCanInvite (Some Owner) None) True (new_settings GeneralTab)) = GeneralTab"
  by (rule invite_opens_general(1)) (simp add: new_settings_def)

text \<open>
  The dialog of a viewer with the members \<open>ms\<close> as a machine: options are chosen as the rows offer them, and the
  confirmations are pressed while they are enabled. The log holds the requests with what led to them.
\<close>

datatype role_event = Chosen | Promoted | SteppedDown

type_synonym role_log = "(role_request \<times> role_event) list"

definition logged :: "role_event \<Rightarrow> role_request option \<Rightarrow> role_log" where
  "logged ev r = (case r of None \<Rightarrow> [] | Some q \<Rightarrow> [(q, ev)])"

inductive role_step ::
    "viewer \<Rightarrow> workspace_member list \<Rightarrow> settings_view \<times> role_log \<Rightarrow> settings_view \<times> role_log \<Rightarrow> bool"
  for vw ms where
  choose: "m \<in> set ms \<Longrightarrow> roleControl vw ms m = RoleSelect options False \<Longrightarrow> r \<in> set options \<Longrightarrow>
    handleRoleChange vw ms (mem_user_id m) r s = (s', q) \<Longrightarrow> role_step vw ms (s, lg) (s', lg @ logged Chosen q)"
| confirm_text: "role_step vw ms (s, lg) (s\<lparr>sv_promoteConfirmText := t\<rparr>, lg)"
| promote: "promoteEnabled s \<Longrightarrow> role_step vw ms (s, lg) (s, lg @ logged Promoted (handleConfirmPromote s))"
| promote_answered: "role_step vw ms (s, lg) (fst (promoteAnswered answer s), lg)"
| step_down: "role_step vw ms (s, lg) (s, lg @ logged SteppedDown (handleConfirmDemoteSelf vw s))"
| step_down_answered: "role_step vw ms (s, lg) (fst (demoteAnswered answer s), lg)"
| cancel: "role_step vw ms (s, lg) (s\<lparr>sv_promoteTarget := None, sv_promoteConfirmText := [], sv_demoteSelfRole := None\<rparr>, lg)"

definition confirmedRequest :: "viewer \<Rightarrow> workspace_member list \<Rightarrow> role_request \<times> role_event \<Rightarrow> bool" where
  "confirmedRequest vw ms e \<longleftrightarrow>
     (let ((u, r), ev) = e
      in canManage (vw_role vw) \<and>
        (ev = Promoted \<longrightarrow> r = Owner \<and> vw_role vw = Some Owner) \<and>
        (ev = Chosen \<longrightarrow> r \<noteq> Owner \<and> (vw_role vw = Some Owner \<longrightarrow> Some u \<noteq> vw_userId vw) \<and>
           (\<exists>m \<in> set ms. mem_user_id m = u \<and> mem_role m \<noteq> Owner)) \<and>
        (ev = SteppedDown \<longrightarrow> Some u = vw_userId vw \<and> r \<noteq> Owner \<and> vw_role vw = Some Owner \<and> 1 < ownerCount ms))"

definition roleInv :: "viewer \<Rightarrow> workspace_member list \<Rightarrow> settings_view \<times> role_log \<Rightarrow> bool" where
  "roleInv vw ms st \<longleftrightarrow>
     (let (s, lg) = st
      in list_all (confirmedRequest vw ms) lg \<and>
        (sv_promoteTarget s \<noteq> None \<longrightarrow> vw_role vw = Some Owner) \<and>
        (\<forall>r. sv_demoteSelfRole s = Some r \<longrightarrow> r \<noteq> Owner \<and> vw_role vw = Some Owner \<and> 1 < ownerCount ms))"

text \<open>The role of the viewer among the members is the one the viewer is known by.\<close>

definition viewerListed :: "viewer \<Rightarrow> workspace_member list \<Rightarrow> bool" where
  "viewerListed vw ms \<longleftrightarrow> (\<forall>m \<in> set ms. isSelf vw m \<longrightarrow> vw_role vw = Some (mem_role m))"

lemma offered_roles:
  assumes "roleControl vw ms m = RoleSelect options False" "r \<in> set options" "viewerListed vw ms" "m \<in> set ms"
  shows "canManage (vw_role vw)" "r = Owner \<Longrightarrow> vw_role vw = Some Owner"
    and "mem_role m = Owner \<Longrightarrow> isSelf vw m \<and> 1 < ownerCount ms" "mem_role m \<noteq> Owner \<Longrightarrow> \<not> isSelf vw m"
    and "mem_role m = Owner \<Longrightarrow> vw_role vw = Some Owner"
  using assms by (auto simp: roleControl_def viewerListed_def split: if_splits)

lemma role_step_inv:
  assumes "viewerListed vw ms"
  shows "role_step vw ms st st' \<Longrightarrow> roleInv vw ms st \<Longrightarrow> roleInv vw ms st'"
proof (induction rule: role_step.induct)
  case (choose m options r s s' q lg)
  note offered = offered_roles [OF choose.hyps(2,3) assms choose.hyps(1)]
  show ?case
  proof (cases "r = Owner")
    case True
    with choose offered(2) show ?thesis
      by (auto simp: roleInv_def handleRoleChange_def logged_def Let_def)
  next
    case False
    have other: "mem_role m \<noteq> Owner" if "q \<noteq> None"
      using that False choose.hyps(4) offered(3) offered(5) by (auto simp: handleRoleChange_def isSelf_def split: if_splits)
    have "Suc 0 < ownerCount ms" if "Some (mem_user_id m) = vw_userId vw"
      using that offered(3,4) by (auto simp: isSelf_def)
    with False choose offered(1) other show ?thesis
      by (auto simp: roleInv_def handleRoleChange_def logged_def confirmedRequest_def Let_def
          split: if_splits intro!: bexI [of _ m])
  qed
next
  case (promote s lg)
  then show ?case
    by (auto simp: roleInv_def handleConfirmPromote_def logged_def confirmedRequest_def promoteEnabled_def canManage_def
        split: option.splits)
next
  case (step_down s lg)
  then show ?case
    by (auto simp: roleInv_def handleConfirmDemoteSelf_def logged_def confirmedRequest_def canManage_def split: option.splits)
qed (auto simp: roleInv_def promoteAnswered_def demoteAnswered_def split: option.splits)

definition role_start :: "viewer \<Rightarrow> workspace_member list \<Rightarrow> settings_view \<times> role_log \<Rightarrow> bool" where
  "role_start vw ms st \<longleftrightarrow> viewerListed vw ms \<and> (\<exists>tab. st = (new_settings tab, []))"

interpretation role_dialog: machine "\<lambda>st st'. viewerListed vw ms \<and> role_step vw ms st st'" "role_start vw ms" "roleInv vw ms"
  for vw ms
proof
  show "roleInv vw ms st" if "role_start vw ms st" for st
    using that by (auto simp: role_start_def roleInv_def new_settings_def)
  show "roleInv vw ms st'" if "viewerListed vw ms \<and> role_step vw ms st st'" "roleInv vw ms st" for st st'
    using that role_step_inv by blast
qed


definition settings_member :: "jsstring \<Rightarrow> workspace_role \<Rightarrow> workspace_member" where
  "settings_member u r = \<lparr>mem_id = u, mem_user_id = u, mem_workspace_id = js ''W'', mem_role = r,
     mem_display_name_override = None, mem_created_at = [], mem_updated_at = [], mem_email = [],
     mem_display_name = u, mem_avatar_url = None, mem_gravatar_url = None, mem_is_banned = None\<rparr>"


section \<open>Object URLs\<close>

text \<open>What a picker owes: it holds the URL of its preview and no other, and none when it is empty.\<close>

definition oneUrl :: "picker \<Rightarrow> bool" where
  "oneUrl p \<longleftrightarrow> pk_live p = set_option (pk_previewUrl p)"

locale tidy_picker =
  fixes select :: "jsstring \<Rightarrow> image_file \<Rightarrow> picker \<Rightarrow> picker" and clear :: "picker \<Rightarrow> picker"
  assumes select_one: "oneUrl p \<Longrightarrow> url \<notin> pk_live p \<Longrightarrow> oneUrl (select url file p) \<and> pk_previewUrl (select url file p) = Some url"
    and clear_one: "oneUrl p \<Longrightarrow> pk_live (clear p) = {} \<and> pk_previewUrl (clear p) = None"
begin

text \<open>Whatever is chosen one after the other, one URL is live; after clearing none.\<close>

fun choose_all :: "(jsstring \<times> image_file) list \<Rightarrow> picker \<Rightarrow> picker" where
  "choose_all [] p = p"
| "choose_all ((url, file) # rest) p = choose_all rest (select url file p)"

lemma all_one:
  assumes "oneUrl p" "distinct (map fst fs)" "pk_live p \<inter> set (map fst fs) = {}"
  shows "oneUrl (choose_all fs p)"
  using assms
proof (induction fs arbitrary: p)
  case (Cons f fs)
  obtain url img where f: "f = (url, img)" by (cases f)
  with Cons.prems have "oneUrl (select url img p)" "pk_previewUrl (select url img p) = Some url"
    using select_one [of p url img] by auto
  with Cons f show ?case by (auto simp: oneUrl_def)
qed simp

lemma cleared_all:
  "oneUrl p \<Longrightarrow> distinct (map fst fs) \<Longrightarrow> pk_live p \<inter> set (map fst fs) = {} \<Longrightarrow> pk_live (clear (choose_all fs p)) = {}"
  using clear_one [OF all_one] by blast

end

interpretation add_emoji: tidy_picker addEmojiSelect clearFile
  by unfold_locales (auto simp: oneUrl_def addEmojiSelect_def clearFile_def revoke_def Let_def)

interpretation settings_icon: tidy_picker settingsSelect settingsClear
  by unfold_locales (auto simp: oneUrl_def settingsSelect_def settingsClear_def previewEffect_def selectFile_def clearFile_def revoke_def)

text \<open>in the dialog that adds an emoji and in the settings, the URLs of the images chosen one after the other are
  all revoked; the emoji manager and the profile form never revoke
  those of the images that were replaced.\<close>

theorem image_urls_released:
  assumes "distinct (map fst fs)"
  shows "pk_live (clearFile (fold (\<lambda>(url, file). addEmojiSelect url file) fs new_picker)) = {}"
    and "pk_live (settingsClear (fold (\<lambda>(url, file). settingsSelect url file) fs new_picker)) = {}"
    and "fs \<noteq> [] \<Longrightarrow> pk_live (clearFile (fold (\<lambda>(url, file). selectFile url file) fs new_picker)) = set (map fst (butlast fs))"
proof -
  have new: "oneUrl new_picker" "pk_live new_picker \<inter> set (map fst fs) = {}"
    by (simp_all add: oneUrl_def new_picker_def)
  have "add_emoji.choose_all fs p = fold (\<lambda>(url, file). addEmojiSelect url file) fs p" for p
    by (induction fs arbitrary: p) auto
  then show "pk_live (clearFile (fold (\<lambda>(url, file). addEmojiSelect url file) fs new_picker)) = {}"
    using add_emoji.cleared_all [OF new(1) assms new(2)] by simp
  have "settings_icon.choose_all fs p = fold (\<lambda>(url, file). settingsSelect url file) fs p" for p
    by (induction fs arbitrary: p) auto
  then show "pk_live (settingsClear (fold (\<lambda>(url, file). settingsSelect url file) fs new_picker)) = {}"
    using settings_icon.cleared_all [OF new(1) assms new(2)] by simp
  have kept: "pk_live (fold (\<lambda>(url, file). selectFile url file) fs p) = pk_live p \<union> set (map fst fs)"
    "fs \<noteq> [] \<Longrightarrow> pk_previewUrl (fold (\<lambda>(url, file). selectFile url file) fs p) = Some (fst (last fs))" for p
    by (induction fs arbitrary: p) (auto simp: selectFile_def)
  show "pk_live (clearFile (fold (\<lambda>(url, file). selectFile url file) fs new_picker)) = set (map fst (butlast fs))"
    if "fs \<noteq> []"
  proof -
    have split: "fs = butlast fs @ [last fs]" using that by simp
    then have "distinct (map fst (butlast fs) @ [fst (last fs)])"
      using assms by (metis list.simps(8) list.simps(9) map_append)
    then have "set (map fst fs) - {fst (last fs)} = set (map fst (butlast fs))"
      using arg_cong [OF split, of "\<lambda>l. set (map fst l)"] by auto
    then show ?thesis using kept [of new_picker] that
      by (simp add: clearFile_def revoke_def new_picker_def)
  qed
qed

lemma image_urls_released_witness:
  "pk_live (clearFile (fold (\<lambda>(url, file). selectFile url file) [(js ''u1'', (js ''a'', js ''image/png'', 1)),
     (js ''u2'', (js ''b'', js ''image/png'', 2))] new_picker)) = {js ''u1''}"
  using image_urls_released(3) [of "[(js ''u1'', (js ''a'', js ''image/png'', 1)), (js ''u2'', (js ''b'', js ''image/png'', 2))]"]
  by simp

text \<open>An image chosen while the removal of the avatar is on its way is dropped by the answer, its URL never revoked.\<close>

lemma removed_avatar_leaks:
  "pk_previewUrl p = Some u \<Longrightarrow> oneUrl p \<Longrightarrow> \<not> oneUrl (fst (removeAvatarAnswered None p))"
  by (simp add: oneUrl_def removeAvatarAnswered_def)

lemma saved_icon_released:
  "oneUrl p \<Longrightarrow> pk_selectedFile p \<noteq> None \<Longrightarrow> pk_live (fst (uploadIconAnswered None p)) = {}"
  using settings_icon.clear_one [of p] by (auto simp: uploadIconAnswered_def)

section \<open>Emoji names\<close>

lemma name_shortcode_char:
  "emojiNameChar c \<or> c = ch CHR ''_'' \<or> c = ch CHR ''-'' \<Longrightarrow> shortcode_char c"
  by (auto simp: emojiNameChar_def shortcode_char_def)

lemma name_regex_chars: "NAME_REGEX s \<Longrightarrow> s \<noteq> [] \<and> length s \<le> 63 \<and> list_all shortcode_char s"
  using name_shortcode_char by (auto simp: NAME_REGEX_def list_all_iff split: list.splits)

text \<open>C1: a name the upload form accepts, written between colons, is read by the message parser as the shortcode
  of the uploaded emoji, and neither a standard emoji nor another custom emoji has it. (\<open>lower\<close> keeps the
  characters of shortcodes, as \<open>toLowerCase\<close> does.)\<close>

theorem uploaded_emoji_readable:
  assumes "emojiUpload lower known selectedFile name = Some (file, n)"
    and "\<And>s. s \<noteq> [] \<Longrightarrow> list_all shortcode_char s \<Longrightarrow> lower s \<noteq> [] \<and> list_all shortcode_char (lower s)"
  shows "parseInline (js '':'' @ n @ js '':'') = [EmojiShortcode n]"
    and "resolveStandardShortcode EMOJI_CATEGORIES n = NoValue"
    and "\<forall>e \<in> set (or_empty known). em_name e \<noteq> n" "length name \<le> 63"
proof -
  from assms(1) have ok: "name \<noteq> []" "nameError lower known name = None" "n = lower name"
    by (auto simp: emojiUpload_def split: option.splits if_splits)
  then have regex: "NAME_REGEX name" and standard: "resolveStandardShortcode EMOJI_CATEGORIES n = NoValue"
    and free: "\<forall>e \<in> set (or_empty known). em_name e \<noteq> n"
    by (auto simp: nameError_def Let_def list_ex_iff split: if_splits)
  show "resolveStandardShortcode EMOJI_CATEGORIES n = NoValue" "\<forall>e \<in> set (or_empty known). em_name e \<noteq> n"
    using standard free by simp_all
  show "length name \<le> 63" using name_regex_chars [OF regex] by simp
  have "readable (EmojiShortcode n)"
    using assms(2) name_regex_chars [OF regex] ok(3) by (auto simp: list_all_iff)
  then have "parseInline (concat (map render [EmojiShortcode n])) = [EmojiShortcode n]"
    by (intro inline_roundtrip) auto
  then show "parseInline (js '':'' @ n @ js '':'') = [EmojiShortcode n]" by simp
qed

text \<open>A refused upload is reported twice by the manager - by the mutation and by its caller - and once by the dialog.\<close>

lemma upload_error_reported:
  "length (managerUploadAnswered n (Some err)) = 2" "length (managerDeleteAnswered n (Some err)) = 2"
  "length (addEmojiAnswered n (Some err)) = 1"
  by (simp_all add: managerUploadAnswered_def managerDeleteAnswered_def addEmojiAnswered_def
    useUploadCustomEmoji_onError_def useDeleteCustomEmoji_onError_def)

section \<open>Further facts\<close>

text \<open>The link of an invite is the address of the route that accepts it.\<close>

lemma invite_link_route:
  "sv_inviteLink (fst (inviteAnswered origin (Inr code) s)) =
     map_option (\<lambda>path. origin @ path) (routePath (InviteRoute code))"
  by (simp add: inviteAnswered_def)

lemma never_expires: "sv_expiresIn s = [] \<Longrightarrow> iv_expires_in_hours (inviteRequest s) = None"
  by (simp add: inviteRequest_def parseDigits_def)

lemma ban_needs_user: "handleBan f = Inr i \<Longrightarrow> bi_user_id i = bf_selectedUserId f \<and> bi_user_id i \<noteq> []"
  by (auto simp: handleBan_def split: if_splits)

lemma owners_not_bannable: "m \<in> set (bannableMembers ms) \<Longrightarrow> mem_role m \<noteq> Owner"
  by (auto simp: bannableMembers_def)

lemma managers_not_blockable:
  "BlockMember \<in> set (memberActions vw blocked m) \<Longrightarrow> mem_role m \<noteq> Owner \<and> mem_role m \<noteq> Admin \<and> \<not> isSelf vw m"
  "blockButton own loaded blocked' (Some m) = BlockButton \<Longrightarrow> mem_role m \<noteq> Owner \<and> mem_role m \<noteq> Admin \<and> \<not> own"
  by (auto simp: memberActions_def blockButton_def Let_def split: if_splits)

text \<open>When the avatar was uploaded and the name refused, the profile is half changed and reported as failed.\<close>

lemma profile_half_saved:
  "trim name \<noteq> [] \<Longrightarrow> profileSubmit name (Some f) None (Some err) =
     ([UploadAvatarCall f, UpdateProfileCall (trim name)], [Toast (js ''Failed to update profile'') False])"
  by (simp add: profileSubmit_def Let_def)

lemma name_update_trimmed:
  "handleUpdateName current s = (s', Some n) \<Longrightarrow> n = trim (sv_editName s) \<and> n \<noteq> [] \<and> Some n \<noteq> current"
  by (auto simp: handleUpdateName_def Let_def split: if_splits)

end
