(* ===== verification/SuggestionView.thy ===== *)
theory SuggestionView
  imports Mentions Machines
begin

text \<open>
  The suggestions of the web editor: the lists with their keyboard (\<open>MentionSuggestionList.tsx\<close>,
  \<open>EmojiSuggestionList.tsx\<close>, \<open>ChannelSuggestionList.tsx\<close>), the popups that hold them
  (\<open>createMentionSuggestion.tsx\<close>, \<open>createEmojiSuggestion.tsx\<close>, \<open>createChannelSuggestion.tsx\<close>), what is
  offered (\<open>RichTextEditor.tsx\<close>), and the emoji picker (\<open>components/ui/EmojiGrid.tsx\<close>).
\<close>

section \<open>Lists\<close>

text \<open>The items and \<open>selectedIndex\<close>, which can be -1.\<close>

record 'a suggestion_list =
  sl_items :: "'a list"
  sl_selectedIndex :: int

definition new_list :: "'a list \<Rightarrow> 'a suggestion_list" where
  "new_list items = \<lparr>sl_items = items, sl_selectedIndex = 0\<rparr>"

text \<open>\<open>items[index]\<close>\<close>

definition itemAt :: "'a list \<Rightarrow> int \<Rightarrow> 'a option" where
  "itemAt items i = (if 0 \<le> i \<and> i < int (length items) then Some (items ! nat i) else None)"

definition safeSelectedIndex :: "'a suggestion_list \<Rightarrow> int" where
  "safeSelectedIndex l = min (sl_selectedIndex l) (max 0 (int (length (sl_items l)) - 1))"

definition upHandler :: "'a suggestion_list \<Rightarrow> 'a suggestion_list" where
  "upHandler l =
     l\<lparr>sl_selectedIndex := (if sl_selectedIndex l > 0 then sl_selectedIndex l - 1 else int (length (sl_items l)) - 1)\<rparr>"

definition downHandler :: "'a suggestion_list \<Rightarrow> 'a suggestion_list" where
  "downHandler l =
     l\<lparr>sl_selectedIndex := (if sl_selectedIndex l < int (length (sl_items l)) - 1 then sl_selectedIndex l + 1 else 0)\<rparr>"

definition selectItem :: "'a suggestion_list \<Rightarrow> int \<Rightarrow> 'a option" where
  "selectItem l i = itemAt (sl_items l) i"

definition enterHandler :: "'a suggestion_list \<Rightarrow> 'a option" where
  "enterHandler l = selectItem l (safeSelectedIndex l)"

text \<open>The list, the item commanded and whether the key is taken.\<close>

definition listKeyDown :: "jsstring \<Rightarrow> 'a suggestion_list \<Rightarrow> 'a suggestion_list \<times> 'a option \<times> bool" where
  "listKeyDown key l =
     (if key = js ''ArrowUp'' then (upHandler l, None, True)
      else if key = js ''ArrowDown'' then (downHandler l, None, True)
      else if key = js ''Enter'' \<or> key = js ''Tab'' then (l, enterHandler l, True)
      else (l, None, False))"

definition hoverSuggestion :: "nat \<Rightarrow> 'a suggestion_list \<Rightarrow> 'a suggestion_list" where
  "hoverSuggestion i l = l\<lparr>sl_selectedIndex := int i\<rparr>"

text \<open>Rendering the list again with other items keeps its state.\<close>

definition updateItems :: "'a list \<Rightarrow> 'a suggestion_list \<Rightarrow> 'a suggestion_list" where
  "updateItems items l = l\<lparr>sl_items := items\<rparr>"

text \<open>The scrolling of the container so that the selected item is in view.\<close>

definition scrollToSelected :: "int \<Rightarrow> int \<Rightarrow> int \<Rightarrow> int \<Rightarrow> int" where
  "scrollToSelected scrollTop clientHeight offsetTop offsetHeight =
     (let containerBottom = scrollTop + clientHeight; selectedBottom = offsetTop + offsetHeight
      in if offsetTop < scrollTop then offsetTop
         else if selectedBottom > containerBottom then selectedBottom - clientHeight
         else scrollTop)"

section \<open>What is offered\<close>

record channel_option =
  co_id :: jsstring
  co_name :: jsstring
  co_type :: channel_type

record emoji_option =
  eo_shortcode :: jsstring
  eo_emoji :: jsstring
  eo_isCustom :: bool
  eo_imageUrl :: "jsstring option"

definition byStart :: "(jsstring \<Rightarrow> jsstring) \<Rightarrow> (jsstring \<Rightarrow> jsstring \<Rightarrow> int) \<Rightarrow> jsstring \<Rightarrow> jsstring \<Rightarrow> jsstring \<Rightarrow> int" where
  "byStart lower compare lowerQuery a b =
     (let aStartsWith = startsWith (lower a) lowerQuery; bStartsWith = startsWith (lower b) lowerQuery
      in if aStartsWith \<and> \<not> bStartsWith then - 1 else if \<not> aStartsWith \<and> bStartsWith then 1 else compare a b)"

definition mentionItems ::
    "(jsstring \<Rightarrow> jsstring) \<Rightarrow> (jsstring \<Rightarrow> jsstring \<Rightarrow> int) \<Rightarrow> workspace_member list \<Rightarrow> jsstring \<Rightarrow> mention_option list" where
  "mentionItems lower compare members query =
     (let allOptions = map (\<lambda>m. \<lparr>mo_type = UserOption, mo_id = mem_user_id m, mo_displayName = mem_display_name m,
            mo_avatarUrl = mem_avatar_url m, mo_gravatarUrl = mem_gravatar_url m\<rparr>) members @ SPECIAL_MENTIONS;
          lowerQuery = lower query
      in js_sort (\<lambda>a b.
           if mo_type a = SpecialOption \<and> mo_type b \<noteq> SpecialOption then 1
           else if mo_type a \<noteq> SpecialOption \<and> mo_type b = SpecialOption then - 1
           else byStart lower compare lowerQuery (mo_displayName a) (mo_displayName b))
         (filter (\<lambda>o'. strIncludes (lower (mo_displayName o')) lowerQuery) allOptions))"

definition channelItems ::
    "(jsstring \<Rightarrow> jsstring) \<Rightarrow> (jsstring \<Rightarrow> jsstring \<Rightarrow> int) \<Rightarrow> channel_with_membership list \<Rightarrow> jsstring \<Rightarrow> channel_option list" where
  "channelItems lower compare chans query =
     (let options = map (\<lambda>c. \<lparr>co_id = ch_id c, co_name = ch_name c, co_type = ch_type c\<rparr>)
            (filter (\<lambda>c. ch_type c \<noteq> DmChannel \<and> ch_type c \<noteq> GroupDmChannel) chans);
          lowerQuery = lower query
      in js_sort (\<lambda>a b. byStart lower compare lowerQuery (co_name a) (co_name b))
         (filter (\<lambda>c. strIncludes (lower (co_name c)) lowerQuery) options))"

definition emojiItems ::
    "(jsstring \<Rightarrow> jsstring) \<Rightarrow> (jsstring \<Rightarrow> jsstring \<Rightarrow> int) \<Rightarrow> emoji_category list \<Rightarrow> (jsstring \<times> jsstring) list \<Rightarrow>
     jsstring \<Rightarrow> emoji_option list" where
  "emojiItems lower compare categories customItems query =
     map (\<lambda>r. \<lparr>eo_shortcode = sr_shortcode r, eo_emoji = or_else (sr_emoji r) [], eo_isCustom = sr_isCustom r,
        eo_imageUrl = sr_imageUrl r\<rparr>) (searchAllEmojis lower compare categories query 10 customItems)"

section \<open>Popups\<close>

text \<open>
  The closure of \<open>render\<close>: the popup element, the React root and the handle of its list, with the elements
  attached to the document, the roots that are mounted (each with its element and the state of its list)
  and the items captured by the imports of \<open>react-dom/client\<close> that have not been answered.
  \<open>sp_open\<close> is what \<open>onOpenChange\<close> was told last.
\<close>

record 'a suggestion_popup =
  sp_open :: bool
  sp_popup :: "nat option"
  sp_component :: "nat option"
  sp_ref :: "nat option"
  sp_elements :: "nat list"
  sp_roots :: "(nat \<times> nat \<times> 'a suggestion_list) list"
  sp_imports :: "'a list list"
  sp_next :: nat

definition new_popup :: "'a suggestion_popup" where
  "new_popup = \<lparr>sp_open = False, sp_popup = None, sp_component = None, sp_ref = None, sp_elements = [],
     sp_roots = [], sp_imports = [], sp_next = 0\<rparr>"

definition popupStart :: "'a list \<Rightarrow> 'a suggestion_popup \<Rightarrow> 'a suggestion_popup" where
  "popupStart items p =
     p\<lparr>sp_open := True, sp_popup := Some (sp_next p), sp_elements := sp_elements p @ [sp_next p],
       sp_imports := sp_imports p @ [items], sp_next := sp_next p + 1\<rparr>"

definition popupLoaded :: "'a suggestion_popup \<Rightarrow> 'a suggestion_popup" where
  "popupLoaded p =
     (case sp_imports p of [] \<Rightarrow> p
      | items # rest \<Rightarrow>
          let p1 = p\<lparr>sp_imports := rest\<rparr>
          in case sp_popup p1 of None \<Rightarrow> p1
             | Some e \<Rightarrow> p1\<lparr>sp_component := Some (sp_next p1), sp_ref := Some (sp_next p1),
                 sp_roots := sp_roots p1 @ [(sp_next p1, e, new_list items)], sp_next := sp_next p1 + 1\<rparr>)"

definition popupUpdate :: "'a list \<Rightarrow> 'a suggestion_popup \<Rightarrow> 'a suggestion_popup" where
  "popupUpdate items p =
     (if sp_popup p = None then p
      else case sp_component p of None \<Rightarrow> p
        | Some r \<Rightarrow> p\<lparr>sp_roots := map (\<lambda>(r', e, l). (r', e, if r' = r then updateItems items l else l)) (sp_roots p),
                      sp_ref := Some r\<rparr>)"

text \<open>\<open>popup?.remove(); component?.unmount()\<close>\<close>

definition dismissPopup :: "'a suggestion_popup \<Rightarrow> 'a suggestion_popup" where
  "dismissPopup p =
     p\<lparr>sp_elements := filter (\<lambda>e. sp_popup p \<noteq> Some e) (sp_elements p), sp_popup := None,
       sp_roots := filter (\<lambda>(r, _). sp_component p \<noteq> Some r) (sp_roots p),
       sp_ref := (if sp_component p = None then sp_ref p else None), sp_component := None\<rparr>"

definition popupKeyDown :: "jsstring \<Rightarrow> 'a suggestion_popup \<Rightarrow> 'a suggestion_popup \<times> 'a option \<times> bool" where
  "popupKeyDown key p =
     (if key = js ''Escape'' then (dismissPopup p, None, True)
      else case Option.bind (sp_ref p) (map_of (sp_roots p)) of
             None \<Rightarrow> (p, None, False)
           | Some (e, l) \<Rightarrow>
               let (l', command, handled) = listKeyDown key l
               in (p\<lparr>sp_roots := map (\<lambda>(r, e, l''). (r, e, if Some r = sp_ref p then l' else l'')) (sp_roots p)\<rparr>,
                   command, handled))"

definition popupExit :: "'a suggestion_popup \<Rightarrow> 'a suggestion_popup" where
  "popupExit p = (dismissPopup p)\<lparr>sp_open := False, sp_ref := None\<rparr>"

text \<open>The calls of a popup; the popups and lists of the three kinds of suggestions are the same code.\<close>

datatype 'a popup_call = StartCall "'a list" | LoadedCall | UpdateCall "'a list" | KeyCall jsstring | ExitCall

fun popupCall :: "'a popup_call \<Rightarrow> 'a suggestion_popup \<Rightarrow> 'a suggestion_popup \<times> 'a option \<times> bool" where
  "popupCall (StartCall items) p = (popupStart items p, None, False)"
| "popupCall LoadedCall p = (popupLoaded p, None, False)"
| "popupCall (UpdateCall items) p = (popupUpdate items p, None, False)"
| "popupCall (KeyCall k) p = popupKeyDown k p"
| "popupCall ExitCall p = (popupExit p, None, False)"

definition emojiPopupCall ::
    "emoji_option popup_call \<Rightarrow> emoji_option suggestion_popup \<Rightarrow> emoji_option suggestion_popup \<times> emoji_option option \<times> bool" where
  "emojiPopupCall = popupCall"

definition channelPopupCall ::
    "channel_option popup_call \<Rightarrow> channel_option suggestion_popup \<Rightarrow> channel_option suggestion_popup \<times> channel_option option \<times> bool" where
  "channelPopupCall = popupCall"

definition emojiListKeyDown ::
    "jsstring \<Rightarrow> emoji_option suggestion_list \<Rightarrow> emoji_option suggestion_list \<times> emoji_option option \<times> bool" where
  "emojiListKeyDown = listKeyDown"

definition channelListKeyDown ::
    "jsstring \<Rightarrow> channel_option suggestion_list \<Rightarrow> channel_option suggestion_list \<times> channel_option option \<times> bool" where
  "channelListKeyDown = listKeyDown"

text \<open>Where the popup is put: above the cursor, inside the window, below it when there is no room.\<close>

record rect =
  rc_left :: int
  rc_right :: int
  rc_top :: int
  rc_bottom :: int
  rc_width :: int

record popup_style =
  ps_left :: int
  ps_top :: "int option"
  ps_bottom :: "int option"

definition initialPosition :: "int \<Rightarrow> rect \<Rightarrow> popup_style" where
  "initialPosition innerHeight cursor =
     \<lparr>ps_left = rc_left cursor, ps_top = None, ps_bottom = Some (innerHeight - rc_top cursor + 4)\<rparr>"

definition clampPosition :: "int \<Rightarrow> rect \<Rightarrow> rect option \<Rightarrow> popup_style \<Rightarrow> popup_style" where
  "clampPosition innerWidth popupRect cursor st =
     (let st1 = (if rc_right popupRect > innerWidth - 8 then st\<lparr>ps_left := innerWidth - rc_width popupRect - 8\<rparr> else st);
          st2 = (if rc_left popupRect < 8 then st1\<lparr>ps_left := 8\<rparr> else st1)
      in if rc_top popupRect < 8
         then (case cursor of Some c \<Rightarrow> st2\<lparr>ps_bottom := None, ps_top := Some (rc_bottom c + 4)\<rparr> | None \<Rightarrow> st2)
         else st2)"

section \<open>The emoji picker\<close>

record emoji_select_attrs =
  ea_shortcode :: jsstring
  ea_unicode :: "jsstring option"
  ea_imageUrl :: "jsstring option"

record emoji_grid =
  eg_search :: jsstring
  eg_activeCategory :: jsstring
  eg_activeSearchIndex :: int
  eg_skinTone :: jsstring
  eg_showSkinTonePicker :: bool
  eg_sections :: "jsstring list"

text \<open>The stored value of \<open>enzyme:skin-tone\<close>.\<close>

definition getSavedSkinTone :: "jsstring option \<Rightarrow> jsstring" where
  "getSavedSkinTone stored = or_else stored []"

definition saveSkinTone :: "jsstring \<Rightarrow> jsstring option" where
  "saveSkinTone tone = (if tone \<noteq> [] then Some tone else None)"

text \<open>
  \<open>eg_sections\<close> are the keys of \<open>sectionRefs.current\<close> in the order of their insertion, which is that of
  \<open>Object.entries\<close>; a section that is rendered again keeps its place.
\<close>

definition mountSections :: "jsstring list \<Rightarrow> emoji_grid \<Rightarrow> emoji_grid" where
  "mountSections rendered g = g\<lparr>eg_sections := eg_sections g @ filter (\<lambda>i. i \<notin> set (eg_sections g)) rendered\<rparr>"

definition renderedSections :: "bool \<Rightarrow> jsstring list \<Rightarrow> jsstring list" where
  "renderedSections hasCustom categoryIds =
     [js ''frequent''] @ (if hasCustom then [js ''custom''] else []) @ categoryIds"

definition new_grid :: "jsstring option \<Rightarrow> bool \<Rightarrow> jsstring list \<Rightarrow> emoji_grid" where
  "new_grid stored hasCustom categoryIds = mountSections (renderedSections hasCustom categoryIds)
     \<lparr>eg_search = [], eg_activeCategory = js ''frequent'', eg_activeSearchIndex = -1,
      eg_skinTone = getSavedSkinTone stored, eg_showSkinTonePicker = False, eg_sections = []\<rparr>"

definition handleSearchChange :: "jsstring \<Rightarrow> emoji_grid \<Rightarrow> emoji_grid" where
  "handleSearchChange value g = g\<lparr>eg_search := value, eg_activeSearchIndex := -1\<rparr>"

definition scrollToSection :: "jsstring \<Rightarrow> emoji_grid \<Rightarrow> emoji_grid" where
  "scrollToSection sectionId g = g\<lparr>eg_activeCategory := sectionId\<rparr>"

text \<open>\<open>offset\<close> is \<open>el.offsetTop - container.offsetTop\<close> of a mounted section.\<close>

definition gridHandleScroll :: "(jsstring \<rightharpoonup> int) \<Rightarrow> int \<Rightarrow> emoji_grid \<Rightarrow> emoji_grid" where
  "gridHandleScroll offset scrollTop g =
     (if eg_search g \<noteq> [] then g
      else g\<lparr>eg_activeCategory := foldl (\<lambda>current i.
             case offset i of Some d \<Rightarrow> if d \<le> scrollTop + 8 then i else current | None \<Rightarrow> current)
           (js ''frequent'') (eg_sections g)\<rparr>)"

definition withSkinTone :: "emoji_category list \<Rightarrow> emoji_grid \<Rightarrow> jsstring \<Rightarrow> jsstring" where
  "withSkinTone categories g emoji =
     (if emoji \<in> SKIN_TONE_EMOJIS categories then applySkinTone emoji (eg_skinTone g) else emoji)"

definition handleSkinToneChange :: "jsstring \<Rightarrow> emoji_grid \<Rightarrow> emoji_grid \<times> jsstring option" where
  "handleSkinToneChange tone g = (g\<lparr>eg_skinTone := tone, eg_showSkinTonePicker := False\<rparr>, saveSkinTone tone)"

definition gridMouseDown :: "bool \<Rightarrow> emoji_grid \<Rightarrow> emoji_grid" where
  "gridMouseDown insidePicker g =
     (if eg_showSkinTonePicker g \<and> \<not> insidePicker then g\<lparr>eg_showSkinTonePicker := False\<rparr> else g)"

definition colons :: "jsstring \<Rightarrow> jsstring" where
  "colons n = js '':'' @ n @ js '':''"

definition resultSelected :: "search_result \<Rightarrow> jsstring \<times> emoji_select_attrs" where
  "resultSelected r = (colons (sr_shortcode r),
     \<lparr>ea_shortcode = sr_shortcode r, ea_unicode = sr_emoji r, ea_imageUrl = sr_imageUrl r\<rparr>)"

definition handleSearchKeyDown ::
    "search_result list \<Rightarrow> jsstring \<Rightarrow> emoji_grid \<Rightarrow> emoji_grid \<times> (jsstring \<times> emoji_select_attrs) option" where
  "handleSearchKeyDown results key g =
     (if eg_search g = [] then (g, None)
      else if key = js ''ArrowDown''
        then (g\<lparr>eg_activeSearchIndex := min (eg_activeSearchIndex g + 1) (int (length results) - 1)\<rparr>, None)
      else if key = js ''ArrowUp'' then (g\<lparr>eg_activeSearchIndex := max (eg_activeSearchIndex g - 1) (- 1)\<rparr>, None)
      else if key = js ''Enter''
        then (g, map_option resultSelected
               (if 0 \<le> eg_activeSearchIndex g \<and> eg_activeSearchIndex g < int (length results)
                then itemAt results (eg_activeSearchIndex g) else itemAt results 0))
      else (g, None))"

definition frequentSelected :: "emoji_category list \<Rightarrow> emoji_grid \<Rightarrow> jsstring \<Rightarrow> jsstring \<times> emoji_select_attrs" where
  "frequentSelected categories g emoji =
     (let displayed = withSkinTone categories g emoji;
          name = or_else (Option.bind (map_of (EMOJI_NAME categories) emoji) (\<lambda>n. n)) emoji
      in (colons name, \<lparr>ea_shortcode = name, ea_unicode = Some displayed, ea_imageUrl = None\<rparr>))"

definition customSelected :: "jsstring \<times> jsstring \<Rightarrow> jsstring \<times> emoji_select_attrs" where
  "customSelected ce = (colons (fst ce), \<lparr>ea_shortcode = fst ce, ea_unicode = None, ea_imageUrl = Some (snd ce)\<rparr>)"

definition entrySelected :: "emoji_category list \<Rightarrow> emoji_grid \<Rightarrow> emoji_entry \<Rightarrow> jsstring \<times> emoji_select_attrs" where
  "entrySelected categories g entry =
     (colons (primaryAlias entry), \<lparr>ea_shortcode = primaryAlias entry,
        ea_unicode = Some (withSkinTone categories g (ee_emoji entry)), ea_imageUrl = None\<rparr>)"

section \<open>Keys in a list\<close>

text \<open>while an item has been selected, Enter commands the item that is highlighted; the arrows go round the
  list as long as the selection fits it. When the list has become shorter than the selection, the up
  arrow changes nothing; and after the up arrow in an empty list, nothing is highlighted in the next items and
  Enter is taken without effect.\<close>

theorem suggestion_keys:
  assumes "0 \<le> sl_selectedIndex l" "sl_items l \<noteq> []"
  shows "listKeyDown (js ''Enter'') l = (l, Some (sl_items l ! nat (safeSelectedIndex l)), True) \<and>
    (sl_selectedIndex l < int (length (sl_items l)) \<longrightarrow>
       safeSelectedIndex (downHandler l) = (safeSelectedIndex l + 1) mod int (length (sl_items l)) \<and>
       safeSelectedIndex (upHandler l) = (safeSelectedIndex l - 1) mod int (length (sl_items l))) \<and>
    (int (length (sl_items l)) \<le> sl_selectedIndex l \<longrightarrow> safeSelectedIndex (upHandler l) = safeSelectedIndex l) \<and>
    listKeyDown (js ''Enter'') (updateItems items (upHandler (new_list []))) =
      (updateItems items (upHandler (new_list [])), None, True)"
proof (intro conjI impI)
  let ?n = "int (length (sl_items l))"
  have n: "0 < ?n" using assms(2) by simp
  have safe: "0 \<le> safeSelectedIndex l" "safeSelectedIndex l < ?n"
    using assms(1) n by (auto simp: safeSelectedIndex_def)
  then show "listKeyDown (js ''Enter'') l = (l, Some (sl_items l ! nat (safeSelectedIndex l)), True)"
    by (simp add: listKeyDown_def enterHandler_def selectItem_def itemAt_def)
  show "listKeyDown (js ''Enter'') (updateItems items (upHandler (new_list []))) =
      (updateItems items (upHandler (new_list [])), None, True)"
    by (simp add: listKeyDown_def enterHandler_def selectItem_def itemAt_def safeSelectedIndex_def updateItems_def
        upHandler_def new_list_def)
  show "safeSelectedIndex (upHandler l) = safeSelectedIndex l" if "?n \<le> sl_selectedIndex l"
    using that n by (auto simp: safeSelectedIndex_def upHandler_def)
  assume fits: "sl_selectedIndex l < ?n"
  then have sel: "safeSelectedIndex l = sl_selectedIndex l" using n by (auto simp: safeSelectedIndex_def)
  show "safeSelectedIndex (downHandler l) = (safeSelectedIndex l + 1) mod ?n"
  proof (cases "sl_selectedIndex l = ?n - 1")
    case True
    then have "(sl_selectedIndex l + 1) mod ?n = 0" by simp
    with True sel n show ?thesis by (auto simp: safeSelectedIndex_def downHandler_def)
  next
    case False
    then have "(sl_selectedIndex l + 1) mod ?n = sl_selectedIndex l + 1"
      using fits assms(1) by (intro mod_pos_pos_trivial) auto
    with False sel fits show ?thesis by (auto simp: safeSelectedIndex_def downHandler_def)
  qed
  show "safeSelectedIndex (upHandler l) = (safeSelectedIndex l - 1) mod ?n"
  proof (cases "sl_selectedIndex l = 0")
    case True
    then have "(sl_selectedIndex l - 1) mod ?n = ?n - 1" using n by (simp add: zmod_minus1)
    with True sel n show ?thesis by (auto simp: safeSelectedIndex_def upHandler_def)
  next
    case False
    then have "(sl_selectedIndex l - 1) mod ?n = sl_selectedIndex l - 1"
      using fits assms(1) by (intro mod_pos_pos_trivial) auto
    with False sel fits assms(1) show ?thesis by (auto simp: safeSelectedIndex_def upHandler_def)
  qed
qed

lemma suggestion_keys_witness:
  "safeSelectedIndex (upHandler \<lparr>sl_items = [js ''a'', js ''b''], sl_selectedIndex = 9\<rparr>) = 1 \<and>
   safeSelectedIndex (downHandler \<lparr>sl_items = [js ''a'', js ''b''], sl_selectedIndex = 1\<rparr>) = 0"
proof -
  let ?l = "\<lambda>i. \<lparr>sl_items = [js ''a'', js ''b''], sl_selectedIndex = i\<rparr>"
  have "safeSelectedIndex (upHandler (?l 9)) = safeSelectedIndex (?l 9)"
    using suggestion_keys [of "?l 9" "[js c]"] by (simp del: js_Cons)
  moreover have "safeSelectedIndex (downHandler (?l 1)) = (safeSelectedIndex (?l 1) + 1) mod 2"
    using suggestion_keys [of "?l 1" "[js c]"] by (simp del: js_Cons)
  ultimately show ?thesis by (simp add: safeSelectedIndex_def)
qed

section \<open>Life of a popup\<close>

text \<open>
  What TipTap calls: \<open>onStart\<close> while nothing is suggested, then \<open>onUpdate\<close> and \<open>onKeyDown\<close>, then \<open>onExit\<close>. The first
  component of the state is the list of items given last. With \<open>late\<close>, the answer to an import may come
  after other calls.
\<close>

inductive popup_step ::
    "bool \<Rightarrow> 'a list \<times> 'a suggestion_popup \<Rightarrow> 'a list \<times> 'a suggestion_popup \<Rightarrow> bool" for late where
  start: "\<not> sp_open p \<Longrightarrow> late \<or> sp_imports p = [] \<Longrightarrow> popup_step late (given, p) (items, popupStart items p)"
| loaded: "popup_step late (given, p) (given, popupLoaded p)"
| update: "sp_open p \<Longrightarrow> late \<or> sp_imports p = [] \<Longrightarrow> popup_step late (given, p) (items, popupUpdate items p)"
| key: "sp_open p \<Longrightarrow> late \<or> sp_imports p = [] \<Longrightarrow> popup_step late (given, p) (given, fst (popupKeyDown k p))"
| exit: "sp_open p \<Longrightarrow> late \<or> sp_imports p = [] \<Longrightarrow> popup_step late (given, p) (given, popupExit p)"

inductive_cases popup_stepE: "popup_step late (given, p) (given', p')"

definition closedPopup :: "'a suggestion_popup \<Rightarrow> bool" where
  "closedPopup p \<longleftrightarrow> sp_popup p = None \<and> sp_component p = None \<and> sp_ref p = None \<and> sp_elements p = [] \<and> sp_roots p = []"

definition shownPopup :: "'a list \<Rightarrow> 'a suggestion_popup \<Rightarrow> bool" where
  "shownPopup given p \<longleftrightarrow>
     (\<exists>e r l. sp_popup p = Some e \<and> sp_component p = Some r \<and> sp_ref p = Some r \<and> sp_elements p = [e] \<and>
        sp_roots p = [(r, e, l)] \<and> sl_items l = given)"

definition loadingPopup :: "'a list \<Rightarrow> 'a suggestion_popup \<Rightarrow> bool" where
  "loadingPopup given p \<longleftrightarrow>
     (\<exists>e. sp_popup p = Some e \<and> sp_component p = None \<and> sp_ref p = None \<and> sp_elements p = [e] \<and> sp_roots p = []) \<and>
     sp_imports p = [given]"

fun popupInv :: "'a list \<times> 'a suggestion_popup \<Rightarrow> bool" where
  "popupInv (given, p) \<longleftrightarrow>
     (sp_imports p = [] \<and> (closedPopup p \<or> sp_open p \<and> shownPopup given p)) \<or> sp_open p \<and> loadingPopup given p"

lemmas popup_states = closedPopup_def shownPopup_def loadingPopup_def

lemma dismiss_closes: "closedPopup p \<or> shownPopup given p \<Longrightarrow> closedPopup (dismissPopup p)"
  by (auto simp: popup_states dismissPopup_def)

lemma dismiss_fields [simp]: "sp_imports (dismissPopup p) = sp_imports p" "sp_open (dismissPopup p) = sp_open p"
  by (simp_all add: dismissPopup_def)

lemma listKeyDown_items: "sl_items (fst (listKeyDown k l)) = sl_items l"
  by (simp add: listKeyDown_def upHandler_def downHandler_def)

lemma key_keeps:
  "closedPopup p \<or> shownPopup given p \<Longrightarrow>
     closedPopup (fst (popupKeyDown k p)) \<or> shownPopup given (fst (popupKeyDown k p))"
  "sp_imports (fst (popupKeyDown k p)) = sp_imports p" "sp_open (fst (popupKeyDown k p)) = sp_open p"
proof -
  show "sp_imports (fst (popupKeyDown k p)) = sp_imports p" "sp_open (fst (popupKeyDown k p)) = sp_open p"
    by (auto simp: popupKeyDown_def Let_def split: option.splits prod.splits)
  assume p: "closedPopup p \<or> shownPopup given p"
  show "closedPopup (fst (popupKeyDown k p)) \<or> shownPopup given (fst (popupKeyDown k p))"
  proof (cases "k = js ''Escape''")
    case True
    with dismiss_closes [OF p] show ?thesis by (simp add: popupKeyDown_def)
  next
    case False
    show ?thesis
    proof (cases "closedPopup p")
      case True
      with False show ?thesis by (simp add: popupKeyDown_def popup_states)
    next
      case open_popup: False
      with p obtain e r l where "sp_popup p = Some e" "sp_component p = Some r" "sp_ref p = Some r"
        "sp_elements p = [e]" "sp_roots p = [(r, e, l)]" "sl_items l = given" by (auto simp: shownPopup_def)
      with False listKeyDown_items [of k l] show ?thesis
        by (cases "listKeyDown k l") (auto simp: popupKeyDown_def shownPopup_def)
    qed
  qed
qed

lemma popup_step_inv: "popup_step False s t \<Longrightarrow> popupInv s \<Longrightarrow> popupInv t"
proof (induction rule: popup_step.induct)
  case (start p given items)
  then show ?case by (auto simp: popup_states popupStart_def)
next
  case (loaded given p)
  then show ?case by (auto simp: popup_states popupLoaded_def new_list_def)
next
  case (update p given items)
  then show ?case by (auto simp: popup_states popupUpdate_def updateItems_def)
next
  case (key p given k)
  then show ?case using key_keeps(1) [of p given k] key_keeps(2,3) [of k p] by (auto simp: loadingPopup_def)
next
  case (exit p given)
  then show ?case using dismiss_closes [of p given] by (auto simp: popupExit_def popup_states)
qed

interpretation popups: machine "popup_step False" "\<lambda>s. s = ([], new_popup)" popupInv
  by unfold_locales (auto simp: new_popup_def closedPopup_def intro: popup_step_inv)



text \<open>An import answered late shows the items of the start, and after another start two roots, one of which stays.\<close>

lemma late_import:
  "let p = popupLoaded (popupUpdate [b] (popupStart [a] new_popup)) in map (\<lambda>(r, e, l). sl_items l) (sp_roots p) = [[a]]"
  "let p = popupExit (popupLoaded (popupLoaded (popupStart [b] (popupExit (popupStart [a] new_popup)))))
   in map (\<lambda>(r, e, l). sl_items l) (sp_roots p) = [[a]] \<and> sp_elements p = []"
  by (simp_all add: new_popup_def popupStart_def popupUpdate_def popupLoaded_def popupExit_def dismissPopup_def
    new_list_def Let_def)

section \<open>What is offered\<close>

text \<open>Exactly the options whose name contains what was typed are offered, each once.\<close>

lemma mention_offered:
  "mset (mentionItems lower compare members query) =
     mset (filter (\<lambda>o'. strIncludes (lower (mo_displayName o')) (lower query))
       (map (\<lambda>m. \<lparr>mo_type = UserOption, mo_id = mem_user_id m, mo_displayName = mem_display_name m,
            mo_avatarUrl = mem_avatar_url m, mo_gravatarUrl = mem_gravatar_url m\<rparr>) members @ SPECIAL_MENTIONS))"
  by (simp add: mentionItems_def Let_def mset_js_sort)

lemma channel_offered:
  "c \<in> set (channelItems lower compare chans query) \<longleftrightarrow>
     (\<exists>ch \<in> set chans. ch_type ch \<noteq> DmChannel \<and> ch_type ch \<noteq> GroupDmChannel \<and>
        strIncludes (lower (ch_name ch)) (lower query) \<and>
        c = \<lparr>co_id = ch_id ch, co_name = ch_name ch, co_type = ch_type ch\<rparr>)"
  by (auto simp: channelItems_def Let_def set_js_sort)

lemma popup_inside:
  "0 \<le> rc_width q \<Longrightarrow> rc_right q = rc_left q + rc_width q \<Longrightarrow> ps_left st = rc_left q \<Longrightarrow> rc_width q + 16 \<le> w \<Longrightarrow>
     8 \<le> ps_left (clampPosition w q cursor st) \<and> ps_left (clampPosition w q cursor st) + rc_width q \<le> w - 8"
  by (auto simp: clampPosition_def Let_def split: option.split)

section \<open>The picker\<close>

lemma skin_tone_stored: "getSavedSkinTone (saveSkinTone tone) = tone"
  by (simp add: getSavedSkinTone_def saveSkinTone_def or_else_def)

text \<open>Enter in the search selects one of the results shown, if there is any.\<close>

lemma search_enter:
  "eg_search g \<noteq> [] \<Longrightarrow> results \<noteq> [] \<Longrightarrow>
     \<exists>r \<in> set results. snd (handleSearchKeyDown results (js ''Enter'') g) = Some (resultSelected r)"
  by (cases "0 \<le> eg_activeSearchIndex g \<and> eg_activeSearchIndex g < int (length results)")
    (auto simp: handleSearchKeyDown_def itemAt_def)

lemma search_index_bound:
  "- 1 \<le> eg_activeSearchIndex g \<Longrightarrow> - 1 \<le> eg_activeSearchIndex (fst (handleSearchKeyDown results key g))"
  by (auto simp: handleSearchKeyDown_def)

text \<open>The skin tone shows in the picker and in the editor; the text of the message does not depend on it.\<close>

lemma tone_not_sent:
  "fst (entrySelected categories g entry) = fst (entrySelected categories g' entry)"
  "fst (frequentSelected categories g emoji) = fst (frequentSelected categories g' emoji)"
  by (simp_all add: entrySelected_def frequentSelected_def Let_def)

lemma foldl_last:
  "foldl (\<lambda>current i. if P i then i else current) a xs = (if filter P xs = [] then a else last (filter P xs))"
  by (induction xs arbitrary: a) auto

lemma active_section:
  "eg_search g = [] \<Longrightarrow> eg_activeCategory (gridHandleScroll offset y g) =
     (let above = filter (\<lambda>i. case offset i of Some d \<Rightarrow> d \<le> y + 8 | None \<Rightarrow> False) (eg_sections g)
      in if above = [] then js ''frequent'' else last above)"
proof -
  have "(\<lambda>current i. case offset i of Some d \<Rightarrow> if d \<le> y + 8 then i else current | None \<Rightarrow> current) =
      (\<lambda>current i. if (case offset i of Some d \<Rightarrow> d \<le> y + 8 | None \<Rightarrow> False) then i else current)"
    by (auto simp: fun_eq_iff split: option.split)
  then show "eg_search g = [] \<Longrightarrow> ?thesis" by (simp add: gridHandleScroll_def foldl_last Let_def)
qed

text \<open>
  When the custom emojis arrive after the picker was opened, their section is the last key of \<open>sectionRefs\<close> although it
  is displayed second: once it has been reached, its tab is the active one wherever one scrolls to.
\<close>

lemma custom_tab_sticks:
  assumes "js ''custom'' \<notin> set ids" "distinct (js ''frequent'' # ids)"
    and "offset (js ''custom'') = Some d" "d \<le> y + 8"
  shows "eg_activeCategory (gridHandleScroll offset y (mountSections (renderedSections True ids) (new_grid stored False ids))) =
    js ''custom''"
proof -
  let ?g = "mountSections (renderedSections True ids) (new_grid stored False ids)"
  have "eg_sections ?g = (js ''frequent'' # ids) @ [js ''custom'']" "eg_search ?g = []"
    using assms(1,2) by (auto simp: mountSections_def renderedSections_def new_grid_def filter_empty_conv)
  then show ?thesis using assms(3,4) by (simp add: active_section Let_def)
qed

end
