(* ===== verification/EditorView.thy ===== *)
theory EditorView
  imports SuggestionView EditorSerialization
begin

text \<open>
  The web editor around its document: the nodes of mentions and emojis and their HTML
  (\<open>components/editor/extensions\<close>), the replacement of typed emojis by nodes, the keys of the editor, what the
  suggestions, the picker and the link dialog insert (\<open>RichTextEditor.tsx\<close>, \<open>LinkModal.tsx\<close>,
  \<open>LinkBubbleMenu.tsx\<close>, \<open>linkUtils.ts\<close>) and the buttons of \<open>Toolbar.tsx\<close>. Commands of TipTap are recorded, not carried out.
\<close>

section \<open>Nodes and their HTML\<close>

record html_element =
  he_tag :: string
  he_attrs :: "(string \<times> jsstring) list"
  he_text :: "jsstring option"

definition getAttribute :: "html_element \<Rightarrow> string \<Rightarrow> jsstring option" where
  "getAttribute el name = map_of (he_attrs el) name"

record mention_attrs =
  ma_id :: "jsstring option"
  ma_label :: "jsstring option"

text \<open>\<open>renderHTML\<close> of an attribute: nothing when it is empty.\<close>

definition attrHTML :: "string \<Rightarrow> jsstring option \<Rightarrow> (string \<times> jsstring) list" where
  "attrHTML name v = (if truthy v then [(name, the v)] else [])"

text \<open>\<open>${v}\<close> of an attribute.\<close>

definition showAttr :: "jsstring option \<Rightarrow> jsstring" where
  "showAttr v = (case v of Some s \<Rightarrow> s | None \<Rightarrow> js ''null'')"

definition userMentionHTML :: "mention_attrs \<Rightarrow> html_element" where
  "userMentionHTML a =
     \<lparr>he_tag = ''span'', he_attrs = [(''data-type'', js ''user-mention'')] @ attrHTML ''data-id'' (ma_id a) @
        attrHTML ''data-label'' (ma_label a) @ [(''class'', js ''mention user-mention'')],
      he_text = Some (js ''@'' @ showAttr (ma_label a))\<rparr>"

definition channelMentionHTML :: "mention_attrs \<Rightarrow> html_element" where
  "channelMentionHTML a =
     \<lparr>he_tag = ''span'', he_attrs = [(''data-type'', js ''channel-mention'')] @ attrHTML ''data-id'' (ma_id a) @
        attrHTML ''data-label'' (ma_label a) @ [(''class'', js ''mention channel-mention'')],
      he_text = Some (js ''#'' @ showAttr (ma_label a))\<rparr>"

definition specialMentionHTML :: "jsstring option \<Rightarrow> html_element" where
  "specialMentionHTML i =
     \<lparr>he_tag = ''span'', he_attrs = [(''data-type'', js ''special-mention'')] @ attrHTML ''data-id'' i @
        [(''class'', js ''mention special-mention'')], he_text = Some (js ''@'' @ showAttr i)\<rparr>"

record emoji_attrs =
  en_shortcode :: "jsstring option"
  en_unicode :: "jsstring option"
  en_imageUrl :: "jsstring option"

definition emojiAttrsHTML :: "emoji_attrs \<Rightarrow> (string \<times> jsstring) list" where
  "emojiAttrsHTML a = attrHTML ''data-shortcode'' (en_shortcode a) @ attrHTML ''data-unicode'' (en_unicode a) @
     attrHTML ''data-image-url'' (en_imageUrl a)"

definition emojiHTML :: "emoji_attrs \<Rightarrow> html_element" where
  "emojiHTML a =
     (let shown = js '':'' @ showAttr (en_shortcode a) @ js '':''
      in if truthy (en_imageUrl a)
         then \<lparr>he_tag = ''img'', he_attrs = [(''data-type'', js ''emoji''), (''src'', the (en_imageUrl a)), (''alt'', shown),
                 (''title'', shown), (''draggable'', js ''false'')] @ emojiAttrsHTML a @ [(''class'', js ''emoji-custom'')],
               he_text = None\<rparr>
         else \<lparr>he_tag = ''span'', he_attrs = [(''data-type'', js ''emoji'')] @ emojiAttrsHTML a @ [(''class'', js ''emoji-node'')],
               he_text = Some (if truthy (en_unicode a) then the (en_unicode a) else shown)\<rparr>)"

text \<open>The nodes an element is read as, by the selectors of the \<open>parseHTML\<close> rules.\<close>

datatype editor_node =
    UserMentionAt mention_attrs
  | SpecialMentionAt "jsstring option"
  | ChannelMentionAt mention_attrs
  | EmojiAt emoji_attrs

fun editorNodeHTML :: "editor_node \<Rightarrow> html_element" where
  "editorNodeHTML (UserMentionAt a) = userMentionHTML a"
| "editorNodeHTML (SpecialMentionAt i) = specialMentionHTML i"
| "editorNodeHTML (ChannelMentionAt a) = channelMentionHTML a"
| "editorNodeHTML (EmojiAt a) = emojiHTML a"

definition mentionFromHTML :: "html_element \<Rightarrow> mention_attrs" where
  "mentionFromHTML el = \<lparr>ma_id = getAttribute el ''data-id'', ma_label = getAttribute el ''data-label''\<rparr>"

definition emojiFromHTML :: "html_element \<Rightarrow> emoji_attrs" where
  "emojiFromHTML el =
     \<lparr>en_shortcode = getAttribute el ''data-shortcode'', en_unicode = getAttribute el ''data-unicode'',
      en_imageUrl = (if truthy (getAttribute el ''src'') then getAttribute el ''src'' else getAttribute el ''data-image-url'')\<rparr>"

definition fromHTML :: "html_element \<Rightarrow> editor_node option" where
  "fromHTML el =
     (let dataType = getAttribute el ''data-type''
      in if he_tag el = ''span'' \<and> dataType = Some (js ''user-mention'') then Some (UserMentionAt (mentionFromHTML el))
         else if he_tag el = ''span'' \<and> dataType = Some (js ''special-mention'')
           then Some (SpecialMentionAt (getAttribute el ''data-id''))
         else if he_tag el = ''span'' \<and> dataType = Some (js ''channel-mention'') then Some (ChannelMentionAt (mentionFromHTML el))
         else if (he_tag el = ''span'' \<or> he_tag el = ''img'') \<and> dataType = Some (js ''emoji'') then Some (EmojiAt (emojiFromHTML el))
         else None)"

text \<open>\<open>renderText\<close>\<close>

fun editorNodeText :: "editor_node \<Rightarrow> jsstring" where
  "editorNodeText (UserMentionAt a) = js ''@'' @ showAttr (ma_label a)"
| "editorNodeText (SpecialMentionAt i) = js ''@'' @ showAttr i"
| "editorNodeText (ChannelMentionAt a) = js ''#'' @ showAttr (ma_label a)"
| "editorNodeText (EmojiAt a) = js '':'' @ showAttr (en_shortcode a) @ js '':''"

section \<open>Emojis in the document\<close>

text \<open>The children of the only paragraph: how many emojis, and whether there is anything else.\<close>

definition isDocEmojiOnly :: "node \<Rightarrow> bool" where
  "isDocEmojiOnly doc =
     (case nd_content doc of
        Some [Node Paragraph content] \<Rightarrow>
          let children = map nd_type (or_empty content);
              emojiCount = length (filter (\<lambda>t. case t of EmojiNode _ _ \<Rightarrow> True | _ \<Rightarrow> False) children);
              hasNonEmoji = list_ex (\<lambda>t. case t of EmojiNode _ _ \<Rightarrow> False | TextNode text _ \<Rightarrow> trim text \<noteq> [] | _ \<Rightarrow> True) children
          in \<not> hasNonEmoji \<and> 1 \<le> emojiCount \<and> emojiCount \<le> 3
      | _ \<Rightarrow> False)"

text \<open>
  \<open>appendTransaction\<close> on the text of a text node: the matches of \<open>UNICODE_EMOJI_RE\<close>, from left to right, that have
  a name become nodes. The first argument is the text since the last node.
\<close>

definition emojiNameOf :: "emoji_category list \<Rightarrow> jsstring \<Rightarrow> jsstring option" where
  "emojiNameOf categories m = (let name = Option.bind (map_of (EMOJI_NAME categories) m) (\<lambda>n. n) in if truthy name then name else None)"

definition flushText :: "jsstring \<Rightarrow> node_type list" where
  "flushText t = (if t = [] then [] else [TextNode t []])"

function emojiSplit :: "emoji_category list \<Rightarrow> jsstring \<Rightarrow> jsstring \<Rightarrow> node_type list" where
  "emojiSplit categories acc [] = flushText acc"
| "emojiSplit categories acc (c # s) =
     (case unicodeEmojiAt categories (c # s) of
        None \<Rightarrow> emojiSplit categories (acc @ [c]) s
      | Some m \<Rightarrow>
          let rest = drop (max 1 (length m)) (c # s)
          in case emojiNameOf categories m of
               None \<Rightarrow> emojiSplit categories (acc @ take (max 1 (length m)) (c # s)) rest
             | Some name \<Rightarrow> flushText acc @ [EmojiNode name (Some m)] @ emojiSplit categories [] rest)"
  by pat_completeness auto
termination by (relation "measure (\<lambda>(_, _, s). length s)") (auto simp: Let_def)

section \<open>Keys\<close>

text \<open>
  What \<open>handleKeyDown\<close> reads: the key; whether the selection is empty and at the start of its parent; the types of the
  ancestors from the innermost, with whether a list item holds nothing but an empty paragraph; the two
  characters before the cursor, the line before those, and the text of the document.
\<close>

record key_context =
  kc_key :: jsstring
  kc_shift :: bool
  kc_empty :: bool
  kc_parentOffset :: nat
  kc_ancestors :: "(jsstring \<times> bool) list"
  kc_textBefore :: jsstring
  kc_lineBefore :: jsstring
  kc_docText :: jsstring
  kc_suggestionOpen :: bool
  kc_onUpArrow :: bool
  kc_onEscape :: bool

datatype key_action =
    LiftListItem | SplitListItem | BreakThenCodeBlock | LineToCodeBlock
  | CallUpArrow | CallEscape | CallSubmit | KeyNotHandled

definition innerListItem :: "key_context \<Rightarrow> (jsstring \<times> bool) option" where
  "innerListItem k = find (\<lambda>(t, _). t = js ''listItem'') (kc_ancestors k)"

definition editorKeyDown :: "key_context \<Rightarrow> key_action" where
  "editorKeyDown k =
     (if kc_key k = js ''Backspace'' \<and> kc_empty k \<and> kc_parentOffset k = 0 \<and>
         (case innerListItem k of Some (_, isEmpty) \<Rightarrow> isEmpty | None \<Rightarrow> False) then LiftListItem
      else if kc_key k = js ''Enter'' \<and> kc_shift k \<and> innerListItem k \<noteq> None then SplitListItem
      else if kc_key k = js ''`'' \<and> kc_textBefore k = js ''``''
        then (if trim (kc_lineBefore k) \<noteq> [] then BreakThenCodeBlock else LineToCodeBlock)
      else if kc_key k = js ''ArrowUp'' \<and> kc_suggestionOpen k then KeyNotHandled
      else if kc_key k = js ''ArrowUp'' \<and> kc_onUpArrow k \<and> trim (kc_docText k) = [] then CallUpArrow
      else if kc_key k = js ''Escape'' \<and> kc_suggestionOpen k then KeyNotHandled
      else if kc_key k = js ''Escape'' \<and> kc_onEscape k then CallEscape
      else if kc_key k = js ''Enter'' \<and> \<not> kc_shift k then (if kc_suggestionOpen k then KeyNotHandled else CallSubmit)
      else KeyNotHandled)"

section \<open>Insertions\<close>

datatype inserted =
    InsertNode editor_node
  | InsertText jsstring
  | InsertLink jsstring jsstring

datatype editor_command =
    DeleteRange
  | ExtendMarkRange
  | DeleteSelection
  | InsertContent inserted
  | SetLink jsstring
  | UnsetLink

text \<open>\<open>command\<close> of the three suggestions.\<close>

definition mentionCommand :: "mention_option \<Rightarrow> editor_command list" where
  "mentionCommand item =
     [DeleteRange,
      InsertContent (InsertNode
        (if mo_type item = SpecialOption then SpecialMentionAt (Some (mo_id item))
         else UserMentionAt \<lparr>ma_id = Some (mo_id item), ma_label = Some (mo_displayName item)\<rparr>)),
      InsertContent (InsertText (js '' ''))]"

definition orNull :: "jsstring option \<Rightarrow> jsstring option" where
  "orNull v = (if truthy v then v else None)"

definition emojiCommand :: "emoji_option \<Rightarrow> editor_command list" where
  "emojiCommand item =
     [DeleteRange,
      InsertContent (InsertNode (EmojiAt \<lparr>en_shortcode = Some (eo_shortcode item), en_unicode = orNull (Some (eo_emoji item)),
        en_imageUrl = orNull (eo_imageUrl item)\<rparr>)),
      InsertContent (InsertText (js '' ''))]"

definition channelCommand :: "channel_option \<Rightarrow> editor_command list" where
  "channelCommand item =
     [DeleteRange,
      InsertContent (InsertNode (ChannelMentionAt \<lparr>ma_id = Some (co_id item), ma_label = Some (co_name item)\<rparr>)),
      InsertContent (InsertText (js '' ''))]"

definition handleEmojiSelect :: "jsstring \<Rightarrow> emoji_select_attrs option \<Rightarrow> editor_command list" where
  "handleEmojiSelect emoji attrs =
     (case attrs of
        Some a \<Rightarrow> [InsertContent (InsertNode (EmojiAt \<lparr>en_shortcode = Some (ea_shortcode a),
          en_unicode = orNull (ea_unicode a), en_imageUrl = orNull (ea_imageUrl a)\<rparr>))]
      | None \<Rightarrow> [InsertContent (InsertText emoji)])"

section \<open>Links\<close>

record link_modal_data =
  lm_text :: jsstring
  lm_url :: jsstring
  lm_isEdit :: bool

text \<open>
  \<open>getLinkRange\<close>: the children of the paragraph with the position of each - text, and whether it is a link, or the size
  of another node. The last link that touches the position counts.
\<close>

datatype inline_child = TextChild jsstring bool | AtomChild nat

fun childSize :: "inline_child \<Rightarrow> nat" where
  "childSize (TextChild t _) = length t"
| "childSize (AtomChild n) = n"

fun linkRangeLoop :: "nat \<Rightarrow> nat \<Rightarrow> inline_child list \<Rightarrow> (nat \<times> nat) option \<Rightarrow> (nat \<times> nat) option" where
  "linkRangeLoop pos nodePos [] result = result"
| "linkRangeLoop pos nodePos (c # cs) result =
     linkRangeLoop pos (nodePos + childSize c) cs
       (case c of
          TextChild t isLink \<Rightarrow> if isLink \<and> nodePos \<le> pos \<and> nodePos + length t \<ge> pos then Some (nodePos, nodePos + length t) else result
        | AtomChild _ \<Rightarrow> result)"

definition getLinkRange :: "nat \<Rightarrow> inline_child list \<Rightarrow> nat \<Rightarrow> (nat \<times> nat) option" where
  "getLinkRange start children pos = linkRangeLoop pos start children None"

text \<open>\<open>selected\<close> is the selected text, \<open>textBetween\<close> reads the document.\<close>

definition openLinkModal ::
    "jsstring \<Rightarrow> jsstring option \<Rightarrow> (nat \<times> nat) option \<Rightarrow> (nat \<Rightarrow> nat \<Rightarrow> jsstring) \<Rightarrow> link_modal_data" where
  "openLinkModal selected href linkRange textBetween =
     (let existingHref = or_else href [];
          selectedText = (if selected = [] \<and> existingHref \<noteq> []
            then (case linkRange of Some (a, b) \<Rightarrow> textBetween a b | None \<Rightarrow> selected) else selected)
      in \<lparr>lm_text = selectedText, lm_url = existingHref, lm_isEdit = existingHref \<noteq> []\<rparr>)"

definition linkFormSave :: "jsstring \<Rightarrow> jsstring \<Rightarrow> (jsstring \<times> jsstring) option" where
  "linkFormSave text url = (if trim url = [] then None else Some (trim text, trim url))"

definition handleLinkSave :: "bool \<Rightarrow> bool \<Rightarrow> jsstring \<Rightarrow> jsstring \<Rightarrow> editor_command list" where
  "handleLinkSave hasSelection isLink text url =
     (if text \<noteq> []
      then (if hasSelection \<or> isLink then [ExtendMarkRange, DeleteSelection] else []) @ [InsertContent (InsertLink text url)]
      else [ExtendMarkRange, SetLink url])"

definition truncatedUrl :: "jsstring option \<Rightarrow> jsstring option" where
  "truncatedUrl href =
     (case href of Some h \<Rightarrow> Some (if length h > 40 then take 40 h @ js ''...'' else h) | None \<Rightarrow> None)"

definition handleRemoveLink :: "editor_command list" where
  "handleRemoveLink = [ExtendMarkRange, UnsetLink]"

section \<open>State of the toolbar and of the actions\<close>

definition isOverLimit :: "nat \<Rightarrow> nat \<Rightarrow> bool" where
  "isOverLimit limit contentLength = (contentLength > limit)"

definition editorCanSend :: "bool \<Rightarrow> bool \<Rightarrow> nat \<Rightarrow> nat \<Rightarrow> bool" where
  "editorCanSend disabled isPending limit contentLength = (\<not> disabled \<and> \<not> isPending \<and> \<not> isOverLimit limit contentLength)"

definition canSchedule :: "bool \<Rightarrow> bool \<Rightarrow> nat \<Rightarrow> nat \<Rightarrow> bool \<Rightarrow> bool" where
  "canSchedule disabled isPending limit contentLength hasContent =
     (editorCanSend disabled isPending limit contentLength \<and> hasContent)"

text \<open>The content given from outside replaces that of the editor unless it reads the same.\<close>

definition syncInitialContent :: "(jsstring \<Rightarrow> node) \<Rightarrow> jsstring option \<Rightarrow> node \<Rightarrow> node" where
  "syncInitialContent fromText initialContent doc =
     (case initialContent of None \<Rightarrow> doc
      | Some content \<Rightarrow> if trim (toMrkdwn doc) \<noteq> content then fromText content else doc)"

section \<open>Nodes survive the clipboard\<close>

text \<open>The attributes with which the suggestions and the picker insert a node.\<close>

fun completeNode :: "editor_node \<Rightarrow> bool" where
  "completeNode (UserMentionAt a) \<longleftrightarrow> truthy (ma_id a) \<and> truthy (ma_label a)"
| "completeNode (ChannelMentionAt a) \<longleftrightarrow> truthy (ma_id a) \<and> truthy (ma_label a)"
| "completeNode (SpecialMentionAt i) \<longleftrightarrow> truthy i"
| "completeNode (EmojiAt a) \<longleftrightarrow> truthy (en_shortcode a) \<and> en_unicode a \<noteq> Some [] \<and> en_imageUrl a \<noteq> Some []"

lemma attrHTML_map: "map_of (attrHTML name v) = (if truthy v then [name \<mapsto> the v] else Map.empty)"
  by (simp add: attrHTML_def)

lemma truthy_Some: "truthy v \<Longrightarrow> Some (the v) = v" "truthy v \<Longrightarrow> the v \<noteq> []"
  by (cases v; simp)+

lemma truthy_or_none: "v \<noteq> Some [] \<Longrightarrow> \<not> truthy v \<Longrightarrow> v = None"
  by (cases v) auto

text \<open>a mention or an emoji that is copied as HTML and pasted is the same node again.\<close>

theorem node_html_roundtrip:
  assumes "completeNode n"
  shows "fromHTML (editorNodeHTML n) = Some n"
proof (cases n)
  case (EmojiAt a)
  with assms truthy_or_none [of "en_unicode a"] truthy_or_none [of "en_imageUrl a"] show ?thesis
    by (cases "truthy (en_imageUrl a)"; cases "truthy (en_unicode a)"; cases a)
      (simp_all add: fromHTML_def emojiHTML_def emojiAttrsHTML_def emojiFromHTML_def getAttribute_def attrHTML_map
        map_add_def truthy_Some Let_def split: option.split)
next
  case (UserMentionAt a)
  with assms show ?thesis
    by (cases a) (simp add: fromHTML_def userMentionHTML_def mentionFromHTML_def getAttribute_def attrHTML_map map_add_def truthy_Some split: option.split)
next
  case (ChannelMentionAt a)
  with assms show ?thesis
    by (cases a) (simp add: fromHTML_def channelMentionHTML_def mentionFromHTML_def getAttribute_def attrHTML_map map_add_def truthy_Some split: option.split)
next
  case (SpecialMentionAt i)
  with assms show ?thesis
    by (simp add: fromHTML_def specialMentionHTML_def getAttribute_def attrHTML_map map_add_def truthy_Some split: option.split)
qed

lemma node_html_roundtrip_witness:
  "fromHTML (editorNodeHTML (UserMentionAt \<lparr>ma_id = Some (js ''U1''), ma_label = Some (js ''Ann'')\<rparr>)) =
     Some (UserMentionAt \<lparr>ma_id = Some (js ''U1''), ma_label = Some (js ''Ann'')\<rparr>)"
  by (rule node_html_roundtrip) simp

section \<open>Typed emojis\<close>

text \<open>
  \<open>quiet categories a b\<close>: scanning the text \<open>a\<close> in front of \<open>b\<close> finds no emoji with a name, and no match reaches
  from \<open>a\<close> into \<open>b\<close>.
\<close>

inductive quiet :: "emoji_category list \<Rightarrow> jsstring \<Rightarrow> jsstring \<Rightarrow> bool" for categories where
  quiet_Nil: "quiet categories [] b"
| quiet_skip: "unicodeEmojiAt categories (c # a @ b) = None \<Longrightarrow> quiet categories a b \<Longrightarrow> quiet categories (c # a) b"
| quiet_match: "unicodeEmojiAt categories (m @ a @ b) = Some m \<Longrightarrow> m \<noteq> [] \<Longrightarrow> emojiNameOf categories m = None \<Longrightarrow>
    quiet categories a b \<Longrightarrow> quiet categories (m @ a) b"

lemma unicodeEmojiAt_prefix:
  "unicodeEmojiAt categories (a @ b) = None \<Longrightarrow> unicodeEmojiAt categories a = None"
  "unicodeEmojiAt categories (m @ a @ b) = Some m \<Longrightarrow> unicodeEmojiAt categories (m @ a) = Some m"
proof -
  have longer: "startsWith a x \<Longrightarrow> startsWith (a @ b) x" "startsWith (m @ a) x \<Longrightarrow> startsWith (m @ a @ b) x" for x
    by (auto simp: startsWith_iff) (metis append_assoc)
  have self: "startsWith (m @ a) m" by (auto simp: startsWith_iff)
  have find: "find (startsWith (a @ b)) xs = None \<Longrightarrow> find (startsWith a) xs = None"
    "find (startsWith (m @ a @ b)) xs = Some m \<Longrightarrow> find (startsWith (m @ a)) xs = Some m" for xs :: "jsstring list"
    using longer self by (induction xs) (auto split: if_splits)
  show "unicodeEmojiAt categories (a @ b) = None \<Longrightarrow> unicodeEmojiAt categories a = None"
    "unicodeEmojiAt categories (m @ a @ b) = Some m \<Longrightarrow> unicodeEmojiAt categories (m @ a) = Some m"
    using find by (simp_all add: unicodeEmojiAt_def)
qed

lemma unicodeEmojiAt_Some: "unicodeEmojiAt categories s = Some m \<Longrightarrow> startsWith s m"
  by (auto simp: unicodeEmojiAt_def find_Some_iff)

lemma quiet_front: "quiet categories a b \<Longrightarrow> quiet categories a []"
proof (induction rule: quiet.induct)
  case (quiet_skip c a b)
  then show ?case using unicodeEmojiAt_prefix(1) [of categories "c # a" b] by (auto intro: quiet.intros)
next
  case (quiet_match m a b)
  then show ?case using unicodeEmojiAt_prefix(2) [of categories m a b] by (auto intro: quiet.intros)
qed (rule quiet.intros)

lemma quiet_append: "quiet categories a (b @ d) \<Longrightarrow> quiet categories b d \<Longrightarrow> quiet categories (a @ b) d"
  by (induction a "b @ d" rule: quiet.induct) (auto intro: quiet.intros)

lemma quiet_split: "quiet categories a [] \<Longrightarrow> emojiSplit categories acc a = flushText (acc @ a)"
proof (induction a "[] :: jsstring" arbitrary: acc rule: quiet.induct)
  case (quiet_match m a)
  then obtain c r where "m = c # r" by (cases m) auto
  with quiet_match show ?case by (simp add: Let_def)
qed simp_all

text \<open>A regular expression never matches the empty text here.\<close>

definition emojisNonempty :: "emoji_category list \<Rightarrow> bool" where
  "emojisNonempty categories \<longleftrightarrow> list_all (\<lambda>m. m \<noteq> []) (UNICODE_EMOJI_RE categories)"

lemma nonempty_match: "emojisNonempty categories \<Longrightarrow> unicodeEmojiAt categories s = Some m \<Longrightarrow> m \<noteq> []"
  by (auto simp: emojisNonempty_def unicodeEmojiAt_def find_Some_iff list_all_length)

lemma split_quiet:
  "emojisNonempty categories \<Longrightarrow> quiet categories acc s \<Longrightarrow> TextNode t marks \<in> set (emojiSplit categories acc s) \<Longrightarrow>
     t \<noteq> [] \<and> marks = [] \<and> quiet categories t []"
proof (induction categories acc s rule: emojiSplit.induct)
  case (1 categories acc)
  then show ?case by (auto simp: flushText_def split: if_splits)
next
  case (2 categories acc c s)
  show ?case
  proof (cases "unicodeEmojiAt categories (c # s)")
    case None
    then have "quiet categories [c] s" using quiet_skip [of categories c "[]" s] quiet_Nil by simp
    then have "quiet categories (acc @ [c]) s" using 2(5) by (intro quiet_append) simp_all
    with 2(1) [OF None 2(4)] 2(6) None show ?thesis by simp
  next
    case (Some m)
    from nonempty_match [OF 2(4) Some] unicodeEmojiAt_Some [OF Some] obtain rest
      where m: "c # s = m @ rest" "m \<noteq> []" by (auto simp: startsWith_iff)
    then have cut: "drop (max 1 (length m)) (c # s) = rest" "take (max 1 (length m)) (c # s) = m"
      by (cases m; simp add: max_def)+
    show ?thesis
    proof (cases "emojiNameOf categories m")
      case None
      have "quiet categories m rest"
        using quiet_match [of categories m "[]" rest] Some None m quiet_Nil by simp
      then have "quiet categories (acc @ m) rest" using 2(5) m by (intro quiet_append) simp_all
      with 2(2) [OF Some _ None] 2(4,6) Some None cut show ?thesis by (simp add: Let_def)
    next
      case name: (Some name)
      have "quiet categories acc []" using 2(5) by (rule quiet_front)
      with 2(3) [OF Some _ name] 2(4,6) Some name cut quiet_Nil show ?thesis
        by (auto simp: Let_def flushText_def split: if_splits)
    qed
  qed
qed

text \<open>What the pieces stand for.\<close>

fun pieceText :: "node_type \<Rightarrow> jsstring" where
  "pieceText (TextNode t _) = t"
| "pieceText (EmojiNode _ (Some u)) = u"
| "pieceText _ = []"

lemma split_lossless:
  "emojisNonempty categories \<Longrightarrow> concat (map pieceText (emojiSplit categories acc s)) = acc @ s"
proof (induction categories acc s rule: emojiSplit.induct)
  case (2 categories acc c s)
  show ?case
  proof (cases "unicodeEmojiAt categories (c # s)")
    case (Some m)
    from nonempty_match [OF 2(4) Some] unicodeEmojiAt_Some [OF Some] obtain rest
      where m: "c # s = m @ rest" "m \<noteq> []" by (auto simp: startsWith_iff)
    then have cut: "drop (max 1 (length m)) (c # s) = rest" "take (max 1 (length m)) (c # s) = m"
      by (cases m; simp add: max_def)+
    show ?thesis
    proof (cases "emojiNameOf categories m")
      case None
      have "emojiSplit categories acc (c # s) = emojiSplit categories (acc @ m) rest"
        using Some None cut by (simp add: Let_def)
      moreover from 2(2) [OF Some cut(1) [symmetric] None 2(4), unfolded cut(2)]
      have "concat (map pieceText (emojiSplit categories (acc @ m) rest)) = acc @ m @ rest" by simp
      ultimately show ?thesis using m(1) by simp
    next
      case name: (Some name)
      have "emojiSplit categories acc (c # s) = flushText acc @ [EmojiNode name (Some m)] @ emojiSplit categories [] rest"
        using Some name cut by (simp add: Let_def)
      moreover from 2(3) [OF Some cut(1) [symmetric] name 2(4)]
      have "concat (map pieceText (emojiSplit categories [] rest)) = rest" by simp
      ultimately show ?thesis using m(1) by (simp add: flushText_def)
    qed
  qed (use 2 in simp)
qed (simp add: flushText_def)


definition tiny_table :: "emoji_category list" where
  "tiny_table = [\<lparr>ec_id = js ''faces'', ec_label = js ''Faces'', ec_icon = [0xD83D, 0xDE00],
     ec_emojis = [\<lparr>ee_emoji = [0xD83D, 0xDE00], ee_aliases = [js ''grinning''], ee_tags = [], ee_skinTones = False\<rparr>]\<rparr>]"


section \<open>Large emojis\<close>

text \<open>The segments of emojis and white space, with neighbouring white space put together.\<close>

fun emojiSegments :: "node_type list \<Rightarrow> segment list" where
  "emojiSegments [] = []"
| "emojiSegments (EmojiNode n _ # ts) = EmojiShortcode n # emojiSegments ts"
| "emojiSegments (TextNode t _ # ts) =
     (if t = [] then emojiSegments ts
      else case emojiSegments ts of Text t' # segs \<Rightarrow> Text (t @ t') # segs | segs \<Rightarrow> Text t # segs)"
| "emojiSegments (_ # ts) = emojiSegments ts"

text \<open>Unmarked white space without line breaks, and emojis with readable names.\<close>

fun emojiOrSpace :: "node_type \<Rightarrow> bool" where
  "emojiOrSpace (EmojiNode n _) \<longleftrightarrow> readable (EmojiShortcode n)"
| "emojiOrSpace (TextNode t marks) \<longleftrightarrow> marks = [] \<and> (\<forall>c \<in> set t. is_ws c \<and> c \<noteq> NEWLINE)"
| "emojiOrSpace _ \<longleftrightarrow> False"

lemma ws_not_special: "is_ws c \<Longrightarrow> \<not> special c"
  by (auto simp: is_ws_def special_def js_eval)

fun spaceSegment :: "segment \<Rightarrow> bool" where
  "spaceSegment (Text t) \<longleftrightarrow> t \<noteq> [] \<and> (\<forall>c \<in> set t. is_ws c \<and> c \<noteq> NEWLINE)"
| "spaceSegment (EmojiShortcode n) \<longleftrightarrow> readable (EmojiShortcode n)"
| "spaceSegment _ \<longleftrightarrow> False"

lemma emojiSegments_ok:
  assumes "\<forall>t \<in> set ts. emojiOrSpace t"
  shows "merged (emojiSegments ts)" "\<forall>s \<in> set (emojiSegments ts). spaceSegment s"
    and "concat (map render (emojiSegments ts)) = concat (map (\<lambda>t. serializeNode (leaf t)) ts)"
    and "length (filter (\<lambda>s. \<not> is_text s) (emojiSegments ts)) =
      length (filter (\<lambda>t. case t of EmojiNode _ _ \<Rightarrow> True | _ \<Rightarrow> False) ts)"
proof -
  have "merged (emojiSegments ts) \<and> (\<forall>s \<in> set (emojiSegments ts). spaceSegment s) \<and>
    concat (map render (emojiSegments ts)) = concat (map (\<lambda>t. serializeNode (leaf t)) ts) \<and>
    length (filter (\<lambda>s. \<not> is_text s) (emojiSegments ts)) =
      length (filter (\<lambda>t. case t of EmojiNode _ _ \<Rightarrow> True | _ \<Rightarrow> False) ts)"
    using assms
    by (induction ts rule: emojiSegments.induct)
      (auto simp: leaf_def serializeText_def merged_Cons split: list.splits segment.splits simp del: merged.simps(1))
  then show "merged (emojiSegments ts)" "\<forall>s \<in> set (emojiSegments ts). spaceSegment s"
    "concat (map render (emojiSegments ts)) = concat (map (\<lambda>t. serializeNode (leaf t)) ts)"
    "length (filter (\<lambda>s. \<not> is_text s) (emojiSegments ts)) =
      length (filter (\<lambda>t. case t of EmojiNode _ _ \<Rightarrow> True | _ \<Rightarrow> False) ts)" by simp_all
qed

lemma trim_between:
  assumes "\<forall>c \<in> set a. is_ws c" "\<forall>c \<in> set b. is_ws c" "x \<noteq> []" "\<not> is_ws (hd x)" "\<not> is_ws (last x)"
  shows "trim (a @ x @ b) = x"
proof -
  have front: "dropWhile is_ws (u @ v) = v" if "\<forall>c \<in> set u. is_ws c" "v \<noteq> []" "\<not> is_ws (hd v)" for u v
    using that by (simp add: dropWhile_append2) (cases v; simp)
  have "dropWhile is_ws (a @ x @ b) = x @ b" using assms by (intro front) simp_all
  moreover have "dropWhile is_ws (rev b @ rev x) = rev x" using assms by (intro front) (simp_all add: hd_rev)
  ultimately show ?thesis by (simp add: trim_def)
qed

lemma colon_plain: "isPlain (ch CHR '':'' # r)"
  by (auto simp: isPlain_def isFence_def isQuote_def isBullet_def isOrdered_def isBlank_def startsWith_iff js_def
    is_ws_def is_digit_def trim_Nil_iff BULLET_def orderedRest_def between_def Let_def
    split: if_splits)

lemma space_no_newline: "spaceSegment s \<Longrightarrow> NEWLINE \<notin> set (render s)"
  by (cases s) (auto simp: js_eval NEWLINE_def shortcode_char_def is_digit_def)

lemma serialize_by_type: "emojiOrSpace ty \<Longrightarrow> serializeNode (Node ty c) = serializeNode (leaf ty)"
  by (cases ty) (auto simp: leaf_def)

lemma spaceSegment_readable: "spaceSegment s \<Longrightarrow> readable s"
  by (cases s) (auto dest: ws_not_special)

lemma space_render: "spaceSegment s \<Longrightarrow> is_text s \<Longrightarrow> \<forall>c \<in> set (render s). is_ws c"
  by (cases s) auto

lemma emoji_render: "spaceSegment s \<Longrightarrow> \<not> is_text s \<Longrightarrow> \<exists>n. s = EmojiShortcode n \<and> render s = [ch CHR '':''] @ n @ [ch CHR '':'']"
  by (cases s) (auto simp: js_def)

text \<open>The segments from the first emoji to the last.\<close>

lemma emoji_core:
  assumes "\<forall>s \<in> set segs. spaceSegment s" "merged segs" "filter (\<lambda>s. \<not> is_text s) segs \<noteq> []"
  obtains pre mid post where "segs = pre @ mid @ post" "\<forall>s \<in> set (pre @ post). is_text s" "mid \<noteq> []"
    "\<not> is_text (hd mid)" "\<not> is_text (last mid)" "merged mid"
proof -
  let ?rest = "dropWhile is_text segs"
  let ?pre = "takeWhile is_text segs" and ?mid = "rev (dropWhile is_text (rev ?rest))"
    and ?post = "rev (takeWhile is_text (rev ?rest))"
  have rest: "?rest \<noteq> []" using assms(3) by (auto simp: filter_empty_conv dropWhile_eq_Nil_conv)
  then have hd: "\<not> is_text (hd ?rest)" by (rule hd_dropWhile)
  have "rev ?rest = takeWhile is_text (rev ?rest) @ dropWhile is_text (rev ?rest)" by simp
  then have split: "?rest = ?mid @ ?post" by (metis rev_append rev_rev_ident)
  have "\<not> (\<forall>s \<in> set ?rest. is_text s)" using hd hd_in_set [OF rest] by blast
  then have mid: "?mid \<noteq> []" by (simp only: rev_is_Nil_conv dropWhile_eq_Nil_conv set_rev not_False_eq_True)
  have "segs = ?pre @ ?mid @ ?post" using split by (metis takeWhile_dropWhile_id)
  moreover have "\<forall>s \<in> set (?pre @ ?post). is_text s" by (auto dest: set_takeWhileD)
  moreover have "\<not> is_text (hd ?mid)" using hd split mid by (metis hd_append2)
  moreover have "\<not> is_text (last ?mid)" using mid hd_dropWhile [of is_text "rev ?rest"] by (simp add: last_rev)
  moreover have "merged ?mid" using assms(2) calculation(1) by (metis merged_append)
  ultimately show ?thesis using mid that by blast
qed

lemma emojis_message:
  assumes "\<forall>s \<in> set segs. spaceSegment s" "merged segs"
    and "1 \<le> length (filter (\<lambda>s. \<not> is_text s) segs)" "length (filter (\<lambda>s. \<not> is_text s) segs) \<le> 3"
  shows "isEmojiOnly (parseMrkdwn (trim (concat (map render segs) @ [NEWLINE])))"
proof -
  from assms(3) have "filter (\<lambda>s. \<not> is_text s) segs \<noteq> []" by auto
  from emoji_core [OF assms(1,2) this] obtain pre mid post where segs: "segs = pre @ mid @ post"
    and outer: "\<forall>s \<in> set (pre @ post). is_text s" and mid: "mid \<noteq> []" "\<not> is_text (hd mid)" "\<not> is_text (last mid)" "merged mid"
    by blast
  let ?x = "concat (map render mid)"
  from segs assms(1) have ok: "\<forall>s \<in> set mid. spaceSegment s" by simp
  with mid(1) have ends: "spaceSegment (hd mid)" "spaceSegment (last mid)" by simp_all
  from emoji_render [OF ends(1) mid(2)] obtain n where n: "render (hd mid) = [ch CHR '':''] @ n @ [ch CHR '':'']" by blast
  from emoji_render [OF ends(2) mid(3)] obtain n' where n': "render (last mid) = [ch CHR '':''] @ n' @ [ch CHR '':'']" by blast
  obtain r where x: "?x = ch CHR '':'' # r" using mid(1) n by (cases mid) auto
  have last: "last ?x = ch CHR '':''" using mid(1) n' by (cases mid rule: rev_cases) auto
  have "\<not> is_ws (ch CHR '':'')" by (simp add: is_ws_def)
  with x last have "trim (concat (map render pre) @ ?x @ (concat (map render post) @ [NEWLINE])) = ?x"
    using outer segs assms(1) newline_ws by (intro trim_between) (auto dest: space_render)
  then have trimmed: "trim (concat (map render segs) @ [NEWLINE]) = ?x" by (simp add: segs)
  have line: "NEWLINE \<notin> set ?x" using ok space_no_newline by auto
  have "parseMrkdwn ?x = blockLoop [] [?x]" using parse_lines [of "[?x]"] line x by simp
  also have "\<dots> = parseInline ?x" using blockLoop_plain [of "[?x]" "[]"] colon_plain [of r] x by simp
  also have "\<dots> = mid" using ok mid(4) spaceSegment_readable by (intro inline_roundtrip) auto
  finally have parsed: "parseMrkdwn ?x = mid" .
  have meaningful: "filter (\<lambda>s. \<not> (case s of Text t \<Rightarrow> isBlank t | _ \<Rightarrow> False) \<and> s \<noteq> LineBreak) mid = filter (\<lambda>s. \<not> is_text s) mid"
    using ok by (intro filter_cong refl) (auto simp: isBlank_def trim_Nil_iff split: segment.splits)
  have "filter (\<lambda>s. \<not> is_text s) segs = filter (\<lambda>s. \<not> is_text s) mid"
    using outer by (simp add: segs filter_empty_conv)
  moreover have "\<not> list_ex (\<lambda>s. case s of EmojiShortcode _ \<Rightarrow> False | _ \<Rightarrow> True) (filter (\<lambda>s. \<not> is_text s) mid)"
    using ok emoji_render by (fastforce simp: list_ex_iff)
  ultimately show ?thesis
    using assms(3,4) unfolding trimmed parsed isEmojiOnly_def meaningful by (auto simp: Let_def)
qed

text \<open>a document the editor shows with large emojis is displayed with large emojis as a message - if white space
  between them has no marks and no line breaks.\<close>

theorem large_emojis_stay_large:
  assumes "isDocEmojiOnly (Node Doc (Some [Node Paragraph (Some children)]))"
    and "\<forall>n \<in> set children. case nd_type n of EmojiNode name _ \<Rightarrow> readable (EmojiShortcode name)
        | TextNode t marks \<Rightarrow> marks = [] \<and> NEWLINE \<notin> set t | _ \<Rightarrow> True"
  shows "isEmojiOnly (parseMrkdwn (toMrkdwn (Node Doc (Some [Node Paragraph (Some children)]))))"
proof -
  let ?ts = "map nd_type children"
  let ?emojis = "filter (\<lambda>t. case t of EmojiNode _ _ \<Rightarrow> True | _ \<Rightarrow> False) ?ts"
  from assms(1) have doc: "\<not> list_ex (\<lambda>t. case t of EmojiNode _ _ \<Rightarrow> False | TextNode text _ \<Rightarrow> trim text \<noteq> [] | _ \<Rightarrow> True) ?ts"
    "1 \<le> length ?emojis" "length ?emojis \<le> 3"
    by (simp_all add: isDocEmojiOnly_def Let_def)
  have ok: "\<forall>t \<in> set ?ts. emojiOrSpace t"
  proof
    fix t assume t: "t \<in> set ?ts"
    with doc(1) have "case t of EmojiNode _ _ \<Rightarrow> True | TextNode text _ \<Rightarrow> trim text = [] | _ \<Rightarrow> False"
      by (auto simp: list_ex_iff split: node_type.splits)
    moreover from t obtain n where "n \<in> set children" "t = nd_type n" by auto
    with assms(2) have "case t of EmojiNode name _ \<Rightarrow> readable (EmojiShortcode name)
        | TextNode t marks \<Rightarrow> marks = [] \<and> NEWLINE \<notin> set t | _ \<Rightarrow> True" by blast
    ultimately show "emojiOrSpace t" by (cases t) (auto simp: trim_Nil_iff)
  qed
  have "serializeNode n = serializeNode (leaf (nd_type n))" if "n \<in> set children" for n
    using that ok serialize_by_type [of "nd_type n" "nd_content n"] by simp
  then have "concat (map serializeNode children) = concat (map (\<lambda>t. serializeNode (leaf t)) ?ts)"
    by (simp add: comp_def cong: map_cong)
  also have "\<dots> = concat (map render (emojiSegments ?ts))" using emojiSegments_ok(3) [OF ok] by simp
  finally have "toMrkdwn (Node Doc (Some [Node Paragraph (Some children)])) = trim (concat (map render (emojiSegments ?ts)) @ [NEWLINE])"
    by (simp add: toMrkdwn_def)
  then show ?thesis
    using emojis_message [OF emojiSegments_ok(2,1) [OF ok]] doc(2,3) emojiSegments_ok(4) [OF ok] by simp
qed

lemma large_emojis_stay_large_witness:
  "isEmojiOnly (parseMrkdwn (toMrkdwn (Node Doc (Some [Node Paragraph (Some
     [leaf (EmojiNode (js ''tada'') None), leaf (TextNode (js ''  '') []), leaf (EmojiNode (js ''fire'') None)])]))))"
  by (rule large_emojis_stay_large)
    (simp_all add: isDocEmojiOnly_def leaf_def trim_Nil_iff js_eval is_ws_def NEWLINE_def shortcode_char_def is_digit_def)

section \<open>Links\<close>

text \<open>A link of the dialog is displayed as a link when its address is one of http or https; any other address that is entered,
  such as \<open>example.com\<close>, ends as its source text in the message.\<close>

lemma saved_link_displayed:
  "is_url url_char url \<Longrightarrow> text \<noteq> [] \<Longrightarrow> \<forall>c \<in> set text. other CHR ''>'' c \<Longrightarrow>
     parseInline (serializeNode (linkNode url text)) = [Link url text]"
  using inline_roundtrip [of "[Link url text]"] is_url_hd [of url_char url]
  by (auto simp: linkNode_def leaf_def serializeText_def)

lemma link_without_scheme:
  "linkFormSave (js ''our site'') (js ''example.com'') = Some (js ''our site'', js ''example.com'')"
  "parseInline (serializeNode (linkNode (js ''example.com'') (js ''our site''))) = [Text (js ''<example.com|our site>'')]"
  by code_simp+

lemma link_range_touches:
  "linkRangeLoop pos p cs res = Some (a, b) \<Longrightarrow> res = Some (a, b) \<or> a \<le> pos \<and> pos \<le> b"
  by (induction cs arbitrary: p res) (fastforce split: inline_child.splits if_splits)+

text \<open>Between two adjacent links, the range is that of the second one.\<close>

lemma link_range_boundary: "getLinkRange 1 [TextChild (js ''ab'') True, TextChild (js ''cde'') True] 3 = Some (3, 6)"
  by (simp add: getLinkRange_def)

lemma link_form_trims: "linkFormSave text url = Some (t, u) \<Longrightarrow> u \<noteq> [] \<and> t = trim text \<and> u = trim url"
  by (auto simp: linkFormSave_def split: if_splits)

lemma link_prefilled:
  "truthy href \<Longrightarrow> lm_url (openLinkModal selected href linkRange textBetween) = the href \<and>
     lm_isEdit (openLinkModal selected href linkRange textBetween)"
  by (cases href) (auto simp: openLinkModal_def or_else_def Let_def)

section \<open>Which key does what\<close>

lemma enter_submits:
  "kc_key k = js ''Enter'' \<Longrightarrow> editorKeyDown k = CallSubmit \<longleftrightarrow> \<not> kc_shift k \<and> \<not> kc_suggestionOpen k"
  by (auto simp: editorKeyDown_def)

lemma open_suggestion_keeps_keys:
  "kc_suggestionOpen k \<Longrightarrow> kc_key k \<in> {js ''ArrowUp'', js ''Escape'', js ''Enter''} \<Longrightarrow> \<not> kc_shift k \<Longrightarrow>
     editorKeyDown k = KeyNotHandled"
  by (auto simp: editorKeyDown_def)

text \<open>A mention chosen from the suggestions is the mention of the message.\<close>

fun nodeOf :: "editor_node \<Rightarrow> node" where
  "nodeOf (UserMentionAt a) = leaf (UserMentionNode (showAttr (ma_id a)))"
| "nodeOf (SpecialMentionAt i) = leaf (SpecialMentionNode (showAttr i))"
| "nodeOf (ChannelMentionAt a) = leaf (ChannelMentionNode (showAttr (ma_id a)))"
| "nodeOf (EmojiAt a) = leaf (EmojiNode (showAttr (en_shortcode a)) (en_unicode a))"

fun insertedNode :: "inserted \<Rightarrow> node" where
  "insertedNode (InsertNode n) = nodeOf n"
| "insertedNode (InsertText t) = leaf (TextNode t [])"
| "insertedNode (InsertLink t u) = linkNode u t"

definition insertedText :: "editor_command list \<Rightarrow> jsstring" where
  "insertedText cmds = concat (map (\<lambda>c. case c of InsertContent i \<Rightarrow> serializeNode (insertedNode i) | _ \<Rightarrow> []) cmds)"

lemma suggestion_displayed:
  "mo_id m \<noteq> [] \<Longrightarrow> \<forall>c \<in> set (mo_id m). other CHR ''>'' c \<Longrightarrow>
     parseInline (insertedText (mentionCommand m)) =
       [(if mo_type m = SpecialOption then SpecialMention (mo_id m) else UserMention (mo_id m)), Text (js '' '')]"
  "co_id c \<noteq> [] \<Longrightarrow> \<forall>x \<in> set (co_id c). other CHR ''>'' x \<Longrightarrow>
     parseInline (insertedText (channelCommand c)) = [ChannelMention (co_id c), Text (js '' '')]"
  "readable (EmojiShortcode (eo_shortcode e)) \<Longrightarrow>
     parseInline (insertedText (emojiCommand e)) = [EmojiShortcode (eo_shortcode e), Text (js '' '')]"
proof -
  have space: "readable (Text (js '' ''))" by (simp add: special_def js_eval)
  show "mo_id m \<noteq> [] \<Longrightarrow> \<forall>c \<in> set (mo_id m). other CHR ''>'' c \<Longrightarrow> parseInline (insertedText (mentionCommand m)) =
       [(if mo_type m = SpecialOption then SpecialMention (mo_id m) else UserMention (mo_id m)), Text (js '' '')]"
    using inline_roundtrip [of "[UserMention (mo_id m), Text (js '' '')]"] space
      inline_roundtrip [of "[SpecialMention (mo_id m), Text (js '' '')]"]
    by (auto simp: insertedText_def mentionCommand_def leaf_def showAttr_def serializeText_def simp del: js_Cons)
  show "co_id c \<noteq> [] \<Longrightarrow> \<forall>x \<in> set (co_id c). other CHR ''>'' x \<Longrightarrow>
     parseInline (insertedText (channelCommand c)) = [ChannelMention (co_id c), Text (js '' '')]"
    using inline_roundtrip [of "[ChannelMention (co_id c), Text (js '' '')]"] space
    by (auto simp: insertedText_def channelCommand_def leaf_def showAttr_def serializeText_def simp del: js_Cons)
  show "readable (EmojiShortcode (eo_shortcode e)) \<Longrightarrow>
     parseInline (insertedText (emojiCommand e)) = [EmojiShortcode (eo_shortcode e), Text (js '' '')]"
    using inline_roundtrip [of "[EmojiShortcode (eo_shortcode e), Text (js '' '')]"] space
    by (auto simp: insertedText_def emojiCommand_def leaf_def showAttr_def serializeText_def simp del: js_Cons)
qed

end
