(* ===== verification/StoredMentions.thy ===== *)
theory StoredMentions
  imports Mentions
begin

text \<open>
  The stored form of mentions in \<open>packages/shared/src/mentions.ts\<close>: \<open>convertMentionsForStorage\<close> replaces
  display names by ids, \<open>parseStoredMentions\<close> cuts a stored text into segments.
\<close>

section \<open>Replacement by regular expressions\<close>

text \<open>
  The replacement text of \<open>replace\<close> with the patterns that do not concern groups: \<open>$$\<close>, \<open>$&\<close>,
  \<open>$`\<close> and \<open>$'\<close>.
\<close>

fun substitution :: "jsstring \<Rightarrow> jsstring \<Rightarrow> jsstring \<Rightarrow> jsstring \<Rightarrow> jsstring" where
  "substitution before matched after (c # d # rest) =
     (if c = ch CHR ''$'' \<and> d = ch CHR ''$'' then c # substitution before matched after rest
      else if c = ch CHR ''$'' \<and> d = ch CHR ''&'' then matched @ substitution before matched after rest
      else if c = ch CHR ''$'' \<and> d = ch CHR ''`'' then before @ substitution before matched after rest
      else if c = ch CHR ''$'' \<and> d = 39 then after @ substitution before matched after rest
      else c # substitution before matched after (d # rest))"
| "substitution before matched after s = s"

text \<open>\<open>@name(?=\s|$)\<close>, with the name escaped, at the start of a text.\<close>

definition mentionAt :: "jsstring \<Rightarrow> jsstring \<Rightarrow> bool" where
  "mentionAt name s =
     (startsWith s (AT # name) \<and> (case drop (length name + 1) s of [] \<Rightarrow> True | c # _ \<Rightarrow> is_ws c))"

text \<open>\<open>s.replace(regex, replacement)\<close> from a position on; the first argument is the text before it.\<close>

function replaceMentions :: "jsstring \<Rightarrow> jsstring \<Rightarrow> jsstring \<Rightarrow> jsstring \<Rightarrow> jsstring" where
  "replaceMentions before name replacement [] = []"
| "replaceMentions before name replacement (c # s) =
     (if mentionAt name (c # s)
      then substitution before (AT # name) (drop (length name) s) replacement @
             replaceMentions (before @ AT # name) name replacement (drop (length name) s)
      else c # replaceMentions (before @ [c]) name replacement s)"
  by pat_completeness auto
termination by (relation "measure (\<lambda>(_, _, _, s). length s)") auto

definition convertMentionsForStorage :: "jsstring \<Rightarrow> (jsstring \<times> jsstring) list \<Rightarrow> jsstring" where
  "convertMentionsForStorage content mentionMap =
     (let result = foldl (\<lambda>result (displayName, userId).
            replaceMentions [] displayName (js ''<@'' @ userId @ js ''>'') result) content mentionMap
      in foldl (\<lambda>result special.
            replaceMentions [] (mo_displayName special) (js ''<!'' @ mo_id special @ js ''>'') result) result SPECIAL_MENTIONS)"

section \<open>Reading\<close>

datatype stored_segment = StoredText jsstring | StoredUser jsstring | StoredSpecial jsstring

text \<open>A match of \<open><(@|!)([^>]+)>\<close> at the start of a text, and the text behind it.\<close>

definition storedMatch :: "jsstring \<Rightarrow> (stored_segment \<times> jsstring) option" where
  "storedMatch s =
     (case s of
        a # k # rest \<Rightarrow>
          let i = takeWhile (\<lambda>c. c \<noteq> ch CHR ''>'') rest
          in if a = ch CHR ''<'' \<and> (k = AT \<or> k = ch CHR ''!'') \<and> i \<noteq> [] \<and> length i < length rest
             then Some (if k = AT then StoredUser i else StoredSpecial i, drop (length i + 1) rest)
             else None
      | _ \<Rightarrow> None)"

definition flushStored :: "jsstring \<Rightarrow> stored_segment list" where
  "flushStored t = (if t = [] then [] else [StoredText t])"

lemma storedMatch_Some:
  "storedMatch s = Some (seg, rest) \<Longrightarrow>
     \<exists>k i. s = [ch CHR ''<'', k] @ i @ ch CHR ''>'' # rest \<and> i \<noteq> [] \<and> ch CHR ''>'' \<notin> set i \<and>
       (k = AT \<and> seg = StoredUser i \<or> k = ch CHR ''!'' \<and> seg = StoredSpecial i)"
proof -
  assume match: "storedMatch s = Some (seg, rest)"
  then obtain a k r where s: "s = a # k # r" by (auto simp: storedMatch_def split: list.splits)
  let ?i = "takeWhile (\<lambda>c. c \<noteq> ch CHR ''>'') r"
  from match s have m: "a = ch CHR ''<''" "k = AT \<or> k = ch CHR ''!''" "?i \<noteq> []" "length ?i < length r"
    "rest = drop (length ?i + 1) r" "seg = (if k = AT then StoredUser ?i else StoredSpecial ?i)"
    by (auto simp: storedMatch_def Let_def split: if_splits)
  have "r ! length ?i = ch CHR ''>''" using nth_length_takeWhile [OF m(4)] by simp
  then have "r = ?i @ ch CHR ''>'' # rest"
    using id_take_nth_drop [OF m(4)] m(5) takeWhile_eq_take [of "\<lambda>c. c \<noteq> ch CHR ''>''" r] by simp
  moreover have "ch CHR ''>'' \<notin> set ?i" by (auto dest: set_takeWhileD)
  ultimately show ?thesis using s m by (intro exI [of _ k] exI [of _ ?i]) auto
qed

text \<open>The loop; the first argument is the text since \<open>lastIndex\<close>.\<close>

function storedLoop :: "jsstring \<Rightarrow> jsstring \<Rightarrow> stored_segment list" where
  "storedLoop acc [] = flushStored acc"
| "storedLoop acc (c # s) =
     (case storedMatch (c # s) of
        Some (seg, rest) \<Rightarrow> flushStored acc @ [seg] @ storedLoop [] rest
      | None \<Rightarrow> storedLoop (acc @ [c]) s)"
  by pat_completeness auto

termination by (relation "measure (\<lambda>(_, s). length s)") (auto dest!: storedMatch_Some)

definition parseStoredMentions :: "jsstring \<Rightarrow> stored_segment list" where
  "parseStoredMentions content = storedLoop [] content"

section \<open>Nothing is lost\<close>

fun storedText :: "stored_segment \<Rightarrow> jsstring" where
  "storedText (StoredText t) = t"
| "storedText (StoredUser i) = js ''<@'' @ i @ js ''>''"
| "storedText (StoredSpecial i) = js ''<!'' @ i @ js ''>''"

lemma stored_lossless: "concat (map storedText (storedLoop acc s)) = acc @ s"
proof (induction acc s rule: storedLoop.induct)
  case (2 acc c s)
  then show ?case
    by (cases "storedMatch (c # s)") (auto simp: flushStored_def js_def dest!: storedMatch_Some)
qed (simp add: flushStored_def)

fun writtenSegment :: "stored_segment \<Rightarrow> bool" where
  "writtenSegment (StoredText t) \<longleftrightarrow> t \<noteq> [] \<and> ch CHR ''<'' \<notin> set t"
| "writtenSegment (StoredUser i) \<longleftrightarrow> i \<noteq> [] \<and> ch CHR ''>'' \<notin> set i"
| "writtenSegment (StoredSpecial i) \<longleftrightarrow> i \<noteq> [] \<and> ch CHR ''>'' \<notin> set i"

fun textsApart :: "stored_segment list \<Rightarrow> bool" where
  "textsApart (StoredText _ # StoredText t # segs) \<longleftrightarrow> False"
| "textsApart (_ # segs) \<longleftrightarrow> textsApart segs"
| "textsApart [] \<longleftrightarrow> True"

lemma takeWhile_stop: "x \<notin> set i \<Longrightarrow> takeWhile (\<lambda>c. c \<noteq> x) (i @ x # r) = i"
  by (induction i) auto

lemma storedMatch_written:
  "i \<noteq> [] \<Longrightarrow> ch CHR ''>'' \<notin> set i \<Longrightarrow> storedMatch (js ''<@'' @ i @ js ''>'' @ r) = Some (StoredUser i, r)"
  "i \<noteq> [] \<Longrightarrow> ch CHR ''>'' \<notin> set i \<Longrightarrow> storedMatch (js ''<!'' @ i @ js ''>'' @ r) = Some (StoredSpecial i, r)"
  by (simp_all add: storedMatch_def js_def takeWhile_stop)

lemma storedMatch_other: "c \<noteq> ch CHR ''<'' \<Longrightarrow> storedMatch (c # s) = None"
  by (cases "storedMatch (c # s)") (auto dest!: storedMatch_Some)

lemma storedLoop_text: "ch CHR ''<'' \<notin> set t \<Longrightarrow> storedLoop acc (t @ s) = storedLoop (acc @ t) s"
  by (induction t arbitrary: acc) (simp_all add: storedMatch_other)

lemma storedLoop_match: "storedMatch s = Some (seg, r) \<Longrightarrow> storedLoop acc s = flushStored acc @ [seg] @ storedLoop [] r"
  by (cases s) (auto simp: storedMatch_def)

lemma storedLoop_written:
  "\<forall>s \<in> set segs. writtenSegment s \<Longrightarrow> textsApart segs \<Longrightarrow> (acc = [] \<or> segs = [] \<or> (\<forall>t. hd segs \<noteq> StoredText t)) \<Longrightarrow>
     storedLoop acc (concat (map storedText segs)) = flushStored acc @ segs"
proof (induction segs arbitrary: acc)
  case (Cons seg segs)
  then have apart: "textsApart segs" by (cases seg; cases segs; cases "hd segs") auto
  show ?case
  proof (cases seg)
    case (StoredText t)
    with Cons.prems have "segs = [] \<or> (\<forall>t. hd segs \<noteq> StoredText t)" "acc = []" by (cases segs; auto)+
    with StoredText Cons.prems Cons.IH [OF _ apart, of t] show ?thesis
      by (auto simp: storedLoop_text flushStored_def)
  next
    case (StoredUser i)
    with Cons.prems Cons.IH [OF _ apart, of "[]"] show ?thesis
      by (simp add: storedLoop_match [OF storedMatch_written(1)] flushStored_def)
  next
    case (StoredSpecial i)
    with Cons.prems Cons.IH [OF _ apart, of "[]"] show ?thesis
      by (simp add: storedLoop_match [OF storedMatch_written(2)] flushStored_def)
  qed
qed simp

text \<open>reading a stored text loses nothing, and reading the text of segments gives the segments back.\<close>

theorem stored_mentions_roundtrip:
  "concat (map storedText (parseStoredMentions content)) = content \<and>
   ((\<forall>s \<in> set segs. writtenSegment s) \<and> textsApart segs \<longrightarrow> parseStoredMentions (concat (map storedText segs)) = segs)"
  using stored_lossless [of "[]"] storedLoop_written [of segs "[]"] by (auto simp: parseStoredMentions_def flushStored_def)

lemma stored_mentions_roundtrip_witness:
  "parseStoredMentions (concat (map storedText [StoredText (js ''hi ''), StoredUser (js ''U1''), StoredSpecial (js ''here'')])) =
     [StoredText (js ''hi ''), StoredUser (js ''U1''), StoredSpecial (js ''here'')]"
  using stored_mentions_roundtrip [of "[]" "[StoredText (js ''hi ''), StoredUser (js ''U1''), StoredSpecial (js ''here'')]"]
  by (auto simp: js_eval)

section \<open>Conversion\<close>

text \<open>Of two users one of whose names starts with the other's name and a space, the order of the map decides.\<close>

lemma prefix_name_converted:
  "convertMentionsForStorage (js ''hi @Ann Lee'') [(js ''Ann Lee'', js ''U2''), (js ''Ann'', js ''U1'')] = js ''hi <@U2>''"
  "convertMentionsForStorage (js ''hi @Ann Lee'') [(js ''Ann'', js ''U1''), (js ''Ann Lee'', js ''U2'')] = js ''hi <@U1> Lee''"
  by code_simp+

lemma special_converted: "convertMentionsForStorage (js ''@here all @heres'') [] = js ''<!here> all @heres''"
  by code_simp

lemma no_mention_unchanged: "AT \<notin> set s \<Longrightarrow> replaceMentions before name r s = s"
  by (induction s arbitrary: before) (auto simp: mentionAt_def)

lemma convert_without_at: "AT \<notin> set content \<Longrightarrow> convertMentionsForStorage content mentionMap = content"
proof -
  assume at: "AT \<notin> set content"
  have "foldl (\<lambda>result (n, u). replaceMentions [] n (f u) result) content xs = content" for xs :: "(jsstring \<times> jsstring) list" and f
    using at by (induction xs) (auto simp: no_mention_unchanged)
  moreover have "foldl (\<lambda>result sp. replaceMentions [] (g sp) (f sp) result) content xs = content" for xs :: "mention_option list" and f g
    using at by (induction xs) (auto simp: no_mention_unchanged)
  ultimately show ?thesis by (simp add: convertMentionsForStorage_def Let_def)
qed

end
