(* ===== verification/MessageParts.thy ===== *)
theory MessageParts
  imports Rendering Reactions MobileApp Machines
begin

text \<open>
  The parts of a message on the web (\<open>apps/web/src/components/message/\<close>): the emojis of the reactions
  (\<open>ReactionsDisplay.tsx\<close>), long messages (\<open>CollapsibleMessage.tsx\<close>, a machine of presses, frames and
  transitions), attachments with the grid and the carousel of images (\<open>AttachmentDisplay.tsx\<close>),
  previews (\<open>MessagePreviewDisplay.tsx\<close>, \<open>LinkPreviewDisplay.tsx\<close>), the indicator of replies
  (\<open>ThreadRepliesIndicator.tsx\<close>) and the button to the latest message.
\<close>

section \<open>Reactions\<close>

text \<open>An emoji that is neither text nor an image: React shows nothing for the function an inherited name yields.\<close>

datatype emoji_display = EmojiText jsstring | EmojiVoid | EmojiImage jsstring jsstring

text \<open>\<open>/^:([a-zA-Z0-9_+-]+):$/\<close>\<close>

definition shortcodeName :: "jsstring \<Rightarrow> jsstring option" where
  "shortcodeName emoji =
     (let name = butlast (tl emoji)
      in if 3 \<le> length emoji \<and> hd emoji = ch CHR '':'' \<and> last emoji = ch CHR '':'' \<and> list_all shortcode_char name
         then Some name else None)"

definition emojiDisplay :: "emoji_category list \<Rightarrow> (jsstring \<rightharpoonup> custom_emoji) \<Rightarrow> jsstring \<Rightarrow> emoji_display" where
  "emojiDisplay table customs emoji =
     (case shortcodeName emoji of
        None \<Rightarrow> EmojiText emoji
      | Some name \<Rightarrow>
          (case resolveStandardShortcode table name of
             Unicode e \<Rightarrow> EmojiText e
           | InheritedValue \<Rightarrow> EmojiVoid
           | NoValue \<Rightarrow>
               (case customs name of
                  Some custom \<Rightarrow> EmojiImage (em_name custom) (em_url custom)
                | None \<Rightarrow> EmojiText emoji)))"

text \<open>The object of \<open>createMemberNamesMap\<close>: the last member with an id wins; an id is no inherited name.\<close>

definition createMemberNamesMap :: "workspace_member list option \<Rightarrow> jsstring \<rightharpoonup> jsstring" where
  "createMemberNamesMap members = map_of (rev (map (\<lambda>m. (mem_user_id m, mem_display_name m)) (or_empty members)))"

record reaction_button =
  rb_emoji :: jsstring
  rb_shown :: emoji_display
  rb_count :: int
  rb_tooltip :: jsstring
  rb_hasOwn :: bool

definition reactionsDisplay ::
    "emoji_category list \<Rightarrow> (jsstring \<rightharpoonup> custom_emoji) \<Rightarrow> (jsstring \<rightharpoonup> jsstring) \<Rightarrow> reaction_group list \<Rightarrow>
     reaction_button list" where
  "reactionsDisplay table customs memberNames groups =
     map (\<lambda>g. \<lparr>rb_emoji = rg_emoji g, rb_shown = emojiDisplay table customs (rg_emoji g), rb_count = rg_count g,
        rb_tooltip = join (js '', '') (map (\<lambda>i. or_else (memberNames i) (js ''Unknown'')) (rg_userIds g)),
        rb_hasOwn = rg_hasOwn g\<rparr>) groups"

section \<open>Long messages\<close>

definition COLLAPSED_HEIGHT :: int where
  "COLLAPSED_HEIGHT = 600"

text \<open>
  \<open>cm_height\<close> is the \<open>scrollHeight\<close> of the content; \<open>cm_frames\<close> the frames each collapse that is under
  way still waits for.
\<close>

record collapsible =
  cm_height :: int
  cm_isOverflowing :: bool
  cm_isExpanded :: bool
  cm_isAnimating :: bool
  cm_animMaxHeight :: "int option"
  cm_collapsing :: bool
  cm_frames :: "nat list"

definition new_collapsible :: "int \<Rightarrow> collapsible" where
  "new_collapsible height = \<lparr>cm_height = height, cm_isOverflowing = False, cm_isExpanded = False,
     cm_isAnimating = False, cm_animMaxHeight = None, cm_collapsing = False, cm_frames = []\<rparr>"

definition contentResized :: "int \<Rightarrow> collapsible \<Rightarrow> collapsible" where
  "contentResized height s = s\<lparr>cm_height := height, cm_isOverflowing := (height > COLLAPSED_HEIGHT)\<rparr>"

definition handleExpand :: "collapsible \<Rightarrow> collapsible" where
  "handleExpand s = s\<lparr>cm_animMaxHeight := Some (cm_height s), cm_isAnimating := True, cm_isExpanded := True\<rparr>"

definition handleCollapse :: "collapsible \<Rightarrow> collapsible" where
  "handleCollapse s = s\<lparr>cm_collapsing := True, cm_animMaxHeight := Some (cm_height s), cm_isAnimating := True,
     cm_frames := cm_frames s @ [2]\<rparr>"

text \<open>A frame runs the callbacks that wait for it; the inner callback starts the transition.\<close>

definition animationFrame :: "collapsible \<Rightarrow> collapsible" where
  "animationFrame s =
     (let fired = 1 \<in> set (cm_frames s); s1 = s\<lparr>cm_frames := map (\<lambda>_. 1) (filter (\<lambda>n. n = 2) (cm_frames s))\<rparr>
      in if fired then s1\<lparr>cm_animMaxHeight := Some COLLAPSED_HEIGHT, cm_isExpanded := False\<rparr> else s1)"

text \<open>The result tells whether the message is scrolled into view; \<open>rectTop\<close> is where it starts in the window.\<close>

definition handleTransitionEnd :: "jsstring \<Rightarrow> int \<Rightarrow> collapsible \<Rightarrow> collapsible \<times> bool" where
  "handleTransitionEnd propertyName rectTop s =
     (if propertyName \<noteq> js ''max-height'' then (s, False)
      else (s\<lparr>cm_isAnimating := False, cm_animMaxHeight := None, cm_collapsing := False\<rparr>,
            cm_collapsing s \<and> rectTop < 0))"

text \<open>The style of the content: \<open>Limited h b\<close> hides what is below \<open>h\<close>, with a transition if \<open>b\<close>.\<close>

datatype content_style = Unlimited | Limited "int option" bool

definition contentStyle :: "collapsible \<Rightarrow> content_style" where
  "contentStyle s =
     (if cm_isOverflowing s then
        (if cm_isAnimating s then Limited (cm_animMaxHeight s) True
         else if \<not> cm_isExpanded s then Limited (Some COLLAPSED_HEIGHT) False
         else Unlimited)
      else Unlimited)"

definition showGradient :: "collapsible \<Rightarrow> bool" where
  "showGradient s = (cm_isOverflowing s \<and> \<not> cm_isExpanded s \<and> \<not> cm_isAnimating s)"

definition expandButton :: "collapsible \<Rightarrow> jsstring option" where
  "expandButton s =
     (if cm_isOverflowing s then Some (if cm_isExpanded s then js ''Show less'' else js ''Show more'') else None)"

definition pressExpandButton :: "collapsible \<Rightarrow> collapsible" where
  "pressExpandButton s = (if cm_isExpanded s then handleCollapse s else handleExpand s)"

section \<open>Attachments\<close>

text \<open>
  \<open>(a / b).toFixed(1)\<close> for a power of two \<open>b\<close>, where the quotient is exact: the nearest number of tenths, the
  larger one of two.
\<close>

definition toFixed1 :: "int \<Rightarrow> int \<Rightarrow> jsstring" where
  "toFixed1 a b =
     (let tenths = (20 * a + b) div (2 * b)
      in js_nat (nat (tenths div 10)) @ js ''.'' @ js_nat (nat (tenths mod 10)))"

definition webFormatFileSize :: "int \<Rightarrow> jsstring" where
  "webFormatFileSize bytes =
     (if bytes < 1024 then js_nat (nat bytes) @ js '' B''
      else if bytes < 1024 * 1024 then toFixed1 bytes 1024 @ js '' KB''
      else toFixed1 bytes (1024 * 1024) @ js '' MB'')"

definition webIsImageType :: "jsstring \<Rightarrow> bool" where
  "webIsImageType contentType = startsWith contentType (js ''image/'')"

text \<open>A link to a file; without a signed URL it is disabled.\<close>

record file_link =
  fl_href :: jsstring
  fl_download :: jsstring
  fl_disabled :: bool
  fl_size :: jsstring

definition fileAttachment :: "(jsstring \<rightharpoonup> jsstring) \<Rightarrow> attachment \<Rightarrow> file_link" where
  "fileAttachment signedUrl a =
     \<lparr>fl_href = (case signedUrl (at_id a) of Some url \<Rightarrow> url | None \<Rightarrow> js ''#''), fl_download = at_filename a,
      fl_disabled = (\<not> truthy (signedUrl (at_id a))), fl_size = webFormatFileSize (at_size_bytes a)\<rparr>"

text \<open>The carousel; \<open>ic_index\<close> is the state of the mounted component.\<close>

record carousel =
  ic_isOpen :: bool
  ic_key :: nat
  ic_index :: nat

definition new_carousel :: carousel where
  "new_carousel = \<lparr>ic_isOpen = False, ic_key = 0, ic_index = 0\<rparr>"

definition previousImage :: "nat \<Rightarrow> nat \<Rightarrow> nat" where
  "previousImage n i = (if i = 0 then n - 1 else i - 1)"

definition nextImage :: "nat \<Rightarrow> nat \<Rightarrow> nat" where
  "nextImage n i = (if i = n - 1 then 0 else i + 1)"

text \<open>The listener of the window is there while the carousel is open.\<close>

definition carouselKeyDown :: "jsstring \<Rightarrow> nat \<Rightarrow> carousel \<Rightarrow> carousel" where
  "carouselKeyDown key n s =
     (if \<not> ic_isOpen s then s
      else if key = js ''ArrowLeft'' then s\<lparr>ic_index := previousImage n (ic_index s)\<rparr>
      else if key = js ''ArrowRight'' then s\<lparr>ic_index := nextImage n (ic_index s)\<rparr>
      else s)"

definition closeCarousel :: "carousel \<Rightarrow> carousel" where
  "closeCarousel s = s\<lparr>ic_isOpen := False\<rparr>"

text \<open>The new key mounts the carousel anew, at the index chosen.\<close>

definition openCarousel :: "nat \<Rightarrow> carousel \<Rightarrow> carousel" where
  "openCarousel index s = s\<lparr>ic_key := ic_key s + 1, ic_index := index, ic_isOpen := True\<rparr>"

text \<open>What an open carousel shows: the image, its file name, and the counter when there are several.\<close>

definition carouselView :: "attachment list \<Rightarrow> carousel \<Rightarrow> (attachment \<times> (nat \<times> nat) option) option" where
  "carouselView images s =
     (if ic_isOpen s \<and> ic_index s < length images
      then Some (images ! ic_index s, if length images > 1 then Some (ic_index s + 1, length images) else None)
      else None)"

record grid_cell =
  gc_image :: attachment
  gc_opens :: nat
  gc_more :: "int option"
  gc_wide :: bool
  gc_label :: jsstring

definition gridCell :: "attachment list \<Rightarrow> nat \<Rightarrow> grid_cell" where
  "gridCell images index =
     (let showOverlay = length images > 4; isOverlayCell = showOverlay \<and> index = 3;
          remainingCount = int (length images) - 3
      in \<lparr>gc_image = images ! index, gc_opens = (if isOverlayCell then 3 else index),
          gc_more = (if isOverlayCell then Some remainingCount else None),
          gc_wide = (length images = 3 \<and> index = 0),
          gc_label = (if isOverlayCell then js ''View '' @ js_nat (nat remainingCount) @ js '' more images''
            else js ''View '' @ at_filename (images ! index))\<rparr>)"

definition imageGrid :: "attachment list \<Rightarrow> grid_cell list" where
  "imageGrid images =
     (let visibleCount = (if length images > 4 then 4 else length images) in map (gridCell images) [0..<visibleCount])"

datatype image_section = NoImages | SingleImage attachment | ImageGrid "grid_cell list"

definition attachmentDisplay ::
    "(jsstring \<rightharpoonup> jsstring) \<Rightarrow> attachment list option \<Rightarrow> (image_section \<times> file_link list) option" where
  "attachmentDisplay signedUrl attachments =
     (if or_empty attachments = [] then None
      else
        let images = filter (\<lambda>a. webIsImageType (at_content_type a)) (or_empty attachments);
            files = filter (\<lambda>a. \<not> webIsImageType (at_content_type a)) (or_empty attachments)
        in Some (if length images = 1 then SingleImage (hd images)
                 else if length images > 1 then ImageGrid (imageGrid images) else NoImages,
               map (fileAttachment signedUrl) files))"

section \<open>Previews\<close>

datatype preview_type = ExternalPreview | MessagePreview

record link_preview =
  lp_url :: jsstring
  lp_type :: preview_type
  lp_title :: "jsstring option"
  lp_description :: "jsstring option"
  lp_image_url :: "jsstring option"
  lp_site_name :: "jsstring option"
  lp_linked_message_id :: "jsstring option"
  lp_linked_channel_id :: "jsstring option"
  lp_linked_channel_name :: "jsstring option"
  lp_linked_channel_type :: "jsstring option"
  lp_message_author_id :: "jsstring option"
  lp_message_author_name :: "jsstring option"
  lp_message_content :: "jsstring option"
  lp_message_created_at :: "jsstring option"

definition isInaccessible :: "link_preview \<Rightarrow> bool" where
  "isInaccessible p = (lp_linked_channel_type p = Some (js ''inaccessible''))"

definition isDeletedPreview :: "link_preview \<Rightarrow> bool" where
  "isDeletedPreview p = (lp_linked_channel_type p = Some (js ''deleted''))"

text \<open>Where a press on the preview of a message leads.\<close>

definition previewClick :: "jsstring \<Rightarrow> link_preview \<Rightarrow> jsstring option" where
  "previewClick workspaceId p =
     (if isInaccessible p \<or> isDeletedPreview p \<or> \<not> truthy (lp_linked_channel_id p) \<or> \<not> truthy (lp_linked_message_id p)
      then None
      else Some (js ''/workspaces/'' @ workspaceId @ js ''/channels/'' @ the (lp_linked_channel_id p) @
        js ''?msg='' @ the (lp_linked_message_id p)))"

datatype preview_view =
    PreviewNotice jsstring
  | PreviewCard jsstring "jsstring option" "jsstring option" "jsstring option"
  | PreviewLink jsstring "jsstring option" "jsstring option" "jsstring option" "jsstring option"

definition present :: "jsstring option \<Rightarrow> jsstring option" where
  "present v = (if truthy v then v else None)"

text \<open>The author, the channel, the time and the content.\<close>

definition messagePreviewDisplay :: "(jsstring \<Rightarrow> jsstring) \<Rightarrow> link_preview \<Rightarrow> preview_view" where
  "messagePreviewDisplay relativeTime p =
     (if isInaccessible p then PreviewNotice (js ''Message from a private channel'')
      else if isDeletedPreview p then PreviewNotice (js ''This message was deleted'')
      else PreviewCard (or_else (lp_message_author_name p) (js ''Unknown''))
        (map_option (\<lambda>n. js ''#'' @ n) (present (lp_linked_channel_name p)))
        (map_option relativeTime (present (lp_message_created_at p))) (present (lp_message_content p)))"

text \<open>Nothing without a title and a description; an image that failed to load is left out.\<close>

definition linkPreviewDisplay :: "bool \<Rightarrow> link_preview \<Rightarrow> preview_view option" where
  "linkPreviewDisplay imageError p =
     (if \<not> truthy (lp_title p) \<and> \<not> truthy (lp_description p) then None
      else Some (PreviewLink (lp_url p) (if imageError then None else present (lp_image_url p))
        (present (lp_site_name p)) (present (lp_title p)) (present (lp_description p))))"

section \<open>Replies and the latest message\<close>

record replies_indicator =
  ri_avatars :: "(jsstring \<times> jsstring) list"
  ri_label :: jsstring
  ri_last :: "jsstring option"
  ri_opens :: jsstring

text \<open>\<open>AvatarStack\<close> shows three users.\<close>

definition avatarStack :: "nat \<Rightarrow> thread_participant list \<Rightarrow> (jsstring \<times> jsstring) list" where
  "avatarStack mx users = map (\<lambda>u. (tp_user_id u, or_else (tp_display_name u) (js ''User''))) (take mx users)"

definition threadRepliesIndicator :: "(jsstring \<Rightarrow> jsstring) \<Rightarrow> message_with_user \<Rightarrow> replies_indicator option" where
  "threadRepliesIndicator relativeTime m =
     (if msg_reply_count m = 0 then None
      else Some \<lparr>ri_avatars = avatarStack 3 (or_empty (msg_thread_participants m)),
        ri_label = js_nat (nat (msg_reply_count m)) @ js '' '' @
          (if msg_reply_count m = 1 then js ''reply'' else js ''replies''),
        ri_last = map_option (\<lambda>t. js ''Last reply '' @ relativeTime t) (present (msg_last_reply_at m)),
        ri_opens = msg_id m\<rparr>)"

definition jumpBadge :: "nat option \<Rightarrow> jsstring option" where
  "jumpBadge newMessageCount =
     (case newMessageCount of None \<Rightarrow> None
      | Some n \<Rightarrow> if n > 0 then Some (if n > 99 then js ''99+'' else js_nat n) else None)"

section \<open>Facts\<close>

lemma shortcodeName_colons:
  assumes "name \<noteq> []" "list_all shortcode_char name"
  shows "shortcodeName (js '':'' @ name @ js '':'') = Some name"
proof -
  have "js '':'' @ name @ js '':'' = ch CHR '':'' # (name @ [ch CHR '':''])" by (simp add: js_def)
  then show ?thesis using assms by (cases name) (simp_all add: shortcodeName_def Let_def)
qed

text \<open>A reaction is shown as its shortcode is in a message.\<close>

lemma reaction_as_in_message:
  assumes "name \<noteq> []" "list_all shortcode_char name"
  shows "emojiDisplay (wc_table ctx) (wc_customEmojis ctx) (js '':'' @ name @ js '':'') =
    (case webEmoji ctx large name of
       WEmoji _ (Some e) \<Rightarrow> EmojiText e | WEmoji _ None \<Rightarrow> EmojiVoid | WCustomEmoji n u _ \<Rightarrow> EmojiImage n u
     | _ \<Rightarrow> EmojiText (js '':'' @ name @ js '':''))"
  by (simp add: emojiDisplay_def shortcodeName_colons [OF assms] webEmoji_def split: shortcode_value.split option.split)

lemma sizes_agree: "webFormatFileSize = formatFileSize toFixed1"
  by (intro ext) (simp add: webFormatFileSize_def formatFileSize_def)

lemma image_types_agree: "webIsImageType = isImageType"
  by (intro ext) (simp add: webIsImageType_def isImageType_def)

lemma size_rounds_up: "webFormatFileSize 1048575 = js ''1024.0 KB''"
  by (simp add: webFormatFileSize_def toFixed1_def Let_def js_nat.simps js_eval)

subsection \<open>Long messages\<close>

inductive collapsible_step :: "collapsible \<Rightarrow> collapsible \<Rightarrow> bool" where
  "collapsible_step s (contentResized height s)"
| "expandButton s \<noteq> None \<Longrightarrow> collapsible_step s (pressExpandButton s)"
| "collapsible_step s (animationFrame s)"
| "collapsible_step s (fst (handleTransitionEnd name rectTop s))"

inductive_cases collapsible_stepE: "collapsible_step s t"

definition collapsibleInv :: "collapsible \<Rightarrow> bool" where
  "collapsibleInv s =
     ((cm_isAnimating s \<longrightarrow> cm_animMaxHeight s \<noteq> None) \<and> (cm_collapsing s \<longrightarrow> cm_isAnimating s) \<and>
      set (cm_frames s) \<subseteq> {1, 2})"

interpretation collapsibles: machine collapsible_step "\<lambda>s. \<exists>h. s = new_collapsible h" collapsibleInv
proof
  show "collapsibleInv s" if "\<exists>h. s = new_collapsible h" for s
    using that by (auto simp: collapsibleInv_def new_collapsible_def)
  show "collapsibleInv t" if "collapsible_step s t" "collapsibleInv s" for s t
    using that by (elim collapsible_stepE)
      (auto simp: collapsibleInv_def contentResized_def pressExpandButton_def handleExpand_def handleCollapse_def
        animationFrame_def handleTransitionEnd_def Let_def)
qed

text \<open>At rest nothing is cut off but under the gradient, with the button; during an animation there is a height.\<close>

lemma cut_off_with_button:
  assumes "reachable collapsible_step (\<lambda>s. \<exists>h. s = new_collapsible h) s" "contentStyle s = Limited h animated"
  shows "h \<noteq> None \<and> expandButton s \<noteq> None \<and> (\<not> animated \<longrightarrow> showGradient s \<and> expandButton s = Some (js ''Show more''))"
proof -
  have "collapsibleInv s" by (rule collapsibles.always) (rule assms)
  with assms(2) show ?thesis
    by (auto simp: collapsibleInv_def contentStyle_def expandButton_def showGradient_def split: if_splits)
qed

lemma expand_then_end:
  "cm_isOverflowing s \<Longrightarrow> \<not> cm_isExpanded s \<Longrightarrow>
     contentStyle (fst (handleTransitionEnd (js ''max-height'') y (pressExpandButton s))) = Unlimited \<and>
     expandButton (fst (handleTransitionEnd (js ''max-height'') y (pressExpandButton s))) = Some (js ''Show less'')"
  by (simp add: pressExpandButton_def handleExpand_def handleTransitionEnd_def contentStyle_def expandButton_def)

lemma collapse_then_end:
  assumes "cm_isOverflowing s" "cm_isExpanded s" "cm_frames s = []"
  shows "handleTransitionEnd (js ''max-height'') y (animationFrame (animationFrame (pressExpandButton s))) =
    (s\<lparr>cm_isExpanded := False, cm_isAnimating := False, cm_animMaxHeight := None, cm_collapsing := False\<rparr>, y < 0)"
  using assms by (cases s) (simp add: pressExpandButton_def handleCollapse_def animationFrame_def handleTransitionEnd_def)

text \<open>Opening the message again while it closes scrolls to it when it has been opened.\<close>

lemma reopening_scrolls:
  assumes "cm_isOverflowing s" "cm_isExpanded s" "cm_frames s = []"
  shows "snd (handleTransitionEnd (js ''max-height'') y
    (pressExpandButton (animationFrame (animationFrame (pressExpandButton s))))) = (y < 0)"
  using assms by (simp add: pressExpandButton_def handleExpand_def handleCollapse_def animationFrame_def handleTransitionEnd_def)

text \<open>
  A transition that is removed before its end (the content has become short) leaves the animation on: when the
  content grows again, it is cut off at its old height, without a gradient.
\<close>

lemma animation_left_on:
  assumes "h1 \<le> COLLAPSED_HEIGHT" "COLLAPSED_HEIGHT < h2"
  shows "contentStyle (contentResized h2 (contentResized h1 (handleExpand s))) = Limited (Some (cm_height s)) True \<and>
    \<not> showGradient (contentResized h2 (contentResized h1 (handleExpand s)))"
  using assms by (simp add: handleExpand_def contentResized_def contentStyle_def showGradient_def)

subsection \<open>Attachments\<close>

lemma next_mod: "i < n \<Longrightarrow> nextImage n i = (i + 1) mod n"
  by (auto simp: nextImage_def)

lemma nexts_mod: "i < n \<Longrightarrow> (nextImage n ^^ k) i = (i + k) mod n"
proof (induction k)
  case (Suc k)
  then have "(nextImage n ^^ Suc k) i = nextImage n ((i + k) mod n)" by simp
  also have "\<dots> = ((i + k) mod n + 1) mod n" using Suc.prems by (intro next_mod) simp
  finally show ?case by (simp add: mod_Suc_eq)
qed simp

lemma next_reaches: "i < n \<Longrightarrow> j < n \<Longrightarrow> \<exists>k. (nextImage n ^^ k) i = j"
  by (rule exI [of _ "n - i + j"]) (simp add: nexts_mod)

lemma previous_next: "i < n \<Longrightarrow> previousImage n (nextImage n i) = i" "i < n \<Longrightarrow> nextImage n (previousImage n i) = i"
  by (auto simp: previousImage_def nextImage_def)

lemma opens_own_image: "gc_opens (gridCell images i) = i" "gc_image (gridCell images i) = images ! i"
  by (auto simp: gridCell_def Let_def)

lemma length_grid: "length (imageGrid images) = min 4 (length images)"
  by (simp add: imageGrid_def Let_def)

lemma cells_and_rest:
  assumes "c \<in> set (imageGrid images)" "gc_more c = Some rest"
  shows "int (length (filter (\<lambda>d. gc_more d = None) (imageGrid images))) + rest = int (length images)"
proof -
  from assms obtain i where "gc_more (gridCell images i) = Some rest" by (auto simp: imageGrid_def Let_def)
  then have rest: "length images > 4" "rest = int (length images) - 3"
    by (auto simp: gridCell_def Let_def split: if_splits)
  have "[0..<4] = [0, 1, 2, 3::nat]" by (simp add: upt_rec numeral_eq_Suc)
  with rest show ?thesis by (simp add: imageGrid_def gridCell_def Let_def)
qed


definition sample_image :: "jsstring \<Rightarrow> attachment" where
  "sample_image i = \<lparr>at_id = i, at_filename = i @ js ''.png'', at_content_type = js ''image/png'',
     at_size_bytes = 10, at_url = [], at_created_at = []\<rparr>"


end
