(* ===== verification/MessageItemView.thy ===== *)
theory MessageItemView
  imports MessageParts ThreadView
begin

text \<open>
  A message on the web with its actions: \<open>MessageItem.tsx\<close> and \<open>MessageActionBar.tsx\<close> in
  \<open>apps/web/src/components/message/\<close>. The component is a function from an event to the new state, the new
  content of the store of the edited message, and the effects in order; \<open>itemOffers\<close> tells which events the
  screen can produce. The contract of such a component is the locale \<open>message_component\<close>, which the two
  components of the thread panel share (\<open>ThreadPanelView\<close>).
\<close>

section \<open>Properties and state\<close>

text \<open>\<open>mp_preview\<close> is \<open>message.link_preview\<close> as the object it is; \<open>mp_userId\<close> is \<open>user?.id\<close>.\<close>

record message_props =
  mp_message :: message_with_user
  mp_preview :: "link_preview option"
  mp_workspaceId :: "jsstring option"
  mp_userId :: "jsstring option"
  mp_members :: "workspace_member list option"
  mp_origin :: jsstring

record item_props = message_props +
  ip_channelId :: jsstring
  ip_isAdmin :: "bool option"
  ip_canPin :: "bool option"

record message_ui =
  mu_showActions :: bool
  mu_reactionPickerOpen :: bool
  mu_showDropdown :: bool
  mu_showDeleteModal :: bool
  mu_isDeleting :: bool
  mu_menuOpen :: bool
  mu_userMenuOpen :: bool
  mu_deleteTimers :: nat

definition new_message_ui :: message_ui where
  "new_message_ui = \<lparr>mu_showActions = False, mu_reactionPickerOpen = False, mu_showDropdown = False,
     mu_showDeleteModal = False, mu_isDeleting = False, mu_menuOpen = False, mu_userMenuOpen = False,
     mu_deleteTimers = 0\<rparr>"

datatype message_effect =
    AddReactionEffect jsstring
  | RemoveReactionEffect jsstring
  | UpdateEffect jsstring
  | DeleteEffect
  | DeletePreviewEffect
  | MarkUnreadEffect
  | PinEffect
  | UnpinEffect
  | BlockEffect jsstring
  | CreateDMEffect jsstring
  | CopyEffect jsstring
  | ToastEffect jsstring
  | OpenThreadEffect jsstring
  | OpenProfileEffect jsstring
  | NavigateEffect jsstring

type_synonym message_result = "message_ui \<times> editing \<times> message_effect list"

abbreviation messageId :: "'a message_props_scheme \<Rightarrow> jsstring" where
  "messageId p \<equiv> msg_id (mp_message p)"

text \<open>\<open>user?.id === message.user_id\<close>: also when both are undefined.\<close>

definition isOwnMessage :: "'a message_props_scheme \<Rightarrow> bool" where
  "isOwnMessage p = (mp_userId p = msg_user_id (mp_message p))"

definition isDeletedMessage :: "message_with_user \<Rightarrow> bool" where
  "isDeletedMessage m = truthy (msg_deleted_at m)"

definition isEdited :: "message_with_user \<Rightarrow> bool" where
  "isEdited m = truthy (msg_edited_at m)"

definition isPinned :: "message_with_user \<Rightarrow> bool" where
  "isPinned m = truthy (msg_pinned_at m)"

definition canPin :: "item_props \<Rightarrow> bool" where
  "canPin p = (ip_canPin p = Some True)"

definition canDelete :: "item_props \<Rightarrow> bool" where
  "canDelete p = (isOwnMessage p \<or> ip_isAdmin p = Some True)"

section \<open>Handlers\<close>

definition reactionClicked :: "jsstring \<Rightarrow> bool \<Rightarrow> message_effect" where
  "reactionClicked emoji hasOwn = (if hasOwn then RemoveReactionEffect emoji else AddReactionEffect emoji)"

definition itemStartEdit :: "'a message_props_scheme \<Rightarrow> message_ui \<Rightarrow> editing \<Rightarrow> message_result" where
  "itemStartEdit p ui ed = (ui\<lparr>mu_showDropdown := False\<rparr>, setEditingMessageId (messageId p) ed, [])"

definition itemCancelEdit :: "message_ui \<Rightarrow> editing \<Rightarrow> message_result" where
  "itemCancelEdit ui ed = (ui, clearEditingMessageId ed, [])"

definition saveEdit :: "'a message_props_scheme \<Rightarrow> jsstring \<Rightarrow> message_ui \<Rightarrow> editing \<Rightarrow> message_result" where
  "saveEdit p content ui ed =
     (ui, clearEditingMessageId ed,
      if trim content \<noteq> [] \<and> trim content \<noteq> msg_content (mp_message p) then [UpdateEffect (trim content)] else [])"

definition handleDeleteClick :: "message_ui \<Rightarrow> editing \<Rightarrow> message_result" where
  "handleDeleteClick ui ed = (ui\<lparr>mu_showDropdown := False, mu_showDeleteModal := True\<rparr>, ed, [])"

text \<open>In a template, \<open>undefined\<close> is written as such.\<close>

definition pathOf :: "jsstring option \<Rightarrow> jsstring \<Rightarrow> jsstring" where
  "pathOf workspaceId channelId =
     js ''/workspaces/'' @ (case workspaceId of Some w \<Rightarrow> w | None \<Rightarrow> js ''undefined'') @ js ''/channels/'' @ channelId"

definition copied :: "jsstring \<Rightarrow> message_ui \<Rightarrow> editing \<Rightarrow> message_result" where
  "copied url ui ed =
     (ui\<lparr>mu_showDropdown := False\<rparr>, ed, [CopyEffect url, ToastEffect (js ''Link copied to clipboard'')])"

definition handleCopyLink :: "item_props \<Rightarrow> message_ui \<Rightarrow> editing \<Rightarrow> message_result" where
  "handleCopyLink p =
     copied (mp_origin p @ pathOf (mp_workspaceId p) (ip_channelId p) @ js ''?msg='' @ messageId p)"

definition handleTogglePin :: "item_props \<Rightarrow> message_ui \<Rightarrow> editing \<Rightarrow> message_result" where
  "handleTogglePin p ui ed =
     (ui\<lparr>mu_showDropdown := False\<rparr>, ed, [if isPinned (mp_message p) then UnpinEffect else PinEffect])"

definition handleBlockUser :: "item_props \<Rightarrow> message_ui \<Rightarrow> editing \<Rightarrow> message_result" where
  "handleBlockUser p ui ed =
     (ui, ed, if truthy (msg_user_id (mp_message p)) then [BlockEffect (the (msg_user_id (mp_message p)))] else [])"

text \<open>The timer deletes 500 ms later.\<close>

definition handleDeleteConfirm :: "item_props \<Rightarrow> message_ui \<Rightarrow> editing \<Rightarrow> message_result" where
  "handleDeleteConfirm p ui ed =
     (let ui1 = ui\<lparr>mu_showDeleteModal := False\<rparr>
      in if msg_reply_count (mp_message p) > 0 then (ui1, ed, [DeleteEffect])
         else (ui1\<lparr>mu_isDeleting := True, mu_deleteTimers := mu_deleteTimers ui1 + 1\<rparr>, ed, []))"

section \<open>Menus\<close>

datatype message_action = ReplyAction | CopyLinkAction | MarkUnreadAction | PinAction | EditAction | DeleteAction

datatype user_action = ViewProfileAction | SendMessageAction | BlockAction

text \<open>The bar: its reply button, and the items of its menu.\<close>

record action_bar =
  ab_reply :: bool
  ab_items :: "(jsstring \<times> message_action) list"

definition messageActionBar :: "bool \<Rightarrow> bool \<Rightarrow> bool \<Rightarrow> bool \<Rightarrow> bool \<Rightarrow> action_bar" where
  "messageActionBar onReplyClick onPin onEdit onDelete pinned =
     \<lparr>ab_reply = onReplyClick,
      ab_items = [(js ''Copy link to message'', CopyLinkAction), (js ''Mark unread'', MarkUnreadAction)] @
        (if onPin then [(if pinned then js ''Unpin message'' else js ''Pin message'', PinAction)] else []) @
        (if onEdit then [(js ''Edit message'', EditAction)] else []) @
        (if onDelete then [(js ''Delete message'', DeleteAction)] else [])\<rparr>"

definition itemBar :: "item_props \<Rightarrow> action_bar" where
  "itemBar p = messageActionBar True (canPin p) (isOwnMessage p) (canDelete p) (isPinned (mp_message p))"

definition itemMenu :: "item_props \<Rightarrow> (jsstring \<times> message_action) list" where
  "itemMenu p =
     [(js ''Reply in Thread'', ReplyAction), (js ''Copy Link'', CopyLinkAction), (js ''Mark Unread'', MarkUnreadAction)] @
     (if canPin p then [(if isPinned (mp_message p) then js ''Unpin Message'' else js ''Pin Message'', PinAction)] else []) @
     (if isOwnMessage p \<or> canDelete p
      then (if isOwnMessage p then [(js ''Edit Message'', EditAction)] else []) @ [(js ''Delete Message'', DeleteAction)]
      else [])"

definition itemUserMenu :: "item_props \<Rightarrow> user_action list" where
  "itemUserMenu p =
     (if truthy (msg_user_id (mp_message p))
      then [ViewProfileAction, SendMessageAction] @ (if isOwnMessage p then [] else [BlockAction]) else [])"

section \<open>Events\<close>

datatype message_event =
    PointerMoved
  | PointerLeft
  | MenuToggled bool
  | UserMenuToggled bool
  | PickerToggled bool
  | DropdownToggled bool
  | EmojiPicked jsstring
  | ReactionPressed jsstring bool
  | ActionChosen message_action
  | UserActionChosen user_action
  | EditCancelled
  | EditSaved jsstring
  | DeleteCancelled
  | DeleteConfirmed
  | DeleteTimerFired
  | PinFailed bool
  | BlockAnswered bool
  | DMAnswered "jsstring option"
  | PreviewDismissed
  | RepliedToPressed
  | RepliesPressed
  | NamePressed

definition itemAction :: "item_props \<Rightarrow> message_action \<Rightarrow> message_ui \<Rightarrow> editing \<Rightarrow> message_result" where
  "itemAction p a ui ed =
     (case a of
        ReplyAction \<Rightarrow> (ui, ed, [OpenThreadEffect (messageId p)])
      | CopyLinkAction \<Rightarrow> handleCopyLink p ui ed
      | MarkUnreadAction \<Rightarrow> (ui, ed, [MarkUnreadEffect])
      | PinAction \<Rightarrow> handleTogglePin p ui ed
      | EditAction \<Rightarrow> itemStartEdit p ui ed
      | DeleteAction \<Rightarrow> handleDeleteClick ui ed)"

definition sendMessageAction :: "'a message_props_scheme \<Rightarrow> message_effect list" where
  "sendMessageAction p =
     (if truthy (mp_workspaceId p) then [CreateDMEffect (the (msg_user_id (mp_message p)))] else [])"

definition dmAnswered :: "'a message_props_scheme \<Rightarrow> jsstring option \<Rightarrow> message_effect" where
  "dmAnswered p result =
     (case result of Some channelId \<Rightarrow> NavigateEffect (pathOf (mp_workspaceId p) channelId)
      | None \<Rightarrow> ToastEffect (js ''Failed to start conversation''))"

definition pointerLeft :: "message_ui \<Rightarrow> message_ui" where
  "pointerLeft ui =
     (if \<not> mu_showDropdown ui \<and> \<not> mu_reactionPickerOpen ui \<and> \<not> mu_menuOpen ui
      then ui\<lparr>mu_showActions := False\<rparr> else ui)"

definition profileEffects :: "'a message_props_scheme \<Rightarrow> message_effect list" where
  "profileEffects p =
     (if truthy (msg_user_id (mp_message p)) then [OpenProfileEffect (the (msg_user_id (mp_message p)))] else [])"

text \<open>What the three components have in common; a menu closes when one of its items is chosen.\<close>

fun commonEvent :: "'a message_props_scheme \<Rightarrow> message_event \<Rightarrow> message_ui \<Rightarrow> editing \<Rightarrow> message_result" where
  "commonEvent p PointerMoved ui ed = (ui\<lparr>mu_showActions := True\<rparr>, ed, [])"
| "commonEvent p PointerLeft ui ed = (pointerLeft ui, ed, [])"
| "commonEvent p (MenuToggled b) ui ed = (ui\<lparr>mu_menuOpen := b\<rparr>, ed, [])"
| "commonEvent p (UserMenuToggled b) ui ed = (ui\<lparr>mu_userMenuOpen := b\<rparr>, ed, [])"
| "commonEvent p (PickerToggled b) ui ed = (ui\<lparr>mu_reactionPickerOpen := b\<rparr>, ed, [])"
| "commonEvent p (DropdownToggled b) ui ed = (ui\<lparr>mu_showDropdown := b\<rparr>, ed, [])"
| "commonEvent p (EmojiPicked e) ui ed = (ui\<lparr>mu_reactionPickerOpen := False\<rparr>, ed, [AddReactionEffect e])"
| "commonEvent p (ReactionPressed e hasOwn) ui ed = (ui, ed, [reactionClicked e hasOwn])"
| "commonEvent p EditCancelled ui ed = itemCancelEdit ui ed"
| "commonEvent p (EditSaved content) ui ed = saveEdit p content ui ed"
| "commonEvent p DeleteCancelled ui ed = (ui\<lparr>mu_showDeleteModal := False\<rparr>, ed, [])"
| "commonEvent p (DMAnswered result) ui ed = (ui, ed, [dmAnswered p result])"
| "commonEvent p PreviewDismissed ui ed = (ui, ed, [DeletePreviewEffect])"
| "commonEvent p NamePressed ui ed = (ui, ed, profileEffects p)"
| "commonEvent p _ ui ed = (ui, ed, [])"

fun itemEvent :: "item_props \<Rightarrow> message_event \<Rightarrow> message_ui \<Rightarrow> editing \<Rightarrow> message_result" where
  "itemEvent p (ActionChosen a) ui ed = itemAction p a (ui\<lparr>mu_menuOpen := False, mu_showDropdown := False\<rparr>) ed"
| "itemEvent p (UserActionChosen a) ui ed =
     (let ui1 = ui\<lparr>mu_userMenuOpen := False\<rparr>
      in case a of ViewProfileAction \<Rightarrow> (ui1, ed, profileEffects p)
         | SendMessageAction \<Rightarrow> (ui1, ed, sendMessageAction p)
         | BlockAction \<Rightarrow> handleBlockUser p ui1 ed)"
| "itemEvent p DeleteConfirmed ui ed = handleDeleteConfirm p ui ed"
| "itemEvent p DeleteTimerFired ui ed = (ui\<lparr>mu_deleteTimers := mu_deleteTimers ui - 1\<rparr>, ed, [DeleteEffect])"
| "itemEvent p (PinFailed wasPinned) ui ed =
     (ui, ed, [ToastEffect (if wasPinned then js ''Failed to unpin message'' else js ''Failed to pin message'')])"
| "itemEvent p (BlockAnswered ok) ui ed =
     (ui, ed, [ToastEffect (if ok then js ''User blocked'' else js ''Failed to block user'')])"
| "itemEvent p RepliedToPressed ui ed =
     (ui, ed, case msg_thread_parent_id (mp_message p) of Some t \<Rightarrow> [OpenThreadEffect t] | None \<Rightarrow> [])"
| "itemEvent p RepliesPressed ui ed = (ui, ed, [OpenThreadEffect (messageId p)])"
| "itemEvent p ev ui ed = commonEvent p ev ui ed"

section \<open>What is shown\<close>

text \<open>What the host and the queries give: times, signed URLs, the emojis, whether the image of a preview failed.\<close>

record message_host =
  mh_time :: "jsstring \<Rightarrow> jsstring"
  mh_relativeTime :: "jsstring \<Rightarrow> jsstring"
  mh_signedUrl :: "jsstring \<rightharpoonup> jsstring"
  mh_table :: "emoji_category list"
  mh_customs :: "jsstring \<rightharpoonup> custom_emoji"
  mh_imageError :: bool

datatype edited_badge = NoBadge | InlineBadge | BadgeAlone

record content_body =
  cb_content :: "jsstring option"
  cb_badge :: edited_badge
  cb_attachments :: "(image_section \<times> file_link list) option"
  cb_preview :: "preview_view option"
  cb_dismissable :: bool

datatype message_body = EditorBody jsstring | ContentBody content_body

definition editedBadge :: "message_with_user \<Rightarrow> edited_badge" where
  "editedBadge m =
     (if \<not> isEdited m then NoBadge else if msg_content m \<noteq> [] then InlineBadge else BadgeAlone)"

definition previewView :: "message_host \<Rightarrow> link_preview \<Rightarrow> preview_view option" where
  "previewView h p =
     (if lp_type p = MessagePreview then Some (messagePreviewDisplay (mh_relativeTime h) p)
      else linkPreviewDisplay (mh_imageError h) p)"

definition messageBody :: "message_host \<Rightarrow> 'a message_props_scheme \<Rightarrow> editing \<Rightarrow> message_body" where
  "messageBody h p ed =
     (let m = mp_message p; shown = (case mp_preview p of None \<Rightarrow> None | Some lp \<Rightarrow> previewView h lp)
      in if useIsEditingMessage (msg_id m) ed then EditorBody (msg_content m)
         else ContentBody \<lparr>cb_content = (if msg_content m \<noteq> [] then Some (msg_content m) else None),
           cb_badge = editedBadge m, cb_attachments = attachmentDisplay (mh_signedUrl h) (msg_attachments m),
           cb_preview = shown, cb_dismissable = (shown \<noteq> None \<and> isOwnMessage p)\<rparr>)"

datatype message_background =
  DeletingBackground | EditingBackground | PinnedBackground | MenuBackground | PlainBackground

definition itemBackground :: "item_props \<Rightarrow> message_ui \<Rightarrow> editing \<Rightarrow> message_background" where
  "itemBackground p ui ed =
     (if mu_isDeleting ui then DeletingBackground
      else if useIsEditingMessage (messageId p) ed then EditingBackground
      else if isPinned (mp_message p) then PinnedBackground
      else if mu_showDropdown ui \<or> mu_menuOpen ui then MenuBackground else PlainBackground)"

record message_view =
  mv_background :: message_background
  mv_label :: "jsstring option"
  mv_name :: jsstring
  mv_profile :: "jsstring option"
  mv_time :: jsstring
  mv_repliedTo :: "jsstring option"
  mv_body :: message_body
  mv_reactions :: "reaction_button list"
  mv_replies :: "replies_indicator option"
  mv_bar :: "action_bar option"
  mv_menu :: "(jsstring \<times> message_action) list"
  mv_userMenu :: "user_action list"
  mv_modal :: bool

text \<open>\<open>CrashedItem\<close>: grouping the reactions raised an error.\<close>

datatype item_view = HiddenItem | DeletedItem "replies_indicator option" | CrashedItem | ShownItem message_view

definition pinnedBy :: "item_props \<Rightarrow> jsstring option" where
  "pinnedBy p =
     (if isPinned (mp_message p)
      then Some (js ''Pinned by '' @
        (case find (\<lambda>m. Some (mem_user_id m) = msg_pinned_by (mp_message p)) (or_empty (mp_members p)) of
           Some m \<Rightarrow> mem_display_name m | None \<Rightarrow> js ''a member''))
      else None)"

definition barShown :: "'a message_props_scheme \<Rightarrow> message_ui \<Rightarrow> editing \<Rightarrow> bool" where
  "barShown p ui ed = (mu_showActions ui \<and> \<not> useIsEditingMessage (messageId p) ed)"

definition itemView :: "message_host \<Rightarrow> item_props \<Rightarrow> message_ui \<Rightarrow> editing \<Rightarrow> item_view" where
  "itemView h p ui ed =
     (let m = mp_message p; names = createMemberNamesMap (mp_members p);
          replies = threadRepliesIndicator (mh_relativeTime h) m
      in case groupReactionsByEmoji (msg_reactions m) (mp_userId p) of None \<Rightarrow> CrashedItem
         | Some groups \<Rightarrow>
             if isDeletedMessage m then (if msg_reply_count m = 0 then HiddenItem else DeletedItem replies)
             else ShownItem
               \<lparr>mv_background = itemBackground p ui ed, mv_label = pinnedBy p,
                mv_name = or_else (msg_user_display_name m) (js ''Unknown User''),
                mv_profile = present (msg_user_id m), mv_time = mh_time h (msg_created_at m),
                mv_repliedTo = (if truthy (msg_thread_parent_id m) \<and> msg_also_send_to_channel m = Some True \<and>
                    \<not> useIsEditingMessage (msg_id m) ed then msg_thread_parent_id m else None),
                mv_body = messageBody h p ed,
                mv_reactions = reactionsDisplay (mh_table h) (mh_customs h) names groups,
                mv_replies = replies, mv_bar = (if barShown p ui ed then Some (itemBar p) else None),
                mv_menu = (if mu_menuOpen ui then itemMenu p else []),
                mv_userMenu = (if mu_userMenuOpen ui then itemUserMenu p else []), mv_modal = mu_showDeleteModal ui\<rparr>)"

text \<open>Which events a shown message can produce, by its bar and its menus.\<close>

definition shownOffers ::
    "action_bar \<Rightarrow> (jsstring \<times> message_action) list \<Rightarrow> user_action list \<Rightarrow> 'a message_props_scheme \<Rightarrow> message_ui \<Rightarrow>
     editing \<Rightarrow> message_event \<Rightarrow> bool" where
  "shownOffers bar menu userMenu p ui ed ev =
     (let isEditing = useIsEditingMessage (messageId p) ed; m = mp_message p
      in case ev of
           EmojiPicked _ \<Rightarrow> barShown p ui ed \<and> mu_reactionPickerOpen ui
         | ActionChosen a \<Rightarrow> (mu_menuOpen ui \<and> a \<in> snd ` set menu) \<or>
             (barShown p ui ed \<and> ((a = ReplyAction \<and> ab_reply bar) \<or> (mu_showDropdown ui \<and> a \<in> snd ` set (ab_items bar))))
         | UserActionChosen a \<Rightarrow> mu_userMenuOpen ui \<and> a \<in> set userMenu
         | EditCancelled \<Rightarrow> isEditing
         | EditSaved _ \<Rightarrow> isEditing
         | DeleteCancelled \<Rightarrow> mu_showDeleteModal ui
         | DeleteConfirmed \<Rightarrow> mu_showDeleteModal ui
         | PreviewDismissed \<Rightarrow> \<not> isEditing \<and> mp_preview p \<noteq> None \<and> isOwnMessage p
         | RepliedToPressed \<Rightarrow> truthy (msg_thread_parent_id m) \<and> msg_also_send_to_channel m = Some True \<and> \<not> isEditing
         | RepliesPressed \<Rightarrow> msg_reply_count m \<noteq> 0
         | NamePressed \<Rightarrow> truthy (msg_user_id m)
         | _ \<Rightarrow> True)"

definition itemOffers :: "item_props \<Rightarrow> message_ui \<Rightarrow> editing \<Rightarrow> message_event \<Rightarrow> bool" where
  "itemOffers p ui ed ev =
     (case ev of
        DeleteTimerFired \<Rightarrow> mu_deleteTimers ui > 0
      | PinFailed _ \<Rightarrow> True
      | BlockAnswered _ \<Rightarrow> True
      | DMAnswered _ \<Rightarrow> True
      | _ \<Rightarrow> if isDeletedMessage (mp_message p) then ev = RepliesPressed \<and> msg_reply_count (mp_message p) \<noteq> 0
             else shownOffers (itemBar p) (itemMenu p) (itemUserMenu p) p ui ed ev)"

section \<open>The machine of a component\<close>

text \<open>
  A mounted component with the history of its events and effects. Its message may change, and so may the store of
  the edited message, which the composer sets as well - for this message only when it is an own one.
\<close>

record 'p message_component =
  co_props :: 'p
  co_ui :: message_ui
  co_editing :: editing
  co_events :: "message_event list"
  co_effects :: "message_effect list"

definition mounted :: "'p message_component \<Rightarrow> bool" where
  "mounted s \<longleftrightarrow> co_ui s = new_message_ui \<and> co_editing s = None \<and> co_events s = [] \<and> co_effects s = []"

definition sameRights :: "item_props \<Rightarrow> item_props \<Rightarrow> bool" where
  "sameRights p q \<longleftrightarrow> messageId q = messageId p \<and> msg_user_id (mp_message q) = msg_user_id (mp_message p) \<and>
     mp_userId q = mp_userId p \<and> ip_isAdmin q = ip_isAdmin p \<and> ip_canPin q = ip_canPin p"

inductive component_step ::
    "('p \<Rightarrow> message_event \<Rightarrow> message_ui \<Rightarrow> editing \<Rightarrow> message_result) \<Rightarrow>
     ('p \<Rightarrow> message_ui \<Rightarrow> editing \<Rightarrow> message_event \<Rightarrow> bool) \<Rightarrow> ('p \<Rightarrow> 'p \<Rightarrow> bool) \<Rightarrow> ('p \<Rightarrow> editing \<Rightarrow> bool) \<Rightarrow>
     'p message_component \<Rightarrow> 'p message_component \<Rightarrow> bool" for handle offers same editable where
  event: "offers (co_props s) (co_ui s) (co_editing s) ev \<Longrightarrow>
     handle (co_props s) ev (co_ui s) (co_editing s) = (ui, ed, effs) \<Longrightarrow>
     component_step handle offers same editable s
       (s\<lparr>co_ui := ui, co_editing := ed, co_events := ev # co_events s, co_effects := effs @ co_effects s\<rparr>)"
| props: "same (co_props s) p \<Longrightarrow> component_step handle offers same editable s (s\<lparr>co_props := p\<rparr>)"
| elsewhere: "editable (co_props s) ed \<Longrightarrow> component_step handle offers same editable s (s\<lparr>co_editing := ed\<rparr>)"

definition editsOwn :: "'a message_props_scheme \<Rightarrow> editing \<Rightarrow> bool" where
  "editsOwn p ed \<longleftrightarrow> (ed = Some (messageId p) \<longrightarrow> isOwnMessage p)"

inductive_cases component_stepE: "component_step handle offers same editable s t"

section \<open>The contract of a component\<close>

text \<open>
  What a message may request: a change only of an own message, and not to nothing; pinning and blocking with the
  right to; the removal of a preview of an own message.
\<close>

fun effectAllowed :: "bool \<Rightarrow> bool \<Rightarrow> message_effect \<Rightarrow> bool" where
  "effectAllowed own pinnable (UpdateEffect c) = (own \<and> c \<noteq> [])"
| "effectAllowed own pinnable DeletePreviewEffect = own"
| "effectAllowed own pinnable PinEffect = pinnable"
| "effectAllowed own pinnable UnpinEffect = pinnable"
| "effectAllowed own pinnable (BlockEffect u) = (\<not> own)"
| "effectAllowed own pinnable _ = True"

locale message_contract =
  fixes handle :: "'p \<Rightarrow> message_event \<Rightarrow> message_ui \<Rightarrow> editing \<Rightarrow> message_result"
    and offers :: "'p \<Rightarrow> message_ui \<Rightarrow> editing \<Rightarrow> message_event \<Rightarrow> bool"
    and same :: "'p \<Rightarrow> 'p \<Rightarrow> bool" and ident :: "'p \<Rightarrow> jsstring"
    and own :: "'p \<Rightarrow> bool" and deletable :: "'p \<Rightarrow> bool" and pinnable :: "'p \<Rightarrow> bool"
  assumes rights: "same p q \<Longrightarrow> ident q = ident p \<and> own q = own p \<and> deletable q = deletable p \<and> pinnable q = pinnable p"
    and edits: "offers p ui ed ev \<Longrightarrow> handle p ev ui ed = (ui', ed', effs) \<Longrightarrow>
      ed' = ed \<or> ed' = None \<or> ed' = Some (ident p) \<and> own p"
    and effects: "offers p ui ed ev \<Longrightarrow> handle p ev ui ed = (ui', ed', effs) \<Longrightarrow>
      (ed = Some (ident p) \<Longrightarrow> own p) \<Longrightarrow> x \<in> set effs \<Longrightarrow> effectAllowed (own p) (pinnable p) x"
    and deletes: "offers p ui ed ev \<Longrightarrow> handle p ev ui ed = (ui', ed', effs) \<Longrightarrow>
      count_list effs DeleteEffect + mu_deleteTimers ui' = mu_deleteTimers ui + (if ev = DeleteConfirmed then 1 else 0)"
    and modal: "offers p ui ed ev \<Longrightarrow> handle p ev ui ed = (ui', ed', effs) \<Longrightarrow> mu_showDeleteModal ui' \<Longrightarrow>
      mu_showDeleteModal ui \<and> ev \<noteq> DeleteConfirmed \<or> ev = ActionChosen DeleteAction"
    and confirm: "offers p ui ed DeleteConfirmed \<Longrightarrow> mu_showDeleteModal ui"
    and choose: "offers p ui ed (ActionChosen DeleteAction) \<Longrightarrow> deletable p"
begin

definition componentInv :: "'p message_component \<Rightarrow> bool" where
  "componentInv s \<longleftrightarrow>
     (co_editing s = Some (ident (co_props s)) \<longrightarrow> own (co_props s)) \<and>
     (\<forall>x \<in> set (co_effects s). effectAllowed (own (co_props s)) (pinnable (co_props s)) x) \<and>
     count_list (co_effects s) DeleteEffect + mu_deleteTimers (co_ui s) = count_list (co_events s) DeleteConfirmed \<and>
     count_list (co_events s) DeleteConfirmed + (if mu_showDeleteModal (co_ui s) then 1 else 0) \<le>
       count_list (co_events s) (ActionChosen DeleteAction) \<and>
     (ActionChosen DeleteAction \<in> set (co_events s) \<longrightarrow> deletable (co_props s))"

lemma event_inv:
  assumes "offers (co_props s) (co_ui s) (co_editing s) ev"
    and "handle (co_props s) ev (co_ui s) (co_editing s) = (ui, ed, effs)" and "componentInv s"
  shows "componentInv (s\<lparr>co_ui := ui, co_editing := ed, co_events := ev # co_events s, co_effects := effs @ co_effects s\<rparr>)"
proof -
  note step = assms(1,2)
  have "x \<in> set effs \<Longrightarrow> effectAllowed (own (co_props s)) (pinnable (co_props s)) x" for x
    using effects [OF step] assms(3) by (simp add: componentInv_def)
  moreover have "ed = Some (ident (co_props s)) \<Longrightarrow> own (co_props s)"
    using edits [OF step] assms(3) by (auto simp: componentInv_def)
  moreover have "count_list (effs @ co_effects s) DeleteEffect + mu_deleteTimers ui = count_list (ev # co_events s) DeleteConfirmed"
    using deletes [OF step] assms(3) by (auto simp: componentInv_def)
  moreover have "count_list (ev # co_events s) DeleteConfirmed + (if mu_showDeleteModal ui then 1 else 0) \<le>
      count_list (ev # co_events s) (ActionChosen DeleteAction)"
    using modal [OF step] confirm assms(1,3) by (auto simp: componentInv_def split: if_splits)
  moreover have "ActionChosen DeleteAction \<in> set (ev # co_events s) \<Longrightarrow> deletable (co_props s)"
    using choose assms(1,3) by (auto simp: componentInv_def)
  ultimately show ?thesis using assms(3) by (auto simp: componentInv_def)
qed

abbreviation editable :: "'p \<Rightarrow> editing \<Rightarrow> bool" where
  "editable p ed \<equiv> (ed = Some (ident p) \<longrightarrow> own p)"

lemma step_inv: "component_step handle offers same editable s t \<Longrightarrow> componentInv s \<Longrightarrow> componentInv t"
proof (erule component_stepE)
  show "componentInv t" if "componentInv s" "t = s\<lparr>co_ui := ui, co_editing := ed, co_events := ev # co_events s, co_effects := effs @ co_effects s\<rparr>"
    "offers (co_props s) (co_ui s) (co_editing s) ev" "handle (co_props s) ev (co_ui s) (co_editing s) = (ui, ed, effs)"
    for ev ui ed effs using that event_inv [OF that(3,4,1)] by simp
  show "componentInv t" if "componentInv s" "t = s\<lparr>co_props := p\<rparr>" "same (co_props s) p" for p
    using that(1,2) rights [OF that(3)] by (simp add: componentInv_def)
  show "componentInv t" if "componentInv s" "t = s\<lparr>co_editing := ed\<rparr>" "editable (co_props s) ed" for ed
    using that by (simp add: componentInv_def)
qed

lemma mounted_inv: "mounted s \<Longrightarrow> componentInv s"
  by (simp add: componentInv_def mounted_def new_message_ui_def)

text \<open>The summary the properties state.\<close>

lemma requests_allowed:
  assumes "reachable (component_step handle offers same editable) mounted s"
  shows "(\<forall>x \<in> set (co_effects s). effectAllowed (own (co_props s)) (pinnable (co_props s)) x) \<and>
    count_list (co_effects s) DeleteEffect + mu_deleteTimers (co_ui s) = count_list (co_events s) DeleteConfirmed \<and>
    count_list (co_events s) DeleteConfirmed \<le> count_list (co_events s) (ActionChosen DeleteAction) \<and>
    (DeleteEffect \<in> set (co_effects s) \<longrightarrow> deletable (co_props s))"
proof -
  have "machine (component_step handle offers same editable) mounted componentInv"
    by unfold_locales (auto intro: step_inv mounted_inv)
  from machine.always [OF this assms] have inv: "componentInv s" .
  have "DeleteEffect \<in> set (co_effects s) \<Longrightarrow> deletable (co_props s)"
  proof -
    assume "DeleteEffect \<in> set (co_effects s)"
    then have "count_list (co_effects s) DeleteEffect > 0" by (metis count_list_0_iff gr0I)
    with inv have "count_list (co_events s) (ActionChosen DeleteAction) > 0" by (auto simp: componentInv_def split: if_splits)
    then have "ActionChosen DeleteAction \<in> set (co_events s)" by (metis count_list_0_iff less_irrefl)
    with inv show ?thesis by (simp add: componentInv_def)
  qed
  with inv show ?thesis by (auto simp: componentInv_def split: if_splits)
qed

end

section \<open>The message item fulfils it\<close>

lemmas message_handlers = reactionClicked_def itemStartEdit_def itemCancelEdit_def saveEdit_def handleDeleteClick_def
  copied_def setEditingMessageId_def clearEditingMessageId_def dmAnswered_def pointerLeft_def profileEffects_def
  sendMessageAction_def useIsEditingMessage_def

lemmas item_handlers = message_handlers handleCopyLink_def handleTogglePin_def handleBlockUser_def handleDeleteConfirm_def
  itemAction_def

lemmas item_menus = shownOffers_def itemBar_def itemMenu_def itemUserMenu_def messageActionBar_def

interpretation items: message_contract itemEvent itemOffers sameRights messageId isOwnMessage canDelete canPin
proof
  fix p q :: item_props and ui ui' :: message_ui and ed ed' :: editing and ev effs x
  show "messageId q = messageId p \<and> isOwnMessage q = isOwnMessage p \<and> canDelete q = canDelete p \<and> canPin q = canPin p"
    if "sameRights p q" using that by (auto simp: sameRights_def isOwnMessage_def canDelete_def canPin_def)
  show "itemOffers p ui ed DeleteConfirmed \<Longrightarrow> mu_showDeleteModal ui"
    by (simp add: itemOffers_def shownOffers_def split: if_splits)
  show "itemOffers p ui ed (ActionChosen DeleteAction) \<Longrightarrow> canDelete p"
    by (auto simp: itemOffers_def item_menus canDelete_def split: if_splits)
  assume offered: "itemOffers p ui ed ev" and handled: "itemEvent p ev ui ed = (ui', ed', effs)"
  show "ed' = ed \<or> ed' = None \<or> ed' = Some (messageId p) \<and> isOwnMessage p"
    using offered handled by (cases "(p, ev, ui, ed)" rule: itemEvent.cases)
      (auto simp: item_handlers item_menus itemOffers_def Let_def split: if_splits message_action.splits user_action.splits)
  show "effectAllowed (isOwnMessage p) (canPin p) x" if "ed = Some (messageId p) \<Longrightarrow> isOwnMessage p" "x \<in> set effs"
    using that offered handled by (cases "(p, ev, ui, ed)" rule: itemEvent.cases)
      (auto simp: item_handlers item_menus itemOffers_def Let_def
        split: if_splits message_action.splits user_action.splits option.splits)
  show "count_list effs DeleteEffect + mu_deleteTimers ui' = mu_deleteTimers ui + (if ev = DeleteConfirmed then 1 else 0)"
    using offered handled by (cases "(p, ev, ui, ed)" rule: itemEvent.cases)
      (auto simp: item_handlers itemOffers_def Let_def split: if_splits message_action.splits user_action.splits option.splits)
  show "mu_showDeleteModal ui \<and> ev \<noteq> DeleteConfirmed \<or> ev = ActionChosen DeleteAction" if "mu_showDeleteModal ui'"
    using that offered handled by (cases "(p, ev, ui, ed)" rule: itemEvent.cases)
      (auto simp: item_handlers itemOffers_def Let_def split: if_splits message_action.splits user_action.splits option.splits)
qed

text \<open>The bar and the context menu offer the same actions.\<close>

lemma menus_agree: "snd ` set (itemMenu p) = insert ReplyAction (snd ` set (ab_items (itemBar p)))"
  by (cases "canPin p"; cases "isOwnMessage p"; cases "ip_isAdmin p = Some True")
    (auto simp: itemMenu_def itemBar_def messageActionBar_def canDelete_def)

text \<open>
  A message without replies that is deleted is made invisible first; no event makes it visible again, also when the
  request fails.
\<close>

lemma deleting_stays: "mu_isDeleting ui \<Longrightarrow> mu_isDeleting (fst (itemEvent p ev ui ed))"
  by (cases "(p, ev, ui, ed)" rule: itemEvent.cases)
    (auto simp: item_handlers Let_def split: message_action.split user_action.split)

lemma deleting_from_confirm:
  "msg_reply_count (mp_message p) \<le> 0 \<Longrightarrow> mu_isDeleting (fst (itemEvent p DeleteConfirmed ui ed)) \<and>
     snd (snd (itemEvent p DeleteConfirmed ui ed)) = []"
  by (simp add: handleDeleteConfirm_def Let_def)

text \<open>The text of an edit that is saved is gone from the component, whatever becomes of the request.\<close>

lemma saved_edit_closes: "useIsEditingMessage (messageId p) (fst (snd (itemEvent p (EditSaved content) ui ed))) = False"
  by (simp add: saveEdit_def clearEditingMessageId_def useIsEditingMessage_def)

lemma editsOwn_eq: "editsOwn = (\<lambda>p ed. ed = Some (messageId p) \<longrightarrow> isOwnMessage p)"
  by (intro ext) (simp add: editsOwn_def)

section \<open>Properties\<close>

text \<open>C36: whatever is pressed, moved and answered on a message, a change is requested only of an own message and never
  to nothing, a pin only with the right to, a block only of another user, the removal of a preview only from an own
  message; and every deletion has been chosen from a menu by somebody who may and been confirmed, once each.\<close>

theorem item_requests_allowed:
  assumes "reachable (component_step itemEvent itemOffers sameRights editsOwn) mounted s"
  shows "(\<forall>x \<in> set (co_effects s). effectAllowed (isOwnMessage (co_props s)) (canPin (co_props s)) x) \<and>
    count_list (co_effects s) DeleteEffect + mu_deleteTimers (co_ui s) = count_list (co_events s) DeleteConfirmed \<and>
    count_list (co_events s) DeleteConfirmed \<le> count_list (co_events s) (ActionChosen DeleteAction) \<and>
    (DeleteEffect \<in> set (co_effects s) \<longrightarrow> canDelete (co_props s))"
  using assms by (intro items.requests_allowed) (simp add: editsOwn_eq)

definition sample_item :: item_props where
  "sample_item = \<lparr>mp_message = sample_message (js ''A'') (js ''me'') None 0, mp_preview = None,
     mp_workspaceId = Some (js ''W''), mp_userId = Some (js ''me''), mp_members = None, mp_origin = js ''o'',
     ip_channelId = js ''C'', ip_isAdmin = None, ip_canPin = None\<rparr>"

lemma item_requests_allowed_witness:
  "\<exists>s :: item_props message_component. DeleteEffect \<in> set (co_effects s) \<and> co_props s = sample_item \<and> canDelete (co_props s) \<and>
     count_list (co_events s) DeleteConfirmed = 1"
proof -
  define s0 where "s0 = \<lparr>co_props = sample_item, co_ui = new_message_ui, co_editing = None, co_events = [], co_effects = []\<rparr>"
  define fire where "fire ev s = (case itemEvent (co_props s) ev (co_ui s) (co_editing s) of (ui, ed, effs) \<Rightarrow>
    s\<lparr>co_ui := ui, co_editing := ed, co_events := ev # co_events s, co_effects := effs @ co_effects s\<rparr>)" for ev and s :: "item_props message_component"
  define s1 where "s1 = fire (MenuToggled True) s0"
  define s2 where "s2 = fire (ActionChosen DeleteAction) s1"
  define s3 where "s3 = fire DeleteConfirmed s2"
  define s4 where "s4 = fire DeleteTimerFired s3"
  have step: "reachable (component_step itemEvent itemOffers sameRights editsOwn) mounted (fire ev s)"
    if "reachable (component_step itemEvent itemOffers sameRights editsOwn) mounted s"
      "itemOffers (co_props s) (co_ui s) (co_editing s) ev" for ev s
    unfolding fire_def using that
    by (auto intro!: reachable_step [OF that(1)] component_step.event split: prod.split)
  note sample = sample_item_def sample_message_def new_message_ui_def isDeletedMessage_def
  have r0: "reachable (component_step itemEvent itemOffers sameRights editsOwn) mounted s0"
    by (rule reachable_start) (simp add: mounted_def s0_def)
  have r1: "reachable (component_step itemEvent itemOffers sameRights editsOwn) mounted s1"
    unfolding s1_def by (rule step [OF r0]) (simp add: s0_def sample itemOffers_def shownOffers_def)
  have r2: "reachable (component_step itemEvent itemOffers sameRights editsOwn) mounted s2"
    unfolding s2_def by (rule step [OF r1])
      (simp add: s1_def s0_def fire_def sample itemOffers_def item_menus canDelete_def isOwnMessage_def)
  have r3: "reachable (component_step itemEvent itemOffers sameRights editsOwn) mounted s3"
    unfolding s3_def by (rule step [OF r2])
      (simp add: s2_def s1_def s0_def fire_def sample itemOffers_def shownOffers_def item_handlers)
  have r4: "reachable (component_step itemEvent itemOffers sameRights editsOwn) mounted s4"
    unfolding s4_def by (rule step [OF r3])
      (simp add: s3_def s2_def s1_def s0_def fire_def sample itemOffers_def item_handlers)
  have s4: "DeleteEffect \<in> set (co_effects s4)" "co_props s4 = sample_item" "count_list (co_events s4) DeleteConfirmed = 1"
    by (simp_all add: s4_def s3_def s2_def s1_def s0_def fire_def sample item_handlers)
  with item_requests_allowed [OF r4] show ?thesis by (intro exI [of _ s4]) simp
qed

end
