(* ===== verification/ThreadPanelView.thy ===== *)
theory ThreadPanelView
  imports MessageItemView WebShell
begin

text \<open>
  The rest of the thread panel (\<open>apps/web/src/components/thread/ThreadPanel.tsx\<close>; the parent message in the
  cache and the reaction mutations are in \<open>ThreadView\<close>): the components of the parent and of a reply, which
  fulfil the contract of \<open>MessageItemView\<close>, what the panel shows, its menu, and the highlighting of a reply named
  in the URL, with the timers of its effect.
\<close>

section \<open>The parent message\<close>

text \<open>Without a reply button, and never with a pin.\<close>

definition ownBar :: "'a message_props_scheme \<Rightarrow> action_bar" where
  "ownBar p = messageActionBar False False (isOwnMessage p) (isOwnMessage p) False"

definition ownActions :: "'a message_props_scheme \<Rightarrow> (jsstring \<times> message_action) list" where
  "ownActions p =
     (if isOwnMessage p then [(js ''Edit Message'', EditAction), (js ''Delete Message'', DeleteAction)] else [])"

definition parentMenu :: "message_props \<Rightarrow> (jsstring \<times> message_action) list" where
  "parentMenu p =
     [(js ''Reply in Thread'', ReplyAction), (js ''Copy Link'', CopyLinkAction), (js ''Mark Unread'', MarkUnreadAction)] @
     ownActions p"

definition threadUserMenu :: "'a message_props_scheme \<Rightarrow> user_action list" where
  "threadUserMenu p =
     (if truthy (msg_user_id (mp_message p)) then [ViewProfileAction, SendMessageAction] else [])"

definition parentCopyLink :: "message_props \<Rightarrow> message_ui \<Rightarrow> editing \<Rightarrow> message_result" where
  "parentCopyLink p =
     copied (mp_origin p @ pathOf (mp_workspaceId p) (msg_channel_id (mp_message p)) @ js ''?thread='' @ messageId p)"

text \<open>The deletion is requested at once.\<close>

definition threadDeleteConfirm :: "message_ui \<Rightarrow> editing \<Rightarrow> message_result" where
  "threadDeleteConfirm ui ed = (ui\<lparr>mu_showDeleteModal := False\<rparr>, ed, [DeleteEffect])"

definition threadAction ::
    "(message_ui \<Rightarrow> editing \<Rightarrow> message_result) \<Rightarrow> 'a message_props_scheme \<Rightarrow> message_action \<Rightarrow> message_ui \<Rightarrow> editing \<Rightarrow>
     message_result" where
  "threadAction copyLink p a ui ed =
     (case a of
        ReplyAction \<Rightarrow> (ui, ed, [OpenThreadEffect (messageId p)])
      | CopyLinkAction \<Rightarrow> copyLink ui ed
      | MarkUnreadAction \<Rightarrow> (ui, ed, [MarkUnreadEffect])
      | PinAction \<Rightarrow> (ui, ed, [])
      | EditAction \<Rightarrow> itemStartEdit p ui ed
      | DeleteAction \<Rightarrow> handleDeleteClick ui ed)"

definition threadUserAction :: "'a message_props_scheme \<Rightarrow> user_action \<Rightarrow> message_effect list" where
  "threadUserAction p a =
     (case a of ViewProfileAction \<Rightarrow> profileEffects p | SendMessageAction \<Rightarrow> sendMessageAction p | BlockAction \<Rightarrow> [])"

fun parentEvent :: "message_props \<Rightarrow> message_event \<Rightarrow> message_ui \<Rightarrow> editing \<Rightarrow> message_result" where
  "parentEvent p (ActionChosen a) ui ed =
     threadAction (parentCopyLink p) p a (ui\<lparr>mu_menuOpen := False, mu_showDropdown := False\<rparr>) ed"
| "parentEvent p (UserActionChosen a) ui ed = (ui\<lparr>mu_userMenuOpen := False\<rparr>, ed, threadUserAction p a)"
| "parentEvent p DeleteConfirmed ui ed = threadDeleteConfirm ui ed"
| "parentEvent p ev ui ed = commonEvent p ev ui ed"

text \<open>Nothing in the parent leads to its replies, and nothing is answered later but a conversation.\<close>

definition threadOffers ::
    "(jsstring \<times> message_action) list \<Rightarrow> 'a message_props_scheme \<Rightarrow> message_ui \<Rightarrow> editing \<Rightarrow> message_event \<Rightarrow> bool" where
  "threadOffers menu p ui ed ev =
     (case ev of
        DeleteTimerFired \<Rightarrow> False
      | PinFailed _ \<Rightarrow> False
      | BlockAnswered _ \<Rightarrow> False
      | RepliedToPressed \<Rightarrow> False
      | RepliesPressed \<Rightarrow> False
      | _ \<Rightarrow> shownOffers (ownBar p) menu (threadUserMenu p) p ui ed ev)"

definition parentOffers :: "message_props \<Rightarrow> message_ui \<Rightarrow> editing \<Rightarrow> message_event \<Rightarrow> bool" where
  "parentOffers p = threadOffers (parentMenu p) p"

definition threadBackground :: "bool \<Rightarrow> 'a message_props_scheme \<Rightarrow> message_ui \<Rightarrow> editing \<Rightarrow> message_background" where
  "threadBackground sentToChannel p ui ed =
     (if useIsEditingMessage (messageId p) ed \<or> sentToChannel then EditingBackground
      else if mu_showDropdown ui \<or> mu_menuOpen ui then MenuBackground else PlainBackground)"

text \<open>What both components show; \<open>label\<close> is the banner of a reply. The reaction buttons have no tooltip.\<close>

definition threadMessageView ::
    "message_host \<Rightarrow> jsstring option \<Rightarrow> message_background \<Rightarrow> (jsstring \<times> message_action) list \<Rightarrow> reaction_group list \<Rightarrow>
     'a message_props_scheme \<Rightarrow> message_ui \<Rightarrow> editing \<Rightarrow> message_view" where
  "threadMessageView h label background menu groups p ui ed =
     (let m = mp_message p
      in \<lparr>mv_background = background, mv_label = label,
          mv_name = or_else (msg_user_display_name m) (js ''Unknown User''), mv_profile = present (msg_user_id m),
          mv_time = mh_time h (msg_created_at m), mv_repliedTo = None, mv_body = messageBody h p ed,
          mv_reactions = map (\<lambda>b. b\<lparr>rb_tooltip := []\<rparr>) (reactionsDisplay (mh_table h) (mh_customs h) Map.empty groups),
          mv_replies = None, mv_bar = (if barShown p ui ed then Some (ownBar p) else None),
          mv_menu = (if mu_menuOpen ui then menu else []),
          mv_userMenu = (if mu_userMenuOpen ui then threadUserMenu p else []), mv_modal = mu_showDeleteModal ui\<rparr>)"

definition parentView :: "message_host \<Rightarrow> reaction list \<Rightarrow> message_props \<Rightarrow> message_ui \<Rightarrow> editing \<Rightarrow> item_view" where
  "parentView h localReactions p ui ed =
     (case groupReactionsByEmoji (Some localReactions) (mp_userId p) of
        None \<Rightarrow> CrashedItem
      | Some groups \<Rightarrow> ShownItem
          (threadMessageView h None (threadBackground False p ui ed) (parentMenu p) groups p ui ed))"

section \<open>A reply\<close>

record reply_props = message_props +
  rp_parentMessageId :: jsstring
  rp_channels :: "channel_with_membership list option"

definition replyMenu :: "reply_props \<Rightarrow> (jsstring \<times> message_action) list" where
  "replyMenu p = [(js ''Copy Link'', CopyLinkAction), (js ''Mark Unread'', MarkUnreadAction)] @ ownActions p"

definition replyCopyLink :: "reply_props \<Rightarrow> message_ui \<Rightarrow> editing \<Rightarrow> message_result" where
  "replyCopyLink p =
     copied (mp_origin p @ pathOf (mp_workspaceId p) (msg_channel_id (mp_message p)) @ js ''?thread='' @
       rp_parentMessageId p @ js ''&msg='' @ messageId p)"

fun replyEvent :: "reply_props \<Rightarrow> message_event \<Rightarrow> message_ui \<Rightarrow> editing \<Rightarrow> message_result" where
  "replyEvent p (ActionChosen a) ui ed =
     threadAction (replyCopyLink p) p a (ui\<lparr>mu_menuOpen := False, mu_showDropdown := False\<rparr>) ed"
| "replyEvent p (UserActionChosen a) ui ed = (ui\<lparr>mu_userMenuOpen := False\<rparr>, ed, threadUserAction p a)"
| "replyEvent p DeleteConfirmed ui ed = threadDeleteConfirm ui ed"
| "replyEvent p ev ui ed = commonEvent p ev ui ed"

definition replyOffers :: "reply_props \<Rightarrow> message_ui \<Rightarrow> editing \<Rightarrow> message_event \<Rightarrow> bool" where
  "replyOffers p ui ed ev =
     (case ev of DMAnswered _ \<Rightarrow> True
      | _ \<Rightarrow> \<not> isDeletedMessage (mp_message p) \<and> threadOffers (replyMenu p) p ui ed ev)"

definition sentBanner :: "reply_props \<Rightarrow> jsstring option" where
  "sentBanner p =
     (let channel = find (\<lambda>c. ch_id c = msg_channel_id (mp_message p)) (or_empty (rp_channels p));
          dm = (case channel of Some c \<Rightarrow> ch_type c = DmChannel \<or> ch_type c = GroupDmChannel | None \<Rightarrow> False)
      in if msg_also_send_to_channel (mp_message p) = Some True
         then Some (js ''Also sent '' @ (if dm then js ''as direct message'' else js ''to the channel'')) else None)"

definition replyView :: "message_host \<Rightarrow> reply_props \<Rightarrow> message_ui \<Rightarrow> editing \<Rightarrow> item_view" where
  "replyView h p ui ed =
     (case groupReactionsByEmoji (msg_reactions (mp_message p)) (mp_userId p) of
        None \<Rightarrow> CrashedItem
      | Some groups \<Rightarrow>
          if isDeletedMessage (mp_message p) then HiddenItem
          else ShownItem (threadMessageView h (sentBanner p)
            (threadBackground (msg_also_send_to_channel (mp_message p) = Some True) p ui ed) (replyMenu p) groups p ui ed))"

section \<open>The panel\<close>

text \<open>What the queries of the panel give.\<close>

record thread_data =
  td_cached :: "message_with_user option"
  td_fetched :: "message_with_user option"
  td_isLoadingParent :: bool
  td_parentError :: bool
  td_pages :: "message_list_result list option"
  td_isLoading :: bool
  td_hasNextPage :: bool
  td_isFetchingNextPage :: bool
  td_isBanned :: bool
  td_workspaceId :: "jsstring option"
  td_channels :: "channel_with_membership list option"
  td_subscription :: "jsstring option"

definition panelParent :: "thread_data \<Rightarrow> message_with_user option" where
  "panelParent d = (case td_cached d of Some m \<Rightarrow> Some m | None \<Rightarrow> td_fetched d)"

definition panelReplies :: "thread_data \<Rightarrow> message_with_user list" where
  "panelReplies d = concat (map messages (or_empty (td_pages d)))"

datatype thread_menu_item = UnsubscribeItem | SubscribeItem | CopyThreadLink

definition panelMenu :: "thread_data \<Rightarrow> (jsstring \<times> thread_menu_item) list" where
  "panelMenu d =
     [if td_subscription d = Some (js ''subscribed'')
      then (js ''Turn off notifications for replies'', UnsubscribeItem)
      else (js ''Get notified about new replies'', SubscribeItem),
      (js ''Copy link'', CopyThreadLink)]"

definition copyThreadLink :: "jsstring \<Rightarrow> jsstring \<Rightarrow> thread_data \<Rightarrow> jsstring option" where
  "copyThreadLink origin mid d =
     (case panelParent d of None \<Rightarrow> None
      | Some m \<Rightarrow> Some (origin @ pathOf (td_workspaceId d) (msg_channel_id m) @ js ''?thread='' @ mid))"

text \<open>The composer of the panel: channel, workspace, and the name and type of the channel.\<close>

record thread_composer =
  tc_channelId :: jsstring
  tc_workspaceId :: jsstring
  tc_parentMessageId :: jsstring
  tc_channelName :: "jsstring option"
  tc_channelType :: "channel_type option"

definition panelComposer :: "jsstring \<Rightarrow> thread_data \<Rightarrow> thread_composer option" where
  "panelComposer mid d =
     (case panelParent d of
        None \<Rightarrow> None
      | Some m \<Rightarrow>
          let channel = find (\<lambda>c. ch_id c = msg_channel_id m) (or_empty (td_channels d))
          in if \<not> td_isBanned d \<and> truthy (td_workspaceId d)
             then Some \<lparr>tc_channelId = msg_channel_id m, tc_workspaceId = the (td_workspaceId d),
               tc_parentMessageId = mid, tc_channelName = map_option ch_name channel,
               tc_channelType = map_option ch_type channel\<rparr>
             else None)"

record thread_view =
  tv_parentSkeleton :: bool
  tv_parentError :: bool
  tv_parent :: "message_with_user option"
  tv_divider :: "jsstring option"
  tv_skeletons :: bool
  tv_loadMore :: "(jsstring \<times> bool) option"
  tv_replies :: "message_with_user list"
  tv_composer :: "thread_composer option"

definition threadPanelView :: "jsstring \<Rightarrow> thread_data \<Rightarrow> thread_view" where
  "threadPanelView mid d =
     \<lparr>tv_parentSkeleton = (td_isLoadingParent d \<and> td_cached d = None),
      tv_parentError = (td_parentError d \<and> panelParent d = None),
      tv_parent = panelParent d,
      tv_divider = (case panelParent d of None \<Rightarrow> None | Some m \<Rightarrow> replyCountLabel m),
      tv_skeletons = td_isLoading d,
      tv_loadMore = (if \<not> td_isLoading d \<and> td_hasNextPage d
        then Some (if td_isFetchingNextPage d then js ''Loading...'' else js ''Load more replies'', td_isFetchingNextPage d)
        else None),
      tv_replies = (if td_isLoading d then [] else panelReplies d),
      tv_composer = panelComposer mid d\<rparr>"

text \<open>The effect of a new \<open>messageId\<close>: the thread is marked as read, and the composer gets the focus 50 ms later.\<close>

datatype panel_effect = MarkThreadRead jsstring | FocusTimer

definition panelOpened :: "jsstring \<Rightarrow> panel_effect list" where
  "panelOpened mid = [FocusTimer, MarkThreadRead mid]"

text \<open>
  \<open>useAutoFocusComposer\<close>: a character typed outside of every input is inserted into the composer. The arguments
  are whether an input is focused, whether a modifier is held, and the key.
\<close>

definition autoFocusKey :: "bool \<Rightarrow> bool \<Rightarrow> bool \<Rightarrow> jsstring \<Rightarrow> jsstring option" where
  "autoFocusKey enabled inputFocused modifier key =
     (if \<not> enabled \<or> inputFocused \<or> modifier \<or> length key \<noteq> 1 then None else Some key)"

section \<open>The highlighted reply\<close>

text \<open>
  The elements of the page with an id of a message, in the order of the document: the list of the channel is before
  the panel. \<open>hl_marked\<close> are the elements with the class \<open>search-highlight\<close>.
\<close>

datatype message_element = ChannelElement jsstring | ThreadElement jsstring

fun elementMessage :: "message_element \<Rightarrow> jsstring" where
  "elementMessage (ChannelElement i) = i"
| "elementMessage (ThreadElement i) = i"

definition getElementById :: "message_element list \<Rightarrow> jsstring \<Rightarrow> message_element option" where
  "getElementById els i = find (\<lambda>e. elementMessage e = i) els"

record highlight =
  hl_params :: search_params
  hl_frame :: "jsstring option"
  hl_timer :: "message_element option"
  hl_marked :: "message_element list"

text \<open>The effect runs when the parameter or \<open>isLoading\<close> changes, after the clean-up of its last run.\<close>

definition highlightEffect :: "bool \<Rightarrow> highlight \<Rightarrow> highlight" where
  "highlightEffect isLoading s =
     (let s1 = s\<lparr>hl_frame := None, hl_timer := None\<rparr>; highlightMsgId = params_get (hl_params s) (js ''msg'')
      in if \<not> truthy highlightMsgId \<or> isLoading then s1 else s1\<lparr>hl_frame := highlightMsgId\<rparr>)"

text \<open>The result is the element scrolled into view.\<close>

definition highlightFrame :: "message_element list \<Rightarrow> highlight \<Rightarrow> highlight \<times> message_element option" where
  "highlightFrame els s =
     (case hl_frame s of
        None \<Rightarrow> (s, None)
      | Some i \<Rightarrow>
          (case getElementById els i of
             None \<Rightarrow> (s\<lparr>hl_frame := None\<rparr>, None)
           | Some e \<Rightarrow> (s\<lparr>hl_frame := None, hl_timer := Some e, hl_marked := List.insert e (hl_marked s)\<rparr>, Some e)))"

definition highlightTimer :: "highlight \<Rightarrow> highlight" where
  "highlightTimer s =
     (case hl_timer s of
        None \<Rightarrow> s
      | Some e \<Rightarrow> s\<lparr>hl_timer := None, hl_marked := removeAll e (hl_marked s),
          hl_params := params_delete (js ''msg'') (hl_params s)\<rparr>)"

definition openLink :: "search_params \<Rightarrow> highlight \<Rightarrow> highlight" where
  "openLink ps s = s\<lparr>hl_params := ps\<rparr>"

section \<open>The contract\<close>

lemmas thread_handlers = message_handlers parentCopyLink_def replyCopyLink_def threadDeleteConfirm_def threadAction_def
  threadUserAction_def

lemmas thread_menus = shownOffers_def threadOffers_def parentOffers_def replyOffers_def ownBar_def ownActions_def
  parentMenu_def replyMenu_def threadUserMenu_def messageActionBar_def

lemmas thread_splits = if_splits message_action.splits user_action.splits option.splits

definition sameReader :: "'a message_props_scheme \<Rightarrow> 'a message_props_scheme \<Rightarrow> bool" where
  "sameReader p q \<longleftrightarrow> messageId q = messageId p \<and> msg_user_id (mp_message q) = msg_user_id (mp_message p) \<and>
     mp_userId q = mp_userId p"

lemma same_reader: "sameReader p q \<Longrightarrow> messageId q = messageId p \<and> isOwnMessage q = isOwnMessage p"
  by (simp add: sameReader_def isOwnMessage_def)

interpretation parents: message_contract parentEvent parentOffers sameReader messageId isOwnMessage isOwnMessage "\<lambda>_. False"
proof
  fix p q :: message_props and ui ui' :: message_ui and ed ed' :: editing and ev effs x
  show "messageId q = messageId p \<and> isOwnMessage q = isOwnMessage p \<and> isOwnMessage q = isOwnMessage p \<and> False = False"
    if "sameReader p q" using same_reader [OF that] by simp
  show "parentOffers p ui ed DeleteConfirmed \<Longrightarrow> mu_showDeleteModal ui" by (simp add: thread_menus)
  show "parentOffers p ui ed (ActionChosen DeleteAction) \<Longrightarrow> isOwnMessage p" by (auto simp: thread_menus split: if_splits)
  assume offered: "parentOffers p ui ed ev" and handled: "parentEvent p ev ui ed = (ui', ed', effs)"
  note cases = parentEvent.cases [of "(p, ev, ui, ed)"]
  show "ed' = ed \<or> ed' = None \<or> ed' = Some (messageId p) \<and> isOwnMessage p"
    using offered handled by (cases rule: cases) (auto simp: thread_handlers thread_menus Let_def split: thread_splits)
  show "effectAllowed (isOwnMessage p) False x" if "ed = Some (messageId p) \<Longrightarrow> isOwnMessage p" "x \<in> set effs"
    using that offered handled by (cases rule: cases) (auto simp: thread_handlers thread_menus Let_def split: thread_splits)
  show "count_list effs DeleteEffect + mu_deleteTimers ui' = mu_deleteTimers ui + (if ev = DeleteConfirmed then 1 else 0)"
    using offered handled by (cases rule: cases) (auto simp: thread_handlers thread_menus Let_def split: thread_splits)
  show "mu_showDeleteModal ui \<and> ev \<noteq> DeleteConfirmed \<or> ev = ActionChosen DeleteAction" if "mu_showDeleteModal ui'"
    using that offered handled by (cases rule: cases) (auto simp: thread_handlers thread_menus Let_def split: thread_splits)
qed

interpretation replies: message_contract replyEvent replyOffers sameReader messageId isOwnMessage isOwnMessage "\<lambda>_. False"
proof
  fix p q :: reply_props and ui ui' :: message_ui and ed ed' :: editing and ev effs x
  show "messageId q = messageId p \<and> isOwnMessage q = isOwnMessage p \<and> isOwnMessage q = isOwnMessage p \<and> False = False"
    if "sameReader p q" using same_reader [OF that] by simp
  show "replyOffers p ui ed DeleteConfirmed \<Longrightarrow> mu_showDeleteModal ui" by (simp add: thread_menus)
  show "replyOffers p ui ed (ActionChosen DeleteAction) \<Longrightarrow> isOwnMessage p" by (auto simp: thread_menus split: if_splits)
  assume offered: "replyOffers p ui ed ev" and handled: "replyEvent p ev ui ed = (ui', ed', effs)"
  note cases = replyEvent.cases [of "(p, ev, ui, ed)"]
  show "ed' = ed \<or> ed' = None \<or> ed' = Some (messageId p) \<and> isOwnMessage p"
    using offered handled by (cases rule: cases) (auto simp: thread_handlers thread_menus Let_def split: thread_splits)
  show "effectAllowed (isOwnMessage p) False x" if "ed = Some (messageId p) \<Longrightarrow> isOwnMessage p" "x \<in> set effs"
    using that offered handled by (cases rule: cases) (auto simp: thread_handlers thread_menus Let_def split: thread_splits)
  show "count_list effs DeleteEffect + mu_deleteTimers ui' = mu_deleteTimers ui + (if ev = DeleteConfirmed then 1 else 0)"
    using offered handled by (cases rule: cases) (auto simp: thread_handlers thread_menus Let_def split: thread_splits)
  show "mu_showDeleteModal ui \<and> ev \<noteq> DeleteConfirmed \<or> ev = ActionChosen DeleteAction" if "mu_showDeleteModal ui'"
    using that offered handled by (cases rule: cases) (auto simp: thread_handlers thread_menus Let_def split: thread_splits)
qed

section \<open>Facts\<close>

text \<open>A parent that has been deleted keeps its text in the cache, and the panel goes on showing it.\<close>

lemma deleted_parent_shown:
  assumes "msg_content (mp_message p) \<noteq> []" "groupReactionsByEmoji (Some rs) (mp_userId p) \<noteq> None"
    and "\<not> useIsEditingMessage (messageId p) ed"
  shows "\<exists>v b. parentView h rs (p\<lparr>mp_message := (mp_message p)\<lparr>msg_deleted_at := Some now\<rparr>\<rparr>) ui ed = ShownItem v \<and>
    mv_body v = ContentBody b \<and> cb_content b = Some (msg_content (mp_message p))"
  using assms by (auto simp: parentView_def threadMessageView_def messageBody_def Let_def)

text \<open>An admin deletes the messages of others in the channel, not in the panel.\<close>

lemma admin_deletes_in_channel_only:
  "ip_isAdmin p = Some True \<Longrightarrow> DeleteAction \<in> snd ` set (itemMenu p)"
  "\<not> isOwnMessage q \<Longrightarrow> DeleteAction \<notin> snd ` set (replyMenu q)"
  by (auto simp: itemMenu_def canDelete_def replyMenu_def ownActions_def)

lemma parent_state_exclusive:
  "tv_parentError (threadPanelView mid d) \<Longrightarrow> tv_parent (threadPanelView mid d) = None \<and>
     tv_composer (threadPanelView mid d) = None"
  by (simp add: threadPanelView_def panelComposer_def)

text \<open>A highlighted reply loses the highlight, and the URL its parameter, when the timer fires.\<close>

lemma highlight_ends:
  assumes "params_get (hl_params s) (js ''msg'') = Some i" "i \<noteq> []" "getElementById els i = Some e"
  shows "let t = fst (highlightFrame els (highlightEffect False s))
    in e \<in> set (hl_marked t) \<and> e \<notin> set (hl_marked (highlightTimer t)) \<and>
       params_get (hl_params (highlightTimer t)) (js ''msg'') = None"
  using assms by (simp add: highlightEffect_def highlightFrame_def highlightTimer_def Let_def)

text \<open>When another link is opened before, the clean-up stops the timer: the first reply stays highlighted.\<close>

lemma highlight_left:
  assumes "e \<in> set (hl_marked s)" "getElementById els j = Some e'" "e' \<noteq> e"
    and "params_get ps (js ''msg'') = Some j" "j \<noteq> []"
  shows "e \<in> set (hl_marked (highlightTimer (fst (highlightFrame els (highlightEffect False (openLink ps s))))))"
  using assms by (simp add: highlightEffect_def highlightFrame_def highlightTimer_def openLink_def Let_def)

text \<open>A reply that was also sent to the channel and is listed there is highlighted in the channel, not in the panel.\<close>

lemma channel_element_first:
  "i \<in> set listed \<Longrightarrow> getElementById (map ChannelElement listed @ map ThreadElement thread) i = Some (ChannelElement i)"
  by (induction listed) (auto simp: getElementById_def)

section \<open>Properties\<close>

text \<open>In the thread panel, too, the parent and the replies are changed and deleted only by their author, after a
  choice and a confirmation for each deletion, and nothing is pinned.\<close>

theorem thread_requests_allowed:
  assumes "reachable (component_step parentEvent parentOffers sameReader editsOwn) mounted s"
    and "reachable (component_step replyEvent replyOffers sameReader editsOwn) mounted r"
  shows "(\<forall>x \<in> set (co_effects s). effectAllowed (isOwnMessage (co_props s)) False x) \<and>
    (\<forall>x \<in> set (co_effects r). effectAllowed (isOwnMessage (co_props r)) False x) \<and>
    (DeleteEffect \<in> set (co_effects s) \<longrightarrow> isOwnMessage (co_props s)) \<and>
    (DeleteEffect \<in> set (co_effects r) \<longrightarrow> isOwnMessage (co_props r)) \<and>
    count_list (co_effects s) DeleteEffect \<le> count_list (co_events s) (ActionChosen DeleteAction) \<and>
    count_list (co_effects r) DeleteEffect \<le> count_list (co_events r) (ActionChosen DeleteAction)"
  using parents.requests_allowed [of s] replies.requests_allowed [of r] assms by (auto simp: editsOwn_eq)

end
