(* ===== verification/SignedImages.thy ===== *)
theory SignedImages
  imports SignedUrlCache
begin

text \<open>
  The components that show signed URLs over the cache of \<open>SignedUrlCache\<close>: the hook \<open>useSignedUrl\<close>
  (\<open>packages/shared/src/hooks/useSignedUrl.ts\<close>) and the images of the web
  (\<open>apps/web/src/components/ui/AuthImage.tsx\<close>) and of the mobile application
  (\<open>apps/mobile/src/components/AuthImage.tsx\<close>). A component that is given another file resets its state during the
  render, and its effect asks the cache; the callbacks of the promises run later, in any order. \<open>signed_step\<close>
  interleaves one hook with the steps of the cache.
\<close>

section \<open>useSignedUrl\<close>

text \<open>The callbacks that have not run yet, and whether they are not cancelled.\<close>

record signed_hook =
  sh_fileId :: jsstring
  sh_url :: "jsstring option"
  sh_waits :: "(url_answer \<times> bool) list"

definition new_signed_hook :: signed_hook where
  "new_signed_hook = \<lparr>sh_fileId = [], sh_url = None, sh_waits = []\<rparr>"

text \<open>\<open>cancelled = true\<close> in the clean-up of the effect.\<close>

definition cancelWaits :: "signed_hook \<Rightarrow> signed_hook" where
  "cancelWaits h = h\<lparr>sh_waits := map (\<lambda>(a, _). (a, False)) (sh_waits h)\<rparr>"

text \<open>The first render, or one with another file: the state, the clean-up, and the effect.\<close>

definition renderSigned :: "int \<Rightarrow> jsstring \<Rightarrow> url_cache \<times> signed_hook \<Rightarrow> url_cache \<times> signed_hook" where
  "renderSigned now fileId s =
     (let (c, h) = s; cached = getCachedIfFresh now c fileId;
          h1 = cancelWaits (h\<lparr>sh_fileId := fileId, sh_url := cached\<rparr>)
      in if truthy cached then (c, h1)
         else (case getUrl now c fileId of (a, c1) \<Rightarrow> (c1, h1\<lparr>sh_waits := sh_waits h1 @ [(a, True)]\<rparr>)))"

definition signedSettled :: "url_answer \<times> bool \<Rightarrow> jsstring option \<Rightarrow> signed_hook \<Rightarrow> signed_hook" where
  "signedSettled w result h =
     h\<lparr>sh_waits := remove1 w (sh_waits h),
       sh_url := (case result of Some u \<Rightarrow> if snd w then Some u else sh_url h | None \<Rightarrow> sh_url h)\<rparr>"

section \<open>AuthImage on the web\<close>

text \<open>One \<open>mountedRef\<close> for all callbacks, which look at it when they run.\<close>

record auth_image =
  ai_fileId :: jsstring
  ai_src :: "jsstring option"
  ai_retryCount :: nat
  ai_mounted :: bool
  ai_waits :: "url_answer list"

definition new_auth_image :: auth_image where
  "new_auth_image = \<lparr>ai_fileId = [], ai_src = None, ai_retryCount = 0, ai_mounted = True, ai_waits = []\<rparr>"

definition renderImage :: "int \<Rightarrow> jsstring \<Rightarrow> url_cache \<times> auth_image \<Rightarrow> url_cache \<times> auth_image" where
  "renderImage now fileId s =
     (let (c, i) = s; cached = getCachedIfFresh now c fileId;
          i1 = i\<lparr>ai_fileId := fileId, ai_src := cached, ai_mounted := True, ai_retryCount := 0\<rparr>
      in if truthy cached then (c, i1)
         else (case getUrl now c fileId of (a, c1) \<Rightarrow> (c1, i1\<lparr>ai_waits := ai_waits i1 @ [a]\<rparr>)))"

definition imageSettled :: "url_answer \<Rightarrow> jsstring option \<Rightarrow> auth_image \<Rightarrow> auth_image" where
  "imageSettled a result i =
     i\<lparr>ai_waits := remove1 a (ai_waits i),
       ai_src := (case result of Some u \<Rightarrow> if ai_mounted i then Some u else ai_src i | None \<Rightarrow> ai_src i)\<rparr>"

definition imageError :: "int \<Rightarrow> url_cache \<times> auth_image \<Rightarrow> url_cache \<times> auth_image" where
  "imageError now s =
     (let (c, i) = s
      in if ai_retryCount i \<ge> 1 then (c, i)
         else (case getUrl now (invalidateUrl (ai_fileId i) c) (ai_fileId i) of
             (a, c1) \<Rightarrow> (c1, i\<lparr>ai_retryCount := ai_retryCount i + 1, ai_waits := ai_waits i @ [a]\<rparr>)))"

section \<open>AuthImage on mobile\<close>

text \<open>The URL of the hook, and the one of a retry that takes its place.\<close>

record mobile_image =
  mi_hook :: signed_hook
  mi_overrideUrl :: "jsstring option"
  mi_retryCount :: nat
  mi_mounted :: bool
  mi_waits :: "url_answer list"

definition renderMobileImage :: "int \<Rightarrow> jsstring \<Rightarrow> url_cache \<times> mobile_image \<Rightarrow> url_cache \<times> mobile_image" where
  "renderMobileImage now fileId s =
     (let (c, i) = s
      in case renderSigned now fileId (c, mi_hook i) of
           (c1, h) \<Rightarrow> (c1, i\<lparr>mi_hook := h, mi_overrideUrl := None, mi_retryCount := 0\<rparr>))"

definition mobileImageError :: "int \<Rightarrow> url_cache \<times> mobile_image \<Rightarrow> url_cache \<times> mobile_image" where
  "mobileImageError now s =
     (let (c, i) = s; fileId = sh_fileId (mi_hook i)
      in if mi_retryCount i \<ge> 1 then (c, i)
         else (case getUrl now (invalidateUrl fileId c) fileId of
             (a, c1) \<Rightarrow> (c1, i\<lparr>mi_retryCount := mi_retryCount i + 1, mi_waits := mi_waits i @ [a]\<rparr>)))"

definition retrySettled :: "url_answer \<Rightarrow> jsstring option \<Rightarrow> mobile_image \<Rightarrow> mobile_image" where
  "retrySettled a result i =
     i\<lparr>mi_waits := remove1 a (mi_waits i),
       mi_overrideUrl := (case result of Some u \<Rightarrow> if mi_mounted i then Some u else mi_overrideUrl i
         | None \<Rightarrow> mi_overrideUrl i)\<rparr>"

definition mobileSrc :: "mobile_image \<Rightarrow> jsstring option" where
  "mobileSrc i = (case mi_overrideUrl i of Some u \<Rightarrow> Some u | None \<Rightarrow> sh_url (mi_hook i))"

section \<open>The hook over the cache\<close>

text \<open>
  \<open>sy_known\<close> are the fetches there ever were, \<open>sy_resolved\<close> those that succeeded with their URL, \<open>sy_issued\<close> the URLs
  the server has issued for each file.
\<close>

record signed_system =
  sy_cache :: url_cache
  sy_hook :: signed_hook
  sy_known :: "(nat \<times> jsstring) set"
  sy_resolved :: "(nat \<times> jsstring \<times> jsstring) set"
  sy_issued :: "(jsstring \<times> jsstring) set"

definition signed_start :: signed_system where
  "signed_start = \<lparr>sy_cache = initial_urls, sy_hook = new_signed_hook, sy_known = {}, sy_resolved = {}, sy_issued = {}\<rparr>"

text \<open>The value a promise of the cache settles with.\<close>

definition settlesWith :: "signed_system \<Rightarrow> url_answer \<Rightarrow> jsstring option \<Rightarrow> bool" where
  "settlesWith s a result \<longleftrightarrow>
     (case (a, result) of
        (UrlReady u, r) \<Rightarrow> r = Some u
      | (UrlPromise p, Some u) \<Rightarrow> \<exists>f. (p, f, u) \<in> sy_resolved s
      | (UrlPromise p, None) \<Rightarrow> True)"

inductive signed_step :: "signed_system \<Rightarrow> signed_system \<Rightarrow> bool" where
  rendered: "renderSigned now fileId (sy_cache s, sy_hook s) = (c, h) \<Longrightarrow>
     signed_step s (s\<lparr>sy_cache := c, sy_hook := h, sy_known := sy_known s \<union> set (uc_fetches c)\<rparr>)"
| settled: "w \<in> set (sh_waits (sy_hook s)) \<Longrightarrow> settlesWith s (fst w) result \<Longrightarrow>
     signed_step s (s\<lparr>sy_hook := signedSettled w result (sy_hook s)\<rparr>)"
| unmounted: "signed_step s (s\<lparr>sy_hook := cancelWaits (sy_hook s)\<rparr>)"
| answered: "(p, f) \<in> set (uc_fetches (sy_cache s)) \<Longrightarrow>
     signed_step s (s\<lparr>sy_cache := storeUrl f u expiresAt (sy_cache s), sy_resolved := insert (p, f, u) (sy_resolved s),
       sy_issued := insert (f, u) (sy_issued s)\<rparr>)"
| others: "url_step (sy_cache s) c \<Longrightarrow>
     (\<And>f e. uc_cache c f = Some e \<Longrightarrow> uc_cache (sy_cache s) f = Some e \<or> (f, ue_url e) \<in> urls) \<Longrightarrow>
     signed_step s (s\<lparr>sy_cache := c, sy_known := sy_known s \<union> set (uc_fetches c), sy_issued := sy_issued s \<union> urls\<rparr>)"

inductive_cases signed_stepE: "signed_step s t"

section \<open>The invariant\<close>

text \<open>A promise belongs to one file.\<close>

definition knownOk :: "url_cache \<Rightarrow> (nat \<times> jsstring) set \<Rightarrow> bool" where
  "knownOk c known \<longleftrightarrow> urls_ok c \<and> set (uc_fetches c) \<subseteq> known \<and>
     (\<forall>(p, f) \<in> known. p < uc_next c \<and> (\<forall>g. (p, g) \<in> known \<longrightarrow> g = f))"

definition waitOk :: "(nat \<times> jsstring) set \<Rightarrow> (jsstring \<times> jsstring) set \<Rightarrow> jsstring \<Rightarrow> url_answer \<Rightarrow> bool" where
  "waitOk known issued fileId a =
     (case a of UrlReady u \<Rightarrow> (fileId, u) \<in> issued | UrlPromise p \<Rightarrow> (p, fileId) \<in> known)"

definition hookOk :: "(nat \<times> jsstring) set \<Rightarrow> (jsstring \<times> jsstring) set \<Rightarrow> signed_hook \<Rightarrow> bool" where
  "hookOk known issued h \<longleftrightarrow>
     (\<forall>u. sh_url h = Some u \<longrightarrow> (sh_fileId h, u) \<in> issued) \<and>
     (\<forall>a. (a, True) \<in> set (sh_waits h) \<longrightarrow> waitOk known issued (sh_fileId h) a)"

definition signedInv :: "signed_system \<Rightarrow> bool" where
  "signedInv s \<longleftrightarrow>
     knownOk (sy_cache s) (sy_known s) \<and> hookOk (sy_known s) (sy_issued s) (sy_hook s) \<and>
     (\<forall>(p, f, u) \<in> sy_resolved s. (p, f) \<in> sy_known s \<and> (f, u) \<in> sy_issued s) \<and>
     (\<forall>f e. uc_cache (sy_cache s) f = Some e \<longrightarrow> (f, ue_url e) \<in> sy_issued s)"

lemma hookOk_mono: "hookOk known issued h \<Longrightarrow> known \<subseteq> known' \<Longrightarrow> issued \<subseteq> issued' \<Longrightarrow> hookOk known' issued' h"
  unfolding hookOk_def waitOk_def by (fastforce split: url_answer.splits)

lemma knownOkI:
  "urls_ok c \<Longrightarrow> set (uc_fetches c) \<subseteq> known \<Longrightarrow> (\<And>p f. (p, f) \<in> known \<Longrightarrow> p < uc_next c) \<Longrightarrow>
     (\<And>p f g. (p, f) \<in> known \<Longrightarrow> (p, g) \<in> known \<Longrightarrow> g = f) \<Longrightarrow> knownOk c known"
  unfolding knownOk_def by blast

lemma knownOkD:
  "knownOk c known \<Longrightarrow> urls_ok c"
  "knownOk c known \<Longrightarrow> set (uc_fetches c) \<subseteq> known"
  "knownOk c known \<Longrightarrow> (p, f) \<in> known \<Longrightarrow> p < uc_next c"
  "knownOk c known \<Longrightarrow> (p, f) \<in> known \<Longrightarrow> (p, g) \<in> known \<Longrightarrow> g = f"
  unfolding knownOk_def by blast+

lemma known_absorb: "knownOk c known \<Longrightarrow> known \<union> set (uc_fetches c) = known"
  using knownOkD(2) by blast

lemma getUrl_cases:
  assumes "getUrl now c f = (a, c1)"
  obtains "c1 = c"
  | "uc_fetches c1 = uc_fetches c @ [(uc_next c, f)]" "uc_next c1 = Suc (uc_next c)"
proof (cases "c1 = c")
  case False
  with assms have "uc_fetches c1 = uc_fetches c @ [(uc_next c, f)]" "uc_next c1 = Suc (uc_next c)"
    by (auto simp: getUrl_def Let_def split: if_splits option.splits)
  then show ?thesis by (rule that(2))
qed (rule that(1))

lemma getUrl_known:
  assumes get: "getUrl now c f = (a, c1)" and known: "knownOk c known"
  shows "knownOk c1 (known \<union> set (uc_fetches c1))"
  using get
proof (cases rule: getUrl_cases)
  case 1
  then show ?thesis using known by (simp add: known_absorb)
next
  case 2
  have eq: "known \<union> set (uc_fetches c1) = insert (uc_next c, f) known"
    using knownOkD(2) [OF known] 2(1) by auto
  show ?thesis
  proof (rule knownOkI)
    show "urls_ok c1" by (rule urls_ok_getUrl [OF knownOkD(1) [OF known] get])
    show "set (uc_fetches c1) \<subseteq> known \<union> set (uc_fetches c1)" by blast
    show "p < uc_next c1" if "(p, g) \<in> known \<union> set (uc_fetches c1)" for p g
      using that knownOkD(3) [OF known, of p g] unfolding eq 2(2) by auto
    show "g' = g" if "(p, g) \<in> known \<union> set (uc_fetches c1)" "(p, g') \<in> known \<union> set (uc_fetches c1)" for p g g'
      using that knownOkD(4) [OF known, of p g g'] knownOkD(3) [OF known, of p g] knownOkD(3) [OF known, of p g']
      unfolding eq by auto
  qed
qed

lemma getUrl_ready:
  "getUrl now c f = (UrlReady u, c1) \<Longrightarrow> \<exists>e. uc_cache c f = Some e \<and> ue_url e = u"
  by (cases "getCachedIfFresh now c f")
    (auto simp: getUrl_def Let_def getCachedIfFresh_Some split: if_splits option.splits)

lemma getUrl_answer:
  assumes get: "getUrl now c f = (a, c1)" and ok: "urls_ok c"
  shows "a = UrlPromise p \<Longrightarrow> (p, f) \<in> set (uc_fetches c1)"
    and "a = UrlReady u \<Longrightarrow> \<exists>e. uc_cache c f = Some e \<and> ue_url e = u"
    and "uc_cache c1 = uc_cache c"
proof -
  show "(p, f) \<in> set (uc_fetches c1)" if "a = UrlPromise p"
  proof -
    from get that have "uc_pending c1 f = Some p" by (auto simp: getUrl_def Let_def split: if_splits option.splits)
    with urls_okD(1) [OF urls_ok_getUrl [OF ok get]] show ?thesis by simp
  qed
  show "\<exists>e. uc_cache c f = Some e \<and> ue_url e = u" if "a = UrlReady u"
    using getUrl_ready [of now c f] get that by blast
  show "uc_cache c1 = uc_cache c"
    using get by (auto simp: getUrl_def Let_def split: if_splits option.splits)
qed

lemma url_step_known:
  assumes step: "url_step c c'" and known: "knownOk c known"
  shows "knownOk c' (known \<union> set (uc_fetches c'))"
  using step
proof (cases rule: url_step.cases)
  case (get now fileId r)
  then show ?thesis using getUrl_known known by blast
next
  case (finished promise fileId)
  have "set (uc_fetches c') \<subseteq> known" "uc_next c' = uc_next c"
    using finished knownOkD(2) [OF known] by (auto simp: finishFetch_def)
  moreover have "urls_ok c'" by (rule urls_ok_step [OF step knownOkD(1) [OF known]])
  ultimately show ?thesis using known by (simp add: knownOk_def Un_absorb2)
qed (use known in \<open>simp_all add: knownOk_def invalidateUrl_def Un_absorb2 urls_ok_def\<close>)

lemma renderSigned_ok:
  assumes r: "renderSigned now f (c, h) = (c1, h1)" and known: "knownOk c known"
    and issued: "\<And>g e. uc_cache c g = Some e \<Longrightarrow> (g, ue_url e) \<in> issued"
  shows "knownOk c1 (known \<union> set (uc_fetches c1)) \<and> hookOk (known \<union> set (uc_fetches c1)) issued h1 \<and> uc_cache c1 = uc_cache c"
proof -
  have cached: "getCachedIfFresh now c f = Some u \<Longrightarrow> (f, u) \<in> issued" for u
    using issued [of f] by (auto simp: getCachedIfFresh_Some)
  show ?thesis
  proof (cases "truthy (getCachedIfFresh now c f)")
    case True
    with r have "c1 = c" "h1 = cancelWaits (h\<lparr>sh_fileId := f, sh_url := getCachedIfFresh now c f\<rparr>)"
      by (auto simp: renderSigned_def Let_def)
    with known cached show ?thesis by (auto simp: known_absorb hookOk_def cancelWaits_def)
  next
    case False
    obtain a c2 where get: "getUrl now c f = (a, c2)" by (cases "getUrl now c f")
    with r False have c1: "c1 = c2" and h1: "sh_fileId h1 = f" "sh_url h1 = getCachedIfFresh now c f"
        "sh_waits h1 = map (\<lambda>(a, _). (a, False)) (sh_waits h) @ [(a, True)]"
      by (auto simp: renderSigned_def cancelWaits_def Let_def)
    note answer = getUrl_answer [OF get knownOkD(1) [OF known]]
    have "waitOk (known \<union> set (uc_fetches c2)) issued f a"
      using answer(1,2) issued [of f] by (auto simp: waitOk_def split: url_answer.split)
    with cached have "hookOk (known \<union> set (uc_fetches c2)) issued h1"
      by (auto simp: hookOk_def h1)
    with getUrl_known [OF get known] answer(3) show ?thesis by (simp add: c1)
  qed
qed

lemma signedSettled_ok:
  assumes "signedInv s" "w \<in> set (sh_waits (sy_hook s))" "settlesWith s (fst w) result"
  shows "hookOk (sy_known s) (sy_issued s) (signedSettled w result (sy_hook s))"
proof -
  have url: "(sh_fileId (sy_hook s), u) \<in> sy_issued s" if "result = Some u" "snd w" for u
  proof -
    have "w = (fst w, True)" using that(2) by (cases w) simp
    with assms(2) have "(fst w, True) \<in> set (sh_waits (sy_hook s))" by simp
    with assms(1) have wait: "waitOk (sy_known s) (sy_issued s) (sh_fileId (sy_hook s)) (fst w)"
      by (auto simp: signedInv_def hookOk_def)
    show ?thesis
    proof (cases "fst w")
      case (UrlReady v)
      with wait assms(3) that(1) show ?thesis by (simp add: waitOk_def settlesWith_def)
    next
      case (UrlPromise p)
      with assms(3) that(1) obtain f where "(p, f, u) \<in> sy_resolved s" by (auto simp: settlesWith_def)
      with assms(1) have "(p, f) \<in> sy_known s" "(f, u) \<in> sy_issued s" by (auto simp: signedInv_def)
      moreover have "f = sh_fileId (sy_hook s)"
        using wait UrlPromise calculation(1) assms(1) by (auto simp: waitOk_def signedInv_def knownOk_def)
      ultimately show ?thesis by simp
    qed
  qed
  have "set (remove1 w (sh_waits (sy_hook s))) \<subseteq> set (sh_waits (sy_hook s))" by (rule set_remove1_subset)
  then show ?thesis
    using assms(1) url by (auto simp: signedSettled_def hookOk_def signedInv_def split: option.splits)
qed

lemma signed_step_inv: "signed_step s t \<Longrightarrow> signedInv s \<Longrightarrow> signedInv t"
proof (erule signed_stepE)
  fix now fileId c h
  assume inv: "signedInv s" and r: "renderSigned now fileId (sy_cache s, sy_hook s) = (c, h)"
    and t: "t = s\<lparr>sy_cache := c, sy_hook := h, sy_known := sy_known s \<union> set (uc_fetches c)\<rparr>"
  from renderSigned_ok [OF r, of "sy_known s" "sy_issued s"] inv show "signedInv t"
    unfolding t by (fastforce simp: signedInv_def)
next
  fix w result
  assume "signedInv s" "w \<in> set (sh_waits (sy_hook s))" "settlesWith s (fst w) result"
    "t = s\<lparr>sy_hook := signedSettled w result (sy_hook s)\<rparr>"
  with signedSettled_ok [of s w result] show "signedInv t" by (simp add: signedInv_def)
next
  assume "signedInv s" "t = s\<lparr>sy_hook := cancelWaits (sy_hook s)\<rparr>"
  then show "signedInv t" by (auto simp: signedInv_def hookOk_def cancelWaits_def)
next
  fix p f u expiresAt
  assume inv: "signedInv s" and f: "(p, f) \<in> set (uc_fetches (sy_cache s))"
    and t: "t = s\<lparr>sy_cache := storeUrl f u expiresAt (sy_cache s), sy_resolved := insert (p, f, u) (sy_resolved s),
       sy_issued := insert (f, u) (sy_issued s)\<rparr>"
  have "knownOk (storeUrl f u expiresAt (sy_cache s)) (sy_known s)" "(p, f) \<in> sy_known s"
    using inv f urls_ok_cong [of "storeUrl f u expiresAt (sy_cache s)" "sy_cache s"] by (auto simp: signedInv_def knownOk_def)
  moreover have "hookOk (sy_known s) (insert (f, u) (sy_issued s)) (sy_hook s)"
    using inv by (auto simp: signedInv_def intro: hookOk_mono)
  ultimately show "signedInv t" using inv unfolding t by (auto simp: signedInv_def storeUrl_def)
next
  fix c urls
  assume inv: "signedInv s" and step: "url_step (sy_cache s) c"
    and new: "\<And>f e. uc_cache c f = Some e \<Longrightarrow> uc_cache (sy_cache s) f = Some e \<or> (f, ue_url e) \<in> urls"
    and t: "t = s\<lparr>sy_cache := c, sy_known := sy_known s \<union> set (uc_fetches c), sy_issued := sy_issued s \<union> urls\<rparr>"
  have "knownOk c (sy_known s \<union> set (uc_fetches c))"
    using url_step_known [OF step] inv by (simp add: signedInv_def)
  moreover have "hookOk (sy_known s \<union> set (uc_fetches c)) (sy_issued s \<union> urls) (sy_hook s)"
    using inv by (auto simp: signedInv_def intro: hookOk_mono)
  ultimately show "signedInv t" using inv new unfolding t by (fastforce simp: signedInv_def)
qed

interpretation signed_urls: machine signed_step "\<lambda>s. s = signed_start" signedInv
proof
  show "signedInv s" if "s = signed_start" for s
    using that by (simp add: signed_start_def signedInv_def knownOk_def hookOk_def new_signed_hook_def urls_ok_initial)
      (simp add: initial_urls_def)
qed (rule signed_step_inv)

section \<open>Images\<close>

text \<open>
  An image on the web that is given another file before the URL of the first has arrived shows the first file's URL
  when it arrives: the new effect sets \<open>mountedRef\<close>, which the old callback reads, to true again.
\<close>

lemma image_of_other_file:
  assumes "\<not> truthy (getCachedIfFresh now c f)" "uc_pending c f = None" "renderImage now f (c, new_auth_image) = (c1, i1)"
    and "renderImage later g (c1, i1) = (c2, i2)"
  shows "UrlPromise (uc_next c) \<in> set (ai_waits i2) \<and>
    ai_fileId (imageSettled (UrlPromise (uc_next c)) (Some u) i2) = g \<and>
    ai_src (imageSettled (UrlPromise (uc_next c)) (Some u) i2) = Some u"
proof -
  have "ai_waits i1 = [UrlPromise (uc_next c)]"
    using assms(1-3) by (auto simp: renderImage_def getUrl_def new_auth_image_def Let_def)
  then have "UrlPromise (uc_next c) \<in> set (ai_waits i2)" "ai_fileId i2 = g" "ai_mounted i2"
    using assms(4) by (auto simp: renderImage_def Let_def split: if_splits prod.splits)
  then show ?thesis by (simp add: imageSettled_def)
qed

text \<open>On mobile, too, a retry that is answered after the change shows the URL of the file before.\<close>

lemma retry_of_other_file:
  assumes "mi_retryCount i = 0" "mi_mounted i" "mobileImageError now (c, i) = (c1, i1)"
    and "renderMobileImage later g (c1, i1) = (c2, i2)"
  shows "\<exists>a \<in> set (mi_waits i2). sh_fileId (mi_hook (retrySettled a (Some u) i2)) = g \<and>
    mobileSrc (retrySettled a (Some u) i2) = Some u"
proof -
  have "mi_waits i1 \<noteq> []" "mi_mounted i1"
    using assms(1-3) by (auto simp: mobileImageError_def Let_def split: prod.splits)
  then obtain a where a: "a \<in> set (mi_waits i1)" "mi_mounted i1" by (cases "mi_waits i1") auto
  with assms(4) have "a \<in> set (mi_waits i2)" "mi_mounted i2" "sh_fileId (mi_hook i2) = g"
    by (auto simp: renderMobileImage_def renderSigned_def cancelWaits_def Let_def split: prod.splits if_splits)
  then show ?thesis by (intro bexI [of _ a]) (simp_all add: retrySettled_def mobileSrc_def)
qed

text \<open>An image that fails is asked for once more, not for ever.\<close>

lemma one_retry:
  "ai_retryCount i \<ge> 1 \<Longrightarrow> imageError now (c, i) = (c, i)"
  "imageError now (c, i) = (c1, i1) \<Longrightarrow> ai_retryCount i1 \<ge> 1"
  "mi_retryCount m \<ge> 1 \<Longrightarrow> mobileImageError now (c, m) = (c, m)"
  "mobileImageError now (c, m) = (c1, m1) \<Longrightarrow> mi_retryCount m1 \<ge> 1"
  by (auto simp: imageError_def mobileImageError_def Let_def split: if_splits prod.splits)

section \<open>Properties\<close>



end
