(* ===== verification/MobileScreens.thy ===== *)
theory MobileScreens
  imports ApiClient ChannelView Rendering MobileApp
begin

text \<open>
  Screens of the mobile application (\<open>apps/mobile/src/screens/\<close>): the address of the server and the connection,
  signing in, the workspaces, the list of channels with its action sheets, the details of a channel, browsing
  and creating channels, profiles, and the navigator that keeps the screens below the visible one mounted.
\<close>

section \<open>The address of the server\<close>

text \<open>\<open>replace(/\/+$/, '')\<close>\<close>

definition stripSlashes :: "jsstring \<Rightarrow> jsstring" where
  "stripSlashes s = rev (dropWhile (\<lambda>c. c = ch CHR ''/'') (rev s))"

text \<open>\<open>/^http:\/\//i\<close>\<close>

definition isPlainHttp :: "jsstring \<Rightarrow> bool" where
  "isPlainHttp url = startsWith (map asciiLower url) (js ''http://'')"

text \<open>\<open>url.match(/^https?:\/\/([^/:]+)/i)?.[1]\<close>\<close>

definition hostMatch :: "jsstring \<Rightarrow> jsstring option" where
  "hostMatch url =
     (let rest = (if isPlainHttp url then drop 7 url else drop 8 url);
          host = takeWhile (\<lambda>c. c \<noteq> ch CHR ''/'' \<and> c \<noteq> ch CHR '':'') rest
      in if openSafeURL url \<and> host \<noteq> [] then Some host else None)"

record server_screen =
  ss_url :: jsstring
  ss_loading :: bool
  ss_error :: "jsstring option"
  ss_left :: bool

definition new_server_screen :: server_screen where
  "new_server_screen = \<lparr>ss_url = [], ss_loading = False, ss_error = None, ss_left = False\<rparr>"

text \<open>The effect of the first render, with what is stored: the field is filled, and the log-in screen opened.\<close>

definition savedUrlLoaded :: "jsstring option \<Rightarrow> server_screen \<Rightarrow> server_screen" where
  "savedUrlLoaded saved s = (if truthy saved then s\<lparr>ss_url := the saved, ss_left := True\<rparr> else s)"

definition withScheme :: "jsstring \<Rightarrow> jsstring" where
  "withScheme trimmed = (if openSafeURL trimmed then trimmed else js ''https://'' @ trimmed)"

definition allowedServer :: "bool \<Rightarrow> jsstring \<Rightarrow> bool" where
  "allowedServer dev url =
     (\<not> isPlainHttp url \<or> dev \<or> hostMatch url = Some (js ''localhost'') \<or> hostMatch url = Some (js ''127.0.0.1''))"

text \<open>\<open>handleConnect\<close> up to its first \<open>await\<close>: the API base it tries, if any.\<close>

definition handleConnect :: "bool \<Rightarrow> server_screen \<Rightarrow> server_screen \<times> jsstring option" where
  "handleConnect dev s =
     (let trimmed = stripSlashes (trim (ss_url s)); url = withScheme trimmed;
          s1 = (if openSafeURL trimmed then s else s\<lparr>ss_url := url\<rparr>)
      in if trimmed = [] then (s\<lparr>ss_error := Some (js ''Please enter a server URL'')\<rparr>, None)
         else if \<not> allowedServer dev url
         then (s1\<lparr>ss_error := Some (js ''HTTPS is required for non-local servers'')\<rparr>, None)
         else (s1\<lparr>ss_loading := True, ss_error := None\<rparr>, Some (url @ js ''/api'')))"

text \<open>The whole of it over the API client; the server answers or not, and the store keeps the URL or not.\<close>

definition connectServer ::
    "bool \<Rightarrow> bool \<Rightarrow> bool \<Rightarrow> server_screen \<times> mobile_storage api_client \<Rightarrow> server_screen \<times> mobile_storage api_client" where
  "connectServer dev answers saves st =
     (let (s, c) = st
      in case handleConnect dev s of
           (s1, None) \<Rightarrow> (s1, c)
         | (s1, Some apiUrl) \<Rightarrow>
             (let previousBase = ac_apiBase c; c1 = setApiBase apiUrl c
              in if answers \<and> saves then (s1\<lparr>ss_loading := False, ss_left := True\<rparr>, saveServerUrl apiUrl c1)
                 else (s1\<lparr>ss_loading := False,
                         ss_error := Some (js ''Could not connect to server. Check the URL and try again.'')\<rparr>,
                       setApiBase previousBase c1)))"

section \<open>Signing in\<close>

text \<open>\<open>getErrorMessage\<close>: the message of an \<open>ApiError\<close> only.\<close>

definition mobileErrorMessage :: "jsstring option \<Rightarrow> jsstring" where
  "mobileErrorMessage apiError = (case apiError of Some m \<Rightarrow> m | None \<Rightarrow> js ''An unexpected error occurred'')"

text \<open>What a form sends, or the error it shows.\<close>

definition mobileLogin :: "jsstring \<Rightarrow> jsstring \<Rightarrow> jsstring + (jsstring \<times> jsstring)" where
  "mobileLogin email password =
     (if trim email = [] \<or> password = [] then Inl (js ''Email and password are required'')
      else Inr (trim email, password))"

definition mobileRegister :: "jsstring \<Rightarrow> jsstring \<Rightarrow> jsstring \<Rightarrow> jsstring + (jsstring \<times> jsstring \<times> jsstring)" where
  "mobileRegister email password displayName =
     (if trim email = [] \<or> password = [] \<or> trim displayName = [] then Inl (js ''All fields are required'')
      else Inr (trim email, password, trim displayName))"

record forgot_screen =
  fg_email :: jsstring
  fg_loading :: bool
  fg_error :: "jsstring option"
  fg_sent :: bool

definition forgotSubmit :: "forgot_screen \<Rightarrow> forgot_screen \<times> jsstring option" where
  "forgotSubmit s =
     (if trim (fg_email s) = [] then (s\<lparr>fg_error := Some (js ''Please enter your email'')\<rparr>, None)
      else (s\<lparr>fg_loading := True, fg_error := None\<rparr>, Some (trim (fg_email s))))"

definition forgotAnswered :: "mutation_answer \<Rightarrow> forgot_screen \<Rightarrow> forgot_screen" where
  "forgotAnswered answer s =
     (case answer of None \<Rightarrow> s\<lparr>fg_sent := True, fg_loading := False\<rparr>
      | Some err \<Rightarrow> s\<lparr>fg_error := Some (mobileErrorMessage err), fg_loading := False\<rparr>)"

text \<open>The root: a loader, the screens of the app, or those of authentication.\<close>

datatype mobile_root = RootLoader | MainRoot | AuthRoot

definition rootNavigator :: "auth_view \<Rightarrow> mobile_root" where
  "rootNavigator a = (if av_isLoading a then RootLoader else if av_isAuthenticated a then MainRoot else AuthRoot)"

section \<open>Workspaces\<close>

text \<open>
  Signing out waits for the push token to be unregistered, at most three seconds; \<open>settles\<close> is when the request
  settles, if ever. The result is the moment \<open>logout\<close> is called.
\<close>

definition signOutAfter :: "int option \<Rightarrow> int" where
  "signOutAfter settles = (case settles of None \<Rightarrow> 3000 | Some t \<Rightarrow> min t 3000)"

section \<open>The list of channels\<close>

text \<open>The icons, a speech balloon, a lock and the number sign.\<close>

definition channelIcon :: "channel_with_membership \<Rightarrow> jsstring" where
  "channelIcon c =
     (if isDM c then [0xD83D, 0xDCAC] else if ch_type c = PrivateChannel then [0xD83D, 0xDD12] else js ''#'')"

record mobile_groups =
  mg_starred :: "channel_with_membership list"
  mg_regular :: "channel_with_membership list"
  mg_dms :: "channel_with_membership list"

definition addToMobileSections :: "channel_with_membership \<Rightarrow> mobile_groups \<Rightarrow> mobile_groups" where
  "addToMobileSections c g =
     (if truthy (ch_archived_at c) then g
      else if ch_is_starred c then g\<lparr>mg_starred := mg_starred g @ [c]\<rparr>
      else if isDM c then g\<lparr>mg_dms := mg_dms g @ [c]\<rparr>
      else g\<lparr>mg_regular := mg_regular g @ [c]\<rparr>)"

definition mobileSections :: "channel_with_membership list option \<Rightarrow> (jsstring \<times> channel_with_membership list) list" where
  "mobileSections chans =
     (case chans of None \<Rightarrow> []
      | Some cs \<Rightarrow>
          let g = fold addToMobileSections cs \<lparr>mg_starred = [], mg_regular = [], mg_dms = []\<rparr>
          in filter (\<lambda>(_, cs). length cs > 0)
               [(js ''Starred'', mg_starred g), (js ''Channels'', mg_regular g), (js ''Direct Messages'', mg_dms g)])"

definition mobileDmName :: "channel_with_membership \<Rightarrow> jsstring option" where
  "mobileDmName c =
     (if isDM c \<and> or_empty (ch_dm_participants c) \<noteq> []
      then Some (join (js '', '') (map cm_display_name (or_empty (ch_dm_participants c)))) else None)"

definition unreadBadge :: "int \<Rightarrow> jsstring option" where
  "unreadBadge n = (if n = 0 then None else Some (if n > 99 then js ''99+'' else js_nat (nat n)))"

record channel_row =
  cw_name :: jsstring
  cw_participant :: "jsstring option"
  cw_icon :: "jsstring option"
  cw_bold :: bool
  cw_badge :: "jsstring option"
  cw_opens :: "jsstring \<times> jsstring"

definition channelRow :: "channel_with_membership \<Rightarrow> channel_row" where
  "channelRow c =
     (let name = (case mobileDmName c of Some n \<Rightarrow> n | None \<Rightarrow> ch_name c);
          participant = (if ch_type c = DmChannel \<and> length (or_empty (ch_dm_participants c)) = 1
            then Some (cm_user_id (hd (or_empty (ch_dm_participants c)))) else None)
      in \<lparr>cw_name = name, cw_participant = participant,
          cw_icon = (if participant = None then Some (channelIcon c) else None),
          cw_bold = (ch_unread_count c > 0),
          cw_badge = (if ch_unread_count c > 0 then unreadBadge (ch_unread_count c) else None),
          cw_opens = (ch_id c, name)\<rparr>)"

text \<open>The mounted list of channels keeps its workspace the active one.\<close>

definition channelListMounted :: "jsstring \<Rightarrow> jsstring option \<Rightarrow> jsstring option" where
  "channelListMounted workspaceId active = Some workspaceId"

definition channelListUnmounted :: "jsstring option \<Rightarrow> jsstring option" where
  "channelListUnmounted active = None"

section \<open>The actions of a channel\<close>

datatype channel_sheet_action = StarSheet | MuteSheet | MarkReadSheet | LeaveSheet

datatype channel_sheet_request =
    StarReq jsstring
  | UnstarReq jsstring
  | NotifyReq notify_level bool
  | ReadReq jsstring
  | LeaveReq jsstring

definition channelActions ::
    "notification_preferences option \<Rightarrow> channel_with_membership \<Rightarrow> (jsstring \<times> channel_sheet_action) list" where
  "channelActions preferences c =
     [(if ch_is_starred c then js ''Unstar'' else js ''Star'', StarSheet),
      (if isMuted preferences then js ''Unmute'' else js ''Mute'', MuteSheet)] @
     (if ch_unread_count c > 0 then [(js ''Mark as read'', MarkReadSheet)] else []) @
     (if \<not> ch_is_default c \<and> \<not> isDM c then [(js ''Leave channel'', LeaveSheet)] else [])"

text \<open>The request of an action; leaving is confirmed first.\<close>

definition channelSheetRequest ::
    "notification_preferences option \<Rightarrow> channel_with_membership \<Rightarrow> channel_sheet_action \<Rightarrow> channel_sheet_request" where
  "channelSheetRequest preferences c a =
     (case a of
        StarSheet \<Rightarrow> if ch_is_starred c then UnstarReq (ch_id c) else StarReq (ch_id c)
      | MuteSheet \<Rightarrow> NotifyReq (if isMuted preferences then NotifyAll else NotifyNone)
          (case preferences of Some p \<Rightarrow> np_email_enabled p | None \<Rightarrow> True)
      | MarkReadSheet \<Rightarrow> ReadReq (ch_id c)
      | LeaveSheet \<Rightarrow> LeaveReq (ch_id c))"

section \<open>The details of a channel\<close>

definition mobileCanAddMembers :: "workspace_summary list option \<Rightarrow> jsstring \<Rightarrow> channel_with_membership option \<Rightarrow> bool" where
  "mobileCanAddMembers wss workspaceId c =
     (let role = map_option ws_role (find (\<lambda>w. ws_id w = workspaceId) (or_empty wss))
      in role = Some Admin \<or> role = Some Owner \<or> (case c of Some d \<Rightarrow> ch_channel_role d \<noteq> None | None \<Rightarrow> False))"

definition mobileNonMembers :: "bool \<Rightarrow> workspace_member list option \<Rightarrow> channel_member list option \<Rightarrow> workspace_member list" where
  "mobileNonMembers mayAdd workspaceMembers members =
     (case (workspaceMembers, members) of
        (Some wms, Some ms) \<Rightarrow> if mayAdd then filter (\<lambda>m. mem_user_id m \<notin> cm_user_id ` set ms) wms else []
      | _ \<Rightarrow> [])"

datatype details_item = MemberItem channel_member | AddHeader | NonMemberItem workspace_member

definition detailsItems :: "channel_member list \<Rightarrow> bool \<Rightarrow> workspace_member list \<Rightarrow> details_item list" where
  "detailsItems members dm others =
     map MemberItem members @
     (if \<not> dm \<and> length others > 0 then AddHeader # map NonMemberItem others else [])"

text \<open>
  The screen calls \<open>useMemo\<close> and \<open>useCallback\<close> for its list after it has returned while the channel is not known.
  React counts the hooks of a component and raises an error when a render calls more than the one before.
\<close>

definition detailsHooks :: "channel_with_membership option \<Rightarrow> nat" where
  "detailsHooks c = (let before = 8 in if c = None then before else before + 2)"

datatype react_render = RenderError | Rendered nat

definition reactRender :: "nat option \<Rightarrow> nat \<Rightarrow> react_render" where
  "reactRender previous hooks =
     (case previous of None \<Rightarrow> Rendered hooks
      | Some n \<Rightarrow> if n = hooks then Rendered hooks else RenderError)"

section \<open>Browsing and creating channels\<close>

definition browsableChannels :: "channel_with_membership list option \<Rightarrow> channel_with_membership list" where
  "browsableChannels chans =
     filter (\<lambda>c. ch_type c = PublicChannel \<and> ch_channel_role c = None \<and> \<not> truthy (ch_archived_at c)) (or_empty chans)"

definition filteredChannels ::
    "(jsstring \<Rightarrow> jsstring) \<Rightarrow> jsstring \<Rightarrow> channel_with_membership list \<Rightarrow> channel_with_membership list" where
  "filteredChannels lower query unjoined =
     (if trim query = [] then unjoined else filter (\<lambda>c. strIncludes (lower (ch_name c)) (lower query)) unjoined)"

definition browseEmptyText :: "channel_with_membership list \<Rightarrow> jsstring" where
  "browseEmptyText unjoined =
     (if length unjoined = 0 then js ''You've joined all available channels'' else js ''No channels match your filter'')"

text \<open>\<open>text.toLowerCase().replace(/\s/g, '-')\<close>\<close>

definition mobileNameChange :: "(jsstring \<Rightarrow> jsstring) \<Rightarrow> jsstring \<Rightarrow> jsstring" where
  "mobileNameChange lower text = map (\<lambda>c. if is_ws c then ch CHR ''-'' else c) (lower text)"

definition mobileCreateSubmit ::
    "jsstring \<Rightarrow> channel_type \<Rightarrow> jsstring \<Rightarrow> jsstring + (jsstring \<times> channel_type \<times> jsstring option)" where
  "mobileCreateSubmit name type description =
     (if \<not> isValidName name then Inl (js ''Channel name must be lowercase letters, numbers, and hyphens only'')
      else Inr (name, type, if description \<noteq> [] then Some description else None))"

section \<open>Profiles\<close>

text \<open>Where the answer to the request for a conversation leads: the channel and its name.\<close>

definition profileMessage :: "workspace_member option \<Rightarrow> jsstring option \<Rightarrow> (jsstring \<times> jsstring) option" where
  "profileMessage member channel =
     map_option (\<lambda>c. (c, case member of Some m \<Rightarrow> mem_display_name m | None \<Rightarrow> js ''DM'')) channel"

definition showsSendMessage :: "jsstring option \<Rightarrow> jsstring \<Rightarrow> bool" where
  "showsSendMessage currentUser userId = (currentUser \<noteq> Some userId)"

section \<open>The screens that are mounted\<close>

text \<open>
  The stack of the navigator; every screen in it is mounted. A channel marks its latest message as read when it
  changes: \<open>mc_seen\<close> is the message of the effect's last run.
\<close>

record mounted_channel =
  mt_channelId :: jsstring
  mt_seen :: "jsstring option"

datatype stack_screen = ChannelOnStack mounted_channel | OtherOnStack

definition latestMessageId :: "message_list_result list option \<Rightarrow> jsstring option" where
  "latestMessageId pgs =
     (case pgs of Some (p # _) \<Rightarrow> (case messages p of m # _ \<Rightarrow> Some (msg_id m) | [] \<Rightarrow> None) | _ \<Rightarrow> None)"

text \<open>The effect: the screen after it, and the request it makes.\<close>

definition markReadEffect :: "jsstring option \<Rightarrow> mounted_channel \<Rightarrow> mounted_channel \<times> (jsstring \<times> jsstring) option" where
  "markReadEffect latest s =
     (if latest = mt_seen s then (s, None)
      else (s\<lparr>mt_seen := latest\<rparr>, if truthy latest then Some (mt_channelId s, the latest) else None))"

definition stackMarks :: "(jsstring \<Rightarrow> jsstring option) \<Rightarrow> stack_screen list \<Rightarrow> (jsstring \<times> jsstring) list" where
  "stackMarks latest stack =
     List.map_filter (\<lambda>s. case s of ChannelOnStack c \<Rightarrow> snd (markReadEffect (latest (mt_channelId c)) c) | OtherOnStack \<Rightarrow> None) stack"

section \<open>Facts\<close>

subsection \<open>The address\<close>

lemma startsWith_more: "startsWith s p \<Longrightarrow> startsWith (s @ t) p"
  by (auto simp: startsWith_iff)

lemma startsWith_length: "startsWith s p \<Longrightarrow> length p \<le> length s"
  by (auto simp: startsWith_iff)

lemma startsWith_prefix: "length p \<le> length s \<Longrightarrow> startsWith (s @ t) p = startsWith s p"
  by (simp add: startsWith_def)

lemma safe_length: "openSafeURL url \<Longrightarrow> 7 \<le> length url"
  by (auto simp: openSafeURL_def dest: startsWith_length)

lemma plain_append: "openSafeURL url \<Longrightarrow> isPlainHttp (url @ t) = isPlainHttp url"
  using safe_length [of url] by (simp add: isPlainHttp_def startsWith_prefix)

lemma https_length: "openSafeURL url \<Longrightarrow> \<not> isPlainHttp url \<Longrightarrow> 8 \<le> length url"
  by (auto simp: openSafeURL_def isPlainHttp_def dest: startsWith_length)

text \<open>The path that is added does not change the host of the check.\<close>

lemma hostMatch_append:
  assumes "openSafeURL url"
  shows "hostMatch (url @ ch CHR ''/'' # t) = hostMatch url"
proof -
  have "takeWhile (\<lambda>c. c \<noteq> ch CHR ''/'' \<and> c \<noteq> ch CHR '':'') (rest @ ch CHR ''/'' # t) =
      takeWhile (\<lambda>c. c \<noteq> ch CHR ''/'' \<and> c \<noteq> ch CHR '':'') rest" for rest
    by (induction rest) auto
  moreover have "openSafeURL (url @ ch CHR ''/'' # t)"
    using assms by (auto simp: openSafeURL_def intro: startsWith_more)
  ultimately show ?thesis
    using assms safe_length [OF assms] https_length [OF assms] by (auto simp: hostMatch_def plain_append Let_def)
qed

lemma withScheme_web: "openSafeURL (withScheme u)"
  by (simp add: withScheme_def openSafeURL_def startsWith_def asciiLower_def js_eval)

text \<open>What is stored holds the API path, and the field shows it: connecting again asks for the path twice.\<close>

lemma reconnect_appends_api:
  assumes "openSafeURL saved" "trim saved = saved" "stripSlashes saved = saved" "allowedServer dev saved" "saved \<noteq> []"
  shows "snd (handleConnect dev (savedUrlLoaded (Some saved) new_server_screen)) = Some (saved @ js ''/api'')"
  using assms by (simp add: handleConnect_def savedUrlLoaded_def withScheme_def new_server_screen_def Let_def)

text \<open>The host of the check is not the host of the URL when this names a user.\<close>

lemma user_named_localhost:
  "snd (handleConnect False (new_server_screen\<lparr>ss_url := js ''http://localhost:x@example.com''\<rparr>)) =
     Some (js ''http://localhost:x@example.com/api'')"
  by (simp add: handleConnect_def new_server_screen_def withScheme_def allowedServer_def hostMatch_def isPlainHttp_def
      openSafeURL_def trim_def stripSlashes_def is_ws_def startsWith_def asciiLower_def js_eval Let_def)

subsection \<open>The list of channels\<close>

lemma fold_sections:
  "mset (mg_starred (fold addToMobileSections cs g)) + mset (mg_regular (fold addToMobileSections cs g)) +
     mset (mg_dms (fold addToMobileSections cs g)) =
   mset (mg_starred g) + mset (mg_regular g) + mset (mg_dms g) + mset (filter (\<lambda>c. \<not> truthy (ch_archived_at c)) cs)"
  by (induction cs arbitrary: g) (simp_all add: addToMobileSections_def)

lemma sections_mset:
  "mset (concat (map snd (filter (\<lambda>(_, cs). cs \<noteq> []) xs))) = mset (concat (map snd xs))"
  by (induction xs) auto

text \<open>Unlike the sidebar of the web, the list shows the public channels the user has not joined.\<close>

lemma unjoined_listed:
  assumes "ch_type c = PublicChannel" "ch_channel_role c = None" "\<not> truthy (ch_archived_at c)" "\<not> ch_is_starred c"
  shows "mobileSections (Some [c]) = [(js ''Channels'', [c])]" "\<not> listedChannel c"
  using assms by (simp_all add: mobileSections_def addToMobileSections_def isDM_def listedChannel_def)

text \<open>Muting before the preferences have arrived turns the e-mails on.\<close>

lemma mute_before_loaded: "channelSheetRequest None c MuteSheet = NotifyReq NotifyNone True"
  by (simp add: channelSheetRequest_def isMuted_def)

text \<open>A muted channel becomes one that notifies of everything, whatever it was before.\<close>

lemma unmute_notifies_all:
  "isMuted (Some p) \<Longrightarrow> channelSheetRequest (Some p) c MuteSheet = NotifyReq NotifyAll (np_email_enabled p)"
  by (simp add: channelSheetRequest_def)

subsection \<open>Details\<close>

lemma details_members_once:
  "set (detailsItems members dm others) \<subseteq> MemberItem ` set members \<union> {AddHeader} \<union> NonMemberItem ` set others"
  by (auto simp: detailsItems_def)

lemma nonMembers_not_members: "m \<in> set (mobileNonMembers mayAdd wms (Some ms)) \<Longrightarrow> mem_user_id m \<notin> cm_user_id ` set ms"
  by (auto simp: mobileNonMembers_def split: option.splits if_splits)

text \<open>The screen fails when the channels arrive after it was opened.\<close>

lemma details_fails: "reactRender (Some (detailsHooks None)) (detailsHooks (Some c)) = RenderError"
  by (simp add: reactRender_def detailsHooks_def)

subsection \<open>Names\<close>

lemma mobileNameChange_length: "length (mobileNameChange lower text) = length (lower text)"
  by (simp add: mobileNameChange_def)

lemma mobile_create_valid: "mobileCreateSubmit name type description = Inr r \<Longrightarrow> CHANNEL_NAME_REGEX name \<and> fst r = name"
  by (auto simp: mobileCreateSubmit_def isValidName_def split: if_splits)

subsection \<open>Mounted screens\<close>

text \<open>A channel below another screen marks what arrives as read, although it is not visible.\<close>

lemma hidden_channel_reads:
  assumes "latest (mt_channelId c) = Some i" "i \<noteq> []" "mt_seen c \<noteq> Some i"
  shows "(mt_channelId c, i) \<in> set (stackMarks latest [ChannelOnStack c, OtherOnStack])"
  using assms by (simp add: stackMarks_def map_filter_simps markReadEffect_def)

lemma markRead_once: "markReadEffect latest (fst (markReadEffect latest s)) = (fst (markReadEffect latest s), None)"
  by (simp add: markReadEffect_def)

section \<open>Properties\<close>

text \<open>C40: in production the application connects to an HTTPS server, or to one whose address starts with the name of
  the local host; a connection that fails leaves the API base and the stored address as they were, one that succeeds
  stores the address it uses.\<close>

theorem server_connection:
  assumes "connectServer dev answers saves (s, c) = (s1, c1)"
  shows "(snd (handleConnect False s) = Some apiUrl \<longrightarrow>
      startsWith (map asciiLower apiUrl) (js ''https://'') \<or>
      startsWith (map asciiLower apiUrl) (js ''http://'') \<and>
        (hostMatch apiUrl = Some (js ''localhost'') \<or> hostMatch apiUrl = Some (js ''127.0.0.1''))) \<and>
    (\<not> (answers \<and> saves) \<longrightarrow> c1 = c \<and> ss_left s1 = ss_left s) \<and>
    (c1 \<noteq> c \<longrightarrow> ss_left s1 \<and> mb_secure (ac_storage c1) SERVER_URL_KEY = Some (ac_apiBase c1)) \<and>
    (ss_loading s1 \<longrightarrow> ss_loading s)"
proof (intro conjI impI)
  show "startsWith (map asciiLower apiUrl) (js ''https://'') \<or> startsWith (map asciiLower apiUrl) (js ''http://'') \<and>
        (hostMatch apiUrl = Some (js ''localhost'') \<or> hostMatch apiUrl = Some (js ''127.0.0.1''))"
    if "snd (handleConnect False s) = Some apiUrl"
  proof -
    let ?url = "withScheme (stripSlashes (trim (ss_url s)))"
    have url: "apiUrl = ?url @ ch CHR ''/'' # js ''api''" "allowedServer False ?url"
      using that by (auto simp: handleConnect_def Let_def js_eval split: if_splits)
    have "openSafeURL apiUrl" using withScheme_web [of "stripSlashes (trim (ss_url s))"]
      unfolding url(1) by (auto simp: openSafeURL_def intro: startsWith_more)
    moreover have "hostMatch apiUrl = Some (js ''localhost'') \<or> hostMatch apiUrl = Some (js ''127.0.0.1'')" if "isPlainHttp apiUrl"
      using that url(2) unfolding url(1) allowedServer_def hostMatch_append [OF withScheme_web] plain_append [OF withScheme_web]
      by simp
    ultimately show ?thesis by (auto simp: openSafeURL_def isPlainHttp_def)
  qed
  have left: "ss_left (fst (handleConnect dev s)) = ss_left s" by (simp add: handleConnect_def Let_def)
  show "c1 = c" "ss_left s1 = ss_left s" if "\<not> (answers \<and> saves)"
    using assms that left by (auto simp: connectServer_def setApiBase_def Let_def split: prod.splits option.splits)
  show "ss_left s1" "mb_secure (ac_storage c1) SERVER_URL_KEY = Some (ac_apiBase c1)" if "c1 \<noteq> c"
    using assms that by (auto simp: connectServer_def setApiBase_def saveServerUrl_def Let_def split: prod.splits option.splits if_splits)
  show "ss_loading s" if "ss_loading s1"
    using assms that by (auto simp: connectServer_def handleConnect_def Let_def split: if_splits)
qed

lemma server_connection_witness:
  "snd (connectServer False False True (new_server_screen\<lparr>ss_url := js ''chat.example.com''\<rparr>,
      new_api_client \<lparr>mb_cachedToken = None, mb_secure = (\<lambda>_. None), mb_writes = []\<rparr>)) =
    new_api_client \<lparr>mb_cachedToken = None, mb_secure = (\<lambda>_. None), mb_writes = []\<rparr>"
proof -
  let ?s = "new_server_screen\<lparr>ss_url := js ''chat.example.com''\<rparr>"
  let ?c = "new_api_client \<lparr>mb_cachedToken = None, mb_secure = (\<lambda>_. None), mb_writes = []\<rparr>"
  have "connectServer False False True (?s, ?c) =
      (fst (connectServer False False True (?s, ?c)), snd (connectServer False False True (?s, ?c)))" by simp
  from server_connection [OF this] show ?thesis by blast
qed

text \<open>The list of channels has every channel that is not archived exactly once, in sections that are not empty.\<close>

theorem channel_list_complete:
  "mset (concat (map snd (mobileSections (Some chans)))) = mset (filter (\<lambda>c. \<not> truthy (ch_archived_at c)) chans) \<and>
   (\<forall>(title, cs) \<in> set (mobileSections (Some chans)). cs \<noteq> [])"
proof -
  have "mset (concat (map snd (mobileSections (Some chans)))) = mset (filter (\<lambda>c. \<not> truthy (ch_archived_at c)) chans)"
    using fold_sections [of chans "\<lparr>mg_starred = [], mg_regular = [], mg_dms = []\<rparr>"]
    unfolding mobileSections_def option.case Let_def length_greater_0_conv sections_mset by (simp add: ac_simps)
  moreover have "\<forall>(title, cs) \<in> set (mobileSections (Some chans)). cs \<noteq> []"
    by (auto simp: mobileSections_def Let_def)
  ultimately show ?thesis by blast
qed

end
