(* ===== verification/MobileMessages.thy ===== *)
theory MobileMessages
  imports MessageItemView ListItems MobileScreens
begin

text \<open>
  Messages on mobile (\<open>apps/mobile/src/\<close>): \<open>MessageItem.tsx\<close> with its reactions, attachments and previews, the
  action sheet \<open>MessageActions.tsx\<close>, \<open>ReactionPicker.tsx\<close>, the viewer of images, the indicator of who is typing, and
  what \<open>ChannelScreen.tsx\<close> and \<open>ThreadScreen.tsx\<close> put together from them.
\<close>

section \<open>A message\<close>

record mobile_message_props =
  mp2_message :: message_with_user
  mp2_preview :: "link_preview option"
  mp2_currentUserId :: "jsstring option"
  mp2_isGrouped :: bool

record mobile_header =
  mh2_name :: "jsstring option"
  mh2_time :: jsstring
  mh2_edited :: bool

text \<open>The header is \<open>None\<close>, as is the avatar, in a group; the reactions are those of \<open>groupReactions\<close>.\<close>

record mobile_message =
  mm_header :: "mobile_header option"
  mm_content :: jsstring
  mm_images :: image_section
  mm_files :: "(jsstring \<times> jsstring \<times> bool) list"
  mm_preview :: "preview_view option"
  mm_reactions :: "(jsstring \<times> int \<times> bool) list"
  mm_replies :: "jsstring option"

datatype mobile_message_view =
    SystemLine jsstring
  | MobileHidden
  | MobileDeleted "jsstring option"
  | MobileShown mobile_message

text \<open>The grid: which image a cell opens, and the number on the last of four cells.\<close>

definition mobileGridCell :: "attachment list \<Rightarrow> nat \<Rightarrow> grid_cell" where
  "mobileGridCell images index =
     (let isOverlayCell = (length images > 4 \<and> index = 3)
      in \<lparr>gc_image = images ! index, gc_opens = (if isOverlayCell then 3 else index),
          gc_more = (if isOverlayCell then Some (int (length images) - 3) else None), gc_wide = False, gc_label = []\<rparr>)"

definition mobileImages :: "attachment list \<Rightarrow> image_section" where
  "mobileImages attachments =
     (let images = filter (\<lambda>a. isImageType (at_content_type a)) attachments;
          visibleCount = (if length images > 4 then 4 else length images)
      in if length images = 1 then SingleImage (hd images)
         else if length images > 1 then ImageGrid (map (mobileGridCell images) [0..<visibleCount]) else NoImages)"

text \<open>The files: name, size, and whether pressing downloads.\<close>

definition mobileFiles :: "(jsstring \<rightharpoonup> jsstring) \<Rightarrow> attachment list \<Rightarrow> (jsstring \<times> jsstring \<times> bool) list" where
  "mobileFiles signedUrl attachments =
     map (\<lambda>a. (at_filename a, formatFileSize toFixed1 (at_size_bytes a), truthy (signedUrl (at_id a))))
       (filter (\<lambda>a. \<not> isImageType (at_content_type a)) attachments)"

definition mobileMessagePreview :: "(jsstring \<Rightarrow> jsstring) \<Rightarrow> link_preview \<Rightarrow> preview_view" where
  "mobileMessagePreview relativeTime p =
     (if isInaccessible p then PreviewNotice (js ''Message from a private channel'')
      else if isDeletedPreview p then PreviewNotice (js ''This message was deleted'')
      else PreviewCard (case lp_message_author_name p of Some n \<Rightarrow> n | None \<Rightarrow> js ''Unknown'')
        (map_option (\<lambda>n. js ''#'' @ n) (present (lp_linked_channel_name p)))
        (map_option relativeTime (present (lp_message_created_at p))) (present (lp_message_content p)))"

text \<open>Where a press on a preview of a message leads: the channel, its name, and the message.\<close>

definition mobilePreviewPress :: "link_preview \<Rightarrow> (jsstring \<times> jsstring \<times> jsstring option) option" where
  "mobilePreviewPress p =
     (if isInaccessible p \<or> isDeletedPreview p \<or> \<not> truthy (lp_linked_channel_id p) then None
      else Some (the (lp_linked_channel_id p),
        case lp_linked_channel_name p of Some n \<Rightarrow> n | None \<Rightarrow> [], lp_linked_message_id p))"

text \<open>A press on a preview of a page.\<close>

definition mobileLinkPress :: "link_preview \<Rightarrow> jsstring option" where
  "mobileLinkPress p = (if lp_url p \<noteq> [] \<and> openSafeURL (lp_url p) then Some (lp_url p) else None)"

definition mobileMessageItem :: "message_host \<Rightarrow> mobile_message_props \<Rightarrow> mobile_message_view" where
  "mobileMessageItem h p =
     (let m = mp2_message p; attachments = or_empty (msg_attachments m)
      in if msg_type m = Some SystemMessage then SystemLine (msg_content m)
         else if isDeletedMessage m \<and> msg_reply_count m = 0 then MobileHidden
         else if isDeletedMessage m then MobileDeleted (replyCountLabel m)
         else MobileShown
           \<lparr>mm_header = (if mp2_isGrouped p then None
              else Some \<lparr>mh2_name = msg_user_display_name m, mh2_time = mh_time h (msg_created_at m),
                mh2_edited = isEdited m\<rparr>),
            mm_content = msg_content m, mm_images = mobileImages attachments,
            mm_files = mobileFiles (mh_signedUrl h) attachments,
            mm_preview = (case mp2_preview p of None \<Rightarrow> None
              | Some lp \<Rightarrow> if lp_type lp = MessagePreview then Some (mobileMessagePreview (mh_relativeTime h) lp)
                  else linkPreviewDisplay (mh_imageError h) lp),
            mm_reactions = map (\<lambda>g. (rg_emoji g, rg_count g, rg_hasOwn g))
              (groupReactionsMobile (or_empty (msg_reactions m)) (mp2_currentUserId p)),
            mm_replies = replyCountLabel m\<rparr>)"

section \<open>The screens\<close>

record message_screen =
  mn_action :: "message_with_user option"
  mn_reaction :: "message_with_user option"
  mn_viewer :: "(attachment list \<times> nat) option"
  mn_alert :: "message_with_user option"
  mn_alsoSend :: bool

definition new_message_screen :: message_screen where
  "new_message_screen = \<lparr>mn_action = None, mn_reaction = None, mn_viewer = None, mn_alert = None, mn_alsoSend = False\<rparr>"

definition handleDismissActions :: "message_screen \<Rightarrow> message_screen" where
  "handleDismissActions s = s\<lparr>mn_action := None, mn_reaction := None\<rparr>"

definition handleShowReactionPicker :: "message_with_user \<Rightarrow> message_screen \<Rightarrow> message_screen" where
  "handleShowReactionPicker m s = s\<lparr>mn_action := None, mn_reaction := Some m\<rparr>"

definition openViewer :: "attachment list \<Rightarrow> nat \<Rightarrow> message_screen \<Rightarrow> message_screen" where
  "openViewer images index s = s\<lparr>mn_viewer := Some (images, index)\<rparr>"

definition closeViewer :: "message_screen \<Rightarrow> message_screen" where
  "closeViewer s = s\<lparr>mn_viewer := None\<rparr>"

text \<open>\<open>handleEndReached\<close>: whether the next page is requested.\<close>

definition handleEndReached :: "bool \<Rightarrow> bool \<Rightarrow> bool" where
  "handleEndReached hasNextPage isFetchingNextPage = (hasNextPage \<and> \<not> isFetchingNextPage)"

text \<open>The replies, for an inverted list: its first item is at the bottom.\<close>

definition threadReplies :: "message_list_result list option \<Rightarrow> message_with_user list" where
  "threadReplies pgs = rev (concat (map messages (or_empty pgs)))"

definition replyGrouped :: "(jsstring \<Rightarrow> int option) \<Rightarrow> message_with_user list \<Rightarrow> nat \<Rightarrow> bool" where
  "replyGrouped time replies index =
     shouldGroupMessages time (replies ! index) (if index + 1 < length replies then Some (replies ! (index + 1)) else None)"

section \<open>The action sheet\<close>

definition activeMessage :: "message_screen \<Rightarrow> message_with_user option" where
  "activeMessage s = (case mn_action s of Some m \<Rightarrow> Some m | None \<Rightarrow> mn_reaction s)"

datatype sheet_action = SheetReply | SheetReaction | SheetCopy | SheetEdit | SheetDelete

text \<open>The sheet, shown for \<open>mn_action\<close>; a thread has no reply.\<close>

definition messageSheet :: "bool \<Rightarrow> jsstring option \<Rightarrow> message_screen \<Rightarrow> sheet_action list" where
  "messageSheet hasReply currentUser s =
     (case mn_action s of None \<Rightarrow> []
      | Some m \<Rightarrow> (if hasReply then [SheetReply] else []) @ [SheetReaction, SheetCopy] @
          (if msg_user_id m = currentUser then [SheetEdit, SheetDelete] else []))"

datatype sheet_effect =
  GoToThread jsstring | CopyText jsstring | StartEdit jsstring | DeleteRequest jsstring | ReactRequest jsstring jsstring

definition sheetAction :: "sheet_action \<Rightarrow> message_screen \<Rightarrow> message_screen \<times> sheet_effect list" where
  "sheetAction a s =
     (case activeMessage s of None \<Rightarrow> (s, [])
      | Some m \<Rightarrow>
          (case a of
             SheetReply \<Rightarrow> (handleDismissActions s, [GoToThread (msg_id m)])
           | SheetReaction \<Rightarrow> ((case mn_action s of None \<Rightarrow> s | Some x \<Rightarrow> handleShowReactionPicker x s), [])
           | SheetCopy \<Rightarrow> (handleDismissActions s, [CopyText (msg_content m)])
           | SheetEdit \<Rightarrow> (handleDismissActions s, [StartEdit (msg_id m)])
           | SheetDelete \<Rightarrow> (s\<lparr>mn_alert := Some m\<rparr>, [])))"

text \<open>The alert asks before the deletion; it knows the message it was opened for.\<close>

definition alertAnswered :: "bool \<Rightarrow> message_screen \<Rightarrow> message_screen \<times> sheet_effect list" where
  "alertAnswered confirmed s =
     (case mn_alert s of None \<Rightarrow> (s, [])
      | Some m \<Rightarrow>
          if confirmed then (handleDismissActions (s\<lparr>mn_alert := None\<rparr>), [DeleteRequest (msg_id m)])
          else (s\<lparr>mn_alert := None\<rparr>, []))"

section \<open>Picking a reaction\<close>

text \<open>What is offered for a search, as the emoji that is sent; without one, all categories.\<close>

definition searchedEmojis ::
    "(jsstring \<Rightarrow> jsstring) \<Rightarrow> (jsstring \<Rightarrow> jsstring \<Rightarrow> int) \<Rightarrow> emoji_category list \<Rightarrow> jsstring \<Rightarrow> jsstring list option" where
  "searchedEmojis lower compare table search =
     (if trim search = [] then None
      else Some (map (\<lambda>r. case sr_emoji r of Some e \<Rightarrow> e | None \<Rightarrow> js '':'' @ sr_shortcode r @ js '':'')
        (searchAllEmojis lower compare table (trim search) 50 [])))"

definition quickReactions :: "jsstring \<Rightarrow> jsstring list" where
  "quickReactions search = (if search = [] then take 6 COMMON_EMOJIS else [])"

definition pickerSections :: "emoji_category list \<Rightarrow> (jsstring \<times> jsstring list) list" where
  "pickerSections table = map (\<lambda>c. (ec_label c, map ee_emoji (ec_emojis c))) table"

definition reactionPicked :: "jsstring \<Rightarrow> message_screen \<Rightarrow> message_screen \<times> sheet_effect list" where
  "reactionPicked emoji s =
     (case activeMessage s of None \<Rightarrow> (s, [])
      | Some m \<Rightarrow> (handleDismissActions s, [ReactRequest (msg_id m) emoji]))"

section \<open>The viewer of images\<close>

text \<open>\<open>Math.round(offset / width)\<close>\<close>

definition roundedIndex :: "int \<Rightarrow> int \<Rightarrow> int" where
  "roundedIndex width offset = (2 * offset + width) div (2 * width)"

definition viewerScrolled :: "nat \<Rightarrow> int \<Rightarrow> int \<Rightarrow> nat \<Rightarrow> nat" where
  "viewerScrolled n width offset current =
     (let index = roundedIndex width offset in if index \<ge> 0 \<and> index < int n then nat index else current)"

text \<open>Saving an image: the permission, the download and the library answer, or throw; the result is the alert.\<close>

definition saveImage :: "bool option \<Rightarrow> bool \<Rightarrow> bool \<Rightarrow> jsstring" where
  "saveImage granted downloads saves =
     (case granted of
        None \<Rightarrow> js ''Failed to save the image.''
      | Some g \<Rightarrow> if \<not> g then js ''Please allow access to save images to your photo library.''
          else if downloads \<and> saves then js ''Image saved to your photo library.'' else js ''Failed to save the image.'')"

text \<open>A press on a file: whether it starts a download, and the state while it runs.\<close>

definition filePressed :: "jsstring option \<Rightarrow> bool \<Rightarrow> bool \<times> bool" where
  "filePressed url downloading = (if \<not> truthy url \<or> downloading then (False, downloading) else (True, True))"

section \<open>Who is typing\<close>

definition typingLabel :: "jsstring list \<Rightarrow> jsstring option" where
  "typingLabel names =
     (case names of
        [] \<Rightarrow> None
      | [a] \<Rightarrow> Some (a @ js '' is typing'')
      | [a, b] \<Rightarrow> Some (a @ js '' and '' @ b @ js '' are typing'')
      | _ \<Rightarrow> Some (js ''Several people are typing''))"

section \<open>Facts\<close>

subsection \<open>Images and files\<close>

fun sectionCells :: "image_section \<Rightarrow> (attachment \<times> nat \<times> int option) list" where
  "sectionCells NoImages = []"
| "sectionCells (SingleImage a) = [(a, 0, None)]"
| "sectionCells (ImageGrid cells) = map (\<lambda>c. (gc_image c, gc_opens c, gc_more c)) cells"

lemma cells_agree:
  "(gc_image (mobileGridCell images i), gc_opens (mobileGridCell images i), gc_more (mobileGridCell images i)) =
     (gc_image (gridCell images i), gc_opens (gridCell images i), gc_more (gridCell images i))"
  by (simp add: mobileGridCell_def gridCell_def Let_def)

lemma images_agree:
  "attachmentDisplay signedUrl (Some attachments) = Some (imgs, files) \<Longrightarrow>
     sectionCells (mobileImages attachments) = sectionCells imgs"
  using cells_agree by (auto simp: attachmentDisplay_def mobileImages_def imageGrid_def image_types_agree Let_def split: if_splits)

lemma files_agree:
  "attachmentDisplay signedUrl (Some attachments) = Some (imgs, files) \<Longrightarrow>
     mobileFiles signedUrl attachments = map (\<lambda>f. (fl_download f, fl_size f, \<not> fl_disabled f)) files"
  by (auto simp: attachmentDisplay_def mobileFiles_def fileAttachment_def image_types_agree sizes_agree Let_def split: if_splits)

lemma no_attachments:
  "attachmentDisplay signedUrl attachments = None \<Longrightarrow>
     sectionCells (mobileImages (or_empty attachments)) = [] \<and> mobileFiles signedUrl (or_empty attachments) = []"
  by (auto simp: attachmentDisplay_def mobileImages_def mobileFiles_def Let_def split: if_splits)

lemma indicator_label:
  "msg_reply_count m \<ge> 0 \<Longrightarrow> map_option ri_label (threadRepliesIndicator relativeTime m) = replyCountLabel m"
  by (simp add: threadRepliesIndicator_def replyCountLabel_def)

lemma viewer_page: "0 < width \<Longrightarrow> k < n \<Longrightarrow> viewerScrolled n width (width * int k) i = k"
proof -
  assume w: "0 < width" and k: "k < n"
  have "roundedIndex width (width * int k) = int k"
  proof -
    have "(2 * (width * int k) + width) div (2 * width) = (width + int k * (2 * width)) div (2 * width)"
      by (simp add: algebra_simps)
    also have "\<dots> = int k + width div (2 * width)" using w by (subst div_mult_self1) auto
    also have "\<dots> = int k" using w by (simp add: div_pos_pos_trivial)
    finally show ?thesis unfolding roundedIndex_def .
  qed
  with k show ?thesis by (simp add: viewerScrolled_def)
qed

lemma viewer_in_range: "i < n \<Longrightarrow> viewerScrolled n width offset i < n"
  by (auto simp: viewerScrolled_def Let_def)

subsection \<open>Messages\<close>

text \<open>An edited message in a group has no mark of the edit: it is in the header.\<close>

lemma grouped_edit_unmarked:
  "mp2_isGrouped p \<Longrightarrow> mobileMessageItem h p = MobileShown m \<Longrightarrow> mm_header m = None"
  by (auto simp: mobileMessageItem_def Let_def split: if_splits)

text \<open>The next page of a thread has newer replies, which come to the bottom of the list; it is requested at the top.\<close>

lemma next_page_at_bottom: "threadReplies (Some (pgs @ [p])) = rev (messages p) @ threadReplies (Some pgs)"
  by (simp add: threadReplies_def)

text \<open>On the web an emoji is picked as its shortcode, on mobile as itself: the same emoji has two buttons.\<close>

lemma same_emoji_two_buttons:
  assumes "resolveStandardShortcode table name = Unicode e" "name \<noteq> []" "list_all shortcode_char name"
    and "shortcodeName e = None"
  shows "emojiDisplay table customs (js '':'' @ name @ js '':'') = emojiDisplay table customs e \<and>
    js '':'' @ name @ js '':'' \<noteq> e"
  using assms shortcodeName_colons [OF assms(2,3)] by (auto simp: emojiDisplay_def)

lemma mobile_preview_needs_channel:
  "previewClick w p = Some path \<Longrightarrow> mobilePreviewPress p \<noteq> None"
  by (auto simp: previewClick_def mobilePreviewPress_def split: if_splits)

lemma mobile_link_safe: "mobileLinkPress p = Some url \<Longrightarrow> openSafeURL url \<and> url = lp_url p"
  by (auto simp: mobileLinkPress_def split: if_splits)

subsection \<open>The action sheet\<close>

text \<open>A screen with the effects there have been; \<open>shown\<close> are the messages it shows.\<close>

inductive sheet_step ::
    "message_with_user set \<Rightarrow> bool \<Rightarrow> jsstring option \<Rightarrow> message_screen \<times> sheet_effect list \<Rightarrow>
     message_screen \<times> sheet_effect list \<Rightarrow> bool" for shown hasReply currentUser where
  "m \<in> shown \<Longrightarrow> sheet_step shown hasReply currentUser (s, done_effs) (s\<lparr>mn_action := Some m\<rparr>, done_effs)"
| "m \<in> shown \<Longrightarrow> sheet_step shown hasReply currentUser (s, done_effs) (s\<lparr>mn_reaction := Some m\<rparr>, done_effs)"
| "sheet_step shown hasReply currentUser (s, done_effs) (handleDismissActions s, done_effs)"
| "a \<in> set (messageSheet hasReply currentUser s) \<Longrightarrow> sheetAction a s = (t, effs) \<Longrightarrow>
     sheet_step shown hasReply currentUser (s, done_effs) (t, effs @ done_effs)"
| "alertAnswered confirmed s = (t, effs) \<Longrightarrow> sheet_step shown hasReply currentUser (s, done_effs) (t, effs @ done_effs)"
| "reactionPicked emoji s = (t, effs) \<Longrightarrow> sheet_step shown hasReply currentUser (s, done_effs) (t, effs @ done_effs)"

inductive_cases sheet_stepE: "sheet_step shown hasReply currentUser s t"

definition ownShown :: "message_with_user set \<Rightarrow> jsstring option \<Rightarrow> jsstring \<Rightarrow> bool" where
  "ownShown shown currentUser i \<longleftrightarrow> (\<exists>m \<in> shown. msg_id m = i \<and> msg_user_id m = currentUser)"

definition sheetInv :: "message_with_user set \<Rightarrow> jsstring option \<Rightarrow> message_screen \<times> sheet_effect list \<Rightarrow> bool" where
  "sheetInv shown currentUser st \<longleftrightarrow>
     (case st of (s, done_effs) \<Rightarrow>
        set_option (mn_action s) \<subseteq> shown \<and> set_option (mn_reaction s) \<subseteq> shown \<and>
        (\<forall>m. mn_alert s = Some m \<longrightarrow> ownShown shown currentUser (msg_id m)) \<and>
        (\<forall>i. DeleteRequest i \<in> set done_effs \<or> StartEdit i \<in> set done_effs \<longrightarrow> ownShown shown currentUser i))"

lemmas sheet_defs = handleDismissActions_def handleShowReactionPicker_def activeMessage_def messageSheet_def
  sheetAction_def alertAnswered_def reactionPicked_def

interpretation sheets: machine "sheet_step shown hasReply currentUser" "\<lambda>st. st = (new_message_screen, [])"
  "sheetInv shown currentUser" for shown hasReply currentUser
proof
  show "sheetInv shown currentUser st" if "st = (new_message_screen, [])" for st
    using that by (simp add: sheetInv_def new_message_screen_def)
  show "sheetInv shown currentUser t" if "sheet_step shown hasReply currentUser s t" "sheetInv shown currentUser s" for s t
    using that by (elim sheet_stepE)
      (auto simp: sheetInv_def sheet_defs ownShown_def split: option.splits if_splits sheet_action.splits)
qed

text \<open>A message is edited and deleted on mobile only by its author, too.\<close>

lemma sheet_requests_own:
  assumes "reachable (sheet_step shown hasReply currentUser) (\<lambda>st. st = (new_message_screen, [])) (s, done_effs)"
    and "DeleteRequest i \<in> set done_effs \<or> StartEdit i \<in> set done_effs"
  shows "\<exists>m \<in> shown. msg_id m = i \<and> msg_user_id m = currentUser"
proof -
  have "sheetInv shown currentUser (s, done_effs)" by (rule sheets.always) (rule assms)
  with assms(2) show ?thesis unfolding sheetInv_def ownShown_def by blast
qed

section \<open>Properties\<close>


definition sample_host :: message_host where
  "sample_host = \<lparr>mh_time = (\<lambda>t. t), mh_relativeTime = (\<lambda>t. t), mh_signedUrl = Map.empty, mh_table = [],
     mh_customs = Map.empty, mh_imageError = False\<rparr>"


end
